(* ===== verification/Prelude.thy ===== *)
theory Prelude
  imports Main "HOL-Library.Word"
begin

text \<open>
  Shared vocabulary of the development: machine integers, the two ways a Rust function can
  fail (an \<open>Err\<close> value and a panic), the \<open>?\<close> operator, the saturating and checked
  arithmetic of the standard library, and little-endian byte strings.
  The \<open>named_theorems\<close> collections are filled by the component theories:
  \<open>rt\<close> holds the compositional round-trip rules of the wire format, \<open>rd_ok\<close> the rules
  that bound what a decoder may do, \<open>wf_simps\<close> the type invariants of the data model.
\<close>

unbundle bit_operations_syntax

named_theorems rt and rd_ok and wf_simps

section \<open>Machine integers\<close>

type_synonym u8 = "8 word"
type_synonym u16 = "16 word"
type_synonym u32 = "32 word"
type_synonym u64 = "64 word"

text \<open>\<open>i16\<close> values only travel through the protocol; they are kept as their bit pattern.\<close>

type_synonym i16 = "16 word"

definition U8_MAX :: nat where "U8_MAX = 255"
definition U16_MAX :: nat where "U16_MAX = 65535"
definition USIZE_MAX :: nat where "USIZE_MAX = 2 ^ 64 - 1"

section \<open>Failure\<close>

text \<open>
  \<open>Err e\<close> is a Rust \<open>Err\<close> value; \<open>Panic\<close> is a panic (an out-of-range index, an
  arithmetic overflow under overflow checks, an explicit \<open>panic!\<close>).
\<close>

datatype 'e fault = Err 'e | Panic

definition and_then :: "'e + 'a \<Rightarrow> ('a \<Rightarrow> 'e + 'b) \<Rightarrow> 'e + 'b" where
  "and_then m f = (case m of Inl e \<Rightarrow> Inl e | Inr a \<Rightarrow> f a)"

definition map_err :: "('e \<Rightarrow> 'f) \<Rightarrow> 'e + 'a \<Rightarrow> 'f + 'a" where
  "map_err g m = (case m of Inl e \<Rightarrow> Inl (g e) | Inr a \<Rightarrow> Inr a)"

lemma and_then_simps [simp]: "and_then (Inl e) f = Inl e" "and_then (Inr a) f = f a"
  by (simp_all add: and_then_def)

lemma map_err_simps [simp]: "map_err g (Inl e) = Inl (g e)" "map_err g (Inr a) = Inr a"
  by (simp_all add: map_err_def)

lemma and_then_eq_Inr: "and_then m f = Inr b \<longleftrightarrow> (\<exists>a. m = Inr a \<and> f a = Inr b)"
  by (cases m) auto

lemma map_err_eq_Inr [simp]: "map_err g m = Inr a \<longleftrightarrow> m = Inr a"
  by (cases m) auto

lemma map_err_eq_Inl: "map_err g m = Inl d \<longleftrightarrow> (\<exists>e. m = Inl e \<and> d = g e)"
  by (cases m) auto

section \<open>Saturating and checked arithmetic\<close>

definition sat_add :: "'a::len word \<Rightarrow> 'a word \<Rightarrow> 'a word" where
  "sat_add a b = (if unat a + unat b < 2 ^ LENGTH('a) then a + b else - 1)"

definition sat_sub :: "'a::len word \<Rightarrow> 'a word \<Rightarrow> 'a word" where
  "sat_sub a b = (if b \<le> a then a - b else 0)"

definition sat_mul :: "'a::len word \<Rightarrow> 'a word \<Rightarrow> 'a word" where
  "sat_mul a b = (if unat a * unat b < 2 ^ LENGTH('a) then a * b else - 1)"

text \<open>A plain \<open>+\<close> on an unsigned type: it panics when the sum does not fit.\<close>

definition checked_add :: "'a::len word \<Rightarrow> 'a word \<Rightarrow> 'e fault + 'a word" where
  "checked_add a b = (if unat a + unat b < 2 ^ LENGTH('a) then Inr (a + b) else Inl Panic)"

lemma unat_minus_one_word': "unat (- 1 :: 'a::len word) = 2 ^ LENGTH('a) - 1"
  by (simp add: unsigned_minus_1_eq_mask mask_eq_exp_minus_1)

lemma unat_sat_add: "unat (sat_add a b) = min (unat a + unat b) (2 ^ LENGTH('a) - 1)"
  for a b :: "'a::len word"
proof (cases "unat a + unat b < 2 ^ LENGTH('a)")
  case True
  then have "unat a + unat b \<le> 2 ^ LENGTH('a) - 1" by linarith
  with True show ?thesis
    by (simp add: sat_add_def unat_word_ariths)
next
  case False
  then show ?thesis
    by (simp add: sat_add_def unat_minus_one_word')
qed

lemma unat_sat_sub: "unat (sat_sub a b) = unat a - unat b"
  by (simp add: sat_sub_def unat_sub word_le_nat_alt)

lemma unat_sat_mul: "unat (sat_mul a b) = min (unat a * unat b) (2 ^ LENGTH('a) - 1)"
  for a b :: "'a::len word"
proof (cases "unat a * unat b < 2 ^ LENGTH('a)")
  case True
  then have "unat a * unat b \<le> 2 ^ LENGTH('a) - 1" by linarith
  with True show ?thesis
    by (simp add: sat_mul_def unat_word_ariths)
next
  case False
  then show ?thesis
    by (simp add: sat_mul_def unat_minus_one_word')
qed

lemma le_sat_add: "a \<le> sat_add a (b :: 'a::len word)"
proof -
  have "unat a < 2 ^ LENGTH('a)" by (rule unsigned_less)
  then have "unat a \<le> 2 ^ LENGTH('a) - 1" by linarith
  then show ?thesis by (simp add: word_le_nat_alt unat_sat_add)
qed

lemma sat_sub_le: "sat_sub a b \<le> a"
  by (simp add: word_le_nat_alt unat_sat_sub)

lemma checked_add_ok: "unat a + unat b < 2 ^ LENGTH('a) \<Longrightarrow> checked_add a b = Inr (a + b)"
  for a b :: "'a::len word"
  by (simp add: checked_add_def)

lemma checked_add_Inr: "checked_add a b = Inr c \<Longrightarrow> c = a + b \<and> unat c = unat a + unat b"
  by (auto simp: checked_add_def unat_word_ariths split: if_splits)

section \<open>Little-endian bytes\<close>

definition u16_to_le :: "u16 \<Rightarrow> u8 list" where
  "u16_to_le w = [ucast w, ucast (drop_bit 8 w)]"

definition u16_from_le :: "u8 \<Rightarrow> u8 \<Rightarrow> u16" where
  "u16_from_le b0 b1 = ucast b0 OR push_bit 8 (ucast b1)"

definition u32_to_le :: "u32 \<Rightarrow> u8 list" where
  "u32_to_le w = [ucast w, ucast (drop_bit 8 w), ucast (drop_bit 16 w), ucast (drop_bit 24 w)]"

definition u32_from_le :: "u8 \<Rightarrow> u8 \<Rightarrow> u8 \<Rightarrow> u8 \<Rightarrow> u32" where
  "u32_from_le b0 b1 b2 b3 =
     ucast b0 OR push_bit 8 (ucast b1) OR push_bit 16 (ucast b2) OR push_bit 24 (ucast b3)"

lemma length_to_le [simp]: "length (u16_to_le w) = 2" "length (u32_to_le v) = 4"
  by (simp_all add: u16_to_le_def u32_to_le_def)

lemma u16_le_roundtrip: "u16_from_le (ucast w) (ucast (drop_bit 8 w)) = w"
  unfolding u16_from_le_def
  by (rule bit_word_eqI) (auto simp: bit_simps)

lemma u32_high_bit: "\<not> bit (w :: u32) (24 + (n - 24)) \<Longrightarrow> bit w n \<Longrightarrow> n < 24"
  by (cases "n < 24") simp_all

lemma u32_le_roundtrip:
  "u32_from_le (ucast w) (ucast (drop_bit 8 w)) (ucast (drop_bit 16 w)) (ucast (drop_bit 24 w)) = w"
  unfolding u32_from_le_def
  by (rule bit_word_eqI) (auto simp: bit_simps not_less le_diff_conv2 dest: u32_high_bit)

lemma u16_from_le_bytes:
  "ucast (u16_from_le b0 b1) = b0" "ucast (drop_bit 8 (u16_from_le b0 b1)) = b1"
  unfolding u16_from_le_def
  by (rule bit_word_eqI; auto simp: bit_simps dest: bit_imp_le_length)+

lemma u32_from_le_bytes:
  "ucast (u32_from_le b0 b1 b2 b3) = b0" "ucast (drop_bit 8 (u32_from_le b0 b1 b2 b3)) = b1"
  "ucast (drop_bit 16 (u32_from_le b0 b1 b2 b3)) = b2"
  "ucast (drop_bit 24 (u32_from_le b0 b1 b2 b3)) = b3"
  unfolding u32_from_le_def
  by (rule bit_word_eqI; auto simp: bit_simps dest: bit_imp_le_length)+

lemmas from_to_le = u16_le_roundtrip u32_le_roundtrip

lemma to_from_le [simp]:
  "u16_to_le (u16_from_le b0 b1) = [b0, b1]"
  "u32_to_le (u32_from_le b0 b1 b2 b3) = [b0, b1, b2, b3]"
  by (simp_all add: u16_to_le_def u32_to_le_def u16_from_le_bytes u32_from_le_bytes)

lemma unat_of_nat_u16 [simp]: "n \<le> U16_MAX \<Longrightarrow> unat (word_of_nat n :: u16) = n"
  by (simp add: U16_MAX_def unat_of_nat take_bit_nat_eq_self)

lemma unat_of_nat_u8 [simp]: "n \<le> U8_MAX \<Longrightarrow> unat (word_of_nat n :: u8) = n"
  by (simp add: U8_MAX_def unat_of_nat take_bit_nat_eq_self)

lemma unat_u8_le: "unat (w :: u8) \<le> U8_MAX"
  using unsigned_less [of w, where 'a = nat] by (simp add: U8_MAX_def)

lemma unat_u16_le: "unat (w :: u16) \<le> U16_MAX"
  using unsigned_less [of w, where 'a = nat] by (simp add: U16_MAX_def)

section \<open>Further standard library arithmetic\<close>

text \<open>\<open>u16::try_from(x).unwrap_or(u16::MAX)\<close> on a \<open>u32\<close>, \<open>div_ceil\<close>.\<close>

definition clamp_u16 :: "u32 \<Rightarrow> u16" where
  "clamp_u16 x = (if unat x \<le> U16_MAX then ucast x else - 1)"

definition div_ceil :: "'a::len word \<Rightarrow> 'a word \<Rightarrow> 'a word" where
  "div_ceil a b = (if a mod b = 0 then a div b else a div b + 1)"

lemma unat_clamp_u16: "unat (clamp_u16 x) = min (unat x) U16_MAX"
proof (cases "unat x \<le> U16_MAX")
  case True
  then have "unat (ucast x :: u16) = unat x"
    by (simp add: unsigned_ucast_eq take_bit_nat_eq_self U16_MAX_def)
  with True show ?thesis by (simp add: clamp_u16_def)
qed (simp add: clamp_u16_def U16_MAX_def unat_minus_one_word')

lemma nat_div_ceil:
  "0 < b \<Longrightarrow> (a + b - 1) div b = (if a mod b = 0 then a div b else a div b + 1)" for a b :: nat
proof -
  assume b: "0 < b"
  have a: "a = b * (a div b) + a mod b" by simp
  have r: "a mod b < b" using b by simp
  show ?thesis
  proof (cases "a mod b = 0")
    case True
    then have "a + b - 1 = b * (a div b) + (b - 1)" using a b by linarith
    moreover have "(b * (a div b) + (b - 1)) div b = a div b"
      using b by (intro div_nat_eqI) (simp_all add: algebra_simps)
    ultimately show ?thesis using True by simp
  next
    case False
    then have "a + b - 1 = b * (a div b) + b + (a mod b - 1)" using a b by linarith
    then have "a + b - 1 = b * (a div b + 1) + (a mod b - 1)" by (simp only: distrib_left mult_1_right)
    moreover have "(b * (a div b + 1) + (a mod b - 1)) div b = a div b + 1"
      using b r by (intro div_nat_eqI) (simp_all add: algebra_simps)
    ultimately show ?thesis using False by simp
  qed
qed

lemma unat_div_ceil:
  fixes a b :: "'a::len word"
  assumes "b \<noteq> 0"
  shows "unat (div_ceil a b) = (unat a + unat b - 1) div unat b"
proof -
  have b: "0 < unat b" using assms by (simp add: unat_gt_0)
  have zero: "a mod b = 0 \<longleftrightarrow> unat a mod unat b = 0" by (metis unat_eq_zero unat_mod_distrib)
  have "unat (a div b + 1) = unat a div unat b + 1" if "unat a mod unat b \<noteq> 0"
  proof -
    have "1 < unat b" "0 < unat a" using that b by (cases "unat b = 1"; cases "unat a = 0"; simp)+
    then have "unat a div unat b < unat a" by simp
    then have "unat a div unat b + 1 < 2 ^ LENGTH('a)"
      using unsigned_less [of a, where 'a = nat] by linarith
    then show ?thesis by (simp add: unat_word_ariths unat_div_distrib)
  qed
  then show ?thesis
    using nat_div_ceil [OF b, of "unat a"] by (auto simp: div_ceil_def zero unat_div_distrib)
qed

end
