(* ===== verification/Rust_Text.thy ===== *)
theory Rust_Text
  imports Prelude "HOL-Library.List_Lexorder"
begin

text \<open>
  The part of Rust's \<open>str\<close> and \<open>String\<close> the program uses. A string is its list of
  Unicode scalar values; \<open>str_len\<close> is \<open>str::len\<close>, the number of bytes of the UTF-8
  encoding; \<open>utf8_encode\<close> is \<open>as_bytes\<close> and \<open>utf8_decode\<close> is
  \<open>String::from_utf8\<close>, with the byte ranges of the Unicode standard (no overlong forms,
  no surrogates, nothing above U+10FFFF). \<open>trim\<close> strips the characters with the Unicode
  property White_Space. The main facts are that decoding inverts encoding and that what
  decodes is a list of scalar values whose encoding is the input.
\<close>

section \<open>Characters and strings\<close>

type_synonym rchar = nat
type_synonym rstring = "rchar list"

definition is_scalar :: "rchar \<Rightarrow> bool" where
  "is_scalar c \<longleftrightarrow> c < 55296 \<or> (57344 \<le> c \<and> c < 1114112)"

text \<open>A string literal of the source: its characters are ASCII.\<close>

definition lit :: "string \<Rightarrow> rstring" where
  "lit s = map of_char s"

definition is_ascii_digit :: "rchar \<Rightarrow> bool" where
  "is_ascii_digit c \<longleftrightarrow> 48 \<le> c \<and> c \<le> 57"

definition is_ascii_uppercase :: "rchar \<Rightarrow> bool" where
  "is_ascii_uppercase c \<longleftrightarrow> 65 \<le> c \<and> c \<le> 90"

definition is_ascii_lowercase :: "rchar \<Rightarrow> bool" where
  "is_ascii_lowercase c \<longleftrightarrow> 97 \<le> c \<and> c \<le> 122"

definition is_ascii_alphanumeric :: "rchar \<Rightarrow> bool" where
  "is_ascii_alphanumeric c \<longleftrightarrow> is_ascii_digit c \<or> is_ascii_uppercase c \<or> is_ascii_lowercase c"

definition to_ascii_lowercase :: "rchar \<Rightarrow> rchar" where
  "to_ascii_lowercase c = (if is_ascii_uppercase c then c + 32 else c)"

definition eq_ignore_ascii_case :: "rstring \<Rightarrow> rstring \<Rightarrow> bool" where
  "eq_ignore_ascii_case s t \<longleftrightarrow> map to_ascii_lowercase s = map to_ascii_lowercase t"

definition is_whitespace :: "rchar \<Rightarrow> bool" where
  "is_whitespace c \<longleftrightarrow>
     (9 \<le> c \<and> c \<le> 13) \<or> c = 32 \<or> c = 133 \<or> c = 160 \<or> c = 5760 \<or>
     (8192 \<le> c \<and> c \<le> 8202) \<or> c = 8232 \<or> c = 8233 \<or> c = 8239 \<or> c = 8287 \<or> c = 12288"

definition trim :: "rstring \<Rightarrow> rstring" where
  "trim s = rev (dropWhile is_whitespace (rev (dropWhile is_whitespace s)))"

lemma alphanumeric_ascii: "is_ascii_alphanumeric c \<Longrightarrow> c < 128"
  by (auto simp: is_ascii_alphanumeric_def is_ascii_digit_def is_ascii_uppercase_def
      is_ascii_lowercase_def)

lemma alphanumeric_not_whitespace: "is_ascii_alphanumeric c \<Longrightarrow> \<not> is_whitespace c"
  by (auto simp: is_ascii_alphanumeric_def is_ascii_digit_def is_ascii_uppercase_def
      is_ascii_lowercase_def is_whitespace_def)

lemma set_trim: "set (trim s) \<subseteq> set s"
proof -
  have "set (dropWhile is_whitespace (rev (dropWhile is_whitespace s)))
      \<subseteq> set (rev (dropWhile is_whitespace s))"
    by (auto dest: set_dropWhileD)
  then show ?thesis
    by (auto simp: trim_def dest: set_dropWhileD)
qed

lemma trim_unchanged:
  assumes "s \<noteq> []" "\<not> is_whitespace (hd s)" "\<not> is_whitespace (last s)"
  shows "trim s = s"
proof -
  have "dropWhile is_whitespace s = s"
    using assms by (cases s) auto
  moreover have "dropWhile is_whitespace (rev s) = rev s"
    using assms by (cases s rule: rev_cases) auto
  ultimately show ?thesis by (simp add: trim_def)
qed

lemma trim_ends:
  assumes "trim s \<noteq> []"
  shows "\<not> is_whitespace (hd (trim s))" "\<not> is_whitespace (last (trim s))"
proof -
  define d where "d = dropWhile is_whitespace s"
  define r where "r = dropWhile is_whitespace (rev d)"
  have t: "trim s = rev r" by (simp add: trim_def d_def r_def)
  with assms have r: "r \<noteq> []" by simp
  then show "\<not> is_whitespace (last (trim s))"
    using hd_dropWhile [of is_whitespace "rev d"] by (simp add: t last_rev r_def)
  obtain us where "rev d = us @ r"
    unfolding r_def by (metis takeWhile_dropWhile_id)
  then have d: "d = rev r @ rev us"
    by (metis rev_append rev_rev_ident)
  with r have "hd (trim s) = hd d" "d \<noteq> []"
    by (simp_all add: t hd_append)
  then show "\<not> is_whitespace (hd (trim s))"
    using hd_dropWhile [of is_whitespace s] by (simp add: d_def)
qed

lemma trim_trim [simp]: "trim (trim s) = trim s"
proof (cases "trim s = []")
  case True
  then show ?thesis by (simp only:) (simp add: trim_def)
next
  case False
  then show ?thesis using trim_ends by (intro trim_unchanged)
qed

section \<open>UTF-8\<close>

definition utf8_char :: "rchar \<Rightarrow> u8 list" where
  "utf8_char c =
     (if c < 128 then [word_of_nat c]
      else if c < 2048 then [word_of_nat (192 + c div 64), word_of_nat (128 + c mod 64)]
      else if c < 65536 then
        [word_of_nat (224 + c div 4096), word_of_nat (128 + c div 64 mod 64),
         word_of_nat (128 + c mod 64)]
      else
        [word_of_nat (240 + c div 262144), word_of_nat (128 + c div 4096 mod 64),
         word_of_nat (128 + c div 64 mod 64), word_of_nat (128 + c mod 64)])"

definition utf8_encode :: "rstring \<Rightarrow> u8 list" where
  "utf8_encode s = concat (map utf8_char s)"

definition str_len :: "rstring \<Rightarrow> nat" where
  "str_len s = length (utf8_encode s)"

definition is_cont :: "nat \<Rightarrow> bool" where
  "is_cont b \<longleftrightarrow> 128 \<le> b \<and> b < 192"

text \<open>
  One step of \<open>run_utf8_validation\<close>: the character at the front of the bytes and the rest.
\<close>

fun utf8_next :: "nat list \<Rightarrow> (rchar \<times> nat list) option" where
  "utf8_next [] = None"
| "utf8_next (a # bs) =
     (if a < 128 then Some (a, bs)
      else if 194 \<le> a \<and> a \<le> 223 then
        (case bs of
           b # r \<Rightarrow> if is_cont b then Some ((a - 192) * 64 + (b - 128), r) else None
         | [] \<Rightarrow> None)
      else if 224 \<le> a \<and> a \<le> 239 then
        (case bs of
           b # c # r \<Rightarrow>
             if is_cont b \<and> is_cont c \<and> (a = 224 \<longrightarrow> 160 \<le> b) \<and> (a = 237 \<longrightarrow> b \<le> 159)
             then Some ((a - 224) * 4096 + (b - 128) * 64 + (c - 128), r) else None
         | _ \<Rightarrow> None)
      else if 240 \<le> a \<and> a \<le> 244 then
        (case bs of
           b # c # d # r \<Rightarrow>
             if is_cont b \<and> is_cont c \<and> is_cont d \<and> (a = 240 \<longrightarrow> 144 \<le> b) \<and> (a = 244 \<longrightarrow> b \<le> 143)
             then Some ((a - 240) * 262144 + (b - 128) * 4096 + (c - 128) * 64 + (d - 128), r)
             else None
         | _ \<Rightarrow> None)
      else None)"

lemma utf8_next_shorter: "utf8_next bs = Some (c, r) \<Longrightarrow> length r < length bs"
  by (cases bs) (auto split: if_splits list.splits)

function utf8_decode_nats :: "nat list \<Rightarrow> rstring option" where
  "utf8_decode_nats bs =
     (if bs = [] then Some []
      else case utf8_next bs of
        None \<Rightarrow> None
      | Some (c, r) \<Rightarrow> map_option ((#) c) (utf8_decode_nats r))"
  by pat_completeness auto
termination
  by (relation "measure length") (auto dest: utf8_next_shorter)

declare utf8_decode_nats.simps [simp del]

definition utf8_decode :: "u8 list \<Rightarrow> rstring option" where
  "utf8_decode bs = utf8_decode_nats (map unat bs)"

lemma utf8_decode_nats_Nil [simp]: "utf8_decode_nats [] = Some []"
  by (subst utf8_decode_nats.simps) simp

lemma utf8_decode_nats_step:
  "utf8_next bs = Some (c, r) \<Longrightarrow> utf8_decode_nats bs = map_option ((#) c) (utf8_decode_nats r)"
  by (subst utf8_decode_nats.simps) auto

lemma unat_byte: "n < 256 \<Longrightarrow> unat (word_of_nat n :: u8) = n"
  using unat_of_nat_u8 [of n] by (simp add: U8_MAX_def)

lemma base64_digits:
  fixes c :: nat
  shows "c = c div 4096 * 4096 + c div 64 mod 64 * 64 + c mod 64"
    and "c div 4096 = c div 262144 * 64 + c div 4096 mod 64"
proof -
  have d: "c div 4096 = c div 64 div 64" "c div 262144 = c div 4096 div 64"
    by (simp_all add: div_mult2_eq [symmetric])
  have "c = c div 64 * 64 + c mod 64" "c div 64 = c div 64 div 64 * 64 + c div 64 mod 64"
    by simp_all
  then show "c = c div 4096 * 4096 + c div 64 mod 64 * 64 + c mod 64"
    unfolding d by linarith
  show "c div 4096 = c div 262144 * 64 + c div 4096 mod 64"
    unfolding d by simp
qed

lemma base64_three:
  assumes "(y::nat) < 64" "z < 64"
  shows "(x * 4096 + y * 64 + z) div 4096 = x" "(x * 4096 + y * 64 + z) div 64 mod 64 = y"
    "(x * 4096 + y * 64 + z) mod 64 = z"
proof -
  have e: "x * 4096 + y * 64 + z = (x * 64 + y) * 64 + z" by simp
  have d: "((x * 64 + y) * 64 + z) div 64 = x * 64 + y" using assms(2) by simp
  show "(x * 4096 + y * 64 + z) div 64 mod 64 = y" using assms(1) unfolding e d by simp
  show "(x * 4096 + y * 64 + z) mod 64 = z"
    using assms(2) unfolding e by (simp only: mod_mult_self3 mod_less)
  have "(x * 4096 + y * 64 + z) div 4096 = (x * 4096 + y * 64 + z) div 64 div 64"
    by (simp only: div_mult2_eq [symmetric]) simp
  also have "\<dots> = x" using assms(1) unfolding e d by simp
  finally show "(x * 4096 + y * 64 + z) div 4096 = x" .
qed

lemma base64_four:
  fixes w :: nat
  assumes "(x::nat) < 64" "y < 64" "z < 64"
  defines "c \<equiv> w * 262144 + x * 4096 + y * 64 + z"
  shows "c div 262144 = w" "c div 4096 mod 64 = x" "c div 64 mod 64 = y" "c mod 64 = z"
proof -
  have e: "c = (w * 64 + x) * 4096 + y * 64 + z" by (simp add: c_def)
  note three = base64_three [OF assms(2,3), of "w * 64 + x", folded e]
  show "c div 64 mod 64 = y" "c mod 64 = z" by (fact three)+
  show "c div 4096 mod 64 = x" using assms(1) by (simp add: three)
  have "c div 262144 = c div 4096 div 64" by (simp only: div_mult2_eq [symmetric]) simp
  then show "c div 262144 = w" using assms(1) by (simp add: three)
qed

lemma utf8_next_four:
  assumes "w \<le> 4" "x < 64" "y < 64" "z < 64" "w = 0 \<longrightarrow> 16 \<le> x" "w = 4 \<longrightarrow> x < 16"
  shows "utf8_next ((240 + w) # (128 + x) # (128 + y) # (128 + z) # r) =
    Some (w * 262144 + x * 4096 + y * 64 + z, r)"
proof -
  have "is_cont (128 + x)" "is_cont (128 + y)" "is_cont (128 + z)"
    using assms by (simp_all add: is_cont_def)
  moreover have "240 + w = 240 \<longrightarrow> 144 \<le> 128 + x" "240 + w = 244 \<longrightarrow> 128 + x \<le> 143"
    using assms by linarith+
  ultimately show ?thesis using assms(1) by simp
qed

lemma utf8_next_char:
  assumes "is_scalar c"
  shows "utf8_next (map unat (utf8_char c) @ r) = Some (c, r)"
proof -
  consider "c < 128" | "128 \<le> c" "c < 2048" | "2048 \<le> c" "c < 65536" | "65536 \<le> c" "c < 1114112"
    using assms unfolding is_scalar_def by linarith
  then show ?thesis
  proof cases
    case 1
    then show ?thesis by (simp add: utf8_char_def unat_byte)
  next
    case 2
    define x where "x = c div 64"
    define y where "y = c mod 64"
    have c: "c = x * 64 + y" unfolding x_def y_def by presburger
    have "2 \<le> x" "x < 32" "y < 64" using 2 by (auto simp: x_def y_def)
    moreover have "utf8_char c = [word_of_nat (192 + x), word_of_nat (128 + y)]"
      using 2 by (simp add: utf8_char_def x_def y_def)
    ultimately show ?thesis using c by (simp add: unat_byte is_cont_def del: of_nat_add)
  next
    case 3
    define x where "x = c div 4096"
    define y where "y = c div 64 mod 64"
    define z where "z = c mod 64"
    have c: "c = x * 4096 + y * 64 + z" using base64_digits(1) [of c] by (simp add: x_def y_def z_def)
    have "y < 64" "z < 64" by (simp_all add: y_def z_def)
    moreover have "x < 16" using 3 by (auto simp: x_def)
    moreover have "x = 0 \<longrightarrow> 32 \<le> y"
      using 3(1) c calculation by (intro impI) linarith
    moreover have "x = 13 \<longrightarrow> y \<le> 31"
    proof (intro impI, rule ccontr)
      assume "x = 13" "\<not> y \<le> 31"
      then have "55296 \<le> c" "c < 57344" using c \<open>y < 64\<close> \<open>z < 64\<close> by linarith+
      with assms show False by (simp add: is_scalar_def)
    qed
    moreover have "utf8_char c = [word_of_nat (224 + x), word_of_nat (128 + y), word_of_nat (128 + z)]"
      using 3 by (simp add: utf8_char_def x_def y_def z_def)
    ultimately show ?thesis using c by (simp add: unat_byte is_cont_def del: of_nat_add)
  next
    case 4
    define w where "w = c div 262144"
    define x where "x = c div 4096 mod 64"
    define y where "y = c div 64 mod 64"
    define z where "z = c mod 64"
    have c: "c = w * 262144 + x * 4096 + y * 64 + z"
      using base64_digits [of c] unfolding w_def x_def y_def z_def by linarith
    have "x < 64" "y < 64" "z < 64" by (simp_all add: x_def y_def z_def)
    moreover have "w \<le> 4" using 4 by (auto simp: w_def)
    moreover have "w = 0 \<longrightarrow> 16 \<le> x"
      using 4(1) c calculation by (intro impI) linarith
    moreover have "w = 4 \<longrightarrow> x < 16"
      using 4(2) c calculation by (intro impI) linarith
    moreover have "utf8_char c = [word_of_nat (240 + w), word_of_nat (128 + x),
        word_of_nat (128 + y), word_of_nat (128 + z)]"
      using 4 by (simp add: utf8_char_def w_def x_def y_def z_def)
    moreover from calculation have "map unat (utf8_char c) =
        [240 + w, 128 + x, 128 + y, 128 + z]"
      by (simp add: unat_byte del: of_nat_add)
    ultimately show ?thesis
      using utf8_next_four [of w x y z r] by (simp only: append_Cons append_Nil c [symmetric])
  qed
qed

lemma utf8_decode_encode: "\<forall>c \<in> set s. is_scalar c \<Longrightarrow> utf8_decode (utf8_encode s) = Some s"
proof (induction s)
  case Nil
  then show ?case by (simp add: utf8_decode_def utf8_encode_def)
next
  case (Cons c s)
  then have "utf8_next (map unat (utf8_encode (c # s))) = Some (c, map unat (utf8_encode s))"
    using utf8_next_char [of c] by (simp add: utf8_encode_def)
  with Cons show ?case by (simp add: utf8_decode_def utf8_decode_nats_step)
qed

text \<open>What decodes is made of scalar values, and its encoding is the input.\<close>

lemma utf8_next_sound:
  assumes "utf8_next bs = Some (c, r)" "\<forall>b \<in> set bs. b < 256"
  shows "is_scalar c \<and> bs = map unat (utf8_char c) @ r"
proof -
  obtain a as where bs: "bs = a # as" using assms(1) by (cases bs) auto
  consider "a < 128" | "194 \<le> a" "a \<le> 223" | "224 \<le> a" "a \<le> 239" | "240 \<le> a" "a \<le> 244"
    using assms(1) bs by (auto split: if_splits)
  then show ?thesis
  proof cases
    case 1
    with assms(1) bs show ?thesis by (auto simp: is_scalar_def utf8_char_def unat_byte)
  next
    case 2
    with assms(1) bs obtain b where b: "as = b # r" "is_cont b" and c: "c = (a - 192) * 64 + (b - 128)"
      by (auto split: list.splits if_splits)
    define x where "x = a - 192"
    define y where "y = b - 128"
    have xy: "a = 192 + x" "b = 128 + y" "y < 64" "2 \<le> x" "x < 32"
      using 2 b(2) by (auto simp: x_def y_def is_cont_def)
    have c': "c = x * 64 + y" using c by (simp add: x_def y_def)
    have "c div 64 = x" "c mod 64 = y" "128 \<le> c" "c < 2048" using c' xy by auto
    then show ?thesis
      using bs b(1) xy by (simp add: utf8_char_def unat_byte is_scalar_def del: of_nat_add)
  next
    case 3
    with assms(1) bs obtain b d where b: "as = b # d # r" "is_cont b" "is_cont d"
        "a = 224 \<longrightarrow> 160 \<le> b" "a = 237 \<longrightarrow> b \<le> 159"
        and c: "c = (a - 224) * 4096 + (b - 128) * 64 + (d - 128)"
      by (auto split: list.splits if_splits)
    define x where "x = a - 224"
    define y where "y = b - 128"
    define z where "z = d - 128"
    have xyz: "a = 224 + x" "b = 128 + y" "d = 128 + z" "x < 16" "y < 64" "z < 64"
      "x = 0 \<longrightarrow> 32 \<le> y" "x = 13 \<longrightarrow> y \<le> 31"
      using 3 b(2-5) by (auto simp: x_def y_def z_def is_cont_def)
    have c': "c = x * 4096 + y * 64 + z" using c by (simp add: x_def y_def z_def)
    have dig: "c div 4096 = x" "c div 64 mod 64 = y" "c mod 64 = z"
      using base64_three [of y z x] xyz c' by simp_all
    have "2048 \<le> c" "c < 65536" using c' xyz by (cases "x = 0"; linarith)+
    moreover have "is_scalar c"
      using c' xyz by (cases "x \<le> 12"; cases "x = 13") (auto simp: is_scalar_def)
    ultimately show ?thesis
      using bs b(1) xyz dig by (simp add: utf8_char_def unat_byte del: of_nat_add)
  next
    case 4
    with assms(1) bs obtain b d e where b: "as = b # d # e # r" "is_cont b" "is_cont d" "is_cont e"
        "a = 240 \<longrightarrow> 144 \<le> b" "a = 244 \<longrightarrow> b \<le> 143"
        and c: "c = (a - 240) * 262144 + (b - 128) * 4096 + (d - 128) * 64 + (e - 128)"
      by (auto split: list.splits if_splits)
    define w where "w = a - 240"
    define x where "x = b - 128"
    define y where "y = d - 128"
    define z where "z = e - 128"
    have wxyz: "a = 240 + w" "b = 128 + x" "d = 128 + y" "e = 128 + z" "w \<le> 4" "x < 64" "y < 64"
      "z < 64" "w = 0 \<longrightarrow> 16 \<le> x" "w = 4 \<longrightarrow> x \<le> 15"
      using 4 b(2-6) by (auto simp: w_def x_def y_def z_def is_cont_def)
    have c': "c = w * 262144 + x * 4096 + y * 64 + z" using c by (simp add: w_def x_def y_def z_def)
    have dig: "c div 262144 = w" "c div 4096 mod 64 = x" "c div 64 mod 64 = y" "c mod 64 = z"
      unfolding c' by (fact base64_four [OF wxyz(6-8)])+
    have "65536 \<le> c"
    proof (cases "w = 0")
      case True
      then show ?thesis using c' wxyz(9) by linarith
    next
      case False
      then show ?thesis using c' by linarith
    qed
    moreover have "c < 1114112"
    proof (cases "w = 4")
      case True
      then show ?thesis using c' wxyz(7,8,10) by linarith
    next
      case False
      then have "w \<le> 3" using wxyz(5) by linarith
      then show ?thesis using c' wxyz(6,7,8) by linarith
    qed
    ultimately have "65536 \<le> c" "c < 1114112" .
    then show ?thesis
      using bs b(1) wxyz dig by (simp add: utf8_char_def unat_byte is_scalar_def del: of_nat_add)
  qed
qed

lemma utf8_decode_nats_sound:
  "utf8_decode_nats bs = Some s \<Longrightarrow> \<forall>b \<in> set bs. b < 256 \<Longrightarrow>
    (\<forall>c \<in> set s. is_scalar c) \<and> bs = map unat (utf8_encode s)"
proof (induction bs arbitrary: s rule: utf8_decode_nats.induct)
  case (1 bs)
  show ?case
  proof (cases "bs = []")
    case True
    with 1 show ?thesis by (simp add: utf8_encode_def)
  next
    case False
    with "1.prems" obtain c r where n: "utf8_next bs = Some (c, r)"
      by (subst (asm) utf8_decode_nats.simps) (auto split: option.splits)
    with "1.prems" obtain s' where s': "utf8_decode_nats r = Some s'" "s = c # s'"
      by (auto simp: utf8_decode_nats_step)
    from n "1.prems" have c: "is_scalar c" "bs = map unat (utf8_char c) @ r"
      by (auto dest: utf8_next_sound)
    with "1.prems" have "\<forall>b \<in> set r. b < 256" by auto
    from "1.IH" [OF False n refl s'(1) this] c s' show ?thesis
      by (simp add: utf8_encode_def)
  qed
qed

lemma utf8_decode_sound:
  assumes "utf8_decode bs = Some s"
  shows "(\<forall>c \<in> set s. is_scalar c) \<and> utf8_encode s = bs"
proof -
  have "\<forall>b \<in> set (map unat bs). b < 256"
    by (auto simp: less_eq_Suc_le unat_u8_le [unfolded U8_MAX_def])
  with assms have "(\<forall>c \<in> set s. is_scalar c) \<and> map unat bs = map unat (utf8_encode s)"
    unfolding utf8_decode_def by (rule utf8_decode_nats_sound)
  moreover have "inj (unat :: u8 \<Rightarrow> nat)"
    by (rule injI) (rule unsigned_word_eqI)
  ultimately show ?thesis by (simp add: inj_map_eq_map)
qed

section \<open>ASCII strings\<close>

lemma utf8_char_ascii: "c < 128 \<Longrightarrow> utf8_char c = [word_of_nat c]"
  by (simp add: utf8_char_def)

lemma utf8_char_nonempty [simp]: "utf8_char c \<noteq> []"
  by (simp add: utf8_char_def)

lemma str_len_ascii: "\<forall>c \<in> set s. c < 128 \<Longrightarrow> str_len s = length s"
  by (induction s) (simp_all add: str_len_def utf8_encode_def utf8_char_ascii)

lemma str_len_Nil [simp]: "str_len [] = 0"
  by (simp add: str_len_def utf8_encode_def)

lemma str_len_append [simp]: "str_len (s @ t) = str_len s + str_len t"
  by (simp add: str_len_def utf8_encode_def)

lemma length_utf8_encode [simp]: "length (utf8_encode s) = str_len s"
  by (simp add: str_len_def)

lemma str_len_ge_length: "length s \<le> str_len s"
proof (induction s)
  case (Cons c s)
  moreover have "1 \<le> length (utf8_char c)" by (simp add: Suc_le_eq)
  ultimately show ?case by (simp add: str_len_def utf8_encode_def)
qed simp

section \<open>Decimal numbers\<close>

text \<open>\<open>Display\<close> of an unsigned integer.\<close>

fun show_nat :: "nat \<Rightarrow> rstring" where
  "show_nat n = (if n < 10 then [48 + n] else show_nat (n div 10) @ [48 + n mod 10])"

declare show_nat.simps [simp del]

lemma show_nat_digits: "c \<in> set (show_nat n) \<Longrightarrow> is_ascii_digit c"
proof (induction n rule: show_nat.induct)
  case (1 n)
  then show ?case
    by (cases "n < 10") (auto simp: show_nat.simps [of n] is_ascii_digit_def)
qed

lemma show_nat_byte_len: "n \<le> 255 \<Longrightarrow> length (show_nat n) \<le> 3"
  by (subst show_nat.simps, subst show_nat.simps, subst show_nat.simps) simp

lemma str_len_show_nat: "str_len (show_nat n) = length (show_nat n)"
  by (rule str_len_ascii) (auto dest!: show_nat_digits simp: is_ascii_digit_def)

text \<open>Evaluation of the operations on a concrete ASCII string.\<close>

lemmas text_eval =
  lit_def trim_def is_whitespace_def is_ascii_alphanumeric_def is_ascii_digit_def
  is_ascii_uppercase_def is_ascii_lowercase_def to_ascii_lowercase_def eq_ignore_ascii_case_def
  str_len_def utf8_encode_def utf8_char_def is_scalar_def

end
