(* ===== verification/Ordered_Map.thy ===== *)
theory Ordered_Map
  imports Prelude
begin

text \<open>
  Rust's \<open>BTreeMap\<close>. The locale \<open>ordered_map\<close> is the contract the components rely on:
  lookup after insert and remove, and iteration in strictly increasing key order. The model
  of the map is its list of entries in key order, so that \<open>iter\<close>, \<open>values\<close> and
  \<open>len\<close> are the list's own operations; \<open>bt_inv\<close> is its invariant, and the
  interpretation \<open>btree\<close> shows that the operations keep the contract.
\<close>

section \<open>The contract\<close>

locale ordered_map =
  fixes lookup :: "'m \<Rightarrow> 'k::linorder \<Rightarrow> 'v option"
    and insert_at :: "'k \<Rightarrow> 'v \<Rightarrow> 'm \<Rightarrow> 'm"
    and remove_at :: "'k \<Rightarrow> 'm \<Rightarrow> 'm"
    and entries :: "'m \<Rightarrow> ('k \<times> 'v) list"
    and empty_map :: "'m"
    and inv :: "'m \<Rightarrow> bool"
  assumes inv_empty: "inv empty_map"
    and entries_empty: "entries empty_map = []"
    and inv_insert: "inv m \<Longrightarrow> inv (insert_at k v m)"
    and inv_remove: "inv m \<Longrightarrow> inv (remove_at k m)"
    and lookup_insert: "inv m \<Longrightarrow> lookup (insert_at k v m) = (lookup m)(k \<mapsto> v)"
    and lookup_remove: "inv m \<Longrightarrow> lookup (remove_at k m) = (lookup m)(k := None)"
    and lookup_entries: "inv m \<Longrightarrow> lookup m = map_of (entries m)"
    and entries_sorted: "inv m \<Longrightarrow> sorted_wrt (<) (map fst (entries m))"
begin

lemma entries_distinct: "inv m \<Longrightarrow> distinct (map fst (entries m))"
  using entries_sorted strict_sorted_iff by blast

lemma lookup_mem: "inv m \<Longrightarrow> lookup m k = Some v \<longleftrightarrow> (k, v) \<in> set (entries m)"
  by (simp add: lookup_entries entries_distinct)

lemma lookup_dom: "inv m \<Longrightarrow> dom (lookup m) = set (map fst (entries m))"
  by (simp add: lookup_entries dom_map_of_conv_image_fst)

lemma entries_unique:
  assumes "inv m" "inv n" "lookup m = lookup n"
  shows "entries m = entries n"
proof -
  have "set (entries m) = set (entries n)"
    using assms lookup_mem by (metis equalityI subrelI)
  moreover have "map fst (entries m) = map fst (entries n)"
    using assms lookup_dom entries_sorted
    by (metis strict_sorted_equal)
  ultimately show ?thesis
    using assms entries_distinct by (metis map_of_inject_set nth_equalityI zip_map_fst_snd
        length_map map_of_zip_inject map_of_eqI)
qed

text \<open>Inserting a list of entries one by one: a later entry for a key wins.\<close>

lemma inv_insert_all: "inv m \<Longrightarrow> inv (fold (\<lambda>(k, v). insert_at k v) kvs m)"
  by (induction kvs arbitrary: m) (auto simp: inv_insert)

lemma lookup_insert_all:
  "inv m \<Longrightarrow> lookup (fold (\<lambda>(k, v). insert_at k v) kvs m) = lookup m ++ map_of (rev kvs)"
proof (induction kvs arbitrary: m)
  case Nil
  then show ?case by simp
next
  case (Cons kv kvs)
  obtain k v where kv: "kv = (k, v)" by (cases kv)
  with Cons have "lookup (fold (\<lambda>(k, v). insert_at k v) (kv # kvs) m) =
      (lookup m)(k \<mapsto> v) ++ map_of (rev kvs)"
    by (simp add: inv_insert lookup_insert del: fun_upd_apply)
  also have "\<dots> = lookup m ++ map_of (rev (kv # kvs))"
    by (rule ext) (auto simp: kv map_add_def map_of_append split: option.splits)
  finally show ?case .
qed

text \<open>Rebuilding a map from its own entries gives it back.\<close>

lemma rebuild:
  assumes "inv m"
  shows "entries (fold (\<lambda>(k, v). insert_at k v) (entries m) empty_map) = entries m"
proof (rule entries_unique)
  show "inv (fold (\<lambda>(k, v). insert_at k v) (entries m) empty_map)"
    by (simp add: inv_insert_all inv_empty)
  show "inv m" by fact
  have "distinct (map fst (rev (entries m)))"
    using entries_distinct [OF assms] by (simp add: rev_map [symmetric])
  then have "map_of (rev (entries m)) = map_of (entries m)"
    using entries_distinct [OF assms] by (simp add: map_of_inject_set)
  then show "lookup (fold (\<lambda>(k, v). insert_at k v) (entries m) empty_map) = lookup m"
    using assms inv_empty
    by (simp add: lookup_insert_all lookup_entries entries_empty)
qed

lemma keys_insert: "inv m \<Longrightarrow>
    set (map fst (entries (insert_at k v m))) = insert k (set (map fst (entries m)))"
  using lookup_dom [of m] lookup_dom [of "insert_at k v m"]
  by (simp add: inv_insert lookup_insert)

lemma keys_remove: "inv m \<Longrightarrow>
    set (map fst (entries (remove_at k m))) = set (map fst (entries m)) - {k}"
  using lookup_dom [of m] lookup_dom [of "remove_at k m"]
  by (simp add: inv_remove lookup_remove)

end

section \<open>The model\<close>

type_synonym ('k, 'v) btree_map = "('k \<times> 'v) list"

definition bt_inv :: "('k::linorder, 'v) btree_map \<Rightarrow> bool" where
  "bt_inv m \<longleftrightarrow> sorted_wrt (<) (map fst m)"

abbreviation bt_get :: "('k::linorder, 'v) btree_map \<Rightarrow> 'k \<Rightarrow> 'v option" where
  "bt_get m k \<equiv> map_of m k"

fun bt_insert :: "'k::linorder \<Rightarrow> 'v \<Rightarrow> ('k, 'v) btree_map \<Rightarrow> ('k, 'v) btree_map" where
  "bt_insert k v [] = [(k, v)]"
| "bt_insert k v ((k', v') # m) =
     (if k < k' then (k, v) # (k', v') # m
      else if k = k' then (k, v) # m
      else (k', v') # bt_insert k v m)"

definition bt_remove :: "'k \<Rightarrow> ('k::linorder, 'v) btree_map \<Rightarrow> ('k, 'v) btree_map" where
  "bt_remove k m = filter (\<lambda>kv. fst kv \<noteq> k) m"

definition bt_contains :: "('k::linorder, 'v) btree_map \<Rightarrow> 'k \<Rightarrow> bool" where
  "bt_contains m k \<longleftrightarrow> bt_get m k \<noteq> None"

definition bt_keys :: "('k::linorder, 'v) btree_map \<Rightarrow> 'k list" where
  "bt_keys m = map fst m"

definition bt_values :: "('k::linorder, 'v) btree_map \<Rightarrow> 'v list" where
  "bt_values m = map snd m"

text \<open>\<open>for v in m.values_mut() { *v = f(*v) }\<close>\<close>

definition bt_map_values :: "('v \<Rightarrow> 'w) \<Rightarrow> ('k::linorder, 'v) btree_map \<Rightarrow> ('k, 'w) btree_map" where
  "bt_map_values f m = map (\<lambda>(k, v). (k, f v)) m"

lemma set_keys_insert: "fst ` set (bt_insert k v m) = insert k (fst ` set m)"
  by (induction k v m rule: bt_insert.induct) auto

lemma bt_inv_insert: "bt_inv m \<Longrightarrow> bt_inv (bt_insert k v m)"
proof (induction k v m rule: bt_insert.induct)
  case (2 k v k' v' m)
  then show ?case
    by (auto simp: bt_inv_def set_keys_insert)
qed (simp add: bt_inv_def)

lemma bt_get_insert: "bt_inv m \<Longrightarrow> map_of (bt_insert k v m) = (map_of m)(k \<mapsto> v)"
proof (induction k v m rule: bt_insert.induct)
  case (2 k v k' v' m)
  then have "bt_inv m" by (simp add: bt_inv_def)
  with 2 show ?case by (auto simp: fun_upd_twist)
qed simp

interpretation btree: ordered_map map_of bt_insert bt_remove "\<lambda>m. m" "[]" bt_inv
proof
  fix m :: "('a \<times> 'b) list" and k v
  assume m: "bt_inv m"
  show "bt_inv (bt_insert k v m)" "map_of (bt_insert k v m) = (map_of m)(k \<mapsto> v)"
    using m by (simp_all add: bt_inv_insert bt_get_insert)
  show "bt_inv (bt_remove k m)"
    using m by (simp add: bt_inv_def bt_remove_def sorted_wrt_map sorted_wrt_filter)
  show "map_of (bt_remove k m) = (map_of m)(k := None)"
    by (induction m) (auto simp: bt_remove_def)
  show "sorted_wrt (<) (map fst m)" using m by (simp add: bt_inv_def)
qed (simp_all add: bt_inv_def)

lemmas bt_inv_ops = btree.inv_empty btree.inv_insert btree.inv_remove
lemmas bt_get_ops = btree.lookup_insert btree.lookup_remove

lemma bt_inv_map_values [simp]: "bt_inv (bt_map_values f m) = bt_inv m"
  by (simp add: bt_inv_def bt_map_values_def case_prod_unfold comp_def)

lemma bt_get_map_values [simp]: "map_of (bt_map_values f m) k = map_option f (map_of m k)"
  by (induction m) (auto simp: bt_map_values_def)

lemma keys_map_values [simp]: "map fst (bt_map_values f m) = map fst m"
  by (simp add: bt_map_values_def case_prod_unfold comp_def)

lemma bt_insert_absorb_keys:
  "bt_inv m \<Longrightarrow> map_of m k = Some w \<Longrightarrow> map fst (bt_insert k v m) = map fst m"
proof (induction k v m rule: bt_insert.induct)
  case (2 k v k' v' m)
  then have "bt_inv m" by (simp add: bt_inv_def)
  moreover have "k < k' \<Longrightarrow> k \<notin> fst ` set ((k', v') # m)"
    using "2.prems"(1) by (auto simp: bt_inv_def)
  moreover have "k \<in> fst ` set ((k', v') # m)"
    using "2.prems"(2) by (metis map_of_eq_None_iff option.distinct(1))
  ultimately have "\<not> k < k'" by blast
  with 2 \<open>bt_inv m\<close> show ?case by auto
qed simp

lemma bt_insert_same: "bt_inv m \<Longrightarrow> map_of m k = Some v \<Longrightarrow> bt_insert k v m = m"
proof (induction k v m rule: bt_insert.induct)
  case (2 k v k' v' m)
  then have "bt_inv m" by (simp add: bt_inv_def)
  moreover have "k = k' \<or> k' < k"
    using 2(2,3) by (auto simp: bt_inv_def dest!: map_of_SomeD split: if_splits)
  ultimately show ?case using 2 by (auto split: if_splits dest: less_asym)
qed simp

lemma bt_values_mem: "bt_inv m \<Longrightarrow> v \<in> set (bt_values m) \<longleftrightarrow> (\<exists>k. map_of m k = Some v)"
  using btree.lookup_mem [of m] by (force simp: bt_values_def)

text \<open>\<open>if let Some(v) = m.get_mut(k) { *v = f(*v) }\<close>\<close>

definition bt_modify :: "'k::linorder \<Rightarrow> ('v \<Rightarrow> 'v) \<Rightarrow> ('k, 'v) btree_map \<Rightarrow> ('k, 'v) btree_map" where
  "bt_modify k f m = map (\<lambda>(k', v). (k', if k' = k then f v else v)) m"

lemma bt_inv_modify [simp]: "bt_inv (bt_modify k f m) = bt_inv m"
  by (simp add: bt_inv_def bt_modify_def case_prod_unfold comp_def)

lemma keys_modify [simp]: "map fst (bt_modify k f m) = map fst m"
  by (simp add: bt_modify_def case_prod_unfold comp_def)

lemma bt_get_modify: "map_of (bt_modify k f m) k' =
    (if k' = k then map_option f (map_of m k) else map_of m k')"
  by (induction m) (auto simp: bt_modify_def)

lemma bt_get_modify_simps [simp]:
  "map_of (bt_modify k f m) k = map_option f (map_of m k)"
  "k' \<noteq> k \<Longrightarrow> map_of (bt_modify k f m) k' = map_of m k'"
  by (simp_all add: bt_get_modify)

lemma bt_modify_None: "map_of m k = None \<Longrightarrow> bt_modify k f m = m"
  by (induction m) (auto simp: bt_modify_def split: if_splits)

lemma bt_modify_compose: "bt_modify k g (bt_modify k f m) = bt_modify k (\<lambda>v. g (f v)) m"
  by (simp add: bt_modify_def case_prod_unfold comp_def)

lemma all_modify: "(\<And>v. P v \<Longrightarrow> P (f v)) \<Longrightarrow> \<forall>(k, v) \<in> set m. P v \<Longrightarrow>
    \<forall>(k, v) \<in> set (bt_modify k' f m). P v"
  by (auto simp: bt_modify_def)

end
