(* ===== verification/Domain.thy ===== *)
theory Domain
  imports Rust_Text Ordered_Map "HOL-Library.Product_Lexorder"
begin

text \<open>
  The crate \<open>game_domain\<close>: identifiers, player names, teams, player records, skill trees,
  skill choices and the per-match skill progression, with the validation each constructor
  performs. A value whose Rust type has a private field satisfies the type invariant \<open>wf_...\<close>
  that its only constructor establishes; the lemmas here prove that, that validated text
  parses back to itself, and that the progression of a tree never leaves \<open>0..=5\<close>.
\<close>

definition MAX_PLAYER_NAME_LEN :: nat where "MAX_PLAYER_NAME_LEN = 24"
definition MAX_SKILL_TREE_NAME_LEN :: nat where "MAX_SKILL_TREE_NAME_LEN = 32"
definition MAX_SKILL_TIER :: u8 where "MAX_SKILL_TIER = 5"
definition MAX_ROUNDS :: u8 where "MAX_ROUNDS = 99"

section \<open>Skill trees as data\<close>

datatype known_skill_tree = Warrior | Rogue | Mage | Cleric

datatype skill_tree = Known known_skill_tree | Custom rstring

datatype domain_error =
    IdMustBeNonZero string
  | PlayerNameEmpty
  | PlayerNameTooLong nat nat
  | PlayerNameInvalidCharacter rchar
  | SkillTierOutOfRange u8 u8 u8
  | SkillTreeNameEmpty
  | SkillTreeNameTooLong nat nat
  | SkillTreeNameInvalidCharacter rchar
  | SkillTierGap skill_tree u8 u8
  | RoundOutOfRange u8 u8 u8

section \<open>Identifiers\<close>

datatype player_id = PlayerId (player_id_get: u32)
datatype lobby_id = LobbyId (lobby_id_get: u32)
datatype match_id = MatchId (match_id_get: u32)

definition non_zero_id :: "string \<Rightarrow> (u32 \<Rightarrow> 'i) \<Rightarrow> u32 \<Rightarrow> domain_error + 'i" where
  "non_zero_id label mk value = (if value = 0 then Inl (IdMustBeNonZero label) else Inr (mk value))"

definition player_id_new :: "u32 \<Rightarrow> domain_error + player_id" where
  "player_id_new = non_zero_id ''player_id'' PlayerId"

definition lobby_id_new :: "u32 \<Rightarrow> domain_error + lobby_id" where
  "lobby_id_new = non_zero_id ''lobby_id'' LobbyId"

definition match_id_new :: "u32 \<Rightarrow> domain_error + match_id" where
  "match_id_new = non_zero_id ''match_id'' MatchId"

definition wf_player_id :: "player_id \<Rightarrow> bool" where
  "wf_player_id p \<longleftrightarrow> player_id_get p \<noteq> 0"

definition wf_lobby_id :: "lobby_id \<Rightarrow> bool" where
  "wf_lobby_id p \<longleftrightarrow> lobby_id_get p \<noteq> 0"

definition wf_match_id :: "match_id \<Rightarrow> bool" where
  "wf_match_id p \<longleftrightarrow> match_id_get p \<noteq> 0"

lemma player_id_new_iff: "player_id_new v = Inr p \<longleftrightarrow> wf_player_id p \<and> v = player_id_get p"
  by (cases p) (auto simp: player_id_new_def non_zero_id_def wf_player_id_def)

lemma lobby_id_new_iff: "lobby_id_new v = Inr p \<longleftrightarrow> wf_lobby_id p \<and> v = lobby_id_get p"
  by (cases p) (auto simp: lobby_id_new_def non_zero_id_def wf_lobby_id_def)

lemma match_id_new_iff: "match_id_new v = Inr p \<longleftrightarrow> wf_match_id p \<and> v = match_id_get p"
  by (cases p) (auto simp: match_id_new_def non_zero_id_def wf_match_id_def)

text \<open>The derived \<open>Ord\<close> of the newtype: player ids are the keys of ordered maps.\<close>

instantiation player_id :: linorder
begin

definition less_eq_player_id :: "player_id \<Rightarrow> player_id \<Rightarrow> bool" where
  "less_eq_player_id p q \<longleftrightarrow> player_id_get p \<le> player_id_get q"

definition less_player_id :: "player_id \<Rightarrow> player_id \<Rightarrow> bool" where
  "less_player_id p q \<longleftrightarrow> player_id_get p < player_id_get q"

instance
  by standard
    (auto simp: less_eq_player_id_def less_player_id_def intro: player_id.expand)

end

section \<open>Rounds\<close>

datatype round_number = RoundNumber (round_get: u8)

definition round_number_new :: "u8 \<Rightarrow> domain_error + round_number" where
  "round_number_new value =
     (if \<not> (1 \<le> value \<and> value \<le> MAX_ROUNDS) then Inl (RoundOutOfRange value 1 MAX_ROUNDS)
      else Inr (RoundNumber value))"

definition round_next :: "round_number \<Rightarrow> round_number option" where
  "round_next r = (if round_get r = MAX_ROUNDS then None else Some (RoundNumber (round_get r + 1)))"

definition wf_round :: "round_number \<Rightarrow> bool" where
  "wf_round r \<longleftrightarrow> 1 \<le> round_get r \<and> round_get r \<le> MAX_ROUNDS"

lemma round_number_new_iff: "round_number_new v = Inr r \<longleftrightarrow> wf_round r \<and> v = round_get r"
  by (cases r) (auto simp: round_number_new_def wf_round_def)

lemma wf_round_unat: "wf_round r \<longleftrightarrow> 1 \<le> unat (round_get r) \<and> unat (round_get r) \<le> 99"
  by (simp add: wf_round_def MAX_ROUNDS_def word_le_nat_alt)

lemma round_next_Some:
  assumes "wf_round r" "round_next r = Some r'"
  shows "wf_round r' \<and> unat (round_get r') = Suc (unat (round_get r))"
proof -
  from assms have r': "r' = RoundNumber (round_get r + 1)" and ne: "round_get r \<noteq> 99"
    by (auto simp: round_next_def MAX_ROUNDS_def split: if_splits)
  have "unat (round_get r) \<noteq> unat (99 :: u8)"
    using ne by (metis unsigned_word_eqI)
  with assms(1) have le: "unat (round_get r) < 99" by (simp add: wf_round_unat)
  then have "unat (round_get r + 1) = Suc (unat (round_get r))"
    by (simp add: unat_word_ariths)
  with le show ?thesis by (simp add: r' wf_round_unat)
qed

section \<open>Skill trees\<close>

definition KNOWN_ALL :: "known_skill_tree list" where
  "KNOWN_ALL = [Warrior, Rogue, Mage, Cleric]"

fun known_as_str :: "known_skill_tree \<Rightarrow> rstring" where
  "known_as_str Warrior = lit ''Warrior''"
| "known_as_str Rogue = lit ''Rogue''"
| "known_as_str Mage = lit ''Mage''"
| "known_as_str Cleric = lit ''Cleric''"

definition tree_char_ok :: "rchar \<Rightarrow> bool" where
  "tree_char_ok ch \<longleftrightarrow> is_ascii_alphanumeric ch \<or> ch = 95 \<or> ch = 45 \<or> ch = 32"

definition skill_tree_new :: "rstring \<Rightarrow> domain_error + skill_tree" where
  "skill_tree_new raw =
     (let trimmed = trim raw in
      if trimmed = [] then Inl SkillTreeNameEmpty
      else if str_len trimmed > MAX_SKILL_TREE_NAME_LEN then
        Inl (SkillTreeNameTooLong (str_len trimmed) MAX_SKILL_TREE_NAME_LEN)
      else case find (\<lambda>ch. \<not> tree_char_ok ch) trimmed of
        Some ch \<Rightarrow> Inl (SkillTreeNameInvalidCharacter ch)
      | None \<Rightarrow>
          (case find (\<lambda>known. eq_ignore_ascii_case (known_as_str known) trimmed) KNOWN_ALL of
             Some known \<Rightarrow> Inr (Known known)
           | None \<Rightarrow> Inr (Custom trimmed)))"

definition skill_tree_parse :: "rstring \<Rightarrow> skill_tree option" where
  "skill_tree_parse raw = (case skill_tree_new raw of Inr t \<Rightarrow> Some t | Inl _ \<Rightarrow> None)"

fun skill_tree_as_str :: "skill_tree \<Rightarrow> rstring" where
  "skill_tree_as_str (Known known) = known_as_str known"
| "skill_tree_as_str (Custom name) = name"

text \<open>
  What a \<open>Custom\<close> tree built by the constructor looks like: trimmed, of 1 to 32 allowed
  ASCII characters, and not the name of a known tree in any case.
\<close>

fun wf_skill_tree :: "skill_tree \<Rightarrow> bool" where
  "wf_skill_tree (Known _) = True"
| "wf_skill_tree (Custom name) =
     (trim name = name \<and> name \<noteq> [] \<and> length name \<le> MAX_SKILL_TREE_NAME_LEN \<and>
      list_all tree_char_ok name \<and>
      list_all (\<lambda>known. \<not> eq_ignore_ascii_case (known_as_str known) name) KNOWN_ALL)"

lemma tree_char_ascii: "tree_char_ok c \<Longrightarrow> c < 128"
  by (auto simp: tree_char_ok_def dest: alphanumeric_ascii)

lemma tree_str_len: "list_all tree_char_ok s \<Longrightarrow> str_len s = length s"
  by (rule str_len_ascii) (auto simp: list_all_iff dest: tree_char_ascii)

lemma find_not_None: "find (\<lambda>x. \<not> P x) xs = None \<longleftrightarrow> list_all P xs"
  by (auto simp: find_None_iff list_all_iff)

lemma skill_tree_new_wf: "skill_tree_new raw = Inr t \<Longrightarrow> wf_skill_tree t"
  by (auto simp: skill_tree_new_def Let_def find_not_None find_None_iff tree_str_len
      list_all_iff [of _ KNOWN_ALL] split: if_splits option.splits)

lemma set_KNOWN_ALL [simp]: "k \<in> set KNOWN_ALL"
  by (cases k) (simp_all add: KNOWN_ALL_def)

lemma known_as_str_chars: "list_all tree_char_ok (known_as_str k)" "length (known_as_str k) \<le> 32"
  by (cases k; simp add: tree_char_ok_def text_eval)+

lemma known_as_str_trim: "trim (known_as_str k) = known_as_str k" "known_as_str k \<noteq> []"
  by (cases k; simp add: text_eval)+

lemma known_as_str_find:
  "find (\<lambda>known. eq_ignore_ascii_case (known_as_str known) (known_as_str k)) KNOWN_ALL = Some k"
  by (cases k; simp add: KNOWN_ALL_def text_eval)

lemma known_as_str_parses: "skill_tree_new (known_as_str k) = Inr (Known k)"
  using known_as_str_chars [of k]
  by (simp add: skill_tree_new_def known_as_str_trim tree_str_len
      find_not_None [THEN iffD2] known_as_str_find MAX_SKILL_TREE_NAME_LEN_def Let_def)

lemma skill_tree_roundtrip: "wf_skill_tree t \<Longrightarrow> skill_tree_new (skill_tree_as_str t) = Inr t"
proof (cases t)
  case (Known k)
  then show ?thesis by (simp add: known_as_str_parses)
next
  case (Custom n)
  assume "wf_skill_tree t"
  with Custom have n: "trim n = n" "n \<noteq> []" "length n \<le> MAX_SKILL_TREE_NAME_LEN"
    "list_all tree_char_ok n"
    "list_all (\<lambda>k. \<not> eq_ignore_ascii_case (known_as_str k) n) KNOWN_ALL"
    by simp_all
  then have "find (\<lambda>ch. \<not> tree_char_ok ch) n = None"
    "find (\<lambda>k. eq_ignore_ascii_case (known_as_str k) n) KNOWN_ALL = None"
    by (simp_all add: find_not_None find_None_iff list_all_iff)
  with n show ?thesis
    by (simp add: skill_tree_new_def Custom tree_str_len)
qed

lemma wf_skill_tree_str:
  assumes "wf_skill_tree t"
  shows "str_len (skill_tree_as_str t) \<le> MAX_SKILL_TREE_NAME_LEN"
    and "\<forall>c \<in> set (skill_tree_as_str t). is_scalar c"
proof -
  have "list_all tree_char_ok (skill_tree_as_str t) \<and>
      length (skill_tree_as_str t) \<le> MAX_SKILL_TREE_NAME_LEN"
  proof (cases t)
    case (Known k)
    show ?thesis
      using known_as_str_chars by (simp add: Known MAX_SKILL_TREE_NAME_LEN_def)
  next
    case (Custom n)
    with assms show ?thesis by simp
  qed
  then show "str_len (skill_tree_as_str t) \<le> MAX_SKILL_TREE_NAME_LEN"
    "\<forall>c \<in> set (skill_tree_as_str t). is_scalar c"
    by (auto simp: tree_str_len list_all_iff is_scalar_def dest!: tree_char_ascii bspec)
qed

text \<open>The derived \<open>Ord\<close>: variants in declaration order, then their payload.\<close>

fun skill_tree_rank :: "skill_tree \<Rightarrow> nat \<times> rstring" where
  "skill_tree_rank (Known Warrior) = (0, [])"
| "skill_tree_rank (Known Rogue) = (1, [])"
| "skill_tree_rank (Known Mage) = (2, [])"
| "skill_tree_rank (Known Cleric) = (3, [])"
| "skill_tree_rank (Custom name) = (4, name)"

lemma skill_tree_rank_inject: "skill_tree_rank s = skill_tree_rank t \<longleftrightarrow> s = t"
  by (cases s rule: skill_tree_rank.cases; cases t rule: skill_tree_rank.cases) simp_all

instantiation skill_tree :: linorder
begin

definition less_eq_skill_tree :: "skill_tree \<Rightarrow> skill_tree \<Rightarrow> bool" where
  "less_eq_skill_tree s t \<longleftrightarrow> skill_tree_rank s \<le> skill_tree_rank t"

definition less_skill_tree :: "skill_tree \<Rightarrow> skill_tree \<Rightarrow> bool" where
  "less_skill_tree s t \<longleftrightarrow> skill_tree_rank s < skill_tree_rank t"

instance
proof
  fix r s t :: skill_tree
  show "s < t \<longleftrightarrow> s \<le> t \<and> \<not> t \<le> s"
    by (auto simp: less_skill_tree_def less_eq_skill_tree_def)
  show "s \<le> s" by (simp add: less_eq_skill_tree_def)
  show "r \<le> s \<Longrightarrow> s \<le> t \<Longrightarrow> r \<le> t"
    unfolding less_eq_skill_tree_def by (rule order_trans)
  show "s \<le> t \<Longrightarrow> t \<le> s \<Longrightarrow> s = t"
    unfolding less_eq_skill_tree_def using skill_tree_rank_inject by (metis order_antisym)
  show "s \<le> t \<or> t \<le> s"
    unfolding less_eq_skill_tree_def by (rule linear)
qed

end

section \<open>Error messages\<close>

text \<open>\<open>Display\<close> of \<open>DomainError\<close>.\<close>

definition show_u8 :: "u8 \<Rightarrow> rstring" where
  "show_u8 n = show_nat (unat n)"

fun domain_error_text :: "domain_error \<Rightarrow> rstring" where
  "domain_error_text (IdMustBeNonZero label) = lit label @ lit '' must be non-zero''"
| "domain_error_text PlayerNameEmpty = lit ''player name must not be empty''"
| "domain_error_text (PlayerNameTooLong len max_len) =
     lit ''player name length '' @ show_nat len @ lit '' exceeds maximum '' @ show_nat max_len"
| "domain_error_text (PlayerNameInvalidCharacter ch) =
     lit ''player name contains invalid character '' @ [39, ch, 39]"
| "domain_error_text (SkillTierOutOfRange t lo hi) =
     lit ''skill tier '' @ show_u8 t @ lit '' is outside the allowed range '' @ show_u8 lo @
     lit ''..='' @ show_u8 hi"
| "domain_error_text SkillTreeNameEmpty = lit ''skill tree name must not be empty''"
| "domain_error_text (SkillTreeNameTooLong len max_len) =
     lit ''skill tree name length '' @ show_nat len @ lit '' exceeds maximum '' @ show_nat max_len"
| "domain_error_text (SkillTreeNameInvalidCharacter ch) =
     lit ''skill tree name contains invalid character '' @ [39, ch, 39]"
| "domain_error_text (SkillTierGap t expected actual) =
     lit ''skill progression for '' @ skill_tree_as_str t @ lit '' expected tier '' @
     show_u8 expected @ lit '' but received tier '' @ show_u8 actual"
| "domain_error_text (RoundOutOfRange round lo hi) =
     lit ''round '' @ show_u8 round @ lit '' is outside the allowed range '' @ show_u8 lo @
     lit ''..='' @ show_u8 hi"

section \<open>Skill choices and progression\<close>

record skill_choice =
  tree :: skill_tree
  tier :: u8

definition skill_choice_new :: "skill_tree \<Rightarrow> u8 \<Rightarrow> domain_error + skill_choice" where
  "skill_choice_new t n =
     (if \<not> (1 \<le> n \<and> n \<le> MAX_SKILL_TIER) then Inl (SkillTierOutOfRange n 1 MAX_SKILL_TIER)
      else Inr \<lparr>tree = t, tier = n\<rparr>)"

definition wf_skill_choice :: "skill_choice \<Rightarrow> bool" where
  "wf_skill_choice c \<longleftrightarrow> 1 \<le> tier c \<and> tier c \<le> MAX_SKILL_TIER"

lemma skill_choice_new_iff:
  "skill_choice_new t n = Inr c \<longleftrightarrow> wf_skill_choice c \<and> tree c = t \<and> tier c = n"
  by (cases c) (auto simp: skill_choice_new_def wf_skill_choice_def)

record loadout_progress =
  unlocked_tiers :: "(skill_tree, u8) btree_map"

definition loadout_progress_new :: loadout_progress where
  "loadout_progress_new = \<lparr>unlocked_tiers = []\<rparr>"

definition tier_for :: "loadout_progress \<Rightarrow> skill_tree \<Rightarrow> u8" where
  "tier_for p t = (case bt_get (unlocked_tiers p) t of Some n \<Rightarrow> n | None \<Rightarrow> 0)"

text \<open>\<open>current + 1\<close> is a plain \<open>u8\<close> addition.\<close>

definition can_apply :: "loadout_progress \<Rightarrow> skill_choice \<Rightarrow> domain_error fault + unit" where
  "can_apply p choice =
     (let current = tier_for p (tree choice) in
      and_then (if current = 0 then Inr 1 else checked_add current 1) (\<lambda>expected.
      if tier choice \<noteq> expected then Inl (Err (SkillTierGap (tree choice) expected (tier choice)))
      else Inr ()))"

definition loadout_apply ::
  "loadout_progress \<Rightarrow> skill_choice \<Rightarrow> (domain_error fault + unit) \<times> loadout_progress" where
  "loadout_apply p choice =
     (case can_apply p choice of
        Inl e \<Rightarrow> (Inl e, p)
      | Inr _ \<Rightarrow>
          (Inr (), p\<lparr>unlocked_tiers := bt_insert (tree choice) (tier choice) (unlocked_tiers p)\<rparr>))"

text \<open>The progression of every tree is a tier of \<open>1..=5\<close>.\<close>

definition wf_loadout :: "loadout_progress \<Rightarrow> bool" where
  "wf_loadout p \<longleftrightarrow> bt_inv (unlocked_tiers p) \<and> (\<forall>t. tier_for p t \<le> MAX_SKILL_TIER)"

lemma wf_loadout_new: "wf_loadout loadout_progress_new"
  by (simp add: wf_loadout_def loadout_progress_new_def tier_for_def btree.inv_empty)

lemma tier_for_new [simp]: "tier_for loadout_progress_new t = 0"
  by (simp add: tier_for_def loadout_progress_new_def)

lemma tier_succ:
  assumes "c \<le> MAX_SKILL_TIER"
  shows "(if c = 0 then Inr 1 else checked_add c 1) = (Inr (c + 1) :: 'e fault + u8)"
    and "unat (c + 1) = Suc (unat c)"
proof -
  have "unat c \<le> 5" using assms by (simp add: MAX_SKILL_TIER_def word_le_nat_alt)
  then show "(if c = 0 then Inr 1 else checked_add c 1) = (Inr (c + 1) :: 'e fault + u8)"
    "unat (c + 1) = Suc (unat c)"
    by (auto simp: checked_add_def unat_word_ariths)
qed

lemma can_apply_wf:
  assumes "wf_loadout p"
  shows "can_apply p c =
    (if tier c = tier_for p (tree c) + 1 then Inr ()
     else Inl (Err (SkillTierGap (tree c) (tier_for p (tree c) + 1) (tier c))))"
proof -
  have "tier_for p (tree c) \<le> MAX_SKILL_TIER" using assms by (simp add: wf_loadout_def)
  note expected = tier_succ(1) [OF this]
  show ?thesis unfolding can_apply_def Let_def expected by simp
qed

lemma loadout_apply_Inr:
  assumes "wf_loadout p" "loadout_apply p c = (Inr (), p')"
  shows "tier c = tier_for p (tree c) + 1"
    and "tier_for p' t = (if t = tree c then tier c else tier_for p t)"
    and "bt_inv (unlocked_tiers p')"
proof -
  from assms show "tier c = tier_for p (tree c) + 1"
    by (auto simp: loadout_apply_def can_apply_wf split: if_splits)
  from assms have p': "p' = p\<lparr>unlocked_tiers := bt_insert (tree c) (tier c) (unlocked_tiers p)\<rparr>"
    by (auto simp: loadout_apply_def split: sum.splits)
  moreover have "bt_inv (unlocked_tiers p)" using assms(1) by (simp add: wf_loadout_def)
  ultimately show "tier_for p' t = (if t = tree c then tier c else tier_for p t)"
    "bt_inv (unlocked_tiers p')"
    by (simp_all add: tier_for_def bt_get_ops bt_inv_ops)
qed

lemma loadout_apply_wf:
  assumes "wf_loadout p" "wf_skill_choice c"
  shows "wf_loadout (snd (loadout_apply p c))"
proof (cases "can_apply p c")
  case (Inl e)
  with assms show ?thesis by (simp add: loadout_apply_def)
next
  case (Inr u)
  then have "loadout_apply p c = (Inr (), snd (loadout_apply p c))"
    by (simp add: loadout_apply_def)
  from loadout_apply_Inr(2,3) [OF assms(1) this] assms show ?thesis
    by (simp add: wf_loadout_def wf_skill_choice_def)
qed

section \<open>Players\<close>

datatype player_name = PlayerName (player_name_as_str: rstring)

definition name_char_ok :: "rchar \<Rightarrow> bool" where
  "name_char_ok ch \<longleftrightarrow> is_ascii_alphanumeric ch \<or> ch = 95 \<or> ch = 45"

definition player_name_new :: "rstring \<Rightarrow> domain_error + player_name" where
  "player_name_new raw =
     (let trimmed = trim raw in
      if trimmed = [] then Inl PlayerNameEmpty
      else if str_len trimmed > MAX_PLAYER_NAME_LEN then
        Inl (PlayerNameTooLong (str_len trimmed) MAX_PLAYER_NAME_LEN)
      else case find (\<lambda>ch. \<not> name_char_ok ch) trimmed of
        Some ch \<Rightarrow> Inl (PlayerNameInvalidCharacter ch)
      | None \<Rightarrow> Inr (PlayerName trimmed))"

definition wf_player_name :: "player_name \<Rightarrow> bool" where
  "wf_player_name n \<longleftrightarrow> player_name_as_str n \<noteq> [] \<and>
     length (player_name_as_str n) \<le> MAX_PLAYER_NAME_LEN \<and>
     list_all name_char_ok (player_name_as_str n)"

lemma name_char_ascii: "name_char_ok c \<Longrightarrow> c < 128"
  by (auto simp: name_char_ok_def dest: alphanumeric_ascii)

lemma name_char_not_whitespace: "name_char_ok c \<Longrightarrow> \<not> is_whitespace c"
  by (auto simp: name_char_ok_def is_whitespace_def dest: alphanumeric_not_whitespace)

lemma name_str_len: "list_all name_char_ok s \<Longrightarrow> str_len s = length s"
  by (rule str_len_ascii) (auto simp: list_all_iff dest: name_char_ascii)

lemma player_name_new_wf: "player_name_new raw = Inr n \<Longrightarrow> wf_player_name n"
  by (auto simp: player_name_new_def Let_def wf_player_name_def find_not_None name_str_len
      split: if_splits option.splits)

lemma player_name_roundtrip:
  assumes "wf_player_name n"
  shows "player_name_new (player_name_as_str n) = Inr n"
proof -
  let ?s = "player_name_as_str n"
  have s: "?s \<noteq> []" "length ?s \<le> MAX_PLAYER_NAME_LEN" "list_all name_char_ok ?s"
    using assms by (simp_all add: wf_player_name_def)
  then have "trim ?s = ?s"
    by (intro trim_unchanged) (auto simp: list_all_iff dest: name_char_not_whitespace)
  with s show ?thesis
    by (simp add: player_name_new_def Let_def name_str_len find_not_None [THEN iffD2])
qed

lemma wf_player_name_str:
  assumes "wf_player_name n"
  shows "str_len (player_name_as_str n) \<le> MAX_PLAYER_NAME_LEN"
    and "\<forall>c \<in> set (player_name_as_str n). is_scalar c"
  using assms
  by (auto simp: wf_player_name_def name_str_len list_all_iff is_scalar_def dest!: name_char_ascii bspec)

datatype team_side = TeamA | TeamB

fun team_other :: "team_side \<Rightarrow> team_side" where
  "team_other TeamA = TeamB"
| "team_other TeamB = TeamA"

fun team_as_str :: "team_side \<Rightarrow> rstring" where
  "team_as_str TeamA = lit ''Team A''"
| "team_as_str TeamB = lit ''Team B''"

lemma all_team_side: "(\<forall>t. P t) \<longleftrightarrow> P TeamA \<and> P TeamB"
  by (metis team_side.exhaust)

datatype ready_state = Ready | NotReady

definition is_ready :: "ready_state \<Rightarrow> bool" where
  "is_ready r \<longleftrightarrow> r = Ready"

datatype match_outcome = TeamAWin | TeamBWin | NoContest

section \<open>Player records\<close>

record player_record =
  wins :: u16
  losses :: u16
  no_contests :: u16
  round_wins :: u16
  round_losses :: u16
  total_damage_done :: u32
  total_healing_done :: u32
  total_combat_ms :: u32
  cc_used :: u16
  cc_hits :: u16
  skill_pick_counts :: "(rstring, u16) btree_map"

definition player_record_new :: player_record where
  "player_record_new =
     \<lparr>wins = 0, losses = 0, no_contests = 0, round_wins = 0, round_losses = 0,
      total_damage_done = 0, total_healing_done = 0, total_combat_ms = 0,
      cc_used = 0, cc_hits = 0, skill_pick_counts = []\<rparr>"

definition record_win :: "player_record \<Rightarrow> player_record" where
  "record_win r = r\<lparr>wins := sat_add (wins r) 1\<rparr>"

definition record_loss :: "player_record \<Rightarrow> player_record" where
  "record_loss r = r\<lparr>losses := sat_add (losses r) 1\<rparr>"

definition record_no_contest :: "player_record \<Rightarrow> player_record" where
  "record_no_contest r = r\<lparr>no_contests := sat_add (no_contests r) 1\<rparr>"

definition record_round_win :: "player_record \<Rightarrow> player_record" where
  "record_round_win r = r\<lparr>round_wins := sat_add (round_wins r) 1\<rparr>"

definition record_round_loss :: "player_record \<Rightarrow> player_record" where
  "record_round_loss r = r\<lparr>round_losses := sat_add (round_losses r) 1\<rparr>"

definition record_skill_pick :: "rstring \<Rightarrow> player_record \<Rightarrow> player_record" where
  "record_skill_pick skill_id r =
     (let count = (case bt_get (skill_pick_counts r) skill_id of Some n \<Rightarrow> n | None \<Rightarrow> 0) in
      r\<lparr>skill_pick_counts := bt_insert skill_id (sat_add count 1) (skill_pick_counts r)\<rparr>)"

definition record_match_combat_totals ::
  "u32 \<Rightarrow> u32 \<Rightarrow> u32 \<Rightarrow> u16 \<Rightarrow> u16 \<Rightarrow> player_record \<Rightarrow> player_record" where
  "record_match_combat_totals damage healing combat_ms used hits r =
     r\<lparr>total_damage_done := sat_add (total_damage_done r) damage,
       total_healing_done := sat_add (total_healing_done r) healing,
       total_combat_ms := sat_add (total_combat_ms r) combat_ms,
       cc_used := sat_add (cc_used r) used,
       cc_hits := sat_add (cc_hits r) hits\<rparr>"

text \<open>Two plain \<open>u16\<close> additions: they panic under overflow checks.\<close>

definition total_games :: "player_record \<Rightarrow> 'e fault + u16" where
  "total_games r =
     and_then (checked_add (wins r) (losses r)) (\<lambda>n. checked_add n (no_contests r))"

definition wf_record :: "player_record \<Rightarrow> bool" where
  "wf_record r \<longleftrightarrow> bt_inv (skill_pick_counts r)"

lemma wf_record_new [simp]: "wf_record player_record_new"
  by (simp add: wf_record_def player_record_new_def btree.inv_empty)

lemma wf_record_ops:
  assumes "wf_record r"
  shows "wf_record (record_win r)" "wf_record (record_loss r)" "wf_record (record_no_contest r)"
    "wf_record (record_round_win r)" "wf_record (record_round_loss r)"
    "wf_record (record_skill_pick s r)"
    "wf_record (record_match_combat_totals a b c d e r)"
  using assms
  by (simp_all add: wf_record_def record_win_def record_loss_def record_no_contest_def
      record_round_win_def record_round_loss_def record_skill_pick_def
      record_match_combat_totals_def Let_def bt_inv_ops)

lemma skill_pick_count_after:
  assumes "wf_record r"
  shows "bt_get (skill_pick_counts (record_skill_pick s r)) t =
    (if t = s then
       Some (sat_add (case bt_get (skill_pick_counts r) s of Some n \<Rightarrow> n | None \<Rightarrow> 0) 1)
     else bt_get (skill_pick_counts r) t)"
  using assms by (simp add: wf_record_def record_skill_pick_def Let_def bt_get_ops)

lemma total_games_ok:
  assumes "unat (wins r) + unat (losses r) + unat (no_contests r) < 65536"
  obtains n where "total_games r = Inr n"
    and "unat n = unat (wins r) + unat (losses r) + unat (no_contests r)"
proof -
  have "unat (wins r + losses r) = unat (wins r) + unat (losses r)"
    using assms by (simp add: unat_word_ariths)
  with assms that [of "wins r + losses r + no_contests r"] show thesis
    by (simp add: total_games_def checked_add_def unat_word_ariths)
qed

record team_assignment =
  ta_player_id :: player_id
  ta_player_name :: player_name
  ta_record :: player_record
  ta_team :: team_side

text \<open>Two players on opposite teams, the concrete input of the examples.\<close>

definition sample_roster :: "team_assignment list" where
  "sample_roster =
     [\<lparr>ta_player_id = PlayerId 1, ta_player_name = PlayerName (lit ''Alice''),
       ta_record = player_record_new, ta_team = TeamA\<rparr>,
      \<lparr>ta_player_id = PlayerId 2, ta_player_name = PlayerName (lit ''Bob''),
       ta_record = player_record_new, ta_team = TeamB\<rparr>]"

section \<open>Properties\<close>

text \<open>
  A skill tree name is accepted exactly when, once trimmed, it has 1 to 32 bytes, all of
  them ASCII letters, digits, spaces or one of \<open>_-\<close>. The tree it gives prints to a name that
  parses to the same tree, equal to the trimmed input up to the case of a known name.
\<close>

lemma skill_tree_names:
  "(\<exists>t. skill_tree_new raw = Inr t) = (trim raw \<noteq> [] \<and> str_len (trim raw) \<le> 32 \<and>
     list_all tree_char_ok (trim raw)) \<and>
   (\<forall>t. skill_tree_new raw = Inr t \<longrightarrow>
     skill_tree_new (skill_tree_as_str t) = Inr t \<and>
     eq_ignore_ascii_case (skill_tree_as_str t) (trim raw))"
proof -
  have "eq_ignore_ascii_case (skill_tree_as_str t) (trim raw)" if "skill_tree_new raw = Inr t" for t
    using that
    by (auto simp: skill_tree_new_def Let_def find_Some_iff eq_ignore_ascii_case_def
        split: if_splits option.splits)
  moreover have "(\<exists>t. skill_tree_new raw = Inr t) = (trim raw \<noteq> [] \<and> str_len (trim raw) \<le> 32 \<and>
     list_all tree_char_ok (trim raw))"
    by (auto simp: skill_tree_new_def Let_def MAX_SKILL_TREE_NAME_LEN_def find_not_None
        find_Some_iff list_all_length split: option.splits)
  ultimately show ?thesis using skill_tree_new_wf skill_tree_roundtrip by blast
qed

lemma skill_tree_names_example:
  "skill_tree_new (lit '' mAGe '') = Inr (Known Mage) \<and> skill_tree_new (lit ''Mage'') = Inr (Known Mage)"
proof -
  have "skill_tree_new (lit '' mAGe '') = Inr (Known Mage)"
    by (simp add: skill_tree_new_def MAX_SKILL_TREE_NAME_LEN_def tree_char_ok_def KNOWN_ALL_def
        text_eval Let_def)
  with skill_tree_names [of "lit '' mAGe ''"] show ?thesis by fastforce
qed

text \<open>
  A player name is accepted exactly when, once trimmed, it has 1 to 24 bytes, all of them
  ASCII letters, digits or one of \<open>_-\<close>; the name is the trimmed input, and its text is accepted
  again as the same name.
\<close>

lemma player_names:
  "(player_name_new raw = Inr n) \<longleftrightarrow> (n = PlayerName (trim raw) \<and> trim raw \<noteq> [] \<and>
     str_len (trim raw) \<le> 24 \<and> list_all name_char_ok (trim raw)) \<and>
     player_name_new (player_name_as_str n) = Inr n"
proof -
  have "(player_name_new raw = Inr n) \<longleftrightarrow> (n = PlayerName (trim raw) \<and> trim raw \<noteq> [] \<and>
     str_len (trim raw) \<le> 24 \<and> list_all name_char_ok (trim raw))"
    by (auto simp: player_name_new_def Let_def MAX_PLAYER_NAME_LEN_def find_not_None
        find_Some_iff list_all_length split: option.splits)
  then show ?thesis using player_name_new_wf player_name_roundtrip by blast
qed

text \<open>Applying a list of choices in order, stopping at the first rejected one.\<close>

primrec apply_choices :: "skill_choice list \<Rightarrow> loadout_progress \<Rightarrow> (domain_error fault + unit) \<times> loadout_progress" where
  "apply_choices [] p = (Inr (), p)"
| "apply_choices (c # cs) p =
     (case loadout_apply p c of (Inl e, p') \<Rightarrow> (Inl e, p') | (Inr _, p') \<Rightarrow> apply_choices cs p')"

definition tiers_of :: "skill_tree \<Rightarrow> skill_choice list \<Rightarrow> nat list" where
  "tiers_of t cs = map (\<lambda>c. unat (tier c)) (filter (\<lambda>c. tree c = t) cs)"

lemma apply_choices_from:
  assumes "wf_loadout p" "list_all wf_skill_choice cs"
  shows "(fst (apply_choices cs p) = Inr ()) \<longleftrightarrow>
    (\<forall>t. tiers_of t cs = [Suc (unat (tier_for p t))..<Suc (unat (tier_for p t) + length (tiers_of t cs))])"
  using assms
proof (induction cs arbitrary: p)
  case Nil
  then show ?case by (simp add: tiers_of_def)
next
  case (Cons c cs)
  have lt: "unat (tier_for p (tree c) + 1) = Suc (unat (tier_for p (tree c)))"
    using Cons.prems(1) by (intro tier_succ(2)) (simp add: wf_loadout_def)
  have cons: "tiers_of t (c # cs) = (if tree c = t then unat (tier c) # tiers_of t cs else tiers_of t cs)" for t
    by (simp add: tiers_of_def)
  show ?case
  proof (cases "tier c = tier_for p (tree c) + 1")
    case True
    let ?p = "snd (loadout_apply p c)"
    have app: "loadout_apply p c = (Inr (), ?p)"
      using Cons.prems(1) True by (simp add: loadout_apply_def can_apply_wf)
    have tf: "tier_for ?p t = (if t = tree c then tier c else tier_for p t)" for t
      using loadout_apply_Inr(2) [OF Cons.prems(1) app] .
    have step: "apply_choices (c # cs) p = apply_choices cs ?p" by (cases "loadout_apply p c") (use app in auto)
    have "wf_loadout ?p" using Cons.prems by (intro loadout_apply_wf) auto
    then have "(fst (apply_choices cs ?p) = Inr ()) \<longleftrightarrow>
      (\<forall>t. tiers_of t cs = [Suc (unat (tier_for ?p t))..<Suc (unat (tier_for ?p t) + length (tiers_of t cs))])"
      using Cons.prems(2) by (intro Cons.IH) simp_all
    also have "\<dots> \<longleftrightarrow> (\<forall>t. tiers_of t (c # cs) =
      [Suc (unat (tier_for p t))..<Suc (unat (tier_for p t) + length (tiers_of t (c # cs)))])"
    proof (intro all_cong1)
      fix t
      show "(tiers_of t cs = [Suc (unat (tier_for ?p t))..<Suc (unat (tier_for ?p t) + length (tiers_of t cs))]) \<longleftrightarrow>
        (tiers_of t (c # cs) =
          [Suc (unat (tier_for p t))..<Suc (unat (tier_for p t) + length (tiers_of t (c # cs)))])"
        using True lt by (cases "t = tree c") (auto simp: tf cons upt_rec)
    qed
    finally show ?thesis unfolding step .
  next
    case False
    then have "fst (apply_choices (c # cs) p) \<noteq> Inr ()"
      using Cons.prems(1) by (simp add: loadout_apply_def can_apply_wf)
    moreover have "unat (tier c) \<noteq> Suc (unat (tier_for p (tree c)))"
      using False lt by (metis unsigned_word_eqI)
    then have "tiers_of (tree c) (c # cs) \<noteq> [Suc (unat (tier_for p (tree c)))..<Suc (unat (tier_for p (tree c)) +
        length (tiers_of (tree c) (c # cs)))]"
      by (simp add: cons upt_rec)
    ultimately show ?thesis by blast
  qed
qed

text \<open>
  A sequence of valid choices is accepted from an empty loadout exactly when, in every skill
  tree, the tiers come in the order 1, 2, 3, and so on without a gap or a repetition; the trees
  may be interleaved freely, and no tree goes beyond tier 5.
\<close>

lemma loadout_progression:
  assumes "list_all wf_skill_choice cs"
  shows "(fst (apply_choices cs loadout_progress_new) = Inr ()) \<longleftrightarrow>
    (\<forall>t. tiers_of t cs = [1..<Suc (length (tiers_of t cs))] \<and> length (tiers_of t cs) \<le> 5)"
proof -
  have "length (tiers_of t cs) \<le> 5" if "tiers_of t cs = [1..<Suc (length (tiers_of t cs))]" for t
  proof (rule ccontr)
    assume "\<not> length (tiers_of t cs) \<le> 5"
    then have "6 \<in> set (tiers_of t cs)" by (subst that) auto
    then obtain c where "c \<in> set cs" "unat (tier c) = 6" by (auto simp: tiers_of_def)
    with assms show False
      by (auto simp: list_all_iff wf_skill_choice_def MAX_SKILL_TIER_def word_le_nat_alt)
  qed
  then show ?thesis using apply_choices_from [OF wf_loadout_new assms] by auto
qed

definition sample_choices :: "skill_choice list" where
  "sample_choices = [\<lparr>tree = Known Mage, tier = 1\<rparr>, \<lparr>tree = Known Rogue, tier = 1\<rparr>, \<lparr>tree = Known Mage, tier = 2\<rparr>]"

lemma loadout_progression_example:
  "tiers_of (Known Mage) sample_choices = [1, 2] \<and>
   fst (apply_choices sample_choices loadout_progress_new) = Inr ()"
proof -
  have "list_all wf_skill_choice sample_choices"
    by (simp add: sample_choices_def wf_skill_choice_def MAX_SKILL_TIER_def)
  from loadout_progression [OF this] show ?thesis
    by (auto simp: sample_choices_def tiers_of_def upt_rec)
qed

text \<open>
  The counters of a player record saturate: after \<open>w\<close> wins, \<open>l\<close> losses and \<open>n\<close> no-contests
  of a new record each counter is the number of events, capped at 65535. Their sum is a plain
  addition: \<open>total_games\<close> returns it while it fits 16 bits and overflows otherwise (a panic
  where overflow checks are on).
\<close>

lemma record_counters:
  fixes w l n :: nat
  defines "r \<equiv> (record_no_contest ^^ n) ((record_loss ^^ l) ((record_win ^^ w) player_record_new))"
  shows "unat (wins r) = min w 65535 \<and> unat (losses r) = min l 65535 \<and>
    unat (no_contests r) = min n 65535 \<and>
    (total_games r :: unit fault + u16) =
      (if min w 65535 + min l 65535 + min n 65535 < 65536 then
         Inr (of_nat (min w 65535 + min l 65535 + min n 65535)) else Inl Panic)"
proof -
  have w: "unat (wins ((record_win ^^ w) player_record_new)) = min w 65535 \<and>
    losses ((record_win ^^ w) player_record_new) = 0 \<and>
    no_contests ((record_win ^^ w) player_record_new) = 0" for w
    by (induction w) (simp_all add: record_win_def player_record_new_def unat_sat_add min_def)
  have l: "unat (losses ((record_loss ^^ l) q)) = min (l + unat (losses q)) 65535 \<and>
    wins ((record_loss ^^ l) q) = wins q \<and> no_contests ((record_loss ^^ l) q) = no_contests q" for l q
    using unat_u16_le [of "losses q"]
    by (induction l) (simp_all add: record_loss_def unat_sat_add min_def U16_MAX_def)
  have n: "unat (no_contests ((record_no_contest ^^ n) q)) = min (n + unat (no_contests q)) 65535 \<and>
    wins ((record_no_contest ^^ n) q) = wins q \<and> losses ((record_no_contest ^^ n) q) = losses q" for n q
    using unat_u16_le [of "no_contests q"]
    by (induction n) (simp_all add: record_no_contest_def unat_sat_add min_def U16_MAX_def)
  have c: "unat (wins r) = min w 65535" "unat (losses r) = min l 65535" "unat (no_contests r) = min n 65535"
    using w [of w] by (simp_all add: r_def n l)
  moreover have "(total_games r :: unit fault + u16) =
      (if min w 65535 + min l 65535 + min n 65535 < 65536 then
         Inr (of_nat (min w 65535 + min l 65535 + min n 65535)) else Inl Panic)"
  proof (cases "unat (wins r) + unat (losses r) + unat (no_contests r) < 65536")
    case True
    then obtain k :: u16 where "(total_games r :: unit fault + u16) = Inr k"
      "unat k = unat (wins r) + unat (losses r) + unat (no_contests r)"
      by (rule total_games_ok)
    then have "(total_games r :: unit fault + u16) = Inr (of_nat (min w 65535 + min l 65535 + min n 65535))"
      using c by (metis of_nat_unat ucast_id)
    with True c show ?thesis by simp
  next
    case False
    then show ?thesis using c
      by (auto simp: total_games_def checked_add_def unat_word_ariths)
  qed
  ultimately show ?thesis by blast
qed

end
