(* ===== verification/Machine.thy ===== *)
theory Machine
  imports Prelude
begin

text \<open>
  Components with a mutable state are modelled as step functions
  \<open>op \<Rightarrow> state \<Rightarrow> result \<times> state\<close>: a method on \<open>&mut self\<close> that returns a
  \<open>Result\<close>. The locale \<open>machine\<close> is what the callers of such a component rely on: every
  operation keeps the invariant, and an operation that is rejected leaves the state as it
  was. Its lemmas lift both to arbitrary sequences of operations.
\<close>

primrec run :: "('op \<Rightarrow> 's \<Rightarrow> 'r \<times> 's) \<Rightarrow> 'op list \<Rightarrow> 's \<Rightarrow> 'r list \<times> 's" where
  "run step [] s = ([], s)"
| "run step (x # xs) s =
     (let (r, s') = step x s; (rs, s'') = run step xs s' in (r # rs, s''))"

text \<open>The operations of a sequence that are accepted when it runs from \<open>s\<close>.\<close>

primrec accepted ::
  "('op \<Rightarrow> 's \<Rightarrow> 'r \<times> 's) \<Rightarrow> ('r \<Rightarrow> bool) \<Rightarrow> 'op list \<Rightarrow> 's \<Rightarrow> 'op list" where
  "accepted step rejected [] s = []"
| "accepted step rejected (x # xs) s =
     (if rejected (fst (step x s)) then accepted step rejected xs (snd (step x s))
      else x # accepted step rejected xs (snd (step x s)))"

lemma run_append: "snd (run step (xs @ ys) s) = snd (run step ys (snd (run step xs s)))"
  by (induction xs arbitrary: s) (auto simp: Let_def case_prod_unfold)

lemma run_Cons_snd [simp]: "snd (run step (x # xs) s) = snd (run step xs (snd (step x s)))"
  by (simp add: Let_def case_prod_unfold)

declare run.simps(2) [simp del]

locale machine =
  fixes step :: "'op \<Rightarrow> 's \<Rightarrow> 'r \<times> 's"
    and valid_op :: "'op \<Rightarrow> bool"
    and inv :: "'s \<Rightarrow> bool"
    and rejected :: "'r \<Rightarrow> bool"
  assumes step_inv: "inv s \<Longrightarrow> valid_op x \<Longrightarrow> inv (snd (step x s))"
    and rejected_unchanged:
      "inv s \<Longrightarrow> valid_op x \<Longrightarrow> rejected (fst (step x s)) \<Longrightarrow> snd (step x s) = s"
begin

lemma run_inv: "inv s \<Longrightarrow> list_all valid_op xs \<Longrightarrow> inv (snd (run step xs s))"
  by (induction xs arbitrary: s) (auto intro: step_inv)

text \<open>Rejected operations are invisible: dropping them does not change the final state.\<close>

lemma run_accepted:
  "inv s \<Longrightarrow> list_all valid_op xs \<Longrightarrow>
    snd (run step (accepted step rejected xs s) s) = snd (run step xs s)"
proof (induction xs arbitrary: s)
  case Nil
  then show ?case by simp
next
  case (Cons x xs)
  then have "inv (snd (step x s))" by (auto intro: step_inv)
  with Cons show ?case by (auto simp: rejected_unchanged)
qed

end

end
