(* ===== verification/Lobby.thy ===== *)
theory Lobby
  imports Domain Machine
begin

text \<open>
  The crate \<open>game_lobby\<close>: a lobby is a map of players and a phase, open or counting down
  to the launch with a locked roster. Methods on \<open>&mut self\<close> return their \<open>Result\<close>
  and the new lobby. \<open>lobby_inv\<close> is the invariant: players are stored under their own id,
  a ready player has a team, and during the countdown the locked roster is the roster of the
  present players, all ready, with both teams represented.
\<close>

section \<open>State, events, errors\<close>

record lobby_player =
  lp_player_id :: player_id
  lp_player_name :: player_name
  lp_record :: player_record
  lp_team :: "team_side option"
  lp_ready_state :: ready_state

datatype lobby_phase = Open | LaunchCountdown u8 "team_assignment list"

datatype lobby_event =
    PlayerJoined player_id
  | PlayerLeft player_id
  | TeamSelected player_id team_side bool
  | ReadyChanged player_id ready_state
  | LaunchCountdownStarted u8 "team_assignment list"
  | LaunchCountdownTick u8
  | MatchLaunchReady "team_assignment list"
  | MatchAborted player_id player_name rstring

datatype lobby_error =
    DuplicatePlayer player_id
  | PlayerMissing player_id
  | TeamRequiredForReady player_id
  | LobbyLocked
  | CountdownNotRunning

record lobby =
  lobby_ident :: lobby_id
  launch_countdown_seconds :: u8
  lobby_players :: "(player_id, lobby_player) btree_map"
  lobby_phase :: lobby_phase

section \<open>Operations\<close>

definition lobby_new :: "lobby_id \<Rightarrow> u8 \<Rightarrow> lobby" where
  "lobby_new ident seconds =
     \<lparr>lobby_ident = ident, launch_countdown_seconds = seconds, lobby_players = [],
      lobby_phase = Open\<rparr>"

definition ensure_open :: "lobby \<Rightarrow> lobby_error + unit" where
  "ensure_open l = (case lobby_phase l of Open \<Rightarrow> Inr () | _ \<Rightarrow> Inl LobbyLocked)"

text \<open>The early returns of the counting loop, then the final test.\<close>

fun can_start_countdown_from :: "lobby_player list \<Rightarrow> nat \<Rightarrow> nat \<Rightarrow> bool" where
  "can_start_countdown_from [] team_a_count team_b_count =
     (team_a_count > 0 \<and> team_b_count > 0)"
| "can_start_countdown_from (p # ps) team_a_count team_b_count =
     (if \<not> is_ready (lp_ready_state p) then False
      else case lp_team p of
        Some TeamA \<Rightarrow> can_start_countdown_from ps (team_a_count + 1) team_b_count
      | Some TeamB \<Rightarrow> can_start_countdown_from ps team_a_count (team_b_count + 1)
      | None \<Rightarrow> False)"

definition can_start_countdown :: "lobby \<Rightarrow> bool" where
  "can_start_countdown l = can_start_countdown_from (bt_values (lobby_players l)) 0 0"

definition locked_roster :: "lobby \<Rightarrow> team_assignment list" where
  "locked_roster l =
     List.map_filter (\<lambda>p. map_option (\<lambda>team.
         \<lparr>ta_player_id = lp_player_id p, ta_player_name = lp_player_name p,
          ta_record = lp_record p, ta_team = team\<rparr>) (lp_team p))
       (bt_values (lobby_players l))"

definition maybe_start_countdown :: "lobby \<Rightarrow> lobby_event list \<times> lobby" where
  "maybe_start_countdown l =
     (if lobby_phase l \<noteq> Open \<or> \<not> can_start_countdown l then ([], l)
      else
        let roster = locked_roster l in
        ([LaunchCountdownStarted (launch_countdown_seconds l) roster],
         l\<lparr>lobby_phase := LaunchCountdown (launch_countdown_seconds l) roster\<rparr>))"

definition add_player ::
  "player_id \<Rightarrow> player_name \<Rightarrow> player_record \<Rightarrow> lobby \<Rightarrow> (lobby_error + lobby_event) \<times> lobby" where
  "add_player pid name rec l =
     (case ensure_open l of
        Inl e \<Rightarrow> (Inl e, l)
      | Inr _ \<Rightarrow>
          if bt_contains (lobby_players l) pid then (Inl (DuplicatePlayer pid), l)
          else
            (Inr (PlayerJoined pid),
             l\<lparr>lobby_players := bt_insert pid
                 \<lparr>lp_player_id = pid, lp_player_name = name, lp_record = rec,
                  lp_team = None, lp_ready_state = NotReady\<rparr> (lobby_players l)\<rparr>))"

definition select_team ::
  "player_id \<Rightarrow> team_side \<Rightarrow> lobby \<Rightarrow> (lobby_error + lobby_event list) \<times> lobby" where
  "select_team pid team l =
     (case ensure_open l of
        Inl e \<Rightarrow> (Inl e, l)
      | Inr _ \<Rightarrow>
          (case bt_get (lobby_players l) pid of
             None \<Rightarrow> (Inl (PlayerMissing pid), l)
           | Some player \<Rightarrow>
               let ready_reset = is_ready (lp_ready_state player);
                   player' = player\<lparr>lp_team := Some team, lp_ready_state := NotReady\<rparr>;
                   l1 = l\<lparr>lobby_players := bt_insert pid player' (lobby_players l)\<rparr>;
                   (started, l2) = maybe_start_countdown l1 in
               (Inr (TeamSelected pid team ready_reset # started), l2)))"

definition set_ready ::
  "player_id \<Rightarrow> ready_state \<Rightarrow> lobby \<Rightarrow> (lobby_error + lobby_event list) \<times> lobby" where
  "set_ready pid ready l =
     (case ensure_open l of
        Inl e \<Rightarrow> (Inl e, l)
      | Inr _ \<Rightarrow>
          (case bt_get (lobby_players l) pid of
             None \<Rightarrow> (Inl (PlayerMissing pid), l)
           | Some player \<Rightarrow>
               if lp_team player = None then (Inl (TeamRequiredForReady pid), l)
               else
                 let player' = player\<lparr>lp_ready_state := ready\<rparr>;
                     l1 = l\<lparr>lobby_players := bt_insert pid player' (lobby_players l)\<rparr>;
                     (started, l2) = maybe_start_countdown l1 in
                 (Inr (ReadyChanged pid ready # started), l2)))"

definition disconnect_message :: "player_name \<Rightarrow> rstring" where
  "disconnect_message name = player_name_as_str name @ lit '' has disconnected. Game is over.''"

definition leave_or_disconnect_player ::
  "player_id \<Rightarrow> lobby \<Rightarrow> (lobby_error + lobby_event) \<times> lobby" where
  "leave_or_disconnect_player pid l =
     (case lobby_phase l of
        Open \<Rightarrow>
          (case bt_get (lobby_players l) pid of
             None \<Rightarrow> (Inl (PlayerMissing pid), l)
           | Some _ \<Rightarrow>
               (Inr (PlayerLeft pid), l\<lparr>lobby_players := bt_remove pid (lobby_players l)\<rparr>))
      | LaunchCountdown _ _ \<Rightarrow>
          (case bt_get (lobby_players l) pid of
             None \<Rightarrow> (Inl (PlayerMissing pid), l)
           | Some removed \<Rightarrow>
               let remaining = bt_remove pid (lobby_players l);
                   unready = bt_map_values (\<lambda>survivor. survivor\<lparr>lp_ready_state := NotReady\<rparr>) remaining in
               (Inr (MatchAborted pid (lp_player_name removed)
                       (disconnect_message (lp_player_name removed))),
                l\<lparr>lobby_players := unready, lobby_phase := Open\<rparr>)))"

definition advance_countdown :: "lobby \<Rightarrow> (lobby_error + lobby_event) \<times> lobby" where
  "advance_countdown l =
     (case lobby_phase l of
        Open \<Rightarrow> (Inl CountdownNotRunning, l)
      | LaunchCountdown seconds_remaining roster \<Rightarrow>
          if seconds_remaining > 1 then
            (Inr (LaunchCountdownTick (seconds_remaining - 1)),
             l\<lparr>lobby_phase := LaunchCountdown (seconds_remaining - 1) roster\<rparr>)
          else
            (Inr (MatchLaunchReady roster),
             l\<lparr>lobby_players :=
                 fold (\<lambda>entry ps. bt_remove (ta_player_id entry) ps) roster (lobby_players l),
               lobby_phase := Open\<rparr>))"

definition player_count :: "lobby \<Rightarrow> nat" where
  "player_count l = length (lobby_players l)"

section \<open>The lobby as a machine\<close>

datatype lobby_op =
    AddPlayer player_id player_name player_record
  | SelectTeam player_id team_side
  | SetReady player_id ready_state
  | LeaveOrDisconnect player_id
  | AdvanceCountdown

definition single :: "('e + 'a) \<times> 's \<Rightarrow> ('e + 'a list) \<times> 's" where
  "single = map_prod (map_sum id (\<lambda>a. [a])) id"

fun lobby_step :: "lobby_op \<Rightarrow> lobby \<Rightarrow> (lobby_error + lobby_event list) \<times> lobby" where
  "lobby_step (AddPlayer pid name rec) l = single (add_player pid name rec l)"
| "lobby_step (SelectTeam pid team) l = select_team pid team l"
| "lobby_step (SetReady pid ready) l = set_ready pid ready l"
| "lobby_step (LeaveOrDisconnect pid) l = single (leave_or_disconnect_player pid l)"
| "lobby_step AdvanceCountdown l = single (advance_countdown l)"

section \<open>Roster and readiness\<close>

lemma can_start_countdown_from_iff:
  "can_start_countdown_from ps a b \<longleftrightarrow>
     (\<forall>p \<in> set ps. is_ready (lp_ready_state p) \<and> lp_team p \<noteq> None) \<and>
     (a > 0 \<or> (\<exists>p \<in> set ps. lp_team p = Some TeamA)) \<and>
     (b > 0 \<or> (\<exists>p \<in> set ps. lp_team p = Some TeamB))"
  by (induction ps a b rule: can_start_countdown_from.induct)
    (auto split: option.splits team_side.splits)

lemma can_start_countdown_iff:
  "can_start_countdown l \<longleftrightarrow>
     (\<forall>p \<in> set (bt_values (lobby_players l)). is_ready (lp_ready_state p) \<and> lp_team p \<noteq> None) \<and>
     (\<exists>p \<in> set (bt_values (lobby_players l)). lp_team p = Some TeamA) \<and>
     (\<exists>p \<in> set (bt_values (lobby_players l)). lp_team p = Some TeamB)"
  by (simp add: can_start_countdown_def can_start_countdown_from_iff)

lemma can_start_countdown_all:
  "can_start_countdown l \<longleftrightarrow>
     (\<forall>p \<in> set (bt_values (lobby_players l)). is_ready (lp_ready_state p) \<and> lp_team p \<noteq> None) \<and>
     (\<forall>t. \<exists>p \<in> set (bt_values (lobby_players l)). lp_team p = Some t)"
  unfolding can_start_countdown_iff all_team_side by (rule refl)

lemma phase_irrelevant [simp]:
  "locked_roster (l\<lparr>lobby_phase := ph\<rparr>) = locked_roster l"
  "can_start_countdown (l\<lparr>lobby_phase := ph\<rparr>) = can_start_countdown l"
  by (simp_all add: locked_roster_def can_start_countdown_def)

lemma in_locked_roster:
  "ta \<in> set (locked_roster l) \<longleftrightarrow>
     (\<exists>p \<in> set (bt_values (lobby_players l)). lp_team p = Some (ta_team ta) \<and>
        ta_player_id ta = lp_player_id p \<and> ta_player_name ta = lp_player_name p \<and>
        ta_record ta = lp_record p)"
  by (cases ta) (force simp: locked_roster_def List.map_filter_def)

definition player_ok :: "player_id \<Rightarrow> lobby_player \<Rightarrow> bool" where
  "player_ok k p \<longleftrightarrow> lp_player_id p = k \<and> wf_player_id k \<and> wf_player_name (lp_player_name p) \<and>
     wf_record (lp_record p) \<and> (is_ready (lp_ready_state p) \<longrightarrow> lp_team p \<noteq> None)"

fun phase_ok :: "lobby \<Rightarrow> lobby_phase \<Rightarrow> bool" where
  "phase_ok l Open = True"
| "phase_ok l (LaunchCountdown seconds roster) =
     (seconds \<le> launch_countdown_seconds l \<and> can_start_countdown l \<and> roster = locked_roster l)"

definition lobby_inv :: "lobby \<Rightarrow> bool" where
  "lobby_inv l \<longleftrightarrow> bt_inv (lobby_players l) \<and>
     (\<forall>k p. bt_get (lobby_players l) k = Some p \<longrightarrow> player_ok k p) \<and> phase_ok l (lobby_phase l)"

lemma phase_ok_phase [simp]: "phase_ok (l\<lparr>lobby_phase := ph\<rparr>) = phase_ok l"
  by (rule ext, rename_tac q, case_tac q) simp_all

lemma lobby_inv_new: "lobby_inv (lobby_new ident seconds)"
  by (simp add: lobby_inv_def lobby_new_def btree.inv_empty)

lemma lobby_inv_players:
  assumes "lobby_inv l" "lobby_phase l = Open" "bt_inv ps"
    "\<And>k p. bt_get ps k = Some p \<Longrightarrow> player_ok k p"
  shows "lobby_inv (l\<lparr>lobby_players := ps\<rparr>)"
  using assms by (simp add: lobby_inv_def)

lemma lobby_inv_maybe_start:
  "lobby_inv l \<Longrightarrow> lobby_inv (snd (maybe_start_countdown l))"
  by (auto simp: maybe_start_countdown_def lobby_inv_def Let_def)

text \<open>With the countdown running, the roster lists every present player once, in id order.\<close>

lemma roster_ids:
  assumes "\<forall>p \<in> set (map snd ps). lp_team p \<noteq> None" "\<forall>(k, p) \<in> set ps. lp_player_id p = k"
  shows "map ta_player_id (List.map_filter (\<lambda>p. map_option (\<lambda>team.
         \<lparr>ta_player_id = lp_player_id p, ta_player_name = lp_player_name p,
          ta_record = lp_record p, ta_team = team\<rparr>) (lp_team p)) (map snd ps)) = map fst ps"
  using assms by (induction ps) (auto simp: List.map_filter_simps)

lemma locked_roster_ids:
  assumes "lobby_inv l" "can_start_countdown l"
  shows "map ta_player_id (locked_roster l) = map fst (lobby_players l)"
    and "distinct (map ta_player_id (locked_roster l))"
proof -
  have inv: "bt_inv (lobby_players l)" using assms(1) by (simp add: lobby_inv_def)
  then have "\<forall>(k, p) \<in> set (lobby_players l). lp_player_id p = k"
    using assms(1) by (auto simp: lobby_inv_def player_ok_def btree.lookup_mem)
  moreover have "\<forall>p \<in> set (map snd (lobby_players l)). lp_team p \<noteq> None"
    using assms(2) by (simp add: can_start_countdown_iff bt_values_def)
  ultimately show ids: "map ta_player_id (locked_roster l) = map fst (lobby_players l)"
    unfolding locked_roster_def bt_values_def by (rule roster_ids [rotated])
  show "distinct (map ta_player_id (locked_roster l))"
    unfolding ids using inv by (rule btree.entries_distinct)
qed

lemma locked_roster_teams:
  assumes "can_start_countdown l"
  shows "\<exists>ta \<in> set (locked_roster l). ta_team ta = t"
proof -
  obtain p where "p \<in> set (bt_values (lobby_players l))" "lp_team p = Some t"
    using assms by (cases t) (auto simp: can_start_countdown_iff)
  then have "\<lparr>ta_player_id = lp_player_id p, ta_player_name = lp_player_name p,
      ta_record = lp_record p, ta_team = t\<rparr> \<in> set (locked_roster l)"
    by (auto simp: in_locked_roster)
  then show ?thesis by (rule bexI [rotated]) simp
qed

section \<open>The invariant\<close>

fun valid_lobby_op :: "lobby_op \<Rightarrow> bool" where
  "valid_lobby_op (AddPlayer pid name rec) =
     (wf_player_id pid \<and> wf_player_name name \<and> wf_record rec)"
| "valid_lobby_op _ = True"

lemma ensure_open_Inr [simp]: "ensure_open l = Inr u \<longleftrightarrow> lobby_phase l = Open"
  by (auto simp: ensure_open_def split: lobby_phase.splits)

lemma ensure_open_Inl [simp]: "ensure_open l = Inl e \<longleftrightarrow> lobby_phase l \<noteq> Open \<and> e = LobbyLocked"
  by (auto simp: ensure_open_def split: lobby_phase.splits)

lemma snd_single [simp]: "snd (single r) = snd r"
  by (simp add: single_def)

lemma isl_single [simp]: "isl (fst (single r)) = isl (fst r)"
  by (cases r; cases "fst r") (auto simp: single_def)

lemma add_player_inv:
  assumes "lobby_inv l" "wf_player_id pid" "wf_player_name name" "wf_record rec"
  shows "lobby_inv (snd (add_player pid name rec l))"
proof (cases "lobby_phase l = Open \<and> \<not> bt_contains (lobby_players l) pid")
  case True
  have "lobby_inv (l\<lparr>lobby_players := bt_insert pid
      \<lparr>lp_player_id = pid, lp_player_name = name, lp_record = rec, lp_team = None,
       lp_ready_state = NotReady\<rparr> (lobby_players l)\<rparr>)"
    using assms True
    by (intro lobby_inv_players)
      (auto simp: lobby_inv_def bt_inv_ops bt_get_ops player_ok_def is_ready_def split: if_splits)
  with True show ?thesis by (simp add: add_player_def ensure_open_def)
next
  case False
  with assms(1) show ?thesis by (auto simp: add_player_def split: sum.splits)
qed

lemma replace_player_inv:
  assumes "lobby_inv l" "lobby_phase l = Open" "player_ok pid player'"
  shows "lobby_inv (snd (maybe_start_countdown
    (l\<lparr>lobby_players := bt_insert pid player' (lobby_players l)\<rparr>)))"
  using assms
  by (intro lobby_inv_maybe_start lobby_inv_players)
    (auto simp: lobby_inv_def bt_inv_ops bt_get_ops split: if_splits)

lemma select_team_inv: "lobby_inv l \<Longrightarrow> lobby_inv (snd (select_team pid team l))"
  by (auto simp: select_team_def Let_def case_prod_unfold split: sum.splits option.splits
      intro!: replace_player_inv)
    (auto simp: lobby_inv_def player_ok_def is_ready_def)

lemma set_ready_inv: "lobby_inv l \<Longrightarrow> lobby_inv (snd (set_ready pid ready l))"
  by (auto simp: set_ready_def Let_def case_prod_unfold split: sum.splits option.splits
      intro!: replace_player_inv)
    (auto simp: lobby_inv_def player_ok_def)

lemma leave_inv: "lobby_inv l \<Longrightarrow> lobby_inv (snd (leave_or_disconnect_player pid l))"
  by (auto simp: leave_or_disconnect_player_def lobby_inv_def Let_def bt_inv_ops bt_get_ops
      player_ok_def is_ready_def split: lobby_phase.splits option.splits)

lemma remove_all:
  assumes "bt_inv ps"
  shows "bt_inv (fold (\<lambda>e ps. bt_remove (f e) ps) es ps) \<and>
    map_of (fold (\<lambda>e ps. bt_remove (f e) ps) es ps) k = (if k \<in> f ` set es then None else map_of ps k)"
  using assms by (induction es arbitrary: ps) (auto simp: bt_inv_ops bt_get_ops)

lemma advance_countdown_inv: "lobby_inv l \<Longrightarrow> lobby_inv (snd (advance_countdown l))"
proof (cases "lobby_phase l")
  case (LaunchCountdown seconds roster)
  assume l: "lobby_inv l"
  show ?thesis
  proof (cases "1 < seconds")
    case True
    then have "seconds - 1 \<le> seconds"
      by (simp add: word_le_nat_alt word_less_nat_alt unat_sub)
    with True l LaunchCountdown show ?thesis
      by (auto simp: advance_countdown_def lobby_inv_def)
  next
    case False
    with l LaunchCountdown show ?thesis
      using remove_all [of "lobby_players l" ta_player_id roster]
      by (auto simp: advance_countdown_def lobby_inv_def split: if_splits)
  qed
qed (simp add: advance_countdown_def)

section \<open>The contract of a lobby\<close>

lemma lobby_step_inv:
  "lobby_inv l \<Longrightarrow> valid_lobby_op x \<Longrightarrow> lobby_inv (snd (lobby_step x l))"
  by (cases x) (simp_all add: add_player_inv select_team_inv set_ready_inv leave_inv
      advance_countdown_inv)

lemma lobby_step_rejected: "isl (fst (lobby_step x l)) \<Longrightarrow> snd (lobby_step x l) = l"
  by (cases x) (auto simp: add_player_def select_team_def set_ready_def
      leave_or_disconnect_player_def advance_countdown_def Let_def case_prod_unfold
      split: sum.splits option.splits lobby_phase.splits if_splits)

interpretation lobby_machine: machine lobby_step valid_lobby_op lobby_inv isl
  by unfold_locales (auto intro: lobby_step_inv lobby_step_rejected)

lemma advance_launch:
  assumes "lobby_inv l" "lobby_phase l = LaunchCountdown s roster" "\<not> 1 < s"
  shows "advance_countdown l = (Inr (MatchLaunchReady roster), l\<lparr>lobby_players := [], lobby_phase := Open\<rparr>)"
proof -
  let ?ps = "fold (\<lambda>e ps. bt_remove (ta_player_id e) ps) roster (lobby_players l)"
  have inv: "bt_inv (lobby_players l)" "can_start_countdown l" "roster = locked_roster l"
    using assms by (simp_all add: lobby_inv_def)
  then have ids: "ta_player_id ` set roster = fst ` set (lobby_players l)"
    using locked_roster_ids(1) [OF assms(1)] by (metis list.set_map)
  have "map_of ?ps k = None" for k
    using remove_all [OF inv(1), of ta_player_id roster k] ids by (simp add: map_of_eq_None_iff)
  then have "?ps = []" by (metis map_of_eq_empty_iff ext)
  with assms(2,3) show ?thesis by (simp add: advance_countdown_def)
qed

lemma countdown_run:
  "lobby_inv l \<Longrightarrow> lobby_phase l = LaunchCountdown s roster \<Longrightarrow> n = unat s - 1 \<Longrightarrow>
    run lobby_step (replicate (Suc n) AdvanceCountdown) l =
      (map (\<lambda>k. Inr [LaunchCountdownTick (word_of_nat k)]) (rev [1..<Suc n]) @ [Inr [MatchLaunchReady roster]],
       l\<lparr>lobby_players := [], lobby_phase := Open\<rparr>)"
proof (induction n arbitrary: l s)
  case 0
  then have "\<not> 1 < s" by (simp add: word_less_nat_alt)
  with 0 show ?case
    by (simp add: advance_launch single_def run.simps)
next
  case (Suc n)
  then have s: "1 < s" "unat (s - 1) = Suc n" "s - 1 = word_of_nat (Suc n)"
    by (auto simp: word_less_nat_alt unat_sub word_le_nat_alt intro!: unsigned_word_eqI)
  let ?l = "l\<lparr>lobby_phase := LaunchCountdown (s - 1) roster\<rparr>"
  have step: "lobby_step AdvanceCountdown l = (Inr [LaunchCountdownTick (s - 1)], ?l)"
    using Suc.prems s(1) by (simp add: advance_countdown_def single_def)
  have "lobby_inv ?l"
    using advance_countdown_inv [OF Suc.prems(1)] Suc.prems(2) s(1) by (simp add: advance_countdown_def)
  from Suc.IH [OF this, of "s - 1"] have rest:
    "run lobby_step (replicate (Suc n) AdvanceCountdown) ?l =
      (map (\<lambda>k. Inr [LaunchCountdownTick (word_of_nat k)]) (rev [1..<Suc n]) @ [Inr [MatchLaunchReady roster]],
       l\<lparr>lobby_players := [], lobby_phase := Open\<rparr>)"
    by (simp add: s(2))
  have "run lobby_step (AdvanceCountdown # xs) l =
      (Inr [LaunchCountdownTick (s - 1)] # fst (run lobby_step xs ?l), snd (run lobby_step xs ?l))" for xs
    by (simp only: run.simps(2) step Let_def prod.case case_prod_unfold fst_conv snd_conv)
  note first = this [of "replicate (Suc n) AdvanceCountdown", unfolded rest fst_conv snd_conv]
  have "rev [1..<Suc (Suc n)] = Suc n # rev [1..<Suc n]" by simp
  with first show ?case
    by (simp only: replicate_Suc [of "Suc n"] s(3) list.map append_Cons)
qed

text \<open>What a successful team or ready change reports, and when it starts the countdown.\<close>

lemma maybe_start_cases:
  assumes "lobby_phase l = Open"
  shows "maybe_start_countdown l =
    (if can_start_countdown l then
       ([LaunchCountdownStarted (launch_countdown_seconds l) (locked_roster l)],
        l\<lparr>lobby_phase := LaunchCountdown (launch_countdown_seconds l) (locked_roster l)\<rparr>)
     else ([], l))"
  using assms by (simp add: maybe_start_countdown_def Let_def)

section \<open>Properties\<close>

lemma maybe_start_simps [simp]:
  "launch_countdown_seconds (snd (maybe_start_countdown l)) = launch_countdown_seconds l"
  "lobby_players (snd (maybe_start_countdown l)) = lobby_players l"
  by (simp_all add: maybe_start_countdown_def Let_def)

lemma lobby_step_seconds [simp]:
  "launch_countdown_seconds (snd (lobby_step x l)) = launch_countdown_seconds l"
  by (cases x) (auto simp: add_player_def select_team_def set_ready_def
      leave_or_disconnect_player_def advance_countdown_def Let_def case_prod_unfold
      split: sum.splits option.splits lobby_phase.splits if_splits)

lemma lobby_run_seconds [simp]:
  "launch_countdown_seconds (snd (run lobby_step xs l)) = launch_countdown_seconds l"
  by (induction xs arbitrary: l) simp_all

lemma lobby_run_inv:
  "list_all valid_lobby_op xs \<Longrightarrow> lobby_inv (snd (run lobby_step xs (lobby_new ident seconds)))"
  by (rule lobby_machine.run_inv [OF lobby_inv_new])

text \<open>
  C32: Whatever sequence of operations a fresh lobby receives, whenever its launch countdown is
  running every player present is ready and has a team, the locked roster names exactly the
  players present, in id order and each once, with the name, record and team they have, both
  teams are represented, and the seconds left do not exceed the configured countdown.
\<close>

theorem lobby_countdown_safe:
  assumes "list_all valid_lobby_op xs" "l = snd (run lobby_step xs (lobby_new ident seconds))"
    "lobby_phase l = LaunchCountdown s roster"
  shows "map ta_player_id roster = bt_keys (lobby_players l) \<and> distinct (map ta_player_id roster) \<and>
    (\<forall>ta \<in> set roster. \<exists>p. bt_get (lobby_players l) (ta_player_id ta) = Some p \<and>
       is_ready (lp_ready_state p) \<and> lp_team p = Some (ta_team ta) \<and>
       ta_player_name ta = lp_player_name p \<and> ta_record ta = lp_record p) \<and>
    (\<forall>t. \<exists>ta \<in> set roster. ta_team ta = t) \<and> s \<le> seconds"
proof -
  have inv: "lobby_inv l" using lobby_run_inv [OF assms(1)] assms(2) by simp
  then have ph: "can_start_countdown l" "roster = locked_roster l" "s \<le> launch_countdown_seconds l"
    using assms(3) by (simp_all add: lobby_inv_def)
  have "\<exists>p. bt_get (lobby_players l) (ta_player_id ta) = Some p \<and>
       is_ready (lp_ready_state p) \<and> lp_team p = Some (ta_team ta) \<and>
       ta_player_name ta = lp_player_name p \<and> ta_record ta = lp_record p" if ta: "ta \<in> set roster" for ta
  proof -
    obtain p where p: "p \<in> set (bt_values (lobby_players l))" "lp_team p = Some (ta_team ta)"
      "ta_player_id ta = lp_player_id p" "ta_player_name ta = lp_player_name p"
      "ta_record ta = lp_record p"
      using ta ph(2) by (auto simp: in_locked_roster)
    moreover from p(1) obtain k where "bt_get (lobby_players l) k = Some p"
      using inv by (auto simp: bt_values_mem lobby_inv_def)
    moreover from this have "k = lp_player_id p" using inv by (auto simp: lobby_inv_def player_ok_def)
    moreover have "is_ready (lp_ready_state p)" using ph(1) p(1) by (simp add: can_start_countdown_iff)
    ultimately show ?thesis by auto
  qed
  moreover have "launch_countdown_seconds l = seconds" by (simp add: assms(2) lobby_new_def)
  ultimately show ?thesis
    using locked_roster_ids [OF inv ph(1)] locked_roster_teams [OF ph(1)] ph(2,3)
    by (auto simp: bt_keys_def)
qed

text \<open>A concrete run, used to exercise the theorems: two players get ready on opposite teams.\<close>

definition sample_lobby_ops :: "lobby_op list" where
  "sample_lobby_ops =
     [AddPlayer (PlayerId 1) (PlayerName (lit ''Alice'')) player_record_new,
      AddPlayer (PlayerId 2) (PlayerName (lit ''Bob'')) player_record_new,
      SelectTeam (PlayerId 1) TeamA, SelectTeam (PlayerId 2) TeamB,
      SetReady (PlayerId 1) Ready, SetReady (PlayerId 2) Ready]"

definition sample_lobby :: lobby where
  "sample_lobby = snd (run lobby_step sample_lobby_ops (lobby_new (LobbyId 1) 3))"

lemmas lobby_eval = single_def add_player_def select_team_def set_ready_def
  leave_or_disconnect_player_def maybe_start_countdown_def can_start_countdown_def
  locked_roster_def lobby_new_def ensure_open_def bt_contains_def bt_values_def is_ready_def
  less_player_id_def less_eq_player_id_def List.map_filter_def

lemma valid_sample_ops: "list_all valid_lobby_op sample_lobby_ops"
  by (simp add: sample_lobby_ops_def wf_player_id_def wf_player_name_def name_char_ok_def
      MAX_PLAYER_NAME_LEN_def text_eval)

lemma sample_lobby_eq:
  "sample_lobby = \<lparr>lobby_ident = LobbyId 1, launch_countdown_seconds = 3,
     lobby_players =
       [(PlayerId 1, \<lparr>lp_player_id = PlayerId 1, lp_player_name = PlayerName (lit ''Alice''),
          lp_record = player_record_new, lp_team = Some TeamA, lp_ready_state = Ready\<rparr>),
        (PlayerId 2, \<lparr>lp_player_id = PlayerId 2, lp_player_name = PlayerName (lit ''Bob''),
          lp_record = player_record_new, lp_team = Some TeamB, lp_ready_state = Ready\<rparr>)],
     lobby_phase = LaunchCountdown 3 sample_roster\<rparr>"
  by (simp add: sample_lobby_def sample_lobby_ops_def lobby_eval sample_roster_def Let_def)

theorem lobby_countdown_safe_witness:
  "distinct (map ta_player_id sample_roster) \<and> (\<forall>t. \<exists>ta \<in> set sample_roster. ta_team ta = t)"
  using lobby_countdown_safe [OF valid_sample_ops refl, of "LobbyId 1" 3 3 sample_roster]
  unfolding sample_lobby_def [symmetric] sample_lobby_eq lobby.simps by blast

text \<open>
  A rejected operation is invisible: the final state of any run of a fresh lobby is the
  final state of the run in which only the accepted operations are made.
\<close>

lemma lobby_rejected_invisible:
  assumes "list_all valid_lobby_op xs"
  shows "snd (run lobby_step xs (lobby_new ident seconds)) =
    snd (run lobby_step (accepted lobby_step isl xs (lobby_new ident seconds)) (lobby_new ident seconds))"
  using lobby_machine.run_accepted [OF lobby_inv_new assms] by simp

lemma lobby_rejected_invisible_example:
  "snd (run lobby_step (sample_lobby_ops @ [SetReady (PlayerId 1) NotReady]) (lobby_new (LobbyId 1) 3)) =
   snd (run lobby_step sample_lobby_ops (lobby_new (LobbyId 1) 3))"
proof -
  have "accepted lobby_step isl (sample_lobby_ops @ [SetReady (PlayerId 1) NotReady])
      (lobby_new (LobbyId 1) 3) = sample_lobby_ops"
    by (simp add: sample_lobby_ops_def lobby_eval Let_def)
  then show ?thesis
    using lobby_rejected_invisible
      [of "sample_lobby_ops @ [SetReady (PlayerId 1) NotReady]" "LobbyId 1" 3] valid_sample_ops
    by simp
qed

lemma select_team_Inr:
  assumes "select_team pid team l = (Inr evs, l')"
  obtains p where "lobby_phase l = Open" "bt_get (lobby_players l) pid = Some p"
    "evs = TeamSelected pid team (is_ready (lp_ready_state p)) # fst (maybe_start_countdown
      (l\<lparr>lobby_players := bt_insert pid (p\<lparr>lp_team := Some team, lp_ready_state := NotReady\<rparr>)
         (lobby_players l)\<rparr>))"
    "l' = snd (maybe_start_countdown
      (l\<lparr>lobby_players := bt_insert pid (p\<lparr>lp_team := Some team, lp_ready_state := NotReady\<rparr>)
         (lobby_players l)\<rparr>))"
  using assms by (auto simp: select_team_def case_prod_unfold Let_def split: sum.splits option.splits)

lemma set_ready_Inr:
  assumes "set_ready pid ready l = (Inr evs, l')"
  obtains p where "lobby_phase l = Open" "bt_get (lobby_players l) pid = Some p" "lp_team p \<noteq> None"
    "evs = ReadyChanged pid ready # fst (maybe_start_countdown
      (l\<lparr>lobby_players := bt_insert pid (p\<lparr>lp_ready_state := ready\<rparr>) (lobby_players l)\<rparr>))"
    "l' = snd (maybe_start_countdown
      (l\<lparr>lobby_players := bt_insert pid (p\<lparr>lp_ready_state := ready\<rparr>) (lobby_players l)\<rparr>))"
  using assms by (auto simp: set_ready_def case_prod_unfold Let_def
      split: sum.splits option.splits if_splits)

text \<open>
  In an open lobby an accepted team or ready change starts the countdown exactly when
  every player present is then ready and has a team, with both teams represented. When it
  starts, it does so with the configured seconds and announces the roster it locks.
\<close>

lemma lobby_start_exact:
  assumes "x = SelectTeam pid team \<or> x = SetReady pid ready"
    "lobby_step x l = (Inr evs, l')"
  shows "(lobby_phase l' \<noteq> Open \<longleftrightarrow>
      (\<forall>p \<in> set (bt_values (lobby_players l')). is_ready (lp_ready_state p) \<and> lp_team p \<noteq> None) \<and>
      (\<forall>t. \<exists>p \<in> set (bt_values (lobby_players l')). lp_team p = Some t)) \<and>
    (lobby_phase l' \<noteq> Open \<longrightarrow>
      lobby_phase l' = LaunchCountdown (launch_countdown_seconds l) (locked_roster l') \<and>
      last evs = LaunchCountdownStarted (launch_countdown_seconds l) (locked_roster l'))"
proof -
  obtain e l1 where l1: "lobby_phase l1 = Open" "launch_countdown_seconds l1 = launch_countdown_seconds l"
    "evs = e # fst (maybe_start_countdown l1)" "l' = snd (maybe_start_countdown l1)"
    using assms(1)
  proof
    assume "x = SelectTeam pid team"
    then have sel: "select_team pid team l = (Inr evs, l')" using assms(2) by simp
    show thesis by (rule select_team_Inr [OF sel], rule that) simp_all
  next
    assume "x = SetReady pid ready"
    then have sel: "set_ready pid ready l = (Inr evs, l')" using assms(2) by simp
    show thesis by (rule set_ready_Inr [OF sel], rule that) simp_all
  qed
  have "(lobby_phase l' \<noteq> Open \<longleftrightarrow> can_start_countdown l') \<and>
    (lobby_phase l' \<noteq> Open \<longrightarrow>
      lobby_phase l' = LaunchCountdown (launch_countdown_seconds l) (locked_roster l') \<and>
      last evs = LaunchCountdownStarted (launch_countdown_seconds l) (locked_roster l'))"
    using l1 by (simp add: maybe_start_cases)
  then show ?thesis unfolding can_start_countdown_all .
qed

lemma lobby_start_exact_example:
  "lobby_phase sample_lobby \<noteq> Open \<and>
   (\<forall>t. \<exists>p \<in> set (bt_values (lobby_players sample_lobby)). lp_team p = Some t)"
proof -
  let ?l = "snd (run lobby_step (butlast sample_lobby_ops) (lobby_new (LobbyId 1) 3))"
  have "lobby_step (SetReady (PlayerId 2) Ready) ?l =
      (Inr [ReadyChanged (PlayerId 2) Ready, LaunchCountdownStarted 3 sample_roster], sample_lobby)"
    unfolding sample_lobby_eq
    by (simp add: sample_lobby_ops_def lobby_eval sample_roster_def Let_def)
  from lobby_start_exact [OF disjI2 [OF refl] this] show ?thesis by (simp add: sample_lobby_eq)
qed

text \<open>
  C33: A running countdown of \<open>s\<close> seconds takes exactly \<open>max 1 s\<close> advances: they report the
  remaining seconds \<open>s - 1, ..., 1\<close> and then the launch with the locked roster, after which the
  lobby is open and empty.
\<close>

theorem lobby_countdown_completes:
  assumes "lobby_inv l" "lobby_phase l = LaunchCountdown s roster"
  shows "run lobby_step (replicate (max 1 (unat s)) AdvanceCountdown) l =
    (map (\<lambda>k. Inr [LaunchCountdownTick (word_of_nat k)]) (rev [1..<unat s]) @
       [Inr [MatchLaunchReady roster]],
     l\<lparr>lobby_players := [], lobby_phase := Open\<rparr>)"
proof -
  have "max 1 (unat s) = Suc (unat s - 1)" "[1..<unat s] = [1..<Suc (unat s - 1)]"
    by (cases "unat s"; simp)+
  then show ?thesis using countdown_run [OF assms refl] by simp
qed

theorem lobby_countdown_completes_witness:
  "run lobby_step [AdvanceCountdown, AdvanceCountdown, AdvanceCountdown] sample_lobby =
    ([Inr [LaunchCountdownTick 2], Inr [LaunchCountdownTick 1], Inr [MatchLaunchReady sample_roster]],
     lobby_new (LobbyId 1) 3)"
proof -
  have "lobby_inv sample_lobby"
    unfolding sample_lobby_def by (rule lobby_run_inv [OF valid_sample_ops])
  note run = lobby_countdown_completes [OF this, of 3 sample_roster]
  have three: "unat (3 :: u8) = 3" "max (1::nat) 3 = 3" "rev [1..<3::nat] = [2, 1]"
    "replicate 3 AdvanceCountdown = [AdvanceCountdown, AdvanceCountdown, AdvanceCountdown]"
    by (simp, simp, simp add: upt_rec, simp add: numeral_3_eq_3)
  show ?thesis
    using run unfolding three by (simp add: sample_lobby_eq lobby_new_def)
qed

text \<open>
  Leaving always opens the lobby without the leaver and keeps the others. During the
  countdown it aborts the launch and everybody left is unready again. In an open lobby it changes
  nobody else, and it never starts a countdown, even when the leaver was the only
  player not ready.
\<close>

lemma lobby_leave:
  assumes "lobby_inv l" "leave_or_disconnect_player pid l = (Inr ev, l')"
  shows "lobby_phase l' = Open \<and> \<not> bt_contains (lobby_players l') pid \<and>
    (\<forall>k. k \<noteq> pid \<longrightarrow> bt_get (lobby_players l') k =
       (if lobby_phase l = Open then bt_get (lobby_players l) k
        else map_option (\<lambda>p. p\<lparr>lp_ready_state := NotReady\<rparr>) (bt_get (lobby_players l) k))) \<and>
    (if lobby_phase l = Open then ev = PlayerLeft pid
     else \<exists>p. bt_get (lobby_players l) pid = Some p \<and>
       ev = MatchAborted pid (lp_player_name p) (disconnect_message (lp_player_name p)))"
proof -
  have "bt_inv (lobby_players l)" using assms(1) by (simp add: lobby_inv_def)
  with assms(2) show ?thesis
    by (auto simp: leave_or_disconnect_player_def bt_contains_def bt_get_ops bt_inv_ops Let_def
        split: lobby_phase.splits option.splits)
qed

text \<open>Players 1 and 2 are ready on opposite teams, player 3 is not and leaves.\<close>

definition stuck_lobby_ops :: "lobby_op list" where
  "stuck_lobby_ops =
     AddPlayer (PlayerId 3) (PlayerName (lit ''Eve'')) player_record_new # sample_lobby_ops"

lemma lobby_leave_example:
  "let l = snd (run lobby_step stuck_lobby_ops (lobby_new (LobbyId 1) 3));
       l' = snd (leave_or_disconnect_player (PlayerId 3) l) in
   lobby_phase l' = Open \<and> can_start_countdown l'"
proof -
  let ?l = "snd (run lobby_step stuck_lobby_ops (lobby_new (LobbyId 1) 3))"
  have "lobby_inv ?l"
    by (rule lobby_run_inv)
      (use valid_sample_ops in \<open>simp add: stuck_lobby_ops_def wf_player_id_def wf_player_name_def
        name_char_ok_def MAX_PLAYER_NAME_LEN_def text_eval\<close>)
  moreover have "leave_or_disconnect_player (PlayerId 3) ?l =
      (Inr (PlayerLeft (PlayerId 3)), sample_lobby\<lparr>lobby_phase := Open\<rparr>)"
    by (simp add: stuck_lobby_ops_def sample_lobby_ops_def lobby_eval Let_def sample_lobby_eq bt_remove_def)
  ultimately show ?thesis
    using lobby_leave [of ?l "PlayerId 3"] by (simp add: sample_lobby_eq lobby_eval)
qed

end
