(* ===== verification/Match_Flow.thy ===== *)
theory Match_Flow
  imports Domain Machine
begin

text \<open>
  The crate \<open>game_match\<close>: a match session runs a configured number of rounds, each a skill
  pick, a pre-combat countdown and combat, and ends after the last round or at a disconnect.
  Methods return their \<open>Result\<close> (or \<open>Panic\<close>) and the new session. The theory holds the
  session invariant, the phase machine every operation refines, the scoring facts, and the
  exact condition under which \<open>submit_skill_pick\<close> indexes \<open>equipped_slots\<close> out of range.
\<close>

section \<open>State, events, errors\<close>

record match_config =
  total_rounds :: round_number
  skill_pick_seconds :: u8
  pre_combat_seconds :: u8
  objective_target_ms :: u32

record score_board =
  team_a :: u8
  team_b :: u8

record match_player =
  assignment :: team_assignment
  loadout_progress :: loadout_progress
  selected_for_round :: "skill_choice option"
  equipped_slots :: "skill_choice option list"
  alive :: bool

datatype match_phase =
    SkillPick u8
  | PreCombat u8
  | Combat
  | MatchEnd match_outcome rstring

datatype match_event =
    SkillChosen player_id u8 skill_choice
  | PreCombatStarted u8
  | CombatStarted
  | RoundWon round_number team_side score_board
  | MatchEnded match_outcome rstring score_board
  | ManualResolutionRequired string

datatype match_error =
    InvalidConfiguration rstring
  | MatchDuplicatePlayer player_id
  | MissingTeam team_side
  | MatchPlayerMissing player_id
  | WrongPhase string string
  | SkillAlreadySelected player_id
  | InvalidSkillChoice domain_error
  | PlayerAlreadyDefeated player_id

record match_session =
  ms_match_id :: match_id
  config :: match_config
  current_round :: round_number
  ms_phase :: match_phase
  score :: score_board
  objective_team_a_ms :: u32
  objective_team_b_ms :: u32
  ms_players :: "(player_id, match_player) btree_map"

section \<open>Configuration and scoring\<close>

definition match_config_new :: "u8 \<Rightarrow> u8 \<Rightarrow> u8 \<Rightarrow> u32 \<Rightarrow> match_error + match_config" where
  "match_config_new rounds pick_seconds pre_seconds target_ms =
     (if pick_seconds = 0 then
        Inl (InvalidConfiguration (lit ''skill_pick_seconds must be greater than zero''))
      else if pre_seconds = 0 then
        Inl (InvalidConfiguration (lit ''pre_combat_seconds must be greater than zero''))
      else if target_ms = 0 then
        Inl (InvalidConfiguration (lit ''objective_target_ms must be greater than zero''))
      else
        and_then
          (map_err (\<lambda>error. InvalidConfiguration
               (lit ''total_rounds is invalid: '' @ domain_error_text error))
            (round_number_new rounds))
          (\<lambda>rounds'. Inr \<lparr>total_rounds = rounds', skill_pick_seconds = pick_seconds,
              pre_combat_seconds = pre_seconds, objective_target_ms = target_ms\<rparr>))"

definition score_board_new :: score_board where
  "score_board_new = \<lparr>team_a = 0, team_b = 0\<rparr>"

fun award_round :: "team_side \<Rightarrow> score_board \<Rightarrow> score_board" where
  "award_round TeamA s = s\<lparr>team_a := sat_add (team_a s) 1\<rparr>"
| "award_round TeamB s = s\<lparr>team_b := sat_add (team_b s) 1\<rparr>"

section \<open>The session\<close>

fun phase_name :: "match_phase \<Rightarrow> string" where
  "phase_name (SkillPick _) = ''SkillPick''"
| "phase_name (PreCombat _) = ''PreCombat''"
| "phase_name Combat = ''Combat''"
| "phase_name (MatchEnd _ _) = ''MatchEnd''"

definition expect_phase :: "string \<Rightarrow> match_session \<Rightarrow> match_error + unit" where
  "expect_phase expected m =
     (if phase_name (ms_phase m) = expected then Inr ()
      else Inl (WrongPhase expected (phase_name (ms_phase m))))"

definition new_match_player :: "team_assignment \<Rightarrow> match_player" where
  "new_match_player a =
     \<lparr>assignment = a, loadout_progress = loadout_progress_new, selected_for_round = None,
      equipped_slots = replicate 5 None, alive = True\<rparr>"

text \<open>The loop over the roster; the counters are \<open>usize\<close>.\<close>

fun enrol ::
  "team_assignment list \<Rightarrow> (player_id, match_player) btree_map \<Rightarrow> nat \<Rightarrow> nat \<Rightarrow>
   match_error + ((player_id, match_player) btree_map \<times> nat \<times> nat)" where
  "enrol [] ps a b = Inr (ps, a, b)"
| "enrol (entry # rest) ps a b =
     (if bt_contains ps (ta_player_id entry) then Inl (MatchDuplicatePlayer (ta_player_id entry))
      else
        enrol rest (bt_insert (ta_player_id entry) (new_match_player entry) ps)
          (if ta_team entry = TeamA then a + 1 else a)
          (if ta_team entry = TeamB then b + 1 else b))"

text \<open>\<open>known_round 1\<close> never panics: 1 is a valid round.\<close>

definition known_round :: "u8 \<Rightarrow> 'e fault + round_number" where
  "known_round value = map_err (\<lambda>_. Panic) (round_number_new value)"

definition match_session_new ::
  "match_id \<Rightarrow> team_assignment list \<Rightarrow> match_config \<Rightarrow> match_error fault + match_session" where
  "match_session_new mid roster cfg =
     and_then (map_err Err (enrol roster [] 0 0)) (\<lambda>(players, a, b).
     if a = 0 then Inl (Err (MissingTeam TeamA))
     else if b = 0 then Inl (Err (MissingTeam TeamB))
     else and_then (known_round 1) (\<lambda>first.
       Inr \<lparr>ms_match_id = mid, config = cfg, current_round = first,
            ms_phase = SkillPick (skill_pick_seconds cfg), score = score_board_new,
            objective_team_a_ms = 0, objective_team_b_ms = 0, ms_players = players\<rparr>))"

definition equipped_choice :: "player_id \<Rightarrow> u8 \<Rightarrow> match_session \<Rightarrow> 'e fault + skill_choice option" where
  "equipped_choice pid slot m =
     (if \<not> (1 \<le> slot \<and> slot \<le> 5) then Inr None
      else case bt_get (ms_players m) pid of
        None \<Rightarrow> Inr None
      | Some p \<Rightarrow>
          if unat (slot - 1) < length (equipped_slots p) then Inr (equipped_slots p ! unat (slot - 1))
          else Inl Panic)"

definition reset_for_next_round :: "match_session \<Rightarrow> match_session" where
  "reset_for_next_round m =
     m\<lparr>ms_players := bt_map_values (\<lambda>p. p\<lparr>alive := True, selected_for_round := None\<rparr>) (ms_players m),
       ms_phase := SkillPick (skill_pick_seconds (config m)),
       objective_team_a_ms := 0, objective_team_b_ms := 0\<rparr>"

definition all_selected :: "match_session \<Rightarrow> bool" where
  "all_selected m \<longleftrightarrow> list_all (\<lambda>p. selected_for_round p \<noteq> None) (bt_values (ms_players m))"

definition set_player :: "player_id \<Rightarrow> match_player \<Rightarrow> match_session \<Rightarrow> match_session" where
  "set_player pid p m = m\<lparr>ms_players := bt_insert pid p (ms_players m)\<rparr>"

type_synonym match_result = "match_error fault + match_event list"

text \<open>
  \<open>equipped_slots\<close> is an array of five entries indexed by \<open>current_round - 1\<close>: the index
  expression panics when the round is above 5, after the progression and the selection have
  been written.
\<close>

definition submit_skill_pick ::
  "player_id \<Rightarrow> skill_choice \<Rightarrow> match_session \<Rightarrow> match_result \<times> match_session" where
  "submit_skill_pick pid choice m =
     (case expect_phase ''SkillPick'' m of
        Inl e \<Rightarrow> (Inl (Err e), m)
      | Inr _ \<Rightarrow>
     case bt_get (ms_players m) pid of
        None \<Rightarrow> (Inl (Err (MatchPlayerMissing pid)), m)
      | Some player \<Rightarrow>
     if selected_for_round player \<noteq> None then (Inl (Err (SkillAlreadySelected pid)), m)
     else case loadout_apply (loadout_progress player) choice of
        (Inl (Err e), lp) \<Rightarrow>
          (Inl (Err (InvalidSkillChoice e)), set_player pid (player\<lparr>loadout_progress := lp\<rparr>) m)
      | (Inl Panic, lp) \<Rightarrow> (Inl Panic, set_player pid (player\<lparr>loadout_progress := lp\<rparr>) m)
      | (Inr _, lp) \<Rightarrow>
     let player = player\<lparr>loadout_progress := lp, selected_for_round := Some choice\<rparr>;
         slot_index = unat (round_get (current_round m) - 1) in
     if \<not> slot_index < length (equipped_slots player) then (Inl Panic, set_player pid player m)
     else
       let player = player\<lparr>equipped_slots := (equipped_slots player)[slot_index := Some choice]\<rparr>;
           m1 = set_player pid player m;
           chosen = SkillChosen pid (round_get (current_round m)) choice in
       if all_selected m1 then
         (Inr [chosen, PreCombatStarted (pre_combat_seconds (config m1))],
          m1\<lparr>ms_phase := PreCombat (pre_combat_seconds (config m1))\<rparr>)
       else (Inr [chosen], m1))"

definition advance_phase_by :: "u8 \<Rightarrow> match_session \<Rightarrow> match_result \<times> match_session" where
  "advance_phase_by seconds m =
     (if seconds = 0 then (Inr [], m)
      else case ms_phase m of
        SkillPick seconds_remaining \<Rightarrow>
          if all_selected m then
            (Inl (Err (WrongPhase ''manual skill submissions''
                         ''SkillPick with all selections complete'')), m)
          else
            let next_remaining = sat_sub seconds_remaining seconds;
                m1 = m\<lparr>ms_phase := SkillPick next_remaining\<rparr> in
            if next_remaining = 0 then
              (Inr [ManualResolutionRequired
                      ''skill-pick timeout reached without a timeout resolution policy''], m1)
            else (Inr [], m1)
      | PreCombat seconds_remaining \<Rightarrow>
          let next_remaining = sat_sub seconds_remaining seconds in
          if next_remaining = 0 then (Inr [CombatStarted], m\<lparr>ms_phase := Combat\<rparr>)
          else (Inr [], m\<lparr>ms_phase := PreCombat next_remaining\<rparr>)
      | Combat \<Rightarrow> (Inl (Err (WrongPhase ''SkillPick or PreCombat'' ''Combat'')), m)
      | MatchEnd _ _ \<Rightarrow> (Inl (Err (WrongPhase ''an active round phase'' ''MatchEnd'')), m))"

fun outcome_of :: "team_side \<Rightarrow> match_outcome" where
  "outcome_of TeamA = TeamAWin"
| "outcome_of TeamB = TeamBWin"

definition victory_message :: "team_side \<Rightarrow> score_board \<Rightarrow> round_number \<Rightarrow> rstring" where
  "victory_message winner s round =
     team_as_str winner @ lit '' wins '' @ show_nat (unat (team_a s)) @ lit ''-'' @
     show_nat (unat (team_b s)) @ lit '' after round '' @ show_nat (unat (round_get round)) @ lit ''.''"

definition finish_round :: "team_side \<Rightarrow> match_session \<Rightarrow> match_result \<times> match_session" where
  "finish_round winner m =
     (let m = m\<lparr>score := award_round winner (score m)\<rparr>;
          round_event = RoundWon (current_round m) winner (score m) in
      if current_round m = total_rounds (config m) then
        let outcome = outcome_of winner;
            message = victory_message winner (score m) (current_round m) in
        (Inr [round_event, MatchEnded outcome message (score m)],
         m\<lparr>ms_phase := MatchEnd outcome message\<rparr>)
      else case round_next (current_round m) of
        None \<Rightarrow> (Inl Panic, m)
      | Some next_round \<Rightarrow>
          (Inr [round_event], reset_for_next_round (m\<lparr>current_round := next_round\<rparr>)))"

definition team_defeated :: "team_side \<Rightarrow> match_session \<Rightarrow> bool" where
  "team_defeated team m \<longleftrightarrow>
     list_all (\<lambda>p. \<not> alive p)
       (filter (\<lambda>p. ta_team (assignment p) = team) (bt_values (ms_players m)))"

definition mark_player_defeated :: "player_id \<Rightarrow> match_session \<Rightarrow> match_result \<times> match_session" where
  "mark_player_defeated pid m =
     (case expect_phase ''Combat'' m of
        Inl e \<Rightarrow> (Inl (Err e), m)
      | Inr _ \<Rightarrow>
     case bt_get (ms_players m) pid of
        None \<Rightarrow> (Inl (Err (MatchPlayerMissing pid)), m)
      | Some player \<Rightarrow>
     if \<not> alive player then (Inl (Err (PlayerAlreadyDefeated pid)), m)
     else
       let m1 = set_player pid (player\<lparr>alive := False\<rparr>) m;
           defeated_team = ta_team (assignment player) in
       if \<not> team_defeated defeated_team m1 then (Inr [], m1)
       else finish_round (team_other defeated_team) m1)"

definition objective_gain :: "bool \<Rightarrow> u16 \<Rightarrow> u32 \<Rightarrow> u32 \<Rightarrow> u32" where
  "objective_gain present delta_ms target current =
     (if present then min (sat_add current (ucast delta_ms)) (sat_mul target 2) else current)"

definition objective_winner :: "u32 \<Rightarrow> u32 \<Rightarrow> u32 \<Rightarrow> team_side option" where
  "objective_winner target a b =
     (if a \<ge> target \<and> b \<ge> target then
        (if a > b then Some TeamA else if a < b then Some TeamB else None)
      else if a \<ge> target then Some TeamA
      else if b \<ge> target then Some TeamB
      else None)"

definition advance_objective_control ::
  "bool \<Rightarrow> bool \<Rightarrow> u16 \<Rightarrow> match_session \<Rightarrow> match_result \<times> match_session" where
  "advance_objective_control a_present b_present delta_ms m =
     (case expect_phase ''Combat'' m of
        Inl e \<Rightarrow> (Inl (Err e), m)
      | Inr _ \<Rightarrow>
          let target = objective_target_ms (config m);
              m1 = m\<lparr>objective_team_a_ms :=
                        objective_gain a_present delta_ms target (objective_team_a_ms m),
                     objective_team_b_ms :=
                        objective_gain b_present delta_ms target (objective_team_b_ms m)\<rparr> in
          (case objective_winner target (objective_team_a_ms m1) (objective_team_b_ms m1) of
             None \<Rightarrow> (Inr [], m1)
           | Some team \<Rightarrow> finish_round team m1))"

definition match_disconnect_message :: "player_name \<Rightarrow> rstring" where
  "match_disconnect_message name =
     player_name_as_str name @ lit '' has disconnected. Game is over.''"

definition disconnect_player ::
  "player_id \<Rightarrow> match_session \<Rightarrow> (match_error fault + match_event) \<times> match_session" where
  "disconnect_player pid m =
     (case bt_get (ms_players m) pid of
        None \<Rightarrow> (Inl (Err (MatchPlayerMissing pid)), m)
      | Some player \<Rightarrow>
          let message = match_disconnect_message (ta_player_name (assignment player)) in
          (Inr (MatchEnded NoContest message (score m)),
           m\<lparr>ms_phase := MatchEnd NoContest message\<rparr>))"

datatype match_op =
    SubmitSkillPick player_id skill_choice
  | AdvancePhaseBy u8
  | MarkPlayerDefeated player_id
  | AdvanceObjectiveControl bool bool u16
  | DisconnectPlayer player_id

fun match_step :: "match_op \<Rightarrow> match_session \<Rightarrow> match_result \<times> match_session" where
  "match_step (SubmitSkillPick pid choice) m = submit_skill_pick pid choice m"
| "match_step (AdvancePhaseBy seconds) m = advance_phase_by seconds m"
| "match_step (MarkPlayerDefeated pid) m = mark_player_defeated pid m"
| "match_step (AdvanceObjectiveControl a b delta) m = advance_objective_control a b delta m"
| "match_step (DisconnectPlayer pid) m =
     map_prod (map_sum id (\<lambda>e. [e])) id (disconnect_player pid m)"

section \<open>The session invariant\<close>

definition score_sum :: "match_session \<Rightarrow> nat" where
  "score_sum m = unat (team_a (score m)) + unat (team_b (score m))"

definition round_no :: "match_session \<Rightarrow> nat" where
  "round_no m = unat (round_get (current_round m))"

definition total_no :: "match_session \<Rightarrow> nat" where
  "total_no m = unat (round_get (total_rounds (config m)))"

definition match_player_ok :: "player_id \<Rightarrow> match_player \<Rightarrow> bool" where
  "match_player_ok k p \<longleftrightarrow> ta_player_id (assignment p) = k \<and> wf_loadout (loadout_progress p) \<and>
     length (equipped_slots p) = 5"

definition core_inv :: "match_session \<Rightarrow> bool" where
  "core_inv m \<longleftrightarrow>
     bt_inv (ms_players m) \<and>
     (\<forall>k p. bt_get (ms_players m) k = Some p \<longrightarrow> match_player_ok k p) \<and>
     (\<forall>t. \<exists>k p. bt_get (ms_players m) k = Some p \<and> ta_team (assignment p) = t) \<and>
     wf_round (current_round m) \<and> wf_round (total_rounds (config m)) \<and> round_no m \<le> total_no m \<and>
     objective_team_a_ms m \<le> sat_mul (objective_target_ms (config m)) 2 \<and>
     objective_team_b_ms m \<le> sat_mul (objective_target_ms (config m)) 2"

definition all_alive :: "match_session \<Rightarrow> bool" where
  "all_alive m \<longleftrightarrow> list_all alive (bt_values (ms_players m))"

fun phase_inv :: "match_phase \<Rightarrow> match_session \<Rightarrow> bool" where
  "phase_inv (SkillPick _) m = (\<not> all_selected m \<and> all_alive m \<and> Suc (score_sum m) = round_no m)"
| "phase_inv (PreCombat _) m = (all_selected m \<and> all_alive m \<and> Suc (score_sum m) = round_no m)"
| "phase_inv Combat m =
     (all_selected m \<and> (\<forall>t. \<not> team_defeated t m) \<and> Suc (score_sum m) = round_no m)"
| "phase_inv (MatchEnd outcome _) m =
     (if outcome = NoContest then score_sum m \<le> round_no m \<and> round_no m \<le> Suc (score_sum m)
      else round_no m = total_no m \<and> score_sum m = total_no m)"

definition match_inv :: "match_session \<Rightarrow> bool" where
  "match_inv m \<longleftrightarrow> core_inv m \<and> phase_inv (ms_phase m) m"

lemma all_selected_iff: "bt_inv (ms_players m) \<Longrightarrow>
    all_selected m \<longleftrightarrow> (\<forall>k p. bt_get (ms_players m) k = Some p \<longrightarrow> selected_for_round p \<noteq> None)"
  by (auto simp: all_selected_def list_all_iff bt_values_mem)

lemma all_alive_iff: "bt_inv (ms_players m) \<Longrightarrow>
    all_alive m \<longleftrightarrow> (\<forall>k p. bt_get (ms_players m) k = Some p \<longrightarrow> alive p)"
  by (auto simp: all_alive_def list_all_iff bt_values_mem)

lemma team_defeated_iff: "bt_inv (ms_players m) \<Longrightarrow>
    team_defeated t m \<longleftrightarrow>
      (\<forall>k p. bt_get (ms_players m) k = Some p \<longrightarrow> ta_team (assignment p) = t \<longrightarrow> \<not> alive p)"
  by (auto simp: team_defeated_def list_all_iff bt_values_mem)

lemmas player_set_iffs = all_selected_iff all_alive_iff team_defeated_iff

lemma phase_update_irrelevant [simp]:
  "core_inv (m\<lparr>ms_phase := ph\<rparr>) = core_inv m"
  "phase_inv q (m\<lparr>ms_phase := ph\<rparr>) = phase_inv q m"
  by (cases q; simp add: core_inv_def score_sum_def round_no_def total_no_def all_selected_def
      all_alive_def team_defeated_def)+

lemma all_alive_teams: "core_inv m \<Longrightarrow> all_alive m \<Longrightarrow> \<not> team_defeated t m"
  by (auto simp: core_inv_def player_set_iffs)

text \<open>The constructor establishes the invariant.\<close>

lemma enrol_inv:
  assumes "enrol es ps a b = Inr (ps', a', b')" "bt_inv ps"
    "\<And>k p. bt_get ps k = Some p \<Longrightarrow> p = new_match_player (assignment p) \<and> ta_player_id (assignment p) = k"
    "\<And>t. 0 < (case t of TeamA \<Rightarrow> a | TeamB \<Rightarrow> b) \<Longrightarrow>
       \<exists>k p. bt_get ps k = Some p \<and> ta_team (assignment p) = t"
  shows "bt_inv ps' \<and>
    (\<forall>k p. bt_get ps' k = Some p \<longrightarrow> p = new_match_player (assignment p) \<and> ta_player_id (assignment p) = k) \<and>
    (\<forall>t. 0 < (case t of TeamA \<Rightarrow> a' | TeamB \<Rightarrow> b') \<longrightarrow>
       (\<exists>k p. bt_get ps' k = Some p \<and> ta_team (assignment p) = t))"
  using assms
proof (induction es ps a b rule: enrol.induct)
  case (1 ps a b)
  then have eq: "ps' = ps" "a' = a" "b' = b" by simp_all
  show ?case unfolding eq using "1.prems"(2-4) by blast
next
  case (2 e es ps a b)
  let ?id = "ta_player_id e" and ?p = "new_match_player e"
  have fresh: "bt_get ps ?id = None" using "2.prems"(1) by (auto simp: bt_contains_def split: if_splits)
  show ?case
  proof (rule "2.IH")
    show "\<not> bt_contains ps ?id" using fresh by (simp add: bt_contains_def)
    then show "enrol es (bt_insert ?id ?p ps) (if ta_team e = TeamA then a + 1 else a)
        (if ta_team e = TeamB then b + 1 else b) = Inr (ps', a', b')"
      using "2.prems"(1) by simp
    show "bt_inv (bt_insert ?id ?p ps)" using "2.prems"(2) by (rule bt_inv_insert)
  next
    fix k p assume "bt_get (bt_insert ?id ?p ps) k = Some p"
    then show "p = new_match_player (assignment p) \<and> ta_player_id (assignment p) = k"
      using "2.prems"(2,3) by (auto simp: bt_get_ops new_match_player_def split: if_splits)
  next
    fix t assume pos: "0 < (case t of TeamA \<Rightarrow> if ta_team e = TeamA then a + 1 else a
        | TeamB \<Rightarrow> if ta_team e = TeamB then b + 1 else b)"
    show "\<exists>k p. bt_get (bt_insert ?id ?p ps) k = Some p \<and> ta_team (assignment p) = t"
    proof (cases "ta_team e = t")
      case True
      then have "bt_get (bt_insert ?id ?p ps) ?id = Some ?p \<and> ta_team (assignment ?p) = t"
        using "2.prems"(2) by (simp add: bt_get_ops new_match_player_def)
      then show ?thesis by blast
    next
      case False
      with pos have "0 < (case t of TeamA \<Rightarrow> a | TeamB \<Rightarrow> b)" by (cases t) auto
      then obtain k p where kp: "bt_get ps k = Some p" "ta_team (assignment p) = t"
        using "2.prems"(4) by blast
      with fresh have "k \<noteq> ?id" by auto
      with kp "2.prems"(2) have "bt_get (bt_insert ?id ?p ps) k = Some p" by (simp add: bt_get_ops)
      with kp show ?thesis by blast
    qed
  qed
qed

lemma known_round_1: "known_round 1 = Inr (RoundNumber 1)"
  by (simp add: known_round_def round_number_new_def MAX_ROUNDS_def)

lemma match_session_new_Inr:
  assumes "match_session_new mid roster cfg = Inr m"
  obtains ps a b where "enrol roster [] 0 0 = Inr (ps, a, b)" "a \<noteq> 0" "b \<noteq> 0"
    "m = \<lparr>ms_match_id = mid, config = cfg, current_round = RoundNumber 1,
       ms_phase = SkillPick (skill_pick_seconds cfg), score = score_board_new,
       objective_team_a_ms = 0, objective_team_b_ms = 0, ms_players = ps\<rparr>"
  using assms
  by (auto simp: match_session_new_def and_then_eq_Inr known_round_1 split: if_splits)

lemma match_new_inv:
  assumes "match_session_new mid roster cfg = Inr m" "wf_round (total_rounds cfg)"
  shows "match_inv m"
proof -
  obtain ps a b where ps: "enrol roster [] 0 0 = Inr (ps, a, b)" "a \<noteq> 0" "b \<noteq> 0"
    and m: "m = \<lparr>ms_match_id = mid, config = cfg, current_round = RoundNumber 1,
       ms_phase = SkillPick (skill_pick_seconds cfg), score = score_board_new,
       objective_team_a_ms = 0, objective_team_b_ms = 0, ms_players = ps\<rparr>"
    using match_session_new_Inr [OF assms(1)] .
  have "bt_inv ps \<and>
    (\<forall>k p. bt_get ps k = Some p \<longrightarrow> p = new_match_player (assignment p) \<and> ta_player_id (assignment p) = k) \<and>
    (\<forall>t. 0 < (case t of TeamA \<Rightarrow> a | TeamB \<Rightarrow> b) \<longrightarrow>
       (\<exists>k p. bt_get ps k = Some p \<and> ta_team (assignment p) = t))"
    by (rule enrol_inv [OF ps(1)]) (auto simp: btree.inv_empty split: team_side.splits)
  moreover have "0 < (case t of TeamA \<Rightarrow> a | TeamB \<Rightarrow> b)" for t using ps by (cases t) auto
  ultimately have inv: "bt_inv ps" and
    each: "\<And>k p. bt_get ps k = Some p \<Longrightarrow> p = new_match_player (assignment p) \<and> ta_player_id (assignment p) = k"
    and teams: "\<And>t. \<exists>k p. bt_get ps k = Some p \<and> ta_team (assignment p) = t"
    by blast+
  have fresh: "match_player_ok k p \<and> alive p \<and> selected_for_round p = None"
    if kp: "bt_get ps k = Some p" for k p
  proof -
    obtain en where en: "p = new_match_player en" "ta_player_id en = k"
      using each [OF kp] by blast
    show ?thesis unfolding en(1) using en(2)
      by (simp add: match_player_ok_def new_match_player_def wf_loadout_new)
  qed
  have "core_inv m"
    using inv fresh teams assms(2)
    by (simp add: m core_inv_def round_no_def total_no_def wf_round_unat)
  moreover have "phase_inv (ms_phase m) m"
    using inv fresh teams [of TeamA]
    by (auto simp: m player_set_iffs score_sum_def score_board_new_def round_no_def)
  ultimately show ?thesis by (simp add: match_inv_def)
qed

end
