(* ===== verification/Match_Invariant.thy ===== *)
theory Match_Invariant
  imports Match_Flow
begin

text \<open>
  Every operation of a match session keeps the session invariant unless it panics, a rejected
  operation leaves the session as it was, and with at most five rounds configured nothing
  panics. The last part gives the phase machine the operations refine.
\<close>

section \<open>Updating one player\<close>

lemma set_player_simps [simp]:
  "score (set_player k p m) = score m"
  "config (set_player k p m) = config m"
  "current_round (set_player k p m) = current_round m"
  "ms_phase (set_player k p m) = ms_phase m"
  "score_sum (set_player k p m) = score_sum m"
  "round_no (set_player k p m) = round_no m"
  "total_no (set_player k p m) = total_no m"
  by (simp_all add: set_player_def score_sum_def round_no_def total_no_def)

lemma core_invD:
  assumes "core_inv m"
  shows "bt_inv (ms_players m)"
    and "bt_get (ms_players m) k = Some p \<Longrightarrow> match_player_ok k p"
    and "round_no m \<le> total_no m" "total_no m \<le> 99" "1 \<le> round_no m"
    and "wf_round (current_round m)" "wf_round (total_rounds (config m))"
  using assms by (auto simp: core_inv_def round_no_def total_no_def wf_round_unat)

lemma core_inv_team: "core_inv m \<Longrightarrow> \<exists>k p. bt_get (ms_players m) k = Some p \<and> ta_team (assignment p) = t"
  by (simp add: core_inv_def)

lemma set_player_get:
  "core_inv m \<Longrightarrow> bt_get (ms_players (set_player k p m)) i = (if i = k then Some p else bt_get (ms_players m) i)"
  by (simp add: set_player_def bt_get_ops core_invD(1))

lemma set_player_core:
  assumes "core_inv m" "bt_get (ms_players m) k = Some p" "match_player_ok k q"
    "ta_team (assignment q) = ta_team (assignment p)"
  shows "core_inv (set_player k q m)"
proof -
  have "\<exists>i r. bt_get (ms_players (set_player k q m)) i = Some r \<and> ta_team (assignment r) = t" for t
  proof -
    obtain i r where "bt_get (ms_players m) i = Some r" "ta_team (assignment r) = t"
      using core_inv_team [OF assms(1)] by blast
    then have "bt_get (ms_players (set_player k q m)) i = Some (if i = k then q else r)"
      "ta_team (assignment (if i = k then q else r)) = t"
      using assms by (auto simp: set_player_get)
    then show ?thesis by blast
  qed
  moreover have "bt_inv (ms_players (set_player k q m))"
    using assms(1) by (simp add: set_player_def bt_inv_ops core_invD(1))
  moreover have "match_player_ok i r" if "bt_get (ms_players (set_player k q m)) i = Some r" for i r
    using that assms by (auto simp: set_player_get core_invD(2) split: if_splits)
  ultimately show ?thesis
    using assms(1) unfolding core_inv_def
    by (simp add: set_player_def round_no_def total_no_def)
qed

lemma set_player_same: "core_inv m \<Longrightarrow> bt_get (ms_players m) k = Some p \<Longrightarrow> set_player k p m = m"
  by (simp add: set_player_def bt_insert_same core_invD(1))

lemma set_player_alive:
  assumes "core_inv m" "core_inv (set_player k q m)" "all_alive m" "alive q"
  shows "all_alive (set_player k q m)"
  using assms by (auto simp: all_alive_iff core_invD(1) set_player_get split: if_splits)

lemma set_player_selected:
  assumes "core_inv m" "core_inv (set_player k q m)" "all_selected m" "selected_for_round q \<noteq> None"
  shows "all_selected (set_player k q m)"
  using assms by (auto simp: all_selected_iff core_invD(1) set_player_get split: if_splits)

section \<open>Finishing a round\<close>

lemma award_round_sum:
  assumes "score_sum m < 255"
  shows "score_sum (m\<lparr>score := award_round w (score m)\<rparr>) = Suc (score_sum m)"
  using assms by (cases w) (simp_all add: score_sum_def unat_sat_add)

lemma reset_core:
  assumes "core_inv m"
  shows "core_inv (reset_for_next_round m)"
    and "all_alive (reset_for_next_round m)" "\<not> all_selected (reset_for_next_round m)"
proof -
  have bt: "bt_inv (ms_players (reset_for_next_round m))"
    using assms by (simp add: reset_for_next_round_def core_invD(1))
  show "core_inv (reset_for_next_round m)"
    using assms unfolding core_inv_def reset_for_next_round_def
    by (fastforce simp: match_player_ok_def round_no_def total_no_def)
  show "all_alive (reset_for_next_round m)"
    using bt by (auto simp: all_alive_iff reset_for_next_round_def)
  obtain k p where "bt_get (ms_players m) k = Some p"
    using core_inv_team [OF assms] by blast
  then have "bt_get (ms_players (reset_for_next_round m)) k =
      Some (p\<lparr>alive := True, selected_for_round := None\<rparr>)"
    by (simp add: reset_for_next_round_def)
  with bt show "\<not> all_selected (reset_for_next_round m)"
    by (fastforce simp: all_selected_iff)
qed

lemma core_inv_irrelevant [simp]:
  "core_inv (m\<lparr>score := s\<rparr>) = core_inv m"
  by (simp add: core_inv_def round_no_def total_no_def)

lemma round_eq_iff: "(current_round m = total_rounds (config m)) = (round_no m = total_no m)"
  by (cases "current_round m"; cases "total_rounds (config m)")
    (simp add: round_no_def total_no_def word_unat_eq_iff)

text \<open>What finishing a round does, in the two cases the code has.\<close>

lemma finish_last_round:
  assumes "round_no m = total_no m"
  shows "finish_round w m =
    (let s = award_round w (score m); msg = victory_message w s (current_round m) in
     (Inr [RoundWon (current_round m) w s, MatchEnded (outcome_of w) msg s],
      m\<lparr>score := s, ms_phase := MatchEnd (outcome_of w) msg\<rparr>))"
proof -
  have "current_round m = total_rounds (config m)" using assms by (simp add: round_eq_iff)
  then show ?thesis by (simp add: finish_round_def Let_def)
qed

lemma finish_inner_round:
  assumes "core_inv m" "round_no m \<noteq> total_no m"
  obtains nr where "round_next (current_round m) = Some nr" "unat (round_get nr) = Suc (round_no m)"
    "wf_round nr"
    "finish_round w m = (Inr [RoundWon (current_round m) w (award_round w (score m))],
      reset_for_next_round (m\<lparr>score := award_round w (score m), current_round := nr\<rparr>))"
proof -
  have "round_no m < 99" using assms core_invD(3,4) [OF assms(1)] by linarith
  then have "round_get (current_round m) \<noteq> MAX_ROUNDS" by (auto simp: round_no_def MAX_ROUNDS_def)
  then obtain nr where "round_next (current_round m) = Some nr" by (simp add: round_next_def)
  moreover from this have "unat (round_get nr) = Suc (round_no m)" "wf_round nr"
    using round_next_Some [of "current_round m"] core_invD(6) [OF assms(1)]
    by (auto simp: round_no_def)
  ultimately show thesis using assms(2)
    by (intro that [of nr]) (simp_all add: finish_round_def Let_def round_eq_iff round_no_def total_no_def)
qed

lemma finish_round_inv:
  assumes m: "core_inv m" and sum: "Suc (score_sum m) = round_no m"
  shows "match_inv (snd (finish_round w m))" "\<not> isl (fst (finish_round w m))"
    "config (snd (finish_round w m)) = config m"
    "score (snd (finish_round w m)) = award_round w (score m)"
proof -
  let ?s = "award_round w (score m)"
  have le: "round_no m \<le> total_no m" "total_no m \<le> 99" using core_invD(3,4) [OF m] .
  then have sum': "score_sum (m\<lparr>score := ?s\<rparr>) = Suc (score_sum m)"
    using sum by (intro award_round_sum) linarith
  have "match_inv (snd (finish_round w m)) \<and> \<not> isl (fst (finish_round w m)) \<and>
    config (snd (finish_round w m)) = config m \<and> score (snd (finish_round w m)) = ?s"
  proof (cases "round_no m = total_no m")
    case True
    have "outcome_of w \<noteq> NoContest" by (cases w) simp_all
    with True sum sum' m show ?thesis
      by (simp add: finish_last_round Let_def match_inv_def score_sum_def round_no_def total_no_def)
  next
    case False
    then obtain nr where nr: "unat (round_get nr) = Suc (round_no m)" "wf_round nr"
      "finish_round w m = (Inr [RoundWon (current_round m) w ?s],
        reset_for_next_round (m\<lparr>score := ?s, current_round := nr\<rparr>))"
      using finish_inner_round [OF m] by metis
    let ?m = "m\<lparr>score := ?s, current_round := nr\<rparr>"
    have "core_inv ?m" using m nr(1,2) False le
      by (simp add: core_inv_def round_no_def total_no_def)
    note this [THEN reset_core(1)] this [THEN reset_core(2)] this [THEN reset_core(3)]
    moreover have "Suc (score_sum (reset_for_next_round ?m)) = round_no (reset_for_next_round ?m)"
      using sum sum' nr(1) by (simp add: reset_for_next_round_def score_sum_def round_no_def)
    ultimately show ?thesis
      using nr(3) by (simp add: match_inv_def)
        (simp add: reset_for_next_round_def)
  qed
  then show "match_inv (snd (finish_round w m))" "\<not> isl (fst (finish_round w m))"
    "config (snd (finish_round w m)) = config m" "score (snd (finish_round w m)) = ?s"
    by simp_all
qed

section \<open>The phase machine\<close>

text \<open>
  The abstraction of a session: the stage it is in, the round number and the two scores. The
  relation \<open>match_flow total\<close> says how one operation may change them.
\<close>

datatype stage = Picking | CountingDown | Fighting | Ended match_outcome

type_synonym flow_state = "stage \<times> nat \<times> nat \<times> nat"

fun stage_of :: "match_phase \<Rightarrow> stage" where
  "stage_of (SkillPick _) = Picking"
| "stage_of (PreCombat _) = CountingDown"
| "stage_of Combat = Fighting"
| "stage_of (MatchEnd outcome _) = Ended outcome"

definition flow_view :: "match_session \<Rightarrow> flow_state" where
  "flow_view m = (stage_of (ms_phase m), round_no m, unat (team_a (score m)), unat (team_b (score m)))"

fun add_point :: "team_side \<Rightarrow> nat \<times> nat \<Rightarrow> nat \<times> nat" where
  "add_point TeamA (a, b) = (Suc a, b)"
| "add_point TeamB (a, b) = (a, Suc b)"

inductive match_flow :: "nat \<Rightarrow> flow_state \<Rightarrow> flow_state \<Rightarrow> bool" for total_rounds :: nat where
  flow_stay: "match_flow total_rounds s s"
| flow_picked: "match_flow total_rounds (Picking, r, ab) (CountingDown, r, ab)"
| flow_fight: "match_flow total_rounds (CountingDown, r, ab) (Fighting, r, ab)"
| flow_next_round: "r < total_rounds \<Longrightarrow>
    match_flow total_rounds (Fighting, r, ab) (Picking, Suc r, add_point w ab)"
| flow_last_round:
    "match_flow total_rounds (Fighting, total_rounds, ab) (Ended (outcome_of w), total_rounds, add_point w ab)"
| flow_abandon: "match_flow total_rounds (st, r, ab) (Ended NoContest, r, ab)"

inductive_cases match_flow_endedE: "match_flow n (Ended oc, r, ab) s"
inductive_simps match_flow_picking: "match_flow n (Picking, r, ab) s"
inductive_simps match_flow_counting: "match_flow n (CountingDown, r, ab) s"
inductive_simps match_flow_fighting: "match_flow n (Fighting, r, ab) s"

lemma add_point_award:
  assumes "score_sum m < 255"
  shows "(unat (team_a (award_round w (score m))), unat (team_b (award_round w (score m)))) =
    add_point w (unat (team_a (score m)), unat (team_b (score m)))"
  using assms by (cases w) (simp_all add: score_sum_def unat_sat_add)

section \<open>What every operation promises\<close>

fun step_contract :: "match_session \<Rightarrow> match_result \<times> match_session \<Rightarrow> bool" where
  "step_contract m (Inl (Err _), m') = (m' = m)"
| "step_contract m (Inl Panic, m') = True"
| "step_contract m (Inr _, m') =
     (match_inv m' \<and> config m' = config m \<and> match_flow (total_no m) (flow_view m) (flow_view m'))"

lemma finish_round_contract:
  assumes m: "core_inv m" "Suc (score_sum m) = round_no m" "stage_of (ms_phase m) = Fighting"
  shows "step_contract m (finish_round w m)"
proof -
  have le: "round_no m \<le> total_no m" "total_no m \<le> 99" using core_invD(3,4) [OF m(1)] .
  then have pt: "(unat (team_a (award_round w (score m))), unat (team_b (award_round w (score m)))) =
    add_point w (unat (team_a (score m)), unat (team_b (score m)))"
    using m(2) by (intro add_point_award) linarith
  have "match_flow (total_no m) (flow_view m) (flow_view (snd (finish_round w m)))"
  proof (cases "round_no m = total_no m")
    case True
    then show ?thesis
      using flow_last_round [of "total_no m" "(unat (team_a (score m)), unat (team_b (score m)))" w] m(3)
      by (simp add: finish_last_round Let_def flow_view_def pt [symmetric])
        (simp add: round_no_def total_no_def)
  next
    case False
    then obtain nr where "unat (round_get nr) = Suc (round_no m)"
      "finish_round w m = (Inr [RoundWon (current_round m) w (award_round w (score m))],
        reset_for_next_round (m\<lparr>score := award_round w (score m), current_round := nr\<rparr>))"
      using finish_inner_round [OF m(1)] by metis
    then show ?thesis
      using flow_next_round [of "round_no m" "total_no m" "(unat (team_a (score m)), unat (team_b (score m)))" w]
        m(3) False le
      by (simp add: flow_view_def reset_for_next_round_def pt [symmetric])
        (simp add: round_no_def)
  qed
  with finish_round_inv [OF m(1,2), of w] show ?thesis
    by (cases "finish_round w m"; cases "fst (finish_round w m)") auto
qed

lemma expect_phase_Inr [simp]: "expect_phase s m = Inr u \<longleftrightarrow> phase_name (ms_phase m) = s"
  by (simp add: expect_phase_def)

lemma phase_name_iff [simp]:
  "phase_name ph = ''SkillPick'' \<longleftrightarrow> stage_of ph = Picking"
  "phase_name ph = ''Combat'' \<longleftrightarrow> stage_of ph = Fighting"
  by (cases ph; simp)+

lemma match_invD:
  assumes "match_inv m"
  shows "core_inv m" "phase_inv (ms_phase m) m"
    and "stage_of (ms_phase m) = Picking \<Longrightarrow>
      \<not> all_selected m \<and> all_alive m \<and> Suc (score_sum m) = round_no m"
    and "stage_of (ms_phase m) = Fighting \<Longrightarrow>
      all_selected m \<and> (\<forall>t. \<not> team_defeated t m) \<and> Suc (score_sum m) = round_no m"
  using assms by (cases "ms_phase m"; simp add: match_inv_def)+

text \<open>Same stage, round and score: the view does not change.\<close>

lemma flow_view_stay:
  "stage_of (ms_phase m') = stage_of (ms_phase m) \<Longrightarrow> current_round m' = current_round m \<Longrightarrow>
    score m' = score m \<Longrightarrow> match_flow n (flow_view m) (flow_view m')"
  by (simp add: flow_view_def round_no_def flow_stay)

lemma phase_inv_same_stage:
  "stage_of ph = stage_of ph' \<Longrightarrow> phase_inv ph m \<Longrightarrow> phase_inv ph' m"
  by (cases ph; cases ph') auto

lemma submit_skill_pick_contract:
  assumes "match_inv m" "wf_skill_choice c"
  shows "step_contract m (submit_skill_pick pid c m)"
proof (cases "stage_of (ms_phase m) = Picking \<and>
    (\<exists>p. bt_get (ms_players m) pid = Some p \<and> selected_for_round p = None)")
  case True
  then obtain p where st: "stage_of (ms_phase m) = Picking"
    and p: "bt_get (ms_players m) pid = Some p" "selected_for_round p = None" by blast
  note m = match_invD(1) [OF assms(1)] match_invD(3) [OF assms(1) st]
  have ok: "match_player_ok pid p" using core_invD(2) m(1) p(1) by blast
  then have wf: "wf_loadout (loadout_progress p)" by (simp add: match_player_ok_def)
  show ?thesis
  proof (cases "loadout_apply (loadout_progress p) c")
    case (Pair r lp)
    show ?thesis
    proof (cases r)
      case (Inl e)
      then have "lp = loadout_progress p" "e \<noteq> Panic"
        using Pair wf by (auto simp: loadout_apply_def can_apply_wf split: if_splits)
      then show ?thesis
        using Pair Inl p st m set_player_same [OF m(1) p(1)]
        by (cases e) (simp_all add: submit_skill_pick_def expect_phase_def)
    next
      case (Inr u)
      let ?q = "p\<lparr>loadout_progress := lp, selected_for_round := Some c,
        equipped_slots := (equipped_slots p)[unat (round_get (current_round m) - 1) := Some c]\<rparr>"
      have "wf_loadout lp" using loadout_apply_wf [OF wf assms(2)] Pair by simp
      then have q: "match_player_ok pid ?q" using ok by (simp add: match_player_ok_def)
      let ?m = "set_player pid ?q m"
      have core: "core_inv ?m" using set_player_core [OF m(1) p(1) q] by simp
      have "alive p" using m p(1) by (auto simp: all_alive_iff core_invD(1))
      then have alive: "all_alive ?m" using m core by (auto intro: set_player_alive)
      show ?thesis
      proof (cases "all_selected ?m")
        case False
        then have "match_inv ?m" using core alive m st
          by (cases "ms_phase m") (simp_all add: match_inv_def)
        then show ?thesis using False Pair Inr p st
          by (auto simp: submit_skill_pick_def expect_phase_def Let_def intro!: flow_view_stay)
      next
        case True
        let ?m' = "?m\<lparr>ms_phase := PreCombat (pre_combat_seconds (config m))\<rparr>"
        have "match_inv ?m'" using core alive m True by (simp add: match_inv_def)
        moreover have "match_flow (total_no m) (flow_view m) (flow_view ?m')"
          using st by (simp add: flow_view_def round_no_def match_flow_picking set_player_def)
        ultimately show ?thesis using True Pair Inr p st
          by (simp add: submit_skill_pick_def expect_phase_def Let_def)
      qed
    qed
  qed
next
  case False
  then show ?thesis by (auto simp: submit_skill_pick_def expect_phase_def split: option.splits)
qed

lemma advance_phase_by_contract:
  assumes "match_inv m"
  shows "step_contract m (advance_phase_by n m)"
proof (cases "ms_phase m")
  case (SkillPick s)
  have "match_inv (m\<lparr>ms_phase := SkillPick t\<rparr>)" for t
    using assms SkillPick by (simp add: match_inv_def)
  with assms SkillPick show ?thesis
    by (auto simp: advance_phase_by_def Let_def match_inv_def intro!: flow_view_stay)
next
  case (PreCombat s)
  have "match_inv (m\<lparr>ms_phase := PreCombat t\<rparr>)" "match_inv (m\<lparr>ms_phase := Combat\<rparr>)" for t
    using assms PreCombat by (auto simp: match_inv_def intro: all_alive_teams [THEN notE])
  moreover have "match_flow k (flow_view m) (flow_view (m\<lparr>ms_phase := Combat\<rparr>))" for k
    using PreCombat by (simp add: flow_view_def round_no_def match_flow_counting)
  ultimately show ?thesis
    using assms PreCombat by (auto simp: advance_phase_by_def Let_def intro!: flow_view_stay)
qed (use assms in \<open>auto simp: advance_phase_by_def intro: flow_view_stay\<close>)

lemma mark_player_defeated_contract:
  assumes "match_inv m"
  shows "step_contract m (mark_player_defeated pid m)"
proof (cases "stage_of (ms_phase m) = Fighting \<and>
    (\<exists>p. bt_get (ms_players m) pid = Some p \<and> alive p)")
  case True
  then obtain p where st: "stage_of (ms_phase m) = Fighting"
    and p: "bt_get (ms_players m) pid = Some p" "alive p" by blast
  let ?m = "set_player pid (p\<lparr>alive := False\<rparr>) m"
  note m = match_invD(1) [OF assms] match_invD(4) [OF assms st]
  have "match_player_ok pid (p\<lparr>alive := False\<rparr>)"
    using core_invD(2) [OF m(1) p(1)] by (simp add: match_player_ok_def)
  then have core: "core_inv ?m" by (intro set_player_core [OF m(1) p(1)]) simp_all
  have "selected_for_round p \<noteq> None" using m p(1) by (auto simp: all_selected_iff core_invD(1))
  then have sel: "all_selected ?m" using m core by (auto intro: set_player_selected)
  show ?thesis
  proof (cases "team_defeated (ta_team (assignment p)) ?m")
    case True
    have same: "flow_view ?m = flow_view m" "total_no ?m = total_no m" "config ?m = config m"
      by (simp_all add: flow_view_def)
    have "step_contract ?m (finish_round (team_other (ta_team (assignment p))) ?m)"
      using core m st by (intro finish_round_contract) simp_all
    moreover have "\<not> isl (fst (finish_round (team_other (ta_team (assignment p))) ?m))"
      using core m by (intro finish_round_inv(2)) simp_all
    ultimately have "step_contract m (finish_round (team_other (ta_team (assignment p))) ?m)"
      using same by (cases "finish_round (team_other (ta_team (assignment p))) ?m";
          cases "fst (finish_round (team_other (ta_team (assignment p))) ?m)") auto
    with True st p show ?thesis
      by (simp add: mark_player_defeated_def expect_phase_def Let_def)
  next
    case False
    have "\<not> team_defeated t ?m" for t
    proof (cases "t = ta_team (assignment p)")
      case other: False
      obtain k r where "bt_get (ms_players m) k = Some r" "ta_team (assignment r) = t" "alive r"
        using m team_defeated_iff [OF core_invD(1) [OF m(1)], of t] by blast
      moreover from this other p(1) have "k \<noteq> pid" by auto
      ultimately show ?thesis
        using core by (auto simp: team_defeated_iff core_invD(1) set_player_get [OF m(1)])
    qed (use False in simp)
    then have "match_inv ?m" using core sel m st by (cases "ms_phase m") (simp_all add: match_inv_def)
    with False st p show ?thesis
      by (auto simp: mark_player_defeated_def expect_phase_def Let_def intro!: flow_view_stay)
  qed
next
  case False
  then show ?thesis by (auto simp: mark_player_defeated_def expect_phase_def split: option.splits)
qed

lemma objective_gain_bound:
  "cur \<le> sat_mul target 2 \<Longrightarrow> objective_gain present d target cur \<le> sat_mul target 2"
  by (simp add: objective_gain_def)

lemma advance_objective_control_contract:
  assumes "match_inv m"
  shows "step_contract m (advance_objective_control a b d m)"
proof (cases "stage_of (ms_phase m) = Fighting")
  case True
  let ?t = "objective_target_ms (config m)"
  let ?m = "m\<lparr>objective_team_a_ms := objective_gain a d ?t (objective_team_a_ms m),
              objective_team_b_ms := objective_gain b d ?t (objective_team_b_ms m)\<rparr>"
  note m = match_invD(1) [OF assms] match_invD(4) [OF assms True]
  have core: "core_inv ?m" using m(1)
    by (simp add: core_inv_def round_no_def total_no_def objective_gain_bound)
  have same: "flow_view ?m = flow_view m" "total_no ?m = total_no m" "config ?m = config m"
    "all_selected ?m = all_selected m" "team_defeated t ?m = team_defeated t m"
    "score_sum ?m = score_sum m" "round_no ?m = round_no m" for t
    by (simp_all add: flow_view_def total_no_def round_no_def all_selected_def team_defeated_def
        score_sum_def)
  show ?thesis
  proof (cases "objective_winner ?t (objective_team_a_ms ?m) (objective_team_b_ms ?m)")
    case None
    have "match_inv ?m" using core m True same by (cases "ms_phase m") (simp_all add: match_inv_def)
    with None True show ?thesis
      by (auto simp: advance_objective_control_def expect_phase_def Let_def intro!: flow_view_stay)
  next
    case (Some w)
    have "step_contract ?m (finish_round w ?m)"
      using core m True same by (intro finish_round_contract) simp_all
    moreover have "\<not> isl (fst (finish_round w ?m))"
      using core m same by (intro finish_round_inv(2)) simp_all
    ultimately have "step_contract m (finish_round w ?m)"
      using same by (cases "finish_round w ?m"; cases "fst (finish_round w ?m)") auto
    with Some True show ?thesis
      by (simp add: advance_objective_control_def expect_phase_def Let_def)
  qed
next
  case False
  then show ?thesis by (simp add: advance_objective_control_def expect_phase_def)
qed

lemma match_inv_score_le:
  assumes "match_inv m"
  shows "score_sum m \<le> round_no m" "round_no m \<le> Suc (score_sum m)"
  using assms by (cases "ms_phase m"; auto simp: match_inv_def split: if_splits)+

lemma disconnect_player_contract:
  assumes "match_inv m"
  shows "step_contract m (map_prod (map_sum id (\<lambda>e. [e])) id (disconnect_player pid m))"
  using assms match_inv_score_le [OF assms]
  by (auto simp: disconnect_player_def Let_def match_inv_def flow_view_def round_no_def
      intro: flow_abandon split: option.splits)

fun valid_match_op :: "match_op \<Rightarrow> bool" where
  "valid_match_op (SubmitSkillPick pid choice) = wf_skill_choice choice"
| "valid_match_op _ = True"

lemma match_step_contract:
  "match_inv m \<Longrightarrow> valid_match_op x \<Longrightarrow> step_contract m (match_step x m)"
  by (cases x) (simp_all only: match_step.simps valid_match_op.simps submit_skill_pick_contract
      advance_phase_by_contract mark_player_defeated_contract advance_objective_control_contract
      disconnect_player_contract)

section \<open>When an operation panics\<close>

lemma finish_round_no_panic:
  "core_inv m \<Longrightarrow> Suc (score_sum m) = round_no m \<Longrightarrow> fst (finish_round w m) \<noteq> Inl Panic"
  using finish_round_inv(2) [of m w] by (cases "fst (finish_round w m)") auto

text \<open>
  The only panic left is the array index of \<open>submit_skill_pick\<close>: it happens exactly when the
  pick would be accepted in a round above 5.
\<close>

definition pick_acceptable :: "player_id \<Rightarrow> skill_choice \<Rightarrow> match_session \<Rightarrow> bool" where
  "pick_acceptable pid c m \<longleftrightarrow> stage_of (ms_phase m) = Picking \<and>
     (\<exists>p. bt_get (ms_players m) pid = Some p \<and> selected_for_round p = None \<and>
        tier c = tier_for (loadout_progress p) (tree c) + 1)"

lemma submit_skill_pick_panics:
  assumes "match_inv m"
  shows "fst (submit_skill_pick pid c m) = Inl Panic \<longleftrightarrow> pick_acceptable pid c m \<and> 5 < round_no m"
proof (cases "stage_of (ms_phase m) = Picking \<and>
    (\<exists>p. bt_get (ms_players m) pid = Some p \<and> selected_for_round p = None)")
  case True
  then obtain p where st: "stage_of (ms_phase m) = Picking"
    and p: "bt_get (ms_players m) pid = Some p" "selected_for_round p = None" by blast
  note m = match_invD(1) [OF assms]
  have ok: "match_player_ok pid p" using core_invD(2) m p(1) by blast
  then have wf: "wf_loadout (loadout_progress p)" "length (equipped_slots p) = 5"
    by (simp_all add: match_player_ok_def)
  have "unat (round_get (current_round m) - 1) = round_no m - 1"
    using core_invD(5) [OF m] by (simp add: round_no_def unat_sub word_le_nat_alt)
  then show ?thesis using wf p st
    by (auto simp: submit_skill_pick_def pick_acceptable_def loadout_apply_def can_apply_wf
        expect_phase_def Let_def)
next
  case False
  then show ?thesis
    by (auto simp: submit_skill_pick_def pick_acceptable_def expect_phase_def split: option.splits)
qed

lemma match_step_panics:
  assumes "match_inv m"
  shows "fst (match_step x m) = Inl Panic \<longleftrightarrow>
    (\<exists>pid c. x = SubmitSkillPick pid c \<and> pick_acceptable pid c m \<and> 5 < round_no m)"
proof (cases x)
  case (MarkPlayerDefeated pid)
  show ?thesis
  proof (cases "stage_of (ms_phase m) = Fighting")
    case True
    note m = match_invD(1) [OF assms] match_invD(4) [OF assms True]
    have "fst (finish_round w (set_player pid (p\<lparr>alive := False\<rparr>) m)) \<noteq> Inl Panic"
      if pp: "bt_get (ms_players m) pid = Some p" for w p
      using m core_invD(2) [OF m(1) pp] pp
      by (intro finish_round_no_panic set_player_core [OF m(1) pp]) (simp_all add: match_player_ok_def)
    with MarkPlayerDefeated True show ?thesis
      by (auto simp: mark_player_defeated_def expect_phase_def Let_def split: option.splits)
  qed (simp add: MarkPlayerDefeated mark_player_defeated_def expect_phase_def)
next
  case (AdvanceObjectiveControl a b d)
  show ?thesis
  proof (cases "stage_of (ms_phase m) = Fighting")
    case True
    note m = match_invD(1) [OF assms] match_invD(4) [OF assms True]
    have "fst (finish_round w (m\<lparr>objective_team_a_ms := objective_gain a d (objective_target_ms (config m)) (objective_team_a_ms m),
      objective_team_b_ms := objective_gain b d (objective_target_ms (config m)) (objective_team_b_ms m)\<rparr>)) \<noteq> Inl Panic" for w
      using m by (intro finish_round_no_panic)
        (simp_all add: core_inv_def round_no_def total_no_def objective_gain_bound score_sum_def)
    with AdvanceObjectiveControl True show ?thesis
      by (auto simp: advance_objective_control_def expect_phase_def Let_def split: option.splits)
  qed (simp add: AdvanceObjectiveControl advance_objective_control_def expect_phase_def)
next
  case (AdvancePhaseBy n)
  then show ?thesis
    by (auto simp: advance_phase_by_def Let_def split: match_phase.splits)
next
  case (DisconnectPlayer pid)
  then show ?thesis by (auto simp: disconnect_player_def Let_def split: option.splits)
qed (simp add: submit_skill_pick_panics [OF assms])

lemma match_step_no_panic:
  assumes "match_inv m" "total_no m \<le> 5"
  shows "fst (match_step x m) \<noteq> Inl Panic"
  using core_invD(3) [OF match_invD(1)] assms by (fastforce simp: match_step_panics)

section \<open>The contract of a session\<close>

definition session_inv :: "match_session \<Rightarrow> bool" where
  "session_inv m \<longleftrightarrow> match_inv m \<and> total_no m \<le> 5"

definition match_rejected :: "match_result \<Rightarrow> bool" where
  "match_rejected r \<longleftrightarrow> (case r of Inl (Err _) \<Rightarrow> True | _ \<Rightarrow> False)"

lemma match_step_session:
  assumes "session_inv m" "valid_match_op x"
  shows "session_inv (snd (match_step x m))"
    and "match_flow (total_no m) (flow_view m) (flow_view (snd (match_step x m)))"
    and "total_no (snd (match_step x m)) = total_no m"
proof -
  have m: "match_inv m" "total_no m \<le> 5" using assms(1) by (simp_all add: session_inv_def)
  note match_step_contract [OF m(1) assms(2)] match_step_no_panic [OF m, of x]
  then have "match_inv (snd (match_step x m)) \<and> config (snd (match_step x m)) = config m \<and>
    match_flow (total_no m) (flow_view m) (flow_view (snd (match_step x m)))"
    using m(1) by (cases "match_step x m"; cases "fst (match_step x m)")
      (auto intro: flow_stay split: fault.splits elim: step_contract.elims)
  with m(2) show "session_inv (snd (match_step x m))"
    "match_flow (total_no m) (flow_view m) (flow_view (snd (match_step x m)))"
    "total_no (snd (match_step x m)) = total_no m"
    by (simp_all add: session_inv_def total_no_def)
qed

lemma match_step_rejected:
  "match_inv m \<Longrightarrow> valid_match_op x \<Longrightarrow> match_rejected (fst (match_step x m)) \<Longrightarrow>
    snd (match_step x m) = m"
  using match_step_contract [of m x]
  by (cases "match_step x m"; cases "fst (match_step x m)")
    (auto simp: match_rejected_def split: fault.splits)

interpretation match_machine: machine match_step valid_match_op session_inv match_rejected
proof
  show "session_inv (snd (match_step x m))" if "session_inv m" "valid_match_op x" for m x
    using that by (rule match_step_session(1))
  show "snd (match_step x m) = m"
    if "session_inv m" "valid_match_op x" "match_rejected (fst (match_step x m))" for m x
    using that by (simp add: session_inv_def match_step_rejected)
qed

section \<open>Runs of a session\<close>

lemma match_run_flow:
  assumes "session_inv m" "list_all valid_match_op xs"
  shows "Inl Panic \<notin> set (fst (run match_step xs m)) \<and> total_no (snd (run match_step xs m)) = total_no m \<and>
    (match_flow (total_no m))\<^sup>*\<^sup>* (flow_view m) (flow_view (snd (run match_step xs m)))"
  using assms
proof (induction xs arbitrary: m)
  case (Cons x xs)
  let ?m = "snd (match_step x m)"
  have x: "session_inv m" "valid_match_op x" using Cons.prems by simp_all
  note step = match_step_session [OF x]
  have np: "fst (match_step x m) \<noteq> Inl Panic"
    using x(1) by (simp add: session_inv_def match_step_no_panic)
  have "fst (run match_step (x # xs) m) = fst (match_step x m) # fst (run match_step xs ?m)"
    by (simp add: run.simps(2) Let_def case_prod_unfold)
  moreover have "Inl Panic \<notin> set (fst (run match_step xs ?m)) \<and>
    total_no (snd (run match_step xs ?m)) = total_no m \<and>
    (match_flow (total_no m))\<^sup>*\<^sup>* (flow_view ?m) (flow_view (snd (run match_step xs ?m)))"
    using Cons.IH [OF step(1)] Cons.prems(2) step(3) by simp
  ultimately show ?case using np step(2) by (auto intro: converse_rtranclp_into_rtranclp)
qed simp

lemma match_session_new_session:
  assumes "match_session_new mid roster cfg = Inr m" "wf_round (total_rounds cfg)"
    "unat (round_get (total_rounds cfg)) \<le> 5"
  shows "session_inv m" "flow_view m = (Picking, 1, 0, 0)" "config m = cfg"
proof -
  obtain ps where m: "m = \<lparr>ms_match_id = mid, config = cfg, current_round = RoundNumber 1,
       ms_phase = SkillPick (skill_pick_seconds cfg), score = score_board_new,
       objective_team_a_ms = 0, objective_team_b_ms = 0, ms_players = ps\<rparr>"
    using match_session_new_Inr [OF assms(1)] by metis
  with match_new_inv [OF assms(1,2)] assms(3)
  show "session_inv m" "flow_view m = (Picking, 1, 0, 0)" "config m = cfg"
    by (simp_all add: session_inv_def total_no_def flow_view_def round_no_def score_board_new_def)
qed

section \<open>Properties\<close>

text \<open>
  A concrete match: the two players of \<open>sample_roster\<close>, a target of 1000 ms on the objective.
  \<open>play_round k w\<close> plays round \<open>k\<close>: both pick the Mage tier \<open>k\<close>, the pre-combat countdown
  runs out and team \<open>w\<close> holds the objective.
\<close>

definition sample_config :: "u8 \<Rightarrow> match_config" where
  "sample_config rounds =
     \<lparr>total_rounds = RoundNumber rounds, skill_pick_seconds = 25, pre_combat_seconds = 5,
      objective_target_ms = 1000\<rparr>"

definition play_round :: "u8 \<Rightarrow> team_side \<Rightarrow> match_op list" where
  "play_round k w =
     [SubmitSkillPick (PlayerId 1) \<lparr>tree = Known Mage, tier = k\<rparr>,
      SubmitSkillPick (PlayerId 2) \<lparr>tree = Known Mage, tier = k\<rparr>,
      AdvancePhaseBy 5, AdvanceObjectiveControl (w = TeamA) (w = TeamB) 1000]"

definition fresh_player :: "team_assignment \<Rightarrow> u8 \<Rightarrow> match_player" where
  "fresh_player a t =
     \<lparr>assignment = a,
      loadout_progress = \<lparr>unlocked_tiers = (if t = 0 then [] else [(Known Mage, t)])\<rparr>,
      selected_for_round = None,
      equipped_slots = map (\<lambda>k. if k \<le> t then Some \<lparr>tree = Known Mage, tier = k\<rparr> else None) [1, 2, 3, 4, 5],
      alive = True\<rparr>"

text \<open>The session at the start of round \<open>k + 1\<close>, both players having picked Mage tiers \<open>1..k\<close>.\<close>

definition sample_at :: "u8 \<Rightarrow> u8 \<Rightarrow> u8 \<Rightarrow> u8 \<Rightarrow> match_session" where
  "sample_at rounds k a b =
     \<lparr>ms_match_id = MatchId 1, config = sample_config rounds, current_round = RoundNumber (k + 1),
      ms_phase = SkillPick 25, score = \<lparr>team_a = a, team_b = b\<rparr>, objective_team_a_ms = 0,
      objective_team_b_ms = 0,
      ms_players = [(PlayerId 1, fresh_player (sample_roster ! 0) k),
                    (PlayerId 2, fresh_player (sample_roster ! 1) k)]\<rparr>"

lemmas session_eval = match_session_new_def sample_config_def sample_roster_def sample_at_def
  fresh_player_def new_match_player_def loadout_progress_new_def known_round_1 score_board_new_def
  bt_contains_def less_player_id_def less_eq_player_id_def

lemma u8_small: "\<not> 2 \<le> (1::u8)" "\<not> 3 \<le> (1::u8)" "\<not> 4 \<le> (1::u8)" "\<not> 5 \<le> (1::u8)"
  "\<not> 2 \<le> (0::u8)" "\<not> 3 \<le> (0::u8)" "\<not> 4 \<le> (0::u8)" "\<not> 5 \<le> (0::u8)"
  by (simp_all add: word_le_nat_alt)

lemma replicate_5: "replicate 5 x = [x, x, x, x, x]"
  by (simp add: eval_nat_numeral)

lemma sample_session: "match_session_new (MatchId 1) sample_roster (sample_config rounds) = Inr (sample_at rounds 0 0 0)"
  by (simp add: session_eval u8_small replicate_5)

lemmas step_eval = submit_skill_pick_def advance_phase_by_def advance_objective_control_def
  loadout_apply_def can_apply_def tier_for_def set_player_def all_selected_def bt_values_def
  objective_gain_def objective_winner_def finish_round_def reset_for_next_round_def
  bt_map_values_def round_next_def MAX_ROUNDS_def sat_add_def sat_sub_def sat_mul_def checked_add_def

lemma list_update_numeral [simp]: "(x # xs)[numeral n := v] = x # xs[pred_numeral n := v]"
  by (simp add: numeral_eq_Suc)

lemma play_round_at:
  "R \<noteq> 1 \<Longrightarrow> snd (run match_step (play_round 1 TeamA) (sample_at R 0 0 0)) = sample_at R 1 1 0"
  "R \<noteq> 2 \<Longrightarrow> snd (run match_step (play_round 2 TeamA) (sample_at R 1 1 0)) = sample_at R 2 2 0"
  "R \<noteq> 3 \<Longrightarrow> snd (run match_step (play_round 3 TeamA) (sample_at R 2 2 0)) = sample_at R 3 3 0"
  "R \<noteq> 4 \<Longrightarrow> snd (run match_step (play_round 4 TeamA) (sample_at R 3 3 0)) = sample_at R 4 4 0"
  "R \<noteq> 5 \<Longrightarrow> snd (run match_step (play_round 5 TeamA) (sample_at R 4 4 0)) = sample_at R 5 5 0"
  by (simp_all add: play_round_def session_eval step_eval Let_def expect_phase_def u8_small)

lemma sample_config_wf: "1 \<le> unat R \<Longrightarrow> unat R \<le> 99 \<Longrightarrow> wf_round (total_rounds (sample_config R))"
  by (simp add: wf_round_unat sample_config_def)

lemma sample_session_inv: "session_inv (sample_at 5 0 0 0)"
  by (rule match_session_new_session(1) [OF sample_session sample_config_wf])
    (simp_all add: sample_config_def)

lemma play_round_valid: "1 \<le> k \<Longrightarrow> k \<le> MAX_SKILL_TIER \<Longrightarrow> list_all valid_match_op (play_round k w)"
  by (simp add: play_round_def wf_skill_choice_def)

text \<open>
  C28: A match of at most five rounds never panics, whatever valid operations its session
  receives, and the number of configured rounds never changes.
\<close>

theorem match_never_panics:
  assumes "match_session_new mid roster cfg = Inr m" "wf_round (total_rounds cfg)"
    "unat (round_get (total_rounds cfg)) \<le> 5" "list_all valid_match_op xs"
  shows "Inl Panic \<notin> set (fst (run match_step xs m)) \<and>
    total_no (snd (run match_step xs m)) = unat (round_get (total_rounds cfg))"
  using match_run_flow [OF match_session_new_session(1) [OF assms(1-3)] assms(4)]
    match_session_new_session(3) [OF assms(1-3)]
  by (simp add: total_no_def)

theorem match_never_panics_witness:
  "Inl Panic \<notin> set (fst (run match_step (play_round 1 TeamA) (sample_at 5 0 0 0)))"
  using match_never_panics [OF sample_session sample_config_wf, of 5 "play_round 1 TeamA"]
    play_round_valid [of 1 TeamA]
  by (simp add: sample_config_def MAX_SKILL_TIER_def)



text \<open>
  C27: In a match of at most five rounds the score always accounts for the rounds: while a round is being played the two scores
  add up to the rounds finished before it, and when the match ends with a winner they add up to
  all the configured rounds. During picks everyone is alive and someone has not picked; during
  combat everyone has picked and both teams have a player alive.
\<close>

theorem match_scores_rounds:
  assumes "match_session_new mid roster cfg = Inr m0" "wf_round (total_rounds cfg)"
    "unat (round_get (total_rounds cfg)) \<le> 5" "list_all valid_match_op xs"
    "m = snd (run match_step xs m0)"
  shows "case ms_phase m of
      SkillPick _ \<Rightarrow> score_sum m + 1 = round_no m \<and>
        (\<forall>p \<in> set (bt_values (ms_players m)). alive p) \<and>
        (\<exists>p \<in> set (bt_values (ms_players m)). selected_for_round p = None)
    | PreCombat _ \<Rightarrow> score_sum m + 1 = round_no m \<and>
        (\<forall>p \<in> set (bt_values (ms_players m)). alive p \<and> selected_for_round p \<noteq> None)
    | Combat \<Rightarrow> score_sum m + 1 = round_no m \<and>
        (\<forall>p \<in> set (bt_values (ms_players m)). selected_for_round p \<noteq> None) \<and>
        (\<forall>t. \<exists>p \<in> set (bt_values (ms_players m)). ta_team (assignment p) = t \<and> alive p)
    | MatchEnd outcome _ \<Rightarrow> outcome \<noteq> NoContest \<longrightarrow>
        round_no m = unat (round_get (total_rounds cfg)) \<and> score_sum m = round_no m"
proof -
  have "session_inv m" unfolding assms(5)
    by (rule match_machine.run_inv [OF match_session_new_session(1) [OF assms(1-3)] assms(4)])
  then have "phase_inv (ms_phase m) m" by (simp add: session_inv_def match_inv_def)
  moreover have "total_no m = unat (round_get (total_rounds cfg))"
    using match_run_flow [OF match_session_new_session(1) [OF assms(1-3)] assms(4)]
      match_session_new_session(3) [OF assms(1-3)] assms(5)
    by (simp add: total_no_def)
  ultimately show ?thesis
    by (auto simp: all_selected_def all_alive_def team_defeated_def list_all_iff Bex_def split: match_phase.splits)
qed

theorem match_scores_rounds_witness: "score_sum (sample_at 5 1 1 0) + 1 = round_no (sample_at 5 1 1 0)"
  using match_scores_rounds [OF sample_session sample_config_wf, of 5 "play_round 1 TeamA" "sample_at 5 1 1 0"]
    play_round_valid [of 1 TeamA] play_round_at(1) [of 5]
  by (simp add: sample_config_def MAX_SKILL_TIER_def)
    (simp add: sample_at_def)

text \<open>
  An operation that returns an error leaves the whole session as it was, in every state
  that satisfies the session invariant and for any number of rounds.
\<close>

lemma match_error_unchanged:
  assumes "match_inv m" "valid_match_op x" "fst (match_step x m) = Inl (Err e)"
  shows "snd (match_step x m) = m"
  by (rule match_step_rejected [OF assms(1,2)]) (simp add: match_rejected_def assms(3))

lemma match_error_unchanged_example:
  "snd (match_step (SubmitSkillPick (PlayerId 1) \<lparr>tree = Known Mage, tier = 3\<rparr>) (sample_at 5 0 0 0)) =
     sample_at 5 0 0 0"
proof (rule match_error_unchanged)
  show "match_inv (sample_at 5 0 0 0)" using sample_session_inv by (simp add: session_inv_def)
  show "fst (match_step (SubmitSkillPick (PlayerId 1) \<lparr>tree = Known Mage, tier = 3\<rparr>) (sample_at 5 0 0 0)) =
      Inl (Err (InvalidSkillChoice (SkillTierGap (Known Mage) 1 3)))"
    by (simp add: session_eval step_eval Let_def expect_phase_def u8_small)
qed (simp add: wf_skill_choice_def MAX_SKILL_TIER_def)

text \<open>
  C29: The exact condition for a panic: the operation is a skill pick that passes every check
  (the phase, the player, no earlier pick, the next tier of its tree) and the round is above 5,
  the length of \<open>equipped_slots\<close>. Round numbers up to 99 can be configured.
\<close>

theorem match_panics_exactly:
  assumes "match_inv m"
  shows "fst (match_step x m) = Inl Panic \<longleftrightarrow>
    (\<exists>pid c p. x = SubmitSkillPick pid c \<and> stage_of (ms_phase m) = Picking \<and>
       bt_get (ms_players m) pid = Some p \<and> selected_for_round p = None \<and>
       tier c = tier_for (loadout_progress p) (tree c) + 1 \<and> 5 < round_get (current_round m))"
  using match_step_panics [OF assms]
  by (auto simp: pick_acceptable_def round_no_def word_less_nat_alt)

definition five_rounds :: "match_op list" where
  "five_rounds = concat (map (\<lambda>k. play_round k TeamA) [1, 2, 3, 4, 5])"

lemma five_rounds_at:
  "snd (run match_step five_rounds (sample_at 6 0 0 0)) = sample_at 6 5 5 0"
  by (simp add: five_rounds_def run_append play_round_at)

lemma five_rounds_inv: "match_inv (sample_at 6 5 5 0)"
  by (simp add: match_inv_def core_inv_def sample_at_def sample_config_def fresh_player_def
      match_player_ok_def wf_loadout_def bt_inv_def all_selected_def all_alive_def bt_values_def
      score_sum_def round_no_def total_no_def wf_round_unat sample_roster_def MAX_SKILL_TIER_def
      less_player_id_def tier_for_def all_team_side) (rule exI [of _ "PlayerId 1"], simp)

theorem match_panics_exactly_witness:
  "fst (match_step (SubmitSkillPick (PlayerId 1) \<lparr>tree = Known Rogue, tier = 1\<rparr>)
     (snd (run match_step five_rounds (sample_at 6 0 0 0)))) = Inl Panic"
  unfolding five_rounds_at match_panics_exactly [OF five_rounds_inv]
  by (simp add: sample_at_def fresh_player_def tier_for_def)

text \<open>
  The team that wins the last round wins the match, whatever the score: if an operation
  reports a round of the configured last number as won by \<open>w\<close>, the match ends with the
  outcome of \<open>w\<close>.
\<close>

lemma last_round_decides:
  assumes "match_step x m = (Inr evs, m')" "RoundWon r w s \<in> set evs" "round_no m = total_no m"
  shows "\<exists>msg. ms_phase m' = MatchEnd (outcome_of w) msg \<and> score m' = s"
proof -
  have fin: "\<exists>msg. ms_phase m' = MatchEnd (outcome_of w) msg \<and> score m' = s"
    if "finish_round w' m1 = (Inr evs, m')" "round_no m1 = total_no m1" for w' m1
    using that assms(2) by (auto simp: finish_last_round Let_def)
  show ?thesis
  proof (cases x)
    case (MarkPlayerDefeated pid)
    then show ?thesis using assms
      by (auto simp: mark_player_defeated_def Let_def split: sum.splits option.splits if_splits
          dest!: fin)
  next
    case (AdvanceObjectiveControl a b d)
    then show ?thesis using assms
      by (auto simp: advance_objective_control_def Let_def round_no_def total_no_def
          split: sum.splits option.splits dest!: fin)
  qed (use assms(1,2) in \<open>auto simp: submit_skill_pick_def advance_phase_by_def disconnect_player_def
      Let_def split: sum.splits option.splits if_splits prod.splits fault.splits match_phase.splits\<close>)
qed

text \<open>Team A leads 4-0, Team B takes the fifth and last round: Team B wins the match.\<close>

lemma last_round_decides_example:
  "\<exists>msg. ms_phase (snd (run match_step (concat (map (\<lambda>k. play_round k TeamA) [1, 2, 3, 4]) @ play_round 5 TeamB)
      (sample_at 5 0 0 0))) = MatchEnd TeamBWin msg"
proof -
  let ?before = "concat (map (\<lambda>k. play_round k TeamA) [1, 2, 3, 4]) @ butlast (play_round 5 TeamB)"
  let ?m = "snd (run match_step ?before (sample_at 5 0 0 0))"
  let ?x = "AdvanceObjectiveControl False True 1000"
  have m: "?m = (sample_at 5 4 4 0)\<lparr>ms_phase := Combat,
      ms_players := [(PlayerId 1, (fresh_player (sample_roster ! 0) 5)\<lparr>selected_for_round := Some \<lparr>tree = Known Mage, tier = 5\<rparr>\<rparr>),
                     (PlayerId 2, (fresh_player (sample_roster ! 1) 5)\<lparr>selected_for_round := Some \<lparr>tree = Known Mage, tier = 5\<rparr>\<rparr>)]\<rparr>"
    by (simp add: run_append play_round_at)
      (simp add: play_round_def session_eval step_eval Let_def expect_phase_def u8_small)
  obtain evs m' where x: "match_step ?x ?m = (Inr evs, m')"
    "RoundWon (RoundNumber 5) TeamB \<lparr>team_a = 4, team_b = 1\<rparr> \<in> set evs"
    unfolding m by (simp add: session_eval step_eval Let_def expect_phase_def)
  moreover have "round_no ?m = total_no ?m"
    unfolding m by (simp add: round_no_def total_no_def session_eval)
  ultimately have "\<exists>msg. ms_phase m' = MatchEnd (outcome_of TeamB) msg" using last_round_decides by blast
  moreover have "snd (run match_step (?before @ [?x]) (sample_at 5 0 0 0)) = m'"
    using x(1) by (simp only: run_append run_Cons_snd run.simps(1) snd_conv)
  moreover have "concat (map (\<lambda>k. play_round k TeamA) [1, 2, 3, 4]) @ play_round 5 TeamB = ?before @ [?x]"
    by (simp add: play_round_def)
  ultimately show ?thesis by simp
qed

text \<open>The first round of the sample match, once combat has started.\<close>

definition sample_combat :: match_session where
  "sample_combat = snd (run match_step (butlast (play_round 1 TeamA)) (sample_at 5 0 0 0))"

lemma sample_combat_inv: "match_inv sample_combat"
proof -
  have "list_all valid_match_op (butlast (play_round 1 TeamA))"
    by (simp add: play_round_def wf_skill_choice_def MAX_SKILL_TIER_def)
  from match_machine.run_inv [OF sample_session_inv this]
  show ?thesis by (simp add: sample_combat_def session_inv_def)
qed

lemma sample_combat_eq:
  "sample_combat = (sample_at 5 0 0 0)\<lparr>ms_phase := Combat,
      ms_players := [(PlayerId 1, (fresh_player (sample_roster ! 0) 1)\<lparr>selected_for_round := Some \<lparr>tree = Known Mage, tier = 1\<rparr>\<rparr>),
                     (PlayerId 2, (fresh_player (sample_roster ! 1) 1)\<lparr>selected_for_round := Some \<lparr>tree = Known Mage, tier = 1\<rparr>\<rparr>)]\<rparr>"
  by (simp add: sample_combat_def play_round_def session_eval step_eval Let_def expect_phase_def u8_small)

lemma unat_objective_gain:
  "unat (objective_gain present d target cur) =
     (if present then min (unat cur + unat d) (min (2 * unat target) (2 ^ 32 - 1)) else unat cur)"
proof -
  have "unat (ucast d :: u32) = unat d"
    using unat_u16_le [of d] by (simp add: U16_MAX_def unsigned_ucast_eq take_bit_nat_eq_self_iff)
  moreover have "unat (min x y) = min (unat x) (unat y)" for x y :: u32
    by (simp add: min_def word_le_nat_alt)
  ultimately show ?thesis
    by (simp add: objective_gain_def unat_sat_add unat_sat_mul min.assoc [symmetric] mult.commute)
      (simp add: min_def)
qed

lemma objective_winner_iff:
  "objective_winner t a b = Some TeamA \<longleftrightarrow> t \<le> a \<and> b < a"
  "objective_winner t a b = Some TeamB \<longleftrightarrow> t \<le> b \<and> a < b"
  by (auto simp: objective_winner_def)

text \<open>
  C34: The objective clocks during combat: each present team gains the elapsed time, capped at
  twice the target (and at the \<open>u32\<close> range). A team wins the round by the objective exactly
  when its clock has reached the target and is ahead of the other one; otherwise only the clocks
  change.
\<close>

theorem objective_control_exact:
  assumes "match_inv m" "ms_phase m = Combat"
    "advance_objective_control a_present b_present d m = (r, m')"
    "cap = min (2 * unat (objective_target_ms (config m))) (2 ^ 32 - 1)"
    "a = (if a_present then min (unat (objective_team_a_ms m) + unat d) cap else unat (objective_team_a_ms m))"
    "b = (if b_present then min (unat (objective_team_b_ms m) + unat d) cap else unat (objective_team_b_ms m))"
  shows "\<exists>evs. r = Inr evs \<and>
    ((\<exists>s. RoundWon (current_round m) TeamA s \<in> set evs) \<longleftrightarrow>
       unat (objective_target_ms (config m)) \<le> a \<and> b < a) \<and>
    ((\<exists>s. RoundWon (current_round m) TeamB s \<in> set evs) \<longleftrightarrow>
       unat (objective_target_ms (config m)) \<le> b \<and> a < b) \<and>
    (evs = [] \<longrightarrow> m' = m\<lparr>objective_team_a_ms := of_nat a, objective_team_b_ms := of_nat b\<rparr>)"
proof -
  let ?t = "objective_target_ms (config m)"
  let ?a = "objective_gain a_present d ?t (objective_team_a_ms m)"
  let ?b = "objective_gain b_present d ?t (objective_team_b_ms m)"
  let ?m = "m\<lparr>objective_team_a_ms := ?a, objective_team_b_ms := ?b\<rparr>"
  have ab: "unat ?a = a" "unat ?b = b" using assms(4-6) by (simp_all add: unat_objective_gain)
  then have words: "?a = of_nat a" "?b = of_nat b"
    by (metis word_of_nat_eq_iff of_nat_unat ucast_id)+
  have m: "core_inv m" "Suc (score_sum m) = round_no m"
    using match_invD(1) [OF assms(1)] match_invD(4) [OF assms(1)] assms(2) by simp_all
  have step: "(r, m') = (case objective_winner ?t ?a ?b of None \<Rightarrow> (Inr [], ?m) | Some w \<Rightarrow> finish_round w ?m)"
    using assms(2,3) by (simp add: advance_objective_control_def expect_phase_def Let_def)
  have fin: "\<exists>evs m1. finish_round w ?m = (Inr evs, m1) \<and> evs \<noteq> [] \<and>
      (\<forall>w'. (\<exists>s. RoundWon (current_round m) w' s \<in> set evs) \<longleftrightarrow> w' = w)" for w
  proof -
    have "core_inv ?m" using m(1)
      by (simp add: core_inv_def round_no_def total_no_def objective_gain_bound)
    moreover have "current_round ?m = current_round m" by simp
    ultimately show ?thesis
      by (cases "round_no ?m = total_no ?m")
        (fastforce simp: finish_last_round Let_def elim: finish_inner_round)+
  qed
  show ?thesis
  proof (cases "objective_winner ?t ?a ?b")
    case None
    then have "\<not> (?t \<le> ?a \<and> ?b < ?a)" "\<not> (?t \<le> ?b \<and> ?a < ?b)"
      using objective_winner_iff [of ?t ?a ?b] by simp_all
    with None step show ?thesis
      using words ab by (auto simp: word_le_nat_alt word_less_nat_alt)
  next
    case (Some w)
    obtain evs m1 where "finish_round w ?m = (Inr evs, m1)" "evs \<noteq> []"
      "\<And>w'. (\<exists>s. RoundWon (current_round m) w' s \<in> set evs) \<longleftrightarrow> w' = w"
      using fin [of w] by blast
    note fin' = this(1,2) this(3) [of TeamA] this(3) [of TeamB]
    from Some step fin' show ?thesis
      using objective_winner_iff [of ?t ?a ?b] ab
      by (cases w) (simp_all add: word_le_nat_alt word_less_nat_alt)
  qed
qed

theorem objective_control_exact_witness:
  "\<exists>evs m' s. advance_objective_control True False 1000 sample_combat = (Inr evs, m') \<and>
     RoundWon (RoundNumber 1) TeamA s \<in> set evs"
proof -
  obtain r m' where rm: "advance_objective_control True False 1000 sample_combat = (r, m')"
    by fastforce
  have "ms_phase sample_combat = Combat" by (simp add: sample_combat_eq)
  from objective_control_exact [OF sample_combat_inv this rm refl refl refl]
  show ?thesis using rm by (auto simp: sample_combat_eq session_eval)
qed

text \<open>
  When both clocks have reached the cap they are tied for the rest of the round: holding
  the objective, alone or not, for any time, changes nothing, so the round can then only be won
  by defeating a team.
\<close>

lemma objective_stalemate:
  assumes "ms_phase m = Combat"
    "objective_team_a_ms m = sat_mul (objective_target_ms (config m)) 2"
    "objective_team_b_ms m = sat_mul (objective_target_ms (config m)) 2"
  shows "advance_objective_control a_present b_present d m = (Inr [], m)"
proof -
  have "objective_gain p d t (sat_mul t 2) = sat_mul t 2" for p t
    by (simp add: objective_gain_def min_absorb2 le_sat_add)
  with assms show ?thesis
    by (simp add: advance_objective_control_def expect_phase_def objective_winner_def Let_def)
qed

lemma objective_stalemate_example:
  "let (rs, m) = run match_step [AdvanceObjectiveControl True True 1000, AdvanceObjectiveControl True True 1000]
       sample_combat in
   rs = [Inr [], Inr []] \<and> advance_objective_control True False 60000 m = (Inr [], m)"
proof -
  let ?m = "sample_combat\<lparr>objective_team_a_ms := 2000, objective_team_b_ms := 2000\<rparr>"
  have "run match_step [AdvanceObjectiveControl True True 1000, AdvanceObjectiveControl True True 1000]
      sample_combat = ([Inr [], Inr []], ?m)"
    by (simp add: run.simps sample_combat_eq session_eval step_eval expect_phase_def Let_def)
  moreover have "advance_objective_control True False 60000 ?m = (Inr [], ?m)"
    by (rule objective_stalemate) (simp_all add: sample_combat_eq session_eval sat_mul_def)
  ultimately show ?thesis by simp
qed

text \<open>
  A disconnect of a player of the match ends it as no contest from any phase, a finished
  match included, keeps the score and everything else, and announces at most 200 bytes, the
  limit of a message on the wire. Afterwards every other operation is rejected.
\<close>

lemma disconnect_ends_match:
  assumes "bt_get (ms_players m) pid = Some p" "wf_player_name (ta_player_name (assignment p))"
    "disconnect_player pid m = (r, m')"
  shows "\<exists>msg. r = Inr (MatchEnded NoContest msg (score m)) \<and>
    m' = m\<lparr>ms_phase := MatchEnd NoContest msg\<rparr> \<and> str_len msg \<le> 200 \<and>
    (\<forall>x. (\<forall>k. x \<noteq> DisconnectPlayer k) \<longrightarrow> x \<noteq> AdvancePhaseBy 0 \<longrightarrow>
       (\<exists>e. match_step x m' = (Inl (Err e), m')))"
proof -
  let ?msg = "match_disconnect_message (ta_player_name (assignment p))"
  have "str_len ?msg \<le> 200"
    using assms(2) name_str_len [of "player_name_as_str (ta_player_name (assignment p))"]
    by (simp add: match_disconnect_message_def wf_player_name_def MAX_PLAYER_NAME_LEN_def)
      (simp add: text_eval)
  moreover have "\<exists>e. match_step x (m\<lparr>ms_phase := MatchEnd NoContest ?msg\<rparr>) =
      (Inl (Err e), m\<lparr>ms_phase := MatchEnd NoContest ?msg\<rparr>)"
    if "\<forall>k. x \<noteq> DisconnectPlayer k" "x \<noteq> AdvancePhaseBy 0" for x
    using that
    by (cases x) (simp_all add: submit_skill_pick_def advance_phase_by_def mark_player_defeated_def
        advance_objective_control_def expect_phase_def)
  ultimately show ?thesis using assms(1,3)
    by (auto simp: disconnect_player_def Let_def)
qed

lemma disconnect_ends_match_example:
  "\<exists>msg. ms_phase (snd (disconnect_player (PlayerId 2) sample_combat)) = MatchEnd NoContest msg \<and>
     str_len msg \<le> 200"
proof -
  obtain r m' where rm: "disconnect_player (PlayerId 2) sample_combat = (r, m')" by fastforce
  obtain p where p: "bt_get (ms_players sample_combat) (PlayerId 2) = Some p"
    "ta_player_name (assignment p) = PlayerName (lit ''Bob'')"
    by (simp add: sample_combat_eq session_eval)
  have "wf_player_name (ta_player_name (assignment p))"
    by (simp add: p wf_player_name_def name_char_ok_def MAX_PLAYER_NAME_LEN_def text_eval)
  from disconnect_ends_match [OF p(1) this rm] show ?thesis using rm by auto
qed

end
