(* ===== verification/Packet.thy ===== *)
theory Packet
  imports Domain
begin

text \<open>
  The packet layer of the crate \<open>game_net\<close>: channels and packet kinds
  (\<open>packet_types.rs\<close>), the packet errors (\<open>error.rs\<close>) and the 16-byte header
  (\<open>header.rs\<close>). Byte slices are lists of \<open>u8\<close>, and every index or slice expression of the
  code is guarded in the model: out of range is \<open>Panic\<close>.
\<close>

section \<open>Constants, channels, kinds, errors\<close>

definition PACKET_MAGIC :: u16 where "PACKET_MAGIC = 0x5241"
definition PROTOCOL_VERSION :: u8 where "PROTOCOL_VERSION = 9"
definition HEADER_LEN :: nat where "HEADER_LEN = 16"

datatype channel_id = ControlChannel | InputChannel | SnapshotChannel

datatype packet_kind =
    ControlSnapshot
  | ControlDelta
  | LaunchCountdownStartedPacket
  | MatchStartedPacket
  | MatchAbortedPacket
  | MatchStatistics
  | ControlCommand
  | ControlEvent
  | InputFrame
  | FullSnapshot
  | DeltaSnapshot
  | EventBatch
  | CombatTextBatch

datatype packet_error =
    PacketTooShort nat nat
  | MagicMismatch u16 u16
  | VersionMismatch u8 u8
  | UnknownChannel u8
  | UnknownPacketKind channel_id u8
  | PayloadLengthMismatch u16 nat
  | UnexpectedPacketKind channel_id packet_kind channel_id packet_kind
  | InputPayloadLengthMismatch nat nat
  | UnknownButtonBits u16 u16
  | MissingAbilityContext
  | SelfCastWithoutCast
  | UnexpectedAbilityContext u16
  | ControlPayloadTooShort string nat nat
  | UnexpectedTrailingBytes string nat
  | UnknownControlCommand u8
  | UnknownServerEvent u8
  | InvalidEncodedPlayerId u32
  | InvalidEncodedLobbyId u32
  | InvalidEncodedMatchId u32
  | InvalidEncodedRound u8
  | InvalidEncodedTeam u8
  | InvalidEncodedOptionalTeam u8
  | InvalidEncodedReadyState u8
  | InvalidEncodedSkillTree domain_error
  | InvalidEncodedMatchOutcome u8
  | InvalidEncodedLobbyPhase u8
  | InvalidEncodedArenaMatchPhase u8
  | InvalidEncodedArenaObstacleKind u8
  | InvalidEncodedArenaEffectKind u8
  | InvalidEncodedArenaCombatTextStyle u8
  | InvalidEncodedArenaStatusKind u8
  | InvalidEncodedBoolean u8
  | InvalidEncodedPlayerName domain_error
  | InvalidUtf8String string
  | StringLengthOutOfBounds string nat nat
  | IngressPacketTooLarge nat nat
  | FirstPacketMustBeConnect
  | ConnectCommandAfterBinding
  | PayloadTooLarge nat nat
  | StaleSequence u32 u32

definition channel_from_byte :: "u8 \<Rightarrow> packet_error + channel_id" where
  "channel_from_byte raw =
     (if raw = 0 then Inr ControlChannel
      else if raw = 1 then Inr InputChannel
      else if raw = 2 then Inr SnapshotChannel
      else Inl (UnknownChannel raw))"

fun channel_to_byte :: "channel_id \<Rightarrow> u8" where
  "channel_to_byte ControlChannel = 0"
| "channel_to_byte InputChannel = 1"
| "channel_to_byte SnapshotChannel = 2"

definition control_from_byte :: "u8 \<Rightarrow> packet_kind option" where
  "control_from_byte raw =
     (if raw = 0 then Some ControlSnapshot
      else if raw = 1 then Some ControlDelta
      else if raw = 2 then Some LaunchCountdownStartedPacket
      else if raw = 3 then Some MatchStartedPacket
      else if raw = 4 then Some MatchAbortedPacket
      else if raw = 5 then Some MatchStatistics
      else if raw = 6 then Some ControlCommand
      else if raw = 7 then Some ControlEvent
      else None)"

definition input_from_byte :: "u8 \<Rightarrow> packet_kind option" where
  "input_from_byte raw = (if raw = 16 then Some InputFrame else None)"

definition snapshot_from_byte :: "u8 \<Rightarrow> packet_kind option" where
  "snapshot_from_byte raw =
     (if raw = 32 then Some FullSnapshot
      else if raw = 33 then Some DeltaSnapshot
      else if raw = 34 then Some EventBatch
      else if raw = 35 then Some CombatTextBatch
      else None)"

definition kind_from_byte :: "channel_id \<Rightarrow> u8 \<Rightarrow> packet_error + packet_kind" where
  "kind_from_byte channel raw =
     (case (case channel of ControlChannel \<Rightarrow> control_from_byte raw
            | InputChannel \<Rightarrow> input_from_byte raw
            | SnapshotChannel \<Rightarrow> snapshot_from_byte raw) of
        Some kind \<Rightarrow> Inr kind
      | None \<Rightarrow> Inl (UnknownPacketKind channel raw))"

fun kind_to_byte :: "packet_kind \<Rightarrow> u8" where
  "kind_to_byte ControlSnapshot = 0"
| "kind_to_byte ControlDelta = 1"
| "kind_to_byte LaunchCountdownStartedPacket = 2"
| "kind_to_byte MatchStartedPacket = 3"
| "kind_to_byte MatchAbortedPacket = 4"
| "kind_to_byte MatchStatistics = 5"
| "kind_to_byte ControlCommand = 6"
| "kind_to_byte ControlEvent = 7"
| "kind_to_byte InputFrame = 16"
| "kind_to_byte FullSnapshot = 32"
| "kind_to_byte DeltaSnapshot = 33"
| "kind_to_byte EventBatch = 34"
| "kind_to_byte CombatTextBatch = 35"

section \<open>The header\<close>

record packet_header =
  hd_version :: u8
  hd_channel_id :: channel_id
  hd_packet_kind :: packet_kind
  hd_flags :: u8
  hd_payload_len :: u16
  hd_seq :: u32
  hd_sim_tick :: u32

text \<open>The \<open>debug_assert\<close> compares the decoded kind with the given one.\<close>

definition header_new ::
  "channel_id \<Rightarrow> packet_kind \<Rightarrow> u8 \<Rightarrow> u16 \<Rightarrow> u32 \<Rightarrow> u32 \<Rightarrow> packet_error fault + packet_header" where
  "header_new channel kind flags payload_len seq sim_tick =
     and_then (map_err Err (kind_from_byte channel (kind_to_byte kind))) (\<lambda>decoded_kind.
     if decoded_kind \<noteq> kind then Inl Panic
     else Inr \<lparr>hd_version = PROTOCOL_VERSION, hd_channel_id = channel, hd_packet_kind = kind,
            hd_flags = flags, hd_payload_len = payload_len, hd_seq = seq, hd_sim_tick = sim_tick\<rparr>)"

definition header_encode :: "packet_header \<Rightarrow> u8 list \<Rightarrow> u8 list" where
  "header_encode h payload =
     u16_to_le PACKET_MAGIC @ [hd_version h] @ [channel_to_byte (hd_channel_id h)] @
     [kind_to_byte (hd_packet_kind h)] @ [hd_flags h] @ u16_to_le (hd_payload_len h) @
     u32_to_le (hd_seq h) @ u32_to_le (hd_sim_tick h) @ payload"

definition header_decode :: "u8 list \<Rightarrow> packet_error + (packet_header \<times> u8 list)" where
  "header_decode packet =
     (if length packet < HEADER_LEN then Inl (PacketTooShort (length packet) HEADER_LEN)
      else
        let magic = u16_from_le (packet ! 0) (packet ! 1) in
        if magic \<noteq> PACKET_MAGIC then Inl (MagicMismatch PACKET_MAGIC magic)
        else
          let version = packet ! 2 in
          if version \<noteq> PROTOCOL_VERSION then Inl (VersionMismatch PROTOCOL_VERSION version)
          else
            and_then (channel_from_byte (packet ! 3)) (\<lambda>channel.
            and_then (kind_from_byte channel (packet ! 4)) (\<lambda>kind.
              let flags = packet ! 5;
                  payload_len = u16_from_le (packet ! 6) (packet ! 7);
                  seq = u32_from_le (packet ! 8) (packet ! 9) (packet ! 10) (packet ! 11);
                  sim_tick = u32_from_le (packet ! 12) (packet ! 13) (packet ! 14) (packet ! 15);
                  payload = drop HEADER_LEN packet in
              if length payload \<noteq> unat payload_len then
                Inl (PayloadLengthMismatch payload_len (length payload))
              else
                Inr (\<lparr>hd_version = version, hd_channel_id = channel, hd_packet_kind = kind,
                      hd_flags = flags, hd_payload_len = payload_len, hd_seq = seq,
                      hd_sim_tick = sim_tick\<rparr>, payload))))"

text \<open>All the indices of \<open>header_decode\<close> are below \<open>HEADER_LEN\<close>, so none of them panics.\<close>

fun kind_on_channel :: "channel_id \<Rightarrow> packet_kind \<Rightarrow> bool" where
  "kind_on_channel ControlChannel k \<longleftrightarrow>
     k \<in> {ControlSnapshot, ControlDelta, LaunchCountdownStartedPacket, MatchStartedPacket,
           MatchAbortedPacket, MatchStatistics, ControlCommand, ControlEvent}"
| "kind_on_channel InputChannel k \<longleftrightarrow> k = InputFrame"
| "kind_on_channel SnapshotChannel k \<longleftrightarrow> k \<in> {FullSnapshot, DeltaSnapshot, EventBatch, CombatTextBatch}"

lemma channel_from_byte_iff: "channel_from_byte raw = Inr c \<longleftrightarrow> raw = channel_to_byte c"
  by (cases c) (auto simp: channel_from_byte_def)

lemma kind_from_byte_iff: "kind_from_byte c raw = Inr k \<longleftrightarrow> kind_on_channel c k \<and> raw = kind_to_byte k"
  by (cases c; cases k; simp add: kind_from_byte_def control_from_byte_def input_from_byte_def
      snapshot_from_byte_def)

text \<open>What \<open>header_decode\<close> accepts, byte by byte.\<close>

definition wf_header :: "packet_header \<Rightarrow> u8 list \<Rightarrow> bool" where
  "wf_header h payload \<longleftrightarrow> hd_version h = PROTOCOL_VERSION \<and>
     kind_on_channel (hd_channel_id h) (hd_packet_kind h) \<and>
     length payload = unat (hd_payload_len h)"

lemma header_new_iff:
  "header_new c k fl n sq t = Inr h \<longleftrightarrow> kind_on_channel c k \<and>
     h = \<lparr>hd_version = PROTOCOL_VERSION, hd_channel_id = c, hd_packet_kind = k, hd_flags = fl,
          hd_payload_len = n, hd_seq = sq, hd_sim_tick = t\<rparr>"
  by (auto simp: header_new_def and_then_eq_Inr kind_from_byte_iff split: sum.splits)

lemma header_new_no_panic: "header_new c k fl n sq t \<noteq> Inl Panic"
  by (cases c; cases k; simp add: header_new_def kind_from_byte_def control_from_byte_def
      input_from_byte_def snapshot_from_byte_def)

lemma header_encode_bytes:
  "header_encode h payload =
     [ucast PACKET_MAGIC, ucast (drop_bit 8 PACKET_MAGIC), hd_version h, channel_to_byte (hd_channel_id h),
      kind_to_byte (hd_packet_kind h), hd_flags h, ucast (hd_payload_len h),
      ucast (drop_bit 8 (hd_payload_len h)), ucast (hd_seq h), ucast (drop_bit 8 (hd_seq h)),
      ucast (drop_bit 16 (hd_seq h)), ucast (drop_bit 24 (hd_seq h)), ucast (hd_sim_tick h),
      ucast (drop_bit 8 (hd_sim_tick h)), ucast (drop_bit 16 (hd_sim_tick h)),
      ucast (drop_bit 24 (hd_sim_tick h))] @ payload"
  by (simp add: header_encode_def u16_to_le_def u32_to_le_def)

lemma nth_Cons_numeral [simp]: "(x # xs) ! numeral n = xs ! pred_numeral n"
  by (simp add: numeral_eq_Suc)

lemma drop_Cons_numeral' [simp]: "drop (numeral n) (x # xs) = drop (pred_numeral n) xs"
  by (simp add: numeral_eq_Suc)

lemma header_decode_encode:
  assumes "wf_header h payload"
  shows "header_decode (header_encode h payload) = Inr (h, payload)"
proof -
  have "kind_from_byte (hd_channel_id h) (kind_to_byte (hd_packet_kind h)) = Inr (hd_packet_kind h)"
    using assms by (simp add: kind_from_byte_iff wf_header_def)
  moreover have "channel_from_byte (channel_to_byte (hd_channel_id h)) = Inr (hd_channel_id h)"
    by (simp add: channel_from_byte_iff)
  ultimately show ?thesis
    using assms
    by (simp add: header_decode_def header_encode_bytes HEADER_LEN_def from_to_le wf_header_def Let_def)
qed

lemma take_16:
  assumes "16 \<le> length p"
  shows "p = [p ! 0, p ! 1, p ! 2, p ! 3, p ! 4, p ! 5, p ! 6, p ! 7, p ! 8, p ! 9, p ! 10, p ! 11,
    p ! 12, p ! 13, p ! 14, p ! 15] @ drop 16 p"
proof -
  have "take 16 p = map ((!) p) [0..<16]"
    using assms by (intro nth_equalityI) simp_all
  moreover have "[0..<16] = 0 # 1 # [2..<16::nat]" by (simp add: upt_conv_Cons numeral_2_eq_2)
  moreover have "[2..<16::nat] = [2, 3, 4, 5, 6, 7, 8, 9, 10, 11, 12, 13, 14, 15]" by simp
  ultimately have "take 16 p = [p ! 0, p ! 1, p ! 2, p ! 3, p ! 4, p ! 5, p ! 6, p ! 7, p ! 8, p ! 9, p ! 10,
    p ! 11, p ! 12, p ! 13, p ! 14, p ! 15]" by (simp only: list.map)
  then show ?thesis by (metis append_take_drop_id)
qed

lemma header_encode_decode:
  assumes "header_decode packet = Inr (h, payload)"
  shows "packet = header_encode h payload \<and> wf_header h payload"
proof -
  have len: "16 \<le> length packet" using assms by (simp add: header_decode_def HEADER_LEN_def split: if_splits)
  from assms have ok: "u16_from_le (packet ! 0) (packet ! 1) = PACKET_MAGIC" "packet ! 2 = PROTOCOL_VERSION"
    "packet ! 3 = channel_to_byte (hd_channel_id h)" "packet ! 4 = kind_to_byte (hd_packet_kind h)"
    "kind_on_channel (hd_channel_id h) (hd_packet_kind h)" "hd_version h = PROTOCOL_VERSION"
    "hd_flags h = packet ! 5" "hd_payload_len h = u16_from_le (packet ! 6) (packet ! 7)"
    "hd_seq h = u32_from_le (packet ! 8) (packet ! 9) (packet ! 10) (packet ! 11)"
    "hd_sim_tick h = u32_from_le (packet ! 12) (packet ! 13) (packet ! 14) (packet ! 15)"
    "payload = drop 16 packet" "length payload = unat (hd_payload_len h)"
    by (auto simp: header_decode_def HEADER_LEN_def Let_def and_then_eq_Inr channel_from_byte_iff
        kind_from_byte_iff split: if_splits)
  have "header_encode h payload = [packet ! 0, packet ! 1, packet ! 2, packet ! 3, packet ! 4, packet ! 5,
      packet ! 6, packet ! 7, packet ! 8, packet ! 9, packet ! 10, packet ! 11, packet ! 12, packet ! 13,
      packet ! 14, packet ! 15] @ drop 16 packet"
    by (simp add: header_encode_def ok(2-11) flip: ok(1))
  then have "header_encode h payload = packet" using take_16 [OF len] by simp
  with ok show ?thesis by (simp add: wf_header_def)
qed

lemma header_decode_iff:
  "header_decode packet = Inr (h, payload) \<longleftrightarrow> packet = header_encode h payload \<and> wf_header h payload"
  using header_decode_encode header_encode_decode by blast

end
