(* ===== verification/Wire.thy ===== *)
theory Wire
  imports Packet
begin

text \<open>
  Readers and writers of packet payloads. A reader of the code is a function on the payload and
  a mutable index; here it returns its value with the new index, an error (after which the index
  is not used any more) or \<open>Panic\<close>. A writer appends to the payload. The relation \<open>inverts\<close>
  says that what a writer appends is read back, wherever it stands in a payload of at most
  65535 bytes; \<open>reader_ok\<close> says that a reader never panics, never leaves the payload and
  returns only good values. Both are compositional, and the locale \<open>codec\<close> lifts them from one
  value to the length-prefixed lists of the protocol.
\<close>

section \<open>Combinators\<close>

type_synonym 'a reader = "u8 list \<Rightarrow> nat \<Rightarrow> packet_error fault + ('a \<times> nat)"
type_synonym writer = "u8 list \<Rightarrow> packet_error fault + u8 list"

definition rd_return :: "'a \<Rightarrow> 'a reader" where
  "rd_return v = (\<lambda>payload i. Inr (v, i))"

definition rd_fail :: "packet_error \<Rightarrow> 'a reader" where
  "rd_fail e = (\<lambda>payload i. Inl (Err e))"

definition rd_bind :: "'a reader \<Rightarrow> ('a \<Rightarrow> 'b reader) \<Rightarrow> 'b reader" where
  "rd_bind m f = (\<lambda>payload i. and_then (m payload i) (\<lambda>(v, j). f v payload j))"

text \<open>\<open>for _ in 0..n \<close> pushing what \<open>m\<close> reads.\<close>

primrec read_many :: "nat \<Rightarrow> 'a reader \<Rightarrow> 'a list reader" where
  "read_many 0 m = rd_return []"
| "read_many (Suc n) m = rd_bind m (\<lambda>v. rd_bind (read_many n m) (\<lambda>vs. rd_return (v # vs)))"

definition w_bytes :: "u8 list \<Rightarrow> writer" where
  "w_bytes bytes = (\<lambda>payload. Inr (payload @ bytes))"

definition w_fail :: "packet_error fault \<Rightarrow> writer" where
  "w_fail e = (\<lambda>payload. Inl e)"

primrec w_seq :: "writer list \<Rightarrow> writer" where
  "w_seq [] = (\<lambda>payload. Inr payload)"
| "w_seq (w # ws) = (\<lambda>payload. and_then (w payload) (w_seq ws))"

declare w_seq.simps [simp del]

abbreviation w_u8 :: "u8 \<Rightarrow> writer" where "w_u8 b \<equiv> w_bytes [b]"
abbreviation w_u16 :: "u16 \<Rightarrow> writer" where "w_u16 n \<equiv> w_bytes (u16_to_le n)"
abbreviation w_u32 :: "u32 \<Rightarrow> writer" where "w_u32 n \<equiv> w_bytes (u32_to_le n)"

text \<open>\<open>u16::try_from(len)\<close> with the \<open>PayloadTooLarge\<close> error, written before the entries.\<close>

definition w_count_u16 :: "nat \<Rightarrow> writer" where
  "w_count_u16 n =
     (if n \<le> U16_MAX then w_u16 (of_nat n) else w_fail (Err (PayloadTooLarge n U16_MAX)))"

definition w_count_u8 :: "nat \<Rightarrow> writer" where
  "w_count_u8 n =
     (if n \<le> U8_MAX then w_u8 (of_nat n) else w_fail (Err (PayloadTooLarge n U8_MAX)))"

section \<open>Reading back what was written\<close>

definition reads :: "'a reader \<Rightarrow> u8 list \<Rightarrow> 'a \<Rightarrow> bool" where
  "reads rd bs v \<longleftrightarrow> (\<forall>pre post. length (pre @ bs @ post) \<le> U16_MAX \<longrightarrow>
     rd (pre @ bs @ post) (length pre) = Inr (v, length pre + length bs))"

definition inverts :: "writer \<Rightarrow> 'a reader \<Rightarrow> 'a \<Rightarrow> bool" where
  "inverts w rd v \<longleftrightarrow> (\<forall>payload out. w payload = Inr out \<longrightarrow>
     (\<exists>bs. out = payload @ bs \<and> reads rd bs v))"

lemma reads_Nil: "reads (rd_return v) [] v"
  by (simp add: reads_def rd_return_def)

lemma reads_bind:
  assumes "reads m bs v" "reads (f v) cs u"
  shows "reads (rd_bind m f) (bs @ cs) u"
  unfolding reads_def
proof (intro allI impI)
  fix pre post
  assume len: "length (pre @ (bs @ cs) @ post) \<le> U16_MAX"
  have "m (pre @ bs @ (cs @ post)) (length pre) = Inr (v, length pre + length bs)"
    using assms(1) len by (simp add: reads_def)
  moreover have "f v ((pre @ bs) @ cs @ post) (length (pre @ bs)) = Inr (u, length (pre @ bs) + length cs)"
    using assms(2) len unfolding reads_def by (metis append.assoc)
  ultimately show "rd_bind m f (pre @ (bs @ cs) @ post) (length pre) = Inr (u, length pre + length (bs @ cs))"
    by (simp add: rd_bind_def add.assoc)
qed

lemma inverts_bytes: "reads rd bs v \<Longrightarrow> inverts (w_bytes bs) rd v"
  by (simp add: inverts_def w_bytes_def)

lemma inverts_fail [rt]: "inverts (w_fail e) rd v"
  by (simp add: inverts_def w_fail_def)

lemma inverts_return [rt]: "v' = v \<Longrightarrow> inverts (w_seq []) (rd_return v') v"
  by (simp add: inverts_def reads_Nil w_seq.simps)

lemma inverts_bind [rt]:
  assumes "inverts w m x" "inverts (w_seq ws) (f x) v"
  shows "inverts (w_seq (w # ws)) (rd_bind m f) v"
  unfolding inverts_def
proof (intro allI impI)
  fix payload out
  assume "w_seq (w # ws) payload = Inr out"
  then obtain mid where mid: "w payload = Inr mid" "w_seq ws mid = Inr out"
    by (auto simp: and_then_eq_Inr w_seq.simps)
  obtain bs where bs: "mid = payload @ bs" "reads m bs x"
    using assms(1) mid(1) by (auto simp: inverts_def)
  obtain cs where cs: "out = mid @ cs" "reads (f x) cs v"
    using assms(2) mid(2) unfolding inverts_def by blast
  have "out = payload @ (bs @ cs)" using bs(1) cs(1) by simp
  moreover have "reads (rd_bind m f) (bs @ cs) v" using bs(2) cs(2) by (rule reads_bind)
  ultimately show "\<exists>bs. out = payload @ bs \<and> reads (rd_bind m f) bs v" by blast
qed

text \<open>A writer that is one step, or a nested sequence, in front of a reader.\<close>

lemma w_seq_append: "w_seq (us @ ws) = (\<lambda>payload. and_then (w_seq us payload) (w_seq ws))"
proof (induction us)
  case (Cons u us)
  then show ?case by (auto simp: fun_eq_iff and_then_def w_seq.simps split: sum.splits)
qed (simp add: w_seq.simps)

lemma w_seq_single: "w_seq [w] = w"
  by (auto simp: fun_eq_iff and_then_def w_seq.simps split: sum.splits)

lemma w_seq_flat: "w_seq (w_seq us # ws) = w_seq (us @ ws)"
  by (simp add: w_seq_append w_seq.simps)

lemma rd_bind_return: "rd_bind m rd_return = m"
  by (auto simp: fun_eq_iff rd_bind_def rd_return_def and_then_def split: sum.splits)

lemma rd_bind_assoc: "rd_bind (rd_bind m f) g = rd_bind m (\<lambda>x. rd_bind (f x) g)"
  by (auto simp: fun_eq_iff rd_bind_def and_then_def split: sum.splits prod.splits)

lemma rd_return_bind [simp]: "rd_bind (rd_return v) f = f v"
  by (simp add: fun_eq_iff rd_bind_def rd_return_def)

lemma inverts_bind_last:
  assumes "inverts w m x" "f x = rd_return v"
  shows "inverts w (rd_bind m f) v"
proof -
  have "inverts (w_seq [w]) (rd_bind m f) v"
    using assms by (intro inverts_bind [OF assms(1)]) (simp add: inverts_return)
  then show ?thesis by (simp only: w_seq_single)
qed

section \<open>Readers that never panic\<close>

definition reader_ok :: "'a reader \<Rightarrow> ('a \<Rightarrow> bool) \<Rightarrow> bool" where
  "reader_ok rd P \<longleftrightarrow> (\<forall>payload i. length payload \<le> U16_MAX \<longrightarrow> i \<le> length payload \<longrightarrow>
     (case rd payload i of
        Inr (v, j) \<Rightarrow> P v \<and> i \<le> j \<and> j \<le> length payload
      | Inl e \<Rightarrow> e \<noteq> Panic))"

lemma reader_okD:
  assumes "reader_ok rd P" "length payload \<le> U16_MAX" "i \<le> length payload"
  shows "rd payload i \<noteq> Inl Panic"
    and "rd payload i = Inr (v, j) \<Longrightarrow> P v \<and> i \<le> j \<and> j \<le> length payload"
  using assms(1) [unfolded reader_ok_def, rule_format, OF assms(2,3)] by auto

lemma reader_ok_return [rd_ok]: "P v \<Longrightarrow> reader_ok (rd_return v) P"
  by (simp add: reader_ok_def rd_return_def)

lemma reader_ok_fail [rd_ok]: "reader_ok (rd_fail e) P"
  by (simp add: reader_ok_def rd_fail_def)

lemma reader_ok_bind [rd_ok]:
  assumes "reader_ok m Q" "\<And>v. Q v \<Longrightarrow> reader_ok (f v) P"
  shows "reader_ok (rd_bind m f) P"
  unfolding reader_ok_def
proof (intro allI impI)
  fix payload :: "u8 list" and i
  assume len: "length payload \<le> U16_MAX" "i \<le> length payload"
  note m = reader_okD [OF assms(1) len]
  show "case rd_bind m f payload i of
      Inr (v, j) \<Rightarrow> P v \<and> i \<le> j \<and> j \<le> length payload | Inl e \<Rightarrow> e \<noteq> Panic"
  proof (cases "m payload i")
    case (Inl e)
    with m(1) show ?thesis by (auto simp: rd_bind_def)
  next
    case (Inr vj)
    obtain v j where vj: "vj = (v, j)" by (cases vj)
    note q = m(2) [OF Inr [unfolded vj]]
    then have "j \<le> length payload" by blast
    note f = reader_okD [OF assms(2) [OF q [THEN conjunct1]] len(1) this]
    show ?thesis using Inr vj q f
      by (cases "f v payload j") (auto simp: rd_bind_def intro: order_trans)
  qed
qed

lemma reader_ok_if [rd_ok]:
  "(b \<Longrightarrow> reader_ok m P) \<Longrightarrow> (\<not> b \<Longrightarrow> reader_ok n P) \<Longrightarrow> reader_ok (if b then m else n) P"
  by simp

lemma reader_ok_mono:
  assumes "reader_ok rd P" "\<And>v. P v \<Longrightarrow> Q v"
  shows "reader_ok rd Q"
  unfolding reader_ok_def
proof (intro allI impI)
  fix payload :: "u8 list" and i
  assume "length payload \<le> U16_MAX" "i \<le> length payload"
  note rd = reader_okD [OF assms(1) this]
  show "case rd payload i of
      Inr (v, j) \<Rightarrow> Q v \<and> i \<le> j \<and> j \<le> length payload | Inl e \<Rightarrow> e \<noteq> Panic"
    using rd assms(2) by (cases "rd payload i") auto
qed

section \<open>One value and lists of values\<close>

locale codec =
  fixes enc :: "'a \<Rightarrow> writer"
    and dec :: "'a reader"
    and wf :: "'a \<Rightarrow> bool"
  assumes read_back: "wf v \<Longrightarrow> inverts (enc v) dec v"
    and read_safe: "reader_ok dec wf"
begin

lemma many_read_back:
  "list_all wf vs \<Longrightarrow> inverts (w_seq (map enc vs)) (read_many (length vs) dec) vs"
proof (induction vs)
  case (Cons v vs)
  have "inverts (w_seq (map enc vs)) (rd_bind (read_many (length vs) dec) (\<lambda>us. rd_return (v # us))) (v # vs)"
    using Cons by (intro inverts_bind_last) simp_all
  with Cons.prems show ?case by (auto intro!: inverts_bind read_back)
qed (auto intro: inverts_return)

lemma many_safe: "reader_ok (read_many n dec) (\<lambda>vs. list_all wf vs \<and> length vs = n)"
proof (induction n)
  case (Suc n)
  show ?case unfolding read_many.simps
    by (rule reader_ok_bind [OF read_safe], rule reader_ok_bind [OF Suc], rule reader_ok_return) simp
qed (simp add: reader_ok_return)

end

end
