(* ===== verification/Server_Types.thy ===== *)
theory Server_Types
  imports Wire
begin

text \<open>
  The data of the server's control events (\<open>control/server_types.rs\<close> of \<open>game_net\<close>), with the
  invariants of the Rust types as \<open>wf_\<close> predicates: valid strings and names, non-zero ids,
  arrays of their length.
\<close>

section \<open>Enumerations\<close>

datatype lobby_snapshot_phase = LobbyOpen | LobbyLaunchCountdown u8

datatype arena_obstacle_kind = Pillar | Shrub | BarrierObstacle

datatype arena_match_phase = ArenaSkillPick | ArenaPreCombat | ArenaCombat | ArenaMatchEnd

datatype arena_session_mode = MatchMode | TrainingMode

datatype arena_status_kind =
    Poison | Hot | Chill | Root | Haste | Silence | Stun | Sleep | Shield | Stealth | Reveal
  | Fear | HealingReduction

datatype arena_deployable_kind =
    Summon | Ward | Trap | BarrierDeployable | Aura | TrainingDummyResetFull | TrainingDummyExecute

datatype arena_effect_kind =
    MeleeSwing | SkillShot | DashTrail | Burst | Nova | Beam | HitSpark | Footstep | BrushRustle
  | StealthFootstep

datatype arena_combat_text_style =
    DamageOutgoing | DamageIncoming | HealOutgoing | HealIncoming | PositiveStatus
  | NegativeStatus | Utility

section \<open>Records\<close>

record skill_catalog_entry =
  sce_tree :: skill_tree
  sce_tier :: u8
  sce_skill_id :: rstring
  sce_skill_name :: rstring
  sce_skill_description :: rstring
  sce_skill_summary :: rstring
  sce_ui_category :: rstring
  sce_audio_cue_id :: rstring

record lobby_directory_entry =
  lde_lobby_id :: lobby_id
  lde_player_count :: u16
  lde_team_a_count :: u16
  lde_team_b_count :: u16
  lde_ready_count :: u16
  lde_phase :: lobby_snapshot_phase

record lobby_snapshot_player =
  lsp_player_id :: player_id
  lsp_player_name :: player_name
  lsp_record :: player_record
  lsp_team :: "team_side option"
  lsp_ready :: ready_state

record arena_status_snapshot =
  ass_source :: player_id
  ass_slot :: u8
  ass_kind :: arena_status_kind
  ass_stacks :: u8
  ass_remaining_ms :: u16

record arena_obstacle_snapshot =
  aos_kind :: arena_obstacle_kind
  aos_center_x :: i16
  aos_center_y :: i16
  aos_half_width :: u16
  aos_half_height :: u16

record arena_deployable_snapshot =
  ads_id :: u32
  ads_owner :: player_id
  ads_team :: team_side
  ads_kind :: arena_deployable_kind
  ads_x :: i16
  ads_y :: i16
  ads_radius :: u16
  ads_hit_points :: u16
  ads_max_hit_points :: u16
  ads_remaining_ms :: u16

record arena_player_snapshot =
  aps_player_id :: player_id
  aps_player_name :: player_name
  aps_team :: team_side
  aps_x :: i16
  aps_y :: i16
  aps_aim_x :: i16
  aps_aim_y :: i16
  aps_hit_points :: u16
  aps_max_hit_points :: u16
  aps_mana :: u16
  aps_max_mana :: u16
  aps_alive :: bool
  aps_unlocked_skill_slots :: u8
  aps_primary_cooldown_remaining_ms :: u16
  aps_primary_cooldown_total_ms :: u16
  aps_slot_cooldown_remaining_ms :: "u16 list"
  aps_slot_cooldown_total_ms :: "u16 list"
  aps_equipped_skill_trees :: "skill_tree option list"
  aps_current_cast_slot :: "u8 option"
  aps_current_cast_remaining_ms :: u16
  aps_current_cast_total_ms :: u16
  aps_active_statuses :: "arena_status_snapshot list"

record arena_projectile_snapshot =
  aprs_owner :: player_id
  aprs_slot :: u8
  aprs_kind :: arena_effect_kind
  aprs_x :: i16
  aprs_y :: i16
  aprs_radius :: u16

record arena_effect_snapshot =
  aes_kind :: arena_effect_kind
  aes_owner :: player_id
  aes_slot :: u8
  aes_x :: i16
  aes_y :: i16
  aes_target_x :: i16
  aes_target_y :: i16
  aes_radius :: u16
  aes_audio_cue_id :: rstring

record arena_combat_text_entry =
  act_x :: i16
  act_y :: i16
  act_style :: arena_combat_text_style
  act_text :: rstring

record training_metrics_snapshot =
  tms_damage_done :: u32
  tms_healing_done :: u32
  tms_elapsed_ms :: u32

record combat_summary_line =
  csl_player_id :: player_id
  csl_player_name :: player_name
  csl_team :: team_side
  csl_damage_done :: u32
  csl_healing_to_allies :: u32
  csl_healing_to_enemies :: u32
  csl_cc_used :: u16
  csl_cc_hits :: u16

record round_summary_snapshot =
  rss_round :: round_number
  rss_round_totals :: "combat_summary_line list"
  rss_running_totals :: "combat_summary_line list"

record match_summary_snapshot =
  mss_rounds_played :: u8
  mss_totals :: "combat_summary_line list"

record arena_state_snapshot =
  st_mode :: arena_session_mode
  st_phase :: arena_match_phase
  st_phase_seconds_remaining :: "u8 option"
  st_width :: u16
  st_height :: u16
  st_tile_units :: u16
  st_footprint_tiles :: "u8 list"
  st_objective_tiles :: "u8 list"
  st_visible_tiles :: "u8 list"
  st_explored_tiles :: "u8 list"
  st_objective_target_ms :: u32
  st_objective_team_a_ms :: u32
  st_objective_team_b_ms :: u32
  st_obstacles :: "arena_obstacle_snapshot list"
  st_deployables :: "arena_deployable_snapshot list"
  st_players :: "arena_player_snapshot list"
  st_projectiles :: "arena_projectile_snapshot list"
  st_training_metrics :: "training_metrics_snapshot option"

record arena_delta_snapshot =
  dl_mode :: arena_session_mode
  dl_phase :: arena_match_phase
  dl_phase_seconds_remaining :: "u8 option"
  dl_tile_units :: u16
  dl_footprint_tiles :: "u8 list"
  dl_objective_tiles :: "u8 list"
  dl_visible_tiles :: "u8 list"
  dl_explored_tiles :: "u8 list"
  dl_objective_target_ms :: u32
  dl_objective_team_a_ms :: u32
  dl_objective_team_b_ms :: u32
  dl_obstacles :: "arena_obstacle_snapshot list"
  dl_deployables :: "arena_deployable_snapshot list"
  dl_players :: "arena_player_snapshot list"
  dl_projectiles :: "arena_projectile_snapshot list"
  dl_training_metrics :: "training_metrics_snapshot option"

section \<open>Events\<close>

datatype server_control_event =
    Connected player_id player_name player_record "skill_catalog_entry list"
  | GameLobbyCreated lobby_id
  | GameLobbyJoined lobby_id player_id
  | GameLobbyLeft lobby_id player_id
  | TeamSelectedEvent player_id team_side bool
  | ReadyChangedEvent player_id ready_state
  | LaunchCountdownStartedEvent lobby_id u8 u16
  | LaunchCountdownTickEvent lobby_id u8
  | MatchStarted match_id round_number u8
  | TrainingStarted match_id
  | SkillChosenEvent player_id u8 skill_tree u8
  | PreCombatStartedEvent u8
  | CombatStartedEvent
  | RoundWonEvent round_number team_side u8 u8
  | RoundSummary round_summary_snapshot
  | MatchEndedEvent match_outcome u8 u8 rstring
  | MatchSummary match_summary_snapshot
  | ReturnedToCentralLobby player_record
  | LobbyDirectorySnapshot "lobby_directory_entry list"
  | GameLobbySnapshot lobby_id lobby_snapshot_phase "lobby_snapshot_player list"
  | ArenaStateSnapshot arena_state_snapshot
  | ArenaDeltaSnapshot arena_delta_snapshot
  | ArenaEffectBatch "arena_effect_snapshot list"
  | ArenaCombatTextBatch "arena_combat_text_entry list"
  | ErrorEvent rstring

section \<open>Type invariants\<close>

definition wf_text :: "rstring \<Rightarrow> bool" where
  "wf_text s \<longleftrightarrow> list_all is_scalar s"

definition wf_player_record :: "player_record \<Rightarrow> bool" where
  "wf_player_record r \<longleftrightarrow> wf_record r \<and> list_all wf_text (bt_keys (skill_pick_counts r))"

definition wf_catalog_entry :: "skill_catalog_entry \<Rightarrow> bool" where
  "wf_catalog_entry e \<longleftrightarrow> wf_skill_tree (sce_tree e) \<and> wf_text (sce_skill_id e) \<and>
     wf_text (sce_skill_name e) \<and> wf_text (sce_skill_description e) \<and> wf_text (sce_skill_summary e) \<and>
     wf_text (sce_ui_category e) \<and> wf_text (sce_audio_cue_id e)"

definition wf_directory_entry :: "lobby_directory_entry \<Rightarrow> bool" where
  "wf_directory_entry e \<longleftrightarrow> wf_lobby_id (lde_lobby_id e)"

definition wf_snapshot_player :: "lobby_snapshot_player \<Rightarrow> bool" where
  "wf_snapshot_player p \<longleftrightarrow> wf_player_id (lsp_player_id p) \<and> wf_player_name (lsp_player_name p) \<and>
     wf_player_record (lsp_record p)"

definition wf_status :: "arena_status_snapshot \<Rightarrow> bool" where
  "wf_status s \<longleftrightarrow> wf_player_id (ass_source s)"

definition wf_deployable :: "arena_deployable_snapshot \<Rightarrow> bool" where
  "wf_deployable d \<longleftrightarrow> wf_player_id (ads_owner d)"

fun wf_tree_option :: "skill_tree option \<Rightarrow> bool" where
  "wf_tree_option None = True"
| "wf_tree_option (Some t) = wf_skill_tree t"

definition wf_arena_player :: "arena_player_snapshot \<Rightarrow> bool" where
  "wf_arena_player p \<longleftrightarrow> wf_player_id (aps_player_id p) \<and> wf_player_name (aps_player_name p) \<and>
     length (aps_slot_cooldown_remaining_ms p) = 5 \<and> length (aps_slot_cooldown_total_ms p) = 5 \<and>
     length (aps_equipped_skill_trees p) = 5 \<and> list_all wf_tree_option (aps_equipped_skill_trees p) \<and>
     list_all wf_status (aps_active_statuses p)"

definition wf_projectile :: "arena_projectile_snapshot \<Rightarrow> bool" where
  "wf_projectile p \<longleftrightarrow> wf_player_id (aprs_owner p)"

definition wf_effect :: "arena_effect_snapshot \<Rightarrow> bool" where
  "wf_effect e \<longleftrightarrow> wf_player_id (aes_owner e) \<and> wf_text (aes_audio_cue_id e)"

definition wf_combat_text :: "arena_combat_text_entry \<Rightarrow> bool" where
  "wf_combat_text e \<longleftrightarrow> wf_text (act_text e)"

definition wf_summary_line :: "combat_summary_line \<Rightarrow> bool" where
  "wf_summary_line l \<longleftrightarrow> wf_player_id (csl_player_id l) \<and> wf_player_name (csl_player_name l)"

definition wf_round_summary :: "round_summary_snapshot \<Rightarrow> bool" where
  "wf_round_summary s \<longleftrightarrow> wf_round (rss_round s) \<and> list_all wf_summary_line (rss_round_totals s) \<and>
     list_all wf_summary_line (rss_running_totals s)"

definition wf_match_summary :: "match_summary_snapshot \<Rightarrow> bool" where
  "wf_match_summary s \<longleftrightarrow> list_all wf_summary_line (mss_totals s)"

definition wf_state_snapshot :: "arena_state_snapshot \<Rightarrow> bool" where
  "wf_state_snapshot s \<longleftrightarrow> list_all wf_deployable (st_deployables s) \<and>
     list_all wf_arena_player (st_players s) \<and> list_all wf_projectile (st_projectiles s)"

definition wf_delta_snapshot :: "arena_delta_snapshot \<Rightarrow> bool" where
  "wf_delta_snapshot s \<longleftrightarrow> list_all wf_deployable (dl_deployables s) \<and>
     list_all wf_arena_player (dl_players s) \<and> list_all wf_projectile (dl_projectiles s)"

fun wf_event :: "server_control_event \<Rightarrow> bool" where
  "wf_event (Connected pid name rec catalog) = (wf_player_id pid \<and> wf_player_name name \<and>
     wf_player_record rec \<and> list_all wf_catalog_entry catalog)"
| "wf_event (GameLobbyCreated lid) = wf_lobby_id lid"
| "wf_event (GameLobbyJoined lid pid) = (wf_lobby_id lid \<and> wf_player_id pid)"
| "wf_event (GameLobbyLeft lid pid) = (wf_lobby_id lid \<and> wf_player_id pid)"
| "wf_event (TeamSelectedEvent pid team reset) = wf_player_id pid"
| "wf_event (ReadyChangedEvent pid ready) = wf_player_id pid"
| "wf_event (LaunchCountdownStartedEvent lid seconds roster_n) = wf_lobby_id lid"
| "wf_event (LaunchCountdownTickEvent lid seconds) = wf_lobby_id lid"
| "wf_event (MatchStarted mid round seconds) = (wf_match_id mid \<and> wf_round round)"
| "wf_event (TrainingStarted tid) = wf_match_id tid"
| "wf_event (SkillChosenEvent pid slot t n) = (wf_player_id pid \<and> wf_skill_tree t)"
| "wf_event (PreCombatStartedEvent seconds) = True"
| "wf_event CombatStartedEvent = True"
| "wf_event (RoundWonEvent round team a b) = wf_round round"
| "wf_event (RoundSummary summary) = wf_round_summary summary"
| "wf_event (MatchEndedEvent outcome a b message) = wf_text message"
| "wf_event (MatchSummary summary) = wf_match_summary summary"
| "wf_event (ReturnedToCentralLobby rec) = wf_player_record rec"
| "wf_event (LobbyDirectorySnapshot lobbies) = list_all wf_directory_entry lobbies"
| "wf_event (GameLobbySnapshot lid phase players) = (wf_lobby_id lid \<and> list_all wf_snapshot_player players)"
| "wf_event (ArenaStateSnapshot snapshot) = wf_state_snapshot snapshot"
| "wf_event (ArenaDeltaSnapshot snapshot) = wf_delta_snapshot snapshot"
| "wf_event (ArenaEffectBatch effects) = list_all wf_effect effects"
| "wf_event (ArenaCombatTextBatch entries) = list_all wf_combat_text entries"
| "wf_event (ErrorEvent message) = wf_text message"

end
