(* ===== verification/Control_Codec.thy ===== *)
theory Control_Codec
  imports Server_Types
begin

text \<open>
  The primitive readers and writers of the control protocol (\<open>control/codec.rs\<close> of
  \<open>game_net\<close>). Every reader is shown to invert its writer and to stay inside the payload; the
  lemmas are collected in \<open>rt\<close> and \<open>rd_ok\<close>, from which the codecs of the commands and events
  are built.
\<close>

section \<open>Limits\<close>

definition MAX_MESSAGE_BYTES :: nat where "MAX_MESSAGE_BYTES = 200"
definition MAX_SKILL_TREE_NAME_BYTES :: nat where "MAX_SKILL_TREE_NAME_BYTES = MAX_SKILL_TREE_NAME_LEN"
definition MAX_SKILL_ID_BYTES :: nat where "MAX_SKILL_ID_BYTES = 64"
definition MAX_SKILL_NAME_BYTES :: nat where "MAX_SKILL_NAME_BYTES = 120"
definition MAX_SKILL_DESCRIPTION_BYTES :: nat where "MAX_SKILL_DESCRIPTION_BYTES = 160"
definition MAX_SKILL_SUMMARY_BYTES :: nat where "MAX_SKILL_SUMMARY_BYTES = 220"
definition MAX_SKILL_UI_CATEGORY_BYTES :: nat where "MAX_SKILL_UI_CATEGORY_BYTES = 24"
definition MAX_SKILL_AUDIO_CUE_BYTES :: nat where "MAX_SKILL_AUDIO_CUE_BYTES = 80"

section \<open>Bytes and integers\<close>

definition ensure_available :: "u8 list \<Rightarrow> nat \<Rightarrow> nat \<Rightarrow> string \<Rightarrow> packet_error fault + unit" where
  "ensure_available payload index needed kind =
     (let expected = min (index + needed) USIZE_MAX in
      if length payload < expected then
        Inl (Err (ControlPayloadTooShort kind expected (length payload)))
      else Inr ())"

text \<open>The subtraction of the error branch is on \<open>usize\<close>.\<close>

definition ensure_consumed :: "u8 list \<Rightarrow> nat \<Rightarrow> string \<Rightarrow> packet_error fault + unit" where
  "ensure_consumed payload index kind =
     (if length payload \<noteq> index then
        (if index \<le> length payload then
           Inl (Err (UnexpectedTrailingBytes kind (length payload - index)))
         else Inl Panic)
      else Inr ())"

text \<open>\<open>payload[*index..*index + n]\<close> after the check, advancing the index.\<close>

definition read_slice :: "string \<Rightarrow> nat \<Rightarrow> u8 list reader" where
  "read_slice kind n = (\<lambda>payload i.
     and_then (ensure_available payload i n kind) (\<lambda>_.
     if i + n \<le> length payload then Inr (take n (drop i payload), i + n) else Inl Panic))"

definition read_u8 :: "string \<Rightarrow> u8 reader" where
  "read_u8 kind = (\<lambda>payload i.
     and_then (ensure_available payload i 1 kind) (\<lambda>_.
     if i < length payload then Inr (payload ! i, i + 1) else Inl Panic))"

definition read_u16 :: "string \<Rightarrow> u16 reader" where
  "read_u16 kind = (\<lambda>payload i.
     and_then (ensure_available payload i 2 kind) (\<lambda>_.
     if i + 1 < length payload then Inr (u16_from_le (payload ! i) (payload ! (i + 1)), i + 2)
     else Inl Panic))"

text \<open>An \<open>i16\<close> is its bit pattern: the same two bytes.\<close>

definition read_i16 :: "string \<Rightarrow> i16 reader" where
  "read_i16 kind = (\<lambda>payload i.
     and_then (ensure_available payload i 2 kind) (\<lambda>_.
     if i + 1 < length payload then Inr (u16_from_le (payload ! i) (payload ! (i + 1)), i + 2)
     else Inl Panic))"

definition read_u32 :: "string \<Rightarrow> u32 reader" where
  "read_u32 kind = (\<lambda>payload i.
     and_then (ensure_available payload i 4 kind) (\<lambda>_.
     if i + 3 < length payload then
       Inr (u32_from_le (payload ! i) (payload ! (i + 1)) (payload ! (i + 2)) (payload ! (i + 3)), i + 4)
     else Inl Panic))"

definition encode_bytes :: "string \<Rightarrow> u8 list \<Rightarrow> writer" where
  "encode_bytes field bytes = w_seq [w_count_u16 (length bytes), w_bytes bytes]"

definition decode_bytes :: "string \<Rightarrow> string \<Rightarrow> u8 list reader" where
  "decode_bytes kind field = rd_bind (read_u16 kind) (\<lambda>byte_len. read_slice kind (unat byte_len))"

section \<open>Booleans, options, ids, strings\<close>

definition w_bool :: "bool \<Rightarrow> writer" where
  "w_bool b = w_u8 (if b then 1 else 0)"

definition read_bool :: "string \<Rightarrow> bool reader" where
  "read_bool kind =
     rd_bind (read_u8 kind) (\<lambda>b.
     if b = 0 then rd_return False
     else if b = 1 then rd_return True
     else rd_fail (InvalidEncodedBoolean b))"

definition encode_optional_u8 :: "u8 option \<Rightarrow> writer" where
  "encode_optional_u8 v = (case v of Some n \<Rightarrow> w_seq [w_u8 1, w_u8 n] | None \<Rightarrow> w_u8 0)"

definition read_optional_u8 :: "string \<Rightarrow> u8 option reader" where
  "read_optional_u8 kind =
     rd_bind (read_bool kind) (\<lambda>some.
     if some then rd_bind (read_u8 kind) (\<lambda>n. rd_return (Some n)) else rd_return None)"

definition rd_lift :: "packet_error + 'a \<Rightarrow> 'a reader" where
  "rd_lift r = (case r of Inl e \<Rightarrow> rd_fail e | Inr v \<Rightarrow> rd_return v)"

definition read_player_id :: "string \<Rightarrow> player_id reader" where
  "read_player_id kind = rd_bind (read_u32 kind) (\<lambda>raw.
     rd_lift (map_err (\<lambda>_. InvalidEncodedPlayerId raw) (player_id_new raw)))"

definition read_lobby_id :: "string \<Rightarrow> lobby_id reader" where
  "read_lobby_id kind = rd_bind (read_u32 kind) (\<lambda>raw.
     rd_lift (map_err (\<lambda>_. InvalidEncodedLobbyId raw) (lobby_id_new raw)))"

definition read_match_id :: "string \<Rightarrow> match_id reader" where
  "read_match_id kind = rd_bind (read_u32 kind) (\<lambda>raw.
     rd_lift (map_err (\<lambda>_. InvalidEncodedMatchId raw) (match_id_new raw)))"

definition read_round :: "string \<Rightarrow> round_number reader" where
  "read_round kind = rd_bind (read_u8 kind) (\<lambda>raw.
     rd_lift (map_err (\<lambda>_. InvalidEncodedRound raw) (round_number_new raw)))"

definition push_len_prefixed_string :: "string \<Rightarrow> rstring \<Rightarrow> nat \<Rightarrow> writer" where
  "push_len_prefixed_string field value max_len =
     (let bytes = utf8_encode value in
      if length bytes > max_len then
        w_fail (Err (StringLengthOutOfBounds field (length bytes) max_len))
      else if length bytes > U8_MAX then
        w_fail (Err (StringLengthOutOfBounds field (length bytes) U8_MAX))
      else w_seq [w_u8 (of_nat (length bytes)), w_bytes bytes])"

definition read_string :: "string \<Rightarrow> string \<Rightarrow> nat \<Rightarrow> rstring reader" where
  "read_string kind field max_len =
     rd_bind (read_u8 kind) (\<lambda>n.
     let len = unat n in
     if len > max_len then rd_fail (StringLengthOutOfBounds field len max_len)
     else rd_bind (read_slice kind len) (\<lambda>bytes.
       case utf8_decode bytes of
         Some s \<Rightarrow> rd_return s
       | None \<Rightarrow> rd_fail (InvalidUtf8String field)))"

definition read_player_name :: "string \<Rightarrow> player_name reader" where
  "read_player_name kind =
     rd_bind (read_string kind ''player_name'' MAX_PLAYER_NAME_LEN) (\<lambda>name.
     rd_lift (map_err InvalidEncodedPlayerName (player_name_new name)))"

definition read_skill_tree :: "string \<Rightarrow> skill_tree reader" where
  "read_skill_tree kind =
     rd_bind (read_string kind ''skill_tree'' MAX_SKILL_TREE_NAME_BYTES) (\<lambda>raw.
     rd_lift (map_err InvalidEncodedSkillTree (skill_tree_new raw)))"

section \<open>Enumerations as bytes\<close>

fun encode_team :: "team_side \<Rightarrow> u8" where
  "encode_team TeamA = 1"
| "encode_team TeamB = 2"

definition read_team :: "string \<Rightarrow> team_side reader" where
  "read_team kind =
     rd_bind (read_u8 kind) (\<lambda>b.
     if b = 1 then rd_return TeamA
     else if b = 2 then rd_return TeamB
     else rd_fail (InvalidEncodedTeam b))"

fun encode_optional_team :: "team_side option \<Rightarrow> u8" where
  "encode_optional_team None = 0"
| "encode_optional_team (Some TeamA) = 1"
| "encode_optional_team (Some TeamB) = 2"

definition read_optional_team :: "string \<Rightarrow> team_side option reader" where
  "read_optional_team kind =
     rd_bind (read_u8 kind) (\<lambda>b.
     if b = 0 then rd_return None
     else if b = 1 then rd_return (Some TeamA)
     else if b = 2 then rd_return (Some TeamB)
     else rd_fail (InvalidEncodedOptionalTeam b))"

fun encode_ready_state :: "ready_state \<Rightarrow> u8" where
  "encode_ready_state NotReady = 0"
| "encode_ready_state Ready = 1"

definition read_ready_state :: "string \<Rightarrow> ready_state reader" where
  "read_ready_state kind =
     rd_bind (read_u8 kind) (\<lambda>b.
     if b = 0 then rd_return NotReady
     else if b = 1 then rd_return Ready
     else rd_fail (InvalidEncodedReadyState b))"

fun encode_match_outcome :: "match_outcome \<Rightarrow> u8" where
  "encode_match_outcome TeamAWin = 1"
| "encode_match_outcome TeamBWin = 2"
| "encode_match_outcome NoContest = 3"

definition read_match_outcome :: "string \<Rightarrow> match_outcome reader" where
  "read_match_outcome kind =
     rd_bind (read_u8 kind) (\<lambda>b.
     if b = 1 then rd_return TeamAWin
     else if b = 2 then rd_return TeamBWin
     else if b = 3 then rd_return NoContest
     else rd_fail (InvalidEncodedMatchOutcome b))"

fun encode_arena_match_phase :: "arena_match_phase \<Rightarrow> u8" where
  "encode_arena_match_phase ArenaSkillPick = 1"
| "encode_arena_match_phase ArenaPreCombat = 2"
| "encode_arena_match_phase ArenaCombat = 3"
| "encode_arena_match_phase ArenaMatchEnd = 4"

definition read_arena_match_phase :: "string \<Rightarrow> arena_match_phase reader" where
  "read_arena_match_phase kind =
     rd_bind (read_u8 kind) (\<lambda>b.
     if b = 1 then rd_return ArenaSkillPick
     else if b = 2 then rd_return ArenaPreCombat
     else if b = 3 then rd_return ArenaCombat
     else if b = 4 then rd_return ArenaMatchEnd
     else rd_fail (InvalidEncodedArenaMatchPhase b))"

fun encode_arena_session_mode :: "arena_session_mode \<Rightarrow> u8" where
  "encode_arena_session_mode MatchMode = 1"
| "encode_arena_session_mode TrainingMode = 2"

definition read_arena_session_mode :: "string \<Rightarrow> arena_session_mode reader" where
  "read_arena_session_mode kind =
     rd_bind (read_u8 kind) (\<lambda>b.
     if b = 1 then rd_return MatchMode
     else if b = 2 then rd_return TrainingMode
     else rd_fail (InvalidEncodedArenaMatchPhase b))"

fun encode_arena_status_kind :: "arena_status_kind \<Rightarrow> u8" where
  "encode_arena_status_kind Poison = 1"
| "encode_arena_status_kind Hot = 2"
| "encode_arena_status_kind Chill = 3"
| "encode_arena_status_kind Root = 4"
| "encode_arena_status_kind Haste = 5"
| "encode_arena_status_kind Silence = 6"
| "encode_arena_status_kind Stun = 7"
| "encode_arena_status_kind Sleep = 8"
| "encode_arena_status_kind Shield = 9"
| "encode_arena_status_kind Stealth = 10"
| "encode_arena_status_kind Reveal = 11"
| "encode_arena_status_kind Fear = 12"
| "encode_arena_status_kind HealingReduction = 13"

definition read_arena_status_kind :: "string \<Rightarrow> arena_status_kind reader" where
  "read_arena_status_kind kind =
     rd_bind (read_u8 kind) (\<lambda>b.
     if b = 1 then rd_return Poison
     else if b = 2 then rd_return Hot
     else if b = 3 then rd_return Chill
     else if b = 4 then rd_return Root
     else if b = 5 then rd_return Haste
     else if b = 6 then rd_return Silence
     else if b = 7 then rd_return Stun
     else if b = 8 then rd_return Sleep
     else if b = 9 then rd_return Shield
     else if b = 10 then rd_return Stealth
     else if b = 11 then rd_return Reveal
     else if b = 12 then rd_return Fear
     else if b = 13 then rd_return HealingReduction
     else rd_fail (InvalidEncodedArenaStatusKind b))"

fun encode_arena_obstacle_kind :: "arena_obstacle_kind \<Rightarrow> u8" where
  "encode_arena_obstacle_kind Pillar = 1"
| "encode_arena_obstacle_kind Shrub = 2"
| "encode_arena_obstacle_kind BarrierObstacle = 3"

definition read_arena_obstacle_kind :: "string \<Rightarrow> arena_obstacle_kind reader" where
  "read_arena_obstacle_kind kind =
     rd_bind (read_u8 kind) (\<lambda>b.
     if b = 1 then rd_return Pillar
     else if b = 2 then rd_return Shrub
     else if b = 3 then rd_return BarrierObstacle
     else rd_fail (InvalidEncodedArenaObstacleKind b))"

fun encode_arena_deployable_kind :: "arena_deployable_kind \<Rightarrow> u8" where
  "encode_arena_deployable_kind Summon = 1"
| "encode_arena_deployable_kind Ward = 2"
| "encode_arena_deployable_kind Trap = 3"
| "encode_arena_deployable_kind BarrierDeployable = 4"
| "encode_arena_deployable_kind Aura = 5"
| "encode_arena_deployable_kind TrainingDummyResetFull = 6"
| "encode_arena_deployable_kind TrainingDummyExecute = 7"

definition read_arena_deployable_kind :: "string \<Rightarrow> arena_deployable_kind reader" where
  "read_arena_deployable_kind kind =
     rd_bind (read_u8 kind) (\<lambda>b.
     if b = 1 then rd_return Summon
     else if b = 2 then rd_return Ward
     else if b = 3 then rd_return Trap
     else if b = 4 then rd_return BarrierDeployable
     else if b = 5 then rd_return Aura
     else if b = 6 then rd_return TrainingDummyResetFull
     else if b = 7 then rd_return TrainingDummyExecute
     else rd_fail (InvalidEncodedArenaEffectKind b))"

fun encode_arena_effect_kind :: "arena_effect_kind \<Rightarrow> u8" where
  "encode_arena_effect_kind MeleeSwing = 1"
| "encode_arena_effect_kind SkillShot = 2"
| "encode_arena_effect_kind DashTrail = 3"
| "encode_arena_effect_kind Burst = 4"
| "encode_arena_effect_kind Nova = 5"
| "encode_arena_effect_kind Beam = 6"
| "encode_arena_effect_kind HitSpark = 7"
| "encode_arena_effect_kind Footstep = 8"
| "encode_arena_effect_kind BrushRustle = 9"
| "encode_arena_effect_kind StealthFootstep = 10"

definition read_arena_effect_kind :: "string \<Rightarrow> arena_effect_kind reader" where
  "read_arena_effect_kind kind =
     rd_bind (read_u8 kind) (\<lambda>b.
     if b = 1 then rd_return MeleeSwing
     else if b = 2 then rd_return SkillShot
     else if b = 3 then rd_return DashTrail
     else if b = 4 then rd_return Burst
     else if b = 5 then rd_return Nova
     else if b = 6 then rd_return Beam
     else if b = 7 then rd_return HitSpark
     else if b = 8 then rd_return Footstep
     else if b = 9 then rd_return BrushRustle
     else if b = 10 then rd_return StealthFootstep
     else rd_fail (InvalidEncodedArenaEffectKind b))"

fun encode_arena_combat_text_style :: "arena_combat_text_style \<Rightarrow> u8" where
  "encode_arena_combat_text_style DamageOutgoing = 1"
| "encode_arena_combat_text_style DamageIncoming = 2"
| "encode_arena_combat_text_style HealOutgoing = 3"
| "encode_arena_combat_text_style HealIncoming = 4"
| "encode_arena_combat_text_style PositiveStatus = 5"
| "encode_arena_combat_text_style NegativeStatus = 6"
| "encode_arena_combat_text_style Utility = 7"

definition read_arena_combat_text_style :: "string \<Rightarrow> arena_combat_text_style reader" where
  "read_arena_combat_text_style kind =
     rd_bind (read_u8 kind) (\<lambda>b.
     if b = 1 then rd_return DamageOutgoing
     else if b = 2 then rd_return DamageIncoming
     else if b = 3 then rd_return HealOutgoing
     else if b = 4 then rd_return HealIncoming
     else if b = 5 then rd_return PositiveStatus
     else if b = 6 then rd_return NegativeStatus
     else if b = 7 then rd_return Utility
     else rd_fail (InvalidEncodedArenaCombatTextStyle b))"

definition encode_lobby_snapshot_phase :: "lobby_snapshot_phase \<Rightarrow> writer" where
  "encode_lobby_snapshot_phase phase =
     (case phase of
        LobbyOpen \<Rightarrow> w_u8 0
      | LobbyLaunchCountdown seconds_remaining \<Rightarrow> w_seq [w_u8 1, w_u8 seconds_remaining])"

definition read_lobby_snapshot_phase :: "string \<Rightarrow> lobby_snapshot_phase reader" where
  "read_lobby_snapshot_phase kind =
     rd_bind (read_u8 kind) (\<lambda>b.
     if b = 0 then rd_return LobbyOpen
     else if b = 1 then rd_bind (read_u8 kind) (\<lambda>n. rd_return (LobbyLaunchCountdown n))
     else rd_fail (InvalidEncodedLobbyPhase b))"

section \<open>The primitive readers\<close>

lemma ensure_available_ok:
  "length payload \<le> U16_MAX \<Longrightarrow> i + n \<le> length payload \<Longrightarrow> ensure_available payload i n kind = Inr ()"
  by (simp add: ensure_available_def Let_def)

lemma ensure_available_Inr:
  "length payload \<le> U16_MAX \<Longrightarrow> ensure_available payload i n kind = Inr () \<longleftrightarrow> i + n \<le> length payload"
  by (auto simp: ensure_available_def Let_def USIZE_MAX_def U16_MAX_def min_def not_less split: if_splits)

lemma ensure_available_Inl:
  "length payload \<le> U16_MAX \<Longrightarrow> \<not> i + n \<le> length payload \<Longrightarrow>
    \<exists>e. ensure_available payload i n kind = Inl (Err e)"
  by (auto simp: ensure_available_def Let_def USIZE_MAX_def U16_MAX_def min_def)

lemma reads_slice: "n = length bs \<Longrightarrow> reads (read_slice kind n) bs bs"
  by (simp add: reads_def read_slice_def ensure_available_ok)

lemma reads_u8: "reads (read_u8 kind) [b] b"
  by (simp add: reads_def read_u8_def ensure_available_ok)

lemma reads_u16: "reads (read_u16 kind) (u16_to_le n) n"
  by (simp add: reads_def read_u16_def ensure_available_ok u16_to_le_def u16_le_roundtrip nth_append)

lemma reads_i16: "reads (read_i16 kind) (u16_to_le n) n"
  by (simp add: reads_def read_i16_def ensure_available_ok u16_to_le_def u16_le_roundtrip nth_append)

lemma reads_u32: "reads (read_u32 kind) (u32_to_le n) n"
  by (simp add: reads_def read_u32_def ensure_available_ok u32_to_le_def u32_le_roundtrip nth_append)

lemmas ints_rt [rt] = reads_u8 [THEN inverts_bytes] reads_u16 [THEN inverts_bytes]
  reads_i16 [THEN inverts_bytes] reads_u32 [THEN inverts_bytes]

lemma read_slice_ok [rd_ok]: "reader_ok (read_slice kind n) (\<lambda>bs. length bs = n)"
  unfolding reader_ok_def
proof (intro allI impI)
  fix payload :: "u8 list" and i
  assume len: "length payload \<le> U16_MAX" "i \<le> length payload"
  show "case read_slice kind n payload i of
      Inr (v, j) \<Rightarrow> length v = n \<and> i \<le> j \<and> j \<le> length payload | Inl e \<Rightarrow> e \<noteq> Panic"
    using len ensure_available_Inl [OF len(1), of i n kind]
    by (cases "i + n \<le> length payload") (auto simp: read_slice_def ensure_available_ok)
qed

lemma read_u8_ok [rd_ok]: "reader_ok (read_u8 kind) (\<lambda>_. True)"
  unfolding reader_ok_def
proof (intro allI impI)
  fix payload :: "u8 list" and i
  assume len: "length payload \<le> U16_MAX" "i \<le> length payload"
  show "case read_u8 kind payload i of
      Inr (v, j) \<Rightarrow> True \<and> i \<le> j \<and> j \<le> length payload | Inl e \<Rightarrow> e \<noteq> Panic"
    using len ensure_available_Inl [OF len(1), of i 1 kind]
    by (cases "i + 1 \<le> length payload") (auto simp: read_u8_def ensure_available_ok)
qed

lemma read_u16_ok [rd_ok]: "reader_ok (read_u16 kind) (\<lambda>_. True)"
  unfolding reader_ok_def
proof (intro allI impI)
  fix payload :: "u8 list" and i
  assume len: "length payload \<le> U16_MAX" "i \<le> length payload"
  show "case read_u16 kind payload i of
      Inr (v, j) \<Rightarrow> True \<and> i \<le> j \<and> j \<le> length payload | Inl e \<Rightarrow> e \<noteq> Panic"
    using len ensure_available_Inl [OF len(1), of i 2 kind]
    by (cases "i + 2 \<le> length payload") (auto simp: read_u16_def ensure_available_ok)
qed

lemma read_i16_ok [rd_ok]: "reader_ok (read_i16 kind) (\<lambda>_. True)"
  using read_u16_ok [of kind] by (simp add: read_i16_def read_u16_def)

lemma read_u32_ok [rd_ok]: "reader_ok (read_u32 kind) (\<lambda>_. True)"
  unfolding reader_ok_def
proof (intro allI impI)
  fix payload :: "u8 list" and i
  assume len: "length payload \<le> U16_MAX" "i \<le> length payload"
  show "case read_u32 kind payload i of
      Inr (v, j) \<Rightarrow> True \<and> i \<le> j \<and> j \<le> length payload | Inl e \<Rightarrow> e \<noteq> Panic"
    using len ensure_available_Inl [OF len(1), of i 4 kind]
    by (cases "i + 4 \<le> length payload") (auto simp: read_u32_def ensure_available_ok)
qed

section \<open>Composed readers\<close>

lemma inverts_count_u16 [rt]:
  assumes "n \<le> U16_MAX \<Longrightarrow> inverts (w_seq ws) (f (of_nat n)) v"
  shows "inverts (w_seq (w_count_u16 n # ws)) (rd_bind (read_u16 kind) f) v"
proof (cases "n \<le> U16_MAX")
  case True
  with assms show ?thesis by (auto simp: w_count_u16_def intro!: inverts_bind inverts_bytes reads_u16)
next
  case False
  then show ?thesis by (simp add: w_count_u16_def w_fail_def inverts_def w_seq.simps)
qed

lemma inverts_count_u8 [rt]:
  assumes "n \<le> U8_MAX \<Longrightarrow> inverts (w_seq ws) (f (of_nat n)) v"
  shows "inverts (w_seq (w_count_u8 n # ws)) (rd_bind (read_u8 kind) f) v"
proof (cases "n \<le> U8_MAX")
  case True
  with assms show ?thesis by (auto simp: w_count_u8_def intro!: inverts_bind inverts_bytes reads_u8)
next
  case False
  then show ?thesis by (simp add: w_count_u8_def w_fail_def inverts_def w_seq.simps)
qed

lemma inverts_seq1: "inverts w rd v \<Longrightarrow> inverts (w_seq [w]) rd v"
  by (simp only: w_seq_single)

lemma encode_bytes_rt [rt]: "inverts (encode_bytes field bytes) (decode_bytes kind field) bytes"
  unfolding encode_bytes_def decode_bytes_def
  by (rule inverts_count_u16, rule inverts_seq1, rule inverts_bytes, rule reads_slice) simp

lemma decode_bytes_ok [rd_ok]: "reader_ok (decode_bytes kind field) (\<lambda>_. True)"
  unfolding decode_bytes_def
  by (rule reader_ok_bind [OF read_u16_ok], rule reader_ok_mono [OF read_slice_ok]) simp

lemma w_u8_rt: "f b = rd_return v \<Longrightarrow> inverts (w_u8 b) (rd_bind (read_u8 kind) f) v"
  by (rule inverts_bind_last [OF inverts_bytes [OF reads_u8]])

lemma w_bool_rt [rt]: "inverts (w_bool b) (read_bool kind) b"
  by (cases b) (simp_all add: w_bool_def read_bool_def w_u8_rt)

lemma read_bool_ok [rd_ok]: "reader_ok (read_bool kind) (\<lambda>_. True)"
  unfolding read_bool_def by (rule rd_ok TrueI)+

lemma encode_optional_u8_rt [rt]: "inverts (encode_optional_u8 v) (read_optional_u8 kind) v"
proof (cases v)
  case None
  have "inverts (w_bool False) (read_optional_u8 kind) v"
    unfolding read_optional_u8_def by (rule inverts_bind_last [OF w_bool_rt]) (simp add: None)
  then show ?thesis by (simp add: None encode_optional_u8_def w_bool_def)
next
  case (Some n)
  have "inverts (w_seq [w_bool True, w_u8 n]) (read_optional_u8 kind) v"
    unfolding read_optional_u8_def by (rule inverts_bind [OF w_bool_rt]) (simp add: Some, (rule rt refl)+)
  then show ?thesis by (simp add: Some encode_optional_u8_def w_bool_def)
qed

lemma read_optional_u8_ok [rd_ok]: "reader_ok (read_optional_u8 kind) (\<lambda>_. True)"
  unfolding read_optional_u8_def by (rule rd_ok TrueI)+

lemma reader_ok_lift [rd_ok]: "(\<And>v. r = Inr v \<Longrightarrow> P v) \<Longrightarrow> reader_ok (rd_lift r) P"
  by (cases r) (simp_all add: rd_lift_def rd_ok)

lemma rd_lift_Inr [simp]: "rd_lift (Inr v) = rd_return v"
  by (simp add: rd_lift_def)

lemma w_u32_rt: "f b = rd_return v \<Longrightarrow> inverts (w_u32 b) (rd_bind (read_u32 kind) f) v"
  by (rule inverts_bind_last [OF inverts_bytes [OF reads_u32]])

lemma map_err_Inr_iff: "map_err f r = Inr v \<longleftrightarrow> r = Inr v"
  by (cases r) simp_all

lemma read_player_id_rt [rt]:
  "wf_player_id p \<Longrightarrow> inverts (w_u32 (player_id_get p)) (read_player_id kind) p"
  unfolding read_player_id_def by (rule w_u32_rt) (simp add: player_id_new_iff [THEN iffD2])

lemma read_lobby_id_rt [rt]:
  "wf_lobby_id p \<Longrightarrow> inverts (w_u32 (lobby_id_get p)) (read_lobby_id kind) p"
  unfolding read_lobby_id_def by (rule w_u32_rt) (simp add: lobby_id_new_iff [THEN iffD2])

lemma read_match_id_rt [rt]:
  "wf_match_id p \<Longrightarrow> inverts (w_u32 (match_id_get p)) (read_match_id kind) p"
  unfolding read_match_id_def by (rule w_u32_rt) (simp add: match_id_new_iff [THEN iffD2])

lemma read_round_rt [rt]: "wf_round r \<Longrightarrow> inverts (w_u8 (round_get r)) (read_round kind) r"
  unfolding read_round_def by (rule w_u8_rt) (simp add: round_number_new_iff [THEN iffD2])

lemma read_ids_ok [rd_ok]:
  "reader_ok (read_player_id kind) wf_player_id"
  "reader_ok (read_lobby_id kind) wf_lobby_id"
  "reader_ok (read_match_id kind) wf_match_id"
  "reader_ok (read_round kind) wf_round"
  unfolding read_player_id_def read_lobby_id_def read_match_id_def read_round_def
  by ((rule rd_ok)+, simp add: map_err_Inr_iff player_id_new_iff lobby_id_new_iff match_id_new_iff
      round_number_new_iff)+

lemma push_string_rt [rt]:
  assumes "wf_text s"
  shows "inverts (push_len_prefixed_string field s max_len) (read_string kind field max_len) s"
proof (cases "str_len s \<le> max_len \<and> str_len s \<le> U8_MAX")
  case True
  have dec: "utf8_decode (utf8_encode s) = Some s"
    using assms by (intro utf8_decode_encode) (simp add: wf_text_def list_all_iff)
  have "inverts (w_seq [w_u8 (of_nat (str_len s)), w_bytes (utf8_encode s)]) (read_string kind field max_len) s"
    unfolding read_string_def
  proof (rule inverts_bind [OF inverts_bytes [OF reads_u8]])
    have "inverts (w_bytes (utf8_encode s)) (rd_bind (read_slice kind (str_len s))
        (\<lambda>bytes. case utf8_decode bytes of Some s \<Rightarrow> rd_return s | None \<Rightarrow> rd_fail (InvalidUtf8String field))) s"
      by (rule inverts_bind_last [OF inverts_bytes [OF reads_slice]]) (simp_all add: dec)
    then show "inverts (w_seq [w_bytes (utf8_encode s)])
      (let len = unat (of_nat (str_len s) :: u8) in
       if max_len < len then rd_fail (StringLengthOutOfBounds field len max_len)
       else rd_bind (read_slice kind len) (\<lambda>bytes. case utf8_decode bytes of
         Some s \<Rightarrow> rd_return s | None \<Rightarrow> rd_fail (InvalidUtf8String field))) s"
      using True by (simp add: Let_def w_seq_single)
  qed
  with True show ?thesis by (simp add: push_len_prefixed_string_def Let_def)
next
  case False
  then show ?thesis by (auto simp: push_len_prefixed_string_def Let_def inverts_fail)
qed

lemma read_string_ok [rd_ok]: "reader_ok (read_string kind field max_len) wf_text"
  unfolding read_string_def Let_def
  by (rule reader_ok_bind [OF read_u8_ok], rule reader_ok_if, rule reader_ok_fail,
      rule reader_ok_bind [OF read_slice_ok])
    (auto simp: wf_text_def list_all_iff dest: utf8_decode_sound intro!: reader_ok_return reader_ok_fail
      split: option.split)

lemma read_player_name_rt [rt]:
  assumes "wf_player_name n"
  shows "inverts (push_len_prefixed_string ''player_name'' (player_name_as_str n) MAX_PLAYER_NAME_LEN)
    (read_player_name kind) n"
  unfolding read_player_name_def
  by (rule inverts_bind_last [OF push_string_rt])
    (use assms in \<open>simp_all add: wf_text_def list_all_iff wf_player_name_str player_name_roundtrip\<close>)

lemma read_skill_tree_rt [rt]:
  assumes "wf_skill_tree t"
  shows "inverts (push_len_prefixed_string ''skill_tree'' (skill_tree_as_str t) MAX_SKILL_TREE_NAME_BYTES)
    (read_skill_tree kind) t"
  unfolding read_skill_tree_def
  by (rule inverts_bind_last [OF push_string_rt])
    (use assms in \<open>simp_all add: wf_text_def list_all_iff wf_skill_tree_str skill_tree_roundtrip\<close>)

lemma read_names_ok [rd_ok]:
  "reader_ok (read_player_name kind) wf_player_name"
  "reader_ok (read_skill_tree kind) wf_skill_tree"
  unfolding read_player_name_def read_skill_tree_def
  by ((rule rd_ok)+, simp add: map_err_Inr_iff player_name_new_wf skill_tree_new_wf)+

lemma team_rt [rt]: "inverts (w_u8 (encode_team v)) (read_team kind) v"
  by (cases v rule: encode_team.cases) (simp_all add: read_team_def w_u8_rt)

lemma team_ok [rd_ok]: "reader_ok (read_team kind) (\<lambda>_. True)"
  unfolding read_team_def by (rule rd_ok TrueI)+

lemma optional_team_rt [rt]: "inverts (w_u8 (encode_optional_team v)) (read_optional_team kind) v"
  by (cases v rule: encode_optional_team.cases) (simp_all add: read_optional_team_def w_u8_rt)

lemma optional_team_ok [rd_ok]: "reader_ok (read_optional_team kind) (\<lambda>_. True)"
  unfolding read_optional_team_def by (rule rd_ok TrueI)+

lemma ready_state_rt [rt]: "inverts (w_u8 (encode_ready_state v)) (read_ready_state kind) v"
  by (cases v rule: encode_ready_state.cases) (simp_all add: read_ready_state_def w_u8_rt)

lemma ready_state_ok [rd_ok]: "reader_ok (read_ready_state kind) (\<lambda>_. True)"
  unfolding read_ready_state_def by (rule rd_ok TrueI)+

lemma match_outcome_rt [rt]: "inverts (w_u8 (encode_match_outcome v)) (read_match_outcome kind) v"
  by (cases v rule: encode_match_outcome.cases) (simp_all add: read_match_outcome_def w_u8_rt)

lemma match_outcome_ok [rd_ok]: "reader_ok (read_match_outcome kind) (\<lambda>_. True)"
  unfolding read_match_outcome_def by (rule rd_ok TrueI)+

lemma arena_match_phase_rt [rt]: "inverts (w_u8 (encode_arena_match_phase v)) (read_arena_match_phase kind) v"
  by (cases v rule: encode_arena_match_phase.cases) (simp_all add: read_arena_match_phase_def w_u8_rt)

lemma arena_match_phase_ok [rd_ok]: "reader_ok (read_arena_match_phase kind) (\<lambda>_. True)"
  unfolding read_arena_match_phase_def by (rule rd_ok TrueI)+

lemma arena_session_mode_rt [rt]: "inverts (w_u8 (encode_arena_session_mode v)) (read_arena_session_mode kind) v"
  by (cases v rule: encode_arena_session_mode.cases) (simp_all add: read_arena_session_mode_def w_u8_rt)

lemma arena_session_mode_ok [rd_ok]: "reader_ok (read_arena_session_mode kind) (\<lambda>_. True)"
  unfolding read_arena_session_mode_def by (rule rd_ok TrueI)+

lemma arena_status_kind_rt [rt]: "inverts (w_u8 (encode_arena_status_kind v)) (read_arena_status_kind kind) v"
  by (cases v rule: encode_arena_status_kind.cases) (simp_all add: read_arena_status_kind_def w_u8_rt)

lemma arena_status_kind_ok [rd_ok]: "reader_ok (read_arena_status_kind kind) (\<lambda>_. True)"
  unfolding read_arena_status_kind_def by (rule rd_ok TrueI)+

lemma arena_obstacle_kind_rt [rt]: "inverts (w_u8 (encode_arena_obstacle_kind v)) (read_arena_obstacle_kind kind) v"
  by (cases v rule: encode_arena_obstacle_kind.cases) (simp_all add: read_arena_obstacle_kind_def w_u8_rt)

lemma arena_obstacle_kind_ok [rd_ok]: "reader_ok (read_arena_obstacle_kind kind) (\<lambda>_. True)"
  unfolding read_arena_obstacle_kind_def by (rule rd_ok TrueI)+

lemma arena_deployable_kind_rt [rt]: "inverts (w_u8 (encode_arena_deployable_kind v)) (read_arena_deployable_kind kind) v"
  by (cases v rule: encode_arena_deployable_kind.cases) (simp_all add: read_arena_deployable_kind_def w_u8_rt)

lemma arena_deployable_kind_ok [rd_ok]: "reader_ok (read_arena_deployable_kind kind) (\<lambda>_. True)"
  unfolding read_arena_deployable_kind_def by (rule rd_ok TrueI)+

lemma arena_effect_kind_rt [rt]: "inverts (w_u8 (encode_arena_effect_kind v)) (read_arena_effect_kind kind) v"
  by (cases v rule: encode_arena_effect_kind.cases) (simp_all add: read_arena_effect_kind_def w_u8_rt)

lemma arena_effect_kind_ok [rd_ok]: "reader_ok (read_arena_effect_kind kind) (\<lambda>_. True)"
  unfolding read_arena_effect_kind_def by (rule rd_ok TrueI)+

lemma arena_combat_text_style_rt [rt]: "inverts (w_u8 (encode_arena_combat_text_style v)) (read_arena_combat_text_style kind) v"
  by (cases v rule: encode_arena_combat_text_style.cases) (simp_all add: read_arena_combat_text_style_def w_u8_rt)

lemma arena_combat_text_style_ok [rd_ok]: "reader_ok (read_arena_combat_text_style kind) (\<lambda>_. True)"
  unfolding read_arena_combat_text_style_def by (rule rd_ok TrueI)+

lemma lobby_snapshot_phase_rt [rt]: "inverts (encode_lobby_snapshot_phase v) (read_lobby_snapshot_phase kind) v"
proof (cases v)
  case LobbyOpen
  then show ?thesis
    by (simp add: encode_lobby_snapshot_phase_def read_lobby_snapshot_phase_def w_u8_rt)
next
  case (LobbyLaunchCountdown n)
  show ?thesis unfolding LobbyLaunchCountdown encode_lobby_snapshot_phase_def read_lobby_snapshot_phase_def
    by (simp, rule inverts_bind [OF inverts_bytes [OF reads_u8]]) (simp, (rule rt refl)+)
qed

lemma lobby_snapshot_phase_ok [rd_ok]: "reader_ok (read_lobby_snapshot_phase kind) (\<lambda>_. True)"
  unfolding read_lobby_snapshot_phase_def by (rule rd_ok TrueI)+

section \<open>Length-prefixed lists\<close>

text \<open>A \<open>u16\<close> count and the entries, on both sides.\<close>

definition w_list :: "('a \<Rightarrow> writer) \<Rightarrow> 'a list \<Rightarrow> writer" where
  "w_list w xs = w_seq (w_count_u16 (length xs) # map w xs)"

definition rd_list :: "string \<Rightarrow> 'a reader \<Rightarrow> 'a list reader" where
  "rd_list kind rd = rd_bind (read_u16 kind) (\<lambda>n. read_many (unat n) rd)"

context codec
begin

lemma list_read_back: "list_all wf vs \<Longrightarrow> inverts (w_list enc vs) (rd_list kind dec) vs"
  unfolding w_list_def rd_list_def by (rule inverts_count_u16) (simp add: many_read_back)

lemma list_safe: "reader_ok (rd_list kind dec) (list_all wf)"
  unfolding rd_list_def
  by (rule reader_ok_bind [OF read_u16_ok], rule reader_ok_mono [OF many_safe]) simp

end

section \<open>Framing\<close>

text \<open>
  The common parts of the \<open>encode_packet\<close> and \<open>decode_packet\<close> of commands and events: the
  length check and header around a payload, and the kind byte, body and trailing-bytes check
  of a received payload.
\<close>

definition frame_packet ::
  "channel_id \<Rightarrow> packet_kind \<Rightarrow> u32 \<Rightarrow> u32 \<Rightarrow> u8 list \<Rightarrow> packet_error fault + u8 list" where
  "frame_packet channel kind sq sim_tick payload =
     and_then (if length payload \<le> U16_MAX then Inr (of_nat (length payload))
       else Inl (Err (PayloadTooLarge (length payload) U16_MAX))) (\<lambda>payload_len.
     and_then (header_new channel kind 0 payload_len sq sim_tick) (\<lambda>header.
     Inr (header_encode header payload)))"

definition decode_message :: "(u8 \<Rightarrow> 'a reader) \<Rightarrow> string \<Rightarrow> u8 list \<Rightarrow> packet_error fault + 'a" where
  "decode_message body kind payload =
     (case payload of
        [] \<Rightarrow> Inl (Err (ControlPayloadTooShort kind 1 (length payload)))
      | b # _ \<Rightarrow>
          and_then (body b payload 1) (\<lambda>(v, index).
          and_then (ensure_consumed payload index kind) (\<lambda>_. Inr v)))"

lemma frame_packet_decodes:
  assumes "frame_packet channel kind sq sim_tick payload = Inr packet"
  shows "header_decode packet = Inr (\<lparr>hd_version = PROTOCOL_VERSION, hd_channel_id = channel,
      hd_packet_kind = kind, hd_flags = 0, hd_payload_len = of_nat (length payload), hd_seq = sq,
      hd_sim_tick = sim_tick\<rparr>, payload) \<and> length payload \<le> U16_MAX \<and>
    length packet = 16 + length payload"
  using assms
  by (auto simp: frame_packet_def and_then_eq_Inr header_new_iff header_decode_iff wf_header_def
      header_encode_def split: if_splits)

lemma frame_packet_ok:
  assumes "length payload \<le> U16_MAX" "kind_on_channel channel kind"
  obtains packet where "frame_packet channel kind sq sim_tick payload = Inr packet"
  using assms by (auto simp: frame_packet_def header_new_iff [THEN iffD2])

lemma decode_message_rt:
  assumes "inverts enc (body b) v" "w_seq [w_u8 b, enc] [] = Inr payload" "length payload \<le> U16_MAX"
  shows "decode_message body kind payload = Inr v"
proof -
  have "enc [b] = Inr payload" using assms(2) by (auto simp: w_seq.simps w_bytes_def and_then_eq_Inr)
  then obtain bs where bs: "payload = [b] @ bs" "reads (body b) bs v"
    using assms(1) unfolding inverts_def by blast
  have "body b ([b] @ bs @ []) (length [b]) = Inr (v, length [b] + length bs)"
    using bs(2) assms(3) bs(1) unfolding reads_def by (metis append_Nil2)
  then show ?thesis
    by (simp add: decode_message_def bs(1) ensure_consumed_def)
qed

lemma decode_message_ok:
  assumes "\<And>b. reader_ok (body b) P" "length payload \<le> U16_MAX"
  shows "decode_message body kind payload \<noteq> Inl Panic"
    and "decode_message body kind payload = Inr v \<Longrightarrow> P v"
proof -
  have "decode_message body kind payload \<noteq> Inl Panic \<and> (decode_message body kind payload = Inr v \<longrightarrow> P v)"
  proof (cases payload)
    case Nil
    then show ?thesis by (simp add: decode_message_def)
  next
    case (Cons b bs)
    then have "1 \<le> length payload" by simp
    note ok = reader_okD [OF assms(1) [of b] assms(2) this]
    show ?thesis
    proof (cases "body b payload 1")
      case (Inl e)
      then show ?thesis using ok(1) Cons by (simp add: decode_message_def)
    next
      case (Inr vj)
      obtain u j where vj: "vj = (u, j)" by (cases vj)
      have "P u" "j \<le> length payload" using ok(2) Inr vj by blast+
      with Inr vj Cons show ?thesis
        by (auto simp: decode_message_def ensure_consumed_def)
    qed
  qed
  then show "decode_message body kind payload \<noteq> Inl Panic"
    "decode_message body kind payload = Inr v \<Longrightarrow> P v" by simp_all
qed

end
