(* ===== verification/Client_Command.thy ===== *)
theory Client_Command
  imports Control_Codec
begin

text \<open>
  The commands a client sends (\<open>control/client.rs\<close> of \<open>game_net\<close>) and the guard of a
  connection (\<open>ingress.rs\<close>), which only lets a first packet through when it is a
  \<open>Connect\<close>, and none once the connection is bound.
\<close>

section \<open>Commands\<close>

datatype client_control_command =
    Connect player_name
  | CreateGameLobby
  | JoinGameLobby lobby_id
  | LeaveGameLobby
  | StartTraining
  | SelectTeamCommand team_side
  | SetReadyCommand ready_state
  | ChooseSkill skill_tree u8
  | ResetTrainingSession
  | QuitToCentralLobby

fun command_kind_byte :: "client_control_command \<Rightarrow> u8" where
  "command_kind_byte (Connect _) = 1"
| "command_kind_byte CreateGameLobby = 2"
| "command_kind_byte (JoinGameLobby _) = 3"
| "command_kind_byte LeaveGameLobby = 4"
| "command_kind_byte StartTraining = 5"
| "command_kind_byte (SelectTeamCommand _) = 6"
| "command_kind_byte (SetReadyCommand _) = 7"
| "command_kind_byte (ChooseSkill _ _) = 8"
| "command_kind_byte ResetTrainingSession = 9"
| "command_kind_byte QuitToCentralLobby = 10"

definition encode_connect_command :: "player_name \<Rightarrow> writer" where
  "encode_connect_command name =
     push_len_prefixed_string ''player_name'' (player_name_as_str name) MAX_PLAYER_NAME_LEN"

fun command_encode_body :: "client_control_command \<Rightarrow> writer" where
  "command_encode_body (Connect name) = encode_connect_command name"
| "command_encode_body CreateGameLobby = w_seq []"
| "command_encode_body LeaveGameLobby = w_seq []"
| "command_encode_body StartTraining = w_seq []"
| "command_encode_body ResetTrainingSession = w_seq []"
| "command_encode_body QuitToCentralLobby = w_seq []"
| "command_encode_body (JoinGameLobby lid) = w_u32 (lobby_id_get lid)"
| "command_encode_body (SelectTeamCommand team) = w_u8 (encode_team team)"
| "command_encode_body (SetReadyCommand ready) = w_u8 (encode_ready_state ready)"
| "command_encode_body (ChooseSkill t n) =
     w_seq [push_len_prefixed_string ''skill_tree'' (skill_tree_as_str t) MAX_SKILL_TREE_NAME_BYTES,
            w_u8 n]"

definition command_encode_packet ::
  "client_control_command \<Rightarrow> u32 \<Rightarrow> u32 \<Rightarrow> packet_error fault + u8 list" where
  "command_encode_packet c sq sim_tick =
     and_then (w_seq [w_u8 (command_kind_byte c), command_encode_body c] [])
       (frame_packet ControlChannel ControlCommand sq sim_tick)"

definition decode_connect_command :: "client_control_command reader" where
  "decode_connect_command =
     rd_bind (read_player_name ''Connect'') (\<lambda>name. rd_return (Connect name))"

definition decode_choose_skill_command :: "client_control_command reader" where
  "decode_choose_skill_command =
     rd_bind (read_skill_tree ''ChooseSkill'') (\<lambda>t.
     rd_bind (read_u8 ''ChooseSkill'') (\<lambda>n. rd_return (ChooseSkill t n)))"

definition command_decode_body :: "u8 \<Rightarrow> client_control_command reader" where
  "command_decode_body kind =
     (if kind = 1 then decode_connect_command
      else if kind = 2 then rd_return CreateGameLobby
      else if kind = 3 then
        rd_bind (read_lobby_id ''JoinGameLobby'') (\<lambda>lid. rd_return (JoinGameLobby lid))
      else if kind = 4 then rd_return LeaveGameLobby
      else if kind = 5 then rd_return StartTraining
      else if kind = 6 then
        rd_bind (read_team ''SelectTeam'') (\<lambda>team. rd_return (SelectTeamCommand team))
      else if kind = 7 then
        rd_bind (read_ready_state ''SetReady'') (\<lambda>ready. rd_return (SetReadyCommand ready))
      else if kind = 8 then decode_choose_skill_command
      else if kind = 9 then rd_return ResetTrainingSession
      else if kind = 10 then rd_return QuitToCentralLobby
      else rd_fail (UnknownControlCommand kind))"

definition command_decode_packet ::
  "u8 list \<Rightarrow> packet_error fault + (packet_header \<times> client_control_command)" where
  "command_decode_packet packet =
     and_then (map_err Err (header_decode packet)) (\<lambda>(header, payload).
     if hd_channel_id header \<noteq> ControlChannel \<or> hd_packet_kind header \<noteq> ControlCommand then
       Inl (Err (UnexpectedPacketKind ControlChannel ControlCommand
              (hd_channel_id header) (hd_packet_kind header)))
     else
       and_then (decode_message command_decode_body ''ClientControlCommand'' payload) (\<lambda>command.
       Inr (header, command)))"

text \<open>The invariants of the Rust types of the fields.\<close>

fun wf_command :: "client_control_command \<Rightarrow> bool" where
  "wf_command (Connect name) = wf_player_name name"
| "wf_command (JoinGameLobby lid) = wf_lobby_id lid"
| "wf_command (ChooseSkill t n) = wf_skill_tree t"
| "wf_command _ = True"

section \<open>Round trip and safety of the body\<close>

lemma command_body_rt:
  assumes "wf_command c"
  shows "inverts (command_encode_body c) (command_decode_body (command_kind_byte c)) c"
proof (cases c)
  case (Connect name)
  with assms show ?thesis
    by (simp add: command_decode_body_def decode_connect_command_def encode_connect_command_def
        inverts_bind_last [OF read_player_name_rt])
next
  case (JoinGameLobby lid)
  with assms show ?thesis
    by (simp add: command_decode_body_def inverts_bind_last [OF read_lobby_id_rt])
next
  case (SelectTeamCommand team)
  then show ?thesis by (simp add: command_decode_body_def inverts_bind_last [OF team_rt])
next
  case (SetReadyCommand ready)
  then show ?thesis by (simp add: command_decode_body_def inverts_bind_last [OF ready_state_rt])
next
  case (ChooseSkill t n)
  with assms show ?thesis
    by (simp add: command_decode_body_def decode_choose_skill_command_def) ((rule rt refl | simp)+)
qed (simp_all add: command_decode_body_def inverts_return)

lemma command_body_ok: "reader_ok (command_decode_body kind) wf_command"
  unfolding command_decode_body_def decode_connect_command_def decode_choose_skill_command_def
  by ((rule rd_ok | simp)+)

lemma push_string_len:
  assumes "str_len s \<le> n" "n \<le> U8_MAX"
  shows "\<exists>bs. (\<forall>payload. push_len_prefixed_string field s n payload = Inr (payload @ bs)) \<and>
    length bs = 1 + str_len s"
  using assms by (simp add: push_len_prefixed_string_def Let_def w_seq.simps w_bytes_def)

lemma command_payload:
  assumes "wf_command c"
  shows "\<exists>payload. w_seq [w_u8 (command_kind_byte c), command_encode_body c] [] = Inr payload \<and>
    length payload \<le> 35"
proof (cases c)
  case (Connect name)
  then have "str_len (player_name_as_str name) \<le> 24"
    using assms wf_player_name_str by (simp add: MAX_PLAYER_NAME_LEN_def)
  from push_string_len [OF this, of "''player_name''"] obtain bs where
    "\<forall>payload. push_len_prefixed_string ''player_name'' (player_name_as_str name) 24 payload = Inr (payload @ bs)"
    "length bs \<le> 25"
    using \<open>str_len _ \<le> 24\<close> by (auto simp: U8_MAX_def)
  then show ?thesis
    by (simp add: Connect encode_connect_command_def w_seq.simps w_bytes_def MAX_PLAYER_NAME_LEN_def)
next
  case (ChooseSkill t n)
  then have "str_len (skill_tree_as_str t) \<le> 32"
    using assms wf_skill_tree_str by (simp add: MAX_SKILL_TREE_NAME_LEN_def)
  from push_string_len [OF this, of "''skill_tree''"] obtain bs where
    "\<forall>payload. push_len_prefixed_string ''skill_tree'' (skill_tree_as_str t) 32 payload = Inr (payload @ bs)"
    "length bs \<le> 33"
    using \<open>str_len _ \<le> 32\<close> by (auto simp: U8_MAX_def)
  then show ?thesis
    by (simp add: ChooseSkill w_seq.simps w_bytes_def MAX_SKILL_TREE_NAME_BYTES_def MAX_SKILL_TREE_NAME_LEN_def)
qed (simp_all add: w_seq.simps w_bytes_def)

lemma command_decode_safe:
  "command_decode_packet packet \<noteq> Inl Panic \<and>
   (\<forall>h c. command_decode_packet packet = Inr (h, c) \<longrightarrow> wf_command c \<and>
      hd_channel_id h = ControlChannel \<and> hd_packet_kind h = ControlCommand \<and>
      length packet = 16 + unat (hd_payload_len h))"
proof (cases "header_decode packet")
  case (Inl e)
  then show ?thesis by (simp add: command_decode_packet_def)
next
  case (Inr hp)
  obtain h payload where hp: "hp = (h, payload)" by (cases hp)
  have w: "packet = header_encode h payload" "length payload = unat (hd_payload_len h)"
    using header_encode_decode [OF Inr [unfolded hp]] by (simp_all add: wf_header_def)
  then have len: "length payload \<le> U16_MAX" using unat_u16_le by simp
  show ?thesis
    using decode_message_ok [where body = command_decode_body, OF command_body_ok len] Inr hp w
    by (cases "decode_message command_decode_body ''ClientControlCommand'' payload")
      (auto simp: command_decode_packet_def header_encode_def)
qed

section \<open>Ingress\<close>

definition MAX_INGRESS_PACKET_BYTES :: nat where "MAX_INGRESS_PACKET_BYTES = 1024"

record network_session_guard =
  guard_is_bound :: bool

definition guard_new :: network_session_guard where
  "guard_new = \<lparr>guard_is_bound = False\<rparr>"

definition accept_packet :: "network_session_guard \<Rightarrow> u8 list \<Rightarrow> packet_error fault + unit" where
  "accept_packet g packet =
     (if length packet > MAX_INGRESS_PACKET_BYTES then
        Inl (Err (IngressPacketTooLarge (length packet) MAX_INGRESS_PACKET_BYTES))
      else if \<not> guard_is_bound g then
        and_then (command_decode_packet packet) (\<lambda>(_, command).
        case command of Connect _ \<Rightarrow> Inr () | _ \<Rightarrow> Inl (Err FirstPacketMustBeConnect))
      else
        (case command_decode_packet packet of
           Inr (_, Connect _) \<Rightarrow> Inl (Err ConnectCommandAfterBinding)
         | Inl Panic \<Rightarrow> Inl Panic
         | _ \<Rightarrow> Inr ()))"

definition mark_bound :: "network_session_guard \<Rightarrow> network_session_guard" where
  "mark_bound g = g\<lparr>guard_is_bound := True\<rparr>"

section \<open>Properties\<close>

text \<open>
  C37: Every command a client can construct is encoded into a packet of at most 51 bytes, well
  within the ingress limit of 1024, and the packet decodes to the same command, with the
  sequence number and the tick it was sent with.
\<close>

theorem client_command_roundtrip:
  assumes "wf_command c"
  shows "\<exists>packet h. command_encode_packet c sq sim_tick = Inr packet \<and> length packet \<le> 51 \<and>
    command_decode_packet packet = Inr (h, c) \<and> hd_seq h = sq \<and> hd_sim_tick h = sim_tick"
proof -
  obtain payload where p: "w_seq [w_u8 (command_kind_byte c), command_encode_body c] [] = Inr payload"
    "length payload \<le> 35"
    using command_payload [OF assms] by blast
  then have len: "length payload \<le> U16_MAX" by (simp add: U16_MAX_def)
  obtain packet where packet: "frame_packet ControlChannel ControlCommand sq sim_tick payload = Inr packet"
    using frame_packet_ok [OF len, of ControlChannel ControlCommand] by auto
  have "decode_message command_decode_body ''ClientControlCommand'' payload = Inr c"
    by (rule decode_message_rt [where body = command_decode_body, OF command_body_rt [OF assms] p(1) len])
  with p packet frame_packet_decodes [OF packet] show ?thesis
    by (auto simp: command_encode_packet_def command_decode_packet_def)
qed

theorem client_command_roundtrip_witness:
  "\<exists>packet h. command_encode_packet (ChooseSkill (Known Mage) 2) 5 6 = Inr packet \<and>
     command_decode_packet packet = Inr (h, ChooseSkill (Known Mage) 2)"
proof -
  have "wf_command (ChooseSkill (Known Mage) 2)" by simp
  from client_command_roundtrip [OF this] show ?thesis by blast
qed

text \<open>
  C39: the command decoder is total and safe on arbitrary bytes: it never indexes out of range,
  and a command it accepts satisfies the invariants of its types and came in a control packet of
  the current version whose payload has the declared length.
\<close>

theorem client_decoder_safe:
  "case command_decode_packet packet of
     Inr (h, v) \<Rightarrow> wf_command v \<and> hd_channel_id h = ControlChannel \<and> hd_packet_kind h = ControlCommand \<and>
       length packet = 16 + unat (hd_payload_len h)
   | Inl e \<Rightarrow> e \<noteq> Panic"
  using command_decode_safe [of packet] by (auto split: sum.splits)

text \<open>
  The ingress guard. A fresh connection lets a packet through exactly when it has at most 1024
  bytes and decodes as \<open>Connect\<close>; a bound one exactly when it has at most 1024 bytes and does
  not decode as \<open>Connect\<close>. It never panics, whatever bytes arrive.
\<close>

lemma ingress_guard_exact:
  "(accept_packet guard_new packet = Inr () \<longleftrightarrow>
      length packet \<le> 1024 \<and> (\<exists>h name. command_decode_packet packet = Inr (h, Connect name))) \<and>
   (accept_packet (mark_bound g) packet = Inr () \<longleftrightarrow>
      length packet \<le> 1024 \<and> (\<nexists>h name. command_decode_packet packet = Inr (h, Connect name))) \<and>
   accept_packet g packet \<noteq> Inl Panic"
proof -
  have "command_decode_packet packet \<noteq> Inl Panic" using command_decode_safe by blast
  then show ?thesis
    by (cases "command_decode_packet packet")
      (auto simp: accept_packet_def guard_new_def mark_bound_def MAX_INGRESS_PACKET_BYTES_def
        split: client_control_command.splits fault.splits prod.splits)
qed

end
