(* ===== verification/Input_Frame.thy ===== *)
theory Input_Frame
  imports Wire
begin

text \<open>
  Input frames (\<open>input.rs\<close> of \<open>game_net\<close>): the validated frame, its packet, and the tracker
  that rejects stale sequence numbers.
\<close>

definition INPUT_PAYLOAD_LEN :: nat where "INPUT_PAYLOAD_LEN = 16"
definition BUTTON_PRIMARY :: u16 where "BUTTON_PRIMARY = push_bit 0 1"
definition BUTTON_SECONDARY :: u16 where "BUTTON_SECONDARY = push_bit 1 1"
definition BUTTON_CAST :: u16 where "BUTTON_CAST = push_bit 2 1"
definition BUTTON_CANCEL :: u16 where "BUTTON_CANCEL = push_bit 3 1"
definition BUTTON_QUIT_TO_LOBBY :: u16 where "BUTTON_QUIT_TO_LOBBY = push_bit 4 1"
definition BUTTON_SELF_CAST :: u16 where "BUTTON_SELF_CAST = push_bit 5 1"
definition ALLOWED_BUTTONS_MASK :: u16 where
  "ALLOWED_BUTTONS_MASK = BUTTON_PRIMARY OR BUTTON_SECONDARY OR BUTTON_CAST OR BUTTON_CANCEL OR
     BUTTON_QUIT_TO_LOBBY OR BUTTON_SELF_CAST"

record validated_input_frame =
  client_input_tick :: u32
  move_horizontal_q :: i16
  move_vertical_q :: i16
  aim_horizontal_q :: i16
  aim_vertical_q :: i16
  buttons :: u16
  ability_or_context :: u16

definition input_frame_new ::
  "u32 \<Rightarrow> i16 \<Rightarrow> i16 \<Rightarrow> i16 \<Rightarrow> i16 \<Rightarrow> u16 \<Rightarrow> u16 \<Rightarrow> packet_error + validated_input_frame" where
  "input_frame_new tick mh mv ah av btns context =
     (if btns AND NOT ALLOWED_BUTTONS_MASK \<noteq> 0 then
        Inl (UnknownButtonBits btns ALLOWED_BUTTONS_MASK)
      else
        let cast_requested = (btns AND BUTTON_CAST \<noteq> 0);
            self_cast_requested = (btns AND BUTTON_SELF_CAST \<noteq> 0) in
        if self_cast_requested \<and> \<not> cast_requested then Inl SelfCastWithoutCast
        else if cast_requested \<and> context = 0 then Inl MissingAbilityContext
        else if \<not> cast_requested \<and> context \<noteq> 0 then Inl (UnexpectedAbilityContext context)
        else
          Inr \<lparr>client_input_tick = tick, move_horizontal_q = mh, move_vertical_q = mv,
               aim_horizontal_q = ah, aim_vertical_q = av, buttons = btns,
               ability_or_context = context\<rparr>)"

definition input_encode_packet :: "validated_input_frame \<Rightarrow> u32 \<Rightarrow> u32 \<Rightarrow> packet_error fault + u8 list" where
  "input_encode_packet f sq sim_tick =
     (let payload = u32_to_le (client_input_tick f) @ u16_to_le (move_horizontal_q f) @
        u16_to_le (move_vertical_q f) @ u16_to_le (aim_horizontal_q f) @
        u16_to_le (aim_vertical_q f) @ u16_to_le (buttons f) @ u16_to_le (ability_or_context f) in
      and_then (header_new InputChannel InputFrame 0 16 sq sim_tick) (\<lambda>header.
      Inr (header_encode header payload)))"

text \<open>The indices are below the length that has been checked.\<close>

definition input_decode_packet ::
  "u8 list \<Rightarrow> packet_error + (packet_header \<times> validated_input_frame)" where
  "input_decode_packet packet =
     and_then (header_decode packet) (\<lambda>(header, payload).
     if hd_channel_id header \<noteq> InputChannel \<or> hd_packet_kind header \<noteq> InputFrame then
       Inl (UnexpectedPacketKind InputChannel InputFrame (hd_channel_id header) (hd_packet_kind header))
     else if length payload \<noteq> INPUT_PAYLOAD_LEN then
       Inl (InputPayloadLengthMismatch INPUT_PAYLOAD_LEN (length payload))
     else
       let tick = u32_from_le (payload ! 0) (payload ! 1) (payload ! 2) (payload ! 3);
           mh = u16_from_le (payload ! 4) (payload ! 5);
           mv = u16_from_le (payload ! 6) (payload ! 7);
           ah = u16_from_le (payload ! 8) (payload ! 9);
           av = u16_from_le (payload ! 10) (payload ! 11);
           btns = u16_from_le (payload ! 12) (payload ! 13);
           context = u16_from_le (payload ! 14) (payload ! 15) in
       and_then (input_frame_new tick mh mv ah av btns context) (\<lambda>frame. Inr (header, frame)))"

record sequence_tracker =
  newest_seq :: "u32 option"

definition tracker_new :: sequence_tracker where
  "tracker_new = \<lparr>newest_seq = None\<rparr>"

definition observe :: "u32 \<Rightarrow> sequence_tracker \<Rightarrow> (packet_error + unit) \<times> sequence_tracker" where
  "observe sq t =
     (case newest_seq t of
        Some newest \<Rightarrow>
          if sq \<le> newest then (Inl (StaleSequence sq newest), t)
          else (Inr (), t\<lparr>newest_seq := Some sq\<rparr>)
      | None \<Rightarrow> (Inr (), t\<lparr>newest_seq := Some sq\<rparr>))"

section \<open>Properties\<close>

text \<open>
  The header codec is exact: \<open>header_decode\<close> accepts a packet exactly when it is the
  encoding of a header of the current version, whose kind belongs to its channel, in front of
  a payload of the declared length; header and payload are then determined by the packet.
\<close>

lemma header_codec_exact:
  "header_decode packet = Inr (h, payload) \<longleftrightarrow>
     packet = header_encode h payload \<and> hd_version h = PROTOCOL_VERSION \<and>
     kind_on_channel (hd_channel_id h) (hd_packet_kind h) \<and> length payload = unat (hd_payload_len h)"
  by (simp add: header_decode_iff wf_header_def)

text \<open>The frames \<open>input_frame_new\<close> accepts.\<close>

definition wf_frame :: "validated_input_frame \<Rightarrow> bool" where
  "wf_frame f \<longleftrightarrow> buttons f AND NOT ALLOWED_BUTTONS_MASK = 0 \<and>
     (buttons f AND BUTTON_SELF_CAST \<noteq> 0 \<longrightarrow> buttons f AND BUTTON_CAST \<noteq> 0) \<and>
     (buttons f AND BUTTON_CAST \<noteq> 0 \<longleftrightarrow> ability_or_context f \<noteq> 0)"

lemma input_frame_new_iff:
  "input_frame_new tick mh mv ah av btns context = Inr f \<longleftrightarrow> wf_frame f \<and>
     f = \<lparr>client_input_tick = tick, move_horizontal_q = mh, move_vertical_q = mv,
          aim_horizontal_q = ah, aim_vertical_q = av, buttons = btns, ability_or_context = context\<rparr>"
proof -
  let ?g = "\<lparr>client_input_tick = tick, move_horizontal_q = mh, move_vertical_q = mv,
          aim_horizontal_q = ah, aim_vertical_q = av, buttons = btns, ability_or_context = context\<rparr>"
  have "input_frame_new tick mh mv ah av btns context = Inr f \<longleftrightarrow> wf_frame ?g \<and> f = ?g"
    by (auto simp: input_frame_new_def wf_frame_def Let_def)
  then show ?thesis by metis
qed

lemma input_payload_decode:
  assumes "wf_header h payload" "hd_channel_id h = InputChannel" "hd_packet_kind h = InputFrame"
    "payload = u32_to_le (client_input_tick f) @ u16_to_le (move_horizontal_q f) @
        u16_to_le (move_vertical_q f) @ u16_to_le (aim_horizontal_q f) @
        u16_to_le (aim_vertical_q f) @ u16_to_le (buttons f) @ u16_to_le (ability_or_context f)"
    "wf_frame f"
  shows "input_decode_packet (header_encode h payload) = Inr (h, f)"
proof -
  have "input_frame_new (client_input_tick f) (move_horizontal_q f) (move_vertical_q f)
      (aim_horizontal_q f) (aim_vertical_q f) (buttons f) (ability_or_context f) = Inr f"
    using assms(5) by (simp add: input_frame_new_iff)
  then show ?thesis
    using assms(1-3)
    by (simp add: input_decode_packet_def header_decode_encode INPUT_PAYLOAD_LEN_def Let_def)
      (simp add: assms(4) u16_to_le_def u32_to_le_def from_to_le)
qed

text \<open>
  An input frame accepted by the constructor survives the wire: its packet decodes to the
  same frame with the sequence number and tick it was sent with. Conversely whatever the decoder
  accepts has only known buttons, a self-cast only with a cast, and a context exactly with a cast.
\<close>

lemma input_frame_roundtrip:
  assumes "input_frame_new tick mh mv ah av btns context = Inr f"
  shows "\<exists>packet h. input_encode_packet f sq sim_tick = Inr packet \<and> length packet = 32 \<and>
      input_decode_packet packet = Inr (h, f) \<and> hd_seq h = sq \<and> hd_sim_tick h = sim_tick \<and>
      hd_channel_id h = InputChannel"
proof -
  let ?p = "u32_to_le (client_input_tick f) @ u16_to_le (move_horizontal_q f) @
        u16_to_le (move_vertical_q f) @ u16_to_le (aim_horizontal_q f) @
        u16_to_le (aim_vertical_q f) @ u16_to_le (buttons f) @ u16_to_le (ability_or_context f)"
  let ?h = "\<lparr>hd_version = PROTOCOL_VERSION, hd_channel_id = InputChannel, hd_packet_kind = InputFrame,
     hd_flags = 0, hd_payload_len = 16, hd_seq = sq, hd_sim_tick = sim_tick\<rparr>"
  have wf: "wf_frame f" using assms unfolding input_frame_new_iff by (rule conjunct1)
  have "header_new InputChannel InputFrame 0 16 sq sim_tick = Inr ?h" by (simp add: header_new_iff)
  then have "input_encode_packet f sq sim_tick = Inr (header_encode ?h ?p)"
    by (simp add: input_encode_packet_def)
  moreover have "input_decode_packet (header_encode ?h ?p) = Inr (?h, f)"
    using wf by (intro input_payload_decode) (simp_all add: wf_header_def)
  moreover have "length (header_encode ?h ?p) = 32" by (simp add: header_encode_def)
  ultimately show ?thesis by auto
qed

lemma input_frame_roundtrip_example:
  "\<exists>packet h f. input_encode_packet f 7 9 = Inr packet \<and> input_decode_packet packet = Inr (h, f) \<and>
     hd_seq h = 7 \<and> buttons f = 4"
proof -
  let ?f = "\<lparr>client_input_tick = 3, move_horizontal_q = 1, move_vertical_q = 2, aim_horizontal_q = 3,
     aim_vertical_q = 4, buttons = 4, ability_or_context = 1\<rparr>"
  have "input_frame_new 3 1 2 3 4 4 1 = Inr ?f"
    by (simp add: input_frame_new_def ALLOWED_BUTTONS_MASK_def BUTTON_PRIMARY_def BUTTON_SECONDARY_def
        BUTTON_CAST_def BUTTON_CANCEL_def BUTTON_QUIT_TO_LOBBY_def BUTTON_SELF_CAST_def Let_def)
  from input_frame_roundtrip [OF this, of 7 9] show ?thesis by fastforce
qed

text \<open>
  The input decoder is sound on arbitrary bytes: a packet it accepts is a 32-byte input packet
  that carries exactly the frame, and the frame satisfies every check of the constructor.
\<close>

lemma input_decode_sound:
  assumes "input_decode_packet packet = Inr (h, f)"
  shows "length packet = 32 \<and> hd_channel_id h = InputChannel \<and> hd_packet_kind h = InputFrame \<and>
    input_frame_new (client_input_tick f) (move_horizontal_q f) (move_vertical_q f)
      (aim_horizontal_q f) (aim_vertical_q f) (buttons f) (ability_or_context f) = Inr f"
proof -
  obtain payload where p: "header_decode packet = Inr (h, payload)" "length payload = 16"
    "hd_channel_id h = InputChannel" "hd_packet_kind h = InputFrame" "wf_frame f"
    using assms
    by (auto simp: input_decode_packet_def and_then_eq_Inr INPUT_PAYLOAD_LEN_def Let_def
        input_frame_new_iff split: if_splits)
  moreover have "packet = header_encode h payload" using header_encode_decode [OF p(1)] by simp
  ultimately show ?thesis by (simp add: header_encode_def input_frame_new_iff)
qed

lemma input_decode_sound_example:
  "\<exists>packet h f. input_decode_packet packet = Inr (h, f) \<and> length packet = 32"
proof -
  let ?f = "\<lparr>client_input_tick = 3, move_horizontal_q = 1, move_vertical_q = 2, aim_horizontal_q = 3,
     aim_vertical_q = 4, buttons = 0, ability_or_context = 0\<rparr>"
  let ?h = "\<lparr>hd_version = PROTOCOL_VERSION, hd_channel_id = InputChannel, hd_packet_kind = InputFrame,
     hd_flags = 0, hd_payload_len = 16, hd_seq = 1, hd_sim_tick = 1\<rparr>"
  have "input_decode_packet (header_encode ?h (u32_to_le 3 @ u16_to_le 1 @ u16_to_le 2 @ u16_to_le 3 @
      u16_to_le 4 @ u16_to_le 0 @ u16_to_le 0)) = Inr (?h, ?f)"
    by (rule input_payload_decode) (simp_all add: wf_header_def wf_frame_def)
  from input_decode_sound [OF this] this show ?thesis by blast
qed

text \<open>The sequence numbers a run of \<open>observe\<close> accepts.\<close>

primrec observe_all :: "u32 list \<Rightarrow> sequence_tracker \<Rightarrow> u32 list" where
  "observe_all [] t = []"
| "observe_all (s # ss) t =
     (case observe s t of (Inr _, t') \<Rightarrow> s # observe_all ss t' | (Inl _, t') \<Rightarrow> observe_all ss t')"

lemma observe_all_from:
  "observe_all ss t = map ((!) ss) (filter (\<lambda>i. (\<forall>j < i. ss ! j < ss ! i) \<and>
     (\<forall>n. newest_seq t = Some n \<longrightarrow> n < ss ! i)) [0..<length ss])"
proof (induction ss arbitrary: t)
  case (Cons s ss)
  have split: "[0..<length (s # ss)] = 0 # map Suc [0..<length ss]"
    by (simp add: upt_conv_Cons map_Suc_upt del: upt_Suc)
  show ?case
  proof (cases "newest_seq t = None \<or> (\<exists>n. newest_seq t = Some n \<and> n < s)")
    case True
    then have "observe_all (s # ss) t = s # observe_all ss (t\<lparr>newest_seq := Some s\<rparr>)"
      by (auto simp: observe_def)
    moreover have "(s < ss ! i \<and> (\<forall>j < i. ss ! j < ss ! i)) \<and> (\<forall>n. newest_seq t = Some n \<longrightarrow> n < ss ! i) \<longleftrightarrow>
        (\<forall>j < i. ss ! j < ss ! i) \<and> s < ss ! i" for i
      using True by (auto intro: less_trans)
    moreover have "\<forall>n. newest_seq t = Some n \<longrightarrow> n < s" using True by auto
    ultimately show ?thesis unfolding split Cons.IH
      by (simp add: filter_map o_def All_less_Suc2 del: imp_conjL)
  next
    case False
    then obtain n where n: "newest_seq t = Some n" "s \<le> n" by (cases "newest_seq t") auto
    then have "observe_all (s # ss) t = observe_all ss t" by (simp add: observe_def)
    moreover have "(\<forall>j < Suc i. (s # ss) ! j < ss ! i) \<and> n < ss ! i \<longleftrightarrow>
        (\<forall>j < i. ss ! j < ss ! i) \<and> n < ss ! i" for i
      using n(2) by (auto simp: All_less_Suc2 dest: le_less_trans)
    ultimately show ?thesis unfolding split Cons.IH
      using n by (simp add: filter_map o_def)
  qed
qed simp

text \<open>
  The sequence tracker accepts exactly the running maxima: of the sequence numbers that
  arrive, in order, those that are greater than every one before. So the accepted numbers are
  strictly increasing, nothing is accepted twice, and a late packet is never accepted.
\<close>

lemma tracker_running_maxima:
  "observe_all ss tracker_new =
     map ((!) ss) (filter (\<lambda>i. \<forall>j < i. ss ! j < ss ! i) [0..<length ss]) \<and>
   sorted_wrt (<) (observe_all ss tracker_new)"
proof -
  have eq: "observe_all ss tracker_new =
     map ((!) ss) (filter (\<lambda>i. \<forall>j < i. ss ! j < ss ! i) [0..<length ss])"
    by (simp add: observe_all_from tracker_new_def)
  have "sorted_wrt (<) (filter (\<lambda>i. \<forall>j < i. ss ! j < ss ! i) [0..<length ss])"
    by (intro sorted_wrt_filter) simp
  then have "sorted_wrt (\<lambda>i k. ss ! i < ss ! k) (filter (\<lambda>i. \<forall>j < i. ss ! j < ss ! i) [0..<length ss])"
    by (rule sorted_wrt_mono_rel [rotated]) auto
  then show ?thesis unfolding eq by (simp add: sorted_wrt_map)
qed

lemma tracker_running_maxima_example:
  "sorted_wrt (<) (observe_all [3, 1, 5, 5, 9] tracker_new) \<and>
   observe_all [3, 1, 5, 5, 9] tracker_new = [3, 5, 9]"
  using tracker_running_maxima [of "[3, 1, 5, 5, 9]"] by (simp add: observe_def tracker_new_def)

end
