(* ===== verification/Snapshot_Codec.thy ===== *)
theory Snapshot_Codec
  imports Control_Codec
begin

text \<open>
  The structured values of the server events (\<open>snapshots_encode.rs\<close>, \<open>snapshots_decode.rs\<close>
  and the record and catalog readers of \<open>codec.rs\<close>): player records, skill catalog, lobby
  snapshots, arena snapshots, effects and combat texts. Each writer and reader pair is an
  interpretation of \<open>codec\<close>; the reads are in the order of the code.
\<close>

section \<open>Player records\<close>

definition w_pick :: "rstring \<times> u16 \<Rightarrow> writer" where
  "w_pick = (\<lambda>(skill_id, count).
     w_seq [push_len_prefixed_string ''skill_id'' skill_id MAX_SKILL_ID_BYTES, w_u16 count])"

definition rd_pick :: "string \<Rightarrow> (rstring \<times> u16) reader" where
  "rd_pick kind =
     rd_bind (read_string kind ''skill_id'' MAX_SKILL_ID_BYTES) (\<lambda>skill_id.
     rd_bind (read_u16 kind) (\<lambda>count. rd_return (skill_id, count)))"

text \<open>\<open>u16::try_from(len).unwrap_or(u16::MAX)\<close>, and only that many entries.\<close>

definition encode_player_record :: "player_record \<Rightarrow> writer" where
  "encode_player_record r =
     (let n = (if length (skill_pick_counts r) \<le> U16_MAX then of_nat (length (skill_pick_counts r))
               else of_nat U16_MAX) in
      w_seq ([w_u16 (wins r), w_u16 (losses r), w_u16 (no_contests r), w_u16 (round_wins r),
        w_u16 (round_losses r), w_u32 (total_damage_done r), w_u32 (total_healing_done r),
        w_u32 (total_combat_ms r), w_u16 (cc_used r), w_u16 (cc_hits r), w_u16 n] @
        map w_pick (take (unat n) (skill_pick_counts r))))"

text \<open>The loop inserts the pairs it reads into a \<open>BTreeMap\<close>.\<close>

definition collect_picks :: "(rstring \<times> u16) list \<Rightarrow> (rstring, u16) btree_map" where
  "collect_picks picks = fold (\<lambda>(skill_id, count) m. bt_insert skill_id count m) picks []"

definition read_player_record :: "string \<Rightarrow> player_record reader" where
  "read_player_record kind =
     rd_bind (read_u16 kind) (\<lambda>wins'.
     rd_bind (read_u16 kind) (\<lambda>losses'.
     rd_bind (read_u16 kind) (\<lambda>no_contests'.
     rd_bind (read_u16 kind) (\<lambda>round_wins'.
     rd_bind (read_u16 kind) (\<lambda>round_losses'.
     rd_bind (read_u32 kind) (\<lambda>damage.
     rd_bind (read_u32 kind) (\<lambda>healing.
     rd_bind (read_u32 kind) (\<lambda>combat_ms.
     rd_bind (read_u16 kind) (\<lambda>used.
     rd_bind (read_u16 kind) (\<lambda>hits.
     rd_bind (read_u16 kind) (\<lambda>n.
     rd_bind (read_many (unat n) (rd_pick kind)) (\<lambda>picks.
     rd_return \<lparr>wins = wins', losses = losses', no_contests = no_contests',
       round_wins = round_wins', round_losses = round_losses', total_damage_done = damage,
       total_healing_done = healing, total_combat_ms = combat_ms, cc_used = used,
       cc_hits = hits, skill_pick_counts = collect_picks picks\<rparr>))))))))))))"

section \<open>Entries\<close>

definition w_catalog_entry :: "skill_catalog_entry \<Rightarrow> writer" where
  "w_catalog_entry e =
     w_seq
       [push_len_prefixed_string ''skill_tree'' (skill_tree_as_str (sce_tree e)) MAX_SKILL_TREE_NAME_BYTES,
        w_u8 (sce_tier e),
        push_len_prefixed_string ''skill_id'' (sce_skill_id e) MAX_SKILL_ID_BYTES,
        push_len_prefixed_string ''skill_name'' (sce_skill_name e) MAX_SKILL_NAME_BYTES,
        push_len_prefixed_string ''skill_description'' (sce_skill_description e) MAX_SKILL_DESCRIPTION_BYTES,
        push_len_prefixed_string ''skill_summary'' (sce_skill_summary e) MAX_SKILL_SUMMARY_BYTES,
        push_len_prefixed_string ''ui_category'' (sce_ui_category e) MAX_SKILL_UI_CATEGORY_BYTES,
        push_len_prefixed_string ''audio_cue_id'' (sce_audio_cue_id e) MAX_SKILL_AUDIO_CUE_BYTES]"

definition rd_catalog_entry :: "string \<Rightarrow> skill_catalog_entry reader" where
  "rd_catalog_entry kind =
     rd_bind (read_skill_tree kind) (\<lambda>t.
     rd_bind (read_u8 kind) (\<lambda>n.
     rd_bind (read_string kind ''skill_id'' MAX_SKILL_ID_BYTES) (\<lambda>ident.
     rd_bind (read_string kind ''skill_name'' MAX_SKILL_NAME_BYTES) (\<lambda>name.
     rd_bind (read_string kind ''skill_description'' MAX_SKILL_DESCRIPTION_BYTES) (\<lambda>description.
     rd_bind (read_string kind ''skill_summary'' MAX_SKILL_SUMMARY_BYTES) (\<lambda>summary.
     rd_bind (read_string kind ''ui_category'' MAX_SKILL_UI_CATEGORY_BYTES) (\<lambda>category.
     rd_bind (read_string kind ''audio_cue_id'' MAX_SKILL_AUDIO_CUE_BYTES) (\<lambda>cue.
     rd_return \<lparr>sce_tree = t,
          sce_tier = n,
          sce_skill_id = ident,
          sce_skill_name = name,
          sce_skill_description = description,
          sce_skill_summary = summary,
          sce_ui_category = category,
          sce_audio_cue_id = cue\<rparr>))))))))"

definition w_directory_entry :: "lobby_directory_entry \<Rightarrow> writer" where
  "w_directory_entry e =
     w_seq
       [w_u32 (lobby_id_get (lde_lobby_id e)),
        w_u16 (lde_player_count e),
        w_u16 (lde_team_a_count e),
        w_u16 (lde_team_b_count e),
        w_u16 (lde_ready_count e),
        encode_lobby_snapshot_phase (lde_phase e)]"

definition rd_directory_entry :: "string \<Rightarrow> lobby_directory_entry reader" where
  "rd_directory_entry kind =
     rd_bind (read_lobby_id kind) (\<lambda>lid.
     rd_bind (read_u16 kind) (\<lambda>n.
     rd_bind (read_u16 kind) (\<lambda>a.
     rd_bind (read_u16 kind) (\<lambda>b.
     rd_bind (read_u16 kind) (\<lambda>r.
     rd_bind (read_lobby_snapshot_phase kind) (\<lambda>phase.
     rd_return \<lparr>lde_lobby_id = lid,
          lde_player_count = n,
          lde_team_a_count = a,
          lde_team_b_count = b,
          lde_ready_count = r,
          lde_phase = phase\<rparr>))))))"

definition w_snapshot_player :: "lobby_snapshot_player \<Rightarrow> writer" where
  "w_snapshot_player p =
     w_seq
       [w_u32 (player_id_get (lsp_player_id p)),
        push_len_prefixed_string ''player_name'' (player_name_as_str (lsp_player_name p)) MAX_PLAYER_NAME_LEN,
        encode_player_record (lsp_record p),
        w_u8 (encode_optional_team (lsp_team p)),
        w_u8 (encode_ready_state (lsp_ready p))]"

definition rd_snapshot_player :: "string \<Rightarrow> lobby_snapshot_player reader" where
  "rd_snapshot_player kind =
     rd_bind (read_player_id kind) (\<lambda>pid.
     rd_bind (read_player_name kind) (\<lambda>name.
     rd_bind (read_player_record kind) (\<lambda>rec.
     rd_bind (read_optional_team kind) (\<lambda>team.
     rd_bind (read_ready_state kind) (\<lambda>ready.
     rd_return \<lparr>lsp_player_id = pid,
          lsp_player_name = name,
          lsp_record = rec,
          lsp_team = team,
          lsp_ready = ready\<rparr>)))))"

definition w_obstacle :: "arena_obstacle_snapshot \<Rightarrow> writer" where
  "w_obstacle ob =
     w_seq
       [w_u8 (encode_arena_obstacle_kind (aos_kind ob)),
        w_u16 (aos_center_x ob),
        w_u16 (aos_center_y ob),
        w_u16 (aos_half_width ob),
        w_u16 (aos_half_height ob)]"

definition rd_obstacle :: "string \<Rightarrow> arena_obstacle_snapshot reader" where
  "rd_obstacle kind =
     rd_bind (read_arena_obstacle_kind kind) (\<lambda>k.
     rd_bind (read_i16 kind) (\<lambda>x.
     rd_bind (read_i16 kind) (\<lambda>y.
     rd_bind (read_u16 kind) (\<lambda>w.
     rd_bind (read_u16 kind) (\<lambda>h.
     rd_return \<lparr>aos_kind = k,
          aos_center_x = x,
          aos_center_y = y,
          aos_half_width = w,
          aos_half_height = h\<rparr>)))))"

definition w_deployable :: "arena_deployable_snapshot \<Rightarrow> writer" where
  "w_deployable d =
     w_seq
       [w_u32 (ads_id d),
        w_u32 (player_id_get (ads_owner d)),
        w_u8 (encode_team (ads_team d)),
        w_u8 (encode_arena_deployable_kind (ads_kind d)),
        w_u16 (ads_x d),
        w_u16 (ads_y d),
        w_u16 (ads_radius d),
        w_u16 (ads_hit_points d),
        w_u16 (ads_max_hit_points d),
        w_u16 (ads_remaining_ms d)]"

definition rd_deployable :: "string \<Rightarrow> arena_deployable_snapshot reader" where
  "rd_deployable kind =
     rd_bind (read_u32 kind) (\<lambda>ident.
     rd_bind (read_player_id kind) (\<lambda>owner.
     rd_bind (read_team kind) (\<lambda>team.
     rd_bind (read_arena_deployable_kind kind) (\<lambda>k.
     rd_bind (read_i16 kind) (\<lambda>x.
     rd_bind (read_i16 kind) (\<lambda>y.
     rd_bind (read_u16 kind) (\<lambda>radius.
     rd_bind (read_u16 kind) (\<lambda>hp.
     rd_bind (read_u16 kind) (\<lambda>max_hp.
     rd_bind (read_u16 kind) (\<lambda>remaining.
     rd_return \<lparr>ads_id = ident,
          ads_owner = owner,
          ads_team = team,
          ads_kind = k,
          ads_x = x,
          ads_y = y,
          ads_radius = radius,
          ads_hit_points = hp,
          ads_max_hit_points = max_hp,
          ads_remaining_ms = remaining\<rparr>))))))))))"

definition w_status :: "arena_status_snapshot \<Rightarrow> writer" where
  "w_status s =
     w_seq
       [w_u32 (player_id_get (ass_source s)),
        w_u8 (ass_slot s),
        w_u8 (encode_arena_status_kind (ass_kind s)),
        w_u8 (ass_stacks s),
        w_u16 (ass_remaining_ms s)]"

definition rd_status :: "string \<Rightarrow> arena_status_snapshot reader" where
  "rd_status kind =
     rd_bind (read_player_id kind) (\<lambda>source.
     rd_bind (read_u8 kind) (\<lambda>slot.
     rd_bind (read_arena_status_kind kind) (\<lambda>k.
     rd_bind (read_u8 kind) (\<lambda>stacks.
     rd_bind (read_u16 kind) (\<lambda>remaining.
     rd_return \<lparr>ass_source = source,
          ass_slot = slot,
          ass_kind = k,
          ass_stacks = stacks,
          ass_remaining_ms = remaining\<rparr>)))))"

definition w_projectile :: "arena_projectile_snapshot \<Rightarrow> writer" where
  "w_projectile p =
     w_seq
       [w_u32 (player_id_get (aprs_owner p)),
        w_u8 (aprs_slot p),
        w_u8 (encode_arena_effect_kind (aprs_kind p)),
        w_u16 (aprs_x p),
        w_u16 (aprs_y p),
        w_u16 (aprs_radius p)]"

definition rd_projectile :: "string \<Rightarrow> arena_projectile_snapshot reader" where
  "rd_projectile kind =
     rd_bind (read_player_id kind) (\<lambda>owner.
     rd_bind (read_u8 kind) (\<lambda>slot.
     rd_bind (read_arena_effect_kind kind) (\<lambda>k.
     rd_bind (read_i16 kind) (\<lambda>x.
     rd_bind (read_i16 kind) (\<lambda>y.
     rd_bind (read_u16 kind) (\<lambda>radius.
     rd_return \<lparr>aprs_owner = owner,
          aprs_slot = slot,
          aprs_kind = k,
          aprs_x = x,
          aprs_y = y,
          aprs_radius = radius\<rparr>))))))"

definition w_effect :: "arena_effect_snapshot \<Rightarrow> writer" where
  "w_effect e =
     w_seq
       [w_u8 (encode_arena_effect_kind (aes_kind e)),
        w_u32 (player_id_get (aes_owner e)),
        w_u8 (aes_slot e),
        w_u16 (aes_x e),
        w_u16 (aes_y e),
        w_u16 (aes_target_x e),
        w_u16 (aes_target_y e),
        w_u16 (aes_radius e),
        push_len_prefixed_string ''audio_cue_id'' (aes_audio_cue_id e) MAX_SKILL_AUDIO_CUE_BYTES]"

definition rd_effect :: "string \<Rightarrow> arena_effect_snapshot reader" where
  "rd_effect kind =
     rd_bind (read_arena_effect_kind kind) (\<lambda>k.
     rd_bind (read_player_id kind) (\<lambda>owner.
     rd_bind (read_u8 kind) (\<lambda>slot.
     rd_bind (read_i16 kind) (\<lambda>x.
     rd_bind (read_i16 kind) (\<lambda>y.
     rd_bind (read_i16 kind) (\<lambda>tx.
     rd_bind (read_i16 kind) (\<lambda>ty.
     rd_bind (read_u16 kind) (\<lambda>radius.
     rd_bind (read_string kind ''audio_cue_id'' MAX_SKILL_AUDIO_CUE_BYTES) (\<lambda>cue.
     rd_return \<lparr>aes_kind = k,
          aes_owner = owner,
          aes_slot = slot,
          aes_x = x,
          aes_y = y,
          aes_target_x = tx,
          aes_target_y = ty,
          aes_radius = radius,
          aes_audio_cue_id = cue\<rparr>)))))))))"

definition w_combat_text :: "arena_combat_text_entry \<Rightarrow> writer" where
  "w_combat_text e =
     w_seq
       [w_u16 (act_x e),
        w_u16 (act_y e),
        w_u8 (encode_arena_combat_text_style (act_style e)),
        push_len_prefixed_string ''text'' (act_text e) MAX_MESSAGE_BYTES]"

definition rd_combat_text :: "string \<Rightarrow> arena_combat_text_entry reader" where
  "rd_combat_text kind =
     rd_bind (read_i16 kind) (\<lambda>x.
     rd_bind (read_i16 kind) (\<lambda>y.
     rd_bind (read_arena_combat_text_style kind) (\<lambda>style.
     rd_bind (read_string kind ''text'' MAX_MESSAGE_BYTES) (\<lambda>txt.
     rd_return \<lparr>act_x = x,
          act_y = y,
          act_style = style,
          act_text = txt\<rparr>))))"

definition w_summary_line :: "combat_summary_line \<Rightarrow> writer" where
  "w_summary_line l =
     w_seq
       [w_u32 (player_id_get (csl_player_id l)),
        push_len_prefixed_string ''player_name'' (player_name_as_str (csl_player_name l)) MAX_PLAYER_NAME_LEN,
        w_u8 (encode_team (csl_team l)),
        w_u32 (csl_damage_done l),
        w_u32 (csl_healing_to_allies l),
        w_u32 (csl_healing_to_enemies l),
        w_u16 (csl_cc_used l),
        w_u16 (csl_cc_hits l)]"

definition rd_summary_line :: "string \<Rightarrow> combat_summary_line reader" where
  "rd_summary_line kind =
     rd_bind (read_player_id kind) (\<lambda>pid.
     rd_bind (read_player_name kind) (\<lambda>name.
     rd_bind (read_team kind) (\<lambda>team.
     rd_bind (read_u32 kind) (\<lambda>damage.
     rd_bind (read_u32 kind) (\<lambda>allies.
     rd_bind (read_u32 kind) (\<lambda>enemies.
     rd_bind (read_u16 kind) (\<lambda>used.
     rd_bind (read_u16 kind) (\<lambda>hits.
     rd_return \<lparr>csl_player_id = pid,
          csl_player_name = name,
          csl_team = team,
          csl_damage_done = damage,
          csl_healing_to_allies = allies,
          csl_healing_to_enemies = enemies,
          csl_cc_used = used,
          csl_cc_hits = hits\<rparr>))))))))"

section \<open>Arena players\<close>

definition w_tree_option :: "skill_tree option \<Rightarrow> writer" where
  "w_tree_option v = (case v of
      Some t \<Rightarrow> w_seq [w_u8 1, push_len_prefixed_string ''skill_tree'' (skill_tree_as_str t) MAX_SKILL_TREE_NAME_BYTES]
    | None \<Rightarrow> w_u8 0)"

definition rd_tree_option :: "string \<Rightarrow> skill_tree option reader" where
  "rd_tree_option kind =
     rd_bind (read_bool kind) (\<lambda>some.
     if some then rd_bind (read_skill_tree kind) (\<lambda>t. rd_return (Some t)) else rd_return None)"

text \<open>The arrays of five are lists of length five, written and read by a loop.\<close>

definition w_cooldown_array :: "u16 list \<Rightarrow> writer" where
  "w_cooldown_array xs = w_seq (map w_u16 xs)"

definition decode_cooldown_array :: "string \<Rightarrow> u16 list reader" where
  "decode_cooldown_array kind = read_many 5 (read_u16 kind)"

definition w_equipped_skill_trees :: "skill_tree option list \<Rightarrow> writer" where
  "w_equipped_skill_trees xs = w_seq (map w_tree_option xs)"

definition decode_equipped_skill_trees :: "string \<Rightarrow> skill_tree option list reader" where
  "decode_equipped_skill_trees kind = read_many 5 (rd_tree_option kind)"

definition w_active_statuses :: "arena_status_snapshot list \<Rightarrow> writer" where
  "w_active_statuses xs = w_seq (w_count_u8 (length xs) # map w_status xs)"

definition decode_active_statuses :: "string \<Rightarrow> arena_status_snapshot list reader" where
  "decode_active_statuses kind =
     rd_bind (read_u8 kind) (\<lambda>n. read_many (unat n) (rd_status kind))"

definition encode_arena_player :: "arena_player_snapshot \<Rightarrow> writer" where
  "encode_arena_player p =
     w_seq
       [w_u32 (player_id_get (aps_player_id p)),
        push_len_prefixed_string ''player_name'' (player_name_as_str (aps_player_name p)) MAX_PLAYER_NAME_LEN,
        w_u8 (encode_team (aps_team p)),
        w_u16 (aps_x p), w_u16 (aps_y p), w_u16 (aps_aim_x p), w_u16 (aps_aim_y p),
        w_u16 (aps_hit_points p), w_u16 (aps_max_hit_points p), w_u16 (aps_mana p),
        w_u16 (aps_max_mana p), w_bool (aps_alive p), w_u8 (aps_unlocked_skill_slots p),
        w_u16 (aps_primary_cooldown_remaining_ms p), w_u16 (aps_primary_cooldown_total_ms p),
        w_cooldown_array (aps_slot_cooldown_remaining_ms p),
        w_cooldown_array (aps_slot_cooldown_total_ms p),
        w_equipped_skill_trees (aps_equipped_skill_trees p),
        encode_optional_u8 (aps_current_cast_slot p),
        w_u16 (aps_current_cast_remaining_ms p), w_u16 (aps_current_cast_total_ms p),
        w_active_statuses (aps_active_statuses p)]"

text \<open>The identity, position and resources the code reads in three helpers come first.\<close>

definition decode_arena_player :: "string \<Rightarrow> arena_player_snapshot reader" where
  "decode_arena_player kind =
     rd_bind (read_player_id kind) (\<lambda>pid.
     rd_bind (read_player_name kind) (\<lambda>name.
     rd_bind (read_team kind) (\<lambda>team.
     rd_bind (read_i16 kind) (\<lambda>x.
     rd_bind (read_i16 kind) (\<lambda>y.
     rd_bind (read_i16 kind) (\<lambda>ax.
     rd_bind (read_i16 kind) (\<lambda>ay.
     rd_bind (read_u16 kind) (\<lambda>hp.
     rd_bind (read_u16 kind) (\<lambda>max_hp.
     rd_bind (read_u16 kind) (\<lambda>mana.
     rd_bind (read_u16 kind) (\<lambda>max_mana.
     rd_bind (read_bool kind) (\<lambda>living.
     rd_bind (read_u8 kind) (\<lambda>slots.
     rd_bind (read_u16 kind) (\<lambda>primary_remaining.
     rd_bind (read_u16 kind) (\<lambda>primary_total.
     rd_bind (decode_cooldown_array kind) (\<lambda>slot_remaining.
     rd_bind (decode_cooldown_array kind) (\<lambda>slot_total.
     rd_bind (decode_equipped_skill_trees kind) (\<lambda>trees.
     rd_bind (read_optional_u8 kind) (\<lambda>cast_slot.
     rd_bind (read_u16 kind) (\<lambda>cast_remaining.
     rd_bind (read_u16 kind) (\<lambda>cast_total.
     rd_bind (decode_active_statuses kind) (\<lambda>statuses.
     rd_return \<lparr>aps_player_id = pid, aps_player_name = name, aps_team = team, aps_x = x, aps_y = y,
       aps_aim_x = ax, aps_aim_y = ay, aps_hit_points = hp, aps_max_hit_points = max_hp,
       aps_mana = mana, aps_max_mana = max_mana, aps_alive = living,
       aps_unlocked_skill_slots = slots, aps_primary_cooldown_remaining_ms = primary_remaining,
       aps_primary_cooldown_total_ms = primary_total,
       aps_slot_cooldown_remaining_ms = slot_remaining, aps_slot_cooldown_total_ms = slot_total,
       aps_equipped_skill_trees = trees, aps_current_cast_slot = cast_slot,
       aps_current_cast_remaining_ms = cast_remaining, aps_current_cast_total_ms = cast_total,
       aps_active_statuses = statuses\<rparr>))))))))))))))))))))))"

section \<open>Snapshots\<close>

definition encode_training_metrics :: "training_metrics_snapshot option \<Rightarrow> writer" where
  "encode_training_metrics v = (case v of
      Some m \<Rightarrow> w_seq [w_u8 1, w_u32 (tms_damage_done m), w_u32 (tms_healing_done m), w_u32 (tms_elapsed_ms m)]
    | None \<Rightarrow> w_u8 0)"

definition decode_training_metrics :: "string \<Rightarrow> training_metrics_snapshot option reader" where
  "decode_training_metrics kind =
     rd_bind (read_bool kind) (\<lambda>some.
     if \<not> some then rd_return None
     else
       rd_bind (read_u32 kind) (\<lambda>damage.
       rd_bind (read_u32 kind) (\<lambda>healing.
       rd_bind (read_u32 kind) (\<lambda>elapsed.
       rd_return (Some \<lparr>tms_damage_done = damage, tms_healing_done = healing,
         tms_elapsed_ms = elapsed\<rparr>)))))"

definition encode_skill_catalog :: "skill_catalog_entry list \<Rightarrow> writer" where
  "encode_skill_catalog = w_list w_catalog_entry"

definition decode_skill_catalog :: "string \<Rightarrow> skill_catalog_entry list reader" where
  "decode_skill_catalog kind = rd_list kind (rd_catalog_entry kind)"

definition encode_arena_obstacles :: "arena_obstacle_snapshot list \<Rightarrow> writer" where
  "encode_arena_obstacles = w_list w_obstacle"

definition decode_arena_obstacles :: "string \<Rightarrow> arena_obstacle_snapshot list reader" where
  "decode_arena_obstacles kind = rd_list kind (rd_obstacle kind)"

definition encode_arena_deployables :: "arena_deployable_snapshot list \<Rightarrow> writer" where
  "encode_arena_deployables = w_list w_deployable"

definition decode_arena_deployables :: "string \<Rightarrow> arena_deployable_snapshot list reader" where
  "decode_arena_deployables kind = rd_list kind (rd_deployable kind)"

definition encode_arena_players :: "arena_player_snapshot list \<Rightarrow> writer" where
  "encode_arena_players = w_list encode_arena_player"

definition decode_arena_players :: "string \<Rightarrow> arena_player_snapshot list reader" where
  "decode_arena_players kind = rd_list kind (decode_arena_player kind)"

definition encode_arena_projectiles :: "arena_projectile_snapshot list \<Rightarrow> writer" where
  "encode_arena_projectiles = w_list w_projectile"

definition decode_arena_projectiles :: "string \<Rightarrow> arena_projectile_snapshot list reader" where
  "decode_arena_projectiles kind = rd_list kind (rd_projectile kind)"

definition encode_summary_lines :: "combat_summary_line list \<Rightarrow> writer" where
  "encode_summary_lines = w_list w_summary_line"

definition decode_summary_lines :: "string \<Rightarrow> combat_summary_line list reader" where
  "decode_summary_lines kind = rd_list kind (rd_summary_line kind)"

definition encode_arena_state_snapshot :: "arena_state_snapshot \<Rightarrow> writer" where
  "encode_arena_state_snapshot s =
     w_seq
       [w_u8 (encode_arena_session_mode (st_mode s)),
        w_u8 (encode_arena_match_phase (st_phase s)),
        encode_optional_u8 (st_phase_seconds_remaining s),
        w_u16 (st_width s),
        w_u16 (st_height s),
        w_u16 (st_tile_units s),
        encode_bytes ''footprint_tiles'' (st_footprint_tiles s),
        encode_bytes ''objective_tiles'' (st_objective_tiles s),
        encode_bytes ''visible_tiles'' (st_visible_tiles s),
        encode_bytes ''explored_tiles'' (st_explored_tiles s),
        w_u32 (st_objective_target_ms s),
        w_u32 (st_objective_team_a_ms s),
        w_u32 (st_objective_team_b_ms s),
        encode_arena_obstacles (st_obstacles s),
        encode_arena_deployables (st_deployables s),
        encode_arena_players (st_players s),
        encode_arena_projectiles (st_projectiles s),
        encode_training_metrics (st_training_metrics s)]"

definition decode_arena_state_snapshot :: "server_control_event reader" where
  "decode_arena_state_snapshot =
     (let kind = ''ArenaStateSnapshot'' in
     rd_bind (read_arena_session_mode kind) (\<lambda>mode.
     rd_bind (read_arena_match_phase kind) (\<lambda>phase.
     rd_bind (read_optional_u8 kind) (\<lambda>seconds.
     rd_bind (read_u16 kind) (\<lambda>width.
     rd_bind (read_u16 kind) (\<lambda>height.
     rd_bind (read_u16 kind) (\<lambda>units.
     rd_bind (decode_bytes kind ''footprint_tiles'') (\<lambda>footprint.
     rd_bind (decode_bytes kind ''objective_tiles'') (\<lambda>objective.
     rd_bind (decode_bytes kind ''visible_tiles'') (\<lambda>visible.
     rd_bind (decode_bytes kind ''explored_tiles'') (\<lambda>explored.
     rd_bind (read_u32 kind) (\<lambda>target.
     rd_bind (read_u32 kind) (\<lambda>team_a_ms.
     rd_bind (read_u32 kind) (\<lambda>team_b_ms.
     rd_bind (decode_arena_obstacles kind) (\<lambda>obstacles.
     rd_bind (decode_arena_deployables kind) (\<lambda>deployables.
     rd_bind (decode_arena_players kind) (\<lambda>players.
     rd_bind (decode_arena_projectiles kind) (\<lambda>projectiles.
     rd_bind (decode_training_metrics kind) (\<lambda>metrics.
     rd_return (ArenaStateSnapshot \<lparr>st_mode = mode,
          st_phase = phase,
          st_phase_seconds_remaining = seconds,
          st_width = width,
          st_height = height,
          st_tile_units = units,
          st_footprint_tiles = footprint,
          st_objective_tiles = objective,
          st_visible_tiles = visible,
          st_explored_tiles = explored,
          st_objective_target_ms = target,
          st_objective_team_a_ms = team_a_ms,
          st_objective_team_b_ms = team_b_ms,
          st_obstacles = obstacles,
          st_deployables = deployables,
          st_players = players,
          st_projectiles = projectiles,
          st_training_metrics = metrics\<rparr>))))))))))))))))))))"

definition encode_arena_delta_snapshot :: "arena_delta_snapshot \<Rightarrow> writer" where
  "encode_arena_delta_snapshot s =
     w_seq
       [w_u8 (encode_arena_session_mode (dl_mode s)),
        w_u8 (encode_arena_match_phase (dl_phase s)),
        encode_optional_u8 (dl_phase_seconds_remaining s),
        w_u16 (dl_tile_units s),
        encode_bytes ''footprint_tiles'' (dl_footprint_tiles s),
        encode_bytes ''objective_tiles'' (dl_objective_tiles s),
        encode_bytes ''visible_tiles'' (dl_visible_tiles s),
        encode_bytes ''explored_tiles'' (dl_explored_tiles s),
        w_u32 (dl_objective_target_ms s),
        w_u32 (dl_objective_team_a_ms s),
        w_u32 (dl_objective_team_b_ms s),
        encode_arena_obstacles (dl_obstacles s),
        encode_arena_deployables (dl_deployables s),
        encode_arena_players (dl_players s),
        encode_arena_projectiles (dl_projectiles s),
        encode_training_metrics (dl_training_metrics s)]"

definition decode_arena_delta_snapshot :: "server_control_event reader" where
  "decode_arena_delta_snapshot =
     (let kind = ''ArenaDeltaSnapshot'' in
     rd_bind (read_arena_session_mode kind) (\<lambda>mode.
     rd_bind (read_arena_match_phase kind) (\<lambda>phase.
     rd_bind (read_optional_u8 kind) (\<lambda>seconds.
     rd_bind (read_u16 kind) (\<lambda>units.
     rd_bind (decode_bytes kind ''footprint_tiles'') (\<lambda>footprint.
     rd_bind (decode_bytes kind ''objective_tiles'') (\<lambda>objective.
     rd_bind (decode_bytes kind ''visible_tiles'') (\<lambda>visible.
     rd_bind (decode_bytes kind ''explored_tiles'') (\<lambda>explored.
     rd_bind (read_u32 kind) (\<lambda>target.
     rd_bind (read_u32 kind) (\<lambda>team_a_ms.
     rd_bind (read_u32 kind) (\<lambda>team_b_ms.
     rd_bind (decode_arena_obstacles kind) (\<lambda>obstacles.
     rd_bind (decode_arena_deployables kind) (\<lambda>deployables.
     rd_bind (decode_arena_players kind) (\<lambda>players.
     rd_bind (decode_arena_projectiles kind) (\<lambda>projectiles.
     rd_bind (decode_training_metrics kind) (\<lambda>metrics.
     rd_return (ArenaDeltaSnapshot \<lparr>dl_mode = mode,
          dl_phase = phase,
          dl_phase_seconds_remaining = seconds,
          dl_tile_units = units,
          dl_footprint_tiles = footprint,
          dl_objective_tiles = objective,
          dl_visible_tiles = visible,
          dl_explored_tiles = explored,
          dl_objective_target_ms = target,
          dl_objective_team_a_ms = team_a_ms,
          dl_objective_team_b_ms = team_b_ms,
          dl_obstacles = obstacles,
          dl_deployables = deployables,
          dl_players = players,
          dl_projectiles = projectiles,
          dl_training_metrics = metrics\<rparr>))))))))))))))))))"

definition encode_lobby_directory_snapshot :: "lobby_directory_entry list \<Rightarrow> writer" where
  "encode_lobby_directory_snapshot = w_list w_directory_entry"

definition decode_lobby_directory_snapshot :: "server_control_event reader" where
  "decode_lobby_directory_snapshot =
     (let kind = ''LobbyDirectorySnapshot'' in
     rd_bind (rd_list kind (rd_directory_entry kind)) (\<lambda>lobbies.
     rd_return (LobbyDirectorySnapshot lobbies)))"

definition encode_game_lobby_snapshot ::
  "lobby_id \<Rightarrow> lobby_snapshot_phase \<Rightarrow> lobby_snapshot_player list \<Rightarrow> writer" where
  "encode_game_lobby_snapshot lid phase players =
     w_seq [w_u32 (lobby_id_get lid), encode_lobby_snapshot_phase phase, w_list w_snapshot_player players]"

definition decode_game_lobby_snapshot :: "server_control_event reader" where
  "decode_game_lobby_snapshot =
     (let kind = ''GameLobbySnapshot'' in
     rd_bind (read_lobby_id kind) (\<lambda>lid.
     rd_bind (read_lobby_snapshot_phase kind) (\<lambda>phase.
     rd_bind (rd_list kind (rd_snapshot_player kind)) (\<lambda>players.
     rd_return (GameLobbySnapshot lid phase players)))))"

definition encode_arena_effect_batch :: "arena_effect_snapshot list \<Rightarrow> writer" where
  "encode_arena_effect_batch = w_list w_effect"

definition decode_arena_effect_batch :: "server_control_event reader" where
  "decode_arena_effect_batch =
     (let kind = ''ArenaEffectBatch'' in
     rd_bind (rd_list kind (rd_effect kind)) (\<lambda>effects. rd_return (ArenaEffectBatch effects)))"

definition encode_arena_combat_text_batch :: "arena_combat_text_entry list \<Rightarrow> writer" where
  "encode_arena_combat_text_batch = w_list w_combat_text"

definition decode_arena_combat_text_batch :: "server_control_event reader" where
  "decode_arena_combat_text_batch =
     (let kind = ''ArenaCombatTextBatch'' in
     rd_bind (rd_list kind (rd_combat_text kind)) (\<lambda>entries. rd_return (ArenaCombatTextBatch entries)))"

section \<open>Player records read back\<close>

lemma w_pick_rt: "wf_text (fst v) \<Longrightarrow> inverts (w_pick v) (rd_pick kind) v"
  unfolding w_pick_def rd_pick_def
  by (cases v, simp only: prod.case fst_conv) (rule rt refl | simp)+

lemma rd_pick_ok: "reader_ok (rd_pick kind) (\<lambda>v. wf_text (fst v))"
  unfolding rd_pick_def by (rule rd_ok | simp)+

interpretation pick: codec w_pick "rd_pick kind" "\<lambda>v. wf_text (fst v)" for kind
  by unfold_locales (rule w_pick_rt rd_pick_ok, assumption?)+

text \<open>Inserting the pairs of a sorted map in order gives the map back.\<close>

lemma bt_insert_last: "\<forall>k' \<in> fst ` set m. k' < k \<Longrightarrow> bt_insert k v m = m @ [(k, v)]"
  by (induction k v m rule: bt_insert.induct) auto

lemma collect_picks_sorted: "bt_inv m \<Longrightarrow> collect_picks m = m"
proof (induction m rule: rev_induct)
  case (snoc x m)
  then have m: "bt_inv m" "\<forall>k' \<in> fst ` set m. k' < fst x"
    by (auto simp: bt_inv_def sorted_wrt_append)
  with snoc.IH have "fold (\<lambda>(k, c) m. bt_insert k c m) m [] = m" by (simp add: collect_picks_def)
  then show ?case using bt_insert_last [OF m(2)] by (simp add: collect_picks_def case_prod_unfold)
qed (simp add: collect_picks_def)

lemma collect_picks_inv: "bt_inv (collect_picks picks) \<and>
    fst ` set (collect_picks picks) = fst ` set picks"
proof (induction picks rule: rev_induct)
  case (snoc x picks)
  then show ?case
    by (auto simp: collect_picks_def case_prod_unfold bt_inv_insert set_keys_insert)
qed (simp add: collect_picks_def btree.inv_empty)

text \<open>
  A map of more than 65535 entries is cut by the writer, but then the payload is too large for
  any packet: every entry takes at least three bytes.
\<close>

lemma w_pick_grows: "w_seq (map w_pick xs) payload = Inr out \<Longrightarrow> length payload + 3 * length xs \<le> length out"
proof (induction xs arbitrary: payload)
  case (Cons x xs)
  then obtain mid where mid: "w_pick x payload = Inr mid" "w_seq (map w_pick xs) mid = Inr out"
    by (auto simp: w_seq.simps and_then_eq_Inr)
  have "length payload + 3 \<le> length mid"
    using mid(1)
    by (auto simp: w_pick_def push_len_prefixed_string_def w_seq.simps and_then_eq_Inr w_bytes_def
        w_fail_def Let_def split: prod.splits if_splits)
  with Cons.IH [OF mid(2)] show ?case by simp
qed (simp add: w_seq.simps)

lemma inverts_mono_len:
  assumes "\<And>payload out. w payload = Inr out \<Longrightarrow> \<exists>bs. out = payload @ bs \<and> U16_MAX < length bs"
  shows "inverts w rd v"
  unfolding inverts_def reads_def using assms by fastforce

lemma picks_tail:
  fixes n :: u16
  assumes "list_all (\<lambda>v. wf_text (fst v)) picks" "bt_inv picks" "f picks = v"
    "n = (if length picks \<le> U16_MAX then of_nat (length picks) else of_nat U16_MAX)"
  shows "inverts (w_seq (map w_pick (take (unat n) picks)))
    (rd_bind (read_many (unat n) (rd_pick kind)) (\<lambda>ps. rd_return (f (collect_picks ps)))) v"
proof (cases "length picks \<le> U16_MAX")
  case True
  then have "unat n = length picks" using assms(4) by simp
  then have "inverts (w_seq (map w_pick (take (unat n) picks))) (read_many (unat n) (rd_pick kind)) picks"
    using pick.many_read_back [OF assms(1)] by simp
  then show ?thesis
    by (rule inverts_bind_last) (simp add: collect_picks_sorted assms(2,3))
next
  case False
  let ?xs = "take (unat n) picks"
  have n: "unat n = U16_MAX" using False assms(4) by simp
  show ?thesis
  proof (rule inverts_mono_len)
    fix payload out
    assume w: "w_seq (map w_pick ?xs) payload = Inr out"
    have "list_all (\<lambda>v. wf_text (fst v)) ?xs" using assms(1) by (auto simp: list_all_iff dest: in_set_takeD)
    then obtain bs where "out = payload @ bs"
      using pick.many_read_back [of ?xs undefined] w unfolding inverts_def by blast
    moreover have "length payload + 3 * length ?xs \<le> length out" using w by (rule w_pick_grows)
    ultimately show "\<exists>bs. out = payload @ bs \<and> U16_MAX < length bs"
      using False n by (auto simp: U16_MAX_def)
  qed
qed

lemma player_record_rt [rt]:
  assumes "wf_player_record r"
  shows "inverts (encode_player_record r) (read_player_record kind) r"
proof -
  have picks: "list_all (\<lambda>v. wf_text (fst v)) (skill_pick_counts r)" "bt_inv (skill_pick_counts r)"
    using assms by (simp_all add: wf_player_record_def wf_record_def bt_keys_def list_all_iff)
  show ?thesis
    unfolding encode_player_record_def read_player_record_def Let_def append_Cons append_Nil
    by (rule inverts_bind ints_rt)+
      (rule picks_tail [OF picks, where f = "\<lambda>p. \<lparr>wins = wins r,
        losses = losses r, no_contests = no_contests r, round_wins = round_wins r,
        round_losses = round_losses r, total_damage_done = total_damage_done r,
        total_healing_done = total_healing_done r, total_combat_ms = total_combat_ms r,
        cc_used = cc_used r, cc_hits = cc_hits r, skill_pick_counts = p\<rparr>"], simp_all)
qed

lemma read_player_record_ok [rd_ok]: "reader_ok (read_player_record kind) wf_player_record"
proof -
  have wf: "wf_player_record \<lparr>wins = a, losses = b, no_contests = c, round_wins = d, round_losses = e,
      total_damage_done = f, total_healing_done = g, total_combat_ms = h, cc_used = i, cc_hits = j,
      skill_pick_counts = collect_picks picks\<rparr>"
    if "list_all (\<lambda>v. wf_text (fst v)) picks" for a b c d e f g h i j picks
    using that collect_picks_inv [of picks]
    by (force simp: wf_player_record_def wf_record_def bt_keys_def list_all_iff)
  show ?thesis
    unfolding read_player_record_def by (rule rd_ok pick.many_safe | simp add: wf)+
qed

section \<open>Entries read back and stay in bounds\<close>

lemma catalog_entry_rt: "wf_catalog_entry v \<Longrightarrow> inverts (w_catalog_entry v) (rd_catalog_entry kind) v"
  unfolding w_catalog_entry_def rd_catalog_entry_def wf_catalog_entry_def
  by (cases v, simp only: skill_catalog_entry.simps) (rule rt refl | simp)+

lemma catalog_entry_ok: "reader_ok (rd_catalog_entry kind) wf_catalog_entry"
  unfolding rd_catalog_entry_def wf_catalog_entry_def by (rule rd_ok TrueI | simp)+

interpretation catalog_entry: codec w_catalog_entry "rd_catalog_entry kind" wf_catalog_entry for kind
  by unfold_locales (rule catalog_entry_rt catalog_entry_ok, assumption?)+

lemma directory_entry_rt: "wf_directory_entry v \<Longrightarrow> inverts (w_directory_entry v) (rd_directory_entry kind) v"
  unfolding w_directory_entry_def rd_directory_entry_def wf_directory_entry_def
  by (cases v, simp only: lobby_directory_entry.simps) (rule rt refl | simp)+

lemma directory_entry_ok: "reader_ok (rd_directory_entry kind) wf_directory_entry"
  unfolding rd_directory_entry_def wf_directory_entry_def by (rule rd_ok TrueI | simp)+

interpretation directory_entry: codec w_directory_entry "rd_directory_entry kind" wf_directory_entry for kind
  by unfold_locales (rule directory_entry_rt directory_entry_ok, assumption?)+

lemma snapshot_player_rt: "wf_snapshot_player v \<Longrightarrow> inverts (w_snapshot_player v) (rd_snapshot_player kind) v"
  unfolding w_snapshot_player_def rd_snapshot_player_def wf_snapshot_player_def
  by (cases v, simp only: lobby_snapshot_player.simps) (rule rt refl | simp)+

lemma snapshot_player_ok: "reader_ok (rd_snapshot_player kind) wf_snapshot_player"
  unfolding rd_snapshot_player_def wf_snapshot_player_def by (rule rd_ok TrueI | simp)+

interpretation snapshot_player: codec w_snapshot_player "rd_snapshot_player kind" wf_snapshot_player for kind
  by unfold_locales (rule snapshot_player_rt snapshot_player_ok, assumption?)+

lemma obstacle_rt: "(\<lambda>_. True) v \<Longrightarrow> inverts (w_obstacle v) (rd_obstacle kind) v"
  unfolding w_obstacle_def rd_obstacle_def
  by (cases v, simp only: arena_obstacle_snapshot.simps) (rule rt refl | simp)+

lemma obstacle_ok: "reader_ok (rd_obstacle kind) (\<lambda>_. True)"
  unfolding rd_obstacle_def by (rule rd_ok TrueI | simp)+

interpretation obstacle: codec w_obstacle "rd_obstacle kind" "\<lambda>_. True" for kind
  by unfold_locales (rule obstacle_rt obstacle_ok, assumption?)+

lemma deployable_rt: "wf_deployable v \<Longrightarrow> inverts (w_deployable v) (rd_deployable kind) v"
  unfolding w_deployable_def rd_deployable_def wf_deployable_def
  by (cases v, simp only: arena_deployable_snapshot.simps) (rule rt refl | simp)+

lemma deployable_ok: "reader_ok (rd_deployable kind) wf_deployable"
  unfolding rd_deployable_def wf_deployable_def by (rule rd_ok TrueI | simp)+

interpretation deployable: codec w_deployable "rd_deployable kind" wf_deployable for kind
  by unfold_locales (rule deployable_rt deployable_ok, assumption?)+

lemma status_rt: "wf_status v \<Longrightarrow> inverts (w_status v) (rd_status kind) v"
  unfolding w_status_def rd_status_def wf_status_def
  by (cases v, simp only: arena_status_snapshot.simps) (rule rt refl | simp)+

lemma status_ok: "reader_ok (rd_status kind) wf_status"
  unfolding rd_status_def wf_status_def by (rule rd_ok TrueI | simp)+

interpretation status: codec w_status "rd_status kind" wf_status for kind
  by unfold_locales (rule status_rt status_ok, assumption?)+

lemma projectile_rt: "wf_projectile v \<Longrightarrow> inverts (w_projectile v) (rd_projectile kind) v"
  unfolding w_projectile_def rd_projectile_def wf_projectile_def
  by (cases v, simp only: arena_projectile_snapshot.simps) (rule rt refl | simp)+

lemma projectile_ok: "reader_ok (rd_projectile kind) wf_projectile"
  unfolding rd_projectile_def wf_projectile_def by (rule rd_ok TrueI | simp)+

interpretation projectile: codec w_projectile "rd_projectile kind" wf_projectile for kind
  by unfold_locales (rule projectile_rt projectile_ok, assumption?)+

lemma effect_rt: "wf_effect v \<Longrightarrow> inverts (w_effect v) (rd_effect kind) v"
  unfolding w_effect_def rd_effect_def wf_effect_def
  by (cases v, simp only: arena_effect_snapshot.simps) (rule rt refl | simp)+

lemma effect_ok: "reader_ok (rd_effect kind) wf_effect"
  unfolding rd_effect_def wf_effect_def by (rule rd_ok TrueI | simp)+

interpretation effect: codec w_effect "rd_effect kind" wf_effect for kind
  by unfold_locales (rule effect_rt effect_ok, assumption?)+

lemma combat_text_rt: "wf_combat_text v \<Longrightarrow> inverts (w_combat_text v) (rd_combat_text kind) v"
  unfolding w_combat_text_def rd_combat_text_def wf_combat_text_def
  by (cases v, simp only: arena_combat_text_entry.simps) (rule rt refl | simp)+

lemma combat_text_ok: "reader_ok (rd_combat_text kind) wf_combat_text"
  unfolding rd_combat_text_def wf_combat_text_def by (rule rd_ok TrueI | simp)+

interpretation combat_text: codec w_combat_text "rd_combat_text kind" wf_combat_text for kind
  by unfold_locales (rule combat_text_rt combat_text_ok, assumption?)+

lemma summary_line_rt: "wf_summary_line v \<Longrightarrow> inverts (w_summary_line v) (rd_summary_line kind) v"
  unfolding w_summary_line_def rd_summary_line_def wf_summary_line_def
  by (cases v, simp only: combat_summary_line.simps) (rule rt refl | simp)+

lemma summary_line_ok: "reader_ok (rd_summary_line kind) wf_summary_line"
  unfolding rd_summary_line_def wf_summary_line_def by (rule rd_ok TrueI | simp)+

interpretation summary_line: codec w_summary_line "rd_summary_line kind" wf_summary_line for kind
  by unfold_locales (rule summary_line_rt summary_line_ok, assumption?)+

section \<open>Arena players read back\<close>

lemma flag_some:
  "inverts (w_seq ws) (f True) v \<Longrightarrow> inverts (w_seq (w_u8 1 # ws)) (rd_bind (read_bool kind) f) v"
  using inverts_bind [OF w_bool_rt [of True kind], of ws f v] by (simp add: w_bool_def)

lemma flag_none: "f False = rd_return v \<Longrightarrow> inverts (w_u8 0) (rd_bind (read_bool kind) f) v"
  using inverts_bind_last [OF w_bool_rt [of False kind], of f v] by (simp add: w_bool_def)

lemma tree_option_rt: "wf_tree_option v \<Longrightarrow> inverts (w_tree_option v) (rd_tree_option kind) v"
proof (cases v)
  case (Some t)
  assume "wf_tree_option v"
  then show ?thesis
    unfolding Some w_tree_option_def rd_tree_option_def option.case
    by (simp only: wf_tree_option.simps) (rule flag_some, simp, (rule rt refl | simp)+)
qed (simp add: w_tree_option_def rd_tree_option_def flag_none)

lemma tree_option_ok: "reader_ok (rd_tree_option kind) wf_tree_option"
  unfolding rd_tree_option_def by (rule rd_ok TrueI | simp)+

interpretation tree_option: codec w_tree_option "rd_tree_option kind" wf_tree_option for kind
  by unfold_locales (rule tree_option_rt tree_option_ok, assumption?)+

interpretation cooldown: codec w_u16 "read_u16 kind" "\<lambda>_. True" for kind
  by unfold_locales (rule ints_rt read_u16_ok)+

lemma cooldown_array_rt: "length xs = 5 \<Longrightarrow> inverts (w_cooldown_array xs) (decode_cooldown_array kind) xs"
  unfolding w_cooldown_array_def decode_cooldown_array_def
  using cooldown.many_read_back [of xs kind] by (simp add: list_all_iff)

lemma cooldown_array_ok: "reader_ok (decode_cooldown_array kind) (\<lambda>xs. length xs = 5)"
  unfolding decode_cooldown_array_def by (rule reader_ok_mono [OF cooldown.many_safe]) simp

lemma equipped_skill_trees_rt: "list_all wf_tree_option xs \<Longrightarrow> length xs = 5 \<Longrightarrow>
    inverts (w_equipped_skill_trees xs) (decode_equipped_skill_trees kind) xs"
  unfolding w_equipped_skill_trees_def decode_equipped_skill_trees_def
  using tree_option.many_read_back [of xs kind] by simp

lemma equipped_skill_trees_ok:
  "reader_ok (decode_equipped_skill_trees kind) (\<lambda>xs. list_all wf_tree_option xs \<and> length xs = 5)"
  unfolding decode_equipped_skill_trees_def by (rule tree_option.many_safe)

lemma active_statuses_rt:
  "list_all wf_status xs \<Longrightarrow> inverts (w_active_statuses xs) (decode_active_statuses kind) xs"
  unfolding w_active_statuses_def decode_active_statuses_def
  by (rule inverts_count_u8) (simp add: status.many_read_back)

lemma active_statuses_ok: "reader_ok (decode_active_statuses kind) (list_all wf_status)"
  unfolding decode_active_statuses_def
  by (rule reader_ok_bind [OF read_u8_ok], rule reader_ok_mono [OF status.many_safe]) simp

lemmas player_parts_rt = cooldown_array_rt equipped_skill_trees_rt active_statuses_rt
lemmas player_parts_ok = cooldown_array_ok equipped_skill_trees_ok active_statuses_ok

lemma arena_player_rt: "wf_arena_player p \<Longrightarrow> inverts (encode_arena_player p) (decode_arena_player kind) p"
  unfolding encode_arena_player_def decode_arena_player_def wf_arena_player_def
  by (cases p, simp only: arena_player_snapshot.simps) (rule rt player_parts_rt refl | simp)+

lemma arena_player_ok: "reader_ok (decode_arena_player kind) wf_arena_player"
  unfolding decode_arena_player_def wf_arena_player_def by (rule rd_ok player_parts_ok TrueI | simp)+

interpretation arena_player: codec encode_arena_player "decode_arena_player kind" wf_arena_player for kind
  by unfold_locales (rule arena_player_rt arena_player_ok, assumption?)+

end
