(* ===== verification/Server_Codec.thy ===== *)
theory Server_Codec
  imports Snapshot_Codec
begin

text \<open>
  The server's control events on the wire (\<open>control/server_encode.rs\<close> and
  \<open>control/server_decode.rs\<close> of \<open>game_net\<close>): transport metadata, kind bytes, bodies and packets.
  The routing through the \<open>lobby_\<close>, \<open>match_\<close> and \<open>snapshot_\<close> functions is kept, with their
  \<open>unreachable!\<close> arms as \<open>Panic\<close>.
\<close>

section \<open>Metadata and kind bytes\<close>

fun transport_metadata :: "server_control_event \<Rightarrow> channel_id \<times> packet_kind" where
  "transport_metadata (ArenaStateSnapshot _) = (SnapshotChannel, FullSnapshot)"
| "transport_metadata (ArenaDeltaSnapshot _) = (SnapshotChannel, DeltaSnapshot)"
| "transport_metadata (ArenaEffectBatch _) = (SnapshotChannel, EventBatch)"
| "transport_metadata (ArenaCombatTextBatch _) = (SnapshotChannel, CombatTextBatch)"
| "transport_metadata _ = (ControlChannel, ControlEvent)"

fun lobby_kind_byte :: "server_control_event \<Rightarrow> packet_error fault + u8" where
  "lobby_kind_byte (Connected _ _ _ _) = Inr 1"
| "lobby_kind_byte (GameLobbyCreated _) = Inr 2"
| "lobby_kind_byte (GameLobbyJoined _ _) = Inr 3"
| "lobby_kind_byte (GameLobbyLeft _ _) = Inr 4"
| "lobby_kind_byte (TeamSelectedEvent _ _ _) = Inr 5"
| "lobby_kind_byte (ReadyChangedEvent _ _) = Inr 6"
| "lobby_kind_byte (LaunchCountdownStartedEvent _ _ _) = Inr 7"
| "lobby_kind_byte (LaunchCountdownTickEvent _ _) = Inr 8"
| "lobby_kind_byte _ = Inl Panic"

fun match_kind_byte :: "server_control_event \<Rightarrow> packet_error fault + u8" where
  "match_kind_byte (MatchStarted _ _ _) = Inr 9"
| "match_kind_byte (TrainingStarted _) = Inr 25"
| "match_kind_byte (SkillChosenEvent _ _ _ _) = Inr 10"
| "match_kind_byte (PreCombatStartedEvent _) = Inr 11"
| "match_kind_byte CombatStartedEvent = Inr 12"
| "match_kind_byte (RoundWonEvent _ _ _ _) = Inr 13"
| "match_kind_byte (MatchEndedEvent _ _ _ _) = Inr 14"
| "match_kind_byte (RoundSummary _) = Inr 22"
| "match_kind_byte (MatchSummary _) = Inr 23"
| "match_kind_byte (ReturnedToCentralLobby _) = Inr 15"
| "match_kind_byte (ErrorEvent _) = Inr 16"
| "match_kind_byte _ = Inl Panic"

fun is_lobby_event :: "server_control_event \<Rightarrow> bool" where
  "is_lobby_event (Connected _ _ _ _) = True"
| "is_lobby_event (GameLobbyCreated _) = True"
| "is_lobby_event (GameLobbyJoined _ _) = True"
| "is_lobby_event (GameLobbyLeft _ _) = True"
| "is_lobby_event (TeamSelectedEvent _ _ _) = True"
| "is_lobby_event (ReadyChangedEvent _ _) = True"
| "is_lobby_event (LaunchCountdownStartedEvent _ _ _) = True"
| "is_lobby_event (LaunchCountdownTickEvent _ _) = True"
| "is_lobby_event _ = False"

definition control_kind_byte :: "server_control_event \<Rightarrow> packet_error fault + u8" where
  "control_kind_byte event =
     (case event of
        LobbyDirectorySnapshot _ \<Rightarrow> Inr 17
      | GameLobbySnapshot _ _ _ \<Rightarrow> Inr 18
      | ArenaStateSnapshot _ \<Rightarrow> Inl Panic
      | ArenaDeltaSnapshot _ \<Rightarrow> Inl Panic
      | ArenaEffectBatch _ \<Rightarrow> Inl Panic
      | ArenaCombatTextBatch _ \<Rightarrow> Inl Panic
      | _ \<Rightarrow> if is_lobby_event event then lobby_kind_byte event else match_kind_byte event)"

fun event_kind_byte :: "server_control_event \<Rightarrow> packet_error fault + u8" where
  "event_kind_byte (ArenaStateSnapshot _) = Inr 19"
| "event_kind_byte (ArenaDeltaSnapshot _) = Inr 20"
| "event_kind_byte (ArenaEffectBatch _) = Inr 21"
| "event_kind_byte (RoundSummary _) = Inr 22"
| "event_kind_byte (MatchSummary _) = Inr 23"
| "event_kind_byte (ArenaCombatTextBatch _) = Inr 24"
| "event_kind_byte event = control_kind_byte event"

section \<open>Bodies\<close>

definition encode_connected_event ::
  "player_id \<Rightarrow> player_name \<Rightarrow> player_record \<Rightarrow> skill_catalog_entry list \<Rightarrow> writer" where
  "encode_connected_event pid name rec catalog =
     w_seq [w_u32 (player_id_get pid),
       push_len_prefixed_string ''player_name'' (player_name_as_str name) MAX_PLAYER_NAME_LEN,
       encode_player_record rec, encode_skill_catalog catalog]"

definition encode_lobby_id_event :: "lobby_id \<Rightarrow> writer" where
  "encode_lobby_id_event lid = w_u32 (lobby_id_get lid)"

definition encode_lobby_and_player_event :: "lobby_id \<Rightarrow> player_id \<Rightarrow> writer" where
  "encode_lobby_and_player_event lid pid = w_seq [w_u32 (lobby_id_get lid), w_u32 (player_id_get pid)]"

definition encode_team_selected_event :: "player_id \<Rightarrow> team_side \<Rightarrow> bool \<Rightarrow> writer" where
  "encode_team_selected_event pid team ready_reset =
     w_seq [w_u32 (player_id_get pid), w_u8 (encode_team team), w_bool ready_reset]"

definition encode_ready_changed_event :: "player_id \<Rightarrow> ready_state \<Rightarrow> writer" where
  "encode_ready_changed_event pid ready =
     w_seq [w_u32 (player_id_get pid), w_u8 (encode_ready_state ready)]"

definition encode_countdown_started_event :: "lobby_id \<Rightarrow> u8 \<Rightarrow> u16 \<Rightarrow> writer" where
  "encode_countdown_started_event lid seconds roster_n =
     w_seq [w_u32 (lobby_id_get lid), w_u8 seconds, w_u16 roster_n]"

definition encode_countdown_tick_event :: "lobby_id \<Rightarrow> u8 \<Rightarrow> writer" where
  "encode_countdown_tick_event lid seconds = w_seq [w_u32 (lobby_id_get lid), w_u8 seconds]"

definition encode_match_started_event :: "match_id \<Rightarrow> round_number \<Rightarrow> u8 \<Rightarrow> writer" where
  "encode_match_started_event mid round seconds =
     w_seq [w_u32 (match_id_get mid), w_u8 (round_get round), w_u8 seconds]"

definition encode_skill_chosen_event :: "player_id \<Rightarrow> u8 \<Rightarrow> skill_tree \<Rightarrow> u8 \<Rightarrow> writer" where
  "encode_skill_chosen_event pid slot t n =
     w_seq [w_u32 (player_id_get pid), w_u8 slot,
       push_len_prefixed_string ''skill_tree'' (skill_tree_as_str t) MAX_SKILL_TREE_NAME_BYTES, w_u8 n]"

definition encode_round_won_event :: "round_number \<Rightarrow> team_side \<Rightarrow> u8 \<Rightarrow> u8 \<Rightarrow> writer" where
  "encode_round_won_event round team score_a score_b =
     w_seq [w_u8 (round_get round), w_u8 (encode_team team), w_u8 score_a, w_u8 score_b]"

definition encode_match_ended_event :: "match_outcome \<Rightarrow> u8 \<Rightarrow> u8 \<Rightarrow> rstring \<Rightarrow> writer" where
  "encode_match_ended_event outcome score_a score_b message =
     w_seq [w_u8 (encode_match_outcome outcome), w_u8 score_a, w_u8 score_b,
       push_len_prefixed_string ''message'' message MAX_MESSAGE_BYTES]"

definition encode_round_summary_event :: "round_summary_snapshot \<Rightarrow> writer" where
  "encode_round_summary_event s =
     w_seq [w_u8 (round_get (rss_round s)), encode_summary_lines (rss_round_totals s),
       encode_summary_lines (rss_running_totals s)]"

definition encode_match_summary_event :: "match_summary_snapshot \<Rightarrow> writer" where
  "encode_match_summary_event s =
     w_seq [w_u8 (mss_rounds_played s), encode_summary_lines (mss_totals s)]"

fun encode_lobby_body :: "server_control_event \<Rightarrow> writer" where
  "encode_lobby_body (Connected pid name rec catalog) = encode_connected_event pid name rec catalog"
| "encode_lobby_body (GameLobbyCreated lid) = encode_lobby_id_event lid"
| "encode_lobby_body (GameLobbyJoined lid pid) = encode_lobby_and_player_event lid pid"
| "encode_lobby_body (GameLobbyLeft lid pid) = encode_lobby_and_player_event lid pid"
| "encode_lobby_body (TeamSelectedEvent pid team reset) = encode_team_selected_event pid team reset"
| "encode_lobby_body (ReadyChangedEvent pid ready) = encode_ready_changed_event pid ready"
| "encode_lobby_body (LaunchCountdownStartedEvent lid seconds roster_n) =
     encode_countdown_started_event lid seconds roster_n"
| "encode_lobby_body (LaunchCountdownTickEvent lid seconds) = encode_countdown_tick_event lid seconds"
| "encode_lobby_body _ = w_fail Panic"

fun encode_match_body :: "server_control_event \<Rightarrow> writer" where
  "encode_match_body (MatchStarted mid round seconds) = encode_match_started_event mid round seconds"
| "encode_match_body (TrainingStarted tid) = w_u32 (match_id_get tid)"
| "encode_match_body (SkillChosenEvent pid slot t n) = encode_skill_chosen_event pid slot t n"
| "encode_match_body (PreCombatStartedEvent seconds) = w_u8 seconds"
| "encode_match_body CombatStartedEvent = w_seq []"
| "encode_match_body (RoundWonEvent round team a b) = encode_round_won_event round team a b"
| "encode_match_body (MatchEndedEvent outcome a b message) = encode_match_ended_event outcome a b message"
| "encode_match_body (RoundSummary s) = encode_round_summary_event s"
| "encode_match_body (MatchSummary s) = encode_match_summary_event s"
| "encode_match_body (ReturnedToCentralLobby rec) = encode_player_record rec"
| "encode_match_body (ErrorEvent message) = push_len_prefixed_string ''message'' message MAX_MESSAGE_BYTES"
| "encode_match_body _ = w_fail Panic"

fun encode_snapshot_body :: "server_control_event \<Rightarrow> writer" where
  "encode_snapshot_body (ArenaStateSnapshot s) = encode_arena_state_snapshot s"
| "encode_snapshot_body (ArenaDeltaSnapshot s) = encode_arena_delta_snapshot s"
| "encode_snapshot_body (ArenaEffectBatch effects) = encode_arena_effect_batch effects"
| "encode_snapshot_body (ArenaCombatTextBatch entries) = encode_arena_combat_text_batch entries"
| "encode_snapshot_body _ = w_fail Panic"

definition encode_control_body :: "server_control_event \<Rightarrow> writer" where
  "encode_control_body event =
     (case event of
        LobbyDirectorySnapshot lobbies \<Rightarrow> encode_lobby_directory_snapshot lobbies
      | GameLobbySnapshot lid phase players \<Rightarrow> encode_game_lobby_snapshot lid phase players
      | ArenaStateSnapshot _ \<Rightarrow> w_fail Panic
      | ArenaDeltaSnapshot _ \<Rightarrow> w_fail Panic
      | ArenaEffectBatch _ \<Rightarrow> w_fail Panic
      | ArenaCombatTextBatch _ \<Rightarrow> w_fail Panic
      | _ \<Rightarrow> if is_lobby_event event then encode_lobby_body event else encode_match_body event)"

definition event_encode_body :: "server_control_event \<Rightarrow> writer" where
  "event_encode_body event =
     (case event of
        ArenaStateSnapshot _ \<Rightarrow> encode_snapshot_body event
      | ArenaDeltaSnapshot _ \<Rightarrow> encode_snapshot_body event
      | ArenaEffectBatch _ \<Rightarrow> encode_snapshot_body event
      | ArenaCombatTextBatch _ \<Rightarrow> encode_snapshot_body event
      | _ \<Rightarrow> encode_control_body event)"

definition event_encode_packet ::
  "server_control_event \<Rightarrow> u32 \<Rightarrow> u32 \<Rightarrow> packet_error fault + u8 list" where
  "event_encode_packet event sq sim_tick =
     (let (channel, kind) = transport_metadata event in
      and_then (event_kind_byte event) (\<lambda>b.
      and_then (w_seq [w_u8 b, event_encode_body event] []) (\<lambda>payload.
      frame_packet channel kind sq sim_tick payload)))"

section \<open>Reading bodies\<close>

definition decode_connected_event :: "server_control_event reader" where
  "decode_connected_event =
     rd_bind (read_player_id ''Connected'') (\<lambda>pid.
     rd_bind (read_player_name ''Connected'') (\<lambda>name.
     rd_bind (read_player_record ''Connected'') (\<lambda>rec.
     rd_bind (decode_skill_catalog ''Connected'') (\<lambda>catalog.
     rd_return (Connected pid name rec catalog)))))"

definition decode_lobby_and_player_event ::
  "string \<Rightarrow> (lobby_id \<Rightarrow> player_id \<Rightarrow> server_control_event) \<Rightarrow> server_control_event reader" where
  "decode_lobby_and_player_event kind constructor =
     rd_bind (read_lobby_id kind) (\<lambda>lid.
     rd_bind (read_player_id kind) (\<lambda>pid. rd_return (constructor lid pid)))"

definition decode_team_selected_event :: "server_control_event reader" where
  "decode_team_selected_event =
     rd_bind (read_player_id ''TeamSelected'') (\<lambda>pid.
     rd_bind (read_team ''TeamSelected'') (\<lambda>team.
     rd_bind (read_bool ''TeamSelected'') (\<lambda>reset.
     rd_return (TeamSelectedEvent pid team reset))))"

definition decode_countdown_started_event :: "server_control_event reader" where
  "decode_countdown_started_event =
     rd_bind (read_lobby_id ''LaunchCountdownStarted'') (\<lambda>lid.
     rd_bind (read_u8 ''LaunchCountdownStarted'') (\<lambda>seconds.
     rd_bind (read_u16 ''LaunchCountdownStarted'') (\<lambda>roster_n.
     rd_return (LaunchCountdownStartedEvent lid seconds roster_n))))"

definition decode_countdown_tick_event :: "server_control_event reader" where
  "decode_countdown_tick_event =
     rd_bind (read_lobby_id ''LaunchCountdownTick'') (\<lambda>lid.
     rd_bind (read_u8 ''LaunchCountdownTick'') (\<lambda>seconds.
     rd_return (LaunchCountdownTickEvent lid seconds)))"

definition decode_match_started_event :: "server_control_event reader" where
  "decode_match_started_event =
     rd_bind (read_match_id ''MatchStarted'') (\<lambda>mid.
     rd_bind (read_round ''MatchStarted'') (\<lambda>round.
     rd_bind (read_u8 ''MatchStarted'') (\<lambda>seconds.
     rd_return (MatchStarted mid round seconds))))"

definition decode_skill_chosen_event :: "server_control_event reader" where
  "decode_skill_chosen_event =
     rd_bind (read_player_id ''SkillChosen'') (\<lambda>pid.
     rd_bind (read_u8 ''SkillChosen'') (\<lambda>slot.
     rd_bind (read_skill_tree ''SkillChosen'') (\<lambda>t.
     rd_bind (read_u8 ''SkillChosen'') (\<lambda>n.
     rd_return (SkillChosenEvent pid slot t n)))))"

definition decode_round_won_event :: "server_control_event reader" where
  "decode_round_won_event =
     rd_bind (read_round ''RoundWon'') (\<lambda>round.
     rd_bind (read_team ''RoundWon'') (\<lambda>team.
     rd_bind (read_u8 ''RoundWon'') (\<lambda>a.
     rd_bind (read_u8 ''RoundWon'') (\<lambda>b.
     rd_return (RoundWonEvent round team a b)))))"

definition decode_match_ended_event :: "server_control_event reader" where
  "decode_match_ended_event =
     rd_bind (read_match_outcome ''MatchEnded'') (\<lambda>outcome.
     rd_bind (read_u8 ''MatchEnded'') (\<lambda>a.
     rd_bind (read_u8 ''MatchEnded'') (\<lambda>b.
     rd_bind (read_string ''MatchEnded'' ''message'' MAX_MESSAGE_BYTES) (\<lambda>message.
     rd_return (MatchEndedEvent outcome a b message)))))"

definition decode_lobby_event :: "u8 \<Rightarrow> server_control_event reader" where
  "decode_lobby_event kind =
     (if kind = 2 then
        rd_bind (read_lobby_id ''GameLobbyCreated'') (\<lambda>lid. rd_return (GameLobbyCreated lid))
      else if kind = 3 then decode_lobby_and_player_event ''GameLobbyJoined'' GameLobbyJoined
      else if kind = 4 then decode_lobby_and_player_event ''GameLobbyLeft'' GameLobbyLeft
      else if kind = 5 then decode_team_selected_event
      else if kind = 6 then
        rd_bind (read_player_id ''ReadyChanged'') (\<lambda>pid.
        rd_bind (read_ready_state ''ReadyChanged'') (\<lambda>ready.
        rd_return (ReadyChangedEvent pid ready)))
      else rd_fail (UnknownServerEvent kind))"

definition decode_match_event :: "u8 \<Rightarrow> server_control_event reader" where
  "decode_match_event kind =
     (if kind = 7 then decode_countdown_started_event
      else if kind = 8 then decode_countdown_tick_event
      else if kind = 9 then decode_match_started_event
      else if kind = 10 then decode_skill_chosen_event
      else if kind = 11 then
        rd_bind (read_u8 ''PreCombatStarted'') (\<lambda>seconds. rd_return (PreCombatStartedEvent seconds))
      else if kind = 12 then rd_return CombatStartedEvent
      else if kind = 13 then decode_round_won_event
      else if kind = 14 then decode_match_ended_event
      else if kind = 25 then
        rd_bind (read_match_id ''TrainingStarted'') (\<lambda>tid. rd_return (TrainingStarted tid))
      else rd_fail (UnknownServerEvent kind))"

definition decode_terminal_event :: "u8 \<Rightarrow> server_control_event reader" where
  "decode_terminal_event kind =
     (if kind = 15 then
        rd_bind (read_player_record ''ReturnedToCentralLobby'') (\<lambda>rec.
        rd_return (ReturnedToCentralLobby rec))
      else if kind = 16 then
        rd_bind (read_string ''Error'' ''message'' MAX_MESSAGE_BYTES) (\<lambda>message.
        rd_return (ErrorEvent message))
      else rd_fail (UnknownServerEvent kind))"

definition decode_summary_event :: "u8 \<Rightarrow> server_control_event reader" where
  "decode_summary_event kind =
     (if kind = 22 then
        rd_bind (read_round ''RoundSummary'') (\<lambda>round.
        rd_bind (decode_summary_lines ''RoundSummary'') (\<lambda>round_totals.
        rd_bind (decode_summary_lines ''RoundSummary'') (\<lambda>running_totals.
        rd_return (RoundSummary \<lparr>rss_round = round, rss_round_totals = round_totals,
          rss_running_totals = running_totals\<rparr>))))
      else if kind = 23 then
        rd_bind (read_u8 ''MatchSummary'') (\<lambda>played.
        rd_bind (decode_summary_lines ''MatchSummary'') (\<lambda>totals.
        rd_return (MatchSummary \<lparr>mss_rounds_played = played, mss_totals = totals\<rparr>)))
      else rd_fail (UnknownServerEvent kind))"

definition decode_snapshot_event :: "u8 \<Rightarrow> server_control_event reader" where
  "decode_snapshot_event kind =
     (if kind = 17 then decode_lobby_directory_snapshot
      else if kind = 18 then decode_game_lobby_snapshot
      else if kind = 19 then decode_arena_state_snapshot
      else if kind = 20 then decode_arena_delta_snapshot
      else if kind = 21 then decode_arena_effect_batch
      else if kind = 24 then decode_arena_combat_text_batch
      else rd_fail (UnknownServerEvent kind))"

definition event_decode_body :: "u8 \<Rightarrow> server_control_event reader" where
  "event_decode_body kind =
     (if kind = 1 then decode_connected_event
      else if 2 \<le> kind \<and> kind \<le> 6 then decode_lobby_event kind
      else if (7 \<le> kind \<and> kind \<le> 14) \<or> kind = 25 then decode_match_event kind
      else if 15 \<le> kind \<and> kind \<le> 16 then decode_terminal_event kind
      else if (17 \<le> kind \<and> kind \<le> 21) \<or> kind = 24 then decode_snapshot_event kind
      else if 22 \<le> kind \<and> kind \<le> 23 then decode_summary_event kind
      else rd_fail (UnknownServerEvent kind))"

text \<open>The channels and packet kinds a client accepts events on.\<close>

fun event_transport_ok :: "channel_id \<Rightarrow> packet_kind \<Rightarrow> bool" where
  "event_transport_ok ControlChannel ControlEvent = True"
| "event_transport_ok SnapshotChannel FullSnapshot = True"
| "event_transport_ok SnapshotChannel DeltaSnapshot = True"
| "event_transport_ok SnapshotChannel EventBatch = True"
| "event_transport_ok SnapshotChannel CombatTextBatch = True"
| "event_transport_ok _ _ = False"

definition event_decode_packet ::
  "u8 list \<Rightarrow> packet_error fault + (packet_header \<times> server_control_event)" where
  "event_decode_packet packet =
     and_then (map_err Err (header_decode packet)) (\<lambda>(header, payload).
     if \<not> event_transport_ok (hd_channel_id header) (hd_packet_kind header) then
       Inl (Err (UnexpectedPacketKind ControlChannel ControlEvent
              (hd_channel_id header) (hd_packet_kind header)))
     else
       and_then (decode_message event_decode_body ''ServerControlEvent'' payload) (\<lambda>event.
       Inr (header, event)))"

section \<open>Lists and snapshots read back\<close>

lemma training_metrics_rt [rt]: "inverts (encode_training_metrics v) (decode_training_metrics kind) v"
proof (cases v)
  case (Some m)
  show ?thesis
    unfolding Some encode_training_metrics_def decode_training_metrics_def option.case
    by (cases m, simp only: training_metrics_snapshot.simps) (rule flag_some, simp, (rule rt refl | simp)+)
qed (simp add: encode_training_metrics_def decode_training_metrics_def flag_none)

lemma training_metrics_ok [rd_ok]: "reader_ok (decode_training_metrics kind) (\<lambda>_. True)"
  unfolding decode_training_metrics_def by (rule rd_ok TrueI)+

lemmas event_lists_def = encode_skill_catalog_def decode_skill_catalog_def encode_arena_obstacles_def
  decode_arena_obstacles_def encode_arena_deployables_def decode_arena_deployables_def
  encode_arena_players_def decode_arena_players_def encode_arena_projectiles_def
  decode_arena_projectiles_def encode_summary_lines_def decode_summary_lines_def

lemmas event_lists_rt = catalog_entry.list_read_back obstacle.list_read_back deployable.list_read_back
  arena_player.list_read_back projectile.list_read_back summary_line.list_read_back
  directory_entry.list_read_back snapshot_player.list_read_back effect.list_read_back
  combat_text.list_read_back

lemmas event_lists_ok = catalog_entry.list_safe obstacle.list_safe deployable.list_safe
  arena_player.list_safe projectile.list_safe summary_line.list_safe directory_entry.list_safe
  snapshot_player.list_safe effect.list_safe combat_text.list_safe

lemma arena_state_snapshot_rt:
  "wf_state_snapshot s \<Longrightarrow> inverts (encode_arena_state_snapshot s) decode_arena_state_snapshot (ArenaStateSnapshot s)"
  unfolding encode_arena_state_snapshot_def decode_arena_state_snapshot_def wf_state_snapshot_def
    event_lists_def Let_def
  by (cases s, simp only: arena_state_snapshot.simps)
    (rule rt event_lists_rt refl | simp add: list_all_iff)+

lemma arena_state_snapshot_ok: "reader_ok decode_arena_state_snapshot wf_event"
  unfolding decode_arena_state_snapshot_def event_lists_def Let_def
  by (rule rd_ok event_lists_ok TrueI | simp add: wf_state_snapshot_def)+

lemma arena_delta_snapshot_rt:
  "wf_delta_snapshot s \<Longrightarrow> inverts (encode_arena_delta_snapshot s) decode_arena_delta_snapshot (ArenaDeltaSnapshot s)"
  unfolding encode_arena_delta_snapshot_def decode_arena_delta_snapshot_def wf_delta_snapshot_def
    event_lists_def Let_def
  by (cases s, simp only: arena_delta_snapshot.simps)
    (rule rt event_lists_rt refl | simp add: list_all_iff)+

lemma arena_delta_snapshot_ok: "reader_ok decode_arena_delta_snapshot wf_event"
  unfolding decode_arena_delta_snapshot_def event_lists_def Let_def
  by (rule rd_ok event_lists_ok TrueI | simp add: wf_delta_snapshot_def)+

lemma lobby_snapshots_rt:
  "list_all wf_directory_entry lobbies \<Longrightarrow> inverts (encode_lobby_directory_snapshot lobbies)
     decode_lobby_directory_snapshot (LobbyDirectorySnapshot lobbies)"
  "wf_lobby_id lid \<Longrightarrow> list_all wf_snapshot_player players \<Longrightarrow>
     inverts (encode_game_lobby_snapshot lid phase players) decode_game_lobby_snapshot
       (GameLobbySnapshot lid phase players)"
  unfolding encode_lobby_directory_snapshot_def decode_lobby_directory_snapshot_def
    encode_game_lobby_snapshot_def decode_game_lobby_snapshot_def Let_def
   apply (rule inverts_bind_last [OF directory_entry.list_read_back], assumption, rule refl)
  by (rule rt event_lists_rt refl | assumption)+

lemma batches_rt:
  "list_all wf_effect effects \<Longrightarrow>
     inverts (encode_arena_effect_batch effects) decode_arena_effect_batch (ArenaEffectBatch effects)"
  "list_all wf_combat_text entries \<Longrightarrow> inverts (encode_arena_combat_text_batch entries)
     decode_arena_combat_text_batch (ArenaCombatTextBatch entries)"
  unfolding encode_arena_effect_batch_def decode_arena_effect_batch_def
    encode_arena_combat_text_batch_def decode_arena_combat_text_batch_def Let_def
   apply (rule inverts_bind_last [OF effect.list_read_back], assumption, rule refl)
  by (rule inverts_bind_last [OF combat_text.list_read_back], assumption, rule refl)

lemma batches_ok:
  "reader_ok decode_lobby_directory_snapshot wf_event"
  "reader_ok decode_game_lobby_snapshot wf_event"
  "reader_ok decode_arena_effect_batch wf_event"
  "reader_ok decode_arena_combat_text_batch wf_event"
  unfolding decode_lobby_directory_snapshot_def decode_game_lobby_snapshot_def
    decode_arena_effect_batch_def decode_arena_combat_text_batch_def Let_def
  by (rule rd_ok event_lists_ok TrueI | simp)+

section \<open>Event bodies read back\<close>

lemmas event_encode_defs = encode_connected_event_def encode_lobby_id_event_def
  encode_lobby_and_player_event_def encode_team_selected_event_def encode_ready_changed_event_def
  encode_countdown_started_event_def encode_countdown_tick_event_def encode_match_started_event_def
  encode_skill_chosen_event_def encode_round_won_event_def encode_match_ended_event_def
  encode_round_summary_event_def encode_match_summary_event_def

lemmas event_decode_defs = decode_connected_event_def decode_lobby_and_player_event_def
  decode_team_selected_event_def decode_countdown_started_event_def decode_countdown_tick_event_def
  decode_match_started_event_def decode_skill_chosen_event_def decode_round_won_event_def
  decode_match_ended_event_def

lemmas event_route_defs = event_decode_body_def decode_lobby_event_def decode_match_event_def
  decode_terminal_event_def decode_snapshot_event_def decode_summary_event_def

lemma event_kind_byte_total: "\<exists>b. event_kind_byte e = Inr b"
  by (cases e) (simp_all add: control_kind_byte_def)

lemma event_body_ok: "reader_ok (event_decode_body kind) wf_event"
  unfolding event_route_defs event_decode_defs event_lists_def
  by (rule rd_ok event_lists_ok batches_ok arena_state_snapshot_ok arena_delta_snapshot_ok TrueI
      | simp add: wf_round_summary_def wf_match_summary_def wf_text_def)+

lemma summary_eta:
  "\<lparr>rss_round = rss_round r, rss_round_totals = rss_round_totals r, rss_running_totals = rss_running_totals r\<rparr> = r"
  "\<lparr>mss_rounds_played = mss_rounds_played m, mss_totals = mss_totals m\<rparr> = m"
  by (cases r, simp) (cases m, simp)

lemmas event_parts_rt = event_lists_rt player_record_rt arena_state_snapshot_rt
  arena_delta_snapshot_rt lobby_snapshots_rt batches_rt

lemma event_body_rt:
  assumes "wf_event e" "event_kind_byte e = Inr b"
  shows "inverts (event_encode_body e) (event_decode_body b) e"
  using assms
  apply (cases e)
  apply (simp_all add: event_encode_body_def encode_control_body_def control_kind_byte_def
      event_route_defs event_encode_defs event_decode_defs event_lists_def wf_round_summary_def
      wf_match_summary_def)
  by (rule rt event_parts_rt inverts_bind_last refl | assumption | simp add: summary_eta)+

section \<open>Encoding errors\<close>

text \<open>The only errors a writer reports: a list or a string that does not fit its length prefix.\<close>

fun size_error :: "packet_error fault \<Rightarrow> bool" where
  "size_error (Err (PayloadTooLarge _ _)) = True"
| "size_error (Err (StringLengthOutOfBounds _ _ _)) = True"
| "size_error _ = False"

definition writer_ok :: "writer \<Rightarrow> bool" where
  "writer_ok w \<longleftrightarrow> (\<forall>payload e. w payload = Inl e \<longrightarrow> size_error e)"

lemma writer_ok_bytes: "writer_ok (w_bytes bs)"
  by (simp add: writer_ok_def w_bytes_def)

lemma writer_ok_Nil: "writer_ok (w_seq [])"
  by (simp add: writer_ok_def w_seq.simps)

lemma writer_ok_Cons: "writer_ok w \<Longrightarrow> writer_ok (w_seq ws) \<Longrightarrow> writer_ok (w_seq (w # ws))"
  by (auto simp: writer_ok_def w_seq.simps and_then_def split: sum.splits)

lemma writer_ok_map: "(\<And>x. writer_ok (w x)) \<Longrightarrow> writer_ok (w_seq (map w xs))"
  by (induction xs) (simp_all add: writer_ok_Nil writer_ok_Cons)

lemma writer_ok_string: "writer_ok (push_len_prefixed_string field s n)"
  by (auto simp: push_len_prefixed_string_def Let_def writer_ok_def w_fail_def w_bytes_def w_seq.simps)

lemma writer_ok_count: "writer_ok (w_count_u16 n)" "writer_ok (w_count_u8 n)"
  by (auto simp: w_count_u16_def w_count_u8_def writer_ok_def w_fail_def w_bytes_def)

lemma writer_ok_list: "(\<And>x. writer_ok (w x)) \<Longrightarrow> writer_ok (w_list w xs)"
  unfolding w_list_def by (rule writer_ok_Cons [OF writer_ok_count(1)]) (rule writer_ok_map)

lemma writer_ok_bool: "writer_ok (w_bool b)"
  by (simp add: w_bool_def writer_ok_bytes)

lemmas writers_ok = writer_ok_bytes writer_ok_bool writer_ok_Nil writer_ok_Cons writer_ok_string writer_ok_count
  writer_ok_list writer_ok_map

lemma writer_ok_options:
  "writer_ok (encode_optional_u8 v)" "writer_ok (w_tree_option t)"
  "writer_ok (encode_training_metrics m)" "writer_ok (encode_lobby_snapshot_phase p)"
  unfolding encode_optional_u8_def w_tree_option_def encode_training_metrics_def
    encode_lobby_snapshot_phase_def
  by (auto split: option.splits lobby_snapshot_phase.splits intro!: writers_ok)

lemma writer_ok_tiles: "writer_ok (encode_bytes field bs)"
  unfolding encode_bytes_def by (rule writers_ok)+

lemma writer_ok_record: "writer_ok (encode_player_record r)"
  unfolding encode_player_record_def w_pick_def Let_def append_Cons append_Nil
  by (auto split: prod.splits intro!: writers_ok)

lemma writer_ok_entries:
  "writer_ok (w_catalog_entry a)" "writer_ok (w_directory_entry b)" "writer_ok (w_snapshot_player c)"
  "writer_ok (w_obstacle d)" "writer_ok (w_deployable e)" "writer_ok (w_status f)"
  "writer_ok (w_projectile g)" "writer_ok (w_effect h)" "writer_ok (w_combat_text i)"
  "writer_ok (w_summary_line j)"
  unfolding w_catalog_entry_def w_directory_entry_def w_snapshot_player_def w_obstacle_def
    w_deployable_def w_status_def w_projectile_def w_effect_def w_combat_text_def w_summary_line_def
  by (rule writers_ok writer_ok_record writer_ok_options)+

lemma writer_ok_player: "writer_ok (encode_arena_player p)"
  unfolding encode_arena_player_def w_cooldown_array_def w_equipped_skill_trees_def
    w_active_statuses_def
  by (rule writers_ok writer_ok_options writer_ok_entries)+

lemma event_body_writer_ok: "writer_ok (event_encode_body e)"
  unfolding event_encode_body_def encode_control_body_def
  apply (cases e)
  apply (simp_all add: event_encode_defs event_lists_def encode_arena_state_snapshot_def
      encode_arena_delta_snapshot_def encode_lobby_directory_snapshot_def encode_game_lobby_snapshot_def
      encode_arena_effect_batch_def encode_arena_combat_text_batch_def)
  by (rule writers_ok writer_ok_record writer_ok_options writer_ok_tiles writer_ok_entries writer_ok_player)+

section \<open>Properties\<close>

lemma transport_metadata_ok:
  "transport_metadata e = (channel, kind) \<Longrightarrow> kind_on_channel channel kind \<and> event_transport_ok channel kind"
  by (cases e) auto

lemma event_decode_safe:
  "event_decode_packet packet \<noteq> Inl Panic \<and>
   (\<forall>h e. event_decode_packet packet = Inr (h, e) \<longrightarrow> wf_event e \<and>
      event_transport_ok (hd_channel_id h) (hd_packet_kind h) \<and>
      length packet = 16 + unat (hd_payload_len h))"
proof (cases "header_decode packet")
  case (Inr hp)
  obtain h payload where hp: "hp = (h, payload)" by (cases hp)
  have w: "packet = header_encode h payload" "length payload = unat (hd_payload_len h)"
    using header_encode_decode [OF Inr [unfolded hp]] by (simp_all add: wf_header_def)
  then have len: "length payload \<le> U16_MAX" using unat_u16_le by simp
  show ?thesis
    using decode_message_ok [where body = event_decode_body, OF event_body_ok len] Inr hp w
    by (cases "decode_message event_decode_body ''ServerControlEvent'' payload")
      (auto simp: event_decode_packet_def header_encode_def)
qed (simp add: event_decode_packet_def)

text \<open>
  C35: Every event the server encodes is read back by the client as the same event, for all
  twenty-five kinds of events and all their nested lists, with the sequence number and tick of
  the packet and on the channel of its kind.
\<close>

theorem server_event_roundtrip:
  assumes "wf_event e" "event_encode_packet e sq sim_tick = Inr packet"
  shows "\<exists>h. event_decode_packet packet = Inr (h, e) \<and> hd_seq h = sq \<and> hd_sim_tick h = sim_tick \<and>
    (hd_channel_id h, hd_packet_kind h) = transport_metadata e"
proof -
  obtain channel kind where t: "transport_metadata e = (channel, kind)" by fastforce
  obtain b where b: "event_kind_byte e = Inr b" using event_kind_byte_total by blast
  obtain payload where p: "w_seq [w_u8 b, event_encode_body e] [] = Inr payload"
    "frame_packet channel kind sq sim_tick payload = Inr packet"
    using assms(2) t b by (auto simp: event_encode_packet_def and_then_eq_Inr)
  note frame = frame_packet_decodes [OF p(2)]
  have "decode_message event_decode_body ''ServerControlEvent'' payload = Inr e"
    by (rule decode_message_rt [where body = event_decode_body, OF event_body_rt [OF assms(1) b] p(1)])
      (use frame in blast)
  with frame t transport_metadata_ok [OF t] show ?thesis
    by (auto simp: event_decode_packet_def)
qed

theorem server_event_roundtrip_witness:
  "\<exists>packet h. event_encode_packet (RoundWonEvent (RoundNumber 2) TeamB 1 1) 5 6 = Inr packet \<and>
     event_decode_packet packet = Inr (h, RoundWonEvent (RoundNumber 2) TeamB 1 1)"
proof -
  let ?e = "RoundWonEvent (RoundNumber 2) TeamB 1 1"
  obtain packet where "frame_packet ControlChannel ControlEvent 5 6 [13, 2, 2, 1, 1] = Inr packet"
    by (rule frame_packet_ok [of "[13, 2, 2, 1, 1]" ControlChannel ControlEvent]) (simp_all add: U16_MAX_def)
  then have enc: "event_encode_packet ?e 5 6 = Inr packet"
    by (simp add: event_encode_packet_def control_kind_byte_def event_encode_body_def
        encode_control_body_def encode_round_won_event_def w_seq.simps w_bytes_def)
  have "wf_event ?e" by (simp add: wf_round_unat)
  from server_event_roundtrip [OF this enc] show ?thesis using enc by blast
qed

text \<open>
  C36: The event decoder is safe on arbitrary bytes: no index is out of range, and an accepted
  event satisfies the invariants of its types (non-zero ids, valid names, valid text, arrays of
  five) and came in a packet of the declared length on a channel for events.
\<close>

theorem event_decoder_safe:
  "case event_decode_packet packet of
     Inr (h, v) \<Rightarrow> wf_event v \<and> event_transport_ok (hd_channel_id h) (hd_packet_kind h) \<and>
       length packet = 16 + unat (hd_payload_len h)
   | Inl e \<Rightarrow> e \<noteq> Panic"
  using event_decode_safe [of packet] by (auto split: sum.splits)

text \<open>
  Encoding an event never panics: no event reaches an \<open>unreachable!\<close> arm of the routing, and
  the only errors are a payload or list that exceeds its length field and a text that exceeds
  its limit.
\<close>

lemma event_encoder_safe: "event_encode_packet e sq sim_tick = Inl err \<Longrightarrow> size_error err"
proof -
  assume err: "event_encode_packet e sq sim_tick = Inl err"
  obtain channel kind where t: "transport_metadata e = (channel, kind)" by fastforce
  obtain b where b: "event_kind_byte e = Inr b" using event_kind_byte_total by blast
  have w: "writer_ok (w_seq [w_u8 b, event_encode_body e])"
    by (rule writers_ok event_body_writer_ok)+
  show ?thesis
  proof (cases "w_seq [w_u8 b, event_encode_body e] []")
    case (Inl e')
    with err t b w show ?thesis by (auto simp: event_encode_packet_def writer_ok_def)
  next
    case (Inr payload)
    have "length payload \<le> U16_MAX \<Longrightarrow> frame_packet channel kind sq sim_tick payload \<noteq> Inl err"
      using transport_metadata_ok [OF t] by (metis frame_packet_ok Inr_not_Inl)
    with err t b Inr show ?thesis
      by (auto simp: event_encode_packet_def frame_packet_def split: if_splits)
  qed
qed

lemma event_encoder_safe_example:
  "size_error (Err (StringLengthOutOfBounds ''message'' 201 200))"
  by (rule event_encoder_safe [of "ErrorEvent (replicate 201 65)" 0 0]) code_simp

end
