(* ===== verification/Sim_Types.thy ===== *)
theory Sim_Types
  imports Complex_Main Domain
begin

text \<open>
  The data of the combat simulation (\<open>game_sim/src/lib.rs\<close>) and of the authored content it
  runs on (\<open>game_content/src/model.rs\<close>): payloads and the statuses they apply, melee attacks,
  skill behaviours and the simulation configuration; players, statuses, casts, projectiles,
  deployables, events and the world. Coordinates are \<open>i16\<close> values as signed words, fixed
  arrays of five are lists of length five, and \<open>f32\<close> values are finite binary32 numbers,
  kept as the rationals they denote.
\<close>

type_synonym i8 = "8 word"
type_synonym i32 = "32 word"
type_synonym f32 = rat

section \<open>Authored content\<close>

datatype skill_effect_kind =
    FxMeleeSwing | FxSkillShot | FxDashTrail | FxBurst | FxNova | FxBeam | FxHitSpark

datatype combat_value_kind = Damage | Heal

datatype status_kind =
    Poison | Hot | Chill | Root | Haste | Silence | Stun | Sleep | Shield | Stealth | Reveal
  | Fear | HealingReduction

datatype dispel_scope = DispelPositive | DispelNegative | DispelAll

record dispel_definition =
  dd_scope :: dispel_scope
  dd_max_statuses :: u8

text \<open>A payload may apply a status, which holds the payloads of its expiry and its dispel.\<close>

datatype effect_payload =
  EffectPayload
    (pl_kind: combat_value_kind)
    (pl_amount: u16)
    (pl_amount_max: "u16 option")
    (pl_crit_chance_bps: u16)
    (pl_crit_multiplier_bps: u16)
    (pl_status: "status_definition option")
    (pl_interrupt_silence_duration_ms: "u16 option")
    (pl_dispel: "dispel_definition option")
and status_definition =
  StatusDefinition
    (sd_kind: status_kind)
    (sd_duration_ms: u16)
    (sd_tick_interval_ms: "u16 option")
    (sd_magnitude: u16)
    (sd_max_stacks: u8)
    (sd_trigger_duration_ms: "u16 option")
    (sd_expire_payload: "effect_payload option")
    (sd_dispel_payload: "effect_payload option")

definition amount_min :: "effect_payload \<Rightarrow> u16" where
  "amount_min p = pl_amount p"

definition amount_max :: "effect_payload \<Rightarrow> u16" where
  "amount_max p = (case pl_amount_max p of Some m \<Rightarrow> m | None \<Rightarrow> pl_amount p)"

definition can_crit :: "effect_payload \<Rightarrow> bool" where
  "can_crit p \<longleftrightarrow> 0 < pl_crit_chance_bps p"

datatype proc_trigger_kind = OnHit | OnCrit | OnHeal | OnTick

record proc_reset_definition =
  prd_trigger :: proc_trigger_kind
  prd_source_skill_ids :: "rstring list"
  prd_reset_skill_ids :: "rstring list"
  prd_instacast_skill_ids :: "rstring list"
  prd_instacast_costs_mana :: bool
  prd_instacast_starts_cooldown :: bool
  prd_internal_cooldown_ms :: "u16 option"

record melee_definition =
  md_tree :: skill_tree
  md_id :: rstring
  md_name :: rstring
  md_description :: rstring
  md_audio_cue_id :: "rstring option"
  md_cooldown_ms :: u16
  md_range :: u16
  md_radius :: u16
  md_effect :: skill_effect_kind
  md_payload :: effect_payload

text \<open>The fields of each behaviour in the order of the source.\<close>

datatype skill_behavior =
    SbProjectile (sb_cooldown: u16) (sb_cast_time: u16) (sb_mana: u16)
      (sb_speed: u16) (sb_range: u16) (sb_radius: u16) (sb_effect: skill_effect_kind)
      (sb_payload: effect_payload)
  | SbBeam (sb_cooldown: u16) (sb_cast_time: u16) (sb_mana: u16)
      (sb_range: u16) (sb_radius: u16) (sb_effect: skill_effect_kind) (sb_payload: effect_payload)
  | SbDash (sb_cooldown: u16) (sb_cast_time: u16) (sb_mana: u16)
      (sb_distance: u16) (sb_effect: skill_effect_kind) (sb_impact_radius: "u16 option")
      (sb_payload_opt: "effect_payload option")
  | SbBurst (sb_cooldown: u16) (sb_cast_time: u16) (sb_mana: u16)
      (sb_range: u16) (sb_radius: u16) (sb_effect: skill_effect_kind) (sb_payload: effect_payload)
  | SbNova (sb_cooldown: u16) (sb_cast_time: u16) (sb_mana: u16)
      (sb_radius: u16) (sb_effect: skill_effect_kind) (sb_payload: effect_payload)
  | SbTeleport (sb_cooldown: u16) (sb_cast_time: u16) (sb_mana: u16)
      (sb_distance: u16) (sb_effect: skill_effect_kind)
  | SbChannel (sb_cooldown: u16) (sb_cast_time: u16) (sb_mana: u16)
      (sb_range: u16) (sb_radius: u16) (sb_duration: u16) (sb_tick_interval: u16)
      (sb_effect: skill_effect_kind) (sb_payload: effect_payload)
  | SbPassive (sb_player_speed_bps: u16) (sb_projectile_speed_bps: u16) (sb_cooldown_bps: u16)
      (sb_cast_time_bps: u16) (sb_proc_reset: "proc_reset_definition option")
  | SbSummon (sb_cooldown: u16) (sb_cast_time: u16) (sb_mana: u16)
      (sb_distance: u16) (sb_radius: u16) (sb_duration: u16) (sb_hit_points: u16) (sb_range: u16)
      (sb_tick_interval: u16) (sb_effect: skill_effect_kind) (sb_payload: effect_payload)
  | SbWard (sb_cooldown: u16) (sb_cast_time: u16) (sb_mana: u16)
      (sb_distance: u16) (sb_radius: u16) (sb_duration: u16) (sb_hit_points: u16)
      (sb_effect: skill_effect_kind)
  | SbTrap (sb_cooldown: u16) (sb_cast_time: u16) (sb_mana: u16)
      (sb_distance: u16) (sb_radius: u16) (sb_duration: u16) (sb_hit_points: u16)
      (sb_effect: skill_effect_kind) (sb_payload: effect_payload)
  | SbBarrier (sb_cooldown: u16) (sb_cast_time: u16) (sb_mana: u16)
      (sb_distance: u16) (sb_radius: u16) (sb_duration: u16) (sb_hit_points: u16)
      (sb_effect: skill_effect_kind)
  | SbAura (sb_cooldown: u16) (sb_cast_time: u16) (sb_mana: u16)
      (sb_distance: u16) (sb_radius: u16) (sb_duration: u16) (sb_hit_points_opt: "u16 option")
      (sb_toggleable: bool) (sb_tick_interval: u16) (sb_cast_start: "effect_payload option")
      (sb_cast_end: "effect_payload option") (sb_effect: skill_effect_kind)
      (sb_payload: effect_payload)

definition cooldown_ms :: "skill_behavior \<Rightarrow> u16" where
  "cooldown_ms b = (case b of SbPassive _ _ _ _ _ \<Rightarrow> 0 | _ \<Rightarrow> sb_cooldown b)"

definition cast_time_ms :: "skill_behavior \<Rightarrow> u16" where
  "cast_time_ms b = (case b of SbPassive _ _ _ _ _ \<Rightarrow> 0 | _ \<Rightarrow> sb_cast_time b)"

definition mana_cost :: "skill_behavior \<Rightarrow> u16" where
  "mana_cost b = (case b of SbPassive _ _ _ _ _ \<Rightarrow> 0 | _ \<Rightarrow> sb_mana b)"

record skill_definition =
  sk_tree :: skill_tree
  sk_tier :: u8
  sk_id :: rstring
  sk_name :: rstring
  sk_description :: rstring
  sk_audio_cue_id :: "rstring option"
  sk_behavior :: skill_behavior

section \<open>Configuration and maps\<close>

record passive_bonus_caps =
  pbc_player_speed_bps :: u16
  pbc_projectile_speed_bps :: u16
  pbc_cooldown_bps :: u16
  pbc_cast_time_bps :: u16

record movement_modifier_caps =
  mmc_chill_bps :: u16
  mmc_haste_bps :: u16
  mmc_status_total_min_bps :: i16
  mmc_status_total_max_bps :: i16
  mmc_overall_total_min_bps :: i16
  mmc_overall_total_max_bps :: i16
  mmc_effective_scale_min_bps :: u16
  mmc_effective_scale_max_bps :: u16

record crowd_control_dr =
  ccd_window_ms :: u16
  ccd_stages_bps :: "u16 list"

record training_dummy_configuration =
  tdc_base_hit_points :: u16
  tdc_health_multiplier :: u16
  tdc_execute_threshold_bps :: u16

record simulation_configuration =
  sc_combat_frame_ms :: u16
  sc_player_radius_units :: u16
  sc_vision_radius_units :: u16
  sc_spawn_spacing_units :: i16
  sc_default_aim_x_units :: i16
  sc_default_aim_y_units :: i16
  sc_mana_regen_per_second :: u16
  sc_global_projectile_speed_bonus_bps :: u16
  sc_teleport_resolution_steps :: u16
  sc_movement_audio_step_interval_ms :: u16
  sc_movement_audio_radius_units :: u16
  sc_stealth_audio_radius_units :: u16
  sc_brush_movement_audible_percent :: u8
  sc_passive_bonus_caps :: passive_bonus_caps
  sc_movement_modifier_caps :: movement_modifier_caps
  sc_crowd_control_dr :: crowd_control_dr
  sc_training_dummy :: training_dummy_configuration

datatype arena_map_obstacle_kind = MapPillar | MapShrub

datatype arena_map_feature_kind = MapTrainingDummyResetFull | MapTrainingDummyExecute

record arena_map_obstacle =
  amo_kind :: arena_map_obstacle_kind
  amo_center_x :: i16
  amo_center_y :: i16
  amo_half_width :: u16
  amo_half_height :: u16

record arena_map_feature =
  amf_kind :: arena_map_feature_kind
  amf_center_x :: i16
  amf_center_y :: i16

record arena_map_definition =
  am_map_id :: rstring
  am_width_tiles :: u16
  am_height_tiles :: u16
  am_tile_units :: u16
  am_width_units :: u16
  am_height_units :: u16
  am_objective_target_ms :: u32
  am_footprint_mask :: "u8 list"
  am_objective_mask :: "u8 list"
  am_team_a_anchors :: "(i16 \<times> i16) list"
  am_team_b_anchors :: "(i16 \<times> i16) list"
  am_obstacles :: "arena_map_obstacle list"
  am_features :: "arena_map_feature list"

section \<open>Simulation state\<close>

record movement_intent =
  mi_x :: i8
  mi_y :: i8

datatype sim_obstacle_kind = Pillar | Shrub | Barrier

record arena_obstacle =
  ob_kind :: sim_obstacle_kind
  ob_center_x :: i16
  ob_center_y :: i16
  ob_half_width :: u16
  ob_half_height :: u16

datatype sim_effect_kind =
    MeleeSwing | SkillShot | DashTrail | Burst | Nova | Beam | HitSpark | Footstep | BrushRustle
  | StealthFootstep

record arena_effect =
  ef_kind :: sim_effect_kind
  ef_owner :: player_id
  ef_slot :: u8
  ef_x :: i16
  ef_y :: i16
  ef_target_x :: i16
  ef_target_y :: i16
  ef_radius :: u16

datatype sim_deployable_kind =
    DkSummon | DkWard | DkTrap | DkBarrier | DkAura | DkTrainingDummyResetFull
  | DkTrainingDummyExecute

datatype sim_cast_mode = ModeWindup | ModeChannel

datatype sim_cast_cancel_reason =
    CancelManual | CancelMovement | CancelControlLoss | CancelDefeat | CancelInterrupt

datatype sim_miss_reason = NoTarget | Blocked | MissExpired

datatype sim_target_kind = TargetPlayerKind | TargetDeployableKind

datatype sim_status_removed_reason =
    RemovedExpired | RemovedDispelled | RemovedDamageBroken | RemovedDefeat | RemovedShieldConsumed

datatype sim_trigger_reason = TriggerExpire | TriggerDispel

record sim_removed_status =
  rs_source :: player_id
  rs_slot :: u8
  rs_kind :: status_kind
  rs_stacks :: u8
  rs_remaining_ms :: u16

datatype target_entity = TargetPlayer player_id | TargetDeployable u32

datatype simulation_event =
    PlayerMoved player_id i16 i16
  | EffectSpawned arena_effect
  | DamageApplied (ev_attacker: player_id) (ev_target: player_id) (ev_slot: u8) (ev_amount: u16)
      (ev_critical: bool) (ev_remaining_hit_points: u16) (ev_defeated: bool)
      (ev_status_kind: "status_kind option") (ev_trigger: "sim_trigger_reason option")
  | HealingApplied (ev_source: player_id) (ev_target: player_id) (ev_slot: u8) (ev_amount: u16)
      (ev_critical: bool) (ev_resulting_hit_points: u16)
      (ev_status_kind: "status_kind option") (ev_trigger: "sim_trigger_reason option")
  | StatusApplied (ev_source: player_id) (ev_target: player_id) (ev_slot: u8) (ev_kind: status_kind)
      (ev_stacks: u8) (ev_stack_delta: u8) (ev_remaining_ms: u16)
  | StatusRemoved (ev_source: player_id) (ev_target: player_id) (ev_slot: u8) (ev_kind: status_kind)
      (ev_stacks: u8) (ev_remaining_ms: u16) (ev_removed_reason: sim_status_removed_reason)
  | CastStarted player_id u8 string sim_cast_mode u16
  | CastCompleted player_id u8 string
  | CastCanceled player_id u8 sim_cast_cancel_reason
  | ChannelTick player_id u8 u16 string
  | ImpactHit player_id u8 sim_target_kind u32
  | ImpactMiss player_id u8 sim_miss_reason
  | DispelCast player_id u8 dispel_scope u8
  | DispelResult player_id u8 player_id "sim_removed_status list" u8
  | TriggerResolved player_id u8 status_kind sim_trigger_reason sim_target_kind u32
      combat_value_kind u16
  | Defeat "player_id option" player_id
  | DeployableSpawned u32 player_id sim_deployable_kind i16 i16 u16
  | DeployableDamaged player_id u32 u16 u16 bool

datatype simulation_error =
    DuplicateSimPlayer player_id
  | SimPlayerMissing player_id
  | PlayerAlreadyDefeated player_id
  | InvalidHitPoints player_id u16
  | MovementComponentOutOfRange string i8
  | InvalidSkillSlot u8
  | SkillSlotEmpty u8

record queued_actions =
  qa_primary :: bool
  qa_cast_slot :: "u8 option"
  qa_cast_self_target :: bool

record status_instance =
  si_source :: player_id
  si_slot :: u8
  si_kind :: status_kind
  si_stacks :: u8
  si_remaining_ms :: u16
  si_tick_interval_ms :: "u16 option"
  si_tick_progress_ms :: u16
  si_magnitude :: u16
  si_max_stacks :: u8
  si_trigger_duration_ms :: "u16 option"
  si_shield_remaining :: u16
  si_expire_payload :: "effect_payload option"
  si_dispel_payload :: "effect_payload option"

datatype active_cast_mode =
    Windup
  | Channel (cm_self_target: bool) (cm_range: u16) (cm_radius: u16) (cm_tick_interval_ms: u16)
      (cm_tick_progress_ms: u16) (cm_effect_kind: sim_effect_kind) (cm_payload: effect_payload)

record pending_cast =
  pc_slot :: u8
  pc_slot_index :: nat
  pc_self_target :: bool
  pc_remaining_ms :: u16
  pc_total_ms :: u16
  pc_just_started :: bool
  pc_mode :: active_cast_mode

record next_cast_proc =
  ncp_passive_slot :: u8
  ncp_skill_ids :: "rstring list"
  ncp_costs_mana :: bool
  ncp_starts_cooldown :: bool

record cc_dr_state =
  dr_stage :: u8
  dr_remaining_ms :: u16

record sim_player =
  sp_team :: team_side
  sp_spawn_x :: i16
  sp_spawn_y :: i16
  sp_spawn_aim_x :: i16
  sp_spawn_aim_y :: i16
  sp_x :: i16
  sp_y :: i16
  sp_aim_x :: i16
  sp_aim_y :: i16
  sp_hit_points :: u16
  sp_max_hit_points :: u16
  sp_mana :: u16
  sp_max_mana :: u16
  sp_move_speed :: u16
  sp_alive :: bool
  sp_moving :: bool
  sp_movement_intent :: movement_intent
  sp_queued_actions :: queued_actions
  sp_active_cast :: "pending_cast option"
  sp_melee :: melee_definition
  sp_skills :: "skill_definition option list"
  sp_primary_cooldown_ms :: u16
  sp_slot_cooldown_ms :: "u16 list"
  sp_proc_cooldown_ms :: "u16 list"
  sp_mana_regen_progress :: u16
  sp_movement_audio_progress_ms :: u16
  sp_statuses :: "status_instance list"
  sp_next_cast_procs :: "next_cast_proc list"
  sp_hard_cc_dr :: cc_dr_state
  sp_movement_cc_dr :: cc_dr_state
  sp_cast_cc_dr :: cc_dr_state

record projectile_state =
  pr_owner :: player_id
  pr_slot :: u8
  pr_kind :: sim_effect_kind
  pr_x :: i16
  pr_y :: i16
  pr_direction_x :: f32
  pr_direction_y :: f32
  pr_speed :: u16
  pr_remaining_range :: i32
  pr_radius :: u16
  pr_payload :: effect_payload

datatype deployable_behavior =
    DbSummon (db_range: u16) (db_tick_interval_ms: u16) (db_tick_progress_ms: u16)
      (db_effect_kind: sim_effect_kind) (db_payload: effect_payload)
  | DbWard
  | DbTrap (db_payload: effect_payload)
  | DbBarrier
  | DbAura (db_tick_interval_ms: u16) (db_tick_progress_ms: u16)
      (db_effect_kind: sim_effect_kind) (db_payload: effect_payload)
      (db_cast_start_payload: "effect_payload option") (db_cast_end_payload: "effect_payload option")
      (db_anchor_player: "player_id option") (db_toggleable: bool)
  | DbTrainingDummyResetFull
  | DbTrainingDummyExecute

record deployable_state =
  dp_id :: u32
  dp_owner :: player_id
  dp_slot :: u8
  dp_team :: team_side
  dp_kind :: sim_deployable_kind
  dp_x :: i16
  dp_y :: i16
  dp_radius :: u16
  dp_hit_points :: u16
  dp_max_hit_points :: u16
  dp_remaining_ms :: u16
  dp_blocks_movement :: bool
  dp_blocks_projectiles :: bool
  dp_behavior :: deployable_behavior

datatype cc_dr_bucket = BucketHard | BucketMovement | BucketCast

record passive_modifiers =
  pm_player_speed :: u16
  pm_projectile_speed :: u16
  pm_cooldown :: u16
  pm_cast_time :: u16

record simulation_world =
  w_configuration :: simulation_configuration
  w_arena_width_units :: u16
  w_arena_height_units :: u16
  w_arena_width_tiles :: u16
  w_arena_height_tiles :: u16
  w_arena_tile_units :: u16
  w_footprint_mask :: "u8 list"
  w_obstacles :: "arena_obstacle list"
  w_players :: "(player_id, sim_player) btree_map"
  w_projectiles :: "projectile_state list"
  w_deployables :: "deployable_state list"
  w_next_deployable_id :: u32
  w_elapsed_ms :: u32
  w_initial_roll_state :: u64
  w_roll_state :: u64

end
