(* ===== verification/Sim_Float.thy ===== *)
theory Sim_Float
  imports Sim_Types
begin

text \<open>
  Binary32 arithmetic as far as the simulation uses it. A finite \<open>f32\<close> is the rational it
  denotes; an operation is the exact one followed by rounding to the nearest number of 24
  significant bits, ties to even, as IEEE 754 and Rust prescribe for \<open>+ - * /\<close> and \<open>sqrt\<close>. All
  inputs come from 16-bit integers and the guards on small denominators keep every value below
  \<open>2 ^ 60\<close> in size, so infinities and NaN do not arise; the least exponent is respected.
\<close>

section \<open>Rounding\<close>

definition two_powi :: "int \<Rightarrow> rat" where
  "two_powi e = (if 0 \<le> e then 2 ^ nat e else 1 / 2 ^ nat (- e))"

text \<open>The number of binary digits.\<close>

function digits2 :: "int \<Rightarrow> int" where
  "digits2 n = (if n \<le> 0 then 0 else 1 + digits2 (n div 2))"
  by pat_completeness auto

termination
  by (relation "measure nat") auto

declare digits2.simps [simp del]

text \<open>\<open>2 ^ ilog2 x \<le> x < 2 ^ (ilog2 x + 1)\<close> for positive \<open>x\<close>\<close>

definition ilog2 :: "rat \<Rightarrow> int" where
  "ilog2 x =
     (case quotient_of x of (n, d) \<Rightarrow>
        let e = digits2 n - digits2 d in
        if two_powi e \<le> x then e else e - 1)"

definition round_half_even :: "rat \<Rightarrow> int" where
  "round_half_even x =
     (let f = \<lfloor>x\<rfloor>; r = x - of_int f in
      if r < 1 / 2 then f else if 1 / 2 < r then f + 1 else if even f then f else f + 1)"

definition ulp :: "rat \<Rightarrow> rat" where
  "ulp x = two_powi (max (ilog2 \<bar>x\<bar> - 23) (- 149))"

definition fl :: "rat \<Rightarrow> f32" where
  "fl x = (if x = 0 then 0 else of_int (round_half_even (x / ulp x)) * ulp x)"

abbreviation f_add :: "f32 \<Rightarrow> f32 \<Rightarrow> f32" where "f_add a b \<equiv> fl (a + b)"
abbreviation f_sub :: "f32 \<Rightarrow> f32 \<Rightarrow> f32" where "f_sub a b \<equiv> fl (a - b)"
abbreviation f_mul :: "f32 \<Rightarrow> f32 \<Rightarrow> f32" where "f_mul a b \<equiv> fl (a * b)"
abbreviation f_div :: "f32 \<Rightarrow> f32 \<Rightarrow> f32" where "f_div a b \<equiv> fl (a / b)"

definition F32_EPSILON :: f32 where
  "F32_EPSILON = 1 / 2 ^ 23"

section \<open>Square root\<close>

function isqrt :: "int \<Rightarrow> int" where
  "isqrt n =
     (if n \<le> 0 then 0
      else let r = 2 * isqrt (n div 4) in if (r + 1) * (r + 1) \<le> n then r + 1 else r)"
  by pat_completeness auto

termination
  by (relation "measure nat") auto

declare isqrt.simps [simp del]

text \<open>The root in units of its last place, rounded to nearest, ties to even.\<close>

definition f_sqrt :: "f32 \<Rightarrow> f32" where
  "f_sqrt x =
     (if x \<le> 0 then 0
      else
        let u = two_powi (ilog2 x div 2 - 23);
            q = x / (u * u);
            m = isqrt \<lfloor>q\<rfloor>;
            mid = (of_int m + 1 / 2) * (of_int m + 1 / 2) in
        of_int (if q < mid then m else if mid < q then m + 1 else if even m then m else m + 1) * u)"

section \<open>Conversions\<close>

definition f32_of_i16 :: "i16 \<Rightarrow> f32" where
  "f32_of_i16 x = of_int (sint x)"

definition f32_of_u16 :: "u16 \<Rightarrow> f32" where
  "f32_of_u16 x = of_int (uint x)"

text \<open>\<open>f32::round\<close>: half away from zero.\<close>

definition f32_round :: "f32 \<Rightarrow> int" where
  "f32_round x = (if 0 \<le> x then \<lfloor>x + 1 / 2\<rfloor> else - \<lfloor>- x + 1 / 2\<rfloor>)"

definition round_f32_to_i32 :: "f32 \<Rightarrow> int" where
  "round_f32_to_i32 value = max (- 2147483648) (min 2147483647 (f32_round value))"

definition saturating_i16 :: "int \<Rightarrow> i16" where
  "saturating_i16 value = of_int (max (- 32768) (min 32767 value))"

text \<open>The value of a plain \<open>i32\<close> expression in the release build.\<close>

definition wrap_i32 :: "int \<Rightarrow> int" where
  "wrap_i32 i = sint (of_int i :: i32)"

section \<open>Facts\<close>

lemma isqrt_correct: "0 \<le> n \<Longrightarrow> 0 \<le> isqrt n \<and> isqrt n * isqrt n \<le> n \<and> n < (isqrt n + 1) * (isqrt n + 1)"
proof (induction n rule: isqrt.induct)
  case (1 n)
  show ?case
  proof (cases "n = 0")
    case False
    define s where "s = isqrt (n div 4)"
    have IH: "0 \<le> s" "s * s \<le> n div 4" "n div 4 < (s + 1) * (s + 1)"
      using 1 False by (simp_all add: s_def)
    have "4 * (s * s) \<le> n" using IH(2) by linarith
    moreover have "n < 4 * ((s + 1) * (s + 1))" using IH(3) by linarith
    ultimately show ?thesis
      using False IH(1) 1(2) by (auto simp: isqrt.simps [of n] s_def [symmetric] Let_def algebra_simps)
  qed (simp add: isqrt.simps)
qed

lemma sint_saturating_i16: "sint (saturating_i16 v) = max (- 32768) (min 32767 v)"
proof -
  have "signed_take_bit 15 (max (- 32768) (min 32767 v)) = max (- 32768) (min 32767 v)"
    by (rule signed_take_bit_int_eq_self) simp_all
  then show ?thesis
    by (simp only: saturating_i16_def signed_of_int len_num0 len_bit0 len_of_numeral_defs) simp
qed

lemma round_half_even_error: "\<bar>of_int (round_half_even x) - x\<bar> \<le> (1 / 2 :: rat)"
proof -
  have "of_int \<lfloor>x\<rfloor> \<le> x" "x < of_int \<lfloor>x\<rfloor> + 1" by linarith+
  then show ?thesis by (auto simp: round_half_even_def Let_def abs_le_iff)
qed

lemma wrap_i32_id: "- 2147483648 \<le> i \<Longrightarrow> i \<le> 2147483647 \<Longrightarrow> wrap_i32 i = i"
  by (simp only: wrap_i32_def signed_of_int len_num0 len_bit0 len_of_numeral_defs)
    (simp add: signed_take_bit_int_eq_self)

lemma two_powi_pos [simp]: "0 < two_powi e"
  by (simp add: two_powi_def)

lemma ulp_pos [simp]: "0 < ulp x"
  by (simp add: ulp_def)

text \<open>Rounding is off by at most half a unit in the last place.\<close>

lemma fl_error: "\<bar>fl x - x\<bar> \<le> ulp x / 2"
proof (cases "x = 0")
  case False
  have "fl x - x = (of_int (round_half_even (x / ulp x)) - x / ulp x) * ulp x"
    using less_imp_neq [OF ulp_pos [of x]] by (simp add: fl_def False left_diff_distrib)
  then have "\<bar>fl x - x\<bar> = \<bar>of_int (round_half_even (x / ulp x)) - x / ulp x\<bar> * ulp x"
    by (simp add: abs_mult less_imp_le)
  also have "\<dots> \<le> 1 / 2 * ulp x"
    by (intro mult_right_mono round_half_even_error) (simp add: less_imp_le)
  finally show ?thesis by simp
qed (simp add: fl_def less_imp_le)

end
