(* ===== verification/Sim_Geometry.thy ===== *)
theory Sim_Geometry
  imports Sim_Float "HOL-Library.Monad_Syntax"
begin

text \<open>
  Geometry and movement (\<open>game_sim/src/geometry.rs\<close>, \<open>game_sim/src/helpers.rs\<close>): segments against
  rectangles, aim and distances in binary32, the footprint of the map and the resolution of a
  move. Plain \<open>i16\<close> and \<open>i32\<close> arithmetic wraps as in the release build the server is shipped in;
  \<open>clamp\<close> panics when its bounds are swapped, which is the value \<open>None\<close>.
\<close>

type_synonym point = "i16 \<times> i16"

definition clamp_int :: "int \<Rightarrow> int \<Rightarrow> int \<Rightarrow> int option" where
  "clamp_int lo hi x = (if lo \<le> hi then Some (max lo (min hi x)) else None)"

text \<open>\<open>i16::try_from(n).unwrap_or(i16::MAX)\<close>, \<open>i16::saturating_add\<close>\<close>

definition i16_or_max :: "int \<Rightarrow> i16" where
  "i16_or_max n = (if n \<le> 32767 then of_int n else 32767)"

definition sat_add_i16 :: "i16 \<Rightarrow> i16 \<Rightarrow> i16" where
  "sat_add_i16 a b = saturating_i16 (sint a + sint b)"

definition sat_sub_i16 :: "i16 \<Rightarrow> i16 \<Rightarrow> i16" where
  "sat_sub_i16 a b = saturating_i16 (sint a - sint b)"

section \<open>Obstacles\<close>

definition obstacle_blocks_movement :: "arena_obstacle \<Rightarrow> bool" where
  "obstacle_blocks_movement ob \<longleftrightarrow> ob_kind ob = Pillar \<or> ob_kind ob = Barrier"

definition obstacle_blocks_projectiles :: "arena_obstacle \<Rightarrow> bool" where
  "obstacle_blocks_projectiles ob \<longleftrightarrow> ob_kind ob = Pillar \<or> ob_kind ob = Barrier"

definition obstacle_blocks_vision :: "arena_obstacle \<Rightarrow> bool" where
  "obstacle_blocks_vision ob \<longleftrightarrow> ob_kind ob = Pillar \<or> ob_kind ob = Shrub"

text \<open>Left, right, top, bottom.\<close>

definition rect_bounds :: "arena_obstacle \<Rightarrow> i16 \<times> i16 \<times> i16 \<times> i16" where
  "rect_bounds ob =
     (ob_center_x ob - i16_or_max (uint (ob_half_width ob)),
      ob_center_x ob + i16_or_max (uint (ob_half_width ob)),
      ob_center_y ob - i16_or_max (uint (ob_half_height ob)),
      ob_center_y ob + i16_or_max (uint (ob_half_height ob)))"

definition circle_intersects_rect :: "i16 \<Rightarrow> i16 \<Rightarrow> u16 \<Rightarrow> arena_obstacle \<Rightarrow> bool option" where
  "circle_intersects_rect x y radius ob =
     (case rect_bounds ob of (left, right, upper, lower) \<Rightarrow>
        do { closest_x \<leftarrow> clamp_int (sint left) (sint right) (sint x);
             closest_y \<leftarrow> clamp_int (sint upper) (sint lower) (sint y);
             let dx = sint (x - of_int closest_x);
             let dy = sint (y - of_int closest_y);
             Some (wrap_i32 (dx * dx + dy * dy) \<le> wrap_i32 (uint radius * uint radius)) })"

definition obstacle_contains_point :: "i16 \<Rightarrow> i16 \<Rightarrow> arena_obstacle \<Rightarrow> bool" where
  "obstacle_contains_point x y ob =
     (case rect_bounds ob of (left, right, upper, lower) \<Rightarrow>
        sint left \<le> sint x \<and> sint x \<le> sint right \<and> sint upper \<le> sint y \<and> sint y \<le> sint lower)"

section \<open>Segments\<close>

text \<open>The new \<open>t_min\<close> and \<open>t_max\<close>, or \<open>None\<close> when the function returns \<open>false\<close>.\<close>

definition update_segment_slab ::
  "f32 \<Rightarrow> f32 \<Rightarrow> f32 \<Rightarrow> f32 \<Rightarrow> f32 \<Rightarrow> f32 \<Rightarrow> (f32 \<times> f32) option" where
  "update_segment_slab start delta min_bound max_bound t_min t_max =
     (if \<bar>delta\<bar> \<le> F32_EPSILON then
        if min_bound \<le> start \<and> start \<le> max_bound then Some (t_min, t_max) else None
      else
        let inverse_delta = f_div 1 delta;
            a = f_mul (f_sub min_bound start) inverse_delta;
            b = f_mul (f_sub max_bound start) inverse_delta;
            (entry, exit) = (if b < a then (b, a) else (a, b));
            t_min = max t_min entry;
            t_max = min t_max exit in
        if t_min \<le> t_max then Some (t_min, t_max) else None)"

definition segment_rect_intersection_t :: "point \<Rightarrow> point \<Rightarrow> arena_obstacle \<Rightarrow> f32 option" where
  "segment_rect_intersection_t start end' ob =
     (case rect_bounds ob of (left, right, upper, lower) \<Rightarrow>
        do { (t_min, t_max) \<leftarrow>
               update_segment_slab (f32_of_i16 (fst start)) (f32_of_i16 (fst end' - fst start))
                 (f32_of_i16 left) (f32_of_i16 right) 0 1;
             (t_min, t_max) \<leftarrow>
               update_segment_slab (f32_of_i16 (snd start)) (f32_of_i16 (snd end' - snd start))
                 (f32_of_i16 upper) (f32_of_i16 lower) t_min t_max;
             if t_min \<le> 0 \<or> 1 < t_min then None else Some t_min })"

definition segment_hits_obstacle :: "point \<Rightarrow> point \<Rightarrow> arena_obstacle \<Rightarrow> bool" where
  "segment_hits_obstacle start end' ob \<longleftrightarrow> segment_rect_intersection_t start end' ob \<noteq> None"

definition clamp_unit :: "f32 \<Rightarrow> f32" where
  "clamp_unit t = max 0 (min 1 t)"

definition truncate_line_to_obstacles :: "point \<Rightarrow> point \<Rightarrow> arena_obstacle list \<Rightarrow> point" where
  "truncate_line_to_obstacles start end' obstacles =
     (let closest_t = fold (\<lambda>ob closest_t.
            case segment_rect_intersection_t start end' ob of
              Some t \<Rightarrow> if t < closest_t then t else closest_t
            | None \<Rightarrow> closest_t) (filter obstacle_blocks_projectiles obstacles) 1 in
      if 1 \<le> closest_t then end'
      else
        let start_x = f32_of_i16 (fst start);
            start_y = f32_of_i16 (snd start);
            delta_x = f_sub (f32_of_i16 (fst end')) start_x;
            delta_y = f_sub (f32_of_i16 (snd end')) start_y;
            clipped_t = clamp_unit (f_sub closest_t (fl (1 / 100))) in
        (saturating_i16 (round_f32_to_i32 (f_add start_x (f_mul delta_x clipped_t))),
         saturating_i16 (round_f32_to_i32 (f_add start_y (f_mul delta_y clipped_t)))))"

section \<open>Aim and distance\<close>

definition normalize_aim :: "i16 \<Rightarrow> i16 \<Rightarrow> f32 \<times> f32" where
  "normalize_aim aim_x aim_y =
     (let raw_x = f32_of_i16 aim_x;
          raw_y = f32_of_i16 aim_y;
          len = f_sqrt (f_add (f_mul raw_x raw_x) (f_mul raw_y raw_y)) in
      if len \<le> F32_EPSILON then (1, 0) else (f_div raw_x len, f_div raw_y len))"

definition project_from_aim :: "i16 \<Rightarrow> i16 \<Rightarrow> i16 \<Rightarrow> i16 \<Rightarrow> u16 \<Rightarrow> point" where
  "project_from_aim origin_x origin_y aim_x aim_y distance =
     (let direction = normalize_aim aim_x aim_y in
      (saturating_i16 (round_f32_to_i32
         (f_add (f32_of_i16 origin_x) (f_mul (fst direction) (f32_of_u16 distance)))),
       saturating_i16 (round_f32_to_i32
         (f_add (f32_of_i16 origin_y) (f_mul (snd direction) (f32_of_u16 distance))))))"

definition point_distance_sq :: "point \<Rightarrow> point \<Rightarrow> int" where
  "point_distance_sq a b =
     (let dx = sint (fst a) - sint (fst b); dy = sint (snd a) - sint (snd b) in
      wrap_i32 (dx * dx + dy * dy))"

text \<open>The root of a negative (wrapped) square is NaN, which casts to 0.\<close>

definition point_distance_units :: "point \<Rightarrow> point \<Rightarrow> u16" where
  "point_distance_units a b =
     (let distance = f32_round (f_sqrt (fl (of_int (point_distance_sq a b)))) in
      if distance \<le> 65535 then of_int distance else 65535)"

definition segment_distance_sq :: "point \<Rightarrow> point \<Rightarrow> point \<Rightarrow> f32" where
  "segment_distance_sq start end' p =
     (let ax = f32_of_i16 (fst start); ay = f32_of_i16 (snd start);
          bx = f32_of_i16 (fst end'); by' = f32_of_i16 (snd end');
          px = f32_of_i16 (fst p); py = f32_of_i16 (snd p);
          ab_x = f_sub bx ax; ab_y = f_sub by' ay;
          ab_len_sq = f_add (f_mul ab_x ab_x) (f_mul ab_y ab_y);
          ap_x = f_sub px ax; ap_y = f_sub py ay in
      if ab_len_sq \<le> F32_EPSILON then f_add (f_mul ap_x ap_x) (f_mul ap_y ap_y)
      else
        let t = clamp_unit (f_div (f_add (f_mul ap_x ab_x) (f_mul ap_y ab_y)) ab_len_sq);
            dx = f_sub px (f_add ax (f_mul ab_x t));
            dy = f_sub py (f_add ay (f_mul ab_y t)) in
        f_add (f_mul dx dx) (f_mul dy dy))"

section \<open>The footprint of the map\<close>

definition tile_index_for_point ::
  "i16 \<Rightarrow> i16 \<Rightarrow> u16 \<Rightarrow> u16 \<Rightarrow> u16 \<Rightarrow> u16 \<Rightarrow> u16 \<Rightarrow> nat option" where
  "tile_index_for_point x y arena_width arena_height width_tiles height_tiles tile_units =
     (let relative_x = sint x + uint arena_width div 2;
          relative_y = sint y + uint arena_height div 2;
          relative_x = (if relative_x = uint arena_width then uint arena_width - 1 else relative_x);
          relative_y = (if relative_y = uint arena_height then uint arena_height - 1 else relative_y) in
      if uint tile_units \<le> 0 then None
      else if relative_x < 0 \<or> relative_y < 0 \<or> uint arena_width \<le> relative_x \<or>
        uint arena_height \<le> relative_y then None
      else
        let column = relative_x div uint tile_units; row = relative_y div uint tile_units in
        if uint width_tiles \<le> column \<or> uint height_tiles \<le> row then None
        else Some (nat (row * uint width_tiles + column)))"

definition map_mask_has_tile :: "u8 list \<Rightarrow> nat \<Rightarrow> bool" where
  "map_mask_has_tile footprint index \<longleftrightarrow>
     index div 8 < length footprint \<and> footprint ! (index div 8) AND push_bit (index mod 8) 1 \<noteq> 0"

definition point_in_map_footprint ::
  "i16 \<Rightarrow> i16 \<Rightarrow> u16 \<Rightarrow> u16 \<Rightarrow> u16 \<Rightarrow> u16 \<Rightarrow> u16 \<Rightarrow> u8 list \<Rightarrow> bool" where
  "point_in_map_footprint x y arena_width arena_height width_tiles height_tiles tile_units footprint =
     (case tile_index_for_point x y arena_width arena_height width_tiles height_tiles tile_units of
        None \<Rightarrow> False
      | Some index \<Rightarrow> map_mask_has_tile footprint index)"

definition circle_samples :: "i16 \<Rightarrow> i16 \<Rightarrow> u16 \<Rightarrow> point list" where
  "circle_samples x y radius =
     (let d = i16_or_max (uint radius * 707 div 1000); r = i16_or_max (uint radius) in
      [(x, y), (sat_add_i16 x r, y), (sat_sub_i16 x r, y), (x, sat_add_i16 y r), (x, sat_sub_i16 y r),
       (sat_add_i16 x d, sat_add_i16 y d), (sat_add_i16 x d, sat_sub_i16 y d),
       (sat_sub_i16 x d, sat_add_i16 y d), (sat_sub_i16 x d, sat_sub_i16 y d)])"

definition circle_fits_map_footprint ::
  "i16 \<Rightarrow> i16 \<Rightarrow> u16 \<Rightarrow> u16 \<Rightarrow> u16 \<Rightarrow> u16 \<Rightarrow> u16 \<Rightarrow> u16 \<Rightarrow> u8 list \<Rightarrow> bool" where
  "circle_fits_map_footprint x y radius arena_width arena_height width_tiles height_tiles tile_units footprint =
     list_all (\<lambda>(sx, sy). point_in_map_footprint sx sy arena_width arena_height width_tiles height_tiles
       tile_units footprint) (circle_samples x y radius)"

section \<open>Movement\<close>

definition total_status_bps :: "status_kind \<Rightarrow> u16 \<Rightarrow> status_instance list \<Rightarrow> u16" where
  "total_status_bps kind cap ss =
     fold (\<lambda>s acc. min (sat_add acc (min (sat_mul (si_magnitude s) (ucast (si_stacks s))) cap)) cap)
       (filter (\<lambda>s. si_kind s = kind) ss) 0"

definition total_slow_bps :: "status_instance list \<Rightarrow> movement_modifier_caps \<Rightarrow> u16" where
  "total_slow_bps ss caps = total_status_bps Chill (mmc_chill_bps caps) ss"

definition total_haste_bps :: "status_instance list \<Rightarrow> movement_modifier_caps \<Rightarrow> u16" where
  "total_haste_bps ss caps = total_status_bps Haste (mmc_haste_bps caps) ss"

definition total_move_modifier_bps :: "status_instance list \<Rightarrow> movement_modifier_caps \<Rightarrow> i16 option" where
  "total_move_modifier_bps ss caps =
     map_option of_int
       (clamp_int (sint (mmc_status_total_min_bps caps)) (sint (mmc_status_total_max_bps caps))
         (uint (total_haste_bps ss caps) - uint (total_slow_bps ss caps)))"

definition adjusted_move_speed :: "u16 \<Rightarrow> u16 \<Rightarrow> i16 \<Rightarrow> movement_modifier_caps \<Rightarrow> u16 option" where
  "adjusted_move_speed delta_ms base_speed move_modifier_bps caps =
     do { scale_bps \<leftarrow> clamp_int (uint (mmc_effective_scale_min_bps caps))
            (uint (mmc_effective_scale_max_bps caps)) (10000 + sint move_modifier_bps);
          let effective_speed = sat_mul (ucast base_speed :: u32) (of_int scale_bps) div 10000;
          Some (clamp_u16 (sat_mul effective_speed (ucast delta_ms) div 1000)) }"

definition travel_distance_units :: "u16 \<Rightarrow> u16 \<Rightarrow> u16" where
  "travel_distance_units speed delta_ms = clamp_u16 (sat_mul (ucast speed) (ucast delta_ms) div 1000)"

definition movement_delta :: "movement_intent \<Rightarrow> u16 \<Rightarrow> int \<times> int" where
  "movement_delta intent speed =
     (let x = of_int (sint (mi_x intent));
          y = of_int (sint (mi_y intent));
          len = f_sqrt (f_add (f_mul x x) (f_mul y y));
          (x, y) = (if F32_EPSILON < len then (f_div x len, f_div y len) else (x, y)) in
      (round_f32_to_i32 (f_mul x (f32_of_u16 speed)), round_f32_to_i32 (f_mul y (f32_of_u16 speed))))"

text \<open>\<open>any\<close> over a test that may panic: it stops at the first hit.\<close>

primrec any_opt :: "('a \<Rightarrow> bool option) \<Rightarrow> 'a list \<Rightarrow> bool option" where
  "any_opt f [] = Some False"
| "any_opt f (x # xs) = do { b \<leftarrow> f x; if b then Some True else any_opt f xs }"

definition resolve_movement ::
  "i16 \<Rightarrow> i16 \<Rightarrow> int \<Rightarrow> int \<Rightarrow> u16 \<Rightarrow> u16 \<Rightarrow> u16 \<Rightarrow> u16 \<Rightarrow> u16 \<Rightarrow> u16 \<Rightarrow> u8 list \<Rightarrow> arena_obstacle list \<Rightarrow>
   point option" where
  "resolve_movement start_x start_y desired_x desired_y radius arena_width arena_height
       width_tiles height_tiles tile_units footprint obstacles =
     do { candidate_x \<leftarrow> clamp_int (- uint (arena_width div 2) + uint radius)
            (uint (arena_width div 2) - uint radius) desired_x;
          candidate_y \<leftarrow> clamp_int (- uint (arena_height div 2) + uint radius)
            (uint (arena_height div 2) - uint radius) desired_y;
          let x = saturating_i16 candidate_x;
          let y = saturating_i16 candidate_y;
          let (x, y) = (if circle_fits_map_footprint x y radius arena_width arena_height width_tiles
                height_tiles tile_units footprint then (x, y) else (start_x, start_y));
          hit \<leftarrow> any_opt (circle_intersects_rect x y radius) (filter obstacle_blocks_movement obstacles);
          Some (if hit then (start_x, start_y) else (x, y)) }"

end
