(* ===== verification/Sim_Combat.thy ===== *)
theory Sim_Combat
  imports Sim_Types "HOL-Library.Monad_Syntax"
begin

text \<open>
  Combat resolution (\<open>game_sim/src/effects.rs\<close> and the helpers of \<open>lib.rs\<close> it calls): the
  deterministic roll, passive modifiers, diminishing returns of crowd control, damage with
  shields and defeat, healing, proc resets, statuses, dispels and payloads.
  An operation takes the world and gives the events it emits and the new world. A payload may
  dispel statuses whose own payloads are then applied, so \<open>apply_payload\<close> is a partial
  function: \<open>None\<close> stands for a run that does not return.
\<close>

section \<open>Loops over the world\<close>

primrec for_each :: "('a \<Rightarrow> 'w \<Rightarrow> 'e list \<times> 'w) \<Rightarrow> 'a list \<Rightarrow> 'w \<Rightarrow> 'e list \<times> 'w" where
  "for_each f [] w = ([], w)"
| "for_each f (x # xs) w =
     (case f x w of (es, w') \<Rightarrow> case for_each f xs w' of (es', w'') \<Rightarrow> (es @ es', w''))"

primrec for_each_opt ::
  "('a \<Rightarrow> 'w \<Rightarrow> ('e list \<times> 'w) option) \<Rightarrow> 'a list \<Rightarrow> 'w \<Rightarrow> ('e list \<times> 'w) option" where
  "for_each_opt f [] w = Some ([], w)"
| "for_each_opt f (x # xs) w =
     do { (es, w') \<leftarrow> f x w; (es', w'') \<leftarrow> for_each_opt f xs w'; Some (es @ es', w'') }"

abbreviation player_at :: "simulation_world \<Rightarrow> player_id \<Rightarrow> sim_player option" where
  "player_at w \<equiv> bt_get (w_players w)"

definition upd_player :: "player_id \<Rightarrow> (sim_player \<Rightarrow> sim_player) \<Rightarrow> simulation_world \<Rightarrow> simulation_world" where
  "upd_player pid f w = w\<lparr>w_players := bt_modify pid f (w_players w)\<rparr>"

section \<open>Rolls and scaling\<close>

definition scale_duration_ms :: "u16 \<Rightarrow> u16 \<Rightarrow> u16" where
  "scale_duration_ms base_ms reduction_bps =
     (let scale_bps = sat_sub (10000 :: u32) (ucast reduction_bps);
          scaled = sat_mul (ucast base_ms) scale_bps div 10000 in
      clamp_u16 scaled)"

definition scale_duration_with_bps :: "u16 \<Rightarrow> u16 \<Rightarrow> u16" where
  "scale_duration_with_bps base_ms scale_bps =
     clamp_u16 (div_ceil (sat_mul (ucast base_ms) (ucast scale_bps)) 10000)"

definition scale_speed_units :: "u16 \<Rightarrow> u16 \<Rightarrow> u16" where
  "scale_speed_units base_speed bonus_bps =
     clamp_u16 (sat_mul (ucast base_speed) (10000 + ucast bonus_bps) div 10000)"

definition scale_amount_with_bps :: "u16 \<Rightarrow> u16 \<Rightarrow> u16" where
  "scale_amount_with_bps amount scale_bps =
     clamp_u16 (sat_mul (ucast amount) (ucast scale_bps) div 10000)"

definition compute_initial_roll_state :: "simulation_world \<Rightarrow> u64" where
  "compute_initial_roll_state w =
     (let seed = 0x9E3779B97F4A7C15 XOR ucast (w_arena_width_units w)
            XOR push_bit 16 (ucast (w_arena_height_units w))
            XOR push_bit 32 (ucast (sc_combat_frame_ms (w_configuration w))) in
      fold (\<lambda>pid seed. seed * 0xBF58476D1CE4E5B9 + push_bit 1 (ucast (player_id_get pid)))
        (bt_keys (w_players w)) seed)"

definition next_roll_u64 :: "simulation_world \<Rightarrow> u64 \<times> simulation_world" where
  "next_roll_u64 w =
     (let state = w_roll_state w + 0x9E3779B97F4A7C15;
          value = (state XOR drop_bit 30 state) * 0xBF58476D1CE4E5B9;
          value = (value XOR drop_bit 27 value) * 0x94D049BB133111EB in
      (value XOR drop_bit 31 value, w\<lparr>w_roll_state := state\<rparr>))"

text \<open>The \<open>try_from\<close> conversions of the offset cannot fail: it is below \<open>max - min + 1\<close>.\<close>

definition roll_u16_inclusive :: "u16 \<Rightarrow> u16 \<Rightarrow> simulation_world \<Rightarrow> u16 \<times> simulation_world" where
  "roll_u16_inclusive lo hi w =
     (if hi \<le> lo then (lo, w)
      else
        let span = (ucast hi :: u32) - ucast lo + 1;
            (roll, w') = next_roll_u64 w;
            offset = ucast (roll mod ucast span) :: u32 in
        (sat_add lo (if unat offset \<le> U16_MAX then ucast offset else 0), w'))"

definition roll_bps :: "u16 \<Rightarrow> simulation_world \<Rightarrow> bool \<times> simulation_world" where
  "roll_bps chance_bps w =
     (if chance_bps = 0 then (False, w)
      else if 10000 \<le> chance_bps then (True, w)
      else let (roll, w') = next_roll_u64 w in (roll mod 10000 < ucast chance_bps, w'))"

section \<open>Passive modifiers\<close>

definition no_passive_modifiers :: passive_modifiers where
  "no_passive_modifiers = \<lparr>pm_player_speed = 0, pm_projectile_speed = 0, pm_cooldown = 0, pm_cast_time = 0\<rparr>"

definition add_passive :: "passive_bonus_caps \<Rightarrow> skill_definition \<Rightarrow> passive_modifiers \<Rightarrow> passive_modifiers" where
  "add_passive caps skill m =
     (case sk_behavior skill of
        SbPassive player_speed projectile_speed cooldown cast_time _ \<Rightarrow>
          \<lparr>pm_player_speed = min (sat_add (pm_player_speed m) player_speed) (pbc_player_speed_bps caps),
           pm_projectile_speed =
             min (sat_add (pm_projectile_speed m) projectile_speed) (pbc_projectile_speed_bps caps),
           pm_cooldown = min (sat_add (pm_cooldown m) cooldown) (pbc_cooldown_bps caps),
           pm_cast_time = min (sat_add (pm_cast_time m) cast_time) (pbc_cast_time_bps caps)\<rparr>
      | _ \<Rightarrow> m)"

definition passive_modifiers_for :: "simulation_world \<Rightarrow> player_id \<Rightarrow> passive_modifiers" where
  "passive_modifiers_for w pid =
     (case player_at w pid of
        None \<Rightarrow> no_passive_modifiers
      | Some p \<Rightarrow>
          fold (add_passive (sc_passive_bonus_caps (w_configuration w)))
            (List.map_filter id (sp_skills p)) no_passive_modifiers)"

definition effective_primary_cooldown_ms :: "simulation_world \<Rightarrow> player_id \<Rightarrow> u16 \<Rightarrow> u16" where
  "effective_primary_cooldown_ms w pid base_ms =
     scale_duration_ms base_ms (pm_cooldown (passive_modifiers_for w pid))"

definition effective_skill_cooldown_ms :: "simulation_world \<Rightarrow> player_id \<Rightarrow> u16 \<Rightarrow> u16" where
  "effective_skill_cooldown_ms w pid base_ms =
     scale_duration_ms base_ms (pm_cooldown (passive_modifiers_for w pid))"

definition effective_cast_time_ms :: "simulation_world \<Rightarrow> player_id \<Rightarrow> u16 \<Rightarrow> u16" where
  "effective_cast_time_ms w pid base_ms =
     scale_duration_ms base_ms (pm_cast_time (passive_modifiers_for w pid))"

definition effective_projectile_speed :: "simulation_world \<Rightarrow> player_id \<Rightarrow> u16 \<Rightarrow> u16" where
  "effective_projectile_speed w pid base_speed =
     scale_speed_units base_speed
       (sat_add (pm_projectile_speed (passive_modifiers_for w pid))
          (sc_global_projectile_speed_bonus_bps (w_configuration w)))"

section \<open>Stealth and crowd control\<close>

definition payload_applies_status_kind :: "effect_payload \<Rightarrow> status_kind \<Rightarrow> bool" where
  "payload_applies_status_kind p kind =
     (case pl_status p of Some s \<Rightarrow> sd_kind s = kind | None \<Rightarrow> False)"

definition payload_hides_aura_visuals :: "effect_payload \<Rightarrow> bool" where
  "payload_hides_aura_visuals p \<longleftrightarrow> payload_applies_status_kind p Stealth \<and> pl_amount p = 0 \<and>
     pl_amount_max p = None \<and> pl_interrupt_silence_duration_ms p = None \<and> pl_dispel p = None"

definition deployable_tracks_toggleable_stealth :: "deployable_state \<Rightarrow> bool" where
  "deployable_tracks_toggleable_stealth d =
     (case dp_behavior d of
        DbAura _ _ _ payload cast_start _ _ toggleable \<Rightarrow>
          toggleable \<and> (payload_applies_status_kind payload Stealth \<or>
            (case cast_start of Some p \<Rightarrow> payload_applies_status_kind p Stealth | None \<Rightarrow> False))
      | _ \<Rightarrow> False)"

definition cancel_toggleable_stealth_auras :: "player_id \<Rightarrow> simulation_world \<Rightarrow> simulation_world" where
  "cancel_toggleable_stealth_auras pid w =
     w\<lparr>w_deployables := filter (\<lambda>d. dp_owner d \<noteq> pid \<or> \<not> deployable_tracks_toggleable_stealth d)
        (w_deployables w)\<rparr>"

definition break_stealth :: "player_id \<Rightarrow> simulation_world \<Rightarrow> simulation_world" where
  "break_stealth pid w =
     (case player_at w pid of
        None \<Rightarrow> w
      | Some _ \<Rightarrow>
          cancel_toggleable_stealth_auras pid
            (upd_player pid (\<lambda>p. p\<lparr>sp_statuses := filter (\<lambda>s. si_kind s \<noteq> Stealth) (sp_statuses p)\<rparr>) w))"

fun crowd_control_bucket :: "status_kind \<Rightarrow> cc_dr_bucket option" where
  "crowd_control_bucket Stun = Some BucketHard"
| "crowd_control_bucket Sleep = Some BucketHard"
| "crowd_control_bucket Fear = Some BucketHard"
| "crowd_control_bucket Root = Some BucketMovement"
| "crowd_control_bucket Silence = Some BucketCast"
| "crowd_control_bucket _ = None"

fun crowd_control_dr_state :: "cc_dr_bucket \<Rightarrow> sim_player \<Rightarrow> cc_dr_state" where
  "crowd_control_dr_state BucketHard p = sp_hard_cc_dr p"
| "crowd_control_dr_state BucketMovement p = sp_movement_cc_dr p"
| "crowd_control_dr_state BucketCast p = sp_cast_cc_dr p"

fun set_crowd_control_dr_state :: "cc_dr_bucket \<Rightarrow> cc_dr_state \<Rightarrow> sim_player \<Rightarrow> sim_player" where
  "set_crowd_control_dr_state BucketHard s p = p\<lparr>sp_hard_cc_dr := s\<rparr>"
| "set_crowd_control_dr_state BucketMovement s p = p\<lparr>sp_movement_cc_dr := s\<rparr>"
| "set_crowd_control_dr_state BucketCast s p = p\<lparr>sp_cast_cc_dr := s\<rparr>"

definition crowd_control_dr_scale_bps :: "u8 \<Rightarrow> crowd_control_dr \<Rightarrow> u16" where
  "crowd_control_dr_scale_bps stage dr =
     (if unat stage < length (ccd_stages_bps dr) then ccd_stages_bps dr ! unat stage else 0)"

definition apply_crowd_control_dr ::
  "sim_player \<Rightarrow> status_kind \<Rightarrow> u16 \<Rightarrow> crowd_control_dr \<Rightarrow> u16 option \<times> sim_player" where
  "apply_crowd_control_dr p kind duration_ms dr =
     (case crowd_control_bucket kind of
        None \<Rightarrow> (Some duration_ms, p)
      | Some bucket \<Rightarrow>
          let st = crowd_control_dr_state bucket p;
              stage = (if dr_remaining_ms st = 0 then 0 else dr_stage st);
              scale_bps = crowd_control_dr_scale_bps stage dr;
              p' = set_crowd_control_dr_state bucket
                \<lparr>dr_stage = min (sat_add stage 1) 3, dr_remaining_ms = ccd_window_ms dr\<rparr> p in
          if scale_bps = 0 then (None, p')
          else (Some (scale_duration_with_bps duration_ms scale_bps), p'))"

definition player_has_status :: "simulation_world \<Rightarrow> player_id \<Rightarrow> status_kind \<Rightarrow> bool" where
  "player_has_status w pid kind =
     (case player_at w pid of
        Some p \<Rightarrow> list_ex (\<lambda>s. si_kind s = kind) (sp_statuses p)
      | None \<Rightarrow> False)"

fun status_matches_dispel :: "status_kind \<Rightarrow> dispel_scope \<Rightarrow> bool" where
  "status_matches_dispel kind DispelPositive \<longleftrightarrow> kind \<in> {Hot, Haste, Shield, Stealth}"
| "status_matches_dispel kind DispelNegative \<longleftrightarrow>
     kind \<in> {Poison, Chill, Root, Silence, Stun, Sleep, Reveal, Fear, HealingReduction}"
| "status_matches_dispel kind DispelAll \<longleftrightarrow> True"

definition can_enemy_target_player :: "simulation_world \<Rightarrow> player_id \<Rightarrow> player_id \<Rightarrow> bool" where
  "can_enemy_target_player w attacker target =
     (case player_at w attacker of
        None \<Rightarrow> False
      | Some attacker_player \<Rightarrow>
          (case player_at w target of
             None \<Rightarrow> False
           | Some target_player \<Rightarrow>
               if \<not> sp_alive target_player then False
               else if sp_team attacker_player = sp_team target_player then True
               else \<not> player_has_status w target Stealth \<or> player_has_status w target Reveal))"

definition training_dummy_execute_hit_points :: "u16 \<Rightarrow> u16 \<Rightarrow> u16" where
  "training_dummy_execute_hit_points max_hit_points threshold_bps =
     (let threshold = ((ucast max_hit_points :: u32) * ucast threshold_bps) div 10000;
          t = max threshold 1 in
      if unat t \<le> U16_MAX then ucast t else 1)"
section \<open>Proc resets\<close>

datatype combat_proc_event_kind = ProcDamageHit | ProcHealHit | ProcTick

fun proc_trigger_matches :: "proc_trigger_kind \<Rightarrow> combat_proc_event_kind \<Rightarrow> bool \<Rightarrow> bool" where
  "proc_trigger_matches OnHit event_kind critical \<longleftrightarrow> event_kind = ProcDamageHit"
| "proc_trigger_matches OnCrit event_kind critical \<longleftrightarrow> critical"
| "proc_trigger_matches OnHeal event_kind critical \<longleftrightarrow> event_kind = ProcHealHit"
| "proc_trigger_matches OnTick event_kind critical \<longleftrightarrow> event_kind = ProcTick"

text \<open>\<open>skills.get(i).and_then(|skill| skill.as_ref())\<close>\<close>

definition skill_at :: "sim_player \<Rightarrow> nat \<Rightarrow> skill_definition option" where
  "skill_at p i = (if i < length (sp_skills p) then sp_skills p ! i else None)"

definition player_slot_reference_id :: "sim_player \<Rightarrow> u8 \<Rightarrow> rstring option" where
  "player_slot_reference_id p slot =
     (if slot = 0 then Some (md_id (sp_melee p))
      else map_option sk_id (skill_at p (unat (sat_sub slot 1))))"

definition proc_source_matches :: "sim_player \<Rightarrow> u8 \<Rightarrow> proc_reset_definition \<Rightarrow> bool" where
  "proc_source_matches p slot prd \<longleftrightarrow>
     prd_source_skill_ids prd = [] \<or>
     (case player_slot_reference_id p slot of
        Some skill_id \<Rightarrow> skill_id \<in> set (prd_source_skill_ids prd)
      | None \<Rightarrow> False)"

definition proc_reset_of :: "skill_definition option \<Rightarrow> proc_reset_definition option" where
  "proc_reset_of skill =
     (case skill of
        Some s \<Rightarrow> (case sk_behavior s of SbPassive _ _ _ _ prd \<Rightarrow> prd | _ \<Rightarrow> None)
      | None \<Rightarrow> None)"

definition collect_matching_proc_resets ::
  "simulation_world \<Rightarrow> player_id \<Rightarrow> u8 \<Rightarrow> combat_proc_event_kind \<Rightarrow> bool \<Rightarrow> (nat \<times> proc_reset_definition) list"
where
  "collect_matching_proc_resets w pid slot event_kind critical =
     (case player_at w pid of
        None \<Rightarrow> []
      | Some p \<Rightarrow>
          List.map_filter (\<lambda>(index, skill).
            case proc_reset_of skill of
              None \<Rightarrow> None
            | Some prd \<Rightarrow>
                if 0 < sp_proc_cooldown_ms p ! index \<or>
                   \<not> proc_trigger_matches (prd_trigger prd) event_kind critical \<or>
                   \<not> proc_source_matches p slot prd
                then None else Some (index, prd))
            (List.enumerate 0 (sp_skills p)))"

definition reset_skill_cooldowns ::
  "rstring list \<Rightarrow> skill_definition option list \<Rightarrow> u16 list \<Rightarrow> u16 list" where
  "reset_skill_cooldowns ids skills cooldowns =
     fold (\<lambda>(index, skill) cds.
       case skill of
         Some s \<Rightarrow> if sk_id s \<in> set ids then cds[index := 0] else cds
       | None \<Rightarrow> cds) (List.enumerate 0 skills) cooldowns"

definition apply_proc_reset ::
  "player_id \<Rightarrow> nat \<Rightarrow> proc_reset_definition \<Rightarrow> simulation_world \<Rightarrow> simulation_world" where
  "apply_proc_reset pid passive_slot_index prd =
     upd_player pid (\<lambda>p.
       let p = p\<lparr>sp_slot_cooldown_ms :=
             reset_skill_cooldowns (prd_reset_skill_ids prd) (sp_skills p) (sp_slot_cooldown_ms p)\<rparr>;
           passive_slot = (if passive_slot_index + 1 \<le> U8_MAX then of_nat (passive_slot_index + 1) else 0);
           p = (if prd_instacast_skill_ids prd = [] then p
                else p\<lparr>sp_next_cast_procs :=
                  filter (\<lambda>n. ncp_passive_slot n \<noteq> passive_slot) (sp_next_cast_procs p) @
                  [\<lparr>ncp_passive_slot = passive_slot, ncp_skill_ids = prd_instacast_skill_ids prd,
                    ncp_costs_mana = prd_instacast_costs_mana prd,
                    ncp_starts_cooldown = prd_instacast_starts_cooldown prd\<rparr>]\<rparr>) in
       p\<lparr>sp_proc_cooldown_ms := (sp_proc_cooldown_ms p)[passive_slot_index :=
          (case prd_internal_cooldown_ms prd of Some ms \<Rightarrow> ms | None \<Rightarrow> 0)]\<rparr>)"

definition try_trigger_proc_resets ::
  "player_id \<Rightarrow> u8 \<Rightarrow> combat_value_kind \<Rightarrow> bool \<Rightarrow> bool \<Rightarrow> simulation_world \<Rightarrow> simulation_world" where
  "try_trigger_proc_resets pid slot value_kind critical periodic w =
     (let event_kind = (if periodic then ProcTick
                        else if value_kind = Heal then ProcHealHit else ProcDamageHit) in
      fold (\<lambda>(index, prd). apply_proc_reset pid index prd)
        (collect_matching_proc_resets w pid slot event_kind critical) w)"

section \<open>Damage\<close>

definition removed_status :: "status_instance \<Rightarrow> sim_removed_status" where
  "removed_status s = \<lparr>rs_source = si_source s, rs_slot = si_slot s, rs_kind = si_kind s,
     rs_stacks = si_stacks s, rs_remaining_ms = si_remaining_ms s\<rparr>"

definition removed_event ::
  "player_id \<Rightarrow> sim_status_removed_reason \<Rightarrow> sim_removed_status \<Rightarrow> simulation_event" where
  "removed_event target reason r =
     StatusRemoved (rs_source r) target (rs_slot r) (rs_kind r) (rs_stacks r) (rs_remaining_ms r) reason"

text \<open>One shield absorbs what it can; the stacks follow what is left of it.\<close>

definition absorb :: "u16 \<Rightarrow> status_instance \<Rightarrow> u16 \<times> status_instance" where
  "absorb damage s =
     (let absorbed = min damage (si_shield_remaining s);
          s = s\<lparr>si_shield_remaining := sat_sub (si_shield_remaining s) absorbed\<rparr>;
          s = (if 0 < si_magnitude s then
                 let stacks = ucast (si_stacks s) :: u16;
                     consumed = min (div_ceil (si_shield_remaining s) (si_magnitude s)) stacks in
                 s\<lparr>si_stacks := (if unat consumed \<le> U8_MAX then ucast consumed else si_stacks s)\<rparr>
               else s) in
      (sat_sub damage absorbed, s))"

text \<open>The loop stops at the first shield that meets no damage: the rest is unchanged.\<close>

fun shield_pass ::
  "u16 \<Rightarrow> status_instance list \<Rightarrow> u16 \<times> status_instance list \<times> sim_removed_status list" where
  "shield_pass damage [] = (damage, [], [])"
| "shield_pass damage (s # ss) =
     (if si_kind s = Shield \<and> 0 < si_shield_remaining s then
        if damage = 0 then (damage, s # ss, [])
        else
          let (damage', s') = absorb damage s;
              (rest, ss', depleted) = shield_pass damage' ss in
          (rest, s' # ss', (if si_shield_remaining s' = 0 then removed_status s' # depleted else depleted))
      else
        let (rest, ss', depleted) = shield_pass damage ss in (rest, s # ss', depleted))"

definition consume_shields ::
  "player_id \<Rightarrow> u16 \<Rightarrow> simulation_world \<Rightarrow> u16 \<times> simulation_event list \<times> simulation_world" where
  "consume_shields pid amount w =
     (case player_at w pid of
        None \<Rightarrow> (amount, [], w)
      | Some p \<Rightarrow>
          let (remaining_damage, ss, depleted) = shield_pass amount (sp_statuses p) in
          (remaining_damage, map (removed_event pid RemovedShieldConsumed) depleted,
           upd_player pid (\<lambda>p. p\<lparr>sp_statuses :=
             filter (\<lambda>s. si_kind s \<noteq> Shield \<or> 0 < si_shield_remaining s) ss\<rparr>) w))"

definition zero_intent :: movement_intent where
  "zero_intent = \<lparr>mi_x = 0, mi_y = 0\<rparr>"

definition defeat_player :: "sim_player \<Rightarrow> sim_player" where
  "defeat_player p = p\<lparr>sp_active_cast := None, sp_alive := False, sp_moving := False,
     sp_movement_intent := zero_intent, sp_statuses := []\<rparr>"

definition defeat_events :: "player_id \<Rightarrow> sim_player \<Rightarrow> simulation_event list" where
  "defeat_events pid p =
     (case sp_active_cast p of Some cast \<Rightarrow> [CastCanceled pid (pc_slot cast) CancelDefeat] | None \<Rightarrow> []) @
     map (removed_event pid RemovedDefeat \<circ> removed_status) (sp_statuses p)"

definition breaks_on_damage :: "status_instance \<Rightarrow> bool" where
  "breaks_on_damage s \<longleftrightarrow> si_kind s = Sleep \<or> si_kind s = Stealth"

definition damage_player ::
  "player_id \<Rightarrow> u8 \<Rightarrow> u16 \<Rightarrow> status_kind option \<Rightarrow> sim_trigger_reason option \<Rightarrow> bool \<Rightarrow> player_id \<Rightarrow>
   simulation_world \<Rightarrow> simulation_event list \<times> simulation_world" where
  "damage_player attacker slot amount status_kind trigger critical pid w =
     (case player_at w pid of
        None \<Rightarrow> ([], w)
      | Some p \<Rightarrow>
          if \<not> sp_alive p then ([], w)
          else
            let broken = map removed_status (filter breaks_on_damage (sp_statuses p));
                w = upd_player pid (\<lambda>p. p\<lparr>sp_statuses := filter (Not \<circ> breaks_on_damage) (sp_statuses p)\<rparr>) w;
                w = cancel_toggleable_stealth_auras pid w;
                (damage, shield_events, w) = consume_shields pid amount w;
                broken_events = map (removed_event pid RemovedDamageBroken) broken in
            if damage = 0 then (shield_events @ broken_events, w)
            else
              (case player_at w pid of
                 None \<Rightarrow> (shield_events, w)
               | Some p \<Rightarrow>
                   let applied = min damage (sp_hit_points p);
                       p' = p\<lparr>sp_hit_points := sat_sub (sp_hit_points p) applied\<rparr>;
                       defeated = (sp_hit_points p' = 0);
                       w = upd_player pid (\<lambda>_. if defeated then defeat_player p' else p') w;
                       periodic = (status_kind = Some Poison);
                       w = (if 0 < applied then try_trigger_proc_resets attacker slot Damage critical periodic w
                            else w) in
                   (shield_events @ (if defeated then defeat_events pid p' else []) @ broken_events @
                    [DamageApplied attacker pid slot applied critical (sp_hit_points p') defeated
                       status_kind trigger] @
                    (if defeated then [Defeat (Some attacker) pid] else []), w)))"

fun modify_first :: "('a \<Rightarrow> bool) \<Rightarrow> ('a \<Rightarrow> 'a) \<Rightarrow> 'a list \<Rightarrow> 'a list" where
  "modify_first P f [] = []"
| "modify_first P f (x # xs) = (if P x then f x # xs else x # modify_first P f xs)"

definition deployable_at :: "simulation_world \<Rightarrow> u32 \<Rightarrow> deployable_state option" where
  "deployable_at w did = find (\<lambda>d. dp_id d = did) (w_deployables w)"

definition strike_deployable :: "u16 \<Rightarrow> u16 \<Rightarrow> deployable_state \<Rightarrow> bool \<times> deployable_state" where
  "strike_deployable threshold_bps applied d =
     (let d = d\<lparr>dp_hit_points := sat_sub (dp_hit_points d) applied\<rparr>;
          threshold = training_dummy_execute_hit_points (dp_max_hit_points d) threshold_bps in
      case dp_behavior d of
        DbTrainingDummyResetFull \<Rightarrow>
          (False, if dp_hit_points d \<le> threshold then d\<lparr>dp_hit_points := dp_max_hit_points d\<rparr> else d)
      | DbTrainingDummyExecute \<Rightarrow>
          (False, if dp_hit_points d \<le> threshold then d\<lparr>dp_hit_points := threshold\<rparr> else d)
      | _ \<Rightarrow> (dp_hit_points d = 0, d))"

definition damage_deployable ::
  "player_id \<Rightarrow> u8 \<Rightarrow> u16 \<Rightarrow> bool \<Rightarrow> u32 \<Rightarrow> simulation_world \<Rightarrow>
   simulation_event list \<times> bool \<times> simulation_world" where
  "damage_deployable attacker slot amount critical did w =
     (case deployable_at w did of
        None \<Rightarrow> ([], False, w)
      | Some d \<Rightarrow>
          let applied = min amount (dp_hit_points d);
              (destroyed, d') = strike_deployable
                (tdc_execute_threshold_bps (sc_training_dummy (w_configuration w))) applied d;
              w = w\<lparr>w_deployables := modify_first (\<lambda>d. dp_id d = did) (\<lambda>_. d') (w_deployables w)\<rparr>;
              w = (if 0 < applied then try_trigger_proc_resets attacker slot Damage critical False w else w) in
          ([DeployableDamaged attacker did applied (dp_hit_points d') destroyed], destroyed, w))"

primrec damage_targets ::
  "player_id \<Rightarrow> u8 \<Rightarrow> u16 \<Rightarrow> status_kind option \<Rightarrow> sim_trigger_reason option \<Rightarrow> bool \<Rightarrow>
   target_entity list \<Rightarrow> simulation_world \<Rightarrow> simulation_event list \<times> u32 list \<times> simulation_world" where
  "damage_targets attacker slot amount kind trigger critical [] w = ([], [], w)"
| "damage_targets attacker slot amount kind trigger critical (t # ts) w =
     (let (es, destroyed, w) =
            (case t of
               TargetPlayer pid \<Rightarrow>
                 let (es, w) = damage_player attacker slot amount kind trigger critical pid w in (es, [], w)
             | TargetDeployable did \<Rightarrow>
                 let (es, destroyed, w) = damage_deployable attacker slot amount critical did w in
                 (es, if destroyed then [did] else [], w));
          (es', destroyed', w) = damage_targets attacker slot amount kind trigger critical ts w in
      (es @ es', destroyed @ destroyed', w))"

definition apply_damage_internal_with_context ::
  "player_id \<Rightarrow> u8 \<Rightarrow> target_entity list \<Rightarrow> u16 \<Rightarrow> status_kind option \<Rightarrow> sim_trigger_reason option \<Rightarrow>
   bool \<Rightarrow> simulation_world \<Rightarrow> simulation_event list \<times> simulation_world" where
  "apply_damage_internal_with_context attacker slot targets amount kind trigger critical w =
     (if amount = 0 then ([], w)
      else
        let (es, destroyed, w) = damage_targets attacker slot amount kind trigger critical targets w in
        (es, w\<lparr>w_deployables := filter (\<lambda>d. dp_id d \<notin> set destroyed) (w_deployables w)\<rparr>))"

section \<open>Healing\<close>

definition healing_reduction_bps :: "status_instance list \<Rightarrow> u16" where
  "healing_reduction_bps ss =
     min (fold max (map (\<lambda>s. sat_mul (si_magnitude s) (ucast (si_stacks s)))
       (filter (\<lambda>s. si_kind s = HealingReduction) ss)) 0) 10000"

definition heal_player ::
  "player_id \<Rightarrow> u8 \<Rightarrow> u16 \<Rightarrow> status_kind option \<Rightarrow> sim_trigger_reason option \<Rightarrow> bool \<Rightarrow> player_id \<Rightarrow>
   simulation_world \<Rightarrow> simulation_event list \<times> simulation_world" where
  "heal_player source slot amount status_kind trigger critical pid w =
     (case player_at w pid of
        None \<Rightarrow> ([], w)
      | Some p \<Rightarrow>
          if \<not> sp_alive p then ([], w)
          else
            let reduction_bps = healing_reduction_bps (sp_statuses p);
                missing = sat_sub (sp_max_hit_points p) (sp_hit_points p);
                reduced_amount = scale_amount_with_bps amount (sat_sub 10000 reduction_bps);
                healed = min reduced_amount missing;
                hp = sat_add (sp_hit_points p) healed;
                w = upd_player pid (\<lambda>p. p\<lparr>sp_hit_points := hp\<rparr>) w;
                w = (if 0 < healed then
                       try_trigger_proc_resets source slot Heal critical (status_kind = Some Hot) w
                     else w) in
            ([HealingApplied source pid slot healed (critical \<and> 0 < healed) hp status_kind trigger], w))"

definition apply_healing_internal_with_context ::
  "player_id \<Rightarrow> u8 \<Rightarrow> target_entity list \<Rightarrow> u16 \<Rightarrow> status_kind option \<Rightarrow> sim_trigger_reason option \<Rightarrow>
   bool \<Rightarrow> simulation_world \<Rightarrow> simulation_event list \<times> simulation_world" where
  "apply_healing_internal_with_context source slot targets amount kind trigger critical w =
     (if amount = 0 then ([], w)
      else for_each (\<lambda>t w. case t of
             TargetPlayer pid \<Rightarrow> heal_player source slot amount kind trigger critical pid w
           | TargetDeployable _ \<Rightarrow> ([], w)) targets w)"
section \<open>Statuses\<close>

text \<open>The status a repeated application refreshes: same source, slot and kind.\<close>

definition refresh_status :: "status_definition \<Rightarrow> u16 \<Rightarrow> status_instance \<Rightarrow> status_instance" where
  "refresh_status d duration_ms s =
     s\<lparr>si_stacks := min (sat_add (si_stacks s) 1) (si_max_stacks s),
       si_remaining_ms := duration_ms,
       si_tick_progress_ms := 0,
       si_magnitude := sd_magnitude d,
       si_trigger_duration_ms := sd_trigger_duration_ms d,
       si_expire_payload := sd_expire_payload d,
       si_dispel_payload := sd_dispel_payload d,
       si_shield_remaining := (if sd_kind d = Shield then sat_add (si_shield_remaining s) (sd_magnitude d)
         else si_shield_remaining s)\<rparr>"

definition new_status :: "player_id \<Rightarrow> u8 \<Rightarrow> status_definition \<Rightarrow> u16 \<Rightarrow> status_instance" where
  "new_status source slot d duration_ms =
     \<lparr>si_source = source, si_slot = slot, si_kind = sd_kind d, si_stacks = 1,
      si_remaining_ms = duration_ms, si_tick_interval_ms = sd_tick_interval_ms d,
      si_tick_progress_ms = 0, si_magnitude = sd_magnitude d, si_max_stacks = sd_max_stacks d,
      si_trigger_duration_ms = sd_trigger_duration_ms d,
      si_shield_remaining = (if sd_kind d = Shield then sd_magnitude d else 0),
      si_expire_payload = sd_expire_payload d, si_dispel_payload = sd_dispel_payload d\<rparr>"

definition same_status :: "player_id \<Rightarrow> u8 \<Rightarrow> status_kind \<Rightarrow> status_instance \<Rightarrow> bool" where
  "same_status source slot kind s \<longleftrightarrow> si_source s = source \<and> si_slot s = slot \<and> si_kind s = kind"

text \<open>Stacks after the application, the stack delta and the new statuses.\<close>

definition merge_status ::
  "player_id \<Rightarrow> u8 \<Rightarrow> status_definition \<Rightarrow> u16 \<Rightarrow> status_instance list \<Rightarrow> u8 \<times> u8 \<times> status_instance list" where
  "merge_status source slot d duration_ms ss =
     (case find (same_status source slot (sd_kind d)) ss of
        Some s \<Rightarrow>
          let s' = refresh_status d duration_ms s in
          (si_stacks s', max (sat_sub (si_stacks s') (si_stacks s)) 1,
           modify_first (same_status source slot (sd_kind d)) (\<lambda>_. s') ss)
      | None \<Rightarrow> (1, 1, ss @ [new_status source slot d duration_ms]))"

definition plain_status :: "status_kind \<Rightarrow> u16 \<Rightarrow> status_definition" where
  "plain_status kind duration_ms = StatusDefinition kind duration_ms None 0 1 None None None"

function apply_status ::
  "player_id \<Rightarrow> player_id \<Rightarrow> u8 \<Rightarrow> status_definition \<Rightarrow> simulation_world \<Rightarrow>
   simulation_event option \<times> simulation_world" where
  "apply_status source target slot d w =
     (case player_at w target of
        None \<Rightarrow> (None, w)
      | Some p \<Rightarrow>
          if \<not> sp_alive p then (None, w)
          else
            (case apply_crowd_control_dr p (sd_kind d) (sd_duration_ms d)
                    (sc_crowd_control_dr (w_configuration w)) of
               (None, p') \<Rightarrow> (None, upd_player target (\<lambda>_. p') w)
             | (Some duration_ms, p') \<Rightarrow>
                 (case merge_status source slot d duration_ms (sp_statuses p') of
                    (stacks_after, stack_delta, ss) \<Rightarrow>
                      (Some (StatusApplied source target slot (sd_kind d) stacks_after stack_delta duration_ms),
                       if sd_kind d = Chill \<and> sd_max_stacks d \<le> stacks_after \<and>
                          sd_trigger_duration_ms d \<noteq> None
                       then snd (apply_status source target slot
                              (plain_status Root (case sd_trigger_duration_ms d of Some ms \<Rightarrow> ms | None \<Rightarrow> 0))
                              (upd_player target (\<lambda>_. p'\<lparr>sp_statuses := ss\<rparr>) w))
                       else upd_player target (\<lambda>_. p'\<lparr>sp_statuses := ss\<rparr>) w))))"
  by pat_completeness auto

termination
  by (relation "measure (\<lambda>(_, _, _, d, _). if sd_kind d = Chill then 1 else 0)")
    (simp_all add: plain_status_def)

section \<open>Direct values, interrupts and dispels\<close>

definition resolve_direct_payload_amount ::
  "effect_payload \<Rightarrow> simulation_world \<Rightarrow> (u16 \<times> bool) \<times> simulation_world" where
  "resolve_direct_payload_amount payload w =
     (let (amount, w) = roll_u16_inclusive (amount_min payload) (amount_max payload) w;
          (critical, w) = (if can_crit payload then roll_bps (pl_crit_chance_bps payload) w else (False, w)) in
      ((if critical then scale_amount_with_bps amount (pl_crit_multiplier_bps payload) else amount,
        critical), w))"

definition apply_direct_payload_values ::
  "player_id \<Rightarrow> u8 \<Rightarrow> target_entity list \<Rightarrow> effect_payload \<Rightarrow> simulation_world \<Rightarrow>
   simulation_event list \<times> simulation_world" where
  "apply_direct_payload_values source slot targets payload =
     for_each (\<lambda>t w.
       let ((amount, critical), w) = resolve_direct_payload_amount payload w in
       case pl_kind payload of
         Damage \<Rightarrow> apply_damage_internal_with_context source slot [t] amount None None critical w
       | Heal \<Rightarrow> apply_healing_internal_with_context source slot [t] amount None None critical w) targets"

definition interrupt_target ::
  "player_id \<Rightarrow> u8 \<Rightarrow> u16 \<Rightarrow> target_entity \<Rightarrow> simulation_world \<Rightarrow> simulation_event list \<times> simulation_world" where
  "interrupt_target source slot silence_ms t w =
     (case t of
        TargetDeployable _ \<Rightarrow> ([], w)
      | TargetPlayer pid \<Rightarrow>
          (case player_at w pid of
             None \<Rightarrow> ([], w)
           | Some p \<Rightarrow>
               (case sp_active_cast p of
                  None \<Rightarrow> ([], w)
                | Some cast \<Rightarrow>
                    let (event, w) = apply_status source pid slot (plain_status Silence silence_ms)
                          (upd_player pid (\<lambda>p. p\<lparr>sp_active_cast := None\<rparr>) w) in
                    (CastCanceled pid (pc_slot cast) CancelInterrupt #
                       (case event of Some e \<Rightarrow> [e] | None \<Rightarrow> []), w))))"

definition status_target ::
  "player_id \<Rightarrow> u8 \<Rightarrow> status_definition \<Rightarrow> target_entity \<Rightarrow> simulation_world \<Rightarrow>
   simulation_event list \<times> simulation_world" where
  "status_target source slot d t w =
     (case t of
        TargetDeployable _ \<Rightarrow> ([], w)
      | TargetPlayer pid \<Rightarrow>
          let (event, w) = apply_status source pid slot d w in
          (case event of Some e \<Rightarrow> [e] | None \<Rightarrow> [], w))"

text \<open>
  The indices a dispel removes: the eligible statuses by remaining time, longest first, ties by
  position, and of these the first \<open>max_statuses\<close>.
\<close>

definition dispel_indices :: "dispel_definition \<Rightarrow> status_instance list \<Rightarrow> nat list" where
  "dispel_indices d ss =
     (let eligible = map (\<lambda>(index, s). (index, si_remaining_ms s))
            (filter (\<lambda>(_, s). status_matches_dispel (si_kind s) (dd_scope d)) (List.enumerate 0 ss)) in
      map fst (take (unat (dd_max_statuses d))
        (sort_key (\<lambda>(index, remaining). (- uint remaining, int index)) eligible)))"

text \<open>A payload set free by a dispel: its source, target, slot, the kind of the status, the payload.\<close>

type_synonym pending_payload = "player_id \<times> player_id \<times> u8 \<times> status_kind \<times> effect_payload"

definition pending_dispel :: "player_id \<Rightarrow> status_instance \<Rightarrow> pending_payload option" where
  "pending_dispel pid s =
     map_option (\<lambda>p. (si_source s, pid, si_slot s, si_kind s, p)) (si_dispel_payload s)"

definition dispel_target ::
  "player_id \<Rightarrow> u8 \<Rightarrow> dispel_definition \<Rightarrow> target_entity \<Rightarrow> simulation_world \<Rightarrow>
   (simulation_event list \<times> pending_payload list) \<times> simulation_world" where
  "dispel_target source slot d t w =
     (case t of
        TargetDeployable _ \<Rightarrow> (([], []), w)
      | TargetPlayer pid \<Rightarrow>
          (case player_at w pid of
             None \<Rightarrow> (([], []), w)
           | Some p \<Rightarrow>
               if \<not> sp_alive p then (([], []), w)
               else
                 let indices = dispel_indices d (sp_statuses p) in
                 if indices = [] then (([DispelResult source slot pid [] 0], []), w)
                 else
                   let indexed = List.enumerate 0 (sp_statuses p);
                       removed = map snd (filter (\<lambda>(i, _). i \<in> set indices) indexed);
                       retained = map snd (filter (\<lambda>(i, _). i \<notin> set indices) indexed);
                       pending = List.map_filter (pending_dispel pid) removed;
                       w = upd_player pid (\<lambda>p. p\<lparr>sp_statuses := retained\<rparr>) w in
                   ((map (removed_event pid RemovedDispelled \<circ> removed_status) removed @
                     [DispelResult source slot pid (map removed_status removed)
                        (if length pending \<le> U8_MAX then of_nat (length pending) else of_nat U8_MAX)],
                     pending), w)))"

primrec dispel_targets ::
  "player_id \<Rightarrow> u8 \<Rightarrow> dispel_definition \<Rightarrow> target_entity list \<Rightarrow> simulation_world \<Rightarrow>
   (simulation_event list \<times> pending_payload list) \<times> simulation_world" where
  "dispel_targets source slot d [] w = (([], []), w)"
| "dispel_targets source slot d (t # ts) w =
     (let ((es, pending), w) = dispel_target source slot d t w;
          ((es', pending'), w) = dispel_targets source slot d ts w in
      ((es @ es', pending @ pending'), w))"

section \<open>Payloads\<close>

type_synonym payload_run =
  "player_id \<Rightarrow> u8 \<Rightarrow> target_entity list \<Rightarrow> effect_payload \<Rightarrow> simulation_world \<Rightarrow>
   (simulation_event list \<times> simulation_world) option"

text \<open>\<open>apply_dispel_internal\<close>, over the payload application it calls.\<close>

definition apply_pending :: "payload_run \<Rightarrow> pending_payload \<Rightarrow> simulation_world \<Rightarrow>
    (simulation_event list \<times> simulation_world) option" where
  "apply_pending run pending w =
     (case pending of (source, target, slot, kind, payload) \<Rightarrow>
        do { (es, w) \<leftarrow> run source slot [TargetPlayer target] payload w;
             Some (TriggerResolved source slot kind TriggerDispel TargetPlayerKind
                     (player_id_get target) (pl_kind payload) (pl_amount payload) # es, w) })"

definition apply_dispel_internal ::
  "payload_run \<Rightarrow> player_id \<Rightarrow> u8 \<Rightarrow> target_entity list \<Rightarrow> dispel_definition \<Rightarrow> simulation_world \<Rightarrow>
   (simulation_event list \<times> simulation_world) option" where
  "apply_dispel_internal run source slot targets d w =
     (case dispel_targets source slot d targets w of ((results, pending), w) \<Rightarrow>
        do { (es, w) \<leftarrow> for_each_opt (apply_pending run) pending w; Some (results @ es, w) })"

definition payload_body :: "payload_run \<Rightarrow> payload_run" where
  "payload_body run source slot targets payload w =
     (if targets = [] then Some ([], w)
      else
        (case apply_direct_payload_values source slot targets payload w of (direct, w) \<Rightarrow>
         case (case pl_interrupt_silence_duration_ms payload of
                 Some ms \<Rightarrow> for_each (interrupt_target source slot ms) targets w
               | None \<Rightarrow> ([], w)) of (interrupts, w) \<Rightarrow>
         do { (dispels, w) \<leftarrow>
                (case pl_dispel payload of
                   Some d \<Rightarrow>
                     do { (es, w) \<leftarrow> apply_dispel_internal run source slot targets d w;
                          Some (DispelCast source slot (dd_scope d) (dd_max_statuses d) # es, w) }
                 | None \<Rightarrow> Some ([], w));
              let (statuses, w) = (case pl_status payload of
                    Some d \<Rightarrow> for_each (status_target source slot d) targets w
                  | None \<Rightarrow> ([], w)) in
              Some (direct @ interrupts @ dispels @ statuses, w) }))"

lemma mono_case_prod: "(\<And>a b. mono_option (\<lambda>f. g f a b)) \<Longrightarrow> mono_option (\<lambda>f. case x of (a, b) \<Rightarrow> g f a b)"
  by (cases x) simp

lemma mono_case_option: "mono_option m \<Longrightarrow> (\<And>a. mono_option (\<lambda>f. g f a)) \<Longrightarrow>
    mono_option (\<lambda>f. case x of None \<Rightarrow> m f | Some a \<Rightarrow> g f a)"
  by (cases x) simp_all

lemma mono_if: "mono_option m \<Longrightarrow> mono_option n \<Longrightarrow> mono_option (\<lambda>f. if b then m f else n f)"
  by (cases b) simp_all

lemmas mono_rules = bind_mono mono_case_prod mono_case_option mono_if option.const_mono

lemma for_each_opt_mono:
  assumes "\<And>x w. mono_option (\<lambda>f. g f x w)"
  shows "mono_option (\<lambda>f. for_each_opt (g f) xs w)"
proof (induction xs arbitrary: w)
  case (Cons x xs)
  show ?case unfolding for_each_opt.simps by (intro mono_rules assms Cons)
qed (simp add: option.const_mono)

lemma payload_body_mono [partial_function_mono]:
  assumes run: "\<And>source slot targets payload w. mono_option (\<lambda>f. run f source slot targets payload w)"
  shows "mono_option (\<lambda>f. payload_body (run f) source slot targets payload w)"
proof -
  have pending: "mono_option (\<lambda>f. apply_pending (run f) x w)" for x w
    unfolding apply_pending_def by (intro mono_rules run)
  have dispel: "mono_option (\<lambda>f. apply_dispel_internal (run f) source slot targets d w)" for d w
    unfolding apply_dispel_internal_def by (intro mono_rules for_each_opt_mono pending)
  show ?thesis unfolding payload_body_def Let_def by (intro mono_rules dispel)
qed

partial_function (option) apply_payload :: payload_run where
  "apply_payload source slot targets payload w = payload_body apply_payload source slot targets payload w"

end
