(* ===== verification/Sim_Targeting.thy ===== *)
theory Sim_Targeting
  imports Sim_Geometry Sim_Combat
begin

text \<open>
  What the simulation asks of space: the obstacles of combat, where a player may stand, where a
  teleport ends (\<open>game_sim/src/lib.rs\<close>), and which players and deployables an attack reaches
  (the searches at the end of \<open>effects.rs\<close>). Nothing here changes the world.
\<close>

section \<open>Obstacles and destinations\<close>

definition combat_obstacles :: "simulation_world \<Rightarrow> arena_obstacle list" where
  "combat_obstacles w =
     w_obstacles w @
     map (\<lambda>d. \<lparr>ob_kind = Barrier, ob_center_x = dp_x d, ob_center_y = dp_y d,
         ob_half_width = dp_radius d, ob_half_height = dp_radius d\<rparr>)
       (filter (\<lambda>d. dp_blocks_movement d \<or> dp_blocks_projectiles d) (w_deployables w))"

definition is_walkable_position :: "simulation_world \<Rightarrow> i16 \<Rightarrow> i16 \<Rightarrow> bool" where
  "is_walkable_position w x y \<longleftrightarrow>
     (let radius = sc_player_radius_units (w_configuration w);
          min_x = - uint (w_arena_width_units w div 2) + uint radius;
          max_x = uint (w_arena_width_units w div 2) - uint radius;
          min_y = - uint (w_arena_height_units w div 2) + uint radius;
          max_y = uint (w_arena_height_units w div 2) - uint radius in
      \<not> (sint x < min_x \<or> max_x < sint x \<or> sint y < min_y \<or> max_y < sint y) \<and>
      circle_fits_map_footprint x y radius (w_arena_width_units w) (w_arena_height_units w)
        (w_arena_width_tiles w) (w_arena_height_tiles w) (w_arena_tile_units w) (w_footprint_mask w) \<and>
      \<not> list_ex (obstacle_contains_point x y) (filter obstacle_blocks_movement (combat_obstacles w)))"

definition teleport_sample :: "u16 \<Rightarrow> point \<Rightarrow> point \<Rightarrow> nat \<Rightarrow> point" where
  "teleport_sample steps start desired step =
     (let t = f_div (of_nat step) (f32_of_u16 steps);
          along = \<lambda>s d. saturating_i16 (round_f32_to_i32
            (f_add (f32_of_i16 d) (f_mul (f_sub (f32_of_i16 s) (f32_of_i16 d)) t))) in
      (along (fst start) (fst desired), along (snd start) (snd desired)))"

definition resolve_teleport_destination :: "simulation_world \<Rightarrow> point \<Rightarrow> point \<Rightarrow> point" where
  "resolve_teleport_destination w start desired =
     (let steps = sc_teleport_resolution_steps (w_configuration w) in
      if is_walkable_position w (fst desired) (snd desired) then desired
      else
        (case find (\<lambda>p. is_walkable_position w (fst p) (snd p))
                (map (teleport_sample steps start desired) [1..<Suc (unat steps)]) of
           Some p \<Rightarrow> p
         | None \<Rightarrow> start))"

definition point_is_inside_shrub :: "simulation_world \<Rightarrow> i16 \<Rightarrow> i16 \<Rightarrow> bool" where
  "point_is_inside_shrub w x y \<longleftrightarrow>
     list_ex (\<lambda>ob. ob_kind ob = Shrub \<and> obstacle_contains_point x y ob) (w_obstacles w)"

definition move_in_world :: "simulation_world \<Rightarrow> arena_obstacle list \<Rightarrow> i16 \<Rightarrow> i16 \<Rightarrow> int \<Rightarrow> int \<Rightarrow> point option" where
  "move_in_world w obstacles start_x start_y desired_x desired_y =
     resolve_movement start_x start_y desired_x desired_y (sc_player_radius_units (w_configuration w))
       (w_arena_width_units w) (w_arena_height_units w) (w_arena_width_tiles w)
       (w_arena_height_tiles w) (w_arena_tile_units w) (w_footprint_mask w) obstacles"

section \<open>Searches\<close>

text \<open>\<open>min_by_key\<close>: the first of the least.\<close>

fun first_min_from :: "'a \<Rightarrow> int \<Rightarrow> ('a \<times> int) list \<Rightarrow> 'a" where
  "first_min_from t d [] = t"
| "first_min_from t d ((t', d') # xs) = (if d' < d then first_min_from t' d' xs else first_min_from t d xs)"

fun first_min :: "('a \<times> int) list \<Rightarrow> 'a option" where
  "first_min [] = None"
| "first_min ((t, d) # xs) = Some (first_min_from t d xs)"

definition player_overlap_radius :: "simulation_world \<Rightarrow> u16 \<Rightarrow> u16" where
  "player_overlap_radius w radius = sat_add radius (sc_player_radius_units (w_configuration w))"

definition deployable_overlap_radius :: "u16 \<Rightarrow> u16 \<Rightarrow> u16" where
  "deployable_overlap_radius radius deployable_radius = sat_add radius deployable_radius"

text \<open>The square of a radius in \<open>i32\<close>.\<close>

definition radius_sq :: "u16 \<Rightarrow> int" where
  "radius_sq r = wrap_i32 (uint r * uint r)"

definition find_closest_target_near_point ::
  "simulation_world \<Rightarrow> player_id \<Rightarrow> point \<Rightarrow> u16 \<Rightarrow> bool \<Rightarrow> target_entity option" where
  "find_closest_target_near_point w attacker p radius include_deployables =
     first_min
       (List.map_filter (\<lambda>(pid, q).
            let distance_sq = point_distance_sq p (sp_x q, sp_y q) in
            if pid \<noteq> attacker \<and> sp_alive q \<and> can_enemy_target_player w attacker pid \<and>
               distance_sq \<le> radius_sq (player_overlap_radius w radius)
            then Some (TargetPlayer pid, distance_sq) else None) (w_players w) @
        (if include_deployables then
           List.map_filter (\<lambda>d.
             let distance_sq = point_distance_sq p (dp_x d, dp_y d) in
             if distance_sq \<le> radius_sq (deployable_overlap_radius radius (dp_radius d))
             then Some (TargetDeployable (dp_id d), distance_sq) else None) (w_deployables w)
         else []))"

definition find_first_target_on_segment ::
  "simulation_world \<Rightarrow> player_id \<Rightarrow> point \<Rightarrow> point \<Rightarrow> u16 \<Rightarrow> bool \<Rightarrow> target_entity option" where
  "find_first_target_on_segment w attacker start end' radius include_deployables =
     (let threshold_sq = \<lambda>overlap. f_mul (f32_of_u16 overlap) (f32_of_u16 overlap) in
      first_min
       (List.map_filter (\<lambda>(pid, q).
            if pid \<noteq> attacker \<and> sp_alive q \<and> can_enemy_target_player w attacker pid \<and>
               segment_distance_sq start end' (sp_x q, sp_y q) \<le>
                 threshold_sq (player_overlap_radius w radius)
            then Some (TargetPlayer pid, point_distance_sq start (sp_x q, sp_y q)) else None)
          (w_players w) @
        (if include_deployables then
           List.map_filter (\<lambda>d.
             if segment_distance_sq start end' (dp_x d, dp_y d) \<le>
                threshold_sq (deployable_overlap_radius radius (dp_radius d))
             then Some (TargetDeployable (dp_id d), point_distance_sq start (dp_x d, dp_y d)) else None)
             (w_deployables w)
         else [])))"

definition find_targets_in_radius ::
  "simulation_world \<Rightarrow> point \<Rightarrow> u16 \<Rightarrow> player_id option \<Rightarrow> bool \<Rightarrow> target_entity list" where
  "find_targets_in_radius w center radius exclude include_deployables =
     List.map_filter (\<lambda>(pid, q).
       if Some pid \<noteq> exclude \<and> sp_alive q \<and>
          (case exclude of Some e \<Rightarrow> can_enemy_target_player w e pid | None \<Rightarrow> True) \<and>
          point_distance_sq center (sp_x q, sp_y q) \<le> radius_sq (player_overlap_radius w radius)
       then Some (TargetPlayer pid) else None) (w_players w) @
     (if include_deployables then
        List.map_filter (\<lambda>d.
          if point_distance_sq center (dp_x d, dp_y d) \<le>
             radius_sq (deployable_overlap_radius radius (dp_radius d))
          then Some (TargetDeployable (dp_id d)) else None) (w_deployables w)
      else [])"

definition find_enemy_player_near_point ::
  "simulation_world \<Rightarrow> player_id \<Rightarrow> point \<Rightarrow> u16 \<Rightarrow> player_id option" where
  "find_enemy_player_near_point w attacker p radius =
     first_min (List.map_filter (\<lambda>(pid, q).
       let distance_sq = point_distance_sq p (sp_x q, sp_y q) in
       if pid \<noteq> attacker \<and> sp_alive q \<and> can_enemy_target_player w attacker pid \<and>
          distance_sq \<le> radius_sq (sat_add radius (sc_player_radius_units (w_configuration w)))
       then Some (pid, distance_sq) else None) (w_players w))"

definition target_position :: "simulation_world \<Rightarrow> target_entity \<Rightarrow> point" where
  "target_position w t =
     (case t of
        TargetPlayer pid \<Rightarrow> (case player_at w pid of Some p \<Rightarrow> (sp_x p, sp_y p) | None \<Rightarrow> (0, 0))
      | TargetDeployable did \<Rightarrow> (case deployable_at w did of Some d \<Rightarrow> (dp_x d, dp_y d) | None \<Rightarrow> (0, 0)))"

section \<open>Reports of hits\<close>

definition impact_hit :: "player_id \<Rightarrow> u8 \<Rightarrow> target_entity \<Rightarrow> simulation_event" where
  "impact_hit source slot t =
     (case t of
        TargetPlayer pid \<Rightarrow> ImpactHit source slot TargetPlayerKind (player_id_get pid)
      | TargetDeployable did \<Rightarrow> ImpactHit source slot TargetDeployableKind did)"

definition append_target_outcomes :: "player_id \<Rightarrow> u8 \<Rightarrow> target_entity list \<Rightarrow> simulation_event list" where
  "append_target_outcomes source slot targets =
     (if targets = [] then [ImpactMiss source slot NoTarget] else map (impact_hit source slot) targets)"

definition effect_at :: "sim_effect_kind \<Rightarrow> player_id \<Rightarrow> u8 \<Rightarrow> point \<Rightarrow> point \<Rightarrow> u16 \<Rightarrow> simulation_event" where
  "effect_at kind owner slot p target radius =
     EffectSpawned \<lparr>ef_kind = kind, ef_owner = owner, ef_slot = slot, ef_x = fst p, ef_y = snd p,
       ef_target_x = fst target, ef_target_y = snd target, ef_radius = radius\<rparr>"

definition effect_kind_of_skill :: "skill_effect_kind \<Rightarrow> sim_effect_kind" where
  "effect_kind_of_skill k = (case k of
     FxMeleeSwing \<Rightarrow> MeleeSwing | FxSkillShot \<Rightarrow> SkillShot | FxDashTrail \<Rightarrow> DashTrail
   | FxBurst \<Rightarrow> Burst | FxNova \<Rightarrow> Nova | FxBeam \<Rightarrow> Beam | FxHitSpark \<Rightarrow> HitSpark)"

end
