(* ===== verification/Sim_World.thy ===== *)
theory Sim_World
  imports Sim_Combat
begin

text \<open>
  The world of the simulation (\<open>game_sim/src/lib.rs\<close>): its construction from a roster and a map,
  the inputs of the players, the reset of a training session, and the timed parts of a tick
  (\<open>ticks.rs\<close>): cooldowns, mana, diminishing returns and statuses. A status whose tick
  interval is zero makes its loop endless, so the status ticks are partial.
\<close>

section \<open>Construction\<close>

record sim_player_seed =
  ss_player_id :: player_id
  ss_team :: team_side
  ss_hit_points :: u16
  ss_max_mana :: u16
  ss_move_speed :: u16
  ss_melee :: melee_definition
  ss_skills :: "skill_definition option list"

text \<open>Plain \<open>i16\<close> arithmetic wraps in the release build; a map without anchors panics.\<close>

definition spawn_position ::
  "team_side \<Rightarrow> u16 \<Rightarrow> arena_map_definition \<Rightarrow> simulation_configuration \<Rightarrow>
   simulation_error fault + (i16 \<times> i16 \<times> i16)" where
  "spawn_position team index map_def configuration =
     (let anchors = (case team of TeamA \<Rightarrow> am_team_a_anchors map_def | TeamB \<Rightarrow> am_team_b_anchors map_def);
          anchor_count = max (if length anchors \<le> U16_MAX then of_nat (length anchors) else 1) (1 :: u16);
          anchor_index = unat (index mod anchor_count);
          lane_index = unat (index div anchor_count);
          lane = (if lane_index \<le> 32767 then of_nat lane_index else 32767 :: i16);
          vertical_offset = lane * sc_spawn_spacing_units configuration in
      if anchor_index < length anchors then
        let anchor = anchors ! anchor_index in
        Inr (fst anchor, snd anchor + vertical_offset,
          (case team of TeamA \<Rightarrow> sc_default_aim_x_units configuration
                      | TeamB \<Rightarrow> - sc_default_aim_x_units configuration))
      else Inl Panic)"

definition no_queued_actions :: queued_actions where
  "no_queued_actions = \<lparr>qa_primary = False, qa_cast_slot = None, qa_cast_self_target = False\<rparr>"

definition no_dr :: cc_dr_state where
  "no_dr = \<lparr>dr_stage = 0, dr_remaining_ms = 0\<rparr>"

definition spawn_player :: "sim_player_seed \<Rightarrow> i16 \<Rightarrow> i16 \<Rightarrow> i16 \<Rightarrow> i16 \<Rightarrow> sim_player" where
  "spawn_player seed x y aim_x aim_y =
     \<lparr>sp_team = ss_team seed, sp_spawn_x = x, sp_spawn_y = y, sp_spawn_aim_x = aim_x,
      sp_spawn_aim_y = aim_y, sp_x = x, sp_y = y, sp_aim_x = aim_x, sp_aim_y = aim_y,
      sp_hit_points = ss_hit_points seed, sp_max_hit_points = ss_hit_points seed,
      sp_mana = ss_max_mana seed, sp_max_mana = ss_max_mana seed,
      sp_move_speed = ss_move_speed seed, sp_alive = True, sp_moving = False,
      sp_movement_intent = zero_intent, sp_queued_actions = no_queued_actions,
      sp_active_cast = None, sp_melee = ss_melee seed, sp_skills = ss_skills seed,
      sp_primary_cooldown_ms = 0, sp_slot_cooldown_ms = replicate 5 0,
      sp_proc_cooldown_ms = replicate 5 0, sp_mana_regen_progress = 0,
      sp_movement_audio_progress_ms = 0, sp_statuses = [], sp_next_cast_procs = [],
      sp_hard_cc_dr = no_dr, sp_movement_cc_dr = no_dr, sp_cast_cc_dr = no_dr\<rparr>"

fun enrol_players ::
  "arena_map_definition \<Rightarrow> simulation_configuration \<Rightarrow> sim_player_seed list \<Rightarrow> u16 \<Rightarrow> u16 \<Rightarrow>
   (player_id, sim_player) btree_map \<Rightarrow> simulation_error fault + (player_id, sim_player) btree_map" where
  "enrol_players map_def configuration [] team_a_index team_b_index ps = Inr ps"
| "enrol_players map_def configuration (seed # seeds) team_a_index team_b_index ps =
     (if ss_hit_points seed = 0 then
        Inl (Err (InvalidHitPoints (ss_player_id seed) (ss_hit_points seed)))
      else
        let (spawn_index, team_a_index, team_b_index) =
              (case ss_team seed of
                 TeamA \<Rightarrow> (team_a_index, sat_add team_a_index 1, team_b_index)
               | TeamB \<Rightarrow> (team_b_index, team_a_index, sat_add team_b_index 1)) in
        and_then (spawn_position (ss_team seed) spawn_index map_def configuration) (\<lambda>(x, y, aim_x).
        if bt_contains ps (ss_player_id seed) then
          Inl (Err (DuplicateSimPlayer (ss_player_id seed)))
        else
          enrol_players map_def configuration seeds team_a_index team_b_index
            (bt_insert (ss_player_id seed)
               (spawn_player seed x y aim_x (sc_default_aim_y_units configuration)) ps)))"

definition map_obstacle_to_sim_obstacle :: "arena_map_obstacle \<Rightarrow> arena_obstacle" where
  "map_obstacle_to_sim_obstacle o' =
     \<lparr>ob_kind = (case amo_kind o' of MapPillar \<Rightarrow> Pillar | MapShrub \<Rightarrow> Shrub),
      ob_center_x = amo_center_x o', ob_center_y = amo_center_y o',
      ob_half_width = amo_half_width o', ob_half_height = amo_half_height o'\<rparr>"

definition next_deployable_id :: "simulation_world \<Rightarrow> u32 \<times> simulation_world" where
  "next_deployable_id w =
     (w_next_deployable_id w, w\<lparr>w_next_deployable_id := sat_add (w_next_deployable_id w) 1\<rparr>)"

definition spawn_feature ::
  "player_id \<Rightarrow> team_side \<Rightarrow> u16 \<Rightarrow> arena_map_feature \<Rightarrow> simulation_world \<Rightarrow> simulation_world" where
  "spawn_feature owner dummy_team hit_points feature w =
     (let (kind, behavior) = (case amf_kind feature of
             MapTrainingDummyResetFull \<Rightarrow> (DkTrainingDummyResetFull, DbTrainingDummyResetFull)
           | MapTrainingDummyExecute \<Rightarrow> (DkTrainingDummyExecute, DbTrainingDummyExecute));
          (did, w) = next_deployable_id w in
      w\<lparr>w_deployables := w_deployables w @
         [\<lparr>dp_id = did, dp_owner = owner, dp_slot = 0, dp_team = dummy_team, dp_kind = kind,
           dp_x = amf_center_x feature, dp_y = amf_center_y feature,
           dp_radius = sc_player_radius_units (w_configuration w), dp_hit_points = hit_points,
           dp_max_hit_points = hit_points, dp_remaining_ms = of_nat U16_MAX,
           dp_blocks_movement = False, dp_blocks_projectiles = False, dp_behavior = behavior\<rparr>]\<rparr>)"

definition spawn_map_features ::
  "player_id \<Rightarrow> team_side \<Rightarrow> arena_map_definition \<Rightarrow> simulation_world \<Rightarrow> simulation_world" where
  "spawn_map_features owner owner_team map_def w =
     (let dummy_team = team_other owner_team;
          dummy = sc_training_dummy (w_configuration w);
          hit_points = sat_mul (tdc_base_hit_points dummy) (tdc_health_multiplier dummy) in
      fold (spawn_feature owner dummy_team hit_points) (am_features map_def) w)"

definition simulation_world_new ::
  "sim_player_seed list \<Rightarrow> arena_map_definition \<Rightarrow> simulation_configuration \<Rightarrow>
   simulation_error fault + simulation_world" where
  "simulation_world_new seeds map_def configuration =
     and_then (enrol_players map_def configuration seeds 0 0 []) (\<lambda>ps.
     let w = \<lparr>w_configuration = configuration, w_arena_width_units = am_width_units map_def,
           w_arena_height_units = am_height_units map_def, w_arena_width_tiles = am_width_tiles map_def,
           w_arena_height_tiles = am_height_tiles map_def, w_arena_tile_units = am_tile_units map_def,
           w_footprint_mask = am_footprint_mask map_def,
           w_obstacles = map map_obstacle_to_sim_obstacle (am_obstacles map_def),
           w_players = ps, w_projectiles = [], w_deployables = [], w_next_deployable_id = 1,
           w_elapsed_ms = 0, w_initial_roll_state = 0, w_roll_state = 0\<rparr>;
         seed = compute_initial_roll_state w;
         w = w\<lparr>w_initial_roll_state := seed, w_roll_state := seed\<rparr> in
     Inr (case w_players w of
            [] \<Rightarrow> w
          | (owner, p) # _ \<Rightarrow> spawn_map_features owner (sp_team p) map_def w))"

section \<open>Inputs\<close>

definition movement_intent_new :: "i8 \<Rightarrow> i8 \<Rightarrow> simulation_error + movement_intent" where
  "movement_intent_new x y =
     (if \<not> (- 1 \<le> sint x \<and> sint x \<le> 1) then Inl (MovementComponentOutOfRange ''x'' x)
      else if \<not> (- 1 \<le> sint y \<and> sint y \<le> 1) then Inl (MovementComponentOutOfRange ''y'' y)
      else Inr \<lparr>mi_x = x, mi_y = y\<rparr>)"

text \<open>The guards shared by the inputs: the player exists and is alive.\<close>

definition living_player :: "simulation_world \<Rightarrow> player_id \<Rightarrow> simulation_error + sim_player" where
  "living_player w pid =
     (case player_at w pid of
        None \<Rightarrow> Inl (SimPlayerMissing pid)
      | Some p \<Rightarrow> if sp_alive p then Inr p else Inl (PlayerAlreadyDefeated pid))"

definition submit_input ::
  "player_id \<Rightarrow> movement_intent \<Rightarrow> simulation_world \<Rightarrow> simulation_error + simulation_world" where
  "submit_input pid movement w =
     and_then (living_player w pid) (\<lambda>_.
     Inr (upd_player pid (\<lambda>p. p\<lparr>sp_movement_intent := movement\<rparr>) w))"

definition update_aim ::
  "player_id \<Rightarrow> i16 \<Rightarrow> i16 \<Rightarrow> simulation_world \<Rightarrow> simulation_error + (bool \<times> simulation_world)" where
  "update_aim pid aim_x aim_y w =
     and_then (living_player w pid) (\<lambda>p.
     if aim_x = 0 \<and> aim_y = 0 then Inr (False, w)
     else Inr (sp_aim_x p \<noteq> aim_x \<or> sp_aim_y p \<noteq> aim_y,
       upd_player pid (\<lambda>p. p\<lparr>sp_aim_x := aim_x, sp_aim_y := aim_y\<rparr>) w))"

definition queue_primary_attack :: "player_id \<Rightarrow> simulation_world \<Rightarrow> simulation_error + simulation_world" where
  "queue_primary_attack pid w =
     and_then (living_player w pid) (\<lambda>p.
     if sp_active_cast p \<noteq> None then Inr w
     else Inr (upd_player pid (\<lambda>p. p\<lparr>sp_queued_actions := (sp_queued_actions p)\<lparr>qa_primary := True\<rparr>\<rparr>) w))"

definition queue_cast_with_mode ::
  "player_id \<Rightarrow> u8 \<Rightarrow> bool \<Rightarrow> simulation_world \<Rightarrow> simulation_error + simulation_world" where
  "queue_cast_with_mode pid slot self_target w =
     (if \<not> (1 \<le> slot \<and> slot \<le> 5) then Inl (InvalidSkillSlot slot)
      else
        and_then (living_player w pid) (\<lambda>p.
        if skill_at p (unat (slot - 1)) = None then Inl (SkillSlotEmpty slot)
        else if sp_active_cast p \<noteq> None then Inr w
        else Inr (upd_player pid (\<lambda>p. p\<lparr>sp_queued_actions := (sp_queued_actions p)
               \<lparr>qa_cast_slot := Some slot, qa_cast_self_target := self_target\<rparr>\<rparr>) w)))"

definition queue_cast :: "player_id \<Rightarrow> u8 \<Rightarrow> simulation_world \<Rightarrow> simulation_error + simulation_world" where
  "queue_cast pid slot = queue_cast_with_mode pid slot False"

definition cancel_active_cast ::
  "player_id \<Rightarrow> simulation_world \<Rightarrow> simulation_error + (bool \<times> simulation_world)" where
  "cancel_active_cast pid w =
     and_then (living_player w pid) (\<lambda>p.
     Inr (sp_active_cast p \<noteq> None, upd_player pid (\<lambda>p. p\<lparr>sp_active_cast := None\<rparr>) w))"

section \<open>Training reset\<close>

definition is_training_dummy :: "deployable_state \<Rightarrow> bool" where
  "is_training_dummy d \<longleftrightarrow>
     dp_behavior d = DbTrainingDummyResetFull \<or> dp_behavior d = DbTrainingDummyExecute"

definition reset_dummy :: "simulation_configuration \<Rightarrow> deployable_state \<Rightarrow> deployable_state" where
  "reset_dummy configuration d =
     d\<lparr>dp_remaining_ms := of_nat U16_MAX,
       dp_hit_points := (case dp_behavior d of
           DbTrainingDummyResetFull \<Rightarrow> dp_max_hit_points d
         | DbTrainingDummyExecute \<Rightarrow> training_dummy_execute_hit_points (dp_max_hit_points d)
             (tdc_execute_threshold_bps (sc_training_dummy configuration))
         | _ \<Rightarrow> dp_hit_points d)\<rparr>"

definition reset_player :: "sim_player \<Rightarrow> sim_player" where
  "reset_player p =
     p\<lparr>sp_x := sp_spawn_x p, sp_y := sp_spawn_y p, sp_aim_x := sp_spawn_aim_x p,
       sp_aim_y := sp_spawn_aim_y p, sp_hit_points := sp_max_hit_points p, sp_mana := sp_max_mana p,
       sp_alive := True, sp_moving := False, sp_movement_intent := zero_intent,
       sp_queued_actions := no_queued_actions, sp_active_cast := None,
       sp_primary_cooldown_ms := 0, sp_slot_cooldown_ms := replicate 5 0,
       sp_proc_cooldown_ms := replicate 5 0, sp_mana_regen_progress := 0,
       sp_movement_audio_progress_ms := 0, sp_statuses := [], sp_next_cast_procs := [],
       sp_hard_cc_dr := no_dr, sp_movement_cc_dr := no_dr, sp_cast_cc_dr := no_dr\<rparr>"

definition reset_training_session :: "simulation_world \<Rightarrow> simulation_world" where
  "reset_training_session w =
     w\<lparr>w_projectiles := [], w_elapsed_ms := 0, w_roll_state := w_initial_roll_state w,
       w_deployables := map (reset_dummy (w_configuration w)) (filter is_training_dummy (w_deployables w)),
       w_players := bt_map_values reset_player (w_players w)\<rparr>"

section \<open>Cooldowns, mana and diminishing returns\<close>

definition advance_cooldowns :: "u16 \<Rightarrow> simulation_world \<Rightarrow> simulation_world" where
  "advance_cooldowns delta_ms w =
     w\<lparr>w_players := bt_map_values (\<lambda>p.
        p\<lparr>sp_primary_cooldown_ms := sat_sub (sp_primary_cooldown_ms p) delta_ms,
          sp_slot_cooldown_ms := map (\<lambda>r. sat_sub r delta_ms) (sp_slot_cooldown_ms p),
          sp_proc_cooldown_ms := map (\<lambda>r. sat_sub r delta_ms) (sp_proc_cooldown_ms p)\<rparr>) (w_players w)\<rparr>"

text \<open>\<open>u32\<close> arithmetic that cannot overflow: at most \<open>65535 + 65535 * 65535\<close>.\<close>

definition regenerate_mana :: "u16 \<Rightarrow> u16 \<Rightarrow> sim_player \<Rightarrow> sim_player" where
  "regenerate_mana delta_ms regen_per_second p =
     (if sp_max_mana p \<le> sp_mana p then p\<lparr>sp_mana_regen_progress := 0\<rparr>
      else
        let total = (ucast (sp_mana_regen_progress p) :: u32) + ucast delta_ms * ucast regen_per_second;
            gained = clamp_u16 (total div 1000);
            p = p\<lparr>sp_mana_regen_progress := ucast (total mod 1000)\<rparr> in
        if gained = 0 then p
        else p\<lparr>sp_mana := min (sat_add (sp_mana p) gained) (sp_max_mana p)\<rparr>)"

definition advance_mana :: "u16 \<Rightarrow> simulation_world \<Rightarrow> simulation_world" where
  "advance_mana delta_ms w =
     w\<lparr>w_players := bt_map_values
        (regenerate_mana delta_ms (sc_mana_regen_per_second (w_configuration w))) (w_players w)\<rparr>"

definition advance_dr_state :: "u16 \<Rightarrow> cc_dr_state \<Rightarrow> cc_dr_state" where
  "advance_dr_state delta_ms s =
     (let remaining = sat_sub (dr_remaining_ms s) delta_ms in
      \<lparr>dr_stage = (if remaining = 0 then 0 else dr_stage s), dr_remaining_ms = remaining\<rparr>)"

definition advance_crowd_control_diminishing_returns :: "u16 \<Rightarrow> simulation_world \<Rightarrow> simulation_world" where
  "advance_crowd_control_diminishing_returns delta_ms w =
     w\<lparr>w_players := bt_map_values (\<lambda>p.
        p\<lparr>sp_hard_cc_dr := advance_dr_state delta_ms (sp_hard_cc_dr p),
          sp_movement_cc_dr := advance_dr_state delta_ms (sp_movement_cc_dr p),
          sp_cast_cc_dr := advance_dr_state delta_ms (sp_cast_cc_dr p)\<rparr>) (w_players w)\<rparr>"

section \<open>Status ticks\<close>

text \<open>
  The \<open>while\<close> loop that takes the intervals out of the progress, one item for each; it does not
  end when the interval is zero.
\<close>

partial_function (option) drain_ticks :: "u16 \<Rightarrow> u16 \<Rightarrow> 'a \<Rightarrow> 'a list \<Rightarrow> ('a list \<times> u16) option" where
  "drain_ticks interval_ms progress item acc =
     (if interval_ms \<le> progress then
        drain_ticks interval_ms (sat_sub progress interval_ms) item (acc @ [item])
      else Some (acc, progress))"

type_synonym periodic_effect = "player_id \<times> u8 \<times> status_kind \<times> u16"

definition tick_status ::
  "u16 \<Rightarrow> status_instance \<Rightarrow> (periodic_effect list \<times> status_instance) option" where
  "tick_status delta_ms s =
     (let s = s\<lparr>si_remaining_ms := sat_sub (si_remaining_ms s) delta_ms\<rparr> in
      case si_tick_interval_ms s of
        None \<Rightarrow> Some ([], s)
      | Some interval_ms \<Rightarrow>
          do { (effects, progress) \<leftarrow>
                 drain_ticks interval_ms (sat_add (si_tick_progress_ms s) delta_ms)
                   (si_source s, si_slot s, si_kind s,
                    sat_mul (si_magnitude s) (ucast (si_stacks s))) [];
               Some (effects, s\<lparr>si_tick_progress_ms := progress\<rparr>) })"

type_synonym expiry = "player_id \<times> u8 \<times> status_kind \<times> effect_payload"

text \<open>The effects, the payloads of expired statuses, the removed and the retained statuses.\<close>

primrec tick_statuses ::
  "u16 \<Rightarrow> status_instance list \<Rightarrow>
   (periodic_effect list \<times> expiry list \<times> sim_removed_status list \<times> status_instance list) option" where
  "tick_statuses delta_ms [] = Some ([], [], [], [])"
| "tick_statuses delta_ms (s # ss) =
     do { (effects, s) \<leftarrow> tick_status delta_ms s;
          (effects', expiries, removed, retained) \<leftarrow> tick_statuses delta_ms ss;
          Some (if 0 < si_remaining_ms s then (effects @ effects', expiries, removed, s # retained)
                else (effects @ effects',
                      (case si_expire_payload s of
                         Some payload \<Rightarrow> (si_source s, si_slot s, si_kind s, payload) # expiries
                       | None \<Rightarrow> expiries),
                      removed_status s # removed, retained)) }"

definition run_periodic_effect ::
  "player_id \<Rightarrow> periodic_effect \<Rightarrow> simulation_world \<Rightarrow> simulation_event list \<times> simulation_world" where
  "run_periodic_effect pid effect w =
     (case effect of (source, slot, kind, amount) \<Rightarrow>
        case kind of
          Poison \<Rightarrow> apply_damage_internal_with_context source slot [TargetPlayer pid] amount (Some kind) None False w
        | Hot \<Rightarrow> apply_healing_internal_with_context source slot [TargetPlayer pid] amount (Some kind) None False w
        | _ \<Rightarrow> ([], w))"

definition run_expiry ::
  "player_id \<Rightarrow> expiry \<Rightarrow> simulation_world \<Rightarrow> (simulation_event list \<times> simulation_world) option" where
  "run_expiry pid expiry w =
     (case expiry of (source, slot, kind, payload) \<Rightarrow>
        do { (es, w) \<leftarrow> apply_payload source slot [TargetPlayer pid] payload w;
             Some (TriggerResolved source slot kind TriggerExpire TargetPlayerKind
                     (player_id_get pid) (pl_kind payload) (pl_amount payload) # es, w) })"

definition status_tick_player ::
  "u16 \<Rightarrow> player_id \<Rightarrow> simulation_world \<Rightarrow> (simulation_event list \<times> simulation_world) option" where
  "status_tick_player delta_ms pid w =
     (case player_at w pid of
        None \<Rightarrow> Some ([], w)
      | Some p \<Rightarrow>
          if \<not> sp_alive p then Some ([], w)
          else
            do { (effects, expiries, removed, retained) \<leftarrow> tick_statuses delta_ms (sp_statuses p);
                 let w = upd_player pid (\<lambda>p. p\<lparr>sp_statuses := retained\<rparr>) w;
                 let (periodic, w) = for_each (run_periodic_effect pid) effects w;
                 (expired, w) \<leftarrow> for_each_opt (run_expiry pid) expiries w;
                 Some (map (removed_event pid RemovedExpired) removed @ periodic @ expired, w) })"

definition apply_status_ticks ::
  "u16 \<Rightarrow> simulation_world \<Rightarrow> (simulation_event list \<times> simulation_world) option" where
  "apply_status_ticks delta_ms w = for_each_opt (status_tick_player delta_ms) (bt_keys (w_players w)) w"

text \<open>The part of \<open>tick\<close> before movement and actions.\<close>

definition tick_timers ::
  "u16 \<Rightarrow> simulation_world \<Rightarrow> (simulation_event list \<times> simulation_world) option" where
  "tick_timers delta_ms w =
     (let w = w\<lparr>w_elapsed_ms := sat_add (w_elapsed_ms w) (ucast delta_ms)\<rparr>;
          w = advance_cooldowns delta_ms w;
          w = advance_mana delta_ms w;
          w = advance_crowd_control_diminishing_returns delta_ms w in
      apply_status_ticks delta_ms w)"

end
