(* ===== verification/Sim_Actions.thy ===== *)
theory Sim_Actions
  imports Sim_Targeting Sim_World
begin

text \<open>
  Attacks and casts (\<open>game_sim/src/actions.rs\<close>). A step takes the world and gives its events and
  the new world; \<open>None\<close> is a step that does not return a value: a panic or an endless loop.
  The snapshot of the attacker is taken once and passed on, as in the code.
\<close>

type_synonym sim_step = "simulation_world \<Rightarrow> (simulation_event list \<times> simulation_world) option"

section \<open>Snapshots\<close>

record sim_player_state =
  pst_player_id :: player_id
  pst_team :: team_side
  pst_x :: i16
  pst_y :: i16
  pst_aim_x :: i16
  pst_aim_y :: i16
  pst_hit_points :: u16
  pst_max_hit_points :: u16
  pst_mana :: u16
  pst_max_mana :: u16
  pst_alive :: bool
  pst_moving :: bool
  pst_primary_cooldown_remaining_ms :: u16
  pst_primary_cooldown_total_ms :: u16
  pst_slot_cooldown_remaining_ms :: "u16 list"
  pst_slot_cooldown_total_ms :: "u16 list"
  pst_current_cast_slot :: "u8 option"
  pst_current_cast_remaining_ms :: u16
  pst_current_cast_total_ms :: u16

definition player_state :: "simulation_world \<Rightarrow> player_id \<Rightarrow> sim_player_state option" where
  "player_state w pid =
     map_option (\<lambda>p.
       \<lparr>pst_player_id = pid, pst_team = sp_team p, pst_x = sp_x p, pst_y = sp_y p,
        pst_aim_x = sp_aim_x p, pst_aim_y = sp_aim_y p, pst_hit_points = sp_hit_points p,
        pst_max_hit_points = sp_max_hit_points p, pst_mana = sp_mana p, pst_max_mana = sp_max_mana p,
        pst_alive = sp_alive p, pst_moving = sp_moving p,
        pst_primary_cooldown_remaining_ms = sp_primary_cooldown_ms p,
        pst_primary_cooldown_total_ms = effective_primary_cooldown_ms w pid (md_cooldown_ms (sp_melee p)),
        pst_slot_cooldown_remaining_ms = sp_slot_cooldown_ms p,
        pst_slot_cooldown_total_ms = map (\<lambda>i. case skill_at p i of
            Some s \<Rightarrow> effective_skill_cooldown_ms w pid (cooldown_ms (sk_behavior s)) | None \<Rightarrow> 0) [0..<5],
        pst_current_cast_slot = map_option pc_slot (sp_active_cast p),
        pst_current_cast_remaining_ms = (case sp_active_cast p of Some c \<Rightarrow> pc_remaining_ms c | None \<Rightarrow> 0),
        pst_current_cast_total_ms = (case sp_active_cast p of Some c \<Rightarrow> pc_total_ms c | None \<Rightarrow> 0)\<rparr>)
     (player_at w pid)"

definition players_state :: "simulation_world \<Rightarrow> sim_player_state list" where
  "players_state w = List.map_filter (player_state w) (bt_keys (w_players w))"

definition is_team_defeated :: "simulation_world \<Rightarrow> team_side \<Rightarrow> bool" where
  "is_team_defeated w team =
     list_all (\<lambda>p. \<not> sp_alive p) (filter (\<lambda>p. sp_team p = team) (bt_values (w_players w)))"

abbreviation pst_pos :: "sim_player_state \<Rightarrow> point" where
  "pst_pos st \<equiv> (pst_x st, pst_y st)"

text \<open>What a cast carries.\<close>

record cast_execution =
  ce_attacker :: player_id
  ce_state :: sim_player_state
  ce_slot :: u8
  ce_self_target :: bool

record area_effect_execution =
  ae_range :: u16
  ae_radius :: u16
  ae_effect_kind :: sim_effect_kind
  ae_payload :: effect_payload

record dash_execution =
  de_distance :: u16
  de_effect_kind :: sim_effect_kind
  de_impact_radius :: "u16 option"
  de_payload :: "effect_payload option"

record cast_override =
  co_consumed_proc_index :: "nat option"
  co_costs_mana :: bool
  co_starts_cooldown :: bool

definition default_override :: cast_override where
  "default_override = \<lparr>co_consumed_proc_index = None, co_costs_mana = True, co_starts_cooldown = True\<rparr>"

definition behavior_label :: "skill_behavior \<Rightarrow> string" where
  "behavior_label b = (case b of
     SbProjectile _ _ _ _ _ _ _ _ \<Rightarrow> ''projectile'' | SbBeam _ _ _ _ _ _ _ \<Rightarrow> ''beam''
   | SbDash _ _ _ _ _ _ _ \<Rightarrow> ''dash'' | SbBurst _ _ _ _ _ _ _ \<Rightarrow> ''burst''
   | SbNova _ _ _ _ _ _ \<Rightarrow> ''nova'' | SbTeleport _ _ _ _ _ \<Rightarrow> ''teleport''
   | SbChannel _ _ _ _ _ _ _ _ _ \<Rightarrow> ''channel'' | SbPassive _ _ _ _ _ \<Rightarrow> ''passive''
   | SbSummon _ _ _ _ _ _ _ _ _ _ _ \<Rightarrow> ''summon'' | SbWard _ _ _ _ _ _ _ _ \<Rightarrow> ''ward''
   | SbTrap _ _ _ _ _ _ _ _ _ \<Rightarrow> ''trap'' | SbBarrier _ _ _ _ _ _ _ _ \<Rightarrow> ''barrier''
   | SbAura _ _ _ _ _ _ _ _ _ _ _ _ _ \<Rightarrow> ''aura'')"

section \<open>Striking\<close>

text \<open>Events already there, then the payload.\<close>

definition pay :: "simulation_event list \<Rightarrow> player_id \<Rightarrow> u8 \<Rightarrow> target_entity list \<Rightarrow> effect_payload \<Rightarrow> sim_step" where
  "pay es source slot targets payload w =
     do { (es', w) \<leftarrow> apply_payload source slot targets payload w; Some (es @ es', w) }"

definition harms :: "effect_payload \<Rightarrow> bool" where
  "harms payload \<longleftrightarrow> pl_kind payload = Damage"

definition strike_one :: "simulation_event list \<Rightarrow> player_id \<Rightarrow> u8 \<Rightarrow> target_entity option \<Rightarrow> effect_payload \<Rightarrow> sim_step" where
  "strike_one es source slot target payload w =
     (case target of
        Some t \<Rightarrow> pay (es @ append_target_outcomes source slot [t]) source slot [t] payload w
      | None \<Rightarrow> Some (es @ [ImpactMiss source slot NoTarget], w))"

definition strike_area ::
  "simulation_event list \<Rightarrow> player_id \<Rightarrow> u8 \<Rightarrow> point \<Rightarrow> u16 \<Rightarrow> player_id option \<Rightarrow> effect_payload \<Rightarrow> sim_step" where
  "strike_area es source slot center radius exclude payload w =
     (let targets = find_targets_in_radius w center radius exclude (harms payload) in
      pay (es @ append_target_outcomes source slot targets) source slot targets payload w)"

definition aura_pulse_events ::
  "player_id \<Rightarrow> u8 \<Rightarrow> point \<Rightarrow> u16 \<Rightarrow> sim_effect_kind \<Rightarrow> effect_payload \<Rightarrow> bool \<Rightarrow> sim_step" where
  "aura_pulse_events owner slot center radius kind payload emit_visual =
     strike_area (if emit_visual then [effect_at kind owner slot center center radius] else [])
       owner slot center radius None payload"

definition aimed_point :: "sim_player_state \<Rightarrow> u16 \<Rightarrow> point" where
  "aimed_point st distance = project_from_aim (pst_x st) (pst_y st) (pst_aim_x st) (pst_aim_y st) distance"

definition aimed_end :: "simulation_world \<Rightarrow> sim_player_state \<Rightarrow> u16 \<Rightarrow> point" where
  "aimed_end w st reach =
     truncate_line_to_obstacles (pst_pos st) (aimed_point st reach) (combat_obstacles w)"

definition resolve_primary_attack :: "player_id \<Rightarrow> sim_player_state \<Rightarrow> sim_step" where
  "resolve_primary_attack attacker st w =
     (case player_at w attacker of
        None \<Rightarrow> Some ([], w)
      | Some p \<Rightarrow>
          if 0 < sp_primary_cooldown_ms p then Some ([], w)
          else
            let melee = sp_melee p;
                cooldown = effective_primary_cooldown_ms w attacker (md_cooldown_ms melee);
                target_point = aimed_point st (md_range melee);
                es = [effect_at (effect_kind_of_skill (md_effect melee)) attacker 0 (pst_pos st)
                        target_point (md_radius melee)];
                w = break_stealth attacker w;
                w = upd_player attacker (\<lambda>p. p\<lparr>sp_primary_cooldown_ms := cooldown\<rparr>) w in
            strike_one es attacker 0
              (find_closest_target_near_point w attacker target_point (md_radius melee)
                 (harms (md_payload melee)))
              (md_payload melee) w)"

section \<open>Mana, cooldown and proc of a cast\<close>

definition consume_skill_mana :: "player_id \<Rightarrow> u16 \<Rightarrow> simulation_world \<Rightarrow> bool \<times> simulation_world" where
  "consume_skill_mana pid cost w =
     (if cost = 0 then (True, w)
      else
        (case player_at w pid of
           None \<Rightarrow> (False, w)
         | Some p \<Rightarrow>
             if sp_mana p < cost then (False, w)
             else (True, upd_player pid (\<lambda>p. p\<lparr>sp_mana := sat_sub (sp_mana p) cost\<rparr>) w)))"

definition remove_at :: "nat \<Rightarrow> 'a list \<Rightarrow> 'a list" where
  "remove_at i xs = take i xs @ drop (Suc i) xs"

definition commit_skill_cast ::
  "player_id \<Rightarrow> nat \<Rightarrow> u16 \<Rightarrow> u16 \<Rightarrow> bool \<Rightarrow> nat option \<Rightarrow> simulation_world \<Rightarrow> bool \<times> simulation_world" where
  "commit_skill_cast attacker slot_index cooldown cost starts_cooldown consumed_proc_index w =
     (case consume_skill_mana attacker cost w of
        (False, w) \<Rightarrow> (False, w)
      | (True, w) \<Rightarrow>
          let w = break_stealth attacker w;
              effective = effective_skill_cooldown_ms w attacker cooldown in
          (True, upd_player attacker (\<lambda>p.
             p\<lparr>sp_slot_cooldown_ms := (if starts_cooldown then (sp_slot_cooldown_ms p)[slot_index := effective]
                 else sp_slot_cooldown_ms p),
               sp_next_cast_procs := (case consumed_proc_index of
                   Some i \<Rightarrow> (if i < length (sp_next_cast_procs p) then remove_at i (sp_next_cast_procs p)
                             else sp_next_cast_procs p)
                 | None \<Rightarrow> sp_next_cast_procs p)\<rparr>) w))"

definition cast_override_for_skill :: "simulation_world \<Rightarrow> player_id \<Rightarrow> nat \<Rightarrow> cast_override" where
  "cast_override_for_skill w attacker slot_index =
     (case player_at w attacker of
        None \<Rightarrow> default_override
      | Some p \<Rightarrow>
          (case skill_at p slot_index of
             None \<Rightarrow> default_override
           | Some skill \<Rightarrow>
               (case find (\<lambda>(_, proc_state). sk_id skill \<in> set (ncp_skill_ids proc_state))
                       (List.enumerate 0 (sp_next_cast_procs p)) of
                  Some (i, proc_state) \<Rightarrow>
                    \<lparr>co_consumed_proc_index = Some i, co_costs_mana = ncp_costs_mana proc_state,
                     co_starts_cooldown = ncp_starts_cooldown proc_state\<rparr>
                | None \<Rightarrow> default_override)))"

text \<open>A cast that pays first and does nothing when it cannot.\<close>

definition committed ::
  "player_id \<Rightarrow> nat \<Rightarrow> u16 \<Rightarrow> u16 \<Rightarrow> bool \<Rightarrow> nat option \<Rightarrow> sim_step \<Rightarrow> sim_step" where
  "committed attacker slot_index cooldown cost starts_cooldown consumed_proc_index run w =
     (case commit_skill_cast attacker slot_index cooldown cost starts_cooldown consumed_proc_index w of
        (False, w) \<Rightarrow> Some ([], w)
      | (True, w) \<Rightarrow> run w)"

section \<open>Projectiles, beams, dashes, bursts, novas and teleports\<close>

text \<open>\<open>i16::try_from(radius + radius).unwrap_or(i16::MAX)\<close> for the spawn distance\<close>

definition spawn_projectile ::
  "player_id \<Rightarrow> u8 \<Rightarrow> sim_player_state \<Rightarrow> bool \<Rightarrow> u16 \<Rightarrow> u16 \<Rightarrow> u16 \<Rightarrow> sim_effect_kind \<Rightarrow> effect_payload \<Rightarrow> sim_step"
where
  "spawn_projectile attacker slot st self_target speed reach radius kind payload w =
     (if self_target then
        strike_one [effect_at kind attacker slot (pst_pos st) (pst_pos st) radius] attacker slot
          (Some (TargetPlayer attacker)) payload w
      else
        let direction = normalize_aim (pst_aim_x st) (pst_aim_y st);
            spawn_distance = f32_of_i16 (i16_or_max
              (uint (sc_player_radius_units (w_configuration w)) + uint radius));
            start_x = saturating_i16 (sint (pst_x st) + round_f32_to_i32 (f_mul (fst direction) spawn_distance));
            start_y = saturating_i16 (sint (pst_y st) + round_f32_to_i32 (f_mul (snd direction) spawn_distance)) in
        Some ([effect_at kind attacker slot (start_x, start_y) (start_x, start_y) radius],
          w\<lparr>w_projectiles := w_projectiles w @
            [\<lparr>pr_owner = attacker, pr_slot = slot, pr_kind = kind, pr_x = start_x, pr_y = start_y,
              pr_direction_x = fst direction, pr_direction_y = snd direction,
              pr_speed = effective_projectile_speed w attacker speed,
              pr_remaining_range = of_int (uint reach), pr_radius = radius, pr_payload = payload\<rparr>]\<rparr>))"

definition cast_beam_skill :: "cast_execution \<Rightarrow> area_effect_execution \<Rightarrow> sim_step" where
  "cast_beam_skill cast effect w =
     (let st = ce_state cast; attacker = ce_attacker cast; slot = ce_slot cast in
      if ce_self_target cast then
        strike_one [effect_at (ae_effect_kind effect) attacker slot (pst_pos st) (pst_pos st) (ae_radius effect)]
          attacker slot (Some (TargetPlayer attacker)) (ae_payload effect) w
      else
        let end' = aimed_end w st (ae_range effect) in
        strike_one [effect_at (ae_effect_kind effect) attacker slot (pst_pos st) end' (ae_radius effect)]
          attacker slot
          (find_first_target_on_segment w attacker (pst_pos st) end' (ae_radius effect) (harms (ae_payload effect)))
          (ae_payload effect) w)"

definition place_player :: "player_id \<Rightarrow> point \<Rightarrow> simulation_world \<Rightarrow> simulation_world" where
  "place_player pid p = upd_player pid (\<lambda>q. q\<lparr>sp_x := fst p, sp_y := snd p, sp_moving := False\<rparr>)"

definition cast_dash_skill :: "cast_execution \<Rightarrow> dash_execution \<Rightarrow> sim_step" where
  "cast_dash_skill cast dash w =
     (let st = ce_state cast; attacker = ce_attacker cast; slot = ce_slot cast;
          desired = (if ce_self_target cast then pst_pos st else aimed_point st (de_distance dash)) in
      do { resolved \<leftarrow> move_in_world w (combat_obstacles w) (pst_x st) (pst_y st)
             (sint (fst desired)) (sint (snd desired));
           let w = place_player attacker resolved w;
           let es = [effect_at (de_effect_kind dash) attacker slot (pst_pos st) resolved
                 (sc_player_radius_units (w_configuration w)),
               PlayerMoved attacker (fst resolved) (snd resolved)];
           (case (de_impact_radius dash, de_payload dash) of
              (Some radius, Some payload) \<Rightarrow>
                strike_area es attacker slot resolved radius
                  (if ce_self_target cast then None else Some attacker) payload w
            | _ \<Rightarrow> Some (es, w)) })"

definition cast_burst_skill :: "cast_execution \<Rightarrow> area_effect_execution \<Rightarrow> sim_step" where
  "cast_burst_skill cast effect w =
     (let st = ce_state cast;
          center = (if ce_self_target cast then pst_pos st else aimed_end w st (ae_range effect)) in
      strike_area [effect_at (ae_effect_kind effect) (ce_attacker cast) (ce_slot cast) center center (ae_radius effect)]
        (ce_attacker cast) (ce_slot cast) center (ae_radius effect) None (ae_payload effect) w)"

definition cast_nova_skill ::
  "player_id \<Rightarrow> sim_player_state \<Rightarrow> u8 \<Rightarrow> bool \<Rightarrow> u16 \<Rightarrow> sim_effect_kind \<Rightarrow> effect_payload \<Rightarrow> sim_step" where
  "cast_nova_skill attacker st slot self_target radius kind payload =
     strike_area [effect_at kind attacker slot (pst_pos st) (pst_pos st) radius]
       attacker slot (pst_pos st) radius None payload"

definition execute_channel_tick :: "cast_execution \<Rightarrow> area_effect_execution \<Rightarrow> sim_step" where
  "execute_channel_tick cast effect w =
     (let st = ce_state cast;
          center = (if ce_self_target cast \<or> ae_range effect = 0 then pst_pos st
                    else aimed_end w st (ae_range effect)) in
      strike_area [effect_at (ae_effect_kind effect) (ce_attacker cast) (ce_slot cast) center center (ae_radius effect)]
        (ce_attacker cast) (ce_slot cast) center (ae_radius effect) None (ae_payload effect) w)"

definition teleport_player :: "player_id \<Rightarrow> sim_player_state \<Rightarrow> u8 \<Rightarrow> bool \<Rightarrow> u16 \<Rightarrow> skill_effect_kind \<Rightarrow> sim_step" where
  "teleport_player attacker st slot self_target distance effect w =
     (let desired = (if self_target then pst_pos st else aimed_point st distance);
          resolved = resolve_teleport_destination w (pst_pos st) desired;
          w = place_player attacker resolved w in
      Some ([effect_at (effect_kind_of_skill effect) attacker slot (pst_pos st) resolved
               (sc_player_radius_units (w_configuration w)),
             PlayerMoved attacker (fst resolved) (snd resolved)], w))"

section \<open>Deployables and auras\<close>

definition add_deployable :: "(u32 \<Rightarrow> deployable_state) \<Rightarrow> simulation_world \<Rightarrow> u32 \<times> simulation_world" where
  "add_deployable f w =
     (let (did, w) = next_deployable_id w in (did, w\<lparr>w_deployables := w_deployables w @ [f did]\<rparr>))"

definition spawn_deployable_entity ::
  "player_id \<Rightarrow> sim_player_state \<Rightarrow> u8 \<Rightarrow> bool \<Rightarrow> u16 \<Rightarrow> u16 \<Rightarrow> u16 \<Rightarrow> u16 \<Rightarrow> sim_deployable_kind \<Rightarrow> bool \<Rightarrow> bool \<Rightarrow>
   deployable_behavior \<Rightarrow> simulation_world \<Rightarrow> u32 \<times> simulation_world" where
  "spawn_deployable_entity attacker st slot self_target distance radius duration_ms hit_points kind
       blocks_movement blocks_projectiles behavior w =
     (let desired = (if self_target then pst_pos st else aimed_point st distance);
          resolved = resolve_teleport_destination w (pst_pos st) desired;
          remaining_ms = (if kind = DkWard \<and> duration_ms = 0 then of_nat U16_MAX else duration_ms) in
      add_deployable (\<lambda>did.
        \<lparr>dp_id = did, dp_owner = attacker, dp_slot = slot, dp_team = pst_team st, dp_kind = kind,
         dp_x = fst resolved, dp_y = snd resolved, dp_radius = radius, dp_hit_points = hit_points,
         dp_max_hit_points = hit_points, dp_remaining_ms = remaining_ms,
         dp_blocks_movement = blocks_movement, dp_blocks_projectiles = blocks_projectiles,
         dp_behavior = behavior\<rparr>) w)"

definition deployable_visual :: "sim_deployable_kind \<Rightarrow> sim_effect_kind" where
  "deployable_visual kind = (case kind of
     DkSummon \<Rightarrow> SkillShot | DkWard \<Rightarrow> Nova | DkAura \<Rightarrow> Nova | DkTrap \<Rightarrow> Burst | DkBarrier \<Rightarrow> Burst
   | DkTrainingDummyResetFull \<Rightarrow> Burst | DkTrainingDummyExecute \<Rightarrow> Burst)"

definition spawn_deployable_events_with_visual ::
  "simulation_world \<Rightarrow> player_id \<Rightarrow> u8 \<Rightarrow> sim_player_state \<Rightarrow> u32 \<Rightarrow> bool \<Rightarrow> simulation_event list" where
  "spawn_deployable_events_with_visual w attacker slot st did emit_visual =
     (case deployable_at w did of
        None \<Rightarrow> []
      | Some d \<Rightarrow>
          (if emit_visual then
             [effect_at (deployable_visual (dp_kind d)) attacker slot (pst_pos st) (dp_x d, dp_y d) (dp_radius d)]
           else []) @
          [DeployableSpawned did attacker (dp_kind d) (dp_x d) (dp_y d) (dp_radius d)])"

definition spawn_deployable_events ::
  "simulation_world \<Rightarrow> player_id \<Rightarrow> u8 \<Rightarrow> sim_player_state \<Rightarrow> u32 \<Rightarrow> simulation_event list" where
  "spawn_deployable_events w attacker slot st did =
     spawn_deployable_events_with_visual w attacker slot st did True"

text \<open>The common end of the casts of summons, wards, traps and barriers.\<close>

definition deploy ::
  "player_id \<Rightarrow> sim_player_state \<Rightarrow> u8 \<Rightarrow> bool \<Rightarrow> u16 \<Rightarrow> u16 \<Rightarrow> u16 \<Rightarrow> u16 \<Rightarrow> sim_deployable_kind \<Rightarrow> bool \<Rightarrow>
   deployable_behavior \<Rightarrow> sim_step" where
  "deploy attacker st slot self_target distance radius duration_ms hit_points kind blocks behavior w =
     (case spawn_deployable_entity attacker st slot self_target distance radius duration_ms hit_points kind
             blocks blocks behavior w of
        (did, w) \<Rightarrow> Some (spawn_deployable_events w attacker slot st did, w))"

fun position :: "('a \<Rightarrow> bool) \<Rightarrow> 'a list \<Rightarrow> nat option" where
  "position P [] = None"
| "position P (x # xs) = (if P x then Some 0 else map_option Suc (position P xs))"

definition is_toggleable_aura :: "deployable_behavior \<Rightarrow> bool" where
  "is_toggleable_aura b = (case b of DbAura _ _ _ _ _ _ _ toggleable \<Rightarrow> toggleable | _ \<Rightarrow> False)"

definition active_toggleable_aura_index :: "simulation_world \<Rightarrow> player_id \<Rightarrow> u8 \<Rightarrow> nat option" where
  "active_toggleable_aura_index w owner slot =
     position (\<lambda>d. dp_owner d = owner \<and> dp_slot d = slot \<and> is_toggleable_aura (dp_behavior d)) (w_deployables w)"

definition aura_end_payload :: "deployable_behavior \<Rightarrow> (sim_effect_kind \<times> effect_payload) option" where
  "aura_end_payload b = (case b of
     DbAura _ _ kind _ _ (Some payload) _ _ \<Rightarrow> Some (kind, payload) | _ \<Rightarrow> None)"

definition cancel_toggleable_aura :: "nat \<Rightarrow> sim_player_state \<Rightarrow> sim_step" where
  "cancel_toggleable_aura index st w =
     (if length (w_deployables w) \<le> index then Some ([], w)
      else
        let d = w_deployables w ! index;
            w = w\<lparr>w_deployables := remove_at index (w_deployables w)\<rparr>;
            w = (if deployable_tracks_toggleable_stealth d then
                   upd_player (dp_owner d) (\<lambda>p. p\<lparr>sp_statuses := filter (\<lambda>s.
                     \<not> (si_source s = dp_owner d \<and> si_slot s = dp_slot d \<and> si_kind s = Stealth)) (sp_statuses p)\<rparr>) w
                 else w) in
        (case aura_end_payload (dp_behavior d) of
           Some (kind, payload) \<Rightarrow>
             aura_pulse_events (dp_owner d) (dp_slot d) (pst_pos st) (dp_radius d) kind payload
               (\<not> payload_hides_aura_visuals payload) w
         | None \<Rightarrow> Some ([], w)))"

definition cancel_existing_toggleable_aura ::
  "player_id \<Rightarrow> u8 \<Rightarrow> bool \<Rightarrow> simulation_world \<Rightarrow> nat option" where
  "cancel_existing_toggleable_aura attacker slot toggleable w =
     (if toggleable then active_toggleable_aura_index w attacker slot else None)"

definition aura_cast_start_events ::
  "player_id \<Rightarrow> u8 \<Rightarrow> point \<Rightarrow> u16 \<Rightarrow> sim_effect_kind \<Rightarrow> effect_payload option \<Rightarrow> sim_step" where
  "aura_cast_start_events attacker slot center radius kind cast_start w =
     (case cast_start of
        Some payload \<Rightarrow> aura_pulse_events attacker slot center radius kind payload False w
      | None \<Rightarrow> Some ([], w))"

definition aura_visuals_are_hidden :: "effect_payload \<Rightarrow> effect_payload option \<Rightarrow> bool" where
  "aura_visuals_are_hidden payload cast_start \<longleftrightarrow> payload_hides_aura_visuals payload \<or>
     (case cast_start of Some p \<Rightarrow> payload_hides_aura_visuals p | None \<Rightarrow> False)"

text \<open>An aura with hit points is deployed at the aim, one without is anchored to its caster.\<close>

definition deploy_aura ::
  "player_id \<Rightarrow> sim_player_state \<Rightarrow> u8 \<Rightarrow> bool \<Rightarrow> u16 \<Rightarrow> u16 \<Rightarrow> u16 \<Rightarrow> u16 option \<Rightarrow> bool \<Rightarrow> u16 \<Rightarrow>
   effect_payload option \<Rightarrow> effect_payload option \<Rightarrow> skill_effect_kind \<Rightarrow> effect_payload \<Rightarrow> sim_step" where
  "deploy_aura attacker st slot self_target distance radius duration_ms hit_points toggleable
       tick_interval_ms cast_start cast_end effect payload w =
     (let kind = effect_kind_of_skill effect;
          visible = (\<not> aura_visuals_are_hidden payload cast_start);
          behavior = (\<lambda>anchor. DbAura tick_interval_ms 0 kind payload cast_start cast_end anchor toggleable);
          (did, w) = (case hit_points of
              Some hp \<Rightarrow> spawn_deployable_entity attacker st slot self_target distance radius duration_ms hp
                DkAura False False (behavior None) w
            | None \<Rightarrow> add_deployable (\<lambda>did.
                \<lparr>dp_id = did, dp_owner = attacker, dp_slot = slot, dp_team = pst_team st, dp_kind = DkAura,
                 dp_x = pst_x st, dp_y = pst_y st, dp_radius = radius, dp_hit_points = 1,
                 dp_max_hit_points = 1, dp_remaining_ms = duration_ms, dp_blocks_movement = False,
                 dp_blocks_projectiles = False, dp_behavior = behavior (Some attacker)\<rparr>) w);
          es = spawn_deployable_events_with_visual w attacker slot st did visible;
          center = (case hit_points of
              Some _ \<Rightarrow> (case deployable_at w did of Some d \<Rightarrow> (dp_x d, dp_y d) | None \<Rightarrow> pst_pos st)
            | None \<Rightarrow> pst_pos st) in
      do { (es', w) \<leftarrow> aura_cast_start_events attacker slot center radius kind cast_start w;
           Some (es @ es', w) })"

section \<open>Paid casts\<close>

text \<open>One per kind of skill, as in the code: \<open>committed\<close> with the cooldown, the mana, whether the
  cooldown starts and the consumed proc, then the effect.\<close>

definition resolve_projectile_cast ::
  "player_id \<Rightarrow> sim_player_state \<Rightarrow> u8 \<Rightarrow> nat \<Rightarrow> bool \<Rightarrow> u16 \<Rightarrow> u16 \<Rightarrow> bool \<Rightarrow> nat option \<Rightarrow> u16 \<Rightarrow> u16 \<Rightarrow> u16 \<Rightarrow>
   skill_effect_kind \<Rightarrow> effect_payload \<Rightarrow> sim_step" where
  "resolve_projectile_cast attacker st slot slot_index self_target cooldown mana starts consumed
       speed reach radius effect payload =
     committed attacker slot_index cooldown mana starts consumed
       (spawn_projectile attacker slot st self_target speed reach radius (effect_kind_of_skill effect) payload)"

definition resolve_beam_cast ::
  "player_id \<Rightarrow> sim_player_state \<Rightarrow> u8 \<Rightarrow> nat \<Rightarrow> bool \<Rightarrow> u16 \<Rightarrow> u16 \<Rightarrow> bool \<Rightarrow> nat option \<Rightarrow> u16 \<Rightarrow> u16 \<Rightarrow>
   skill_effect_kind \<Rightarrow> effect_payload \<Rightarrow> sim_step" where
  "resolve_beam_cast attacker st slot slot_index self_target cooldown mana starts consumed reach radius effect payload =
     committed attacker slot_index cooldown mana starts consumed
       (cast_beam_skill
         \<lparr>ce_attacker = attacker, ce_state = st, ce_slot = slot, ce_self_target = self_target\<rparr>
         \<lparr>ae_range = reach, ae_radius = radius, ae_effect_kind = effect_kind_of_skill effect, ae_payload = payload\<rparr>)"

definition resolve_dash_cast ::
  "player_id \<Rightarrow> sim_player_state \<Rightarrow> u8 \<Rightarrow> nat \<Rightarrow> bool \<Rightarrow> u16 \<Rightarrow> u16 \<Rightarrow> bool \<Rightarrow> nat option \<Rightarrow> u16 \<Rightarrow>
   skill_effect_kind \<Rightarrow> u16 option \<Rightarrow> effect_payload option \<Rightarrow> sim_step" where
  "resolve_dash_cast attacker st slot slot_index self_target cooldown mana starts consumed
       distance effect impact_radius payload =
     committed attacker slot_index cooldown mana starts consumed
       (cast_dash_skill
         \<lparr>ce_attacker = attacker, ce_state = st, ce_slot = slot, ce_self_target = self_target\<rparr>
         \<lparr>de_distance = distance, de_effect_kind = effect_kind_of_skill effect,
          de_impact_radius = impact_radius, de_payload = payload\<rparr>)"

definition resolve_burst_cast ::
  "player_id \<Rightarrow> sim_player_state \<Rightarrow> u8 \<Rightarrow> nat \<Rightarrow> bool \<Rightarrow> u16 \<Rightarrow> u16 \<Rightarrow> bool \<Rightarrow> nat option \<Rightarrow> u16 \<Rightarrow> u16 \<Rightarrow>
   skill_effect_kind \<Rightarrow> effect_payload \<Rightarrow> sim_step" where
  "resolve_burst_cast attacker st slot slot_index self_target cooldown mana starts consumed reach radius effect payload =
     committed attacker slot_index cooldown mana starts consumed
       (cast_burst_skill
         \<lparr>ce_attacker = attacker, ce_state = st, ce_slot = slot, ce_self_target = self_target\<rparr>
         \<lparr>ae_range = reach, ae_radius = radius, ae_effect_kind = effect_kind_of_skill effect, ae_payload = payload\<rparr>)"

definition resolve_nova_cast ::
  "player_id \<Rightarrow> sim_player_state \<Rightarrow> u8 \<Rightarrow> nat \<Rightarrow> bool \<Rightarrow> u16 \<Rightarrow> u16 \<Rightarrow> bool \<Rightarrow> nat option \<Rightarrow> u16 \<Rightarrow>
   skill_effect_kind \<Rightarrow> effect_payload \<Rightarrow> sim_step" where
  "resolve_nova_cast attacker st slot slot_index self_target cooldown mana starts consumed radius effect payload =
     committed attacker slot_index cooldown mana starts consumed
       (cast_nova_skill attacker st slot self_target radius (effect_kind_of_skill effect) payload)"

definition resolve_teleport_cast ::
  "player_id \<Rightarrow> sim_player_state \<Rightarrow> u8 \<Rightarrow> nat \<Rightarrow> bool \<Rightarrow> u16 \<Rightarrow> u16 \<Rightarrow> bool \<Rightarrow> nat option \<Rightarrow> u16 \<Rightarrow>
   skill_effect_kind \<Rightarrow> sim_step" where
  "resolve_teleport_cast attacker st slot slot_index self_target cooldown mana starts consumed distance effect =
     committed attacker slot_index cooldown mana starts consumed
       (teleport_player attacker st slot self_target distance effect)"

definition resolve_summon_cast ::
  "player_id \<Rightarrow> sim_player_state \<Rightarrow> u8 \<Rightarrow> nat \<Rightarrow> bool \<Rightarrow> u16 \<Rightarrow> u16 \<Rightarrow> bool \<Rightarrow> nat option \<Rightarrow> u16 \<Rightarrow> u16 \<Rightarrow> u16 \<Rightarrow> u16 \<Rightarrow>
   u16 \<Rightarrow> u16 \<Rightarrow> skill_effect_kind \<Rightarrow> effect_payload \<Rightarrow> sim_step" where
  "resolve_summon_cast attacker st slot slot_index self_target cooldown mana starts consumed
       distance radius duration hp reach interval effect payload =
     committed attacker slot_index cooldown mana starts consumed
       (deploy attacker st slot self_target distance radius duration hp DkSummon False
         (DbSummon reach interval 0 (effect_kind_of_skill effect) payload))"

definition resolve_ward_cast ::
  "player_id \<Rightarrow> sim_player_state \<Rightarrow> u8 \<Rightarrow> nat \<Rightarrow> bool \<Rightarrow> u16 \<Rightarrow> u16 \<Rightarrow> bool \<Rightarrow> nat option \<Rightarrow> u16 \<Rightarrow> u16 \<Rightarrow> u16 \<Rightarrow> u16 \<Rightarrow>
   sim_step" where
  "resolve_ward_cast attacker st slot slot_index self_target cooldown mana starts consumed distance radius duration hp =
     committed attacker slot_index cooldown mana starts consumed
       (deploy attacker st slot self_target distance radius duration hp DkWard False DbWard)"

definition resolve_trap_cast ::
  "player_id \<Rightarrow> sim_player_state \<Rightarrow> u8 \<Rightarrow> nat \<Rightarrow> bool \<Rightarrow> u16 \<Rightarrow> u16 \<Rightarrow> bool \<Rightarrow> nat option \<Rightarrow> u16 \<Rightarrow> u16 \<Rightarrow> u16 \<Rightarrow> u16 \<Rightarrow>
   effect_payload \<Rightarrow> sim_step" where
  "resolve_trap_cast attacker st slot slot_index self_target cooldown mana starts consumed
       distance radius duration hp payload =
     committed attacker slot_index cooldown mana starts consumed
       (deploy attacker st slot self_target distance radius duration hp DkTrap False (DbTrap payload))"

definition resolve_barrier_cast ::
  "player_id \<Rightarrow> sim_player_state \<Rightarrow> u8 \<Rightarrow> nat \<Rightarrow> bool \<Rightarrow> u16 \<Rightarrow> u16 \<Rightarrow> bool \<Rightarrow> nat option \<Rightarrow> u16 \<Rightarrow> u16 \<Rightarrow> u16 \<Rightarrow> u16 \<Rightarrow>
   sim_step" where
  "resolve_barrier_cast attacker st slot slot_index self_target cooldown mana starts consumed
       distance radius duration hp =
     committed attacker slot_index cooldown mana starts consumed
       (deploy attacker st slot self_target distance radius duration hp DkBarrier True DbBarrier)"

text \<open>A toggleable aura that is up is cancelled instead, without paying.\<close>

definition resolve_aura_cast ::
  "player_id \<Rightarrow> sim_player_state \<Rightarrow> u8 \<Rightarrow> nat \<Rightarrow> bool \<Rightarrow> u16 \<Rightarrow> u16 \<Rightarrow> bool \<Rightarrow> nat option \<Rightarrow> u16 \<Rightarrow> u16 \<Rightarrow> u16 \<Rightarrow>
   u16 option \<Rightarrow> bool \<Rightarrow> u16 \<Rightarrow> effect_payload option \<Rightarrow> effect_payload option \<Rightarrow> skill_effect_kind \<Rightarrow>
   effect_payload \<Rightarrow> sim_step" where
  "resolve_aura_cast attacker st slot slot_index self_target cooldown mana starts consumed
       distance radius duration hp toggleable interval cast_start cast_end effect payload w =
     (case cancel_existing_toggleable_aura attacker slot toggleable w of
        Some index \<Rightarrow> cancel_toggleable_aura index st w
      | None \<Rightarrow>
          committed attacker slot_index cooldown mana starts consumed
            (deploy_aura attacker st slot self_target distance radius duration hp toggleable interval
              cast_start cast_end effect payload) w)"

lemmas paid_cast_defs = resolve_projectile_cast_def resolve_beam_cast_def resolve_dash_cast_def
  resolve_burst_cast_def resolve_nova_cast_def resolve_teleport_cast_def resolve_summon_cast_def
  resolve_ward_cast_def resolve_trap_cast_def resolve_barrier_cast_def resolve_aura_cast_def

section \<open>Executing a skill\<close>

definition execute_skill_behavior ::
  "player_id \<Rightarrow> sim_player_state \<Rightarrow> u8 \<Rightarrow> nat \<Rightarrow> bool \<Rightarrow> skill_behavior \<Rightarrow> cast_override \<Rightarrow> sim_step" where
  "execute_skill_behavior attacker st slot slot_index self_target behavior override =
     (let cost = (\<lambda>mana. if co_costs_mana override then mana else 0);
          starts = co_starts_cooldown override;
          consumed = co_consumed_proc_index override in
      case behavior of
        SbProjectile cooldown _ mana speed reach radius effect payload \<Rightarrow>
          resolve_projectile_cast attacker st slot slot_index self_target cooldown (cost mana) starts consumed
            speed reach radius effect payload
      | SbBeam cooldown _ mana reach radius effect payload \<Rightarrow>
          resolve_beam_cast attacker st slot slot_index self_target cooldown (cost mana) starts consumed
            reach radius effect payload
      | SbDash cooldown _ mana distance effect impact_radius payload \<Rightarrow>
          resolve_dash_cast attacker st slot slot_index self_target cooldown (cost mana) starts consumed
            distance effect impact_radius payload
      | SbBurst cooldown _ mana reach radius effect payload \<Rightarrow>
          resolve_burst_cast attacker st slot slot_index self_target cooldown (cost mana) starts consumed
            reach radius effect payload
      | SbNova cooldown _ mana radius effect payload \<Rightarrow>
          resolve_nova_cast attacker st slot slot_index self_target cooldown (cost mana) starts consumed
            radius effect payload
      | SbTeleport cooldown _ mana distance effect \<Rightarrow>
          resolve_teleport_cast attacker st slot slot_index self_target cooldown (cost mana) starts consumed
            distance effect
      | SbChannel _ _ _ _ _ _ _ _ _ \<Rightarrow> (\<lambda>w. Some ([], w))
      | SbPassive _ _ _ _ _ \<Rightarrow> (\<lambda>w. Some ([], w))
      | SbSummon cooldown _ mana distance radius duration hp reach interval effect payload \<Rightarrow>
          resolve_summon_cast attacker st slot slot_index self_target cooldown (cost mana) starts consumed
            distance radius duration hp reach interval effect payload
      | SbWard cooldown _ mana distance radius duration hp _ \<Rightarrow>
          resolve_ward_cast attacker st slot slot_index self_target cooldown (cost mana) starts consumed
            distance radius duration hp
      | SbTrap cooldown _ mana distance radius duration hp _ payload \<Rightarrow>
          resolve_trap_cast attacker st slot slot_index self_target cooldown (cost mana) starts consumed
            distance radius duration hp payload
      | SbBarrier cooldown _ mana distance radius duration hp _ \<Rightarrow>
          resolve_barrier_cast attacker st slot slot_index self_target cooldown (cost mana) starts consumed
            distance radius duration hp
      | SbAura cooldown _ mana distance radius duration hp toggleable interval cast_start cast_end effect payload \<Rightarrow>
          resolve_aura_cast attacker st slot slot_index self_target cooldown (cost mana) starts consumed
            distance radius duration hp toggleable interval cast_start cast_end effect payload)"

section \<open>Starting casts\<close>

definition start_pending_cast ::
  "player_id \<Rightarrow> sim_player_state \<Rightarrow> u8 \<Rightarrow> nat \<Rightarrow> bool \<Rightarrow> skill_behavior \<Rightarrow> u16 \<Rightarrow> simulation_world \<Rightarrow>
   simulation_event option \<times> simulation_world" where
  "start_pending_cast attacker st slot slot_index self_target behavior cast_time w =
     (if pst_moving st then (None, w)
      else
        (case player_at w attacker of
           None \<Rightarrow> (None, w)
         | Some p \<Rightarrow>
             if sp_active_cast p \<noteq> None \<or> sp_mana p < mana_cost behavior then (None, w)
             else
               let w = upd_player attacker (\<lambda>p. p\<lparr>sp_active_cast := Some
                     \<lparr>pc_slot = slot, pc_slot_index = slot_index, pc_self_target = self_target,
                      pc_remaining_ms = cast_time, pc_total_ms = cast_time, pc_just_started = True,
                      pc_mode = Windup\<rparr>\<rparr>) w in
               (Some (CastStarted attacker slot (behavior_label behavior) ModeWindup cast_time),
                break_stealth attacker w)))"

definition start_channel ::
  "player_id \<Rightarrow> sim_player_state \<Rightarrow> u8 \<Rightarrow> nat \<Rightarrow> bool \<Rightarrow> skill_behavior \<Rightarrow> cast_override \<Rightarrow> simulation_world \<Rightarrow>
   simulation_event option \<times> simulation_world" where
  "start_channel attacker st slot slot_index self_target behavior override w =
     (case behavior of
        SbChannel cooldown _ mana reach radius duration interval effect payload \<Rightarrow>
          if pst_moving st then (None, w)
          else
            let cost = (if co_costs_mana override then mana else 0) in
            (case player_at w attacker of
               None \<Rightarrow> (None, w)
             | Some p \<Rightarrow>
                 if sp_active_cast p \<noteq> None \<or> sp_mana p < cost then (None, w)
                 else
                   (case commit_skill_cast attacker slot_index cooldown cost (co_starts_cooldown override)
                          (co_consumed_proc_index override) w of
                      (False, w) \<Rightarrow> (None, w)
                    | (True, w) \<Rightarrow>
                        (Some (CastStarted attacker slot ''channel'' ModeChannel duration),
                         upd_player attacker (\<lambda>p. p\<lparr>sp_active_cast := Some
                           \<lparr>pc_slot = slot, pc_slot_index = slot_index, pc_self_target = self_target,
                            pc_remaining_ms = duration, pc_total_ms = duration, pc_just_started = True,
                            pc_mode = Channel self_target reach radius interval 0
                              (effect_kind_of_skill effect) payload\<rparr>\<rparr>) w)))
      | _ \<Rightarrow> (None, w))"

definition event_step :: "simulation_event option \<times> simulation_world \<Rightarrow> (simulation_event list \<times> simulation_world) option" where
  "event_step r = (case r of (event, w) \<Rightarrow> Some (case event of Some e \<Rightarrow> [e] | None \<Rightarrow> [], w))"

fun is_channel :: "skill_behavior \<Rightarrow> bool" where
  "is_channel (SbChannel _ _ _ _ _ _ _ _ _) = True"
| "is_channel _ = False"

fun is_passive :: "skill_behavior \<Rightarrow> bool" where
  "is_passive (SbPassive _ _ _ _ _) = True"
| "is_passive _ = False"

fun is_toggleable_skill :: "skill_behavior \<Rightarrow> bool" where
  "is_toggleable_skill (SbAura _ _ _ _ _ _ _ toggleable _ _ _ _ _) = toggleable"
| "is_toggleable_skill _ = False"

text \<open>The slot index is below the number of slots wherever a cast commits: \<open>resolve_cast\<close> checks it.
  It comes from \<open>slot - 1\<close> in \<open>u8\<close>; past the five slots the indexing panics.\<close>

definition resolve_cast :: "player_id \<Rightarrow> sim_player_state \<Rightarrow> u8 \<Rightarrow> bool \<Rightarrow> sim_step" where
  "resolve_cast attacker st slot self_target w =
     (let slot_index = unat (slot - 1) in
      case player_at w attacker of
        None \<Rightarrow> Some ([], w)
      | Some p \<Rightarrow>
          if length (sp_slot_cooldown_ms p) \<le> slot_index \<or> length (sp_skills p) \<le> slot_index then None
          else
            (case sp_skills p ! slot_index of
               None \<Rightarrow> Some ([], w)
             | Some skill \<Rightarrow>
                 let cooling = (0 < sp_slot_cooldown_ms p ! slot_index);
                     behavior = sk_behavior skill;
                     toggle_cancel = (cooling \<and> is_toggleable_skill behavior \<and>
                       active_toggleable_aura_index w attacker slot \<noteq> None) in
                 if cooling \<and> \<not> toggle_cancel then Some ([], w)
                 else if is_passive behavior then Some ([], w)
                 else
                   let override = cast_override_for_skill w attacker slot_index;
                       cast_time = (if co_consumed_proc_index override \<noteq> None then 0
                         else effective_cast_time_ms w attacker (cast_time_ms behavior)) in
                   if 0 < cast_time then
                     event_step (start_pending_cast attacker st slot slot_index self_target behavior cast_time w)
                   else if is_channel behavior then
                     event_step (start_channel attacker st slot slot_index self_target behavior override w)
                   else
                     do { (es, w) \<leftarrow> execute_skill_behavior attacker st slot slot_index self_target behavior override w;
                          Some (CastStarted attacker slot (behavior_label behavior) ModeWindup 0 # es @
                            [CastCompleted attacker slot (behavior_label behavior)], w) }))"

section \<open>Queued actions\<close>

definition blocks_casts :: "status_instance \<Rightarrow> bool" where
  "blocks_casts s \<longleftrightarrow> si_kind s \<in> {Silence, Stun, Sleep, Fear}"

definition blocks_actions :: "status_instance \<Rightarrow> bool" where
  "blocks_actions s \<longleftrightarrow> si_kind s \<in> {Stun, Sleep, Fear}"

definition resolve_player_actions :: "player_id \<Rightarrow> sim_step" where
  "resolve_player_actions pid w =
     (case (player_state w pid, player_at w pid) of
        (Some st, Some p) \<Rightarrow>
          if \<not> pst_alive st then Some ([], w)
          else
            let casts_blocked = list_ex blocks_casts (sp_statuses p);
                actions_blocked = list_ex blocks_actions (sp_statuses p);
                queued = sp_queued_actions p in
            do { (es, w) \<leftarrow> (if qa_primary queued \<and> \<not> actions_blocked then resolve_primary_attack pid st w
                   else Some ([], w));
                 (es', w) \<leftarrow> (case qa_cast_slot queued of
                     Some slot \<Rightarrow>
                       if casts_blocked then Some ([], w)
                       else resolve_cast pid st slot (qa_cast_self_target queued) w
                   | None \<Rightarrow> Some ([], w));
                 Some (es @ es', upd_player pid (\<lambda>p. p\<lparr>sp_queued_actions := no_queued_actions\<rparr>) w) }
      | _ \<Rightarrow> Some ([], w))"

definition resolve_queued_actions :: sim_step where
  "resolve_queued_actions w = for_each_opt resolve_player_actions (bt_keys (w_players w)) w"

section \<open>Active casts\<close>

definition cancel_cast :: "player_id \<Rightarrow> sim_cast_cancel_reason \<Rightarrow> simulation_world \<Rightarrow> simulation_event list \<times> simulation_world" where
  "cancel_cast pid reason w =
     (case player_at w pid of
        Some p \<Rightarrow>
          (case sp_active_cast p of
             Some cast \<Rightarrow> ([CastCanceled pid (pc_slot cast) reason],
               upd_player pid (\<lambda>p. p\<lparr>sp_active_cast := None\<rparr>) w)
           | None \<Rightarrow> ([], w))
      | None \<Rightarrow> ([], w))"

definition set_cast :: "player_id \<Rightarrow> pending_cast option \<Rightarrow> simulation_world \<Rightarrow> simulation_world" where
  "set_cast pid cast = upd_player pid (\<lambda>p. p\<lparr>sp_active_cast := cast\<rparr>)"

text \<open>The end of a windup.\<close>

definition complete_windup :: "player_id \<Rightarrow> sim_player_state \<Rightarrow> pending_cast \<Rightarrow> skill_behavior \<Rightarrow> sim_step" where
  "complete_windup pid st cast behavior w =
     (if is_channel behavior then
        event_step (start_channel pid st (pc_slot cast) (pc_slot_index cast) (pc_self_target cast) behavior
          default_override w)
      else
        do { (es, w) \<leftarrow> execute_skill_behavior pid st (pc_slot cast) (pc_slot_index cast) (pc_self_target cast)
               behavior default_override w;
             Some (es @ [CastCompleted pid (pc_slot cast) (behavior_label behavior)], w) })"

definition channel_tick :: "player_id \<Rightarrow> sim_player_state \<Rightarrow> u8 \<Rightarrow> bool \<Rightarrow> area_effect_execution \<Rightarrow> nat \<Rightarrow> sim_step" where
  "channel_tick pid st slot self_target effect tick_index w =
     do { (es, w) \<leftarrow> execute_channel_tick
            \<lparr>ce_attacker = pid, ce_state = st, ce_slot = slot, ce_self_target = self_target\<rparr> effect w;
          Some (ChannelTick pid slot (sat_add (of_nat tick_index) 1) ''channel'' # es, w) }"

definition advance_channel ::
  "u16 \<Rightarrow> player_id \<Rightarrow> sim_player_state \<Rightarrow> pending_cast \<Rightarrow> sim_step" where
  "advance_channel delta_ms pid st cast w =
     (case pc_mode cast of
        Windup \<Rightarrow> Some ([], w)
      | Channel self_target reach radius interval progress kind payload \<Rightarrow>
          if interval = 0 then None
          else
            let remaining = sat_sub (pc_remaining_ms cast) delta_ms;
                total = sat_add progress delta_ms;
                cast' = cast\<lparr>pc_remaining_ms := remaining,
                  pc_mode := Channel self_target reach radius interval (total mod interval) kind payload\<rparr>;
                w = set_cast pid (if remaining = 0 then None else Some cast') w in
            do { (es, w) \<leftarrow> for_each_opt (channel_tick pid st (pc_slot cast) self_target
                     \<lparr>ae_range = reach, ae_radius = radius, ae_effect_kind = kind, ae_payload = payload\<rparr>)
                   [0..<unat (total div interval)] w;
                 let finished = (case player_at w pid of Some p \<Rightarrow> sp_active_cast p = None | None \<Rightarrow> True);
                 Some (es @ (if finished then [CastCompleted pid (pc_slot cast) ''channel''] else []), w) })"

definition advance_cast_of :: "u16 \<Rightarrow> player_id \<Rightarrow> sim_player_state \<Rightarrow> sim_player \<Rightarrow> pending_cast \<Rightarrow> sim_step" where
  "advance_cast_of delta_ms pid st p cast w =
     (if pc_just_started cast then Some ([], set_cast pid (Some (cast\<lparr>pc_just_started := False\<rparr>)) w)
      else
        (case pc_mode cast of
           Windup \<Rightarrow>
             let remaining = sat_sub (pc_remaining_ms cast) delta_ms in
             if 0 < remaining then Some ([], set_cast pid (Some (cast\<lparr>pc_remaining_ms := remaining\<rparr>)) w)
             else if length (sp_skills p) \<le> pc_slot_index cast then None
             else
               (case sp_skills p ! pc_slot_index cast of
                  None \<Rightarrow> Some ([], set_cast pid None w)
                | Some skill \<Rightarrow> complete_windup pid st cast (sk_behavior skill) (set_cast pid None w))
         | Channel _ _ _ _ _ _ _ \<Rightarrow> advance_channel delta_ms pid st cast w))"

definition advance_active_cast :: "u16 \<Rightarrow> player_id \<Rightarrow> sim_step" where
  "advance_active_cast delta_ms pid w =
     (case (player_state w pid, player_at w pid) of
        (Some st, Some p) \<Rightarrow>
          if \<not> pst_alive st then Some (cancel_cast pid CancelDefeat w)
          else if sp_active_cast p \<noteq> None \<and> list_ex blocks_casts (sp_statuses p) then
            Some (cancel_cast pid CancelControlLoss w)
          else
            (case sp_active_cast p of
               None \<Rightarrow> Some ([], w)
             | Some cast \<Rightarrow> advance_cast_of delta_ms pid st p cast w)
      | _ \<Rightarrow> Some ([], w))"

definition advance_active_casts :: "u16 \<Rightarrow> sim_step" where
  "advance_active_casts delta_ms w = for_each_opt (advance_active_cast delta_ms) (bt_keys (w_players w)) w"

end
