(* ===== verification/Sim_Tick.thy ===== *)
theory Sim_Tick
  imports Sim_Actions
begin

text \<open>
  A tick of the simulation: movement and deployables (\<open>game_sim/src/ticks.rs\<close>), projectiles
  (\<open>effects.rs\<close>), and \<open>SimulationWorld::tick\<close>, which runs timers, movement, queued actions,
  projectiles, active casts and deployables in this order.
\<close>

section \<open>Movement\<close>

definition effective_move_modifier_bps :: "simulation_world \<Rightarrow> player_id \<Rightarrow> status_instance list \<Rightarrow> i16 option" where
  "effective_move_modifier_bps w pid ss =
     (let caps = sc_movement_modifier_caps (w_configuration w) in
      do { status_modifier \<leftarrow> total_move_modifier_bps ss caps;
           let passive_bonus = i16_or_max (uint (pm_player_speed (passive_modifiers_for w pid)));
           modifier \<leftarrow> clamp_int (sint (mmc_overall_total_min_bps caps)) (sint (mmc_overall_total_max_bps caps))
             (sint (sat_add_i16 status_modifier passive_bonus));
           Some (of_int modifier) })"

definition roll_brush_movement_audio :: "player_id \<Rightarrow> u32 \<Rightarrow> i16 \<Rightarrow> i16 \<Rightarrow> u16 \<Rightarrow> u8 \<Rightarrow> bool" where
  "roll_brush_movement_audio pid elapsed_ms x y interval_ms audible_percent =
     (if audible_percent = 0 then False
      else if 100 \<le> audible_percent then True
      else
        let step_index = elapsed_ms div ucast interval_ms;
            hash = (ucast (player_id_get pid) :: u64) * 0x9E3779B185EBCA87;
            hash = hash XOR ucast (step_index + 1) * 0xC2B2AE3D27D4EB4F;
            hash = hash XOR ucast x * 0x165667B19E3779F9;
            hash = hash XOR ucast y * 0x85EBCA77C2B2AE63 in
        hash mod 100 < ucast audible_percent)"

definition signum :: "int \<Rightarrow> i8" where
  "signum i = (if 0 < i then 1 else if i < 0 then - 1 else 0)"

definition intended_movement :: "simulation_world \<Rightarrow> sim_player \<Rightarrow> movement_intent" where
  "intended_movement w p =
     (if list_ex (\<lambda>s. si_kind s \<in> {Root, Stun, Sleep}) (sp_statuses p) then zero_intent
      else
        (case (case find (\<lambda>s. si_kind s = Fear) (sp_statuses p) of
                 Some s \<Rightarrow> player_at w (si_source s) | None \<Rightarrow> None) of
           Some feared \<Rightarrow>
             \<lparr>mi_x = signum (sint (sp_x p) - sint (sp_x feared)), mi_y = signum (sint (sp_y p) - sint (sp_y feared))\<rparr>
         | None \<Rightarrow> sp_movement_intent p))"

text \<open>The footstep of a completed audio interval.\<close>

definition movement_audio ::
  "simulation_world \<Rightarrow> player_id \<Rightarrow> point \<Rightarrow> bool \<Rightarrow> bool \<Rightarrow> simulation_event list" where
  "movement_audio w pid p inside_shrub stealthed =
     (let c = w_configuration w;
          step = (\<lambda>kind radius. [effect_at kind pid 0 p p radius]) in
      if inside_shrub then
        if roll_brush_movement_audio pid (w_elapsed_ms w) (fst p) (snd p) (sc_movement_audio_step_interval_ms c)
             (sc_brush_movement_audible_percent c)
        then step BrushRustle (sc_movement_audio_radius_units c) else []
      else if stealthed then step StealthFootstep (sc_stealth_audio_radius_units c)
      else step Footstep (sc_movement_audio_radius_units c))"

definition finish_move :: "u16 \<Rightarrow> player_id \<Rightarrow> sim_player \<Rightarrow> point \<Rightarrow> sim_step" where
  "finish_move delta_ms pid origin resolved w =
     (if resolved = (sp_x origin, sp_y origin) then
        Some ([], upd_player pid (\<lambda>p. p\<lparr>sp_movement_audio_progress_ms := 0\<rparr>) w)
      else
        let interval = sc_movement_audio_step_interval_ms (w_configuration w);
            progress = sat_add (sp_movement_audio_progress_ms origin) delta_ms;
            moved = PlayerMoved pid (fst resolved) (snd resolved);
            set = (\<lambda>progress. upd_player pid (\<lambda>p. p\<lparr>sp_x := fst resolved, sp_y := snd resolved,
              sp_movement_audio_progress_ms := progress\<rparr>) w) in
        if progress < interval then Some ([moved], set progress)
        else if interval = 0 then None
        else Some (moved # movement_audio w pid resolved
            (point_is_inside_shrub w (fst resolved) (snd resolved))
            (list_ex (\<lambda>s. si_kind s = Stealth) (sp_statuses origin)), set (progress mod interval)))"

definition move_player :: "u16 \<Rightarrow> arena_obstacle list \<Rightarrow> player_id \<Rightarrow> sim_step" where
  "move_player delta_ms obstacles pid w =
     (case player_at w pid of
        None \<Rightarrow> Some ([], w)
      | Some p \<Rightarrow>
          if \<not> sp_alive p then Some ([], w)
          else
            do { modifier \<leftarrow> effective_move_modifier_bps w pid (sp_statuses p);
                 let movement = intended_movement w p;
                 if movement = zero_intent then Some ([], upd_player pid (\<lambda>p. p\<lparr>sp_moving := False\<rparr>) w)
                 else
                   (let (es, w) = cancel_cast pid CancelMovement w;
                        w = upd_player pid (\<lambda>p. p\<lparr>sp_moving := True\<rparr>) w in
                    do { speed \<leftarrow> adjusted_move_speed delta_ms (sp_move_speed p) modifier
                           (sc_movement_modifier_caps (w_configuration w));
                         if speed = 0 then
                           Some (es, upd_player pid (\<lambda>p. p\<lparr>sp_movement_audio_progress_ms := 0\<rparr>) w)
                         else
                           (case movement_delta movement speed of (delta_x, delta_y) \<Rightarrow>
                              do { resolved \<leftarrow> move_in_world w obstacles (sp_x p) (sp_y p)
                                     (sint (sp_x p) + delta_x) (sint (sp_y p) + delta_y);
                                   (es', w) \<leftarrow> finish_move delta_ms pid p resolved w;
                                   Some (es @ es', w) }) }) })"

definition move_players :: "u16 \<Rightarrow> sim_step" where
  "move_players delta_ms w =
     for_each_opt (move_player delta_ms (combat_obstacles w)) (bt_keys (w_players w)) w"

section \<open>Projectiles\<close>

text \<open>The events, the projectile if it flies on, and the world.\<close>

definition advance_projectile ::
  "u16 \<Rightarrow> arena_obstacle list \<Rightarrow> projectile_state \<Rightarrow> simulation_world \<Rightarrow>
   (simulation_event list \<times> projectile_state option \<times> simulation_world) option" where
  "advance_projectile delta_ms obstacles pr w =
     (let step = travel_distance_units (pr_speed pr) delta_ms in
      if step = 0 then Some ([], Some pr, w)
      else
        let start = (pr_x pr, pr_y pr);
            desired_end =
              (saturating_i16 (round_f32_to_i32
                 (f_add (f32_of_i16 (pr_x pr)) (f_mul (pr_direction_x pr) (f32_of_u16 step)))),
               saturating_i16 (round_f32_to_i32
                 (f_add (f32_of_i16 (pr_y pr)) (f_mul (pr_direction_y pr) (f32_of_u16 step)))));
            clipped_end = truncate_line_to_obstacles start desired_end obstacles;
            spark = effect_at HitSpark (pr_owner pr) (pr_slot pr) clipped_end clipped_end (sat_mul (pr_radius pr) 2) in
        (case find_first_target_on_segment w (pr_owner pr) start clipped_end (pr_radius pr) (harms (pr_payload pr)) of
           Some target \<Rightarrow>
             do { (es, w) \<leftarrow> pay [impact_hit (pr_owner pr) (pr_slot pr) target] (pr_owner pr) (pr_slot pr)
                    [target] (pr_payload pr) w;
                  Some (es @ [spark], None, w) }
         | None \<Rightarrow>
             let traveled = point_distance_units start clipped_end;
                 remaining = max (- 2147483648) (sint (pr_remaining_range pr) - uint traveled);
                 blocked = (clipped_end \<noteq> desired_end) in
             if remaining \<le> 0 \<or> blocked then
               Some (if blocked then [ImpactMiss (pr_owner pr) (pr_slot pr) Blocked, spark]
                     else [ImpactMiss (pr_owner pr) (pr_slot pr) MissExpired], None, w)
             else
               Some ([], Some (pr\<lparr>pr_x := fst clipped_end, pr_y := snd clipped_end,
                 pr_remaining_range := of_int remaining\<rparr>), w)))"

primrec advance_projectile_list ::
  "u16 \<Rightarrow> arena_obstacle list \<Rightarrow> projectile_state list \<Rightarrow> simulation_world \<Rightarrow>
   (simulation_event list \<times> projectile_state list \<times> simulation_world) option" where
  "advance_projectile_list delta_ms obstacles [] w = Some ([], [], w)"
| "advance_projectile_list delta_ms obstacles (pr # prs) w =
     do { (es, kept, w) \<leftarrow> advance_projectile delta_ms obstacles pr w;
          (es', kept', w) \<leftarrow> advance_projectile_list delta_ms obstacles prs w;
          Some (es @ es', (case kept of Some pr \<Rightarrow> [pr] | None \<Rightarrow> []) @ kept', w) }"

definition advance_projectiles :: "u16 \<Rightarrow> sim_step" where
  "advance_projectiles delta_ms w =
     do { (es, prs, w) \<leftarrow> advance_projectile_list delta_ms (combat_obstacles w) (w_projectiles w)
            (w\<lparr>w_projectiles := []\<rparr>);
          Some (es, w\<lparr>w_projectiles := prs\<rparr>) }"

section \<open>Deployables\<close>

text \<open>The \<open>while\<close> loop over the intervals in the progress; it does not end on a zero interval.\<close>

partial_function (option) pulse_loop ::
  "u16 \<Rightarrow> u16 \<Rightarrow> sim_step \<Rightarrow> simulation_world \<Rightarrow> (simulation_event list \<times> u16 \<times> simulation_world) option" where
  "pulse_loop interval progress body w =
     (if interval \<le> progress then
        do { (es, w) \<leftarrow> body w;
             (es', progress', w) \<leftarrow> pulse_loop interval (sat_sub progress interval) body w;
             Some (es @ es', progress', w) }
      else Some ([], progress, w))"

definition summon_pulse :: "deployable_state \<Rightarrow> u16 \<Rightarrow> sim_effect_kind \<Rightarrow> effect_payload \<Rightarrow> sim_step" where
  "summon_pulse d reach kind payload w =
     (case find_closest_target_near_point w (dp_owner d) (dp_x d, dp_y d) reach (harms payload) of
        Some target \<Rightarrow>
          pay [effect_at kind (dp_owner d) 0 (dp_x d, dp_y d) (target_position w target) (dp_radius d),
               impact_hit (dp_owner d) 0 target] (dp_owner d) 0 [target] payload w
      | None \<Rightarrow> Some ([ImpactMiss (dp_owner d) 0 NoTarget], w))"

definition aura_end_events :: "deployable_state \<Rightarrow> sim_step" where
  "aura_end_events d w =
     (case aura_end_payload (dp_behavior d) of
        Some (kind, payload) \<Rightarrow>
          aura_pulse_events (dp_owner d) (dp_slot d) (dp_x d, dp_y d) (dp_radius d) kind payload
            (\<not> payload_hides_aura_visuals payload) w
      | None \<Rightarrow> Some ([], w))"

definition store_deployable :: "deployable_state \<Rightarrow> simulation_world \<Rightarrow> simulation_world" where
  "store_deployable d w =
     w\<lparr>w_deployables := modify_first (\<lambda>c. dp_id c = dp_id d) (\<lambda>_. d) (w_deployables w)\<rparr>"

text \<open>Events, whether the deployable is to be removed, and the world.\<close>

type_synonym deployable_step = "simulation_world \<Rightarrow> (simulation_event list \<times> bool \<times> simulation_world) option"

definition expire_deployable :: "deployable_state \<Rightarrow> deployable_step" where
  "expire_deployable d w = do { (es, w) \<leftarrow> aura_end_events d w; Some (es, True, w) }"

definition pulse_aura :: "u16 \<Rightarrow> deployable_state \<Rightarrow> deployable_step" where
  "pulse_aura delta_ms d w =
     (case dp_behavior d of
        DbAura interval progress kind payload cast_start cast_end anchor toggleable \<Rightarrow>
          do { (es, progress', w) \<leftarrow> pulse_loop interval (sat_add progress delta_ms)
                 (aura_pulse_events (dp_owner d) (dp_slot d) (dp_x d, dp_y d) (dp_radius d) kind payload
                   (\<not> payload_hides_aura_visuals payload)) w;
               Some (es, False, store_deployable
                 (d\<lparr>dp_behavior := DbAura interval progress' kind payload cast_start cast_end anchor toggleable\<rparr>) w) }
      | _ \<Rightarrow> Some ([], False, w))"

definition act_deployable :: "u16 \<Rightarrow> deployable_state \<Rightarrow> deployable_step" where
  "act_deployable delta_ms d w =
     (case dp_behavior d of
        DbSummon reach interval progress kind payload \<Rightarrow>
          do { (es, progress', w) \<leftarrow> pulse_loop interval (sat_add progress delta_ms)
                 (summon_pulse d reach kind payload) w;
               Some (es, False, store_deployable (d\<lparr>dp_behavior := DbSummon reach interval progress' kind payload\<rparr>) w) }
      | DbTrap payload \<Rightarrow>
          (case find_enemy_player_near_point w (dp_owner d) (dp_x d, dp_y d) (dp_radius d) of
             Some target \<Rightarrow>
               do { (es, w) \<leftarrow> pay
                      [effect_at Burst (dp_owner d) 0 (dp_x d, dp_y d) (target_position w (TargetPlayer target)) (dp_radius d),
                       impact_hit (dp_owner d) 0 (TargetPlayer target)]
                      (dp_owner d) 0 [TargetPlayer target] payload w;
                    Some (es, True, store_deployable d w) }
           | None \<Rightarrow> Some ([], False, store_deployable d w))
      | DbAura _ _ _ _ _ _ anchor _ \<Rightarrow>
          (case anchor of
             None \<Rightarrow> pulse_aura delta_ms d w
           | Some pid \<Rightarrow>
               (case player_state w pid of
                  None \<Rightarrow> expire_deployable d w
                | Some st \<Rightarrow>
                    if \<not> pst_alive st then expire_deployable d w
                    else pulse_aura delta_ms (d\<lparr>dp_x := pst_x st, dp_y := pst_y st\<rparr>) w))
      | _ \<Rightarrow> Some ([], False, store_deployable d w))"

definition is_persistent :: "deployable_state \<Rightarrow> bool" where
  "is_persistent d \<longleftrightarrow> is_training_dummy d \<or> is_toggleable_aura (dp_behavior d) \<or>
     dp_behavior d = DbWard \<and> dp_remaining_ms d = of_nat U16_MAX"

definition advance_deployable :: "u16 \<Rightarrow> u32 \<Rightarrow> deployable_step" where
  "advance_deployable delta_ms did w =
     (case deployable_at w did of
        None \<Rightarrow> Some ([], False, w)
      | Some d0 \<Rightarrow>
          let persistent = is_persistent d0;
              d = (if persistent then d0 else d0\<lparr>dp_remaining_ms := sat_sub (dp_remaining_ms d0) delta_ms\<rparr>) in
          if \<not> persistent \<and> dp_remaining_ms d = 0 \<or> dp_hit_points d = 0 then expire_deployable d w
          else act_deployable delta_ms d w)"

primrec advance_deployable_list ::
  "u16 \<Rightarrow> u32 list \<Rightarrow> simulation_world \<Rightarrow> (simulation_event list \<times> u32 list \<times> simulation_world) option" where
  "advance_deployable_list delta_ms [] w = Some ([], [], w)"
| "advance_deployable_list delta_ms (did # dids) w =
     do { (es, expired, w) \<leftarrow> advance_deployable delta_ms did w;
          (es', expired', w) \<leftarrow> advance_deployable_list delta_ms dids w;
          Some (es @ es', (if expired then [did] else []) @ expired', w) }"

definition advance_deployables :: "u16 \<Rightarrow> sim_step" where
  "advance_deployables delta_ms w =
     do { (es, expired, w) \<leftarrow> advance_deployable_list delta_ms (map dp_id (w_deployables w)) w;
          Some (es, w\<lparr>w_deployables := filter (\<lambda>d. dp_id d \<notin> set expired) (w_deployables w)\<rparr>) }"

section \<open>The tick\<close>

definition tick :: "u16 \<Rightarrow> sim_step" where
  "tick delta_ms w =
     do { (es1, w) \<leftarrow> tick_timers delta_ms w;
          (es2, w) \<leftarrow> move_players delta_ms w;
          (es3, w) \<leftarrow> resolve_queued_actions w;
          (es4, w) \<leftarrow> advance_projectiles delta_ms w;
          (es5, w) \<leftarrow> advance_active_casts delta_ms w;
          (es6, w) \<leftarrow> advance_deployables delta_ms w;
          Some (es1 @ es2 @ es3 @ es4 @ es5 @ es6, w) }"

end
