(* ===== verification/Sim_Invariant.thy ===== *)
theory Sim_Invariant
  imports Sim_World
begin

text \<open>
  The invariant of the simulation and the measure of a payload cascade. \<open>wf_world\<close> bounds hit
  points, mana, stacks and tick progress and ties death to zero hit points and to having no
  statuses; \<open>evolves c w w'\<close> says that \<open>w'\<close> keeps the invariant and everything the roster fixed
  and that the payloads waiting in dispellable statuses weigh at most \<open>c\<close> more than in \<open>w\<close>.
  Every operation of \<open>Sim_Combat\<close> evolves the world, and a dispelled payload weighs more than
  what its application can leave behind, so cascades end.
\<close>

section \<open>Authored content\<close>

text \<open>Tick intervals are positive and stack limits at least one, in nested payloads as well.\<close>

fun wf_payload :: "effect_payload \<Rightarrow> bool" and wf_status_definition :: "status_definition \<Rightarrow> bool" where
  "wf_payload (EffectPayload kind amount hi chance mult status interrupt disp) =
     pred_option wf_status_definition status"
| "wf_status_definition (StatusDefinition kind duration interval magnitude stacks trigger ex disp) =
     (interval \<noteq> Some 0 \<and> 1 \<le> stacks \<and> pred_option wf_payload ex \<and> pred_option wf_payload disp)"

fun wf_behavior :: "skill_behavior \<Rightarrow> bool" where
  "wf_behavior (SbProjectile _ _ _ _ _ _ _ p) = wf_payload p"
| "wf_behavior (SbBeam _ _ _ _ _ _ p) = wf_payload p"
| "wf_behavior (SbDash _ _ _ _ _ _ p) = pred_option wf_payload p"
| "wf_behavior (SbBurst _ _ _ _ _ _ p) = wf_payload p"
| "wf_behavior (SbNova _ _ _ _ _ p) = wf_payload p"
| "wf_behavior (SbChannel _ _ _ _ _ _ interval _ p) = (interval \<noteq> 0 \<and> wf_payload p)"
| "wf_behavior (SbSummon _ _ _ _ _ _ _ _ interval _ p) = (interval \<noteq> 0 \<and> wf_payload p)"
| "wf_behavior (SbTrap _ _ _ _ _ _ _ _ p) = wf_payload p"
| "wf_behavior (SbAura _ _ _ _ _ _ _ _ interval start end' _ p) =
     (interval \<noteq> 0 \<and> pred_option wf_payload start \<and> pred_option wf_payload end' \<and> wf_payload p)"
| "wf_behavior (SbBarrier _ _ _ _ radius _ _ _) = (radius \<le> 16000)"
| "wf_behavior _ = True"

fun wf_deployable_behavior :: "deployable_behavior \<Rightarrow> bool" where
  "wf_deployable_behavior (DbSummon _ interval _ _ p) = (interval \<noteq> 0 \<and> wf_payload p)"
| "wf_deployable_behavior (DbTrap p) = wf_payload p"
| "wf_deployable_behavior (DbAura interval _ _ p start end' _ _) =
     (interval \<noteq> 0 \<and> wf_payload p \<and> pred_option wf_payload start \<and> pred_option wf_payload end')"
| "wf_deployable_behavior _ = True"

fun wf_cast_mode :: "active_cast_mode \<Rightarrow> bool" where
  "wf_cast_mode Windup = True"
| "wf_cast_mode (Channel _ _ _ interval _ _ p) = (interval \<noteq> 0 \<and> wf_payload p)"

section \<open>The invariant\<close>

definition wf_status :: "status_instance \<Rightarrow> bool" where
  "wf_status s \<longleftrightarrow> 1 \<le> si_max_stacks s \<and> si_stacks s \<le> si_max_stacks s \<and>
     (case si_tick_interval_ms s of Some i \<Rightarrow> si_tick_progress_ms s < i | None \<Rightarrow> True) \<and>
     pred_option wf_payload (si_expire_payload s) \<and> pred_option wf_payload (si_dispel_payload s)"

definition wf_cast :: "pending_cast \<Rightarrow> bool" where
  "wf_cast c \<longleftrightarrow> pc_slot_index c < 5 \<and> wf_cast_mode (pc_mode c)"

definition wf_vitals :: "sim_player \<Rightarrow> bool" where
  "wf_vitals p \<longleftrightarrow> 0 < sp_max_hit_points p \<and> sp_hit_points p \<le> sp_max_hit_points p \<and> sp_mana p \<le> sp_max_mana p \<and>
     (sp_alive p \<longleftrightarrow> 0 < sp_hit_points p) \<and> (\<not> sp_alive p \<longrightarrow> sp_statuses p = [])"

definition wf_timers :: "sim_player \<Rightarrow> bool" where
  "wf_timers p \<longleftrightarrow> length (sp_slot_cooldown_ms p) = 5 \<and> length (sp_proc_cooldown_ms p) = 5 \<and>
     sp_mana_regen_progress p < 1000 \<and> dr_stage (sp_hard_cc_dr p) \<le> 3 \<and>
     dr_stage (sp_movement_cc_dr p) \<le> 3 \<and> dr_stage (sp_cast_cc_dr p) \<le> 3"

definition wf_equipment :: "sim_player \<Rightarrow> bool" where
  "wf_equipment p \<longleftrightarrow> length (sp_skills p) = 5 \<and> wf_payload (md_payload (sp_melee p)) \<and>
     list_all (pred_option (\<lambda>s. wf_behavior (sk_behavior s))) (sp_skills p)"

text \<open>Coordinates for which the \<open>i16\<close> arithmetic on positions and radii cannot wrap.\<close>

definition wf_position :: "i16 \<Rightarrow> i16 \<Rightarrow> bool" where
  "wf_position x y \<longleftrightarrow> \<bar>sint x\<bar> \<le> 16000 \<and> \<bar>sint y\<bar> \<le> 16000"

definition wf_place :: "sim_player \<Rightarrow> bool" where
  "wf_place p \<longleftrightarrow> wf_position (sp_x p) (sp_y p) \<and> wf_position (sp_spawn_x p) (sp_spawn_y p) \<and>
     (case qa_cast_slot (sp_queued_actions p) of Some slot \<Rightarrow> 1 \<le> slot \<and> slot \<le> 5 | None \<Rightarrow> True)"

definition wf_player :: "sim_player \<Rightarrow> bool" where
  "wf_player p \<longleftrightarrow> wf_vitals p \<and> wf_timers p \<and> wf_equipment p \<and> wf_place p \<and>
     list_all wf_status (sp_statuses p) \<and> pred_option wf_cast (sp_active_cast p)"

definition wf_deployable :: "deployable_state \<Rightarrow> bool" where
  "wf_deployable d \<longleftrightarrow> wf_deployable_behavior (dp_behavior d) \<and>
     (dp_blocks_movement d \<or> dp_blocks_projectiles d \<longrightarrow>
        wf_position (dp_x d) (dp_y d) \<and> dp_radius d \<le> 16000)"

text \<open>The map and the configuration: the arena is not too large and not smaller than a player, the
  rectangles of its obstacles do not wrap, bounds of clamps are ordered and the audio interval
  is positive.\<close>

definition wf_obstacle :: "arena_obstacle \<Rightarrow> bool" where
  "wf_obstacle ob \<longleftrightarrow> \<bar>sint (ob_center_x ob)\<bar> + uint (ob_half_width ob) \<le> 32767 \<and>
     \<bar>sint (ob_center_y ob)\<bar> + uint (ob_half_height ob) \<le> 32767"

definition wf_caps :: "movement_modifier_caps \<Rightarrow> bool" where
  "wf_caps caps \<longleftrightarrow> sint (mmc_status_total_min_bps caps) \<le> sint (mmc_status_total_max_bps caps) \<and>
     sint (mmc_overall_total_min_bps caps) \<le> sint (mmc_overall_total_max_bps caps) \<and>
     mmc_effective_scale_min_bps caps \<le> mmc_effective_scale_max_bps caps"

definition wf_arena :: "simulation_world \<Rightarrow> bool" where
  "wf_arena w \<longleftrightarrow> w_arena_width_units w div 2 \<le> 16000 \<and> w_arena_height_units w div 2 \<le> 16000 \<and>
     sc_player_radius_units (w_configuration w) \<le> w_arena_width_units w div 2 \<and>
     sc_player_radius_units (w_configuration w) \<le> w_arena_height_units w div 2 \<and>
     list_all wf_obstacle (w_obstacles w) \<and> wf_caps (sc_movement_modifier_caps (w_configuration w)) \<and>
     sc_movement_audio_step_interval_ms (w_configuration w) \<noteq> 0"

definition wf_world :: "simulation_world \<Rightarrow> bool" where
  "wf_world w \<longleftrightarrow> wf_arena w \<and> bt_inv (w_players w) \<and> list_all wf_player (bt_values (w_players w)) \<and>
     list_all wf_deployable (w_deployables w) \<and>
     list_all (\<lambda>pr. wf_payload (pr_payload pr)) (w_projectiles w)"

text \<open>What the roster and the map fix for the whole simulation.\<close>

definition fixed_player :: "sim_player \<Rightarrow> team_side \<times> u16 \<times> u16 \<times> u16 \<times> melee_definition \<times> skill_definition option list" where
  "fixed_player p = (sp_team p, sp_max_hit_points p, sp_max_mana p, sp_move_speed p, sp_melee p, sp_skills p)"

definition fixed_world :: "simulation_world \<Rightarrow> simulation_configuration \<times>
    (u16 \<times> u16 \<times> u16 \<times> u16 \<times> u16 \<times> u8 list \<times> arena_obstacle list) \<times>
    (player_id \<times> team_side \<times> u16 \<times> u16 \<times> u16 \<times> melee_definition \<times> skill_definition option list) list" where
  "fixed_world w = (w_configuration w,
     (w_arena_width_units w, w_arena_height_units w, w_arena_width_tiles w, w_arena_height_tiles w,
      w_arena_tile_units w, w_footprint_mask w, w_obstacles w),
     map (\<lambda>(pid, p). (pid, fixed_player p)) (w_players w))"

section \<open>The weight of waiting payloads\<close>

definition status_weight :: "status_instance \<Rightarrow> int" where
  "status_weight s = (case si_dispel_payload s of Some p \<Rightarrow> int (size p) | None \<Rightarrow> 0)"

definition definition_weight :: "status_definition \<Rightarrow> int" where
  "definition_weight d = (case sd_dispel_payload d of Some p \<Rightarrow> int (size p) | None \<Rightarrow> 0)"

definition payload_weight :: "effect_payload \<Rightarrow> int" where
  "payload_weight p = (case pl_status p of Some d \<Rightarrow> definition_weight d | None \<Rightarrow> 0)"

definition player_weight :: "sim_player \<Rightarrow> int" where
  "player_weight p = sum_list (map status_weight (sp_statuses p))"

definition cascade_weight :: "simulation_world \<Rightarrow> int" where
  "cascade_weight w = sum_list (map player_weight (bt_values (w_players w)))"

lemma status_weight_nonneg [simp]: "0 \<le> status_weight s"
  by (simp add: status_weight_def split: option.split)

lemma definition_weight_nonneg [simp]: "0 \<le> definition_weight d"
  by (simp add: definition_weight_def split: option.split)

lemma payload_weight_nonneg [simp]: "0 \<le> payload_weight p"
  by (simp add: payload_weight_def split: option.split)

lemma player_weight_nonneg [simp]: "0 \<le> player_weight p"
  by (auto simp: player_weight_def intro!: sum_list_nonneg)

lemma cascade_weight_nonneg [simp]: "0 \<le> cascade_weight w"
  by (auto simp: cascade_weight_def intro!: sum_list_nonneg)

text \<open>A payload weighs more than the payload its own status can leave waiting.\<close>

lemma payload_weight_less: "payload_weight p < int (size p)"
proof (cases p)
  case (EffectPayload k a hi cc cm st i d)
  show ?thesis
  proof (cases st)
    case (Some d')
    then show ?thesis
      by (cases d') (simp add: EffectPayload payload_weight_def definition_weight_def split: option.split)
  qed (simp add: EffectPayload payload_weight_def)
qed

lemmas player_defs = wf_player_def wf_vitals_def wf_timers_def wf_equipment_def wf_place_def
  fixed_player_def player_weight_def

lemma wf_arena_update [simp]:
  "wf_arena (w\<lparr>w_players := ps\<rparr>) = wf_arena w"
  "wf_arena (w\<lparr>w_deployables := ds\<rparr>) = wf_arena w"
  "wf_arena (w\<lparr>w_projectiles := prs\<rparr>) = wf_arena w"
  "wf_arena (w\<lparr>w_roll_state := r\<rparr>) = wf_arena w"
  "wf_arena (w\<lparr>w_initial_roll_state := r\<rparr>) = wf_arena w"
  "wf_arena (w\<lparr>w_elapsed_ms := e\<rparr>) = wf_arena w"
  "wf_arena (w\<lparr>w_next_deployable_id := i\<rparr>) = wf_arena w"
  by (simp_all add: wf_arena_def)

section \<open>Evolution\<close>

definition living :: "simulation_world \<Rightarrow> player_id set" where
  "living w = {pid. \<exists>p. player_at w pid = Some p \<and> sp_alive p}"

definition evolves :: "int \<Rightarrow> simulation_world \<Rightarrow> simulation_world \<Rightarrow> bool" where
  "evolves c w w' \<longleftrightarrow> wf_world w' \<and> fixed_world w' = fixed_world w \<and> living w' \<subseteq> living w \<and>
     cascade_weight w' \<le> cascade_weight w + c"

lemma evolves_refl: "wf_world w \<Longrightarrow> 0 \<le> c \<Longrightarrow> evolves c w w"
  by (simp add: evolves_def)

lemma evolves_trans: "evolves a w w' \<Longrightarrow> evolves b w' w'' \<Longrightarrow> evolves (a + b) w w''"
  by (auto simp: evolves_def)

lemma evolves_trans0 [trans]: "evolves 0 w w' \<Longrightarrow> evolves c w' w'' \<Longrightarrow> evolves c w w''"
  using evolves_trans [of 0 w w' c w''] by simp

lemma evolves_mono: "evolves a w w' \<Longrightarrow> a \<le> b \<Longrightarrow> evolves b w w'"
  by (auto simp: evolves_def)

lemma evolves_wf: "evolves c w w' \<Longrightarrow> wf_world w'"
  by (simp add: evolves_def)

lemma wf_world_player: "wf_world w \<Longrightarrow> player_at w pid = Some p \<Longrightarrow> wf_player p"
  by (auto simp: wf_world_def list_all_iff bt_values_mem)

lemma player_at_upd: "player_at (upd_player k f w) pid =
    (if pid = k then map_option f (player_at w k) else player_at w pid)"
  by (simp add: upd_player_def bt_get_modify)

lemma sum_modify:
  "bt_inv m \<Longrightarrow> map_of m k = Some v \<Longrightarrow>
    sum_list (map g (bt_values (bt_modify k f m))) = sum_list (map g (bt_values m)) - g v + (g (f v) :: int)"
proof (induction m)
  case (Cons kv m)
  obtain k' v' where kv: "kv = (k', v')" by (cases kv)
  show ?case
  proof (cases "k' = k")
    case True
    with Cons.prems kv have "map_of m k = None"
      by (auto simp: bt_inv_def map_of_eq_None_iff)
    then have "bt_modify k f m = m" by (rule bt_modify_None)
    with True kv Cons.prems show ?thesis by (simp add: bt_values_def bt_modify_def)
  next
    case False
    with Cons kv have "sum_list (map g (bt_values (bt_modify k f m))) =
        sum_list (map g (bt_values m)) - g v + g (f v)"
      by (simp add: bt_inv_def)
    with False kv show ?thesis by (simp add: bt_values_def bt_modify_def)
  qed
qed simp

lemma evolves_upd:
  assumes w: "wf_world w" and p: "player_at w pid = Some p"
    and f: "wf_player (f p)" "fixed_player (f p) = fixed_player p"
      "player_weight (f p) \<le> player_weight p + c" "sp_alive (f p) \<Longrightarrow> sp_alive p"
  shows "evolves c w (upd_player pid f w)"
proof -
  have inv: "bt_inv (w_players w)" using w by (simp add: wf_world_def)
  have only: "(pid, q) \<in> set (w_players w) \<Longrightarrow> q = p" for q
    using btree.lookup_mem [OF inv, of pid q] p by simp
  have "wf_player (if k = pid then f q else q)" if "(k, q) \<in> set (w_players w)" for k q
    using w f(1) only [of q] that by (force simp: wf_world_def list_all_iff bt_values_def)
  then have "list_all wf_player (bt_values (bt_modify pid f (w_players w)))"
    by (force simp: list_all_iff bt_values_def bt_modify_def)
  then have "wf_world (upd_player pid f w)"
    using w by (simp add: wf_world_def upd_player_def)
  moreover have "fixed_world (upd_player pid f w) = fixed_world w"
    using f(2) only
    by (auto simp: fixed_world_def upd_player_def bt_modify_def)
  moreover have "cascade_weight (upd_player pid f w) \<le> cascade_weight w + c"
    using f(3) sum_modify [OF inv p, of player_weight f]
    by (simp add: cascade_weight_def upd_player_def)
  moreover have "living (upd_player pid f w) \<subseteq> living w"
    using f(4) p by (auto simp: living_def player_at_upd split: if_splits)
  ultimately show ?thesis by (simp add: evolves_def)
qed

text \<open>An update that may not find its player.\<close>

lemma evolves_upd_any:
  assumes w: "wf_world w" and c: "0 \<le> c"
    and f: "\<And>p. wf_player p \<Longrightarrow> wf_player (f p)" "\<And>p. fixed_player (f p) = fixed_player p"
      "\<And>p. player_weight (f p) \<le> player_weight p + c" "\<And>p. sp_alive (f p) \<Longrightarrow> sp_alive p"
  shows "evolves c w (upd_player pid f w)"
proof (cases "player_at w pid")
  case None
  then have "upd_player pid f w = w" by (simp add: upd_player_def bt_modify_None)
  with w c show ?thesis by (simp add: evolves_refl)
next
  case (Some p)
  show ?thesis
    by (rule evolves_upd [where f = f, OF w Some f(1) [OF wf_world_player [OF w Some]] f(2) f(3) f(4)])
qed

text \<open>Changes outside the players.\<close>

lemma evolves_deployables:
  assumes "wf_world w" "list_all wf_deployable ds"
  shows "evolves 0 w (w\<lparr>w_deployables := ds\<rparr>)"
  using assms by (simp add: living_def evolves_def wf_world_def fixed_world_def cascade_weight_def)

lemma evolves_roll: "wf_world w \<Longrightarrow> evolves 0 w (w\<lparr>w_roll_state := r\<rparr>)"
  by (simp add: living_def evolves_def wf_world_def fixed_world_def cascade_weight_def)

lemma evolves_for_each:
  assumes "wf_world w"
    and step: "\<And>x w. wf_world w \<Longrightarrow> x \<in> set xs \<Longrightarrow> evolves c w (snd (f x w))" and "0 \<le> c"
  shows "evolves (int (length xs) * c) w (snd (for_each f xs w))"
  using assms(1) step
proof (induction xs arbitrary: w)
  case (Cons x xs)
  obtain es w' where fx: "f x w = (es, w')" by (cases "f x w")
  have e: "evolves c w w'" using Cons.prems(2) [of w x] Cons.prems(1) fx by simp
  have "evolves (int (length xs) * c) w' (snd (for_each f xs w'))"
    using evolves_wf [OF e] Cons.prems(2) by (intro Cons.IH) auto
  from evolves_trans [OF e this] show ?case by (simp add: fx algebra_simps case_prod_beta)
qed (simp add: evolves_refl)

lemma evolves_for_each0:
  "wf_world w \<Longrightarrow> (\<And>x w. wf_world w \<Longrightarrow> x \<in> set xs \<Longrightarrow> evolves 0 w (snd (f x w))) \<Longrightarrow>
    evolves 0 w (snd (for_each f xs w))"
  using evolves_for_each [of w xs 0 f] by simp

lemma evolves_fold:
  "wf_world w \<Longrightarrow> (\<And>x w. wf_world w \<Longrightarrow> x \<in> set xs \<Longrightarrow> evolves 0 w (f x w)) \<Longrightarrow>
    evolves 0 w (fold f xs w)"
proof (induction xs arbitrary: w)
  case (Cons x xs)
  then have e: "evolves 0 w (f x w)" by simp
  also have "evolves 0 (f x w) (fold f xs (f x w))"
    using evolves_wf [OF e] Cons.prems(2) by (intro Cons.IH) auto
  finally show ?case by simp
qed (simp add: evolves_refl)

section \<open>Rolls, proc resets and stealth\<close>

lemma evolves_next_roll: "wf_world w \<Longrightarrow> evolves 0 w (snd (next_roll_u64 w))"
  by (simp add: next_roll_u64_def Let_def evolves_roll)

lemma evolves_rolls:
  assumes "wf_world w"
  shows "evolves 0 w (snd (roll_u16_inclusive lo hi w))" "evolves 0 w (snd (roll_bps chance w))"
  using assms evolves_next_roll [OF assms]
  by (auto simp: roll_u16_inclusive_def roll_bps_def Let_def evolves_refl split: prod.split)

lemma evolves_direct_amount:
  assumes "wf_world w"
  shows "evolves 0 w (snd (resolve_direct_payload_amount p w))"
proof -
  obtain amount w1 where a: "roll_u16_inclusive (amount_min p) (amount_max p) w = (amount, w1)"
    by fastforce
  with evolves_rolls(1) [OF assms, of "amount_min p" "amount_max p"] have e: "evolves 0 w w1" by simp
  also have "evolves 0 w1 (snd (if can_crit p then roll_bps (pl_crit_chance_bps p) w1 else (False, w1)))"
    using evolves_rolls(2) [OF evolves_wf [OF e]] evolves_refl [OF evolves_wf [OF e]] by simp
  finally show ?thesis by (simp add: resolve_direct_payload_amount_def a case_prod_beta)
qed

lemma length_reset_skill_cooldowns [simp]: "length (reset_skill_cooldowns ids skills cds) = length cds"
proof -
  have "length (fold (\<lambda>(index, skill) cds. case skill of
      Some s \<Rightarrow> if sk_id s \<in> set ids then cds[index := 0] else cds | None \<Rightarrow> cds) xs cds) = length cds"
    for xs :: "(nat \<times> skill_definition option) list"
    by (induction xs arbitrary: cds) (auto split: option.split)
  then show ?thesis by (simp add: reset_skill_cooldowns_def)
qed

lemma wf_player_proc_fields:
  "wf_player p \<Longrightarrow> length a = 5 \<Longrightarrow> length b = 5 \<Longrightarrow>
    wf_player (p\<lparr>sp_slot_cooldown_ms := a, sp_proc_cooldown_ms := b, sp_next_cast_procs := c\<rparr>)"
  by (simp add: player_defs)

lemma evolves_proc_reset: "wf_world w \<Longrightarrow> evolves 0 w (apply_proc_reset pid i prd w)"
  unfolding apply_proc_reset_def Let_def
  by (rule evolves_upd_any)
    (auto simp: player_defs split: if_splits)

lemma evolves_try_trigger:
  "wf_world w \<Longrightarrow> evolves 0 w (try_trigger_proc_resets pid slot kind critical periodic w)"
  unfolding try_trigger_proc_resets_def Let_def
  by (rule evolves_fold) (auto simp: evolves_proc_reset)

lemma evolves_cancel_auras: "wf_world w \<Longrightarrow> evolves 0 w (cancel_toggleable_stealth_auras pid w)"
  unfolding cancel_toggleable_stealth_auras_def
  by (rule evolves_deployables) (auto simp: wf_world_def list_all_iff)

lemma sum_filter_le: "(\<And>x. 0 \<le> g x) \<Longrightarrow> sum_list (map g (filter P xs)) \<le> (sum_list (map g xs) :: int)"
  by (induction xs) (auto intro: add_increasing)

lemma list_all_filter: "list_all P xs \<Longrightarrow> list_all P (filter Q xs)"
  by (simp add: list_all_iff)

lemma evolves_filter_statuses:
  "wf_world w \<Longrightarrow> evolves 0 w (upd_player pid (\<lambda>p. p\<lparr>sp_statuses := filter P (sp_statuses p)\<rparr>) w)"
  by (rule evolves_upd_any)
    (auto simp: player_defs sum_filter_le list_all_filter)

lemma evolves_break_stealth:
  assumes "wf_world w"
  shows "evolves 0 w (break_stealth pid w)"
proof (cases "player_at w pid")
  case (Some p)
  note e = evolves_filter_statuses [OF assms, of pid "\<lambda>s. si_kind s \<noteq> Stealth"]
  show ?thesis
    using evolves_trans0 [OF e evolves_cancel_auras [OF evolves_wf [OF e]]]
    by (simp add: break_stealth_def Some)
qed (simp add: break_stealth_def assms evolves_refl)

section \<open>Damage and healing\<close>

lemma absorb_status:
  assumes "absorb damage s = (rest, s')"
  shows "si_kind s' = si_kind s" "si_dispel_payload s' = si_dispel_payload s"
    "wf_status s \<Longrightarrow> wf_status s'"
    "unat rest = unat damage - unat (si_shield_remaining s)"
    "unat (si_shield_remaining s') = unat (si_shield_remaining s) - unat damage"
proof -
  have stacks: "unat n \<le> U8_MAX \<Longrightarrow> n \<le> ucast stacks \<Longrightarrow> (ucast n :: u8) \<le> stacks" for n :: u16 and stacks :: u8
  proof -
    assume "unat n \<le> U8_MAX" "n \<le> ucast stacks"
    then have "unat (ucast n :: u8) = unat n" "unat n \<le> unat stacks"
      by (simp_all add: U8_MAX_def unsigned_ucast_eq take_bit_nat_eq_self word_le_nat_alt
          unsigned_less [of stacks, THEN less_le_trans])
    then show ?thesis by (simp add: word_le_nat_alt)
  qed
  let ?a = "min damage (si_shield_remaining s)"
  have rest: "rest = sat_sub damage ?a" using assms by (simp add: absorb_def Let_def)
  define n where "n = (if si_magnitude s = 0 then si_stacks s
    else let c = min (div_ceil (sat_sub (si_shield_remaining s) ?a) (si_magnitude s)) (ucast (si_stacks s)) in
      if unat c \<le> U8_MAX then ucast c else si_stacks s)"
  have "n \<le> si_stacks s" by (simp add: n_def Let_def stacks)
  moreover have "s' = s\<lparr>si_shield_remaining := sat_sub (si_shield_remaining s) ?a, si_stacks := n\<rparr>"
    using assms by (auto simp: absorb_def Let_def n_def word_neq_0_conv)
  ultimately have n: "n \<le> si_stacks s"
    "s' = s\<lparr>si_shield_remaining := sat_sub (si_shield_remaining s) ?a, si_stacks := n\<rparr>" .
  then show "si_kind s' = si_kind s" "si_dispel_payload s' = si_dispel_payload s"
    "wf_status s \<Longrightarrow> wf_status s'"
    by (auto simp: wf_status_def split: option.split_asm option.split)
  have "unat ?a = min (unat damage) (unat (si_shield_remaining s))"
    by (simp add: min_def word_le_nat_alt)
  with rest n(2) show "unat rest = unat damage - unat (si_shield_remaining s)"
    "unat (si_shield_remaining s') = unat (si_shield_remaining s) - unat damage"
    by (auto simp: unat_sat_sub)
qed

lemma shield_pass_facts:
  "shield_pass damage ss = (rest, ss', depleted) \<Longrightarrow>
    (list_all wf_status ss \<longrightarrow> list_all wf_status ss') \<and>
    map si_kind ss' = map si_kind ss \<and> map si_dispel_payload ss' = map si_dispel_payload ss"
proof (induction damage ss arbitrary: rest ss' depleted rule: shield_pass.induct)
  case (2 damage s ss)
  obtain damage' s' where a: "absorb damage s = (damage', s')" by fastforce
  note step = absorb_status [OF a]
  show ?case
  proof (cases "si_kind s = Shield \<and> 0 < si_shield_remaining s")
    case shield: True
    show ?thesis
    proof (cases "damage = 0")
      case False
      with 2(1) [OF shield False a [symmetric] refl] 2(3) shield a step show ?thesis
        by (auto split: prod.splits)
    qed (use 2(3) shield in simp)
  next
    case False
    with 2(2) 2(3) show ?thesis by (auto split: prod.splits)
  qed
qed simp

lemma status_weights_eq:
  assumes "map si_dispel_payload xs = map si_dispel_payload ys"
  shows "map status_weight xs = map status_weight ys"
proof -
  have "map status_weight zs = map (\<lambda>o'. case o' of Some p \<Rightarrow> int (size p) | None \<Rightarrow> 0)
      (map si_dispel_payload zs)" for zs
    by (simp add: status_weight_def)
  then show ?thesis using assms by metis
qed

lemma evolves_consume_shields:
  assumes w: "wf_world w" and eq: "consume_shields pid amount w = (rest, es, w')"
  shows "evolves 0 w w'"
proof (cases "player_at w pid")
  case None
  with eq w show ?thesis by (simp add: consume_shields_def evolves_refl)
next
  case (Some p)
  obtain r ss depleted where pass: "shield_pass amount (sp_statuses p) = (r, ss, depleted)"
    by (metis prod_cases3)
  note f = shield_pass_facts [OF pass]
  let ?ss = "filter (\<lambda>s. si_kind s \<noteq> Shield \<or> 0 < si_shield_remaining s) ss"
  have "wf_player p" using w Some by (rule wf_world_player)
  moreover have "ss = []" if "sp_statuses p = []" using pass that by simp
  moreover have "sum_list (map status_weight ?ss) \<le> sum_list (map status_weight (sp_statuses p))"
    using sum_filter_le [of status_weight _ ss] f status_weights_eq [of ss "sp_statuses p"] by simp
  ultimately have "evolves 0 w (upd_player pid (\<lambda>p. p\<lparr>sp_statuses := ?ss\<rparr>) w)"
    using f by (intro evolves_upd [OF w Some]) (auto simp: player_defs list_all_filter)
  with eq show ?thesis by (simp add: consume_shields_def Some pass)
qed

lemma unat_pos_iff: "0 < a \<longleftrightarrow> a \<noteq> 0" for a :: "'a::len word"
  by (simp add: word_neq_0_conv)

lemma wf_player_damaged:
  assumes p: "wf_player p" and p': "p' = p\<lparr>sp_hit_points := sat_sub (sp_hit_points p) a\<rparr>"
  shows "wf_player (if sp_hit_points p' = 0 then defeat_player p' else p')"
proof -
  have "sp_hit_points p' \<le> sp_max_hit_points p"
    using p sat_sub_le [of "sp_hit_points p" a] by (auto simp: p' player_defs intro: order.trans)
  moreover have "sp_hit_points p = 0 \<Longrightarrow> sp_hit_points p' = 0"
    by (simp add: p' sat_sub_def)
  ultimately show ?thesis
    using p by (auto simp: p' player_defs defeat_player_def unat_pos_iff)
qed

lemma evolves_damage_player:
  assumes w: "wf_world w"
  shows "evolves 0 w (snd (damage_player attacker slot amount kind trigger critical pid w))"
proof (cases "player_at w pid")
  case None
  with w show ?thesis by (simp add: damage_player_def evolves_refl)
next
  case (Some p)
  define w1 where "w1 = upd_player pid (\<lambda>p. p\<lparr>sp_statuses := filter (Not \<circ> breaks_on_damage) (sp_statuses p)\<rparr>) w"
  define w2 where "w2 = cancel_toggleable_stealth_auras pid w1"
  obtain damage es w3 where c: "consume_shields pid amount w2 = (damage, es, w3)" by (metis prod_cases3)
  have e1: "evolves 0 w w1"
    using evolves_filter_statuses [OF w, of pid "Not \<circ> breaks_on_damage"] by (simp add: w1_def)
  have e2: "evolves 0 w w2"
    using evolves_trans0 [OF e1 evolves_cancel_auras [OF evolves_wf [OF e1]]] by (simp add: w2_def)
  have e3: "evolves 0 w w3"
    by (rule evolves_trans0 [OF e2 evolves_consume_shields [OF evolves_wf [OF e2] c]])
  show ?thesis
  proof (cases "sp_alive p \<and> damage \<noteq> 0")
    case False
    with e3 w show ?thesis
      by (auto simp: damage_player_def Some w1_def [symmetric] w2_def [symmetric] c evolves_refl)
  next
    case True
    show ?thesis
    proof (cases "player_at w3 pid")
      case None
      with True e3 show ?thesis
        by (simp add: damage_player_def Some w1_def [symmetric] w2_def [symmetric] c)
    next
      case p3: (Some q)
      define q' where "q' = q\<lparr>sp_hit_points := sat_sub (sp_hit_points q) (min damage (sp_hit_points q))\<rparr>"
      define w4 where "w4 = upd_player pid (\<lambda>_. if sp_hit_points q' = 0 then defeat_player q' else q') w3"
      have q: "wf_player q" by (rule wf_world_player [OF evolves_wf [OF e3] p3])
      have e4: "evolves 0 w3 w4"
        unfolding w4_def
      proof (rule evolves_upd [OF evolves_wf [OF e3] p3])
        show "wf_player (if sp_hit_points q' = 0 then defeat_player q' else q')"
          by (rule wf_player_damaged [OF q q'_def])
      qed (auto simp: q'_def defeat_player_def fixed_player_def
          player_weight_def intro!: sum_list_nonneg split: if_splits)
      note e = evolves_trans0 [OF e3 e4]
      have "snd (damage_player attacker slot amount kind trigger critical pid w) =
          (if 0 < min damage (sp_hit_points q)
           then try_trigger_proc_resets attacker slot Damage critical (kind = Some Poison) w4 else w4)"
        using True by (simp add: damage_player_def Some w1_def [symmetric] w2_def [symmetric] c p3
            q'_def [symmetric] w4_def Let_def)
      with e evolves_trans0 [OF e evolves_try_trigger [OF evolves_wf [OF e]]] show ?thesis by simp
    qed
  qed
qed


section \<open>Deployables, healing and statuses\<close>

lemma list_all_modify_first:
  "list_all P xs \<Longrightarrow> P y \<Longrightarrow> list_all P (modify_first Q (\<lambda>_. y) xs)"
  by (induction xs) auto

lemma wf_strike_deployable: "wf_deployable d \<Longrightarrow> wf_deployable (snd (strike_deployable threshold applied d))"
  by (auto simp: strike_deployable_def Let_def wf_deployable_def split: deployable_behavior.split)

lemma evolves_damage_deployable:
  assumes w: "wf_world w"
  shows "evolves 0 w (snd (snd (damage_deployable attacker slot amount critical did w)))"
proof (cases "deployable_at w did")
  case None
  with w show ?thesis by (simp add: damage_deployable_def evolves_refl)
next
  case (Some d)
  let ?applied = "min amount (dp_hit_points d)"
  obtain destroyed d' where strike: "strike_deployable
      (tdc_execute_threshold_bps (sc_training_dummy (w_configuration w))) ?applied d = (destroyed, d')"
    by fastforce
  have "d \<in> set (w_deployables w)"
    using Some by (auto simp: deployable_at_def find_Some_iff)
  then have "wf_deployable d"
    using w by (simp add: wf_world_def list_all_iff)
  then have "wf_deployable d'"
    using wf_strike_deployable [of d "tdc_execute_threshold_bps (sc_training_dummy (w_configuration w))"
        ?applied] by (simp add: strike)
  then have e: "evolves 0 w (w\<lparr>w_deployables := modify_first (\<lambda>d. dp_id d = did) (\<lambda>_. d') (w_deployables w)\<rparr>)"
    using w by (intro evolves_deployables list_all_modify_first) (simp_all add: wf_world_def)
  show ?thesis
    using e evolves_trans0 [OF e evolves_try_trigger [OF evolves_wf [OF e]]]
    by (simp add: damage_deployable_def Some strike Let_def)
qed

lemma evolves_damage_targets:
  "wf_world w \<Longrightarrow> damage_targets attacker slot amount kind trigger critical ts w = (es, ds, w') \<Longrightarrow>
    evolves 0 w w'"
proof (induction ts arbitrary: w es ds w')
  case (Cons t ts)
  show ?case
  proof (cases t)
    case (TargetPlayer pid)
    obtain es1 w1 where s: "damage_player attacker slot amount kind trigger critical pid w = (es1, w1)"
      by fastforce
    have e: "evolves 0 w w1"
      using evolves_damage_player [OF Cons.prems(1), of attacker slot amount kind trigger critical pid]
      by (simp add: s)
    show ?thesis
      using Cons.prems(2) Cons.IH [OF evolves_wf [OF e]] evolves_trans0 [OF e]
      by (auto simp: TargetPlayer s split: prod.splits)
  next
    case (TargetDeployable did)
    obtain es1 b w1 where s: "damage_deployable attacker slot amount critical did w = (es1, b, w1)"
      by (metis prod_cases3)
    have e: "evolves 0 w w1"
      using evolves_damage_deployable [OF Cons.prems(1), of attacker slot amount critical did]
      by (simp add: s)
    show ?thesis
      using Cons.prems(2) Cons.IH [OF evolves_wf [OF e]] evolves_trans0 [OF e]
      by (auto simp: TargetDeployable s split: prod.splits)
  qed
qed (simp add: evolves_refl)

lemma evolves_damage:
  assumes w: "wf_world w"
  shows "evolves 0 w (snd (apply_damage_internal_with_context attacker slot ts amount kind trigger critical w))"
proof -
  obtain es ds w1 where s: "damage_targets attacker slot amount kind trigger critical ts w = (es, ds, w1)"
    by (metis prod_cases3)
  note e = evolves_damage_targets [OF w s]
  have "evolves 0 w1 (w1\<lparr>w_deployables := filter (\<lambda>d. dp_id d \<notin> set ds) (w_deployables w1)\<rparr>)"
    using evolves_wf [OF e] by (intro evolves_deployables list_all_filter) (simp_all add: wf_world_def)
  from evolves_trans0 [OF e this] w show ?thesis
    by (simp add: apply_damage_internal_with_context_def s evolves_refl)
qed

lemma healed_le: "h \<le> m \<Longrightarrow> sat_add h (min r (sat_sub m h)) \<le> m" for h m r :: "'a::len word"
  by (auto simp: word_le_nat_alt unat_sat_add unat_sat_sub min_def)

lemma evolves_heal_player:
  assumes w: "wf_world w"
  shows "evolves 0 w (snd (heal_player source slot amount kind trigger critical pid w))"
proof (cases "player_at w pid")
  case None
  with w show ?thesis by (simp add: heal_player_def evolves_refl)
next
  case (Some p)
  define healed where "healed = min (scale_amount_with_bps amount
      (sat_sub 10000 (healing_reduction_bps (sp_statuses p)))) (sat_sub (sp_max_hit_points p) (sp_hit_points p))"
  define w1 where "w1 = upd_player pid (\<lambda>p'. p'\<lparr>sp_hit_points := sat_add (sp_hit_points p) healed\<rparr>) w"
  have p: "wf_player p" using w Some by (rule wf_world_player)
  show ?thesis
  proof (cases "sp_alive p")
    case True
    have "sat_add (sp_hit_points p) healed \<le> sp_max_hit_points p"
      using p by (auto simp: healed_def player_defs intro: healed_le)
    moreover have "0 < sat_add (sp_hit_points p) healed"
      using p True le_sat_add [of "sp_hit_points p" healed] by (auto simp: player_defs dest: order.strict_trans2)
    ultimately have e: "evolves 0 w w1"
      unfolding w1_def using p True by (intro evolves_upd [OF w Some]) (auto simp: player_defs)
    show ?thesis
      using e evolves_trans0 [OF e evolves_try_trigger [OF evolves_wf [OF e]]] True
      by (simp add: heal_player_def Some Let_def healed_def [symmetric] w1_def [symmetric])
  qed (simp add: heal_player_def Some w evolves_refl)
qed

lemma evolves_heal:
  assumes w: "wf_world w"
  shows "evolves 0 w (snd (apply_healing_internal_with_context source slot ts amount kind trigger critical w))"
  unfolding apply_healing_internal_with_context_def using w
  by (auto intro!: evolves_for_each0 evolves_heal_player evolves_refl split: target_entity.split)

lemma wf_status_definition_iff:
  "wf_status_definition d \<longleftrightarrow> sd_tick_interval_ms d \<noteq> Some 0 \<and> 1 \<le> sd_max_stacks d \<and>
    pred_option wf_payload (sd_expire_payload d) \<and> pred_option wf_payload (sd_dispel_payload d)"
  by (cases d) simp

lemma wf_payload_iff: "wf_payload p \<longleftrightarrow> pred_option wf_status_definition (pl_status p)"
  by (cases p) simp

lemma cc_dr_facts:
  assumes "apply_crowd_control_dr p kind ms dr = (r, p')" "wf_player p"
  shows "wf_player p'" "fixed_player p' = fixed_player p" "sp_statuses p' = sp_statuses p"
    "sp_alive p' = sp_alive p"
proof -
  obtain b s where "p' = p \<or> p' = set_crowd_control_dr_state b \<lparr>dr_stage = min s 3, dr_remaining_ms = ccd_window_ms dr\<rparr> p"
    using assms by (auto simp: apply_crowd_control_dr_def Let_def split: option.splits if_splits)
  then show "wf_player p'" "fixed_player p' = fixed_player p" "sp_statuses p' = sp_statuses p"
    "sp_alive p' = sp_alive p"
    using assms(2) by (cases b; auto simp: player_defs)+
qed

lemma sum_modify_first:
  "find P xs = Some x \<Longrightarrow>
    sum_list (map g (modify_first P (\<lambda>_. y) xs)) = sum_list (map g xs) - g x + (g y :: int)"
  by (induction xs) (auto split: if_splits)

lemma merge_status_facts:
  assumes ss: "list_all wf_status ss" and d: "wf_status_definition d"
    and eq: "merge_status source slot d ms ss = (after, delta, ss')"
  shows "list_all wf_status ss'"
    "sum_list (map status_weight ss') \<le> sum_list (map status_weight ss) + definition_weight d"
proof -
  have new: "wf_status (new_status source slot d ms)"
    "status_weight (new_status source slot d ms) = definition_weight d"
    using d by (auto simp: wf_status_definition_iff wf_status_def new_status_def status_weight_def
        definition_weight_def unat_pos_iff split: option.split)
  have "list_all wf_status ss' \<and>
    sum_list (map status_weight ss') \<le> sum_list (map status_weight ss) + definition_weight d"
  proof (cases "find (same_status source slot (sd_kind d)) ss")
    case None
    with eq new ss show ?thesis by (auto simp: merge_status_def)
  next
    case (Some s)
    then have "s \<in> set ss" by (auto simp: find_Some_iff)
    with ss have s: "wf_status s" by (simp add: list_all_iff)
    have "wf_status (refresh_status d ms s)"
      using s d by (auto simp: wf_status_definition_iff wf_status_def refresh_status_def unat_pos_iff
          split: option.splits)
    moreover have "status_weight (refresh_status d ms s) = definition_weight d"
      by (simp add: refresh_status_def status_weight_def definition_weight_def)
    moreover have "ss' = modify_first (same_status source slot (sd_kind d)) (\<lambda>_. refresh_status d ms s) ss"
      using eq by (simp add: merge_status_def Some Let_def)
    ultimately show ?thesis
      using ss sum_modify_first [OF Some, of status_weight] by (simp add: list_all_modify_first)
  qed
  then show "list_all wf_status ss'"
    "sum_list (map status_weight ss') \<le> sum_list (map status_weight ss) + definition_weight d" by simp_all
qed

lemma plain_status_facts [simp]: "wf_status_definition (plain_status kind ms)"
  "definition_weight (plain_status kind ms) = 0" "sd_kind (plain_status kind ms) = kind"
  by (simp_all add: plain_status_def definition_weight_def)

lemma evolves_apply_status:
  "wf_world w \<Longrightarrow> wf_status_definition d \<Longrightarrow>
    evolves (definition_weight d) w (snd (apply_status source target slot d w))"
proof (induction source target slot d w rule: apply_status.induct)
  case (1 source target slot d w)
  note w = \<open>wf_world w\<close> and d = \<open>wf_status_definition d\<close>
  show ?case
  proof (cases "player_at w target")
    case None
    with w show ?thesis by (simp add: evolves_refl)
  next
    case (Some p)
    have p: "wf_player p" using w Some by (rule wf_world_player)
    obtain r p' where dr: "apply_crowd_control_dr p (sd_kind d) (sd_duration_ms d)
        (sc_crowd_control_dr (w_configuration w)) = (r, p')" by fastforce
    note f = cc_dr_facts [OF dr p]
    consider "\<not> sp_alive p" | "sp_alive p" "r = None" | ms where "sp_alive p" "r = Some ms" by fastforce
    then show ?thesis
    proof cases
      case 1
      with Some w show ?thesis by (simp add: evolves_refl)
    next
      case 2
      have "evolves (definition_weight d) w (upd_player target (\<lambda>_. p') w)"
        using f p by (intro evolves_upd [OF w Some]) (auto simp: player_weight_def)
      with 2 Some dr show ?thesis by simp
    next
      case 3
      obtain after delta ss where m: "merge_status source slot d ms (sp_statuses p') = (after, delta, ss)"
        by (metis prod_cases3)
      have "list_all wf_status (sp_statuses p')" using f(1) by (simp add: wf_player_def)
      note ss = merge_status_facts [OF this d m]
      let ?w = "upd_player target (\<lambda>_. p'\<lparr>sp_statuses := ss\<rparr>) w"
      have e: "evolves (definition_weight d) w ?w"
        using f p 3(1) ss by (intro evolves_upd [OF w Some]) (auto simp: player_defs)
      have "evolves 0 ?w (snd (apply_status source target slot (plain_status Root t) ?w))"
        if "sd_kind d = Chill \<and> sd_max_stacks d \<le> after \<and> sd_trigger_duration_ms d \<noteq> None"
          "t = (case sd_trigger_duration_ms d of Some ms \<Rightarrow> ms | None \<Rightarrow> 0)" for t
        using "1.IH" [OF Some _ dr [symmetric] _ m [symmetric] refl that(1)] 3 evolves_wf [OF e]
        by (simp add: that(2))
      from evolves_trans [OF e this] e 3 Some dr m show ?thesis by (auto simp: Let_def)
    qed
  qed
qed

section \<open>Payload cascades\<close>

lemma evolves_direct_values:
  "wf_world w \<Longrightarrow> evolves 0 w (snd (apply_direct_payload_values source slot ts p w))"
  unfolding apply_direct_payload_values_def
proof (rule evolves_for_each0, assumption)
  fix t w assume w: "wf_world w"
  obtain amount critical w1 where r: "resolve_direct_payload_amount p w = ((amount, critical), w1)"
    by (metis prod.exhaust)
  have e: "evolves 0 w w1" using evolves_direct_amount [OF w, of p] by (simp add: r)
  show "evolves 0 w (snd (let ((amount, critical), w) = resolve_direct_payload_amount p w in
      case pl_kind p of
        Damage \<Rightarrow> apply_damage_internal_with_context source slot [t] amount None None critical w
      | Heal \<Rightarrow> apply_healing_internal_with_context source slot [t] amount None None critical w))"
    using evolves_trans0 [OF e evolves_damage [OF evolves_wf [OF e]]]
      evolves_trans0 [OF e evolves_heal [OF evolves_wf [OF e]]]
    by (simp add: r split: combat_value_kind.split)
qed

lemma evolves_status_target:
  assumes w: "wf_world w" and d: "wf_status_definition d"
  shows "evolves (definition_weight d) w (snd (status_target source slot d t w))"
proof (cases t)
  case (TargetPlayer pid)
  then show ?thesis
    using evolves_apply_status [OF w d, of source pid slot] by (simp add: status_target_def case_prod_beta)
qed (simp add: status_target_def w evolves_refl)

lemma evolves_interrupt_target:
  assumes w: "wf_world w"
  shows "evolves 0 w (snd (interrupt_target source slot ms t w))"
proof (cases t)
  case (TargetPlayer pid)
  have e: "evolves 0 w (upd_player pid (\<lambda>p. p\<lparr>sp_active_cast := None\<rparr>) w)"
    by (rule evolves_upd_any [OF w]) (auto simp: player_defs)
  have "evolves 0 w (snd (apply_status source pid slot (plain_status Silence ms)
      (upd_player pid (\<lambda>p. p\<lparr>sp_active_cast := None\<rparr>) w)))"
    using evolves_trans0 [OF e evolves_apply_status [OF evolves_wf [OF e] plain_status_facts(1)]]
    by simp
  with w show ?thesis
    by (auto simp: interrupt_target_def TargetPlayer case_prod_beta Let_def evolves_refl split: option.split)
qed (simp add: interrupt_target_def w evolves_refl)

definition pending_weight :: "pending_payload list \<Rightarrow> int" where
  "pending_weight ps = sum_list (map (\<lambda>(_, _, _, _, p). int (size p)) ps)"

definition wf_pending :: "pending_payload \<Rightarrow> bool" where
  "wf_pending x = (case x of (_, _, _, _, p) \<Rightarrow> wf_payload p)"

lemma pending_weight_simps [simp]: "pending_weight [] = 0"
  "pending_weight ((s, t, sl, k, p) # ps) = int (size p) + pending_weight ps"
  "pending_weight (ps @ qs) = pending_weight ps + pending_weight qs"
  by (simp_all add: pending_weight_def)

lemma pending_of_statuses:
  "pending_weight (List.map_filter (pending_dispel pid) ss) = sum_list (map status_weight ss)"
  "list_all wf_status ss \<Longrightarrow> list_all wf_pending (List.map_filter (pending_dispel pid) ss)"
  by (induction ss)
    (auto simp: map_filter_simps pending_dispel_def status_weight_def wf_status_def wf_pending_def
      split: option.splits)

lemma sum_partition:
  "sum_list (map g (map snd (filter (\<lambda>(i, _). Q i) xs))) +
   sum_list (map g (map snd (filter (\<lambda>(i, _). \<not> Q i) xs))) = (sum_list (map g (map snd xs)) :: int)"
  by (induction xs) auto

lemma list_all_enumerate_filter:
  assumes "list_all P xs"
  shows "list_all P (map snd (filter Q (List.enumerate n xs)))"
proof -
  have "set (map snd (filter Q (List.enumerate n xs))) \<subseteq> set xs"
    by (auto dest!: in_set_enumerate_eq [THEN iffD1])
  with assms show ?thesis by (auto simp: list_all_iff)
qed

lemma dispel_target_facts:
  assumes w: "wf_world w" and eq: "dispel_target source slot d t w = ((es, pending), w')"
  shows "evolves (- pending_weight pending) w w'" "list_all wf_pending pending"
proof -
  have "evolves (- pending_weight pending) w w' \<and> list_all wf_pending pending"
  proof (cases t)
    case (TargetDeployable did)
    with eq w show ?thesis by (auto simp: dispel_target_def evolves_refl)
  next
    case (TargetPlayer pid)
    show ?thesis
    proof (cases "player_at w pid")
      case None
      with eq w TargetPlayer show ?thesis by (auto simp: dispel_target_def evolves_refl)
    next
      case (Some p)
      have p: "wf_player p" using w Some by (rule wf_world_player)
      let ?is = "dispel_indices d (sp_statuses p)" and ?xs = "List.enumerate 0 (sp_statuses p)"
      let ?removed = "map snd (filter (\<lambda>(i, _). i \<in> set ?is) ?xs)"
      let ?retained = "map snd (filter (\<lambda>(i, _). i \<notin> set ?is) ?xs)"
      show ?thesis
      proof (cases "sp_alive p \<and> ?is \<noteq> []")
        case False
        with eq w TargetPlayer Some show ?thesis
          by (auto simp: dispel_target_def evolves_refl split: if_splits)
      next
        case True
        then have r: "pending = List.map_filter (pending_dispel pid) ?removed"
          "w' = upd_player pid (\<lambda>p. p\<lparr>sp_statuses := ?retained\<rparr>) w"
          using eq TargetPlayer Some by (auto simp: dispel_target_def Let_def)
        have wf: "list_all wf_status ?removed" "list_all wf_status ?retained"
          using p by (auto simp: wf_player_def intro!: list_all_enumerate_filter)
        have "player_weight (p\<lparr>sp_statuses := ?retained\<rparr>) \<le> player_weight p + - pending_weight pending"
          using sum_partition [of status_weight "\<lambda>i. i \<in> set ?is" ?xs]
          by (simp add: r(1) pending_of_statuses(1) player_weight_def)
        then have "evolves (- pending_weight pending) w w'"
          unfolding r(2) using p True wf(2)
          by (intro evolves_upd [OF w Some]) (auto simp: wf_player_def wf_vitals_def wf_timers_def wf_equipment_def wf_place_def fixed_player_def)
        then show ?thesis using pending_of_statuses(2) [OF wf(1)] r(1) by simp
      qed
    qed
  qed
  then show "evolves (- pending_weight pending) w w'" "list_all wf_pending pending" by simp_all
qed

lemma dispel_targets_facts:
  "wf_world w \<Longrightarrow> dispel_targets source slot d ts w = ((es, pending), w') \<Longrightarrow>
    evolves (- pending_weight pending) w w' \<and> list_all wf_pending pending"
proof (induction ts arbitrary: w es pending w')
  case (Cons t ts)
  obtain es1 ps1 w1 where s: "dispel_target source slot d t w = ((es1, ps1), w1)" by (metis prod.exhaust)
  obtain es2 ps2 w2 where s2: "dispel_targets source slot d ts w1 = ((es2, ps2), w2)" by (metis prod.exhaust)
  note f = dispel_target_facts [OF Cons.prems(1) s]
  note f2 = Cons.IH [OF evolves_wf [OF f(1)] s2]
  show ?case using Cons.prems(2) f(2) f2 evolves_trans [OF f(1) f2 [THEN conjunct1]]
    by (auto simp: s s2)
qed (simp add: evolves_refl)


end
