(* ===== verification/Sim_Cascade.thy ===== *)
theory Sim_Cascade
  imports Sim_Invariant
begin

text \<open>
  Payload cascades and timed parts of the tick end: \<open>apply_payload\<close> always returns on a
  well-formed world, by induction on the weight of the payloads waiting in dispellable statuses,
  and so do the status ticks. Both keep the invariant and what the roster fixed.
\<close>

section \<open>Payloads return\<close>

lemma payload_size_pos: "0 < size p" for p :: effect_payload
  using payload_weight_less [of p] payload_weight_nonneg [of p] by linarith

lemma for_each_pending:
  assumes run: "\<And>source slot t p w. wf_world w \<Longrightarrow> wf_payload p \<Longrightarrow> cascade_weight w < bound \<Longrightarrow>
      \<exists>es w'. run source slot [t] p w = Some (es, w') \<and> evolves (payload_weight p) w w'"
  shows "wf_world w \<Longrightarrow> list_all wf_pending ps \<Longrightarrow> cascade_weight w + pending_weight ps \<le> bound \<Longrightarrow>
    \<exists>es w'. for_each_opt (apply_pending run) ps w = Some (es, w') \<and> evolves (pending_weight ps) w w'"
proof (induction ps arbitrary: w)
  case (Cons x ps)
  obtain source target slot kind p where x: "x = (source, target, slot, kind, p)" by (metis prod.exhaust)
  have p: "0 < int (size p)" "payload_weight p < int (size p)"
    using payload_size_pos [of p] payload_weight_less [of p] by simp_all
  have ps: "0 \<le> pending_weight ps" by (auto simp: pending_weight_def intro!: sum_list_nonneg)
  have "cascade_weight w < bound" using Cons.prems(3) p ps by (simp add: x)
  then obtain es w1 where r: "run source slot [TargetPlayer target] p w = Some (es, w1)"
    and e: "evolves (payload_weight p) w w1"
    using run [OF Cons.prems(1), of p source slot "TargetPlayer target"] Cons.prems(2)
    by (auto simp: x wf_pending_def)
  have "cascade_weight w1 + pending_weight ps \<le> bound"
    using Cons.prems(3) p e by (simp add: x evolves_def)
  then obtain es' w2 where r2: "for_each_opt (apply_pending run) ps w1 = Some (es', w2)"
    and e2: "evolves (pending_weight ps) w1 w2"
    using Cons.IH [OF evolves_wf [OF e]] Cons.prems(2) by auto
  have "evolves (int (size p) + pending_weight ps) w w2"
    by (rule evolves_mono [OF evolves_trans [OF e e2]]) (use p in simp)
  moreover have "apply_pending run x w = Some (TriggerResolved source slot kind TriggerDispel TargetPlayerKind
      (player_id_get target) (pl_kind p) (pl_amount p) # es, w1)"
    by (simp add: x apply_pending_def r)
  ultimately show ?case by (simp add: r2 x)
qed (simp add: evolves_refl)

lemma payload_body_returns:
  assumes run: "\<And>source slot t p w. wf_world w \<Longrightarrow> wf_payload p \<Longrightarrow> cascade_weight w < bound \<Longrightarrow>
      \<exists>es w'. run source slot [t] p w = Some (es, w') \<and> evolves (payload_weight p) w w'"
    and w: "wf_world w" "cascade_weight w \<le> bound" and p: "wf_payload p"
  shows "\<exists>es w'. payload_body run source slot ts p w = Some (es, w') \<and>
    evolves (int (length ts) * payload_weight p) w w'"
proof (cases "ts = []")
  case True
  with w show ?thesis by (simp add: payload_body_def evolves_refl)
next
  case False
  obtain es1 w1 where d: "apply_direct_payload_values source slot ts p w = (es1, w1)" by fastforce
  have e1: "evolves 0 w w1" using evolves_direct_values [OF w(1), of source slot ts p] by (simp add: d)
  obtain es2 w2 where i: "(case pl_interrupt_silence_duration_ms p of
      Some ms \<Rightarrow> for_each (interrupt_target source slot ms) ts w1 | None \<Rightarrow> ([], w1)) = (es2, w2)" by fastforce
  have "evolves 0 w1 w2"
  proof (cases "pl_interrupt_silence_duration_ms p")
    case (Some ms)
    with i evolves_for_each0 [OF evolves_wf [OF e1], of ts "interrupt_target source slot ms"]
      evolves_interrupt_target show ?thesis by simp
  qed (use i evolves_refl [OF evolves_wf [OF e1]] in simp)
  then have e2: "evolves 0 w w2" by (rule evolves_trans0 [OF e1])
  have "\<exists>es3 w3. (case pl_dispel p of
      Some d \<Rightarrow> do { (es, w) \<leftarrow> apply_dispel_internal run source slot ts d w2;
        Some (DispelCast source slot (dd_scope d) (dd_max_statuses d) # es, w) }
    | None \<Rightarrow> Some ([], w2)) = Some (es3, w3) \<and> evolves 0 w2 w3"
  proof (cases "pl_dispel p")
    case None
    with evolves_refl [OF evolves_wf [OF e2]] show ?thesis by simp
  next
    case (Some dd)
    obtain es pending w' where t: "dispel_targets source slot dd ts w2 = ((es, pending), w')"
      by (metis prod.exhaust)
    note f = dispel_targets_facts [OF evolves_wf [OF e2] t]
    have "cascade_weight w' + pending_weight pending \<le> bound"
      using f e2 w(2) by (simp add: evolves_def)
    then obtain es' w3 where l: "for_each_opt (apply_pending run) pending w' = Some (es', w3)"
      and e: "evolves (pending_weight pending) w' w3"
      using for_each_pending [of bound run w' pending] run evolves_wf [OF f [THEN conjunct1]] f by blast
    from evolves_trans [OF f [THEN conjunct1] e] show ?thesis
      by (simp add: Some apply_dispel_internal_def t l)
  qed
  then obtain es3 w3 where dis: "(case pl_dispel p of
      Some d \<Rightarrow> do { (es, w) \<leftarrow> apply_dispel_internal run source slot ts d w2;
        Some (DispelCast source slot (dd_scope d) (dd_max_statuses d) # es, w) }
    | None \<Rightarrow> Some ([], w2)) = Some (es3, w3)" and "evolves 0 w2 w3" by blast
  then have e3: "evolves 0 w w3" by (blast intro: evolves_trans0 [OF e2])
  obtain es4 w4 where s: "(case pl_status p of
      Some d \<Rightarrow> for_each (status_target source slot d) ts w3 | None \<Rightarrow> ([], w3)) = (es4, w4)" by fastforce
  have "evolves (int (length ts) * payload_weight p) w3 w4"
  proof (cases "pl_status p")
    case None
    with s evolves_refl [OF evolves_wf [OF e3]] show ?thesis by (simp add: payload_weight_def)
  next
    case (Some sd)
    then have "wf_status_definition sd" using p by (simp add: wf_payload_iff)
    then show ?thesis
      using evolves_for_each [OF evolves_wf [OF e3], of ts "definition_weight sd" "status_target source slot sd"]
        evolves_status_target s Some by (simp add: payload_weight_def)
  qed
  from evolves_trans0 [OF e3 this] show ?thesis
    using False by (simp add: payload_body_def d i dis s)
qed

lemma apply_payload_ok:
  "wf_world w \<Longrightarrow> wf_payload p \<Longrightarrow>
    \<exists>es w'. apply_payload source slot ts p w = Some (es, w') \<and>
      evolves (int (length ts) * payload_weight p) w w'"
proof (induction "nat (cascade_weight w)" arbitrary: source slot ts p w rule: less_induct)
  case less
  have "\<exists>es w'. payload_body apply_payload source slot ts p w = Some (es, w') \<and>
      evolves (int (length ts) * payload_weight p) w w'"
  proof (rule payload_body_returns [OF _ less.prems(1) order_refl less.prems(2)])
    fix source slot t p w'
    assume "wf_world w'" "wf_payload p" "cascade_weight w' < cascade_weight w"
    then show "\<exists>es w''. apply_payload source slot [t] p w' = Some (es, w'') \<and>
        evolves (payload_weight p) w' w''"
      using less.hyps [of w' p source slot "[t]"] cascade_weight_nonneg [of w'] by simp
  qed
  then show ?case by (simp add: apply_payload.simps)
qed

section \<open>Status ticks return\<close>

lemma drain_ticks_eq:
  assumes i: "interval \<noteq> 0"
  shows "drain_ticks interval progress x acc =
    Some (acc @ replicate (unat progress div unat interval) x, progress mod interval)"
proof (induction "unat progress" arbitrary: progress acc rule: less_induct)
  case less
  have i': "0 < unat interval" using i by (simp add: unat_gt_0)
  show ?case
  proof (cases "interval \<le> progress")
    case True
    then have le: "unat interval \<le> unat progress" by (simp add: word_le_nat_alt)
    have sub: "unat (sat_sub progress interval) = unat progress - unat interval" by (simp add: unat_sat_sub)
    have "sat_sub progress interval mod interval = progress mod interval"
      using le by (intro word_unat_eq_iff [THEN iffD2]) (simp add: unat_mod_distrib sub le_mod_geq)
    moreover have "unat progress div unat interval = Suc ((unat progress - unat interval) div unat interval)"
      using le i' by (rule le_div_geq [rotated])
    ultimately show ?thesis
      using less [of "sat_sub progress interval" "acc @ [x]"] True le i'
      by (simp add: drain_ticks.simps [of interval progress] sub)
  next
    case False
    then have "unat progress < unat interval" by (simp add: word_le_nat_alt)
    moreover from this have "progress mod interval = progress"
      by (intro word_unat_eq_iff [THEN iffD2]) (simp add: unat_mod_distrib)
    ultimately show ?thesis using False by (simp add: drain_ticks.simps [of interval progress])
  qed
qed

text \<open>A zero interval makes the loop endless: no run of it returns.\<close>

lemma drain_ticks_zero: "drain_ticks 0 progress x acc = None"
proof -
  have "drain_ticks i p y a = Some r \<Longrightarrow> i \<noteq> 0" for i p and y :: 'a and a r
    by (erule drain_ticks.raw_induct [rotated]) (auto simp: if_splits split: if_splits)
  then show ?thesis by (metis not_None_eq)
qed

definition wf_expiry :: "expiry \<Rightarrow> bool" where
  "wf_expiry x = (case x of (_, _, _, p) \<Rightarrow> wf_payload p)"

lemma tick_status_ok:
  assumes s: "wf_status s"
  shows "\<exists>effects s'. tick_status delta s = Some (effects, s') \<and> wf_status s' \<and>
    status_weight s' = status_weight s \<and> si_expire_payload s' = si_expire_payload s"
proof (cases "si_tick_interval_ms s")
  case None
  with s show ?thesis by (simp add: tick_status_def wf_status_def status_weight_def)
next
  case (Some i)
  with s have i: "i \<noteq> 0" by (auto simp: wf_status_def)
  have "(sat_add (si_tick_progress_ms s) delta) mod i < i"
    using i by (simp add: word_mod_less_divisor unat_pos_iff)
  with s Some i show ?thesis
    by (simp add: tick_status_def drain_ticks_eq wf_status_def status_weight_def)
qed

lemma tick_statuses_ok:
  "list_all wf_status ss \<Longrightarrow>
    \<exists>effects expiries removed retained. tick_statuses delta ss = Some (effects, expiries, removed, retained) \<and>
      list_all wf_status retained \<and> list_all wf_expiry expiries \<and>
      sum_list (map status_weight retained) \<le> sum_list (map status_weight ss)"
proof (induction ss)
  case (Cons s ss)
  then obtain effects s' where t: "tick_status delta s = Some (effects, s')" "wf_status s'"
    "status_weight s' = status_weight s" "si_expire_payload s' = si_expire_payload s"
    using tick_status_ok [of s delta] by auto
  from Cons obtain e x rm rt where IH: "tick_statuses delta ss = Some (e, x, rm, rt)"
    "list_all wf_status rt" "list_all wf_expiry x"
    "sum_list (map status_weight rt) \<le> sum_list (map status_weight ss)" by auto
  have "pred_option wf_payload (si_expire_payload s')" using t(2) by (simp add: wf_status_def)
  then have "si_expire_payload s' = Some q \<Longrightarrow> wf_expiry (a, b, c, q)" for a b c q by (simp add: wf_expiry_def)
  then show ?case
    using t IH by (auto simp: intro: add_increasing split: option.split)
qed simp

lemma evolves_periodic: "wf_world w \<Longrightarrow> evolves 0 w (snd (run_periodic_effect pid x w))"
  by (cases x) (auto simp: run_periodic_effect_def evolves_damage evolves_heal evolves_refl
      split: status_kind.split)

text \<open>Invariant and roster, whatever the payloads left waiting.\<close>

definition continues :: "simulation_world \<Rightarrow> simulation_world \<Rightarrow> bool" where
  "continues w w' \<longleftrightarrow> wf_world w' \<and> fixed_world w' = fixed_world w \<and> living w' \<subseteq> living w"

lemma continues_refl: "wf_world w \<Longrightarrow> continues w w"
  by (simp add: continues_def)

lemma continues_trans [trans]: "continues w w' \<Longrightarrow> continues w' w'' \<Longrightarrow> continues w w''"
  by (auto simp: continues_def)

lemma continues_wf: "continues w w' \<Longrightarrow> wf_world w'"
  by (simp add: continues_def)

lemma evolves_continues: "evolves c w w' \<Longrightarrow> continues w w'"
  by (simp add: continues_def evolves_def)

lemma for_each_opt_returns:
  assumes "\<And>x w. x \<in> set xs \<Longrightarrow> wf_world w \<Longrightarrow> \<exists>es w'. f x w = Some (es, w') \<and> continues w w'"
  shows "wf_world w \<Longrightarrow> \<exists>es w'. for_each_opt f xs w = Some (es, w') \<and> continues w w'"
  using assms
proof (induction xs arbitrary: w)
  case (Cons x xs)
  obtain es w1 where f: "f x w = Some (es, w1)" "continues w w1"
    using Cons.prems(2) [of x w] Cons.prems(1) by auto
  moreover obtain es' w2 where "for_each_opt f xs w1 = Some (es', w2)" "continues w1 w2"
    using Cons.IH [OF continues_wf [OF f(2)]] Cons.prems(2) by auto
  ultimately show ?case by (auto intro: continues_trans)
qed (simp add: continues_refl)

lemma status_tick_player_ok:
  assumes w: "wf_world w"
  shows "\<exists>es w'. status_tick_player delta pid w = Some (es, w') \<and> continues w w'"
proof (cases "player_at w pid")
  case None
  with w show ?thesis by (simp add: status_tick_player_def continues_refl)
next
  case (Some p)
  have p: "wf_player p" using w Some by (rule wf_world_player)
  show ?thesis
  proof (cases "sp_alive p")
    case True
    obtain effects expiries removed retained where
      t: "tick_statuses delta (sp_statuses p) = Some (effects, expiries, removed, retained)"
        "list_all wf_status retained" "list_all wf_expiry expiries"
        "sum_list (map status_weight retained) \<le> sum_list (map status_weight (sp_statuses p))"
      using tick_statuses_ok [of "sp_statuses p" delta] p by (auto simp: wf_player_def)
    define w1 where "w1 = upd_player pid (\<lambda>p. p\<lparr>sp_statuses := retained\<rparr>) w"
    have e1: "evolves 0 w w1"
      unfolding w1_def using p True t by (intro evolves_upd [OF w Some]) (auto simp: player_defs)
    obtain es2 w2 where pe: "for_each (run_periodic_effect pid) effects w1 = (es2, w2)" by fastforce
    have "evolves 0 w1 w2"
      using evolves_for_each0 [OF evolves_wf [OF e1], of effects "run_periodic_effect pid"]
      by (simp add: pe evolves_periodic)
    then have e2: "evolves 0 w w2" by (rule evolves_trans0 [OF e1])
    have "\<exists>es w'. run_expiry pid x w = Some (es, w') \<and> continues w w'"
      if "x \<in> set expiries" "wf_world w" for x w
    proof -
      obtain source slot kind q where x: "x = (source, slot, kind, q)" by (metis prod.exhaust)
      have "wf_payload q" using t(3) that(1) by (auto simp: list_all_iff wf_expiry_def x)
      with apply_payload_ok [OF that(2), of q source slot "[TargetPlayer pid]"] show ?thesis
        by (auto simp: run_expiry_def x intro: evolves_continues)
    qed
    then obtain es3 w3 where
      "for_each_opt (run_expiry pid) expiries w2 = Some (es3, w3)" "continues w2 w3"
      using for_each_opt_returns [of expiries "run_expiry pid" w2] evolves_wf [OF e2] by blast
    then show ?thesis
      using continues_trans [OF evolves_continues [OF e2]]
      by (simp add: status_tick_player_def Some True t w1_def [symmetric] pe)
  qed (simp add: status_tick_player_def Some w continues_refl)
qed

lemma apply_status_ticks_ok:
  "wf_world w \<Longrightarrow> \<exists>es w'. apply_status_ticks delta w = Some (es, w') \<and> continues w w'"
  unfolding apply_status_ticks_def by (rule for_each_opt_returns) (auto intro: status_tick_player_ok)

section \<open>Updates of every player\<close>

lemma map_players_wf:
  assumes w: "wf_world w"
    and f: "\<And>p. wf_player p \<Longrightarrow> wf_player (f p)" "\<And>p. fixed_player (f p) = fixed_player p"
  shows "wf_world (w\<lparr>w_players := bt_map_values f (w_players w)\<rparr>)"
    "fixed_world (w\<lparr>w_players := bt_map_values f (w_players w)\<rparr>) = fixed_world w"
  using assms
  by (auto simp: wf_world_def fixed_world_def list_all_iff bt_values_def bt_map_values_def
      bt_inv_def comp_def case_prod_beta)

lemma continues_map_players:
  assumes w: "wf_world w"
    and f: "\<And>p. wf_player p \<Longrightarrow> wf_player (f p)" "\<And>p. fixed_player (f p) = fixed_player p"
      "\<And>p. sp_alive (f p) \<Longrightarrow> sp_alive p"
  shows "continues w (w\<lparr>w_players := bt_map_values f (w_players w)\<rparr>)"
proof -
  have "living (w\<lparr>w_players := bt_map_values f (w_players w)\<rparr>) \<subseteq> living w"
    using f(3) by (auto simp: living_def)
  with map_players_wf [OF w f(1,2)] show ?thesis by (simp add: continues_def)
qed

lemma continues_elapsed: "wf_world w \<Longrightarrow> continues w (w\<lparr>w_elapsed_ms := e\<rparr>)"
  by (simp add: continues_def wf_world_def fixed_world_def living_def)

lemma continues_advance_cooldowns: "wf_world w \<Longrightarrow> continues w (advance_cooldowns delta w)"
  unfolding advance_cooldowns_def by (rule continues_map_players) (auto simp: player_defs)

lemma mana_total:
  "unat ((ucast (a :: u16) :: u32) + ucast (d :: u16) * ucast (r :: u16)) = unat a + unat d * unat r"
proof -
  have le: "unat a \<le> 65535" "unat d \<le> 65535" "unat r \<le> 65535"
    using unat_u16_le [of a] unat_u16_le [of d] unat_u16_le [of r] by (simp_all add: U16_MAX_def)
  have "unat d * unat r \<le> 65535 * 65535" using le by (intro mult_le_mono) auto
  with le show ?thesis
    by (simp add: unat_word_ariths unsigned_ucast_eq take_bit_nat_eq_self)
qed

lemma regenerate_mana_facts:
  assumes "wf_player p"
  shows "wf_player (regenerate_mana delta regen p)" "fixed_player (regenerate_mana delta regen p) = fixed_player p"
proof -
  have "ucast (t mod 1000) < (1000 :: u16)" for t :: u32
  proof -
    have "unat (t mod 1000) < 1000" by (simp add: unat_mod_distrib)
    then have "unat (ucast (t mod 1000) :: u16) < 1000"
      by (simp add: unsigned_ucast_eq take_bit_nat_eq_self)
    then show ?thesis by (simp add: word_less_nat_alt)
  qed
  then show "wf_player (regenerate_mana delta regen p)"
    "fixed_player (regenerate_mana delta regen p) = fixed_player p"
    using assms by (auto simp: regenerate_mana_def Let_def player_defs)
qed

lemma fixed_regenerate_mana: "fixed_player (regenerate_mana delta regen p) = fixed_player p"
  "sp_alive (regenerate_mana delta regen p) = sp_alive p"
  by (simp_all add: regenerate_mana_def Let_def fixed_player_def)

lemma continues_advance_mana: "wf_world w \<Longrightarrow> continues w (advance_mana delta w)"
  unfolding advance_mana_def
  by (rule continues_map_players) (auto intro: regenerate_mana_facts simp: fixed_regenerate_mana)

lemma continues_advance_dr:
  "wf_world w \<Longrightarrow> continues w (advance_crowd_control_diminishing_returns delta w)"
  unfolding advance_crowd_control_diminishing_returns_def
  by (rule continues_map_players) (auto simp: player_defs advance_dr_state_def Let_def)

lemma tick_timers_ok:
  assumes w: "wf_world w"
  shows "\<exists>es w'. tick_timers delta w = Some (es, w') \<and> continues w w'"
proof -
  let ?w0 = "w\<lparr>w_elapsed_ms := sat_add (w_elapsed_ms w) (ucast delta)\<rparr>"
  let ?w1 = "advance_cooldowns delta ?w0"
  let ?w2 = "advance_mana delta ?w1"
  let ?w3 = "advance_crowd_control_diminishing_returns delta ?w2"
  have "continues w ?w0" using w by (rule continues_elapsed)
  also have "continues ?w0 ?w1" by (rule continues_advance_cooldowns [OF continues_wf [OF calculation]])
  finally have c: "continues w ?w1" .
  also have "continues ?w1 ?w2" by (rule continues_advance_mana [OF continues_wf [OF c]])
  finally have c: "continues w ?w2" .
  also have "continues ?w2 ?w3" by (rule continues_advance_dr [OF continues_wf [OF c]])
  finally have c: "continues w ?w3" .
  with apply_status_ticks_ok [OF continues_wf [OF c], of delta] show ?thesis
    by (auto simp: tick_timers_def Let_def intro: continues_trans)
qed

section \<open>Inputs and the training reset\<close>

lemma continues_upd:
  "wf_world w \<Longrightarrow> (\<And>p. wf_player p \<Longrightarrow> wf_player (f p)) \<Longrightarrow> (\<And>p. fixed_player (f p) = fixed_player p) \<Longrightarrow>
    (\<And>p. sp_statuses (f p) = sp_statuses p) \<Longrightarrow> (\<And>p. sp_alive (f p) \<Longrightarrow> sp_alive p) \<Longrightarrow>
    continues w (upd_player pid f w)"
  by (rule evolves_continues [of 0], rule evolves_upd_any) (auto simp: player_weight_def)

lemma living_player_Inr: "living_player w pid = Inr p \<longleftrightarrow> player_at w pid = Some p \<and> sp_alive p"
  by (auto simp: living_player_def split: option.split if_splits)

lemma inputs_continue:
  assumes w: "wf_world w"
  shows "submit_input pid m w = Inr w' \<Longrightarrow> continues w w'"
    "update_aim pid x y w = Inr (changed, w') \<Longrightarrow> continues w w'"
    "queue_primary_attack pid w = Inr w' \<Longrightarrow> continues w w'"
    "queue_cast_with_mode pid slot self w = Inr w' \<Longrightarrow> continues w w'"
    "cancel_active_cast pid w = Inr (changed, w') \<Longrightarrow> continues w w'"
  unfolding submit_input_def update_aim_def queue_primary_attack_def queue_cast_with_mode_def
    cancel_active_cast_def and_then_eq_Inr
  using w by (auto split: if_splits intro!: continues_upd continues_refl simp: and_then_eq_Inr player_defs)

lemma wf_reset_player: "wf_player p \<Longrightarrow> wf_player (reset_player p)"
  by (simp add: player_defs reset_player_def no_dr_def no_queued_actions_def)

lemma fixed_reset_player: "fixed_player (reset_player p) = fixed_player p"
  by (simp add: reset_player_def fixed_player_def)

text \<open>The reset revives players, so it keeps the invariant and the roster only.\<close>

lemma reset_training_wf:
  assumes w: "wf_world w"
  shows "wf_world (reset_training_session w)" "fixed_world (reset_training_session w) = fixed_world w"
proof -
  let ?w = "w\<lparr>w_players := bt_map_values reset_player (w_players w)\<rparr>"
  have "wf_world ?w" "fixed_world ?w = fixed_world w"
    using map_players_wf [OF w, of reset_player] by (simp_all add: wf_reset_player fixed_reset_player)
  moreover have "list_all wf_deployable (map (reset_dummy c) (filter is_training_dummy (w_deployables w)))" for c
    using w by (auto simp: wf_world_def list_all_iff reset_dummy_def wf_deployable_def)
  ultimately show "wf_world (reset_training_session w)" "fixed_world (reset_training_session w) = fixed_world w"
    by (simp_all add: reset_training_session_def wf_world_def fixed_world_def)
qed

section \<open>Construction\<close>

text \<open>What the content loader promises of a seed: its equipment is well formed.\<close>

definition wf_seed :: "sim_player_seed \<Rightarrow> bool" where
  "wf_seed s \<longleftrightarrow> length (ss_skills s) = 5 \<and> wf_payload (md_payload (ss_melee s)) \<and>
     list_all (pred_option (\<lambda>s. wf_behavior (sk_behavior s))) (ss_skills s)"

text \<open>\<open>spawns_within\<close>: the players stand where coordinates cannot wrap.\<close>

definition spawns_within :: "(player_id, sim_player) btree_map \<Rightarrow> bool" where
  "spawns_within ps \<longleftrightarrow> list_all (\<lambda>p. wf_position (sp_spawn_x p) (sp_spawn_y p)) (bt_values ps)"

definition wf_spawned :: "sim_player \<Rightarrow> bool" where
  "wf_spawned p \<longleftrightarrow> (wf_position (sp_spawn_x p) (sp_spawn_y p) \<longrightarrow> wf_player p)"

lemma wf_spawn_player:
  "wf_seed s \<Longrightarrow> ss_hit_points s \<noteq> 0 \<Longrightarrow> wf_spawned (spawn_player s x y ax ay)"
  by (simp add: wf_seed_def wf_spawned_def spawn_player_def player_defs no_dr_def no_queued_actions_def unat_pos_iff)

lemma list_all_bt_insert:
  "bt_inv m \<Longrightarrow> list_all P (bt_values m) \<Longrightarrow> P v \<Longrightarrow> list_all P (bt_values (bt_insert k v m))"
  by (auto simp: list_all_iff bt_values_mem bt_inv_insert bt_get_insert split: if_splits)

lemma enrol_players_wf:
  "enrol_players m c seeds a b ps = Inr ps' \<Longrightarrow> list_all wf_seed seeds \<Longrightarrow> bt_inv ps \<Longrightarrow>
    list_all wf_spawned (bt_values ps) \<Longrightarrow> bt_inv ps' \<and> list_all wf_spawned (bt_values ps')"
proof (induction m c seeds a b ps rule: enrol_players.induct)
  case (2 m c seed seeds a b ps)
  obtain i a' b' where idx: "(case ss_team seed of TeamA \<Rightarrow> (a, sat_add a 1, b) | TeamB \<Rightarrow> (b, a, sat_add b 1)) = (i, a', b')"
    by (metis prod_cases3)
  from 2(2) idx obtain x y ax where s: "spawn_position (ss_team seed) i m c = Inr (x, y, ax)"
    and rest: "ss_hit_points seed \<noteq> 0" "\<not> bt_contains ps (ss_player_id seed)"
      "enrol_players m c seeds a' b' (bt_insert (ss_player_id seed)
        (spawn_player seed x y ax (sc_default_aim_y_units c)) ps) = Inr ps'"
    by (auto simp: and_then_eq_Inr split: if_splits)
  have "wf_spawned (spawn_player seed x y ax (sc_default_aim_y_units c))"
    using 2(3) rest(1) by (simp add: wf_spawn_player)
  then show ?case
    using 2(1) [OF rest(1) idx [symmetric] refl refl rest(2,3)] 2(3-5)
    by (simp add: bt_inv_insert list_all_bt_insert)
qed simp

lemma wf_spawn_feature:
  assumes "wf_world w"
  shows "wf_world (spawn_feature owner team hp f w)"
  using assms
  by (auto simp: spawn_feature_def next_deployable_id_def Let_def wf_world_def wf_deployable_def
      split: arena_map_feature_kind.split)

text \<open>The arena of a new world, without players.\<close>

definition arena_of :: "arena_map_definition \<Rightarrow> simulation_configuration \<Rightarrow> simulation_world" where
  "arena_of m c =
     \<lparr>w_configuration = c, w_arena_width_units = am_width_units m,
      w_arena_height_units = am_height_units m, w_arena_width_tiles = am_width_tiles m,
      w_arena_height_tiles = am_height_tiles m, w_arena_tile_units = am_tile_units m,
      w_footprint_mask = am_footprint_mask m, w_obstacles = map map_obstacle_to_sim_obstacle (am_obstacles m),
      w_players = [], w_projectiles = [], w_deployables = [], w_next_deployable_id = 1,
      w_elapsed_ms = 0, w_initial_roll_state = 0, w_roll_state = 0\<rparr>"

lemma spawn_feature_players [simp]:
  "w_players (fold (spawn_feature owner team hp) fs w) = w_players w"
  by (induction fs arbitrary: w)
    (auto simp: spawn_feature_def next_deployable_id_def Let_def split: arena_map_feature_kind.split)

lemma simulation_world_new_wf:
  assumes new: "simulation_world_new seeds m c = Inr w" and seeds: "list_all wf_seed seeds"
    and arena: "wf_arena (arena_of m c)" and spawns: "spawns_within (w_players w)"
  shows "wf_world w"
proof -
  have features: "wf_world v \<Longrightarrow> wf_world (fold (spawn_feature owner team hp) fs v)" for v owner team hp fs
    by (induction fs arbitrary: v) (auto simp: wf_spawn_feature)
  obtain ps where ps: "enrol_players m c seeds 0 0 [] = Inr ps"
    using new by (auto simp: simulation_world_new_def and_then_eq_Inr)
  define seed where "seed = compute_initial_roll_state (arena_of m c\<lparr>w_players := ps\<rparr>)"
  define v where "v = arena_of m c\<lparr>w_players := ps, w_initial_roll_state := seed, w_roll_state := seed\<rparr>"
  have w: "w = (case ps of [] \<Rightarrow> v | (owner, p) # _ \<Rightarrow> spawn_map_features owner (sp_team p) m v)"
    using new ps by (cases ps) (auto simp: simulation_world_new_def Let_def v_def seed_def arena_of_def)
  then have "w_players w = ps"
    by (auto simp: spawn_map_features_def Let_def v_def split: list.split)
  with spawns have "spawns_within ps" by simp
  moreover have "bt_inv ps" "list_all wf_spawned (bt_values ps)"
    using enrol_players_wf [OF ps seeds] by (simp_all add: bt_inv_def bt_values_def)
  moreover have "wf_arena v" using arena by (simp add: v_def)
  moreover have "w_players v = ps" "w_deployables v = []" "w_projectiles v = []"
    by (simp_all add: v_def arena_of_def)
  ultimately have "wf_world v"
    by (auto simp: wf_world_def spawns_within_def wf_spawned_def list_all_iff)
  then show ?thesis
    using w by (auto simp: spawn_map_features_def Let_def intro: features split: list.split)
qed

end
