(* ===== verification/Sim_Space.thy ===== *)
theory Sim_Space
  imports Sim_Tick Sim_Cascade
begin

text \<open>
  Moves and teleports of a well-formed world: they return, they end inside the coordinates where
  arithmetic cannot wrap, and the obstacles of combat have ordered bounds.
\<close>

section \<open>Signed arithmetic\<close>

lemma sint_add_i16: "- 32768 \<le> sint a + sint b \<Longrightarrow> sint a + sint b \<le> 32767 \<Longrightarrow>
    sint (a + b :: i16) = sint a + sint b"
  by (simp add: sint_word_ariths signed_take_bit_int_eq_self)

lemma sint_diff_i16: "- 32768 \<le> sint a - sint b \<Longrightarrow> sint a - sint b \<le> 32767 \<Longrightarrow>
    sint (a - b :: i16) = sint a - sint b"
  by (simp add: sint_word_ariths signed_take_bit_int_eq_self)

lemma sint_saturating_id: "- 32768 \<le> v \<Longrightarrow> v \<le> 32767 \<Longrightarrow> sint (saturating_i16 v) = v"
  by (simp add: sint_saturating_i16)

lemma sint_i16_or_max: "0 \<le> n \<Longrightarrow> sint (i16_or_max n) = min n 32767"
  using sint_saturating_id [of n] by (simp add: i16_or_max_def saturating_i16_def min_def)

section \<open>Obstacles\<close>

lemma wf_obstacle_bounds:
  assumes "wf_obstacle ob" "rect_bounds ob = (left, right, upper, lower)"
  shows "sint left = sint (ob_center_x ob) - uint (ob_half_width ob)"
    "sint right = sint (ob_center_x ob) + uint (ob_half_width ob)"
    "sint upper = sint (ob_center_y ob) - uint (ob_half_height ob)"
    "sint lower = sint (ob_center_y ob) + uint (ob_half_height ob)"
proof -
  have h: "uint (ob_half_width ob) \<le> 32767" "uint (ob_half_height ob) \<le> 32767"
    using assms(1) by (auto simp: wf_obstacle_def)
  have s: "sint (i16_or_max (uint (ob_half_width ob))) = uint (ob_half_width ob)"
    "sint (i16_or_max (uint (ob_half_height ob))) = uint (ob_half_height ob)"
    using h by (simp_all add: sint_i16_or_max)
  have "\<bar>sint (ob_center_x ob)\<bar> + uint (ob_half_width ob) \<le> 32767"
    "\<bar>sint (ob_center_y ob)\<bar> + uint (ob_half_height ob) \<le> 32767"
    "0 \<le> uint (ob_half_width ob)" "0 \<le> uint (ob_half_height ob)"
    using assms(1) by (simp_all add: wf_obstacle_def)
  then have "sint (ob_center_x ob - i16_or_max (uint (ob_half_width ob))) = sint (ob_center_x ob) - uint (ob_half_width ob)"
    "sint (ob_center_x ob + i16_or_max (uint (ob_half_width ob))) = sint (ob_center_x ob) + uint (ob_half_width ob)"
    "sint (ob_center_y ob - i16_or_max (uint (ob_half_height ob))) = sint (ob_center_y ob) - uint (ob_half_height ob)"
    "sint (ob_center_y ob + i16_or_max (uint (ob_half_height ob))) = sint (ob_center_y ob) + uint (ob_half_height ob)"
    using sint_diff_i16 [of "ob_center_x ob" "i16_or_max (uint (ob_half_width ob))"]
      sint_add_i16 [of "ob_center_x ob" "i16_or_max (uint (ob_half_width ob))"]
      sint_diff_i16 [of "ob_center_y ob" "i16_or_max (uint (ob_half_height ob))"]
      sint_add_i16 [of "ob_center_y ob" "i16_or_max (uint (ob_half_height ob))"]
    unfolding s by linarith+
  then show "sint left = sint (ob_center_x ob) - uint (ob_half_width ob)"
    "sint right = sint (ob_center_x ob) + uint (ob_half_width ob)"
    "sint upper = sint (ob_center_y ob) - uint (ob_half_height ob)"
    "sint lower = sint (ob_center_y ob) + uint (ob_half_height ob)"
    using assms(2) unfolding rect_bounds_def by auto
qed

lemma circle_intersects_rect_returns:
  assumes "wf_obstacle ob"
  shows "\<exists>b. circle_intersects_rect x y radius ob = Some b"
proof -
  obtain left right upper lower where r: "rect_bounds ob = (left, right, upper, lower)"
    by (metis prod_cases4)
  have "sint left \<le> sint right" "sint upper \<le> sint lower"
    using wf_obstacle_bounds [OF assms r] by simp_all
  then show ?thesis by (simp add: circle_intersects_rect_def r clamp_int_def Let_def)
qed

lemma any_opt_returns: "(\<And>x. x \<in> set xs \<Longrightarrow> \<exists>b. f x = Some b) \<Longrightarrow> \<exists>b. any_opt f xs = Some b"
proof (induction xs)
  case (Cons x xs)
  then obtain b where "f x = Some b" by auto
  with Cons show ?case by (cases b) auto
qed auto

lemma wf_combat_obstacles:
  assumes "wf_world w"
  shows "list_all wf_obstacle (combat_obstacles w)"
proof -
  have "wf_obstacle \<lparr>ob_kind = Barrier, ob_center_x = dp_x d, ob_center_y = dp_y d,
      ob_half_width = dp_radius d, ob_half_height = dp_radius d\<rparr>"
    if "d \<in> set (w_deployables w)" "dp_blocks_movement d \<or> dp_blocks_projectiles d" for d
  proof -
    have "wf_deployable d" using assms that(1) by (simp add: wf_world_def list_all_iff)
    with that(2) have "wf_position (dp_x d) (dp_y d)" "uint (dp_radius d) \<le> 16000"
      by (auto simp: wf_deployable_def word_le_def)
    then show ?thesis by (simp add: wf_obstacle_def wf_position_def)
  qed
  with assms show ?thesis
    by (auto simp: combat_obstacles_def wf_world_def wf_arena_def list_all_iff)
qed

section \<open>Where players end up\<close>

lemma wf_arena_bounds:
  assumes "wf_arena w"
  shows "uint (w_arena_width_units w div 2) \<le> 16000" "uint (w_arena_height_units w div 2) \<le> 16000"
    "uint (sc_player_radius_units (w_configuration w)) \<le> uint (w_arena_width_units w div 2)"
    "uint (sc_player_radius_units (w_configuration w)) \<le> uint (w_arena_height_units w div 2)"
  using assms by (simp_all add: wf_arena_def word_le_def)

definition in_arena :: "simulation_world \<Rightarrow> point \<Rightarrow> bool" where
  "in_arena w p \<longleftrightarrow>
     \<bar>sint (fst p)\<bar> \<le> uint (w_arena_width_units w div 2) - uint (sc_player_radius_units (w_configuration w)) \<and>
     \<bar>sint (snd p)\<bar> \<le> uint (w_arena_height_units w div 2) - uint (sc_player_radius_units (w_configuration w))"

lemma in_arena_wf: "wf_arena w \<Longrightarrow> in_arena w p \<Longrightarrow> wf_position (fst p) (snd p)"
  using wf_arena_bounds [of w] uint_ge_0 [of "sc_player_radius_units (w_configuration w)"]
  unfolding in_arena_def wf_position_def by (elim conjE, intro conjI; linarith)

text \<open>What \<open>resolve_movement\<close> promises of a point other than the start.\<close>

definition stands_free :: "simulation_world \<Rightarrow> arena_obstacle list \<Rightarrow> point \<Rightarrow> bool" where
  "stands_free w obstacles p \<longleftrightarrow> in_arena w p \<and>
     circle_fits_map_footprint (fst p) (snd p) (sc_player_radius_units (w_configuration w))
       (w_arena_width_units w) (w_arena_height_units w) (w_arena_width_tiles w) (w_arena_height_tiles w)
       (w_arena_tile_units w) (w_footprint_mask w) \<and>
     any_opt (circle_intersects_rect (fst p) (snd p) (sc_player_radius_units (w_configuration w)))
       (filter obstacle_blocks_movement obstacles) = Some False"

lemma move_in_world_ok:
  assumes w: "wf_arena w" and obs: "list_all wf_obstacle obstacles"
  shows "\<exists>p. move_in_world w obstacles x y dx dy = Some p \<and> (p = (x, y) \<or> stands_free w obstacles p)"
proof -
  let ?r = "sc_player_radius_units (w_configuration w)"
  let ?hw = "uint (w_arena_width_units w div 2)" and ?hh = "uint (w_arena_height_units w div 2)"
  note b = wf_arena_bounds [OF w]
  define cx where "cx = max (- ?hw + uint ?r) (min (?hw - uint ?r) dx)"
  define cy where "cy = max (- ?hh + uint ?r) (min (?hh - uint ?r) dy)"
  have c: "clamp_int (- ?hw + uint ?r) (?hw - uint ?r) dx = Some cx"
    "clamp_int (- ?hh + uint ?r) (?hh - uint ?r) dy = Some cy"
    using b by (simp_all add: clamp_int_def cx_def cy_def)
  have range: "\<bar>cx\<bar> \<le> ?hw - uint ?r" "\<bar>cy\<bar> \<le> ?hh - uint ?r" "0 \<le> uint ?r"
    using b unfolding cx_def cy_def by (simp_all add: abs_le_iff)
  have "- 32768 \<le> cx" "cx \<le> 32767" "- 32768 \<le> cy" "cy \<le> 32767"
    using range b by linarith+
  then have s: "sint (saturating_i16 cx) = cx" "sint (saturating_i16 cy) = cy"
    by (simp_all add: sint_saturating_id)
  define fits where "fits = circle_fits_map_footprint (saturating_i16 cx) (saturating_i16 cy) ?r
    (w_arena_width_units w) (w_arena_height_units w) (w_arena_width_tiles w) (w_arena_height_tiles w)
    (w_arena_tile_units w) (w_footprint_mask w)"
  define p where "p = (if fits then (saturating_i16 cx, saturating_i16 cy) else (x, y))"
  obtain hit where hit: "any_opt (circle_intersects_rect (fst p) (snd p) ?r)
      (filter obstacle_blocks_movement obstacles) = Some hit"
    using any_opt_returns [of "filter obstacle_blocks_movement obstacles" "circle_intersects_rect (fst p) (snd p) ?r"]
      obs circle_intersects_rect_returns by (auto simp: list_all_iff)
  have "move_in_world w obstacles x y dx dy = Some (if hit then (x, y) else p)"
    using c hit by (simp add: move_in_world_def resolve_movement_def fits_def [symmetric] p_def Let_def
        split: if_splits)
  moreover have "p = (x, y) \<or> stands_free w obstacles p" if "\<not> hit"
    using that hit range s by (auto simp: p_def stands_free_def in_arena_def fits_def)
  ultimately show ?thesis by auto
qed

lemma walkable_in_arena: "is_walkable_position w x y \<Longrightarrow> in_arena w (x, y)"
  by (auto simp: is_walkable_position_def in_arena_def Let_def abs_le_iff)

lemma find_holds: "find P xs = Some x \<Longrightarrow> P x"
  by (auto simp: find_Some_iff)

lemma resolve_teleport_destination_ok:
  "resolve_teleport_destination w start desired = start \<or>
   is_walkable_position w (fst (resolve_teleport_destination w start desired))
     (snd (resolve_teleport_destination w start desired))"
proof -
  define samples where "samples = map (teleport_sample (sc_teleport_resolution_steps (w_configuration w)) start desired)
    [1..<Suc (unat (sc_teleport_resolution_steps (w_configuration w)))]"
  define found where "found = find (\<lambda>p. is_walkable_position w (fst p) (snd p)) samples"
  have "resolve_teleport_destination w start desired =
      (if is_walkable_position w (fst desired) (snd desired) then desired
       else case found of Some p \<Rightarrow> p | None \<Rightarrow> start)"
    unfolding resolve_teleport_destination_def Let_def found_def samples_def ..
  moreover have "found = Some p \<Longrightarrow> is_walkable_position w (fst p) (snd p)" for p
    unfolding found_def by (rule find_holds)
  ultimately show ?thesis by (cases found) simp_all
qed

lemma move_in_world_wf:
  assumes "wf_world w" "wf_position x y"
  shows "\<exists>p. move_in_world w (combat_obstacles w) x y dx dy = Some p \<and> wf_position (fst p) (snd p)"
proof -
  have "wf_arena w" using assms(1) by (simp add: wf_world_def)
  with move_in_world_ok [OF this wf_combat_obstacles [OF assms(1)], of x y dx dy] assms(2) show ?thesis
    using in_arena_wf [OF \<open>wf_arena w\<close>] by (fastforce simp: stands_free_def)
qed

lemma teleport_wf:
  assumes "wf_world w" "wf_position (fst start) (snd start)"
  shows "wf_position (fst (resolve_teleport_destination w start desired))
    (snd (resolve_teleport_destination w start desired))"
proof -
  have "wf_arena w" using assms(1) by (simp add: wf_world_def)
  with resolve_teleport_destination_ok [of w start desired] assms(2) show ?thesis
    by (metis in_arena_wf walkable_in_arena prod.collapse)
qed

end
