(* ===== verification/Sim_Progress.thy ===== *)
theory Sim_Progress
  imports Sim_Space
begin

text \<open>
  Every step of a tick returns on a well-formed world and keeps the invariant and what the roster
  and the map fixed. \<open>goes w r\<close> states it of a result \<open>r\<close>; its rules follow the shape of the steps,
  so the lemma of an operation is the composition of the lemmas of its parts.
\<close>

section \<open>Steps that go on\<close>

definition goes :: "simulation_world \<Rightarrow> ('a \<times> simulation_world) option \<Rightarrow> bool" where
  "goes w r \<longleftrightarrow> (\<exists>a w'. r = Some (a, w') \<and> continues w w')"

lemma goes_Some [simp]: "goes w (Some (a, w')) \<longleftrightarrow> continues w w'"
  by (simp add: goes_def)

lemma goes_from: "continues w w' \<Longrightarrow> goes w' r \<Longrightarrow> goes w r"
  by (auto simp: goes_def intro: continues_trans)

lemma goes_bind: "goes w r \<Longrightarrow> (\<And>a w'. continues w w' \<Longrightarrow> goes w (f (a, w'))) \<Longrightarrow> goes w (Option.bind r f)"
  by (auto simp: goes_def)

text \<open>A bind whose continuation starts from the world it is given.\<close>

lemma goes_then: "goes w r \<Longrightarrow> (\<And>a w'. continues w w' \<Longrightarrow> goes w' (f (a, w'))) \<Longrightarrow> goes w (Option.bind r f)"
  by (rule goes_bind) (auto intro: goes_from)

lemma goes_for_each:
  "wf_world w \<Longrightarrow> (\<And>x w. x \<in> set xs \<Longrightarrow> wf_world w \<Longrightarrow> goes w (f x w)) \<Longrightarrow> goes w (for_each_opt f xs w)"
  using for_each_opt_returns [of xs f w] by (simp add: goes_def)

lemma continues_world: "continues w w' \<Longrightarrow> w_configuration w' = w_configuration w"
  by (simp add: continues_def fixed_world_def)

section \<open>Strikes\<close>

lemma goes_pay: "wf_world w \<Longrightarrow> wf_payload p \<Longrightarrow> goes w (pay es source slot ts p w)"
  using apply_payload_ok [of w p source slot ts] by (auto simp: pay_def dest: evolves_continues)

lemma goes_strike_one: "wf_world w \<Longrightarrow> wf_payload p \<Longrightarrow> goes w (strike_one es source slot target p w)"
  by (auto simp: strike_one_def goes_pay continues_refl split: option.split)

lemma goes_strike_area: "wf_world w \<Longrightarrow> wf_payload p \<Longrightarrow> goes w (strike_area es source slot c r x p w)"
  by (simp add: strike_area_def Let_def goes_pay)

lemma goes_aura_pulse:
  "wf_world w \<Longrightarrow> wf_payload p \<Longrightarrow> goes w (aura_pulse_events owner slot c r kind p visual w)"
  by (simp add: aura_pulse_events_def goes_strike_area)

lemma continues_break_stealth: "wf_world w \<Longrightarrow> continues w (break_stealth pid w)"
  using evolves_break_stealth by (rule evolves_continues)

lemma goes_primary_attack:
  assumes w: "wf_world w"
  shows "goes w (resolve_primary_attack attacker st w)"
proof (cases "player_at w attacker")
  case None
  with w show ?thesis by (simp add: resolve_primary_attack_def continues_refl)
next
  case (Some p)
  have p: "wf_payload (md_payload (sp_melee p))" using wf_world_player [OF w Some] by (simp add: player_defs)
  let ?w = "upd_player attacker (\<lambda>q. q\<lparr>sp_primary_cooldown_ms :=
    effective_primary_cooldown_ms w attacker (md_cooldown_ms (sp_melee p))\<rparr>) (break_stealth attacker w)"
  have "continues w (break_stealth attacker w)" using w by (rule continues_break_stealth)
  also have "continues (break_stealth attacker w) ?w"
    by (rule continues_upd [OF continues_wf [OF calculation]]) (auto simp: player_defs)
  finally have c: "continues w ?w" .
  show ?thesis
    using goes_from [OF c goes_strike_one [OF continues_wf [OF c] p]] w
    by (simp add: resolve_primary_attack_def Some Let_def continues_refl)
qed

section \<open>Paying for a cast\<close>

lemma continues_consume_mana:
  assumes w: "wf_world w" and eq: "consume_skill_mana pid cost w = (paid, w')"
  shows "continues w w'"
proof -
  have le: "m \<le> n \<Longrightarrow> sat_sub m c \<le> n" for m n c :: u16
    by (auto simp: word_le_nat_alt unat_sat_sub)
  have "continues w (upd_player pid (\<lambda>q. q\<lparr>sp_mana := sat_sub (sp_mana q) cost\<rparr>) w)"
    if p: "player_at w pid = Some p" for p
    by (rule evolves_continues [of 0], rule evolves_upd [OF w p])
      (use wf_world_player [OF w p] in \<open>auto simp: player_defs le\<close>)
  with w eq show ?thesis
    by (auto simp: consume_skill_mana_def continues_refl split: if_splits option.splits)
qed

lemma continues_commit:
  assumes w: "wf_world w" and eq: "commit_skill_cast attacker i cooldown cost starts consumed w = (paid, w')"
  shows "continues w w'"
proof -
  obtain b w1 where m: "consume_skill_mana attacker cost w = (b, w1)" by fastforce
  have c1: "continues w w1" by (rule continues_consume_mana [OF w m])
  have c2: "continues w1 (break_stealth attacker w1)"
    by (rule continues_break_stealth [OF continues_wf [OF c1]])
  have "continues (break_stealth attacker w1) (upd_player attacker (\<lambda>p. p\<lparr>
      sp_slot_cooldown_ms := (if starts then (sp_slot_cooldown_ms p)[i := e] else sp_slot_cooldown_ms p),
      sp_next_cast_procs := g p\<rparr>) (break_stealth attacker w1))" for e g
    by (rule continues_upd [OF continues_wf [OF c2]]) (auto simp: player_defs)
  with c1 c2 eq m show ?thesis
    by (cases b) (auto simp: commit_skill_cast_def Let_def intro: continues_trans)
qed

lemma goes_committed:
  assumes w: "wf_world w" and run: "\<And>w'. continues w w' \<Longrightarrow> goes w' (run w')"
  shows "goes w (committed attacker i cooldown cost starts consumed run w)"
proof -
  obtain b w1 where m: "commit_skill_cast attacker i cooldown cost starts consumed w = (b, w1)" by fastforce
  have c: "continues w w1" by (rule continues_commit [OF w m])
  then show ?thesis using goes_from [OF c run] by (cases b) (simp_all add: committed_def m)
qed

section \<open>Casts\<close>

text \<open>A snapshot taken in a well-formed world.\<close>

definition wf_snapshot :: "sim_player_state \<Rightarrow> bool" where
  "wf_snapshot st \<longleftrightarrow> wf_position (pst_x st) (pst_y st)"

lemma player_state_wf: "wf_world w \<Longrightarrow> player_state w pid = Some st \<Longrightarrow> wf_snapshot st"
  using wf_world_player [of w pid] by (auto simp: player_state_def wf_snapshot_def wf_player_def wf_place_def)

lemma continues_place:
  "wf_world w \<Longrightarrow> wf_position (fst p) (snd p) \<Longrightarrow> continues w (place_player pid p w)"
  unfolding place_player_def by (rule continues_upd) (auto simp: player_defs)

lemma continues_projectiles:
  "wf_world w \<Longrightarrow> list_all (\<lambda>pr. wf_payload (pr_payload pr)) prs \<Longrightarrow> continues w (w\<lparr>w_projectiles := prs\<rparr>)"
  by (simp add: continues_def wf_world_def fixed_world_def living_def)

lemma goes_projectile:
  "wf_world w \<Longrightarrow> wf_payload p \<Longrightarrow> goes w (spawn_projectile attacker slot st self speed reach radius kind p w)"
  by (auto simp: spawn_projectile_def Let_def goes_strike_one wf_world_def intro!: continues_projectiles)

lemma goes_beam: "wf_world w \<Longrightarrow> wf_payload (ae_payload a) \<Longrightarrow> goes w (cast_beam_skill cast a w)"
  by (simp add: cast_beam_skill_def Let_def goes_strike_one)

lemma goes_burst: "wf_world w \<Longrightarrow> wf_payload (ae_payload a) \<Longrightarrow> goes w (cast_burst_skill cast a w)"
  by (simp add: cast_burst_skill_def Let_def goes_strike_area)

lemma goes_nova: "wf_world w \<Longrightarrow> wf_payload p \<Longrightarrow> goes w (cast_nova_skill attacker st slot self radius kind p w)"
  by (simp add: cast_nova_skill_def goes_strike_area)

lemma goes_channel_effect: "wf_world w \<Longrightarrow> wf_payload (ae_payload a) \<Longrightarrow> goes w (execute_channel_tick cast a w)"
  by (simp add: execute_channel_tick_def Let_def goes_strike_area)

lemma goes_dash:
  assumes w: "wf_world w" and st: "wf_snapshot (ce_state cast)" and p: "pred_option wf_payload (de_payload dash)"
  shows "goes w (cast_dash_skill cast dash w)"
proof -
  define desired where "desired = (if ce_self_target cast then pst_pos (ce_state cast)
    else aimed_point (ce_state cast) (de_distance dash))"
  have "wf_position (pst_x (ce_state cast)) (pst_y (ce_state cast))" using st by (simp add: wf_snapshot_def)
  from move_in_world_wf [OF w this, of "sint (fst desired)" "sint (snd desired)"] obtain q where
    q: "move_in_world w (combat_obstacles w) (pst_x (ce_state cast)) (pst_y (ce_state cast))
      (sint (fst desired)) (sint (snd desired)) = Some q" "wf_position (fst q) (snd q)" by blast
  have c: "continues w (place_player (ce_attacker cast) q w)" by (rule continues_place [OF w q(2)])
  show ?thesis
    using c p
    by (auto simp: cast_dash_skill_def Let_def desired_def [symmetric] q(1) split: option.split
        intro: goes_from [OF c goes_strike_area [OF continues_wf [OF c]]])
qed

lemma snapshot_teleport_wf:
  "wf_world w \<Longrightarrow> wf_snapshot st \<Longrightarrow>
    wf_position (fst (resolve_teleport_destination w (pst_pos st) p))
      (snd (resolve_teleport_destination w (pst_pos st) p))"
  using teleport_wf [of w "pst_pos st" p] by (simp add: wf_snapshot_def)

lemma goes_teleport:
  "wf_world w \<Longrightarrow> wf_snapshot st \<Longrightarrow> goes w (teleport_player attacker st slot self distance effect w)"
  by (simp add: teleport_player_def Let_def continues_place snapshot_teleport_wf)


section \<open>Deployables and auras\<close>

lemma continues_deployables: "wf_world w \<Longrightarrow> list_all wf_deployable ds \<Longrightarrow> continues w (w\<lparr>w_deployables := ds\<rparr>)"
  by (rule evolves_continues, rule evolves_deployables)

lemma wf_world_deployables: "wf_world w \<Longrightarrow> list_all wf_deployable (w_deployables w)"
  by (simp add: wf_world_def)

lemma continues_add_deployable:
  assumes w: "wf_world w" and f: "\<And>did. wf_deployable (f did)" and eq: "add_deployable f w = (did, w')"
  shows "continues w w'"
  using assms
  by (auto simp: add_deployable_def next_deployable_id_def Let_def continues_def wf_world_def fixed_world_def living_def)

lemma continues_spawn:
  assumes w: "wf_world w" and st: "wf_snapshot st" and b: "wf_deployable_behavior behavior"
    and blocks: "move \<or> proj \<Longrightarrow> radius \<le> 16000"
    and eq: "spawn_deployable_entity attacker st slot self distance radius duration hp kind move proj behavior w = (did, w')"
  shows "continues w w'"
  by (rule continues_add_deployable [OF w _ eq [unfolded spawn_deployable_entity_def Let_def]])
    (use b blocks snapshot_teleport_wf [OF w st] in \<open>auto simp: wf_deployable_def\<close>)

lemma goes_deploy:
  assumes "wf_world w" "wf_snapshot st" "wf_deployable_behavior behavior" "blocks \<Longrightarrow> radius \<le> 16000"
  shows "goes w (deploy attacker st slot self distance radius duration hp kind blocks behavior w)"
proof -
  obtain did w' where s: "spawn_deployable_entity attacker st slot self distance radius duration hp kind
      blocks blocks behavior w = (did, w')" by fastforce
  have "continues w w'" by (rule continues_spawn [OF assms(1-3) _ s]) (use assms(4) in blast)
  then show ?thesis by (simp add: deploy_def s)
qed

lemma list_all_remove_at: "list_all P xs \<Longrightarrow> list_all P (remove_at i xs)"
  by (auto simp: list_all_iff remove_at_def dest: in_set_takeD in_set_dropD)

lemma goes_cancel_aura:
  assumes w: "wf_world w"
  shows "goes w (cancel_toggleable_aura i st w)"
proof (cases "length (w_deployables w) \<le> i")
  case True
  with w show ?thesis by (simp add: cancel_toggleable_aura_def continues_refl)
next
  case False
  define d where "d = w_deployables w ! i"
  define w1 where "w1 = w\<lparr>w_deployables := remove_at i (w_deployables w)\<rparr>"
  define w2 where "w2 = (if deployable_tracks_toggleable_stealth d then
      upd_player (dp_owner d) (\<lambda>p. p\<lparr>sp_statuses := filter (\<lambda>s.
        \<not> (si_source s = dp_owner d \<and> si_slot s = dp_slot d \<and> si_kind s = Stealth)) (sp_statuses p)\<rparr>) w1
      else w1)"
  have d: "wf_deployable d"
    using False wf_world_deployables [OF w] by (simp add: d_def list_all_length)
  have c1: "continues w w1"
    unfolding w1_def using w by (simp add: continues_deployables list_all_remove_at wf_world_deployables)
  have "continues w1 w2"
    unfolding w2_def using evolves_continues [OF evolves_filter_statuses [OF continues_wf [OF c1]]]
    by (simp add: continues_refl continues_wf [OF c1])
  with c1 have c: "continues w w2" by (rule continues_trans)
  have "wf_payload payload" if "aura_end_payload (dp_behavior d) = Some (kind, payload)" for kind payload
    using that d by (auto simp: wf_deployable_def aura_end_payload_def split: deployable_behavior.splits option.splits)
  moreover have "cancel_toggleable_aura i st w = (case aura_end_payload (dp_behavior d) of
      Some (kind, payload) \<Rightarrow> aura_pulse_events (dp_owner d) (dp_slot d) (pst_pos st) (dp_radius d) kind payload
        (\<not> payload_hides_aura_visuals payload) w2
    | None \<Rightarrow> Some ([], w2))"
    unfolding w2_def w1_def d_def using False by (simp add: cancel_toggleable_aura_def Let_def)
  ultimately show ?thesis
    using c by (auto split: option.split intro: goes_from [OF c goes_aura_pulse [OF continues_wf [OF c]]])
qed

lemma goes_aura_start:
  "wf_world w \<Longrightarrow> pred_option wf_payload start \<Longrightarrow> goes w (aura_cast_start_events attacker slot c r kind start w)"
  by (auto simp: aura_cast_start_events_def goes_aura_pulse continues_refl split: option.split)

lemma goes_deploy_aura:
  assumes w: "wf_world w" and st: "wf_snapshot st" and i: "interval \<noteq> 0"
    and p: "wf_payload p" "pred_option wf_payload start" "pred_option wf_payload end'"
  shows "goes w (deploy_aura attacker st slot self distance radius duration hp toggleable interval start end' effect p w)"
proof -
  let ?behavior = "\<lambda>anchor. DbAura interval 0 (effect_kind_of_skill effect) p start end' anchor toggleable"
  define spawned where "spawned = (case hp of
      Some hp \<Rightarrow> spawn_deployable_entity attacker st slot self distance radius duration hp
        DkAura False False (?behavior None) w
    | None \<Rightarrow> add_deployable (\<lambda>did.
        \<lparr>dp_id = did, dp_owner = attacker, dp_slot = slot, dp_team = pst_team st, dp_kind = DkAura,
         dp_x = pst_x st, dp_y = pst_y st, dp_radius = radius, dp_hit_points = 1,
         dp_max_hit_points = 1, dp_remaining_ms = duration, dp_blocks_movement = False,
         dp_blocks_projectiles = False, dp_behavior = ?behavior (Some attacker)\<rparr>) w)"
  obtain did w1 where s: "spawned = (did, w1)" by fastforce
  have b: "wf_deployable_behavior (?behavior anchor)" for anchor using i p by simp
  have c: "continues w w1"
  proof (cases hp)
    case None
    then show ?thesis
      using s b by (intro continues_add_deployable [OF w, where did = did])
        (simp_all add: spawned_def wf_deployable_def)
  next
    case (Some h)
    with s have e: "spawn_deployable_entity attacker st slot self distance radius duration h
        DkAura False False (?behavior None) w = (did, w1)" by (simp add: spawned_def)
    show ?thesis by (rule continues_spawn [OF w st b _ e]) simp
  qed
  show ?thesis
    unfolding deploy_aura_def Let_def spawned_def [symmetric] s
    by (auto intro!: goes_bind goes_from [OF c goes_aura_start [OF continues_wf [OF c] p(2)]])
qed


section \<open>Executing and starting casts\<close>

lemma goes_execute:
  assumes w: "wf_world w" and st: "wf_snapshot st" and b: "wf_behavior behavior"
  shows "goes w (execute_skill_behavior attacker st slot i self behavior override w)"
proof -
  have paid: "goes w (committed attacker i cooldown cost starts consumed run w)"
    if "\<And>w'. wf_world w' \<Longrightarrow> goes w' (run w')" for cooldown cost starts consumed run
    by (rule goes_committed [OF w]) (blast intro: that continues_wf)
  show ?thesis
  proof (cases behavior)
    case (SbAura cooldown ct mana distance radius duration hp toggleable interval start end' effect p)
    then show ?thesis
      using b st
      by (auto simp: execute_skill_behavior_def Let_def paid_cast_defs goes_cancel_aura [OF w]
          split: option.split intro!: paid goes_deploy_aura)
  qed (use b st in \<open>auto simp: execute_skill_behavior_def Let_def paid_cast_defs continues_refl [OF w]
    intro!: paid goes_projectile goes_beam goes_dash goes_burst goes_nova goes_teleport goes_deploy\<close>)
qed

lemma continues_set_cast:
  "wf_world w \<Longrightarrow> pred_option wf_cast cast \<Longrightarrow> continues w (set_cast pid cast w)"
  unfolding set_cast_def by (rule continues_upd) (auto simp: player_defs)

lemma continues_pending_cast:
  assumes w: "wf_world w" and i: "i < 5" and eq: "start_pending_cast attacker st slot i self behavior ms w = (event, w')"
  shows "continues w w'"
proof -
  let ?cast = "\<lparr>pc_slot = slot, pc_slot_index = i, pc_self_target = self, pc_remaining_ms = ms,
    pc_total_ms = ms, pc_just_started = True, pc_mode = Windup\<rparr>"
  have c: "continues w (set_cast attacker (Some ?cast) w)"
    using w i by (intro continues_set_cast) (simp_all add: wf_cast_def)
  with eq continues_break_stealth [OF continues_wf [OF c], of attacker] w show ?thesis
    by (auto simp: start_pending_cast_def set_cast_def Let_def split: if_splits option.splits
        intro: continues_refl continues_trans)
qed

lemma continues_channel:
  assumes w: "wf_world w" and i: "i < 5" and b: "wf_behavior behavior"
    and eq: "start_channel attacker st slot i self behavior override w = (event, w')"
  shows "continues w w'"
proof (cases behavior)
  case (SbChannel cooldown ct mana reach radius duration interval effect p)
  let ?cost = "if co_costs_mana override then mana else 0"
  let ?cast = "\<lparr>pc_slot = slot, pc_slot_index = i, pc_self_target = self, pc_remaining_ms = duration,
    pc_total_ms = duration, pc_just_started = True,
    pc_mode = Channel self reach radius interval 0 (effect_kind_of_skill effect) p\<rparr>"
  obtain paid w1 where m: "commit_skill_cast attacker i cooldown ?cost (co_starts_cooldown override)
      (co_consumed_proc_index override) w = (paid, w1)" by fastforce
  have c1: "continues w w1" by (rule continues_commit [OF w m])
  have "continues w1 (set_cast attacker (Some ?cast) w1)"
    using i b SbChannel by (intro continues_set_cast continues_wf [OF c1]) (simp add: wf_cast_def)
  with c1 have "continues w (set_cast attacker (Some ?cast) w1)" by (rule continues_trans)
  with eq m c1 SbChannel continues_refl [OF w] show ?thesis
    by (auto simp: start_channel_def set_cast_def Let_def split: if_splits option.splits bool.splits)
qed (use eq continues_refl [OF w] in \<open>auto simp: start_channel_def\<close>)

lemma goes_event_step: "(\<And>event w'. r = (event, w') \<Longrightarrow> continues w w') \<Longrightarrow> goes w (event_step r)"
  by (cases r) (simp add: event_step_def)

lemma wf_player_skill:
  assumes p: "wf_player p" and i: "i < 5"
  shows "i < length (sp_skills p)" "i < length (sp_slot_cooldown_ms p)"
    "sp_skills p ! i = Some skill \<Longrightarrow> wf_behavior (sk_behavior skill)"
proof -
  show l: "i < length (sp_skills p)" "i < length (sp_slot_cooldown_ms p)"
    using p i by (simp_all add: player_defs)
  show "sp_skills p ! i = Some skill \<Longrightarrow> wf_behavior (sk_behavior skill)"
    using p l by (auto simp: player_defs list_all_length dest!: spec [of _ i])
qed

lemma goes_resolve_cast:
  assumes w: "wf_world w" and st: "wf_snapshot st" and slot: "1 \<le> slot" "slot \<le> 5"
  shows "goes w (resolve_cast attacker st slot self w)"
proof (cases "player_at w attacker")
  case None
  with w show ?thesis by (simp add: resolve_cast_def continues_refl)
next
  case (Some p)
  have p: "wf_player p" using w Some by (rule wf_world_player)
  have i: "unat (slot - 1) < 5"
    using slot by (simp add: unat_sub word_le_nat_alt)
  note skill = wf_player_skill [OF p i]
  show ?thesis
  proof (cases "sp_skills p ! unat (slot - 1)")
    case None
    with skill(1,2) Some w show ?thesis by (simp add: resolve_cast_def continues_refl)
  next
    case s: (Some s)
    note b = skill(3) [OF s]
    have "goes w (event_step (start_pending_cast attacker st slot (unat (slot - 1)) self (sk_behavior s) ms w))" for ms
      by (rule goes_event_step) (rule continues_pending_cast [OF w i])
    moreover have "goes w (event_step (start_channel attacker st slot (unat (slot - 1)) self (sk_behavior s) ov w))" for ov
      by (rule goes_event_step) (rule continues_channel [OF w i b])
    ultimately show ?thesis
      using skill(1,2) w
      by (auto simp: resolve_cast_def Some s Let_def continues_refl
          intro!: goes_bind [OF goes_execute [OF w st b]])
  qed
qed

lemma continues_clear_queue:
  "wf_world w \<Longrightarrow> continues w (upd_player pid (\<lambda>p. p\<lparr>sp_queued_actions := no_queued_actions\<rparr>) w)"
  by (rule continues_upd) (auto simp: player_defs no_queued_actions_def)

lemma goes_player_actions:
  assumes w: "wf_world w"
  shows "goes w (resolve_player_actions pid w)"
proof (cases "player_at w pid")
  case None
  with w show ?thesis by (simp add: resolve_player_actions_def player_state_def continues_refl)
next
  case (Some p)
  have p: "wf_player p" using w Some by (rule wf_world_player)
  obtain st where st: "player_state w pid = Some st" using Some by (simp add: player_state_def)
  note snap = player_state_wf [OF w st]
  have cast: "goes w' (case qa_cast_slot (sp_queued_actions p) of
      Some slot \<Rightarrow> if b then Some ([], w') else resolve_cast pid st slot self w' | None \<Rightarrow> Some ([], w'))"
    if "wf_world w'" for b self w'
    using p goes_resolve_cast [OF that snap] continues_refl [OF that]
    by (auto simp: wf_player_def wf_place_def split: option.splits)
  have clear: "continues w' (upd_player pid (\<lambda>p. p\<lparr>sp_queued_actions := no_queued_actions\<rparr>) w'')"
    if "continues w' w''" for w' w''
    by (rule continues_trans [OF that continues_clear_queue [OF continues_wf [OF that]]])
  show ?thesis
    using continues_refl [OF w]
    by (auto simp: resolve_player_actions_def st Some Let_def
        intro!: goes_then [OF goes_primary_attack [OF w]] goes_bind [OF cast [OF continues_wf]] intro: clear)
qed

lemma goes_queued_actions: "wf_world w \<Longrightarrow> goes w (resolve_queued_actions w)"
  unfolding resolve_queued_actions_def by (rule goes_for_each) (auto intro: goes_player_actions)

end
