(* ===== verification/Sim_Run.thy ===== *)
theory Sim_Run
  imports Sim_Progress
begin

text \<open>
  The parts of a tick other than actions return on a well-formed world, and so does the tick; the
  worlds that inputs, ticks and training resets reach from a new world are well-formed.
\<close>

section \<open>Active casts\<close>

lemma continues_cancel_cast:
  assumes w: "wf_world w" and eq: "cancel_cast pid reason w = (es, w')"
  shows "continues w w'"
proof -
  have "continues w (upd_player pid (\<lambda>p. p\<lparr>sp_active_cast := None\<rparr>) w)"
    by (rule continues_upd [OF w]) (auto simp: player_defs)
  with eq w show ?thesis by (auto simp: cancel_cast_def continues_refl split: option.splits)
qed

lemma goes_channel_tick:
  "wf_world w \<Longrightarrow> wf_payload (ae_payload a) \<Longrightarrow> goes w (channel_tick pid st slot self a n w)"
  unfolding channel_tick_def by (rule goes_bind [OF goes_channel_effect]) auto

lemma goes_advance_channel:
  assumes w: "wf_world w" and cast: "wf_cast cast"
  shows "goes w (advance_channel delta pid st cast w)"
proof (cases "pc_mode cast")
  case Windup
  with w show ?thesis by (simp add: advance_channel_def continues_refl)
next
  case (Channel self reach radius interval progress kind p)
  then have i: "interval \<noteq> 0" and p: "wf_payload p" and index: "pc_slot_index cast < 5"
    using cast by (simp_all add: wf_cast_def)
  define w1 where "w1 = set_cast pid (if sat_sub (pc_remaining_ms cast) delta = 0 then None
    else Some (cast\<lparr>pc_remaining_ms := sat_sub (pc_remaining_ms cast) delta,
      pc_mode := Channel self reach radius interval (sat_add progress delta mod interval) kind p\<rparr>)) w"
  have c: "continues w w1"
    unfolding w1_def using i p index by (intro continues_set_cast [OF w]) (simp add: wf_cast_def)
  have "goes w1 (for_each_opt (channel_tick pid st (pc_slot cast) self
      \<lparr>ae_range = reach, ae_radius = radius, ae_effect_kind = kind, ae_payload = p\<rparr>) xs w1)" for xs
    by (rule goes_for_each [OF continues_wf [OF c]]) (simp add: goes_channel_tick p)
  from goes_from [OF c this] show ?thesis
    by (auto simp: advance_channel_def Channel i Let_def w1_def [symmetric] intro!: goes_bind)
qed

lemma goes_windup:
  assumes w: "wf_world w" and st: "wf_snapshot st" and i: "pc_slot_index cast < 5" and b: "wf_behavior b"
  shows "goes w (complete_windup pid st cast b w)"
  using goes_event_step [OF continues_channel [OF w i b]]
  by (auto simp: complete_windup_def intro!: goes_bind [OF goes_execute [OF w st b]])

lemma goes_advance_cast_of:
  assumes w: "wf_world w" and st: "wf_snapshot st" and p: "wf_player p" and cast: "wf_cast cast"
  shows "goes w (advance_cast_of delta pid st p cast w)"
proof -
  have i: "pc_slot_index cast < 5" using cast by (simp add: wf_cast_def)
  have same: "continues w (set_cast pid (Some (cast\<lparr>pc_just_started := False\<rparr>)) w)"
    "continues w (set_cast pid None w)"
    using cast by (auto intro!: continues_set_cast [OF w] simp: wf_cast_def)
  have wind: "continues w (set_cast pid (Some (cast\<lparr>pc_remaining_ms := r\<rparr>)) w)" for r
    using cast by (auto intro!: continues_set_cast [OF w] simp: wf_cast_def)
  note skill = wf_player_skill [OF p i]
  have "goes w (complete_windup pid st cast (sk_behavior s) (set_cast pid None w))"
    if "sp_skills p ! pc_slot_index cast = Some s" for s
    by (rule goes_from [OF same(2) goes_windup [OF continues_wf [OF same(2)] st i skill(3) [OF that]]])
  with same wind skill(1) goes_advance_channel [OF w cast] show ?thesis
    by (auto simp: advance_cast_of_def Let_def split: active_cast_mode.split option.split)
qed

lemma goes_active_cast:
  assumes w: "wf_world w"
  shows "goes w (advance_active_cast delta pid w)"
proof (cases "player_at w pid")
  case None
  with w show ?thesis by (simp add: advance_active_cast_def player_state_def continues_refl)
next
  case (Some p)
  have p: "wf_player p" using w Some by (rule wf_world_player)
  obtain st where st: "player_state w pid = Some st" using Some by (simp add: player_state_def)
  have "goes w (Some (cancel_cast pid reason w))" for reason
    by (cases "cancel_cast pid reason w") (simp add: continues_cancel_cast [OF w])
  moreover have "sp_active_cast p = Some cast \<Longrightarrow> goes w (advance_cast_of delta pid st p cast w)" for cast
    using p by (intro goes_advance_cast_of [OF w player_state_wf [OF w st] p]) (simp add: wf_player_def)
  ultimately show ?thesis
    using w by (auto simp: advance_active_cast_def st Some continues_refl split: option.split)
qed

lemma goes_active_casts: "wf_world w \<Longrightarrow> goes w (advance_active_casts delta w)"
  unfolding advance_active_casts_def by (rule goes_for_each) (auto intro: goes_active_cast)

section \<open>Movement\<close>

abbreviation player_pos :: "sim_player \<Rightarrow> point" where
  "player_pos p \<equiv> (sp_x p, sp_y p)"

definition is_held :: "sim_player \<Rightarrow> bool" where
  "is_held p \<longleftrightarrow> \<not> sp_alive p \<or> list_ex (\<lambda>s. si_kind s \<in> {Root, Stun, Sleep}) (sp_statuses p)"

text \<open>Every player is where it was or, if nothing holds it, stands free of the obstacles.\<close>

definition moves_free :: "arena_obstacle list \<Rightarrow> simulation_world \<Rightarrow> simulation_world \<Rightarrow> bool" where
  "moves_free obstacles w w' \<longleftrightarrow> continues w w' \<and>
     (\<forall>pid p. player_at w pid = Some p \<longrightarrow>
        (\<exists>p'. player_at w' pid = Some p' \<and> sp_alive p' = sp_alive p \<and> sp_statuses p' = sp_statuses p \<and>
          (player_pos p' = player_pos p \<or> \<not> is_held p \<and> stands_free w obstacles (player_pos p'))))"

lemma stands_free_continues: "continues w w' \<Longrightarrow> stands_free w' obstacles q = stands_free w obstacles q"
  by (simp add: stands_free_def in_arena_def continues_def fixed_world_def)

lemma moves_free_refl: "wf_world w \<Longrightarrow> moves_free obstacles w w"
  by (simp add: moves_free_def continues_refl)

lemma moves_free_trans:
  assumes a: "moves_free obstacles w w'" and b: "moves_free obstacles w' w''"
  shows "moves_free obstacles w w''"
  unfolding moves_free_def
proof (intro conjI allI impI)
  show "continues w w''" using a b by (auto simp: moves_free_def intro: continues_trans)
  fix pid p assume "player_at w pid = Some p"
  with a obtain p' where p': "player_at w' pid = Some p'" "sp_alive p' = sp_alive p"
    "sp_statuses p' = sp_statuses p"
    "player_pos p' = player_pos p \<or> \<not> is_held p \<and> stands_free w obstacles (player_pos p')"
    unfolding moves_free_def by blast
  with b obtain p'' where p'': "player_at w'' pid = Some p''" "sp_alive p'' = sp_alive p'"
    "sp_statuses p'' = sp_statuses p'"
    "player_pos p'' = player_pos p' \<or> \<not> is_held p' \<and> stands_free w' obstacles (player_pos p'')"
    unfolding moves_free_def by blast
  have "is_held p' = is_held p" using p'(2,3) by (simp add: is_held_def)
  moreover have "stands_free w' obstacles q = stands_free w obstacles q" for q
    using a by (simp add: moves_free_def stands_free_continues)
  ultimately show "\<exists>p''. player_at w'' pid = Some p'' \<and> sp_alive p'' = sp_alive p \<and> sp_statuses p'' = sp_statuses p \<and>
      (player_pos p'' = player_pos p \<or> \<not> is_held p \<and> stands_free w obstacles (player_pos p''))"
    using p' p'' by auto
qed

lemma cancel_cast_player:
  "cancel_cast pid reason w = (es, w') \<Longrightarrow>
    player_at w' k = (case player_at w k of None \<Rightarrow> None
      | Some p \<Rightarrow> Some (if k = pid then p\<lparr>sp_active_cast := None\<rparr> else p))"
  by (auto simp: cancel_cast_def player_at_upd split: option.splits if_splits)

lemma moves_free_upd:
  assumes w: "wf_world w"
    and f: "\<And>p. wf_player p \<Longrightarrow> wf_player (f p)" "\<And>p. fixed_player (f p) = fixed_player p"
      "\<And>p. sp_statuses (f p) = sp_statuses p" "\<And>p. sp_alive (f p) = sp_alive p" "\<And>p. player_pos (f p) = player_pos p"
  shows "moves_free obstacles w (upd_player pid f w)"
  using continues_upd [of w f pid] w f by (auto simp: moves_free_def player_at_upd)

lemma moves_free_cancel:
  "wf_world w \<Longrightarrow> cancel_cast pid reason w = (es, w') \<Longrightarrow> moves_free obstacles w w'"
  using continues_cancel_cast by (auto simp: moves_free_def cancel_cast_player)

lemma clamp_int_Some: "lo \<le> hi \<Longrightarrow> clamp_int lo hi x = Some (max lo (min hi x))"
  by (simp add: clamp_int_def)

lemma modifier_returns:
  assumes "wf_arena w"
  shows "\<exists>m. effective_move_modifier_bps w pid ss = Some m"
    "\<exists>s. adjusted_move_speed delta base m (sc_movement_modifier_caps (w_configuration w)) = Some s"
  using assms
  by (simp_all add: wf_arena_def wf_caps_def effective_move_modifier_bps_def total_move_modifier_bps_def
      adjusted_move_speed_def clamp_int_Some Let_def word_le_def)

lemma finish_move_free:
  assumes w: "wf_world w" and r: "player_at w pid = Some r" "player_pos r = player_pos p" "\<not> is_held r"
    and q: "q = player_pos p \<or> stands_free w obstacles q" "wf_position (fst q) (snd q)"
  shows "\<exists>es w'. finish_move delta pid p q w = Some (es, w') \<and> moves_free obstacles w w'"
proof -
  have i: "sc_movement_audio_step_interval_ms (w_configuration w) \<noteq> 0"
    using w by (simp add: wf_world_def wf_arena_def)
  have still: "moves_free obstacles w (upd_player pid (\<lambda>p. p\<lparr>sp_movement_audio_progress_ms := n\<rparr>) w)" for n
    by (rule moves_free_upd [OF w]) (auto simp: player_defs)
  have "moves_free obstacles w
      (upd_player pid (\<lambda>p. p\<lparr>sp_x := fst q, sp_y := snd q, sp_movement_audio_progress_ms := n\<rparr>) w)" for n
  proof -
    have "continues w (upd_player pid (\<lambda>p. p\<lparr>sp_x := fst q, sp_y := snd q, sp_movement_audio_progress_ms := n\<rparr>) w)"
      using q(2) by (intro continues_upd [OF w]) (auto simp: player_defs)
    with q(1) r show ?thesis by (auto simp: moves_free_def player_at_upd)
  qed
  with still i show ?thesis by (simp add: finish_move_def Let_def)
qed

lemma intended_movement_held: "intended_movement w p \<noteq> zero_intent \<Longrightarrow> sp_alive p \<Longrightarrow> \<not> is_held p"
  by (auto simp: intended_movement_def is_held_def split: if_splits)

lemma move_player_free:
  assumes w: "wf_world w" and obs: "list_all wf_obstacle obstacles"
  shows "\<exists>es w'. move_player delta obstacles pid w = Some (es, w') \<and> moves_free obstacles w w'"
proof (cases "player_at w pid")
  case None
  with w show ?thesis by (simp add: move_player_def moves_free_refl)
next
  case (Some p)
  have p: "wf_position (sp_x p) (sp_y p)"
    using wf_world_player [OF w Some] by (simp add: wf_player_def wf_place_def)
  have arena: "wf_arena v" if "wf_world v" for v using that by (simp add: wf_world_def)
  obtain m where m: "effective_move_modifier_bps w pid (sp_statuses p) = Some m"
    using modifier_returns(1) [OF arena [OF w]] by blast
  have stand: "moves_free obstacles w (upd_player pid (\<lambda>p. p\<lparr>sp_moving := False\<rparr>) w)"
    by (rule moves_free_upd [OF w]) (auto simp: player_defs)
  show ?thesis
  proof (cases "sp_alive p \<and> intended_movement w p \<noteq> zero_intent")
    case False
    with stand w show ?thesis by (auto simp: move_player_def Some m Let_def moves_free_refl)
  next
    case moving: True
    obtain es w1 where x: "cancel_cast pid CancelMovement w = (es, w1)" by fastforce
    define w2 where "w2 = upd_player pid (\<lambda>p. p\<lparr>sp_moving := True\<rparr>) w1"
    have c1: "continues w w1" by (rule continues_cancel_cast [OF w x])
    have "moves_free obstacles w1 w2"
      unfolding w2_def by (rule moves_free_upd [OF continues_wf [OF c1]]) (auto simp: player_defs)
    then have c2: "moves_free obstacles w w2" by (rule moves_free_trans [OF moves_free_cancel [OF w x]])
    then have w2: "wf_world w2" by (auto simp: moves_free_def dest: continues_wf)
    obtain r where r: "player_at w2 pid = Some r" "player_pos r = player_pos p" "\<not> is_held r"
      using Some moving intended_movement_held [of w p]
      by (auto simp: w2_def player_at_upd cancel_cast_player [OF x] is_held_def)
    obtain s where s: "adjusted_move_speed delta (sp_move_speed p) m
        (sc_movement_modifier_caps (w_configuration w2)) = Some s"
      using modifier_returns(2) [OF arena [OF w2]] by blast
    have still: "moves_free obstacles w2 (upd_player pid (\<lambda>p. p\<lparr>sp_movement_audio_progress_ms := 0\<rparr>) w2)"
      by (rule moves_free_upd [OF w2]) (auto simp: player_defs)
    obtain dx dy where d: "movement_delta (intended_movement w p) s = (dx, dy)" by fastforce
    obtain q where q: "move_in_world w2 obstacles (sp_x p) (sp_y p) (sint (sp_x p) + dx) (sint (sp_y p) + dy) = Some q"
      "q = player_pos p \<or> stands_free w2 obstacles q"
      using move_in_world_ok [OF arena [OF w2] obs] by blast
    have "wf_position (fst q) (snd q)"
      using q(2) p in_arena_wf [OF arena [OF w2], of q] by (auto simp: stands_free_def)
    from finish_move_free [OF w2 r q(2) this] obtain es' w' where
      f: "finish_move delta pid p q w2 = Some (es', w')" "moves_free obstacles w2 w'" by blast
    show ?thesis
      using moving moves_free_trans [OF c2 still] moves_free_trans [OF c2 f(2)]
      by (auto simp: move_player_def Some m Let_def x w2_def [symmetric] s d q(1) f(1))
  qed
qed

lemma move_players_free:
  assumes "wf_world w"
  shows "\<exists>es w'. move_players delta w = Some (es, w') \<and> moves_free (combat_obstacles w) w w'"
proof -
  have "wf_world v \<Longrightarrow> \<exists>es w'. for_each_opt (move_player delta (combat_obstacles w)) pids v = Some (es, w') \<and>
      moves_free (combat_obstacles w) v w'" for pids v
  proof (induction pids arbitrary: v)
    case (Cons pid pids)
    obtain es v1 where s: "move_player delta (combat_obstacles w) pid v = Some (es, v1)"
      "moves_free (combat_obstacles w) v v1"
      using move_player_free [OF Cons.prems wf_combat_obstacles [OF assms]] by blast
    then have "wf_world v1" by (auto simp: moves_free_def dest: continues_wf)
    from Cons.IH [OF this] s show ?case by (auto intro: moves_free_trans)
  qed (simp add: moves_free_refl)
  from this [OF assms] show ?thesis by (simp add: move_players_def)
qed

lemma goes_move_players: "wf_world w \<Longrightarrow> goes w (move_players delta w)"
  using move_players_free [of w delta] by (auto simp: moves_free_def)

section \<open>Projectiles\<close>

abbreviation wf_projectiles :: "projectile_state list \<Rightarrow> bool" where
  "wf_projectiles \<equiv> list_all (\<lambda>pr. wf_payload (pr_payload pr))"

text \<open>A step that keeps projectiles with well-formed payloads.\<close>

definition flies :: "simulation_world \<Rightarrow> ('a \<times> 'b \<times> simulation_world) option \<Rightarrow> ('b \<Rightarrow> bool) \<Rightarrow> bool" where
  "flies w r P \<longleftrightarrow> (\<exists>es kept w'. r = Some (es, kept, w') \<and> continues w w' \<and> P kept)"

lemma flies_Some [simp]: "flies w (Some (es, kept, w')) P \<longleftrightarrow> continues w w' \<and> P kept"
  by (simp add: flies_def)

lemma flies_bind: "goes w r \<Longrightarrow> (\<And>a w'. continues w w' \<Longrightarrow> flies w (f (a, w')) P) \<Longrightarrow> flies w (Option.bind r f) P"
  by (auto simp: goes_def)

lemma flies_projectile:
  assumes w: "wf_world w" and pr: "wf_payload (pr_payload pr)"
  shows "flies w (advance_projectile delta obstacles pr w) (pred_option (\<lambda>pr. wf_payload (pr_payload pr)))"
  unfolding advance_projectile_def Let_def using pr continues_refl [OF w]
  by (simp split: option.split) (auto intro!: flies_bind [OF goes_pay [OF w pr]])

lemma flies_projectile_list:
  "wf_world w \<Longrightarrow> wf_projectiles prs \<Longrightarrow> flies w (advance_projectile_list delta obstacles prs w) wf_projectiles"
proof (induction prs arbitrary: w)
  case (Cons pr prs)
  have "wf_payload (pr_payload pr)" "wf_projectiles prs" using Cons.prems(2) by simp_all
  note step = flies_projectile [OF Cons.prems(1) this(1), of delta obstacles, unfolded flies_def]
  then obtain es kept w1 where s: "advance_projectile delta obstacles pr w = Some (es, kept, w1)" "continues w w1"
    "pred_option (\<lambda>pr. wf_payload (pr_payload pr)) kept" by blast
  from Cons.IH [OF continues_wf [OF s(2)] \<open>wf_projectiles prs\<close>, unfolded flies_def]
  obtain es' kept' w2 where r: "advance_projectile_list delta obstacles prs w1 = Some (es', kept', w2)"
    "continues w1 w2" "wf_projectiles kept'" by blast
  show ?case
    using s r continues_trans [OF s(2) r(2)] by (auto split: option.split)
qed (simp add: continues_refl)

lemma goes_projectiles:
  assumes w: "wf_world w"
  shows "goes w (advance_projectiles delta w)"
proof -
  let ?w = "w\<lparr>w_projectiles := []\<rparr>"
  have c: "continues w ?w" using w by (simp add: continues_projectiles)
  moreover have "wf_projectiles (w_projectiles w)" using w by (simp add: wf_world_def)
  ultimately have "flies ?w (advance_projectile_list delta (combat_obstacles w) (w_projectiles w) ?w) wf_projectiles"
    by (intro flies_projectile_list continues_wf [OF c])
  then obtain es prs w' where
    r: "advance_projectile_list delta (combat_obstacles w) (w_projectiles w) ?w = Some (es, prs, w')"
      "continues ?w w'" "wf_projectiles prs" unfolding flies_def by blast
  have "continues w' (w'\<lparr>w_projectiles := prs\<rparr>)"
    using r by (intro continues_projectiles continues_wf [OF r(2)])
  with c r(2) have "continues w (w'\<lparr>w_projectiles := prs\<rparr>)" by (blast intro: continues_trans)
  with r(1) show ?thesis by (simp add: advance_projectiles_def)
qed

section \<open>Deployables\<close>

text \<open>Steps that give a flag or a progress beside the events.\<close>

definition goes_with :: "simulation_world \<Rightarrow> ('a \<times> 'b \<times> simulation_world) option \<Rightarrow> bool" where
  "goes_with w r \<longleftrightarrow> (\<exists>a b w'. r = Some (a, b, w') \<and> continues w w')"

lemma goes_with_Some [simp]: "goes_with w (Some (a, b, w')) \<longleftrightarrow> continues w w'"
  by (simp add: goes_with_def)

lemma goes_with_bind:
  "goes w r \<Longrightarrow> (\<And>a w'. continues w w' \<Longrightarrow> goes_with w (f (a, w'))) \<Longrightarrow> goes_with w (Option.bind r f)"
  by (auto simp: goes_def)

lemma goes_with_bind2:
  "goes_with w r \<Longrightarrow> (\<And>a b w'. continues w w' \<Longrightarrow> goes_with w (f (a, b, w'))) \<Longrightarrow>
    goes_with w (Option.bind r f)"
  by (auto simp: goes_with_def)

lemma goes_with_from: "continues w w' \<Longrightarrow> goes_with w' r \<Longrightarrow> goes_with w r"
  by (auto simp: goes_with_def intro: continues_trans)

lemma pulse_loop_returns:
  assumes i: "interval \<noteq> 0" and body: "\<And>w. wf_world w \<Longrightarrow> goes w (body w)"
  shows "wf_world w \<Longrightarrow> goes_with w (pulse_loop interval progress body w)"
proof (induction "unat progress" arbitrary: progress w rule: less_induct)
  case less
  show ?case
  proof (cases "interval \<le> progress")
    case True
    then have "unat (sat_sub progress interval) < unat progress"
      using i by (auto simp: unat_sat_sub word_le_nat_alt unat_eq_0 [symmetric])
    then have "goes_with w' (pulse_loop interval (sat_sub progress interval) body w')" if "wf_world w'" for w'
      using less.hyps that by blast
    then show ?thesis
      using True less.prems
      by (subst pulse_loop.simps)
        (auto intro!: goes_with_bind [OF body] goes_with_bind2 intro: goes_with_from continues_wf)
  qed (simp add: pulse_loop.simps [of interval progress] less.prems continues_refl)
qed

lemma goes_summon_pulse: "wf_world w \<Longrightarrow> wf_payload p \<Longrightarrow> goes w (summon_pulse d reach kind p w)"
  by (auto simp: summon_pulse_def goes_pay continues_refl split: option.split)

lemma continues_store:
  "wf_world w \<Longrightarrow> wf_deployable d \<Longrightarrow> continues w (store_deployable d w)"
  unfolding store_deployable_def
  by (rule continues_deployables) (auto simp: wf_world_deployables intro!: list_all_modify_first)

lemma goes_with_store:
  assumes "goes_with w r" "\<And>progress'. wf_deployable (f progress')"
  shows "goes_with w (Option.bind r (\<lambda>(es, progress', w). Some (es, False, store_deployable (f progress') w)))"
  using assms(1) by (rule goes_with_bind2)
    (use assms(2) in \<open>auto intro!: continues_store intro: continues_trans dest: continues_wf\<close>)

lemma goes_expire:
  assumes w: "wf_world w" and d: "wf_deployable d"
  shows "goes_with w (expire_deployable d w)"
proof -
  have "wf_payload p" if "aura_end_payload (dp_behavior d) = Some (kind, p)" for kind p
    using that d by (auto simp: wf_deployable_def aura_end_payload_def split: deployable_behavior.splits option.splits)
  then have "goes w (aura_end_events d w)"
    using w by (auto simp: aura_end_events_def goes_aura_pulse continues_refl split: option.split)
  then show ?thesis unfolding expire_deployable_def by (rule goes_with_bind) simp
qed

lemma goes_pulse_aura:
  assumes w: "wf_world w" and d: "wf_deployable d"
  shows "goes_with w (pulse_aura delta d w)"
proof (cases "dp_behavior d")
  case (DbAura interval progress kind p start end' anchor toggleable)
  then have i: "interval \<noteq> 0" and p: "wf_payload p" "pred_option wf_payload start" "pred_option wf_payload end'"
    and place: "dp_blocks_movement d \<or> dp_blocks_projectiles d \<longrightarrow> wf_position (dp_x d) (dp_y d) \<and> dp_radius d \<le> 16000"
    using d by (simp_all add: wf_deployable_def)
  show ?thesis
    unfolding pulse_aura_def DbAura deployable_behavior.case
    by (rule goes_with_store, rule pulse_loop_returns [OF i goes_aura_pulse [OF _ p(1)] w])
      (use i p place in \<open>auto simp: wf_deployable_def\<close>)
qed (simp_all add: pulse_aura_def continues_refl w)

lemma goes_act:
  assumes w: "wf_world w" and d: "wf_deployable d"
  shows "goes_with w (act_deployable delta d w)"
proof (cases "dp_behavior d")
  case (DbSummon reach interval progress kind p)
  then have i: "interval \<noteq> 0" "wf_payload p"
    and place: "dp_blocks_movement d \<or> dp_blocks_projectiles d \<longrightarrow> wf_position (dp_x d) (dp_y d) \<and> dp_radius d \<le> 16000"
    using d by (simp_all add: wf_deployable_def)
  show ?thesis
    unfolding act_deployable_def DbSummon deployable_behavior.case
    by (rule goes_with_store, rule pulse_loop_returns [OF i(1) goes_summon_pulse [OF _ i(2)] w])
      (use i place in \<open>auto simp: wf_deployable_def\<close>)
next
  case (DbTrap p)
  then have p: "wf_payload p" using d by (simp add: wf_deployable_def)
  have "continues w w' \<Longrightarrow> continues w (store_deployable d w')" for w'
    by (rule continues_trans [OF _ continues_store [OF continues_wf d]])
  then show ?thesis
    using w continues_refl [OF w]
    by (auto simp: act_deployable_def DbTrap split: option.split intro!: goes_with_bind [OF goes_pay [OF w p]])
next
  case (DbAura interval progress kind p start end' anchor toggleable)
  have "wf_deployable (d\<lparr>dp_x := pst_x st, dp_y := pst_y st\<rparr>)" if "player_state w pid = Some st" for pid st
    using d player_state_wf [OF w that] by (simp add: wf_deployable_def wf_snapshot_def)
  then show ?thesis
    using goes_pulse_aura [OF w] goes_expire [OF w] d
    by (auto simp: act_deployable_def DbAura split: option.split)
qed (simp_all add: act_deployable_def continues_store w d)

lemma goes_advance_deployable:
  assumes w: "wf_world w"
  shows "goes_with w (advance_deployable delta did w)"
proof (cases "deployable_at w did")
  case None
  with w show ?thesis by (simp add: advance_deployable_def continues_refl)
next
  case (Some d)
  then have "d \<in> set (w_deployables w)" by (auto simp: deployable_at_def find_Some_iff)
  then have "wf_deployable d" "wf_deployable (d\<lparr>dp_remaining_ms := r\<rparr>)" for r
    using wf_world_deployables [OF w] by (auto simp: list_all_iff wf_deployable_def)
  with w show ?thesis
    by (simp add: advance_deployable_def Some Let_def goes_expire goes_act)
qed

lemma goes_deployable_list:
  "wf_world w \<Longrightarrow> goes_with w (advance_deployable_list delta dids w)"
proof (induction dids arbitrary: w)
  case (Cons did dids)
  have "goes_with w (Option.bind (advance_deployable_list delta dids w')
      (\<lambda>(es', expired', w). Some (es @ es', (if expired then [did] else []) @ expired', w)))"
    if "continues w w'" for es expired w'
    by (rule goes_with_from [OF that], rule goes_with_bind2 [OF Cons.IH [OF continues_wf [OF that]]]) simp
  then show ?case
    by (simp only: advance_deployable_list.simps) (rule goes_with_bind2 [OF goes_advance_deployable [OF Cons.prems]], simp)
qed (simp add: continues_refl)

lemma goes_deployables:
  assumes w: "wf_world w"
  shows "goes w (advance_deployables delta w)"
proof -
  obtain es expired w' where r: "advance_deployable_list delta (map dp_id (w_deployables w)) w = Some (es, expired, w')"
    "continues w w'" using goes_deployable_list [OF w] unfolding goes_with_def by blast
  have "continues w' (w'\<lparr>w_deployables := filter (\<lambda>d. dp_id d \<notin> set expired) (w_deployables w')\<rparr>)"
    using continues_wf [OF r(2)] by (intro continues_deployables list_all_filter wf_world_deployables)
  with r show ?thesis by (auto simp: advance_deployables_def intro: continues_trans)
qed

section \<open>The tick\<close>

lemma goes_tick:
  assumes "wf_world w"
  shows "goes w (tick delta w)"
proof -
  have "goes w (tick_timers delta w)" using tick_timers_ok [OF assms] by (simp add: goes_def)
  then show ?thesis
    unfolding tick_def
    by (rule goes_then, simp only: prod.case)
      (rule goes_then [OF goes_move_players], erule continues_wf, simp only: prod.case,
       rule goes_then [OF goes_queued_actions], erule continues_wf, simp only: prod.case,
       rule goes_then [OF goes_projectiles], erule continues_wf, simp only: prod.case,
       rule goes_then [OF goes_active_casts], erule continues_wf, simp only: prod.case,
       rule goes_bind [OF goes_deployables], erule continues_wf, simp)
qed

end
