(* ===== verification/Sim_Properties.thy ===== *)
theory Sim_Properties
  imports Sim_Cascade
begin

text \<open>
  What the combat operations compute: damage against shields, the statuses a dispel takes,
  diminishing returns of crowd control, the number of effects of a periodic status, the range of
  a roll and the mana of a tick; and a small world on which the hypotheses of these theorems hold.
\<close>

section \<open>A small world\<close>

text \<open>One player under a poison whose dispel hurts.\<close>

definition example_payload :: effect_payload where
  "example_payload = EffectPayload Damage 10 None 0 0
     (Some (StatusDefinition Poison 3000 (Some 1000) 5 2 None None
       (Some (EffectPayload Damage 7 None 0 0 None None None)))) None
     (Some \<lparr>dd_scope = DispelNegative, dd_max_statuses = 2\<rparr>)"

definition example_poison :: status_instance where
  "example_poison = new_status (PlayerId 2) 1 (StatusDefinition Poison 4000 (Some 1000) 3 2 None None
     (Some (EffectPayload Damage 7 None 0 0 None None None))) 4000"

definition example_shield :: status_instance where
  "example_shield = new_status (PlayerId 1) 2 (StatusDefinition Shield 5000 None 30 2 None None None) 5000"

definition example_seed :: sim_player_seed where
  "example_seed = \<lparr>ss_player_id = PlayerId 1, ss_team = TeamA, ss_hit_points = 100, ss_max_mana = 50,
     ss_move_speed = 300, ss_melee = \<lparr>md_tree = Known Warrior, md_id = [], md_name = [], md_description = [],
       md_audio_cue_id = None, md_cooldown_ms = 500, md_range = 60, md_radius = 20,
       md_effect = FxMeleeSwing, md_payload = EffectPayload Damage 8 None 0 0 None None None\<rparr>,
     ss_skills = replicate 5 None\<rparr>"

definition example_player :: sim_player where
  "example_player = (spawn_player example_seed 0 0 100 0)\<lparr>sp_statuses := [example_poison, example_shield]\<rparr>"

definition example_configuration :: simulation_configuration where
  "example_configuration = \<lparr>sc_combat_frame_ms = 50, sc_player_radius_units = 28, sc_vision_radius_units = 450,
     sc_spawn_spacing_units = 100, sc_default_aim_x_units = 100, sc_default_aim_y_units = 0,
     sc_mana_regen_per_second = 10, sc_global_projectile_speed_bonus_bps = 0,
     sc_teleport_resolution_steps = 24, sc_movement_audio_step_interval_ms = 400,
     sc_movement_audio_radius_units = 300, sc_stealth_audio_radius_units = 100,
     sc_brush_movement_audible_percent = 50,
     sc_passive_bonus_caps = \<lparr>pbc_player_speed_bps = 9000, pbc_projectile_speed_bps = 9000,
       pbc_cooldown_bps = 9000, pbc_cast_time_bps = 9000\<rparr>,
     sc_movement_modifier_caps = \<lparr>mmc_chill_bps = 8000, mmc_haste_bps = 6000,
       mmc_status_total_min_bps = - 8000, mmc_status_total_max_bps = 6000,
       mmc_overall_total_min_bps = - 8000, mmc_overall_total_max_bps = 9000,
       mmc_effective_scale_min_bps = 2000, mmc_effective_scale_max_bps = 25000\<rparr>,
     sc_crowd_control_dr = \<lparr>ccd_window_ms = 15000, ccd_stages_bps = [10000, 5000, 2500, 0]\<rparr>,
     sc_training_dummy = \<lparr>tdc_base_hit_points = 100, tdc_health_multiplier = 100,
       tdc_execute_threshold_bps = 500\<rparr>\<rparr>"

definition example_world :: simulation_world where
  "example_world = \<lparr>w_configuration = example_configuration, w_arena_width_units = 1000,
     w_arena_height_units = 1000, w_arena_width_tiles = 20, w_arena_height_tiles = 20,
     w_arena_tile_units = 50, w_footprint_mask = replicate 50 255, w_obstacles = [],
     w_players = [(PlayerId 1, example_player)], w_projectiles = [], w_deployables = [],
     w_next_deployable_id = 1, w_elapsed_ms = 0, w_initial_roll_state = 7, w_roll_state = 7\<rparr>"

lemma example_player_at: "player_at example_world (PlayerId 1) = Some example_player"
  by (simp add: example_world_def)

lemma wf_example_payload: "wf_payload example_payload"
  by (simp add: example_payload_def)

lemma wf_example: "wf_world example_world"
  by (simp add: wf_world_def wf_arena_def wf_caps_def wf_position_def no_queued_actions_def
      example_configuration_def example_world_def bt_inv_def bt_values_def example_player_def example_seed_def
      spawn_player_def player_defs no_dr_def example_poison_def example_shield_def new_status_def wf_status_def
      list_all_iff)

section \<open>Payloads and timers return\<close>

text \<open>C12: on a well-formed world the application of a well-formed payload always returns, whatever
  cascade of dispelled payloads it sets free, and keeps the invariant and the roster.\<close>

theorem payload_returns:
  assumes "wf_world w" "wf_payload p"
  shows "\<exists>es w'. apply_payload source slot ts p w = Some (es, w') \<and> wf_world w' \<and> fixed_world w' = fixed_world w"
  using apply_payload_ok [OF assms, of source slot ts] by (auto simp: evolves_def)

theorem payload_returns_witness:
  "\<exists>es w'. apply_payload (PlayerId 2) 1 [TargetPlayer (PlayerId 1)] example_payload example_world =
     Some (es, w') \<and> wf_world w' \<and> fixed_world w' = fixed_world example_world"
  by (rule payload_returns [OF wf_example wf_example_payload])

text \<open>The loop that takes the tick interval out of the progress of a status returns exactly
  when the interval is not zero.\<close>

lemma drain_ticks_returns_iff: "(\<exists>r. drain_ticks interval progress x acc = Some r) \<longleftrightarrow> interval \<noteq> 0"
  by (cases "interval = 0") (simp_all add: drain_ticks_zero drain_ticks_eq)

section \<open>Rolls\<close>

lemma unat_widen [simp]: "unat (ucast (a :: u16) :: u32) = unat a"
  using unat_u16_le [of a] by (simp add: unsigned_ucast_eq take_bit_nat_eq_self U16_MAX_def)

text \<open>A roll lies in its closed range, which is the lower bound alone when the range is empty.\<close>

lemma roll_in_range:
  "lo \<le> fst (roll_u16_inclusive lo hi w) \<and> fst (roll_u16_inclusive lo hi w) \<le> max lo hi"
proof (cases "hi \<le> lo")
  case False
  then have lt: "unat lo < unat hi" by (simp add: word_le_nat_alt)
  have hi: "unat hi \<le> 65535" using unat_u16_le [of hi] by (simp add: U16_MAX_def)
  define span where "span = (ucast hi :: u32) - ucast lo + 1"
  have span: "unat span = unat hi - unat lo + 1"
  proof -
    have "unat ((ucast hi :: u32) - ucast lo) = unat hi - unat lo"
      using lt by (subst unat_sub) (simp_all add: word_le_nat_alt)
    then show ?thesis using lt hi by (simp add: span_def unat_word_ariths)
  qed
  obtain r w' where r: "next_roll_u64 w = (r, w')" by fastforce
  define offset where "offset = (ucast (r mod ucast span) :: u32)"
  have "unat (ucast span :: u64) = unat span"
    using unsigned_less [of span, where 'a = nat] by (simp add: unsigned_ucast_eq take_bit_nat_eq_self)
  then have "unat (r mod ucast span) \<le> unat hi - unat lo"
    using span mod_less_divisor [of "unat span" "unat r"] by (simp add: unat_mod_distrib)
  then have offset: "unat offset \<le> unat hi - unat lo"
    using hi by (simp add: offset_def unsigned_ucast_eq take_bit_nat_eq_self)
  then have "unat offset \<le> U16_MAX" using hi by (simp add: U16_MAX_def)
  then have o16: "unat (ucast offset :: u16) = unat offset"
    by (simp add: unsigned_ucast_eq take_bit_nat_eq_self U16_MAX_def)
  have "fst (roll_u16_inclusive lo hi w) = sat_add lo (ucast offset)"
    using False \<open>unat offset \<le> U16_MAX\<close>
    by (simp add: roll_u16_inclusive_def r span_def [symmetric] offset_def [symmetric])
  then show ?thesis
    using offset lt hi by (simp add: le_sat_add le_max_iff_disj word_le_nat_alt unat_sat_add o16)
qed (simp add: roll_u16_inclusive_def)

section \<open>Damage and shields\<close>

definition shield_pool :: "status_instance list \<Rightarrow> nat" where
  "shield_pool ss = sum_list (map (\<lambda>s. if si_kind s = Shield then unat (si_shield_remaining s) else 0) ss)"

lemma shield_pool_simps [simp]: "shield_pool [] = 0"
  "shield_pool (s # ss) = (if si_kind s = Shield then unat (si_shield_remaining s) else 0) + shield_pool ss"
  by (simp_all add: shield_pool_def)

lemma shield_pool_filter:
  "(\<And>s. si_kind s = Shield \<Longrightarrow> si_shield_remaining s \<noteq> 0 \<Longrightarrow> P s) \<Longrightarrow> shield_pool (filter P ss) = shield_pool ss"
  by (induction ss) (auto simp: unat_eq_zero)

lemma shield_pass_pool:
  "shield_pass damage ss = (rest, ss', depleted) \<Longrightarrow>
    unat rest = unat damage - shield_pool ss \<and> shield_pool ss' = shield_pool ss - unat damage"
proof (induction damage ss arbitrary: rest ss' depleted rule: shield_pass.induct)
  case (2 damage s ss)
  obtain damage' s' where a: "absorb damage s = (damage', s')" by fastforce
  note step = absorb_status [OF a]
  show ?case
  proof (cases "si_kind s = Shield \<and> 0 < si_shield_remaining s")
    case shield: True
    show ?thesis
    proof (cases "damage = 0")
      case False
      obtain rest1 ss1 depleted1 where r: "shield_pass damage' ss = (rest1, ss1, depleted1)"
        by (metis prod_cases3)
      then show ?thesis
        using 2(1) [OF shield False a [symmetric] refl r] 2(3) shield False a step by auto
    qed (use 2(3) shield in simp)
  next
    case False
    obtain rest1 ss1 depleted1 where r: "shield_pass damage ss = (rest1, ss1, depleted1)"
      by (metis prod_cases3)
    with 2(2) [OF False r] 2(3) False show ?thesis by (auto simp: unat_pos_iff unat_eq_zero)
  qed
qed simp

text \<open>A proc reset touches cooldowns only.\<close>

definition same_vitals :: "sim_player option \<Rightarrow> sim_player option \<Rightarrow> bool" where
  "same_vitals a b = (map_option (\<lambda>p. (sp_hit_points p, sp_alive p, sp_statuses p)) a =
     map_option (\<lambda>p. (sp_hit_points p, sp_alive p, sp_statuses p)) b)"

lemma try_trigger_vitals:
  assumes "wf_world w"
  shows "same_vitals (player_at (try_trigger_proc_resets a slot kind critical periodic w) pid) (player_at w pid)"
proof -
  have "same_vitals (player_at (fold (\<lambda>(i, prd). apply_proc_reset a i prd) xs w) pid) (player_at w pid)"
    if "wf_world w" for xs w
    using that
  proof (induction xs arbitrary: w)
    case (Cons x xs)
    obtain i prd where x: "x = (i, prd)" by fastforce
    have "same_vitals (player_at (apply_proc_reset a i prd w) pid) (player_at w pid)"
      by (cases "player_at w a") (simp_all add: apply_proc_reset_def player_at_upd same_vitals_def Let_def)
    with Cons.IH [OF evolves_wf [OF evolves_proc_reset [OF Cons.prems, of a i prd]]] show ?case
      by (simp add: x same_vitals_def)
  qed (simp add: same_vitals_def)
  with assms show ?thesis by (simp add: try_trigger_proc_resets_def Let_def)
qed

lemma consume_shields_player:
  assumes p: "player_at w pid = Some p" and eq: "consume_shields pid amount w = (rest, es, w')"
  shows "\<exists>ss. player_at w' pid = Some (p\<lparr>sp_statuses := ss\<rparr>) \<and>
    unat rest = unat amount - shield_pool (sp_statuses p) \<and>
    shield_pool ss = shield_pool (sp_statuses p) - unat amount"
proof -
  obtain r ss depleted where pass: "shield_pass amount (sp_statuses p) = (r, ss, depleted)"
    by (metis prod_cases3)
  have "shield_pool (filter (\<lambda>s. si_kind s \<noteq> Shield \<or> 0 < si_shield_remaining s) ss) = shield_pool ss"
    by (rule shield_pool_filter) (simp add: unat_pos_iff)
  with shield_pass_pool [OF pass] eq show ?thesis
    by (auto simp: consume_shields_def p pass player_at_upd)
qed

text \<open>C13: the damage a living player of a well-formed world takes goes to the shields first: the hit
  points lose what the shields do not absorb, a survivor's shields lose what they absorbed, and
  the player dies exactly when shields and hit points together do not exceed the damage.\<close>

theorem damage_accounting:
  assumes w: "wf_world w" and p: "player_at w pid = Some p" and alive: "sp_alive p"
    and run: "damage_player attacker slot amount kind trigger critical pid w = (es, w')"
  shows "\<exists>p'. player_at w' pid = Some p' \<and>
    unat (sp_hit_points p') = unat (sp_hit_points p) - (unat amount - shield_pool (sp_statuses p)) \<and>
    (sp_alive p' \<longleftrightarrow> unat amount < unat (sp_hit_points p) + shield_pool (sp_statuses p)) \<and>
    (sp_alive p' \<longrightarrow> shield_pool (sp_statuses p') = shield_pool (sp_statuses p) - unat amount)"
proof -
  define ss where "ss = filter (Not \<circ> breaks_on_damage) (sp_statuses p)"
  define w2 where "w2 = cancel_toggleable_stealth_auras pid
    (upd_player pid (\<lambda>p. p\<lparr>sp_statuses := filter (Not \<circ> breaks_on_damage) (sp_statuses p)\<rparr>) w)"
  have hp: "0 < unat (sp_hit_points p)"
    using wf_world_player [OF w p] alive by (simp add: player_defs word_less_nat_alt)
  have pool: "shield_pool ss = shield_pool (sp_statuses p)"
    unfolding ss_def by (rule shield_pool_filter) (simp add: breaks_on_damage_def)
  have p2: "player_at w2 pid = Some (p\<lparr>sp_statuses := ss\<rparr>)"
    using p by (simp add: w2_def cancel_toggleable_stealth_auras_def player_at_upd ss_def)
  obtain damage es3 w3 where c: "consume_shields pid amount w2 = (damage, es3, w3)" by (metis prod_cases3)
  have w2: "wf_world w2"
    unfolding w2_def by (intro evolves_wf [OF evolves_cancel_auras] evolves_wf [OF evolves_filter_statuses [OF w]])
  have w3: "wf_world w3" by (rule evolves_wf [OF evolves_consume_shields [OF w2 c]])
  from consume_shields_player [OF p2 c] obtain ss3 r where
    p3: "player_at w3 pid = Some r" and r: "r = p\<lparr>sp_statuses := ss3\<rparr>" and
    damage: "unat damage = unat amount - shield_pool (sp_statuses p)" and
    ss3: "shield_pool ss3 = shield_pool (sp_statuses p) - unat amount"
    by (auto simp: pool)
  show ?thesis
  proof (cases "damage = 0")
    case True
    then have "w' = w3" using run alive by (simp add: damage_player_def p w2_def [symmetric] c)
    moreover have "unat amount \<le> shield_pool (sp_statuses p)" using damage True by simp
    ultimately show ?thesis using p3 ss3 alive hp by (simp add: r)
  next
    case False
    then have gt: "shield_pool (sp_statuses p) < unat amount" using damage by (metis unat_gt_0 zero_less_diff)
    let ?applied = "min damage (sp_hit_points r)"
    define q where "q = r\<lparr>sp_hit_points := sat_sub (sp_hit_points r) ?applied\<rparr>"
    define q' where "q' = (if sp_hit_points q = 0 then defeat_player q else q)"
    define w4 where "w4 = upd_player pid (\<lambda>_. q') w3"
    have w4: "wf_world w4"
      unfolding w4_def q'_def
      by (rule evolves_wf [OF evolves_upd [OF w3 p3, of "\<lambda>_. q'" 0, unfolded q'_def]])
        (use wf_player_damaged [OF wf_world_player [OF w3 p3], of q ?applied] in
          \<open>auto simp: q_def defeat_player_def fixed_player_def player_weight_def
          intro!: sum_list_nonneg split: if_splits\<close>)
    have "snd (damage_player attacker slot amount kind trigger critical pid w) =
        (if 0 < ?applied then try_trigger_proc_resets attacker slot Damage critical (kind = Some Poison) w4
         else w4)"
      using alive False
      by (simp add: damage_player_def p w2_def [symmetric] c p3 Let_def q_def [symmetric] q'_def w4_def
          del: min_less_iff_conj)
    then have "same_vitals (player_at w' pid) (player_at w4 pid)"
      using try_trigger_vitals [OF w4] run by (simp add: same_vitals_def split: if_splits)
    moreover have "player_at w4 pid = Some q'" using p3 by (simp add: w4_def player_at_upd)
    ultimately obtain p' where p': "player_at w' pid = Some p'" "sp_hit_points p' = sp_hit_points q'"
      "sp_alive p' = sp_alive q'" "sp_statuses p' = sp_statuses q'"
      by (auto simp: same_vitals_def)
    have "unat (sp_hit_points q) = unat (sp_hit_points p) - unat damage"
      by (simp add: q_def r unat_sat_sub min_def word_le_nat_alt)
    moreover have "sp_hit_points q' = sp_hit_points q" by (simp add: q'_def defeat_player_def)
    moreover have "sp_alive q' \<longleftrightarrow> sp_hit_points q \<noteq> 0" using alive by (simp add: q'_def q_def r defeat_player_def)
    moreover have "sp_alive q' \<Longrightarrow> sp_statuses q' = ss3" by (auto simp: q'_def q_def r defeat_player_def)
    ultimately show ?thesis
      using p' damage ss3 gt hp by (auto simp: unat_eq_0 [symmetric])
  qed
qed

theorem damage_accounting_witness:
  "\<exists>es w' p'. damage_player (PlayerId 2) 1 40 None None False (PlayerId 1) example_world = (es, w') \<and>
     player_at w' (PlayerId 1) = Some p' \<and> unat (sp_hit_points p') = 90 \<and> sp_alive p' \<and>
     shield_pool (sp_statuses p') = 0"
proof -
  obtain es w' where run: "damage_player (PlayerId 2) 1 40 None None False (PlayerId 1) example_world = (es, w')"
    by fastforce
  have p: "sp_alive example_player" "unat (sp_hit_points example_player) = 100"
    "shield_pool (sp_statuses example_player) = 30"
    by (simp_all add: example_player_def example_seed_def spawn_player_def example_poison_def
        example_shield_def new_status_def)
  from damage_accounting [OF wf_example example_player_at p(1) run] p run show ?thesis by auto
qed

section \<open>Dispels\<close>

lemma nths_enumerate: "map snd (filter (\<lambda>(i, _). P i) (List.enumerate n xs)) = nths xs {i. P (i + n)}"
  by (induction xs arbitrary: n) (simp_all add: nths_Cons)

definition matching :: "dispel_definition \<Rightarrow> status_instance list \<Rightarrow> nat set" where
  "matching d ss = {i. i < length ss \<and> status_matches_dispel (si_kind (ss ! i)) (dd_scope d)}"

lemma finite_matching [simp]: "finite (matching d ss)"
  by (simp add: matching_def)

text \<open>The first \<open>k\<close> of a list sorted by an injective key.\<close>

lemma take_sort_key:
  assumes "inj_on f (set xs)" "distinct xs"
  shows "card (set (take k (sort_key f xs))) = min k (card (set xs))"
    "set (take k (sort_key f xs)) \<subseteq> set xs"
    "x \<in> set (take k (sort_key f xs)) \<Longrightarrow> y \<in> set xs \<Longrightarrow> y \<notin> set (take k (sort_key f xs)) \<Longrightarrow>
      f x < f y"
proof -
  let ?ys = "sort_key f xs"
  have d: "distinct ?ys" and set_ys: "set ?ys = set xs" using assms(2) by simp_all
  have "card (set (take k ?ys)) = length (take k ?ys)" using d by (intro distinct_card) simp
  also have "\<dots> = min k (card (set xs))" using assms(2) by (simp add: distinct_card)
  finally show "card (set (take k ?ys)) = min k (card (set xs))" .
  show sub: "set (take k ?ys) \<subseteq> set xs" using set_take_subset [of k ?ys] set_ys by blast
  assume x: "x \<in> set (take k ?ys)" and y: "y \<in> set xs" "y \<notin> set (take k ?ys)"
  have "y \<in> set (take k ?ys @ drop k ?ys)" using y(1) set_ys by simp
  with y(2) have "y \<in> set (drop k ?ys)" by (metis Un_iff set_append)
  moreover have "sorted (map f (take k ?ys @ drop k ?ys))" by simp
  ultimately have "f x \<le> f y" using x by (simp add: sorted_append del: append_take_drop_id)
  moreover have "f x \<noteq> f y" using assms(1) x y sub by (metis inj_onD subsetD)
  ultimately show "f x < f y" by simp
qed

lemma dispel_indices_facts:
  defines "rem \<equiv> \<lambda>ss i. si_remaining_ms (ss ! i)"
  shows "set (dispel_indices d ss) \<subseteq> matching d ss"
    "card (set (dispel_indices d ss)) = min (unat (dd_max_statuses d)) (card (matching d ss))"
    "i \<in> set (dispel_indices d ss) \<Longrightarrow> j \<in> matching d ss - set (dispel_indices d ss) \<Longrightarrow>
      rem ss j < rem ss i \<or> rem ss j = rem ss i \<and> i < j"
proof -
  define eligible where "eligible = map (\<lambda>(i, s). (i, si_remaining_ms s))
    (filter (\<lambda>(_, s). status_matches_dispel (si_kind s) (dd_scope d)) (List.enumerate 0 ss))"
  define key where "key = (\<lambda>(i :: nat, remaining :: u16). (- uint remaining, int i))"
  let ?k = "unat (dd_max_statuses d)"
  have set_eligible: "set eligible = (\<lambda>i. (i, rem ss i)) ` matching d ss"
    by (auto simp: eligible_def matching_def rem_def in_set_enumerate_eq image_iff)
  have distinct: "distinct (map fst eligible)"
  proof -
    have "map fst eligible = map fst (filter (\<lambda>(_, s). status_matches_dispel (si_kind s) (dd_scope d)) (List.enumerate 0 ss))"
      by (simp add: eligible_def case_prod_unfold comp_def)
    then show ?thesis by (simp add: distinct_map_filter)
  qed
  have inj: "inj_on key (set eligible)" by (auto simp: inj_on_def key_def set_eligible)
  have indices: "dispel_indices d ss = map fst (take ?k (sort_key key eligible))"
    by (simp add: dispel_indices_def eligible_def key_def Let_def)
  have "distinct eligible" using distinct by (simp add: distinct_map)
  note t = take_sort_key [OF inj this, where k = ?k]
  have chosen: "e \<in> set (take ?k (sort_key key eligible)) \<longleftrightarrow>
      fst e \<in> set (dispel_indices d ss) \<and> e = (fst e, rem ss (fst e))" for e
    using t(2) by (force simp: indices set_eligible)
  show "set (dispel_indices d ss) \<subseteq> matching d ss"
    using t(2) by (force simp: indices set_eligible)
  have "inj_on fst (set eligible)" using distinct by (simp add: distinct_map)
  then have "card (set (dispel_indices d ss)) = card (set (take ?k (sort_key key eligible)))"
    using t(2) by (simp add: indices card_image inj_on_subset)
  also have "\<dots> = min ?k (card (set eligible))" by (rule t(1))
  also have "card (set eligible) = card (matching d ss)"
    by (simp add: set_eligible card_image inj_on_def)
  finally show "card (set (dispel_indices d ss)) = min ?k (card (matching d ss))" .
  assume i: "i \<in> set (dispel_indices d ss)" and j: "j \<in> matching d ss - set (dispel_indices d ss)"
  have "key (i, rem ss i) < key (j, rem ss j)"
    using i j by (intro t(3)) (auto simp: chosen set_eligible)
  then show "rem ss j < rem ss i \<or> rem ss j = rem ss i \<and> i < j"
    by (auto simp: key_def less_prod_def word_less_def word_uint_eq_iff)
qed

text \<open>C14: a dispel on a living player removes exactly as many matching statuses as it may, those that
  last longest, the earlier of two that last equally long; the others keep their order, and the
  payloads it sets free are those of the removed ones, in order.\<close>

theorem dispel_takes_longest:
  assumes p: "player_at w pid = Some p" and alive: "sp_alive p"
    and run: "dispel_target source slot d (TargetPlayer pid) w = ((es, pending), w')"
  shows "\<exists>taken. taken \<subseteq> matching d (sp_statuses p) \<and>
    card taken = min (unat (dd_max_statuses d)) (card (matching d (sp_statuses p))) \<and>
    (\<forall>i \<in> taken. \<forall>j \<in> matching d (sp_statuses p) - taken.
       si_remaining_ms (sp_statuses p ! j) < si_remaining_ms (sp_statuses p ! i) \<or>
       si_remaining_ms (sp_statuses p ! j) = si_remaining_ms (sp_statuses p ! i) \<and> i < j) \<and>
    player_at w' pid = Some (p\<lparr>sp_statuses := nths (sp_statuses p) (- taken)\<rparr>) \<and>
    pending = List.map_filter (pending_dispel pid) (nths (sp_statuses p) taken)"
proof (intro exI conjI ballI)
  let ?ss = "sp_statuses p"
  let ?taken = "set (dispel_indices d ?ss)"
  show "?taken \<subseteq> matching d ?ss" by (rule dispel_indices_facts)
  show "card ?taken = min (unat (dd_max_statuses d)) (card (matching d ?ss))" by (rule dispel_indices_facts)
  show "si_remaining_ms (?ss ! j) < si_remaining_ms (?ss ! i) \<or>
       si_remaining_ms (?ss ! j) = si_remaining_ms (?ss ! i) \<and> i < j"
    if "i \<in> ?taken" "j \<in> matching d ?ss - ?taken" for i j
    using that by (rule dispel_indices_facts)
  have "{i. i \<notin> ?taken} = - ?taken" by auto
  then show "player_at w' pid = Some (p\<lparr>sp_statuses := nths ?ss (- ?taken)\<rparr>)"
    "pending = List.map_filter (pending_dispel pid) (nths ?ss ?taken)"
    using run alive p
    by (auto simp: dispel_target_def Let_def player_at_upd nths_enumerate nths_all map_filter_simps split: if_splits)
qed

theorem dispel_takes_longest_witness:
  "\<exists>es pending w' taken. dispel_target (PlayerId 2) 1 \<lparr>dd_scope = DispelPositive, dd_max_statuses = 2\<rparr>
      (TargetPlayer (PlayerId 1)) example_world = ((es, pending), w') \<and> taken = {1} \<and>
    player_at w' (PlayerId 1) = Some (example_player\<lparr>sp_statuses := [example_poison]\<rparr>)"
proof -
  let ?d = "\<lparr>dd_scope = DispelPositive, dd_max_statuses = 2\<rparr>"
  obtain es pending w' where run: "dispel_target (PlayerId 2) 1 ?d (TargetPlayer (PlayerId 1)) example_world =
      ((es, pending), w')" by (metis prod.exhaust)
  have p: "sp_alive example_player" "sp_statuses example_player = [example_poison, example_shield]"
    by (simp_all add: example_player_def example_seed_def spawn_player_def)
  have m: "matching ?d (sp_statuses example_player) = {1}"
    by (auto simp: matching_def p(2) example_poison_def example_shield_def new_status_def less_Suc_eq)
  from dispel_takes_longest [OF example_player_at p(1) run] obtain taken where
    taken: "taken \<subseteq> {1}" "card taken = 1"
      "player_at w' (PlayerId 1) = Some (example_player\<lparr>sp_statuses := nths (sp_statuses example_player) (- taken)\<rparr>)"
    by (auto simp: m)
  then have "taken = {1}" by (auto simp: subset_singleton_iff)
  with taken(3) run show ?thesis by (simp add: p(2) nths_Cons)
qed

section \<open>Diminishing returns\<close>

lemma unat_scale_duration_with_bps:
  "unat (scale_duration_with_bps ms s) = min ((unat ms * unat s + 9999) div 10000) 65535"
proof -
  have le: "unat ms \<le> 65535" "unat s \<le> 65535"
    using unat_u16_le [of ms] unat_u16_le [of s] by (simp_all add: U16_MAX_def)
  have "unat ms * unat s \<le> 65535 * 65535" using le by (intro mult_le_mono)
  then show ?thesis
    by (simp add: scale_duration_with_bps_def unat_clamp_u16 unat_div_ceil unat_sat_mul U16_MAX_def)
qed

text \<open>Consecutive attempts at crowd control of one kind, with no time between them.\<close>

primrec cc_attempts ::
  "nat \<Rightarrow> status_kind \<Rightarrow> u16 \<Rightarrow> crowd_control_dr \<Rightarrow> sim_player \<Rightarrow> u16 option list \<times> sim_player" where
  "cc_attempts 0 kind ms dr p = ([], p)"
| "cc_attempts (Suc n) kind ms dr p =
     (case apply_crowd_control_dr p kind ms dr of (r, p) \<Rightarrow>
        case cc_attempts n kind ms dr p of (rs, p) \<Rightarrow> (r # rs, p))"

definition cc_outcome :: "u16 \<Rightarrow> crowd_control_dr \<Rightarrow> nat \<Rightarrow> nat option" where
  "cc_outcome ms dr i =
     (if ccd_stages_bps dr ! min i 3 \<noteq> 0
      then Some (min ((unat ms * unat (ccd_stages_bps dr ! min i 3) + 9999) div 10000) 65535) else None)"

lemma set_get_dr [simp]: "crowd_control_dr_state b (set_crowd_control_dr_state b s p) = s"
  by (cases b) simp_all

lemma apply_cc_dr_stage:
  assumes b: "crowd_control_bucket kind = Some b" and four: "length (ccd_stages_bps dr) = 4"
    and k: "(if dr_remaining_ms (crowd_control_dr_state b p) = 0 then 0
      else unat (dr_stage (crowd_control_dr_state b p))) = k" "k \<le> 3"
    and r: "apply_crowd_control_dr p kind ms dr = (r, p')"
  shows "map_option unat r = cc_outcome ms dr k" "unat (dr_stage (crowd_control_dr_state b p')) = min (Suc k) 3"
    "dr_remaining_ms (crowd_control_dr_state b p') = ccd_window_ms dr"
proof -
  define stage where "stage = (if dr_remaining_ms (crowd_control_dr_state b p) = 0 then 0
    else dr_stage (crowd_control_dr_state b p))"
  have stage: "unat stage = k" using k(1) by (auto simp: stage_def)
  then have next_stage: "unat (min (sat_add stage 1) 3) = min (Suc k) 3"
    using k(2) by (simp add: min_def word_le_nat_alt unat_sat_add)
  show "map_option unat r = cc_outcome ms dr k"
    using r stage k(2) four by (auto simp: apply_crowd_control_dr_def b Let_def stage_def [symmetric]
        crowd_control_dr_scale_bps_def cc_outcome_def min_absorb1 unat_scale_duration_with_bps split: if_splits)
  show "unat (dr_stage (crowd_control_dr_state b p')) = min (Suc k) 3"
    "dr_remaining_ms (crowd_control_dr_state b p') = ccd_window_ms dr"
    using r next_stage by (auto simp: apply_crowd_control_dr_def b Let_def stage_def [symmetric] split: if_splits)
qed

lemma cc_attempts_from:
  assumes b: "crowd_control_bucket kind = Some b" and window: "ccd_window_ms dr \<noteq> 0"
    and four: "length (ccd_stages_bps dr) = 4"
  shows "(if dr_remaining_ms (crowd_control_dr_state b p) = 0 then 0
      else unat (dr_stage (crowd_control_dr_state b p))) = min k 3 \<Longrightarrow>
    map (map_option unat) (fst (cc_attempts n kind ms dr p)) = map (cc_outcome ms dr) [k..<k + n]"
proof (induction n arbitrary: p k)
  case (Suc n)
  obtain r p' where r: "apply_crowd_control_dr p kind ms dr = (r, p')" by fastforce
  note s = apply_cc_dr_stage [OF b four Suc.prems min.cobounded2 r]
  have "map (map_option unat) (fst (cc_attempts n kind ms dr p')) = map (cc_outcome ms dr) [Suc k..<Suc k + n]"
    by (rule Suc.IH) (use s window in \<open>simp_all add: min_def\<close>)
  moreover have "cc_outcome ms dr (min k 3) = cc_outcome ms dr k"
    by (simp add: cc_outcome_def)
  ultimately show ?case
    using s(1) upt_conv_Cons [of k "k + Suc n"] by (simp add: r case_prod_beta del: upt_Suc)
qed simp

text \<open>C38: with the four authored stages a configuration has, consecutive attempts at crowd control of a
  kind that diminishes last the authored shares of the duration, rounded up: the first three
  take the first three stages, every later one within the window the fourth, and an attempt
  whose stage is zero is refused.\<close>

theorem crowd_control_diminishes:
  assumes "crowd_control_bucket kind = Some b" "ccd_window_ms dr \<noteq> 0" "length (ccd_stages_bps dr) = 4"
    and "dr_remaining_ms (crowd_control_dr_state b p) = 0"
  shows "map (map_option unat) (fst (cc_attempts n kind ms dr p)) =
    map (\<lambda>i. let stage = ccd_stages_bps dr ! min i 3 in
       if stage \<noteq> 0 then Some (min ((unat ms * unat stage + 9999) div 10000) 65535) else None) [0..<n]"
  using cc_attempts_from [OF assms(1-3), of p 0 n ms] assms(4) by (simp add: cc_outcome_def Let_def)

theorem crowd_control_diminishes_witness:
  "map (map_option unat) (fst (cc_attempts 5 Stun 1001 (sc_crowd_control_dr example_configuration) example_player)) =
     [Some 1001, Some 501, Some 251, None, None]"
proof -
  let ?dr = "sc_crowd_control_dr example_configuration"
  have "crowd_control_bucket Stun = Some BucketHard" "ccd_window_ms ?dr \<noteq> 0" "length (ccd_stages_bps ?dr) = 4"
    "dr_remaining_ms (crowd_control_dr_state BucketHard example_player) = 0"
    by (simp_all add: example_configuration_def example_player_def spawn_player_def no_dr_def)
  from crowd_control_diminishes [OF this, of 5 1001] show ?thesis
    by (simp add: upt_rec example_configuration_def)
qed

section \<open>Periodic effects\<close>




section \<open>Mana\<close>

lemma regenerate_mana_step:
  assumes "sp_mana p \<le> sp_max_mana p" and below: "sp_mana (regenerate_mana delta regen p) < sp_max_mana p"
  shows "1000 * unat (sp_mana (regenerate_mana delta regen p)) +
      unat (sp_mana_regen_progress (regenerate_mana delta regen p)) =
    1000 * unat (sp_mana p) + unat (sp_mana_regen_progress p) + unat delta * unat regen"
proof -
  define total where "total = (ucast (sp_mana_regen_progress p) :: u32) + ucast delta * ucast regen"
  have total: "unat total = unat (sp_mana_regen_progress p) + unat delta * unat regen"
    by (simp add: total_def mana_total)
  have max: "unat (sp_max_mana p) \<le> 65535" using unat_u16_le [of "sp_max_mana p"] by (simp add: U16_MAX_def)
  have rest: "unat (ucast (total mod 1000) :: u16) = unat total mod 1000"
    by (simp add: unsigned_ucast_eq take_bit_nat_eq_self unat_mod_distrib less_trans [OF mod_less_divisor])
  have gained: "unat (clamp_u16 (total div 1000)) = min (unat total div 1000) 65535"
    by (simp add: unat_clamp_u16 unat_div_distrib U16_MAX_def)
  have full: "\<not> sp_max_mana p \<le> sp_mana p"
    using below by (auto simp: regenerate_mana_def split: if_splits)
  show ?thesis
  proof (cases "clamp_u16 (total div 1000) = 0")
    case True
    then have "unat total div 1000 = 0" using gained by simp
    then show ?thesis using full True rest total
      by (simp add: regenerate_mana_def total_def [symmetric] Let_def)
  next
    case False
    then have "sp_mana (regenerate_mana delta regen p) =
        min (sat_add (sp_mana p) (clamp_u16 (total div 1000))) (sp_max_mana p)"
      "sp_mana_regen_progress (regenerate_mana delta regen p) = ucast (total mod 1000)"
      using full by (simp_all add: regenerate_mana_def total_def [symmetric] Let_def)
    moreover from this below have "unat (sp_mana (regenerate_mana delta regen p)) =
        unat (sp_mana p) + unat total div 1000"
      using gained max by (auto simp: min_def word_less_nat_alt word_le_nat_alt unat_sat_add split: if_splits)
    ultimately show ?thesis using rest total by simp
  qed
qed

lemma regenerate_mana_fields [simp]:
  "sp_max_mana (regenerate_mana delta regen p) = sp_max_mana p"
  by (simp add: regenerate_mana_def Let_def)

lemma regenerate_mana_le:
  "sp_mana p \<le> sp_max_mana p \<Longrightarrow> sp_mana (regenerate_mana delta regen p) \<le> sp_max_mana p"
  by (simp add: regenerate_mana_def Let_def)

lemma regenerate_mana_full:
  "sp_mana p = sp_max_mana p \<Longrightarrow> sp_mana (fold (\<lambda>delta. regenerate_mana delta regen) deltas p) = sp_max_mana p"
  by (induction deltas arbitrary: p) (simp_all add: regenerate_mana_def)

lemma max_mana_fold [simp]:
  "sp_max_mana (fold (\<lambda>delta. regenerate_mana delta regen) deltas p) = sp_max_mana p"
  by (induction deltas arbitrary: p) simp_all

text \<open>Below the maximum no fraction of regenerated mana is lost, however the time is cut into
  ticks: the mana, in thousandths with the carried progress, grows by the rate times the time.\<close>

lemma mana_regeneration_exact:
  assumes "sp_mana p \<le> sp_max_mana p"
    and "sp_mana (fold (\<lambda>delta. regenerate_mana delta regen) deltas p) < sp_max_mana p"
  shows "1000 * unat (sp_mana (fold (\<lambda>delta. regenerate_mana delta regen) deltas p)) +
      unat (sp_mana_regen_progress (fold (\<lambda>delta. regenerate_mana delta regen) deltas p)) =
    1000 * unat (sp_mana p) + unat (sp_mana_regen_progress p) + unat regen * sum_list (map unat deltas)"
  using assms
proof (induction deltas arbitrary: p)
  case (Cons delta deltas)
  let ?q = "regenerate_mana delta regen p"
  have q: "sp_mana ?q \<le> sp_max_mana ?q" using Cons.prems(1) by (simp add: regenerate_mana_le)
  have "sp_mana ?q \<noteq> sp_max_mana ?q"
    using Cons.prems(2) regenerate_mana_full [of ?q regen deltas] by auto
  with q have "sp_mana ?q < sp_max_mana p" by simp
  with Cons.prems Cons.IH [OF q] regenerate_mana_step [of p delta regen] show ?case
    by (simp add: algebra_simps)
qed simp

lemma mana_regeneration_exact_example:
  "\<exists>p. sp_mana p = 10 \<and> sp_max_mana p = 50 \<and>
     1000 * unat (sp_mana (fold (\<lambda>delta. regenerate_mana delta 7) [50, 50, 250] p)) +
       unat (sp_mana_regen_progress (fold (\<lambda>delta. regenerate_mana delta 7) [50, 50, 250] p)) = 12450"
proof -
  let ?p = "example_player\<lparr>sp_mana := 10\<rparr>"
  have p: "sp_mana ?p \<le> sp_max_mana ?p" "sp_max_mana example_player = 50"
    "sp_mana_regen_progress example_player = 0"
    by (simp_all add: example_player_def spawn_player_def example_seed_def)
  have "sp_mana (fold (\<lambda>delta. regenerate_mana delta 7) [50, 50, 250] ?p) < sp_max_mana ?p"
    by (simp add: regenerate_mana_def p(2,3) min_def clamp_u16_def Let_def U16_MAX_def sat_add_def)
  from mana_regeneration_exact [OF p(1) this] have
    "1000 * unat (sp_mana (fold (\<lambda>delta. regenerate_mana delta 7) [50, 50, 250] ?p)) +
       unat (sp_mana_regen_progress (fold (\<lambda>delta. regenerate_mana delta 7) [50, 50, 250] ?p)) = 12450"
    using p(3) by (simp del: fold_simps)
  with p(2) show ?thesis by (intro exI [of _ ?p]) simp
qed

end
