(* ===== verification/Sim_Safety.thy ===== *)
theory Sim_Safety
  imports Sim_Run Sim_Properties
begin

text \<open>
  The simulation as a whole: ticks return, no sequence of operations on a new world panics or runs
  forever, moves end clear of obstacles, only the training reset revives, and what the pulse of a
  damaging summon hits.
\<close>

section \<open>Ticks\<close>

text \<open>C1: a tick of a well-formed world always returns (no panic, no endless loop), keeps the
  invariant, the map and the roster, and never makes a defeated player alive.\<close>

theorem tick_returns:
  assumes "wf_world w"
  shows "\<exists>es w'. tick delta_ms w = Some (es, w') \<and> wf_world w' \<and> fixed_world w' = fixed_world w \<and>
    living w' \<subseteq> living w"
  using goes_tick [OF assms] by (auto simp: goes_def continues_def)

theorem tick_returns_witness:
  "\<exists>es w'. tick 50 example_world = Some (es, w') \<and> wf_world w' \<and> fixed_world w' = fixed_world example_world \<and>
    living w' \<subseteq> living example_world"
  by (rule tick_returns [OF wf_example])

section \<open>Runs\<close>

datatype sim_operation =
    OpInput player_id movement_intent
  | OpAim player_id i16 i16
  | OpPrimary player_id
  | OpCast player_id u8 bool
  | OpCancelCast player_id
  | OpReset
  | OpTick u16

text \<open>A rejected operation leaves the world as it is; \<open>None\<close> is a panic or an endless loop.\<close>

definition perform :: "sim_operation \<Rightarrow> simulation_world \<Rightarrow> simulation_world option" where
  "perform operation w = (case operation of
     OpInput pid m \<Rightarrow> Some (case submit_input pid m w of Inr w' \<Rightarrow> w' | Inl _ \<Rightarrow> w)
   | OpAim pid x y \<Rightarrow> Some (case update_aim pid x y w of Inr (_, w') \<Rightarrow> w' | Inl _ \<Rightarrow> w)
   | OpPrimary pid \<Rightarrow> Some (case queue_primary_attack pid w of Inr w' \<Rightarrow> w' | Inl _ \<Rightarrow> w)
   | OpCast pid slot self \<Rightarrow> Some (case queue_cast_with_mode pid slot self w of Inr w' \<Rightarrow> w' | Inl _ \<Rightarrow> w)
   | OpCancelCast pid \<Rightarrow> Some (case cancel_active_cast pid w of Inr (_, w') \<Rightarrow> w' | Inl _ \<Rightarrow> w)
   | OpReset \<Rightarrow> Some (reset_training_session w)
   | OpTick delta_ms \<Rightarrow> map_option snd (tick delta_ms w))"

primrec perform_all :: "sim_operation list \<Rightarrow> simulation_world \<Rightarrow> simulation_world option" where
  "perform_all [] w = Some w"
| "perform_all (op # ops) w = do { w \<leftarrow> perform op w; perform_all ops w }"

lemma perform_ok:
  assumes w: "wf_world w"
  shows "\<exists>w'. perform op w = Some w' \<and> wf_world w' \<and> fixed_world w' = fixed_world w \<and>
    (op \<noteq> OpReset \<longrightarrow> living w' \<subseteq> living w)"
proof -
  note inputs = inputs_continue [OF w, unfolded continues_def]
  show ?thesis
  proof (cases op)
    case OpReset
    with reset_training_wf [OF w] show ?thesis by (simp add: perform_def)
  next
    case (OpTick delta)
    then show ?thesis using goes_tick [OF w, of delta] by (auto simp: perform_def goes_def continues_def)
  qed (use w inputs in \<open>auto simp: perform_def split: sum.split\<close>)
qed

lemma perform_all_ok:
  "wf_world w \<Longrightarrow> \<exists>w'. perform_all ops w = Some w' \<and> wf_world w' \<and> fixed_world w' = fixed_world w \<and>
    (OpReset \<notin> set ops \<longrightarrow> living w' \<subseteq> living w)"
proof (induction ops arbitrary: w)
  case (Cons op ops)
  from perform_ok [OF Cons.prems, of op] obtain w1 where s: "perform op w = Some w1" "wf_world w1"
    "fixed_world w1 = fixed_world w" "op \<noteq> OpReset \<longrightarrow> living w1 \<subseteq> living w" by blast
  from Cons.IH [OF s(2)] obtain w2 where r: "perform_all ops w1 = Some w2" "wf_world w2"
    "fixed_world w2 = fixed_world w1" "OpReset \<notin> set ops \<longrightarrow> living w2 \<subseteq> living w1" by blast
  from s r show ?case by (auto 4 3)
qed simp

text \<open>C2: on a new world whose seeds are well-formed (no status of their skills ticks every 0 ms or has
  no stack, no channel or pulse has the interval 0, no barrier a radius above 16000), whose arena is
  (at most 32001 wide and high, its obstacles within 16-bit coordinates, room for a player, ordered
  speed caps and steps that take time) and whose players are spawned where coordinates cannot wrap, any
  sequence of inputs, aims, attacks, casts, cancellations, training resets and ticks runs to its end
  without a panic or an endless loop and keeps the invariant and the roster; without a training
  reset no player who was defeated lives again.\<close>

theorem simulation_never_stuck:
  assumes "simulation_world_new seeds m c = Inr w" "list_all wf_seed seeds" "wf_arena (arena_of m c)"
    and "spawns_within (w_players w)"
  shows "\<exists>v w'. perform_all ops w = Some v \<and> wf_world v \<and> fixed_world v = fixed_world w \<and>
    perform_all later v = Some w' \<and> wf_world w' \<and> fixed_world w' = fixed_world w \<and>
    (OpReset \<notin> set later \<longrightarrow> living w' \<subseteq> living v)"
proof -
  from perform_all_ok [OF simulation_world_new_wf [OF assms], of ops] obtain v where
    v: "perform_all ops w = Some v" "wf_world v" "fixed_world v = fixed_world w" by blast
  with perform_all_ok [OF v(2), of later] show ?thesis by auto
qed

text \<open>A map with two anchors, a pillar and a training dummy.\<close>

definition example_map :: arena_map_definition where
  "example_map = \<lparr>am_map_id = [], am_width_tiles = 20, am_height_tiles = 20, am_tile_units = 50,
     am_width_units = 1000, am_height_units = 1000, am_objective_target_ms = 1000,
     am_footprint_mask = replicate 50 255, am_objective_mask = [], am_team_a_anchors = [(- 400, 0)],
     am_team_b_anchors = [(400, 0)],
     am_obstacles = [\<lparr>amo_kind = MapPillar, amo_center_x = 0, amo_center_y = 100, amo_half_width = 50, amo_half_height = 50\<rparr>],
     am_features = [\<lparr>amf_kind = MapTrainingDummyExecute, amf_center_x = 0, amf_center_y = - 200\<rparr>]\<rparr>"

lemma example_new:
  "\<exists>w. simulation_world_new [example_seed] example_map example_configuration = Inr w \<and>
     w_players w = [(PlayerId 1, spawn_player example_seed (- 400) 0 100 0)]"
  by (simp add: simulation_world_new_def spawn_position_def example_map_def example_seed_def Let_def
      example_configuration_def bt_contains_def spawn_map_features_def spawn_feature_def next_deployable_id_def)

theorem simulation_never_stuck_witness:
  "\<exists>w v w'. simulation_world_new [example_seed] example_map example_configuration = Inr w \<and>
     perform_all [OpInput (PlayerId 1) \<lparr>mi_x = 1, mi_y = 0\<rparr>, OpTick 50, OpCast (PlayerId 1) 1 False, OpTick 50] w = Some v \<and>
     perform_all [OpPrimary (PlayerId 1), OpTick 50] v = Some w' \<and> wf_world w' \<and> fixed_world w' = fixed_world w \<and>
     living w' \<subseteq> living v"
proof -
  obtain w where w: "simulation_world_new [example_seed] example_map example_configuration = Inr w"
    "w_players w = [(PlayerId 1, spawn_player example_seed (- 400) 0 100 0)]"
    using example_new by blast
  have "list_all wf_seed [example_seed]" by (simp add: wf_seed_def example_seed_def list_all_iff)
  moreover have "wf_arena (arena_of example_map example_configuration)"
    by (simp add: wf_arena_def arena_of_def example_map_def example_configuration_def wf_obstacle_def
        map_obstacle_to_sim_obstacle_def wf_caps_def)
  moreover have "spawns_within (w_players w)"
    by (simp add: w(2) spawns_within_def bt_values_def spawn_player_def wf_position_def)
  ultimately show ?thesis
    using simulation_never_stuck [OF w(1), of
        "[OpInput (PlayerId 1) \<lparr>mi_x = 1, mi_y = 0\<rparr>, OpTick 50, OpCast (PlayerId 1) 1 False, OpTick 50]"
        "[OpPrimary (PlayerId 1), OpTick 50]"] w(1)
    by (auto simp del: perform_all.simps)
qed

section \<open>Moves\<close>

text \<open>C11: the movement step of a tick leaves every player where it was unless nothing holds it (defeat,
  root, stun or sleep), and then it ends inside the arena and the footprint of the map and clear
  of every pillar and barrier; the players stay in the world, alive or not as before, with the
  statuses they had.\<close>

theorem moves_end_free:
  assumes "wf_world w" "move_players delta_ms w = Some (es, w')" "player_at w pid = Some p"
  shows "\<exists>p'. player_at w' pid = Some p' \<and> sp_alive p' = sp_alive p \<and> sp_statuses p' = sp_statuses p \<and>
    (player_pos p' = player_pos p \<or> \<not> is_held p \<and> stands_free w (combat_obstacles w) (player_pos p'))"
  using move_players_free [OF assms(1), of delta_ms] assms(2,3) by (auto simp: moves_free_def)

theorem moves_end_free_witness:
  "\<exists>es w' p'. move_players 50 example_world = Some (es, w') \<and> player_at w' (PlayerId 1) = Some p' \<and>
     (player_pos p' = (0, 0) \<or> stands_free example_world [] (player_pos p'))"
proof -
  obtain es w' where run: "move_players 50 example_world = Some (es, w')"
    using move_players_free [OF wf_example, of 50] by blast
  from moves_end_free [OF wf_example run example_player_at] obtain p' where
    "player_at w' (PlayerId 1) = Some p'"
    "player_pos p' = player_pos example_player \<or> stands_free example_world (combat_obstacles example_world) (player_pos p')"
    by blast
  moreover have "player_pos example_player = (0, 0)" "combat_obstacles example_world = []"
    by (simp_all add: example_player_def spawn_player_def combat_obstacles_def example_world_def)
  ultimately show ?thesis using run by simp
qed

section \<open>The pulse of a damaging summon\<close>

lemma in_map_filter: "y \<in> set (List.map_filter f xs) \<longleftrightarrow> (\<exists>x \<in> set xs. f x = Some y)"
  by (induction xs) (auto simp: map_filter_simps split: option.split)

lemma point_distance_sq_within:
  assumes "wf_position (fst a) (snd a)" "wf_position (fst b) (snd b)"
  shows "0 \<le> point_distance_sq a b" "point_distance_sq a b = 0 \<longleftrightarrow> a = b"
proof -
  let ?dx = "sint (fst a) - sint (fst b)" and ?dy = "sint (snd a) - sint (snd b)"
  have "\<bar>?dx\<bar> \<le> 32000" "\<bar>?dy\<bar> \<le> 32000" using assms by (auto simp: wf_position_def)
  then have "\<bar>?dx\<bar> * \<bar>?dx\<bar> \<le> 32000 * 32000" "\<bar>?dy\<bar> * \<bar>?dy\<bar> \<le> 32000 * 32000"
    by (intro mult_mono; simp)+
  then have le: "?dx * ?dx \<le> 32000 * 32000" "?dy * ?dy \<le> 32000 * 32000"
    unfolding abs_mult_self_eq .
  have "0 \<le> ?dx * ?dx" "0 \<le> ?dy * ?dy" by simp_all
  with le have eq: "point_distance_sq a b = ?dx * ?dx + ?dy * ?dy"
    unfolding point_distance_sq_def Let_def by (intro wrap_i32_id) linarith+
  then show "0 \<le> point_distance_sq a b" by simp
  show "point_distance_sq a b = 0 \<longleftrightarrow> a = b"
    unfolding eq by (auto simp: sum_squares_eq_zero_iff prod_eq_iff intro: signed_word_eqI)
qed

lemma first_min_from_mem:
  "\<exists>d'. (first_min_from t d xs, d') \<in> set ((t, d) # xs) \<and> d' \<le> d \<and> (\<forall>(t'', d'') \<in> set xs. d' \<le> d'')"
proof (induction t d xs rule: first_min_from.induct)
  case (2 t d t' d' xs)
  then show ?case by (cases "d' < d") fastforce+
qed simp

lemma first_min_least:
  assumes "(x, k) \<in> set xs"
  shows "\<exists>t d. first_min xs = Some t \<and> (t, d) \<in> set xs \<and> d \<le> k"
proof (cases xs rule: first_min.cases)
  case (2 t d ys)
  with first_min_from_mem [of t d ys] assms show ?thesis by fastforce
qed (use assms in simp)

text \<open>The search for the target of a damaging summon includes the summon itself, at distance
  zero: it never finds anything away from the summon, so an enemy in range is hit only while it
  stands exactly on the summon.\<close>

lemma summon_hits_own_place:
  assumes "wf_world w" "d \<in> set (w_deployables w)" "wf_position (dp_x d) (dp_y d)"
    and "\<forall>c \<in> set (w_deployables w). wf_position (dp_x c) (dp_y c)"
    and "uint reach + uint (dp_radius d) \<le> 46340"
  shows "\<exists>t. find_closest_target_near_point w (dp_owner d) (dp_x d, dp_y d) reach True = Some t \<and>
    (case t of
       TargetPlayer pid \<Rightarrow> \<exists>q. player_at w pid = Some q \<and> player_pos q = (dp_x d, dp_y d)
     | TargetDeployable did \<Rightarrow> \<exists>c \<in> set (w_deployables w). dp_id c = did \<and> (dp_x c, dp_y c) = (dp_x d, dp_y d))"
proof -
  let ?p = "(dp_x d, dp_y d)"
  define ps where "ps = List.map_filter (\<lambda>(pid, q).
      if pid \<noteq> dp_owner d \<and> sp_alive q \<and> can_enemy_target_player w (dp_owner d) pid \<and>
        point_distance_sq ?p (sp_x q, sp_y q) \<le> radius_sq (player_overlap_radius w reach)
      then Some (TargetPlayer pid, point_distance_sq ?p (sp_x q, sp_y q)) else None) (w_players w)"
  define ds where "ds = List.map_filter (\<lambda>d.
      if point_distance_sq ?p (dp_x d, dp_y d) \<le> radius_sq (deployable_overlap_radius reach (dp_radius d))
      then Some (TargetDeployable (dp_id d), point_distance_sq ?p (dp_x d, dp_y d)) else None) (w_deployables w)"
  have zero: "point_distance_sq ?p ?p = 0" using point_distance_sq_within(2) [of ?p ?p] assms(3) by simp
  have "0 \<le> radius_sq (deployable_overlap_radius reach (dp_radius d))"
  proof -
    let ?r = "uint (sat_add reach (dp_radius d))"
    have "?r \<le> 46340" 
      using assms(5) unat_sat_add [of reach "dp_radius d"] unfolding uint_nat by linarith
    then have "?r * ?r \<le> 46340 * 46340" by (intro mult_mono) simp_all
    moreover have "0 \<le> ?r * ?r" by simp
    ultimately show ?thesis
      unfolding radius_sq_def deployable_overlap_radius_def by (subst wrap_i32_id) linarith+
  qed
  with zero have "(TargetDeployable (dp_id d), 0) \<in> set ds"
    unfolding ds_def in_map_filter by (intro bexI [OF _ assms(2)]) simp
  then have "(TargetDeployable (dp_id d), 0) \<in> set (ps @ ds)" by simp
  from first_min_least [OF this] obtain t k where
    t: "first_min (ps @ ds) = Some t" "(t, k) \<in> set (ps @ ds)" "k \<le> 0" by blast
  have inv: "bt_inv (w_players w)" using assms(1) by (simp add: wf_world_def)
  have near: "point_distance_sq ?p q \<le> 0 \<Longrightarrow> wf_position (fst q) (snd q) \<Longrightarrow> q = ?p" for q
    using point_distance_sq_within [of ?p q] assms(3) by force
  have "case t of
       TargetPlayer pid \<Rightarrow> \<exists>q. player_at w pid = Some q \<and> player_pos q = ?p
     | TargetDeployable did \<Rightarrow> \<exists>c \<in> set (w_deployables w). dp_id c = did \<and> (dp_x c, dp_y c) = ?p"
  proof (cases "(t, k) \<in> set ps")
    case True
    then obtain pid q where q: "(pid, q) \<in> set (w_players w)" "t = TargetPlayer pid"
      "k = point_distance_sq ?p (player_pos q)"
      by (auto simp: ps_def in_map_filter split: if_splits)
    then have "player_at w pid = Some q" using btree.lookup_mem [OF inv] by simp
    moreover from this have "player_pos q = ?p"
      using near [of "player_pos q"] t(3) q(3) wf_world_player [OF assms(1)] by (simp add: wf_player_def wf_place_def)
    ultimately show ?thesis using q(2) by simp
  next
    case False
    then have "(t, k) \<in> set ds" using t(2) by simp
    then obtain c where "c \<in> set (w_deployables w)" "t = TargetDeployable (dp_id c)"
      "k = point_distance_sq ?p (dp_x c, dp_y c)"
      by (auto simp: ds_def in_map_filter split: if_splits)
    then show ?thesis using near [of "(dp_x c, dp_y c)"] t(3) assms(4) by auto
  qed
  moreover have "find_closest_target_near_point w (dp_owner d) ?p reach True = first_min (ps @ ds)"
    by (simp add: find_closest_target_near_point_def Let_def ps_def ds_def)
  ultimately show ?thesis using t(1) by simp
qed

text \<open>The player of the small world in reach of an enemy's summon, but not on it.\<close>

definition example_summon :: deployable_state where
  "example_summon = \<lparr>dp_id = 7, dp_owner = PlayerId 2, dp_slot = 3, dp_team = TeamB, dp_kind = DkSummon,
     dp_x = 100, dp_y = 0, dp_radius = 20, dp_hit_points = 60, dp_max_hit_points = 60, dp_remaining_ms = 5000,
     dp_blocks_movement = False, dp_blocks_projectiles = False,
     dp_behavior = DbSummon 300 1000 0 SkillShot (EffectPayload Damage 10 None 0 0 None None None)\<rparr>"

lemma summon_hits_own_place_example:
  "find_closest_target_near_point (example_world\<lparr>w_deployables := [example_summon]\<rparr>) (PlayerId 2) (100, 0) 300 True =
     Some (TargetDeployable 7)"
proof -
  let ?w = "example_world\<lparr>w_deployables := [example_summon]\<rparr>"
  have w: "wf_world ?w"
    by (rule continues_wf [OF continues_deployables [OF wf_example]])
      (simp add: wf_deployable_def example_summon_def)
  have "wf_position (dp_x example_summon) (dp_y example_summon)"
    by (simp add: example_summon_def wf_position_def)
  moreover from this have "\<forall>c \<in> set (w_deployables ?w). wf_position (dp_x c) (dp_y c)" by simp
  moreover have "uint (300 :: u16) + uint (dp_radius example_summon) \<le> 46340" by (simp add: example_summon_def)
  ultimately obtain t where t: "find_closest_target_near_point ?w (dp_owner example_summon)
      (dp_x example_summon, dp_y example_summon) 300 True = Some t"
    "case t of
       TargetPlayer pid \<Rightarrow> \<exists>q. player_at ?w pid = Some q \<and> player_pos q = (dp_x example_summon, dp_y example_summon)
     | TargetDeployable did \<Rightarrow> \<exists>c \<in> set (w_deployables ?w). dp_id c = did \<and>
         (dp_x c, dp_y c) = (dp_x example_summon, dp_y example_summon)"
    using summon_hits_own_place [OF w, of example_summon 300] by auto
  have "t = TargetDeployable 7"
  proof (cases t)
    case (TargetPlayer pid)
    with t(2) show ?thesis
      by (auto simp: example_world_def example_summon_def example_player_def spawn_player_def split: if_splits)
  qed (use t(2) in \<open>simp add: example_summon_def\<close>)
  with t(1) show ?thesis by (simp add: example_summon_def)
qed

lemma find_modify_first:
  "P y \<Longrightarrow> find P (modify_first P (\<lambda>_. y) xs) = map_option (\<lambda>_. y) (find P xs)"
  by (induction xs) auto

text \<open>What a pulse of a summon or an aura does to the deployable itself is lost: the copy taken
  before the pulse is written back, so a survivor has the hit points it had.\<close>

lemma pulse_keeps_own_hit_points:
  assumes "deployable_at w did = Some d" "\<nexists>p. dp_behavior d = DbTrap p"
    and "advance_deployable delta_ms did w = Some (es, False, w')"
  shows "case deployable_at w' did of Some c \<Rightarrow> dp_hit_points c = dp_hit_points d | None \<Rightarrow> True"
proof -
  define d1 where "d1 = (if is_persistent d then d else d\<lparr>dp_remaining_ms := sat_sub (dp_remaining_ms d) delta_ms\<rparr>)"
  have id: "dp_id d = did" using assms(1) by (auto simp: deployable_at_def find_Some_iff)
  have d1: "dp_id d1 = did" "dp_hit_points d1 = dp_hit_points d" "dp_behavior d1 = dp_behavior d"
    by (simp_all add: d1_def id)
  have expired: "expire_deployable c v \<noteq> Some (es, False, w')" for c v
    by (auto simp: expire_deployable_def bind_eq_Some_conv)
  have act: "act_deployable delta_ms d1 w = Some (es, False, w')"
    using assms(1,3) expired by (auto simp: advance_deployable_def d1_def Let_def split: if_splits)
  have "\<exists>c v. w' = store_deployable c v \<and> dp_id c = did \<and> dp_hit_points c = dp_hit_points d"
    using act assms(2) d1 expired
    by (auto simp: act_deployable_def pulse_aura_def bind_eq_Some_conv
        split: deployable_behavior.splits option.splits if_splits)
  then show ?thesis
    by (auto simp: store_deployable_def deployable_at_def find_modify_first split: option.split)
qed

lemma pulse_keeps_own_hit_points_example:
  "\<exists>es w'. advance_deployable 1000 7 (example_world\<lparr>w_deployables := [example_summon]\<rparr>) = Some (es, False, w') \<and>
     (case deployable_at w' 7 of Some c \<Rightarrow> dp_hit_points c = 60 | None \<Rightarrow> True)"
proof -
  let ?w = "example_world\<lparr>w_deployables := [example_summon]\<rparr>"
  have w: "wf_world ?w"
    by (rule continues_wf [OF continues_deployables [OF wf_example]])
      (simp add: wf_deployable_def example_summon_def)
  have at: "deployable_at ?w 7 = Some example_summon" by (simp add: deployable_at_def example_summon_def)
  obtain es b w' where run: "advance_deployable 1000 7 ?w = Some (es, b, w')"
    using goes_advance_deployable [OF w, of 1000 7] unfolding goes_with_def by blast
  have alive: "\<not> is_persistent example_summon" "sat_sub (dp_remaining_ms example_summon) 1000 \<noteq> 0"
    "dp_hit_points example_summon \<noteq> 0"
    by (simp_all add: is_persistent_def is_training_dummy_def is_toggleable_aura_def example_summon_def sat_sub_def)
  have "act_deployable 1000 (example_summon\<lparr>dp_remaining_ms := sat_sub (dp_remaining_ms example_summon) 1000\<rparr>) ?w =
      Some (es, b, w')"
    using run at alive by (simp add: advance_deployable_def Let_def)
  then have "\<not> b"
    by (auto simp: act_deployable_def example_summon_def bind_eq_Some_conv)
  with run have "advance_deployable 1000 7 ?w = Some (es, False, w')" by simp
  moreover have "\<nexists>p. dp_behavior example_summon = DbTrap p" "dp_hit_points example_summon = 60"
    by (simp_all add: example_summon_def)
  ultimately show ?thesis using pulse_keeps_own_hit_points [OF at, of 1000 es w'] by (auto split: option.splits)
qed

end
