(* ===== verification/Content_Types.thy ===== *)
theory Content_Types
  imports Sim_Types
begin

text \<open>
  The data of the content crate (\<open>game_content\<close>) that the simulation does not use itself: the
  errors of loading, the mechanics registry with its schemas, the skill catalogue
  (\<open>model.rs\<close>), and the documents \<open>serde\<close> reads out of the YAML files (\<open>yaml.rs\<close>), each as a
  record with the fields of the source. Behaviours, payloads, maps and the simulation
  configuration are declared in \<open>Sim_Types\<close>.
\<close>

section \<open>Errors\<close>

datatype content_error =
    ContentIo (ce_path: rstring) (ce_message: rstring)
  | ContentParse (ce_source: rstring) (ce_message: rstring)
  | ContentValidation (ce_source: rstring) (ce_message: rstring)

fun content_error_text :: "content_error \<Rightarrow> rstring" where
  "content_error_text (ContentIo path message) =
     lit ''failed to read content file '' @ path @ lit '': '' @ message"
| "content_error_text (ContentParse source message) =
     lit ''failed to parse '' @ source @ lit '': '' @ message"
| "content_error_text (ContentValidation source message) =
     lit ''invalid content in '' @ source @ lit '': '' @ message"

abbreviation invalid :: "rstring \<Rightarrow> rstring \<Rightarrow> content_error + 'a" where
  "invalid source message \<equiv> Inl (ContentValidation source message)"

definition quoted :: "rstring \<Rightarrow> rstring" where
  "quoted s = [39] @ s @ [39]"

section \<open>The mechanics registry\<close>

datatype mechanic_category = CategoryBehavior | CategoryStatus

datatype numeric_field_rule =
  NumericRequired | NumericOptional | NumericNonNegative | NumericZero | NumericForbidden

datatype payload_field_rule = PayloadRequired | PayloadOptional | PayloadForbidden

datatype stack_rule = StackPositive | StackOne

record behavior_schema =
  bs_numeric_fields :: "(rstring, numeric_field_rule) btree_map"
  bs_payload :: payload_field_rule
  bs_cast_start_payload :: payload_field_rule
  bs_cast_end_payload :: payload_field_rule
  bs_allowed_effects :: "skill_effect_kind list"

record status_schema =
  ss_numeric_fields :: "(rstring, numeric_field_rule) btree_map"
  ss_max_stacks :: stack_rule
  ss_expire_payload :: payload_field_rule
  ss_dispel_payload :: payload_field_rule

record mechanic_definition =
  mech_id :: rstring
  mech_label :: rstring
  mech_category :: mechanic_category
  mech_implemented :: bool
  mech_inspiration :: rstring
  mech_notes :: rstring
  mech_behavior_schema :: "behavior_schema option"
  mech_status_schema :: "status_schema option"

record mechanic_catalog =
  mc_behaviors :: "mechanic_definition list"
  mc_statuses :: "mechanic_definition list"

definition catalog_behavior :: "mechanic_catalog \<Rightarrow> rstring \<Rightarrow> mechanic_definition option" where
  "catalog_behavior m ident = find (\<lambda>mechanic. mech_id mechanic = ident) (mc_behaviors m)"

definition catalog_status :: "mechanic_catalog \<Rightarrow> rstring \<Rightarrow> mechanic_definition option" where
  "catalog_status m ident = find (\<lambda>mechanic. mech_id mechanic = ident) (mc_statuses m)"

section \<open>Classes and the skill catalogue\<close>

record class_definition =
  cd_tree :: skill_tree
  cd_melee :: melee_definition
  cd_skills :: "skill_definition list"

record skill_catalog =
  cat_by_choice :: "(skill_tree \<times> u8, skill_definition) btree_map"
  cat_melee_by_tree :: "(skill_tree, melee_definition) btree_map"

definition catalog_resolve :: "skill_catalog \<Rightarrow> skill_choice \<Rightarrow> skill_definition option" where
  "catalog_resolve c choice = bt_get (cat_by_choice c) (tree choice, tier choice)"

definition catalog_melee_for :: "skill_catalog \<Rightarrow> skill_tree \<Rightarrow> melee_definition option" where
  "catalog_melee_for c t = bt_get (cat_melee_by_tree c) t"

definition catalog_all :: "skill_catalog \<Rightarrow> skill_definition list" where
  "catalog_all c = bt_values (cat_by_choice c)"

definition catalog_trees :: "skill_catalog \<Rightarrow> skill_tree list" where
  "catalog_trees c = bt_keys (cat_melee_by_tree c)"

section \<open>YAML documents\<close>

datatype numeric_rule_yaml = RuleRequired | RuleOptional | RuleNonNegative | RuleZero | RuleForbidden
datatype payload_rule_yaml = PayloadRuleRequired | PayloadRuleOptional | PayloadRuleForbidden
datatype stack_rule_yaml = StackRulePositive | StackRuleOne

record mechanic_schema_yaml =
  msy_numeric_fields :: "(rstring, numeric_rule_yaml) btree_map"
  msy_payload :: payload_rule_yaml
  msy_cast_start_payload :: payload_rule_yaml
  msy_cast_end_payload :: payload_rule_yaml
  msy_expire_payload :: payload_rule_yaml
  msy_dispel_payload :: payload_rule_yaml
  msy_allowed_effects :: "rstring list"
  msy_max_stacks :: stack_rule_yaml

record mechanic_yaml =
  my_id :: rstring
  my_label :: rstring
  my_implemented :: bool
  my_inspiration :: rstring
  my_notes :: rstring
  my_schema :: "mechanic_schema_yaml option"

record mechanics_file_yaml =
  mfy_behaviors :: "mechanic_yaml list"
  mfy_statuses :: "mechanic_yaml list"

record dispel_yaml =
  dy_scope :: rstring
  dy_max_statuses :: "u8 option"

datatype effect_payload_yaml =
  EffectPayloadYaml
    (py_kind: rstring)
    (py_amount: "u16 option")
    (py_amount_min: "u16 option")
    (py_amount_max: "u16 option")
    (py_crit_chance_bps: "u16 option")
    (py_crit_multiplier_bps: "u16 option")
    (py_status: "status_yaml option")
    (py_interrupt_silence_duration_ms: "u16 option")
    (py_dispel: "dispel_yaml option")
and status_yaml =
  StatusYaml
    (sy_kind: rstring)
    (sy_duration_ms: u16)
    (sy_tick_interval_ms: "u16 option")
    (sy_magnitude: u16)
    (sy_max_stacks: "u8 option")
    (sy_trigger_duration_ms: "u16 option")
    (sy_expire_payload: "effect_payload_yaml option")
    (sy_dispel_payload: "effect_payload_yaml option")

record melee_yaml =
  mly_id :: rstring
  mly_name :: rstring
  mly_description :: rstring
  mly_audio_cue_id :: "rstring option"
  mly_cooldown_ms :: u16
  mly_range :: u16
  mly_radius :: u16
  mly_effect :: rstring
  mly_payload :: effect_payload_yaml

record proc_reset_yaml =
  pry_trigger :: rstring
  pry_source_skill_ids :: "rstring list option"
  pry_reset_skill_ids :: "rstring list option"
  pry_instacast_skill_ids :: "rstring list option"
  pry_instacast_costs_mana :: "bool option"
  pry_instacast_starts_cooldown :: "bool option"
  pry_internal_cooldown_ms :: "u16 option"

record skill_behavior_yaml =
  by_kind :: rstring
  by_effect :: rstring
  by_cooldown_ms :: "u16 option"
  by_cast_time_ms :: "u16 option"
  by_mana_cost :: "u16 option"
  by_range :: "u16 option"
  by_radius :: "u16 option"
  by_distance :: "u16 option"
  by_speed :: "u16 option"
  by_impact_radius :: "u16 option"
  by_duration_ms :: "u16 option"
  by_hit_points :: "u16 option"
  by_tick_interval_ms :: "u16 option"
  by_player_speed_bps :: "u16 option"
  by_projectile_speed_bps :: "u16 option"
  by_cooldown_bps :: "u16 option"
  by_cast_time_bps :: "u16 option"
  by_proc_reset :: "proc_reset_yaml option"
  by_toggleable :: "bool option"
  by_cast_start_payload :: "effect_payload_yaml option"
  by_cast_end_payload :: "effect_payload_yaml option"
  by_payload :: "effect_payload_yaml option"

record skill_yaml =
  sky_tier :: u8
  sky_id :: rstring
  sky_name :: rstring
  sky_description :: rstring
  sky_audio_cue_id :: "rstring option"
  sky_behavior :: skill_behavior_yaml

record skill_file_yaml =
  sfy_tree :: rstring
  sfy_melee :: melee_yaml
  sfy_skills :: "skill_yaml list"

section \<open>Constants and names\<close>

definition MAX_MAP_DIMENSION_TILES :: nat where "MAX_MAP_DIMENSION_TILES = 128"
definition MAX_SKILL_TEXT_LEN :: nat where "MAX_SKILL_TEXT_LEN = 120"
definition REQUIRED_TIERS :: "u8 list" where "REQUIRED_TIERS = [1, 2, 3, 4, 5]"

definition BEHAVIOR_NUMERIC_FIELDS :: "rstring list" where
  "BEHAVIOR_NUMERIC_FIELDS = map lit
     [''cooldown_ms'', ''cast_time_ms'', ''mana_cost'', ''range'', ''radius'', ''distance'', ''speed'',
      ''impact_radius'', ''duration_ms'', ''hit_points'', ''tick_interval_ms'', ''player_speed_bps'',
      ''projectile_speed_bps'', ''cooldown_bps'', ''cast_time_bps'']"

definition STATUS_NUMERIC_FIELDS :: "rstring list" where
  "STATUS_NUMERIC_FIELDS = map lit
     [''duration_ms'', ''tick_interval_ms'', ''magnitude'', ''trigger_duration_ms'']"

text \<open>The names \<open>derive(Debug)\<close> gives the constructors.\<close>

fun category_debug :: "mechanic_category \<Rightarrow> rstring" where
  "category_debug CategoryBehavior = lit ''Behavior''"
| "category_debug CategoryStatus = lit ''Status''"

fun effect_debug :: "skill_effect_kind \<Rightarrow> rstring" where
  "effect_debug FxMeleeSwing = lit ''MeleeSwing''"
| "effect_debug FxSkillShot = lit ''SkillShot''"
| "effect_debug FxDashTrail = lit ''DashTrail''"
| "effect_debug FxBurst = lit ''Burst''"
| "effect_debug FxNova = lit ''Nova''"
| "effect_debug FxBeam = lit ''Beam''"
| "effect_debug FxHitSpark = lit ''HitSpark''"

fun status_debug :: "status_kind \<Rightarrow> rstring" where
  "status_debug Poison = lit ''Poison''"
| "status_debug Hot = lit ''Hot''"
| "status_debug Chill = lit ''Chill''"
| "status_debug Root = lit ''Root''"
| "status_debug Haste = lit ''Haste''"
| "status_debug Silence = lit ''Silence''"
| "status_debug Stun = lit ''Stun''"
| "status_debug Sleep = lit ''Sleep''"
| "status_debug Shield = lit ''Shield''"
| "status_debug Stealth = lit ''Stealth''"
| "status_debug Reveal = lit ''Reveal''"
| "status_debug Fear = lit ''Fear''"
| "status_debug HealingReduction = lit ''HealingReduction''"

end
