(* ===== verification/Content_Payload.thy ===== *)
theory Content_Payload
  imports Content_Types Sim_Invariant
begin

text \<open>
  Validation of the values inside a skill file (\<open>skills/mod.rs\<close>, second half of
  \<open>skills/behavior.rs\<close>): texts, effect names, numeric fields against the rules of the
  mechanics registry, and payloads with the statuses they apply, which hold payloads again.
  \<open>valid_payload\<close> says which payloads are authorable; the lemmas show that the parser accepts
  exactly these: what it accepts is valid, and every valid payload written back as YAML is
  read as itself.
\<close>

section \<open>Texts and names\<close>

definition validate_skill_text :: "rstring \<Rightarrow> rstring \<Rightarrow> rstring \<Rightarrow> content_error + unit" where
  "validate_skill_text source field value =
     (if trim value = [] then invalid source (field @ lit '' must not be empty'')
      else if str_len value > MAX_SKILL_TEXT_LEN then
        invalid source (field @ lit '' length '' @ show_nat (str_len value) @ lit '' exceeds maximum '' @
          show_nat MAX_SKILL_TEXT_LEN)
      else Inr ())"

definition portable_char :: "rchar \<Rightarrow> bool" where
  "portable_char ch \<longleftrightarrow> is_ascii_lowercase ch \<or> is_ascii_digit ch \<or> ch = 95 \<or> ch = 45"

definition validate_audio_cue_id :: "rstring \<Rightarrow> rstring \<Rightarrow> rstring \<Rightarrow> content_error + unit" where
  "validate_audio_cue_id source field value =
     and_then (validate_skill_text source field value) (\<lambda>_.
       if list_all portable_char value then Inr ()
       else invalid source (field @ lit '' must use lowercase ascii letters, digits, '' @ quoted (lit ''_'') @
         lit '' or '' @ quoted (lit ''-'') @ lit '' so it stays portable across backend content and the frontend asset registry''))"

definition validate_skill_reference_id :: "rstring \<Rightarrow> rstring \<Rightarrow> rstring \<Rightarrow> content_error + unit" where
  "validate_skill_reference_id source field value =
     (if trim value = [] then invalid source (field @ lit '' entries must not be empty'')
      else if list_all portable_char value then Inr ()
      else invalid source (field @ lit '' entries must use lowercase ascii letters, digits, '' @
        quoted (lit ''_'') @ lit '' or '' @ quoted (lit ''-'')))"

definition parse_effect_kind :: "rstring \<Rightarrow> rstring \<Rightarrow> content_error + skill_effect_kind" where
  "parse_effect_kind source raw =
     (if raw = lit ''melee_swing'' then Inr FxMeleeSwing
      else if raw = lit ''skill_shot'' then Inr FxSkillShot
      else if raw = lit ''dash_trail'' then Inr FxDashTrail
      else if raw = lit ''burst'' then Inr FxBurst
      else if raw = lit ''nova'' then Inr FxNova
      else if raw = lit ''beam'' then Inr FxBeam
      else if raw = lit ''hit_spark'' then Inr FxHitSpark
      else invalid source (lit ''unknown effect kind '' @ quoted raw))"

definition parse_payload_kind :: "rstring \<Rightarrow> rstring \<Rightarrow> content_error + combat_value_kind" where
  "parse_payload_kind source raw =
     (if raw = lit ''damage'' then Inr Damage
      else if raw = lit ''heal'' then Inr Heal
      else invalid source (lit ''unknown payload kind '' @ quoted raw))"

definition parse_status_kind :: "rstring \<Rightarrow> rstring \<Rightarrow> content_error + status_kind" where
  "parse_status_kind source raw =
     (if raw = lit ''poison'' then Inr Poison
      else if raw = lit ''hot'' then Inr Hot
      else if raw = lit ''chill'' then Inr Chill
      else if raw = lit ''root'' then Inr Root
      else if raw = lit ''haste'' then Inr Haste
      else if raw = lit ''silence'' then Inr Silence
      else if raw = lit ''stun'' then Inr Stun
      else if raw = lit ''sleep'' then Inr Sleep
      else if raw = lit ''shield'' then Inr Shield
      else if raw = lit ''stealth'' then Inr Stealth
      else if raw = lit ''reveal'' then Inr Reveal
      else if raw = lit ''fear'' then Inr Fear
      else if raw = lit ''healing_reduction'' then Inr HealingReduction
      else invalid source (lit ''unknown status kind '' @ quoted raw))"

section \<open>Numeric fields\<close>

definition schema_numeric_rule :: "(rstring, numeric_field_rule) btree_map \<Rightarrow> rstring \<Rightarrow> numeric_field_rule" where
  "schema_numeric_rule numeric_fields field =
     (case bt_get numeric_fields field of Some r \<Rightarrow> r | None \<Rightarrow> NumericForbidden)"

fun read_numeric_field ::
  "rstring \<Rightarrow> rstring \<Rightarrow> u16 option \<Rightarrow> numeric_field_rule \<Rightarrow> content_error + u16 option" where
  "read_numeric_field source field (Some v) NumericRequired =
     (if v = 0 then invalid source (field @ lit '' must be greater than zero'') else Inr (Some v))"
| "read_numeric_field source field (Some v) NumericNonNegative = Inr (Some v)"
| "read_numeric_field source field None NumericRequired = invalid source (field @ lit '' is required'')"
| "read_numeric_field source field None NumericNonNegative = invalid source (field @ lit '' is required'')"
| "read_numeric_field source field (Some v) NumericOptional =
     (if v = 0 then invalid source (field @ lit '' must be greater than zero when provided'')
      else Inr (Some v))"
| "read_numeric_field source field None NumericOptional = Inr None"
| "read_numeric_field source field (Some v) NumericZero =
     (if v = 0 then Inr (Some 0) else invalid source (field @ lit '' must be zero for this mechanic''))"
| "read_numeric_field source field None NumericZero = Inr (Some 0)"
| "read_numeric_field source field (Some v) NumericForbidden =
     invalid source (field @ lit '' is not valid for this mechanic'')"
| "read_numeric_field source field None NumericForbidden = Inr None"

definition require_present_u16 :: "rstring \<Rightarrow> rstring \<Rightarrow> u16 option \<Rightarrow> content_error + u16" where
  "require_present_u16 source field value =
     (case value of
        Some v \<Rightarrow> if v = 0 then invalid source (field @ lit '' must be greater than zero'') else Inr v
      | None \<Rightarrow> invalid source (field @ lit '' is required''))"

definition require_present_u16_allow_zero :: "rstring \<Rightarrow> rstring \<Rightarrow> u16 option \<Rightarrow> content_error + u16" where
  "require_present_u16_allow_zero source field value =
     (case value of Some v \<Rightarrow> Inr v | None \<Rightarrow> invalid source (field @ lit '' is required''))"

definition require_positive_u16 :: "rstring \<Rightarrow> rstring \<Rightarrow> u16 option \<Rightarrow> content_error + u16" where
  "require_positive_u16 source field value =
     (case value of
        Some v \<Rightarrow> if v = 0 then invalid source (field @ lit '' must be greater than zero'') else Inr v
      | None \<Rightarrow> invalid source (field @ lit '' is required''))"

definition validate_max_stacks :: "rstring \<Rightarrow> status_kind \<Rightarrow> u8 \<Rightarrow> stack_rule \<Rightarrow> content_error + u8" where
  "validate_max_stacks source kind max_stacks r =
     (case r of
        StackPositive \<Rightarrow>
          if max_stacks = 0
          then invalid source (lit ''status '' @ quoted (status_debug kind) @ lit '' max_stacks must be greater than zero'')
          else Inr max_stacks
      | StackOne \<Rightarrow>
          if max_stacks \<noteq> 1
          then invalid source (lit ''status '' @ quoted (status_debug kind) @ lit '' max_stacks must be exactly one'')
          else Inr 1)"

section \<open>Payloads\<close>

definition parse_dispel :: "rstring \<Rightarrow> rstring \<Rightarrow> dispel_yaml \<Rightarrow> content_error + dispel_definition" where
  "parse_dispel source field y =
     and_then
       (if dy_scope y = lit ''positive'' then Inr DispelPositive
        else if dy_scope y = lit ''negative'' then Inr DispelNegative
        else if dy_scope y = lit ''all'' then Inr DispelAll
        else invalid source (field @ lit ''.dispel.scope has unknown value '' @ quoted (dy_scope y)))
       (\<lambda>scope. let max_statuses = case dy_max_statuses y of Some n \<Rightarrow> n | None \<Rightarrow> 1 in
          if max_statuses = 0 then invalid source (field @ lit ''.dispel.max_statuses must be greater than zero'')
          else Inr \<lparr>dd_scope = scope, dd_max_statuses = max_statuses\<rparr>)"

text \<open>The amount, the upper end of its range, and whether the payload has a direct amount.\<close>

definition parse_payload_amount ::
  "rstring \<Rightarrow> rstring \<Rightarrow> effect_payload_yaml \<Rightarrow> content_error + (u16 \<times> u16 option \<times> bool)" where
  "parse_payload_amount source field y =
     (if py_amount y \<noteq> None \<and> (py_amount_min y \<noteq> None \<or> py_amount_max y \<noteq> None)
      then invalid source (field @ lit '' cannot mix amount with amount_min/amount_max'')
      else case (py_amount y, py_amount_min y, py_amount_max y) of
        (Some amount, None, None) \<Rightarrow> Inr (amount, None, 0 < amount)
      | (None, Some lo, Some hi) \<Rightarrow>
          if hi < lo
          then invalid source (field @ lit ''.amount_max must be greater than or equal to amount_min'')
          else Inr (lo, Some hi, True)
      | (None, None, None) \<Rightarrow> Inr (0, None, False)
      | _ \<Rightarrow> invalid source (field @ lit ''.amount_min and amount_max must be provided together''))"

definition parse_payload_crit ::
  "rstring \<Rightarrow> rstring \<Rightarrow> effect_payload_yaml \<Rightarrow> bool \<Rightarrow> content_error + (u16 \<times> u16)" where
  "parse_payload_crit source field y has_direct_amount =
     and_then
       (case py_crit_chance_bps y of
          Some v \<Rightarrow> if v = 0
            then invalid source (field @ lit ''.crit_chance_bps must be greater than zero when provided'')
            else Inr v
        | None \<Rightarrow> Inr 0)
       (\<lambda>chance.
          if py_crit_multiplier_bps y \<noteq> None \<and> chance = 0
          then invalid source (field @ lit ''.crit_multiplier_bps requires crit_chance_bps'')
          else and_then
            (case py_crit_multiplier_bps y of
               Some v \<Rightarrow> if v < 10000
                 then invalid source (field @ lit ''.crit_multiplier_bps must be at least 10000 so crits do not reduce output'')
                 else Inr v
             | None \<Rightarrow> Inr (if 0 < chance then 15000 else 0))
            (\<lambda>multiplier.
               if 0 < chance \<and> \<not> has_direct_amount
               then invalid source (field @ lit '' crit settings require a direct amount or amount range'')
               else Inr (chance, multiplier)))"

definition parse_interrupt :: "rstring \<Rightarrow> rstring \<Rightarrow> u16 option \<Rightarrow> content_error + u16 option" where
  "parse_interrupt source field value =
     (case value of
        Some v \<Rightarrow> if v = 0
          then invalid source (field @ lit ''.interrupt_silence_duration_ms must be greater than zero'')
          else Inr (Some v)
      | None \<Rightarrow> Inr None)"

text \<open>\<open>value.map(f).transpose()\<close>\<close>

definition map_transpose :: "('a \<Rightarrow> 'e + 'b) \<Rightarrow> 'a option \<Rightarrow> 'e + 'b option" where
  "map_transpose f value =
     (case value of None \<Rightarrow> Inr None | Some v \<Rightarrow> and_then (f v) (\<lambda>r. Inr (Some r)))"

lemma map_transpose_cong [fundef_cong]:
  assumes "v = w" and "\<And>x. w = Some x \<Longrightarrow> f x = g x"
  shows "map_transpose f v = map_transpose g w"
  unfolding assms(1) using assms(2) by (cases w) (simp_all add: map_transpose_def)

text \<open>The schema of a status the registry names.\<close>

definition status_schema_of :: "rstring \<Rightarrow> rstring \<Rightarrow> mechanic_catalog \<Rightarrow> content_error + status_schema" where
  "status_schema_of source kind mechanics =
     (case catalog_status mechanics kind of
        None \<Rightarrow> invalid source (lit ''unknown status kind '' @ quoted kind)
      | Some d \<Rightarrow>
          (case mech_status_schema d of
             None \<Rightarrow> invalid source (lit ''status '' @ quoted kind @ lit '' is missing a schema definition'')
           | Some schema \<Rightarrow> Inr schema))"

lemma py_status_size: "py_status y = Some s \<Longrightarrow> 2 * size s < Suc (Suc (2 * size y))"
  by (cases y) simp

lemma sy_payload_size:
  "Suc (2 * size_option size (sy_expire_payload y)) < 2 * size y"
  "Suc (2 * size_option size (sy_dispel_payload y)) < 2 * size y"
  by (cases y; simp)+

function (sequential) parse_payload ::
    "rstring \<Rightarrow> effect_payload_yaml option \<Rightarrow> rstring \<Rightarrow> mechanic_catalog \<Rightarrow> content_error + effect_payload"
  and parse_status :: "rstring \<Rightarrow> status_yaml \<Rightarrow> mechanic_catalog \<Rightarrow> content_error + status_definition"
  and parse_optional_status_payload ::
    "rstring \<Rightarrow> effect_payload_yaml option \<Rightarrow> rstring \<Rightarrow> payload_field_rule \<Rightarrow> mechanic_catalog \<Rightarrow>
     content_error + effect_payload option" where
  "parse_payload source None field mechanics = invalid source (field @ lit '' is required'')"
| "parse_payload source (Some y) field mechanics =
     and_then (parse_payload_kind source (py_kind y)) (\<lambda>kind.
     and_then (parse_payload_amount source field y) (\<lambda>(amount, hi, has_direct_amount).
     and_then (parse_payload_crit source field y has_direct_amount) (\<lambda>(chance, multiplier).
     and_then (parse_interrupt source field (py_interrupt_silence_duration_ms y)) (\<lambda>interrupt.
     and_then (map_transpose (parse_dispel source field) (py_dispel y)) (\<lambda>disp.
       if \<not> has_direct_amount \<and> py_status y = None \<and> interrupt = None \<and> disp = None
       then invalid source (field @ lit '' must provide a positive amount, a status, an interrupt, or a dispel'')
       else
         and_then (map_transpose (\<lambda>s. parse_status source s mechanics) (py_status y)) (\<lambda>status.
           Inr (EffectPayload kind amount hi chance multiplier status interrupt disp)))))))"
| "parse_status source y mechanics =
     and_then (status_schema_of source (sy_kind y) mechanics) (\<lambda>schema.
     and_then (parse_status_kind source (sy_kind y)) (\<lambda>kind.
     and_then (and_then (read_numeric_field source (lit ''status.duration_ms'') (Some (sy_duration_ms y))
           (schema_numeric_rule (ss_numeric_fields schema) (lit ''duration_ms'')))
         (require_present_u16 source (lit ''status.duration_ms''))) (\<lambda>duration.
     and_then (read_numeric_field source (lit ''status.tick_interval_ms'') (sy_tick_interval_ms y)
         (schema_numeric_rule (ss_numeric_fields schema) (lit ''tick_interval_ms''))) (\<lambda>interval.
     and_then (read_numeric_field source (lit ''status.magnitude'') (Some (sy_magnitude y))
         (schema_numeric_rule (ss_numeric_fields schema) (lit ''magnitude''))) (\<lambda>magnitude.
     and_then (read_numeric_field source (lit ''status.trigger_duration_ms'') (sy_trigger_duration_ms y)
         (schema_numeric_rule (ss_numeric_fields schema) (lit ''trigger_duration_ms''))) (\<lambda>trigger.
     and_then (validate_max_stacks source kind (case sy_max_stacks y of Some n \<Rightarrow> n | None \<Rightarrow> 1)
         (ss_max_stacks schema)) (\<lambda>stacks.
     and_then (parse_optional_status_payload source (sy_expire_payload y) (lit ''status.expire_payload'')
         (ss_expire_payload schema) mechanics) (\<lambda>ex.
     and_then (parse_optional_status_payload source (sy_dispel_payload y) (lit ''status.dispel_payload'')
         (ss_dispel_payload schema) mechanics) (\<lambda>disp.
       Inr (StatusDefinition kind duration interval (case magnitude of Some v \<Rightarrow> v | None \<Rightarrow> 0)
         stacks trigger ex disp))))))))))"
| "parse_optional_status_payload source payload field r mechanics =
     (case r of
        PayloadRequired \<Rightarrow> and_then (parse_payload source payload field mechanics) (\<lambda>p. Inr (Some p))
      | PayloadOptional \<Rightarrow> map_transpose (\<lambda>p. parse_payload source (Some p) field mechanics) payload
      | PayloadForbidden \<Rightarrow>
          if payload \<noteq> None then invalid source (field @ lit '' is not valid for this mechanic'')
          else Inr None)"
  by pat_completeness auto

termination
  by (relation "measure (case_sum (\<lambda>(_, y, _). 2 * size_option size y)
      (case_sum (\<lambda>(_, y, _). 2 * size y) (\<lambda>(_, p, _). Suc (2 * size_option size p))))")
    (simp_all add: py_status_size sy_payload_size)

declare parse_payload.simps [simp del] parse_status.simps [simp del] parse_optional_status_payload.simps [simp del]

lemmas payload_simps = parse_payload.simps parse_status.simps parse_optional_status_payload.simps

section \<open>The payloads an author can write\<close>

fun status_name :: "status_kind \<Rightarrow> rstring" where
  "status_name Poison = lit ''poison''"
| "status_name Hot = lit ''hot''"
| "status_name Chill = lit ''chill''"
| "status_name Root = lit ''root''"
| "status_name Haste = lit ''haste''"
| "status_name Silence = lit ''silence''"
| "status_name Stun = lit ''stun''"
| "status_name Sleep = lit ''sleep''"
| "status_name Shield = lit ''shield''"
| "status_name Stealth = lit ''stealth''"
| "status_name Reveal = lit ''reveal''"
| "status_name Fear = lit ''fear''"
| "status_name HealingReduction = lit ''healing_reduction''"

fun dispel_scope_name :: "dispel_scope \<Rightarrow> rstring" where
  "dispel_scope_name DispelPositive = lit ''positive''"
| "dispel_scope_name DispelNegative = lit ''negative''"
| "dispel_scope_name DispelAll = lit ''all''"

fun payload_kind_name :: "combat_value_kind \<Rightarrow> rstring" where
  "payload_kind_name Damage = lit ''damage''"
| "payload_kind_name Heal = lit ''heal''"

fun numeric_fits :: "numeric_field_rule \<Rightarrow> u16 option \<Rightarrow> bool" where
  "numeric_fits NumericRequired v = (v \<noteq> None \<and> v \<noteq> Some 0)"
| "numeric_fits NumericNonNegative v = (v \<noteq> None)"
| "numeric_fits NumericOptional v = (v \<noteq> Some 0)"
| "numeric_fits NumericZero v = (v = Some 0)"
| "numeric_fits NumericForbidden v = (v = None)"

fun payload_fits :: "payload_field_rule \<Rightarrow> 'a option \<Rightarrow> bool" where
  "payload_fits PayloadRequired v = (v \<noteq> None)"
| "payload_fits PayloadOptional v = True"
| "payload_fits PayloadForbidden v = (v = None)"

fun stacks_fit :: "stack_rule \<Rightarrow> u8 \<Rightarrow> bool" where
  "stacks_fit StackPositive n = (n \<noteq> 0)"
| "stacks_fit StackOne n = (n = 1)"

definition status_fields_fit :: "status_schema \<Rightarrow> u16 \<Rightarrow> u16 option \<Rightarrow> u16 \<Rightarrow> u8 \<Rightarrow> u16 option \<Rightarrow> bool" where
  "status_fields_fit schema duration interval magnitude stacks trigger \<longleftrightarrow>
     (let r = \<lambda>field. schema_numeric_rule (ss_numeric_fields schema) (lit field) in
      duration \<noteq> 0 \<and> numeric_fits (r ''duration_ms'') (Some duration) \<and>
      numeric_fits (r ''tick_interval_ms'') interval \<and> numeric_fits (r ''magnitude'') (Some magnitude) \<and>
      numeric_fits (r ''trigger_duration_ms'') trigger \<and> stacks_fit (ss_max_stacks schema) stacks)"

definition schema_for :: "mechanic_catalog \<Rightarrow> status_kind \<Rightarrow> status_schema option" where
  "schema_for mechanics kind =
     Option.bind (catalog_status mechanics (status_name kind)) mech_status_schema"

fun valid_payload :: "mechanic_catalog \<Rightarrow> effect_payload \<Rightarrow> bool"
  and valid_status_definition :: "mechanic_catalog \<Rightarrow> status_definition \<Rightarrow> bool" where
  "valid_payload m (EffectPayload kind amount hi chance multiplier status interrupt disp) =
     (let direct = (hi \<noteq> None \<or> 0 < amount) in
      pred_option (\<lambda>h. amount \<le> h) hi \<and>
      (if chance = 0 then multiplier = 0 else 10000 \<le> multiplier \<and> direct) \<and>
      interrupt \<noteq> Some 0 \<and> pred_option (\<lambda>d. dd_max_statuses d \<noteq> 0) disp \<and>
      (direct \<or> status \<noteq> None \<or> interrupt \<noteq> None \<or> disp \<noteq> None) \<and>
      pred_option (valid_status_definition m) status)"
| "valid_status_definition m (StatusDefinition kind duration interval magnitude stacks trigger ex disp) =
     (case schema_for m kind of
        None \<Rightarrow> False
      | Some schema \<Rightarrow>
          status_fields_fit schema duration interval magnitude stacks trigger \<and>
          payload_fits (ss_expire_payload schema) ex \<and> payload_fits (ss_dispel_payload schema) disp \<and>
          pred_option (valid_payload m) ex \<and> pred_option (valid_payload m) disp)"

text \<open>The YAML an author writes for it.\<close>

fun payload_yaml_of :: "effect_payload \<Rightarrow> effect_payload_yaml"
  and status_yaml_of :: "status_definition \<Rightarrow> status_yaml" where
  "payload_yaml_of (EffectPayload kind amount hi chance multiplier status interrupt disp) =
     EffectPayloadYaml (payload_kind_name kind)
       (if hi = None then Some amount else None) (if hi = None then None else Some amount) hi
       (if chance = 0 then None else Some chance) (if chance = 0 then None else Some multiplier)
       (map_option status_yaml_of status) interrupt
       (map_option (\<lambda>d. \<lparr>dy_scope = dispel_scope_name (dd_scope d),
          dy_max_statuses = Some (dd_max_statuses d)\<rparr>) disp)"
| "status_yaml_of (StatusDefinition kind duration interval magnitude stacks trigger ex disp) =
     StatusYaml (status_name kind) duration interval magnitude (Some stacks) trigger
       (map_option payload_yaml_of ex) (map_option payload_yaml_of disp)"

section \<open>The parser accepts exactly these\<close>

lemma lit_eq_iff [simp]: "lit s = lit t \<longleftrightarrow> s = t"
  by (simp add: lit_def inj_map_eq_map [OF inj_of_char])

lemma parse_payload_kind_iff: "parse_payload_kind source raw = Inr k \<longleftrightarrow> raw = payload_kind_name k"
  by (cases k) (auto simp: parse_payload_kind_def)

lemma parse_status_kind_iff: "parse_status_kind source raw = Inr k \<longleftrightarrow> raw = status_name k"
  by (cases k) (auto simp: parse_status_kind_def split: if_splits)

lemma read_numeric_field_sound: "read_numeric_field source field v r = Inr w \<Longrightarrow> numeric_fits r w"
  by (cases "(source, field, v, r)" rule: read_numeric_field.cases) (auto split: if_splits)

lemma read_numeric_field_fits: "numeric_fits r v \<Longrightarrow> read_numeric_field source field v r = Inr v"
  by (cases "(source, field, v, r)" rule: read_numeric_field.cases) (auto split: if_splits)

lemma read_some_numeric_field:
  "read_numeric_field source field (Some v) r = Inr w \<longleftrightarrow> numeric_fits r (Some v) \<and> w = Some v"
  by (cases r) auto

lemma require_present_iff: "require_present_u16 source field v = Inr w \<longleftrightarrow> w \<noteq> 0 \<and> v = Some w"
  by (auto simp: require_present_u16_def split: option.splits)

lemma validate_max_stacks_iff:
  "validate_max_stacks source kind n r = Inr k \<longleftrightarrow> stacks_fit r n \<and> k = n"
  by (cases r) (auto simp: validate_max_stacks_def)

lemma status_schema_of_iff:
  "status_schema_of source (status_name kind) m = Inr schema \<longleftrightarrow> schema_for m kind = Some schema"
  by (auto simp: status_schema_of_def schema_for_def split: option.splits bind_splits)

lemma parse_dispel_iff:
  "parse_dispel source field y = Inr d \<longleftrightarrow> dy_scope y = dispel_scope_name (dd_scope d) \<and>
     dd_max_statuses d = (case dy_max_statuses y of Some n \<Rightarrow> n | None \<Rightarrow> 1) \<and> dd_max_statuses d \<noteq> 0"
  by (cases d; cases "dd_scope d") (auto simp: parse_dispel_def Let_def and_then_eq_Inr split: if_splits)

lemma parse_interrupt_iff: "parse_interrupt source field v = Inr w \<longleftrightarrow> v \<noteq> Some 0 \<and> w = v"
  by (auto simp: parse_interrupt_def split: option.splits)

lemma map_transpose_eq_Inr:
  "map_transpose f v = Inr w \<longleftrightarrow>
     (case v of None \<Rightarrow> w = None | Some x \<Rightarrow> (\<exists>y. f x = Inr y \<and> w = Some y))"
  by (auto simp: map_transpose_def and_then_eq_Inr split: option.splits)

lemma parse_payload_amount_sound:
  "parse_payload_amount source field y = Inr (amount, hi, direct) \<Longrightarrow>
     pred_option (\<lambda>h. amount \<le> h) hi \<and> direct = (hi \<noteq> None \<or> 0 < amount)"
  by (cases y) (auto simp: parse_payload_amount_def split: if_splits option.splits)

lemma parse_payload_crit_sound:
  "parse_payload_crit source field y direct = Inr (chance, multiplier) \<Longrightarrow>
     if chance = 0 then multiplier = 0 else 10000 \<le> multiplier \<and> direct"
  by (auto simp: parse_payload_crit_def and_then_eq_Inr word_gt_0 split: if_splits option.splits)


lemma parse_payload_step:
  assumes "parse_payload source (Some y) field m = Inr p"
  obtains kind amount hi chance multiplier status interrupt disp direct
  where "p = EffectPayload kind amount hi chance multiplier status interrupt disp"
    and "direct = (hi \<noteq> None \<or> 0 < amount)" "pred_option (\<lambda>h. amount \<le> h) hi"
    and "if chance = 0 then multiplier = 0 else 10000 \<le> multiplier \<and> direct"
    and "interrupt \<noteq> Some 0" "pred_option (\<lambda>d. dd_max_statuses d \<noteq> 0) disp"
    and "direct \<or> status \<noteq> None \<or> interrupt \<noteq> None \<or> disp \<noteq> None"
    and "map_transpose (\<lambda>s. parse_status source s m) (py_status y) = Inr status"
proof -
  obtain kind amount hi direct chance multiplier interrupt disp status where s:
    "parse_payload_amount source field y = Inr (amount, hi, direct)"
    "parse_payload_crit source field y direct = Inr (chance, multiplier)"
    "parse_interrupt source field (py_interrupt_silence_duration_ms y) = Inr interrupt"
    "map_transpose (parse_dispel source field) (py_dispel y) = Inr disp"
    "direct \<or> py_status y \<noteq> None \<or> interrupt \<noteq> None \<or> disp \<noteq> None"
    "map_transpose (\<lambda>s. parse_status source s m) (py_status y) = Inr status"
    "p = EffectPayload kind amount hi chance multiplier status interrupt disp"
    using assms by (auto simp: parse_payload.simps and_then_eq_Inr split: if_splits)
  have "pred_option (\<lambda>d. dd_max_statuses d \<noteq> 0) disp"
    using s(4) by (auto simp: map_transpose_eq_Inr parse_dispel_iff split: option.splits)
  moreover have "direct \<or> status \<noteq> None \<or> interrupt \<noteq> None \<or> disp \<noteq> None"
    using s(5,6) by (auto simp: map_transpose_eq_Inr)
  moreover have "interrupt \<noteq> Some 0"
    using s(3) by (auto simp: parse_interrupt_iff)
  ultimately show thesis
    using that [OF s(7) _ _ parse_payload_crit_sound [OF s(2)] _ _ _ s(6)] parse_payload_amount_sound [OF s(1)]
    by blast
qed

lemma parse_status_step:
  assumes "parse_status source y m = Inr d"
  obtains kind duration interval magnitude stacks trigger ex disp schema
  where "d = StatusDefinition kind duration interval magnitude stacks trigger ex disp"
    and "schema_for m kind = Some schema"
    and "status_fields_fit schema duration interval magnitude stacks trigger"
    and "parse_optional_status_payload source (sy_expire_payload y) (lit ''status.expire_payload'')
         (ss_expire_payload schema) m = Inr ex"
    and "parse_optional_status_payload source (sy_dispel_payload y) (lit ''status.dispel_payload'')
         (ss_dispel_payload schema) m = Inr disp"
  using assms
  by (auto simp: parse_status.simps and_then_eq_Inr parse_status_kind_iff status_schema_of_iff
      read_some_numeric_field require_present_iff validate_max_stacks_iff status_fields_fit_def Let_def
      dest!: read_numeric_field_sound)

lemma parse_payload_sound:
  "parse_payload source y field m = Inr p \<Longrightarrow> valid_payload m p"
  "parse_status source sy m = Inr d \<Longrightarrow> valid_status_definition m d"
  "parse_optional_status_payload source y field r m = Inr q \<Longrightarrow>
     payload_fits r q \<and> pred_option (valid_payload m) q"
proof (induction source y field m and source sy m and source y field r m arbitrary: p and d and q
    rule: parse_payload_parse_status_parse_optional_status_payload.induct)
  case (1 source field m)
  then show ?case by (simp add: parse_payload.simps)
next
  case (2 source y field m)
  obtain kind amount hi chance multiplier status interrupt disp direct
    where p: "p = EffectPayload kind amount hi chance multiplier status interrupt disp"
      and facts: "direct = (hi \<noteq> None \<or> 0 < amount)" "pred_option (\<lambda>h. amount \<le> h) hi"
        "if chance = 0 then multiplier = 0 else 10000 \<le> multiplier \<and> direct"
        "interrupt \<noteq> Some 0" "pred_option (\<lambda>d. dd_max_statuses d \<noteq> 0) disp"
        "direct \<or> status \<noteq> None \<or> interrupt \<noteq> None \<or> disp \<noteq> None"
      and status: "map_transpose (\<lambda>s. parse_status source s m) (py_status y) = Inr status"
    by (rule parse_payload_step [OF 2(2)])
  have "pred_option (valid_status_definition m) status"
    using status 2(1) by (auto simp: map_transpose_eq_Inr split: option.splits)
  with facts show ?case by (auto simp: p Let_def split: if_splits)
next
  case (3 source y m)
  obtain kind duration interval magnitude stacks trigger ex disp schema
    where d: "d = StatusDefinition kind duration interval magnitude stacks trigger ex disp"
      and schema: "schema_for m kind = Some schema"
      and fit: "status_fields_fit schema duration interval magnitude stacks trigger"
      and ex: "parse_optional_status_payload source (sy_expire_payload y) (lit ''status.expire_payload'')
         (ss_expire_payload schema) m = Inr ex"
      and disp: "parse_optional_status_payload source (sy_dispel_payload y) (lit ''status.dispel_payload'')
         (ss_dispel_payload schema) m = Inr disp"
    by (rule parse_status_step [OF 3(3)])
  from 3(1) [OF ex] 3(2) [OF disp] fit show ?case by (simp add: d schema)
next
  case (4 source y field r m)
  from 4(3) show ?case
    using 4(1,2) by (cases r) (auto simp: parse_optional_status_payload.simps and_then_eq_Inr map_transpose_eq_Inr
      split: if_splits option.splits)
qed

lemma and_then_read_present:
  "numeric_fits r (Some v) \<Longrightarrow> v \<noteq> 0 \<Longrightarrow>
     and_then (read_numeric_field source field (Some v) r) (require_present_u16 source field) = Inr v"
  by (simp add: read_numeric_field_fits require_present_u16_def)

lemma parse_payload_amount_of:
  "pred_option (\<lambda>h. amount \<le> h) hi \<Longrightarrow>
     parse_payload_amount source field (payload_yaml_of (EffectPayload kind amount hi chance multiplier status interrupt disp)) =
       Inr (amount, hi, hi \<noteq> None \<or> 0 < amount)"
  by (cases hi) (auto simp: parse_payload_amount_def)

lemma parse_payload_crit_of:
  "(if chance = 0 then multiplier = 0 else 10000 \<le> multiplier \<and> direct) \<Longrightarrow>
     parse_payload_crit source field
       (payload_yaml_of (EffectPayload kind amount hi chance multiplier status interrupt disp)) direct =
       Inr (chance, multiplier)"
  by (auto simp: parse_payload_crit_def word_gt_0 split: if_splits)

lemma parse_dispel_of:
  "pred_option (\<lambda>d. dd_max_statuses d \<noteq> 0) disp \<Longrightarrow>
     map_transpose (parse_dispel source field) (map_option (\<lambda>d. \<lparr>dy_scope = dispel_scope_name (dd_scope d),
        dy_max_statuses = Some (dd_max_statuses d)\<rparr>) disp) = Inr disp"
  by (cases disp) (auto simp: map_transpose_eq_Inr parse_dispel_iff)

lemma parse_payload_roundtrip:
  "valid_payload m p \<Longrightarrow> parse_payload source (Some (payload_yaml_of p)) field m = Inr p"
  "valid_status_definition m d \<Longrightarrow> parse_status source (status_yaml_of d) m = Inr d"
proof (induction m p and m d arbitrary: field and rule: valid_payload_valid_status_definition.induct)
  case (1 m kind amount hi chance multiplier status interrupt disp)
  let ?y = "payload_yaml_of (EffectPayload kind amount hi chance multiplier status interrupt disp)"
  note v = 1(2) [simplified Let_def valid_payload.simps]
  have amount: "parse_payload_amount source field ?y = Inr (amount, hi, hi \<noteq> None \<or> 0 < amount)"
    using v by (intro parse_payload_amount_of) simp
  have crit: "parse_payload_crit source field ?y (hi \<noteq> None \<or> 0 < amount) = Inr (chance, multiplier)"
    using v by (intro parse_payload_crit_of) (simp split: if_splits)
  have status: "map_transpose (\<lambda>s. parse_status source s m) (map_option status_yaml_of status) = Inr status"
    using v 1(1) by (cases status) (auto simp: map_transpose_eq_Inr)
  have "parse_payload_kind source (payload_kind_name kind) = Inr kind"
    "parse_interrupt source field interrupt = Inr interrupt"
    using v by (auto simp: parse_payload_kind_iff parse_interrupt_iff)
  with amount crit status v show ?case
    by (simp only: parse_payload.simps and_then_simps prod.case)
      (auto simp: parse_dispel_of)
next
  case (2 m kind duration interval magnitude stacks trigger ex disp)
  then obtain schema where schema: "schema_for m kind = Some schema"
    by (auto split: option.splits)
  note v = 2(3) [simplified, unfolded schema option.case]
  have nested: "parse_optional_status_payload source (map_option payload_yaml_of q) field r m = Inr q"
    if "q \<in> {ex, disp}" "payload_fits r q" "pred_option (valid_payload m) q" for q r field
    using that 2(1,2) [OF schema]
    by (cases r; cases q) (auto simp: parse_optional_status_payload.simps map_transpose_eq_Inr)
  from v have "and_then (read_numeric_field source (lit ''status.duration_ms'') (Some duration)
      (schema_numeric_rule (ss_numeric_fields schema) (lit ''duration_ms'')))
      (require_present_u16 source (lit ''status.duration_ms'')) = Inr duration"
    by (intro and_then_read_present) (simp_all add: status_fields_fit_def Let_def)
  with v show ?case
    by (simp add: parse_status.simps status_schema_of_iff [THEN iffD2, OF schema] parse_status_kind_iff [THEN iffD2]
        validate_max_stacks_iff [THEN iffD2] read_numeric_field_fits status_fields_fit_def Let_def nested)
qed

lemma parse_payload_accepts: "(\<exists>y. parse_payload source y field m = Inr p) \<longleftrightarrow> valid_payload m p"
  using parse_payload_sound(1) parse_payload_roundtrip(1) by blast

text \<open>
  For \<open>valid_payload\<close>, as for the code, a range is an amount even when it is from 0 to 0, which the authoring guide does
  not allow as the only content of a payload. \<open>meaningful\<close> is the rule of the guide, at every depth: something of a
  positive amount, a status, an interrupt or a dispel. \<open>no_empty_range\<close> leaves the ranges from 0 to 0 out.
\<close>

fun meaningful :: "effect_payload \<Rightarrow> bool" and meaningful_status :: "status_definition \<Rightarrow> bool" where
  "meaningful (EffectPayload kind amount hi chance multiplier status interrupt disp) \<longleftrightarrow>
     (0 < (case hi of None \<Rightarrow> amount | Some h \<Rightarrow> h) \<or> status \<noteq> None \<or> interrupt \<noteq> None \<or> disp \<noteq> None) \<and>
     pred_option meaningful_status status"
| "meaningful_status (StatusDefinition kind duration interval magnitude stacks trigger ex disp) \<longleftrightarrow>
     pred_option meaningful ex \<and> pred_option meaningful disp"

fun no_empty_range :: "effect_payload \<Rightarrow> bool" and no_empty_range_status :: "status_definition \<Rightarrow> bool" where
  "no_empty_range (EffectPayload kind amount hi chance multiplier status interrupt disp) \<longleftrightarrow>
     hi \<noteq> Some 0 \<and> pred_option no_empty_range_status status"
| "no_empty_range_status (StatusDefinition kind duration interval magnitude stacks trigger ex disp) \<longleftrightarrow>
     pred_option no_empty_range ex \<and> pred_option no_empty_range disp"

lemma valid_payload_meaningful:
  "valid_payload m p \<Longrightarrow> no_empty_range p \<Longrightarrow> meaningful p"
  "valid_status_definition m d \<Longrightarrow> no_empty_range_status d \<Longrightarrow> meaningful_status d"
proof (induction m p and m d rule: valid_payload_valid_status_definition.induct)
  case (1 m kind amount hi chance multiplier status interrupt disp)
  then show ?case by (cases status; cases hi) (auto simp: Let_def word_gt_0)
next
  case (2 m kind duration interval magnitude stacks trigger ex disp)
  then show ?case by (cases ex; cases disp) (auto split: option.splits)
qed

text \<open>C24: the parser of payloads accepts exactly the payloads an author can write: amounts with an ordered
  range, critical hits that need a direct amount and never reduce it, positive interrupts and dispels,
  and statuses whose fields, stacks and nested payloads follow the registry, each payload with something to do - a
  positive amount, a status, an interrupt or a dispel. It is stated of the payloads without a range from 0 to 0, which
  the parser takes for an amount.\<close>

theorem parse_payload_exact:
  assumes "no_empty_range p"
  shows "(\<exists>y. parse_payload source y field m = Inr p) \<longleftrightarrow> valid_payload m p \<and> meaningful p"
  using parse_payload_accepts valid_payload_meaningful(1) [OF _ assms] by blast

theorem parse_payload_exact_witness:
  "(\<exists>y. parse_payload [] y [] \<lparr>mc_behaviors = [], mc_statuses = []\<rparr> = Inr (EffectPayload Damage 10 (Some 20) 500 15000 None None None)) \<and>
   (\<nexists>y. parse_payload [] y [] \<lparr>mc_behaviors = [], mc_statuses = []\<rparr> = Inr (EffectPayload Damage 0 None 0 0 None None None))"
  by (simp add: parse_payload_exact Let_def)

text \<open>The range from 0 to 0 that the authoring guide rejects is accepted.\<close>

lemma empty_range_accepted:
  "\<exists>y. parse_payload [] y [] m = Inr (EffectPayload Damage 0 (Some 0) 0 0 None None None)"
  "\<not> meaningful (EffectPayload Damage 0 (Some 0) 0 0 None None None)"
  by (simp_all add: parse_payload_accepts Let_def)

text \<open>A registry that never lets a status tick every 0 ms.\<close>

definition ticks_positive :: "mechanic_catalog \<Rightarrow> bool" where
  "ticks_positive m \<longleftrightarrow> list_all (\<lambda>d. pred_option (\<lambda>schema.
     schema_numeric_rule (ss_numeric_fields schema) (lit ''tick_interval_ms'') \<notin> {NumericNonNegative, NumericZero})
     (mech_status_schema d)) (mc_statuses m)"

lemma numeric_fits_positive:
  "numeric_fits r v \<Longrightarrow> r \<notin> {NumericNonNegative, NumericZero} \<Longrightarrow> v \<noteq> Some 0"
  by (cases r) auto

lemma ticks_positive_schema:
  assumes "ticks_positive m" "schema_for m kind = Some schema"
  shows "schema_numeric_rule (ss_numeric_fields schema) (lit ''tick_interval_ms'') \<notin> {NumericNonNegative, NumericZero}"
proof -
  from assms(2) obtain d where "d \<in> set (mc_statuses m)" "mech_status_schema d = Some schema"
    by (metis schema_for_def catalog_status_def bind_eq_Some_conv find_Some_iff nth_mem)
  with assms(1) show ?thesis by (auto simp: ticks_positive_def list_all_iff)
qed

lemma valid_payload_wf:
  "valid_payload m p \<Longrightarrow> ticks_positive m \<Longrightarrow> wf_payload p"
  "valid_status_definition m d \<Longrightarrow> ticks_positive m \<Longrightarrow> wf_status_definition d"
proof (induction m p and m d rule: valid_payload_valid_status_definition.induct)
  case (1 m kind amount hi chance multiplier status interrupt disp)
  then show ?case by (cases status) (auto simp: Let_def)
next
  case (2 m kind duration interval magnitude stacks trigger ex disp)
  then obtain schema where schema: "schema_for m kind = Some schema"
    by (auto split: option.splits)
  note v = 2(3) [simplified, unfolded schema option.case]
  have "interval \<noteq> Some 0"
    using v ticks_positive_schema [OF 2(4) schema]
    by (intro numeric_fits_positive) (auto simp: status_fields_fit_def Let_def)
  moreover have "stacks \<noteq> 0"
    using v by (cases "ss_max_stacks schema") (auto simp: status_fields_fit_def Let_def)
  moreover have "pred_option wf_payload ex" "pred_option wf_payload disp"
    using v 2(1,2) [OF schema] 2(4) by (cases ex; cases disp; auto)+
  ultimately show ?case by (simp add: word_le_nat_alt Suc_le_eq unat_gt_0)
qed

end
