(* ===== verification/Content_Mechanics.thy ===== *)
theory Content_Mechanics
  imports Content_Payload
begin

text \<open>
  The mechanics registry (\<open>mechanics.rs\<close>): the document that says which behaviours and
  statuses exist and which fields each may have. \<open>serde\<close>'s YAML reader is the parameter
  \<open>from_yaml\<close>: it gives the document or a message. The lemmas show what an accepted registry
  guarantees: its entries have distinct ids, every behaviour has a behaviour schema and no
  status schema (and conversely), schemas only name supported fields, and an implemented
  behaviour allows at least one effect.
\<close>

fun parse_numeric_rule :: "numeric_rule_yaml \<Rightarrow> numeric_field_rule" where
  "parse_numeric_rule RuleRequired = NumericRequired"
| "parse_numeric_rule RuleOptional = NumericOptional"
| "parse_numeric_rule RuleNonNegative = NumericNonNegative"
| "parse_numeric_rule RuleZero = NumericZero"
| "parse_numeric_rule RuleForbidden = NumericForbidden"

fun parse_payload_rule :: "payload_rule_yaml \<Rightarrow> payload_field_rule" where
  "parse_payload_rule PayloadRuleRequired = PayloadRequired"
| "parse_payload_rule PayloadRuleOptional = PayloadOptional"
| "parse_payload_rule PayloadRuleForbidden = PayloadForbidden"

fun parse_stack_rule :: "stack_rule_yaml \<Rightarrow> stack_rule" where
  "parse_stack_rule StackRulePositive = StackPositive"
| "parse_stack_rule StackRuleOne = StackOne"

fun validate_schema_field_names :: "rstring \<Rightarrow> rstring list \<Rightarrow> rstring list \<Rightarrow> content_error + unit" where
  "validate_schema_field_names source [] allowed = Inr ()"
| "validate_schema_field_names source (field # names) allowed =
     (if field \<notin> set allowed
      then invalid source (lit ''schema field '' @ quoted field @ lit '' is not supported'')
      else validate_schema_field_names source names allowed)"

text \<open>\<open>iter.map(f).collect::<Result<Vec<_>, _>>()\<close>\<close>

fun collect_results :: "('a \<Rightarrow> 'e + 'b) \<Rightarrow> 'a list \<Rightarrow> 'e + 'b list" where
  "collect_results f [] = Inr []"
| "collect_results f (x # xs) = and_then (f x) (\<lambda>y. and_then (collect_results f xs) (\<lambda>ys. Inr (y # ys)))"

definition parse_behavior_schema ::
  "rstring \<Rightarrow> bool \<Rightarrow> mechanic_schema_yaml option \<Rightarrow> content_error + behavior_schema" where
  "parse_behavior_schema source implemented y =
     (case y of
        None \<Rightarrow>
          if implemented then invalid source (lit ''implemented behavior mechanics must define a schema'')
          else Inr \<lparr>bs_numeric_fields = [], bs_payload = PayloadForbidden,
            bs_cast_start_payload = PayloadForbidden, bs_cast_end_payload = PayloadForbidden,
            bs_allowed_effects = []\<rparr>
      | Some y \<Rightarrow>
          and_then (validate_schema_field_names source (bt_keys (msy_numeric_fields y)) BEHAVIOR_NUMERIC_FIELDS) (\<lambda>_.
          and_then (collect_results (parse_effect_kind source) (msy_allowed_effects y)) (\<lambda>effects.
            if implemented \<and> effects = []
            then invalid source (lit ''implemented behavior mechanics must declare allowed_effects'')
            else Inr \<lparr>bs_numeric_fields = bt_map_values parse_numeric_rule (msy_numeric_fields y),
              bs_payload = parse_payload_rule (msy_payload y),
              bs_cast_start_payload = parse_payload_rule (msy_cast_start_payload y),
              bs_cast_end_payload = parse_payload_rule (msy_cast_end_payload y),
              bs_allowed_effects = effects\<rparr>)))"

definition parse_status_schema ::
  "rstring \<Rightarrow> bool \<Rightarrow> mechanic_schema_yaml option \<Rightarrow> content_error + status_schema" where
  "parse_status_schema source implemented y =
     (case y of
        None \<Rightarrow>
          if implemented then invalid source (lit ''implemented status mechanics must define a schema'')
          else Inr \<lparr>ss_numeric_fields = [], ss_max_stacks = StackOne,
            ss_expire_payload = PayloadForbidden, ss_dispel_payload = PayloadForbidden\<rparr>
      | Some y \<Rightarrow>
          and_then (validate_schema_field_names source (bt_keys (msy_numeric_fields y)) STATUS_NUMERIC_FIELDS) (\<lambda>_.
            Inr \<lparr>ss_numeric_fields = bt_map_values parse_numeric_rule (msy_numeric_fields y),
              ss_max_stacks = parse_stack_rule (msy_max_stacks y),
              ss_expire_payload = parse_payload_rule (msy_expire_payload y),
              ss_dispel_payload = parse_payload_rule (msy_dispel_payload y)\<rparr>))"

definition parse_optional_behavior_schema ::
  "rstring \<Rightarrow> mechanic_category \<Rightarrow> mechanic_yaml \<Rightarrow> content_error + behavior_schema option" where
  "parse_optional_behavior_schema source category y =
     (case category of
        CategoryBehavior \<Rightarrow> and_then (parse_behavior_schema source (my_implemented y) (my_schema y)) (\<lambda>s. Inr (Some s))
      | CategoryStatus \<Rightarrow> Inr None)"

definition parse_optional_status_schema ::
  "rstring \<Rightarrow> mechanic_category \<Rightarrow> mechanic_yaml \<Rightarrow> content_error + status_schema option" where
  "parse_optional_status_schema source category y =
     (case category of
        CategoryBehavior \<Rightarrow> Inr None
      | CategoryStatus \<Rightarrow> and_then (parse_status_schema source (my_implemented y) (my_schema y)) (\<lambda>s. Inr (Some s)))"

text \<open>The second component of the result is the set of ids seen so far.\<close>

definition validate_mechanic_definition ::
  "rstring \<Rightarrow> mechanic_yaml \<Rightarrow> mechanic_category \<Rightarrow> rstring set \<Rightarrow>
   content_error + (mechanic_definition \<times> rstring set)" where
  "validate_mechanic_definition source y category seen_ids =
     and_then (validate_skill_text source (lit ''mechanic.id'') (my_id y)) (\<lambda>_.
     and_then (validate_skill_text source (lit ''mechanic.label'') (my_label y)) (\<lambda>_.
     and_then (validate_skill_text source (lit ''mechanic.inspiration'') (my_inspiration y)) (\<lambda>_.
     and_then (validate_skill_text source (lit ''mechanic.notes'') (my_notes y)) (\<lambda>_.
       if my_id y \<in> seen_ids
       then invalid source (lit ''duplicate mechanic id '' @ quoted (my_id y))
       else
         and_then (parse_optional_behavior_schema source category y) (\<lambda>behavior_schema.
         and_then (parse_optional_status_schema source category y) (\<lambda>status_schema.
           Inr (\<lparr>mech_id = my_id y, mech_label = my_label y, mech_category = category,
                  mech_implemented = my_implemented y, mech_inspiration = my_inspiration y,
                  mech_notes = my_notes y, mech_behavior_schema = behavior_schema,
                  mech_status_schema = status_schema\<rparr>,
                insert (my_id y) seen_ids)))))))"

fun validate_mechanics_from ::
  "rstring \<Rightarrow> mechanic_yaml list \<Rightarrow> mechanic_category \<Rightarrow> rstring set \<Rightarrow> content_error + mechanic_definition list" where
  "validate_mechanics_from source [] category seen_ids = Inr []"
| "validate_mechanics_from source (y # ys) category seen_ids =
     and_then (validate_mechanic_definition source y category seen_ids) (\<lambda>(d, seen_ids').
     and_then (validate_mechanics_from source ys category seen_ids') (\<lambda>ds. Inr (d # ds)))"

definition validate_mechanics ::
  "rstring \<Rightarrow> mechanic_yaml list \<Rightarrow> mechanic_category \<Rightarrow> content_error + mechanic_definition list" where
  "validate_mechanics source yaml_mechanics category =
     (if yaml_mechanics = []
      then invalid source (category_debug category @ lit '' registry must contain at least one entry'')
      else validate_mechanics_from source yaml_mechanics category {})"

definition parse_mechanics_yaml ::
  "(rstring \<Rightarrow> rstring + mechanics_file_yaml) \<Rightarrow> rstring \<Rightarrow> rstring \<Rightarrow> content_error + mechanic_catalog" where
  "parse_mechanics_yaml from_yaml source yaml =
     and_then (map_err (ContentParse source) (from_yaml yaml)) (\<lambda>document.
     and_then (validate_mechanics source (mfy_behaviors document) CategoryBehavior) (\<lambda>behaviors.
     and_then (validate_mechanics source (mfy_statuses document) CategoryStatus) (\<lambda>statuses.
       Inr \<lparr>mc_behaviors = behaviors, mc_statuses = statuses\<rparr>)))"

section \<open>What an accepted registry guarantees\<close>

definition text_ok :: "rstring \<Rightarrow> bool" where
  "text_ok s \<longleftrightarrow> trim s \<noteq> [] \<and> str_len s \<le> MAX_SKILL_TEXT_LEN"

lemma validate_skill_text_iff [simp]: "validate_skill_text source field s = Inr u \<longleftrightarrow> text_ok s"
  by (auto simp: validate_skill_text_def text_ok_def)

lemma validate_schema_field_names_iff:
  "validate_schema_field_names source names allowed = Inr u \<longleftrightarrow> set names \<subseteq> set allowed"
  by (induction source names allowed rule: validate_schema_field_names.induct) auto

lemma collect_results_eq_Inr:
  "collect_results f xs = Inr ys \<longleftrightarrow> list_all2 (\<lambda>x y. f x = Inr y) xs ys"
  by (induction xs arbitrary: ys) (auto simp: and_then_eq_Inr list_all2_Cons1)

definition behavior_entry :: "mechanic_definition \<Rightarrow> bool" where
  "behavior_entry d \<longleftrightarrow> text_ok (mech_id d) \<and> mech_category d = CategoryBehavior \<and> mech_status_schema d = None \<and>
     (case mech_behavior_schema d of
        None \<Rightarrow> False
      | Some s \<Rightarrow> set (bt_keys (bs_numeric_fields s)) \<subseteq> set BEHAVIOR_NUMERIC_FIELDS \<and>
          (mech_implemented d \<longrightarrow> bs_allowed_effects s \<noteq> []))"

definition status_entry :: "mechanic_definition \<Rightarrow> bool" where
  "status_entry d \<longleftrightarrow> text_ok (mech_id d) \<and> mech_category d = CategoryStatus \<and> mech_behavior_schema d = None \<and>
     (case mech_status_schema d of
        None \<Rightarrow> False
      | Some s \<Rightarrow> set (bt_keys (ss_numeric_fields s)) \<subseteq> set STATUS_NUMERIC_FIELDS)"

definition entry_of :: "mechanic_category \<Rightarrow> mechanic_definition \<Rightarrow> bool" where
  "entry_of category = (case category of CategoryBehavior \<Rightarrow> behavior_entry | CategoryStatus \<Rightarrow> status_entry)"

lemma keys_bt_map_values [simp]: "bt_keys (bt_map_values f m) = bt_keys m"
  by (simp add: bt_keys_def)

lemma parse_behavior_schema_ok:
  "parse_behavior_schema source implemented y = Inr s \<Longrightarrow>
     set (bt_keys (bs_numeric_fields s)) \<subseteq> set BEHAVIOR_NUMERIC_FIELDS \<and>
     (implemented \<longrightarrow> bs_allowed_effects s \<noteq> [])"
  by (auto simp: parse_behavior_schema_def bt_keys_def [of "[]"] and_then_eq_Inr validate_schema_field_names_iff
      split: option.splits if_splits)

lemma parse_status_schema_ok:
  "parse_status_schema source implemented y = Inr s \<Longrightarrow>
     set (bt_keys (ss_numeric_fields s)) \<subseteq> set STATUS_NUMERIC_FIELDS"
  by (auto simp: parse_status_schema_def bt_keys_def [of "[]"] and_then_eq_Inr validate_schema_field_names_iff
      split: option.splits if_splits)

lemma validate_mechanic_definition_ok:
  "validate_mechanic_definition source y category seen = Inr (d, seen') \<Longrightarrow>
     entry_of category d \<and> mech_id d = my_id y \<and> my_id y \<notin> seen \<and> seen' = insert (my_id y) seen"
  by (cases category)
    (auto simp: validate_mechanic_definition_def and_then_eq_Inr parse_optional_behavior_schema_def
      parse_optional_status_schema_def entry_of_def behavior_entry_def status_entry_def
      dest: parse_behavior_schema_ok parse_status_schema_ok split: if_splits)

lemma validate_mechanics_from_ok:
  "validate_mechanics_from source ys category seen = Inr ds \<Longrightarrow>
     length ds = length ys \<and> list_all (entry_of category) ds \<and> distinct (map mech_id ds) \<and>
     set (map mech_id ds) \<inter> seen = {}"
proof (induction source ys category seen arbitrary: ds rule: validate_mechanics_from.induct)
  case (2 source y ys category seen)
  from 2(2) obtain d seen' es where d: "validate_mechanic_definition source y category seen = Inr (d, seen')"
    and es: "validate_mechanics_from source ys category seen' = Inr es" and ds: "ds = d # es"
    by (auto simp: and_then_eq_Inr)
  from 2(1) [OF es] validate_mechanic_definition_ok [OF d] show ?case
    by (auto simp: ds)
qed simp

definition valid_registry :: "mechanic_catalog \<Rightarrow> bool" where
  "valid_registry m \<longleftrightarrow> mc_behaviors m \<noteq> [] \<and> mc_statuses m \<noteq> [] \<and>
     list_all behavior_entry (mc_behaviors m) \<and> list_all status_entry (mc_statuses m) \<and>
     distinct (map mech_id (mc_behaviors m)) \<and> distinct (map mech_id (mc_statuses m))"

text \<open>An accepted registry has behaviours and statuses with distinct ids, each with a schema of its own kind
  only, whose numeric fields are supported ones, and every implemented behaviour allows an effect.\<close>

lemma parse_mechanics_valid:
  assumes "parse_mechanics_yaml from_yaml source yaml = Inr m"
  shows "valid_registry m"
  using assms by (auto simp: parse_mechanics_yaml_def validate_mechanics_def and_then_eq_Inr valid_registry_def
      entry_of_def split: if_splits dest!: validate_mechanics_from_ok)

definition sample_mechanic :: "string \<Rightarrow> mechanic_schema_yaml \<Rightarrow> mechanic_yaml" where
  "sample_mechanic ident schema = \<lparr>my_id = lit ident, my_label = lit ''Label'', my_implemented = True,
     my_inspiration = lit ''x'', my_notes = lit ''x'', my_schema = Some schema\<rparr>"

definition sample_schema :: "(rstring, numeric_rule_yaml) btree_map \<Rightarrow> mechanic_schema_yaml" where
  "sample_schema rules = \<lparr>msy_numeric_fields = rules, msy_payload = PayloadRuleRequired,
     msy_cast_start_payload = PayloadRuleForbidden, msy_cast_end_payload = PayloadRuleForbidden,
     msy_expire_payload = PayloadRuleForbidden, msy_dispel_payload = PayloadRuleOptional,
     msy_allowed_effects = [lit ''nova''], msy_max_stacks = StackRulePositive\<rparr>"

definition sample_registry :: mechanics_file_yaml where
  "sample_registry = \<lparr>
     mfy_behaviors = [sample_mechanic ''nova'' (sample_schema
       [(lit ''cooldown_ms'', RuleRequired), (lit ''mana_cost'', RuleOptional), (lit ''radius'', RuleRequired)])],
     mfy_statuses = [sample_mechanic ''poison'' (sample_schema
       [(lit ''duration_ms'', RuleRequired), (lit ''magnitude'', RuleRequired), (lit ''tick_interval_ms'', RuleRequired)])]\<rparr>"

lemma sample_registry_parses:
  "\<exists>m. parse_mechanics_yaml (\<lambda>_. Inr sample_registry) [] [] = Inr m"
  by (simp add: parse_mechanics_yaml_def sample_registry_def sample_mechanic_def sample_schema_def
      validate_mechanics_def validate_mechanic_definition_def parse_optional_behavior_schema_def
      parse_optional_status_schema_def parse_behavior_schema_def parse_status_schema_def
      BEHAVIOR_NUMERIC_FIELDS_def STATUS_NUMERIC_FIELDS_def parse_effect_kind_def validate_skill_text_def
      MAX_SKILL_TEXT_LEN_def bt_keys_def text_eval)

lemma parse_mechanics_valid_example:
  "\<exists>m. parse_mechanics_yaml (\<lambda>_. Inr sample_registry) [] [] = Inr m \<and> valid_registry m"
  using sample_registry_parses parse_mechanics_valid by blast

text \<open>A lookup by id finds the one entry with that id.\<close>

lemma find_distinct_iff:
  "distinct (map f xs) \<Longrightarrow> find (\<lambda>x. f x = k) xs = Some x \<longleftrightarrow> x \<in> set xs \<and> f x = k"
  by (induction xs) (auto simp: rev_image_eqI)

lemma catalog_lookup_iff:
  assumes "valid_registry m"
  shows "catalog_behavior m ident = Some d \<longleftrightarrow> d \<in> set (mc_behaviors m) \<and> mech_id d = ident"
    and "catalog_status m ident = Some d \<longleftrightarrow> d \<in> set (mc_statuses m) \<and> mech_id d = ident"
  using assms by (simp_all add: valid_registry_def catalog_behavior_def catalog_status_def find_distinct_iff)

end
