(* ===== verification/Content_Skills.thy ===== *)
theory Content_Skills
  imports Content_Mechanics
begin

text \<open>
  Skill files (\<open>skills/mod.rs\<close> and the first half of \<open>skills/behavior.rs\<close>): a behaviour is
  read against the schema its kind has in the registry, a class file holds a melee attack and
  one skill of each tier, and the catalogue collects the files of all classes.
\<close>

section \<open>Numeric fields of a behaviour\<close>

record behavior_numeric_fields =
  bf_cooldown_ms :: "u16 option"
  bf_cast_time_ms :: "u16 option"
  bf_mana_cost :: "u16 option"
  bf_range :: "u16 option"
  bf_radius :: "u16 option"
  bf_distance :: "u16 option"
  bf_speed :: "u16 option"
  bf_impact_radius :: "u16 option"
  bf_duration_ms :: "u16 option"
  bf_hit_points :: "u16 option"
  bf_tick_interval_ms :: "u16 option"
  bf_player_speed_bps :: "u16 option"
  bf_projectile_speed_bps :: "u16 option"
  bf_cooldown_bps :: "u16 option"
  bf_cast_time_bps :: "u16 option"

record behavior_aux_payloads =
  ba_cast_start_payload :: "effect_payload option"
  ba_cast_end_payload :: "effect_payload option"

record behavior_parse_context =
  bc_source :: rstring
  bc_yaml :: skill_behavior_yaml
  bc_mechanics :: mechanic_catalog
  bc_schema :: behavior_schema
  bc_fields :: behavior_numeric_fields
  bc_effect :: skill_effect_kind
  bc_cooldown_ms :: u16
  bc_mana_cost :: u16

definition parse_behavior_numeric_fields ::
  "rstring \<Rightarrow> skill_behavior_yaml \<Rightarrow> behavior_schema \<Rightarrow> content_error + behavior_numeric_fields" where
  "parse_behavior_numeric_fields source y schema =
     (let rd = \<lambda>field value. read_numeric_field source (lit field) value
        (schema_numeric_rule (bs_numeric_fields schema) (lit field)) in
      and_then (rd ''cooldown_ms'' (by_cooldown_ms y)) (\<lambda>cooldown_ms.
      and_then (rd ''cast_time_ms'' (by_cast_time_ms y)) (\<lambda>cast_time_ms.
      and_then (rd ''mana_cost'' (by_mana_cost y)) (\<lambda>mana_cost.
      and_then (rd ''range'' (by_range y)) (\<lambda>rng.
      and_then (rd ''radius'' (by_radius y)) (\<lambda>radius.
      and_then (rd ''distance'' (by_distance y)) (\<lambda>distance.
      and_then (rd ''speed'' (by_speed y)) (\<lambda>speed.
      and_then (rd ''impact_radius'' (by_impact_radius y)) (\<lambda>impact_radius.
      and_then (rd ''duration_ms'' (by_duration_ms y)) (\<lambda>duration_ms.
      and_then (rd ''hit_points'' (by_hit_points y)) (\<lambda>hit_points.
      and_then (rd ''tick_interval_ms'' (by_tick_interval_ms y)) (\<lambda>tick_interval_ms.
      and_then (rd ''player_speed_bps'' (by_player_speed_bps y)) (\<lambda>player_speed_bps.
      and_then (rd ''projectile_speed_bps'' (by_projectile_speed_bps y)) (\<lambda>projectile_speed_bps.
      and_then (rd ''cooldown_bps'' (by_cooldown_bps y)) (\<lambda>cooldown_bps.
      and_then (rd ''cast_time_bps'' (by_cast_time_bps y)) (\<lambda>cast_time_bps.
        Inr \<lparr>bf_cooldown_ms = cooldown_ms, bf_cast_time_ms = cast_time_ms, bf_mana_cost = mana_cost,
          bf_range = rng, bf_radius = radius, bf_distance = distance, bf_speed = speed,
          bf_impact_radius = impact_radius, bf_duration_ms = duration_ms, bf_hit_points = hit_points,
          bf_tick_interval_ms = tick_interval_ms, bf_player_speed_bps = player_speed_bps,
          bf_projectile_speed_bps = projectile_speed_bps, bf_cooldown_bps = cooldown_bps,
          bf_cast_time_bps = cast_time_bps\<rparr>))))))))))))))))"

section \<open>Schemas and payload slots\<close>

definition behavior_schema_of :: "mechanic_catalog \<Rightarrow> rstring \<Rightarrow> rstring \<Rightarrow> content_error + behavior_schema" where
  "behavior_schema_of mechanics source kind =
     (case catalog_behavior mechanics kind of
        None \<Rightarrow> invalid source (lit ''unknown behavior kind '' @ quoted kind)
      | Some d \<Rightarrow>
          if \<not> mech_implemented d
          then invalid source (lit ''behavior kind '' @ quoted kind @ lit '' is not implemented yet'')
          else (case mech_behavior_schema d of
            None \<Rightarrow> invalid source (lit ''behavior kind '' @ quoted kind @ lit '' is missing a schema definition'')
          | Some schema \<Rightarrow> Inr schema))"

definition validate_allowed_effect ::
  "rstring \<Rightarrow> rstring \<Rightarrow> skill_effect_kind \<Rightarrow> skill_effect_kind list \<Rightarrow> content_error + unit" where
  "validate_allowed_effect source kind effect allowed =
     (if effect \<notin> set allowed
      then invalid source (lit ''effect '' @ quoted (effect_debug effect) @
        lit '' is not valid for behavior kind '' @ quoted kind)
      else Inr ())"

definition parse_behavior_payload ::
  "rstring \<Rightarrow> effect_payload_yaml option \<Rightarrow> payload_field_rule \<Rightarrow> mechanic_catalog \<Rightarrow> content_error + effect_payload" where
  "parse_behavior_payload source payload r mechanics =
     (case r of
        PayloadForbidden \<Rightarrow> invalid source (lit ''behavior.payload is not valid for this mechanic'')
      | _ \<Rightarrow> parse_payload source payload (lit ''behavior.payload'') mechanics)"

definition parse_optional_behavior_payload ::
  "rstring \<Rightarrow> effect_payload_yaml option \<Rightarrow> payload_field_rule \<Rightarrow> mechanic_catalog \<Rightarrow>
   content_error + effect_payload option" where
  "parse_optional_behavior_payload source payload r mechanics =
     (case r of
        PayloadRequired \<Rightarrow>
          and_then (parse_payload source payload (lit ''behavior.payload'') mechanics) (\<lambda>p. Inr (Some p))
      | PayloadOptional \<Rightarrow>
          map_transpose (\<lambda>p. parse_payload source (Some p) (lit ''behavior.payload'') mechanics) payload
      | PayloadForbidden \<Rightarrow>
          if payload \<noteq> None then invalid source (lit ''behavior.payload is not valid for this mechanic'')
          else Inr None)"

definition parse_behavior_aux_payloads ::
  "rstring \<Rightarrow> skill_behavior_yaml \<Rightarrow> behavior_schema \<Rightarrow> mechanic_catalog \<Rightarrow> content_error + behavior_aux_payloads" where
  "parse_behavior_aux_payloads source y schema mechanics =
     and_then (parse_optional_behavior_payload source (by_cast_start_payload y) (bs_cast_start_payload schema) mechanics)
       (\<lambda>start. and_then
         (parse_optional_behavior_payload source (by_cast_end_payload y) (bs_cast_end_payload schema) mechanics)
         (\<lambda>stop. Inr \<lparr>ba_cast_start_payload = start, ba_cast_end_payload = stop\<rparr>))"

definition validate_no_aux_payloads :: "rstring \<Rightarrow> behavior_aux_payloads \<Rightarrow> rstring \<Rightarrow> content_error + unit" where
  "validate_no_aux_payloads source aux kind =
     (if ba_cast_start_payload aux \<noteq> None
      then invalid source (lit ''behavior.cast_start_payload is not valid for behavior kind '' @ quoted kind)
      else if ba_cast_end_payload aux \<noteq> None
      then invalid source (lit ''behavior.cast_end_payload is not valid for behavior kind '' @ quoted kind)
      else Inr ())"

definition validate_no_proc_reset :: "rstring \<Rightarrow> rstring \<Rightarrow> proc_reset_yaml option \<Rightarrow> content_error + unit" where
  "validate_no_proc_reset source kind proc_reset =
     (if proc_reset \<noteq> None
      then invalid source (lit ''behavior.proc_reset is not valid for behavior kind '' @ quoted kind)
      else Inr ())"

definition validate_toggleable_flag :: "rstring \<Rightarrow> rstring \<Rightarrow> bool \<Rightarrow> content_error + unit" where
  "validate_toggleable_flag source kind toggleable =
     (if toggleable
      then invalid source (lit ''behavior.toggleable is not valid for behavior kind '' @ quoted kind)
      else Inr ())"

definition or_zero :: "u16 option \<Rightarrow> u16" where
  "or_zero v = (case v of Some n \<Rightarrow> n | None \<Rightarrow> 0)"

definition is_toggleable :: "skill_behavior_yaml \<Rightarrow> bool" where
  "is_toggleable y = (case by_toggleable y of Some b \<Rightarrow> b | None \<Rightarrow> False)"

section \<open>Resets of cooldowns by triggers\<close>

fun parse_reference_ids :: "rstring \<Rightarrow> rstring \<Rightarrow> rstring list \<Rightarrow> rstring list \<Rightarrow> content_error + rstring list" where
  "parse_reference_ids source field parsed [] = Inr parsed"
| "parse_reference_ids source field parsed (v # vs) =
     and_then (validate_skill_reference_id source field v) (\<lambda>_.
       if v \<in> set parsed then invalid source (field @ lit '' must not contain duplicate skill ids'')
       else parse_reference_ids source field (parsed @ [v]) vs)"

definition parse_skill_reference_list ::
  "rstring \<Rightarrow> rstring \<Rightarrow> rstring list option \<Rightarrow> content_error + rstring list" where
  "parse_skill_reference_list source field values' =
     (case values' of
        None \<Rightarrow> Inr []
      | Some vs \<Rightarrow>
          if vs = [] then invalid source (field @ lit '' must not be empty when provided'')
          else parse_reference_ids source field [] vs)"

definition parse_proc_trigger :: "rstring \<Rightarrow> rstring \<Rightarrow> content_error + proc_trigger_kind" where
  "parse_proc_trigger source raw =
     (if raw = lit ''on_hit'' then Inr OnHit
      else if raw = lit ''on_crit'' then Inr OnCrit
      else if raw = lit ''on_heal'' then Inr OnHeal
      else if raw = lit ''on_tick'' then Inr OnTick
      else invalid source (lit ''behavior.proc_reset.trigger has unknown value '' @ quoted raw))"

definition parse_proc_reset :: "rstring \<Rightarrow> proc_reset_yaml \<Rightarrow> content_error + proc_reset_definition" where
  "parse_proc_reset source y =
     and_then (parse_proc_trigger source (pry_trigger y)) (\<lambda>trigger.
     and_then (parse_skill_reference_list source (lit ''behavior.proc_reset.source_skill_ids'')
         (pry_source_skill_ids y)) (\<lambda>source_ids.
     and_then (parse_skill_reference_list source (lit ''behavior.proc_reset.reset_skill_ids'')
         (pry_reset_skill_ids y)) (\<lambda>reset_ids.
     and_then (parse_skill_reference_list source (lit ''behavior.proc_reset.instacast_skill_ids'')
         (pry_instacast_skill_ids y)) (\<lambda>instacast_ids.
       if reset_ids = [] \<and> instacast_ids = []
       then invalid source (lit ''behavior.proc_reset must reset at least one skill cooldown or grant at least one instacast target'')
       else if pry_internal_cooldown_ms y = Some 0
       then invalid source (lit ''behavior.proc_reset.internal_cooldown_ms must be greater than zero when provided'')
       else if instacast_ids = [] \<and>
         (pry_instacast_costs_mana y \<noteq> None \<or> pry_instacast_starts_cooldown y \<noteq> None)
       then invalid source (lit ''behavior.proc_reset instacast flags require instacast_skill_ids'')
       else Inr \<lparr>prd_trigger = trigger, prd_source_skill_ids = source_ids, prd_reset_skill_ids = reset_ids,
         prd_instacast_skill_ids = instacast_ids,
         prd_instacast_costs_mana = (case pry_instacast_costs_mana y of Some b \<Rightarrow> b | None \<Rightarrow> True),
         prd_instacast_starts_cooldown = (case pry_instacast_starts_cooldown y of Some b \<Rightarrow> b | None \<Rightarrow> True),
         prd_internal_cooldown_ms = pry_internal_cooldown_ms y\<rparr>))))"

section \<open>Behaviours\<close>

text \<open>The parsers of the single kinds take the context and the checked cooldown; the fields of the source
  struct are read in their order.\<close>

abbreviation present :: "behavior_parse_context \<Rightarrow> string \<Rightarrow> u16 option \<Rightarrow> content_error + u16" where
  "present c field v \<equiv> require_present_u16 (bc_source c) (lit field) v"

abbreviation behavior_payload :: "behavior_parse_context \<Rightarrow> content_error + effect_payload" where
  "behavior_payload c \<equiv> parse_behavior_payload (bc_source c) (by_payload (bc_yaml c))
     (bs_payload (bc_schema c)) (bc_mechanics c)"

abbreviation cast_time_of :: "behavior_parse_context \<Rightarrow> u16" where
  "cast_time_of c \<equiv> or_zero (bf_cast_time_ms (bc_fields c))"

definition parse_projectile_behavior :: "behavior_parse_context \<Rightarrow> u16 \<Rightarrow> content_error + skill_behavior" where
  "parse_projectile_behavior c cooldown =
     and_then (present c ''speed'' (bf_speed (bc_fields c))) (\<lambda>speed.
     and_then (present c ''range'' (bf_range (bc_fields c))) (\<lambda>rng.
     and_then (present c ''radius'' (bf_radius (bc_fields c))) (\<lambda>radius.
     and_then (behavior_payload c) (\<lambda>payload.
       Inr (SbProjectile cooldown (cast_time_of c) (bc_mana_cost c) speed rng radius (bc_effect c) payload)))))"

definition parse_beam_behavior :: "behavior_parse_context \<Rightarrow> u16 \<Rightarrow> content_error + skill_behavior" where
  "parse_beam_behavior c cooldown =
     and_then (present c ''range'' (bf_range (bc_fields c))) (\<lambda>rng.
     and_then (present c ''radius'' (bf_radius (bc_fields c))) (\<lambda>radius.
     and_then (behavior_payload c) (\<lambda>payload.
       Inr (SbBeam cooldown (cast_time_of c) (bc_mana_cost c) rng radius (bc_effect c) payload))))"

definition parse_dash_behavior :: "behavior_parse_context \<Rightarrow> u16 \<Rightarrow> content_error + skill_behavior" where
  "parse_dash_behavior c cooldown =
     and_then (present c ''distance'' (bf_distance (bc_fields c))) (\<lambda>distance.
     and_then (parse_optional_behavior_payload (bc_source c) (by_payload (bc_yaml c))
         (bs_payload (bc_schema c)) (bc_mechanics c)) (\<lambda>payload.
       Inr (SbDash cooldown (cast_time_of c) (bc_mana_cost c) distance (bc_effect c)
         (bf_impact_radius (bc_fields c)) payload)))"

definition parse_burst_behavior :: "behavior_parse_context \<Rightarrow> u16 \<Rightarrow> content_error + skill_behavior" where
  "parse_burst_behavior c cooldown =
     and_then (present c ''range'' (bf_range (bc_fields c))) (\<lambda>rng.
     and_then (present c ''radius'' (bf_radius (bc_fields c))) (\<lambda>radius.
     and_then (behavior_payload c) (\<lambda>payload.
       Inr (SbBurst cooldown (cast_time_of c) (bc_mana_cost c) rng radius (bc_effect c) payload))))"

definition parse_nova_behavior :: "behavior_parse_context \<Rightarrow> u16 \<Rightarrow> content_error + skill_behavior" where
  "parse_nova_behavior c cooldown =
     and_then (present c ''radius'' (bf_radius (bc_fields c))) (\<lambda>radius.
     and_then (behavior_payload c) (\<lambda>payload.
       Inr (SbNova cooldown (cast_time_of c) (bc_mana_cost c) radius (bc_effect c) payload)))"

definition parse_summon_behavior :: "behavior_parse_context \<Rightarrow> u16 \<Rightarrow> content_error + skill_behavior" where
  "parse_summon_behavior c cooldown =
     and_then (present c ''distance'' (bf_distance (bc_fields c))) (\<lambda>distance.
     and_then (present c ''radius'' (bf_radius (bc_fields c))) (\<lambda>radius.
     and_then (present c ''duration_ms'' (bf_duration_ms (bc_fields c))) (\<lambda>duration_ms.
     and_then (present c ''hit_points'' (bf_hit_points (bc_fields c))) (\<lambda>hit_points.
     and_then (present c ''range'' (bf_range (bc_fields c))) (\<lambda>rng.
     and_then (present c ''tick_interval_ms'' (bf_tick_interval_ms (bc_fields c))) (\<lambda>tick_interval_ms.
     and_then (behavior_payload c) (\<lambda>payload.
       Inr (SbSummon cooldown (cast_time_of c) (bc_mana_cost c) distance radius duration_ms hit_points rng
         tick_interval_ms (bc_effect c) payload))))))))"

definition parse_ward_behavior :: "behavior_parse_context \<Rightarrow> u16 \<Rightarrow> content_error + skill_behavior" where
  "parse_ward_behavior c cooldown =
     and_then (present c ''distance'' (bf_distance (bc_fields c))) (\<lambda>distance.
     and_then (present c ''radius'' (bf_radius (bc_fields c))) (\<lambda>radius.
     and_then (require_present_u16_allow_zero (bc_source c) (lit ''duration_ms'') (bf_duration_ms (bc_fields c))) (\<lambda>duration_ms.
     and_then (present c ''hit_points'' (bf_hit_points (bc_fields c))) (\<lambda>hit_points.
       Inr (SbWard cooldown (cast_time_of c) (bc_mana_cost c) distance radius duration_ms hit_points (bc_effect c))))))"

definition parse_trap_behavior :: "behavior_parse_context \<Rightarrow> u16 \<Rightarrow> content_error + skill_behavior" where
  "parse_trap_behavior c cooldown =
     and_then (present c ''distance'' (bf_distance (bc_fields c))) (\<lambda>distance.
     and_then (present c ''radius'' (bf_radius (bc_fields c))) (\<lambda>radius.
     and_then (present c ''duration_ms'' (bf_duration_ms (bc_fields c))) (\<lambda>duration_ms.
     and_then (present c ''hit_points'' (bf_hit_points (bc_fields c))) (\<lambda>hit_points.
     and_then (behavior_payload c) (\<lambda>payload.
       Inr (SbTrap cooldown (cast_time_of c) (bc_mana_cost c) distance radius duration_ms hit_points
         (bc_effect c) payload))))))"

definition parse_barrier_behavior :: "behavior_parse_context \<Rightarrow> u16 \<Rightarrow> content_error + skill_behavior" where
  "parse_barrier_behavior c cooldown =
     and_then (present c ''distance'' (bf_distance (bc_fields c))) (\<lambda>distance.
     and_then (present c ''radius'' (bf_radius (bc_fields c))) (\<lambda>radius.
     and_then (present c ''duration_ms'' (bf_duration_ms (bc_fields c))) (\<lambda>duration_ms.
     and_then (present c ''hit_points'' (bf_hit_points (bc_fields c))) (\<lambda>hit_points.
       Inr (SbBarrier cooldown (cast_time_of c) (bc_mana_cost c) distance radius duration_ms hit_points (bc_effect c))))))"

definition parse_teleport_behavior :: "behavior_parse_context \<Rightarrow> behavior_aux_payloads \<Rightarrow> content_error + skill_behavior" where
  "parse_teleport_behavior c aux =
     and_then (validate_no_aux_payloads (bc_source c) aux (lit ''teleport'')) (\<lambda>_.
     and_then (validate_no_proc_reset (bc_source c) (lit ''teleport'') (by_proc_reset (bc_yaml c))) (\<lambda>_.
     and_then (validate_toggleable_flag (bc_source c) (lit ''teleport'') (is_toggleable (bc_yaml c))) (\<lambda>_.
     and_then (present c ''cooldown_ms'' (Some (bc_cooldown_ms c))) (\<lambda>cooldown.
     and_then (present c ''distance'' (bf_distance (bc_fields c))) (\<lambda>distance.
       Inr (SbTeleport cooldown (cast_time_of c) (bc_mana_cost c) distance (bc_effect c)))))))"

definition parse_channel_behavior :: "behavior_parse_context \<Rightarrow> behavior_aux_payloads \<Rightarrow> content_error + skill_behavior" where
  "parse_channel_behavior c aux =
     and_then (validate_no_aux_payloads (bc_source c) aux (lit ''channel'')) (\<lambda>_.
     and_then (validate_no_proc_reset (bc_source c) (lit ''channel'') (by_proc_reset (bc_yaml c))) (\<lambda>_.
     and_then (validate_toggleable_flag (bc_source c) (lit ''channel'') (is_toggleable (bc_yaml c))) (\<lambda>_.
     and_then (present c ''cooldown_ms'' (Some (bc_cooldown_ms c))) (\<lambda>cooldown.
     and_then (present c ''radius'' (bf_radius (bc_fields c))) (\<lambda>radius.
     and_then (present c ''duration_ms'' (bf_duration_ms (bc_fields c))) (\<lambda>duration_ms.
     and_then (present c ''tick_interval_ms'' (bf_tick_interval_ms (bc_fields c))) (\<lambda>tick_interval_ms.
     and_then (behavior_payload c) (\<lambda>payload.
       Inr (SbChannel cooldown (cast_time_of c) (bc_mana_cost c) (or_zero (bf_range (bc_fields c))) radius
         duration_ms tick_interval_ms (bc_effect c) payload)))))))))"

definition parse_passive_behavior :: "behavior_parse_context \<Rightarrow> behavior_aux_payloads \<Rightarrow> content_error + skill_behavior" where
  "parse_passive_behavior c aux =
     and_then (validate_no_aux_payloads (bc_source c) aux (lit ''passive'')) (\<lambda>_.
     and_then (validate_toggleable_flag (bc_source c) (lit ''passive'') (is_toggleable (bc_yaml c))) (\<lambda>_.
     and_then (map_transpose (parse_proc_reset (bc_source c)) (by_proc_reset (bc_yaml c))) (\<lambda>proc_reset.
       let player_speed = or_zero (bf_player_speed_bps (bc_fields c));
           projectile_speed = or_zero (bf_projectile_speed_bps (bc_fields c));
           cooldown = or_zero (bf_cooldown_bps (bc_fields c));
           cast_time = or_zero (bf_cast_time_bps (bc_fields c)) in
       if player_speed = 0 \<and> projectile_speed = 0 \<and> cooldown = 0 \<and> cast_time = 0 \<and> proc_reset = None
       then invalid (bc_source c) (lit ''passive behaviors must modify at least one stat or declare proc_reset'')
       else Inr (SbPassive player_speed projectile_speed cooldown cast_time proc_reset))))"

definition parse_aura_behavior :: "behavior_parse_context \<Rightarrow> behavior_aux_payloads \<Rightarrow> content_error + skill_behavior" where
  "parse_aura_behavior c aux =
     and_then (validate_no_proc_reset (bc_source c) (lit ''aura'') (by_proc_reset (bc_yaml c))) (\<lambda>_.
       if is_toggleable (bc_yaml c) \<and>
         (0 < or_zero (bf_distance (bc_fields c)) \<or> bf_hit_points (bc_fields c) \<noteq> None)
       then invalid (bc_source c)
         (lit ''toggleable auras must be self-anchored and cannot declare distance or hit_points'')
       else
         and_then (present c ''cooldown_ms'' (Some (bc_cooldown_ms c))) (\<lambda>cooldown.
         and_then (present c ''radius'' (bf_radius (bc_fields c))) (\<lambda>radius.
         and_then (present c ''duration_ms'' (bf_duration_ms (bc_fields c))) (\<lambda>duration_ms.
         and_then (present c ''tick_interval_ms'' (bf_tick_interval_ms (bc_fields c))) (\<lambda>tick_interval_ms.
         and_then (behavior_payload c) (\<lambda>payload.
           Inr (SbAura cooldown (cast_time_of c) (bc_mana_cost c) (or_zero (bf_distance (bc_fields c))) radius
             duration_ms (bf_hit_points (bc_fields c)) (is_toggleable (bc_yaml c)) tick_interval_ms
             (ba_cast_start_payload aux) (ba_cast_end_payload aux) (bc_effect c) payload)))))))"

section \<open>Dispatch on the kind\<close>

definition parse_direct_skill_behavior :: "behavior_parse_context \<Rightarrow> behavior_aux_payloads \<Rightarrow> content_error + skill_behavior" where
  "parse_direct_skill_behavior c aux =
     (let kind = by_kind (bc_yaml c) in
      and_then (validate_no_aux_payloads (bc_source c) aux kind) (\<lambda>_.
      and_then (validate_no_proc_reset (bc_source c) kind (by_proc_reset (bc_yaml c))) (\<lambda>_.
      and_then (present c ''cooldown_ms'' (Some (bc_cooldown_ms c))) (\<lambda>cooldown.
        if kind = lit ''projectile'' then parse_projectile_behavior c cooldown
        else if kind = lit ''beam'' then parse_beam_behavior c cooldown
        else if kind = lit ''dash'' then parse_dash_behavior c cooldown
        else if kind = lit ''burst'' then parse_burst_behavior c cooldown
        else if kind = lit ''nova'' then parse_nova_behavior c cooldown
        else invalid (bc_source c) (lit ''unsupported direct behavior kind '' @ quoted kind)))))"

text \<open>The checks the four plain deployables share.\<close>

definition validate_plain_deployable :: "behavior_parse_context \<Rightarrow> behavior_aux_payloads \<Rightarrow> content_error + unit" where
  "validate_plain_deployable c aux =
     (let kind = by_kind (bc_yaml c) in
      and_then (validate_no_aux_payloads (bc_source c) aux kind) (\<lambda>_.
      and_then (validate_no_proc_reset (bc_source c) kind (by_proc_reset (bc_yaml c))) (\<lambda>_.
        validate_toggleable_flag (bc_source c) kind (is_toggleable (bc_yaml c)))))"

definition parse_deployable_skill_behavior :: "behavior_parse_context \<Rightarrow> behavior_aux_payloads \<Rightarrow> content_error + skill_behavior" where
  "parse_deployable_skill_behavior c aux =
     (let kind = by_kind (bc_yaml c) in
      and_then (present c ''cooldown_ms'' (Some (bc_cooldown_ms c))) (\<lambda>cooldown.
        if kind = lit ''summon'' then
          and_then (validate_plain_deployable c aux) (\<lambda>_. parse_summon_behavior c cooldown)
        else if kind = lit ''ward'' then
          and_then (validate_plain_deployable c aux) (\<lambda>_. parse_ward_behavior c cooldown)
        else if kind = lit ''trap'' then
          and_then (validate_plain_deployable c aux) (\<lambda>_. parse_trap_behavior c cooldown)
        else if kind = lit ''barrier'' then
          and_then (validate_plain_deployable c aux) (\<lambda>_. parse_barrier_behavior c cooldown)
        else if kind = lit ''aura'' then parse_aura_behavior c aux
        else invalid (bc_source c) (lit ''unsupported deployable behavior kind '' @ quoted kind)))"

definition dispatch_skill_behavior :: "behavior_parse_context \<Rightarrow> behavior_aux_payloads \<Rightarrow> content_error + skill_behavior" where
  "dispatch_skill_behavior c aux =
     (let kind = by_kind (bc_yaml c) in
      if kind \<in> set (map lit [''projectile'', ''beam'', ''dash'', ''burst'', ''nova''])
      then parse_direct_skill_behavior c aux
      else if kind = lit ''teleport'' then parse_teleport_behavior c aux
      else if kind = lit ''channel'' then parse_channel_behavior c aux
      else if kind = lit ''passive'' then parse_passive_behavior c aux
      else if kind \<in> set (map lit [''summon'', ''ward'', ''trap'', ''barrier'', ''aura''])
      then parse_deployable_skill_behavior c aux
      else invalid (bc_source c) (lit ''unknown behavior kind '' @ quoted kind))"

definition parse_skill_behavior ::
  "rstring \<Rightarrow> skill_behavior_yaml \<Rightarrow> mechanic_catalog \<Rightarrow> content_error + skill_behavior" where
  "parse_skill_behavior source y mechanics =
     and_then (behavior_schema_of mechanics source (by_kind y)) (\<lambda>schema.
     and_then (parse_effect_kind source (by_effect y)) (\<lambda>effect.
     and_then (validate_allowed_effect source (by_kind y) effect (bs_allowed_effects schema)) (\<lambda>_.
     and_then (parse_behavior_numeric_fields source y schema) (\<lambda>flds.
     and_then (parse_behavior_aux_payloads source y schema mechanics) (\<lambda>aux.
       dispatch_skill_behavior
         \<lparr>bc_source = source, bc_yaml = y, bc_mechanics = mechanics, bc_schema = schema, bc_fields = flds,
          bc_effect = effect, bc_cooldown_ms = or_zero (bf_cooldown_ms flds),
          bc_mana_cost = or_zero (bf_mana_cost flds)\<rparr> aux)))))"

section \<open>Class files\<close>

definition parse_skill_tree :: "rstring \<Rightarrow> rstring \<Rightarrow> content_error + skill_tree" where
  "parse_skill_tree source raw =
     (case skill_tree_parse raw of
        Some t \<Rightarrow> Inr t
      | None \<Rightarrow> invalid source (lit ''unknown skill tree '' @ quoted (trim raw)))"

definition validate_optional_cue :: "rstring \<Rightarrow> string \<Rightarrow> rstring option \<Rightarrow> content_error + unit" where
  "validate_optional_cue source field cue =
     (case cue of None \<Rightarrow> Inr () | Some c \<Rightarrow> validate_audio_cue_id source (lit field) c)"

text \<open>The payload of a melee attack is always checked against the registry built into the program.\<close>

definition parse_melee_definition ::
  "mechanic_catalog \<Rightarrow> rstring \<Rightarrow> skill_tree \<Rightarrow> melee_yaml \<Rightarrow> content_error + melee_definition" where
  "parse_melee_definition default_mechanics source t y =
     and_then (validate_skill_text source (lit ''melee.id'') (mly_id y)) (\<lambda>_.
     and_then (validate_skill_text source (lit ''melee.name'') (mly_name y)) (\<lambda>_.
     and_then (validate_skill_text source (lit ''melee.description'') (mly_description y)) (\<lambda>_.
     and_then (validate_optional_cue source ''melee.audio_cue_id'' (mly_audio_cue_id y)) (\<lambda>_.
     and_then (require_positive_u16 source (lit ''melee.cooldown_ms'') (Some (mly_cooldown_ms y))) (\<lambda>cooldown.
     and_then (require_positive_u16 source (lit ''melee.range'') (Some (mly_range y))) (\<lambda>rng.
     and_then (require_positive_u16 source (lit ''melee.radius'') (Some (mly_radius y))) (\<lambda>radius.
     and_then (parse_effect_kind source (mly_effect y)) (\<lambda>effect.
     and_then (parse_payload source (Some (mly_payload y)) (lit ''melee.payload'') default_mechanics) (\<lambda>payload.
       Inr \<lparr>md_tree = t, md_id = mly_id y, md_name = mly_name y, md_description = mly_description y,
         md_audio_cue_id = mly_audio_cue_id y, md_cooldown_ms = cooldown, md_range = rng, md_radius = radius,
         md_effect = effect, md_payload = payload\<rparr>)))))))))"

text \<open>One turn of the loop over the skills of a file; \<open>seen_tiers\<close> are the tiers read before.\<close>

definition validate_skill ::
  "rstring \<Rightarrow> skill_tree \<Rightarrow> mechanic_catalog \<Rightarrow> u8 set \<Rightarrow> skill_yaml \<Rightarrow> content_error + skill_definition" where
  "validate_skill source t mechanics seen_tiers y =
     (if sky_tier y \<notin> set REQUIRED_TIERS
      then invalid source (lit ''tier '' @ show_u8 (sky_tier y) @ lit '' is outside the supported range 1..=5'')
      else if sky_tier y \<in> seen_tiers
      then invalid source (lit ''tier '' @ show_u8 (sky_tier y) @ lit '' is defined more than once'')
      else
        and_then (validate_skill_text source (lit ''id'') (sky_id y)) (\<lambda>_.
        and_then (validate_skill_text source (lit ''name'') (sky_name y)) (\<lambda>_.
        and_then (validate_skill_text source (lit ''description'') (sky_description y)) (\<lambda>_.
        and_then (validate_optional_cue source ''audio_cue_id'' (sky_audio_cue_id y)) (\<lambda>_.
        and_then (parse_skill_behavior source (sky_behavior y) mechanics) (\<lambda>behavior.
          Inr \<lparr>sk_tree = t, sk_tier = sky_tier y, sk_id = sky_id y, sk_name = sky_name y,
            sk_description = sky_description y, sk_audio_cue_id = sky_audio_cue_id y,
            sk_behavior = behavior\<rparr>))))))"

fun validate_skills ::
  "rstring \<Rightarrow> skill_tree \<Rightarrow> mechanic_catalog \<Rightarrow> u8 set \<Rightarrow> skill_yaml list \<Rightarrow> content_error + skill_definition list" where
  "validate_skills source t mechanics seen_tiers [] = Inr []"
| "validate_skills source t mechanics seen_tiers (y # ys) =
     and_then (validate_skill source t mechanics seen_tiers y) (\<lambda>d.
     and_then (validate_skills source t mechanics (insert (sky_tier y) seen_tiers) ys) (\<lambda>ds. Inr (d # ds)))"

definition validate_skill_file ::
  "mechanic_catalog \<Rightarrow> rstring \<Rightarrow> skill_file_yaml \<Rightarrow> mechanic_catalog \<Rightarrow> content_error + class_definition" where
  "validate_skill_file default_mechanics source document mechanics =
     and_then (parse_skill_tree source (sfy_tree document)) (\<lambda>t.
     and_then (parse_melee_definition default_mechanics source t (sfy_melee document)) (\<lambda>melee.
     and_then (validate_skills source t mechanics {} (sfy_skills document)) (\<lambda>skills.
       if length skills \<noteq> length REQUIRED_TIERS
       then invalid source (lit ''expected exactly '' @ show_nat (length REQUIRED_TIERS) @ lit '' skills, found '' @
         show_nat (length skills))
       else Inr \<lparr>cd_tree = t, cd_melee = melee, cd_skills = skills\<rparr>)))"

definition parse_skill_yaml_with_mechanics ::
  "(rstring \<Rightarrow> rstring + skill_file_yaml) \<Rightarrow> mechanic_catalog \<Rightarrow> rstring \<Rightarrow> rstring \<Rightarrow> mechanic_catalog \<Rightarrow>
   content_error + class_definition" where
  "parse_skill_yaml_with_mechanics from_yaml default_mechanics source yaml mechanics =
     and_then (map_err (ContentParse source) (from_yaml yaml)) (\<lambda>document.
       validate_skill_file default_mechanics source document mechanics)"

section \<open>The catalogue\<close>

type_synonym id_owners = "(rstring, rstring) btree_map"

text \<open>\<open>insert\<close> on a map: the new map and the value it replaces.\<close>

definition insert_skill ::
  "rstring \<Rightarrow> (skill_tree \<times> u8, skill_definition) btree_map \<times> id_owners \<Rightarrow> skill_definition \<Rightarrow>
   content_error + ((skill_tree \<times> u8, skill_definition) btree_map \<times> id_owners)" where
  "insert_skill source s skill =
     (let (by_choice, ids_by_owner) = s in
      case bt_get ids_by_owner (sk_id skill) of
        Some existing_owner \<Rightarrow>
          invalid source (lit ''duplicate authored id '' @ quoted (sk_id skill) @ lit '' already used by '' @ existing_owner)
      | None \<Rightarrow>
          (let owner = skill_tree_as_str (sk_tree skill) @ lit '' tier '' @ show_u8 (sk_tier skill);
               key = (sk_tree skill, sk_tier skill) in
           case bt_get by_choice key of
             Some existing \<Rightarrow>
               invalid source (lit ''duplicate definition for '' @ skill_tree_as_str (sk_tree existing) @
                 lit '' tier '' @ show_u8 (sk_tier existing) @ lit '' (existing id '' @ sk_id existing @ lit '')'')
           | None \<Rightarrow> Inr (bt_insert key skill by_choice, bt_insert (sk_id skill) owner ids_by_owner)))"

fun insert_skills ::
  "rstring \<Rightarrow> (skill_tree \<times> u8, skill_definition) btree_map \<times> id_owners \<Rightarrow> skill_definition list \<Rightarrow>
   content_error + ((skill_tree \<times> u8, skill_definition) btree_map \<times> id_owners)" where
  "insert_skills source s [] = Inr s"
| "insert_skills source s (skill # skills) =
     and_then (insert_skill source s skill) (\<lambda>s'. insert_skills source s' skills)"

type_synonym catalog_state = "skill_catalog \<times> id_owners"

definition insert_class :: "rstring \<Rightarrow> catalog_state \<Rightarrow> class_definition \<Rightarrow> content_error + catalog_state" where
  "insert_class source s d =
     (let (catalog, ids_by_owner) = s; melee = cd_melee d in
      case bt_get ids_by_owner (md_id melee) of
        Some existing_owner \<Rightarrow>
          invalid source (lit ''duplicate authored id '' @ quoted (md_id melee) @ lit '' already used by '' @ existing_owner)
      | None \<Rightarrow>
          if bt_contains (cat_melee_by_tree catalog) (cd_tree d)
          then invalid source (lit ''duplicate melee definition for '' @ skill_tree_as_str (cd_tree d))
          else
            and_then (insert_skills source
                (cat_by_choice catalog,
                 bt_insert (md_id melee) (skill_tree_as_str (cd_tree d) @ lit '' melee'') ids_by_owner)
                (cd_skills d))
              (\<lambda>(by_choice, ids). Inr
                (\<lparr>cat_by_choice = by_choice,
                  cat_melee_by_tree = bt_insert (cd_tree d) melee (cat_melee_by_tree catalog)\<rparr>, ids)))"

fun load_skill_files ::
  "(rstring \<Rightarrow> rstring + skill_file_yaml) \<Rightarrow> mechanic_catalog \<Rightarrow> mechanic_catalog \<Rightarrow> catalog_state \<Rightarrow>
   (rstring \<times> rstring) list \<Rightarrow> content_error + catalog_state" where
  "load_skill_files from_yaml default_mechanics mechanics s [] = Inr s"
| "load_skill_files from_yaml default_mechanics mechanics s ((source, yaml) # pairs) =
     and_then (parse_skill_yaml_with_mechanics from_yaml default_mechanics source yaml mechanics) (\<lambda>d.
     and_then (insert_class source s d) (\<lambda>s'. load_skill_files from_yaml default_mechanics mechanics s' pairs))"

definition load_skill_catalog_from_pairs_with_mechanics ::
  "(rstring \<Rightarrow> rstring + skill_file_yaml) \<Rightarrow> mechanic_catalog \<Rightarrow> (rstring \<times> rstring) list \<Rightarrow> mechanic_catalog \<Rightarrow>
   content_error + skill_catalog" where
  "load_skill_catalog_from_pairs_with_mechanics from_yaml default_mechanics pairs mechanics =
     (if pairs = [] then invalid (lit ''skills'') (lit ''at least one class skill file is required'')
      else and_then
        (load_skill_files from_yaml default_mechanics mechanics
          (\<lparr>cat_by_choice = [], cat_melee_by_tree = []\<rparr>, []) pairs)
        (\<lambda>(catalog, _). Inr catalog))"

end
