(* ===== verification/Content_Catalog.thy ===== *)
theory Content_Catalog
  imports Content_Skills "HOL-Library.Multiset"
begin

text \<open>
  What accepted skill files guarantee. \<open>authored_behavior\<close> collects the checks on a behaviour;
  with a registry whose statuses never tick every 0 ms it gives the well-formedness the
  simulation relies on, except for the radius of a barrier, which nothing bounds. A catalogue
  that loads has, for every class it names, exactly one skill of each of the five tiers, and
  no id occurs twice.
\<close>

section \<open>Behaviours\<close>

definition valid_proc_reset :: "proc_reset_definition \<Rightarrow> bool" where
  "valid_proc_reset r \<longleftrightarrow> (prd_reset_skill_ids r \<noteq> [] \<or> prd_instacast_skill_ids r \<noteq> []) \<and>
     prd_internal_cooldown_ms r \<noteq> Some 0 \<and>
     (prd_instacast_skill_ids r = [] \<longrightarrow> prd_instacast_costs_mana r \<and> prd_instacast_starts_cooldown r) \<and>
     distinct (prd_source_skill_ids r) \<and> distinct (prd_reset_skill_ids r) \<and> distinct (prd_instacast_skill_ids r)"

fun authored_behavior :: "mechanic_catalog \<Rightarrow> skill_behavior \<Rightarrow> bool" where
  "authored_behavior m (SbProjectile cd ct mana speed rng radius fx p) =
     (cd \<noteq> 0 \<and> speed \<noteq> 0 \<and> rng \<noteq> 0 \<and> radius \<noteq> 0 \<and> valid_payload m p)"
| "authored_behavior m (SbBeam cd ct mana rng radius fx p) = (cd \<noteq> 0 \<and> rng \<noteq> 0 \<and> radius \<noteq> 0 \<and> valid_payload m p)"
| "authored_behavior m (SbDash cd ct mana distance fx impact p) =
     (cd \<noteq> 0 \<and> distance \<noteq> 0 \<and> pred_option (valid_payload m) p)"
| "authored_behavior m (SbBurst cd ct mana rng radius fx p) = (cd \<noteq> 0 \<and> rng \<noteq> 0 \<and> radius \<noteq> 0 \<and> valid_payload m p)"
| "authored_behavior m (SbNova cd ct mana radius fx p) = (cd \<noteq> 0 \<and> radius \<noteq> 0 \<and> valid_payload m p)"
| "authored_behavior m (SbTeleport cd ct mana distance fx) = (cd \<noteq> 0 \<and> distance \<noteq> 0)"
| "authored_behavior m (SbChannel cd ct mana rng radius duration interval fx p) =
     (cd \<noteq> 0 \<and> radius \<noteq> 0 \<and> duration \<noteq> 0 \<and> interval \<noteq> 0 \<and> valid_payload m p)"
| "authored_behavior m (SbPassive player projectile cd ct reset) =
     ((player \<noteq> 0 \<or> projectile \<noteq> 0 \<or> cd \<noteq> 0 \<or> ct \<noteq> 0 \<or> reset \<noteq> None) \<and> pred_option valid_proc_reset reset)"
| "authored_behavior m (SbSummon cd ct mana distance radius duration hp rng interval fx p) =
     (cd \<noteq> 0 \<and> distance \<noteq> 0 \<and> radius \<noteq> 0 \<and> duration \<noteq> 0 \<and> hp \<noteq> 0 \<and> rng \<noteq> 0 \<and> interval \<noteq> 0 \<and> valid_payload m p)"
| "authored_behavior m (SbWard cd ct mana distance radius duration hp fx) =
     (cd \<noteq> 0 \<and> distance \<noteq> 0 \<and> radius \<noteq> 0 \<and> hp \<noteq> 0)"
| "authored_behavior m (SbTrap cd ct mana distance radius duration hp fx p) =
     (cd \<noteq> 0 \<and> distance \<noteq> 0 \<and> radius \<noteq> 0 \<and> duration \<noteq> 0 \<and> hp \<noteq> 0 \<and> valid_payload m p)"
| "authored_behavior m (SbBarrier cd ct mana distance radius duration hp fx) =
     (cd \<noteq> 0 \<and> distance \<noteq> 0 \<and> radius \<noteq> 0 \<and> duration \<noteq> 0 \<and> hp \<noteq> 0)"
| "authored_behavior m (SbAura cd ct mana distance radius duration hp toggle interval start stop fx p) =
     (cd \<noteq> 0 \<and> radius \<noteq> 0 \<and> duration \<noteq> 0 \<and> interval \<noteq> 0 \<and> (toggle \<longrightarrow> distance = 0 \<and> hp = None) \<and>
      pred_option (valid_payload m) start \<and> pred_option (valid_payload m) stop \<and> valid_payload m p)"

lemma parse_behavior_payload_valid: "parse_behavior_payload source y r m = Inr p \<Longrightarrow> valid_payload m p"
  by (auto simp: parse_behavior_payload_def dest: parse_payload_sound(1) split: payload_field_rule.splits)

lemma parse_optional_behavior_payload_valid:
  "parse_optional_behavior_payload source y r m = Inr p \<Longrightarrow> pred_option (valid_payload m) p"
  by (auto simp: parse_optional_behavior_payload_def and_then_eq_Inr map_transpose_eq_Inr
      dest: parse_payload_sound(1) split: payload_field_rule.splits option.splits if_splits)

lemma parse_reference_ids_distinct:
  "parse_reference_ids source field parsed vs = Inr ids \<Longrightarrow> distinct parsed \<Longrightarrow> distinct ids"
  by (induction source field parsed vs rule: parse_reference_ids.induct)
    (auto simp: and_then_eq_Inr split: if_splits)

lemma parse_skill_reference_list_distinct:
  "parse_skill_reference_list source field vs = Inr ids \<Longrightarrow> distinct ids"
  by (auto simp: parse_skill_reference_list_def dest: parse_reference_ids_distinct split: option.splits if_splits)

lemma parse_proc_reset_valid: "parse_proc_reset source y = Inr r \<Longrightarrow> valid_proc_reset r"
  by (auto simp: parse_proc_reset_def and_then_eq_Inr valid_proc_reset_def
      dest: parse_skill_reference_list_distinct split: if_splits option.splits)

lemmas valid_payload_intros = parse_behavior_payload_valid parse_optional_behavior_payload_valid

lemma direct_behavior_authored:
  "parse_direct_skill_behavior c aux = Inr b \<Longrightarrow> authored_behavior (bc_mechanics c) b"
  by (auto simp: parse_direct_skill_behavior_def Let_def and_then_eq_Inr require_present_iff
      parse_projectile_behavior_def parse_beam_behavior_def parse_dash_behavior_def parse_burst_behavior_def
      parse_nova_behavior_def dest: valid_payload_intros split: if_splits)

lemma aura_behavior_authored:
  assumes "parse_aura_behavior c aux = Inr b"
    and "pred_option (valid_payload (bc_mechanics c)) (ba_cast_start_payload aux)"
    and "pred_option (valid_payload (bc_mechanics c)) (ba_cast_end_payload aux)"
  shows "authored_behavior (bc_mechanics c) b"
  using assms by (auto simp: parse_aura_behavior_def and_then_eq_Inr require_present_iff or_zero_def word_gt_0
      dest: valid_payload_intros split: if_splits)

lemma deployable_behavior_authored:
  assumes "parse_deployable_skill_behavior c aux = Inr b"
    and "pred_option (valid_payload (bc_mechanics c)) (ba_cast_start_payload aux)"
    and "pred_option (valid_payload (bc_mechanics c)) (ba_cast_end_payload aux)"
  shows "authored_behavior (bc_mechanics c) b"
  using assms(1) by (auto simp: parse_deployable_skill_behavior_def Let_def and_then_eq_Inr require_present_iff
      parse_summon_behavior_def parse_ward_behavior_def parse_trap_behavior_def parse_barrier_behavior_def
      intro: aura_behavior_authored [OF _ assms(2,3)] dest: valid_payload_intros split: if_splits)

lemma passive_behavior_authored: "parse_passive_behavior c aux = Inr b \<Longrightarrow> authored_behavior m b"
  by (auto simp: parse_passive_behavior_def Let_def and_then_eq_Inr map_transpose_eq_Inr
      dest: parse_proc_reset_valid split: if_splits option.splits)

lemma parse_skill_behavior_authored:
  assumes "parse_skill_behavior source y m = Inr b"
  shows "authored_behavior m b"
proof -
  obtain schema effect flds aux where aux: "parse_behavior_aux_payloads source y schema m = Inr aux"
    and b: "dispatch_skill_behavior
         \<lparr>bc_source = source, bc_yaml = y, bc_mechanics = m, bc_schema = schema, bc_fields = flds,
          bc_effect = effect, bc_cooldown_ms = or_zero (bf_cooldown_ms flds),
          bc_mana_cost = or_zero (bf_mana_cost flds)\<rparr> aux = Inr b" (is "dispatch_skill_behavior ?c aux = _")
    using assms by (auto simp: parse_skill_behavior_def and_then_eq_Inr)
  have "pred_option (valid_payload (bc_mechanics ?c)) (ba_cast_start_payload aux)"
    "pred_option (valid_payload (bc_mechanics ?c)) (ba_cast_end_payload aux)"
    using aux by (auto simp: parse_behavior_aux_payloads_def and_then_eq_Inr
        dest: parse_optional_behavior_payload_valid)
  note deployable = deployable_behavior_authored [OF _ this]
  have "authored_behavior (bc_mechanics ?c) b"
    using b unfolding dispatch_skill_behavior_def Let_def
    by (auto simp: parse_teleport_behavior_def parse_channel_behavior_def and_then_eq_Inr require_present_iff
      dest: deployable direct_behavior_authored passive_behavior_authored valid_payload_intros split: if_splits)
  then show ?thesis by simp
qed

definition barrier_radius_ok :: "skill_behavior \<Rightarrow> bool" where
  "barrier_radius_ok b = (case b of SbBarrier _ _ _ _ radius _ _ _ \<Rightarrow> radius \<le> 16000 | _ \<Rightarrow> True)"

lemma authored_behavior_wf:
  assumes "authored_behavior m b" "ticks_positive m" "barrier_radius_ok b"
  shows "wf_behavior b"
proof -
  have "pred_option wf_payload p" if "pred_option (valid_payload m) p" for p
    using that valid_payload_wf(1) assms(2) by (cases p) auto
  then show ?thesis
    using assms by (cases b) (auto simp: barrier_radius_ok_def dest: valid_payload_wf(1))
qed

section \<open>Class files\<close>

definition authored_skill :: "mechanic_catalog \<Rightarrow> skill_definition \<Rightarrow> bool" where
  "authored_skill m sk \<longleftrightarrow> sk_tier sk \<in> set REQUIRED_TIERS \<and> text_ok (sk_id sk) \<and> text_ok (sk_name sk) \<and>
     text_ok (sk_description sk) \<and> authored_behavior m (sk_behavior sk)"

lemma validate_skill_ok:
  "validate_skill source t m seen y = Inr sk \<Longrightarrow>
     authored_skill m sk \<and> sk_tree sk = t \<and> sk_tier sk = sky_tier y \<and> sky_tier y \<notin> seen"
  by (auto simp: validate_skill_def and_then_eq_Inr authored_skill_def
      dest: parse_skill_behavior_authored split: if_splits)

lemma validate_skills_ok:
  "validate_skills source t m seen ys = Inr sks \<Longrightarrow>
     list_all (\<lambda>sk. authored_skill m sk \<and> sk_tree sk = t) sks \<and> distinct (map sk_tier sks) \<and>
     set (map sk_tier sks) \<inter> seen = {}"
proof (induction source t m seen ys arbitrary: sks rule: validate_skills.induct)
  case (2 source t m seen y ys)
  then obtain d ds where d: "validate_skill source t m seen y = Inr d" and sks: "sks = d # ds"
    and ds: "validate_skills source t m (insert (sky_tier y) seen) ys = Inr ds"
    by (auto simp: and_then_eq_Inr)
  from 2(1) [OF ds] validate_skill_ok [OF d] show ?case by (auto simp: sks)
qed simp

definition class_file_ok :: "mechanic_catalog \<Rightarrow> mechanic_catalog \<Rightarrow> class_definition \<Rightarrow> bool" where
  "class_file_ok default_mechanics m d \<longleftrightarrow> wf_skill_tree (cd_tree d) \<and> md_tree (cd_melee d) = cd_tree d \<and>
     md_cooldown_ms (cd_melee d) \<noteq> 0 \<and> md_range (cd_melee d) \<noteq> 0 \<and> md_radius (cd_melee d) \<noteq> 0 \<and>
     valid_payload default_mechanics (md_payload (cd_melee d)) \<and>
     list_all (\<lambda>sk. authored_skill m sk \<and> sk_tree sk = cd_tree d) (cd_skills d) \<and>
     distinct (map sk_tier (cd_skills d)) \<and> set (map sk_tier (cd_skills d)) = set REQUIRED_TIERS"

lemma require_positive_iff: "require_positive_u16 source field v = Inr w \<longleftrightarrow> w \<noteq> 0 \<and> v = Some w"
  by (auto simp: require_positive_u16_def split: option.splits)

lemma parse_melee_definition_ok:
  "parse_melee_definition dm source t y = Inr d \<Longrightarrow> md_tree d = t \<and> md_cooldown_ms d \<noteq> 0 \<and> md_range d \<noteq> 0 \<and>
     md_radius d \<noteq> 0 \<and> valid_payload dm (md_payload d)"
  by (auto simp: parse_melee_definition_def and_then_eq_Inr require_positive_iff dest: parse_payload_sound(1))

lemma validate_skill_file_ok:
  assumes "validate_skill_file dm source document m = Inr d"
  shows "class_file_ok dm m d"
proof -
  from assms have t: "parse_skill_tree source (sfy_tree document) = Inr (cd_tree d)"
    and melee: "parse_melee_definition dm source (cd_tree d) (sfy_melee document) = Inr (cd_melee d)"
    and skills: "validate_skills source (cd_tree d) m {} (sfy_skills document) = Inr (cd_skills d)"
    and len: "length (cd_skills d) = length REQUIRED_TIERS"
    by (auto simp: validate_skill_file_def and_then_eq_Inr split: if_splits)
  have "wf_skill_tree (cd_tree d)"
    using t by (auto simp: parse_skill_tree_def skill_tree_parse_def dest: skill_tree_new_wf
        split: option.splits sum.splits)
  moreover have "set (map sk_tier (cd_skills d)) = set REQUIRED_TIERS"
  proof (rule card_seteq)
    show "set (map sk_tier (cd_skills d)) \<subseteq> set REQUIRED_TIERS"
      using validate_skills_ok [OF skills] by (auto simp: list_all_iff authored_skill_def)
    have "card (set REQUIRED_TIERS) \<le> length (map sk_tier (cd_skills d))"
      using card_length [of REQUIRED_TIERS] len by simp
    also have "\<dots> = card (set (map sk_tier (cd_skills d)))"
      using validate_skills_ok [OF skills] by (metis distinct_card)
    finally show "card (set REQUIRED_TIERS) \<le> card (set (map sk_tier (cd_skills d)))" .
  qed simp
  ultimately show ?thesis
    using validate_skills_ok [OF skills] parse_melee_definition_ok [OF melee]
    by (simp add: class_file_ok_def)
qed

section \<open>What the files write\<close>

text \<open>
  The skill an entry of a class file writes, and the melee attack of the file: every field from the entry, the effect,
  behaviour and payload as their parsers read them. \<open>written_skill\<close> and \<open>written_melee\<close> look for it in the files of
  a catalogue.
\<close>

definition skill_of_entry :: "mechanic_catalog \<Rightarrow> rstring \<Rightarrow> skill_tree \<Rightarrow> skill_yaml \<Rightarrow> skill_definition \<Rightarrow> bool" where
  "skill_of_entry m source t y sk \<longleftrightarrow> sk_tree sk = t \<and> sk_tier sk = sky_tier y \<and> sk_id sk = sky_id y \<and>
     sk_name sk = sky_name y \<and> sk_description sk = sky_description y \<and> sk_audio_cue_id sk = sky_audio_cue_id y \<and>
     parse_skill_behavior source (sky_behavior y) m = Inr (sk_behavior sk)"

definition melee_of_entry :: "mechanic_catalog \<Rightarrow> rstring \<Rightarrow> skill_tree \<Rightarrow> melee_yaml \<Rightarrow> melee_definition \<Rightarrow> bool" where
  "melee_of_entry dm source t y d \<longleftrightarrow> md_tree d = t \<and> md_id d = mly_id y \<and> md_name d = mly_name y \<and>
     md_description d = mly_description y \<and> md_audio_cue_id d = mly_audio_cue_id y \<and> md_cooldown_ms d = mly_cooldown_ms y \<and>
     md_range d = mly_range y \<and> md_radius d = mly_radius y \<and> parse_effect_kind source (mly_effect y) = Inr (md_effect d) \<and>
     parse_payload source (Some (mly_payload y)) (lit ''melee.payload'') dm = Inr (md_payload d)"

definition written_skill ::
  "(rstring \<Rightarrow> rstring + skill_file_yaml) \<Rightarrow> mechanic_catalog \<Rightarrow> (rstring \<times> rstring) list \<Rightarrow> skill_definition \<Rightarrow> bool" where
  "written_skill from_yaml m pairs sk \<longleftrightarrow>
     (\<exists>(source, yaml) \<in> set pairs. \<exists>document t. from_yaml yaml = Inr document \<and>
        parse_skill_tree source (sfy_tree document) = Inr t \<and> (\<exists>y \<in> set (sfy_skills document). skill_of_entry m source t y sk))"

definition written_melee ::
  "(rstring \<Rightarrow> rstring + skill_file_yaml) \<Rightarrow> mechanic_catalog \<Rightarrow> (rstring \<times> rstring) list \<Rightarrow> melee_definition \<Rightarrow> bool" where
  "written_melee from_yaml dm pairs d \<longleftrightarrow>
     (\<exists>(source, yaml) \<in> set pairs. \<exists>document t. from_yaml yaml = Inr document \<and>
        parse_skill_tree source (sfy_tree document) = Inr t \<and> melee_of_entry dm source t (sfy_melee document) d)"

lemma validate_skill_entry:
  "validate_skill source t m seen y = Inr d \<Longrightarrow> skill_of_entry m source t y sk \<longleftrightarrow> sk = d"
  by (cases sk) (auto simp: validate_skill_def skill_of_entry_def and_then_eq_Inr split: if_splits)

lemma validate_skills_entries:
  "validate_skills source t m seen ys = Inr sks \<Longrightarrow> sk \<in> set sks \<longleftrightarrow> (\<exists>y \<in> set ys. skill_of_entry m source t y sk)"
proof (induction source t m seen ys arbitrary: sks rule: validate_skills.induct)
  case (2 source t m seen y ys)
  then obtain d ds where "validate_skill source t m seen y = Inr d" "sks = d # ds"
    "validate_skills source t m (insert (sky_tier y) seen) ys = Inr ds"
    by (auto simp: and_then_eq_Inr)
  with 2(1) show ?case by (auto simp: validate_skill_entry)
qed simp

lemma parse_melee_entry:
  "parse_melee_definition dm source t y = Inr d \<Longrightarrow> melee_of_entry dm source t y d' \<longleftrightarrow> d' = d"
  by (cases d') (auto simp: parse_melee_definition_def melee_of_entry_def and_then_eq_Inr require_positive_iff)

lemma written_Cons:
  "written_skill from_yaml m ((source, yaml) # pairs) sk \<longleftrightarrow>
     (\<exists>document t. from_yaml yaml = Inr document \<and> parse_skill_tree source (sfy_tree document) = Inr t \<and>
        (\<exists>y \<in> set (sfy_skills document). skill_of_entry m source t y sk)) \<or> written_skill from_yaml m pairs sk"
  "written_melee from_yaml dm ((source, yaml) # pairs) md \<longleftrightarrow>
     (\<exists>document t. from_yaml yaml = Inr document \<and> parse_skill_tree source (sfy_tree document) = Inr t \<and>
        melee_of_entry dm source t (sfy_melee document) md) \<or> written_melee from_yaml dm pairs md"
  unfolding written_skill_def written_melee_def list.set bex_simps case_prod_conv by (rule refl)+

text \<open>A parsed class file holds the skills of its entries and its melee attack, no others.\<close>

lemma parse_skill_yaml_written:
  assumes "parse_skill_yaml_with_mechanics from_yaml dm source yaml m = Inr d"
  shows "sk \<in> set (cd_skills d) \<longleftrightarrow> (\<exists>document t. from_yaml yaml = Inr document \<and>
        parse_skill_tree source (sfy_tree document) = Inr t \<and> (\<exists>y \<in> set (sfy_skills document). skill_of_entry m source t y sk))"
    and "md = cd_melee d \<longleftrightarrow> (\<exists>document t. from_yaml yaml = Inr document \<and>
        parse_skill_tree source (sfy_tree document) = Inr t \<and> melee_of_entry dm source t (sfy_melee document) md)"
proof -
  obtain document where document: "from_yaml yaml = Inr document" "validate_skill_file dm source document m = Inr d"
    using assms by (auto simp: parse_skill_yaml_with_mechanics_def and_then_eq_Inr)
  then have parts: "parse_skill_tree source (sfy_tree document) = Inr (cd_tree d)"
    "parse_melee_definition dm source (cd_tree d) (sfy_melee document) = Inr (cd_melee d)"
    "validate_skills source (cd_tree d) m {} (sfy_skills document) = Inr (cd_skills d)"
    by (auto simp: validate_skill_file_def and_then_eq_Inr split: if_splits)
  show "sk \<in> set (cd_skills d) \<longleftrightarrow> (\<exists>document t. from_yaml yaml = Inr document \<and>
        parse_skill_tree source (sfy_tree document) = Inr t \<and> (\<exists>y \<in> set (sfy_skills document). skill_of_entry m source t y sk))"
    using document(1) parts(1) validate_skills_entries [OF parts(3), of sk] by auto
  show "md = cd_melee d \<longleftrightarrow> (\<exists>document t. from_yaml yaml = Inr document \<and>
        parse_skill_tree source (sfy_tree document) = Inr t \<and> melee_of_entry dm source t (sfy_melee document) md)"
    using document(1) parts(1) parse_melee_entry [OF parts(2), of md] by auto
qed

section \<open>The catalogue\<close>

lemma insert_skills_get:
  "insert_skills source s sks = Inr s' \<Longrightarrow> bt_inv (fst s) \<Longrightarrow> bt_inv (fst s') \<and>
     (\<forall>k sk. map_of (fst s') k = Some sk \<longleftrightarrow> map_of (fst s) k = Some sk \<or> sk \<in> set sks \<and> k = (sk_tree sk, sk_tier sk))"
proof (induction source s sks rule: insert_skills.induct)
  case (2 source s sk sks)
  from 2(2) obtain s1 where 1: "insert_skill source s sk = Inr s1" and rest: "insert_skills source s1 sks = Inr s'"
    by (auto simp: and_then_eq_Inr)
  from 1 have "map_of (fst s) (sk_tree sk, sk_tier sk) = None" "fst s1 = bt_insert (sk_tree sk, sk_tier sk) sk (fst s)"
    by (auto simp: insert_skill_def Let_def case_prod_beta split: option.splits)
  with 2(1) [OF rest] 2(3) show ?case by (auto simp: bt_inv_ops bt_get_ops)
qed simp

lemma insert_class_get:
  assumes "insert_class source s d = Inr s'" "bt_inv (cat_by_choice (fst s))" "bt_inv (cat_melee_by_tree (fst s))"
  shows "bt_inv (cat_by_choice (fst s'))" "bt_inv (cat_melee_by_tree (fst s'))"
    "map_of (cat_by_choice (fst s')) k = Some sk \<longleftrightarrow>
       map_of (cat_by_choice (fst s)) k = Some sk \<or> sk \<in> set (cd_skills d) \<and> k = (sk_tree sk, sk_tier sk)"
    "map_of (cat_melee_by_tree (fst s')) t = Some md \<longleftrightarrow>
       map_of (cat_melee_by_tree (fst s)) t = Some md \<or> md = cd_melee d \<and> t = cd_tree d"
proof -
  obtain c ids where s: "s = (c, ids)" by fastforce
  obtain ids1 bc' ids' where new: "map_of (cat_melee_by_tree c) (cd_tree d) = None"
      "insert_skills source (cat_by_choice c, ids1) (cd_skills d) = Inr (bc', ids')"
    and s': "s' = (\<lparr>cat_by_choice = bc', cat_melee_by_tree = bt_insert (cd_tree d) (cd_melee d) (cat_melee_by_tree c)\<rparr>, ids')"
    using assms(1) by (auto simp: insert_class_def s Let_def and_then_eq_Inr bt_contains_def
        split: option.splits if_splits)
  have "bt_inv bc' \<and> (\<forall>k sk. map_of bc' k = Some sk \<longleftrightarrow>
      map_of (cat_by_choice c) k = Some sk \<or> sk \<in> set (cd_skills d) \<and> k = (sk_tree sk, sk_tier sk))"
    using insert_skills_get [OF new(2)] assms(2) unfolding s fst_conv by blast
  then have "bt_inv bc'" and "map_of bc' k = Some sk \<longleftrightarrow>
      map_of (cat_by_choice c) k = Some sk \<or> sk \<in> set (cd_skills d) \<and> k = (sk_tree sk, sk_tier sk)"
    by blast+
  then show "bt_inv (cat_by_choice (fst s'))" "bt_inv (cat_melee_by_tree (fst s'))"
    "map_of (cat_by_choice (fst s')) k = Some sk \<longleftrightarrow>
       map_of (cat_by_choice (fst s)) k = Some sk \<or> sk \<in> set (cd_skills d) \<and> k = (sk_tree sk, sk_tier sk)"
    using assms(3) by (simp_all add: s s' bt_inv_ops)
  show "map_of (cat_melee_by_tree (fst s')) t = Some md \<longleftrightarrow>
       map_of (cat_melee_by_tree (fst s)) t = Some md \<or> md = cd_melee d \<and> t = cd_tree d"
    using assms(3) new(1) by (auto simp: s s' bt_get_ops)
qed

lemma load_skill_files_get:
  "load_skill_files from_yaml dm m s pairs = Inr s' \<Longrightarrow> bt_inv (cat_by_choice (fst s)) \<Longrightarrow> bt_inv (cat_melee_by_tree (fst s)) \<Longrightarrow>
   (map_of (cat_by_choice (fst s')) k = Some sk \<longleftrightarrow>
      map_of (cat_by_choice (fst s)) k = Some sk \<or> written_skill from_yaml m pairs sk \<and> k = (sk_tree sk, sk_tier sk)) \<and>
   (map_of (cat_melee_by_tree (fst s')) t = Some md \<longleftrightarrow>
      map_of (cat_melee_by_tree (fst s)) t = Some md \<or> written_melee from_yaml dm pairs md \<and> t = md_tree md)"
proof (induction from_yaml dm m s pairs rule: load_skill_files.induct)
  case (1 from_yaml dm m s)
  then show ?case by (simp add: written_skill_def written_melee_def)
next
  case (2 from_yaml dm m s source yaml pairs)
  from 2(2) obtain d s1 where d: "parse_skill_yaml_with_mechanics from_yaml dm source yaml m = Inr d"
    and s1: "insert_class source s d = Inr s1" and rest: "load_skill_files from_yaml dm m s1 pairs = Inr s'"
    by (auto simp: and_then_eq_Inr)
  note get = insert_class_get [OF s1 2(3,4)]
  have "class_file_ok dm m d"
    using d by (auto simp: parse_skill_yaml_with_mechanics_def and_then_eq_Inr intro: validate_skill_file_ok)
  then have melee: "md_tree (cd_melee d) = cd_tree d" by (simp add: class_file_ok_def)
  have cons: "written_skill from_yaml m ((source, yaml) # pairs) sk \<longleftrightarrow> sk \<in> set (cd_skills d) \<or> written_skill from_yaml m pairs sk"
    "written_melee from_yaml dm ((source, yaml) # pairs) md \<longleftrightarrow> md = cd_melee d \<or> written_melee from_yaml dm pairs md"
    by (simp_all only: written_Cons parse_skill_yaml_written(1) [OF d, of sk] parse_skill_yaml_written(2) [OF d, of md])
  have tree: "md = cd_melee d \<and> t = cd_tree d \<longleftrightarrow> md = cd_melee d \<and> t = md_tree md" for t
    by (auto simp: melee)
  note ih = 2(1) [OF rest get(1,2)]
  show ?case
    unfolding cons ih [THEN conjunct1] ih [THEN conjunct2] get(3,4) tree disj_assoc conj_disj_distribR by (intro conjI refl)
qed

lemma mset_values_insert:
  "map_of m k = None \<Longrightarrow> mset (bt_values (bt_insert k v m)) = add_mset v (mset (bt_values m))"
  "map_of m k = None \<Longrightarrow> mset (bt_keys (bt_insert k v m)) = add_mset k (mset (bt_keys m))"
  by (induction k v m rule: bt_insert.induct) (auto simp: bt_values_def bt_keys_def split: if_splits)

definition ids_inv ::
  "(skill_tree \<times> u8, skill_definition) btree_map \<Rightarrow> (skill_tree, melee_definition) btree_map \<Rightarrow> id_owners \<Rightarrow> bool" where
  "ids_inv by_choice melee ids \<longleftrightarrow> bt_inv by_choice \<and> bt_inv melee \<and> bt_inv ids \<and>
     mset (bt_keys ids) = mset (map sk_id (bt_values by_choice)) + mset (map md_id (bt_values melee))"

definition choice_inv :: "mechanic_catalog \<Rightarrow> (skill_tree \<times> u8, skill_definition) btree_map \<Rightarrow> bool" where
  "choice_inv m by_choice \<longleftrightarrow>
     (\<forall>k sk. map_of by_choice k = Some sk \<longrightarrow> k = (sk_tree sk, sk_tier sk) \<and> authored_skill m sk)"

lemma insert_skill_ok:
  assumes "insert_skill source (bc, ids) sk = Inr (bc', ids')"
    and "ids_inv bc melee ids" "choice_inv m bc" "authored_skill m sk"
  shows "ids_inv bc' melee ids'" "choice_inv m bc'"
    "dom (map_of bc') = insert (sk_tree sk, sk_tier sk) (dom (map_of bc))"
proof -
  obtain owner where s: "map_of ids (sk_id sk) = None" "map_of bc (sk_tree sk, sk_tier sk) = None"
    "bc' = bt_insert (sk_tree sk, sk_tier sk) sk bc" "ids' = bt_insert (sk_id sk) owner ids"
    using assms(1) by (auto simp: insert_skill_def Let_def split: option.splits)
  show "ids_inv bc' melee ids'"
    using assms(2) s by (simp add: ids_inv_def bt_inv_ops mset_values_insert)
  have "bt_inv bc" using assms(2) by (simp add: ids_inv_def)
  then show "choice_inv m bc'" "dom (map_of bc') = insert (sk_tree sk, sk_tier sk) (dom (map_of bc))"
    using assms(3,4) s by (auto simp: choice_inv_def bt_get_ops)
qed

lemma insert_skills_ok:
  "insert_skills source s sks = Inr (bc', ids') \<Longrightarrow> ids_inv (fst s) melee (snd s) \<Longrightarrow> choice_inv m (fst s) \<Longrightarrow>
     list_all (authored_skill m) sks \<Longrightarrow>
     ids_inv bc' melee ids' \<and> choice_inv m bc' \<and>
     dom (map_of bc') = dom (map_of (fst s)) \<union> (\<lambda>sk. (sk_tree sk, sk_tier sk)) ` set sks"
proof (induction source s sks rule: insert_skills.induct)
  case (2 source s sk sks)
  from 2(2) obtain bc1 ids1 where 1: "insert_skill source (fst s, snd s) sk = Inr (bc1, ids1)"
    and rest: "insert_skills source (bc1, ids1) sks = Inr (bc', ids')"
    by (auto simp: and_then_eq_Inr)
  note step = insert_skill_ok [OF 1 2(3,4)]
  from 2(1) [OF rest] step 2(5) show ?case by auto
qed simp

definition catalog_inv :: "mechanic_catalog \<Rightarrow> mechanic_catalog \<Rightarrow> catalog_state \<Rightarrow> bool" where
  "catalog_inv dm m s \<longleftrightarrow> (let c = fst s in
     ids_inv (cat_by_choice c) (cat_melee_by_tree c) (snd s) \<and> choice_inv m (cat_by_choice c) \<and>
     (\<forall>t md. map_of (cat_melee_by_tree c) t = Some md \<longrightarrow>
        wf_skill_tree t \<and> md_tree md = t \<and> valid_payload dm (md_payload md)) \<and>
     dom (map_of (cat_by_choice c)) = dom (map_of (cat_melee_by_tree c)) \<times> set REQUIRED_TIERS)"

lemma insert_class_ok:
  assumes "insert_class source s d = Inr s'" "catalog_inv dm m s" "class_file_ok dm m d"
  shows "catalog_inv dm m s'"
proof -
  obtain c ids where s: "s = (c, ids)" by fastforce
  let ?ids = "bt_insert (md_id (cd_melee d)) (skill_tree_as_str (cd_tree d) @ lit '' melee'') ids"
  let ?melee = "bt_insert (cd_tree d) (cd_melee d) (cat_melee_by_tree c)"
  obtain bc' ids' where new: "map_of ids (md_id (cd_melee d)) = None"
      "map_of (cat_melee_by_tree c) (cd_tree d) = None"
      "insert_skills source (cat_by_choice c, ?ids) (cd_skills d) = Inr (bc', ids')"
    and s': "s' = (\<lparr>cat_by_choice = bc', cat_melee_by_tree = ?melee\<rparr>, ids')"
    using assms(1) by (auto simp: insert_class_def s Let_def and_then_eq_Inr bt_contains_def
        split: option.splits if_splits)
  have inv: "ids_inv (cat_by_choice c) (cat_melee_by_tree c) ids" "choice_inv m (cat_by_choice c)"
    and melee: "\<forall>t md. map_of (cat_melee_by_tree c) t = Some md \<longrightarrow>
        wf_skill_tree t \<and> md_tree md = t \<and> valid_payload dm (md_payload md)"
    and tiers: "dom (map_of (cat_by_choice c)) = dom (map_of (cat_melee_by_tree c)) \<times> set REQUIRED_TIERS"
    using assms(2) by (simp_all add: catalog_inv_def s)
  have mid: "ids_inv (cat_by_choice c) ?melee ?ids"
    using inv(1) new(1,2) by (simp add: ids_inv_def bt_inv_ops mset_values_insert)
  have skills: "list_all (authored_skill m) (cd_skills d)"
    "(\<lambda>sk. (sk_tree sk, sk_tier sk)) ` set (cd_skills d) = {cd_tree d} \<times> set REQUIRED_TIERS"
    using assms(3) by (auto simp: class_file_ok_def list_all_iff image_iff)
  have "bt_inv (cat_melee_by_tree c)" using inv(1) by (simp add: ids_inv_def)
  then have get: "map_of ?melee = (map_of (cat_melee_by_tree c))(cd_tree d \<mapsto> cd_melee d)"
    by (rule bt_get_ops)
  from insert_skills_ok [OF new(3), of ?melee m] mid inv(2) skills melee tiers assms(3)
  show ?thesis
    by (auto simp: catalog_inv_def s' get class_file_ok_def)
qed

lemma load_skill_files_ok:
  "load_skill_files from_yaml dm m s pairs = Inr s' \<Longrightarrow> catalog_inv dm m s \<Longrightarrow> catalog_inv dm m s'"
proof (induction from_yaml dm m s pairs rule: load_skill_files.induct)
  case (2 from_yaml dm m s source yaml pairs)
  from 2(2) obtain d s1 where d: "parse_skill_yaml_with_mechanics from_yaml dm source yaml m = Inr d"
    and s1: "insert_class source s d = Inr s1" and rest: "load_skill_files from_yaml dm m s1 pairs = Inr s'"
    by (auto simp: and_then_eq_Inr)
  have "class_file_ok dm m d"
    using d by (auto simp: parse_skill_yaml_with_mechanics_def and_then_eq_Inr intro: validate_skill_file_ok)
  with 2(1) [OF rest] insert_class_ok [OF s1 2(3)] show ?case by blast
qed simp

lemma load_skill_catalog_inv:
  assumes "load_skill_catalog_from_pairs_with_mechanics from_yaml dm pairs m = Inr c"
  obtains ids where "catalog_inv dm m (c, ids)"
proof -
  have "catalog_inv dm m (\<lparr>cat_by_choice = [], cat_melee_by_tree = []\<rparr>, [])"
    by (simp add: catalog_inv_def ids_inv_def choice_inv_def bt_inv_ops bt_values_def bt_keys_def)
  with assms that show thesis
    by (auto simp: load_skill_catalog_from_pairs_with_mechanics_def and_then_eq_Inr
        dest: load_skill_files_ok split: if_splits)
qed

text \<open>Skills with fresh ids and fresh choices can always be added.\<close>

lemma insert_skills_fresh:
  "bt_inv (fst s) \<Longrightarrow> bt_inv (snd s) \<Longrightarrow> distinct (map sk_id sks) \<Longrightarrow>
     distinct (map (\<lambda>sk. (sk_tree sk, sk_tier sk)) sks) \<Longrightarrow>
     list_all (\<lambda>sk. map_of (snd s) (sk_id sk) = None \<and> map_of (fst s) (sk_tree sk, sk_tier sk) = None) sks \<Longrightarrow>
     \<exists>s'. insert_skills source s sks = Inr s'"
proof (induction sks arbitrary: s)
  case (Cons sk sks)
  let ?owner = "skill_tree_as_str (sk_tree sk) @ lit '' tier '' @ show_u8 (sk_tier sk)"
  let ?s = "(bt_insert (sk_tree sk, sk_tier sk) sk (fst s), bt_insert (sk_id sk) ?owner (snd s))"
  have "insert_skill source s sk = Inr ?s"
    using Cons.prems(5) by (simp add: insert_skill_def Let_def case_prod_beta)
  moreover have "\<exists>s'. insert_skills source ?s sks = Inr s'"
    by (rule Cons.IH) (use Cons.prems in \<open>auto simp: bt_inv_ops bt_get_ops list_all_iff image_iff\<close>)
  ultimately show ?case by simp
qed simp

lemma required_tier_iff: "n \<in> set REQUIRED_TIERS \<longleftrightarrow> 1 \<le> n \<and> n \<le> MAX_SKILL_TIER"
proof
  assume "1 \<le> n \<and> n \<le> MAX_SKILL_TIER"
  then have "unat n \<in> {1, 2, 3, 4, 5}"
    by (auto simp: word_le_nat_alt MAX_SKILL_TIER_def)
  then show "n \<in> set REQUIRED_TIERS"
    by (auto simp: REQUIRED_TIERS_def word_unat_eq_iff)
qed (auto simp: REQUIRED_TIERS_def MAX_SKILL_TIER_def)

section \<open>A sample class\<close>

definition sample_catalog :: mechanic_catalog where
  "sample_catalog = (case parse_mechanics_yaml (\<lambda>_. Inr sample_registry) [] [] of Inr m \<Rightarrow> m | Inl _ \<Rightarrow> \<lparr>mc_behaviors = [], mc_statuses = []\<rparr>)"

definition sample_payload :: effect_payload_yaml where
  "sample_payload = EffectPayloadYaml (lit ''damage'') None (Some 10) (Some 20) (Some 500) None
     (Some (StatusYaml (lit ''poison'') 3000 (Some 1000) 5 (Some 3) None None None)) None None"

definition sample_nova :: skill_behavior_yaml where
  "sample_nova = \<lparr>by_kind = lit ''nova'', by_effect = lit ''nova'', by_cooldown_ms = Some 700, by_cast_time_ms = None,
     by_mana_cost = Some 20, by_range = None, by_radius = Some 90, by_distance = None, by_speed = None,
     by_impact_radius = None, by_duration_ms = None, by_hit_points = None, by_tick_interval_ms = None,
     by_player_speed_bps = None, by_projectile_speed_bps = None, by_cooldown_bps = None, by_cast_time_bps = None,
     by_proc_reset = None, by_toggleable = None, by_cast_start_payload = None, by_cast_end_payload = None,
     by_payload = Some sample_payload\<rparr>"

definition sample_skill :: "u8 \<Rightarrow> string \<Rightarrow> skill_yaml" where
  "sample_skill n ident = \<lparr>sky_tier = n, sky_id = lit ident, sky_name = lit ''Name'', sky_description = lit ''Text'',
     sky_audio_cue_id = None, sky_behavior = sample_nova\<rparr>"

definition sample_file :: skill_file_yaml where
  "sample_file = \<lparr>sfy_tree = lit ''Mage'',
     sfy_melee = \<lparr>mly_id = lit ''staff'', mly_name = lit ''Staff'', mly_description = lit ''Text'', mly_audio_cue_id = None,
       mly_cooldown_ms = 600, mly_range = 80, mly_radius = 40, mly_effect = lit ''melee_swing'', mly_payload = sample_payload\<rparr>,
     sfy_skills = [sample_skill 1 ''a'', sample_skill 2 ''b'', sample_skill 3 ''c'', sample_skill 4 ''d'', sample_skill 5 ''e'']\<rparr>"

lemma sample_catalog_eq:
  "sample_catalog = \<lparr>mc_behaviors = [\<lparr>mech_id = lit ''nova'', mech_label = lit ''Label'', mech_category = CategoryBehavior,
       mech_implemented = True, mech_inspiration = lit ''x'', mech_notes = lit ''x'',
       mech_behavior_schema = Some \<lparr>bs_numeric_fields = [(lit ''cooldown_ms'', NumericRequired),
           (lit ''mana_cost'', NumericOptional), (lit ''radius'', NumericRequired)],
         bs_payload = PayloadRequired, bs_cast_start_payload = PayloadForbidden,
         bs_cast_end_payload = PayloadForbidden, bs_allowed_effects = [FxNova]\<rparr>, mech_status_schema = None\<rparr>],
     mc_statuses = [\<lparr>mech_id = lit ''poison'', mech_label = lit ''Label'', mech_category = CategoryStatus,
       mech_implemented = True, mech_inspiration = lit ''x'', mech_notes = lit ''x'', mech_behavior_schema = None,
       mech_status_schema = Some \<lparr>ss_numeric_fields = [(lit ''duration_ms'', NumericRequired),
           (lit ''magnitude'', NumericRequired), (lit ''tick_interval_ms'', NumericRequired)],
         ss_max_stacks = StackPositive, ss_expire_payload = PayloadForbidden,
         ss_dispel_payload = PayloadOptional\<rparr>\<rparr>]\<rparr>"
  by (simp add: sample_catalog_def parse_mechanics_yaml_def sample_registry_def sample_mechanic_def sample_schema_def
      validate_mechanics_def validate_mechanic_definition_def parse_optional_behavior_schema_def
      parse_optional_status_schema_def parse_behavior_schema_def parse_status_schema_def
      BEHAVIOR_NUMERIC_FIELDS_def STATUS_NUMERIC_FIELDS_def parse_effect_kind_def validate_skill_text_def
      MAX_SKILL_TEXT_LEN_def bt_keys_def bt_map_values_def text_eval)

lemma sample_registry_any: "parse_mechanics_yaml (\<lambda>_. Inr sample_registry) source yaml = Inr sample_catalog"
  by (simp add: sample_catalog_eq parse_mechanics_yaml_def sample_registry_def sample_mechanic_def sample_schema_def
      validate_mechanics_def validate_mechanic_definition_def parse_optional_behavior_schema_def
      parse_optional_status_schema_def parse_behavior_schema_def parse_status_schema_def
      BEHAVIOR_NUMERIC_FIELDS_def STATUS_NUMERIC_FIELDS_def parse_effect_kind_def validate_skill_text_def
      MAX_SKILL_TEXT_LEN_def bt_keys_def bt_map_values_def text_eval)

lemma sample_payload_parses:
  "parse_payload source (Some sample_payload) field sample_catalog =
     Inr (EffectPayload Damage 10 (Some 20) 500 15000
       (Some (StatusDefinition Poison 3000 (Some 1000) 5 3 None None None)) None None)"
  by (simp add: sample_payload_def payload_simps parse_payload_kind_def parse_payload_amount_def parse_payload_crit_def
      parse_interrupt_def map_transpose_def status_schema_of_def catalog_status_def sample_catalog_eq
      parse_status_kind_def schema_numeric_rule_def require_present_u16_def validate_max_stacks_def)

lemma sample_schema_of:
  "behavior_schema_of sample_catalog source (lit ''nova'') =
     Inr \<lparr>bs_numeric_fields = [(lit ''cooldown_ms'', NumericRequired),
           (lit ''mana_cost'', NumericOptional), (lit ''radius'', NumericRequired)],
         bs_payload = PayloadRequired, bs_cast_start_payload = PayloadForbidden,
         bs_cast_end_payload = PayloadForbidden, bs_allowed_effects = [FxNova]\<rparr>"
  by (simp add: behavior_schema_of_def catalog_behavior_def sample_catalog_eq)

lemma sample_nova_parses:
  "parse_skill_behavior source sample_nova sample_catalog =
     Inr (SbNova 700 0 20 90 FxNova (EffectPayload Damage 10 (Some 20) 500 15000
       (Some (StatusDefinition Poison 3000 (Some 1000) 5 3 None None None)) None None))"
  by (simp add: sample_nova_def parse_skill_behavior_def sample_schema_of
      parse_effect_kind_def validate_allowed_effect_def parse_behavior_numeric_fields_def schema_numeric_rule_def
      parse_behavior_aux_payloads_def parse_optional_behavior_payload_def dispatch_skill_behavior_def
      parse_direct_skill_behavior_def validate_no_aux_payloads_def validate_no_proc_reset_def
      require_present_u16_def or_zero_def parse_nova_behavior_def parse_behavior_payload_def Let_def
      sample_payload_parses)

lemma sample_ticks: "ticks_positive sample_catalog"
  by (simp add: ticks_positive_def sample_catalog_eq schema_numeric_rule_def)

text \<open>C23: what the behaviour parser accepts has positive cooldowns, ranges, radii, durations, hit points and
  intervals wherever its kind has them, authorable payloads and consistent flags; with a registry whose statuses
  never tick every 0 ms and a barrier radius of at most 16000 it is well-formed for the simulation.\<close>

theorem parse_skill_behavior_sound:
  assumes "parse_skill_behavior source y m = Inr b"
  shows "authored_behavior m b \<and> (ticks_positive m \<and> barrier_radius_ok b \<longrightarrow> wf_behavior b)"
  using parse_skill_behavior_authored [OF assms] authored_behavior_wf by blast

theorem parse_skill_behavior_sound_witness:
  "\<exists>b. parse_skill_behavior [] sample_nova sample_catalog = Inr b \<and> authored_behavior sample_catalog b \<and> wf_behavior b"
  using parse_skill_behavior_sound [OF sample_nova_parses] sample_nova_parses [of "[]"] sample_ticks
  by (auto simp: barrier_radius_ok_def)

lemma sample_class_parses:
  "\<exists>d. parse_skill_yaml_with_mechanics (\<lambda>_. Inr sample_file) sample_catalog source yaml sample_catalog = Inr d \<and>
     cd_tree d = Known Mage \<and> md_id (cd_melee d) = lit ''staff'' \<and>
     map sk_id (cd_skills d) = map lit [''a'', ''b'', ''c'', ''d'', ''e''] \<and>
     map sk_tier (cd_skills d) = [1, 2, 3, 4, 5] \<and> map sk_tree (cd_skills d) = [Known Mage, Known Mage, Known Mage, Known Mage, Known Mage]"
proof -
  have tree: "parse_skill_tree source (lit ''Mage'') = Inr (Known Mage)"
    using known_as_str_parses [of Mage] by (simp add: parse_skill_tree_def skill_tree_parse_def)
  have words: "validate_skill_text source field (lit ident) = Inr ()"
    if "ident \<in> {''a'', ''b'', ''c'', ''d'', ''e'', ''staff'', ''Staff'', ''Name'', ''Text''}" for field ident
    using that by (elim insertE emptyE) (simp_all add: text_ok_def MAX_SKILL_TEXT_LEN_def text_eval)
  show ?thesis
    by (simp add: tree words parse_skill_yaml_with_mechanics_def validate_skill_file_def sample_file_def
        parse_melee_definition_def validate_optional_cue_def require_positive_u16_def parse_effect_kind_def
        sample_payload_parses validate_skill_def sample_skill_def sample_nova_parses REQUIRED_TIERS_def)
qed

lemma sample_catalog_loads:
  "\<exists>c. load_skill_catalog_from_pairs_with_mechanics (\<lambda>_. Inr sample_file) sample_catalog [(source, yaml)] sample_catalog = Inr c \<and>
     catalog_trees c = [Known Mage]"
proof -
  obtain d where d: "parse_skill_yaml_with_mechanics (\<lambda>_. Inr sample_file) sample_catalog source yaml sample_catalog = Inr d"
    "cd_tree d = Known Mage" "md_id (cd_melee d) = lit ''staff''"
    "map sk_id (cd_skills d) = map lit [''a'', ''b'', ''c'', ''d'', ''e'']"
    "map sk_tier (cd_skills d) = [1, 2, 3, 4, 5]" "map sk_tree (cd_skills d) = [Known Mage, Known Mage, Known Mage, Known Mage, Known Mage]"
    using sample_class_parses [of source yaml] by (elim exE conjE) (rule that; assumption)
  let ?s = "([], bt_insert (lit ''staff'') (skill_tree_as_str (Known Mage) @ lit '' melee'') [])"
  have "\<exists>s'. insert_skills source ?s (cd_skills d) = Inr s'"
  proof (rule insert_skills_fresh)
    have "distinct (map sk_tier (cd_skills d))" by (simp add: d(5))
    then show "distinct (map (\<lambda>sk. (sk_tree sk, sk_tier sk)) (cd_skills d))"
      by (auto simp: distinct_map inj_on_def)
    have "sk_id sk \<noteq> lit ''staff''" if "sk \<in> set (cd_skills d)" for sk
    proof -
      have "sk_id sk \<in> set (map sk_id (cd_skills d))" using that by simp
      then show ?thesis unfolding d(4) by auto
    qed
    then show "list_all (\<lambda>sk. map_of (snd ?s) (sk_id sk) = None \<and> map_of (fst ?s) (sk_tree sk, sk_tier sk) = None) (cd_skills d)"
      by (simp add: list_all_iff)
  qed (simp_all add: d(4) bt_inv_def)
  then show ?thesis
    by (auto simp: load_skill_catalog_from_pairs_with_mechanics_def d(1-3) insert_class_def bt_contains_def
        catalog_trees_def bt_keys_def)
qed

lemma catalog_resolve_ok:
  assumes "load_skill_catalog_from_pairs_with_mechanics from_yaml dm pairs m = Inr c"
  shows "case catalog_resolve c ch of
        None \<Rightarrow> tree ch \<notin> set (catalog_trees c) \<or> \<not> wf_skill_choice ch
      | Some sk \<Rightarrow> tree ch \<in> set (catalog_trees c) \<and> wf_skill_choice ch \<and>
          sk_tree sk = tree ch \<and> sk_tier sk = tier ch \<and> authored_skill m sk"
proof -
  obtain ids where inv: "catalog_inv dm m (c, ids)"
    using assms by (rule load_skill_catalog_inv)
  have trees: "tree ch \<in> set (catalog_trees c) \<longleftrightarrow> tree ch \<in> dom (map_of (cat_melee_by_tree c))"
    by (simp add: catalog_trees_def bt_keys_def dom_map_of_conv_image_fst)
  have "(tree ch, tier ch) \<in> dom (map_of (cat_by_choice c)) \<longleftrightarrow>
      tree ch \<in> dom (map_of (cat_melee_by_tree c)) \<and> wf_skill_choice ch"
    using inv by (auto simp: catalog_inv_def wf_skill_choice_def required_tier_iff)
  moreover have "choice_inv m (cat_by_choice c)" using inv by (simp add: catalog_inv_def)
  ultimately show ?thesis
    unfolding trees catalog_resolve_def choice_inv_def by (fastforce split: option.split)
qed

lemma load_skill_catalog_written:
  assumes "load_skill_catalog_from_pairs_with_mechanics from_yaml dm pairs m = Inr c"
  shows "catalog_resolve c ch = Some sk \<longleftrightarrow> written_skill from_yaml m pairs sk \<and> sk_tree sk = tree ch \<and> sk_tier sk = tier ch"
    and "catalog_melee_for c t = Some d \<longleftrightarrow> written_melee from_yaml dm pairs d \<and> md_tree d = t"
proof -
  obtain ids where "load_skill_files from_yaml dm m (\<lparr>cat_by_choice = [], cat_melee_by_tree = []\<rparr>, []) pairs = Inr (c, ids)"
    using assms by (auto simp: load_skill_catalog_from_pairs_with_mechanics_def and_then_eq_Inr split: if_splits)
  note get = load_skill_files_get [OF this]
  show "catalog_resolve c ch = Some sk \<longleftrightarrow> written_skill from_yaml m pairs sk \<and> sk_tree sk = tree ch \<and> sk_tier sk = tier ch"
    "catalog_melee_for c t = Some d \<longleftrightarrow> written_melee from_yaml dm pairs d \<and> md_tree d = t"
    using get [of "(tree ch, tier ch)" sk t d] by (auto simp: catalog_resolve_def catalog_melee_for_def bt_inv_ops)
qed

text \<open>C22: a catalogue that loads is what its files write. The skill it has for a choice is exactly the one that an entry
  of that tier writes in a file of that class - id, name, texts, cue and the behaviour the parser reads - and the melee
  attack of a class exactly the one its file writes. It has a skill for a choice exactly when it names the choice's class
  and the tier is one of 1 to 5, with the checks of the authoring rules, and no id of a skill or a melee attack occurs
  twice.\<close>

theorem skill_catalog_complete:
  assumes "load_skill_catalog_from_pairs_with_mechanics from_yaml dm pairs m = Inr c"
  shows "(\<forall>sk. catalog_resolve c ch = Some sk \<longleftrightarrow>
        written_skill from_yaml m pairs sk \<and> sk_tree sk = tree ch \<and> sk_tier sk = tier ch) \<and>
     (\<forall>t d. catalog_melee_for c t = Some d \<longleftrightarrow> written_melee from_yaml dm pairs d \<and> md_tree d = t) \<and>
     (case catalog_resolve c ch of
        None \<Rightarrow> tree ch \<notin> set (catalog_trees c) \<or> \<not> wf_skill_choice ch
      | Some sk \<Rightarrow> tree ch \<in> set (catalog_trees c) \<and> wf_skill_choice ch \<and> authored_skill m sk) \<and>
     distinct (map sk_id (catalog_all c) @ map md_id (bt_values (cat_melee_by_tree c)))"
proof -
  obtain ids where inv: "catalog_inv dm m (c, ids)"
    using assms by (rule load_skill_catalog_inv)
  have "mset (bt_keys ids) = mset (map sk_id (catalog_all c) @ map md_id (bt_values (cat_melee_by_tree c)))"
    using inv by (simp add: catalog_inv_def ids_inv_def catalog_all_def)
  moreover have "distinct (bt_keys ids)"
    using inv by (simp add: catalog_inv_def ids_inv_def bt_keys_def bt_inv_def strict_sorted_iff)
  ultimately have "distinct (map sk_id (catalog_all c) @ map md_id (bt_values (cat_melee_by_tree c)))"
    using mset_eq_imp_distinct_iff by blast
  moreover have "case catalog_resolve c ch of
        None \<Rightarrow> tree ch \<notin> set (catalog_trees c) \<or> \<not> wf_skill_choice ch
      | Some sk \<Rightarrow> tree ch \<in> set (catalog_trees c) \<and> wf_skill_choice ch \<and> authored_skill m sk"
    using catalog_resolve_ok [OF assms, of ch] by (simp split: option.splits)
  ultimately show ?thesis
    using load_skill_catalog_written [OF assms] by blast
qed

theorem skill_catalog_complete_witness:
  "\<exists>c. load_skill_catalog_from_pairs_with_mechanics (\<lambda>_. Inr sample_file) sample_catalog [([], [])] sample_catalog = Inr c \<and>
     (\<exists>sk. catalog_resolve c \<lparr>tree = Known Mage, tier = 5\<rparr> = Some sk \<and> sk_id sk = lit ''e'' \<and> authored_skill sample_catalog sk) \<and>
     catalog_resolve c \<lparr>tree = Known Rogue, tier = 5\<rparr> = None"
proof -
  obtain c where c: "load_skill_catalog_from_pairs_with_mechanics (\<lambda>_. Inr sample_file) sample_catalog [([], [])] sample_catalog = Inr c"
    "catalog_trees c = [Known Mage]"
    using sample_catalog_loads by blast
  let ?mage = "\<lparr>tree = Known Mage, tier = 5\<rparr>"
  note mage = skill_catalog_complete [OF c(1), of ?mage]
  from mage c(2) obtain sk where sk: "catalog_resolve c ?mage = Some sk" "authored_skill sample_catalog sk"
    by (auto simp: wf_skill_choice_def MAX_SKILL_TIER_def split: option.splits)
  with mage have "written_skill (\<lambda>_. Inr sample_file) sample_catalog [([], [])] sk" "sk_tier sk = 5" by auto
  then have "sk_id sk = lit ''e''"
    by (auto simp: written_skill_def skill_of_entry_def sample_file_def sample_skill_def)
  with sk skill_catalog_complete [OF c(1), of "\<lparr>tree = Known Rogue, tier = 5\<rparr>"] c
  show ?thesis by (auto split: option.splits)
qed

end
