(* ===== verification/Content_Config.thy ===== *)
theory Content_Config
  imports Content_Payload
begin

text \<open>
  The game configuration (\<open>config.rs\<close>): the document of the YAML file and the validation of each of
  its sections, in the order of the source. A YAML section with the fields of the configuration
  it becomes is that configuration's record. The lemmas show what an accepted configuration
  guarantees to the lobby, the match, the map generator and the simulation.
\<close>

type_synonym usize = u64

section \<open>Data\<close>

record lobby_configuration =
  lc_launch_countdown_seconds :: u8

record match_configuration =
  mcf_total_rounds :: u8
  mcf_skill_pick_seconds :: u8
  mcf_pre_combat_seconds :: u8

record map_generation_style =
  gs_shrub_clusters :: usize
  gs_shrub_radius_tiles :: i32
  gs_shrub_soft_radius_tiles :: i32
  gs_shrub_fill_percent :: u8
  gs_wall_segments :: usize
  gs_isolated_pillars :: usize

record map_generation_configuration =
  gc_max_generation_attempts :: usize
  gc_protected_tile_buffer_radius_tiles :: i32
  gc_obstacle_edge_padding_tiles :: i32
  gc_wall_segment_lengths_tiles :: "i32 list"
  gc_long_wall_percent :: u8
  gc_wall_candidate_skip_percent :: u8
  gc_wall_min_spacing_manhattan_tiles :: i32
  gc_pillar_candidate_skip_percent :: u8
  gc_pillar_min_spacing_manhattan_tiles :: i32
  gc_styles :: "map_generation_style list"

record maps_configuration =
  mpc_tile_units :: u16
  mpc_objective_target_ms_by_map :: "(rstring, u32) btree_map"
  mpc_generation :: map_generation_configuration

record class_profile =
  cp_hit_points :: u16
  cp_max_mana :: u16
  cp_move_speed_units_per_second :: u16

record game_configuration =
  gcf_lobby :: lobby_configuration
  gcf_match_flow :: match_configuration
  gcf_maps :: maps_configuration
  gcf_simulation :: simulation_configuration
  gcf_classes :: "(skill_tree, class_profile) btree_map"

type_synonym lobby_configuration_yaml = lobby_configuration
type_synonym match_configuration_yaml = match_configuration
type_synonym map_generation_style_yaml = map_generation_style
type_synonym map_generation_configuration_yaml = map_generation_configuration
type_synonym maps_configuration_yaml = maps_configuration
type_synonym passive_bonus_caps_yaml = passive_bonus_caps
type_synonym movement_modifier_caps_yaml = movement_modifier_caps
type_synonym crowd_control_dr_yaml = crowd_control_dr
type_synonym training_dummy_configuration_yaml = training_dummy_configuration
type_synonym simulation_configuration_yaml = simulation_configuration
type_synonym class_profile_yaml = class_profile

record configurations_yaml =
  cfy_lobby :: lobby_configuration_yaml
  cfy_match_flow :: match_configuration_yaml
  cfy_maps :: maps_configuration_yaml
  cfy_simulation :: simulation_configuration_yaml
  cfy_classes :: "(rstring, class_profile_yaml) btree_map"

section \<open>Checks\<close>

definition require_positive :: "rstring \<Rightarrow> rstring \<Rightarrow> 'a::len word \<Rightarrow> content_error + unit" where
  "require_positive source field v =
     (if v = 0 then invalid source (field @ lit '' must be greater than zero'') else Inr ())"

definition validate_percent :: "rstring \<Rightarrow> rstring \<Rightarrow> u8 \<Rightarrow> content_error + unit" where
  "validate_percent source field v =
     (if 100 < v then invalid source (field @ lit '' must be between 0 and 100'') else Inr ())"

definition validate_basis_points :: "rstring \<Rightarrow> rstring \<Rightarrow> u16 \<Rightarrow> content_error + unit" where
  "validate_basis_points source field v =
     (if 10000 < v then invalid source (field @ lit '' must be between 0 and 10000 basis points'') else Inr ())"

definition validate_ordered_i16_range :: "rstring \<Rightarrow> rstring \<Rightarrow> i16 \<Rightarrow> i16 \<Rightarrow> content_error + unit" where
  "validate_ordered_i16_range source field lo hi =
     (if sint hi < sint lo then invalid source (field @ lit '' min must be <= max'') else Inr ())"

definition validate_ordered_u16_range :: "rstring \<Rightarrow> rstring \<Rightarrow> u16 \<Rightarrow> u16 \<Rightarrow> content_error + unit" where
  "validate_ordered_u16_range source field lo hi =
     (if lo = 0 \<or> hi < lo then invalid source (field @ lit '' must be positive and ascending'') else Inr ())"

definition require_valid_round_number :: "rstring \<Rightarrow> rstring \<Rightarrow> u8 \<Rightarrow> content_error + unit" where
  "require_valid_round_number source field v =
     map_err (\<lambda>e. ContentValidation source (field @ lit '': '' @ domain_error_text e))
       (and_then (round_number_new v) (\<lambda>_. Inr ()))"

section \<open>Sections\<close>

definition parse_lobby_configuration :: "rstring \<Rightarrow> lobby_configuration_yaml \<Rightarrow> content_error + lobby_configuration" where
  "parse_lobby_configuration source y =
     and_then (require_positive source (lit ''lobby.launch_countdown_seconds'') (lc_launch_countdown_seconds y)) (\<lambda>_.
       Inr \<lparr>lc_launch_countdown_seconds = lc_launch_countdown_seconds y\<rparr>)"

definition parse_match_configuration :: "rstring \<Rightarrow> match_configuration_yaml \<Rightarrow> content_error + match_configuration" where
  "parse_match_configuration source y =
     and_then (require_valid_round_number source (lit ''match.total_rounds'') (mcf_total_rounds y)) (\<lambda>_.
     and_then (require_positive source (lit ''match.skill_pick_seconds'') (mcf_skill_pick_seconds y)) (\<lambda>_.
     and_then (require_positive source (lit ''match.pre_combat_seconds'') (mcf_pre_combat_seconds y)) (\<lambda>_.
       Inr \<lparr>mcf_total_rounds = mcf_total_rounds y, mcf_skill_pick_seconds = mcf_skill_pick_seconds y,
         mcf_pre_combat_seconds = mcf_pre_combat_seconds y\<rparr>)))"

definition parse_map_generation_style ::
  "rstring \<Rightarrow> nat \<Rightarrow> map_generation_style_yaml \<Rightarrow> content_error + map_generation_style" where
  "parse_map_generation_style source index y =
     (let prefix = lit ''maps.generation.styles['' @ show_nat index @ lit '']'' in
      if sint (gs_shrub_radius_tiles y) < 0 \<or> sint (gs_shrub_soft_radius_tiles y) < 0
      then invalid source (prefix @ lit '' shrub radii must be non-negative'')
      else if sint (gs_shrub_soft_radius_tiles y) < sint (gs_shrub_radius_tiles y)
      then invalid source (prefix @ lit ''.shrub_soft_radius_tiles must be >= shrub_radius_tiles'')
      else and_then (validate_percent source (prefix @ lit ''.shrub_fill_percent'') (gs_shrub_fill_percent y)) (\<lambda>_.
        Inr \<lparr>gs_shrub_clusters = gs_shrub_clusters y, gs_shrub_radius_tiles = gs_shrub_radius_tiles y,
          gs_shrub_soft_radius_tiles = gs_shrub_soft_radius_tiles y,
          gs_shrub_fill_percent = gs_shrub_fill_percent y, gs_wall_segments = gs_wall_segments y,
          gs_isolated_pillars = gs_isolated_pillars y\<rparr>))"

fun parse_map_generation_styles ::
  "rstring \<Rightarrow> nat \<Rightarrow> map_generation_style_yaml list \<Rightarrow> content_error + map_generation_style list" where
  "parse_map_generation_styles source index [] = Inr []"
| "parse_map_generation_styles source index (y # ys) =
     and_then (parse_map_generation_style source index y) (\<lambda>s.
     and_then (parse_map_generation_styles source (Suc index) ys) (\<lambda>ss. Inr (s # ss)))"

definition parse_map_generation_configuration ::
  "rstring \<Rightarrow> map_generation_configuration_yaml \<Rightarrow> content_error + map_generation_configuration" where
  "parse_map_generation_configuration source y =
     (if gc_max_generation_attempts y = 0
      then invalid source (lit ''maps.generation.max_generation_attempts must be greater than zero'')
      else if sint (gc_protected_tile_buffer_radius_tiles y) < 0
      then invalid source (lit ''maps.generation.protected_tile_buffer_radius_tiles must be non-negative'')
      else if sint (gc_obstacle_edge_padding_tiles y) < 0
      then invalid source (lit ''maps.generation.obstacle_edge_padding_tiles must be non-negative'')
      else if length (gc_wall_segment_lengths_tiles y) \<noteq> 2
      then invalid source (lit ''maps.generation.wall_segment_lengths_tiles must contain exactly two lengths'')
      else
        (let short_length = gc_wall_segment_lengths_tiles y ! 0; long_length = gc_wall_segment_lengths_tiles y ! 1 in
         if sint short_length \<le> 0 \<or> sint long_length \<le> 0 \<or> sint long_length < sint short_length
         then invalid source (lit ''maps.generation.wall_segment_lengths_tiles must be positive and ascending'')
         else
           and_then (validate_percent source (lit ''maps.generation.long_wall_percent'') (gc_long_wall_percent y)) (\<lambda>_.
           and_then (validate_percent source (lit ''maps.generation.wall_candidate_skip_percent'')
             (gc_wall_candidate_skip_percent y)) (\<lambda>_.
           and_then (validate_percent source (lit ''maps.generation.pillar_candidate_skip_percent'')
             (gc_pillar_candidate_skip_percent y)) (\<lambda>_.
             if sint (gc_wall_min_spacing_manhattan_tiles y) < 0
             then invalid source (lit ''maps.generation.wall_min_spacing_manhattan_tiles must be non-negative'')
             else if sint (gc_pillar_min_spacing_manhattan_tiles y) < 0
             then invalid source (lit ''maps.generation.pillar_min_spacing_manhattan_tiles must be non-negative'')
             else if gc_styles y = []
             then invalid source (lit ''maps.generation.styles must contain at least one style'')
             else and_then (parse_map_generation_styles source 0 (gc_styles y)) (\<lambda>styles.
               Inr \<lparr>gc_max_generation_attempts = gc_max_generation_attempts y,
                 gc_protected_tile_buffer_radius_tiles = gc_protected_tile_buffer_radius_tiles y,
                 gc_obstacle_edge_padding_tiles = gc_obstacle_edge_padding_tiles y,
                 gc_wall_segment_lengths_tiles = [short_length, long_length],
                 gc_long_wall_percent = gc_long_wall_percent y,
                 gc_wall_candidate_skip_percent = gc_wall_candidate_skip_percent y,
                 gc_wall_min_spacing_manhattan_tiles = gc_wall_min_spacing_manhattan_tiles y,
                 gc_pillar_candidate_skip_percent = gc_pillar_candidate_skip_percent y,
                 gc_pillar_min_spacing_manhattan_tiles = gc_pillar_min_spacing_manhattan_tiles y,
                 gc_styles = styles\<rparr>))))))"

fun validate_objective_targets :: "rstring \<Rightarrow> (rstring \<times> u32) list \<Rightarrow> content_error + unit" where
  "validate_objective_targets source [] = Inr ()"
| "validate_objective_targets source ((map_id, objective_target_ms) # entries) =
     (if trim map_id = []
      then invalid source (lit ''maps.objective_target_ms_by_map entries must use non-empty map ids'')
      else and_then (require_positive source (lit ''maps.objective_target_ms_by_map.'' @ map_id) objective_target_ms) (\<lambda>_.
        validate_objective_targets source entries))"

definition parse_maps_configuration :: "rstring \<Rightarrow> maps_configuration_yaml \<Rightarrow> content_error + maps_configuration" where
  "parse_maps_configuration source y =
     and_then (require_positive source (lit ''maps.tile_units'') (mpc_tile_units y)) (\<lambda>_.
       if mpc_objective_target_ms_by_map y = []
       then invalid source (lit ''maps.objective_target_ms_by_map must contain at least one entry'')
       else and_then (validate_objective_targets source (mpc_objective_target_ms_by_map y)) (\<lambda>_.
         and_then (parse_map_generation_configuration source (mpc_generation y)) (\<lambda>generation.
           Inr \<lparr>mpc_tile_units = mpc_tile_units y,
             mpc_objective_target_ms_by_map = mpc_objective_target_ms_by_map y,
             mpc_generation = generation\<rparr>)))"

definition parse_passive_bonus_caps :: "rstring \<Rightarrow> passive_bonus_caps_yaml \<Rightarrow> content_error + passive_bonus_caps" where
  "parse_passive_bonus_caps source y =
     and_then (validate_basis_points source (lit ''simulation.passive_bonus_caps.player_speed_bps'')
       (pbc_player_speed_bps y)) (\<lambda>_.
     and_then (validate_basis_points source (lit ''simulation.passive_bonus_caps.projectile_speed_bps'')
       (pbc_projectile_speed_bps y)) (\<lambda>_.
     and_then (validate_basis_points source (lit ''simulation.passive_bonus_caps.cooldown_bps'')
       (pbc_cooldown_bps y)) (\<lambda>_.
     and_then (validate_basis_points source (lit ''simulation.passive_bonus_caps.cast_time_bps'')
       (pbc_cast_time_bps y)) (\<lambda>_.
       Inr \<lparr>pbc_player_speed_bps = pbc_player_speed_bps y, pbc_projectile_speed_bps = pbc_projectile_speed_bps y,
         pbc_cooldown_bps = pbc_cooldown_bps y, pbc_cast_time_bps = pbc_cast_time_bps y\<rparr>))))"

definition parse_movement_modifier_caps ::
  "rstring \<Rightarrow> movement_modifier_caps_yaml \<Rightarrow> content_error + movement_modifier_caps" where
  "parse_movement_modifier_caps source y =
     and_then (validate_basis_points source (lit ''simulation.movement_modifier_caps.chill_bps'') (mmc_chill_bps y)) (\<lambda>_.
     and_then (validate_basis_points source (lit ''simulation.movement_modifier_caps.haste_bps'') (mmc_haste_bps y)) (\<lambda>_.
     and_then (validate_ordered_i16_range source (lit ''simulation.movement_modifier_caps.status_total'')
       (mmc_status_total_min_bps y) (mmc_status_total_max_bps y)) (\<lambda>_.
     and_then (validate_ordered_i16_range source (lit ''simulation.movement_modifier_caps.overall_total'')
       (mmc_overall_total_min_bps y) (mmc_overall_total_max_bps y)) (\<lambda>_.
     and_then (validate_ordered_u16_range source (lit ''simulation.movement_modifier_caps.effective_scale'')
       (mmc_effective_scale_min_bps y) (mmc_effective_scale_max_bps y)) (\<lambda>_.
       Inr \<lparr>mmc_chill_bps = mmc_chill_bps y, mmc_haste_bps = mmc_haste_bps y,
         mmc_status_total_min_bps = mmc_status_total_min_bps y,
         mmc_status_total_max_bps = mmc_status_total_max_bps y,
         mmc_overall_total_min_bps = mmc_overall_total_min_bps y,
         mmc_overall_total_max_bps = mmc_overall_total_max_bps y,
         mmc_effective_scale_min_bps = mmc_effective_scale_min_bps y,
         mmc_effective_scale_max_bps = mmc_effective_scale_max_bps y\<rparr>)))))"

fun validate_stages :: "rstring \<Rightarrow> nat \<Rightarrow> u16 list \<Rightarrow> content_error + u16 list" where
  "validate_stages source index [] = Inr []"
| "validate_stages source index (v # vs) =
     and_then (validate_basis_points source
       (lit ''simulation.crowd_control_diminishing_returns.stages_bps['' @ show_nat index @ lit '']'') v) (\<lambda>_.
     and_then (validate_stages source (Suc index) vs) (\<lambda>stages. Inr (v # stages)))"

definition parse_crowd_control_diminishing_returns ::
  "rstring \<Rightarrow> crowd_control_dr_yaml \<Rightarrow> content_error + crowd_control_dr" where
  "parse_crowd_control_diminishing_returns source y =
     and_then (require_positive source (lit ''simulation.crowd_control_diminishing_returns.window_ms'')
       (ccd_window_ms y)) (\<lambda>_.
       if length (ccd_stages_bps y) \<noteq> 4
       then invalid source (lit ''simulation.crowd_control_diminishing_returns.stages_bps must contain exactly four entries'')
       else and_then (validate_stages source 0 (ccd_stages_bps y)) (\<lambda>stages.
         Inr \<lparr>ccd_window_ms = ccd_window_ms y, ccd_stages_bps = stages\<rparr>))"

definition parse_training_dummy_configuration ::
  "rstring \<Rightarrow> training_dummy_configuration_yaml \<Rightarrow> content_error + training_dummy_configuration" where
  "parse_training_dummy_configuration source y =
     and_then (require_positive source (lit ''simulation.training_dummy.base_hit_points'') (tdc_base_hit_points y)) (\<lambda>_.
     and_then (require_positive source (lit ''simulation.training_dummy.health_multiplier'') (tdc_health_multiplier y)) (\<lambda>_.
     and_then (validate_basis_points source (lit ''simulation.training_dummy.execute_threshold_bps'')
       (tdc_execute_threshold_bps y)) (\<lambda>_.
       Inr \<lparr>tdc_base_hit_points = tdc_base_hit_points y, tdc_health_multiplier = tdc_health_multiplier y,
         tdc_execute_threshold_bps = tdc_execute_threshold_bps y\<rparr>)))"

definition parse_simulation_configuration ::
  "rstring \<Rightarrow> simulation_configuration_yaml \<Rightarrow> content_error + simulation_configuration" where
  "parse_simulation_configuration source y =
     and_then (require_positive source (lit ''simulation.combat_frame_ms'') (sc_combat_frame_ms y)) (\<lambda>_.
     and_then (require_positive source (lit ''simulation.player_radius_units'') (sc_player_radius_units y)) (\<lambda>_.
     and_then (require_positive source (lit ''simulation.vision_radius_units'') (sc_vision_radius_units y)) (\<lambda>_.
       if sc_default_aim_x_units y = 0 \<and> sc_default_aim_y_units y = 0
       then invalid source (lit ''simulation default aim vector must not be zero on both axes'')
       else
     and_then (require_positive source (lit ''simulation.mana_regen_per_second'') (sc_mana_regen_per_second y)) (\<lambda>_.
     and_then (require_positive source (lit ''simulation.teleport_resolution_steps'') (sc_teleport_resolution_steps y)) (\<lambda>_.
     and_then (require_positive source (lit ''simulation.movement_audio_step_interval_ms'')
       (sc_movement_audio_step_interval_ms y)) (\<lambda>_.
     and_then (require_positive source (lit ''simulation.movement_audio_radius_units'')
       (sc_movement_audio_radius_units y)) (\<lambda>_.
     and_then (require_positive source (lit ''simulation.stealth_audio_radius_units'')
       (sc_stealth_audio_radius_units y)) (\<lambda>_.
     and_then (validate_percent source (lit ''simulation.brush_movement_audible_percent'')
       (sc_brush_movement_audible_percent y)) (\<lambda>_.
     and_then (parse_passive_bonus_caps source (sc_passive_bonus_caps y)) (\<lambda>passive.
     and_then (parse_movement_modifier_caps source (sc_movement_modifier_caps y)) (\<lambda>movement.
     and_then (parse_crowd_control_diminishing_returns source (sc_crowd_control_dr y)) (\<lambda>dr.
     and_then (parse_training_dummy_configuration source (sc_training_dummy y)) (\<lambda>dummy.
       Inr \<lparr>sc_combat_frame_ms = sc_combat_frame_ms y, sc_player_radius_units = sc_player_radius_units y,
         sc_vision_radius_units = sc_vision_radius_units y, sc_spawn_spacing_units = sc_spawn_spacing_units y,
         sc_default_aim_x_units = sc_default_aim_x_units y, sc_default_aim_y_units = sc_default_aim_y_units y,
         sc_mana_regen_per_second = sc_mana_regen_per_second y,
         sc_global_projectile_speed_bonus_bps = sc_global_projectile_speed_bonus_bps y,
         sc_teleport_resolution_steps = sc_teleport_resolution_steps y,
         sc_movement_audio_step_interval_ms = sc_movement_audio_step_interval_ms y,
         sc_movement_audio_radius_units = sc_movement_audio_radius_units y,
         sc_stealth_audio_radius_units = sc_stealth_audio_radius_units y,
         sc_brush_movement_audible_percent = sc_brush_movement_audible_percent y,
         sc_passive_bonus_caps = passive, sc_movement_modifier_caps = movement,
         sc_crowd_control_dr = dr, sc_training_dummy = dummy\<rparr>)))))))))))))"

text \<open>The loop over the class profiles; \<open>parsed\<close> is the map built so far.\<close>

fun parse_profiles ::
  "rstring \<Rightarrow> (skill_tree, class_profile) btree_map \<Rightarrow> (rstring \<times> class_profile_yaml) list \<Rightarrow>
   content_error + (skill_tree, class_profile) btree_map" where
  "parse_profiles source parsed [] = Inr parsed"
| "parse_profiles source parsed ((tree_name, profile) # entries) =
     and_then (map_err (\<lambda>e. ContentValidation source (lit ''classes.'' @ tree_name @ lit '': '' @ domain_error_text e))
       (skill_tree_new tree_name)) (\<lambda>t.
     and_then (require_positive source (lit ''classes.'' @ tree_name @ lit ''.hit_points'') (cp_hit_points profile)) (\<lambda>_.
     and_then (require_positive source (lit ''classes.'' @ tree_name @ lit ''.max_mana'') (cp_max_mana profile)) (\<lambda>_.
     and_then (require_positive source (lit ''classes.'' @ tree_name @ lit ''.move_speed_units_per_second'')
       (cp_move_speed_units_per_second profile)) (\<lambda>_.
       if bt_contains parsed t
       then invalid source (lit ''classes contains a duplicate tree profile '' @ quoted tree_name)
       else parse_profiles source (bt_insert t profile parsed) entries))))"

definition parse_class_profiles ::
  "rstring \<Rightarrow> (rstring, class_profile_yaml) btree_map \<Rightarrow> content_error + (skill_tree, class_profile) btree_map" where
  "parse_class_profiles source classes =
     (if classes = [] then invalid source (lit ''classes must contain at least one authored class profile'')
      else parse_profiles source [] classes)"

definition parse_configuration_yaml ::
  "(rstring \<Rightarrow> rstring + configurations_yaml) \<Rightarrow> rstring \<Rightarrow> rstring \<Rightarrow> content_error + game_configuration" where
  "parse_configuration_yaml from_yaml source yaml =
     and_then (map_err (ContentParse source) (from_yaml yaml)) (\<lambda>parsed.
     and_then (parse_lobby_configuration source (cfy_lobby parsed)) (\<lambda>lobby.
     and_then (parse_match_configuration source (cfy_match_flow parsed)) (\<lambda>match_flow.
     and_then (parse_maps_configuration source (cfy_maps parsed)) (\<lambda>maps.
     and_then (parse_simulation_configuration source (cfy_simulation parsed)) (\<lambda>simulation.
     and_then (parse_class_profiles source (cfy_classes parsed)) (\<lambda>classes.
       Inr \<lparr>gcf_lobby = lobby, gcf_match_flow = match_flow, gcf_maps = maps, gcf_simulation = simulation,
         gcf_classes = classes\<rparr>))))))"

section \<open>What an accepted configuration guarantees\<close>

lemma config_checks [simp]:
  "require_positive source field v = Inr u \<longleftrightarrow> v \<noteq> 0"
  "validate_percent source field p = Inr u \<longleftrightarrow> p \<le> 100"
  "validate_basis_points source field b = Inr u \<longleftrightarrow> b \<le> 10000"
  "validate_ordered_i16_range source field lo hi = Inr u \<longleftrightarrow> sint lo \<le> sint hi"
  "validate_ordered_u16_range source field lo hi = Inr u \<longleftrightarrow> lo \<noteq> 0 \<and> lo \<le> hi"
  by (auto simp: require_positive_def validate_percent_def validate_basis_points_def
      validate_ordered_i16_range_def validate_ordered_u16_range_def)

lemma require_valid_round_number_iff [simp]:
  "require_valid_round_number source field v = Inr u \<longleftrightarrow> 1 \<le> v \<and> v \<le> MAX_ROUNDS"
  by (auto simp: require_valid_round_number_def map_err_def round_number_new_def split: sum.splits)

definition valid_match_configuration :: "match_configuration \<Rightarrow> bool" where
  "valid_match_configuration c \<longleftrightarrow> 1 \<le> mcf_total_rounds c \<and> mcf_total_rounds c \<le> MAX_ROUNDS \<and>
     mcf_skill_pick_seconds c \<noteq> 0 \<and> mcf_pre_combat_seconds c \<noteq> 0"

definition valid_style :: "map_generation_style \<Rightarrow> bool" where
  "valid_style s \<longleftrightarrow> 0 \<le> sint (gs_shrub_radius_tiles s) \<and>
     sint (gs_shrub_radius_tiles s) \<le> sint (gs_shrub_soft_radius_tiles s) \<and> gs_shrub_fill_percent s \<le> 100"

definition valid_generation :: "map_generation_configuration \<Rightarrow> bool" where
  "valid_generation g \<longleftrightarrow> gc_max_generation_attempts g \<noteq> 0 \<and>
     0 \<le> sint (gc_protected_tile_buffer_radius_tiles g) \<and> 0 \<le> sint (gc_obstacle_edge_padding_tiles g) \<and>
     (\<exists>short long. gc_wall_segment_lengths_tiles g = [short, long] \<and> 0 < sint short \<and> sint short \<le> sint long) \<and>
     gc_long_wall_percent g \<le> 100 \<and> gc_wall_candidate_skip_percent g \<le> 100 \<and>
     gc_pillar_candidate_skip_percent g \<le> 100 \<and> 0 \<le> sint (gc_wall_min_spacing_manhattan_tiles g) \<and>
     0 \<le> sint (gc_pillar_min_spacing_manhattan_tiles g) \<and> gc_styles g \<noteq> [] \<and> list_all valid_style (gc_styles g)"

definition valid_maps_configuration :: "maps_configuration \<Rightarrow> bool" where
  "valid_maps_configuration c \<longleftrightarrow> mpc_tile_units c \<noteq> 0 \<and> mpc_objective_target_ms_by_map c \<noteq> [] \<and>
     list_all (\<lambda>(map_id, target). trim map_id \<noteq> [] \<and> target \<noteq> 0) (mpc_objective_target_ms_by_map c) \<and>
     valid_generation (mpc_generation c)"

definition valid_movement_caps :: "movement_modifier_caps \<Rightarrow> bool" where
  "valid_movement_caps c \<longleftrightarrow> mmc_chill_bps c \<le> 10000 \<and> mmc_haste_bps c \<le> 10000 \<and>
     sint (mmc_status_total_min_bps c) \<le> sint (mmc_status_total_max_bps c) \<and>
     sint (mmc_overall_total_min_bps c) \<le> sint (mmc_overall_total_max_bps c) \<and>
     mmc_effective_scale_min_bps c \<noteq> 0 \<and> mmc_effective_scale_min_bps c \<le> mmc_effective_scale_max_bps c"

definition valid_passive_caps :: "passive_bonus_caps \<Rightarrow> bool" where
  "valid_passive_caps c \<longleftrightarrow> pbc_player_speed_bps c \<le> 10000 \<and> pbc_projectile_speed_bps c \<le> 10000 \<and>
     pbc_cooldown_bps c \<le> 10000 \<and> pbc_cast_time_bps c \<le> 10000"

definition valid_dr :: "crowd_control_dr \<Rightarrow> bool" where
  "valid_dr d \<longleftrightarrow> ccd_window_ms d \<noteq> 0 \<and> length (ccd_stages_bps d) = 4 \<and> list_all (\<lambda>v. v \<le> 10000) (ccd_stages_bps d)"

definition valid_dummy :: "training_dummy_configuration \<Rightarrow> bool" where
  "valid_dummy d \<longleftrightarrow> tdc_base_hit_points d \<noteq> 0 \<and> tdc_health_multiplier d \<noteq> 0 \<and> tdc_execute_threshold_bps d \<le> 10000"

definition valid_simulation :: "simulation_configuration \<Rightarrow> bool" where
  "valid_simulation c \<longleftrightarrow> sc_combat_frame_ms c \<noteq> 0 \<and> sc_player_radius_units c \<noteq> 0 \<and> sc_vision_radius_units c \<noteq> 0 \<and>
     (sc_default_aim_x_units c \<noteq> 0 \<or> sc_default_aim_y_units c \<noteq> 0) \<and> sc_mana_regen_per_second c \<noteq> 0 \<and>
     sc_teleport_resolution_steps c \<noteq> 0 \<and> sc_movement_audio_step_interval_ms c \<noteq> 0 \<and>
     sc_movement_audio_radius_units c \<noteq> 0 \<and> sc_stealth_audio_radius_units c \<noteq> 0 \<and>
     sc_brush_movement_audible_percent c \<le> 100 \<and> valid_passive_caps (sc_passive_bonus_caps c) \<and>
     valid_movement_caps (sc_movement_modifier_caps c) \<and> valid_dr (sc_crowd_control_dr c) \<and>
     valid_dummy (sc_training_dummy c)"

definition valid_profile :: "class_profile \<Rightarrow> bool" where
  "valid_profile p \<longleftrightarrow> cp_hit_points p \<noteq> 0 \<and> cp_max_mana p \<noteq> 0 \<and> cp_move_speed_units_per_second p \<noteq> 0"

text \<open>Every section other than the classes is accepted exactly when it is valid, and unchanged.\<close>

lemma parse_lobby_iff:
  "parse_lobby_configuration source y = Inr c \<longleftrightarrow> lc_launch_countdown_seconds y \<noteq> 0 \<and> c = y"
  by (cases y) (auto simp: parse_lobby_configuration_def and_then_eq_Inr)

lemma parse_match_iff: "parse_match_configuration source y = Inr c \<longleftrightarrow> valid_match_configuration y \<and> c = y"
  by (cases y) (auto simp: parse_match_configuration_def and_then_eq_Inr valid_match_configuration_def)

lemma parse_style_iff: "parse_map_generation_style source i y = Inr s \<longleftrightarrow> valid_style y \<and> s = y"
  by (cases y) (auto simp: parse_map_generation_style_def and_then_eq_Inr valid_style_def Let_def)

lemma parse_styles_iff: "parse_map_generation_styles source i ys = Inr ss \<longleftrightarrow> list_all valid_style ys \<and> ss = ys"
  by (induction source i ys arbitrary: ss rule: parse_map_generation_styles.induct)
    (auto simp: and_then_eq_Inr parse_style_iff)

lemma two_lengths: "length xs = 2 \<longleftrightarrow> (\<exists>a b. xs = [a, b])"
  by (auto simp: numeral_2_eq_2 length_Suc_conv)

lemma parse_generation_iff:
  "parse_map_generation_configuration source y = Inr g \<longleftrightarrow> valid_generation y \<and> g = y"
  by (cases y) (auto simp: parse_map_generation_configuration_def and_then_eq_Inr valid_generation_def
      parse_styles_iff two_lengths Let_def not_less)

lemma validate_targets_iff:
  "validate_objective_targets source entries = Inr u \<longleftrightarrow>
     list_all (\<lambda>(map_id, target). trim map_id \<noteq> [] \<and> target \<noteq> 0) entries"
  by (induction source entries rule: validate_objective_targets.induct) (auto simp: and_then_eq_Inr)

lemma parse_maps_iff: "parse_maps_configuration source y = Inr c \<longleftrightarrow> valid_maps_configuration y \<and> c = y"
  by (cases y) (auto simp: parse_maps_configuration_def and_then_eq_Inr valid_maps_configuration_def
      validate_targets_iff parse_generation_iff)

lemma validate_stages_iff: "validate_stages source i vs = Inr ws \<longleftrightarrow> list_all (\<lambda>v. v \<le> 10000) vs \<and> ws = vs"
  by (induction source i vs arbitrary: ws rule: validate_stages.induct) (auto simp: and_then_eq_Inr)

lemma parse_caps_iff:
  "parse_passive_bonus_caps source pc = Inr pc' \<longleftrightarrow> valid_passive_caps pc \<and> pc' = pc"
  "parse_movement_modifier_caps source mc = Inr mc' \<longleftrightarrow> valid_movement_caps mc \<and> mc' = mc"
  "parse_crowd_control_diminishing_returns source dr = Inr dr' \<longleftrightarrow> valid_dr dr \<and> dr' = dr"
  "parse_training_dummy_configuration source td = Inr td' \<longleftrightarrow> valid_dummy td \<and> td' = td"
  by (cases pc; cases mc; cases dr; cases td;
      auto simp: parse_passive_bonus_caps_def parse_movement_modifier_caps_def
        parse_crowd_control_diminishing_returns_def parse_training_dummy_configuration_def and_then_eq_Inr
        valid_passive_caps_def valid_movement_caps_def valid_dr_def valid_dummy_def validate_stages_iff)+

lemma parse_simulation_iff: "parse_simulation_configuration source y = Inr c \<longleftrightarrow> valid_simulation y \<and> c = y"
  by (cases y) (auto simp: parse_simulation_configuration_def and_then_eq_Inr valid_simulation_def parse_caps_iff)

definition wf_profiles :: "(skill_tree, class_profile) btree_map \<Rightarrow> bool" where
  "wf_profiles m \<longleftrightarrow> bt_inv m \<and> (\<forall>t p. map_of m t = Some p \<longrightarrow> wf_skill_tree t \<and> valid_profile p)"

lemma wf_profiles_insert:
  "wf_profiles m \<Longrightarrow> wf_skill_tree t \<Longrightarrow> valid_profile p \<Longrightarrow> wf_profiles (bt_insert t p m)"
  by (simp add: wf_profiles_def bt_inv_ops bt_get_ops)

lemma length_bt_insert: "map_of m k = None \<Longrightarrow> length (bt_insert k v m) = Suc (length m)"
  by (induction k v m rule: bt_insert.induct) (auto split: if_splits)

lemma parse_profiles_ok:
  "parse_profiles source parsed entries = Inr classes \<Longrightarrow> wf_profiles parsed \<Longrightarrow>
     wf_profiles classes \<and> length classes = length parsed + length entries"
proof (induction source parsed entries rule: parse_profiles.induct)
  case (2 source parsed tree_name profile entries)
  from 2(2) obtain t where t: "skill_tree_new tree_name = Inr t" "valid_profile profile" "map_of parsed t = None"
    and rest: "parse_profiles source (bt_insert t profile parsed) entries = Inr classes"
    by (auto simp: and_then_eq_Inr valid_profile_def bt_contains_def split: if_splits)
  from 2(1) [OF _ rest wf_profiles_insert [OF 2(3) skill_tree_new_wf [OF t(1)] t(2)]] t(3)
  show ?case by (simp add: bt_contains_def length_bt_insert)
qed simp

definition valid_configuration :: "game_configuration \<Rightarrow> bool" where
  "valid_configuration c \<longleftrightarrow> lc_launch_countdown_seconds (gcf_lobby c) \<noteq> 0 \<and>
     valid_match_configuration (gcf_match_flow c) \<and> valid_maps_configuration (gcf_maps c) \<and>
     valid_simulation (gcf_simulation c) \<and> gcf_classes c \<noteq> [] \<and> wf_profiles (gcf_classes c)"

text \<open>An accepted configuration is the document's, section by section, and valid: positive times, radii and
  intervals, percentages and basis points in range, ordered bounds, four stages of diminishing returns, and
  positive profiles under well-formed class names.\<close>

lemma parse_configuration_valid:
  assumes "parse_configuration_yaml from_yaml source yaml = Inr c"
  shows "valid_configuration c \<and> (\<exists>doc. from_yaml yaml = Inr doc \<and> gcf_lobby c = cfy_lobby doc \<and>
     gcf_match_flow c = cfy_match_flow doc \<and> gcf_maps c = cfy_maps doc \<and> gcf_simulation c = cfy_simulation doc \<and>
     length (gcf_classes c) = length (cfy_classes doc))"
  using assms
  by (auto simp: parse_configuration_yaml_def and_then_eq_Inr parse_lobby_iff parse_match_iff parse_maps_iff
      parse_simulation_iff parse_class_profiles_def valid_configuration_def wf_profiles_def [of "[]"] bt_inv_ops
      split: if_splits dest!: parse_profiles_ok)

definition sample_document :: configurations_yaml where
  "sample_document = \<lparr>cfy_lobby = \<lparr>lc_launch_countdown_seconds = 5\<rparr>,
     cfy_match_flow = \<lparr>mcf_total_rounds = 5, mcf_skill_pick_seconds = 25, mcf_pre_combat_seconds = 5\<rparr>,
     cfy_maps = \<lparr>mpc_tile_units = 50, mpc_objective_target_ms_by_map = [(lit ''prototype_arena'', 60000)],
       mpc_generation = \<lparr>gc_max_generation_attempts = 8, gc_protected_tile_buffer_radius_tiles = 2,
         gc_obstacle_edge_padding_tiles = 1, gc_wall_segment_lengths_tiles = [3, 5], gc_long_wall_percent = 40,
         gc_wall_candidate_skip_percent = 20, gc_wall_min_spacing_manhattan_tiles = 4,
         gc_pillar_candidate_skip_percent = 25, gc_pillar_min_spacing_manhattan_tiles = 3,
         gc_styles = [\<lparr>gs_shrub_clusters = 2, gs_shrub_radius_tiles = 1, gs_shrub_soft_radius_tiles = 2,
           gs_shrub_fill_percent = 70, gs_wall_segments = 2, gs_isolated_pillars = 3\<rparr>]\<rparr>\<rparr>,
     cfy_simulation = \<lparr>sc_combat_frame_ms = 50, sc_player_radius_units = 28, sc_vision_radius_units = 450,
       sc_spawn_spacing_units = 120, sc_default_aim_x_units = 120, sc_default_aim_y_units = 0,
       sc_mana_regen_per_second = 12, sc_global_projectile_speed_bonus_bps = 0, sc_teleport_resolution_steps = 48,
       sc_movement_audio_step_interval_ms = 300, sc_movement_audio_radius_units = 300,
       sc_stealth_audio_radius_units = 120, sc_brush_movement_audible_percent = 50,
       sc_passive_bonus_caps = \<lparr>pbc_player_speed_bps = 9000, pbc_projectile_speed_bps = 9000,
         pbc_cooldown_bps = 9000, pbc_cast_time_bps = 9000\<rparr>,
       sc_movement_modifier_caps = \<lparr>mmc_chill_bps = 8000, mmc_haste_bps = 6000, mmc_status_total_min_bps = - 8000,
         mmc_status_total_max_bps = 6000, mmc_overall_total_min_bps = - 8000, mmc_overall_total_max_bps = 9000,
         mmc_effective_scale_min_bps = 2000, mmc_effective_scale_max_bps = 16000\<rparr>,
       sc_crowd_control_dr = \<lparr>ccd_window_ms = 15000, ccd_stages_bps = [10000, 5000, 2500, 0]\<rparr>,
       sc_training_dummy = \<lparr>tdc_base_hit_points = 100, tdc_health_multiplier = 100, tdc_execute_threshold_bps = 500\<rparr>\<rparr>,
     cfy_classes = [(lit ''Mage'', \<lparr>cp_hit_points = 100, cp_max_mana = 100, cp_move_speed_units_per_second = 260\<rparr>)]\<rparr>"

lemma sample_document_parses:
  "\<exists>c. parse_configuration_yaml (\<lambda>_. Inr sample_document) source yaml = Inr c \<and> bt_contains (gcf_classes c) (Known Mage)"
proof -
  have "parse_lobby_configuration source (cfy_lobby sample_document) = Inr (cfy_lobby sample_document)"
    "parse_match_configuration source (cfy_match_flow sample_document) = Inr (cfy_match_flow sample_document)"
    "parse_maps_configuration source (cfy_maps sample_document) = Inr (cfy_maps sample_document)"
    "parse_simulation_configuration source (cfy_simulation sample_document) = Inr (cfy_simulation sample_document)"
    by (simp_all add: parse_lobby_iff parse_match_iff parse_maps_iff parse_simulation_iff sample_document_def
        valid_match_configuration_def MAX_ROUNDS_def valid_maps_configuration_def valid_generation_def
        valid_style_def valid_simulation_def valid_passive_caps_def valid_movement_caps_def valid_dr_def
        valid_dummy_def text_eval)
  moreover have "\<exists>classes. parse_class_profiles source (cfy_classes sample_document) = Inr classes \<and> bt_contains classes (Known Mage)"
    using known_as_str_parses [of Mage]
    by (simp add: parse_class_profiles_def sample_document_def require_positive_def bt_contains_def)
  ultimately show ?thesis by (auto simp: parse_configuration_yaml_def)
qed

lemma parse_configuration_valid_example:
  "\<exists>c. parse_configuration_yaml (\<lambda>_. Inr sample_document) [] [] = Inr c \<and> valid_configuration c \<and>
     gcf_simulation c = cfy_simulation sample_document"
proof -
  obtain c where c: "parse_configuration_yaml (\<lambda>_. Inr sample_document) [] [] = Inr c"
    using sample_document_parses by blast
  from parse_configuration_valid [OF c] c show ?thesis by auto
qed

end
