(* ===== verification/Content_Maps.thy ===== *)
theory Content_Maps
  imports Content_Types Sim_Geometry
begin

text \<open>
  ASCII maps (\<open>maps.rs\<close>): the rows of a text file, one glyph per tile, become the masks of the
  footprint and of the objective, the anchors of the teams, the obstacles and the features, each
  at the centre of its tile in world units. \<open>map_shows m g\<close> says what a map definition holds in
  terms of the glyph \<open>g r c\<close> of each tile; the parser yields a map that shows the text.
\<close>

section \<open>Lines\<close>

fun split_on :: "rchar \<Rightarrow> rstring \<Rightarrow> rstring list" where
  "split_on sep [] = [[]]"
| "split_on sep (c # s) =
     (if c = sep then [] # split_on sep s
      else case split_on sep s of [] \<Rightarrow> [[c]] | piece # pieces \<Rightarrow> (c # piece) # pieces)"

definition strip_cr :: "rstring \<Rightarrow> rstring" where
  "strip_cr s = (if s \<noteq> [] \<and> last s = 13 then butlast s else s)"

text \<open>\<open>str::lines\<close>: pieces that end with a newline lose one carriage return, an empty last piece is dropped.\<close>

definition lines_of :: "rstring \<Rightarrow> rstring list" where
  "lines_of s =
     (let pieces = split_on 10 s in
      map strip_cr (butlast pieces) @ (if last pieces = [] then [] else [last pieces]))"

definition trim_end :: "rstring \<Rightarrow> rstring" where
  "trim_end s = rev (dropWhile is_whitespace (rev s))"

definition collect_map_rows :: "rstring \<Rightarrow> rstring \<Rightarrow> content_error + rstring list" where
  "collect_map_rows source ascii_map =
     (let rows = filter (\<lambda>line. line \<noteq> []) (map trim_end (lines_of ascii_map)) in
      if rows = [] then invalid source (lit ''map must contain at least one non-empty row'') else Inr rows)"

section \<open>Dimensions\<close>

text \<open>Widths and heights in tiles and units. The conversions to \<open>u16\<close> of values up to 128 cannot fail.\<close>

definition checked_mul_u16 :: "u16 \<Rightarrow> u16 \<Rightarrow> u16 option" where
  "checked_mul_u16 a b = (if unat a * unat b \<le> U16_MAX then Some (a * b) else None)"

definition validate_map_dimensions ::
  "rstring \<Rightarrow> rstring list \<Rightarrow> u16 \<Rightarrow> content_error + (u16 \<times> u16 \<times> u16 \<times> u16)" where
  "validate_map_dimensions source rows tile_units =
     (let width = fold max (map length rows) 0 in
      if tile_units = 0 then invalid source (lit ''map tile_units must be greater than zero'')
      else if width = 0 \<or> width > MAX_MAP_DIMENSION_TILES
      then invalid source (lit ''map width '' @ show_nat width @ lit '' is outside the supported range 1..='' @
        show_nat MAX_MAP_DIMENSION_TILES)
      else if length rows > MAX_MAP_DIMENSION_TILES
      then invalid source (lit ''map height '' @ show_nat (length rows) @ lit '' is outside the supported range 1..='' @
        show_nat MAX_MAP_DIMENSION_TILES)
      else
        let width_tiles = of_nat width; height_tiles = of_nat (length rows) in
        case checked_mul_u16 width_tiles tile_units of
          None \<Rightarrow> invalid source (lit ''map width in world units overflowed u16'')
        | Some width_units \<Rightarrow>
            (case checked_mul_u16 height_tiles tile_units of
               None \<Rightarrow> invalid source (lit ''map height in world units overflowed u16'')
             | Some height_units \<Rightarrow> Inr (width_tiles, height_tiles, width_units, height_units)))"

section \<open>Tiles\<close>

definition blank_map_mask :: "u16 \<Rightarrow> u16 \<Rightarrow> u8 list" where
  "blank_map_mask width_tiles height_tiles = replicate ((unat width_tiles * unat height_tiles + 7) div 8) 0"

definition set_map_mask_bit :: "u8 list \<Rightarrow> u16 \<Rightarrow> nat \<Rightarrow> nat \<Rightarrow> u8 list" where
  "set_map_mask_bit bits width_tiles row_index column_index =
     (let index = row_index * unat width_tiles + column_index; byte_index = index div 8 in
      if byte_index < length bits
      then bits[byte_index := bits ! byte_index OR push_bit (index mod 8) 1] else bits)"

text \<open>
  The source computes with \<open>i32\<close>; the dimensions have been checked, so the products are at most
  \<open>65535\<close> and nothing wraps. Integer division of the source truncates.
\<close>

definition map_cell_center :: "u16 \<Rightarrow> u16 \<Rightarrow> u16 \<Rightarrow> nat \<Rightarrow> nat \<Rightarrow> content_error + (i16 \<times> i16)" where
  "map_cell_center width_tiles height_tiles tile_units column row =
     (let origin_x = - (uint width_tiles * uint tile_units div 2);
          origin_y = - (uint height_tiles * uint tile_units div 2);
          center_x = origin_x + int column * uint tile_units + uint tile_units div 2;
          center_y = origin_y + int row * uint tile_units + uint tile_units div 2 in
      if \<not> (- 32768 \<le> center_x \<and> center_x \<le> 32767)
      then invalid (lit ''map'') (lit ''map column '' @ show_nat column @ lit '' overflowed i16 coordinates'')
      else if \<not> (- 32768 \<le> center_y \<and> center_y \<le> 32767)
      then invalid (lit ''map'') (lit ''map row '' @ show_nat row @ lit '' overflowed i16 coordinates'')
      else Inr (of_int center_x, of_int center_y))"

definition map_obstacle :: "arena_map_obstacle_kind \<Rightarrow> i16 \<Rightarrow> i16 \<Rightarrow> u16 \<Rightarrow> arena_map_obstacle" where
  "map_obstacle kind center_x center_y tile_units =
     \<lparr>amo_kind = kind, amo_center_x = center_x, amo_center_y = center_y,
      amo_half_width = tile_units div 2, amo_half_height = tile_units div 2\<rparr>"

record map_layout =
  ml_footprint :: "u8 list"
  ml_objective :: "u8 list"
  ml_team_a_anchors :: "(i16 \<times> i16) list"
  ml_team_b_anchors :: "(i16 \<times> i16) list"
  ml_obstacles :: "arena_map_obstacle list"
  ml_features :: "arena_map_feature list"

text \<open>Glyphs are code points: space 32, hash 35, plus 43, dot 46, A 65, B 66, D 68, X 88, d 100.\<close>

definition parse_map_glyph ::
  "rstring \<Rightarrow> rchar \<Rightarrow> nat \<Rightarrow> nat \<Rightarrow> u16 \<Rightarrow> u16 \<Rightarrow> i16 \<Rightarrow> i16 \<Rightarrow> map_layout \<Rightarrow> content_error + map_layout" where
  "parse_map_glyph source glyph row_index column_index width_tiles tile_units center_x center_y l =
     (let floor = l\<lparr>ml_footprint := set_map_mask_bit (ml_footprint l) width_tiles row_index column_index\<rparr> in
      if glyph = 32 then Inr l
      else if glyph = 46 then Inr floor
      else if glyph = 65 then Inr (floor\<lparr>ml_team_a_anchors := ml_team_a_anchors l @ [(center_x, center_y)]\<rparr>)
      else if glyph = 66 then Inr (floor\<lparr>ml_team_b_anchors := ml_team_b_anchors l @ [(center_x, center_y)]\<rparr>)
      else if glyph = 88 then
        Inr (floor\<lparr>ml_objective := set_map_mask_bit (ml_objective l) width_tiles row_index column_index\<rparr>)
      else if glyph = 35 then
        Inr (floor\<lparr>ml_obstacles := ml_obstacles l @ [map_obstacle MapPillar center_x center_y tile_units]\<rparr>)
      else if glyph = 43 then
        Inr (floor\<lparr>ml_obstacles := ml_obstacles l @ [map_obstacle MapShrub center_x center_y tile_units]\<rparr>)
      else if glyph = 100 then
        Inr (floor\<lparr>ml_features := ml_features l @
          [\<lparr>amf_kind = MapTrainingDummyResetFull, amf_center_x = center_x, amf_center_y = center_y\<rparr>]\<rparr>)
      else if glyph = 68 then
        Inr (floor\<lparr>ml_features := ml_features l @
          [\<lparr>amf_kind = MapTrainingDummyExecute, amf_center_x = center_x, amf_center_y = center_y\<rparr>]\<rparr>)
      else invalid source (lit ''unsupported map glyph '' @ quoted [glyph] @ lit '' at row '' @
        show_nat (row_index + 1) @ lit '', column '' @ show_nat (column_index + 1)))"

definition glyph_at :: "rstring list \<Rightarrow> nat \<Rightarrow> nat \<Rightarrow> rchar" where
  "glyph_at rows row column = (if column < length (rows ! row) then rows ! row ! column else 32)"

text \<open>The tiles in the order of the two loops: row by row.\<close>

definition map_tiles :: "nat \<Rightarrow> nat \<Rightarrow> (nat \<times> nat) list" where
  "map_tiles width height = List.product [0..<height] [0..<width]"

fun parse_map_tiles ::
  "rstring \<Rightarrow> rstring list \<Rightarrow> u16 \<Rightarrow> u16 \<Rightarrow> u16 \<Rightarrow> map_layout \<Rightarrow> (nat \<times> nat) list \<Rightarrow> content_error + map_layout" where
  "parse_map_tiles source rows width_tiles height_tiles tile_units l [] = Inr l"
| "parse_map_tiles source rows width_tiles height_tiles tile_units l ((row, column) # tiles) =
     and_then (map_cell_center width_tiles height_tiles tile_units column row) (\<lambda>(center_x, center_y).
     and_then (parse_map_glyph source (glyph_at rows row column) row column width_tiles tile_units center_x center_y l)
       (\<lambda>l'. parse_map_tiles source rows width_tiles height_tiles tile_units l' tiles))"

definition parse_map_layout ::
  "rstring \<Rightarrow> rstring list \<Rightarrow> u16 \<Rightarrow> u16 \<Rightarrow> u16 \<Rightarrow> content_error + map_layout" where
  "parse_map_layout source rows width_tiles height_tiles tile_units =
     (let blank = blank_map_mask width_tiles height_tiles in
      and_then (parse_map_tiles source rows width_tiles height_tiles tile_units
        \<lparr>ml_footprint = blank, ml_objective = blank, ml_team_a_anchors = [], ml_team_b_anchors = [],
         ml_obstacles = [], ml_features = []\<rparr> (map_tiles (unat width_tiles) (length rows))) (\<lambda>l.
      if ml_team_a_anchors l = [] then invalid source (lit ''map must contain at least one Team A anchor '' @ quoted (lit ''A''))
      else if ml_team_b_anchors l = [] then invalid source (lit ''map must contain at least one Team B anchor '' @ quoted (lit ''B''))
      else if length (ml_team_a_anchors l) > 3 then invalid source (lit ''map must contain at most three Team A anchors'')
      else if length (ml_team_b_anchors l) > 3 then invalid source (lit ''map must contain at most three Team B anchors'')
      else Inr l))"

section \<open>Map identifiers\<close>

text \<open>\<open>Path::file_stem\<close> on a Unix path: the last component, without what follows its last dot.\<close>

definition file_name :: "rstring \<Rightarrow> rstring option" where
  "file_name path =
     (let components = filter (\<lambda>c. c \<noteq> [] \<and> c \<noteq> [46]) (split_on 47 path) in
      if components = [] \<or> last components = [46, 46] then None else Some (last components))"

definition file_stem :: "rstring \<Rightarrow> rstring option" where
  "file_stem path =
     map_option (\<lambda>name.
       let stem = rev (tl (dropWhile (\<lambda>c. c \<noteq> 46) (rev name))) in
       if 46 \<notin> set name \<or> stem = [] then name else stem) (file_name path)"

definition map_identifier :: "rstring \<Rightarrow> rstring" where
  "map_identifier source = (case file_stem source of Some stem \<Rightarrow> stem | None \<Rightarrow> lit ''arena'')"

definition parse_ascii_map :: "rstring \<Rightarrow> rstring \<Rightarrow> u16 \<Rightarrow> content_error + arena_map_definition" where
  "parse_ascii_map source ascii_map tile_units =
     and_then (collect_map_rows source ascii_map) (\<lambda>rows.
     and_then (validate_map_dimensions source rows tile_units) (\<lambda>(width_tiles, height_tiles, width_units, height_units).
     and_then (parse_map_layout source rows width_tiles height_tiles tile_units) (\<lambda>l.
       Inr \<lparr>am_map_id = map_identifier source, am_width_tiles = width_tiles, am_height_tiles = height_tiles,
         am_tile_units = tile_units, am_width_units = width_units, am_height_units = height_units,
         am_objective_target_ms = 0, am_footprint_mask = ml_footprint l, am_objective_mask = ml_objective l,
         am_team_a_anchors = ml_team_a_anchors l, am_team_b_anchors = ml_team_b_anchors l,
         am_obstacles = ml_obstacles l, am_features = ml_features l\<rparr>)))"

section \<open>The map registry\<close>

record map_objective_settings_yaml =
  mos_id :: rstring
  mos_objective_target_ms :: u32

fun parse_map_registry_entries ::
  "rstring \<Rightarrow> (rstring, u32) btree_map \<Rightarrow> map_objective_settings_yaml list \<Rightarrow> content_error + (rstring, u32) btree_map" where
  "parse_map_registry_entries source settings [] = Inr settings"
| "parse_map_registry_entries source settings (entry # entries) =
     (let map_id = trim (mos_id entry) in
      if map_id = [] then invalid source (lit ''map registry entries must have a non-empty id'')
      else if mos_objective_target_ms entry = 0
      then invalid source (lit ''map '' @ quoted map_id @ lit '' objective_target_ms must be greater than zero'')
      else if bt_contains settings map_id
      then invalid source (lit ''map registry contains duplicate entry '' @ quoted map_id)
      else parse_map_registry_entries source (bt_insert map_id (mos_objective_target_ms entry) settings) entries)"

definition parse_map_registry_yaml ::
  "(rstring \<Rightarrow> rstring + map_objective_settings_yaml list) \<Rightarrow> rstring \<Rightarrow> rstring \<Rightarrow>
   content_error + (rstring, u32) btree_map" where
  "parse_map_registry_yaml from_yaml source yaml =
     and_then (map_err (ContentParse source) (from_yaml yaml)) (\<lambda>entries.
       if entries = [] then invalid source (lit ''map registry must contain at least one map entry'')
       else parse_map_registry_entries source [] entries)"

section \<open>Masks\<close>

lemma length_set_map_mask_bit [simp]: "length (set_map_mask_bit bits w r c) = length bits"
  by (simp add: set_map_mask_bit_def Let_def)

lemma mask_has_tile_iff: "map_mask_has_tile bits i \<longleftrightarrow> i div 8 < length bits \<and> bit (bits ! (i div 8)) (i mod 8)"
  by (simp add: map_mask_has_tile_def and_exp_eq_0_iff_not_bit)

lemma mask_has_tile_set:
  assumes "r * unat w + c < 8 * length bits"
  shows "map_mask_has_tile (set_map_mask_bit bits w r c) i \<longleftrightarrow> i = r * unat w + c \<or> map_mask_has_tile bits i"
proof -
  let ?j = "r * unat w + c"
  have j: "?j div 8 < length bits" using assms by (simp add: div_less_iff_less_mult mult.commute)
  have "i = ?j \<longleftrightarrow> i div 8 = ?j div 8 \<and> i mod 8 = ?j mod 8"
    by (metis div_mult_mod_eq)
  with j show ?thesis
    by (auto simp: mask_has_tile_iff set_map_mask_bit_def Let_def nth_list_update bit_simps)
qed

lemma blank_mask [simp]: "\<not> map_mask_has_tile (blank_map_mask w h) i"
  by (simp add: mask_has_tile_iff blank_map_mask_def)

lemma length_blank_mask: "unat w * unat h \<le> 8 * length (blank_map_mask w h)"
  by (simp add: blank_map_mask_def)

text \<open>Setting the bits of a list of tiles.\<close>

definition set_tiles :: "u16 \<Rightarrow> (nat \<times> nat) list \<Rightarrow> u8 list \<Rightarrow> u8 list" where
  "set_tiles w tiles bits = fold (\<lambda>(r, c) bits. set_map_mask_bit bits w r c) tiles bits"

lemma set_tiles_Cons: "set_tiles w ((r, c) # tiles) bits = set_tiles w tiles (set_map_mask_bit bits w r c)"
  by (simp add: set_tiles_def)

lemma length_set_tiles [simp]: "length (set_tiles w tiles bits) = length bits"
  by (induction tiles arbitrary: bits) (auto simp: set_tiles_def)

lemma set_tiles_has:
  "\<forall>(r, c) \<in> set tiles. r * unat w + c < 8 * length bits \<Longrightarrow>
     map_mask_has_tile (set_tiles w tiles bits) i \<longleftrightarrow>
       (\<exists>(r, c) \<in> set tiles. i = r * unat w + c) \<or> map_mask_has_tile bits i"
proof (induction tiles arbitrary: bits)
  case (Cons t tiles)
  obtain r c where t: "t = (r, c)" by fastforce
  with Cons show ?case by (auto simp: set_tiles_Cons mask_has_tile_set)
qed (simp add: set_tiles_def)

section \<open>The layout of a text\<close>

definition supported_glyph :: "rchar \<Rightarrow> bool" where
  "supported_glyph g \<longleftrightarrow> g \<in> {32, 46, 65, 66, 88, 35, 43, 100, 68}"

definition tile_center :: "u16 \<Rightarrow> u16 \<Rightarrow> u16 \<Rightarrow> nat \<times> nat \<Rightarrow> i16 \<times> i16" where
  "tile_center w h tu rc =
     (of_int (- (uint w * uint tu div 2) + int (snd rc) * uint tu + uint tu div 2),
      of_int (- (uint h * uint tu div 2) + int (fst rc) * uint tu + uint tu div 2))"

definition tiles_with :: "(nat \<Rightarrow> nat \<Rightarrow> rchar) \<Rightarrow> rchar set \<Rightarrow> (nat \<times> nat) list \<Rightarrow> (nat \<times> nat) list" where
  "tiles_with g glyphs tiles = filter (\<lambda>(r, c). g r c \<in> glyphs) tiles"

definition obstacle_at :: "(nat \<Rightarrow> nat \<Rightarrow> rchar) \<Rightarrow> (nat \<times> nat \<Rightarrow> i16 \<times> i16) \<Rightarrow> u16 \<Rightarrow> nat \<times> nat \<Rightarrow> arena_map_obstacle" where
  "obstacle_at g center tu rc = map_obstacle (if g (fst rc) (snd rc) = 35 then MapPillar else MapShrub)
     (fst (center rc)) (snd (center rc)) tu"

definition feature_at :: "(nat \<Rightarrow> nat \<Rightarrow> rchar) \<Rightarrow> (nat \<times> nat \<Rightarrow> i16 \<times> i16) \<Rightarrow> nat \<times> nat \<Rightarrow> arena_map_feature" where
  "feature_at g center rc =
     \<lparr>amf_kind = (if g (fst rc) (snd rc) = 100 then MapTrainingDummyResetFull else MapTrainingDummyExecute),
      amf_center_x = fst (center rc), amf_center_y = snd (center rc)\<rparr>"

definition add_tiles ::
  "(nat \<Rightarrow> nat \<Rightarrow> rchar) \<Rightarrow> (nat \<times> nat \<Rightarrow> i16 \<times> i16) \<Rightarrow> u16 \<Rightarrow> u16 \<Rightarrow> (nat \<times> nat) list \<Rightarrow> map_layout \<Rightarrow> map_layout" where
  "add_tiles g center w tu tiles l =
     \<lparr>ml_footprint = set_tiles w (filter (\<lambda>(r, c). g r c \<noteq> 32) tiles) (ml_footprint l),
      ml_objective = set_tiles w (tiles_with g {88} tiles) (ml_objective l),
      ml_team_a_anchors = ml_team_a_anchors l @ map center (tiles_with g {65} tiles),
      ml_team_b_anchors = ml_team_b_anchors l @ map center (tiles_with g {66} tiles),
      ml_obstacles = ml_obstacles l @ map (obstacle_at g center tu) (tiles_with g {35, 43} tiles),
      ml_features = ml_features l @ map (feature_at g center) (tiles_with g {100, 68} tiles)\<rparr>"

lemma add_tiles_Nil: "add_tiles g center w tu [] l = l"
  by (simp add: add_tiles_def tiles_with_def set_tiles_def)

lemma parse_map_glyph_iff:
  "parse_map_glyph source (g r c) r c w tu (fst (center (r, c))) (snd (center (r, c))) l = Inr l' \<longleftrightarrow>
     supported_glyph (g r c) \<and> l' = add_tiles g center w tu [(r, c)] l"
  by (auto simp: parse_map_glyph_def supported_glyph_def add_tiles_def tiles_with_def set_tiles_def
      obstacle_at_def feature_at_def Let_def)

lemma add_tiles_Cons: "add_tiles g center w tu tiles (add_tiles g center w tu [rc] l) = add_tiles g center w tu (rc # tiles) l"
  by (cases rc) (simp add: add_tiles_def tiles_with_def set_tiles_Cons [symmetric] set_tiles_def)

definition center_fits :: "u16 \<Rightarrow> u16 \<Rightarrow> u16 \<Rightarrow> nat \<times> nat \<Rightarrow> bool" where
  "center_fits w h tu rc \<longleftrightarrow>
     (let x = - (uint w * uint tu div 2) + int (snd rc) * uint tu + uint tu div 2;
          y = - (uint h * uint tu div 2) + int (fst rc) * uint tu + uint tu div 2 in
      - 32768 \<le> x \<and> x \<le> 32767 \<and> - 32768 \<le> y \<and> y \<le> 32767)"

lemma map_cell_center_iff:
  "map_cell_center w h tu c r = Inr p \<longleftrightarrow> center_fits w h tu (r, c) \<and> p = tile_center w h tu (r, c)"
  by (auto simp: map_cell_center_def center_fits_def tile_center_def Let_def)

lemma parse_map_tiles_iff:
  "parse_map_tiles source rows w h tu l tiles = Inr l' \<longleftrightarrow>
     (\<forall>(r, c) \<in> set tiles. supported_glyph (glyph_at rows r c) \<and> center_fits w h tu (r, c)) \<and>
     l' = add_tiles (glyph_at rows) (tile_center w h tu) w tu tiles l"
proof (induction tiles arbitrary: l)
  case (Cons rc tiles)
  obtain r c where rc: "rc = (r, c)" by fastforce
  have "parse_map_tiles source rows w h tu l (rc # tiles) = Inr l' \<longleftrightarrow>
      center_fits w h tu (r, c) \<and> (\<exists>l1. parse_map_glyph source (glyph_at rows r c) r c w tu
        (fst (tile_center w h tu (r, c))) (snd (tile_center w h tu (r, c))) l = Inr l1 \<and>
        parse_map_tiles source rows w h tu l1 tiles = Inr l')"
    by (auto simp: rc and_then_eq_Inr map_cell_center_iff case_prod_beta)
  then show ?case
    by (auto simp: parse_map_glyph_iff Cons.IH add_tiles_Cons rc)
qed (auto simp: add_tiles_Nil)

section \<open>What a parsed map shows\<close>

definition wf_map_dims :: "arena_map_definition \<Rightarrow> bool" where
  "wf_map_dims m \<longleftrightarrow> 1 \<le> unat (am_width_tiles m) \<and> unat (am_width_tiles m) \<le> MAX_MAP_DIMENSION_TILES \<and>
     1 \<le> unat (am_height_tiles m) \<and> unat (am_height_tiles m) \<le> MAX_MAP_DIMENSION_TILES \<and> am_tile_units m \<noteq> 0 \<and>
     unat (am_width_units m) = unat (am_width_tiles m) * unat (am_tile_units m) \<and>
     unat (am_height_units m) = unat (am_height_tiles m) * unat (am_tile_units m)"

definition tiles_of :: "arena_map_definition \<Rightarrow> (nat \<times> nat) list" where
  "tiles_of m = map_tiles (unat (am_width_tiles m)) (unat (am_height_tiles m))"

definition center_of :: "arena_map_definition \<Rightarrow> nat \<times> nat \<Rightarrow> i16 \<times> i16" where
  "center_of m = tile_center (am_width_tiles m) (am_height_tiles m) (am_tile_units m)"

definition map_shows :: "arena_map_definition \<Rightarrow> (nat \<Rightarrow> nat \<Rightarrow> rchar) \<Rightarrow> bool" where
  "map_shows m g \<longleftrightarrow> wf_map_dims m \<and> (\<forall>(r, c) \<in> set (tiles_of m). supported_glyph (g r c)) \<and>
     (let w = am_width_tiles m; blank = blank_map_mask w (am_height_tiles m); tiles = tiles_of m in
      am_footprint_mask m = set_tiles w (filter (\<lambda>(r, c). g r c \<noteq> 32) tiles) blank \<and>
      am_objective_mask m = set_tiles w (tiles_with g {88} tiles) blank \<and>
      am_team_a_anchors m = map (center_of m) (tiles_with g {65} tiles) \<and>
      am_team_b_anchors m = map (center_of m) (tiles_with g {66} tiles) \<and>
      am_obstacles m = map (obstacle_at g (center_of m) (am_tile_units m)) (tiles_with g {35, 43} tiles) \<and>
      am_features m = map (feature_at g (center_of m)) (tiles_with g {100, 68} tiles)) \<and>
     am_team_a_anchors m \<noteq> [] \<and> length (am_team_a_anchors m) \<le> 3 \<and>
     am_team_b_anchors m \<noteq> [] \<and> length (am_team_b_anchors m) \<le> 3"

text \<open>No row is empty and no column to the right is.\<close>

definition tight_grid :: "nat \<Rightarrow> nat \<Rightarrow> (nat \<Rightarrow> nat \<Rightarrow> rchar) \<Rightarrow> bool" where
  "tight_grid width height g \<longleftrightarrow> (\<forall>r < height. \<exists>c < width. g r c \<noteq> 32) \<and> (\<exists>r < height. g r (width - 1) \<noteq> 32)"

lemma set_map_tiles [simp]: "(r, c) \<in> set (map_tiles w h) \<longleftrightarrow> r < h \<and> c < w"
  by (simp add: map_tiles_def)

lemma fold_max: "fold max xs (n :: nat) = Max (set (n # xs))"
  by (simp only: Max.set_eq_fold)

lemma row_width: "row \<in> set rows \<Longrightarrow> length row \<le> fold max (map length rows) 0"
  by (simp add: fold_max)

lemma widest_row: "fold max (map length rows) 0 \<noteq> 0 \<Longrightarrow> \<exists>row \<in> set rows. length row = fold max (map length rows) 0"
proof -
  assume "fold max (map length rows) 0 \<noteq> 0"
  moreover have "fold max (map length rows) 0 \<in> set (0 # map length rows)"
    unfolding fold_max by (rule Max_in) simp_all
  ultimately show ?thesis by auto
qed

lemma checked_mul_u16_iff: "checked_mul_u16 a b = Some u \<longleftrightarrow> unat u = unat a * unat b"
proof -
  have "unat u \<le> 65535" using unsigned_less [of u, where 'a = nat] by simp
  moreover have "unat (a * b) = unat a * unat b" if "unat a * unat b \<le> 65535"
    using that by (simp add: unat_word_ariths)
  ultimately show ?thesis
    by (auto simp: checked_mul_u16_def U16_MAX_def word_unat_eq_iff)
qed

lemma validate_map_dimensions_iff:
  assumes "rows \<noteq> []"
  shows "validate_map_dimensions source rows tu = Inr (w, h, wu, hu) \<longleftrightarrow>
     tu \<noteq> 0 \<and> unat w = fold max (map length rows) 0 \<and> 1 \<le> unat w \<and> unat w \<le> MAX_MAP_DIMENSION_TILES \<and>
     unat h = length rows \<and> length rows \<le> MAX_MAP_DIMENSION_TILES \<and>
     unat wu = unat w * unat tu \<and> unat hu = unat h * unat tu"
proof -
  have "unat (of_nat n :: u16) = n" if "n \<le> 128" for n
    using that by (simp add: U16_MAX_def)
  moreover have "unat wu \<le> U16_MAX" "unat hu \<le> U16_MAX"
    using unsigned_less [of wu, where 'a = nat] unsigned_less [of hu, where 'a = nat] by (simp_all add: U16_MAX_def)
  moreover have "checked_mul_u16 a b = None \<longleftrightarrow> U16_MAX < unat a * unat b" for a b
    by (simp add: checked_mul_u16_def)
  ultimately show ?thesis
    by (auto simp: validate_map_dimensions_def Let_def MAX_MAP_DIMENSION_TILES_def checked_mul_u16_iff word_unat_eq_iff
        split: option.splits)
qed

lemma center_range:
  fixes w tu c :: int
  assumes "1 \<le> tu" "w * tu \<le> 65535" "0 \<le> c" "c < w"
  shows "- 32767 \<le> - (w * tu div 2) + c * tu" "- (w * tu div 2) + c * tu + 2 * (tu div 2) \<le> 32767"
proof -
  have "0 \<le> c * tu" using assms by simp
  then show "- 32767 \<le> - (w * tu div 2) + c * tu" using assms(2) by linarith
  obtain a b where ab: "a = w * tu" "b = c * tu" by blast
  have "c * tu + tu \<le> w * tu"
    using mult_right_mono [of "c + 1" w tu] assms by (simp add: algebra_simps)
  then have "b + tu \<le> a" "a \<le> 65535" "even tu \<longrightarrow> even a" using assms(2) ab by simp_all
  then have "- (a div 2) + b + 2 * (tu div 2) \<le> 32767" by presburger
  then show "- (w * tu div 2) + c * tu + 2 * (tu div 2) \<le> 32767" using ab by simp
qed

lemma sint_of_int_i16: "- 32768 \<le> i \<Longrightarrow> i \<le> 32767 \<Longrightarrow> sint (of_int i :: i16) = i"
  by (simp only: signed_of_int len_num0 len_bit0 len_of_numeral_defs) (simp add: signed_take_bit_int_eq_self)

lemma wf_dims_center:
  assumes m: "wf_map_dims m" and rc: "r < unat (am_height_tiles m)" "c < unat (am_width_tiles m)"
  shows "center_fits (am_width_tiles m) (am_height_tiles m) (am_tile_units m) (r, c)"
    "sint (fst (center_of m (r, c))) =
       - (uint (am_width_units m) div 2) + int c * uint (am_tile_units m) + uint (am_tile_units m) div 2"
    "sint (snd (center_of m (r, c))) =
       - (uint (am_height_units m) div 2) + int r * uint (am_tile_units m) + uint (am_tile_units m) div 2"
    "\<bar>sint (fst (center_of m (r, c)))\<bar> + uint (am_tile_units m) div 2 \<le> 32767"
    "\<bar>sint (snd (center_of m (r, c)))\<bar> + uint (am_tile_units m) div 2 \<le> 32767"
proof -
  let ?tu = "uint (am_tile_units m)"
  have units: "uint (am_width_units m) = uint (am_width_tiles m) * ?tu" "uint (am_height_units m) = uint (am_height_tiles m) * ?tu"
    using m unfolding uint_nat by (simp_all add: wf_map_dims_def)
  have "unat (am_tile_units m) \<noteq> 0" using m by (simp add: wf_map_dims_def unat_eq_0)
  then have "1 \<le> ?tu" unfolding uint_nat by linarith
  moreover have "uint (am_width_tiles m) * ?tu \<le> 65535" "uint (am_height_tiles m) * ?tu \<le> 65535"
    unfolding units [symmetric] using unsigned_less [of "am_width_units m", where 'a = int]
      unsigned_less [of "am_height_units m", where 'a = int] by simp_all
  moreover have "int c < uint (am_width_tiles m)" "int r < uint (am_height_tiles m)"
    using rc unfolding uint_nat by linarith+
  moreover have "0 \<le> ?tu div 2" by simp
  ultimately have
    range: "- 32767 \<le> - (uint (am_width_tiles m) * ?tu div 2) + int c * ?tu"
      "- (uint (am_width_tiles m) * ?tu div 2) + int c * ?tu + 2 * (?tu div 2) \<le> 32767"
      "- 32767 \<le> - (uint (am_height_tiles m) * ?tu div 2) + int r * ?tu"
      "- (uint (am_height_tiles m) * ?tu div 2) + int r * ?tu + 2 * (?tu div 2) \<le> 32767" "0 \<le> ?tu div 2"
    using center_range [of ?tu "uint (am_width_tiles m)" "int c"] center_range [of ?tu "uint (am_height_tiles m)" "int r"]
    by simp_all
  show "center_fits (am_width_tiles m) (am_height_tiles m) (am_tile_units m) (r, c)"
    unfolding center_fits_def Let_def fst_conv snd_conv using range by linarith
  show x: "sint (fst (center_of m (r, c))) =
       - (uint (am_width_units m) div 2) + int c * uint (am_tile_units m) + uint (am_tile_units m) div 2"
    unfolding center_of_def tile_center_def fst_conv snd_conv units by (rule sint_of_int_i16) (use range in linarith)+
  show y: "sint (snd (center_of m (r, c))) =
       - (uint (am_height_units m) div 2) + int r * uint (am_tile_units m) + uint (am_tile_units m) div 2"
    unfolding center_of_def tile_center_def fst_conv snd_conv units by (rule sint_of_int_i16) (use range in linarith)+
  show "\<bar>sint (fst (center_of m (r, c)))\<bar> + uint (am_tile_units m) div 2 \<le> 32767"
    unfolding x units using range(1,2,5) by linarith
  show "\<bar>sint (snd (center_of m (r, c)))\<bar> + uint (am_tile_units m) div 2 \<le> 32767"
    unfolding y units using range(3-5) by linarith
qed

lemma parse_map_layout_iff:
  "parse_map_layout source rows w h tu = Inr l \<longleftrightarrow>
     (let tiles = map_tiles (unat w) (length rows); blank = blank_map_mask w h in
      (\<forall>(r, c) \<in> set tiles. supported_glyph (glyph_at rows r c) \<and> center_fits w h tu (r, c)) \<and>
      l = add_tiles (glyph_at rows) (tile_center w h tu) w tu tiles
        \<lparr>ml_footprint = blank, ml_objective = blank, ml_team_a_anchors = [], ml_team_b_anchors = [],
         ml_obstacles = [], ml_features = []\<rparr> \<and>
      ml_team_a_anchors l \<noteq> [] \<and> length (ml_team_a_anchors l) \<le> 3 \<and>
      ml_team_b_anchors l \<noteq> [] \<and> length (ml_team_b_anchors l) \<le> 3)"
  unfolding parse_map_layout_def Let_def and_then_eq_Inr parse_map_tiles_iff by (auto split: if_splits)

definition rows_of :: "rstring \<Rightarrow> rstring list" where
  "rows_of ascii_map = filter (\<lambda>line. line \<noteq> []) (map trim_end (lines_of ascii_map))"

text \<open>A parsed map shows the glyphs of its text; conversely a text whose glyphs a map shows parses to it.\<close>

lemma parse_ascii_map_parts:
  assumes "rows_of ascii_map \<noteq> []"
  shows "parse_ascii_map source ascii_map tu = Inr m \<longleftrightarrow>
     validate_map_dimensions source (rows_of ascii_map) tu =
       Inr (am_width_tiles m, am_height_tiles m, am_width_units m, am_height_units m) \<and>
     parse_map_layout source (rows_of ascii_map) (am_width_tiles m) (am_height_tiles m) tu =
       Inr \<lparr>ml_footprint = am_footprint_mask m, ml_objective = am_objective_mask m,
         ml_team_a_anchors = am_team_a_anchors m, ml_team_b_anchors = am_team_b_anchors m,
         ml_obstacles = am_obstacles m, ml_features = am_features m\<rparr> \<and>
     am_tile_units m = tu \<and> am_map_id m = map_identifier source \<and> am_objective_target_ms m = 0"
proof -
  have rows: "collect_map_rows source ascii_map = Inr (rows_of ascii_map)"
    using assms by (simp add: collect_map_rows_def rows_of_def Let_def)
  show ?thesis (is "?L \<longleftrightarrow> ?R")
  proof
    assume ?L
    then obtain w h wu hu l where d: "validate_map_dimensions source (rows_of ascii_map) tu = Inr (w, h, wu, hu)"
      and l: "parse_map_layout source (rows_of ascii_map) w h tu = Inr l"
      and m: "m = \<lparr>am_map_id = map_identifier source, am_width_tiles = w, am_height_tiles = h,
         am_tile_units = tu, am_width_units = wu, am_height_units = hu,
         am_objective_target_ms = 0, am_footprint_mask = ml_footprint l, am_objective_mask = ml_objective l,
         am_team_a_anchors = ml_team_a_anchors l, am_team_b_anchors = ml_team_b_anchors l,
         am_obstacles = ml_obstacles l, am_features = ml_features l\<rparr>"
      by (auto simp: parse_ascii_map_def rows and_then_eq_Inr)
    from d l show ?R by (cases l) (simp add: m)
  next
    assume ?R
    then show ?L by (cases m) (simp add: parse_ascii_map_def rows)
  qed
qed

lemma parse_ascii_map_iff:
  "parse_ascii_map source ascii_map tu = Inr m \<longleftrightarrow>
     rows_of ascii_map \<noteq> [] \<and> unat (am_width_tiles m) = fold max (map length (rows_of ascii_map)) 0 \<and>
     unat (am_height_tiles m) = length (rows_of ascii_map) \<and> am_tile_units m = tu \<and>
     am_map_id m = map_identifier source \<and> am_objective_target_ms m = 0 \<and> map_shows m (glyph_at (rows_of ascii_map))"
proof (cases "rows_of ascii_map = []")
  case True
  then show ?thesis by (simp add: parse_ascii_map_def collect_map_rows_def rows_of_def Let_def)
next
  case False
  then have "1 \<le> length (rows_of ascii_map)" by (simp add: Suc_le_eq)
  with False show ?thesis
    unfolding parse_ascii_map_parts [OF False] validate_map_dimensions_iff [OF False]
    by (auto simp: parse_map_layout_iff map_shows_def wf_map_dims_def add_tiles_def tiles_of_def center_of_def
        Let_def wf_dims_center(1) [unfolded wf_map_dims_def])
qed

lemma tile_index_inj:
  assumes "c < w" "c' < w" "r * w + c = r' * w + (c' :: nat)"
  shows "r = r' \<and> c = c'"
proof -
  have "(r * w + c) div w = r" "(r' * w + c') div w = r'"
    using assms(1,2) by auto
  with assms(3) show ?thesis by auto
qed

lemma tile_index_bound: "r < h \<Longrightarrow> c < w \<Longrightarrow> r * w + c < w * (h :: nat)"
proof -
  assume "r < h" "c < w"
  then have "r * w + c < Suc r * w" by simp
  also have "\<dots> \<le> h * w" using \<open>r < h\<close> by (intro mult_right_mono) auto
  finally show ?thesis by (simp add: mult.commute)
qed

lemma mask_of_tiles:
  assumes "r < unat h" "c < unat w"
  shows "map_mask_has_tile (set_tiles w (filter (\<lambda>(r, c). P r c) (map_tiles (unat w) (unat h))) (blank_map_mask w h))
     (r * unat w + c) \<longleftrightarrow> P r c"
proof -
  have "\<forall>(r, c) \<in> set (filter (\<lambda>(r, c). P r c) (map_tiles (unat w) (unat h))). r * unat w + c < 8 * length (blank_map_mask w h)"
    using length_blank_mask [of w h] by (auto intro: less_le_trans [OF tile_index_bound])
  from set_tiles_has [OF this] assms show ?thesis by (auto dest: tile_index_inj)
qed

lemma map_shows_masks:
  assumes "map_shows m g" "r < unat (am_height_tiles m)" "c < unat (am_width_tiles m)"
  shows "map_mask_has_tile (am_footprint_mask m) (r * unat (am_width_tiles m) + c) \<longleftrightarrow> g r c \<noteq> 32"
    "map_mask_has_tile (am_objective_mask m) (r * unat (am_width_tiles m) + c) \<longleftrightarrow> g r c = 88"
  using assms by (simp_all add: map_shows_def Let_def tiles_of_def tiles_with_def mask_of_tiles)

lemma mem_tiles_with: "(r, c) \<in> set (tiles_with g G (tiles_of m)) \<longleftrightarrow>
     r < unat (am_height_tiles m) \<and> c < unat (am_width_tiles m) \<and> g r c \<in> G"
  by (auto simp: tiles_with_def tiles_of_def)

definition obstacle_within :: "arena_map_obstacle \<Rightarrow> bool" where
  "obstacle_within ob \<longleftrightarrow> \<bar>sint (amo_center_x ob)\<bar> + uint (amo_half_width ob) \<le> 32767 \<and>
     \<bar>sint (amo_center_y ob)\<bar> + uint (amo_half_height ob) \<le> 32767"

lemma map_shows_obstacles:
  assumes "map_shows m g"
  shows "list_all obstacle_within (am_obstacles m)"
proof -
  have dims: "wf_map_dims m" using assms by (simp add: map_shows_def)
  have "obstacle_within (obstacle_at g (center_of m) (am_tile_units m) (r, c))"
    if "r < unat (am_height_tiles m)" "c < unat (am_width_tiles m)" for r c
    using wf_dims_center(4,5) [OF dims that] by (simp add: obstacle_within_def obstacle_at_def map_obstacle_def uint_div)
  moreover have "am_obstacles m = map (obstacle_at g (center_of m) (am_tile_units m)) (tiles_with g {35, 43} (tiles_of m))"
    using assms by (simp add: map_shows_def Let_def)
  ultimately show ?thesis
    by (auto simp: list_all_iff mem_tiles_with simp del: split_paired_All)
qed

text \<open>C21: a parsed map is its text: tile by tile the footprint holds the glyphs other than a space and the objective the
  glyphs X, the anchors, obstacles and features are those of the glyphs, row by row, at the centres of their tiles,
  each team has one to three anchors, and the rectangle of an obstacle stays within \<open>i16\<close>.\<close>

theorem parse_ascii_map_shows:
  assumes "parse_ascii_map source ascii_map tile_units = Inr m"
  shows "map_shows m (glyph_at (rows_of ascii_map)) \<and>
     (\<forall>r < unat (am_height_tiles m). \<forall>c < unat (am_width_tiles m).
        (map_mask_has_tile (am_footprint_mask m) (r * unat (am_width_tiles m) + c) \<longleftrightarrow> glyph_at (rows_of ascii_map) r c \<noteq> 32) \<and>
        (map_mask_has_tile (am_objective_mask m) (r * unat (am_width_tiles m) + c) \<longleftrightarrow> glyph_at (rows_of ascii_map) r c = 88)) \<and>
     list_all obstacle_within (am_obstacles m)"
proof -
  have sh: "map_shows m (glyph_at (rows_of ascii_map))"
    using assms by (simp add: parse_ascii_map_iff)
  then show ?thesis using map_shows_masks [OF sh] map_shows_obstacles [OF sh] by blast
qed

text \<open>Two rows, \<open>A X B\<close> and \<open>. # .\<close> with a carriage return.\<close>

definition sample_map_text :: rstring where
  "sample_map_text = [65, 88, 66, 13, 10, 46, 35, 46, 10]"

lemma sample_map_parses:
  "\<exists>m. parse_ascii_map (lit ''maps/arena.txt'') sample_map_text 50 = Inr m \<and> am_map_id m = lit ''arena'' \<and>
     am_width_tiles m = 3 \<and> am_height_tiles m = 2 \<and>
     am_obstacles m = [\<lparr>amo_kind = MapPillar, amo_center_x = 0, amo_center_y = 25, amo_half_width = 25, amo_half_height = 25\<rparr>]"
proof -
  have rows: "collect_map_rows source sample_map_text = Inr [[65, 88, 66], [46, 35, 46]]" for source
    by (simp add: collect_map_rows_def lines_of_def sample_map_text_def strip_cr_def trim_end_def is_whitespace_def)
  have tiles: "map_tiles 3 (Suc (Suc 0)) = [(0, 0), (0, 1), (0, 2), (1, 0), (1, 1), (1, 2)]"
    by (simp add: map_tiles_def upt_rec)
  show ?thesis
    by (simp add: tiles parse_ascii_map_def rows validate_map_dimensions_def MAX_MAP_DIMENSION_TILES_def checked_mul_u16_def
        U16_MAX_def parse_map_layout_def map_cell_center_def parse_map_glyph_def glyph_at_def map_obstacle_def Let_def
        map_identifier_def file_stem_def file_name_def lit_def)
qed

theorem parse_ascii_map_shows_witness:
  "\<exists>m. parse_ascii_map (lit ''maps/arena.txt'') sample_map_text 50 = Inr m \<and> list_all obstacle_within (am_obstacles m) \<and>
     map_mask_has_tile (am_objective_mask m) 1"
proof -
  obtain m where m: "parse_ascii_map (lit ''maps/arena.txt'') sample_map_text 50 = Inr m" "am_width_tiles m = 3" "am_height_tiles m = 2"
    using sample_map_parses by blast
  have "glyph_at (rows_of sample_map_text) 0 1 = 88"
    by (simp add: glyph_at_def rows_of_def lines_of_def sample_map_text_def strip_cr_def trim_end_def is_whitespace_def)
  moreover have "0 < unat (am_height_tiles m)" "1 < unat (am_width_tiles m)" by (simp_all add: m(2,3))
  ultimately show ?thesis
    using parse_ascii_map_shows [OF m(1)] m(1) by fastforce
qed

end
