(* ===== verification/Map_Generation.thy ===== *)
theory Map_Generation
  imports Content_Maps Content_Config Sim_Float "HOL-Library.Multiset"
begin

text \<open>
  The generator of match maps (\<open>map_generation.rs\<close>): from a template it draws a style and, for a
  bounded number of attempts, an order of the free tiles in mirrored groups, then walls, pillars
  and shrubs; the first layout that leaves every anchor connected to the objective becomes the map.
  \<open>render_ascii_map\<close> writes a map back as text. A panic (an index out of range, a division by
  zero) is \<open>Inl Panic\<close>.
\<close>

section \<open>Random numbers\<close>

definition map_rng_new :: "u64 \<Rightarrow> u64" where
  "map_rng_new seed = (if seed = 0 then 0x9E3779B97F4A7C15 else seed)"

definition next_u64 :: "u64 \<Rightarrow> u64 \<times> u64" where
  "next_u64 state =
     (let state = state + 0x9E3779B97F4A7C15;
          z = (state XOR drop_bit 30 state) * 0xBF58476D1CE4E5B9;
          z = (z XOR drop_bit 27 z) * 0x94D049BB133111EB in
      (z XOR drop_bit 31 z, state))"

definition next_u32 :: "u64 \<Rightarrow> u32 \<times> u64" where
  "next_u32 state = (let (z, state) = next_u64 state in (ucast (drop_bit 32 z), state))"

definition roll_percent :: "u8 \<Rightarrow> u64 \<Rightarrow> bool \<times> u64" where
  "roll_percent percent state = (let (n, state) = next_u32 state in (n mod 100 < ucast percent, state))"

definition swap_at :: "nat \<Rightarrow> nat \<Rightarrow> 'a list \<Rightarrow> 'a list" where
  "swap_at i j xs = xs[i := xs ! j, j := xs ! i]"

text \<open>The loop over the indices from the last one down to 1; the swap partner is at most the index.\<close>

fun shuffle_from :: "nat \<Rightarrow> 'a list \<Rightarrow> u64 \<Rightarrow> 'a list \<times> u64" where
  "shuffle_from 0 xs state = (xs, state)"
| "shuffle_from (Suc i) xs state =
     (let (z, state) = next_u64 state in
      shuffle_from i (swap_at (Suc i) (unat z mod (Suc i + 1)) xs) state)"

definition map_shuffle :: "'a list \<Rightarrow> u64 \<Rightarrow> 'a list \<times> u64" where
  "map_shuffle xs state = shuffle_from (length xs - 1) xs state"

section \<open>Indices\<close>

type_synonym 'a outcome = "content_error fault + 'a"

definition list_at :: "'a list \<Rightarrow> nat \<Rightarrow> 'e fault + 'a" where
  "list_at xs i = (if i < length xs then Inr (xs ! i) else Inl Panic)"

definition list_set :: "'a list \<Rightarrow> nat \<Rightarrow> 'a \<Rightarrow> 'e fault + 'a list" where
  "list_set xs i v = (if i < length xs then Inr (xs[i := v]) else Inl Panic)"

text \<open>\<open>iter.all(p)\<close> and a loop over a state, for bodies that may fail.\<close>

fun all_m :: "('a \<Rightarrow> 'e + bool) \<Rightarrow> 'a list \<Rightarrow> 'e + bool" where
  "all_m p [] = Inr True"
| "all_m p (x # xs) = and_then (p x) (\<lambda>b. if b then all_m p xs else Inr False)"

fun fold_m :: "('a \<Rightarrow> 's \<Rightarrow> 'e + 's) \<Rightarrow> 'a list \<Rightarrow> 's \<Rightarrow> 'e + 's" where
  "fold_m f [] s = Inr s"
| "fold_m f (x # xs) s = and_then (f x s) (fold_m f xs)"

definition tile_count :: "arena_map_definition \<Rightarrow> nat" where
  "tile_count m = unat (am_width_tiles m) * unat (am_height_tiles m)"

definition tile_index :: "nat \<Rightarrow> nat \<Rightarrow> nat \<Rightarrow> nat" where
  "tile_index width column row = row * width + column"

definition mask_has_tile :: "u8 list \<Rightarrow> nat \<Rightarrow> bool" where
  "mask_has_tile bits index \<longleftrightarrow>
     index div 8 < length bits \<and> bits ! (index div 8) AND push_bit (index mod 8) 1 \<noteq> 0"

definition count_set_bits :: "u8 list \<Rightarrow> nat" where
  "count_set_bits bits = sum_list (map (\<lambda>b. length (filter (bit b) [0..<8])) bits)"

text \<open>Tile indices are below \<open>2 ^ 31\<close>, so the conversions to \<open>i32\<close> are exact.\<close>

definition index_to_coord :: "arena_map_definition \<Rightarrow> nat \<Rightarrow> (int \<times> int) outcome" where
  "index_to_coord m index =
     (let width = unat (am_width_tiles m) in
      if width = 0 then Inl Panic else Inr (int (index mod width), int (index div width)))"

definition manhattan_distance :: "int \<times> int \<Rightarrow> int \<times> int \<Rightarrow> int" where
  "manhattan_distance a b = \<bar>fst a - fst b\<bar> + \<bar>snd a - snd b\<bar>"

definition show_i16 :: "i16 \<Rightarrow> rstring" where
  "show_i16 n = (if sint n < 0 then 45 # show_nat (nat (- sint n)) else show_nat (nat (sint n)))"

definition tile_index_for_center :: "arena_map_definition \<Rightarrow> i16 \<Rightarrow> i16 \<Rightarrow> nat outcome" where
  "tile_index_for_center m center_x center_y =
     (let tile_units = uint (am_tile_units m);
          x = sint center_x + uint (am_width_units m) div 2 - tile_units div 2;
          y = sint center_y + uint (am_height_units m) div 2 - tile_units div 2;
          miss = Inl (Err (ContentValidation (am_map_id m) (lit ''coordinate ('' @ show_i16 center_x @ lit '', '' @
            show_i16 center_y @ lit '') does not land on a map tile''))) in
      if x < 0 \<or> y < 0 then miss
      else if tile_units = 0 then Inl Panic
      else if x mod tile_units \<noteq> 0 \<or> y mod tile_units \<noteq> 0 \<or> uint (am_width_units m) \<le> x \<or>
        uint (am_height_units m) \<le> y then miss
      else Inr (tile_index (unat (am_width_tiles m)) (nat (x div tile_units)) (nat (y div tile_units))))"

definition tile_center_units :: "arena_map_definition \<Rightarrow> int \<Rightarrow> int \<Rightarrow> i16 \<times> i16" where
  "tile_center_units m column row =
     (let tile_units = uint (am_tile_units m);
          i16_or = \<lambda>v. if - 32768 \<le> v \<and> v \<le> 32767 then of_int v else 32767 in
      (i16_or (- (uint (am_width_units m) div 2) + column * tile_units + tile_units div 2),
       i16_or (- (uint (am_height_units m) div 2) + row * tile_units + tile_units div 2)))"

definition objective_indices :: "arena_map_definition \<Rightarrow> nat list" where
  "objective_indices m = filter (mask_has_tile (am_objective_mask m)) [0..<tile_count m]"

definition first_objective_index :: "arena_map_definition \<Rightarrow> nat option" where
  "first_objective_index m = find (mask_has_tile (am_objective_mask m)) [0..<tile_count m]"

section \<open>Mirrored tiles\<close>

text \<open>An \<open>f64\<close> operation: the exact one, rounded to 53 significant bits.\<close>

definition ulp64 :: "rat \<Rightarrow> rat" where
  "ulp64 x = two_powi (max (ilog2 \<bar>x\<bar> - 52) (- 1074))"

definition fl64 :: "rat \<Rightarrow> rat" where
  "fl64 x = (if x = 0 then 0 else of_int (round_half_even (x / ulp64 x)) * ulp64 x)"

definition mirror_axis :: "u16 \<Rightarrow> u16 \<Rightarrow> nat \<Rightarrow> int" where
  "mirror_axis extent other position =
     (let normalized = fl64 (fl64 (of_nat position + 1 / 2) / of_int (uint other));
          mirrored = fl64 (1 - normalized) in
      f32_round (fl64 (fl64 (mirrored * of_int (uint extent)) - 1 / 2)))"

definition mirror_coordinate_across_diagonal :: "arena_map_definition \<Rightarrow> nat \<Rightarrow> nat \<Rightarrow> (nat \<times> nat) outcome" where
  "mirror_coordinate_across_diagonal m column row =
     (let w = am_width_tiles m; h = am_height_tiles m in
      if w = 0 \<or> h = 0 then Inl Panic
      else Inr (nat (max 0 (min (uint w - 1) (mirror_axis w h row))),
                nat (max 0 (min (uint h - 1) (mirror_axis h w column)))))"

fun mirror_orbit_from :: "nat \<Rightarrow> arena_map_definition \<Rightarrow> nat set \<Rightarrow> nat \<times> nat \<Rightarrow> nat set outcome" where
  "mirror_orbit_from 0 m orbit current = Inr orbit"
| "mirror_orbit_from (Suc n) m orbit current =
     (let index = tile_index (unat (am_width_tiles m)) (fst current) (snd current) in
      if index \<in> orbit then Inr orbit
      else and_then (mirror_coordinate_across_diagonal m (fst current) (snd current)) (mirror_orbit_from n m (insert index orbit)))"

definition mirror_orbit :: "arena_map_definition \<Rightarrow> nat \<Rightarrow> nat \<Rightarrow> nat list outcome" where
  "mirror_orbit m column row =
     and_then (mirror_orbit_from 8 m {} (column, row)) (\<lambda>orbit. Inr (sorted_list_of_set orbit))"

section \<open>Protected tiles and candidates\<close>

definition mark_tile :: "arena_map_definition \<Rightarrow> int \<times> int \<Rightarrow> bool list \<Rightarrow> bool list outcome" where
  "mark_tile m rc protected =
     (let (row, column) = rc in
      if row < 0 \<or> column < 0 \<or> uint (am_height_tiles m) \<le> row \<or> uint (am_width_tiles m) \<le> column then Inr protected
      else list_set protected (tile_index (unat (am_width_tiles m)) (nat column) (nat row)) True)"

definition mark_with_buffer :: "arena_map_definition \<Rightarrow> i32 \<Rightarrow> nat \<Rightarrow> bool list \<Rightarrow> bool list outcome" where
  "mark_with_buffer m radius center_index protected =
     and_then (index_to_coord m center_index) (\<lambda>(center_column, center_row).
       fold_m (mark_tile m)
         (List.product [wrap_i32 (center_row - sint radius)..wrap_i32 (center_row + sint radius)]
            [wrap_i32 (center_column - sint radius)..wrap_i32 (center_column + sint radius)])
         protected)"

definition mark_center :: "arena_map_definition \<Rightarrow> i32 \<Rightarrow> i16 \<times> i16 \<Rightarrow> bool list \<Rightarrow> bool list outcome" where
  "mark_center m radius center protected =
     and_then (tile_index_for_center m (fst center) (snd center)) (\<lambda>index. mark_with_buffer m radius index protected)"

definition protected_tiles :: "arena_map_definition \<Rightarrow> i32 \<Rightarrow> bool list outcome" where
  "protected_tiles m radius =
     and_then (fold_m (mark_with_buffer m radius) (objective_indices m) (replicate (tile_count m) False)) (\<lambda>protected.
     and_then (fold_m (mark_center m radius) (am_team_a_anchors m @ am_team_b_anchors m) protected) (\<lambda>protected.
       fold_m (mark_center m radius) (map (\<lambda>f. (amf_center_x f, amf_center_y f)) (am_features m)) protected))"

definition tile_free :: "arena_map_definition \<Rightarrow> bool list \<Rightarrow> nat \<Rightarrow> bool outcome" where
  "tile_free m protected index =
     (if mask_has_tile (am_footprint_mask m) index
      then and_then (list_at protected index) (\<lambda>p. Inr (\<not> p)) else Inr False)"

definition add_candidate_orbit ::
  "arena_map_definition \<Rightarrow> bool list \<Rightarrow> nat \<times> nat \<Rightarrow> nat set \<times> nat list list \<Rightarrow> (nat set \<times> nat list list) outcome" where
  "add_candidate_orbit m protected rc s =
     (let (row, column) = rc; (seen, orbits) = s; index = tile_index (unat (am_width_tiles m)) column row in
      if index \<in> seen then Inr s
      else and_then (tile_free m protected index) (\<lambda>free.
        if \<not> free then Inr s
        else and_then (mirror_orbit m column row) (\<lambda>orbit.
          and_then (all_m (tile_free m protected) orbit) (\<lambda>ok.
            Inr (seen \<union> set orbit, if ok then orbits @ [orbit] else orbits)))))"

definition collect_candidate_orbits :: "arena_map_definition \<Rightarrow> bool list \<Rightarrow> nat list list outcome" where
  "collect_candidate_orbits m protected =
     and_then (fold_m (add_candidate_orbit m protected)
         (map_tiles (unat (am_width_tiles m)) (unat (am_height_tiles m))) ({}, []))
       (\<lambda>(_, orbits). Inr orbits)"

section \<open>Obstacle layouts\<close>

type_synonym obstacle_layout = "arena_map_obstacle_kind option list"

definition CARDINAL_DIRECTIONS :: "(int \<times> int) list" where
  "CARDINAL_DIRECTIONS = [(1, 0), (0, 1), (- 1, 0), (0, - 1)]"

definition orbit_is_pillar_safe ::
  "arena_map_definition \<Rightarrow> map_generation_configuration \<Rightarrow> nat list \<Rightarrow> bool outcome" where
  "orbit_is_pillar_safe m generation orbit =
     all_m (\<lambda>index. and_then (index_to_coord m index) (\<lambda>(column, row).
       Inr (sint (gc_obstacle_edge_padding_tiles generation) \<le>
         min (min column (uint (am_width_tiles m) - 1 - column)) (min row (uint (am_height_tiles m) - 1 - row))))) orbit"

text \<open>May a wall cover the tile?\<close>

definition wall_tile_free :: "arena_map_definition \<Rightarrow> bool list \<Rightarrow> obstacle_layout \<Rightarrow> nat \<Rightarrow> bool outcome" where
  "wall_tile_free m protected layout index =
     (if \<not> mask_has_tile (am_footprint_mask m) index \<or> (index < length protected \<and> protected ! index) then Inr False
      else and_then (list_at layout index) (\<lambda>kind. Inr (kind = None)))"

text \<open>The steps of a wall; \<open>None\<close> is the early return, otherwise the tiles it covers.\<close>

fun wall_steps ::
  "arena_map_definition \<Rightarrow> map_generation_configuration \<Rightarrow> obstacle_layout \<Rightarrow> bool list \<Rightarrow> int \<times> int \<Rightarrow> int \<times> int \<Rightarrow>
   nat \<Rightarrow> nat \<Rightarrow> nat set \<Rightarrow> nat set option outcome" where
  "wall_steps m generation layout protected start direction step 0 indices = Inr (Some indices)"
| "wall_steps m generation layout protected start direction step (Suc n) indices =
     (let column = fst start + fst direction * int step; row = snd start + snd direction * int step in
      if column < 0 \<or> row < 0 \<or> uint (am_width_tiles m) \<le> column \<or> uint (am_height_tiles m) \<le> row then Inr None
      else
        and_then (mirror_orbit m (nat column) (nat row)) (\<lambda>orbit.
        and_then (orbit_is_pillar_safe m generation orbit) (\<lambda>safe.
          if \<not> safe then Inr None
          else and_then (all_m (wall_tile_free m protected layout) orbit) (\<lambda>free.
            if \<not> free then Inr None
            else wall_steps m generation layout protected start direction (Suc step) n (indices \<union> set orbit)))))"

definition place :: "arena_map_obstacle_kind \<Rightarrow> nat list \<Rightarrow> obstacle_layout \<Rightarrow> obstacle_layout outcome" where
  "place kind indices layout = fold_m (\<lambda>index l. list_set l index (Some kind)) indices layout"

text \<open>\<open>None\<close> is \<open>false\<close>, \<open>Some layout\<close> is \<open>true\<close> with the layout it leaves.\<close>

definition try_place_wall_segment ::
  "arena_map_definition \<Rightarrow> map_generation_configuration \<Rightarrow> obstacle_layout \<Rightarrow> bool list \<Rightarrow> int \<times> int \<Rightarrow> int \<times> int \<Rightarrow>
   i32 \<Rightarrow> obstacle_layout option outcome" where
  "try_place_wall_segment m generation layout protected start direction len =
     and_then (wall_steps m generation layout protected start direction 0 (nat (sint len)) {}) (\<lambda>result.
       case result of
         None \<Rightarrow> Inr None
       | Some indices \<Rightarrow>
           if card indices < nat (sint len) then Inr None
           else and_then (place MapPillar (sorted_list_of_set indices) layout) (\<lambda>l. Inr (Some l)))"

text \<open>The first direction in which the preferred length, or else the short one, fits.\<close>

fun try_directions ::
  "arena_map_definition \<Rightarrow> map_generation_configuration \<Rightarrow> obstacle_layout \<Rightarrow> bool list \<Rightarrow> int \<times> int \<Rightarrow>
   i32 \<Rightarrow> (int \<times> int) list \<Rightarrow> obstacle_layout option outcome" where
  "try_directions m generation layout protected start preferred [] = Inr None"
| "try_directions m generation layout protected start preferred (direction # directions) =
     (let short = gc_wall_segment_lengths_tiles generation ! 0; long = gc_wall_segment_lengths_tiles generation ! 1 in
      and_then (try_place_wall_segment m generation layout protected start direction preferred) (\<lambda>placed.
        case placed of
          Some l \<Rightarrow> Inr (Some l)
        | None \<Rightarrow>
            if preferred = long then
              and_then (try_place_wall_segment m generation layout protected start direction short) (\<lambda>placed.
                case placed of
                  Some l \<Rightarrow> Inr (Some l)
                | None \<Rightarrow> try_directions m generation layout protected start preferred directions)
            else try_directions m generation layout protected start preferred directions))"

definition orbit_coord :: "arena_map_definition \<Rightarrow> nat list \<Rightarrow> (int \<times> int) outcome" where
  "orbit_coord m orbit = and_then (list_at orbit 0) (index_to_coord m)"

definition too_close :: "i32 \<Rightarrow> int \<times> int \<Rightarrow> (int \<times> int) list \<Rightarrow> bool" where
  "too_close spacing representative existing \<longleftrightarrow>
     list_ex (\<lambda>other. manhattan_distance representative other \<le> sint spacing) existing"

record layout_state =
  ls_layout :: obstacle_layout
  ls_representatives :: "(int \<times> int) list"
  ls_rng :: u64

fun place_walls ::
  "arena_map_definition \<Rightarrow> map_generation_configuration \<Rightarrow> bool list \<Rightarrow> nat \<Rightarrow> nat list list \<Rightarrow> layout_state \<Rightarrow> layout_state outcome" where
  "place_walls m generation protected remaining [] s = Inr s"
| "place_walls m generation protected remaining (orbit # orbits) s =
     (if remaining = 0 then Inr s
      else and_then (orbit_coord m orbit) (\<lambda>representative.
        if too_close (gc_wall_min_spacing_manhattan_tiles generation) representative (ls_representatives s)
        then place_walls m generation protected remaining orbits s
        else
          (let (skip, rng) = roll_percent (gc_wall_candidate_skip_percent generation) (ls_rng s) in
           if skip then place_walls m generation protected remaining orbits (s\<lparr>ls_rng := rng\<rparr>)
           else
             (let (directions, rng) = map_shuffle CARDINAL_DIRECTIONS rng;
                  (prefer_long, rng) = roll_percent (gc_long_wall_percent generation) rng;
                  preferred = gc_wall_segment_lengths_tiles generation ! (if prefer_long then 1 else 0) in
              and_then (try_directions m generation (ls_layout s) protected representative preferred directions) (\<lambda>placed.
                case placed of
                  None \<Rightarrow> place_walls m generation protected remaining orbits (s\<lparr>ls_rng := rng\<rparr>)
                | Some l \<Rightarrow> place_walls m generation protected (remaining - 1) orbits
                    (s\<lparr>ls_layout := l, ls_representatives := ls_representatives s @ [representative], ls_rng := rng\<rparr>))))))"

fun place_pillars ::
  "arena_map_definition \<Rightarrow> map_generation_configuration \<Rightarrow> nat \<Rightarrow> nat list list \<Rightarrow> layout_state \<Rightarrow> layout_state outcome" where
  "place_pillars m generation remaining [] s = Inr s"
| "place_pillars m generation remaining (orbit # orbits) s =
     (if remaining = 0 then Inr s
      else
        and_then (orbit_coord m orbit) (\<lambda>representative.
        and_then (orbit_is_pillar_safe m generation orbit) (\<lambda>safe.
          if \<not> safe \<or> too_close (gc_pillar_min_spacing_manhattan_tiles generation) representative (ls_representatives s)
          then place_pillars m generation remaining orbits s
          else
            (let (skip, rng) = roll_percent (gc_pillar_candidate_skip_percent generation) (ls_rng s) in
             if skip then place_pillars m generation remaining orbits (s\<lparr>ls_rng := rng\<rparr>)
             else and_then (place MapPillar orbit (ls_layout s)) (\<lambda>l.
               place_pillars m generation (remaining - 1) orbits
                 (s\<lparr>ls_layout := l, ls_representatives := ls_representatives s @ [representative], ls_rng := rng\<rparr>))))))"

definition shrub_probability :: "map_generation_style \<Rightarrow> (int \<times> int) list \<Rightarrow> int \<times> int \<Rightarrow> u8" where
  "shrub_probability style cluster_centers representative =
     (case map (manhattan_distance representative) cluster_centers of
        [] \<Rightarrow> gs_shrub_fill_percent style div 4
      | d # ds \<Rightarrow>
          (let distance = fold min ds d in
           if distance \<le> sint (gs_shrub_radius_tiles style) then 90
           else if distance \<le> sint (gs_shrub_soft_radius_tiles style) then gs_shrub_fill_percent style
           else gs_shrub_fill_percent style div 4))"

fun place_shrubs ::
  "arena_map_definition \<Rightarrow> map_generation_style \<Rightarrow> (int \<times> int) list \<Rightarrow> nat list list \<Rightarrow> layout_state \<Rightarrow> layout_state outcome" where
  "place_shrubs m style cluster_centers [] s = Inr s"
| "place_shrubs m style cluster_centers (orbit # orbits) s =
     and_then (all_m (\<lambda>index. and_then (list_at (ls_layout s) index) (\<lambda>kind. Inr (kind \<noteq> Some MapPillar))) orbit) (\<lambda>open.
       if \<not> open then place_shrubs m style cluster_centers orbits s
       else and_then (orbit_coord m orbit) (\<lambda>representative.
         (let (grow, rng) = roll_percent (shrub_probability style cluster_centers representative) (ls_rng s) in
          if \<not> grow then place_shrubs m style cluster_centers orbits (s\<lparr>ls_rng := rng\<rparr>)
          else and_then (place MapShrub orbit (ls_layout s)) (\<lambda>l.
            place_shrubs m style cluster_centers orbits (s\<lparr>ls_layout := l, ls_rng := rng\<rparr>)))))"

fun map_m :: "('a \<Rightarrow> 'e + 'b) \<Rightarrow> 'a list \<Rightarrow> 'e + 'b list" where
  "map_m f [] = Inr []"
| "map_m f (x # xs) = and_then (f x) (\<lambda>y. and_then (map_m f xs) (\<lambda>ys. Inr (y # ys)))"

text \<open>The layout and the state of the random numbers after it.\<close>

definition build_obstacle_layout ::
  "arena_map_definition \<Rightarrow> map_generation_configuration \<Rightarrow> nat list list \<Rightarrow> bool list \<Rightarrow> map_generation_style \<Rightarrow> u64 \<Rightarrow>
   (obstacle_layout \<times> u64) outcome" where
  "build_obstacle_layout m generation orbit_order protected style rng =
     and_then (map_m (orbit_coord m) (take (unat (gs_shrub_clusters style)) orbit_order)) (\<lambda>cluster_centers.
     and_then (place_walls m generation protected (unat (gs_wall_segments style)) orbit_order
       \<lparr>ls_layout = replicate (tile_count m) None, ls_representatives = [], ls_rng = rng\<rparr>) (\<lambda>s.
     and_then (place_pillars m generation (unat (gs_isolated_pillars style)) orbit_order s) (\<lambda>s.
     and_then (place_shrubs m style cluster_centers orbit_order s) (\<lambda>s.
       Inr (ls_layout s, ls_rng s)))))"

section \<open>Paths to the objective\<close>

definition neighbors :: "nat \<Rightarrow> nat \<Rightarrow> nat \<Rightarrow> nat \<Rightarrow> (nat \<times> nat) list" where
  "neighbors column row width height =
     (if 0 < column then [(column - 1, row)] else []) @
     (if column + 1 < width then [(column + 1, row)] else []) @
     (if 0 < row then [(column, row - 1)] else []) @
     (if row + 1 < height then [(column, row + 1)] else [])"

definition visit_neighbor ::
  "arena_map_definition \<Rightarrow> obstacle_layout \<Rightarrow> nat \<times> nat \<Rightarrow> bool list \<times> nat list \<Rightarrow> (bool list \<times> nat list) outcome" where
  "visit_neighbor m layout cr s =
     (let (visited, queue) = s; next_index = tile_index (unat (am_width_tiles m)) (fst cr) (snd cr) in
      and_then (list_at visited next_index) (\<lambda>seen.
        if seen \<or> \<not> mask_has_tile (am_footprint_mask m) next_index then Inr s
        else and_then (list_at layout next_index) (\<lambda>kind.
          if kind = Some MapPillar then Inr s
          else Inr (visited[next_index := True], queue @ [next_index]))))"

definition expand ::
  "arena_map_definition \<Rightarrow> obstacle_layout \<Rightarrow> nat \<Rightarrow> bool list \<times> nat list \<Rightarrow> (bool list \<times> nat list) outcome" where
  "expand m layout index s =
     (let width = unat (am_width_tiles m) in
      fold_m (visit_neighbor m layout) (neighbors (index mod width) (index div width) width (unat (am_height_tiles m))) s)"

definition unvisited :: "bool list \<Rightarrow> nat" where
  "unvisited visited = length (filter Not visited)"

lemma unvisited_update: "i < length vs \<Longrightarrow> \<not> vs ! i \<Longrightarrow> Suc (unvisited (vs[i := True])) = unvisited vs"
proof (induction vs arbitrary: i)
  case (Cons v vs)
  then show ?case by (cases i) (auto simp: unvisited_def)
qed simp

lemma visit_neighbor_measure:
  "visit_neighbor m layout cr s = Inr t \<Longrightarrow> unvisited (fst t) + length (snd t) = unvisited (fst s) + length (snd s)"
  using unvisited_update [of "tile_index (unat (am_width_tiles m)) (fst cr) (snd cr)" "fst s"]
  by (cases s) (auto simp: visit_neighbor_def list_at_def and_then_eq_Inr Let_def split: if_splits)

lemma fold_m_inv:
  "fold_m f xs s = Inr t \<Longrightarrow> P s \<Longrightarrow> (\<And>x s t. x \<in> set xs \<Longrightarrow> P s \<Longrightarrow> f x s = Inr t \<Longrightarrow> P t) \<Longrightarrow> P t"
  by (induction xs arbitrary: s) (auto simp: and_then_eq_Inr)

lemma expand_measure:
  assumes "expand m layout index s = Inr t"
  shows "unvisited (fst t) + length (snd t) = unvisited (fst s) + length (snd s)"
  using assms unfolding expand_def Let_def
  by (rule fold_m_inv [where P = "\<lambda>t. unvisited (fst t) + length (snd t) = unvisited (fst s) + length (snd s)"])
    (auto dest: visit_neighbor_measure)

text \<open>The queue and the visited tiles; a start outside of the map has panicked before.\<close>

function bfs :: "arena_map_definition \<Rightarrow> obstacle_layout \<Rightarrow> bool list \<times> nat list \<Rightarrow> bool outcome" where
  "bfs m layout s =
     (case snd s of
        [] \<Rightarrow> Inr False
      | index # queue \<Rightarrow>
          if mask_has_tile (am_objective_mask m) index then Inr True
          else (case expand m layout index (fst s, queue) of
            Inl e \<Rightarrow> Inl e
          | Inr s' \<Rightarrow> bfs m layout s'))"
  by pat_completeness auto

termination
  by (relation "measure (\<lambda>(m, layout, s). unvisited (fst s) + length (snd s))") (auto dest!: expand_measure)

declare bfs.simps [simp del]

definition path_exists_to_objective :: "arena_map_definition \<Rightarrow> obstacle_layout \<Rightarrow> nat \<Rightarrow> bool outcome" where
  "path_exists_to_objective m layout start_index =
     and_then (list_set (replicate (tile_count m) False) start_index True) (\<lambda>visited.
       bfs m layout (visited, [start_index]))"

definition anchor_reaches_objective :: "arena_map_definition \<Rightarrow> obstacle_layout \<Rightarrow> i16 \<times> i16 \<Rightarrow> bool outcome" where
  "anchor_reaches_objective m layout anchor =
     (case tile_index_for_center m (fst anchor) (snd anchor) of
        Inl (Err _) \<Rightarrow> Inr False
      | Inl Panic \<Rightarrow> Inl Panic
      | Inr start_index \<Rightarrow> path_exists_to_objective m layout start_index)"

definition all_spawn_anchors_reach_objective :: "arena_map_definition \<Rightarrow> obstacle_layout \<Rightarrow> bool outcome" where
  "all_spawn_anchors_reach_objective m layout =
     (case first_objective_index m of
        None \<Rightarrow> Inr False
      | Some _ \<Rightarrow> all_m (anchor_reaches_objective m layout) (am_team_a_anchors m @ am_team_b_anchors m))"

section \<open>The generator\<close>

definition obstacle_layout_to_map_obstacles :: "arena_map_definition \<Rightarrow> obstacle_layout \<Rightarrow> arena_map_obstacle list outcome" where
  "obstacle_layout_to_map_obstacles m layout =
     map_m (\<lambda>index. and_then (index_to_coord m index) (\<lambda>(column, row).
         let center = tile_center_units m column row in
         Inr \<lparr>amo_kind = the (layout ! index), amo_center_x = fst center, amo_center_y = snd center,
           amo_half_width = am_tile_units m div 2, amo_half_height = am_tile_units m div 2\<rparr>))
       (filter (\<lambda>index. layout ! index \<noteq> None) [0..<length layout])"

definition pick_generation_style :: "map_generation_configuration \<Rightarrow> u64 \<Rightarrow> (map_generation_style \<times> u64) outcome" where
  "pick_generation_style generation state =
     (let (n, state) = next_u32 state; styles = gc_styles generation in
      if styles = [] then Inl Panic else Inr (styles ! (unat n mod length styles), state))"

fun generate_attempts ::
  "arena_map_definition \<Rightarrow> map_generation_configuration \<Rightarrow> nat list list \<Rightarrow> bool list \<Rightarrow> map_generation_style \<Rightarrow>
   nat \<Rightarrow> u64 \<Rightarrow> obstacle_layout option outcome" where
  "generate_attempts m generation orbits protected style 0 rng = Inr None"
| "generate_attempts m generation orbits protected style (Suc n) rng =
     (let (orbit_order, rng) = map_shuffle orbits rng in
      and_then (build_obstacle_layout m generation orbit_order protected style rng) (\<lambda>(layout, rng).
      and_then (all_spawn_anchors_reach_objective m layout) (\<lambda>reached.
        if reached then Inr (Some layout)
        else generate_attempts m generation orbits protected style n rng)))"

definition generate_template_match_map ::
  "arena_map_definition \<Rightarrow> map_generation_configuration \<Rightarrow> rstring \<Rightarrow> u64 \<Rightarrow> arena_map_definition outcome" where
  "generate_template_match_map template generation map_id seed =
     (let fail = \<lambda>message. Inl (Err (ContentValidation (lit ''generated map '' @ map_id) message)) in
      if count_set_bits (am_objective_mask template) = 0
      then fail (lit ''template map must contain at least one objective tile '' @ quoted (lit ''X''))
      else
        and_then (protected_tiles template (gc_protected_tile_buffer_radius_tiles generation)) (\<lambda>protected.
        and_then (collect_candidate_orbits template protected) (\<lambda>orbits.
          if orbits = [] then fail (lit ''template map does not leave any tiles available for generation'')
          else
            and_then (pick_generation_style generation (map_rng_new seed)) (\<lambda>(style, rng).
            and_then (generate_attempts template generation orbits protected style
              (unat (gc_max_generation_attempts generation)) rng) (\<lambda>result.
              case result of
                None \<Rightarrow> fail (lit ''generator could not find a symmetric obstacle layout that preserves center access'')
              | Some layout \<Rightarrow>
                  and_then (obstacle_layout_to_map_obstacles template layout) (\<lambda>obstacles.
                    Inr (template\<lparr>am_map_id := map_id, am_obstacles := obstacles\<rparr>)))))))"

section \<open>Rendering\<close>

text \<open>\<open>glyphs[row][column] = glyph\<close> for the tile of an index.\<close>

definition put_glyph :: "arena_map_definition \<Rightarrow> rchar \<Rightarrow> nat \<Rightarrow> rchar list list \<Rightarrow> rchar list list outcome" where
  "put_glyph m glyph index glyphs =
     (let width = unat (am_width_tiles m) in
      if width = 0 then Inl Panic
      else and_then (list_at glyphs (index div width)) (\<lambda>row.
        and_then (list_set row (index mod width) glyph) (list_set glyphs (index div width))))"

definition put_glyph_at :: "arena_map_definition \<Rightarrow> rchar \<times> i16 \<times> i16 \<Rightarrow> rchar list list \<Rightarrow> rchar list list outcome" where
  "put_glyph_at m gc glyphs =
     (let (glyph, center_x, center_y) = gc in
      and_then (tile_index_for_center m center_x center_y) (\<lambda>index. put_glyph m glyph index glyphs))"

definition obstacle_glyph :: "arena_map_obstacle_kind \<Rightarrow> rchar" where
  "obstacle_glyph kind = (case kind of MapPillar \<Rightarrow> 35 | MapShrub \<Rightarrow> 43)"

definition feature_glyph :: "arena_map_feature_kind \<Rightarrow> rchar" where
  "feature_glyph kind = (case kind of MapTrainingDummyResetFull \<Rightarrow> 100 | MapTrainingDummyExecute \<Rightarrow> 68)"

fun join_lines :: "rstring list \<Rightarrow> rstring" where
  "join_lines [] = []"
| "join_lines [row] = row"
| "join_lines (row # rows) = row @ 10 # join_lines rows"

definition footprint_glyphs :: "arena_map_definition \<Rightarrow> rchar list list" where
  "footprint_glyphs m =
     (let width = unat (am_width_tiles m) in
      map (\<lambda>row. map (\<lambda>column. if mask_has_tile (am_footprint_mask m) (tile_index width column row) then 46 else 32)
        [0..<width]) [0..<unat (am_height_tiles m)])"

definition render_ascii_map :: "arena_map_definition \<Rightarrow> rstring outcome" where
  "render_ascii_map m =
     and_then (fold_m (put_glyph_at m)
       (map (\<lambda>ob. (obstacle_glyph (amo_kind ob), amo_center_x ob, amo_center_y ob)) (am_obstacles m)) (footprint_glyphs m)) (\<lambda>glyphs.
     and_then (fold_m (put_glyph_at m)
       (map (\<lambda>f. (feature_glyph (amf_kind f), amf_center_x f, amf_center_y f)) (am_features m)) glyphs) (\<lambda>glyphs.
     and_then (fold_m (put_glyph m 88) (objective_indices m) glyphs) (\<lambda>glyphs.
     and_then (fold_m (put_glyph_at m) (map (Pair 65) (am_team_a_anchors m)) glyphs) (\<lambda>glyphs.
     and_then (fold_m (put_glyph_at m) (map (Pair 66) (am_team_b_anchors m)) glyphs) (\<lambda>glyphs.
       Inr (join_lines glyphs))))))"

end
