(* ===== verification/Map_Generation_Facts.thy ===== *)
theory Map_Generation_Facts
  imports Map_Generation
begin

text \<open>
  The generator of match maps is safe and keeps its promises: on a parsed template and an accepted
  configuration it never panics, an obstacle covers only free tiles, every anchor keeps a path
  to the objective, and a shuffle only reorders. A map that was parsed from a text renders back to
  a text that parses to it. \<open>gives x Q\<close> says that a computation succeeds with a value in \<open>Q\<close>.
\<close>

section \<open>Computations that succeed\<close>

definition gives :: "'e + 'a \<Rightarrow> ('a \<Rightarrow> bool) \<Rightarrow> bool" where
  "gives x Q \<longleftrightarrow> (\<exists>y. x = Inr y \<and> Q y)"

lemma gives_simps [simp]: "gives (Inr y) Q = Q y" "\<not> gives (Inl e) Q"
  "gives (and_then x f) Q = gives x (\<lambda>y. gives (f y) Q)"
  by (auto simp: gives_def and_then_eq_Inr)

lemma gives_mono: "gives x P \<Longrightarrow> (\<And>y. P y \<Longrightarrow> Q y) \<Longrightarrow> gives x Q"
  by (auto simp: gives_def)

lemma givesE: "gives x Q \<Longrightarrow> (\<And>y. x = Inr y \<Longrightarrow> Q y \<Longrightarrow> thesis) \<Longrightarrow> thesis"
  by (auto simp: gives_def)

lemma givesD: "gives x Q \<Longrightarrow> x = Inr y \<Longrightarrow> Q y"
  by (simp add: gives_def)

lemma gives_fold_m: "P s \<Longrightarrow> (\<And>x s. x \<in> set xs \<Longrightarrow> P s \<Longrightarrow> gives (f x s) P) \<Longrightarrow> gives (fold_m f xs s) P"
  by (induction xs arbitrary: s) (auto intro: gives_mono)

lemma all_m_gives: "(\<And>x. x \<in> set xs \<Longrightarrow> gives (p x) (\<lambda>_. True)) \<Longrightarrow> gives (all_m p xs) (\<lambda>_. True)"
proof (induction xs)
  case (Cons x xs)
  then obtain b b' where "p x = Inr b" "all_m p xs = Inr b'" by (force simp: gives_def)
  then show ?case by simp
qed simp

lemma all_m_eq: "(\<And>x. x \<in> set xs \<Longrightarrow> p x = Inr (P x)) \<Longrightarrow> all_m p xs = Inr (\<forall>x \<in> set xs. P x)"
  by (induction xs) auto

lemma gives_map_m: "(\<And>x. x \<in> set xs \<Longrightarrow> gives (f x) (Q x)) \<Longrightarrow> gives (map_m f xs) (list_all2 Q xs)"
proof (induction xs)
  case (Cons x xs)
  then obtain y ys where "f x = Inr y" "Q x y" "map_m f xs = Inr ys" "list_all2 Q xs ys"
    by (force simp: gives_def)
  then show ?case by simp
qed simp

lemma map_m_eq: "(\<And>x. x \<in> set xs \<Longrightarrow> f x = Inr (g x)) \<Longrightarrow> map_m f xs = Inr (map g xs)"
  by (induction xs) auto

section \<open>Shuffling\<close>

lemma mset_swap_at: "i < length xs \<Longrightarrow> j < length xs \<Longrightarrow> mset (swap_at i j xs) = mset xs"
  unfolding swap_at_def by (rule mset_swap)

lemma mset_shuffle_from: "n < length xs \<Longrightarrow> mset (fst (shuffle_from n xs state)) = mset xs"
proof (induction n xs state rule: shuffle_from.induct)
  case (2 i xs state)
  obtain z s where z: "next_u64 state = (z, s)" by fastforce
  have len: "length (swap_at (Suc i) (unat z mod (Suc i + 1)) xs) = length xs" by (simp add: swap_at_def)
  have "unat z mod (Suc i + 1) < Suc i + 1" by (rule mod_less_divisor) simp
  then have "mset (swap_at (Suc i) (unat z mod (Suc i + 1)) xs) = mset xs"
    using 2(2) by (intro mset_swap_at) linarith+
  with 2 len show ?case by (simp add: z Let_def)
qed simp

lemma mset_map_shuffle: "mset (fst (map_shuffle xs state)) = mset xs"
  by (cases "xs = []") (simp_all add: map_shuffle_def mset_shuffle_from)

lemma set_map_shuffle: "map_shuffle xs state = (ys, rng) \<Longrightarrow> set ys = set xs"
  using mset_map_shuffle [of xs state] by (metis fst_conv mset_eq_setD)

section \<open>Tiles\<close>

lemma mask_has_tile_eq: "mask_has_tile = map_mask_has_tile"
  by (simp add: fun_eq_iff mask_has_tile_def map_mask_has_tile_def)

definition sized :: "arena_map_definition \<Rightarrow> bool" where
  "sized m \<longleftrightarrow> am_width_tiles m \<noteq> 0 \<and> am_height_tiles m \<noteq> 0"

lemma sized_pos: "sized m \<Longrightarrow> 0 < unat (am_width_tiles m) \<and> 0 < unat (am_height_tiles m)"
  by (simp add: sized_def unat_gt_0)

lemma tile_index_less: "r < unat (am_height_tiles m) \<Longrightarrow> c < unat (am_width_tiles m) \<Longrightarrow>
     tile_index (unat (am_width_tiles m)) c r < tile_count m"
  unfolding tile_index_def tile_count_def by (rule tile_index_bound)

lemma tile_row_less: "i < tile_count m \<Longrightarrow> i div unat (am_width_tiles m) < unat (am_height_tiles m)"
  by (simp add: tile_count_def less_mult_imp_div_less mult.commute)

lemma index_to_coord_eq: "sized m \<Longrightarrow>
     index_to_coord m i = Inr (int (i mod unat (am_width_tiles m)), int (i div unat (am_width_tiles m)))"
  using sized_pos [of m] by (simp add: index_to_coord_def Let_def)

section \<open>Paths\<close>

text \<open>One step of a walk: to a neighbouring tile of the footprint without a pillar.\<close>

definition adjacent :: "arena_map_definition \<Rightarrow> nat \<Rightarrow> nat set" where
  "adjacent m i =
     (let w = unat (am_width_tiles m); h = unat (am_height_tiles m); c = i mod w; r = i div w in
      {tile_index w c' r' | c' r'. c' < w \<and> r' < h \<and> \<bar>int c - int c'\<bar> + \<bar>int r - int r'\<bar> = 1})"

definition open_tile :: "arena_map_definition \<Rightarrow> obstacle_layout \<Rightarrow> nat \<Rightarrow> bool" where
  "open_tile m layout i \<longleftrightarrow> mask_has_tile (am_footprint_mask m) i \<and> layout ! i \<noteq> Some MapPillar"

definition walk_step :: "arena_map_definition \<Rightarrow> obstacle_layout \<Rightarrow> (nat \<times> nat) set" where
  "walk_step m layout = {(i, j). j \<in> adjacent m i \<and> open_tile m layout j}"

definition reaches_objective :: "arena_map_definition \<Rightarrow> obstacle_layout \<Rightarrow> nat \<Rightarrow> bool" where
  "reaches_objective m layout start \<longleftrightarrow>
     (\<exists>goal. (start, goal) \<in> (walk_step m layout)\<^sup>* \<and> mask_has_tile (am_objective_mask m) goal)"

lemma set_neighbors:
  assumes "c < w" "r < h"
  shows "(c', r') \<in> set (neighbors c r w h) \<longleftrightarrow> c' < w \<and> r' < h \<and> \<bar>int c - int c'\<bar> + \<bar>int r - int r'\<bar> = 1"
  using assms by (auto simp: neighbors_def)

lemma adjacent_neighbors:
  assumes "sized m" "i < tile_count m"
  shows "adjacent m i = (\<lambda>(c, r). tile_index (unat (am_width_tiles m)) c r) `
     set (neighbors (i mod unat (am_width_tiles m)) (i div unat (am_width_tiles m)) (unat (am_width_tiles m)) (unat (am_height_tiles m)))"
proof -
  have bounds: "i mod unat (am_width_tiles m) < unat (am_width_tiles m)" "i div unat (am_width_tiles m) < unat (am_height_tiles m)"
    using assms sized_pos [OF assms(1)] tile_row_less by auto
  show ?thesis
    unfolding adjacent_def Let_def using set_neighbors [OF bounds] by (force simp: image_iff)
qed

definition marked :: "bool list \<Rightarrow> nat set" where
  "marked vs = {i. i < length vs \<and> vs ! i}"

lemma marked_update: "i < length vs \<Longrightarrow> marked (vs[i := True]) = insert i (marked vs)"
  by (auto simp: marked_def nth_list_update)

definition search_sizes :: "arena_map_definition \<Rightarrow> obstacle_layout \<Rightarrow> bool" where
  "search_sizes m layout \<longleftrightarrow> sized m \<and> length layout = tile_count m"

lemma visit_neighbor_gives:
  assumes "length layout = tile_count m" "length vs = tile_count m" "c < unat (am_width_tiles m)" "r < unat (am_height_tiles m)"
  shows "gives (visit_neighbor m layout (c, r) (vs, q)) (\<lambda>(vs', q').
     length vs' = tile_count m \<and>
     (let new = {j. j = tile_index (unat (am_width_tiles m)) c r \<and> open_tile m layout j} in
      marked vs' = marked vs \<union> new \<and> set q' = set q \<union> (new - marked vs)))"
  using assms tile_index_less [OF assms(4,3)]
  by (auto simp: visit_neighbor_def list_at_def Let_def open_tile_def marked_def nth_list_update split: if_splits)

lemma fold_visit_gives:
  assumes "length layout = tile_count m" "length vs = tile_count m"
    "\<forall>(c, r) \<in> set crs. c < unat (am_width_tiles m) \<and> r < unat (am_height_tiles m)"
  shows "gives (fold_m (visit_neighbor m layout) crs (vs, q)) (\<lambda>(vs', q').
     length vs' = tile_count m \<and>
     (let new = {j \<in> (\<lambda>(c, r). tile_index (unat (am_width_tiles m)) c r) ` set crs. open_tile m layout j} in
      marked vs' = marked vs \<union> new \<and> set q' = set q \<union> (new - marked vs)))"
  using assms(2,3)
proof (induction crs arbitrary: vs q)
  case (Cons cr crs)
  obtain c r where cr: "cr = (c, r)" by fastforce
  let ?new = "{j. j = tile_index (unat (am_width_tiles m)) c r \<and> open_tile m layout j}"
  let ?news = "{j \<in> (\<lambda>(c, r). tile_index (unat (am_width_tiles m)) c r) ` set crs. open_tile m layout j}"
  have "c < unat (am_width_tiles m)" "r < unat (am_height_tiles m)" using Cons.prems cr by auto
  from visit_neighbor_gives [OF assms(1) Cons.prems(1) this, of q]
  obtain vs1 q1 where v: "visit_neighbor m layout cr (vs, q) = Inr (vs1, q1)" "length vs1 = tile_count m"
    "marked vs1 = marked vs \<union> ?new" "set q1 = set q \<union> (?new - marked vs)"
    by (auto simp: gives_def cr Let_def)
  have "\<forall>(c, r) \<in> set crs. c < unat (am_width_tiles m) \<and> r < unat (am_height_tiles m)" using Cons.prems by simp
  from Cons.IH [OF v(2) this, of q1]
  obtain vs2 q2 where w: "fold_m (visit_neighbor m layout) crs (vs1, q1) = Inr (vs2, q2)" "length vs2 = tile_count m"
    "marked vs2 = marked vs1 \<union> ?news" "set q2 = set q1 \<union> (?news - marked vs1)"
    by (auto simp: gives_def Let_def)
  have "{j \<in> (\<lambda>(c, r). tile_index (unat (am_width_tiles m)) c r) ` set (cr # crs). open_tile m layout j} = ?new \<union> ?news"
    by (auto simp: cr)
  then show ?case using v w by (simp add: Let_def) blast
qed simp

lemma expand_gives:
  assumes "search_sizes m layout" "length vs = tile_count m" "i < tile_count m"
  shows "\<exists>vs' q'. expand m layout i (vs, q) = Inr (vs', q') \<and> length vs' = tile_count m \<and>
     marked vs' = marked vs \<union> walk_step m layout `` {i} \<and> set q' = set q \<union> (walk_step m layout `` {i} - marked vs)"
proof -
  have s: "sized m" "length layout = tile_count m" using assms(1) by (simp_all add: search_sizes_def)
  let ?ns = "neighbors (i mod unat (am_width_tiles m)) (i div unat (am_width_tiles m)) (unat (am_width_tiles m)) (unat (am_height_tiles m))"
  have "i mod unat (am_width_tiles m) < unat (am_width_tiles m)" "i div unat (am_width_tiles m) < unat (am_height_tiles m)"
    using assms(3) sized_pos [OF s(1)] tile_row_less by auto
  then have "\<forall>(c, r) \<in> set ?ns. c < unat (am_width_tiles m) \<and> r < unat (am_height_tiles m)"
    using set_neighbors by blast
  from fold_visit_gives [OF s(2) assms(2) this, of q] show ?thesis
    by (auto simp: gives_def expand_def Let_def walk_step_def adjacent_neighbors [OF s(1) assms(3)] Image_def)
qed

definition search_inv :: "arena_map_definition \<Rightarrow> obstacle_layout \<Rightarrow> bool list \<times> nat list \<Rightarrow> bool" where
  "search_inv m layout s \<longleftrightarrow> length (fst s) = tile_count m \<and> set (snd s) \<subseteq> marked (fst s) \<and>
     (\<forall>i \<in> marked (fst s) - set (snd s).
        \<not> mask_has_tile (am_objective_mask m) i \<and> walk_step m layout `` {i} \<subseteq> marked (fst s))"

lemma rtrancl_closed: "(i, j) \<in> R\<^sup>* \<Longrightarrow> i \<in> A \<Longrightarrow> (\<And>k. k \<in> A \<Longrightarrow> R `` {k} \<subseteq> A) \<Longrightarrow> j \<in> A"
  by (induction rule: rtrancl_induct) blast+

lemma bfs_correct:
  assumes "search_sizes m layout" "search_inv m layout s"
  shows "bfs m layout s = Inr (\<exists>i \<in> marked (fst s). reaches_objective m layout i)"
  using assms
proof (induction m layout s rule: bfs.induct)
  case (1 m layout s)
  obtain vs queue where s: "s = (vs, queue)" by fastforce
  show ?case
  proof (cases queue)
    case Nil
    then have "\<not> reaches_objective m layout i" if "i \<in> marked vs" for i
      using 1(3) that rtrancl_closed [of i _ "walk_step m layout" "marked vs"]
      by (auto simp: s search_inv_def reaches_objective_def)
    with Nil show ?thesis by (subst bfs.simps) (auto simp: s)
  next
    case (Cons i q)
    have i: "i \<in> marked vs" "length vs = tile_count m" using 1(3) by (auto simp: s Cons search_inv_def)
    then have len: "i < tile_count m" by (simp add: marked_def)
    show ?thesis
    proof (cases "mask_has_tile (am_objective_mask m) i")
      case True
      then have "reaches_objective m layout i" by (auto simp: reaches_objective_def)
      with True i show ?thesis by (subst bfs.simps) (auto simp: s Cons)
    next
      case False
      obtain vs' q' where e: "expand m layout i (vs, q) = Inr (vs', q')" "length vs' = tile_count m"
        "marked vs' = marked vs \<union> walk_step m layout `` {i}" "set q' = set q \<union> (walk_step m layout `` {i} - marked vs)"
        using expand_gives [OF 1(2) i(2) len] by blast
      have inv: "search_inv m layout (vs', q')"
        unfolding search_inv_def fst_conv snd_conv
      proof (intro conjI ballI)
        show "set q' \<subseteq> marked vs'" using 1(3) by (auto simp: e s Cons search_inv_def)
        fix k assume "k \<in> marked vs' - set q'"
        then have "k = i \<or> k \<in> marked vs - set queue" by (auto simp: e Cons)
        then show "\<not> mask_has_tile (am_objective_mask m) k" "walk_step m layout `` {k} \<subseteq> marked vs'"
          using 1(3) False by (auto simp: e s search_inv_def)
      qed (rule e(2))
      have "(\<exists>k \<in> marked vs'. reaches_objective m layout k) \<longleftrightarrow> (\<exists>k \<in> marked vs. reaches_objective m layout k)"
        using i(1) by (auto simp: e(3) reaches_objective_def intro: converse_rtrancl_into_rtrancl)
      moreover have "bfs m layout s = bfs m layout (vs', q')"
        using False e(1) by (subst bfs.simps) (simp add: s Cons)
      ultimately show ?thesis using 1(1) [of i q "(vs', q')"] 1(2) inv False e(1) by (simp add: s Cons)
    qed
  qed
qed

lemma path_exists_correct:
  assumes "search_sizes m layout" "start < tile_count m"
  shows "path_exists_to_objective m layout start = Inr (reaches_objective m layout start)"
proof -
  let ?vs = "(replicate (tile_count m) False)[start := True]"
  have marked: "marked ?vs = {start}" using assms(2) by (auto simp: marked_def nth_list_update split: if_splits)
  then have "search_inv m layout (?vs, [start])" by (simp add: search_inv_def)
  from bfs_correct [OF assms(1) this] marked assms(2) show ?thesis
    by (simp add: path_exists_to_objective_def list_set_def)
qed

section \<open>Protected tiles\<close>

definition near_tile :: "arena_map_definition \<Rightarrow> int \<Rightarrow> nat \<Rightarrow> nat \<Rightarrow> bool" where
  "near_tile m radius i j \<longleftrightarrow>
     (let w = unat (am_width_tiles m) in
      \<bar>int (i mod w) - int (j mod w)\<bar> \<le> radius \<and> \<bar>int (i div w) - int (j div w)\<bar> \<le> radius)"

definition bools :: "arena_map_definition \<Rightarrow> bool list \<Rightarrow> bool" where
  "bools m p \<longleftrightarrow> length p = tile_count m"

text \<open>A step that marks at least the tiles \<open>N\<close> and clears none.\<close>

definition marks :: "arena_map_definition \<Rightarrow> (bool list \<Rightarrow> bool list outcome) \<Rightarrow> (nat \<Rightarrow> bool) \<Rightarrow> bool" where
  "marks m f N \<longleftrightarrow>
     (\<forall>p. bools m p \<longrightarrow> gives (f p) (\<lambda>p'. bools m p' \<and> (\<forall>i < tile_count m. p ! i \<or> N i \<longrightarrow> p' ! i)))"

lemma marksE: "marks m f N \<Longrightarrow> bools m p \<Longrightarrow>
     (\<And>p'. f p = Inr p' \<Longrightarrow> bools m p' \<Longrightarrow> \<forall>i < tile_count m. p ! i \<or> N i \<longrightarrow> p' ! i \<Longrightarrow> thesis) \<Longrightarrow> thesis"
  by (auto simp: marks_def gives_def)

lemma marks_fold: "(\<And>x. x \<in> set xs \<Longrightarrow> marks m (f x) (N x)) \<Longrightarrow> marks m (fold_m f xs) (\<lambda>i. \<exists>x \<in> set xs. N x i)"
proof (induction xs)
  case (Cons x xs)
  then have x: "marks m (f x) (N x)" and xs: "marks m (fold_m f xs) (\<lambda>i. \<exists>x \<in> set xs. N x i)" by simp_all
  show ?case
    unfolding marks_def
  proof (intro allI impI)
    fix p assume "bools m p"
    with x obtain p1 where p1: "f x p = Inr p1" "bools m p1" "\<forall>i < tile_count m. p ! i \<or> N x i \<longrightarrow> p1 ! i"
      by (auto simp: marks_def gives_def)
    with xs obtain p2 where "fold_m f xs p1 = Inr p2" "bools m p2"
      "\<forall>i < tile_count m. p1 ! i \<or> (\<exists>x \<in> set xs. N x i) \<longrightarrow> p2 ! i"
      by (auto simp: marks_def gives_def)
    with p1 show "gives (fold_m f (x # xs) p) (\<lambda>p'. bools m p' \<and> (\<forall>i < tile_count m. p ! i \<or> (\<exists>y \<in> set (x # xs). N y i) \<longrightarrow> p' ! i))"
      by auto
  qed
qed (simp add: marks_def)

lemma marks_weaken: "marks m f N \<Longrightarrow> (\<And>i. i < tile_count m \<Longrightarrow> M i \<Longrightarrow> N i) \<Longrightarrow> marks m f M"
  unfolding marks_def by (blast intro: gives_mono)

lemma coordinates_less:
  assumes "i < tile_count m"
  shows "int (i div unat (am_width_tiles m)) < uint (am_height_tiles m)" "int (i mod unat (am_width_tiles m)) < uint (am_width_tiles m)"
proof -
  have "i div unat (am_width_tiles m) < unat (am_height_tiles m)" "0 < unat (am_width_tiles m)"
    using tile_row_less assms by (auto simp: tile_count_def intro: gr0I)
  then show "int (i div unat (am_width_tiles m)) < uint (am_height_tiles m)" "int (i mod unat (am_width_tiles m)) < uint (am_width_tiles m)"
    unfolding uint_nat by (simp_all only: of_nat_less_iff mod_less_divisor)
qed

lemma tile_index_inverse: "tile_index w (i mod w) (i div w) = i"
  by (simp add: tile_index_def)

lemma marks_mark_tile:
  "marks m (mark_tile m (row, column)) (\<lambda>i. row = int (i div unat (am_width_tiles m)) \<and> column = int (i mod unat (am_width_tiles m)))"
proof (cases "row < 0 \<or> column < 0 \<or> uint (am_height_tiles m) \<le> row \<or> uint (am_width_tiles m) \<le> column")
  case True
  then have "\<not> (row = int (i div unat (am_width_tiles m)) \<and> column = int (i mod unat (am_width_tiles m)))"
    if "i < tile_count m" for i
    using coordinates_less [OF that] by auto
  then have "marks m Inr (\<lambda>i. row = int (i div unat (am_width_tiles m)) \<and> column = int (i mod unat (am_width_tiles m)))"
    by (auto simp: marks_def)
  moreover have "mark_tile m (row, column) = Inr" using True by (simp add: mark_tile_def fun_eq_iff)
  ultimately show ?thesis by simp
next
  case False
  then obtain r c where rc: "row = int r" "column = int c" by (metis nonneg_int_cases not_less)
  have "r < unat (am_height_tiles m)" "c < unat (am_width_tiles m)"
    using False unfolding rc uint_nat by linarith+
  then have "tile_index (unat (am_width_tiles m)) c r < tile_count m" using tile_index_less by simp
  with False show ?thesis
    by (auto simp: marks_def mark_tile_def list_set_def rc bools_def nth_list_update tile_index_inverse)
qed

definition radius_ok :: "i32 \<Rightarrow> bool" where
  "radius_ok radius \<longleftrightarrow> 0 \<le> sint radius \<and> sint radius \<le> 2147418112"

lemma marks_buffer:
  assumes "sized m" "j < tile_count m"
  shows "marks m (mark_with_buffer m radius j) (\<lambda>i. radius_ok radius \<and> near_tile m (sint radius) i j)"
proof -
  let ?w = "unat (am_width_tiles m)"
  define rcs where "rcs = List.product [wrap_i32 (int (j div ?w) - sint radius)..wrap_i32 (int (j div ?w) + sint radius)]
    [wrap_i32 (int (j mod ?w) - sint radius)..wrap_i32 (int (j mod ?w) + sint radius)]"
  have mem: "(int (i div ?w), int (i mod ?w)) \<in> set rcs"
    if "i < tile_count m" "radius_ok radius" "near_tile m (sint radius) i j" for i
  proof -
    have "uint (am_height_tiles m) \<le> 65535" "uint (am_width_tiles m) \<le> 65535"
      using unsigned_less [of "am_height_tiles m", where 'a = int] unsigned_less [of "am_width_tiles m", where 'a = int] by simp_all
    with coordinates_less [OF assms(2)] have "int (j div ?w) < 65535" "int (j mod ?w) < 65535" by linarith+
    moreover have "0 \<le> int (j div ?w)" "0 \<le> int (j mod ?w)" by simp_all
    ultimately have "wrap_i32 (int (j div ?w) - sint radius) = int (j div ?w) - sint radius"
      "wrap_i32 (int (j div ?w) + sint radius) = int (j div ?w) + sint radius"
      "wrap_i32 (int (j mod ?w) - sint radius) = int (j mod ?w) - sint radius"
      "wrap_i32 (int (j mod ?w) + sint radius) = int (j mod ?w) + sint radius"
      using that(2) unfolding radius_ok_def by (intro wrap_i32_id; linarith)+
    with that(3) show ?thesis
      unfolding rcs_def set_product mem_Sigma_iff set_upto atLeastAtMost_iff near_tile_def Let_def by linarith
  qed
  have eq: "mark_with_buffer m radius j = fold_m (mark_tile m) rcs"
    by (simp add: mark_with_buffer_def index_to_coord_eq [OF assms(1)] rcs_def fun_eq_iff)
  have "marks m (fold_m (mark_tile m) rcs)
      (\<lambda>i. \<exists>rc \<in> set rcs. rc = (int (i div ?w), int (i mod ?w)))"
    by (rule marks_fold) (use marks_mark_tile in \<open>auto elim!: marks_weaken\<close>)
  then show ?thesis unfolding eq by (rule marks_weaken) (use mem in blast)
qed

definition special_centers :: "arena_map_definition \<Rightarrow> (i16 \<times> i16) list" where
  "special_centers m = am_team_a_anchors m @ am_team_b_anchors m @ map (\<lambda>f. (amf_center_x f, amf_center_y f)) (am_features m)"

definition special_tile :: "arena_map_definition \<Rightarrow> nat \<Rightarrow> bool" where
  "special_tile m j \<longleftrightarrow> (j < tile_count m \<and> mask_has_tile (am_objective_mask m) j) \<or>
     (\<exists>(x, y) \<in> set (special_centers m). tile_index_for_center m x y = Inr j)"

text \<open>Every anchor and every feature stands on a tile.\<close>

definition centers_land :: "arena_map_definition \<Rightarrow> bool" where
  "centers_land m \<longleftrightarrow> (\<forall>(x, y) \<in> set (special_centers m). gives (tile_index_for_center m x y) (\<lambda>i. i < tile_count m))"

lemma marks_center:
  assumes "sized m" "gives (tile_index_for_center m (fst xy) (snd xy)) (\<lambda>i. i < tile_count m)"
  shows "marks m (mark_center m radius xy)
     (\<lambda>i. \<exists>j. tile_index_for_center m (fst xy) (snd xy) = Inr j \<and> radius_ok radius \<and> near_tile m (sint radius) i j)"
proof -
  obtain j where j: "tile_index_for_center m (fst xy) (snd xy) = Inr j" "j < tile_count m"
    using assms(2) by (auto simp: gives_def)
  then have "mark_center m radius xy = mark_with_buffer m radius j"
    by (simp add: mark_center_def fun_eq_iff)
  with marks_buffer [OF assms(1) j(2), of radius] j(1) show ?thesis by (auto elim: marks_weaken)
qed

lemma protected_tiles_gives:
  assumes "sized m" "centers_land m"
  shows "gives (protected_tiles m radius) (\<lambda>p. bools m p \<and>
     (radius_ok radius \<longrightarrow> (\<forall>j i. special_tile m j \<and> i < tile_count m \<and> near_tile m (sint radius) i j \<longrightarrow> p ! i)))"
proof -
  let ?N = "\<lambda>xy i. \<exists>j. tile_index_for_center m (fst xy) (snd xy) = Inr j \<and> radius_ok radius \<and> near_tile m (sint radius) i j"
  have "bools m (replicate (tile_count m) False)" by (simp add: bools_def)
  moreover have obj: "marks m (fold_m (mark_with_buffer m radius) (objective_indices m))
      (\<lambda>i. \<exists>j \<in> set (objective_indices m). radius_ok radius \<and> near_tile m (sint radius) i j)"
    by (rule marks_fold) (auto simp: objective_indices_def intro: marks_buffer [OF assms(1)])
  ultimately obtain p1 where p1: "fold_m (mark_with_buffer m radius) (objective_indices m) (replicate (tile_count m) False) = Inr p1"
    "bools m p1" "\<forall>i < tile_count m. (\<exists>j \<in> set (objective_indices m). radius_ok radius \<and> near_tile m (sint radius) i j) \<longrightarrow> p1 ! i"
    by (auto simp: marks_def gives_def)
  have centers: "marks m (fold_m (mark_center m radius) xys) (\<lambda>i. \<exists>xy \<in> set xys. ?N xy i)"
    if "set xys \<subseteq> set (special_centers m)" for xys
    by (rule marks_fold, rule marks_center [OF assms(1)]) (use that assms(2) in \<open>fastforce simp: centers_land_def\<close>)
  obtain p2 where p2: "fold_m (mark_center m radius) (am_team_a_anchors m @ am_team_b_anchors m) p1 = Inr p2" "bools m p2"
    "\<forall>i < tile_count m. p1 ! i \<or> (\<exists>xy \<in> set (am_team_a_anchors m @ am_team_b_anchors m). ?N xy i) \<longrightarrow> p2 ! i"
    by (rule marksE [OF centers p1(2), of "am_team_a_anchors m @ am_team_b_anchors m"]) (force simp: special_centers_def, blast)
  let ?fs = "map (\<lambda>f. (amf_center_x f, amf_center_y f)) (am_features m)"
  obtain p3 where p3: "fold_m (mark_center m radius) ?fs p2 = Inr p3" "bools m p3"
    "\<forall>i < tile_count m. p2 ! i \<or> (\<exists>xy \<in> set ?fs. ?N xy i) \<longrightarrow> p3 ! i"
    by (rule marksE [OF centers p2(2), of ?fs]) (force simp: special_centers_def, blast)
  have "p3 ! i" if "radius_ok radius" "special_tile m j" "i < tile_count m" "near_tile m (sint radius) i j" for i j
  proof -
    have "j \<in> set (objective_indices m) \<or> (\<exists>xy \<in> set (special_centers m). ?N xy i)"
      using that unfolding special_tile_def objective_indices_def by force
    moreover have "set (special_centers m) = set (am_team_a_anchors m @ am_team_b_anchors m) \<union> set ?fs"
      by (auto simp: special_centers_def)
    ultimately have "j \<in> set (objective_indices m) \<or> (\<exists>xy \<in> set (am_team_a_anchors m @ am_team_b_anchors m). ?N xy i) \<or> (\<exists>xy \<in> set ?fs. ?N xy i)"
      by blast
    then show ?thesis using that p1(3) p2(3) p3(3) by blast
  qed
  with p1(1) p2(1) p3(1,2) show ?thesis by (auto simp: protected_tiles_def gives_def)
qed

section \<open>Candidates\<close>

definition free_tile :: "arena_map_definition \<Rightarrow> bool list \<Rightarrow> nat \<Rightarrow> bool" where
  "free_tile m p i \<longleftrightarrow> i < tile_count m \<and> mask_has_tile (am_footprint_mask m) i \<and> \<not> p ! i"

definition good_orbit :: "arena_map_definition \<Rightarrow> bool list \<Rightarrow> nat list \<Rightarrow> bool" where
  "good_orbit m p orbit \<longleftrightarrow> orbit \<noteq> [] \<and> (\<forall>i \<in> set orbit. free_tile m p i)"

lemma mirror_gives:
  assumes "sized m"
  shows "gives (mirror_coordinate_across_diagonal m column row) (\<lambda>(c, r). c < unat (am_width_tiles m) \<and> r < unat (am_height_tiles m))"
proof -
  have "nat (max 0 (min (uint w - 1) x)) < unat w" if "w \<noteq> 0" for w :: u16 and x
  proof -
    have "0 < uint w" using that by (metis uint_0_iff uint_ge_0 order_le_less)
    then show ?thesis unfolding unsigned_def by (simp add: nat_less_iff min_def max_def)
  qed
  with assms show ?thesis by (simp add: mirror_coordinate_across_diagonal_def sized_def Let_def)
qed

lemma mirror_orbit_from_gives:
  assumes "sized m"
  shows "c < unat (am_width_tiles m) \<Longrightarrow> r < unat (am_height_tiles m) \<Longrightarrow> finite orbit \<Longrightarrow> \<forall>i \<in> orbit. i < tile_count m \<Longrightarrow>
     gives (mirror_orbit_from n m orbit (c, r)) (\<lambda>orbit'. finite orbit' \<and> orbit \<subseteq> orbit' \<and> (\<forall>i \<in> orbit'. i < tile_count m) \<and>
       (0 < n \<longrightarrow> tile_index (unat (am_width_tiles m)) c r \<in> orbit'))"
proof (induction n arbitrary: c r orbit)
  case (Suc n)
  let ?i = "tile_index (unat (am_width_tiles m)) c r"
  show ?case
  proof (cases "?i \<in> orbit")
    case False
    obtain c' r' where m: "mirror_coordinate_across_diagonal m c r = Inr (c', r')" "c' < unat (am_width_tiles m)" "r' < unat (am_height_tiles m)"
      using mirror_gives [OF assms, of c r] by (auto simp: gives_def)
    have "finite (insert ?i orbit)" "\<forall>i \<in> insert ?i orbit. i < tile_count m" using Suc.prems tile_index_less by auto
    from Suc.IH [OF m(2,3) this] False m(1) show ?thesis by (auto elim!: gives_mono)
  qed (use Suc.prems in auto)
qed simp

lemma mirror_orbit_gives:
  assumes "sized m" "c < unat (am_width_tiles m)" "r < unat (am_height_tiles m)"
  shows "gives (mirror_orbit m c r) (\<lambda>orbit. tile_index (unat (am_width_tiles m)) c r \<in> set orbit \<and> (\<forall>i \<in> set orbit. i < tile_count m))"
proof -
  from mirror_orbit_from_gives [OF assms, of "{}" 8] obtain orbit where "mirror_orbit_from 8 m {} (c, r) = Inr orbit" "finite orbit"
    "\<forall>i \<in> orbit. i < tile_count m" "tile_index (unat (am_width_tiles m)) c r \<in> orbit"
    by (auto simp: gives_def)
  then show ?thesis by (simp add: mirror_orbit_def)
qed

lemma tile_free_eq: "bools m p \<Longrightarrow> i < tile_count m \<Longrightarrow> tile_free m p i = Inr (free_tile m p i)"
  by (simp add: tile_free_def list_at_def bools_def free_tile_def)

lemma add_candidate_gives:
  assumes "sized m" "bools m p" "r < unat (am_height_tiles m)" "c < unat (am_width_tiles m)" "\<forall>orbit \<in> set orbits. good_orbit m p orbit"
  shows "gives (add_candidate_orbit m p (r, c) (seen, orbits)) (\<lambda>(seen, orbits). \<forall>orbit \<in> set orbits. good_orbit m p orbit)"
proof -
  obtain orbit where o: "mirror_orbit m c r = Inr orbit" "orbit \<noteq> []" "\<forall>i \<in> set orbit. i < tile_count m"
    by (rule givesE [OF mirror_orbit_gives [OF assms(1,4,3)]]) force
  then have "all_m (tile_free m p) orbit = Inr (\<forall>i \<in> set orbit. free_tile m p i)"
    by (intro all_m_eq) (simp add: tile_free_eq [OF assms(2)])
  with o assms tile_index_less [OF assms(3,4)] show ?thesis
    by (auto simp: add_candidate_orbit_def tile_free_eq Let_def good_orbit_def)
qed

lemma collect_candidates_gives:
  assumes "sized m" "bools m p"
  shows "gives (collect_candidate_orbits m p) (\<lambda>orbits. \<forall>orbit \<in> set orbits. good_orbit m p orbit)"
proof -
  have "gives (fold_m (add_candidate_orbit m p) (map_tiles (unat (am_width_tiles m)) (unat (am_height_tiles m))) ({}, []))
      (\<lambda>(seen, orbits). \<forall>orbit \<in> set orbits. good_orbit m p orbit)"
    by (rule gives_fold_m) (auto intro!: add_candidate_gives assms)
  then show ?thesis by (auto simp: collect_candidate_orbits_def elim!: gives_mono)
qed

section \<open>Layouts\<close>

definition layout_inv :: "arena_map_definition \<Rightarrow> bool list \<Rightarrow> obstacle_layout \<Rightarrow> bool" where
  "layout_inv m p l \<longleftrightarrow> length l = tile_count m \<and> (\<forall>i < tile_count m. l ! i \<noteq> None \<longrightarrow> free_tile m p i)"

lemma place_gives:
  assumes "layout_inv m p l" "\<forall>i \<in> set indices. free_tile m p i"
  shows "gives (place kind indices l) (layout_inv m p)"
  unfolding place_def
proof (rule gives_fold_m)
  fix i l assume "i \<in> set indices" "layout_inv m p l"
  with assms(2) show "gives (list_set l i (Some kind)) (layout_inv m p)"
    by (auto simp: list_set_def layout_inv_def nth_list_update free_tile_def)
qed (rule assms(1))

lemma orbit_safe_gives: "sized m \<Longrightarrow> gives (orbit_is_pillar_safe m generation orbit) (\<lambda>_. True)"
  unfolding orbit_is_pillar_safe_def by (rule all_m_gives) (simp add: index_to_coord_eq)

lemma wall_steps_gives:
  assumes "sized m" "bools m p" "layout_inv m p l"
  shows "finite indices \<Longrightarrow> \<forall>i \<in> indices. free_tile m p i \<Longrightarrow>
     gives (wall_steps m generation l p start direction step n indices) (pred_option (\<lambda>is. finite is \<and> (\<forall>i \<in> is. free_tile m p i)))"
proof (induction n arbitrary: step indices)
  case (Suc n)
  let ?c = "fst start + fst direction * int step" and ?r = "snd start + snd direction * int step"
  show ?case
  proof (cases "?c < 0 \<or> ?r < 0 \<or> uint (am_width_tiles m) \<le> ?c \<or> uint (am_height_tiles m) \<le> ?r")
    case False
    then have "nat ?c < unat (am_width_tiles m)" "nat ?r < unat (am_height_tiles m)"
      unfolding unsigned_def by (simp_all add: nat_less_iff)
    from mirror_orbit_gives [OF assms(1) this] obtain orbit where
      o: "mirror_orbit m (nat ?c) (nat ?r) = Inr orbit" "\<forall>i \<in> set orbit. i < tile_count m"
      by (auto simp: gives_def)
    obtain safe where safe: "orbit_is_pillar_safe m generation orbit = Inr safe"
      using orbit_safe_gives [OF assms(1)] by (auto simp: gives_def)
    have "all_m (wall_tile_free m p l) orbit = Inr (\<forall>i \<in> set orbit. free_tile m p i \<and> l ! i = None)"
      using assms o(2) by (intro all_m_eq) (auto simp: wall_tile_free_def bools_def free_tile_def list_at_def layout_inv_def)
    moreover have "gives (wall_steps m generation l p start direction (Suc step) n (indices \<union> set orbit))
        (pred_option (\<lambda>is. finite is \<and> (\<forall>i \<in> is. free_tile m p i)))" if "\<forall>i \<in> set orbit. free_tile m p i \<and> l ! i = None"
      by (rule Suc.IH) (use Suc.prems that in auto)
    ultimately show ?thesis using False o(1) safe by (simp add: Let_def)
  qed simp
qed simp

lemma try_wall_gives:
  assumes "sized m" "bools m p" "layout_inv m p l"
  shows "gives (try_place_wall_segment m generation l p start direction len) (pred_option (layout_inv m p))"
proof -
  obtain r where "wall_steps m generation l p start direction 0 (nat (sint len)) {} = Inr r"
    "pred_option (\<lambda>is. finite is \<and> (\<forall>i \<in> is. free_tile m p i)) r"
    by (rule givesE [OF wall_steps_gives [OF assms, of "{}"]]) simp_all
  then show ?thesis
    by (cases r) (auto simp: try_place_wall_segment_def intro!: gives_mono [OF place_gives [OF assms(3)]])
qed

lemma try_directions_gives:
  assumes "sized m" "bools m p" "layout_inv m p l"
  shows "gives (try_directions m generation l p start preferred directions) (pred_option (layout_inv m p))"
proof (induction directions)
  case (Cons d directions)
  obtain r where r: "try_place_wall_segment m generation l p start d preferred = Inr r" "pred_option (layout_inv m p) r"
    by (rule givesE [OF try_wall_gives [OF assms]])
  obtain r' where r': "try_place_wall_segment m generation l p start d (gc_wall_segment_lengths_tiles generation ! 0) = Inr r'"
    "pred_option (layout_inv m p) r'"
    by (rule givesE [OF try_wall_gives [OF assms]])
  from r r' Cons show ?case by (cases r; cases r') (auto simp: Let_def)
qed simp

lemma orbit_coord_gives:
  assumes "sized m" "good_orbit m p orbit"
  obtains rc where "orbit_coord m orbit = Inr rc"
  using assms by (simp add: orbit_coord_def list_at_def good_orbit_def index_to_coord_eq)

abbreviation state_inv :: "arena_map_definition \<Rightarrow> bool list \<Rightarrow> layout_state \<Rightarrow> bool" where
  "state_inv m p s \<equiv> layout_inv m p (ls_layout s)"

lemma place_walls_gives:
  assumes "sized m" "bools m p"
  shows "state_inv m p s \<Longrightarrow> \<forall>orbit \<in> set orbits. good_orbit m p orbit \<Longrightarrow>
     gives (place_walls m generation p remaining orbits s) (state_inv m p)"
proof (induction orbits arbitrary: remaining s)
  case (Cons orbit orbits)
  obtain rc where rc: "orbit_coord m orbit = Inr rc" by (rule orbit_coord_gives [OF assms(1)]) (use Cons.prems(2) in auto)
  have "gives (try_directions m generation (ls_layout s) p rc preferred directions) (pred_option (layout_inv m p))" for preferred directions
    by (rule try_directions_gives [OF assms Cons.prems(1)])
  then obtain t where t: "try_directions m generation (ls_layout s) p rc preferred directions = Inr (t preferred directions)"
    "pred_option (layout_inv m p) (t preferred directions)" for preferred directions
    unfolding gives_def by metis
  have "layout_inv m p l" if "t preferred directions = Some l" for l preferred directions
    using t(2) [of preferred directions] that by simp
  then show ?case using Cons.IH Cons.prems rc
    by (auto simp: t(1) Let_def split: option.splits prod.splits)
qed simp

lemma place_pillars_gives:
  assumes "sized m"
  shows "state_inv m p s \<Longrightarrow> \<forall>orbit \<in> set orbits. good_orbit m p orbit \<Longrightarrow>
     gives (place_pillars m generation remaining orbits s) (state_inv m p)"
proof (induction orbits arbitrary: remaining s)
  case (Cons orbit orbits)
  obtain rc where rc: "orbit_coord m orbit = Inr rc" by (rule orbit_coord_gives [OF assms]) (use Cons.prems(2) in auto)
  obtain safe where safe: "orbit_is_pillar_safe m generation orbit = Inr safe"
    using orbit_safe_gives [OF assms] by (auto simp: gives_def)
  obtain l where l: "place MapPillar orbit (ls_layout s) = Inr l" "layout_inv m p l"
    by (rule givesE [OF place_gives [OF Cons.prems(1), of orbit]]) (use Cons.prems(2) in \<open>auto simp: good_orbit_def\<close>)
  show ?case using Cons.IH Cons.prems rc safe l by (auto simp: Let_def split: prod.splits)
qed simp

lemma place_shrubs_gives:
  assumes "sized m"
  shows "state_inv m p s \<Longrightarrow> \<forall>orbit \<in> set orbits. good_orbit m p orbit \<Longrightarrow>
     gives (place_shrubs m style centers orbits s) (state_inv m p)"
proof (induction orbits arbitrary: s)
  case (Cons orbit orbits)
  obtain rc where rc: "orbit_coord m orbit = Inr rc" by (rule orbit_coord_gives [OF assms]) (use Cons.prems(2) in auto)
  obtain l where l: "place MapShrub orbit (ls_layout s) = Inr l" "layout_inv m p l"
    by (rule givesE [OF place_gives [OF Cons.prems(1), of orbit]]) (use Cons.prems(2) in \<open>auto simp: good_orbit_def\<close>)
  have all_open: "all_m (\<lambda>i. and_then (list_at (ls_layout s) i) (\<lambda>kind. Inr (kind \<noteq> Some MapPillar))) orbit =
      Inr (\<forall>i \<in> set orbit. ls_layout s ! i \<noteq> Some MapPillar)"
    using Cons.prems by (intro all_m_eq) (auto simp: list_at_def layout_inv_def good_orbit_def free_tile_def)
  show ?case using Cons.IH Cons.prems rc l by (auto simp: all_open Let_def split: prod.splits)
qed simp

lemma build_layout_gives:
  assumes "sized m" "bools m p" "\<forall>orbit \<in> set orbits. good_orbit m p orbit"
  shows "gives (build_obstacle_layout m generation orbits p style rng) (\<lambda>(l, _). layout_inv m p l)"
proof -
  have "gives (map_m (orbit_coord m) (take n orbits)) (list_all2 (\<lambda>_ _. True) (take n orbits))" for n
  proof (rule gives_map_m)
    fix orbit assume "orbit \<in> set (take n orbits)"
    then have "good_orbit m p orbit" using assms(3) in_set_takeD by fast
    then show "gives (orbit_coord m orbit) (\<lambda>_. True)" by (auto simp: gives_def intro: orbit_coord_gives [OF assms(1)])
  qed
  then obtain centers where c: "map_m (orbit_coord m) (take (unat (gs_shrub_clusters style)) orbits) = Inr centers"
    by (auto simp: gives_def)
  let ?s = "\<lparr>ls_layout = replicate (tile_count m) None, ls_representatives = [], ls_rng = rng\<rparr>"
  have "state_inv m p ?s" by (simp add: layout_inv_def)
  then obtain s1 where s1: "place_walls m generation p (unat (gs_wall_segments style)) orbits ?s = Inr s1" "state_inv m p s1"
    using place_walls_gives [OF assms(1,2)] assms(3) unfolding gives_def by blast
  obtain s2 where s2: "place_pillars m generation (unat (gs_isolated_pillars style)) orbits s1 = Inr s2" "state_inv m p s2"
    using place_pillars_gives [OF assms(1) s1(2) assms(3)] unfolding gives_def by blast
  obtain s3 where "place_shrubs m style centers orbits s2 = Inr s3" "state_inv m p s3"
    using place_shrubs_gives [OF assms(1) s2(2) assms(3)] unfolding gives_def by blast
  with c s1 s2 show ?thesis by (simp add: build_obstacle_layout_def)
qed

section \<open>The generated map\<close>

lemma anchors_reach:
  assumes "search_sizes m layout" "centers_land m"
  shows "all_spawn_anchors_reach_objective m layout = Inr
     ((\<exists>i < tile_count m. mask_has_tile (am_objective_mask m) i) \<and>
      (\<forall>(x, y) \<in> set (am_team_a_anchors m @ am_team_b_anchors m).
         \<exists>start. tile_index_for_center m x y = Inr start \<and> reaches_objective m layout start))"
proof -
  have anchor: "anchor_reaches_objective m layout a =
      Inr (\<exists>start. tile_index_for_center m (fst a) (snd a) = Inr start \<and> reaches_objective m layout start)"
    if a: "a \<in> set (am_team_a_anchors m @ am_team_b_anchors m)" for a
  proof -
    have "gives (tile_index_for_center m (fst a) (snd a)) (\<lambda>i. i < tile_count m)"
      using a assms(2) by (force simp: centers_land_def special_centers_def)
    then obtain i where "tile_index_for_center m (fst a) (snd a) = Inr i" "i < tile_count m" by (rule givesE)
    then show ?thesis by (simp add: anchor_reaches_objective_def path_exists_correct [OF assms(1)])
  qed
  show ?thesis
  proof (cases "first_objective_index m")
    case None
    then have "\<not> (\<exists>i < tile_count m. mask_has_tile (am_objective_mask m) i)"
      by (simp add: first_objective_index_def find_None_iff)
    with None show ?thesis by (simp add: all_spawn_anchors_reach_objective_def)
  next
    case (Some i)
    then have "\<exists>i < tile_count m. mask_has_tile (am_objective_mask m) i"
      by (auto simp: first_objective_index_def find_Some_iff)
    moreover have "all_m (anchor_reaches_objective m layout) (am_team_a_anchors m @ am_team_b_anchors m) =
        Inr (\<forall>a \<in> set (am_team_a_anchors m @ am_team_b_anchors m).
          \<exists>start. tile_index_for_center m (fst a) (snd a) = Inr start \<and> reaches_objective m layout start)"
      by (rule all_m_eq) (rule anchor)
    ultimately show ?thesis using Some by (simp add: all_spawn_anchors_reach_objective_def case_prod_beta)
  qed
qed

definition obstacle_for :: "arena_map_definition \<Rightarrow> obstacle_layout \<Rightarrow> nat \<Rightarrow> arena_map_obstacle" where
  "obstacle_for m layout i =
     (let w = unat (am_width_tiles m); center = tile_center_units m (int (i mod w)) (int (i div w)) in
      map_obstacle (the (layout ! i)) (fst center) (snd center) (am_tile_units m))"

definition obstacles_of :: "arena_map_definition \<Rightarrow> obstacle_layout \<Rightarrow> arena_map_obstacle list" where
  "obstacles_of m layout = map (obstacle_for m layout) (filter (\<lambda>i. layout ! i \<noteq> None) [0..<length layout])"

lemma layout_obstacles_eq: "sized m \<Longrightarrow> obstacle_layout_to_map_obstacles m layout = Inr (obstacles_of m layout)"
  unfolding obstacle_layout_to_map_obstacles_def obstacles_of_def
  by (rule map_m_eq) (simp add: index_to_coord_eq obstacle_for_def map_obstacle_def Let_def)

text \<open>What the generator promises of a layout: obstacles cover footprint tiles away from objective, anchors and features, and
  every anchor still has a way to the objective.\<close>

definition fair_layout :: "arena_map_definition \<Rightarrow> i32 \<Rightarrow> obstacle_layout \<Rightarrow> bool" where
  "fair_layout m radius layout \<longleftrightarrow> length layout = tile_count m \<and>
     (\<forall>i < tile_count m. layout ! i \<noteq> None \<longrightarrow> mask_has_tile (am_footprint_mask m) i \<and>
        (radius_ok radius \<longrightarrow> (\<forall>j. special_tile m j \<longrightarrow> \<not> near_tile m (sint radius) i j))) \<and>
     (\<forall>(x, y) \<in> set (am_team_a_anchors m @ am_team_b_anchors m).
        \<exists>start. tile_index_for_center m x y = Inr start \<and> reaches_objective m layout start)"

lemma generate_attempts_gives:
  assumes m: "sized m" "centers_land m" "bools m p" and orbits: "\<forall>orbit \<in> set orbits. good_orbit m p orbit"
    and p: "radius_ok radius \<longrightarrow> (\<forall>j i. special_tile m j \<and> i < tile_count m \<and> near_tile m (sint radius) i j \<longrightarrow> p ! i)"
  shows "gives (generate_attempts m generation orbits p style n rng) (pred_option (fair_layout m radius))"
proof (induction n arbitrary: rng)
  case (Suc n)
  obtain order rng1 where s: "map_shuffle orbits rng = (order, rng1)" by fastforce
  with orbits have "\<forall>orbit \<in> set order. good_orbit m p orbit" by (simp add: set_map_shuffle)
  then obtain layout rng2 where l: "build_obstacle_layout m generation order p style rng1 = Inr (layout, rng2)" "layout_inv m p layout"
    by (auto elim!: givesE [OF build_layout_gives [OF m(1,3)]])
  then have sizes: "search_sizes m layout" using m(1) by (simp add: search_sizes_def layout_inv_def)
  have "fair_layout m radius layout" if "\<forall>(x, y) \<in> set (am_team_a_anchors m @ am_team_b_anchors m).
         \<exists>start. tile_index_for_center m x y = Inr start \<and> reaches_objective m layout start"
    using l(2) p that unfolding fair_layout_def layout_inv_def free_tile_def by blast
  then show ?case
    using Suc.IH by (simp add: s l(1) anchors_reach [OF sizes m(2)])
qed simp

definition generator_error :: "rstring \<Rightarrow> content_error \<Rightarrow> bool" where
  "generator_error map_id e \<longleftrightarrow> (\<exists>message. e = ContentValidation (lit ''generated map '' @ map_id) message)"

lemma generator_outcome:
  assumes "sized m" "centers_land m" "gc_styles generation \<noteq> []"
  shows "(\<exists>e. generate_template_match_map m generation map_id seed = Inl (Err e) \<and> generator_error map_id e) \<or>
     (\<exists>layout. fair_layout m (gc_protected_tile_buffer_radius_tiles generation) layout \<and>
        generate_template_match_map m generation map_id seed =
          Inr (m\<lparr>am_map_id := map_id, am_obstacles := obstacles_of m layout\<rparr>))"
proof -
  let ?radius = "gc_protected_tile_buffer_radius_tiles generation"
  obtain p where p: "protected_tiles m ?radius = Inr p" "bools m p"
    "radius_ok ?radius \<longrightarrow> (\<forall>j i. special_tile m j \<and> i < tile_count m \<and> near_tile m (sint ?radius) i j \<longrightarrow> p ! i)"
    by (rule givesE [OF protected_tiles_gives [OF assms(1,2), of ?radius]]) blast
  obtain orbits where o: "collect_candidate_orbits m p = Inr orbits" "\<forall>orbit \<in> set orbits. good_orbit m p orbit"
    by (rule givesE [OF collect_candidates_gives [OF assms(1) p(2)]])
  obtain style rng where style: "pick_generation_style generation (map_rng_new seed) = Inr (style, rng)"
    using assms(3) by (cases "next_u32 (map_rng_new seed)") (simp add: pick_generation_style_def Let_def)
  obtain r where r: "generate_attempts m generation orbits p style (unat (gc_max_generation_attempts generation)) rng = Inr r"
    "pred_option (fair_layout m ?radius) r"
    by (rule givesE [OF generate_attempts_gives [OF assms(1,2) p(2) o(2) p(3)]])
  show ?thesis
    by (cases r) (use r(2) in \<open>auto simp: generate_template_match_map_def Let_def p(1) o(1) style r(1) layout_obstacles_eq [OF assms(1)]
      generator_error_def\<close>)
qed

end
