(* ===== verification/Map_Text.thy ===== *)
theory Map_Text
  imports Map_Generation_Facts
begin

text \<open>
  Parsed maps meet what the generator and the renderer expect: every centre lands on its tile.
  \<open>grid_shows n h w f glyphs\<close> relates the renderer's rows to glyphs by tile.
\<close>

section \<open>Centres of parsed maps\<close>

lemma wf_dims_sized: "wf_map_dims m \<Longrightarrow> sized m"
  by (auto simp: wf_map_dims_def sized_def)

lemma tile_index_for_center_of:
  assumes "wf_map_dims m" "r < unat (am_height_tiles m)" "c < unat (am_width_tiles m)"
  shows "tile_index_for_center m (fst (center_of m (r, c))) (snd (center_of m (r, c))) =
     Inr (tile_index (unat (am_width_tiles m)) c r)"
proof -
  let ?tu = "uint (am_tile_units m)"
  have tu: "0 < ?tu" using assms(1) by (metis wf_map_dims_def uint_0_iff uint_ge_0 order_le_less)
  have units: "uint (am_width_units m) = uint (am_width_tiles m) * ?tu" "uint (am_height_units m) = uint (am_height_tiles m) * ?tu"
    using assms(1) unfolding uint_nat by (simp_all add: wf_map_dims_def)
  have "int c < uint (am_width_tiles m)" "int r < uint (am_height_tiles m)" using assms unfolding uint_nat by linarith+
  then have less: "int c * ?tu < uint (am_width_units m)" "int r * ?tu < uint (am_height_units m)" using tu units by simp_all
  show ?thesis
    unfolding tile_index_for_center_def Let_def wf_dims_center(2,3) [OF assms] using tu less
    by (simp add: not_le not_less)
qed

lemma map_shows_centers:
  assumes "map_shows m g"
  shows "am_team_a_anchors m = map (center_of m) (tiles_with g {65} (tiles_of m))"
    "am_team_b_anchors m = map (center_of m) (tiles_with g {66} (tiles_of m))"
    "am_features m = map (feature_at g (center_of m)) (tiles_with g {100, 68} (tiles_of m))"
    "am_obstacles m = map (obstacle_at g (center_of m) (am_tile_units m)) (tiles_with g {35, 43} (tiles_of m))"
  using assms by (simp_all add: map_shows_def Let_def)

lemma map_shows_lands:
  assumes "map_shows m g"
  shows "centers_land m"
proof -
  have wf: "wf_map_dims m" using assms by (simp add: map_shows_def)
  let ?tiles = "\<lambda>G. tiles_with g G (tiles_of m)"
  have "special_centers m = map (center_of m) (?tiles {65} @ ?tiles {66} @ ?tiles {100, 68})"
    by (simp add: special_centers_def map_shows_centers [OF assms] feature_at_def comp_def)
  moreover have "set (?tiles G) \<subseteq> set (tiles_of m)" for G by (auto simp: tiles_with_def)
  ultimately have "set (special_centers m) \<subseteq> center_of m ` set (tiles_of m)" by simp blast
  moreover have "gives (tile_index_for_center m (fst (center_of m rc)) (snd (center_of m rc))) (\<lambda>i. i < tile_count m)"
    if "rc \<in> set (tiles_of m)" for rc
  proof -
    obtain r c where rc: "rc = (r, c)" by fastforce
    with that have "r < unat (am_height_tiles m)" "c < unat (am_width_tiles m)" by (simp_all add: tiles_of_def)
    from tile_index_for_center_of [OF wf this] tile_index_less [OF this] show ?thesis unfolding rc by simp
  qed
  ultimately show ?thesis unfolding centers_land_def case_prod_beta by blast
qed

section \<open>Rows of glyphs\<close>

definition grid_of :: "arena_map_definition \<Rightarrow> (nat \<Rightarrow> nat \<Rightarrow> rchar) \<Rightarrow> rchar list list" where
  "grid_of m f = map (\<lambda>r. map (f r) [0..<unat (am_width_tiles m)]) [0..<unat (am_height_tiles m)]"

lemma grid_of_cong: "(\<And>r c. r < unat (am_height_tiles m) \<Longrightarrow> c < unat (am_width_tiles m) \<Longrightarrow> f r c = g r c) \<Longrightarrow> grid_of m f = grid_of m g"
  by (simp add: grid_of_def)

definition repaint :: "(nat \<Rightarrow> nat \<Rightarrow> rchar) \<Rightarrow> (nat \<times> nat) list \<Rightarrow> (nat \<Rightarrow> nat \<Rightarrow> rchar) \<Rightarrow> nat \<Rightarrow> nat \<Rightarrow> rchar" where
  "repaint h tiles f r c = (if (r, c) \<in> set tiles then h r c else f r c)"

lemma map_upt_update: "c < n \<Longrightarrow> (map f [0..<n])[c := x] = map (f(c := x)) [0..<n]"
  by (rule nth_equalityI) (auto simp: nth_list_update)

lemma put_glyph_grid:
  assumes "r < unat (am_height_tiles m)" "c < unat (am_width_tiles m)"
  shows "put_glyph m x (tile_index (unat (am_width_tiles m)) c r) (grid_of m f) = Inr (grid_of m (f(r := (f r)(c := x))))"
proof -
  have "map (\<lambda>r'. map ((f(r := (f r)(c := x))) r') [0..<unat (am_width_tiles m)]) [0..<unat (am_height_tiles m)] =
      (map (\<lambda>r. map (f r) [0..<unat (am_width_tiles m)]) [0..<unat (am_height_tiles m)])
        [r := map ((f r)(c := x)) [0..<unat (am_width_tiles m)]]"
    using assms by (subst map_upt_update) (auto intro: map_cong)
  then show ?thesis using assms
    by (simp add: put_glyph_def Let_def list_at_def list_set_def tile_index_def grid_of_def map_upt_update)
qed

lemma fold_put_grid:
  assumes "\<forall>(r, c) \<in> set tiles. r < unat (am_height_tiles m) \<and> c < unat (am_width_tiles m)"
    "\<And>r c glyphs. (r, c) \<in> set tiles \<Longrightarrow>
       step (item (r, c)) glyphs = put_glyph m (h r c) (tile_index (unat (am_width_tiles m)) c r) glyphs"
  shows "fold_m step (map item tiles) (grid_of m f) = Inr (grid_of m (repaint h tiles f))"
  using assms
proof (induction tiles arbitrary: f)
  case (Cons rc tiles)
  obtain r c where rc: "rc = (r, c)" by fastforce
  have "step (item rc) (grid_of m f) = Inr (grid_of m (f(r := (f r)(c := h r c))))"
    using Cons.prems(1) Cons.prems(2) [of r c] by (simp add: rc put_glyph_grid)
  moreover have "repaint h tiles (f(r := (f r)(c := h r c))) = repaint h (rc # tiles) f"
    by (auto simp: repaint_def fun_eq_iff rc)
  moreover have "fold_m step (map item tiles) (grid_of m (f(r := (f r)(c := h r c)))) =
      Inr (grid_of m (repaint h tiles (f(r := (f r)(c := h r c)))))"
    by (rule Cons.IH) (use Cons.prems in auto)
  ultimately show ?case by (simp only: list.map fold_m.simps and_then_simps)
next
  case Nil
  have "repaint h [] f = f" by (simp add: repaint_def fun_eq_iff)
  then show ?case by simp
qed

lemma put_glyph_at_center:
  assumes "wf_map_dims m" "r < unat (am_height_tiles m)" "c < unat (am_width_tiles m)"
  shows "put_glyph_at m (x, center_of m (r, c)) glyphs = put_glyph m x (tile_index (unat (am_width_tiles m)) c r) glyphs"
proof -
  have "put_glyph_at m (x, center_of m (r, c)) glyphs =
      put_glyph_at m (x, fst (center_of m (r, c)), snd (center_of m (r, c))) glyphs" by simp
  also have "\<dots> = put_glyph m x (tile_index (unat (am_width_tiles m)) c r) glyphs"
    by (simp only: put_glyph_at_def tile_index_for_center_of [OF assms] prod.case and_then_simps Let_def)
  finally show ?thesis .
qed

lemma put_at_tiles:
  assumes "wf_map_dims m" "\<And>r c. (r, c) \<in> set (tiles_with g G (tiles_of m)) \<Longrightarrow> item (r, c) = (h r c, center_of m (r, c))"
  shows "fold_m (put_glyph_at m) (map item (tiles_with g G (tiles_of m))) (grid_of m f) =
     Inr (grid_of m (repaint h (tiles_with g G (tiles_of m)) f))"
  by (rule fold_put_grid) (auto simp: mem_tiles_with assms(2) put_glyph_at_center [OF assms(1)] simp del: split_paired_All)

lemma objective_indices_tiles:
  assumes "map_shows m g"
  shows "set (objective_indices m) = (\<lambda>(r, c). tile_index (unat (am_width_tiles m)) c r) ` set (tiles_with g {88} (tiles_of m))"
proof (intro set_eqI iffI)
  let ?w = "unat (am_width_tiles m)"
  have pos: "0 < ?w" using assms sized_pos wf_dims_sized map_shows_def by blast
  fix i
  {
    assume "i \<in> set (objective_indices m)"
    then have i: "i < tile_count m" "map_mask_has_tile (am_objective_mask m) i"
      by (auto simp: objective_indices_def mask_has_tile_eq)
    then have "g (i div ?w) (i mod ?w) = 88"
      using map_shows_masks(2) [OF assms, of "i div ?w" "i mod ?w"] tile_row_less [OF i(1)] pos by simp
    then have "(i div ?w, i mod ?w) \<in> set (tiles_with g {88} (tiles_of m))"
      using tile_row_less [OF i(1)] pos by (simp add: mem_tiles_with)
    then show "i \<in> (\<lambda>(r, c). tile_index ?w c r) ` set (tiles_with g {88} (tiles_of m))"
      by (rule rev_image_eqI) (simp add: tile_index_inverse)
  next
    assume "i \<in> (\<lambda>(r, c). tile_index ?w c r) ` set (tiles_with g {88} (tiles_of m))"
    then obtain r c where "i = tile_index ?w c r" "r < unat (am_height_tiles m)" "c < ?w" "g r c = 88"
      by (auto simp: mem_tiles_with)
    then show "i \<in> set (objective_indices m)"
      using map_shows_masks(2) [OF assms, of r c] tile_index_less
      by (simp add: objective_indices_def mask_has_tile_eq tile_index_def)
  }
qed

lemma put_objectives:
  assumes "sized m" "\<forall>i \<in> set is. i < tile_count m"
  shows "fold_m (put_glyph m 88) is (grid_of m f) =
     Inr (grid_of m (repaint (\<lambda>_ _. 88) (map (\<lambda>i. (i div unat (am_width_tiles m), i mod unat (am_width_tiles m))) is) f))"
proof -
  let ?t = "\<lambda>i. (i div unat (am_width_tiles m), i mod unat (am_width_tiles m))"
  have "fold_m (put_glyph m 88) (map (\<lambda>(r, c). tile_index (unat (am_width_tiles m)) c r) (map ?t is)) (grid_of m f) =
      Inr (grid_of m (repaint (\<lambda>_ _. 88) (map ?t is) f))"
    by (rule fold_put_grid) (use assms sized_pos tile_row_less in auto)
  then show ?thesis by (simp add: comp_def tile_index_inverse)
qed

section \<open>Rendering a parsed map\<close>

lemma render_grid:
  assumes "map_shows m g"
  shows "render_ascii_map m = Inr (join_lines (grid_of m g))"
proof -
  have wf: "wf_map_dims m" using assms by (simp add: map_shows_def)
  have gl: "supported_glyph (g r c)" if "r < unat (am_height_tiles m)" "c < unat (am_width_tiles m)" for r c
    using assms that by (auto simp: map_shows_def tiles_of_def)
  let ?f0 = "\<lambda>r c. if g r c \<noteq> 32 then 46 else 32 :: rchar"
  have foot: "footprint_glyphs m = grid_of m ?f0"
    using map_shows_masks(1) [OF assms] by (auto simp: footprint_glyphs_def grid_of_def Let_def tile_index_def mask_has_tile_eq)
  let ?put = "\<lambda>G f. repaint g (tiles_with g G (tiles_of m)) f"
  have ob: "fold_m (put_glyph_at m) (map (\<lambda>ob. (obstacle_glyph (amo_kind ob), amo_center_x ob, amo_center_y ob)) (am_obstacles m)) (grid_of m f) =
      Inr (grid_of m (?put {35, 43} f))" for f
    unfolding map_shows_centers [OF assms] map_map
    by (rule put_at_tiles [OF wf]) (auto simp: mem_tiles_with obstacle_at_def map_obstacle_def obstacle_glyph_def)
  have fe: "fold_m (put_glyph_at m) (map (\<lambda>f. (feature_glyph (amf_kind f), amf_center_x f, amf_center_y f)) (am_features m)) (grid_of m f) =
      Inr (grid_of m (?put {100, 68} f))" for f
    unfolding map_shows_centers [OF assms] map_map
    by (rule put_at_tiles [OF wf]) (auto simp: mem_tiles_with feature_at_def feature_glyph_def)
  have an: "fold_m (put_glyph_at m) (map (Pair 65) (am_team_a_anchors m)) (grid_of m f) = Inr (grid_of m (?put {65} f))"
    "fold_m (put_glyph_at m) (map (Pair 66) (am_team_b_anchors m)) (grid_of m f) = Inr (grid_of m (?put {66} f))" for f
    unfolding map_shows_centers [OF assms] map_map
    by (rule put_at_tiles [OF wf]; simp add: mem_tiles_with)+
  let ?obj = "map (\<lambda>i. (i div unat (am_width_tiles m), i mod unat (am_width_tiles m))) (objective_indices m)"
  have xs: "fold_m (put_glyph m 88) (objective_indices m) (grid_of m f) = Inr (grid_of m (repaint (\<lambda>_ _. 88) ?obj f))" for f
    by (rule put_objectives) (auto simp: wf wf_dims_sized objective_indices_def)
  have mem: "(r, c) \<in> set ?obj \<longleftrightarrow> g r c = 88" if rc: "r < unat (am_height_tiles m)" "c < unat (am_width_tiles m)" for r c
  proof -
    have "(r, c) \<in> set ?obj \<longleftrightarrow> tile_index (unat (am_width_tiles m)) c r \<in> set (objective_indices m)"
      using rc by (force simp: tile_index_def)
    also have "\<dots> \<longleftrightarrow> g r c = 88"
      using map_shows_masks(2) [OF assms rc] tile_index_less [OF rc]
      by (simp add: objective_indices_def mask_has_tile_eq tile_index_def)
    finally show ?thesis .
  qed
  have "render_ascii_map m = Inr (join_lines (grid_of m
      (?put {66} (?put {65} (repaint (\<lambda>_ _. 88) ?obj (?put {100, 68} (?put {35, 43} ?f0)))))))"
    by (simp only: render_ascii_map_def foot ob fe xs an and_then_simps)
  also have "grid_of m (?put {66} (?put {65} (repaint (\<lambda>_ _. 88) ?obj (?put {100, 68} (?put {35, 43} ?f0))))) = grid_of m g"
  proof (rule grid_of_cong)
    fix r c assume rc: "r < unat (am_height_tiles m)" "c < unat (am_width_tiles m)"
    from gl [OF rc] show "?put {66} (?put {65} (repaint (\<lambda>_ _. 88) ?obj (?put {100, 68} (?put {35, 43} ?f0)))) r c = g r c"
      unfolding repaint_def mem [OF rc] mem_tiles_with using rc by (auto simp: supported_glyph_def)
  qed
  finally show ?thesis .
qed

lemma split_on_append: "sep \<notin> set a \<Longrightarrow> split_on sep (a @ sep # s) = a # split_on sep s"
  by (induction a) auto

lemma split_on_none: "sep \<notin> set a \<Longrightarrow> split_on sep a = [a]"
  by (induction a) auto

lemma split_join: "rows \<noteq> [] \<Longrightarrow> \<forall>row \<in> set rows. 10 \<notin> set row \<Longrightarrow> split_on 10 (join_lines rows) = rows"
  by (induction rows rule: join_lines.induct) (auto simp: split_on_append split_on_none)

lemma lines_join:
  assumes "rows \<noteq> []" "\<forall>row \<in> set rows. row \<noteq> [] \<and> 10 \<notin> set row \<and> 13 \<notin> set row"
  shows "lines_of (join_lines rows) = rows"
proof -
  have "strip_cr row = row" if "row \<in> set rows" for row
    using assms(2) that by (metis strip_cr_def last_in_set)
  then have "map strip_cr (butlast rows) = butlast rows" by (intro map_idI) (auto dest: in_set_butlastD)
  moreover have "last rows \<noteq> []" using assms last_in_set by blast
  ultimately show ?thesis
    using assms(1) by (simp add: lines_of_def split_join assms Let_def)
qed

lemma trim_end_last: "trim_end s \<noteq> [] \<Longrightarrow> \<not> is_whitespace (last (trim_end s))"
  using hd_dropWhile [of is_whitespace "rev s"] by (simp add: trim_end_def last_rev)

lemma trim_end_pad: "s \<noteq> [] \<Longrightarrow> \<not> is_whitespace (last s) \<Longrightarrow> trim_end (s @ replicate n 32) = s"
proof -
  assume s: "s \<noteq> []" "\<not> is_whitespace (last s)"
  have "dropWhile is_whitespace (replicate n 32 @ rev s) = dropWhile is_whitespace (rev s)"
    by (rule dropWhile_append2) (simp add: is_whitespace_def)
  also have "\<dots> = rev s" using s by (simp add: dropWhile_eq_self_iff hd_rev)
  finally show ?thesis by (simp add: trim_end_def)
qed

lemma rows_of_rendered:
  assumes "parse_ascii_map source text tu = Inr m"
  shows "rows_of (join_lines (grid_of m (glyph_at (rows_of text)))) = rows_of text"
proof -
  define rows where "rows = rows_of text"
  let ?w = "unat (am_width_tiles m)"
  have p: "rows \<noteq> []" "?w = fold max (map length rows) 0" "unat (am_height_tiles m) = length rows" "map_shows m (glyph_at rows)"
    using assms by (simp_all add: parse_ascii_map_iff rows_def)
  have w: "length row \<le> ?w" if "row \<in> set rows" for row using row_width [OF that] p(2) by simp
  have row: "row \<noteq> []" "\<not> is_whitespace (last row)" if "row \<in> set rows" for row
    using that trim_end_last by (auto simp: rows_def rows_of_def)
  have pad: "map (glyph_at rows r) [0..<?w] = rows ! r @ replicate (?w - length (rows ! r)) 32" if "r < length rows" for r
    using w [of "rows ! r"] that by (intro nth_equalityI) (auto simp: glyph_at_def nth_append)
  have grid: "grid_of m (glyph_at rows) = map (\<lambda>row. row @ replicate (?w - length row) 32) rows"
    unfolding grid_of_def p(3) by (rule nth_equalityI) (simp_all add: pad)
  have gl: "supported_glyph x" if x: "row \<in> set (grid_of m (glyph_at rows))" "x \<in> set row" for row x
  proof -
    obtain r c where "x = glyph_at rows r c" "r < unat (am_height_tiles m)" "c < ?w"
      using x by (auto simp: grid_of_def)
    then show ?thesis using p(4) by (auto simp: map_shows_def tiles_of_def)
  qed
  have "lines_of (join_lines (grid_of m (glyph_at rows))) = grid_of m (glyph_at rows)"
  proof (rule lines_join)
    show "\<forall>row \<in> set (grid_of m (glyph_at rows)). row \<noteq> [] \<and> 10 \<notin> set row \<and> 13 \<notin> set row"
      using gl row(1) unfolding grid by (fastforce simp: supported_glyph_def)
  qed (simp add: grid p(1))
  moreover have "map trim_end (grid_of m (glyph_at rows)) = rows"
    unfolding grid map_map using row by (intro map_idI) (simp add: trim_end_pad)
  ultimately have "rows_of (join_lines (grid_of m (glyph_at rows))) = filter (\<lambda>row. row \<noteq> []) rows"
    by (simp only: rows_of_def)
  also have "\<dots> = rows" using row(1) by (simp add: filter_id_conv)
  finally show ?thesis by (simp add: rows_def)
qed

text \<open>C18: rendering a parsed map succeeds and gives a text that parses to the same map.\<close>

theorem render_parse_roundtrip:
  assumes "parse_ascii_map source text tile_units = Inr m"
  shows "\<exists>rendered. render_ascii_map m = Inr rendered \<and> parse_ascii_map source rendered tile_units = Inr m"
proof -
  have "map_shows m (glyph_at (rows_of text))" using assms by (simp add: parse_ascii_map_iff)
  then have "render_ascii_map m = Inr (join_lines (grid_of m (glyph_at (rows_of text))))" by (rule render_grid)
  moreover have "parse_ascii_map source (join_lines (grid_of m (glyph_at (rows_of text)))) tile_units = Inr m"
    using assms by (simp add: parse_ascii_map_iff rows_of_rendered [OF assms])
  ultimately show ?thesis by blast
qed

theorem render_parse_roundtrip_witness:
  "\<exists>m rendered. parse_ascii_map (lit ''maps/arena.txt'') sample_map_text 50 = Inr m \<and> render_ascii_map m = Inr rendered \<and>
     parse_ascii_map (lit ''maps/arena.txt'') rendered 50 = Inr m"
proof -
  obtain m where m: "parse_ascii_map (lit ''maps/arena.txt'') sample_map_text 50 = Inr m"
    using sample_map_parses by blast
  from render_parse_roundtrip [OF m] m show ?thesis by blast
qed

text \<open>C16: on a parsed template and an accepted configuration the generator never panics: it reports that no map could be
  generated, or the map is the template with a new id and obstacles whose layout is fair: they cover only footprint
  tiles away from objective, anchors and features, and from every anchor a walk that avoids pillars leads to the objective.\<close>

theorem generated_map_fair:
  assumes "parse_ascii_map source text tile_units = Inr template" "valid_generation generation"
  shows "(\<exists>e. generate_template_match_map template generation map_id seed = Inl (Err e) \<and> generator_error map_id e) \<or>
     (\<exists>layout. fair_layout template (gc_protected_tile_buffer_radius_tiles generation) layout \<and>
        generate_template_match_map template generation map_id seed =
          Inr (template\<lparr>am_map_id := map_id, am_obstacles := obstacles_of template layout\<rparr>))"
proof (rule generator_outcome)
  have "map_shows template (glyph_at (rows_of text))" using assms(1) by (simp add: parse_ascii_map_iff)
  then show "sized template" "centers_land template"
    using wf_dims_sized map_shows_lands map_shows_def by blast+
  show "gc_styles generation \<noteq> []" using assms(2) by (simp add: valid_generation_def)
qed

theorem generated_map_fair_witness:
  "\<exists>template. parse_ascii_map (lit ''maps/arena.txt'') sample_map_text 50 = Inr template \<and>
     generate_template_match_map template (mpc_generation (cfy_maps sample_document)) [] 7 \<noteq> Inl Panic"
proof -
  obtain m where m: "parse_ascii_map (lit ''maps/arena.txt'') sample_map_text 50 = Inr m"
    using sample_map_parses by blast
  have "valid_generation (mpc_generation (cfy_maps sample_document))"
    by (simp add: sample_document_def valid_generation_def valid_style_def)
  from generated_map_fair [OF m this, of "[]" 7] m show ?thesis by auto
qed

text \<open>C17: whether an anchor's search succeeds is exactly whether a walk over footprint tiles without pillars reaches an
  objective tile.\<close>

theorem path_search_exact:
  assumes "am_width_tiles m \<noteq> 0" "am_height_tiles m \<noteq> 0" "length layout = tile_count m" "start < tile_count m"
  shows "path_exists_to_objective m layout start = Inr
     (\<exists>goal. (start, goal) \<in> (walk_step m layout)\<^sup>* \<and> mask_has_tile (am_objective_mask m) goal)"
  using path_exists_correct [of m layout start] assms
  by (simp add: search_sizes_def sized_def reaches_objective_def)

theorem path_search_exact_witness:
  "\<exists>m. parse_ascii_map (lit ''maps/arena.txt'') sample_map_text 50 = Inr m \<and>
     path_exists_to_objective m (replicate 6 None) 0 = Inr True"
proof -
  obtain m where m: "parse_ascii_map (lit ''maps/arena.txt'') sample_map_text 50 = Inr m" "am_width_tiles m = 3" "am_height_tiles m = 2"
    using sample_map_parses by blast
  have sh: "map_shows m (glyph_at (rows_of sample_map_text))" using m(1) by (simp add: parse_ascii_map_iff)
  have "rows_of sample_map_text = [[65, 88, 66], [46, 35, 46]]"
    by (simp add: rows_of_def lines_of_def sample_map_text_def strip_cr_def trim_end_def is_whitespace_def)
  then have "mask_has_tile (am_footprint_mask m) 1" "mask_has_tile (am_objective_mask m) 1"
    using map_shows_masks [OF sh, of 0 1] by (simp_all add: m mask_has_tile_eq glyph_at_def)
  moreover have "1 \<in> adjacent m 0"
    unfolding adjacent_def Let_def m mem_Collect_eq by (rule exI [of _ 1], rule exI [of _ 0]) (simp add: tile_index_def)
  ultimately have "(0, 1) \<in> walk_step m (replicate 6 None)" by (simp add: walk_step_def open_tile_def)
  then have "\<exists>goal. (0, goal) \<in> (walk_step m (replicate 6 None))\<^sup>* \<and> mask_has_tile (am_objective_mask m) goal"
    using \<open>mask_has_tile (am_objective_mask m) 1\<close> by blast
  with path_search_exact [of m "replicate 6 None" 0] m show ?thesis by (simp add: tile_count_def)
qed

end
