(* ===== verification/Game_Content.thy ===== *)
theory Game_Content
  imports Content_Catalog Content_Config Map_Text
begin

text \<open>
  The content of the game (\<open>GameContent\<close> of \<open>model.rs\<close>, \<open>read_skill_file_pairs\<close> of \<open>lib.rs\<close>): the
  registry of mechanics, the configuration, the class files and the maps of a directory tree, and
  the checks between them. The file system and the YAML parser are parameters: reading a file or
  listing a directory gives a text or an error message. The paths of one directory sort by their
  file names.
\<close>

record content_files =
  cf_read :: "rstring \<Rightarrow> rstring + rstring"
  cf_list :: "rstring \<Rightarrow> rstring + rstring list"

record content_yaml =
  cy_mechanics :: "rstring \<Rightarrow> rstring + mechanics_file_yaml"
  cy_configuration :: "rstring \<Rightarrow> rstring + configurations_yaml"
  cy_skill_file :: "rstring \<Rightarrow> rstring + skill_file_yaml"

text \<open>\<open>Path::join\<close> with a relative path.\<close>

definition path_join :: "rstring \<Rightarrow> rstring \<Rightarrow> rstring" where
  "path_join base component = (if base = [] \<or> last base = 47 then base @ component else base @ 47 # component)"

definition path_extension :: "rstring \<Rightarrow> rstring option" where
  "path_extension path =
     Option.bind (file_name path) (\<lambda>name.
       let stem = rev (tl (dropWhile (\<lambda>c. c \<noteq> 46) (rev name))) in
       if 46 \<notin> set name \<or> stem = [] then None else Some (drop (length stem + 1) name))"

definition has_extension :: "rstring \<Rightarrow> rstring \<Rightarrow> bool" where
  "has_extension extension path =
     (case path_extension path of None \<Rightarrow> False
      | Some e \<Rightarrow> eq_ignore_ascii_case e extension)"

definition read_content :: "content_files \<Rightarrow> rstring \<Rightarrow> content_error + rstring" where
  "read_content fs path = map_err (ContentIo path) (cf_read fs path)"

definition list_content :: "content_files \<Rightarrow> rstring \<Rightarrow> rstring \<Rightarrow> content_error + rstring list" where
  "list_content fs dir extension =
     and_then (map_err (ContentIo dir) (cf_list fs dir)) (\<lambda>paths. Inr (sort (filter (has_extension extension) paths)))"

fun read_pairs :: "content_files \<Rightarrow> rstring list \<Rightarrow> content_error + (rstring \<times> rstring) list" where
  "read_pairs fs [] = Inr []"
| "read_pairs fs (path # paths) =
     and_then (read_content fs path) (\<lambda>yaml. and_then (read_pairs fs paths) (\<lambda>pairs. Inr ((path, yaml) # pairs)))"

definition read_skill_file_pairs :: "content_files \<Rightarrow> rstring \<Rightarrow> content_error + (rstring \<times> rstring) list" where
  "read_skill_file_pairs fs content_root =
     (let skills_dir = path_join content_root (lit ''skills'') in
      and_then (list_content fs skills_dir (lit ''yaml'')) (\<lambda>paths.
        if paths = [] then invalid skills_dir (lit ''no skill YAML files were found'') else read_pairs fs paths))"

record game_content =
  gct_skills :: skill_catalog
  gct_maps :: "(rstring, arena_map_definition) btree_map"
  gct_default_map_id :: rstring
  gct_training_map_id :: "rstring option"
  gct_mechanics :: mechanic_catalog
  gct_configuration :: game_configuration

fun check_class_profiles :: "rstring \<Rightarrow> game_configuration \<Rightarrow> skill_tree list \<Rightarrow> content_error + unit" where
  "check_class_profiles source c [] = Inr ()"
| "check_class_profiles source c (t # ts) =
     (if \<not> bt_contains (gcf_classes c) t
      then invalid source (lit ''classes is missing a profile for authored tree '' @ quoted (skill_tree_as_str t))
      else check_class_profiles source c ts)"

fun load_maps ::
  "content_files \<Rightarrow> game_configuration \<Rightarrow> (rstring, arena_map_definition) btree_map \<Rightarrow> rstring list \<Rightarrow>
   content_error + (rstring, arena_map_definition) btree_map" where
  "load_maps fs c maps [] = Inr maps"
| "load_maps fs c maps (path # paths) =
     and_then (read_content fs path) (\<lambda>map_text.
     and_then (parse_ascii_map path map_text (mpc_tile_units (gcf_maps c))) (\<lambda>m.
       case bt_get (mpc_objective_target_ms_by_map (gcf_maps c)) (am_map_id m) of
         None \<Rightarrow> invalid (lit ''config/configurations.yaml'')
           (lit ''map registry is missing objective_target_ms for '' @ quoted (am_map_id m))
       | Some target \<Rightarrow>
           (let m = m\<lparr>am_objective_target_ms := target\<rparr> in
            if bt_contains maps (am_map_id m) then invalid path (lit ''duplicate map id'')
            else load_maps fs c (bt_insert (am_map_id m) m maps) paths)))"

fun check_registered_maps ::
  "rstring \<Rightarrow> (rstring, arena_map_definition) btree_map \<Rightarrow> rstring list \<Rightarrow> content_error + unit" where
  "check_registered_maps source maps [] = Inr ()"
| "check_registered_maps source maps (map_id # map_ids) =
     (if \<not> bt_contains maps map_id
      then invalid source (lit ''maps.objective_target_ms_by_map contains unknown map '' @ quoted map_id)
      else check_registered_maps source maps map_ids)"

definition load_from_root ::
  "content_files \<Rightarrow> content_yaml \<Rightarrow> mechanic_catalog \<Rightarrow> rstring \<Rightarrow> content_error + game_content" where
  "load_from_root fs yaml default_mechanics content_root =
     (let mechanics_path = path_join (path_join content_root (lit ''mechanics'')) (lit ''registry.yaml'');
          configuration_path = path_join (path_join content_root (lit ''config'')) (lit ''configurations.yaml'');
          maps_dir = path_join content_root (lit ''maps'') in
      and_then (read_content fs mechanics_path) (\<lambda>mechanics_yaml.
      and_then (parse_mechanics_yaml (cy_mechanics yaml) mechanics_path mechanics_yaml) (\<lambda>mechanics.
      and_then (read_content fs configuration_path) (\<lambda>configuration_yaml.
      and_then (parse_configuration_yaml (cy_configuration yaml) configuration_path configuration_yaml) (\<lambda>configuration.
      and_then (read_skill_file_pairs fs content_root) (\<lambda>pairs.
      and_then (load_skill_catalog_from_pairs_with_mechanics (cy_skill_file yaml) default_mechanics pairs mechanics) (\<lambda>skills.
      and_then (check_class_profiles configuration_path configuration (catalog_trees skills)) (\<lambda>_.
      and_then (list_content fs maps_dir (lit ''txt'')) (\<lambda>map_paths.
        if map_paths = [] then invalid maps_dir (lit ''no ASCII map files were found'')
        else
          and_then (load_maps fs configuration [] map_paths) (\<lambda>maps.
            if \<not> bt_contains maps (lit ''prototype_arena'')
            then invalid maps_dir (lit ''maps must include prototype_arena.txt'')
            else
              and_then (check_registered_maps configuration_path maps
                  (bt_keys (mpc_objective_target_ms_by_map (gcf_maps configuration)))) (\<lambda>_.
                Inr \<lparr>gct_skills = skills, gct_maps = maps, gct_default_map_id = lit ''prototype_arena'',
                  gct_training_map_id =
                    (if bt_contains maps (lit ''training_arena'') then Some (lit ''training_arena'') else None),
                  gct_mechanics = mechanics, gct_configuration = configuration\<rparr>)))))))))))"

definition content_map :: "game_content \<Rightarrow> 'e fault + arena_map_definition" where
  "content_map c = (case bt_get (gct_maps c) (gct_default_map_id c) of None \<Rightarrow> Inl Panic | Some m \<Rightarrow> Inr m)"

definition content_training_map :: "game_content \<Rightarrow> arena_map_definition option" where
  "content_training_map c = Option.bind (gct_training_map_id c) (bt_get (gct_maps c))"

definition content_map_by_id :: "game_content \<Rightarrow> rstring \<Rightarrow> arena_map_definition option" where
  "content_map_by_id c map_id = bt_get (gct_maps c) map_id"

definition content_maps :: "game_content \<Rightarrow> arena_map_definition list" where
  "content_maps c = bt_values (gct_maps c)"

definition content_class_profile :: "game_content \<Rightarrow> skill_tree \<Rightarrow> class_profile option" where
  "content_class_profile c t = bt_get (gcf_classes (gct_configuration c)) t"

section \<open>Loaded content is consistent\<close>

definition authored_map :: "game_configuration \<Rightarrow> arena_map_definition \<Rightarrow> bool" where
  "authored_map c m \<longleftrightarrow> (\<exists>g. map_shows m g) \<and> am_tile_units m = mpc_tile_units (gcf_maps c) \<and>
     bt_get (mpc_objective_target_ms_by_map (gcf_maps c)) (am_map_id m) = Some (am_objective_target_ms m)"

definition maps_inv :: "game_configuration \<Rightarrow> (rstring, arena_map_definition) btree_map \<Rightarrow> bool" where
  "maps_inv c maps \<longleftrightarrow> bt_inv maps \<and> (\<forall>map_id m. bt_get maps map_id = Some m \<longrightarrow> am_map_id m = map_id \<and> authored_map c m)"

lemma map_shows_target [simp]:
  "map_shows (m\<lparr>am_objective_target_ms := target\<rparr>) g = map_shows m g" "map_shows (m\<lparr>am_map_id := map_id\<rparr>) g = map_shows m g"
  by (simp_all add: map_shows_def wf_map_dims_def tiles_of_def center_of_def Let_def)

lemma load_maps_inv: "load_maps fs c maps paths = Inr maps' \<Longrightarrow> maps_inv c maps \<Longrightarrow> maps_inv c maps'"
proof (induction fs c maps paths rule: load_maps.induct)
  case (2 fs c maps path paths)
  from 2(2) obtain map_text m target where m: "parse_ascii_map path map_text (mpc_tile_units (gcf_maps c)) = Inr m"
    "bt_get (mpc_objective_target_ms_by_map (gcf_maps c)) (am_map_id m) = Some target"
    "load_maps fs c (bt_insert (am_map_id m) (m\<lparr>am_objective_target_ms := target\<rparr>) maps) paths = Inr maps'"
    "read_content fs path = Inr map_text" "\<not> bt_contains maps (am_map_id m)"
    by (auto simp: and_then_eq_Inr Let_def split: option.splits if_splits)
  have "authored_map c (m\<lparr>am_objective_target_ms := target\<rparr>)"
    using m(1,2) by (auto simp: authored_map_def parse_ascii_map_iff)
  then have "maps_inv c (bt_insert (am_map_id m) (m\<lparr>am_objective_target_ms := target\<rparr>) maps)"
    using 2(3) by (auto simp: maps_inv_def bt_inv_ops bt_get_ops)
  with 2(1) m show ?case by (simp add: Let_def)
qed simp

text \<open>
  The map a file describes, read off its text: the id is the stem of the path, the rows and their longest give the size,
  every glyph shows in the map, and the target is the registered one.
\<close>

definition map_of_file :: "content_files \<Rightarrow> game_configuration \<Rightarrow> rstring \<Rightarrow> arena_map_definition \<Rightarrow> bool" where
  "map_of_file fs c path m \<longleftrightarrow>
     (\<exists>map_text. read_content fs path = Inr map_text \<and> rows_of map_text \<noteq> [] \<and> map_shows m (glyph_at (rows_of map_text)) \<and>
        unat (am_height_tiles m) = length (rows_of map_text) \<and> unat (am_width_tiles m) = fold max (map length (rows_of map_text)) 0) \<and>
     am_map_id m = map_identifier path \<and> am_tile_units m = mpc_tile_units (gcf_maps c) \<and>
     bt_get (mpc_objective_target_ms_by_map (gcf_maps c)) (am_map_id m) = Some (am_objective_target_ms m)"

lemma map_of_file_iff:
  "map_of_file fs c path m \<longleftrightarrow>
     (\<exists>map_text m0. read_content fs path = Inr map_text \<and> parse_ascii_map path map_text (mpc_tile_units (gcf_maps c)) = Inr m0 \<and>
        m = m0\<lparr>am_objective_target_ms := am_objective_target_ms m\<rparr> \<and>
        bt_get (mpc_objective_target_ms_by_map (gcf_maps c)) (am_map_id m0) = Some (am_objective_target_ms m))"
proof
  assume "map_of_file fs c path m"
  then obtain map_text where "read_content fs path = Inr map_text"
    "parse_ascii_map path map_text (mpc_tile_units (gcf_maps c)) = Inr (m\<lparr>am_objective_target_ms := 0\<rparr>)"
    "bt_get (mpc_objective_target_ms_by_map (gcf_maps c)) (am_map_id m) = Some (am_objective_target_ms m)"
    by (auto simp: map_of_file_def parse_ascii_map_iff)
  then show "\<exists>map_text m0. read_content fs path = Inr map_text \<and> parse_ascii_map path map_text (mpc_tile_units (gcf_maps c)) = Inr m0 \<and>
        m = m0\<lparr>am_objective_target_ms := am_objective_target_ms m\<rparr> \<and>
        bt_get (mpc_objective_target_ms_by_map (gcf_maps c)) (am_map_id m0) = Some (am_objective_target_ms m)"
    by (intro exI [of _ map_text] exI [of _ "m\<lparr>am_objective_target_ms := 0\<rparr>"]) simp
next
  assume "\<exists>map_text m0. read_content fs path = Inr map_text \<and> parse_ascii_map path map_text (mpc_tile_units (gcf_maps c)) = Inr m0 \<and>
        m = m0\<lparr>am_objective_target_ms := am_objective_target_ms m\<rparr> \<and>
        bt_get (mpc_objective_target_ms_by_map (gcf_maps c)) (am_map_id m0) = Some (am_objective_target_ms m)"
  then obtain map_text m0 target where m0: "read_content fs path = Inr map_text" "parse_ascii_map path map_text (mpc_tile_units (gcf_maps c)) = Inr m0"
    "m = m0\<lparr>am_objective_target_ms := target\<rparr>" "bt_get (mpc_objective_target_ms_by_map (gcf_maps c)) (am_map_id m0) = Some target"
    by metis
  from m0(1,2,4) show "map_of_file fs c path m" unfolding m0(3) by (auto simp: map_of_file_def parse_ascii_map_iff)
qed

lemma load_maps_get:
  "load_maps fs c maps paths = Inr maps' \<Longrightarrow> bt_inv maps \<Longrightarrow>
   bt_get maps' map_id = Some m \<longleftrightarrow>
     bt_get maps map_id = Some m \<or> am_map_id m = map_id \<and> (\<exists>path \<in> set paths. map_of_file fs c path m)"
proof (induction fs c maps paths rule: load_maps.induct)
  case (2 fs c maps path paths)
  from 2(2) obtain map_text m0 target where m0: "read_content fs path = Inr map_text" "parse_ascii_map path map_text (mpc_tile_units (gcf_maps c)) = Inr m0"
    "bt_get (mpc_objective_target_ms_by_map (gcf_maps c)) (am_map_id m0) = Some target"
    "load_maps fs c (bt_insert (am_map_id m0) (m0\<lparr>am_objective_target_ms := target\<rparr>) maps) paths = Inr maps'"
    "\<not> bt_contains maps (am_map_id m0)"
    by (auto simp: and_then_eq_Inr Let_def split: option.splits if_splits)
  have written: "map_of_file fs c path m \<longleftrightarrow> m = m0\<lparr>am_objective_target_ms := target\<rparr>"
  proof
    assume "map_of_file fs c path m"
    then have "m = m0\<lparr>am_objective_target_ms := am_objective_target_ms m\<rparr>" "Some target = Some (am_objective_target_ms m)"
      unfolding map_of_file_iff m0(1) using m0(2,3) by (metis sum.inject(2))+
    then show "m = m0\<lparr>am_objective_target_ms := target\<rparr>" unfolding option.inject by metis
  qed (use m0(1-3) in \<open>simp add: map_of_file_iff\<close>)
  have "bt_get maps' map_id = Some m \<longleftrightarrow>
      bt_get (bt_insert (am_map_id m0) (m0\<lparr>am_objective_target_ms := target\<rparr>) maps) map_id = Some m \<or>
      am_map_id m = map_id \<and> (\<exists>path \<in> set paths. map_of_file fs c path m)"
    using 2(1) [OF m0(3) refl] m0(4,5) 2(3) by (simp add: bt_inv_ops)
  with m0(5) 2(3) show ?case by (auto simp: written bt_get_ops bt_contains_def)
qed simp

lemma check_class_profiles_iff: "check_class_profiles source c ts = Inr u \<longleftrightarrow> (\<forall>t \<in> set ts. bt_contains (gcf_classes c) t)"
  by (induction ts) auto

lemma check_registered_maps_iff: "check_registered_maps source maps ids = Inr u \<longleftrightarrow> (\<forall>i \<in> set ids. bt_contains maps i)"
  by (induction ids) auto

lemma if_invalid_eq_Inr: "(if P then invalid source message else x) = Inr y \<longleftrightarrow> \<not> P \<and> x = Inr y"
  by simp

lemma load_from_root_parts:
  assumes "load_from_root fs yaml dm content_root = Inr c"
  shows "(\<exists>from_yaml source text. parse_mechanics_yaml from_yaml source text = Inr (gct_mechanics c))"
    "\<exists>from_yaml source text. parse_configuration_yaml from_yaml source text = Inr (gct_configuration c)"
    "\<exists>from_yaml pairs. load_skill_catalog_from_pairs_with_mechanics from_yaml dm pairs (gct_mechanics c) = Inr (gct_skills c)"
    "\<forall>t \<in> set (catalog_trees (gct_skills c)). bt_contains (gcf_classes (gct_configuration c)) t"
    "\<exists>paths. list_content fs (path_join content_root (lit ''maps'')) (lit ''txt'') = Inr paths \<and>
       load_maps fs (gct_configuration c) [] paths = Inr (gct_maps c)"
    "bt_contains (gct_maps c) (lit ''prototype_arena'')" "gct_default_map_id c = lit ''prototype_arena''"
    "\<forall>i \<in> set (bt_keys (mpc_objective_target_ms_by_map (gcf_maps (gct_configuration c)))). bt_contains (gct_maps c) i"
    "gct_training_map_id c = (if bt_contains (gct_maps c) (lit ''training_arena'') then Some (lit ''training_arena'') else None)"
proof -
  from assms obtain fy1 s1 t1 mechanics fy2 s2 t2 configuration fy3 pairs skills u paths maps v where
    p: "parse_mechanics_yaml fy1 s1 t1 = Inr mechanics" "parse_configuration_yaml fy2 s2 t2 = Inr configuration"
      "load_skill_catalog_from_pairs_with_mechanics fy3 dm pairs mechanics = Inr skills"
      "check_class_profiles s2 configuration (catalog_trees skills) = Inr u"
      "list_content fs (path_join content_root (lit ''maps'')) (lit ''txt'') = Inr paths"
      "load_maps fs configuration [] paths = Inr maps" "bt_contains maps (lit ''prototype_arena'')"
      "check_registered_maps s2 maps (bt_keys (mpc_objective_target_ms_by_map (gcf_maps configuration))) = Inr v"
    and c: "\<lparr>gct_skills = skills, gct_maps = maps, gct_default_map_id = lit ''prototype_arena'',
                  gct_training_map_id =
                    (if bt_contains maps (lit ''training_arena'') then Some (lit ''training_arena'') else None),
                  gct_mechanics = mechanics, gct_configuration = configuration\<rparr> = c"
    unfolding load_from_root_def Let_def and_then_eq_Inr if_invalid_eq_Inr not_not sum.inject
    by (elim exE conjE) (rule that; assumption)
  from p(1-3,5,6) show "\<exists>from_yaml source text. parse_mechanics_yaml from_yaml source text = Inr (gct_mechanics c)"
    "\<exists>from_yaml source text. parse_configuration_yaml from_yaml source text = Inr (gct_configuration c)"
    "\<exists>from_yaml pairs. load_skill_catalog_from_pairs_with_mechanics from_yaml dm pairs (gct_mechanics c) = Inr (gct_skills c)"
    "\<exists>paths. list_content fs (path_join content_root (lit ''maps'')) (lit ''txt'') = Inr paths \<and>
       load_maps fs (gct_configuration c) [] paths = Inr (gct_maps c)"
    unfolding c [symmetric] game_content.simps by blast+
  show "\<forall>t \<in> set (catalog_trees (gct_skills c)). bt_contains (gcf_classes (gct_configuration c)) t"
    "bt_contains (gct_maps c) (lit ''prototype_arena'')" "gct_default_map_id c = lit ''prototype_arena''"
    "\<forall>i \<in> set (bt_keys (mpc_objective_target_ms_by_map (gcf_maps (gct_configuration c)))). bt_contains (gct_maps c) i"
    "gct_training_map_id c = (if bt_contains (gct_maps c) (lit ''training_arena'') then Some (lit ''training_arena'') else None)"
    using p(4,7,8) by (simp_all add: c [symmetric] check_class_profiles_iff check_registered_maps_iff)
qed

text \<open>C15: loaded content is consistent: the default map exists, so asking for it never panics; the maps are exactly
  those the text files of the maps directory describe, each under the id of its file, showing the text of that file glyph
  by glyph and with its registered target, and every registered map is there; every tree of the catalogue has a
  profile, so every class a player can pick has one; configuration, registry and catalogue are valid.\<close>

theorem loaded_content_consistent:
  assumes "load_from_root fs yaml default_mechanics content_root = Inr c"
  shows "(\<exists>m. content_map c = (Inr m :: unit fault + arena_map_definition)) \<and>
     (\<exists>paths. list_content fs (path_join content_root (lit ''maps'')) (lit ''txt'') = Inr paths \<and>
        (\<forall>map_id m. content_map_by_id c map_id = Some m \<longleftrightarrow>
           am_map_id m = map_id \<and> (\<exists>path \<in> set paths. map_of_file fs (gct_configuration c) path m))) \<and>
     (\<forall>map_id. content_map_by_id c map_id = None \<longrightarrow>
        bt_get (mpc_objective_target_ms_by_map (gcf_maps (gct_configuration c))) map_id = None) \<and>
     (\<forall>ch. (case catalog_resolve (gct_skills c) ch of None \<Rightarrow> True
        | Some sk \<Rightarrow> content_class_profile c (tree ch) \<noteq> None \<and> authored_skill (gct_mechanics c) sk)) \<and>
     valid_configuration (gct_configuration c) \<and> valid_registry (gct_mechanics c)"
proof -
  note parts = load_from_root_parts [OF assms]
  obtain from_yaml pairs where cat: "load_skill_catalog_from_pairs_with_mechanics from_yaml default_mechanics pairs (gct_mechanics c) = Inr (gct_skills c)"
    using parts(3) by blast
  obtain paths where paths: "list_content fs (path_join content_root (lit ''maps'')) (lit ''txt'') = Inr paths"
    "load_maps fs (gct_configuration c) [] paths = Inr (gct_maps c)"
    using parts(5) by blast
  have maps: "\<exists>paths. list_content fs (path_join content_root (lit ''maps'')) (lit ''txt'') = Inr paths \<and>
      (\<forall>map_id m. content_map_by_id c map_id = Some m \<longleftrightarrow>
         am_map_id m = map_id \<and> (\<exists>path \<in> set paths. map_of_file fs (gct_configuration c) path m))"
    using paths(1) load_maps_get [OF paths(2)] by (auto simp: content_map_by_id_def bt_inv_ops)
  have a: "\<exists>m. content_map c = (Inr m :: unit fault + arena_map_definition)"
    using parts(6,7) by (auto simp: content_map_def bt_contains_def split: option.splits)
  have b: "content_map_by_id c map_id = None \<longrightarrow>
      bt_get (mpc_objective_target_ms_by_map (gcf_maps (gct_configuration c))) map_id = None" for map_id
  proof
    assume None: "content_map_by_id c map_id = None"
    then have "map_id \<notin> set (bt_keys (mpc_objective_target_ms_by_map (gcf_maps (gct_configuration c))))"
      using parts(8) by (auto simp: content_map_by_id_def bt_contains_def)
    then show "bt_get (mpc_objective_target_ms_by_map (gcf_maps (gct_configuration c))) map_id = None"
      by (simp add: bt_keys_def map_of_eq_None_iff)
  qed
  have d: "case catalog_resolve (gct_skills c) ch of None \<Rightarrow> True
      | Some sk \<Rightarrow> content_class_profile c (tree ch) \<noteq> None \<and> authored_skill (gct_mechanics c) sk" for ch
    using catalog_resolve_ok [OF cat, of ch] parts(4)
    by (auto simp: content_class_profile_def bt_contains_def split: option.splits)
  have "valid_registry (gct_mechanics c)" using parts(1) parse_mechanics_valid by blast
  moreover have "valid_configuration (gct_configuration c)" using parts(2) parse_configuration_valid by blast
  ultimately show ?thesis by (intro conjI allI maps a b d)
qed

definition sample_files :: content_files where
  "sample_files = \<lparr>cf_read = \<lambda>path. if has_extension (lit ''md'') path then Inl (lit ''not found'') else Inr sample_map_text,
     cf_list = \<lambda>dir. Inr [path_join dir (lit ''prototype_arena.YAML''), path_join dir (lit ''prototype_arena.txt'')]\<rparr>"

definition sample_yaml :: content_yaml where
  "sample_yaml = \<lparr>cy_mechanics = \<lambda>_. Inr sample_registry, cy_configuration = \<lambda>_. Inr sample_document,
     cy_skill_file = \<lambda>_. Inr sample_file\<rparr>"

lemma sample_lists:
  "list_content sample_files (lit ''skills'') (lit ''yaml'') = Inr [lit ''skills/prototype_arena.YAML'']"
  "list_content sample_files (lit ''maps'') (lit ''txt'') = Inr [lit ''maps/prototype_arena.txt'']"
  by (simp_all add: list_content_def sample_files_def path_join_def has_extension_def path_extension_def file_name_def
      eq_ignore_ascii_case_def to_ascii_lowercase_def is_ascii_uppercase_def text_eval)

lemma sample_map_loads:
  assumes "parse_configuration_yaml (\<lambda>_. Inr sample_document) source yaml = Inr c"
  shows "\<exists>m. load_maps sample_files c [] [lit ''maps/prototype_arena.txt''] = Inr [(lit ''prototype_arena'', m)]"
proof -
  obtain m where "parse_ascii_map (lit ''maps/arena.txt'') sample_map_text 50 = Inr m" using sample_map_parses by blast
  then have "parse_ascii_map (lit ''maps/prototype_arena.txt'') sample_map_text 50 =
      Inr (m\<lparr>am_map_id := map_identifier (lit ''maps/prototype_arena.txt'')\<rparr>)"
    by (simp add: parse_ascii_map_iff)
  moreover have "map_identifier (lit ''maps/prototype_arena.txt'') = lit ''prototype_arena''"
    by (simp add: map_identifier_def file_stem_def file_name_def text_eval)
  moreover have "gcf_maps c = cfy_maps sample_document"
    using parse_configuration_valid [OF assms] by simp
  ultimately show ?thesis
    by (simp add: read_content_def sample_files_def has_extension_def path_extension_def file_name_def text_eval
        eq_ignore_ascii_case_def to_ascii_lowercase_def is_ascii_uppercase_def sample_document_def bt_contains_def)
qed

lemma sample_content_loads: "\<exists>c. load_from_root sample_files sample_yaml sample_catalog [] = Inr c"
proof -
  obtain c where c: "parse_configuration_yaml (\<lambda>_. Inr sample_document) (lit ''config/configurations.yaml'') sample_map_text = Inr c"
    "bt_contains (gcf_classes c) (Known Mage)"
    using sample_document_parses by blast
  obtain m where m: "load_maps sample_files c [] [lit ''maps/prototype_arena.txt''] = Inr [(lit ''prototype_arena'', m)]"
    using sample_map_loads [OF c(1)] by blast
  obtain skills where s: "load_skill_catalog_from_pairs_with_mechanics (\<lambda>_. Inr sample_file) sample_catalog
      [(lit ''skills/prototype_arena.YAML'', sample_map_text)] sample_catalog = Inr skills" "catalog_trees skills = [Known Mage]"
    using sample_catalog_loads by blast
  have v: "gcf_maps c = cfy_maps sample_document"
    using parse_configuration_valid [OF c(1)] by simp
  have paths: "path_join [] (lit ''skills'') = lit ''skills''" "path_join [] (lit ''maps'') = lit ''maps''"
    "path_join (path_join [] (lit ''mechanics'')) (lit ''registry.yaml'') = lit ''mechanics/registry.yaml''"
    "path_join (path_join [] (lit ''config'')) (lit ''configurations.yaml'') = lit ''config/configurations.yaml''"
    by (simp_all add: path_join_def text_eval)
  have read: "read_content sample_files (lit ''mechanics/registry.yaml'') = Inr sample_map_text"
    "read_content sample_files (lit ''config/configurations.yaml'') = Inr sample_map_text"
    "read_content sample_files (lit ''skills/prototype_arena.YAML'') = Inr sample_map_text"
    by (simp_all add: read_content_def sample_files_def has_extension_def path_extension_def file_name_def text_eval
        eq_ignore_ascii_case_def to_ascii_lowercase_def is_ascii_uppercase_def)
  have "read_skill_file_pairs sample_files [] = Inr [(lit ''skills/prototype_arena.YAML'', sample_map_text)]"
    by (simp add: read_skill_file_pairs_def paths sample_lists read)
  moreover have "bt_keys (mpc_objective_target_ms_by_map (gcf_maps c)) = [lit ''prototype_arena'']"
    by (simp add: v bt_keys_def sample_document_def)
  ultimately show ?thesis
    using c(2) by (simp add: load_from_root_def paths read sample_yaml_def sample_registry_any c(1) s m sample_lists
        bt_contains_def Let_def del: load_maps.simps)
qed

theorem loaded_content_consistent_witness:
  "\<exists>c m. load_from_root sample_files sample_yaml sample_catalog [] = Inr c \<and>
     content_map c = (Inr m :: unit fault + arena_map_definition) \<and> valid_configuration (gct_configuration c)"
proof -
  obtain c where "load_from_root sample_files sample_yaml sample_catalog [] = Inr c"
    using sample_content_loads by blast
  with loaded_content_consistent [OF this] show ?thesis by blast
qed

end
