(* ===== verification/Record_Store.thy ===== *)
theory Record_Store
  imports Domain Map_Text
begin

text \<open>
  The store of player records (\<open>game_api/src/records.rs\<close>): one row of tab-separated fields per
  player, in four layouts of which two carry a legacy player id, and the canonical text the store
  writes. The file system is a parameter: whether the file exists, its size and text, and the
  outcome of creating directories and of writing. The text the store writes parses to the records
  it was written from, and rewriting a canonical text does not change it.
\<close>

section \<open>Parsing integers\<close>

text \<open>\<open>u16::from_str\<close> and \<open>u32::from_str\<close>: an optional plus sign, then decimal digits.\<close>

datatype int_error = IntEmpty | IntInvalidDigit | IntPosOverflow

fun int_error_text :: "int_error \<Rightarrow> rstring" where
  "int_error_text IntEmpty = lit ''cannot parse integer from empty string''"
| "int_error_text IntInvalidDigit = lit ''invalid digit found in string''"
| "int_error_text IntPosOverflow = lit ''number too large to fit in target type''"

fun parse_digits :: "nat \<Rightarrow> nat \<Rightarrow> rstring \<Rightarrow> int_error + nat" where
  "parse_digits maximum acc [] = Inr acc"
| "parse_digits maximum acc (c # s) =
     (if \<not> is_ascii_digit c then Inl IntInvalidDigit
      else if acc * 10 + (c - 48) > maximum then Inl IntPosOverflow
      else parse_digits maximum (acc * 10 + (c - 48)) s)"

definition parse_unsigned :: "nat \<Rightarrow> rstring \<Rightarrow> int_error + nat" where
  "parse_unsigned maximum s =
     (case s of
        [] \<Rightarrow> Inl IntEmpty
      | [c] \<Rightarrow> if c = 43 \<or> c = 45 then Inl IntInvalidDigit else parse_digits maximum 0 s
      | c # rest \<Rightarrow> if c = 43 then parse_digits maximum 0 rest else parse_digits maximum 0 s)"

definition parse_u16 :: "rstring \<Rightarrow> int_error + u16" where
  "parse_u16 s = and_then (parse_unsigned 65535 s) (\<lambda>n. Inr (of_nat n))"

definition parse_u32 :: "rstring \<Rightarrow> int_error + u32" where
  "parse_u32 s = and_then (parse_unsigned 4294967295 s) (\<lambda>n. Inr (of_nat n))"

section \<open>Errors\<close>

definition LEGACY_MINIMAL_FIELD_COUNT :: nat where "LEGACY_MINIMAL_FIELD_COUNT = 5"
definition LEGACY_EXTENDED_FIELD_COUNT :: nat where "LEGACY_EXTENDED_FIELD_COUNT = 13"
definition MINIMAL_FIELD_COUNT :: nat where "MINIMAL_FIELD_COUNT = 4"
definition EXTENDED_FIELD_COUNT :: nat where "EXTENDED_FIELD_COUNT = 12"
definition MAX_RECORD_STORE_BYTES :: u64 where "MAX_RECORD_STORE_BYTES = 1048576"

lemmas field_counts =
  LEGACY_MINIMAL_FIELD_COUNT_def LEGACY_EXTENDED_FIELD_COUNT_def MINIMAL_FIELD_COUNT_def EXTENDED_FIELD_COUNT_def

text \<open>An \<open>io::Error\<close> is its text.\<close>

datatype record_store_error =
    StoreRead rstring rstring
  | StoreWrite rstring rstring
  | StoreCreateParentDir rstring rstring
  | StoreFileTooLarge rstring u64 u64
  | StoreMalformedLine nat rstring
  | StoreDuplicatePlayerId nat u32
  | StoreDuplicatePlayerName nat rstring

fun record_store_error_text :: "record_store_error \<Rightarrow> rstring" where
  "record_store_error_text (StoreRead path source) =
     lit ''failed to read player record store '' @ path @ lit '': '' @ source"
| "record_store_error_text (StoreWrite path source) =
     lit ''failed to write player record store '' @ path @ lit '': '' @ source"
| "record_store_error_text (StoreCreateParentDir path source) =
     lit ''failed to create player record store directory '' @ path @ lit '': '' @ source"
| "record_store_error_text (StoreFileTooLarge path actual maximum) =
     lit ''player record store '' @ path @ lit '' exceeds the maximum allowed size: '' @
     show_nat (unat actual) @ lit '' bytes > '' @ show_nat (unat maximum) @ lit '' bytes''"
| "record_store_error_text (StoreMalformedLine line_number reason) =
     lit ''player record store line '' @ show_nat line_number @ lit '' is malformed: '' @ reason"
| "record_store_error_text (StoreDuplicatePlayerId line_number player_id) =
     lit ''player record store line '' @ show_nat line_number @ lit '' repeats player id '' @
     show_nat (unat player_id)"
| "record_store_error_text (StoreDuplicatePlayerName line_number player_name) =
     lit ''player record store line '' @ show_nat line_number @ lit '' repeats player name '' @ player_name"

section \<open>Parsing a row\<close>

instantiation player_name :: linorder
begin

definition less_eq_player_name :: "player_name \<Rightarrow> player_name \<Rightarrow> bool" where
  "less_eq_player_name p q \<longleftrightarrow> player_name_as_str p \<le> player_name_as_str q"

definition less_player_name :: "player_name \<Rightarrow> player_name \<Rightarrow> bool" where
  "less_player_name p q \<longleftrightarrow> player_name_as_str p < player_name_as_str q"

instance
  by standard (auto simp: less_eq_player_name_def less_player_name_def intro: player_name.expand)

end

definition parse_player_name :: "rstring \<Rightarrow> nat \<Rightarrow> record_store_error + player_name" where
  "parse_player_name raw line_number =
     map_err (\<lambda>error. StoreMalformedLine line_number (domain_error_text error)) (player_name_new raw)"

definition parse_player_id :: "rstring \<Rightarrow> nat \<Rightarrow> record_store_error + player_id" where
  "parse_player_id raw line_number =
     and_then (map_err (\<lambda>error. StoreMalformedLine line_number
         (lit ''player_id '' @ quoted raw @ lit '' is not a valid u32: '' @ int_error_text error)) (parse_u32 raw))
       (\<lambda>parsed. map_err (\<lambda>error. StoreMalformedLine line_number (domain_error_text error)) (player_id_new parsed))"

definition parse_counter :: "rstring \<Rightarrow> nat \<Rightarrow> string \<Rightarrow> record_store_error + u16" where
  "parse_counter raw line_number field =
     map_err (\<lambda>error. StoreMalformedLine line_number
       (lit field @ lit '' '' @ quoted raw @ lit '' is not a valid u16: '' @ int_error_text error)) (parse_u16 raw)"

definition parse_counter_u32 :: "rstring \<Rightarrow> nat \<Rightarrow> string \<Rightarrow> record_store_error + u32" where
  "parse_counter_u32 raw line_number field =
     map_err (\<lambda>error. StoreMalformedLine line_number
       (lit field @ lit '' '' @ quoted raw @ lit '' is not a valid u32: '' @ int_error_text error)) (parse_u32 raw)"

definition parse_record_counters ::
  "rstring \<Rightarrow> rstring \<Rightarrow> rstring \<Rightarrow> nat \<Rightarrow> record_store_error + player_record" where
  "parse_record_counters a b c line_number =
     and_then (parse_counter a line_number ''wins'') (\<lambda>w.
     and_then (parse_counter b line_number ''losses'') (\<lambda>l.
     and_then (parse_counter c line_number ''no_contests'') (\<lambda>n.
       Inr (player_record_new\<lparr>wins := w, losses := l, no_contests := n\<rparr>))))"

text \<open>\<open>str::split_once\<close>\<close>

definition split_once :: "rchar \<Rightarrow> rstring \<Rightarrow> (rstring \<times> rstring) option" where
  "split_once sep s =
     (if sep \<in> set s then Some (takeWhile (\<lambda>c. c \<noteq> sep) s, tl (dropWhile (\<lambda>c. c \<noteq> sep) s)) else None)"

fun parse_skill_pick_entries ::
  "nat \<Rightarrow> rstring list \<Rightarrow> (rstring, u16) btree_map \<Rightarrow> record_store_error + (rstring, u16) btree_map" where
  "parse_skill_pick_entries line_number [] counts = Inr counts"
| "parse_skill_pick_entries line_number (entry # entries) counts =
     (case split_once 61 entry of
        None \<Rightarrow> Inl (StoreMalformedLine line_number
          (lit ''skill pick entry '' @ quoted entry @ lit '' must be encoded as skill_id=count''))
      | Some (skill_id, count_raw) \<Rightarrow>
          if skill_id = [] then Inl (StoreMalformedLine line_number
            (lit ''skill pick counts cannot contain an empty skill id''))
          else and_then (parse_counter count_raw line_number ''skill_pick_count'') (\<lambda>count.
            parse_skill_pick_entries line_number entries (bt_insert skill_id count counts)))"

definition parse_skill_pick_counts :: "rstring \<Rightarrow> nat \<Rightarrow> record_store_error + (rstring, u16) btree_map" where
  "parse_skill_pick_counts raw line_number =
     (if raw = [] then Inr [] else parse_skill_pick_entries line_number (split_on 44 raw) [])"

definition parse_extended_record_fields :: "rstring list \<Rightarrow> nat \<Rightarrow> record_store_error + player_record" where
  "parse_extended_record_fields fs line_number =
     (if length fs \<noteq> EXTENDED_FIELD_COUNT - 1
      then Inl (StoreMalformedLine line_number
        (lit ''extended record rows require '' @ show_nat (EXTENDED_FIELD_COUNT - 1) @
         lit '' fields after the player name, found '' @ show_nat (length fs)))
      else
        and_then (parse_counter (fs ! 0) line_number ''wins'') (\<lambda>c0.
        and_then (parse_counter (fs ! 1) line_number ''losses'') (\<lambda>c1.
        and_then (parse_counter (fs ! 2) line_number ''no_contests'') (\<lambda>c2.
        and_then (parse_counter (fs ! 3) line_number ''round_wins'') (\<lambda>c3.
        and_then (parse_counter (fs ! 4) line_number ''round_losses'') (\<lambda>c4.
        and_then (parse_counter_u32 (fs ! 5) line_number ''total_damage_done'') (\<lambda>c5.
        and_then (parse_counter_u32 (fs ! 6) line_number ''total_healing_done'') (\<lambda>c6.
        and_then (parse_counter_u32 (fs ! 7) line_number ''total_combat_ms'') (\<lambda>c7.
        and_then (parse_counter (fs ! 8) line_number ''cc_used'') (\<lambda>c8.
        and_then (parse_counter (fs ! 9) line_number ''cc_hits'') (\<lambda>c9.
        and_then (parse_skill_pick_counts (fs ! 10) line_number) (\<lambda>counts.
          Inr \<lparr>wins = c0, losses = c1, no_contests = c2, round_wins = c3, round_losses = c4,
            total_damage_done = c5, total_healing_done = c6, total_combat_ms = c7,
            cc_used = c8, cc_hits = c9, skill_pick_counts = counts\<rparr>))))))))))))"

definition parse_record_fields ::
  "rstring list \<Rightarrow> nat \<Rightarrow> record_store_error + (player_id option \<times> player_name \<times> player_record)" where
  "parse_record_fields fs line_number =
     (if length fs = MINIMAL_FIELD_COUNT then
        and_then (parse_player_name (fs ! 0) line_number) (\<lambda>player_name.
        and_then (parse_record_counters (fs ! 1) (fs ! 2) (fs ! 3) line_number) (\<lambda>record.
          Inr (None, player_name, record)))
      else if length fs = LEGACY_MINIMAL_FIELD_COUNT then
        and_then (parse_player_id (fs ! 0) line_number) (\<lambda>player_id.
        and_then (parse_player_name (fs ! 1) line_number) (\<lambda>player_name.
        and_then (parse_record_counters (fs ! 2) (fs ! 3) (fs ! 4) line_number) (\<lambda>record.
          Inr (Some player_id, player_name, record))))
      else if length fs = EXTENDED_FIELD_COUNT then
        and_then (parse_player_name (fs ! 0) line_number) (\<lambda>player_name.
        and_then (parse_extended_record_fields (drop 1 fs) line_number) (\<lambda>record.
          Inr (None, player_name, record)))
      else if length fs = LEGACY_EXTENDED_FIELD_COUNT then
        and_then (parse_player_id (fs ! 0) line_number) (\<lambda>player_id.
        and_then (parse_player_name (fs ! 1) line_number) (\<lambda>player_name.
        and_then (parse_extended_record_fields (drop 2 fs) line_number) (\<lambda>record.
          Inr (Some player_id, player_name, record))))
      else Inl (StoreMalformedLine line_number
        (lit ''expected '' @ show_nat MINIMAL_FIELD_COUNT @ lit '', '' @ show_nat LEGACY_MINIMAL_FIELD_COUNT @
         lit '', '' @ show_nat EXTENDED_FIELD_COUNT @ lit '', or '' @ show_nat LEGACY_EXTENDED_FIELD_COUNT @
         lit '' tab-separated fields, found '' @ show_nat (length fs))))"

section \<open>Parsing and writing the store\<close>

type_synonym player_records = "(player_name, player_record) btree_map"

text \<open>The counts of a legacy row added to the record the name already has.\<close>

definition merge_skill_counts :: "(rstring, u16) btree_map \<Rightarrow> (rstring, u16) btree_map \<Rightarrow> (rstring, u16) btree_map" where
  "merge_skill_counts extra counts =
     fold (\<lambda>(skill_id, count) counts.
       bt_insert skill_id (sat_add (case bt_get counts skill_id of Some n \<Rightarrow> n | None \<Rightarrow> 0) count) counts) extra counts"

definition merge_records :: "player_record \<Rightarrow> player_record \<Rightarrow> player_record" where
  "merge_records record existing =
     \<lparr>wins = sat_add (wins existing) (wins record),
      losses = sat_add (losses existing) (losses record),
      no_contests = sat_add (no_contests existing) (no_contests record),
      round_wins = sat_add (round_wins existing) (round_wins record),
      round_losses = sat_add (round_losses existing) (round_losses record),
      total_damage_done = sat_add (total_damage_done existing) (total_damage_done record),
      total_healing_done = sat_add (total_healing_done existing) (total_healing_done record),
      total_combat_ms = sat_add (total_combat_ms existing) (total_combat_ms record),
      cc_used = sat_add (cc_used existing) (cc_used record),
      cc_hits = sat_add (cc_hits existing) (cc_hits record),
      skill_pick_counts = merge_skill_counts (skill_pick_counts record) (skill_pick_counts existing)\<rparr>"

fun parse_record_lines ::
  "nat \<Rightarrow> rstring list \<Rightarrow> player_id list \<Rightarrow> player_records \<Rightarrow> record_store_error + player_records" where
  "parse_record_lines line_index [] legacy_ids records = Inr records"
| "parse_record_lines line_index (raw_line # lines) legacy_ids records =
     (let line_number = line_index + 1 in
      if trim raw_line = [] then parse_record_lines line_number lines legacy_ids records
      else
        and_then (parse_record_fields (split_on 9 raw_line) line_number) (\<lambda>(legacy_player_id, player_name, record).
        and_then
          (case legacy_player_id of
             None \<Rightarrow> Inr legacy_ids
           | Some player_id \<Rightarrow>
               if player_id \<in> set legacy_ids
               then Inl (StoreDuplicatePlayerId line_number (player_id_get player_id))
               else Inr (player_id # legacy_ids)) (\<lambda>legacy_ids.
        case bt_get records player_name of
          Some existing \<Rightarrow>
            if legacy_player_id \<noteq> None
            then parse_record_lines line_number lines legacy_ids
              (bt_insert player_name (merge_records record existing) records)
            else Inl (StoreDuplicatePlayerName line_number (player_name_as_str player_name))
        | None \<Rightarrow> parse_record_lines line_number lines legacy_ids (bt_insert player_name record records))))"

definition parse_records :: "rstring \<Rightarrow> record_store_error + player_records" where
  "parse_records input = parse_record_lines 0 (lines_of input) [] []"

text \<open>\<open>[T]::join\<close> with a one-character separator\<close>

fun join_on :: "rchar \<Rightarrow> rstring list \<Rightarrow> rstring" where
  "join_on sep [] = []"
| "join_on sep [x] = x"
| "join_on sep (x # y # xs) = x @ sep # join_on sep (y # xs)"

definition record_fields :: "player_name \<Rightarrow> player_record \<Rightarrow> rstring list" where
  "record_fields player_name record =
     (let skill_counts = join_on 44
        (map (\<lambda>(skill_id, count). skill_id @ 61 # show_nat (unat count)) (skill_pick_counts record)) in
      [player_name_as_str player_name, show_nat (unat (wins record)), show_nat (unat (losses record)),
       show_nat (unat (no_contests record)), show_nat (unat (round_wins record)),
       show_nat (unat (round_losses record)), show_nat (unat (total_damage_done record)),
       show_nat (unat (total_healing_done record)), show_nat (unat (total_combat_ms record)),
       show_nat (unat (cc_used record)), show_nat (unat (cc_hits record)), skill_counts])"

definition serialize_records :: "player_records \<Rightarrow> rstring" where
  "serialize_records records = concat (map (\<lambda>(name, record). join_on 9 (record_fields name record) @ [10]) records)"

definition canonicalize_record_store_contents :: "rstring \<Rightarrow> record_store_error + rstring" where
  "canonicalize_record_store_contents input =
     and_then (parse_records input) (\<lambda>records. Inr (serialize_records records))"

section \<open>The store\<close>

record player_record_store =
  prs_path :: "rstring option"
  prs_records :: player_records

text \<open>The file system under the store; it keeps a state of type \<open>'w\<close>.\<close>

record 'w record_files =
  rf_exists :: "rstring \<Rightarrow> 'w \<Rightarrow> bool"
  rf_len :: "rstring \<Rightarrow> 'w \<Rightarrow> rstring + u64"
  rf_read_to_string :: "rstring \<Rightarrow> 'w \<Rightarrow> rstring + rstring"
  rf_create_dir_all :: "rstring \<Rightarrow> 'w \<Rightarrow> (rstring + unit) \<times> 'w"
  rf_write :: "rstring \<Rightarrow> rstring \<Rightarrow> 'w \<Rightarrow> (rstring + unit) \<times> 'w"

definition new_ephemeral :: player_record_store where
  "new_ephemeral = \<lparr>prs_path = None, prs_records = []\<rparr>"

definition new_persistent :: "'w record_files \<Rightarrow> rstring \<Rightarrow> 'w \<Rightarrow> record_store_error + player_record_store" where
  "new_persistent fs path w =
     and_then
       (if rf_exists fs path w then
          and_then (map_err (StoreRead path) (rf_len fs path w)) (\<lambda>size.
          if size > MAX_RECORD_STORE_BYTES then Inl (StoreFileTooLarge path size MAX_RECORD_STORE_BYTES)
          else and_then (map_err (StoreRead path) (rf_read_to_string fs path w)) parse_records)
        else Inr [])
       (\<lambda>records. Inr \<lparr>prs_path = Some path, prs_records = records\<rparr>)"

text \<open>
  \<open>Path::parent\<close> on Unix: empty and \<open>.\<close> components are skipped from the end, the last component is
  cut off with its separator, and what ends the rest is skipped again. A leading \<open>/\<close> or \<open>.\<close> stays.
\<close>

definition path_parent :: "rstring \<Rightarrow> rstring option" where
  "path_parent path =
     (let start = (if path \<noteq> [] \<and> (hd path = 47 \<or> path = [46] \<or> take 2 path = [46, 47]) then [hd path] else []);
          skipped = dropWhile (\<lambda>c. c = [] \<or> c = [46]) in
      case skipped (rev (split_on 47 (drop (length start) path))) of
        [] \<Rightarrow> if start = [46] then Some [] else None
      | _ # rest \<Rightarrow> Some (start @ join_on 47 (rev (skipped rest))))"

definition store_flush :: "'w record_files \<Rightarrow> player_record_store \<Rightarrow> 'w \<Rightarrow> (record_store_error + unit) \<times> 'w" where
  "store_flush fs store w =
     (case prs_path store of
        None \<Rightarrow> (Inr (), w)
      | Some path \<Rightarrow>
          let (created, w) = (case path_parent path of
                None \<Rightarrow> (Inr (), w)
              | Some parent \<Rightarrow>
                  let (r, w) = rf_create_dir_all fs parent w in (map_err (StoreCreateParentDir parent) r, w)) in
          case created of
            Inl e \<Rightarrow> (Inl e, w)
          | Inr _ \<Rightarrow>
              let (r, w) = rf_write fs path (serialize_records (prs_records store)) w in
              (map_err (StoreWrite path) r, w))"

definition load_or_create ::
  "'w record_files \<Rightarrow> player_name \<Rightarrow> player_record_store \<Rightarrow> 'w \<Rightarrow>
   (record_store_error + player_record) \<times> player_record_store \<times> 'w" where
  "load_or_create fs player_name store w =
     (case bt_get (prs_records store) player_name of
        Some record \<Rightarrow> (Inr record, store, w)
      | None \<Rightarrow>
          let store = store\<lparr>prs_records := bt_insert player_name player_record_new (prs_records store)\<rparr>;
              (flushed, w) = store_flush fs store w in
          (and_then flushed (\<lambda>_. Inr player_record_new), store, w))"

definition store_save ::
  "'w record_files \<Rightarrow> player_name \<Rightarrow> player_record \<Rightarrow> player_record_store \<Rightarrow> 'w \<Rightarrow>
   (record_store_error + unit) \<times> player_record_store \<times> 'w" where
  "store_save fs player_name record store w =
     (let store = store\<lparr>prs_records := bt_insert player_name record (prs_records store)\<rparr>;
          (flushed, w) = store_flush fs store w in
      (flushed, store, w))"

section \<open>Text lemmas\<close>

lemma show_nat_nonempty [simp]: "show_nat n \<noteq> []"
  by (subst show_nat.simps) simp

lemma parse_digits_append:
  "parse_digits m acc (s @ t) = and_then (parse_digits m acc s) (\<lambda>a. parse_digits m a t)"
  by (induction s arbitrary: acc) auto

lemma parse_digits_show: "n \<le> m \<Longrightarrow> parse_digits m 0 (show_nat n) = Inr n"
proof (induction n rule: show_nat.induct)
  case (1 n)
  show ?case
  proof (cases "n < 10")
    case True
    with 1 show ?thesis by (subst show_nat.simps) (simp add: is_ascii_digit_def)
  next
    case False
    with 1 have "parse_digits m 0 (show_nat (n div 10)) = Inr (n div 10)" by simp
    moreover have "n div 10 * 10 + n mod 10 = n" by simp
    ultimately show ?thesis
      using False 1(2) by (subst show_nat.simps) (simp add: parse_digits_append is_ascii_digit_def)
  qed
qed

lemma parse_unsigned_show: "n \<le> m \<Longrightarrow> parse_unsigned m (show_nat n) = Inr n"
proof -
  assume n: "n \<le> m"
  obtain c s where cs: "show_nat n = c # s" by (cases "show_nat n") auto
  then have "is_ascii_digit c" using show_nat_digits [of c n] by simp
  then have "c \<noteq> 43" "c \<noteq> 45" by (auto simp: is_ascii_digit_def)
  with parse_digits_show [OF n] cs show ?thesis
    by (cases s) (simp_all add: parse_unsigned_def)
qed

lemma parse_u16_show: "parse_u16 (show_nat (unat c)) = Inr c"
proof -
  have "unat c < 2 ^ LENGTH(16)" by (rule unsigned_less)
  then show ?thesis by (simp add: parse_u16_def parse_unsigned_show)
qed

lemma parse_u32_show: "parse_u32 (show_nat (unat c)) = Inr c"
proof -
  have "unat c < 2 ^ LENGTH(32)" by (rule unsigned_less)
  then show ?thesis by (simp add: parse_u32_def parse_unsigned_show)
qed

lemma parse_counter_show [simp]: "parse_counter (show_nat (unat c)) n f = Inr c"
  "parse_counter_u32 (show_nat (unat d)) n f = Inr d"
  by (simp_all add: parse_counter_def parse_counter_u32_def parse_u16_show parse_u32_show)

lemma show_nat_free: "\<not> is_ascii_digit c \<Longrightarrow> c \<notin> set (show_nat n)"
  using show_nat_digits by blast

lemma split_on_nonempty [simp]: "split_on sep s \<noteq> []"
  by (induction s) (auto split: list.splits)

lemma split_on_piece: "p \<in> set (split_on sep s) \<Longrightarrow> sep \<notin> set p \<and> set p \<subseteq> set s"
proof (induction s arbitrary: p)
  case (Cons c s)
  then show ?case
    by (cases "split_on sep s") (fastforce split: if_splits)+
qed simp

lemma split_join_on: "xs \<noteq> [] \<Longrightarrow> \<forall>x \<in> set xs. sep \<notin> set x \<Longrightarrow> split_on sep (join_on sep xs) = xs"
  by (induction sep xs rule: join_on.induct) (auto simp: split_on_append split_on_none)

lemma set_join_on: "set (join_on sep xs) \<subseteq> insert sep (\<Union>x \<in> set xs. set x)"
  by (induction sep xs rule: join_on.induct) auto

lemma join_on_eq_Nil: "join_on sep xs = [] \<longleftrightarrow> xs = [] \<or> xs = [[]]"
  by (induction sep xs rule: join_on.induct) auto

lemma last_join_on: "xs \<noteq> [] \<Longrightarrow> last xs \<noteq> [] \<Longrightarrow> last (join_on sep xs) = last (last xs)"
  by (induction sep xs rule: join_on.induct) (auto simp: join_on_eq_Nil)

lemma last_join_on_Nil: "length xs > 1 \<Longrightarrow> last xs = [] \<Longrightarrow> last (join_on sep xs) = sep"
proof (induction sep xs rule: join_on.induct)
  case (3 sep x y xs)
  then show ?case by (cases xs) (auto simp: join_on_eq_Nil)
qed simp_all

lemma split_once_append: "sep \<notin> set k \<Longrightarrow> split_once sep (k @ sep # v) = Some (k, v)"
  by (induction k) (auto simp: split_once_def)

lemma split_once_parts: "split_once sep s = Some (k, v) \<Longrightarrow> sep \<notin> set k \<and> set k \<subseteq> set s"
  by (auto simp: split_once_def split: if_splits dest: set_takeWhileD)

lemma split_rows:
  "\<forall>row \<in> set rows. 10 \<notin> set row \<Longrightarrow> split_on 10 (concat (map (\<lambda>row. row @ [10]) rows)) = rows @ [[]]"
  by (induction rows) (auto simp: split_on_append)

lemma lines_of_rows:
  assumes "\<forall>row \<in> set rows. 10 \<notin> set row \<and> row \<noteq> [] \<and> last row \<noteq> 13"
  shows "lines_of (concat (map (\<lambda>row. row @ [10]) rows)) = rows"
proof -
  have "split_on 10 (concat (map (\<lambda>row. row @ [10]) rows)) = rows @ [[]]"
    using assms by (intro split_rows) auto
  moreover have "map strip_cr rows = rows"
    using assms by (intro map_idI) (auto simp: strip_cr_def)
  ultimately show ?thesis by (simp add: lines_of_def Let_def)
qed

lemma lines_of_line:
  assumes "line \<in> set (lines_of s)"
  shows "10 \<notin> set line"
proof -
  have pieces: "10 \<notin> set piece" if "piece \<in> set (split_on 10 s)" for piece
    using split_on_piece [OF that] by blast
  have strip: "set (strip_cr piece) \<subseteq> set piece" for piece
    by (auto simp: strip_cr_def dest: in_set_butlastD)
  from assms consider piece where "piece \<in> set (split_on 10 s)" "line = strip_cr piece" | "line \<in> set (split_on 10 s)"
    by (auto simp: lines_of_def Let_def split: if_splits dest: in_set_butlastD)
  then show ?thesis using pieces strip by cases blast+
qed

section \<open>What the store holds\<close>

definition wf_skill_id :: "rstring \<Rightarrow> bool" where
  "wf_skill_id s \<longleftrightarrow> s \<noteq> [] \<and> set s \<inter> {9, 10, 44, 61} = {}"

definition storable :: "player_record \<Rightarrow> bool" where
  "storable r \<longleftrightarrow> wf_record r \<and> list_all wf_skill_id (map fst (skill_pick_counts r))"

definition wf_records :: "player_records \<Rightarrow> bool" where
  "wf_records m \<longleftrightarrow> bt_inv m \<and> list_all (\<lambda>(name, r). wf_player_name name \<and> storable r) m"

lemma wf_records_Nil [simp]: "wf_records []"
  by (simp add: wf_records_def btree.inv_empty)

lemma storable_new [simp]: "storable player_record_new"
  by (simp add: storable_def) (simp add: player_record_new_def)

lemma set_bt_insert: "set (bt_insert k v m) \<subseteq> insert (k, v) (set m)"
  by (induction k v m rule: bt_insert.induct) auto

lemma wf_records_insert: "wf_records m \<Longrightarrow> wf_player_name name \<Longrightarrow> storable r \<Longrightarrow> wf_records (bt_insert name r m)"
  using set_bt_insert [of name r m] by (fastforce simp: wf_records_def list_all_iff bt_inv_ops)

lemma wf_records_get: "wf_records m \<Longrightarrow> bt_get m name = Some r \<Longrightarrow> wf_player_name name \<and> storable r"
  by (auto simp: wf_records_def list_all_iff dest!: map_of_SomeD)


section \<open>Reading back what was written\<close>

lemma name_free: "wf_player_name name \<Longrightarrow> c \<in> set (player_name_as_str name) \<Longrightarrow> name_char_ok c"
  by (simp add: wf_player_name_def list_all_iff)

lemma name_char_free: "name_char_ok c \<Longrightarrow> c \<noteq> 9 \<and> c \<noteq> 10 \<and> c \<noteq> 13"
  by (auto simp: name_char_ok_def is_ascii_alphanumeric_def is_ascii_digit_def is_ascii_uppercase_def
      is_ascii_lowercase_def)

definition encode_pick :: "rstring \<times> u16 \<Rightarrow> rstring" where
  "encode_pick = (\<lambda>(skill_id, count). skill_id @ 61 # show_nat (unat count))"

lemma parse_encoded_picks:
  "\<forall>(k, _) \<in> set cs. wf_skill_id k \<Longrightarrow>
   parse_skill_pick_entries n (map encode_pick cs) acc = Inr (fold (\<lambda>(k, v). bt_insert k v) cs acc)"
proof (induction cs arbitrary: acc)
  case (Cons kv cs)
  obtain k v where kv: "kv = (k, v)" by (cases kv)
  with Cons.prems have k: "wf_skill_id k" by simp
  then have "split_once 61 (encode_pick kv) = Some (k, show_nat (unat v))"
    by (simp add: kv encode_pick_def wf_skill_id_def split_once_append)
  with k Cons show ?case by (simp add: kv wf_skill_id_def)
qed simp

lemma encode_pick_chars:
  "wf_skill_id (fst kv) \<Longrightarrow> set (encode_pick kv) \<inter> {9, 10, 44} = {} \<and> encode_pick kv \<noteq> [] \<and> last (encode_pick kv) \<noteq> 13"
  using show_nat_digits [OF last_in_set [OF show_nat_nonempty], of "unat (snd kv)"]
  by (cases kv) (auto simp: encode_pick_def wf_skill_id_def is_ascii_digit_def dest: show_nat_digits)

lemma parse_encoded_counts:
  assumes "storable r"
  shows "parse_skill_pick_counts (join_on 44 (map encode_pick (skill_pick_counts r))) n = Inr (skill_pick_counts r)"
proof (cases "skill_pick_counts r = []")
  case True
  then show ?thesis by (simp add: parse_skill_pick_counts_def)
next
  case False
  let ?cs = "skill_pick_counts r"
  have wf: "\<forall>kv \<in> set ?cs. wf_skill_id (fst kv)"
    using assms by (simp add: storable_def list_all_iff)
  have enc: "\<forall>x \<in> set (map encode_pick ?cs). 44 \<notin> set x \<and> x \<noteq> []"
  proof
    fix x assume "x \<in> set (map encode_pick ?cs)"
    then obtain kv where "kv \<in> set ?cs" "x = encode_pick kv" by auto
    with wf encode_pick_chars [of kv] show "44 \<notin> set x \<and> x \<noteq> []" by auto
  qed
  from enc have "[] \<notin> set (map encode_pick ?cs)" by blast
  with False have "join_on 44 (map encode_pick ?cs) \<noteq> []"
    by (metis join_on_eq_Nil map_is_Nil_conv list.set_intros(1))
  moreover have "parse_skill_pick_entries n (map encode_pick ?cs) [] = Inr (fold (\<lambda>(k, v). bt_insert k v) ?cs [])"
    using wf by (intro parse_encoded_picks) auto
  ultimately show ?thesis
    using False assms enc
    by (simp add: parse_skill_pick_counts_def split_join_on storable_def wf_record_def btree.rebuild)
qed

lemma record_fields_shape:
  "record_fields name r = [player_name_as_str name, show_nat (unat (wins r)), show_nat (unat (losses r)),
       show_nat (unat (no_contests r)), show_nat (unat (round_wins r)),
       show_nat (unat (round_losses r)), show_nat (unat (total_damage_done r)),
       show_nat (unat (total_healing_done r)), show_nat (unat (total_combat_ms r)),
       show_nat (unat (cc_used r)), show_nat (unat (cc_hits r)),
       join_on 44 (map encode_pick (skill_pick_counts r))]"
  by (simp add: record_fields_def encode_pick_def)

lemma parse_player_name_back: "wf_player_name name \<Longrightarrow> parse_player_name (player_name_as_str name) n = Inr name"
  by (simp add: parse_player_name_def player_name_roundtrip)

lemma parse_record_fields_back:
  assumes "wf_player_name name" "storable r"
  shows "parse_record_fields (record_fields name r) n = Inr (None, name, r)"
  using parse_encoded_counts [OF assms(2), of n] assms(1)
  by (simp add: record_fields_shape parse_record_fields_def field_counts parse_extended_record_fields_def
      parse_player_name_back numeral_2_eq_2 [symmetric])

lemma record_row:
  assumes "wf_player_name name" "storable r"
  defines "row \<equiv> join_on 9 (record_fields name r)"
  shows "split_on 9 row = record_fields name r" "10 \<notin> set row" "row \<noteq> []" "last row \<noteq> 13" "trim row \<noteq> []"
proof -
  let ?cs = "map encode_pick (skill_pick_counts r)"
  have enc: "\<forall>x \<in> set ?cs. set x \<inter> {9, 10, 44} = {} \<and> x \<noteq> [] \<and> last x \<noteq> 13"
    using assms(2) encode_pick_chars by (auto simp: storable_def list_all_iff)
  then have counts: "9 \<notin> set (join_on 44 ?cs)" "10 \<notin> set (join_on 44 ?cs)"
    using set_join_on [of 44 ?cs] by fastforce+
  have digits: "9 \<notin> set (show_nat k)" "10 \<notin> set (show_nat k)" for k
    by (simp_all add: show_nat_free is_ascii_digit_def)
  have name: "9 \<notin> set (player_name_as_str name)" "10 \<notin> set (player_name_as_str name)"
    using name_free [OF assms(1)] name_char_free by blast+
  have fields9: "\<forall>x \<in> set (record_fields name r). 9 \<notin> set x"
    and fields10: "\<forall>x \<in> set (record_fields name r). 10 \<notin> set x"
    using counts digits name by (auto simp: record_fields_shape)
  show "split_on 9 row = record_fields name r"
    unfolding row_def by (rule split_join_on) (simp_all add: record_fields_shape fields9 [simplified record_fields_shape])
  show "10 \<notin> set row"
    using fields10 set_join_on [of 9 "record_fields name r"] unfolding row_def by fastforce
  obtain c s where cs: "player_name_as_str name = c # s"
    using assms(1) by (cases "player_name_as_str name") (auto simp: wf_player_name_def)
  have row: "row = c # s @ 9 # join_on 9 (tl (record_fields name r))"
    by (simp add: row_def record_fields_shape cs)
  then show "row \<noteq> []" by simp
  have "\<not> is_whitespace c"
    using name_free [OF assms(1), of c] cs by (simp add: name_char_not_whitespace)
  then show "trim row \<noteq> []"
    by (simp add: trim_def row)
  show "last row \<noteq> 13"
  proof (cases "?cs = []")
    case True
    then have "last row = 9"
      unfolding row_def by (intro last_join_on_Nil) (simp_all add: record_fields_shape)
    then show ?thesis by simp
  next
    case False
    with enc have l: "last ?cs \<noteq> []" "last (last ?cs) \<noteq> 13" using last_in_set by blast+
    with False have "join_on 44 ?cs \<noteq> []" "last (join_on 44 ?cs) = last (last ?cs)"
      by (auto simp: last_join_on join_on_eq_Nil)
    then have "last row = last (last ?cs)"
      unfolding row_def by (subst last_join_on) (simp_all add: record_fields_shape)
    with l(2) show ?thesis by simp
  qed
qed

lemma parse_written_rows:
  assumes "\<forall>(name, r) \<in> set rows. wf_player_name name \<and> storable r"
    and "distinct (map fst rows)" "\<forall>name \<in> fst ` set rows. bt_get acc name = None" "bt_inv acc"
  shows "parse_record_lines n (map (\<lambda>(name, r). join_on 9 (record_fields name r)) rows) ids acc =
     Inr (fold (\<lambda>(name, r). bt_insert name r) rows acc)"
  using assms
proof (induction rows arbitrary: n acc)
  case (Cons row rows)
  obtain name r where row: "row = (name, r)" by (cases row)
  with Cons.prems have wf: "wf_player_name name" "storable r" and new: "bt_get acc name = None" by auto
  have "\<forall>k \<in> fst ` set rows. bt_get (bt_insert name r acc) k = None"
    using Cons.prems row by (auto simp: bt_get_insert)
  moreover have "bt_inv (bt_insert name r acc)" using Cons.prems by (simp add: bt_inv_ops)
  ultimately show ?case
    using Cons wf new by (simp add: row record_row parse_record_fields_back)
qed simp

lemma parse_written:
  assumes "wf_records m"
  shows "parse_records (serialize_records m) = Inr m"
proof -
  let ?row = "\<lambda>(name, r). join_on 9 (record_fields name r)"
  have wf: "\<forall>(name, r) \<in> set m. wf_player_name name \<and> storable r" and inv: "bt_inv m"
    using assms by (auto simp: wf_records_def list_all_iff)
  have "serialize_records m = concat (map (\<lambda>row. row @ [10]) (map ?row m))"
    by (simp add: serialize_records_def comp_def case_prod_unfold)
  moreover have "\<forall>row \<in> set (map ?row m). 10 \<notin> set row \<and> row \<noteq> [] \<and> last row \<noteq> 13"
    using wf record_row by fastforce
  ultimately have "lines_of (serialize_records m) = map ?row m" by (simp only: lines_of_rows)
  then show ?thesis
    using parse_written_rows [of m "[]" 0 "[]"] wf inv btree.entries_distinct [OF inv] btree.rebuild [OF inv]
    by (simp add: parse_records_def btree.inv_empty)
qed

section \<open>What parses is well-formed\<close>

lemma all_keys_insert: "list_all P (map fst (bt_insert k v m)) \<longleftrightarrow> P k \<and> list_all P (map fst m)"
proof -
  have "list_all P (map fst m') \<longleftrightarrow> (\<forall>x \<in> fst ` set m'. P x)" for m' :: "('a \<times> 'b) list"
    by (simp add: list_all_iff)
  then show ?thesis by (simp only: set_keys_insert) auto
qed

lemma parse_entries_wf:
  assumes "parse_skill_pick_entries n entries counts = Inr counts'" "bt_inv counts"
    and "list_all wf_skill_id (map fst counts)" "\<forall>e \<in> set entries. set e \<inter> {9, 10, 44} = {}"
  shows "bt_inv counts' \<and> list_all wf_skill_id (map fst counts')"
  using assms
proof (induction entries arbitrary: counts)
  case (Cons e es)
  then obtain k v c where kv: "split_once 61 e = Some (k, v)" "k \<noteq> []"
      and rest: "parse_skill_pick_entries n es (bt_insert k c counts) = Inr counts'"
    by (auto split: option.splits if_splits simp: and_then_eq_Inr)
  from split_once_parts [OF kv(1)] kv(2) Cons.prems(4) have "wf_skill_id k"
    by (auto simp: wf_skill_id_def)
  then have "list_all wf_skill_id (map fst (bt_insert k c counts))"
    using Cons.prems(3) by (simp add: all_keys_insert)
  with Cons rest show ?case by (simp add: bt_inv_ops)
qed simp

lemma parse_counts_wf:
  assumes "parse_skill_pick_counts raw n = Inr counts" "9 \<notin> set raw" "10 \<notin> set raw"
  shows "bt_inv counts \<and> list_all wf_skill_id (map fst counts)"
proof (cases "raw = []")
  case True
  with assms show ?thesis by (simp add: parse_skill_pick_counts_def btree.inv_empty)
next
  case False
  have "\<forall>e \<in> set (split_on 44 raw). set e \<inter> {9, 10, 44} = {}"
    using split_on_piece [of _ 44 raw] assms(2,3) by blast
  with parse_entries_wf [of n "split_on 44 raw" "[]" counts] assms(1) False show ?thesis
    by (simp add: parse_skill_pick_counts_def btree.inv_empty)
qed

lemma parse_extended_wf:
  assumes "parse_extended_record_fields fs n = Inr r" "\<forall>f \<in> set fs. 9 \<notin> set f \<and> 10 \<notin> set f"
  shows "storable r"
proof -
  have len: "length fs = 11" using assms(1) by (auto simp: parse_extended_record_fields_def field_counts split: if_splits)
  then have "fs ! 10 \<in> set fs" by simp
  with assms(2) have "9 \<notin> set (fs ! 10)" "10 \<notin> set (fs ! 10)" by auto
  moreover obtain counts where "parse_skill_pick_counts (fs ! 10) n = Inr counts" "skill_pick_counts r = counts"
    using assms(1) len by (auto simp: parse_extended_record_fields_def field_counts and_then_eq_Inr)
  ultimately show ?thesis using parse_counts_wf by (auto simp: storable_def wf_record_def)
qed

lemma parse_record_fields_wf:
  assumes "parse_record_fields fs n = Inr (legacy, name, r)" "\<forall>f \<in> set fs. 9 \<notin> set f \<and> 10 \<notin> set f"
  shows "wf_player_name name \<and> storable r"
proof -
  have name: "parse_player_name raw n = Inr name \<Longrightarrow> wf_player_name name" for raw
    by (auto simp: parse_player_name_def dest: player_name_new_wf)
  have minimal: "parse_record_counters a b c n = Inr r \<Longrightarrow> storable r" for a b c
    by (auto simp: parse_record_counters_def and_then_eq_Inr storable_def wf_record_def player_record_new_def
        btree.inv_empty)
  have "parse_extended_record_fields (drop k fs) n = Inr r \<Longrightarrow> storable r" for k
    using assms(2) by (auto dest!: in_set_dropD intro: parse_extended_wf)
  with assms(1) name minimal show ?thesis
    by (auto simp: parse_record_fields_def and_then_eq_Inr split: if_splits)
qed

lemma merge_skill_counts_wf:
  assumes "bt_inv counts" "list_all wf_skill_id (map fst counts)" "list_all wf_skill_id (map fst extra)"
  shows "bt_inv (merge_skill_counts extra counts) \<and> list_all wf_skill_id (map fst (merge_skill_counts extra counts))"
  using assms unfolding merge_skill_counts_def
proof (induction extra arbitrary: counts)
  case (Cons kv extra)
  obtain k v where kv: "kv = (k, v)" by (cases kv)
  have "list_all wf_skill_id (map fst (bt_insert k c counts))" for c
    using Cons.prems kv by (simp add: all_keys_insert)
  with Cons show ?case by (simp add: kv bt_inv_ops)
qed simp

lemma merge_records_wf: "storable r \<Longrightarrow> storable existing \<Longrightarrow> storable (merge_records r existing)"
  using merge_skill_counts_wf by (auto simp: storable_def wf_record_def merge_records_def)

lemma parse_lines_wf:
  assumes "parse_record_lines n lines ids m = Inr m'" "wf_records m" "\<forall>line \<in> set lines. 10 \<notin> set line"
  shows "wf_records m'"
  using assms
proof (induction lines arbitrary: n ids m)
  case (Cons line lines)
  show ?case
  proof (cases "trim line = []")
    case True
    with Cons show ?thesis by simp
  next
    case False
    with Cons.prems obtain legacy name r ids'
      where f: "parse_record_fields (split_on 9 line) (Suc n) = Inr (legacy, name, r)"
        and rest: "(case bt_get m name of
          Some existing \<Rightarrow>
            if legacy \<noteq> None then parse_record_lines (Suc n) lines ids' (bt_insert name (merge_records r existing) m)
            else Inl (StoreDuplicatePlayerName (Suc n) (player_name_as_str name))
        | None \<Rightarrow> parse_record_lines (Suc n) lines ids' (bt_insert name r m)) = Inr m'"
      by (auto simp: and_then_eq_Inr Let_def)
    have "\<forall>f \<in> set (split_on 9 line). 9 \<notin> set f \<and> 10 \<notin> set f"
      using split_on_piece [of _ 9 line] Cons.prems(3) by auto
    with f have wf: "wf_player_name name" "storable r" using parse_record_fields_wf by auto
    show ?thesis
    proof (cases "bt_get m name")
      case None
      with rest Cons wf show ?thesis by (auto intro: wf_records_insert)
    next
      case (Some existing)
      with Cons.prems(2) wf have "wf_records (bt_insert name (merge_records r existing) m)"
        by (auto intro!: wf_records_insert merge_records_wf dest: wf_records_get)
      with rest Some Cons show ?thesis by (auto split: if_splits)
    qed
  qed
qed simp

lemma parse_records_wf: "parse_records input = Inr m \<Longrightarrow> wf_records m"
  using parse_lines_wf lines_of_line by (auto simp: parse_records_def)

text \<open>C20: the store file. Whatever text parses holds valid names, counters at their widths and skill ids free of
  separators; the canonical text written from it parses to the same records, so rewriting it again changes nothing.\<close>

theorem canonical_store_stable:
  assumes "canonicalize_record_store_contents input = Inr text"
  shows "\<exists>records. parse_records input = Inr records \<and> wf_records records \<and>
     parse_records text = Inr records \<and> canonicalize_record_store_contents text = Inr text"
proof -
  from assms obtain m where m: "parse_records input = Inr m" "text = serialize_records m"
    by (auto simp: canonicalize_record_store_contents_def and_then_eq_Inr)
  with parse_records_wf [OF m(1)] parse_written show ?thesis
    by (auto simp: canonicalize_record_store_contents_def)
qed

text \<open>Two legacy rows of one name: \<open>1 Al 1 2 3\<close> and \<open>2 Al 4 5 6\<close>.\<close>

definition sample_store :: rstring where
  "sample_store = [49, 9, 65, 108, 9, 49, 9, 50, 9, 51, 10, 50, 9, 65, 108, 9, 52, 9, 53, 9, 54, 10]"

lemma sample_store_canonical:
  "canonicalize_record_store_contents sample_store =
     Inr [65, 108, 9, 53, 9, 55, 9, 57, 9, 48, 9, 48, 9, 48, 9, 48, 9, 48, 9, 48, 9, 48, 9, 10]"
proof -
  have l: "lines_of sample_store = [[49, 9, 65, 108, 9, 49, 9, 50, 9, 51], [50, 9, 65, 108, 9, 52, 9, 53, 9, 54]]"
    by (simp add: sample_store_def lines_of_def strip_cr_def Let_def)
  show ?thesis
    by (simp add: canonicalize_record_store_contents_def parse_records_def l trim_def is_whitespace_def
        parse_record_fields_def field_counts parse_player_id_def parse_u32_def parse_unsigned_def is_ascii_digit_def
        player_id_new_def non_zero_id_def parse_player_name_def player_name_new_def Let_def str_len_ascii
        MAX_PLAYER_NAME_LEN_def name_char_ok_def is_ascii_alphanumeric_def is_ascii_uppercase_def
        is_ascii_lowercase_def parse_record_counters_def parse_counter_def parse_u16_def player_record_new_def
        merge_records_def merge_skill_counts_def sat_add_def serialize_records_def record_fields_def
        show_nat.simps)
qed

theorem canonical_store_stable_witness:
  "\<exists>records. parse_records sample_store = Inr records \<and> wf_records records \<and>
     parse_records [65, 108, 9, 53, 9, 55, 9, 57, 9, 48, 9, 48, 9, 48, 9, 48, 9, 48, 9, 48, 9, 48, 9, 10] = Inr records \<and>
     canonicalize_record_store_contents [65, 108, 9, 53, 9, 55, 9, 57, 9, 48, 9, 48, 9, 48, 9, 48, 9, 48, 9, 48, 9, 48, 9, 10] =
       Inr [65, 108, 9, 53, 9, 55, 9, 57, 9, 48, 9, 48, 9, 48, 9, 48, 9, 48, 9, 48, 9, 48, 9, 10]"
  by (rule canonical_store_stable [OF sample_store_canonical])

section \<open>Restarting from the saved file\<close>

text \<open>What is written to a file is what is read from it afterwards.\<close>

definition files_keep :: "'w record_files \<Rightarrow> bool" where
  "files_keep fs \<longleftrightarrow> (\<forall>path text w w'. rf_write fs path text w = (Inr (), w') \<longrightarrow>
     rf_exists fs path w' \<and> rf_len fs path w' = Inr (of_nat (str_len text)) \<and>
     rf_read_to_string fs path w' = Inr text)"

lemma store_save_records:
  "store_save fs name record store w = (r, store', w') \<Longrightarrow>
   prs_records store' = bt_insert name record (prs_records store) \<and> prs_path store' = prs_path store"
  by (auto simp: store_save_def Let_def split: prod.splits)

lemma store_flush_written:
  assumes "store_flush fs store w = (Inr (), w')" "prs_path store = Some path"
  shows "\<exists>w0. rf_write fs path (serialize_records (prs_records store)) w0 = (Inr (), w')"
  using assms by (auto simp: store_flush_def Let_def split: prod.splits sum.splits)

lemma store_wf_save:
  assumes "wf_records (prs_records store)" "wf_player_name name" "storable record"
    and "store_save fs name record store w = (r, store', w')"
  shows "wf_records (prs_records store')"
  using store_save_records [OF assms(4)] assms(1-3) by (simp add: wf_records_insert)

lemma store_wf_load:
  assumes "wf_records (prs_records store)" "wf_player_name name"
    and "load_or_create fs name store w = (r, store', w')"
  shows "wf_records (prs_records store')" "r = Inr record \<Longrightarrow> storable record"
    "prs_path store' = prs_path store"
  using assms wf_records_get [OF assms(1), of name]
  by (auto simp: load_or_create_def Let_def wf_records_insert and_then_eq_Inr split: option.splits prod.splits)

text \<open>C19: in a store of valid names and of storable records, those whose skill ids are not empty and have no tab, line
  break, comma or equals sign, a storable record saved without an error is what the server finds when it starts again,
  unless the store has outgrown the limit of one mebibyte, which only the start checks: then the server does not
  start. A file system gives back what was written.\<close>

theorem saved_store_reopens:
  assumes "files_keep fs" "prs_path store = Some path" "wf_records (prs_records store)"
    and "wf_player_name name" "storable record"
    and "store_save fs name record store w = (Inr (), store', w')"
    and "str_len (serialize_records (prs_records store')) < 2 ^ 64"
  shows "bt_get (prs_records store') = (bt_get (prs_records store))(name \<mapsto> record) \<and>
     new_persistent fs path w' =
       (if str_len (serialize_records (prs_records store')) > 1048576
        then Inl (StoreFileTooLarge path (of_nat (str_len (serialize_records (prs_records store')))) 1048576)
        else Inr store')"
proof -
  note saved = store_save_records [OF assms(6)]
  let ?text = "serialize_records (prs_records store')"
  have "store_flush fs store' w = (Inr (), w')"
    using assms(6) by (auto simp: store_save_def Let_def split: prod.splits)
  then obtain w0 where "rf_write fs path ?text w0 = (Inr (), w')"
    using store_flush_written saved assms(2) by metis
  with assms(1) have kept: "rf_exists fs path w'" "rf_len fs path w' = Inr (of_nat (str_len ?text))"
      "rf_read_to_string fs path w' = Inr ?text"
    by (auto simp: files_keep_def)
  have "(of_nat (str_len ?text) :: u64) > MAX_RECORD_STORE_BYTES \<longleftrightarrow> str_len ?text > 1048576"
    using assms(7) by (simp add: MAX_RECORD_STORE_BYTES_def word_less_nat_alt unat_of_nat)
  moreover have "parse_records ?text = Inr (prs_records store')"
    by (rule parse_written [OF store_wf_save [OF assms(3-6)]])
  moreover have "store' = \<lparr>prs_path = Some path, prs_records = prs_records store'\<rparr>"
    using saved assms(2) by (cases store') simp
  ultimately have "new_persistent fs path w' =
       (if str_len ?text > 1048576 then Inl (StoreFileTooLarge path (of_nat (str_len ?text)) 1048576) else Inr store')"
    by (simp add: new_persistent_def kept and_then_def MAX_RECORD_STORE_BYTES_def)
  moreover have "bt_get (prs_records store') = (bt_get (prs_records store))(name \<mapsto> record)"
    using saved assms(3) bt_get_insert unfolding wf_records_def by metis
  ultimately show ?thesis by (rule conjI [rotated])
qed

text \<open>Files in memory.\<close>

definition memory_files :: "(rstring \<rightharpoonup> rstring) record_files" where
  "memory_files =
     \<lparr>rf_exists = (\<lambda>path w. w path \<noteq> None),
      rf_len = (\<lambda>path w. case w path of None \<Rightarrow> Inl (lit ''not found'') | Some text \<Rightarrow> Inr (of_nat (str_len text))),
      rf_read_to_string = (\<lambda>path w. case w path of None \<Rightarrow> Inl (lit ''not found'') | Some text \<Rightarrow> Inr text),
      rf_create_dir_all = (\<lambda>path w. (Inr (), w)),
      rf_write = (\<lambda>path text w. (Inr (), w(path \<mapsto> text)))\<rparr>"

lemma memory_files_keep: "files_keep memory_files"
  by (simp add: files_keep_def memory_files_def)

lemma memory_save:
  "store_save memory_files (PlayerName [65]) player_record_new \<lparr>prs_path = Some [114], prs_records = []\<rparr> Map.empty =
     (Inr (), \<lparr>prs_path = Some [114], prs_records = [(PlayerName [65], player_record_new)]\<rparr>,
      [[114] \<mapsto> serialize_records [(PlayerName [65], player_record_new)]])"
  by (simp add: store_save_def store_flush_def path_parent_def Let_def memory_files_def)

lemma sample_record_text:
  "serialize_records [(PlayerName [65], player_record_new)] =
     [65, 9, 48, 9, 48, 9, 48, 9, 48, 9, 48, 9, 48, 9, 48, 9, 48, 9, 48, 9, 48, 9, 10]"
  by (simp add: serialize_records_def record_fields_def player_record_new_def show_nat.simps)

theorem saved_store_reopens_witness:
  "new_persistent memory_files [114] [[114] \<mapsto> serialize_records [(PlayerName [65], player_record_new)]] =
     Inr \<lparr>prs_path = Some [114], prs_records = [(PlayerName [65], player_record_new)]\<rparr>"
proof -
  have "wf_player_name (PlayerName [65])"
    by (simp add: wf_player_name_def MAX_PLAYER_NAME_LEN_def name_char_ok_def is_ascii_alphanumeric_def
        is_ascii_uppercase_def)
  from saved_store_reopens [OF memory_files_keep _ _ this storable_new memory_save, of "[114]"]
  show ?thesis by (simp add: sample_record_text str_len_ascii)
qed

end
