(* ===== verification/Error_Text.thy ===== *)
theory Error_Text
  imports Lobby Match_Flow Packet
begin

text \<open>
  The texts the server sends with an error: the \<open>Display\<close> of \<open>LobbyError\<close>, \<open>MatchError\<close> and
  \<open>PacketError\<close>. The display of a packet error asks five groups in turn, each of which answers for
  its variants only; every variant has an answer, so the \<open>fmt::Error\<close> behind them is never reached.
\<close>

section \<open>Numbers\<close>

definition show_n :: "'a::len word \<Rightarrow> rstring" where
  "show_n n = show_nat (unat n)"

definition show_id :: "player_id \<Rightarrow> rstring" where
  "show_id p = show_n (player_id_get p)"

definition hex_digit :: "u16 \<Rightarrow> rchar" where
  "hex_digit n = (if n < 10 then 48 + unat n else 87 + unat n)"

text \<open>\<open>{:#06x}\<close> of a \<open>u16\<close>: the prefix and four digits.\<close>

definition show_hex :: "u16 \<Rightarrow> rstring" where
  "show_hex n = lit ''0x'' @ map (\<lambda>k. hex_digit (drop_bit (4 * k) n AND 15)) [3, 2, 1, 0]"

section \<open>Lobby and match\<close>

fun lobby_error_text :: "lobby_error \<Rightarrow> rstring" where
  "lobby_error_text (DuplicatePlayer p) = lit ''player '' @ show_id p @ lit '' is already in the lobby''"
| "lobby_error_text (lobby_error.PlayerMissing p) = lit ''player '' @ show_id p @ lit '' is not in the lobby''"
| "lobby_error_text (TeamRequiredForReady p) =
     lit ''player '' @ show_id p @ lit '' must join a team before toggling ready''"
| "lobby_error_text LobbyLocked = lit ''lobby roster is locked''"
| "lobby_error_text CountdownNotRunning = lit ''launch countdown is not running''"

fun match_error_text :: "match_error \<Rightarrow> rstring" where
  "match_error_text (InvalidConfiguration message) = lit ''match configuration is invalid: '' @ message"
| "match_error_text (MatchDuplicatePlayer p) =
     lit ''player '' @ show_id p @ lit '' appears more than once in the match roster''"
| "match_error_text (MissingTeam team) = team_as_str team @ lit '' must contain at least one player''"
| "match_error_text (MatchPlayerMissing p) = lit ''player '' @ show_id p @ lit '' is not part of the match''"
| "match_error_text (WrongPhase expected actual) =
     lit ''match expected phase '' @ lit expected @ lit '' but is currently '' @ lit actual"
| "match_error_text (SkillAlreadySelected p) =
     lit ''player '' @ show_id p @ lit '' already selected a skill this round''"
| "match_error_text (InvalidSkillChoice error) = domain_error_text error"
| "match_error_text (match_error.PlayerAlreadyDefeated p) = lit ''player '' @ show_id p @ lit '' is already defeated''"

section \<open>Packets\<close>

text \<open>The derived \<open>Debug\<close> of channels and kinds.\<close>

fun channel_debug :: "channel_id \<Rightarrow> rstring" where
  "channel_debug ControlChannel = lit ''Control''"
| "channel_debug InputChannel = lit ''Input''"
| "channel_debug SnapshotChannel = lit ''Snapshot''"

fun kind_debug :: "packet_kind \<Rightarrow> rstring" where
  "kind_debug ControlSnapshot = lit ''ControlSnapshot''"
| "kind_debug ControlDelta = lit ''ControlDelta''"
| "kind_debug LaunchCountdownStartedPacket = lit ''LaunchCountdownStarted''"
| "kind_debug MatchStartedPacket = lit ''MatchStarted''"
| "kind_debug MatchAbortedPacket = lit ''MatchAborted''"
| "kind_debug MatchStatistics = lit ''MatchStatistics''"
| "kind_debug ControlCommand = lit ''ControlCommand''"
| "kind_debug ControlEvent = lit ''ControlEvent''"
| "kind_debug InputFrame = lit ''InputFrame''"
| "kind_debug FullSnapshot = lit ''FullSnapshot''"
| "kind_debug DeltaSnapshot = lit ''DeltaSnapshot''"
| "kind_debug EventBatch = lit ''EventBatch''"
| "kind_debug CombatTextBatch = lit ''CombatTextBatch''"

definition fmt_protocol_error :: "packet_error \<Rightarrow> rstring option" where
  "fmt_protocol_error e = (case e of
     PacketTooShort actual minimum \<Rightarrow> Some (lit ''packet length '' @ show_nat actual @
       lit '' is below the minimum header length '' @ show_nat minimum)
   | MagicMismatch expected actual \<Rightarrow> Some (lit ''packet magic '' @ show_hex actual @
       lit '' does not match expected '' @ show_hex expected)
   | VersionMismatch expected actual \<Rightarrow> Some (lit ''protocol version '' @ show_n actual @
       lit '' does not match expected version '' @ show_n expected)
   | UnknownChannel raw \<Rightarrow> Some (lit ''unknown channel id '' @ show_n raw)
   | UnknownPacketKind channel raw_kind \<Rightarrow> Some (lit ''unknown packet kind '' @ show_n raw_kind @
       lit '' on channel '' @ channel_debug channel)
   | PayloadLengthMismatch declared actual \<Rightarrow> Some (lit ''payload length declared '' @ show_n declared @
       lit '' but actual bytes were '' @ show_nat actual)
   | UnexpectedPacketKind expected_channel expected_kind actual_channel actual_kind \<Rightarrow>
       Some (lit ''expected '' @ channel_debug expected_channel @ lit ''/'' @ kind_debug expected_kind @
         lit '' but received '' @ channel_debug actual_channel @ lit ''/'' @ kind_debug actual_kind)
   | PayloadTooLarge actual maximum \<Rightarrow> Some (lit ''payload length '' @ show_nat actual @
       lit '' exceeds maximum encodable '' @ show_nat maximum)
   | _ \<Rightarrow> None)"

definition fmt_input_error :: "packet_error \<Rightarrow> rstring option" where
  "fmt_input_error e = (case e of
     InputPayloadLengthMismatch expected actual \<Rightarrow> Some (lit ''input payload length '' @ show_nat actual @
       lit '' does not match expected length '' @ show_nat expected)
   | UnknownButtonBits provided allowed_mask \<Rightarrow> Some (lit ''button bits '' @ show_hex provided @
       lit '' exceed allowed mask '' @ show_hex allowed_mask)
   | MissingAbilityContext \<Rightarrow> Some (lit ''cast packets must provide a non-zero ability_or_context'')
   | SelfCastWithoutCast \<Rightarrow> Some (lit ''self-cast requires cast to be requested'')
   | UnexpectedAbilityContext v \<Rightarrow>
       Some (lit ''ability_or_context must be zero when cast is not requested, got '' @ show_n v)
   | StaleSequence incoming newest \<Rightarrow> Some (lit ''incoming sequence '' @ show_n incoming @
       lit '' is not newer than '' @ show_n newest)
   | _ \<Rightarrow> None)"

definition fmt_control_error :: "packet_error \<Rightarrow> rstring option" where
  "fmt_control_error e = (case e of
     ControlPayloadTooShort kind expected actual \<Rightarrow> Some (lit kind @ lit '' payload expected at least '' @
       show_nat expected @ lit '' bytes but received '' @ show_nat actual)
   | UnexpectedTrailingBytes kind actual \<Rightarrow> Some (lit kind @ lit '' payload contained '' @ show_nat actual @
       lit '' unexpected trailing bytes'')
   | UnknownControlCommand raw \<Rightarrow> Some (lit ''unknown control command '' @ show_n raw)
   | UnknownServerEvent raw \<Rightarrow> Some (lit ''unknown server event '' @ show_n raw)
   | InvalidUtf8String field \<Rightarrow> Some (lit field @ lit '' contained invalid utf-8'')
   | StringLengthOutOfBounds field len maximum \<Rightarrow> Some (lit field @ lit '' length '' @ show_nat len @
       lit '' exceeds maximum '' @ show_nat maximum)
   | _ \<Rightarrow> None)"

definition encoded_invalid :: "string \<Rightarrow> 'a::len word \<Rightarrow> rstring option" where
  "encoded_invalid what raw = Some (lit ''encoded '' @ lit what @ lit '' '' @ show_n raw @ lit '' is invalid'')"

definition fmt_encoded_identifier_error :: "packet_error \<Rightarrow> rstring option" where
  "fmt_encoded_identifier_error e = (case e of
     InvalidEncodedPlayerId raw \<Rightarrow> encoded_invalid ''player id'' raw
   | InvalidEncodedLobbyId raw \<Rightarrow> encoded_invalid ''lobby id'' raw
   | InvalidEncodedMatchId raw \<Rightarrow> encoded_invalid ''match id'' raw
   | InvalidEncodedRound raw \<Rightarrow> encoded_invalid ''round'' raw
   | _ \<Rightarrow> None)"

definition fmt_encoded_variant_error :: "packet_error \<Rightarrow> rstring option" where
  "fmt_encoded_variant_error e = (case e of
     InvalidEncodedTeam raw \<Rightarrow> encoded_invalid ''team'' raw
   | InvalidEncodedOptionalTeam raw \<Rightarrow> encoded_invalid ''optional team'' raw
   | InvalidEncodedReadyState raw \<Rightarrow> encoded_invalid ''ready state'' raw
   | InvalidEncodedMatchOutcome raw \<Rightarrow> encoded_invalid ''match outcome'' raw
   | InvalidEncodedLobbyPhase raw \<Rightarrow> encoded_invalid ''lobby phase'' raw
   | InvalidEncodedArenaMatchPhase raw \<Rightarrow> encoded_invalid ''arena match phase'' raw
   | InvalidEncodedArenaObstacleKind raw \<Rightarrow> encoded_invalid ''arena obstacle kind'' raw
   | InvalidEncodedArenaEffectKind raw \<Rightarrow> encoded_invalid ''arena effect kind'' raw
   | InvalidEncodedArenaCombatTextStyle raw \<Rightarrow> encoded_invalid ''arena combat text style'' raw
   | InvalidEncodedArenaStatusKind raw \<Rightarrow> encoded_invalid ''arena status kind'' raw
   | InvalidEncodedBoolean raw \<Rightarrow> encoded_invalid ''boolean'' raw
   | _ \<Rightarrow> None)"

definition is_identifier_error :: "packet_error \<Rightarrow> bool" where
  "is_identifier_error e = (case e of
     InvalidEncodedPlayerId _ \<Rightarrow> True | InvalidEncodedLobbyId _ \<Rightarrow> True | InvalidEncodedMatchId _ \<Rightarrow> True
   | InvalidEncodedRound _ \<Rightarrow> True | _ \<Rightarrow> False)"

definition is_variant_error :: "packet_error \<Rightarrow> bool" where
  "is_variant_error e = (case e of
     InvalidEncodedTeam _ \<Rightarrow> True | InvalidEncodedOptionalTeam _ \<Rightarrow> True | InvalidEncodedReadyState _ \<Rightarrow> True
   | InvalidEncodedMatchOutcome _ \<Rightarrow> True | InvalidEncodedLobbyPhase _ \<Rightarrow> True
   | InvalidEncodedArenaMatchPhase _ \<Rightarrow> True | InvalidEncodedArenaObstacleKind _ \<Rightarrow> True
   | InvalidEncodedArenaEffectKind _ \<Rightarrow> True | InvalidEncodedArenaCombatTextStyle _ \<Rightarrow> True
   | InvalidEncodedArenaStatusKind _ \<Rightarrow> True | InvalidEncodedBoolean _ \<Rightarrow> True | _ \<Rightarrow> False)"

definition fmt_encoded_value_error :: "packet_error \<Rightarrow> rstring option" where
  "fmt_encoded_value_error e =
     (if is_identifier_error e then fmt_encoded_identifier_error e
      else if is_variant_error e then fmt_encoded_variant_error e
      else case e of
        InvalidEncodedSkillTree error \<Rightarrow> Some (domain_error_text error)
      | InvalidEncodedPlayerName error \<Rightarrow> Some (domain_error_text error)
      | _ \<Rightarrow> None)"

definition fmt_ingress_error :: "packet_error \<Rightarrow> rstring option" where
  "fmt_ingress_error e = (case e of
     IngressPacketTooLarge actual maximum \<Rightarrow> Some (lit ''ingress packet length '' @ show_nat actual @
       lit '' exceeds maximum '' @ show_nat maximum)
   | FirstPacketMustBeConnect \<Rightarrow>
       Some (lit ''the first packet on a network session must be a connect command'')
   | ConnectCommandAfterBinding \<Rightarrow>
       Some (lit ''connect commands are not accepted after a network session is bound'')
   | _ \<Rightarrow> None)"

fun first_some :: "'a option list \<Rightarrow> 'a option" where
  "first_some [] = None"
| "first_some (None # xs) = first_some xs"
| "first_some (Some x # xs) = Some x"

definition packet_error_display :: "packet_error \<Rightarrow> rstring option" where
  "packet_error_display e = first_some [fmt_protocol_error e, fmt_input_error e, fmt_control_error e,
     fmt_encoded_value_error e, fmt_ingress_error e]"

lemmas packet_error_display_defs = packet_error_display_def fmt_protocol_error_def fmt_input_error_def
  fmt_control_error_def fmt_encoded_value_error_def fmt_encoded_identifier_error_def fmt_encoded_variant_error_def
  is_identifier_error_def is_variant_error_def encoded_invalid_def fmt_ingress_error_def

text \<open>No packet error makes \<open>to_string\<close> panic.\<close>

lemma packet_error_display_total: "packet_error_display e \<noteq> None"
  by (cases e) (simp_all add: packet_error_display_defs)

definition packet_error_text :: "packet_error \<Rightarrow> rstring" where
  "packet_error_text e = (case packet_error_display e of Some txt \<Rightarrow> txt | None \<Rightarrow> [])"

end
