(* ===== verification/Skill_Text.thy ===== *)
theory Skill_Text
  imports Error_Text Game_Content Server_Types
begin

text \<open>
  The skill catalogue the server sends to a client (\<open>build_skill_catalog\<close> and the text functions
  of \<open>game_api/src/app/snapshots/arena.rs\<close>): the summary of a skill, line by line, with durations
  and percentages printed from their \<open>f32\<close> values, and the category under which the client shows
  it.
\<close>

section \<open>Numbers\<close>

text \<open>
  \<open>{:.1}\<close> of a non-negative \<open>f32\<close>: its exact value is rounded to tenths, a tie to the even digit.
\<close>

definition show_tenths :: "f32 \<Rightarrow> rstring" where
  "show_tenths v = (let tenths = nat (round_half_even (v * 10)) in show_nat (tenths div 10) @ 46 # show_nat (tenths mod 10))"

definition show_whole :: "f32 \<Rightarrow> rstring" where
  "show_whole v = show_nat (nat (round_half_even v))"

definition format_duration_ms :: "u16 \<Rightarrow> rstring" where
  "format_duration_ms duration_ms =
     (if duration_ms = 0 then lit ''0s''
      else if duration_ms mod 1000 = 0 then show_n (duration_ms div 1000) @ lit ''s''
      else show_tenths (f_div (f32_of_u16 duration_ms) 1000) @ lit ''s'')"

definition format_bps_percent :: "u16 \<Rightarrow> rstring" where
  "format_bps_percent v =
     (let percent = f_div (f32_of_u16 v) 100 in
      if v mod 100 = 0 then show_whole percent @ lit ''%'' else show_tenths percent @ lit ''%'')"

fun join_with :: "rstring \<Rightarrow> rstring list \<Rightarrow> rstring" where
  "join_with sep [] = []"
| "join_with sep [s] = s"
| "join_with sep (s # ss) = s @ sep @ join_with sep ss"

section \<open>Summaries\<close>

definition append_skill_header :: "skill_definition \<Rightarrow> rstring list" where
  "append_skill_header skill =
     (case sk_behavior skill of
        SbPassive _ _ _ _ _ \<Rightarrow> [lit ''Passive'']
      | behavior \<Rightarrow>
          [join_with (lit '' | '')
            ([lit ''CD '' @ format_duration_ms (cooldown_ms behavior)] @
             [if cast_time_ms behavior = 0 then lit ''Cast instant''
              else lit ''Cast '' @ format_duration_ms (cast_time_ms behavior)] @
             (if mana_cost behavior > 0 then [lit ''Mana '' @ show_n (mana_cost behavior)] else []))])"

definition status_base_summary :: "status_definition \<Rightarrow> rstring" where
  "status_base_summary status =
     (let magnitude = show_n (sd_magnitude status);
          duration = format_duration_ms (sd_duration_ms status);
          ticks = format_duration_ms (case sd_tick_interval_ms status of Some t \<Rightarrow> t | None \<Rightarrow> 0);
          stacks = lit '' (max '' @ show_n (sd_max_stacks status) @ lit '')'' in
      case sd_kind status of
        Sim_Types.Poison \<Rightarrow> lit ''Poison '' @ magnitude @ lit '' every '' @ ticks @ lit '' for '' @ duration @ stacks
      | Sim_Types.Hot \<Rightarrow>
          lit ''Heal over time '' @ magnitude @ lit '' every '' @ ticks @ lit '' for '' @ duration @ stacks
      | Sim_Types.Chill \<Rightarrow> lit ''Chill '' @ magnitude @ lit '' for '' @ duration @ stacks @
          (case sd_trigger_duration_ms status of
             Some t \<Rightarrow> lit '', follow-up after '' @ format_duration_ms t | None \<Rightarrow> [])
      | Sim_Types.Root \<Rightarrow> lit ''Root for '' @ duration
      | Sim_Types.Haste \<Rightarrow> lit ''Haste '' @ magnitude @ lit '' for '' @ duration
      | Sim_Types.Silence \<Rightarrow> lit ''Silence for '' @ duration
      | Sim_Types.Stun \<Rightarrow> lit ''Stun for '' @ duration
      | Sim_Types.Sleep \<Rightarrow> lit ''Sleep for '' @ duration @ lit '' (breaks on damage)''
      | Sim_Types.Shield \<Rightarrow> lit ''Shield '' @ magnitude @ lit '' for '' @ duration @ stacks
      | Sim_Types.Stealth \<Rightarrow> lit ''Stealth for '' @ duration
      | Sim_Types.Reveal \<Rightarrow> lit ''Reveal for '' @ duration
      | Sim_Types.Fear \<Rightarrow> lit ''Fear for '' @ duration
      | Sim_Types.HealingReduction \<Rightarrow>
          lit ''Healing received -'' @ format_bps_percent (sd_magnitude status) @ lit '' for '' @ duration)"

definition format_status_summary :: "status_definition \<Rightarrow> rstring" where
  "format_status_summary status =
     (let base = status_base_summary status;
          extras = (if sd_expire_payload status \<noteq> None then [lit ''blooms on expire''] else []) @
            (if sd_dispel_payload status \<noteq> None then [lit ''blooms on dispel''] else []) in
      if extras = [] then base else base @ lit ''; '' @ join_with (lit '', '') extras)"

definition append_payload_lines :: "effect_payload \<Rightarrow> rstring list" where
  "append_payload_lines payload =
     (if pl_amount payload > 0 \<or> pl_amount_max payload \<noteq> None then
        let value_kind = (case pl_kind payload of Damage \<Rightarrow> lit ''damage'' | Heal \<Rightarrow> lit ''heal'');
            amount_label = (if pl_amount_max payload \<noteq> None
              then show_n (amount_min payload) @ lit ''-'' @ show_n (amount_max payload)
              else show_n (pl_amount payload));
            crit = (if can_crit payload
              then lit '', crit '' @ format_bps_percent (pl_crit_chance_bps payload) @ lit '' for '' @
                format_bps_percent (pl_crit_multiplier_bps payload) else []) in
        [lit ''Effect: '' @ amount_label @ lit '' '' @ value_kind @ crit]
      else []) @
     (case pl_status payload of Some status \<Rightarrow> [lit ''Status: '' @ format_status_summary status] | None \<Rightarrow> []) @
     (case pl_interrupt_silence_duration_ms payload of
        Some duration_ms \<Rightarrow> [lit ''Interrupt: cancels a cast and silences for '' @ format_duration_ms duration_ms]
      | None \<Rightarrow> []) @
     (case pl_dispel payload of
        Some dispel \<Rightarrow>
          [lit ''Dispel: remove up to '' @ show_n (dd_max_statuses dispel) @ lit '' '' @
           (case dd_scope dispel of DispelPositive \<Rightarrow> lit ''positive'' | DispelNegative \<Rightarrow> lit ''negative''
            | DispelAll \<Rightarrow> lit ''any'') @
           lit '' effect'' @ (if dd_max_statuses dispel = 1 then [] else lit ''s'')]
      | None \<Rightarrow> [])"

definition passive_parts :: "u16 \<Rightarrow> u16 \<Rightarrow> u16 \<Rightarrow> u16 \<Rightarrow> proc_reset_definition option \<Rightarrow> rstring list" where
  "passive_parts player_speed projectile_speed cooldown cast_time proc_reset =
     (if player_speed > 0 then [lit ''move +'' @ format_bps_percent player_speed] else []) @
     (if projectile_speed > 0 then [lit ''projectiles +'' @ format_bps_percent projectile_speed] else []) @
     (if cooldown > 0 then [lit ''cooldowns -'' @ format_bps_percent cooldown] else []) @
     (if cast_time > 0 then [lit ''cast time -'' @ format_bps_percent cast_time] else []) @
     (case proc_reset of
        None \<Rightarrow> []
      | Some p \<Rightarrow> [case prd_trigger p of OnHit \<Rightarrow> lit ''proc on hit'' | OnCrit \<Rightarrow> lit ''proc on crit''
          | OnHeal \<Rightarrow> lit ''proc on heal'' | OnTick \<Rightarrow> lit ''proc on tick''])"

definition append_behavior_lines :: "skill_behavior \<Rightarrow> rstring list" where
  "append_behavior_lines behavior =
     (case behavior of
        SbProjectile _ _ _ speed reach radius _ payload \<Rightarrow>
          (lit ''Projectile: range '' @ show_n reach @ lit '', radius '' @ show_n radius @ lit '', speed '' @
            show_n speed) # append_payload_lines payload
      | SbBeam _ _ _ reach radius _ payload \<Rightarrow>
          (lit ''Beam: range '' @ show_n reach @ lit '', radius '' @ show_n radius) # append_payload_lines payload
      | SbDash _ _ _ distance _ impact_radius payload \<Rightarrow>
          (lit ''Dash: distance '' @ show_n distance @
            (case impact_radius of Some radius \<Rightarrow> lit '', impact radius '' @ show_n radius | None \<Rightarrow> [])) #
          (case payload of Some p \<Rightarrow> append_payload_lines p | None \<Rightarrow> [])
      | SbBurst _ _ _ reach radius _ payload \<Rightarrow>
          (lit ''Burst: cast range '' @ show_n reach @ lit '', radius '' @ show_n radius) #
          append_payload_lines payload
      | SbNova _ _ _ radius _ payload \<Rightarrow>
          (lit ''Nova: radius '' @ show_n radius) # append_payload_lines payload
      | SbTeleport _ _ _ distance _ \<Rightarrow>
          [lit ''Teleport: up to '' @ show_n distance @
            lit '', ignores walls, lands on the nearest valid point'']
      | SbChannel _ _ _ reach radius duration_ms tick_interval_ms _ payload \<Rightarrow>
          (lit ''Channel: radius '' @ show_n radius @ lit '', lasts '' @ format_duration_ms duration_ms @
            lit '', ticks every '' @ format_duration_ms tick_interval_ms @
            (if reach > 0 then lit '', target range '' @ show_n reach else [])) # append_payload_lines payload
      | SbPassive player_speed projectile_speed cooldown cast_time proc_reset \<Rightarrow>
          let parts = passive_parts player_speed projectile_speed cooldown cast_time proc_reset in
          [if parts = [] then lit ''No passive modifiers'' else join_with (lit '' | '') parts]
      | SbSummon _ _ _ distance radius duration_ms hit_points reach tick_interval_ms _ payload \<Rightarrow>
          (lit ''Summon: place '' @ show_n distance @ lit '' away, radius '' @ show_n radius @ lit '', '' @
            show_n hit_points @ lit '' HP, lasts '' @ format_duration_ms duration_ms @ lit '', attacks '' @
            show_n reach @ lit '' range every '' @ format_duration_ms tick_interval_ms) # append_payload_lines payload
      | SbWard _ _ _ distance radius duration_ms hit_points _ \<Rightarrow>
          [lit ''Ward: place '' @ show_n distance @ lit '' away, vision radius '' @ show_n radius @ lit '', '' @
            show_n hit_points @
            (if duration_ms = 0 then lit '' HP, lasts until killed''
             else lit '' HP, lasts '' @ format_duration_ms duration_ms)]
      | SbTrap _ _ _ distance radius duration_ms hit_points _ payload \<Rightarrow>
          (lit ''Trap: place '' @ show_n distance @ lit '' away, trigger radius '' @ show_n radius @ lit '', '' @
            show_n hit_points @ lit '' HP, lasts '' @ format_duration_ms duration_ms) # append_payload_lines payload
      | SbBarrier _ _ _ distance radius duration_ms hit_points _ \<Rightarrow>
          [lit ''Barrier: place '' @ show_n distance @ lit '' away, radius '' @ show_n radius @ lit '', '' @
            show_n hit_points @ lit '' HP, lasts '' @ format_duration_ms duration_ms]
      | SbAura _ _ _ distance radius duration_ms hit_points _ tick_interval_ms _ _ _ payload \<Rightarrow>
          (lit ''Aura: radius '' @ show_n radius @ lit '', lasts '' @ format_duration_ms duration_ms @
            lit '', ticks every '' @ format_duration_ms tick_interval_ms @
            (if distance > 0 then lit '', place '' @ show_n distance @ lit '' away'' else []) @
            (case hit_points of Some n \<Rightarrow> lit '', '' @ show_n n @ lit '' HP'' | None \<Rightarrow> [])) #
          append_payload_lines payload)"

definition build_skill_summary :: "skill_definition \<Rightarrow> rstring" where
  "build_skill_summary skill =
     join_with [10] (append_skill_header skill @ append_behavior_lines (sk_behavior skill))"

section \<open>Categories\<close>

definition primary_payload :: "skill_behavior \<Rightarrow> effect_payload option" where
  "primary_payload behavior =
     (case behavior of
        SbDash _ _ _ _ _ _ payload \<Rightarrow> payload
      | SbTeleport _ _ _ _ _ \<Rightarrow> None
      | SbPassive _ _ _ _ _ \<Rightarrow> None
      | SbWard _ _ _ _ _ _ _ _ \<Rightarrow> None
      | SbBarrier _ _ _ _ _ _ _ _ \<Rightarrow> None
      | _ \<Rightarrow> Some (sb_payload behavior))"

definition payload_status_kind :: "effect_payload \<Rightarrow> status_kind option" where
  "payload_status_kind payload = map_option sd_kind (pl_status payload)"

text \<open>The category the payload of a skill decides, if it does.\<close>

definition payload_category :: "effect_payload \<Rightarrow> rstring option" where
  "payload_category payload =
     (let kind = payload_status_kind payload in
      if pl_kind payload = Heal \<or> kind = Some Sim_Types.Hot then Some (lit ''heal'')
      else if kind = Some Sim_Types.Poison then Some (lit ''dot'')
      else if pl_interrupt_silence_duration_ms payload \<noteq> None \<or>
        kind \<in> {Some Sim_Types.Chill, Some Sim_Types.Root, Some Sim_Types.Silence, Some Sim_Types.Stun,
          Some Sim_Types.Sleep, Some Sim_Types.Reveal, Some Sim_Types.Fear, Some Sim_Types.HealingReduction}
        then Some (lit ''control'')
      else if pl_dispel payload \<noteq> None then Some (lit ''utility'')
      else if kind \<in> {Some Sim_Types.Shield, Some Sim_Types.Haste, Some Sim_Types.Stealth} then Some (lit ''buff'')
      else None)"

definition behavior_category :: "skill_behavior \<Rightarrow> rstring" where
  "behavior_category behavior =
     (case behavior of
        SbDash _ _ _ _ _ _ _ \<Rightarrow> lit ''mobility''
      | SbTeleport _ _ _ _ _ \<Rightarrow> lit ''mobility''
      | SbPassive _ _ _ _ _ \<Rightarrow> lit ''mobility''
      | SbSummon _ _ _ _ _ _ _ _ _ _ _ \<Rightarrow> lit ''utility''
      | SbWard _ _ _ _ _ _ _ _ \<Rightarrow> lit ''utility''
      | SbTrap _ _ _ _ _ _ _ _ _ \<Rightarrow> lit ''utility''
      | SbBarrier _ _ _ _ _ _ _ _ \<Rightarrow> lit ''utility''
      | SbAura _ _ _ _ _ _ _ _ _ _ _ _ _ \<Rightarrow> lit ''utility''
      | _ \<Rightarrow> lit ''damage'')"

definition skill_ui_category :: "skill_definition \<Rightarrow> rstring" where
  "skill_ui_category skill =
     (case Option.bind (primary_payload (sk_behavior skill)) payload_category of
        Some category \<Rightarrow> category
      | None \<Rightarrow> behavior_category (sk_behavior skill))"

definition skill_catalog_entry_of :: "skill_definition \<Rightarrow> skill_catalog_entry" where
  "skill_catalog_entry_of skill =
     \<lparr>sce_tree = sk_tree skill, sce_tier = sk_tier skill, sce_skill_id = sk_id skill,
      sce_skill_name = sk_name skill, sce_skill_description = sk_description skill,
      sce_skill_summary = build_skill_summary skill, sce_ui_category = skill_ui_category skill,
      sce_audio_cue_id = (case sk_audio_cue_id skill of Some cue \<Rightarrow> cue | None \<Rightarrow> sk_id skill)\<rparr>"

definition build_skill_catalog :: "game_content \<Rightarrow> skill_catalog_entry list" where
  "build_skill_catalog content = map skill_catalog_entry_of (catalog_all (gct_skills content))"

end
