(* ===== verification/Sim_View.thy ===== *)
theory Sim_View
  imports Sim_Safety Server_Types Map_Generation_Facts
begin

text \<open>
  What the server reads off a simulated world: the observers of \<open>game_sim/src/lib.rs\<close> (statuses,
  projectiles, deployables, audio cues), and the visibility masks of
  \<open>game_api/src/app/snapshots/visibility.rs\<close>: which tiles of the map a viewer sees from its own
  position and from the wards of its team, and which it has explored. A tile is visible exactly
  when it is the viewer's own or a footprint tile whose centre some source of vision sees;
  explored tiles are never forgotten.
\<close>

section \<open>Observers of the simulation\<close>

record sim_status_state =
  sst_source :: player_id
  sst_slot :: u8
  sst_kind :: status_kind
  sst_stacks :: u8
  sst_remaining_ms :: u16

record arena_projectile =
  ap_owner :: player_id
  ap_slot :: u8
  ap_kind :: sim_effect_kind
  ap_x :: i16
  ap_y :: i16
  ap_radius :: u16

record arena_deployable =
  ad_id :: u32
  ad_owner :: player_id
  ad_team :: team_side
  ad_kind :: sim_deployable_kind
  ad_x :: i16
  ad_y :: i16
  ad_radius :: u16
  ad_hit_points :: u16
  ad_max_hit_points :: u16
  ad_remaining_ms :: u16

definition status_state :: "status_instance \<Rightarrow> sim_status_state" where
  "status_state s = \<lparr>sst_source = si_source s, sst_slot = si_slot s, sst_kind = si_kind s,
     sst_stacks = si_stacks s, sst_remaining_ms = si_remaining_ms s\<rparr>"

definition statuses_for :: "simulation_world \<Rightarrow> player_id \<Rightarrow> sim_status_state list option" where
  "statuses_for w pid = map_option (\<lambda>p. map status_state (sp_statuses p)) (player_at w pid)"

definition view_projectile :: "projectile_state \<Rightarrow> arena_projectile" where
  "view_projectile p = \<lparr>ap_owner = pr_owner p, ap_slot = pr_slot p, ap_kind = pr_kind p, ap_x = pr_x p,
     ap_y = pr_y p, ap_radius = pr_radius p\<rparr>"

definition projectiles_view :: "simulation_world \<Rightarrow> arena_projectile list" where
  "projectiles_view w = map view_projectile (w_projectiles w)"

definition view_deployable :: "deployable_state \<Rightarrow> arena_deployable" where
  "view_deployable d = \<lparr>ad_id = dp_id d, ad_owner = dp_owner d, ad_team = dp_team d, ad_kind = dp_kind d,
     ad_x = dp_x d, ad_y = dp_y d, ad_radius = dp_radius d, ad_hit_points = dp_hit_points d,
     ad_max_hit_points = dp_max_hit_points d, ad_remaining_ms = dp_remaining_ms d\<rparr>"

definition deployables_view :: "simulation_world \<Rightarrow> arena_deployable list" where
  "deployables_view w = map view_deployable (w_deployables w)"

definition player_audio_cue_id_for_slot :: "simulation_world \<Rightarrow> player_id \<Rightarrow> u8 \<Rightarrow> rstring option" where
  "player_audio_cue_id_for_slot w pid slot =
     (case player_at w pid of
        None \<Rightarrow> None
      | Some p \<Rightarrow>
          if slot = 0 then Some (case md_audio_cue_id (sp_melee p) of Some c \<Rightarrow> c | None \<Rightarrow> md_id (sp_melee p))
          else
            let slot_index = unat (sat_sub slot 1) in
            if slot_index < length (sp_skills p) then
              map_option (\<lambda>s. case sk_audio_cue_id s of Some c \<Rightarrow> c | None \<Rightarrow> sk_id s) (sp_skills p ! slot_index)
            else None)"

definition effect_audio_cue_id :: "simulation_world \<Rightarrow> player_id \<Rightarrow> u8 \<Rightarrow> sim_effect_kind \<Rightarrow> rstring option" where
  "effect_audio_cue_id w owner slot kind =
     (case kind of
        Sim_Types.Footstep \<Rightarrow> Some (lit ''movement_footstep'')
      | Sim_Types.BrushRustle \<Rightarrow> Some (lit ''movement_brush_rustle'')
      | Sim_Types.StealthFootstep \<Rightarrow> Some (lit ''movement_stealth_step'')
      | _ \<Rightarrow> player_audio_cue_id_for_slot w owner slot)"

definition show_i8 :: "i8 \<Rightarrow> rstring" where
  "show_i8 n = (if sint n < 0 then 45 # show_nat (nat (- sint n)) else show_nat (nat (sint n)))"

definition show_player_id :: "player_id \<Rightarrow> rstring" where
  "show_player_id p = show_nat (unat (player_id_get p))"

fun simulation_error_text :: "simulation_error \<Rightarrow> rstring" where
  "simulation_error_text (DuplicateSimPlayer p) =
     lit ''player '' @ show_player_id p @ lit '' appears more than once in the simulation''"
| "simulation_error_text (SimPlayerMissing p) =
     lit ''player '' @ show_player_id p @ lit '' is not part of the simulation''"
| "simulation_error_text (simulation_error.PlayerAlreadyDefeated p) =
     lit ''player '' @ show_player_id p @ lit '' is already defeated''"
| "simulation_error_text (InvalidHitPoints p hit_points) =
     lit ''player '' @ show_player_id p @ lit '' must start with positive hit points, got '' @
     show_nat (unat hit_points)"
| "simulation_error_text (MovementComponentOutOfRange axis v) =
     lit ''movement component '' @ lit axis @ lit ''='' @ show_i8 v @ lit '' is outside -1..=1''"
| "simulation_error_text (InvalidSkillSlot slot) =
     lit ''skill slot '' @ show_nat (unat slot) @ lit '' is outside the supported range 1..=5''"
| "simulation_error_text (SkillSlotEmpty slot) = lit ''skill slot '' @ show_nat (unat slot) @ lit '' is not equipped''"

section \<open>Masks of tiles\<close>

definition visibility_mask_len :: "arena_map_definition \<Rightarrow> nat" where
  "visibility_mask_len m = (unat (am_width_tiles m) * unat (am_height_tiles m) + 7) div 8"

definition blank_visibility_mask :: "arena_map_definition \<Rightarrow> u8 list" where
  "blank_visibility_mask m = replicate (visibility_mask_len m) 0"

definition set_mask_bit :: "nat \<Rightarrow> u8 list \<Rightarrow> u8 list" where
  "set_mask_bit index bits =
     (if index div 8 < length bits
      then bits[index div 8 := bits ! (index div 8) OR push_bit (index mod 8) 1] else bits)"

definition view_mask_has_tile :: "u8 list \<Rightarrow> nat \<Rightarrow> bool" where
  "view_mask_has_tile bits index \<longleftrightarrow>
     index div 8 < length bits \<and> bits ! (index div 8) AND push_bit (index mod 8) 1 \<noteq> 0"

text \<open>Unlike the simulation, a point on the right or lower border is outside.\<close>

definition view_tile_index_for_point :: "arena_map_definition \<Rightarrow> i16 \<Rightarrow> i16 \<Rightarrow> nat option" where
  "view_tile_index_for_point m x y =
     (let tile_units = uint (am_tile_units m);
          relative_x = sint x + uint (am_width_units m) div 2;
          relative_y = sint y + uint (am_height_units m) div 2 in
      if tile_units \<le> 0 then None
      else if relative_x < 0 \<or> relative_y < 0 \<or> uint (am_width_units m) \<le> relative_x \<or>
        uint (am_height_units m) \<le> relative_y then None
      else
        let index = nat (relative_y div tile_units) * unat (am_width_tiles m) + nat (relative_x div tile_units) in
        if view_mask_has_tile (am_footprint_mask m) index then Some index else None)"

definition mask_contains_point :: "arena_map_definition \<Rightarrow> u8 list \<Rightarrow> i16 \<Rightarrow> i16 \<Rightarrow> bool" where
  "mask_contains_point m bits x y =
     (case view_tile_index_for_point m x y of None \<Rightarrow> False | Some index \<Rightarrow> view_mask_has_tile bits index)"

definition view_tile_center_units :: "arena_map_definition \<Rightarrow> nat \<Rightarrow> nat \<Rightarrow> point" where
  "view_tile_center_units m column row =
     (let tile_units = uint (am_tile_units m);
          center = (\<lambda>extent position. wrap_i32 (- (uint extent div 2) + int position * tile_units + tile_units div 2));
          i16_or = (\<lambda>v. if - 32768 \<le> v \<and> v \<le> 32767 then of_int v else 32767) in
      (i16_or (center (am_width_units m) column), i16_or (center (am_height_units m) row)))"

section \<open>Lines of sight\<close>

definition containing_shrub :: "arena_obstacle list \<Rightarrow> i16 \<Rightarrow> i16 \<Rightarrow> arena_obstacle option" where
  "containing_shrub obstacles x y =
     find (\<lambda>ob. ob_kind ob = sim_obstacle_kind.Shrub \<and> obstacle_contains_point x y ob) obstacles"

text \<open>The squares saturate, their sum and the square of the radius wrap in the release build.\<close>

definition saturating_square :: "int \<Rightarrow> int" where
  "saturating_square d = min 2147483647 (d * d)"

definition point_is_visible_from_source :: "point \<Rightarrow> point \<Rightarrow> arena_obstacle list \<Rightarrow> u16 \<Rightarrow> bool" where
  "point_is_visible_from_source viewer target obstacles vision_radius =
     (let delta_x = sint (fst target) - sint (fst viewer); delta_y = sint (snd target) - sint (snd viewer);
          radius_sq = wrap_i32 (uint vision_radius * uint vision_radius) in
      if wrap_i32 (saturating_square delta_x + saturating_square delta_y) > radius_sq then False
      else
        let viewer_shrub = containing_shrub obstacles (fst viewer) (snd viewer);
            target_shrub = containing_shrub obstacles (fst target) (snd target) in
        if (viewer_shrub \<noteq> None \<or> target_shrub \<noteq> None) \<and> viewer_shrub \<noteq> target_shrub then False
        else list_all (\<lambda>ob.
          viewer_shrub \<noteq> None \<and> viewer_shrub = target_shrub \<and> Some ob = viewer_shrub \<or>
          \<not> segment_hits_obstacle viewer target ob) (filter obstacle_blocks_vision obstacles))"

section \<open>The masks of a viewer\<close>

type_synonym explored_masks = "(player_id, u8 list) btree_map"

definition vision_sources :: "simulation_world \<Rightarrow> sim_player_state \<Rightarrow> (point \<times> u16) list" where
  "vision_sources w viewer =
     (pst_pos viewer, sc_vision_radius_units (w_configuration w)) #
     map (\<lambda>d. ((ad_x d, ad_y d), ad_radius d))
       (filter (\<lambda>d. ad_team d = pst_team viewer \<and> ad_kind d = DkWard) (deployables_view w))"

definition sees_tile :: "simulation_world \<Rightarrow> sim_player_state \<Rightarrow> arena_map_definition \<Rightarrow> nat \<Rightarrow> nat \<Rightarrow> bool" where
  "sees_tile w viewer m row column =
     list_ex (\<lambda>(source_position, vision_radius). point_is_visible_from_source source_position
       (view_tile_center_units m column row) (w_obstacles w) vision_radius) (vision_sources w viewer)"

definition visible_tiles_of :: "simulation_world \<Rightarrow> sim_player_state \<Rightarrow> arena_map_definition \<Rightarrow> u8 list" where
  "visible_tiles_of w viewer m =
     (let bits = blank_visibility_mask m;
          bits = (case view_tile_index_for_point m (pst_x viewer) (pst_y viewer) of
              Some index \<Rightarrow> set_mask_bit index bits | None \<Rightarrow> bits) in
      fold (\<lambda>(row, column) bits.
          let index = row * unat (am_width_tiles m) + column in
          if view_mask_has_tile (am_footprint_mask m) index \<and> sees_tile w viewer m row column
          then set_mask_bit index bits else bits)
        (map_tiles (unat (am_width_tiles m)) (unat (am_height_tiles m))) bits)"

definition build_visibility_masks ::
  "simulation_world \<Rightarrow> explored_masks \<Rightarrow> player_id \<Rightarrow> arena_map_definition \<Rightarrow>
   (u8 list \<times> u8 list) option \<times> explored_masks" where
  "build_visibility_masks w explored_by_player viewer_id m =
     (case player_state w viewer_id of
        None \<Rightarrow> (None, explored_by_player)
      | Some viewer \<Rightarrow>
          let visible = visible_tiles_of w viewer m;
              explored = (case bt_get explored_by_player viewer_id of
                  Some e \<Rightarrow> e | None \<Rightarrow> blank_visibility_mask m);
              explored = (if length explored \<noteq> length visible then blank_visibility_mask m else explored);
              explored = map2 (\<lambda>e v. e OR v) explored visible in
          (Some (visible, explored), bt_insert viewer_id explored explored_by_player))"

section \<open>Facts\<close>

lemma view_mask_eq: "view_mask_has_tile = map_mask_has_tile"
  by (simp add: fun_eq_iff view_mask_has_tile_def map_mask_has_tile_def)

lemma length_set_mask_bit [simp]: "length (set_mask_bit i bits) = length bits"
  by (simp add: set_mask_bit_def)

lemma mask_has_set_bit:
  "map_mask_has_tile (set_mask_bit j bits) i \<longleftrightarrow> (i = j \<and> j div 8 < length bits) \<or> map_mask_has_tile bits i"
proof -
  have "i = j \<longleftrightarrow> i div 8 = j div 8 \<and> i mod 8 = j mod 8" by (metis div_mult_mod_eq)
  then show ?thesis
    by (auto simp: mask_has_tile_iff set_mask_bit_def nth_list_update bit_simps)
qed

lemma blank_visibility [simp]:
  "\<not> map_mask_has_tile (blank_visibility_mask m) i" "length (blank_visibility_mask m) = visibility_mask_len m"
  by (simp_all add: mask_has_tile_iff blank_visibility_mask_def)

definition set_tile_bits :: "(nat \<Rightarrow> nat \<Rightarrow> nat \<Rightarrow> bool) \<Rightarrow> nat \<Rightarrow> (nat \<times> nat) list \<Rightarrow> u8 list \<Rightarrow> u8 list" where
  "set_tile_bits P w tiles bits =
     fold (\<lambda>(r, c) bits. let index = r * w + c in if P index r c then set_mask_bit index bits else bits) tiles bits"

lemma set_tile_bits_Cons:
  "set_tile_bits P w ((r, c) # tiles) bits =
     set_tile_bits P w tiles (if P (r * w + c) r c then set_mask_bit (r * w + c) bits else bits)"
  by (simp add: set_tile_bits_def Let_def)

lemma length_set_tile_bits [simp]: "length (set_tile_bits P w tiles bits) = length bits"
  by (induction tiles arbitrary: bits) (auto simp: set_tile_bits_def Let_def)

lemma mask_has_tile_bits:
  "map_mask_has_tile (set_tile_bits P w tiles bits) i \<longleftrightarrow>
     (i div 8 < length bits \<and> (\<exists>(r, c) \<in> set tiles. i = r * w + c \<and> P i r c)) \<or> map_mask_has_tile bits i"
proof (induction tiles arbitrary: bits)
  case Nil
  then show ?case by (simp add: set_tile_bits_def)
next
  case (Cons t tiles)
  obtain r c where t: "t = (r, c)" by (cases t)
  show ?case unfolding t set_tile_bits_Cons Cons by (auto simp: mask_has_set_bit)
qed

lemma visible_tiles_bits:
  "visible_tiles_of w viewer m =
     set_tile_bits (\<lambda>index row column. view_mask_has_tile (am_footprint_mask m) index \<and> sees_tile w viewer m row column)
       (unat (am_width_tiles m)) (map_tiles (unat (am_width_tiles m)) (unat (am_height_tiles m)))
       (case view_tile_index_for_point m (pst_x viewer) (pst_y viewer) of
          Some index \<Rightarrow> set_mask_bit index (blank_visibility_mask m) | None \<Rightarrow> blank_visibility_mask m)"
  by (simp add: visible_tiles_of_def set_tile_bits_def Let_def)

lemma length_visible [simp]: "length (visible_tiles_of w viewer m) = visibility_mask_len m"
  by (simp add: visible_tiles_bits split: option.split)

lemma tile_in_mask: "r < unat (am_height_tiles m) \<Longrightarrow> c < unat (am_width_tiles m) \<Longrightarrow>
    (r * unat (am_width_tiles m) + c) div 8 < visibility_mask_len m"
  using tile_index_bound [of r "unat (am_height_tiles m)" c "unat (am_width_tiles m)"]
  by (simp add: visibility_mask_len_def)

lemma visible_tile_iff:
  assumes "r < unat (am_height_tiles m)" "c < unat (am_width_tiles m)"
  defines "i \<equiv> r * unat (am_width_tiles m) + c"
  shows "map_mask_has_tile (visible_tiles_of w viewer m) i \<longleftrightarrow>
     view_tile_index_for_point m (pst_x viewer) (pst_y viewer) = Some i \<or>
     map_mask_has_tile (am_footprint_mask m) i \<and> sees_tile w viewer m r c"
proof -
  let ?w = "unat (am_width_tiles m)" and ?h = "unat (am_height_tiles m)"
  let ?P = "\<lambda>index row column. view_mask_has_tile (am_footprint_mask m) index \<and> sees_tile w viewer m row column"
  have i: "i div 8 < visibility_mask_len m" unfolding i_def by (rule tile_in_mask [OF assms(1,2)])
  have tiles: "(\<exists>(r', c') \<in> set (map_tiles ?w ?h). i = r' * ?w + c' \<and> ?P i r' c') \<longleftrightarrow> ?P i r c"
  proof
    assume "\<exists>(r', c') \<in> set (map_tiles ?w ?h). i = r' * ?w + c' \<and> ?P i r' c'"
    then obtain r' c' where "r' < ?h" "c' < ?w" "i = r' * ?w + c'" "?P i r' c'" by (auto simp: map_tiles_def)
    moreover from this(2,3) have "r' = r \<and> c' = c"
      using tile_index_inj [of c ?w c' r r'] assms(2) unfolding i_def by auto
    ultimately show "?P i r c" by simp
  next
    assume "?P i r c"
    moreover have "(r, c) \<in> set (map_tiles ?w ?h)" using assms(1,2) by (simp add: map_tiles_def)
    ultimately show "\<exists>(r', c') \<in> set (map_tiles ?w ?h). i = r' * ?w + c' \<and> ?P i r' c'"
      unfolding i_def by blast
  qed
  have "map_mask_has_tile (visible_tiles_of w viewer m) i \<longleftrightarrow>
      ?P i r c \<or> view_tile_index_for_point m (pst_x viewer) (pst_y viewer) = Some i"
    unfolding visible_tiles_bits mask_has_tile_bits
    using tiles i by (auto simp: mask_has_set_bit split: option.splits)
  then show ?thesis by (auto simp: view_mask_eq)
qed

lemma mask_has_or:
  "length a = length b \<Longrightarrow> map_mask_has_tile (map2 (\<lambda>e v. e OR v) a b) i \<longleftrightarrow> map_mask_has_tile a i \<or> map_mask_has_tile b i"
  by (auto simp: mask_has_tile_iff bit_simps)

lemma build_masks_parts:
  assumes "build_visibility_masks w ex viewer_id m = (Some (visible, explored), ex')"
  obtains viewer where "player_state w viewer_id = Some viewer" "visible = visible_tiles_of w viewer m"
    "ex' = bt_insert viewer_id explored ex" "length explored = visibility_mask_len m"
    "\<forall>i. map_mask_has_tile explored i \<longleftrightarrow> map_mask_has_tile visible i \<or>
      (\<exists>e. bt_get ex viewer_id = Some e \<and> length e = visibility_mask_len m \<and> map_mask_has_tile e i)"
proof -
  obtain viewer where v: "player_state w viewer_id = Some viewer"
    using assms by (auto simp: build_visibility_masks_def split: option.splits)
  define e0 where "e0 = (let e = (case bt_get ex viewer_id of Some e \<Rightarrow> e | None \<Rightarrow> blank_visibility_mask m) in
    if length e \<noteq> visibility_mask_len m then blank_visibility_mask m else e)"
  have len: "length e0 = visibility_mask_len m" by (simp add: e0_def Let_def)
  have parts: "visible = visible_tiles_of w viewer m" "explored = map2 (\<lambda>e v. e OR v) e0 visible"
      "ex' = bt_insert viewer_id explored ex"
    using assms by (auto simp: build_visibility_masks_def v Let_def e0_def)
  have "map_mask_has_tile explored i \<longleftrightarrow> map_mask_has_tile visible i \<or>
      (\<exists>e. bt_get ex viewer_id = Some e \<and> length e = visibility_mask_len m \<and> map_mask_has_tile e i)" for i
    using parts(1) len unfolding parts(2)
    by (subst mask_has_or) (auto simp: e0_def Let_def split: option.splits)
  with v parts len show thesis by (intro that) auto
qed

text \<open>
  What the viewer sees on its own: from where it stands and from the wards it owns. \<open>own_vision\<close> says that the world gives
  it no other: the wards of its team are those it owns, and no reveal effect is on it or of its making.
\<close>

definition sees_itself :: "simulation_world \<Rightarrow> player_id \<Rightarrow> sim_player_state \<Rightarrow> point \<Rightarrow> bool" where
  "sees_itself w viewer_id viewer target \<longleftrightarrow>
     point_is_visible_from_source (pst_pos viewer) target (w_obstacles w) (sc_vision_radius_units (w_configuration w)) \<or>
     (\<exists>ward \<in> set (w_deployables w). dp_kind ward = DkWard \<and> dp_owner ward = viewer_id \<and>
        point_is_visible_from_source (dp_x ward, dp_y ward) target (w_obstacles w) (dp_radius ward))"

definition own_vision :: "simulation_world \<Rightarrow> player_id \<Rightarrow> sim_player_state \<Rightarrow> bool" where
  "own_vision w viewer_id viewer \<longleftrightarrow>
     (\<forall>ward \<in> set (w_deployables w). dp_kind ward = DkWard \<longrightarrow> (dp_team ward = pst_team viewer \<longleftrightarrow> dp_owner ward = viewer_id)) \<and>
     (\<forall>(pid, p) \<in> set (w_players w). \<forall>s \<in> set (sp_statuses p).
        si_kind s = status_kind.Reveal \<longrightarrow> pid \<noteq> viewer_id \<and> si_source s \<noteq> viewer_id)"

lemma sees_tile_team:
  "sees_tile w viewer m row column \<longleftrightarrow>
     point_is_visible_from_source (pst_pos viewer) (view_tile_center_units m column row) (w_obstacles w)
       (sc_vision_radius_units (w_configuration w)) \<or>
     (\<exists>ward \<in> set (w_deployables w). dp_team ward = pst_team viewer \<and> dp_kind ward = DkWard \<and>
       point_is_visible_from_source (dp_x ward, dp_y ward) (view_tile_center_units m column row)
         (w_obstacles w) (dp_radius ward))"
  by (auto simp: sees_tile_def vision_sources_def list_ex_iff deployables_view_def view_deployable_def)

lemma sees_tile_itself:
  "own_vision w viewer_id viewer \<Longrightarrow>
   sees_tile w viewer m row column \<longleftrightarrow> sees_itself w viewer_id viewer (view_tile_center_units m column row)"
  unfolding sees_tile_team sees_itself_def own_vision_def by blast

text \<open>C30: the fog of war. Of a viewer whose team has no ward but its own, and where no reveal effect is at work for it,
  the visible tiles are exactly its own tile and the footprint tiles whose centre it or one of its wards sees; the
  explored tiles are those it sees now and those it had explored.\<close>

theorem visibility_masks_exact:
  assumes "build_visibility_masks w explored_by_player viewer_id m = (Some (visible, explored), explored_by_player')"
    and "player_state w viewer_id = Some viewer" "own_vision w viewer_id viewer"
    and "row < unat (am_height_tiles m)" "column < unat (am_width_tiles m)"
  shows "(map_mask_has_tile visible (row * unat (am_width_tiles m) + column) \<longleftrightarrow>
        view_tile_index_for_point m (pst_x viewer) (pst_y viewer) = Some (row * unat (am_width_tiles m) + column) \<or>
        map_mask_has_tile (am_footprint_mask m) (row * unat (am_width_tiles m) + column) \<and>
        sees_itself w viewer_id viewer (view_tile_center_units m column row)) \<and>
     (\<forall>tile. map_mask_has_tile explored tile \<longleftrightarrow> map_mask_has_tile visible tile \<or>
        (\<exists>before. bt_get explored_by_player viewer_id = Some before \<and> length before = visibility_mask_len m \<and>
           map_mask_has_tile before tile)) \<and>
     explored_by_player' = bt_insert viewer_id explored explored_by_player"
proof -
  obtain v where v: "player_state w viewer_id = Some v" "visible = visible_tiles_of w v m"
      "explored_by_player' = bt_insert viewer_id explored explored_by_player" "length explored = visibility_mask_len m"
    and ex: "\<forall>i. map_mask_has_tile explored i \<longleftrightarrow> map_mask_has_tile visible i \<or>
      (\<exists>e. bt_get explored_by_player viewer_id = Some e \<and> length e = visibility_mask_len m \<and> map_mask_has_tile e i)"
    by (rule build_masks_parts [OF assms(1)])
  have "visible = visible_tiles_of w viewer m" using v(1,2) assms(2) by simp
  with visible_tile_iff [OF assms(4,5), of w viewer] sees_tile_itself [OF assms(3)] v(3) ex show ?thesis by simp
qed

lemma example_player_state: "\<exists>v. player_state example_world (PlayerId 1) = Some v \<and> pst_pos v = (0, 0) \<and> pst_team v = TeamA"
  by (simp add: player_state_def example_player_at example_player_def spawn_player_def example_seed_def)

theorem visibility_masks_exact_witness:
  "\<exists>visible explored ex'. build_visibility_masks example_world [] (PlayerId 1) example_map = (Some (visible, explored), ex') \<and>
     map_mask_has_tile visible 210 \<and> \<not> map_mask_has_tile visible 0"
proof -
  have own: "own_vision example_world (PlayerId 1) v" for v
    by (auto simp: own_vision_def example_world_def example_player_def spawn_player_def example_poison_def example_shield_def new_status_def)
  obtain visible explored ex' where b: "build_visibility_masks example_world [] (PlayerId 1) example_map = (Some (visible, explored), ex')"
    using example_player_state by (auto simp: build_visibility_masks_def Let_def)
  have tiles: "view_tile_center_units example_map 0 0 = (- 475, - 475)" "view_tile_index_for_point example_map 0 0 = Some 210"
    by (simp_all add: view_tile_center_units_def view_tile_index_for_point_def example_map_def view_mask_has_tile_def wrap_i32_def)
  have "\<not> point_is_visible_from_source (0, 0) (- 475, - 475) (w_obstacles example_world)
      (sc_vision_radius_units (w_configuration example_world))" "w_deployables example_world = []"
    by (simp_all add: point_is_visible_from_source_def saturating_square_def example_world_def example_configuration_def wrap_i32_def)
  moreover obtain v where v: "player_state example_world (PlayerId 1) = Some v" "pst_pos v = (0, 0)"
    using example_player_state by blast
  have size: "unat (am_width_tiles example_map) = 20" "unat (am_height_tiles example_map) = 20"
    by (simp_all add: example_map_def)
  have "map_mask_has_tile visible 210"
    using visibility_masks_exact [OF b v(1) own, of 10 10] v tiles(2) by (simp add: size)
  moreover have "view_tile_index_for_point example_map (pst_x v) (pst_y v) = Some 210"
    using v(2) tiles(2) by simp
  ultimately have "\<not> map_mask_has_tile visible 0"
    using visibility_masks_exact [OF b v(1) own, of 0 0] v tiles(1) by (simp add: size sees_itself_def)
  with b \<open>map_mask_has_tile visible 210\<close> show ?thesis by blast
qed

end
