(* ===== verification/Combat_Feedback.thy ===== *)
theory Combat_Feedback
  imports Sim_View Match_Invariant Game_Content
begin

text \<open>
  The combat log and the feedback derived from it: the events of \<open>game_api/src/combat_log.rs\<close>, how
  the events of the simulation become log events (\<open>app.rs\<close>), and \<open>combat_feedback.rs\<close>, which
  collects from the log the totals of every player, per round and per match, and the texts that
  float over the arena. The totals are the saturated sums of the logged amounts. The log's SQLite
  store is a parameter of the server.
\<close>

section \<open>Log events\<close>

datatype combat_log_phase = LogSkillPick | LogPreCombat | LogCombat | LogMatchEnd
datatype combat_log_team = LogTeamA | LogTeamB
datatype combat_log_outcome = LogTeamAWin | LogTeamBWin | LogNoContest
datatype combat_log_cast_mode = LogWindup | LogChannel
datatype combat_log_cast_cancel_reason =
  LogCancelManual | LogCancelMovement | LogCancelControlLoss | LogCancelDefeat | LogCancelInterrupt
datatype combat_log_miss_reason = LogNoTarget | LogBlocked | LogMissExpired
datatype combat_log_target_kind = LogPlayer | LogDeployable
datatype combat_log_status_removed_reason =
  LogExpired | LogDispelled | LogDamageBroken | LogDefeatRemoved | LogShieldConsumed
datatype combat_log_trigger_reason = LogTriggerExpire | LogTriggerDispel

record combat_log_removed_status =
  lrs_source_player_id :: u32
  lrs_slot :: u8
  lrs_status_kind :: rstring
  lrs_stacks :: u8
  lrs_remaining_ms :: u16

datatype combat_log_event =
    LogMatchStarted "u32 list"
  | LogSkillPicked u32 rstring u8
  | LogPreCombatStarted u8
  | LogCombatStarted
  | LogCastStarted u32 u8 rstring combat_log_cast_mode u16
  | LogCastCompleted u32 u8 rstring
  | LogCastCanceled u32 u8 combat_log_cast_cancel_reason
  | LogChannelTick u32 u8 u16 rstring
  | LogImpactHit u32 u8 combat_log_target_kind u32
  | LogImpactMiss u32 u8 combat_log_miss_reason
  | LogDamageApplied u32 combat_log_target_kind u32 u8 u16 bool u16 bool "rstring option"
      "combat_log_trigger_reason option"
  | LogHealingApplied u32 u32 u8 u16 bool u16 "rstring option" "combat_log_trigger_reason option"
  | LogStatusApplied u32 u32 u8 rstring u8 u8 u16
  | LogStatusRemoved u32 u32 u8 rstring u8 u16 combat_log_status_removed_reason
  | LogDispelCast u32 u8 rstring u8
  | LogDispelResult u32 u8 u32 "combat_log_removed_status list" u8
  | LogTriggerResolved u32 combat_log_target_kind u32 u8 rstring combat_log_trigger_reason rstring u16
  | LogDefeat "u32 option" u32
  | LogRoundWon u8 combat_log_team u8 u8
  | LogMatchEnded combat_log_outcome u8 u8 rstring

type_synonym i64 = "64 word"

record combat_log_entry =
  cle_sequence :: "i64 option"
  cle_schema_version :: u16
  cle_match_id :: u32
  cle_round :: u8
  cle_phase :: combat_log_phase
  cle_frame_index :: u32
  cle_event :: combat_log_event

definition COMBAT_LOG_SCHEMA_VERSION :: u16 where "COMBAT_LOG_SCHEMA_VERSION = 1"

definition combat_log_entry_new ::
  "match_id \<Rightarrow> u8 \<Rightarrow> combat_log_phase \<Rightarrow> u32 \<Rightarrow> combat_log_event \<Rightarrow> combat_log_entry" where
  "combat_log_entry_new mid round_value phase frame_index event =
     \<lparr>cle_sequence = None, cle_schema_version = COMBAT_LOG_SCHEMA_VERSION, cle_match_id = match_id_get mid,
      cle_round = round_value, cle_phase = phase, cle_frame_index = frame_index, cle_event = event\<rparr>"

section \<open>From the simulation to the log\<close>

definition phase_for_session :: "match_session \<Rightarrow> combat_log_phase" where
  "phase_for_session m =
     (case ms_phase m of match_phase.SkillPick _ \<Rightarrow> LogSkillPick | match_phase.PreCombat _ \<Rightarrow> LogPreCombat
      | match_phase.Combat \<Rightarrow> LogCombat | match_phase.MatchEnd _ _ \<Rightarrow> LogMatchEnd)"

fun map_team :: "team_side \<Rightarrow> combat_log_team" where
  "map_team TeamA = LogTeamA"
| "map_team TeamB = LogTeamB"

fun map_outcome :: "match_outcome \<Rightarrow> combat_log_outcome" where
  "map_outcome TeamAWin = LogTeamAWin"
| "map_outcome TeamBWin = LogTeamBWin"
| "map_outcome NoContest = LogNoContest"

fun status_kind_label :: "status_kind \<Rightarrow> rstring" where
  "status_kind_label Sim_Types.Poison = lit ''poison''"
| "status_kind_label Sim_Types.Hot = lit ''hot''"
| "status_kind_label Sim_Types.Chill = lit ''chill''"
| "status_kind_label Sim_Types.Root = lit ''root''"
| "status_kind_label Sim_Types.Haste = lit ''haste''"
| "status_kind_label Sim_Types.Silence = lit ''silence''"
| "status_kind_label Sim_Types.Stun = lit ''stun''"
| "status_kind_label Sim_Types.Sleep = lit ''sleep''"
| "status_kind_label Sim_Types.Shield = lit ''shield''"
| "status_kind_label Sim_Types.Stealth = lit ''stealth''"
| "status_kind_label Sim_Types.Reveal = lit ''reveal''"
| "status_kind_label Sim_Types.Fear = lit ''fear''"
| "status_kind_label Sim_Types.HealingReduction = lit ''healing_reduction''"

fun payload_kind_label :: "combat_value_kind \<Rightarrow> rstring" where
  "payload_kind_label Damage = lit ''damage''"
| "payload_kind_label Heal = lit ''heal''"

fun dispel_scope_label :: "dispel_scope \<Rightarrow> rstring" where
  "dispel_scope_label DispelPositive = lit ''positive''"
| "dispel_scope_label DispelNegative = lit ''negative''"
| "dispel_scope_label DispelAll = lit ''all''"

fun map_trigger_reason :: "sim_trigger_reason \<Rightarrow> combat_log_trigger_reason" where
  "map_trigger_reason TriggerExpire = LogTriggerExpire"
| "map_trigger_reason TriggerDispel = LogTriggerDispel"

fun map_status_removed_reason :: "sim_status_removed_reason \<Rightarrow> combat_log_status_removed_reason" where
  "map_status_removed_reason RemovedExpired = LogExpired"
| "map_status_removed_reason RemovedDispelled = LogDispelled"
| "map_status_removed_reason RemovedDamageBroken = LogDamageBroken"
| "map_status_removed_reason RemovedDefeat = LogDefeatRemoved"
| "map_status_removed_reason RemovedShieldConsumed = LogShieldConsumed"

fun map_target_kind :: "sim_target_kind \<Rightarrow> combat_log_target_kind" where
  "map_target_kind TargetPlayerKind = LogPlayer"
| "map_target_kind TargetDeployableKind = LogDeployable"

fun map_cancel_reason :: "sim_cast_cancel_reason \<Rightarrow> combat_log_cast_cancel_reason" where
  "map_cancel_reason CancelManual = LogCancelManual"
| "map_cancel_reason CancelMovement = LogCancelMovement"
| "map_cancel_reason CancelControlLoss = LogCancelControlLoss"
| "map_cancel_reason CancelDefeat = LogCancelDefeat"
| "map_cancel_reason CancelInterrupt = LogCancelInterrupt"

fun map_cast_mode :: "sim_cast_mode \<Rightarrow> combat_log_cast_mode" where
  "map_cast_mode ModeWindup = LogWindup"
| "map_cast_mode ModeChannel = LogChannel"

fun map_miss_reason :: "sim_miss_reason \<Rightarrow> combat_log_miss_reason" where
  "map_miss_reason NoTarget = LogNoTarget"
| "map_miss_reason Blocked = LogBlocked"
| "map_miss_reason MissExpired = LogMissExpired"

definition map_removed_status :: "sim_removed_status \<Rightarrow> combat_log_removed_status" where
  "map_removed_status s = \<lparr>lrs_source_player_id = player_id_get (rs_source s), lrs_slot = rs_slot s,
     lrs_status_kind = status_kind_label (rs_kind s), lrs_stacks = rs_stacks s, lrs_remaining_ms = rs_remaining_ms s\<rparr>"

fun map_simulation_event_to_log :: "simulation_event \<Rightarrow> combat_log_event option" where
  "map_simulation_event_to_log (PlayerMoved _ _ _) = None"
| "map_simulation_event_to_log (EffectSpawned _) = None"
| "map_simulation_event_to_log (DeployableSpawned _ _ _ _ _ _) = None"
| "map_simulation_event_to_log (DamageApplied attacker target slot amount critical remaining defeated kind trigger) =
     Some (LogDamageApplied (player_id_get attacker) LogPlayer (player_id_get target) slot amount critical remaining
       defeated (map_option status_kind_label kind) (map_option map_trigger_reason trigger))"
| "map_simulation_event_to_log (HealingApplied source target slot amount critical resulting kind trigger) =
     Some (LogHealingApplied (player_id_get source) (player_id_get target) slot amount critical resulting
       (map_option status_kind_label kind) (map_option map_trigger_reason trigger))"
| "map_simulation_event_to_log (StatusApplied source target slot kind stacks stack_delta remaining) =
     Some (LogStatusApplied (player_id_get source) (player_id_get target) slot (status_kind_label kind) stacks
       stack_delta remaining)"
| "map_simulation_event_to_log (StatusRemoved source target slot kind stacks remaining reason) =
     Some (LogStatusRemoved (player_id_get source) (player_id_get target) slot (status_kind_label kind) stacks
       remaining (map_status_removed_reason reason))"
| "map_simulation_event_to_log (CastStarted pid slot behavior mode total_ms) =
     Some (LogCastStarted (player_id_get pid) slot (lit behavior) (map_cast_mode mode) total_ms)"
| "map_simulation_event_to_log (CastCompleted pid slot behavior) =
     Some (LogCastCompleted (player_id_get pid) slot (lit behavior))"
| "map_simulation_event_to_log (CastCanceled pid slot reason) =
     Some (LogCastCanceled (player_id_get pid) slot (map_cancel_reason reason))"
| "map_simulation_event_to_log (ChannelTick pid slot tick_index behavior) =
     Some (LogChannelTick (player_id_get pid) slot tick_index (lit behavior))"
| "map_simulation_event_to_log (ImpactHit source slot kind target_id) =
     Some (LogImpactHit (player_id_get source) slot (map_target_kind kind) target_id)"
| "map_simulation_event_to_log (ImpactMiss source slot reason) =
     Some (LogImpactMiss (player_id_get source) slot (map_miss_reason reason))"
| "map_simulation_event_to_log (DispelCast source slot scope max_statuses) =
     Some (LogDispelCast (player_id_get source) slot (dispel_scope_label scope) max_statuses)"
| "map_simulation_event_to_log (DispelResult source slot target removed triggered) =
     Some (LogDispelResult (player_id_get source) slot (player_id_get target) (map map_removed_status removed) triggered)"
| "map_simulation_event_to_log (TriggerResolved source slot kind trigger target_kind target_id payload_kind amount) =
     Some (LogTriggerResolved (player_id_get source) (map_target_kind target_kind) target_id slot
       (status_kind_label kind) (map_trigger_reason trigger) (payload_kind_label payload_kind) amount)"
| "map_simulation_event_to_log (Defeat attacker target) =
     Some (LogDefeat (map_option player_id_get attacker) (player_id_get target))"
| "map_simulation_event_to_log (DeployableDamaged attacker deployable_id amount remaining destroyed) =
     Some (LogDamageApplied (player_id_get attacker) LogDeployable deployable_id 0 amount False remaining destroyed
       None None)"

section \<open>Totals and texts\<close>

record summary_totals =
  sut_damage_done :: u32
  sut_healing_to_allies :: u32
  sut_healing_to_enemies :: u32
  sut_cc_used :: u16
  sut_cc_hits :: u16

definition no_totals :: summary_totals where
  "no_totals = \<lparr>sut_damage_done = 0, sut_healing_to_allies = 0, sut_healing_to_enemies = 0, sut_cc_used = 0,
     sut_cc_hits = 0\<rparr>"

record player_combat_record_totals =
  prt_damage_done :: u32
  prt_healing_done :: u32
  prt_cc_used :: u16
  prt_cc_hits :: u16

record match_combat_feedback =
  mcf_round_totals :: "(player_id, summary_totals) btree_map"
  mcf_running_totals :: "(player_id, summary_totals) btree_map"
  mcf_pending_text :: "(player_id, arena_combat_text_entry list) btree_map"

definition feedback_default :: match_combat_feedback where
  "feedback_default = \<lparr>mcf_round_totals = [], mcf_running_totals = [], mcf_pending_text = []\<rparr>"

definition totals_of :: "(player_id, summary_totals) btree_map \<Rightarrow> player_id \<Rightarrow> summary_totals" where
  "totals_of totals pid = (case bt_get totals pid of Some t \<Rightarrow> t | None \<Rightarrow> no_totals)"

text \<open>\<open>entry(player_id).or_default()\<close> and an update of it, in the totals of the round and of the match.\<close>

definition bump :: "(summary_totals \<Rightarrow> summary_totals) \<Rightarrow> player_id \<Rightarrow> match_combat_feedback \<Rightarrow> match_combat_feedback" where
  "bump f pid fb =
     fb\<lparr>mcf_round_totals := bt_insert pid (f (totals_of (mcf_round_totals fb) pid)) (mcf_round_totals fb),
        mcf_running_totals := bt_insert pid (f (totals_of (mcf_running_totals fb) pid)) (mcf_running_totals fb)\<rparr>"

definition bump_damage :: "player_id \<Rightarrow> u16 \<Rightarrow> match_combat_feedback \<Rightarrow> match_combat_feedback" where
  "bump_damage pid amount = bump (\<lambda>t. t\<lparr>sut_damage_done := sat_add (sut_damage_done t) (ucast amount)\<rparr>) pid"

definition bump_healing :: "player_id \<Rightarrow> u16 \<Rightarrow> bool \<Rightarrow> match_combat_feedback \<Rightarrow> match_combat_feedback" where
  "bump_healing pid amount allied =
     (if allied then bump (\<lambda>t. t\<lparr>sut_healing_to_allies := sat_add (sut_healing_to_allies t) (ucast amount)\<rparr>) pid
      else bump (\<lambda>t. t\<lparr>sut_healing_to_enemies := sat_add (sut_healing_to_enemies t) (ucast amount)\<rparr>) pid)"

definition bump_cc_used :: "player_id \<Rightarrow> match_combat_feedback \<Rightarrow> match_combat_feedback" where
  "bump_cc_used = bump (\<lambda>t. t\<lparr>sut_cc_used := sat_add (sut_cc_used t) 1\<rparr>)"

definition bump_cc_hits :: "player_id \<Rightarrow> match_combat_feedback \<Rightarrow> match_combat_feedback" where
  "bump_cc_hits = bump (\<lambda>t. t\<lparr>sut_cc_hits := sat_add (sut_cc_hits t) 1\<rparr>)"

definition push_text ::
  "player_id \<Rightarrow> point \<Rightarrow> arena_combat_text_style \<Rightarrow> rstring \<Rightarrow> match_combat_feedback \<Rightarrow> match_combat_feedback" where
  "push_text recipient spot style txt fb =
     (if txt = [] then fb
      else
        let before = (case bt_get (mcf_pending_text fb) recipient of Some entries \<Rightarrow> entries | None \<Rightarrow> []);
            entry = \<lparr>act_x = fst spot, act_y = snd spot, act_style = style, act_text = txt\<rparr> in
        fb\<lparr>mcf_pending_text := bt_insert recipient (before @ [entry]) (mcf_pending_text fb)\<rparr>)"

definition feedback_player_id :: "u32 \<Rightarrow> player_id option" where
  "feedback_player_id raw = (case player_id_new raw of Inr p \<Rightarrow> Some p | Inl _ \<Rightarrow> None)"

definition team_for_player :: "team_assignment list \<Rightarrow> player_id \<Rightarrow> team_side option" where
  "team_for_player roster pid = map_option ta_team (find (\<lambda>a. ta_player_id a = pid) roster)"

definition same_team :: "team_assignment list \<Rightarrow> player_id \<Rightarrow> player_id \<Rightarrow> bool" where
  "same_team roster left right =
     (case (team_for_player roster left, team_for_player roster right) of
        (Some left_team, Some right_team) \<Rightarrow> left_team = right_team
      | _ \<Rightarrow> False)"

definition player_position :: "simulation_world \<Rightarrow> player_id \<Rightarrow> point option" where
  "player_position w pid = map_option pst_pos (player_state w pid)"

definition feedback_target_position :: "simulation_world \<Rightarrow> combat_log_target_kind \<Rightarrow> u32 \<Rightarrow> point option" where
  "feedback_target_position w target_kind target_id =
     (case target_kind of
        LogPlayer \<Rightarrow> Option.bind (feedback_player_id target_id) (player_position w)
      | LogDeployable \<Rightarrow> map_option (\<lambda>d. (ad_x d, ad_y d)) (find (\<lambda>d. ad_id d = target_id) (deployables_view w)))"

definition summary_lines ::
  "team_assignment list \<Rightarrow> (player_id, summary_totals) btree_map \<Rightarrow> combat_summary_line list" where
  "summary_lines roster totals_by_player =
     map (\<lambda>a. let totals = totals_of totals_by_player (ta_player_id a) in
       \<lparr>csl_player_id = ta_player_id a, csl_player_name = ta_player_name a, csl_team = ta_team a,
        csl_damage_done = sut_damage_done totals, csl_healing_to_allies = sut_healing_to_allies totals,
        csl_healing_to_enemies = sut_healing_to_enemies totals, csl_cc_used = sut_cc_used totals,
        csl_cc_hits = sut_cc_hits totals\<rparr>) roster"

definition skill_payload :: "skill_definition \<Rightarrow> effect_payload option" where
  "skill_payload skill =
     (case sk_behavior skill of
        SbDash _ _ _ _ _ _ payload \<Rightarrow> payload
      | SbTeleport _ _ _ _ _ \<Rightarrow> None
      | SbPassive _ _ _ _ _ \<Rightarrow> None
      | SbWard _ _ _ _ _ _ _ _ \<Rightarrow> None
      | SbBarrier _ _ _ _ _ _ _ _ \<Rightarrow> None
      | behavior \<Rightarrow> Some (sb_payload behavior))"

definition is_positive_status :: "rstring \<Rightarrow> bool" where
  "is_positive_status kind \<longleftrightarrow> kind \<in> {lit ''hot'', lit ''haste'', lit ''shield'', lit ''stealth''}"

definition is_control_status :: "rstring \<Rightarrow> bool" where
  "is_control_status kind \<longleftrightarrow>
     kind \<in> {lit ''chill'', lit ''root'', lit ''silence'', lit ''stun'', lit ''sleep'', lit ''fear''}"

text \<open>\<open>status_label\<close> of this file is the same table as \<open>status_kind_label\<close>.\<close>

definition payload_applies_crowd_control :: "effect_payload \<Rightarrow> bool" where
  "payload_applies_crowd_control payload =
     (case pl_status payload of None \<Rightarrow> False | Some status \<Rightarrow> is_control_status (status_kind_label (sd_kind status)))"

text \<open>\<open>equipped_choice\<close> of a session: the slots are an array of five, so its index expression never panics.\<close>

definition session_choice :: "match_session \<Rightarrow> player_id \<Rightarrow> u8 \<Rightarrow> skill_choice option" where
  "session_choice m pid slot =
     (case (equipped_choice pid slot m :: unit fault + skill_choice option) of Inr choice \<Rightarrow> choice | Inl _ \<Rightarrow> None)"

definition skill_is_cc_capable :: "game_content \<Rightarrow> match_session \<Rightarrow> player_id \<Rightarrow> u8 \<Rightarrow> bool" where
  "skill_is_cc_capable content m pid slot =
     (case session_choice m pid slot of None \<Rightarrow> False
      | Some choice \<Rightarrow>
     case catalog_resolve (gct_skills content) choice of None \<Rightarrow> False
      | Some skill \<Rightarrow>
     case skill_payload skill of None \<Rightarrow> False
      | Some payload \<Rightarrow> payload_applies_crowd_control payload)"

definition to_ascii_uppercase :: "rchar \<Rightarrow> rchar" where
  "to_ascii_uppercase c = (if is_ascii_lowercase c then c - 32 else c)"

fun title_case :: "rstring \<Rightarrow> rstring" where
  "title_case [] = []"
| "title_case (c # s) = to_ascii_uppercase c # s"

definition status_text :: "rstring \<Rightarrow> u8 \<Rightarrow> rstring" where
  "status_text kind stacks =
     (if stacks > 1 then title_case kind @ lit '' x'' @ show_u8 stacks else title_case kind)"

section \<open>Observing the log\<close>

definition show_u16 :: "u16 \<Rightarrow> rstring" where
  "show_u16 n = show_nat (unat n)"

definition observe_cast_started ::
  "game_content \<Rightarrow> match_session \<Rightarrow> u32 \<Rightarrow> u8 \<Rightarrow> match_combat_feedback \<Rightarrow> match_combat_feedback" where
  "observe_cast_started content m pid slot fb =
     (case feedback_player_id pid of None \<Rightarrow> fb
      | Some source \<Rightarrow>
          if slot = 0 \<or> \<not> skill_is_cc_capable content m source slot then fb else bump_cc_used source fb)"

definition observe_damage_applied ::
  "simulation_world \<Rightarrow> u32 \<Rightarrow> combat_log_target_kind \<Rightarrow> u32 \<Rightarrow> u16 \<Rightarrow> match_combat_feedback \<Rightarrow> match_combat_feedback" where
  "observe_damage_applied w source_player_id target_kind target_id amount fb =
     (case feedback_player_id source_player_id of None \<Rightarrow> fb
      | Some source \<Rightarrow>
          let fb = bump_damage source amount fb in
     case feedback_target_position w target_kind target_id of None \<Rightarrow> fb
      | Some spot \<Rightarrow>
          let fb = push_text source spot DamageOutgoing (show_u16 amount) fb in
          if target_kind \<noteq> LogPlayer then fb
          else case feedback_player_id target_id of None \<Rightarrow> fb
           | Some target \<Rightarrow> push_text target spot DamageIncoming (45 # show_u16 amount) fb)"

definition observe_healing_applied ::
  "team_assignment list \<Rightarrow> simulation_world \<Rightarrow> u32 \<Rightarrow> u32 \<Rightarrow> u16 \<Rightarrow> match_combat_feedback \<Rightarrow> match_combat_feedback" where
  "observe_healing_applied roster w source_player_id target_player_id amount fb =
     (case (feedback_player_id source_player_id, feedback_player_id target_player_id) of
        (Some source, Some target) \<Rightarrow>
          (case player_position w target of None \<Rightarrow> fb
           | Some spot \<Rightarrow>
               let fb = bump_healing source amount (same_team roster source target) fb;
                   fb = (if source \<noteq> target then push_text source spot HealOutgoing (43 # show_u16 amount) fb else fb) in
               push_text target spot HealIncoming (43 # show_u16 amount) fb)
      | _ \<Rightarrow> fb)"

definition observe_status_applied ::
  "team_assignment list \<Rightarrow> simulation_world \<Rightarrow> u32 \<Rightarrow> u32 \<Rightarrow> rstring \<Rightarrow> u8 \<Rightarrow> match_combat_feedback \<Rightarrow> match_combat_feedback" where
  "observe_status_applied roster w source_player_id target_player_id kind stacks fb =
     (if kind = lit ''stealth'' then fb
      else case (feedback_player_id source_player_id, feedback_player_id target_player_id) of
        (Some source, Some target) \<Rightarrow>
          (case player_position w target of None \<Rightarrow> fb
           | Some spot \<Rightarrow>
               let positive = is_positive_status kind;
                   fb = (if \<not> positive \<and> is_control_status kind \<and> \<not> same_team roster source target
                     then bump_cc_hits source fb else fb);
                   style = (if positive then PositiveStatus else NegativeStatus);
                   label = status_text kind stacks;
                   fb = (if source \<noteq> target then push_text source spot style label fb else fb) in
               push_text target spot style label fb)
      | _ \<Rightarrow> fb)"

definition observe_status_removed ::
  "simulation_world \<Rightarrow> u32 \<Rightarrow> rstring \<Rightarrow> combat_log_status_removed_reason \<Rightarrow> match_combat_feedback \<Rightarrow> match_combat_feedback" where
  "observe_status_removed w target_player_id kind reason fb =
     (if kind = lit ''stealth'' then fb
      else case feedback_player_id target_player_id of None \<Rightarrow> fb
      | Some target \<Rightarrow>
     case player_position w target of None \<Rightarrow> fb
      | Some spot \<Rightarrow>
          let style = (if is_positive_status kind then PositiveStatus else NegativeStatus);
              txt = (case reason of
                  LogDispelled \<Rightarrow> title_case kind @ lit '' dispelled''
                | LogDamageBroken \<Rightarrow> title_case kind @ lit '' broken''
                | LogShieldConsumed \<Rightarrow> lit ''Shield spent''
                | LogExpired \<Rightarrow> title_case kind @ lit '' faded''
                | LogDefeatRemoved \<Rightarrow> lit ''Cleared on defeat'') in
          push_text target spot style txt fb)"

definition observe_dispel_result ::
  "simulation_world \<Rightarrow> u32 \<Rightarrow> u32 \<Rightarrow> nat \<Rightarrow> match_combat_feedback \<Rightarrow> match_combat_feedback" where
  "observe_dispel_result w source_player_id target_player_id removed_status_count fb =
     (if removed_status_count = 0 then fb
      else case (feedback_player_id source_player_id, feedback_player_id target_player_id) of
        (Some source, Some target) \<Rightarrow>
          (case player_position w target of None \<Rightarrow> fb
           | Some spot \<Rightarrow>
               push_text target spot NegativeStatus (lit ''Dispelled'')
                 (push_text source spot Utility (lit ''Dispel x'' @ show_nat removed_status_count) fb))
      | _ \<Rightarrow> fb)"

text \<open>A text over the player's own place.\<close>

definition own_text :: "simulation_world \<Rightarrow> u32 \<Rightarrow> rstring \<Rightarrow> match_combat_feedback \<Rightarrow> match_combat_feedback" where
  "own_text w pid txt fb =
     (case feedback_player_id pid of None \<Rightarrow> fb
      | Some source \<Rightarrow>
     case player_position w source of None \<Rightarrow> fb
      | Some spot \<Rightarrow> push_text source spot Utility txt fb)"

definition observe_dispel_cast :: "simulation_world \<Rightarrow> u32 \<Rightarrow> match_combat_feedback \<Rightarrow> match_combat_feedback" where
  "observe_dispel_cast w source_player_id = own_text w source_player_id (lit ''Dispel'')"

definition observe_trigger_resolved ::
  "simulation_world \<Rightarrow> u32 \<Rightarrow> combat_log_target_kind \<Rightarrow> u32 \<Rightarrow> rstring \<Rightarrow> u16 \<Rightarrow> match_combat_feedback \<Rightarrow> match_combat_feedback" where
  "observe_trigger_resolved w source_player_id target_kind target_id payload_kind amount fb =
     (case feedback_player_id source_player_id of None \<Rightarrow> fb
      | Some source \<Rightarrow>
     case feedback_target_position w target_kind target_id of None \<Rightarrow> fb
      | Some spot \<Rightarrow>
          let heal = (payload_kind = lit ''heal'');
              (style, txt) = (if heal then (HealOutgoing, lit ''Bloom +'' @ show_u16 amount)
                else (Utility, lit ''Bloom -'' @ show_u16 amount));
              fb = push_text source spot style txt fb in
          if target_kind \<noteq> LogPlayer then fb
          else case feedback_player_id target_id of None \<Rightarrow> fb
           | Some target \<Rightarrow> push_text target spot (if heal then HealIncoming else DamageIncoming) txt fb)"

definition observe_impact_miss :: "simulation_world \<Rightarrow> u32 \<Rightarrow> match_combat_feedback \<Rightarrow> match_combat_feedback" where
  "observe_impact_miss w source_player_id = own_text w source_player_id (lit ''Miss'')"

definition observe_cast_canceled ::
  "simulation_world \<Rightarrow> u32 \<Rightarrow> combat_log_cast_cancel_reason \<Rightarrow> match_combat_feedback \<Rightarrow> match_combat_feedback" where
  "observe_cast_canceled w pid reason =
     own_text w pid (case reason of
         LogCancelInterrupt \<Rightarrow> lit ''Interrupted''
       | LogCancelControlLoss \<Rightarrow> lit ''Control lost''
       | LogCancelMovement \<Rightarrow> lit ''Cast canceled''
       | LogCancelManual \<Rightarrow> lit ''Canceled''
       | LogCancelDefeat \<Rightarrow> lit ''Defeated'')"

definition observe_entry ::
  "game_content \<Rightarrow> team_assignment list \<Rightarrow> match_session \<Rightarrow> simulation_world \<Rightarrow> combat_log_entry \<Rightarrow>
   match_combat_feedback \<Rightarrow> match_combat_feedback" where
  "observe_entry content roster m w entry =
     (case cle_event entry of
        LogCastStarted pid slot _ _ _ \<Rightarrow> observe_cast_started content m pid slot
      | LogDamageApplied source kind target _ amount _ _ _ _ _ \<Rightarrow> observe_damage_applied w source kind target amount
      | LogHealingApplied source target _ amount _ _ _ _ \<Rightarrow> observe_healing_applied roster w source target amount
      | LogStatusApplied source target _ kind stacks _ _ \<Rightarrow> observe_status_applied roster w source target kind stacks
      | LogStatusRemoved _ target _ kind _ _ reason \<Rightarrow> observe_status_removed w target kind reason
      | LogDispelResult source _ target removed _ \<Rightarrow> observe_dispel_result w source target (length removed)
      | LogDispelCast source _ _ _ \<Rightarrow> observe_dispel_cast w source
      | LogTriggerResolved source kind target _ _ _ payload_kind amount \<Rightarrow>
          observe_trigger_resolved w source kind target payload_kind amount
      | LogImpactMiss source _ _ \<Rightarrow> observe_impact_miss w source
      | LogCastCanceled pid _ reason \<Rightarrow> observe_cast_canceled w pid reason
      | _ \<Rightarrow> (\<lambda>fb. fb))"

definition finalize_round ::
  "team_assignment list \<Rightarrow> round_number \<Rightarrow> match_combat_feedback \<Rightarrow> round_summary_snapshot \<times> match_combat_feedback" where
  "finalize_round roster finished fb =
     (\<lparr>rss_round = finished, rss_round_totals = summary_lines roster (mcf_round_totals fb),
       rss_running_totals = summary_lines roster (mcf_running_totals fb)\<rparr>,
      fb\<lparr>mcf_round_totals := []\<rparr>)"

definition build_match_summary :: "team_assignment list \<Rightarrow> u8 \<Rightarrow> match_combat_feedback \<Rightarrow> match_summary_snapshot" where
  "build_match_summary roster rounds_played fb =
     \<lparr>mss_rounds_played = rounds_played, mss_totals = summary_lines roster (mcf_running_totals fb)\<rparr>"

definition player_record_totals :: "player_id \<Rightarrow> match_combat_feedback \<Rightarrow> player_combat_record_totals" where
  "player_record_totals pid fb =
     (let totals = totals_of (mcf_running_totals fb) pid in
      \<lparr>prt_damage_done = sut_damage_done totals, prt_healing_done = sut_healing_to_allies totals,
       prt_cc_used = sut_cc_used totals, prt_cc_hits = sut_cc_hits totals\<rparr>)"

definition drain_pending_text ::
  "match_combat_feedback \<Rightarrow> (player_id \<times> arena_combat_text_entry list) list \<times> match_combat_feedback" where
  "drain_pending_text fb = (mcf_pending_text fb, fb\<lparr>mcf_pending_text := []\<rparr>)"

section \<open>What an entry adds\<close>

definition damage_logged :: "player_id \<Rightarrow> combat_log_event \<Rightarrow> nat" where
  "damage_logged pid ev = (case ev of
     LogDamageApplied source _ _ _ amount _ _ _ _ _ \<Rightarrow>
       (if feedback_player_id source = Some pid then unat amount else 0)
   | _ \<Rightarrow> 0)"

text \<open>A heal counts when its target stands in the world; it counts as healing of an enemy unless both players are on
  the same team.\<close>

definition healing_logged ::
  "team_assignment list \<Rightarrow> simulation_world \<Rightarrow> bool \<Rightarrow> player_id \<Rightarrow> combat_log_event \<Rightarrow> nat" where
  "healing_logged roster w allied pid ev = (case ev of
     LogHealingApplied source target _ amount _ _ _ _ \<Rightarrow>
       (case feedback_player_id target of
          Some healed \<Rightarrow> (if feedback_player_id source = Some pid \<and> player_position w healed \<noteq> None \<and>
            same_team roster pid healed = allied then unat amount else 0)
        | None \<Rightarrow> 0)
   | _ \<Rightarrow> 0)"

definition cc_used_logged :: "game_content \<Rightarrow> match_session \<Rightarrow> player_id \<Rightarrow> combat_log_event \<Rightarrow> nat" where
  "cc_used_logged content m pid ev = (case ev of
     LogCastStarted source slot _ _ _ \<Rightarrow>
       (if feedback_player_id source = Some pid \<and> slot \<noteq> 0 \<and> skill_is_cc_capable content m pid slot then 1 else 0)
   | _ \<Rightarrow> 0)"

definition cc_hits_logged :: "team_assignment list \<Rightarrow> simulation_world \<Rightarrow> player_id \<Rightarrow> combat_log_event \<Rightarrow> nat" where
  "cc_hits_logged roster w pid ev = (case ev of
     LogStatusApplied source target _ kind _ _ _ \<Rightarrow>
       (case feedback_player_id target of
          Some hit \<Rightarrow> (if feedback_player_id source = Some pid \<and> player_position w hit \<noteq> None \<and>
            is_control_status kind \<and> \<not> same_team roster pid hit then 1 else 0)
        | None \<Rightarrow> 0)
   | _ \<Rightarrow> 0)"

type_synonym observation = "match_session \<times> simulation_world \<times> combat_log_entry"

definition added :: "game_content \<Rightarrow> team_assignment list \<Rightarrow> player_id \<Rightarrow> observation \<Rightarrow> nat list" where
  "added content roster pid ob = (case ob of (m, w, entry) \<Rightarrow>
     [damage_logged pid (cle_event entry), healing_logged roster w True pid (cle_event entry),
      healing_logged roster w False pid (cle_event entry), cc_used_logged content m pid (cle_event entry),
      cc_hits_logged roster w pid (cle_event entry)])"

definition logged :: "game_content \<Rightarrow> team_assignment list \<Rightarrow> observation list \<Rightarrow> player_id \<Rightarrow> nat \<Rightarrow> nat" where
  "logged content roster seen pid k = (\<Sum>ob\<leftarrow>seen. added content roster pid ob ! k)"

definition grown_to :: "summary_totals \<Rightarrow> (nat \<Rightarrow> nat) \<Rightarrow> summary_totals \<Rightarrow> bool" where
  "grown_to t gain t' \<longleftrightarrow>
     unat (sut_damage_done t') = min (2 ^ 32 - 1) (unat (sut_damage_done t) + gain 0) \<and>
     unat (sut_healing_to_allies t') = min (2 ^ 32 - 1) (unat (sut_healing_to_allies t) + gain 1) \<and>
     unat (sut_healing_to_enemies t') = min (2 ^ 32 - 1) (unat (sut_healing_to_enemies t) + gain 2) \<and>
     unat (sut_cc_used t') = min (2 ^ 16 - 1) (unat (sut_cc_used t) + gain 3) \<and>
     unat (sut_cc_hits t') = min (2 ^ 16 - 1) (unat (sut_cc_hits t) + gain 4)"

definition observe_log ::
  "game_content \<Rightarrow> team_assignment list \<Rightarrow> observation list \<Rightarrow> match_combat_feedback \<Rightarrow> match_combat_feedback" where
  "observe_log content roster seen fb = fold (\<lambda>(m, w, entry). observe_entry content roster m w entry) seen fb"

definition finished_rounds ::
  "game_content \<Rightarrow> team_assignment list \<Rightarrow> (round_number \<times> observation list) list \<Rightarrow> match_combat_feedback" where
  "finished_rounds content roster rounds =
     fold (\<lambda>(finished, seen) fb. snd (finalize_round roster finished (observe_log content roster seen fb))) rounds
       feedback_default"

definition feedback_inv :: "match_combat_feedback \<Rightarrow> bool" where
  "feedback_inv fb \<longleftrightarrow> bt_inv (mcf_round_totals fb) \<and> bt_inv (mcf_running_totals fb)"

lemma push_text_totals [simp]:
  "mcf_round_totals (push_text r p st txt fb) = mcf_round_totals fb"
  "mcf_running_totals (push_text r p st txt fb) = mcf_running_totals fb"
  by (simp_all add: push_text_def Let_def)

lemma own_text_totals [simp]:
  "mcf_round_totals (own_text w p txt fb) = mcf_round_totals fb"
  "mcf_running_totals (own_text w p txt fb) = mcf_running_totals fb"
  by (simp_all add: own_text_def split: option.splits)

lemma totals_of_insert: "bt_inv m \<Longrightarrow> totals_of (bt_insert p t m) q = (if q = p then t else totals_of m q)"
  by (simp add: totals_of_def bt_get_insert)

lemma bump_totals:
  assumes "feedback_inv fb"
  shows "feedback_inv (bump f p fb)"
    "totals_of (mcf_round_totals (bump f p fb)) q =
       (if q = p then f (totals_of (mcf_round_totals fb) q) else totals_of (mcf_round_totals fb) q)"
    "totals_of (mcf_running_totals (bump f p fb)) q =
       (if q = p then f (totals_of (mcf_running_totals fb) q) else totals_of (mcf_running_totals fb) q)"
  using assms by (simp_all add: feedback_inv_def bump_def totals_of_insert bt_inv_insert)

lemma unat_less_power2: "unat (x :: 'a::len word) < 2 ^ LENGTH('a)"
  by (rule unsigned_less)

lemma cap_same [simp]: "min 4294967295 (unat (x :: u32)) = unat x" "min 65535 (unat (y :: u16)) = unat y"
  using unat_less_power2 [of x] unat_less_power2 [of y] by simp_all

lemma cap_twice: "min c (min c x + y) = min c (x + y :: nat)"
  by (simp add: min_def)

lemma grown_refl: "grown_to t (\<lambda>k. 0) t"
  by (simp add: grown_to_def)

definition grown_feedback :: "player_id \<Rightarrow> (nat \<Rightarrow> nat) \<Rightarrow> match_combat_feedback \<Rightarrow> match_combat_feedback \<Rightarrow> bool" where
  "grown_feedback pid gain fb fb' \<longleftrightarrow> feedback_inv fb' \<and>
     grown_to (totals_of (mcf_round_totals fb) pid) gain (totals_of (mcf_round_totals fb') pid) \<and>
     grown_to (totals_of (mcf_running_totals fb) pid) gain (totals_of (mcf_running_totals fb') pid)"

lemma grown_same: "feedback_inv fb \<Longrightarrow> mcf_round_totals fb' = mcf_round_totals fb \<Longrightarrow>
  mcf_running_totals fb' = mcf_running_totals fb \<Longrightarrow> gain 0 = 0 \<Longrightarrow> gain 1 = 0 \<Longrightarrow> gain 2 = 0 \<Longrightarrow>
  gain 3 = 0 \<Longrightarrow> gain 4 = 0 \<Longrightarrow> grown_feedback pid gain fb fb'"
  using grown_refl by (simp add: grown_feedback_def grown_to_def feedback_inv_def)

lemma grown_bump:
  assumes "feedback_inv fb" "\<And>t. grown_to t gain (if pid = p then f t else t)"
  shows "grown_feedback pid gain fb (bump f p fb)"
  using assms by (simp add: grown_feedback_def bump_totals)

lemma grown_later: "grown_feedback pid gain fb fb1 \<Longrightarrow> mcf_round_totals fb' = mcf_round_totals fb1 \<Longrightarrow>
  mcf_running_totals fb' = mcf_running_totals fb1 \<Longrightarrow> grown_feedback pid gain fb fb'"
  by (simp add: grown_feedback_def feedback_inv_def)

lemma grown_trans:
  assumes "grown_feedback pid f fb fb1" "grown_feedback pid g fb1 fb2"
  shows "grown_feedback pid (\<lambda>k. f k + g k) fb fb2"
  using assms by (simp add: grown_feedback_def grown_to_def cap_twice add.assoc)

lemma unat_ucast_u16 [simp]: "unat (ucast (a :: u16) :: u32) = unat a"
  using unat_less_power2 [of a] by (simp add: unsigned_ucast_eq take_bit_nat_eq_self)

lemma grown_bumps:
  assumes "feedback_inv fb"
  shows "grown_feedback pid (\<lambda>k. if k = 0 \<and> pid = p then unat amount else 0) fb (bump_damage p amount fb)"
    "grown_feedback pid (\<lambda>k. if k = (if allied then 1 else 2) \<and> pid = p then unat amount else 0) fb
       (bump_healing p amount allied fb)"
    "grown_feedback pid (\<lambda>k. if k = 3 \<and> pid = p then 1 else 0) fb (bump_cc_used p fb)"
    "grown_feedback pid (\<lambda>k. if k = 4 \<and> pid = p then 1 else 0) fb (bump_cc_hits p fb)"
  unfolding bump_damage_def bump_healing_def bump_cc_used_def bump_cc_hits_def
  using grown_refl
  by (auto intro!: grown_bump [OF assms] simp: grown_to_def unat_sat_add min.commute)

lemma grown_gain: "grown_feedback pid f fb fb' \<Longrightarrow> f 0 = g 0 \<Longrightarrow> f 1 = g 1 \<Longrightarrow> f 2 = g 2 \<Longrightarrow> f 3 = g 3 \<Longrightarrow> f 4 = g 4 \<Longrightarrow>
  grown_feedback pid g fb fb'"
  by (simp add: grown_feedback_def grown_to_def)

lemmas added_defs = added_def damage_logged_def healing_logged_def cc_used_logged_def cc_hits_logged_def

lemma observe_damage_grown:
  assumes "feedback_inv fb" "cle_event entry = LogDamageApplied source kind target slot amount c r d sk tr"
  shows "grown_feedback pid (\<lambda>k. added content roster pid (m, w, entry) ! k) fb
    (observe_damage_applied w source kind target amount fb)"
proof (cases "feedback_player_id source")
  case None
  then show ?thesis using assms
    by (intro grown_same) (simp_all add: observe_damage_applied_def added_defs)
next
  case (Some p)
  let ?fb = "bump_damage p amount fb"
  have "mcf_round_totals (observe_damage_applied w source kind target amount fb) = mcf_round_totals ?fb"
    "mcf_running_totals (observe_damage_applied w source kind target amount fb) = mcf_running_totals ?fb"
    by (simp_all add: observe_damage_applied_def Some Let_def split: option.split)
  then show ?thesis
    by (rule grown_gain [OF grown_later [OF grown_bumps(1) [OF assms(1)]]])
      (auto simp: added_defs assms(2) Some)
qed

lemma observe_healing_grown:
  assumes "feedback_inv fb" "cle_event entry = LogHealingApplied source target slot amount c r sk tr"
  shows "grown_feedback pid (\<lambda>k. added content roster pid (m, w, entry) ! k) fb
    (observe_healing_applied roster w source target amount fb)"
proof (cases "\<exists>p q s. feedback_player_id source = Some p \<and> feedback_player_id target = Some q \<and> player_position w q = Some s")
  case False
  then show ?thesis using assms
    by (intro grown_same) (auto simp: observe_healing_applied_def added_defs split: option.splits)
next
  case True
  then obtain p q s where pq: "feedback_player_id source = Some p" "feedback_player_id target = Some q"
    "player_position w q = Some s" by blast
  let ?fb = "bump_healing p amount (same_team roster p q) fb"
  have "mcf_round_totals (observe_healing_applied roster w source target amount fb) = mcf_round_totals ?fb"
    "mcf_running_totals (observe_healing_applied roster w source target amount fb) = mcf_running_totals ?fb"
    by (simp_all add: observe_healing_applied_def pq Let_def)
  then show ?thesis
    by (rule grown_gain [OF grown_later [OF grown_bumps(2) [OF assms(1)]]])
      (auto simp: added_defs assms(2) pq)
qed

lemma positive_not_control: "is_control_status kind \<Longrightarrow> \<not> is_positive_status kind"
  by (auto simp: is_control_status_def is_positive_status_def lit_def)

lemma observe_status_grown:
  assumes "feedback_inv fb" "cle_event entry = LogStatusApplied source target slot kind stacks dl rm"
  shows "grown_feedback pid (\<lambda>k. added content roster pid (m, w, entry) ! k) fb
    (observe_status_applied roster w source target kind stacks fb)"
proof (cases "\<exists>p q s. feedback_player_id source = Some p \<and> feedback_player_id target = Some q \<and>
    player_position w q = Some s \<and> is_control_status kind \<and> \<not> same_team roster p q")
  case False
  then show ?thesis using assms
    by (intro grown_same)
      (auto simp: observe_status_applied_def added_defs Let_def split: option.splits)
next
  case True
  then obtain p q s where pq: "feedback_player_id source = Some p" "feedback_player_id target = Some q"
    "player_position w q = Some s" "is_control_status kind" "\<not> same_team roster p q" by blast
  then have st: "kind \<noteq> lit ''stealth''" by (auto simp: is_control_status_def lit_def)
  let ?fb = "bump_cc_hits p fb"
  have "mcf_round_totals (observe_status_applied roster w source target kind stacks fb) = mcf_round_totals ?fb"
    "mcf_running_totals (observe_status_applied roster w source target kind stacks fb) = mcf_running_totals ?fb"
    using pq st positive_not_control by (simp_all add: observe_status_applied_def Let_def)
  then show ?thesis
    by (rule grown_gain [OF grown_later [OF grown_bumps(4) [OF assms(1)]]])
      (use pq in \<open>auto simp: added_defs assms(2)\<close>)
qed

lemma observe_cast_grown:
  assumes "feedback_inv fb" "cle_event entry = LogCastStarted source slot b md tms"
  shows "grown_feedback pid (\<lambda>k. added content roster pid (m, w, entry) ! k) fb
    (observe_cast_started content m source slot fb)"
proof (cases "\<exists>p. feedback_player_id source = Some p \<and> slot \<noteq> 0 \<and> skill_is_cc_capable content m p slot")
  case False
  then show ?thesis using assms
    by (intro grown_same) (auto simp: observe_cast_started_def added_defs split: option.splits)
next
  case True
  then obtain p where p: "feedback_player_id source = Some p" "slot \<noteq> 0" "skill_is_cc_capable content m p slot" by blast
  then have "observe_cast_started content m source slot fb = bump_cc_used p fb" by (simp add: observe_cast_started_def)
  then show ?thesis
    by (simp only:) (rule grown_gain [OF grown_bumps(3) [OF assms(1)]], auto simp: added_defs assms(2) p)
qed

lemma observe_texts_totals [simp]:
  "mcf_round_totals (observe_status_removed w p k r fb) = mcf_round_totals fb"
  "mcf_running_totals (observe_status_removed w p k r fb) = mcf_running_totals fb"
  "mcf_round_totals (observe_dispel_result w p q n fb) = mcf_round_totals fb"
  "mcf_running_totals (observe_dispel_result w p q n fb) = mcf_running_totals fb"
  "mcf_round_totals (observe_trigger_resolved w p tk q pk amount fb) = mcf_round_totals fb"
  "mcf_running_totals (observe_trigger_resolved w p tk q pk amount fb) = mcf_running_totals fb"
  by (auto simp: observe_status_removed_def observe_dispel_result_def observe_trigger_resolved_def Let_def
    split: option.splits)

lemma observe_entry_grown:
  assumes "feedback_inv fb"
  shows "grown_feedback pid (\<lambda>k. added content roster pid (m, w, entry) ! k) fb (observe_entry content roster m w entry fb)"
proof (cases "cle_event entry")
  case (LogCastStarted source slot b md tms)
  then show ?thesis using observe_cast_grown [OF assms LogCastStarted] by (simp add: observe_entry_def)
next
  case (LogDamageApplied source kind target slot amount c r d sk tr)
  then show ?thesis using observe_damage_grown [OF assms LogDamageApplied] by (simp add: observe_entry_def)
next
  case (LogHealingApplied source target slot amount c r sk tr)
  then show ?thesis using observe_healing_grown [OF assms LogHealingApplied] by (simp add: observe_entry_def)
next
  case (LogStatusApplied source target slot kind stacks dl rm)
  then show ?thesis using observe_status_grown [OF assms LogStatusApplied] by (simp add: observe_entry_def)
qed (insert assms, auto intro!: grown_same
  simp: observe_entry_def added_defs observe_dispel_cast_def observe_impact_miss_def observe_cast_canceled_def)

lemma observe_log_grown: "feedback_inv fb \<Longrightarrow> grown_feedback pid (logged content roster seen pid) fb (observe_log content roster seen fb)"
proof (induction seen arbitrary: fb)
  case Nil
  then show ?case by (intro grown_same) (simp_all add: observe_log_def logged_def)
next
  case (Cons ob seen)
  obtain m w entry where ob: "ob = (m, w, entry)" by (cases ob)
  have step: "grown_feedback pid (\<lambda>k. added content roster pid ob ! k) fb (observe_entry content roster m w entry fb)"
    unfolding ob by (rule observe_entry_grown [OF Cons.prems])
  then have "feedback_inv (observe_entry content roster m w entry fb)" by (simp add: grown_feedback_def)
  from grown_trans [OF step Cons.IH [OF this]] show ?case
    by (simp add: observe_log_def ob logged_def)
qed

section \<open>The summaries\<close>

definition line_numbers :: "combat_summary_line \<Rightarrow> player_id \<times> nat list" where
  "line_numbers l = (csl_player_id l, [unat (csl_damage_done l), unat (csl_healing_to_allies l),
     unat (csl_healing_to_enemies l), unat (csl_cc_used l), unat (csl_cc_hits l)])"

definition capped_sums ::
  "game_content \<Rightarrow> team_assignment list \<Rightarrow> observation list \<Rightarrow> team_assignment \<Rightarrow> player_id \<times> nat list" where
  "capped_sums content roster seen a = (let sum_of = logged content roster seen (ta_player_id a) in
     (ta_player_id a, [min (2 ^ 32 - 1) (sum_of 0), min (2 ^ 32 - 1) (sum_of 1), min (2 ^ 32 - 1) (sum_of 2),
       min (2 ^ 16 - 1) (sum_of 3), min (2 ^ 16 - 1) (sum_of 4)]))"

lemma no_totals_grown: "grown_to no_totals (logged content roster seen (ta_player_id a)) t \<Longrightarrow>
  (ta_player_id a, [unat (sut_damage_done t), unat (sut_healing_to_allies t), unat (sut_healing_to_enemies t),
    unat (sut_cc_used t), unat (sut_cc_hits t)]) = capped_sums content roster seen a"
  by (simp add: grown_to_def no_totals_def capped_sums_def Let_def)

lemma summary_lines_grown:
  assumes "\<And>pid. grown_to no_totals (logged content roster seen pid) (totals_of totals pid)"
  shows "map line_numbers (summary_lines roster totals) = map (capped_sums content roster seen) roster"
  by (simp add: summary_lines_def line_numbers_def Let_def no_totals_grown [OF assms])

lemma finished_rounds_grown:
  "feedback_inv (finished_rounds content roster rounds) \<and> mcf_round_totals (finished_rounds content roster rounds) = [] \<and>
   (\<forall>pid. grown_to no_totals (logged content roster (concat (map snd rounds)) pid)
      (totals_of (mcf_running_totals (finished_rounds content roster rounds)) pid))"
proof (induction rounds rule: rev_induct)
  case Nil
  then show ?case
    by (simp add: finished_rounds_def feedback_default_def feedback_inv_def totals_of_def logged_def grown_to_def
      no_totals_def bt_inv_def)
next
  case (snoc last_round rounds)
  obtain n seen where lr: "last_round = (n, seen)" by (cases last_round)
  let ?fb = "finished_rounds content roster rounds"
  let ?fb1 = "observe_log content roster seen ?fb"
  have next_fb: "finished_rounds content roster (rounds @ [last_round]) = snd (finalize_round roster n ?fb1)"
    by (simp add: finished_rounds_def lr)
  have "grown_feedback pid (logged content roster seen pid) ?fb ?fb1" for pid
    using snoc by (simp add: observe_log_grown)
  with snoc show ?case unfolding next_fb
    by (auto simp: finalize_round_def grown_feedback_def grown_to_def feedback_inv_def bt_inv_def lr logged_def
      cap_twice no_totals_def)
qed

text \<open>C31: the combat summaries. After any finished rounds, the summary of a round has for every player of the roster
  the sums of what the log of that round says it did - damage, healing of allies and of others, control casts and
  control hits - capped at the width of the counters, and the running totals and the summary of the match have the
  sums over all rounds.\<close>

theorem combat_totals_exact:
  "let fb = observe_log content roster current (finished_rounds content roster rounds);
       summary = fst (finalize_round roster finished fb) in
   rss_round summary = finished \<and>
   map line_numbers (rss_round_totals summary) = map (capped_sums content roster current) roster \<and>
   map line_numbers (rss_running_totals summary) =
     map (capped_sums content roster (concat (map snd rounds) @ current)) roster \<and>
   mss_totals (build_match_summary roster played fb) = rss_running_totals summary"
proof -
  let ?earlier = "finished_rounds content roster rounds"
  let ?fb = "observe_log content roster current ?earlier"
  have grown: "grown_feedback pid (logged content roster current pid) ?earlier ?fb" for pid
    using finished_rounds_grown by (simp add: observe_log_grown)
  have "grown_to no_totals (logged content roster current pid) (totals_of (mcf_round_totals ?fb) pid)" for pid
    using grown [of pid] finished_rounds_grown [of content roster rounds]
    by (simp add: grown_feedback_def totals_of_def)
  moreover have "grown_to no_totals (logged content roster (concat (map snd rounds) @ current) pid)
      (totals_of (mcf_running_totals ?fb) pid)" for pid
    using grown [of pid] finished_rounds_grown [of content roster rounds]
    by (auto simp: grown_feedback_def grown_to_def logged_def cap_twice no_totals_def)
  ultimately show ?thesis
    by (simp add: Let_def finalize_round_def build_match_summary_def summary_lines_grown)
qed

end
