(* ===== verification/App_State.thy ===== *)
theory App_State
  imports Skill_Text Combat_Feedback Record_Store Client_Command Input_Frame Server_Codec
begin

text \<open>
  The state of the server application and the operations every handler shares (\<open>game_api/src/app.rs\<close>
  and \<open>app/support.rs\<close>): connections, players and where they are, lobbies, matches and training
  sessions; building the world of a match; appending to the combat log; sending, and the lists of
  recipients. What is outside is a parameter of type \<open>app_env\<close>: the file system under the record
  store, the random bytes of the operating system, the store of the combat log, and the derived
  \<open>Debug\<close> texts of events. It keeps a state of type \<open>'w\<close>. What is sent is recorded in order. An
  operation that can panic returns an option, and \<open>None\<close> is the panic. Diagnostics counters and
  timings are left out: nothing reads them back.
\<close>

section \<open>Identifiers\<close>

datatype connection_id = ConnectionId (connection_id_get: u64)

definition connection_id_new :: "u64 \<Rightarrow> domain_error + connection_id" where
  "connection_id_new v = (if v = 0 then Inl (IdMustBeNonZero ''connection_id'') else Inr (ConnectionId v))"

instantiation connection_id :: linorder
begin

definition less_eq_connection_id :: "connection_id \<Rightarrow> connection_id \<Rightarrow> bool" where
  "less_eq_connection_id p q \<longleftrightarrow> connection_id_get p \<le> connection_id_get q"

definition less_connection_id :: "connection_id \<Rightarrow> connection_id \<Rightarrow> bool" where
  "less_connection_id p q \<longleftrightarrow> connection_id_get p < connection_id_get q"

instance
  by standard (auto simp: less_eq_connection_id_def less_connection_id_def intro: connection_id.expand)

end

instantiation lobby_id :: linorder
begin

definition less_eq_lobby_id :: "lobby_id \<Rightarrow> lobby_id \<Rightarrow> bool" where
  "less_eq_lobby_id p q \<longleftrightarrow> lobby_id_get p \<le> lobby_id_get q"

definition less_lobby_id :: "lobby_id \<Rightarrow> lobby_id \<Rightarrow> bool" where
  "less_lobby_id p q \<longleftrightarrow> lobby_id_get p < lobby_id_get q"

instance
  by standard (auto simp: less_eq_lobby_id_def less_lobby_id_def intro: lobby_id.expand)

end

instantiation match_id :: linorder
begin

definition less_eq_match_id :: "match_id \<Rightarrow> match_id \<Rightarrow> bool" where
  "less_eq_match_id p q \<longleftrightarrow> match_id_get p \<le> match_id_get q"

definition less_match_id :: "match_id \<Rightarrow> match_id \<Rightarrow> bool" where
  "less_match_id p q \<longleftrightarrow> match_id_get p < match_id_get q"

instance
  by standard (auto simp: less_eq_match_id_def less_match_id_def intro: match_id.expand)

end

section \<open>State\<close>

datatype player_location =
    CentralLobby
  | InGameLobby lobby_id
  | InMatch match_id
  | InTraining match_id
  | InResults match_id

record connected_player =
  cn_player_name :: player_name
  cn_record :: player_record
  cn_location :: player_location
  cn_inbound_control :: sequence_tracker
  cn_inbound_input :: sequence_tracker
  cn_newest_client_input_tick :: "u32 option"
  cn_next_outbound_seq :: u32

definition next_outbound_seq :: "connected_player \<Rightarrow> u32 \<times> connected_player" where
  "next_outbound_seq p = (let p = p\<lparr>cn_next_outbound_seq := sat_add (cn_next_outbound_seq p) 1\<rparr> in
     (cn_next_outbound_seq p, p))"

definition observe_client_input_tick :: "u32 \<Rightarrow> connected_player \<Rightarrow> (rstring + unit) \<times> connected_player" where
  "observe_client_input_tick tick_no p =
     (case cn_newest_client_input_tick p of
        Some newest \<Rightarrow>
          if tick_no \<le> newest
          then (Inl (lit ''client_input_tick '' @ show_n tick_no @ lit '' is not newer than '' @ show_n newest), p)
          else (Inr (), p\<lparr>cn_newest_client_input_tick := Some tick_no\<rparr>)
      | None \<Rightarrow> (Inr (), p\<lparr>cn_newest_client_input_tick := Some tick_no\<rparr>))"

definition reset_combat_input_state :: "connected_player \<Rightarrow> connected_player" where
  "reset_combat_input_state p = p\<lparr>cn_inbound_input := tracker_new, cn_newest_client_input_tick := None\<rparr>"

record game_lobby_runtime =
  glr_lobby :: lobby
  glr_map :: arena_map_definition

record match_runtime =
  mr_map :: arena_map_definition
  mr_roster :: "team_assignment list"
  mr_participants :: "player_id list"
  mr_session :: match_session
  mr_world :: simulation_world
  mr_explored_tiles :: explored_masks
  mr_combat_frame_index :: u32
  mr_feedback :: match_combat_feedback

record training_metrics =
  tm_damage_done :: u32
  tm_healing_done :: u32
  tm_elapsed_ms :: u32

definition training_metrics_default :: training_metrics where
  "training_metrics_default = \<lparr>tm_damage_done = 0, tm_healing_done = 0, tm_elapsed_ms = 0\<rparr>"

text \<open>The loadout is an array of five.\<close>

record training_runtime =
  tr_participant :: team_assignment
  tr_loadout :: "skill_choice option list"
  tr_world :: simulation_world
  tr_explored_tiles :: explored_masks
  tr_combat_frame_index :: u32
  tr_metrics :: training_metrics

record 'w app_env =
  env_files :: "'w record_files"
  env_random :: "nat \<Rightarrow> 'w \<Rightarrow> (rstring + u8 list) \<times> 'w"
  env_log_append :: "combat_log_entry \<Rightarrow> 'w \<Rightarrow> (rstring + unit) \<times> 'w"
  env_lobby_debug :: "lobby_event \<Rightarrow> rstring"
  env_match_debug :: "match_event \<Rightarrow> rstring"

record 'w server_app =
  sa_content :: game_content
  sa_next_lobby_id :: u32
  sa_next_match_id :: u32
  sa_clock_seconds :: u32
  sa_phase_accumulator_ms :: u32
  sa_combat_accumulator_ms :: u32
  sa_record_store :: player_record_store
  sa_connections :: "(connection_id, player_id) btree_map"
  sa_player_connections :: "(player_id, connection_id) btree_map"
  sa_players :: "(player_id, connected_player) btree_map"
  sa_game_lobbies :: "(lobby_id, game_lobby_runtime) btree_map"
  sa_matches :: "(match_id, match_runtime) btree_map"
  sa_training_sessions :: "(match_id, training_runtime) btree_map"
  sa_sent :: "(connection_id \<times> u8 list) list"
  sa_world :: 'w

definition from_content_and_stores :: "game_content \<Rightarrow> player_record_store \<Rightarrow> 'w \<Rightarrow> 'w server_app" where
  "from_content_and_stores content store w =
     \<lparr>sa_content = content, sa_next_lobby_id = 1, sa_next_match_id = 1, sa_clock_seconds = 0,
      sa_phase_accumulator_ms = 0, sa_combat_accumulator_ms = 0, sa_record_store = store,
      sa_connections = [], sa_player_connections = [], sa_players = [], sa_game_lobbies = [],
      sa_matches = [], sa_training_sessions = [], sa_sent = [], sa_world = w\<rparr>"

definition connected_player_count :: "'w server_app \<Rightarrow> nat" where
  "connected_player_count app = length (sa_players app)"

definition bound_connection_count :: "'w server_app \<Rightarrow> nat" where
  "bound_connection_count app = length (sa_connections app)"

definition central_lobby_player_count :: "'w server_app \<Rightarrow> nat" where
  "central_lobby_player_count app = length (filter (\<lambda>p. cn_location p = CentralLobby) (bt_values (sa_players app)))"

definition active_lobby_count :: "'w server_app \<Rightarrow> nat" where
  "active_lobby_count app = length (sa_game_lobbies app)"

definition active_match_count :: "'w server_app \<Rightarrow> nat" where
  "active_match_count app = length (sa_matches app)"

abbreviation app_simulation :: "'w server_app \<Rightarrow> simulation_configuration" where
  "app_simulation app \<equiv> gcf_simulation (gct_configuration (sa_content app))"

section \<open>Worlds\<close>

definition melee_for_tree :: "game_content \<Rightarrow> skill_tree \<Rightarrow> melee_definition option" where
  "melee_for_tree content t =
     (case catalog_melee_for (gct_skills content) t of
        Some melee \<Rightarrow> Some melee
      | None \<Rightarrow> catalog_melee_for (gct_skills content) (Known Warrior))"

definition class_profile_for_tree :: "game_content \<Rightarrow> skill_tree \<Rightarrow> class_profile option" where
  "class_profile_for_tree content t =
     (case content_class_profile content t of
        Some profile \<Rightarrow> Some profile
      | None \<Rightarrow> content_class_profile content (Known Warrior))"

definition build_player_seed ::
  "team_assignment \<Rightarrow> skill_choice option list \<Rightarrow> game_content \<Rightarrow> sim_player_seed option" where
  "build_player_seed seat loadout content =
     (let primary_tree = (case loadout ! 0 of Some choice \<Rightarrow> tree choice | None \<Rightarrow> Known Warrior) in
      case melee_for_tree content primary_tree of None \<Rightarrow> None
      | Some melee \<Rightarrow>
      case class_profile_for_tree content primary_tree of None \<Rightarrow> None
      | Some profile \<Rightarrow>
          Some \<lparr>ss_player_id = ta_player_id seat, ss_team = ta_team seat,
            ss_hit_points = cp_hit_points profile, ss_max_mana = cp_max_mana profile,
            ss_move_speed = cp_move_speed_units_per_second profile, ss_melee = melee,
            ss_skills = map (\<lambda>index. Option.bind (loadout ! index) (catalog_resolve (gct_skills content))) [0..<5]\<rparr>)"

definition match_seed :: "match_session \<Rightarrow> game_content \<Rightarrow> team_assignment \<Rightarrow> sim_player_seed option" where
  "match_seed session content seat =
     (let pid = ta_player_id seat;
          primary_tree = (case session_choice session pid 1 of Some choice \<Rightarrow> tree choice | None \<Rightarrow> Known Warrior) in
      case melee_for_tree content primary_tree of None \<Rightarrow> None
      | Some melee \<Rightarrow>
      case class_profile_for_tree content primary_tree of None \<Rightarrow> None
      | Some profile \<Rightarrow>
          Some \<lparr>ss_player_id = pid, ss_team = ta_team seat,
            ss_hit_points = cp_hit_points profile, ss_max_mana = cp_max_mana profile,
            ss_move_speed = cp_move_speed_units_per_second profile, ss_melee = melee,
            ss_skills = map (\<lambda>index. Option.bind (session_choice session pid (of_nat (index + 1)))
              (catalog_resolve (gct_skills content))) [0..<5]\<rparr>)"

definition world_or_panic :: "simulation_error fault + simulation_world \<Rightarrow> simulation_world option" where
  "world_or_panic r = (case r of Inr w \<Rightarrow> Some w | Inl _ \<Rightarrow> None)"

definition build_world ::
  "team_assignment list \<Rightarrow> match_session \<Rightarrow> game_content \<Rightarrow> arena_map_definition \<Rightarrow> simulation_world option" where
  "build_world roster session content m =
     (case those (map (match_seed session content) roster) of None \<Rightarrow> None
      | Some seeds \<Rightarrow> world_or_panic (simulation_world_new seeds m (gcf_simulation (gct_configuration content))))"

definition build_training_world ::
  "team_assignment \<Rightarrow> skill_choice option list \<Rightarrow> game_content \<Rightarrow> simulation_world option" where
  "build_training_world participant loadout content =
     (case content_training_map content of None \<Rightarrow> None
      | Some m \<Rightarrow>
      case build_player_seed participant loadout content of None \<Rightarrow> None
      | Some seed \<Rightarrow> world_or_panic (simulation_world_new [seed] m (gcf_simulation (gct_configuration content))))"

definition match_rebuild_world :: "game_content \<Rightarrow> match_runtime \<Rightarrow> match_runtime option" where
  "match_rebuild_world content runtime =
     map_option (\<lambda>w. runtime\<lparr>mr_world := w\<rparr>)
       (build_world (mr_roster runtime) (mr_session runtime) content (mr_map runtime))"

definition training_rebuild_world :: "game_content \<Rightarrow> training_runtime \<Rightarrow> training_runtime option" where
  "training_rebuild_world content runtime =
     map_option (\<lambda>w. runtime\<lparr>tr_world := w\<rparr>)
       (build_training_world (tr_participant runtime) (tr_loadout runtime) content)"

definition reset_session :: "training_runtime \<Rightarrow> training_runtime" where
  "reset_session runtime =
     runtime\<lparr>tr_world := reset_training_session (tr_world runtime), tr_metrics := training_metrics_default\<rparr>"

section \<open>Combat log\<close>

text \<open>\<open>matches.get_mut\<close> with an update of what it finds, and the same for the other tables.\<close>

definition with_match :: "match_id \<Rightarrow> (match_runtime \<Rightarrow> match_runtime) \<Rightarrow> 'w server_app \<Rightarrow> 'w server_app" where
  "with_match mid f app = app\<lparr>sa_matches := bt_modify mid f (sa_matches app)\<rparr>"

definition with_training :: "match_id \<Rightarrow> (training_runtime \<Rightarrow> training_runtime) \<Rightarrow> 'w server_app \<Rightarrow> 'w server_app" where
  "with_training tid f app = app\<lparr>sa_training_sessions := bt_modify tid f (sa_training_sessions app)\<rparr>"

definition with_player :: "player_id \<Rightarrow> (connected_player \<Rightarrow> connected_player) \<Rightarrow> 'w server_app \<Rightarrow> 'w server_app" where
  "with_player pid f app = app\<lparr>sa_players := bt_modify pid f (sa_players app)\<rparr>"

definition with_lobby :: "lobby_id \<Rightarrow> lobby \<Rightarrow> 'w server_app \<Rightarrow> 'w server_app" where
  "with_lobby lid l app = app\<lparr>sa_game_lobbies := bt_modify lid (\<lambda>r. r\<lparr>glr_lobby := l\<rparr>) (sa_game_lobbies app)\<rparr>"

definition record_combat_entry ::
  "'w app_env \<Rightarrow> match_id \<Rightarrow> combat_log_entry \<Rightarrow> 'w server_app \<Rightarrow> (rstring + unit) \<times> 'w server_app" where
  "record_combat_entry env mid entry app =
     (let app = with_match mid (\<lambda>runtime. runtime\<lparr>mr_feedback :=
            observe_entry (sa_content app) (mr_roster runtime) (mr_session runtime) (mr_world runtime) entry
              (mr_feedback runtime)\<rparr>) app;
          (appended, w) = env_log_append env entry (sa_world app) in
      (appended, app\<lparr>sa_world := w\<rparr>))"

definition append_match_log ::
  "'w app_env \<Rightarrow> match_id \<Rightarrow> combat_log_event \<Rightarrow> 'w server_app \<Rightarrow> (rstring + unit) \<times> 'w server_app" where
  "append_match_log env mid event app =
     (case bt_get (sa_matches app) mid of
        None \<Rightarrow> (Inr (), app)
      | Some runtime \<Rightarrow>
          record_combat_entry env mid
            (combat_log_entry_new mid (round_get (current_round (mr_session runtime)))
              (phase_for_session (mr_session runtime)) (mr_combat_frame_index runtime) event) app)"

fun record_combat_entries ::
  "'w app_env \<Rightarrow> match_id \<Rightarrow> combat_log_entry list \<Rightarrow> 'w server_app \<Rightarrow> (rstring + unit) \<times> 'w server_app" where
  "record_combat_entries env mid [] app = (Inr (), app)"
| "record_combat_entries env mid (entry # entries) app =
     (let (recorded, app) = record_combat_entry env mid entry app in
      case recorded of Inl e \<Rightarrow> (Inl e, app) | Inr _ \<Rightarrow> record_combat_entries env mid entries app)"

definition append_simulation_logs ::
  "'w app_env \<Rightarrow> match_id \<Rightarrow> simulation_event list \<Rightarrow> 'w server_app \<Rightarrow> (rstring + unit) \<times> 'w server_app" where
  "append_simulation_logs env mid events app =
     (case bt_get (sa_matches app) mid of
        None \<Rightarrow> (Inr (), app)
      | Some runtime \<Rightarrow>
          record_combat_entries env mid
            (map (combat_log_entry_new mid (round_get (current_round (mr_session runtime)))
                (phase_for_session (mr_session runtime)) (mr_combat_frame_index runtime))
              (List.map_filter map_simulation_event_to_log events)) app)"

definition drain_match_combat_text ::
  "match_id \<Rightarrow> 'w server_app \<Rightarrow> (player_id \<times> arena_combat_text_entry list) list \<times> 'w server_app" where
  "drain_match_combat_text mid app =
     (case bt_get (sa_matches app) mid of
        None \<Rightarrow> ([], app)
      | Some runtime \<Rightarrow>
          let (texts, feedback) = drain_pending_text (mr_feedback runtime) in
          (texts, with_match mid (\<lambda>runtime. runtime\<lparr>mr_feedback := feedback\<rparr>) app))"

section \<open>Sending\<close>

text \<open>An event that does not fit its packet is dropped; encoding never panics (\<open>event_encoder_safe\<close>).\<close>

definition send_direct_event ::
  "connection_id \<Rightarrow> u32 \<Rightarrow> server_control_event \<Rightarrow> 'w server_app \<Rightarrow> 'w server_app" where
  "send_direct_event cid sq event app =
     (case event_encode_packet event sq (sa_clock_seconds app) of
        Inl _ \<Rightarrow> app
      | Inr packet \<Rightarrow> app\<lparr>sa_sent := sa_sent app @ [(cid, packet)]\<rparr>)"

definition send_event :: "player_id \<Rightarrow> server_control_event \<Rightarrow> 'w server_app \<Rightarrow> 'w server_app" where
  "send_event pid event app =
     (case bt_get (sa_player_connections app) pid of
        None \<Rightarrow> app
      | Some cid \<Rightarrow>
          (case bt_get (sa_players app) pid of
             Some p \<Rightarrow>
               let (sq, p) = next_outbound_seq p in
               send_direct_event cid sq event (with_player pid (\<lambda>_. p) app)
           | None \<Rightarrow> send_direct_event cid 0 event app))"

definition send_error :: "player_id \<Rightarrow> rstring \<Rightarrow> 'w server_app \<Rightarrow> 'w server_app" where
  "send_error pid message = send_event pid (ErrorEvent message)"

definition send_direct_error :: "connection_id \<Rightarrow> rstring \<Rightarrow> 'w server_app \<Rightarrow> 'w server_app" where
  "send_direct_error cid message = send_direct_event cid 0 (ErrorEvent message)"

definition broadcast_event :: "player_id list \<Rightarrow> server_control_event \<Rightarrow> 'w server_app \<Rightarrow> 'w server_app" where
  "broadcast_event recipients event = fold (\<lambda>recipient. send_event recipient event) recipients"

section \<open>Where a player is\<close>

definition ensure_location :: "player_id \<Rightarrow> player_location \<Rightarrow> 'w server_app \<Rightarrow> bool \<times> 'w server_app" where
  "ensure_location pid expected app =
     (case bt_get (sa_players app) pid of
        Some p \<Rightarrow>
          if cn_location p = expected then (True, app)
          else (False, send_error pid (lit ''player is in the wrong state for that command'') app)
      | None \<Rightarrow> (False, send_error pid (lit ''player is not connected'') app))"

text \<open>The four \<open>require_\<close> functions: the id in the location, or an error to the player.\<close>

definition require_location ::
  "(player_location \<Rightarrow> 'i option) \<Rightarrow> rstring \<Rightarrow> player_id \<Rightarrow> 'w server_app \<Rightarrow> 'i option \<times> 'w server_app" where
  "require_location pick message pid app =
     (case bt_get (sa_players app) pid of
        Some p \<Rightarrow>
          (case pick (cn_location p) of
             Some i \<Rightarrow> (Some i, app)
           | None \<Rightarrow> (None, send_error pid message app))
      | None \<Rightarrow> (None, send_error pid (lit ''player is not connected'') app))"

definition require_game_lobby :: "player_id \<Rightarrow> 'w server_app \<Rightarrow> lobby_id option \<times> 'w server_app" where
  "require_game_lobby = require_location (\<lambda>l. case l of InGameLobby i \<Rightarrow> Some i | _ \<Rightarrow> None)
     (lit ''player is not inside a game lobby'')"

definition require_match :: "player_id \<Rightarrow> 'w server_app \<Rightarrow> match_id option \<times> 'w server_app" where
  "require_match = require_location (\<lambda>l. case l of InMatch i \<Rightarrow> Some i | _ \<Rightarrow> None)
     (lit ''player is not inside an active match'')"

definition require_training :: "player_id \<Rightarrow> 'w server_app \<Rightarrow> match_id option \<times> 'w server_app" where
  "require_training = require_location (\<lambda>l. case l of InTraining i \<Rightarrow> Some i | _ \<Rightarrow> None)
     (lit ''player is not inside training'')"

definition require_results :: "player_id \<Rightarrow> 'w server_app \<Rightarrow> match_id option \<times> 'w server_app" where
  "require_results = require_location (\<lambda>l. case l of InResults i \<Rightarrow> Some i | _ \<Rightarrow> None)
     (lit ''player is not on the results screen'')"

section \<open>Recipients\<close>

definition lobby_members :: "'w server_app \<Rightarrow> lobby_id \<Rightarrow> player_id list" where
  "lobby_members app lid = map fst (filter (\<lambda>(pid, p). cn_location p = InGameLobby lid) (sa_players app))"

definition central_lobby_players :: "'w server_app \<Rightarrow> player_id list" where
  "central_lobby_players app = map fst (filter (\<lambda>(pid, p). cn_location p = CentralLobby) (sa_players app))"

definition match_recipients :: "'w server_app \<Rightarrow> match_id \<Rightarrow> player_id list" where
  "match_recipients app mid =
     (case bt_get (sa_matches app) mid of
        None \<Rightarrow> []
      | Some runtime \<Rightarrow> filter (bt_contains (sa_players app)) (mr_participants runtime))"

definition training_recipients :: "'w server_app \<Rightarrow> match_id \<Rightarrow> player_id list" where
  "training_recipients app tid =
     (case bt_get (sa_training_sessions app) tid of
        None \<Rightarrow> []
      | Some runtime \<Rightarrow>
          let pid = ta_player_id (tr_participant runtime) in
          if bt_contains (sa_players app) pid then [pid] else [])"

section \<open>Cleaning up\<close>

definition cleanup_empty_lobby :: "lobby_id \<Rightarrow> 'w server_app \<Rightarrow> 'w server_app" where
  "cleanup_empty_lobby lid app =
     (let empty = (case bt_get (sa_game_lobbies app) lid of
            Some runtime \<Rightarrow> player_count (glr_lobby runtime) = 0 | None \<Rightarrow> False) in
      if empty then app\<lparr>sa_game_lobbies := bt_remove lid (sa_game_lobbies app)\<rparr> else app)"

definition cleanup_finished_match :: "match_id \<Rightarrow> 'w server_app \<Rightarrow> 'w server_app" where
  "cleanup_finished_match mid app =
     (let still_present = list_ex (\<lambda>p. cn_location p = InMatch mid \<or> cn_location p = InResults mid)
            (bt_values (sa_players app)) in
      if \<not> still_present then app\<lparr>sa_matches := bt_remove mid (sa_matches app)\<rparr> else app)"

definition cleanup_finished_training :: "match_id \<Rightarrow> 'w server_app \<Rightarrow> 'w server_app" where
  "cleanup_finished_training tid app =
     (let still_present = list_ex (\<lambda>p. cn_location p = InTraining tid) (bt_values (sa_players app)) in
      if \<not> still_present then app\<lparr>sa_training_sessions := bt_remove tid (sa_training_sessions app)\<rparr> else app)"

definition remove_player_connection :: "player_id \<Rightarrow> 'w server_app \<Rightarrow> 'w server_app" where
  "remove_player_connection pid app =
     (case bt_get (sa_player_connections app) pid of
        None \<Rightarrow> app
      | Some cid \<Rightarrow> app\<lparr>sa_player_connections := bt_remove pid (sa_player_connections app),
          sa_connections := bt_remove cid (sa_connections app)\<rparr>)"

section \<open>Allocating ids\<close>

definition allocate_lobby_id :: "'w server_app \<Rightarrow> (lobby_id \<times> 'w server_app) option" where
  "allocate_lobby_id app =
     (case lobby_id_new (sa_next_lobby_id app) of
        Inl _ \<Rightarrow> None
      | Inr lid \<Rightarrow> Some (lid, app\<lparr>sa_next_lobby_id := sat_add (sa_next_lobby_id app) 1\<rparr>))"

definition allocate_match_id :: "'w server_app \<Rightarrow> (match_id \<times> 'w server_app) option" where
  "allocate_match_id app =
     (case match_id_new (sa_next_match_id app) of
        Inl _ \<Rightarrow> None
      | Inr mid \<Rightarrow> Some (mid, app\<lparr>sa_next_match_id := sat_add (sa_next_match_id app) 1\<rparr>))"

text \<open>\<open>from_le_bytes\<close>.\<close>

definition word_of_le :: "u8 list \<Rightarrow> 'a::len word" where
  "word_of_le bytes = foldr (\<lambda>b acc. ucast b OR push_bit 8 acc) bytes 0"

fun allocate_player_id_in :: "nat \<Rightarrow> 'w app_env \<Rightarrow> 'w server_app \<Rightarrow> (rstring + player_id) \<times> 'w server_app" where
  "allocate_player_id_in 0 env app = (Inl (lit ''failed to allocate a unique player id after repeated attempts''), app)"
| "allocate_player_id_in (Suc n) env app =
     (let (bytes, w) = env_random env 4 (sa_world app); app = app\<lparr>sa_world := w\<rparr> in
      case bytes of
        Inl error \<Rightarrow>
          (Inl (lit ''failed to allocate a secure player id from the operating system: '' @ error), app)
      | Inr bytes \<Rightarrow>
          (case player_id_new (word_of_le bytes) of
             Inl _ \<Rightarrow> allocate_player_id_in n env app
           | Inr pid \<Rightarrow>
               if \<not> bt_contains (sa_players app) pid then (Inr pid, app) else allocate_player_id_in n env app))"

definition allocate_player_id :: "'w app_env \<Rightarrow> 'w server_app \<Rightarrow> (rstring + player_id) \<times> 'w server_app" where
  "allocate_player_id = allocate_player_id_in 64"

definition player_id_for_connection :: "'w server_app \<Rightarrow> connection_id \<Rightarrow> player_id option" where
  "player_id_for_connection app cid = bt_get (sa_connections app) cid"

definition decode_axis :: "i16 \<Rightarrow> string \<Rightarrow> rstring + i8" where
  "decode_axis v field =
     (if - 1 \<le> sint v \<and> sint v \<le> 1 then Inr (scast v)
      else Inl (lit field @ lit ''='' @ show_i16 v @ lit '' is outside the allowed range -1..=1''))"

end
