(* ===== verification/Arena_View.thy ===== *)
theory Arena_View
  imports App_State
begin

text \<open>
  What a client is shown of an arena (\<open>game_api/src/app/snapshots/arena.rs\<close> and
  \<open>app/snapshots/mod.rs\<close>): the players, deployables, projectiles and effects that its visible tiles
  and the stealth of the others let through, and the snapshots and batches built from them. Players
  and deployables out of sight, and stealthed enemies that are not revealed, are never part of a
  snapshot. A projectile that carries a movement sound is the \<open>unreachable!\<close> of the source.
\<close>

section \<open>Pieces of a snapshot\<close>

fun arena_obstacle_kind_of :: "sim_obstacle_kind \<Rightarrow> arena_obstacle_kind" where
  "arena_obstacle_kind_of sim_obstacle_kind.Pillar = arena_obstacle_kind.Pillar"
| "arena_obstacle_kind_of sim_obstacle_kind.Shrub = arena_obstacle_kind.Shrub"
| "arena_obstacle_kind_of sim_obstacle_kind.Barrier = BarrierObstacle"

definition arena_obstacle_snapshot_of :: "arena_obstacle \<Rightarrow> arena_obstacle_snapshot" where
  "arena_obstacle_snapshot_of ob =
     \<lparr>aos_kind = arena_obstacle_kind_of (ob_kind ob), aos_center_x = ob_center_x ob, aos_center_y = ob_center_y ob,
      aos_half_width = ob_half_width ob, aos_half_height = ob_half_height ob\<rparr>"

definition arena_obstacles_snapshot :: "arena_obstacle list \<Rightarrow> arena_obstacle_snapshot list" where
  "arena_obstacles_snapshot obstacles = map arena_obstacle_snapshot_of obstacles"

fun arena_status_kind_of :: "status_kind \<Rightarrow> arena_status_kind" where
  "arena_status_kind_of status_kind.Poison = arena_status_kind.Poison"
| "arena_status_kind_of status_kind.Hot = arena_status_kind.Hot"
| "arena_status_kind_of status_kind.Chill = arena_status_kind.Chill"
| "arena_status_kind_of status_kind.Root = arena_status_kind.Root"
| "arena_status_kind_of status_kind.Haste = arena_status_kind.Haste"
| "arena_status_kind_of status_kind.Silence = arena_status_kind.Silence"
| "arena_status_kind_of status_kind.Stun = arena_status_kind.Stun"
| "arena_status_kind_of status_kind.Sleep = arena_status_kind.Sleep"
| "arena_status_kind_of status_kind.Shield = arena_status_kind.Shield"
| "arena_status_kind_of status_kind.Stealth = arena_status_kind.Stealth"
| "arena_status_kind_of status_kind.Reveal = arena_status_kind.Reveal"
| "arena_status_kind_of status_kind.Fear = arena_status_kind.Fear"
| "arena_status_kind_of status_kind.HealingReduction = arena_status_kind.HealingReduction"

definition arena_status_snapshot_of :: "sim_status_state \<Rightarrow> arena_status_snapshot" where
  "arena_status_snapshot_of status =
     \<lparr>ass_source = sst_source status, ass_slot = sst_slot status, ass_kind = arena_status_kind_of (sst_kind status),
      ass_stacks = sst_stacks status, ass_remaining_ms = sst_remaining_ms status\<rparr>"

definition arena_player_snapshot_of ::
  "team_assignment \<Rightarrow> sim_player_state \<Rightarrow> u8 \<Rightarrow> skill_tree option list \<Rightarrow> sim_status_state list \<Rightarrow>
   arena_player_snapshot" where
  "arena_player_snapshot_of seat state unlocked_skill_slots equipped_skill_trees statuses =
     \<lparr>aps_player_id = ta_player_id seat, aps_player_name = ta_player_name seat, aps_team = ta_team seat,
      aps_x = pst_x state, aps_y = pst_y state, aps_aim_x = pst_aim_x state, aps_aim_y = pst_aim_y state,
      aps_hit_points = pst_hit_points state, aps_max_hit_points = pst_max_hit_points state,
      aps_mana = pst_mana state, aps_max_mana = pst_max_mana state, aps_alive = pst_alive state,
      aps_unlocked_skill_slots = unlocked_skill_slots,
      aps_primary_cooldown_remaining_ms = pst_primary_cooldown_remaining_ms state,
      aps_primary_cooldown_total_ms = pst_primary_cooldown_total_ms state,
      aps_slot_cooldown_remaining_ms = pst_slot_cooldown_remaining_ms state,
      aps_slot_cooldown_total_ms = pst_slot_cooldown_total_ms state,
      aps_equipped_skill_trees = equipped_skill_trees,
      aps_current_cast_slot = pst_current_cast_slot state,
      aps_current_cast_remaining_ms = pst_current_cast_remaining_ms state,
      aps_current_cast_total_ms = pst_current_cast_total_ms state,
      aps_active_statuses = map arena_status_snapshot_of statuses\<rparr>"

definition statuses_or_none :: "simulation_world \<Rightarrow> player_id \<Rightarrow> sim_status_state list" where
  "statuses_or_none w pid = (case statuses_for w pid of Some ss \<Rightarrow> ss | None \<Rightarrow> [])"

definition arena_match_player_snapshot ::
  "match_runtime \<Rightarrow> team_assignment \<Rightarrow> sim_player_state \<Rightarrow> u8 \<Rightarrow> arena_player_snapshot" where
  "arena_match_player_snapshot runtime seat state unlocked_skill_slots =
     arena_player_snapshot_of seat state unlocked_skill_slots
       (map (\<lambda>index. map_option tree (session_choice (mr_session runtime) (ta_player_id seat) (of_nat (index + 1)))) [0..<5])
       (statuses_or_none (mr_world runtime) (ta_player_id seat))"

definition player_hidden_from_viewer ::
  "simulation_world \<Rightarrow> player_id \<Rightarrow> team_side option \<Rightarrow> player_id \<Rightarrow> bool" where
  "player_hidden_from_viewer w viewer_id viewer_team target_id =
     (if viewer_id = target_id then False
      else case player_state w target_id of
        None \<Rightarrow> True
      | Some target \<Rightarrow>
          if viewer_team = Some (pst_team target) then False
          else
            let statuses = statuses_or_none w target_id;
                stealthed = list_ex (\<lambda>s. sst_kind s = status_kind.Stealth) statuses;
                revealed = list_ex (\<lambda>s. sst_kind s = status_kind.Reveal) statuses in
            stealthed \<and> \<not> revealed)"

definition arena_players_snapshot ::
  "match_runtime \<Rightarrow> player_id \<Rightarrow> arena_map_definition \<Rightarrow> u8 list \<Rightarrow> arena_player_snapshot list" where
  "arena_players_snapshot runtime viewer_id m visible_tiles =
     (let unlocked_skill_slots = round_get (current_round (mr_session runtime));
          viewer_team = map_option pst_team (player_state (mr_world runtime) viewer_id) in
      List.map_filter (\<lambda>seat.
        case player_state (mr_world runtime) (ta_player_id seat) of
          None \<Rightarrow> None
        | Some state \<Rightarrow>
            let visible = (ta_player_id seat = viewer_id \<or>
                  mask_contains_point m visible_tiles (pst_x state) (pst_y state)) in
            if visible \<and> \<not> player_hidden_from_viewer (mr_world runtime) viewer_id viewer_team (ta_player_id seat)
            then Some (arena_match_player_snapshot runtime seat state unlocked_skill_slots) else None)
        (mr_roster runtime))"

definition arena_training_players_snapshot ::
  "training_runtime \<Rightarrow> player_id \<Rightarrow> arena_map_definition \<Rightarrow> u8 list \<Rightarrow> arena_player_snapshot list" where
  "arena_training_players_snapshot runtime viewer_id m visible_tiles =
     (let seat = tr_participant runtime in
      case player_state (tr_world runtime) (ta_player_id seat) of
        None \<Rightarrow> []
      | Some state \<Rightarrow>
          if ta_player_id seat = viewer_id \<or> mask_contains_point m visible_tiles (pst_x state) (pst_y state)
          then [arena_player_snapshot_of seat state 5
            (map (\<lambda>index. map_option tree (tr_loadout runtime ! index)) [0..<5])
            (statuses_or_none (tr_world runtime) (ta_player_id seat))]
          else [])"

fun arena_deployable_kind_of :: "sim_deployable_kind \<Rightarrow> arena_deployable_kind" where
  "arena_deployable_kind_of DkSummon = Summon"
| "arena_deployable_kind_of DkWard = Ward"
| "arena_deployable_kind_of DkTrap = Trap"
| "arena_deployable_kind_of DkBarrier = BarrierDeployable"
| "arena_deployable_kind_of DkAura = Aura"
| "arena_deployable_kind_of DkTrainingDummyResetFull = TrainingDummyResetFull"
| "arena_deployable_kind_of DkTrainingDummyExecute = TrainingDummyExecute"

definition arena_deployable_snapshot_of :: "arena_deployable \<Rightarrow> arena_deployable_snapshot" where
  "arena_deployable_snapshot_of d =
     \<lparr>ads_id = ad_id d, ads_owner = ad_owner d, ads_team = ad_team d, ads_kind = arena_deployable_kind_of (ad_kind d),
      ads_x = ad_x d, ads_y = ad_y d, ads_radius = ad_radius d, ads_hit_points = ad_hit_points d,
      ads_max_hit_points = ad_max_hit_points d, ads_remaining_ms = ad_remaining_ms d\<rparr>"

definition arena_deployables_snapshot ::
  "simulation_world \<Rightarrow> player_id \<Rightarrow> arena_map_definition \<Rightarrow> u8 list \<Rightarrow> arena_deployable_snapshot list" where
  "arena_deployables_snapshot w viewer_id m visible_tiles =
     map arena_deployable_snapshot_of
       (filter (\<lambda>d. ad_kind d \<noteq> DkAura \<and>
           (ad_owner d = viewer_id \<or> mask_contains_point m visible_tiles (ad_x d) (ad_y d)))
         (deployables_view w))"

definition arena_projectile_kind_of :: "sim_effect_kind \<Rightarrow> arena_effect_kind option" where
  "arena_projectile_kind_of kind =
     (case kind of
        sim_effect_kind.MeleeSwing \<Rightarrow> Some arena_effect_kind.MeleeSwing
      | sim_effect_kind.SkillShot \<Rightarrow> Some arena_effect_kind.SkillShot
      | sim_effect_kind.DashTrail \<Rightarrow> Some arena_effect_kind.DashTrail
      | sim_effect_kind.Burst \<Rightarrow> Some arena_effect_kind.Burst
      | sim_effect_kind.Nova \<Rightarrow> Some arena_effect_kind.Nova
      | sim_effect_kind.Beam \<Rightarrow> Some arena_effect_kind.Beam
      | sim_effect_kind.HitSpark \<Rightarrow> Some arena_effect_kind.HitSpark
      | _ \<Rightarrow> None)"

definition arena_projectile_snapshot_of :: "arena_projectile \<Rightarrow> arena_projectile_snapshot option" where
  "arena_projectile_snapshot_of p =
     map_option (\<lambda>kind. \<lparr>aprs_owner = ap_owner p, aprs_slot = ap_slot p, aprs_kind = kind, aprs_x = ap_x p,
       aprs_y = ap_y p, aprs_radius = ap_radius p\<rparr>) (arena_projectile_kind_of (ap_kind p))"

definition arena_projectiles_snapshot ::
  "simulation_world \<Rightarrow> player_id \<Rightarrow> arena_map_definition \<Rightarrow> u8 list \<Rightarrow> arena_projectile_snapshot list option" where
  "arena_projectiles_snapshot w viewer_id m visible_tiles =
     those (map arena_projectile_snapshot_of
       (filter (\<lambda>p. ap_owner p = viewer_id \<or> mask_contains_point m visible_tiles (ap_x p) (ap_y p))
         (projectiles_view w)))"

definition arena_match_phase_snapshot :: "match_session \<Rightarrow> arena_match_phase \<times> u8 option" where
  "arena_match_phase_snapshot session =
     (case ms_phase session of
        match_phase.SkillPick seconds_remaining \<Rightarrow> (ArenaSkillPick, Some seconds_remaining)
      | match_phase.PreCombat seconds_remaining \<Rightarrow> (ArenaPreCombat, Some seconds_remaining)
      | match_phase.Combat \<Rightarrow> (ArenaCombat, None)
      | match_phase.MatchEnd _ _ \<Rightarrow> (ArenaMatchEnd, None))"

definition training_metrics_snapshot_of :: "training_runtime \<Rightarrow> training_metrics_snapshot" where
  "training_metrics_snapshot_of runtime =
     \<lparr>tms_damage_done = tm_damage_done (tr_metrics runtime), tms_healing_done = tm_healing_done (tr_metrics runtime),
      tms_elapsed_ms = tm_elapsed_ms (tr_metrics runtime)\<rparr>"

section \<open>Effects\<close>

fun collect_defeated_from :: "simulation_event list \<Rightarrow> player_id list \<Rightarrow> player_id list" where
  "collect_defeated_from [] targets = targets"
| "collect_defeated_from (DamageApplied attacker target slot amount critical remaining defeated kind trigger # events) targets =
     collect_defeated_from events (if defeated \<and> target \<notin> set targets then targets @ [target] else targets)"
| "collect_defeated_from (event # events) targets = collect_defeated_from events targets"

definition collect_defeated_targets :: "simulation_event list \<Rightarrow> player_id list" where
  "collect_defeated_targets events = collect_defeated_from events []"

fun arena_effect_kind_of :: "sim_effect_kind \<Rightarrow> arena_effect_kind" where
  "arena_effect_kind_of sim_effect_kind.MeleeSwing = arena_effect_kind.MeleeSwing"
| "arena_effect_kind_of sim_effect_kind.SkillShot = arena_effect_kind.SkillShot"
| "arena_effect_kind_of sim_effect_kind.DashTrail = arena_effect_kind.DashTrail"
| "arena_effect_kind_of sim_effect_kind.Burst = arena_effect_kind.Burst"
| "arena_effect_kind_of sim_effect_kind.Nova = arena_effect_kind.Nova"
| "arena_effect_kind_of sim_effect_kind.Beam = arena_effect_kind.Beam"
| "arena_effect_kind_of sim_effect_kind.HitSpark = arena_effect_kind.HitSpark"
| "arena_effect_kind_of sim_effect_kind.Footstep = arena_effect_kind.Footstep"
| "arena_effect_kind_of sim_effect_kind.BrushRustle = arena_effect_kind.BrushRustle"
| "arena_effect_kind_of sim_effect_kind.StealthFootstep = arena_effect_kind.StealthFootstep"

definition arena_effect_snapshot_of :: "simulation_world \<Rightarrow> arena_effect \<Rightarrow> arena_effect_snapshot" where
  "arena_effect_snapshot_of w effect =
     \<lparr>aes_kind = arena_effect_kind_of (ef_kind effect), aes_owner = ef_owner effect, aes_slot = ef_slot effect,
      aes_x = ef_x effect, aes_y = ef_y effect, aes_target_x = ef_target_x effect, aes_target_y = ef_target_y effect,
      aes_radius = ef_radius effect,
      aes_audio_cue_id = (case effect_audio_cue_id w (ef_owner effect) (ef_slot effect) (ef_kind effect) of
        Some cue \<Rightarrow> cue | None \<Rightarrow> [])\<rparr>"

definition collect_effect_batch :: "simulation_world \<Rightarrow> simulation_event list \<Rightarrow> arena_effect_snapshot list" where
  "collect_effect_batch w events =
     List.map_filter (\<lambda>event. case event of EffectSpawned effect \<Rightarrow> Some (arena_effect_snapshot_of w effect) | _ \<Rightarrow> None) events"

definition is_movement_sound :: "arena_effect_kind \<Rightarrow> bool" where
  "is_movement_sound kind \<longleftrightarrow>
     kind \<in> {arena_effect_kind.Footstep, arena_effect_kind.BrushRustle, arena_effect_kind.StealthFootstep}"

definition effect_is_audible_without_visibility :: "match_runtime \<Rightarrow> player_id \<Rightarrow> arena_effect_snapshot \<Rightarrow> bool" where
  "effect_is_audible_without_visibility runtime viewer_id effect =
     (if \<not> is_movement_sound (aes_kind effect) then False
      else case player_state (mr_world runtime) viewer_id of
        None \<Rightarrow> False
      | Some viewer \<Rightarrow>
          let delta_x = sint (aes_x effect) - sint (pst_x viewer);
              delta_y = sint (aes_y effect) - sint (pst_y viewer) in
          wrap_i32 (saturating_square delta_x + saturating_square delta_y) \<le>
            saturating_square (uint (aes_radius effect)))"

definition effect_in_sight :: "arena_map_definition \<Rightarrow> u8 list \<Rightarrow> arena_effect_snapshot \<Rightarrow> bool" where
  "effect_in_sight m visible_tiles effect \<longleftrightarrow>
     mask_contains_point m visible_tiles (aes_x effect) (aes_y effect) \<or>
     mask_contains_point m visible_tiles (aes_target_x effect) (aes_target_y effect)"

text \<open>
  The visibility masks of a viewer in a match, and the explored tiles stored back; likewise in a
  training session.
\<close>

definition match_masks ::
  "match_id \<Rightarrow> player_id \<Rightarrow> arena_map_definition \<Rightarrow> 'w server_app \<Rightarrow>
   (match_runtime \<times> u8 list \<times> u8 list) option \<times> 'w server_app" where
  "match_masks mid viewer_id m app =
     (case bt_get (sa_matches app) mid of
        None \<Rightarrow> (None, app)
      | Some runtime \<Rightarrow>
          let (masks, explored_tiles) = build_visibility_masks (mr_world runtime) (mr_explored_tiles runtime) viewer_id m;
              runtime = runtime\<lparr>mr_explored_tiles := explored_tiles\<rparr> in
          (map_option (Pair runtime) masks, with_match mid (\<lambda>_. runtime) app))"

definition training_masks ::
  "match_id \<Rightarrow> player_id \<Rightarrow> arena_map_definition \<Rightarrow> 'w server_app \<Rightarrow>
   (training_runtime \<times> u8 list \<times> u8 list) option \<times> 'w server_app" where
  "training_masks tid viewer_id m app =
     (case bt_get (sa_training_sessions app) tid of
        None \<Rightarrow> (None, app)
      | Some runtime \<Rightarrow>
          let (masks, explored_tiles) = build_visibility_masks (tr_world runtime) (tr_explored_tiles runtime) viewer_id m;
              runtime = runtime\<lparr>tr_explored_tiles := explored_tiles\<rparr> in
          (map_option (Pair runtime) masks, with_training tid (\<lambda>_. runtime) app))"

definition filter_arena_effects ::
  "match_id \<Rightarrow> player_id \<Rightarrow> arena_effect_snapshot list \<Rightarrow> arena_map_definition \<Rightarrow> 'w server_app \<Rightarrow>
   arena_effect_snapshot list \<times> 'w server_app" where
  "filter_arena_effects mid viewer_id effects m app =
     (case match_masks mid viewer_id m app of
        (None, app) \<Rightarrow> ([], app)
      | (Some (runtime, visible_tiles, _), app) \<Rightarrow>
          (filter (\<lambda>effect. aes_owner effect = viewer_id \<or>
             effect_is_audible_without_visibility runtime viewer_id effect \<or>
             effect_in_sight m visible_tiles effect) effects, app))"

end
