(* ===== verification/App_Snapshots.thy ===== *)
theory App_Snapshots
  imports Arena_View
begin

text \<open>
  Snapshots and their distribution (\<open>game_api/src/app/snapshots/mod.rs\<close>): the lobby directory, the
  snapshot of a lobby, and the full and delta snapshots and effect batches of matches and training
  sessions, built for every recipient from its own visibility. \<open>None\<close> is a panic.
\<close>

primrec each_opt :: "('a \<Rightarrow> 's \<Rightarrow> 's option) \<Rightarrow> 'a list \<Rightarrow> 's \<Rightarrow> 's option" where
  "each_opt f [] s = Some s"
| "each_opt f (x # xs) s = (case f x s of None \<Rightarrow> None | Some s \<Rightarrow> each_opt f xs s)"

definition clamp_len :: "nat \<Rightarrow> u16" where
  "clamp_len n = (if n \<le> 65535 then of_nat n else - 1)"

section \<open>Lobbies\<close>

fun lobby_snapshot_phase_of :: "lobby_phase \<Rightarrow> lobby_snapshot_phase" where
  "lobby_snapshot_phase_of Open = LobbyOpen"
| "lobby_snapshot_phase_of (LaunchCountdown seconds_remaining _) = LobbyLaunchCountdown seconds_remaining"

definition lobby_directory_entry_of :: "lobby_id \<Rightarrow> game_lobby_runtime \<Rightarrow> lobby_directory_entry" where
  "lobby_directory_entry_of lid runtime =
     (let players = bt_values (lobby_players (glr_lobby runtime)) in
      \<lparr>lde_lobby_id = lid, lde_player_count = clamp_len (length players),
       lde_team_a_count = clamp_len (length (filter (\<lambda>p. lp_team p = Some TeamA) players)),
       lde_team_b_count = clamp_len (length (filter (\<lambda>p. lp_team p = Some TeamB) players)),
       lde_ready_count = clamp_len (length (filter (\<lambda>p. is_ready (lp_ready_state p)) players)),
       lde_phase = lobby_snapshot_phase_of (lobby_phase (glr_lobby runtime))\<rparr>)"

definition build_lobby_directory_entries :: "'w server_app \<Rightarrow> lobby_directory_entry list" where
  "build_lobby_directory_entries app = map (\<lambda>(lid, runtime). lobby_directory_entry_of lid runtime) (sa_game_lobbies app)"

definition build_game_lobby_snapshot :: "lobby_id \<Rightarrow> 'w server_app \<Rightarrow> server_control_event option" where
  "build_game_lobby_snapshot lid app =
     map_option (\<lambda>runtime.
       GameLobbySnapshot lid (lobby_snapshot_phase_of (lobby_phase (glr_lobby runtime)))
         (map (\<lambda>p. \<lparr>lsp_player_id = lp_player_id p, lsp_player_name = lp_player_name p, lsp_record = lp_record p,
            lsp_team = lp_team p, lsp_ready = lp_ready_state p\<rparr>) (bt_values (lobby_players (glr_lobby runtime)))))
       (bt_get (sa_game_lobbies app) lid)"

definition send_lobby_directory_snapshot :: "player_id \<Rightarrow> 'w server_app \<Rightarrow> 'w server_app" where
  "send_lobby_directory_snapshot pid app =
     send_event pid (LobbyDirectorySnapshot (build_lobby_directory_entries app)) app"

definition broadcast_lobby_directory_snapshot :: "'w server_app \<Rightarrow> 'w server_app" where
  "broadcast_lobby_directory_snapshot app =
     (let recipients = central_lobby_players app in
      if recipients = [] then app
      else broadcast_event recipients (LobbyDirectorySnapshot (build_lobby_directory_entries app)) app)"

definition send_game_lobby_snapshot :: "lobby_id \<Rightarrow> player_id \<Rightarrow> 'w server_app \<Rightarrow> 'w server_app" where
  "send_game_lobby_snapshot lid pid app =
     (case build_game_lobby_snapshot lid app of None \<Rightarrow> app | Some event \<Rightarrow> send_event pid event app)"

definition broadcast_game_lobby_snapshot :: "lobby_id \<Rightarrow> 'w server_app \<Rightarrow> 'w server_app" where
  "broadcast_game_lobby_snapshot lid app =
     (let recipients = lobby_members app lid in
      if recipients = [] then app
      else case build_game_lobby_snapshot lid app of None \<Rightarrow> app
       | Some event \<Rightarrow> broadcast_event recipients event app)"

section \<open>Arena snapshots\<close>

definition build_arena_state_snapshot ::
  "match_id \<Rightarrow> player_id \<Rightarrow> arena_map_definition \<Rightarrow> 'w server_app \<Rightarrow> (arena_state_snapshot option \<times> 'w server_app) option" where
  "build_arena_state_snapshot mid viewer_id m app =
     (case match_masks mid viewer_id m app of
        (None, app) \<Rightarrow> Some (None, app)
      | (Some (runtime, visible_tiles, explored_tiles), app) \<Rightarrow>
          let world = mr_world runtime; session = mr_session runtime;
              (phase, phase_seconds_remaining) = arena_match_phase_snapshot session in
          map_option (\<lambda>projectiles.
            (Some \<lparr>st_mode = MatchMode, st_phase = phase, st_phase_seconds_remaining = phase_seconds_remaining,
               st_width = w_arena_width_units world, st_height = w_arena_height_units world,
               st_tile_units = am_tile_units m, st_footprint_tiles = w_footprint_mask world,
               st_objective_tiles = am_objective_mask m, st_visible_tiles = visible_tiles,
               st_explored_tiles = explored_tiles,
               st_objective_target_ms = objective_target_ms (config session),
               st_objective_team_a_ms = objective_team_a_ms session,
               st_objective_team_b_ms = objective_team_b_ms session,
               st_obstacles = arena_obstacles_snapshot (w_obstacles world),
               st_deployables = arena_deployables_snapshot world viewer_id m visible_tiles,
               st_players = arena_players_snapshot runtime viewer_id m visible_tiles,
               st_projectiles = projectiles, st_training_metrics = None\<rparr>, app))
            (arena_projectiles_snapshot world viewer_id m visible_tiles))"

definition build_arena_delta_snapshot ::
  "match_id \<Rightarrow> player_id \<Rightarrow> arena_map_definition \<Rightarrow> 'w server_app \<Rightarrow> (arena_delta_snapshot option \<times> 'w server_app) option" where
  "build_arena_delta_snapshot mid viewer_id m app =
     (case match_masks mid viewer_id m app of
        (None, app) \<Rightarrow> Some (None, app)
      | (Some (runtime, visible_tiles, explored_tiles), app) \<Rightarrow>
          let world = mr_world runtime; session = mr_session runtime;
              (phase, phase_seconds_remaining) = arena_match_phase_snapshot session in
          map_option (\<lambda>projectiles.
            (Some \<lparr>dl_mode = MatchMode, dl_phase = phase, dl_phase_seconds_remaining = phase_seconds_remaining,
               dl_tile_units = am_tile_units m, dl_footprint_tiles = w_footprint_mask world,
               dl_objective_tiles = am_objective_mask m, dl_visible_tiles = visible_tiles,
               dl_explored_tiles = explored_tiles,
               dl_objective_target_ms = objective_target_ms (config session),
               dl_objective_team_a_ms = objective_team_a_ms session,
               dl_objective_team_b_ms = objective_team_b_ms session,
               dl_obstacles = arena_obstacles_snapshot (w_obstacles world),
               dl_deployables = arena_deployables_snapshot world viewer_id m visible_tiles,
               dl_players = arena_players_snapshot runtime viewer_id m visible_tiles,
               dl_projectiles = projectiles, dl_training_metrics = None\<rparr>, app))
            (arena_projectiles_snapshot world viewer_id m visible_tiles))"

definition build_training_state_snapshot ::
  "match_id \<Rightarrow> player_id \<Rightarrow> arena_map_definition \<Rightarrow> 'w server_app \<Rightarrow> (arena_state_snapshot option \<times> 'w server_app) option" where
  "build_training_state_snapshot tid viewer_id m app =
     (case training_masks tid viewer_id m app of
        (None, app) \<Rightarrow> Some (None, app)
      | (Some (runtime, visible_tiles, explored_tiles), app) \<Rightarrow>
          let world = tr_world runtime in
          map_option (\<lambda>projectiles.
            (Some \<lparr>st_mode = TrainingMode, st_phase = ArenaCombat, st_phase_seconds_remaining = None,
               st_width = w_arena_width_units world, st_height = w_arena_height_units world,
               st_tile_units = am_tile_units m, st_footprint_tiles = w_footprint_mask world,
               st_objective_tiles = am_objective_mask m, st_visible_tiles = visible_tiles,
               st_explored_tiles = explored_tiles, st_objective_target_ms = am_objective_target_ms m,
               st_objective_team_a_ms = 0, st_objective_team_b_ms = 0,
               st_obstacles = arena_obstacles_snapshot (w_obstacles world),
               st_deployables = arena_deployables_snapshot world viewer_id m visible_tiles,
               st_players = arena_training_players_snapshot runtime viewer_id m visible_tiles,
               st_projectiles = projectiles,
               st_training_metrics = Some (training_metrics_snapshot_of runtime)\<rparr>, app))
            (arena_projectiles_snapshot world viewer_id m visible_tiles))"

definition build_training_delta_snapshot ::
  "match_id \<Rightarrow> player_id \<Rightarrow> arena_map_definition \<Rightarrow> 'w server_app \<Rightarrow> (arena_delta_snapshot option \<times> 'w server_app) option" where
  "build_training_delta_snapshot tid viewer_id m app =
     (case training_masks tid viewer_id m app of
        (None, app) \<Rightarrow> Some (None, app)
      | (Some (runtime, visible_tiles, explored_tiles), app) \<Rightarrow>
          let world = tr_world runtime in
          map_option (\<lambda>projectiles.
            (Some \<lparr>dl_mode = TrainingMode, dl_phase = ArenaCombat, dl_phase_seconds_remaining = None,
               dl_tile_units = am_tile_units m, dl_footprint_tiles = w_footprint_mask world,
               dl_objective_tiles = am_objective_mask m, dl_visible_tiles = visible_tiles,
               dl_explored_tiles = explored_tiles, dl_objective_target_ms = am_objective_target_ms m,
               dl_objective_team_a_ms = 0, dl_objective_team_b_ms = 0,
               dl_obstacles = arena_obstacles_snapshot (w_obstacles world),
               dl_deployables = arena_deployables_snapshot world viewer_id m visible_tiles,
               dl_players = arena_training_players_snapshot runtime viewer_id m visible_tiles,
               dl_projectiles = projectiles,
               dl_training_metrics = Some (training_metrics_snapshot_of runtime)\<rparr>, app))
            (arena_projectiles_snapshot world viewer_id m visible_tiles))"

section \<open>Broadcasts\<close>

text \<open>The common loop of the broadcasts: build for each recipient, and send what was built.\<close>

definition send_built ::
  "(player_id \<Rightarrow> 'w server_app \<Rightarrow> ('s option \<times> 'w server_app) option) \<Rightarrow> ('s \<Rightarrow> server_control_event) \<Rightarrow> player_id \<Rightarrow>
   'w server_app \<Rightarrow> 'w server_app option" where
  "send_built build mk recipient app =
     map_option (\<lambda>(snapshot, app).
       case snapshot of None \<Rightarrow> app | Some s \<Rightarrow> send_event recipient (mk s) app) (build recipient app)"

definition broadcast_in_match ::
  "(arena_map_definition \<Rightarrow> player_id \<Rightarrow> 'w server_app \<Rightarrow> ('s option \<times> 'w server_app) option) \<Rightarrow>
   ('s \<Rightarrow> server_control_event) \<Rightarrow> match_id \<Rightarrow> 'w server_app \<Rightarrow> 'w server_app option" where
  "broadcast_in_match build mk mid app =
     (let recipients = match_recipients app mid in
      if recipients = [] then Some app
      else case bt_get (sa_matches app) mid of None \<Rightarrow> Some app
       | Some runtime \<Rightarrow> each_opt (send_built (build (mr_map runtime)) mk) recipients app)"

definition broadcast_in_training ::
  "(arena_map_definition \<Rightarrow> player_id \<Rightarrow> 'w server_app \<Rightarrow> ('s option \<times> 'w server_app) option) \<Rightarrow>
   ('s \<Rightarrow> server_control_event) \<Rightarrow> match_id \<Rightarrow> 'w server_app \<Rightarrow> 'w server_app option" where
  "broadcast_in_training build mk tid app =
     (let recipients = training_recipients app tid in
      if recipients = [] then Some app
      else case content_training_map (sa_content app) of None \<Rightarrow> Some app
       | Some m \<Rightarrow> each_opt (send_built (build m) mk) recipients app)"

definition broadcast_arena_state_snapshot :: "match_id \<Rightarrow> 'w server_app \<Rightarrow> 'w server_app option" where
  "broadcast_arena_state_snapshot mid =
     broadcast_in_match (\<lambda>m recipient. build_arena_state_snapshot mid recipient m) ArenaStateSnapshot mid"

definition broadcast_training_state_snapshot :: "match_id \<Rightarrow> 'w server_app \<Rightarrow> 'w server_app option" where
  "broadcast_training_state_snapshot tid =
     broadcast_in_training (\<lambda>m recipient. build_training_state_snapshot tid recipient m) ArenaStateSnapshot tid"

definition broadcast_arena_delta_snapshot :: "match_id \<Rightarrow> 'w server_app \<Rightarrow> 'w server_app option" where
  "broadcast_arena_delta_snapshot mid =
     broadcast_in_match (\<lambda>m recipient. build_arena_delta_snapshot mid recipient m) ArenaDeltaSnapshot mid"

definition broadcast_training_delta_snapshot :: "match_id \<Rightarrow> 'w server_app \<Rightarrow> 'w server_app option" where
  "broadcast_training_delta_snapshot tid =
     broadcast_in_training (\<lambda>m recipient. build_training_delta_snapshot tid recipient m) ArenaDeltaSnapshot tid"

definition some_effects :: "arena_effect_snapshot list \<times> 'w server_app \<Rightarrow> (arena_effect_snapshot list option \<times> 'w server_app) option" where
  "some_effects r = (case r of (effects, app) \<Rightarrow> Some (if effects = [] then None else Some effects, app))"

definition broadcast_arena_effect_batch ::
  "match_id \<Rightarrow> arena_effect_snapshot list \<Rightarrow> 'w server_app \<Rightarrow> 'w server_app option" where
  "broadcast_arena_effect_batch mid effects app =
     (if effects = [] then Some app
      else broadcast_in_match (\<lambda>m recipient app. some_effects (filter_arena_effects mid recipient effects m app))
        ArenaEffectBatch mid app)"

text \<open>In training every movement sound is heard, however far away.\<close>

definition filter_training_effects ::
  "match_id \<Rightarrow> player_id \<Rightarrow> arena_effect_snapshot list \<Rightarrow> arena_map_definition \<Rightarrow> 'w server_app \<Rightarrow>
   arena_effect_snapshot list \<times> 'w server_app" where
  "filter_training_effects tid recipient effects m app =
     (case training_masks tid recipient m app of
        (None, app) \<Rightarrow> ([], app)
      | (Some (runtime, visible_tiles, _), app) \<Rightarrow>
          (filter (\<lambda>effect. aes_owner effect = recipient \<or> is_movement_sound (aes_kind effect) \<or>
             effect_in_sight m visible_tiles effect) effects, app))"

definition broadcast_training_effect_batch ::
  "match_id \<Rightarrow> arena_effect_snapshot list \<Rightarrow> 'w server_app \<Rightarrow> 'w server_app option" where
  "broadcast_training_effect_batch tid effects app =
     (if effects = [] then Some app
      else broadcast_in_training (\<lambda>m recipient app. some_effects (filter_training_effects tid recipient effects m app))
        ArenaEffectBatch tid app)"

end
