(* ===== verification/Arena_Fog.thy ===== *)
theory Arena_Fog
  imports App_Snapshots Match_Invariant Game_Content
begin

text \<open>
  The fog of war as a client sees it: which players, deployables and projectiles the snapshots of a
  match hold. \<open>sees_point\<close> says which places the viewer sees and \<open>concealed\<close> which of the others
  stealth hides from it, both read off the world and not off the masks the code builds.
  \<open>shows_what_is_seen\<close> is the exact contents of the snapshots, whoever owns the wards of the team;
  \<open>keeps_the_fog\<close> is the rule the maps guide gives, for a viewer with its own vision only.
\<close>

section \<open>What a viewer may know of\<close>

definition sees_point :: "simulation_world \<Rightarrow> sim_player_state \<Rightarrow> arena_map_definition \<Rightarrow> i16 \<Rightarrow> i16 \<Rightarrow> bool" where
  "sees_point w viewer m x y \<longleftrightarrow>
     (\<exists>row column. row < unat (am_height_tiles m) \<and> column < unat (am_width_tiles m) \<and>
        view_tile_index_for_point m x y = Some (row * unat (am_width_tiles m) + column) \<and>
        (view_tile_index_for_point m (pst_x viewer) (pst_y viewer) = Some (row * unat (am_width_tiles m) + column) \<or>
         sees_tile w viewer m row column))"

definition concealed :: "sim_player_state \<Rightarrow> sim_player \<Rightarrow> bool" where
  "concealed viewer p \<longleftrightarrow> sp_team p \<noteq> pst_team viewer \<and>
     (\<exists>s \<in> set (sp_statuses p). si_kind s = status_kind.Stealth) \<and>
     (\<forall>s \<in> set (sp_statuses p). si_kind s \<noteq> status_kind.Reveal)"

definition may_know_player ::
  "simulation_world \<Rightarrow> player_id \<Rightarrow> sim_player_state \<Rightarrow> arena_map_definition \<Rightarrow> player_id \<Rightarrow> bool" where
  "may_know_player w viewer_id viewer m pid \<longleftrightarrow>
     (\<exists>p. player_at w pid = Some p \<and>
        (pid = viewer_id \<or> sees_point w viewer m (sp_x p) (sp_y p) \<and> \<not> concealed viewer p))"

text \<open>What the code shows, in the order of the roster and of the world, and where it is.\<close>

definition shows_what_is_seen ::
  "match_runtime \<Rightarrow> player_id \<Rightarrow> sim_player_state \<Rightarrow> arena_map_definition \<Rightarrow> arena_player_snapshot list \<Rightarrow>
   arena_deployable_snapshot list \<Rightarrow> arena_projectile_snapshot list \<Rightarrow> bool" where
  "shows_what_is_seen r viewer_id viewer m players deployables projectiles \<longleftrightarrow>
     map aps_player_id players = filter (may_know_player (mr_world r) viewer_id viewer m) (map ta_player_id (mr_roster r)) \<and>
     (\<forall>s \<in> set players. \<exists>p. player_at (mr_world r) (aps_player_id s) = Some p \<and>
        aps_x s = sp_x p \<and> aps_y s = sp_y p \<and> aps_hit_points s = sp_hit_points p) \<and>
     map (\<lambda>d. (ads_id d, ads_x d, ads_y d)) deployables =
       map (\<lambda>d. (dp_id d, dp_x d, dp_y d))
         (filter (\<lambda>d. dp_kind d \<noteq> DkAura \<and> (dp_owner d = viewer_id \<or> sees_point (mr_world r) viewer m (dp_x d) (dp_y d)))
           (w_deployables (mr_world r))) \<and>
     map (\<lambda>p. (aprs_owner p, aprs_x p, aprs_y p)) projectiles =
       map (\<lambda>p. (pr_owner p, pr_x p, pr_y p))
         (filter (\<lambda>p. pr_owner p = viewer_id \<or> sees_point (mr_world r) viewer m (pr_x p) (pr_y p)) (w_projectiles (mr_world r)))"

text \<open>
  The rule for a viewer that has only its own vision. \<open>knows_point\<close> is its own tile and the tiles whose centre it or one of
  its own wards sees. What it knows of is in the snapshot; what it does not know of is not, unless its owner has dealt
  damage in the match, which may give it away. A place inside a shrub hides players and deployables, but not for certain
  projectiles.
\<close>

definition knows_point :: "simulation_world \<Rightarrow> player_id \<Rightarrow> sim_player_state \<Rightarrow> arena_map_definition \<Rightarrow> i16 \<Rightarrow> i16 \<Rightarrow> bool" where
  "knows_point w viewer_id viewer m x y \<longleftrightarrow>
     (\<exists>row column. row < unat (am_height_tiles m) \<and> column < unat (am_width_tiles m) \<and>
        view_tile_index_for_point m x y = Some (row * unat (am_width_tiles m) + column) \<and>
        (view_tile_index_for_point m (pst_x viewer) (pst_y viewer) = Some (row * unat (am_width_tiles m) + column) \<or>
         sees_itself w viewer_id viewer (view_tile_center_units m column row)))"

definition knows_player ::
  "simulation_world \<Rightarrow> player_id \<Rightarrow> sim_player_state \<Rightarrow> arena_map_definition \<Rightarrow> player_id \<Rightarrow> bool" where
  "knows_player w viewer_id viewer m pid \<longleftrightarrow>
     (\<exists>p. player_at w pid = Some p \<and>
        (pid = viewer_id \<or> knows_point w viewer_id viewer m (sp_x p) (sp_y p) \<and> \<not> concealed viewer p))"

definition dealt_no_damage :: "match_runtime \<Rightarrow> player_id \<Rightarrow> bool" where
  "dealt_no_damage r pid \<longleftrightarrow> sut_damage_done (totals_of (mcf_running_totals (mr_feedback r)) pid) = 0"

definition keeps_the_fog ::
  "match_runtime \<Rightarrow> player_id \<Rightarrow> sim_player_state \<Rightarrow> arena_map_definition \<Rightarrow> arena_player_snapshot list \<Rightarrow>
   arena_deployable_snapshot list \<Rightarrow> arena_projectile_snapshot list \<Rightarrow> bool" where
  "keeps_the_fog r viewer_id viewer m players deployables projectiles \<longleftrightarrow>
     (let w = mr_world r; knows = knows_point w viewer_id viewer m in
     (\<exists>shown. map aps_player_id players = filter shown (map ta_player_id (mr_roster r)) \<and>
        (\<forall>pid. knows_player w viewer_id viewer m pid \<longrightarrow> shown pid) \<and>
        (\<forall>pid. dealt_no_damage r pid \<and> \<not> knows_player w viewer_id viewer m pid \<longrightarrow> \<not> shown pid)) \<and>
     (\<forall>s \<in> set players. \<exists>p. player_at w (aps_player_id s) = Some p \<and>
        aps_x s = sp_x p \<and> aps_y s = sp_y p \<and> aps_hit_points s = sp_hit_points p) \<and>
     (\<exists>shown. map (\<lambda>d. (ads_id d, ads_x d, ads_y d)) deployables =
          map (\<lambda>d. (dp_id d, dp_x d, dp_y d)) (filter shown (w_deployables w)) \<and>
        (\<forall>d. dp_kind d \<noteq> DkAura \<and> (dp_owner d = viewer_id \<or> knows (dp_x d) (dp_y d)) \<longrightarrow> shown d) \<and>
        (\<forall>d. dealt_no_damage r (dp_owner d) \<and> dp_owner d \<noteq> viewer_id \<and> \<not> knows (dp_x d) (dp_y d) \<longrightarrow> \<not> shown d)) \<and>
     (\<exists>shown. map (\<lambda>p. (aprs_owner p, aprs_x p, aprs_y p)) projectiles =
          map (\<lambda>p. (pr_owner p, pr_x p, pr_y p)) (filter shown (w_projectiles w)) \<and>
        (\<forall>p. pr_owner p = viewer_id \<or> knows (pr_x p) (pr_y p) \<longrightarrow> shown p) \<and>
        (\<forall>p. dealt_no_damage r (pr_owner p) \<and> pr_owner p \<noteq> viewer_id \<and> \<not> knows (pr_x p) (pr_y p) \<and>
             containing_shrub (w_obstacles w) (pr_x p) (pr_y p) = None \<longrightarrow> \<not> shown p)))"

lemma knows_point_seen:
  "own_vision w viewer_id viewer \<Longrightarrow> knows_point w viewer_id viewer m x y = sees_point w viewer m x y"
  by (simp add: knows_point_def sees_point_def sees_tile_itself)

lemma shown_keeps_the_fog:
  assumes "own_vision (mr_world r) viewer_id viewer" "shows_what_is_seen r viewer_id viewer m players deployables projectiles"
  shows "keeps_the_fog r viewer_id viewer m players deployables projectiles"
proof -
  note knows = knows_point_seen [OF assms(1)]
  have same: "may_know_player (mr_world r) viewer_id viewer m = knows_player (mr_world r) viewer_id viewer m"
    by (simp add: fun_eq_iff may_know_player_def knows_player_def knows)
  note facts = assms(2) [unfolded shows_what_is_seen_def same]
  note players = facts [THEN conjunct1] and places = facts [THEN conjunct2, THEN conjunct1]
    and deployables = facts [THEN conjunct2, THEN conjunct2, THEN conjunct1]
    and projectiles = facts [THEN conjunct2, THEN conjunct2, THEN conjunct2]
  show ?thesis unfolding keeps_the_fog_def Let_def knows
  proof (intro conjI places)
    show "\<exists>shown. map aps_player_id players = filter shown (map ta_player_id (mr_roster r)) \<and>
        (\<forall>pid. knows_player (mr_world r) viewer_id viewer m pid \<longrightarrow> shown pid) \<and>
        (\<forall>pid. dealt_no_damage r pid \<and> \<not> knows_player (mr_world r) viewer_id viewer m pid \<longrightarrow> \<not> shown pid)"
      by (rule exI, rule conjI, rule players, blast)
  qed ((rule exI, rule conjI, rule deployables projectiles, blast)+)
qed

definition movement_sounds :: "sim_effect_kind set" where
  "movement_sounds = {sim_effect_kind.Footstep, sim_effect_kind.BrushRustle, sim_effect_kind.StealthFootstep}"

section \<open>Points and masks\<close>

lemma div_less_units:
  assumes "0 < k" "x < n * k"
  shows "x div k < (n :: int)"
proof -
  have "x div k * k \<le> x" using pos_mod_sign [OF assms(1), of x] div_mult_mod_eq [of x k] by linarith
  with assms(2) have "x div k * k < n * k" by linarith
  then show ?thesis using assms(1) by simp
qed

lemma view_index_tile:
  assumes "wf_map_dims m" "view_tile_index_for_point m x y = Some i"
  obtains row column where "row < unat (am_height_tiles m)" "column < unat (am_width_tiles m)"
    "i = row * unat (am_width_tiles m) + column"
proof -
  let ?tu = "uint (am_tile_units m)"
  define rx where "rx = sint x + uint (am_width_units m) div 2"
  define ry where "ry = sint y + uint (am_height_units m) div 2"
  have tu: "0 < ?tu" using assms(1) by (auto simp: wf_map_dims_def order_less_le unsigned_eq_0_iff)
  have range: "0 \<le> rx" "rx < uint (am_width_units m)" "0 \<le> ry" "ry < uint (am_height_units m)"
    and i: "i = nat (ry div ?tu) * unat (am_width_tiles m) + nat (rx div ?tu)"
    using assms(2) by (auto simp: view_tile_index_for_point_def Let_def rx_def ry_def split: if_splits)
  have units: "uint (am_width_units m) = int (unat (am_width_tiles m)) * ?tu" "uint (am_height_units m) = int (unat (am_height_tiles m)) * ?tu"
    using assms(1) unfolding wf_map_dims_def uint_nat by auto
  have "rx div ?tu < int (unat (am_width_tiles m))" "ry div ?tu < int (unat (am_height_tiles m))"
    using range units by (auto intro: div_less_units [OF tu])
  moreover have "0 \<le> rx div ?tu" "0 \<le> ry div ?tu"
    using range tu by (simp_all add: pos_imp_zdiv_nonneg_iff)
  ultimately have "nat (rx div ?tu) < unat (am_width_tiles m)" "nat (ry div ?tu) < unat (am_height_tiles m)"
    by linarith+
  from that [OF this(2,1) i] show thesis .
qed

lemma view_index_footprint:
  "view_tile_index_for_point m x y = Some i \<Longrightarrow> map_mask_has_tile (am_footprint_mask m) i"
  by (auto simp: view_tile_index_for_point_def Let_def view_mask_eq split: if_splits)

lemma mask_contains_visible:
  assumes "wf_map_dims m"
  shows "mask_contains_point m (visible_tiles_of w viewer m) x y \<longleftrightarrow> sees_point w viewer m x y"
proof (cases "view_tile_index_for_point m x y")
  case (Some i)
  from view_index_tile [OF assms Some] obtain row column where
    t: "row < unat (am_height_tiles m)" "column < unat (am_width_tiles m)" "i = row * unat (am_width_tiles m) + column" .
  have unique: "row' = row \<and> column' = column"
    if "column' < unat (am_width_tiles m)" "i = row' * unat (am_width_tiles m) + column'" for row' column'
    using tile_index_inj [of column "unat (am_width_tiles m)" column' row row'] t(2,3) that by auto
  have "map_mask_has_tile (visible_tiles_of w viewer m) i \<longleftrightarrow>
      view_tile_index_for_point m (pst_x viewer) (pst_y viewer) = Some i \<or> sees_tile w viewer m row column"
    using visible_tile_iff [OF t(1,2), of w viewer] view_index_footprint [OF Some] t(3) by simp
  also have "\<dots> \<longleftrightarrow> sees_point w viewer m x y"
    unfolding sees_point_def Some using t unique by (metis option.inject)
  finally show ?thesis by (simp add: mask_contains_point_def Some view_mask_eq)
qed (simp add: mask_contains_point_def sees_point_def)

section \<open>The pieces of a snapshot\<close>

lemma player_state_at:
  "player_state w pid = None \<longleftrightarrow> player_at w pid = None"
  "player_state w pid = Some state \<Longrightarrow> \<exists>p. player_at w pid = Some p"
  "player_at w pid = Some p \<Longrightarrow> \<exists>state. player_state w pid = Some state"
  "player_state w pid = Some state \<Longrightarrow> player_at w pid = Some p \<Longrightarrow> pst_team state = sp_team p \<and> pst_x state = sp_x p \<and>
     pst_y state = sp_y p \<and> pst_hit_points state = sp_hit_points p"
  by (auto simp: player_state_def)

lemma hidden_iff:
  assumes "player_state w viewer_id = Some viewer" "player_at w pid = Some p" "pid \<noteq> viewer_id"
  shows "player_hidden_from_viewer w viewer_id (Some (pst_team viewer)) pid \<longleftrightarrow> concealed viewer p"
proof -
  from assms(2) obtain state where "player_state w pid = Some state" using player_state_at(3) by blast
  with player_state_at(4) [OF this assms(2)] assms show ?thesis
    by (auto simp: player_hidden_from_viewer_def concealed_def statuses_or_none_def statuses_for_def status_state_def
        Let_def list_ex_iff)
qed

lemma players_shown:
  fixes r viewer_id viewer m
  assumes "wf_map_dims m" "player_state (mr_world r) viewer_id = Some viewer"
  defines "players \<equiv> arena_players_snapshot r viewer_id m (visible_tiles_of (mr_world r) viewer m)"
  shows "map aps_player_id players = filter (may_know_player (mr_world r) viewer_id viewer m) (map ta_player_id (mr_roster r))"
    and "\<forall>s \<in> set players. \<exists>p. player_at (mr_world r) (aps_player_id s) = Some p \<and>
        aps_x s = sp_x p \<and> aps_y s = sp_y p \<and> aps_hit_points s = sp_hit_points p"
proof -
  define shown_of where "shown_of seat = (case player_state (mr_world r) (ta_player_id seat) of
      None \<Rightarrow> None
    | Some state \<Rightarrow>
        if (ta_player_id seat = viewer_id \<or> sees_point (mr_world r) viewer m (pst_x state) (pst_y state)) \<and>
          \<not> player_hidden_from_viewer (mr_world r) viewer_id (Some (pst_team viewer)) (ta_player_id seat)
        then Some (arena_match_player_snapshot r seat state (round_get (current_round (mr_session r)))) else None)" for seat
  have players: "players = List.map_filter shown_of (mr_roster r)"
    unfolding players_def arena_players_snapshot_def shown_of_def
    by (simp add: assms(2) mask_contains_visible [OF assms(1)] Let_def cong: option.case_cong)
  have shown: "case shown_of seat of
      None \<Rightarrow> \<not> may_know_player (mr_world r) viewer_id viewer m (ta_player_id seat)
    | Some s \<Rightarrow> may_know_player (mr_world r) viewer_id viewer m (ta_player_id seat) \<and> aps_player_id s = ta_player_id seat \<and>
        (\<exists>p. player_at (mr_world r) (aps_player_id s) = Some p \<and> aps_x s = sp_x p \<and> aps_y s = sp_y p \<and>
          aps_hit_points s = sp_hit_points p)" for seat
  proof (cases "player_state (mr_world r) (ta_player_id seat)")
    case None
    then have "player_at (mr_world r) (ta_player_id seat) = None" by (simp only: player_state_at(1))
    then show ?thesis by (simp add: shown_of_def None may_know_player_def)
  next
    case (Some state)
    then obtain p where p: "player_at (mr_world r) (ta_player_id seat) = Some p" using player_state_at(2) by blast
    note fields = player_state_at(4) [OF Some p]
    have "player_hidden_from_viewer (mr_world r) viewer_id (Some (pst_team viewer)) (ta_player_id seat) \<longleftrightarrow>
        ta_player_id seat \<noteq> viewer_id \<and> concealed viewer p"
      using hidden_iff [OF assms(2) p] by (auto simp: player_hidden_from_viewer_def)
    then show ?thesis
      using fields by (auto simp: shown_of_def Some may_know_player_def p arena_match_player_snapshot_def arena_player_snapshot_of_def)
  qed
  have "map aps_player_id (List.map_filter shown_of roster) =
      filter (may_know_player (mr_world r) viewer_id viewer m) (map ta_player_id roster)" for roster
  proof (induction roster)
    case (Cons seat roster)
    then show ?case using shown [of seat] by (cases "shown_of seat") (simp_all add: map_filter_simps)
  qed (simp add: map_filter_simps)
  then show "map aps_player_id players = filter (may_know_player (mr_world r) viewer_id viewer m) (map ta_player_id (mr_roster r))"
    by (simp add: players)
  show "\<forall>s \<in> set players. \<exists>p. player_at (mr_world r) (aps_player_id s) = Some p \<and>
      aps_x s = sp_x p \<and> aps_y s = sp_y p \<and> aps_hit_points s = sp_hit_points p"
  proof
    fix s assume "s \<in> set players"
    then obtain seat where seat: "shown_of seat = Some s" by (auto simp: players List.map_filter_def)
    show "\<exists>p. player_at (mr_world r) (aps_player_id s) = Some p \<and>
        aps_x s = sp_x p \<and> aps_y s = sp_y p \<and> aps_hit_points s = sp_hit_points p"
      using shown [of seat] unfolding seat option.case by blast
  qed
qed

lemma deployables_shown:
  assumes "wf_map_dims m"
  shows "map (\<lambda>d. (ads_id d, ads_x d, ads_y d)) (arena_deployables_snapshot w viewer_id m (visible_tiles_of w viewer m)) =
    map (\<lambda>d. (dp_id d, dp_x d, dp_y d))
      (filter (\<lambda>d. dp_kind d \<noteq> DkAura \<and> (dp_owner d = viewer_id \<or> sees_point w viewer m (dp_x d) (dp_y d))) (w_deployables w))"
  by (simp add: arena_deployables_snapshot_def deployables_view_def filter_map comp_def view_deployable_def
      arena_deployable_snapshot_of_def mask_contains_visible [OF assms])

lemma projectile_snapshots:
  "\<forall>p \<in> set ps. pr_kind p \<notin> movement_sounds \<Longrightarrow>
   \<exists>snaps. those (map (arena_projectile_snapshot_of \<circ> view_projectile) ps) = Some snaps \<and>
     map (\<lambda>p. (aprs_owner p, aprs_x p, aprs_y p)) snaps = map (\<lambda>p. (pr_owner p, pr_x p, pr_y p)) ps"
proof (induction ps)
  case (Cons p ps)
  then have "pr_kind p \<notin> movement_sounds" by simp
  then obtain kind where "arena_projectile_kind_of (pr_kind p) = Some kind"
    by (cases "pr_kind p") (auto simp: arena_projectile_kind_of_def movement_sounds_def)
  with Cons show ?case by (auto simp: arena_projectile_snapshot_of_def view_projectile_def)
qed simp

lemma projectiles_shown:
  assumes "wf_map_dims m" "\<forall>p \<in> set (w_projectiles w). pr_kind p \<notin> movement_sounds"
  obtains snaps where "arena_projectiles_snapshot w viewer_id m (visible_tiles_of w viewer m) = Some snaps"
    "map (\<lambda>p. (aprs_owner p, aprs_x p, aprs_y p)) snaps = map (\<lambda>p. (pr_owner p, pr_x p, pr_y p))
      (filter (\<lambda>p. pr_owner p = viewer_id \<or> sees_point w viewer m (pr_x p) (pr_y p)) (w_projectiles w))"
proof -
  have filter_view: "filter (\<lambda>p. ap_owner p = viewer_id \<or> sees_point w viewer m (ap_x p) (ap_y p)) (map view_projectile ps) =
      map view_projectile (filter (\<lambda>p. pr_owner p = viewer_id \<or> sees_point w viewer m (pr_x p) (pr_y p)) ps)" for ps
    by (simp add: filter_map comp_def view_projectile_def)
  show thesis
    using projectile_snapshots [of "filter (\<lambda>p. pr_owner p = viewer_id \<or> sees_point w viewer m (pr_x p) (pr_y p)) (w_projectiles w)"]
      assms(2) that
    by (auto simp: arena_projectiles_snapshot_def projectiles_view_def mask_contains_visible [OF assms(1)] filter_view)
qed

section \<open>The snapshots of a match\<close>

lemma match_masks_seen:
  assumes "bt_get (sa_matches app) mid = Some r" "player_state (mr_world r) viewer_id = Some viewer"
  obtains explored r' where "r' = r\<lparr>mr_explored_tiles := bt_insert viewer_id explored (mr_explored_tiles r)\<rparr>"
    "match_masks mid viewer_id m app = (Some (r', visible_tiles_of (mr_world r) viewer m, explored), with_match mid (\<lambda>_. r') app)"
proof -
  obtain explored where b: "build_visibility_masks (mr_world r) (mr_explored_tiles r) viewer_id m =
      (Some (visible_tiles_of (mr_world r) viewer m, explored), bt_insert viewer_id explored (mr_explored_tiles r))"
    using assms(2) by (simp add: build_visibility_masks_def Let_def)
  show thesis by (rule that [OF refl, of explored]) (simp add: match_masks_def assms(1) b Let_def)
qed

text \<open>On a parsed map the state and the delta snapshot of a viewer in a match hold exactly the players of the roster that are
  the viewer or stand on a tile its team's sources see and are not enemies in unrevealed stealth, the deployables (auras
  apart) and projectiles that are its own or on such a tile, each where it is; the only effect is that the explored tiles of
  the viewer are stored.\<close>

lemma snapshot_contents:
  assumes "wf_map_dims m" "bt_get (sa_matches app) mid = Some r" "player_state (mr_world r) viewer_id = Some viewer"
    and "\<forall>p \<in> set (w_projectiles (mr_world r)). pr_kind p \<notin> movement_sounds"
  shows "\<exists>state delta app' explored.
    build_arena_state_snapshot mid viewer_id m app = Some (Some state, app') \<and>
    build_arena_delta_snapshot mid viewer_id m app = Some (Some delta, app') \<and>
    shows_what_is_seen r viewer_id viewer m (st_players state) (st_deployables state) (st_projectiles state) \<and>
    shows_what_is_seen r viewer_id viewer m (dl_players delta) (dl_deployables delta) (dl_projectiles delta) \<and>
    st_explored_tiles state = explored \<and> dl_explored_tiles delta = explored \<and>
    app' = with_match mid (\<lambda>_. r\<lparr>mr_explored_tiles := bt_insert viewer_id explored (mr_explored_tiles r)\<rparr>) app"
proof -
  obtain explored r' where masks: "r' = r\<lparr>mr_explored_tiles := bt_insert viewer_id explored (mr_explored_tiles r)\<rparr>"
    "match_masks mid viewer_id m app = (Some (r', visible_tiles_of (mr_world r) viewer m, explored), with_match mid (\<lambda>_. r') app)"
    by (rule match_masks_seen [OF assms(2,3)])
  have r': "mr_world r' = mr_world r" "mr_roster r' = mr_roster r" by (simp_all add: masks(1))
  let ?players = "arena_players_snapshot r' viewer_id m (visible_tiles_of (mr_world r) viewer m)"
    and ?deployables = "arena_deployables_snapshot (mr_world r) viewer_id m (visible_tiles_of (mr_world r) viewer m)"
  obtain projectiles where p: "arena_projectiles_snapshot (mr_world r) viewer_id m (visible_tiles_of (mr_world r) viewer m) = Some projectiles"
    "map (\<lambda>p. (aprs_owner p, aprs_x p, aprs_y p)) projectiles = map (\<lambda>p. (pr_owner p, pr_x p, pr_y p))
      (filter (\<lambda>p. pr_owner p = viewer_id \<or> sees_point (mr_world r) viewer m (pr_x p) (pr_y p)) (w_projectiles (mr_world r)))"
    by (rule projectiles_shown [OF assms(1,4)])
  note shown = players_shown [of m r' viewer_id viewer, unfolded r', OF assms(1,3)] deployables_shown [OF assms(1)] p(2)
  have seen: "shows_what_is_seen r viewer_id viewer m ?players ?deployables projectiles"
    unfolding shows_what_is_seen_def by (intro conjI shown)
  obtain phase seconds where phase: "arena_match_phase_snapshot (mr_session r') = (phase, seconds)" by fastforce
  show ?thesis
    using seen
    by (simp add: build_arena_state_snapshot_def build_arena_delta_snapshot_def masks(2) r' p(1) phase Let_def masks(1) [symmetric] cong: option.case_cong)
qed

text \<open>C5: the fog of war holds in what is sent. On a parsed map, for a viewer in a match whose team has no ward but its own
  and for which no reveal effect is at work, the state and the delta snapshot hold, in the order of the roster and of the
  world and each where it is: every player that is the viewer or stands on a tile it knows and is not an enemy in
  unrevealed stealth, every deployable (auras apart) and projectile that is its own or on a tile it knows; and no other
  player, deployable or projectile whose owner has dealt no damage in the match, projectiles over a shrub apart. The
  only effect is that the explored tiles of the viewer are stored.\<close>

theorem snapshot_shows_what_is_seen:
  assumes "wf_map_dims m" "bt_get (sa_matches app) mid = Some r" "player_state (mr_world r) viewer_id = Some viewer"
    and "\<forall>p \<in> set (w_projectiles (mr_world r)). pr_kind p \<notin> movement_sounds" "own_vision (mr_world r) viewer_id viewer"
  shows "\<exists>state delta app' explored.
    build_arena_state_snapshot mid viewer_id m app = Some (Some state, app') \<and>
    build_arena_delta_snapshot mid viewer_id m app = Some (Some delta, app') \<and>
    keeps_the_fog r viewer_id viewer m (st_players state) (st_deployables state) (st_projectiles state) \<and>
    keeps_the_fog r viewer_id viewer m (dl_players delta) (dl_deployables delta) (dl_projectiles delta) \<and>
    st_explored_tiles state = explored \<and> dl_explored_tiles delta = explored \<and>
    app' = with_match mid (\<lambda>_. r\<lparr>mr_explored_tiles := bt_insert viewer_id explored (mr_explored_tiles r)\<rparr>) app"
  using snapshot_contents [OF assms(1-4)] shown_keeps_the_fog [OF assms(5)] by meson

text \<open>A match in which the other player stands in stealth on the tile of the first.\<close>

definition fog_match :: match_runtime where
  "fog_match =
     \<lparr>mr_map = example_map, mr_roster = sample_roster, mr_participants = [PlayerId 1, PlayerId 2],
      mr_session = sample_at 5 0 0 0,
      mr_world = example_world\<lparr>w_players := [(PlayerId 1, example_player),
        (PlayerId 2, example_player\<lparr>sp_team := TeamB, sp_statuses := [example_poison\<lparr>si_kind := status_kind.Stealth\<rparr>]\<rparr>)]\<rparr>,
      mr_explored_tiles = [], mr_combat_frame_index = 0, mr_feedback = feedback_default\<rparr>"

definition fog_app :: "game_content \<Rightarrow> unit server_app" where
  "fog_app content = (from_content_and_stores content \<lparr>prs_path = None, prs_records = []\<rparr> ())\<lparr>sa_matches := [(MatchId 1, fog_match)]\<rparr>"

lemma fog_players:
  "player_at (mr_world fog_match) (PlayerId 1) = Some example_player"
  "player_at (mr_world fog_match) (PlayerId 2) =
     Some (example_player\<lparr>sp_team := TeamB, sp_statuses := [example_poison\<lparr>si_kind := status_kind.Stealth\<rparr>]\<rparr>)"
  by (simp_all add: fog_match_def)

lemma fog_viewer:
  assumes "pid = PlayerId 1 \<or> pid = PlayerId 2"
  obtains viewer where "player_state (mr_world fog_match) pid = Some viewer" "pst_pos viewer = (0, 0)"
    "pst_team viewer = (if pid = PlayerId 1 then TeamA else TeamB)"
  using assms fog_players
  by (auto simp: player_state_def example_player_def spawn_player_def example_seed_def)

lemma fog_knows: "pst_pos viewer = (0, 0) \<Longrightarrow> knows_point w viewer_id viewer example_map 0 0"
  unfolding knows_point_def
  by (rule exI [of _ 10], rule exI [of _ 10])
    (simp add: view_tile_index_for_point_def example_map_def view_mask_has_tile_def)

lemma fog_known:
  assumes "player_state (mr_world fog_match) viewer_id = Some viewer" "pst_pos viewer = (0, 0)"
  shows "knows_player (mr_world fog_match) viewer_id viewer example_map (PlayerId 1) \<longleftrightarrow> True"
    and "knows_player (mr_world fog_match) viewer_id viewer example_map (PlayerId 2) \<longleftrightarrow> viewer_id = PlayerId 2 \<or> pst_team viewer = TeamB"
proof -
  have on_spot: "sp_x example_player = 0" "sp_y example_player = 0" "\<not> concealed viewer example_player"
    by (simp_all add: example_player_def spawn_player_def concealed_def example_poison_def example_shield_def new_status_def)
  show "knows_player (mr_world fog_match) viewer_id viewer example_map (PlayerId 1) \<longleftrightarrow> True"
    by (simp add: knows_player_def fog_players on_spot fog_knows [OF assms(2)])
  show "knows_player (mr_world fog_match) viewer_id viewer example_map (PlayerId 2) \<longleftrightarrow> viewer_id = PlayerId 2 \<or> pst_team viewer = TeamB"
    by (auto simp: knows_player_def fog_players on_spot fog_knows [OF assms(2)] concealed_def)
qed

lemma fog_own: "own_vision (mr_world fog_match) viewer_id viewer"
  by (auto simp: own_vision_def fog_match_def example_world_def example_player_def spawn_player_def example_poison_def
      example_shield_def new_status_def)

text \<open>Nobody has dealt damage in the match, so the players shown are those that are known.\<close>

lemma fog_shown:
  assumes "keeps_the_fog fog_match viewer_id viewer m players deployables projectiles"
  shows "map aps_player_id players = filter (knows_player (mr_world fog_match) viewer_id viewer m) (map ta_player_id (mr_roster fog_match))"
proof -
  have none: "dealt_no_damage fog_match pid" for pid
    by (simp add: dealt_no_damage_def fog_match_def feedback_default_def totals_of_def no_totals_def)
  obtain shown where shown: "map aps_player_id players = filter shown (map ta_player_id (mr_roster fog_match))"
    "\<forall>pid. knows_player (mr_world fog_match) viewer_id viewer m pid \<longrightarrow> shown pid"
    "\<forall>pid. dealt_no_damage fog_match pid \<and> \<not> knows_player (mr_world fog_match) viewer_id viewer m pid \<longrightarrow> \<not> shown pid"
    using assms [unfolded keeps_the_fog_def Let_def, THEN conjunct1] by blast
  have "shown = knows_player (mr_world fog_match) viewer_id viewer m"
    using shown(2,3) none by (intro ext) blast
  with shown(1) show ?thesis by simp
qed

lemma fog_facts: "wf_map_dims example_map" "bt_get (sa_matches (fog_app content)) (MatchId 1) = Some fog_match"
  "\<forall>p \<in> set (w_projectiles (mr_world fog_match)). pr_kind p \<notin> movement_sounds"
  "map ta_player_id (mr_roster fog_match) = [PlayerId 1, PlayerId 2]"
  by (simp_all add: wf_map_dims_def example_map_def MAX_MAP_DIMENSION_TILES_def fog_app_def fog_match_def example_world_def
      sample_roster_def)

theorem snapshot_shows_what_is_seen_witness:
  "\<exists>content seen app1 seen' app2. load_from_root sample_files sample_yaml sample_catalog [] = Inr content \<and>
     build_arena_state_snapshot (MatchId 1) (PlayerId 1) example_map (fog_app content) = Some (Some seen, app1) \<and>
     map aps_player_id (st_players seen) = [PlayerId 1] \<and>
     build_arena_state_snapshot (MatchId 1) (PlayerId 2) example_map (fog_app content) = Some (Some seen', app2) \<and>
     map aps_player_id (st_players seen') = [PlayerId 1, PlayerId 2]"
proof -
  obtain content where c: "load_from_root sample_files sample_yaml sample_catalog [] = Inr content"
    using sample_content_loads by blast
  note fog = snapshot_shows_what_is_seen [OF fog_facts(1,2) _ fog_facts(3) fog_own, of _ _ content]
  obtain v1 where v1: "player_state (mr_world fog_match) (PlayerId 1) = Some v1" "pst_pos v1 = (0, 0)" "pst_team v1 = TeamA"
    by (rule fog_viewer [of "PlayerId 1"]) auto
  obtain v2 where v2: "player_state (mr_world fog_match) (PlayerId 2) = Some v2" "pst_pos v2 = (0, 0)" "pst_team v2 = TeamB"
    by (rule fog_viewer [of "PlayerId 2"]) auto
  obtain seen app1 where s1: "build_arena_state_snapshot (MatchId 1) (PlayerId 1) example_map (fog_app content) = Some (Some seen, app1)"
    "map aps_player_id (st_players seen) = [PlayerId 1]"
    using fog [OF v1(1)] fog_known [OF v1(1,2)] v1(3) by (auto dest!: fog_shown simp: fog_facts(4))
  obtain seen' app2 where s2: "build_arena_state_snapshot (MatchId 1) (PlayerId 2) example_map (fog_app content) = Some (Some seen', app2)"
    "map aps_player_id (st_players seen') = [PlayerId 1, PlayerId 2]"
    using fog [OF v2(1)] fog_known [OF v2(1,2)] v2(3) by (auto dest!: fog_shown simp: fog_facts(4))
  show ?thesis by (intro exI conjI) (rule c s1 s2)+
qed

end
