(* ===== verification/App_Lifecycle.thy ===== *)
theory App_Lifecycle
  imports App_Snapshots
begin

text \<open>
  What happens to lobbies, matches and training sessions as time passes
  (\<open>game_api/src/app/lifecycle.rs\<close>): the combat frames, the countdowns, the phases, the events of a
  match and what each makes of records and recipients, the start of a match from a lobby, and its
  outcome. \<open>None\<close> is a panic.
\<close>

section \<open>Records and outcomes\<close>

definition persist_player_record :: "'w app_env \<Rightarrow> player_id \<Rightarrow> 'w server_app \<Rightarrow> bool \<times> 'w server_app" where
  "persist_player_record env pid app =
     (case bt_get (sa_players app) pid of
        None \<Rightarrow> (False, app)
      | Some p \<Rightarrow>
          let (saved, store, w) = store_save (env_files env) (cn_player_name p) (cn_record p) (sa_record_store app) (sa_world app);
              app = app\<lparr>sa_record_store := store, sa_world := w\<rparr> in
          (case saved of
             Inr _ \<Rightarrow> (True, app)
           | Inl error \<Rightarrow> (False, send_error pid (record_store_error_text error) app)))"

definition record_outcome :: "match_outcome \<Rightarrow> team_side \<Rightarrow> player_record \<Rightarrow> player_record" where
  "record_outcome outcome team =
     (case outcome of
        TeamAWin \<Rightarrow> if team = TeamA then record_win else record_loss
      | TeamBWin \<Rightarrow> if team = TeamB then record_win else record_loss
      | NoContest \<Rightarrow> record_no_contest)"

text \<open>What the outcome makes of one player; the totals are those of the feedback of the match.\<close>

definition finish_player ::
  "match_id \<Rightarrow> match_outcome \<Rightarrow> u32 \<Rightarrow> match_combat_feedback \<Rightarrow> team_assignment \<Rightarrow> connected_player \<Rightarrow> connected_player" where
  "finish_player mid outcome combat_ms feedback seat p =
     (let totals = player_record_totals (ta_player_id seat) feedback in
      p\<lparr>cn_record := record_match_combat_totals (prt_damage_done totals) (prt_healing_done totals) combat_ms
          (prt_cc_used totals) (prt_cc_hits totals) (record_outcome outcome (ta_team seat) (cn_record p)),
        cn_location := InResults mid\<rparr>)"

definition apply_match_outcome :: "'w app_env \<Rightarrow> match_id \<Rightarrow> match_outcome \<Rightarrow> 'w server_app \<Rightarrow> 'w server_app" where
  "apply_match_outcome env mid outcome app =
     (case bt_get (sa_matches app) mid of
        None \<Rightarrow> app
      | Some runtime \<Rightarrow>
          let combat_ms = sat_mul (mr_combat_frame_index runtime) (ucast (sc_combat_frame_ms (app_simulation app)));
              dirty_players = filter (bt_contains (sa_players app)) (map ta_player_id (mr_roster runtime));
              app = fold (\<lambda>seat. with_player (ta_player_id seat)
                  (finish_player mid outcome combat_ms (mr_feedback runtime) seat)) (mr_roster runtime) app in
          fold (\<lambda>pid app. snd (persist_player_record env pid app)) dirty_players app)"

section \<open>Events of a match\<close>

text \<open>A log entry; a failure of the store is reported to the recipients.\<close>

definition log_or_report ::
  "'w app_env \<Rightarrow> match_id \<Rightarrow> player_id list \<Rightarrow> combat_log_event \<Rightarrow> 'w server_app \<Rightarrow> 'w server_app" where
  "log_or_report env mid recipients event app =
     (let (appended, app) = append_match_log env mid event app in
      case appended of Inl error \<Rightarrow> broadcast_event recipients (ErrorEvent error) app | Inr _ \<Rightarrow> app)"

definition dispatch_skill_chosen ::
  "'w app_env \<Rightarrow> match_id \<Rightarrow> player_id list \<Rightarrow> player_id \<Rightarrow> u8 \<Rightarrow> skill_choice \<Rightarrow> 'w server_app \<Rightarrow> 'w server_app" where
  "dispatch_skill_chosen env mid recipients pid slot choice app =
     (let skill_id = (case catalog_resolve (gct_skills (sa_content app)) choice of
            Some skill \<Rightarrow> sk_id skill
          | None \<Rightarrow> skill_tree_as_str (tree choice) @ lit ''_t'' @ show_n (tier choice));
          app = with_player pid (\<lambda>p. p\<lparr>cn_record := record_skill_pick skill_id (cn_record p)\<rparr>) app;
          app = log_or_report env mid recipients
            (LogSkillPicked (player_id_get pid) (skill_tree_as_str (tree choice)) (tier choice)) app in
      broadcast_event recipients (SkillChosenEvent pid slot (tree choice) (tier choice)) app)"

definition dispatch_combat_started ::
  "'w app_env \<Rightarrow> match_id \<Rightarrow> player_id list \<Rightarrow> 'w server_app \<Rightarrow> 'w server_app option" where
  "dispatch_combat_started env mid recipients app =
     (let rebuilt = (case bt_get (sa_matches app) mid of
            None \<Rightarrow> Some app
          | Some runtime \<Rightarrow>
              map_option (\<lambda>runtime. with_match mid (\<lambda>_. runtime\<lparr>mr_combat_frame_index := 0\<rparr>) app)
                (match_rebuild_world (sa_content app) runtime)) in
      map_option (\<lambda>app. broadcast_event recipients CombatStartedEvent
        (log_or_report env mid recipients LogCombatStarted app)) rebuilt)"

definition dispatch_round_won ::
  "'w app_env \<Rightarrow> match_id \<Rightarrow> player_id list \<Rightarrow> round_number \<Rightarrow> team_side \<Rightarrow> score_board \<Rightarrow> 'w server_app \<Rightarrow> 'w server_app" where
  "dispatch_round_won env mid recipients finished winning_team board app =
     (let runtime = bt_get (sa_matches app) mid;
          app = (case runtime of
              None \<Rightarrow> app
            | Some runtime \<Rightarrow>
                fold (\<lambda>seat. with_player (ta_player_id seat) (\<lambda>p. p\<lparr>cn_record :=
                  (if ta_team seat = winning_team then record_round_win else record_round_loss) (cn_record p)\<rparr>))
                  (mr_roster runtime) app);
          (summary, app) = (case runtime of
              None \<Rightarrow> (None, app)
            | Some runtime \<Rightarrow>
                let (summary, feedback) = finalize_round (mr_roster runtime) finished (mr_feedback runtime) in
                (Some summary, with_match mid (\<lambda>runtime. runtime\<lparr>mr_feedback := feedback\<rparr>) app));
          app = log_or_report env mid recipients
            (LogRoundWon (round_get finished) (map_team winning_team) (team_a board) (team_b board)) app;
          app = broadcast_event recipients (RoundWonEvent finished winning_team (team_a board) (team_b board)) app in
      case summary of Some summary \<Rightarrow> broadcast_event recipients (RoundSummary summary) app | None \<Rightarrow> app)"

definition dispatch_match_ended ::
  "'w app_env \<Rightarrow> match_id \<Rightarrow> player_id list \<Rightarrow> match_outcome \<Rightarrow> rstring \<Rightarrow> score_board \<Rightarrow> 'w server_app \<Rightarrow> 'w server_app" where
  "dispatch_match_ended env mid recipients outcome message board app =
     (let summary = map_option (\<lambda>runtime. build_match_summary (mr_roster runtime)
            (sat_add (team_a board) (team_b board)) (mr_feedback runtime)) (bt_get (sa_matches app) mid);
          app = apply_match_outcome env mid outcome app;
          app = log_or_report env mid recipients
            (LogMatchEnded (map_outcome outcome) (team_a board) (team_b board) message) app;
          app = broadcast_event recipients (MatchEndedEvent outcome (team_a board) (team_b board) message) app in
      case summary of Some summary \<Rightarrow> broadcast_event recipients (MatchSummary summary) app | None \<Rightarrow> app)"

definition dispatch_match_event ::
  "'w app_env \<Rightarrow> match_id \<Rightarrow> player_id list \<Rightarrow> match_event \<Rightarrow> 'w server_app \<Rightarrow> 'w server_app option" where
  "dispatch_match_event env mid recipients event app =
     (case event of
        SkillChosen pid slot choice \<Rightarrow> Some (dispatch_skill_chosen env mid recipients pid slot choice app)
      | PreCombatStarted seconds_remaining \<Rightarrow>
          Some (broadcast_event recipients (PreCombatStartedEvent seconds_remaining)
            (log_or_report env mid recipients (LogPreCombatStarted seconds_remaining) app))
      | CombatStarted \<Rightarrow> dispatch_combat_started env mid recipients app
      | RoundWon finished winning_team board \<Rightarrow> Some (dispatch_round_won env mid recipients finished winning_team board app)
      | MatchEnded outcome message board \<Rightarrow> Some (dispatch_match_ended env mid recipients outcome message board app)
      | ManualResolutionRequired reason \<Rightarrow> Some (broadcast_event recipients (ErrorEvent (lit reason)) app))"

definition dispatch_match_events ::
  "'w app_env \<Rightarrow> match_id \<Rightarrow> match_event list \<Rightarrow> 'w server_app \<Rightarrow> 'w server_app option" where
  "dispatch_match_events env mid events app =
     (case each_opt (dispatch_match_event env mid (match_recipients app mid)) events app of
        None \<Rightarrow> None
      | Some app \<Rightarrow>
          if bt_contains (sa_matches app) mid then broadcast_arena_state_snapshot mid app else Some app)"

section \<open>A combat frame of a match\<close>

definition is_combat_match :: "'w server_app \<Rightarrow> match_id \<Rightarrow> bool" where
  "is_combat_match app mid =
     (case bt_get (sa_matches app) mid of Some runtime \<Rightarrow> ms_phase (mr_session runtime) = match_phase.Combat | None \<Rightarrow> False)"

definition stands_on_objective :: "match_runtime \<Rightarrow> team_side \<Rightarrow> bool" where
  "stands_on_objective runtime team \<longleftrightarrow>
     list_ex (\<lambda>state. pst_alive state \<and> pst_team state = team \<and>
       mask_contains_point (mr_map runtime) (am_objective_mask (mr_map runtime)) (pst_x state) (pst_y state))
       (players_state (mr_world runtime))"

definition objective_control_presence :: "match_runtime \<Rightarrow> bool \<times> bool" where
  "objective_control_presence runtime = (stands_on_objective runtime TeamA, stands_on_objective runtime TeamB)"

fun mark_defeated ::
  "player_id list \<Rightarrow> match_session \<Rightarrow> match_event list \<Rightarrow> rstring list \<Rightarrow> (match_event list \<times> rstring list \<times> match_session) option" where
  "mark_defeated [] session events errors = Some (events, errors, session)"
| "mark_defeated (target_id # targets) session events errors =
     (case mark_player_defeated target_id session of
        (Inr es, session) \<Rightarrow> mark_defeated targets session (events @ es) errors
      | (Inl (Err error), session) \<Rightarrow> mark_defeated targets session events (errors @ [match_error_text error])
      | (Inl Panic, session) \<Rightarrow> None)"

definition progress_objective ::
  "u16 \<Rightarrow> match_runtime \<Rightarrow> match_event list \<Rightarrow> rstring list \<Rightarrow> (match_event list \<times> rstring list \<times> match_runtime) option" where
  "progress_objective combat_frame_ms runtime events errors =
     (if events = [] \<and> ms_phase (mr_session runtime) = match_phase.Combat then
        let (team_a_present, team_b_present) = objective_control_presence runtime in
        (case advance_objective_control team_a_present team_b_present combat_frame_ms (mr_session runtime) of
           (Inr es, session) \<Rightarrow> Some (events @ es, errors, runtime\<lparr>mr_session := session\<rparr>)
         | (Inl (Err error), session) \<Rightarrow>
             Some (events, errors @ [match_error_text error], runtime\<lparr>mr_session := session\<rparr>)
         | (Inl Panic, session) \<Rightarrow> None)
      else Some (events, errors, runtime))"

definition is_skill_pick :: "match_phase \<Rightarrow> bool" where
  "is_skill_pick phase = (case phase of match_phase.SkillPick _ \<Rightarrow> True | _ \<Rightarrow> False)"

definition resolve_match_progress ::
  "match_runtime \<Rightarrow> simulation_event list \<Rightarrow> game_content \<Rightarrow> u16 \<Rightarrow> (match_event list \<times> rstring list \<times> match_runtime) option" where
  "resolve_match_progress runtime simulation_events content combat_frame_ms =
     (case mark_defeated (collect_defeated_targets simulation_events) (mr_session runtime) [] [] of
        None \<Rightarrow> None
      | Some (events, errors, session) \<Rightarrow>
     case progress_objective combat_frame_ms (runtime\<lparr>mr_session := session\<rparr>) events errors of
        None \<Rightarrow> None
      | Some (events, errors, runtime) \<Rightarrow>
          if is_skill_pick (ms_phase (mr_session runtime))
          then map_option (\<lambda>runtime. (events, errors, runtime)) (match_rebuild_world content runtime)
          else Some (events, errors, runtime))"

definition tick_combat_match ::
  "'w app_env \<Rightarrow> match_id \<Rightarrow> 'w server_app \<Rightarrow>
   ((arena_effect_snapshot list \<times> match_event list \<times> rstring list) option \<times> 'w server_app) option" where
  "tick_combat_match env mid app =
     (case bt_get (sa_matches app) mid of
        None \<Rightarrow> Some (None, app)
      | Some runtime \<Rightarrow>
          let combat_frame_ms = sc_combat_frame_ms (app_simulation app);
              runtime = runtime\<lparr>mr_combat_frame_index := sat_add (mr_combat_frame_index runtime) 1\<rparr> in
     case tick combat_frame_ms (mr_world runtime) of
        None \<Rightarrow> None
      | Some (simulation_events, world) \<Rightarrow>
          let runtime = runtime\<lparr>mr_world := world\<rparr>;
              effect_batch = collect_effect_batch world simulation_events in
     case resolve_match_progress runtime simulation_events (sa_content app) combat_frame_ms of
        None \<Rightarrow> None
      | Some (match_events, errors, runtime) \<Rightarrow>
          let (appended, app) = append_simulation_logs env mid simulation_events (with_match mid (\<lambda>_. runtime) app);
              errors = (case appended of Inl error \<Rightarrow> errors @ [error] | Inr _ \<Rightarrow> errors) in
          Some (Some (effect_batch, match_events, errors), app))"

definition send_combat_texts ::
  "(player_id \<times> arena_combat_text_entry list) list \<Rightarrow> 'w server_app \<Rightarrow> 'w server_app" where
  "send_combat_texts texts = fold (\<lambda>(recipient, entries) app.
     if entries = [] then app else send_event recipient (ArenaCombatTextBatch entries) app) texts"

definition report_errors :: "player_id list \<Rightarrow> rstring list \<Rightarrow> 'w server_app \<Rightarrow> 'w server_app" where
  "report_errors recipients errors app =
     (if errors = [] then app else broadcast_event recipients (ErrorEvent (join_with (lit '' | '') errors)) app)"

definition advance_combat_match :: "'w app_env \<Rightarrow> match_id \<Rightarrow> 'w server_app \<Rightarrow> 'w server_app option" where
  "advance_combat_match env mid app =
     (case tick_combat_match env mid app of
        None \<Rightarrow> None
      | Some (None, app) \<Rightarrow> Some app
      | Some (Some (effect_batch, match_events, errors), app) \<Rightarrow>
          let (texts, app) = drain_match_combat_text mid app;
              app = send_combat_texts texts app in
     case broadcast_arena_effect_batch mid effect_batch app of
        None \<Rightarrow> None
      | Some app \<Rightarrow>
          let app = report_errors (match_recipients app mid) errors app in
     case (if match_events = [] then Some app else dispatch_match_events env mid match_events app) of
        None \<Rightarrow> None
      | Some app \<Rightarrow> broadcast_arena_delta_snapshot mid app)"

section \<open>A combat frame of a training session\<close>

fun accumulate_training_metrics ::
  "player_id \<Rightarrow> simulation_event list \<Rightarrow> training_metrics \<Rightarrow> training_metrics" where
  "accumulate_training_metrics pid [] metrics = metrics"
| "accumulate_training_metrics pid (DamageApplied attacker target slot amount critical remaining defeated kind trigger # events) metrics =
     accumulate_training_metrics pid events
       (if attacker = pid then metrics\<lparr>tm_damage_done := sat_add (tm_damage_done metrics) (ucast amount)\<rparr> else metrics)"
| "accumulate_training_metrics pid (HealingApplied source target slot amount critical resulting kind trigger # events) metrics =
     accumulate_training_metrics pid events
       (if source = pid then metrics\<lparr>tm_healing_done := sat_add (tm_healing_done metrics) (ucast amount)\<rparr> else metrics)"
| "accumulate_training_metrics pid (event # events) metrics = accumulate_training_metrics pid events metrics"

definition tick_training_session ::
  "match_id \<Rightarrow> 'w server_app \<Rightarrow> (arena_effect_snapshot list option \<times> 'w server_app) option" where
  "tick_training_session tid app =
     (case bt_get (sa_training_sessions app) tid of
        None \<Rightarrow> Some (None, app)
      | Some runtime \<Rightarrow>
          let combat_frame_ms = sc_combat_frame_ms (app_simulation app);
              metrics = tr_metrics runtime;
              metrics = metrics\<lparr>tm_elapsed_ms := sat_add (tm_elapsed_ms metrics) (ucast combat_frame_ms)\<rparr> in
     case tick combat_frame_ms (tr_world runtime) of
        None \<Rightarrow> None
      | Some (simulation_events, world) \<Rightarrow>
          let metrics = accumulate_training_metrics (ta_player_id (tr_participant runtime)) simulation_events metrics;
              runtime = runtime\<lparr>tr_combat_frame_index := sat_add (tr_combat_frame_index runtime) 1,
                tr_world := world, tr_metrics := metrics\<rparr> in
          Some (Some (collect_effect_batch world simulation_events), with_training tid (\<lambda>_. runtime) app))"

definition advance_training_session :: "match_id \<Rightarrow> 'w server_app \<Rightarrow> 'w server_app option" where
  "advance_training_session tid app =
     (case tick_training_session tid app of
        None \<Rightarrow> None
      | Some (None, app) \<Rightarrow> Some app
      | Some (Some effect_batch, app) \<Rightarrow>
     case broadcast_training_effect_batch tid effect_batch app of
        None \<Rightarrow> None
      | Some app \<Rightarrow> broadcast_training_delta_snapshot tid app)"

definition advance_combat_frames :: "'w app_env \<Rightarrow> 'w server_app \<Rightarrow> 'w server_app option" where
  "advance_combat_frames env app =
     (case each_opt (\<lambda>mid app. if \<not> is_combat_match app mid then Some app else advance_combat_match env mid app)
         (bt_keys (sa_matches app)) app of
        None \<Rightarrow> None
      | Some app \<Rightarrow> each_opt advance_training_session (bt_keys (sa_training_sessions app)) app)"

section \<open>Countdowns and phases\<close>

definition enter_match :: "match_id \<Rightarrow> connected_player \<Rightarrow> connected_player" where
  "enter_match mid p = reset_combat_input_state (p\<lparr>cn_location := InMatch mid\<rparr>)"

definition new_match_runtime ::
  "arena_map_definition \<Rightarrow> team_assignment list \<Rightarrow> match_session \<Rightarrow> simulation_world \<Rightarrow> match_runtime" where
  "new_match_runtime m roster session world =
     \<lparr>mr_map = m, mr_roster = roster, mr_participants = map ta_player_id roster, mr_session = session,
      mr_world = world,
      mr_explored_tiles = fold (\<lambda>pid. bt_insert pid (blank_visibility_mask m)) (map ta_player_id roster) [],
      mr_combat_frame_index = 0, mr_feedback = feedback_default\<rparr>"

definition launch_match ::
  "'w app_env \<Rightarrow> lobby_id \<Rightarrow> match_id \<Rightarrow> arena_map_definition \<Rightarrow> team_assignment list \<Rightarrow> match_session \<Rightarrow> 'w server_app \<Rightarrow>
   'w server_app option" where
  "launch_match env lid mid m roster session app =
     (let participants = map ta_player_id roster;
          app = fold (\<lambda>pid. with_player pid (enter_match mid)) participants app in
      case build_world roster session (sa_content app) m of None \<Rightarrow> None
      | Some world \<Rightarrow>
      let app = app\<lparr>sa_matches := bt_insert mid (new_match_runtime m roster session world) (sa_matches app),
            sa_game_lobbies := bt_remove lid (sa_game_lobbies app)\<rparr>;
          app = broadcast_lobby_directory_snapshot app;
          app = log_or_report env mid participants (LogMatchStarted (map player_id_get participants)) app in
      case round_number_new 1 of Inl _ \<Rightarrow> None
      | Inr first_round \<Rightarrow>
      broadcast_arena_state_snapshot mid
        (broadcast_event participants
          (MatchStarted mid first_round (mcf_skill_pick_seconds (gcf_match_flow (gct_configuration (sa_content app))))) app))"

definition start_match_from_lobby ::
  "'w app_env \<Rightarrow> lobby_id \<Rightarrow> team_assignment list \<Rightarrow> 'w server_app \<Rightarrow> 'w server_app option" where
  "start_match_from_lobby env lid roster app =
     (case bt_get (sa_game_lobbies app) lid of
        None \<Rightarrow> Some (broadcast_event (lobby_members app lid) (ErrorEvent (lit ''game lobby does not exist'')) app)
      | Some runtime \<Rightarrow>
     case allocate_match_id app of
        None \<Rightarrow> None
      | Some (mid, app) \<Rightarrow>
          let flow = gcf_match_flow (gct_configuration (sa_content app)) in
     case match_config_new (mcf_total_rounds flow) (mcf_skill_pick_seconds flow) (mcf_pre_combat_seconds flow)
         (am_objective_target_ms (glr_map runtime)) of
        Inl error \<Rightarrow> Some (broadcast_event (lobby_members app lid) (ErrorEvent (match_error_text error)) app)
      | Inr match_config \<Rightarrow>
     case match_session_new mid roster match_config of
        Inl (Err error) \<Rightarrow> Some (broadcast_event (lobby_members app lid) (ErrorEvent (match_error_text error)) app)
      | Inl Panic \<Rightarrow> None
      | Inr session \<Rightarrow> launch_match env lid mid (glr_map runtime) roster session app)"

definition advance_lobby_countdown :: "'w app_env \<Rightarrow> lobby_id \<Rightarrow> 'w server_app \<Rightarrow> 'w server_app option" where
  "advance_lobby_countdown env lid app =
     (case bt_get (sa_game_lobbies app) lid of
        None \<Rightarrow> Some app
      | Some runtime \<Rightarrow>
          let (event, l) = advance_countdown (glr_lobby runtime); app = with_lobby lid l app in
     case event of
        Inr (LaunchCountdownTick seconds_remaining) \<Rightarrow>
          Some (broadcast_lobby_directory_snapshot (broadcast_game_lobby_snapshot lid
            (broadcast_event (lobby_members app lid) (LaunchCountdownTickEvent lid seconds_remaining) app)))
      | Inr (MatchLaunchReady roster) \<Rightarrow> start_match_from_lobby env lid roster app
      | Inr other \<Rightarrow> Some (broadcast_event (lobby_members app lid)
          (ErrorEvent (lit ''unexpected countdown event: '' @ env_lobby_debug env other)) app)
      | Inl error \<Rightarrow> Some (broadcast_event (lobby_members app lid) (ErrorEvent (lobby_error_text error)) app))"

definition is_countdown :: "lobby_phase \<Rightarrow> bool" where
  "is_countdown phase = (case phase of LaunchCountdown _ _ \<Rightarrow> True | Open \<Rightarrow> False)"

definition advance_lobby_countdowns :: "'w app_env \<Rightarrow> 'w server_app \<Rightarrow> 'w server_app option" where
  "advance_lobby_countdowns env app =
     each_opt (advance_lobby_countdown env)
       (map fst (filter (\<lambda>(lid, runtime). is_countdown (lobby_phase (glr_lobby runtime))) (sa_game_lobbies app))) app"

definition has_timer :: "match_phase \<Rightarrow> bool" where
  "has_timer phase = (case phase of match_phase.SkillPick _ \<Rightarrow> True | match_phase.PreCombat _ \<Rightarrow> True | _ \<Rightarrow> False)"

definition advance_match_phase :: "'w app_env \<Rightarrow> match_id \<Rightarrow> 'w server_app \<Rightarrow> 'w server_app option" where
  "advance_match_phase env mid app =
     (case bt_get (sa_matches app) mid of
        None \<Rightarrow> Some app
      | Some runtime \<Rightarrow>
          if \<not> has_timer (ms_phase (mr_session runtime)) then Some app
          else
            let (events, session) = advance_phase_by 1 (mr_session runtime);
                app = with_match mid (\<lambda>r. r\<lparr>mr_session := session\<rparr>) app in
            (case events of
               Inr events \<Rightarrow> dispatch_match_events env mid events app
             | Inl (Err error) \<Rightarrow>
                 Some (broadcast_event (match_recipients app mid) (ErrorEvent (match_error_text error)) app)
             | Inl Panic \<Rightarrow> None))"

definition advance_match_phases :: "'w app_env \<Rightarrow> 'w server_app \<Rightarrow> 'w server_app option" where
  "advance_match_phases env app = each_opt (advance_match_phase env) (bt_keys (sa_matches app)) app"

section \<open>Lobby events and disconnections\<close>

definition broadcast_lobby_event :: "lobby_id \<Rightarrow> player_id list \<Rightarrow> lobby_event \<Rightarrow> 'w server_app \<Rightarrow> 'w server_app" where
  "broadcast_lobby_event lid recipients event =
     (case event of
        PlayerJoined _ \<Rightarrow> (\<lambda>app. app)
      | PlayerLeft _ \<Rightarrow> (\<lambda>app. app)
      | MatchLaunchReady _ \<Rightarrow> (\<lambda>app. app)
      | TeamSelected pid team ready_reset \<Rightarrow> broadcast_event recipients (TeamSelectedEvent pid team ready_reset)
      | ReadyChanged pid ready \<Rightarrow> broadcast_event recipients (ReadyChangedEvent pid ready)
      | LaunchCountdownStarted seconds_remaining roster \<Rightarrow>
          broadcast_event recipients (LaunchCountdownStartedEvent lid seconds_remaining (clamp_len (length roster)))
      | LaunchCountdownTick seconds_remaining \<Rightarrow>
          broadcast_event recipients (LaunchCountdownTickEvent lid seconds_remaining)
      | MatchAborted _ _ message \<Rightarrow> broadcast_event recipients (ErrorEvent message))"

definition broadcast_lobby_events :: "lobby_id \<Rightarrow> lobby_event list \<Rightarrow> 'w server_app \<Rightarrow> 'w server_app" where
  "broadcast_lobby_events lid events app = fold (broadcast_lobby_event lid (lobby_members app lid)) events app"

definition end_match_as_no_contest :: "'w app_env \<Rightarrow> match_id \<Rightarrow> player_id \<Rightarrow> 'w server_app \<Rightarrow> 'w server_app option" where
  "end_match_as_no_contest env mid disconnecting_player app =
     (case bt_get (sa_matches app) mid of
        None \<Rightarrow> Some app
      | Some runtime \<Rightarrow>
          let (result, session) = disconnect_player disconnecting_player (mr_session runtime);
              app = with_match mid (\<lambda>r. r\<lparr>mr_session := session\<rparr>) app in
     case (case result of
          Inr (MatchEnded outcome message board) \<Rightarrow>
            Some (MatchEndedEvent outcome (team_a board) (team_b board) message,
              Some (LogMatchEnded (map_outcome outcome) (team_a board) (team_b board) message))
        | Inr other \<Rightarrow> Some (ErrorEvent (lit ''unexpected disconnect result: '' @ env_match_debug env other), None)
        | Inl (Err error) \<Rightarrow> Some (ErrorEvent (match_error_text error), None)
        | Inl Panic \<Rightarrow> None) of
        None \<Rightarrow> None
      | Some (ended_event, log_event) \<Rightarrow>
          let app = apply_match_outcome env mid NoContest app;
              recipients = filter (\<lambda>recipient. recipient \<noteq> disconnecting_player) (match_recipients app mid);
              app = (case log_event of Some event \<Rightarrow> snd (append_match_log env mid event app) | None \<Rightarrow> app);
              app = broadcast_event recipients ended_event app in
          Some (case bt_get (sa_matches app) mid of
              None \<Rightarrow> app
            | Some runtime \<Rightarrow>
                broadcast_event recipients (MatchSummary (build_match_summary (mr_roster runtime)
                  (sat_add (team_a (score (mr_session runtime))) (team_b (score (mr_session runtime))))
                  (mr_feedback runtime))) app))"

end
