(* ===== verification/App_Ingress.thy ===== *)
theory App_Ingress
  imports App_Lifecycle
begin

text \<open>
  What the server does with a packet (\<open>game_api/src/app/ingress/\<close>) and with time and
  disconnections (\<open>game_api/src/app.rs\<close>): the routing of packets, the connect command, the commands
  of lobbies, matches and training, input frames, the clock and the removal of players. \<open>None\<close> is a
  panic or, for the clock, a loop that does not end.
\<close>

section \<open>Connecting\<close>

definition new_connected_player :: "player_name \<Rightarrow> player_record \<Rightarrow> sequence_tracker \<Rightarrow> connected_player" where
  "new_connected_player name record inbound_control =
     \<lparr>cn_player_name = name, cn_record = record, cn_location = CentralLobby, cn_inbound_control = inbound_control,
      cn_inbound_input = tracker_new, cn_newest_client_input_tick = None, cn_next_outbound_seq = 0\<rparr>"

definition bind_player :: "connection_id \<Rightarrow> player_id \<Rightarrow> connected_player \<Rightarrow> 'w server_app \<Rightarrow> 'w server_app" where
  "bind_player cid pid p app =
     app\<lparr>sa_connections := bt_insert cid pid (sa_connections app),
         sa_player_connections := bt_insert pid cid (sa_player_connections app),
         sa_players := bt_insert pid p (sa_players app)\<rparr>"

definition handle_connect_command ::
  "'w app_env \<Rightarrow> connection_id \<Rightarrow> u32 \<Rightarrow> player_name \<Rightarrow> 'w server_app \<Rightarrow> 'w server_app" where
  "handle_connect_command env cid sq name app =
     (if bt_contains (sa_connections app) cid then send_direct_error cid (lit ''connection is already bound'') app
      else
        let (allocated, app) = allocate_player_id env app in
      case allocated of
        Inl message \<Rightarrow> send_direct_error cid message app
      | Inr pid \<Rightarrow>
        let (loaded, store, w) = load_or_create (env_files env) name (sa_record_store app) (sa_world app);
            app = app\<lparr>sa_record_store := store, sa_world := w\<rparr> in
      case loaded of
        Inl error \<Rightarrow> send_direct_error cid (record_store_error_text error) app
      | Inr record \<Rightarrow>
      case observe sq tracker_new of
        (Inl error, _) \<Rightarrow> send_direct_error cid (packet_error_text error) app
      | (Inr _, inbound_control) \<Rightarrow>
          let app = bind_player cid pid (new_connected_player name record inbound_control) app;
              app = send_event pid (Connected pid name record (build_skill_catalog (sa_content app))) app in
          send_lobby_directory_snapshot pid app)"

section \<open>Lobby commands\<close>

definition lobby_map_seed :: "'w app_env \<Rightarrow> lobby_id \<Rightarrow> 'w server_app \<Rightarrow> u64 \<times> 'w server_app" where
  "lobby_map_seed env lid app =
     (let (bytes, w) = env_random env 8 (sa_world app) in
      (case bytes of Inr bytes \<Rightarrow> word_of_le bytes | Inl _ \<Rightarrow> ucast (lobby_id_get lid) * 0x9E3779B9,
       app\<lparr>sa_world := w\<rparr>))"

definition handle_create_game_lobby :: "'w app_env \<Rightarrow> player_id \<Rightarrow> 'w server_app \<Rightarrow> 'w server_app option" where
  "handle_create_game_lobby env sender app =
     (case ensure_location sender CentralLobby app of
        (False, app) \<Rightarrow> Some app
      | (True, app) \<Rightarrow>
     case allocate_lobby_id app of
        None \<Rightarrow> None
      | Some (lid, app) \<Rightarrow>
     case bt_get (sa_players app) sender of
        None \<Rightarrow> Some (send_error sender (lit ''player is not connected'') app)
      | Some p \<Rightarrow>
     case add_player sender (cn_player_name p) (cn_record p)
         (lobby_new lid (lc_launch_countdown_seconds (gcf_lobby (gct_configuration (sa_content app))))) of
        (Inl error, _) \<Rightarrow> Some (send_error sender (lobby_error_text error) app)
      | (Inr _, l) \<Rightarrow>
     case content_map_by_id (sa_content app) (lit ''template_arena'') of
        None \<Rightarrow> Some (send_error sender (lit ''template_arena.txt must exist before creating a game lobby'') app)
      | Some template_map \<Rightarrow>
          let (seed, app) = lobby_map_seed env lid app in
     case generate_template_match_map template_map (mpc_generation (gcf_maps (gct_configuration (sa_content app))))
         (lit ''lobby_'' @ show_n (lobby_id_get lid) @ lit ''_arena'') seed of
        Inl (Err error) \<Rightarrow> Some (send_error sender (content_error_text error) app)
      | Inl Panic \<Rightarrow> None
      | Inr m \<Rightarrow>
          let app = app\<lparr>sa_game_lobbies := bt_insert lid \<lparr>glr_lobby = l, glr_map = m\<rparr> (sa_game_lobbies app)\<rparr>;
              app = with_player sender (\<lambda>p. p\<lparr>cn_location := InGameLobby lid\<rparr>) app;
              app = send_event sender (GameLobbyCreated lid) app;
              app = send_event sender (GameLobbyJoined lid sender) app;
              app = send_game_lobby_snapshot lid sender app in
          Some (broadcast_lobby_directory_snapshot app))"

definition handle_join_game_lobby :: "player_id \<Rightarrow> lobby_id \<Rightarrow> 'w server_app \<Rightarrow> 'w server_app" where
  "handle_join_game_lobby sender lid app =
     (case ensure_location sender CentralLobby app of
        (False, app) \<Rightarrow> app
      | (True, app) \<Rightarrow>
     case bt_get (sa_players app) sender of
        None \<Rightarrow> send_error sender (lit ''player is not connected'') app
      | Some p \<Rightarrow>
     case bt_get (sa_game_lobbies app) lid of
        None \<Rightarrow> send_error sender (lit ''game lobby does not exist'') app
      | Some runtime \<Rightarrow>
     case add_player sender (cn_player_name p) (cn_record p) (glr_lobby runtime) of
        (Inl error, l) \<Rightarrow> send_error sender (lobby_error_text error) (with_lobby lid l app)
      | (Inr _, l) \<Rightarrow>
          let app = with_player sender (\<lambda>p. p\<lparr>cn_location := InGameLobby lid\<rparr>) (with_lobby lid l app);
              app = broadcast_event (lobby_members app lid) (GameLobbyJoined lid sender) app;
              app = broadcast_game_lobby_snapshot lid app in
          broadcast_lobby_directory_snapshot app)"

definition record_of :: "player_id \<Rightarrow> 'w server_app \<Rightarrow> player_record" where
  "record_of pid app = (case bt_get (sa_players app) pid of Some p \<Rightarrow> cn_record p | None \<Rightarrow> player_record_new)"

definition handle_leave_game_lobby :: "'w app_env \<Rightarrow> player_id \<Rightarrow> 'w server_app \<Rightarrow> 'w server_app" where
  "handle_leave_game_lobby env sender app =
     (case require_game_lobby sender app of
        (None, app) \<Rightarrow> app
      | (Some lid, app) \<Rightarrow>
     case bt_get (sa_game_lobbies app) lid of
        None \<Rightarrow> send_error sender (lit ''game lobby does not exist'') app
      | Some runtime \<Rightarrow>
     if lobby_phase (glr_lobby runtime) \<noteq> Open
     then send_error sender (lit ''players cannot leave after countdown starts'') app
     else
       let (event, l) = leave_or_disconnect_player sender (glr_lobby runtime); app = with_lobby lid l app in
     case event of
        Inr (PlayerLeft _) \<Rightarrow>
          let app = with_player sender (\<lambda>p. p\<lparr>cn_location := CentralLobby\<rparr>) app;
              app = broadcast_event (lobby_members app lid) (GameLobbyLeft lid sender) app;
              app = send_event sender (ReturnedToCentralLobby (record_of sender app)) app;
              app = cleanup_empty_lobby lid app;
              app = broadcast_game_lobby_snapshot lid app;
              app = send_lobby_directory_snapshot sender app in
          broadcast_lobby_directory_snapshot app
      | Inr other \<Rightarrow> send_error sender (lit ''unexpected leave event: '' @ env_lobby_debug env other) app
      | Inl error \<Rightarrow> send_error sender (lobby_error_text error) app)"

text \<open>\<open>select_team\<close> and \<open>set_ready\<close> share their handler but for the call into the lobby.\<close>

definition handle_lobby_change ::
  "(lobby \<Rightarrow> (lobby_error + lobby_event list) \<times> lobby) \<Rightarrow> player_id \<Rightarrow> 'w server_app \<Rightarrow> 'w server_app" where
  "handle_lobby_change change sender app =
     (case require_game_lobby sender app of
        (None, app) \<Rightarrow> app
      | (Some lid, app) \<Rightarrow>
     case bt_get (sa_game_lobbies app) lid of
        None \<Rightarrow> send_error sender (lit ''game lobby does not exist'') app
      | Some runtime \<Rightarrow>
          let (events, l) = change (glr_lobby runtime); app = with_lobby lid l app in
     case events of
        Inr events \<Rightarrow> broadcast_lobby_directory_snapshot (broadcast_game_lobby_snapshot lid
          (broadcast_lobby_events lid events app))
      | Inl error \<Rightarrow> send_error sender (lobby_error_text error) app)"

definition handle_select_team :: "player_id \<Rightarrow> team_side \<Rightarrow> 'w server_app \<Rightarrow> 'w server_app" where
  "handle_select_team sender team = handle_lobby_change (select_team sender team) sender"

definition handle_set_ready :: "player_id \<Rightarrow> ready_state \<Rightarrow> 'w server_app \<Rightarrow> 'w server_app" where
  "handle_set_ready sender ready = handle_lobby_change (set_ready sender ready) sender"

section \<open>Training and matches\<close>

definition handle_start_training :: "player_id \<Rightarrow> 'w server_app \<Rightarrow> 'w server_app option" where
  "handle_start_training sender app =
     (case ensure_location sender CentralLobby app of
        (False, app) \<Rightarrow> Some app
      | (True, app) \<Rightarrow>
     case content_training_map (sa_content app) of
        None \<Rightarrow> Some (send_error sender (lit ''training is unavailable because training_arena.txt is missing'') app)
      | Some training_map \<Rightarrow>
     case bt_get (sa_players app) sender of
        None \<Rightarrow> Some (send_error sender (lit ''player is not connected'') app)
      | Some p \<Rightarrow>
     case allocate_match_id app of
        None \<Rightarrow> None
      | Some (tid, app) \<Rightarrow>
          let participant = \<lparr>ta_player_id = sender, ta_player_name = cn_player_name p, ta_record = cn_record p,
                ta_team = TeamA\<rparr>;
              loadout = replicate 5 None in
     case build_training_world participant loadout (sa_content app) of
        None \<Rightarrow> None
      | Some world \<Rightarrow>
          let runtime = \<lparr>tr_participant = participant, tr_loadout = loadout, tr_world = world,
                tr_explored_tiles = bt_insert sender (blank_visibility_mask training_map) [],
                tr_combat_frame_index = 0, tr_metrics = training_metrics_default\<rparr>;
              app = app\<lparr>sa_training_sessions := bt_insert tid runtime (sa_training_sessions app)\<rparr>;
              app = with_player sender (\<lambda>p. reset_combat_input_state (p\<lparr>cn_location := InTraining tid\<rparr>)) app;
              app = send_event sender (TrainingStarted tid) app in
          map_option broadcast_lobby_directory_snapshot (broadcast_training_state_snapshot tid app))"

definition choose_match_skill ::
  "'w app_env \<Rightarrow> player_id \<Rightarrow> match_id \<Rightarrow> skill_choice \<Rightarrow> 'w server_app \<Rightarrow> 'w server_app option" where
  "choose_match_skill env sender mid choice app =
     (case bt_get (sa_matches app) mid of
        None \<Rightarrow> Some (send_error sender (lit ''match does not exist'') app)
      | Some runtime \<Rightarrow>
          let (events, session) = submit_skill_pick sender choice (mr_session runtime);
              app = with_match mid (\<lambda>r. r\<lparr>mr_session := session\<rparr>) app in
          (case events of
             Inr events \<Rightarrow> dispatch_match_events env mid events app
           | Inl (Err error) \<Rightarrow> Some (send_error sender (match_error_text error) app)
           | Inl Panic \<Rightarrow> None))"

definition choose_training_skill ::
  "player_id \<Rightarrow> match_id \<Rightarrow> skill_choice \<Rightarrow> skill_tree \<Rightarrow> u8 \<Rightarrow> 'w server_app \<Rightarrow> 'w server_app option" where
  "choose_training_skill sender tid choice t n app =
     (let slot_index = unat (sat_sub n 1) in
      case bt_get (sa_training_sessions app) tid of
        None \<Rightarrow> Some (send_error sender (lit ''training session does not exist'') app)
      | Some runtime \<Rightarrow>
     if length (tr_loadout runtime) \<le> slot_index
     then Some (send_error sender (lit ''skill tier must be between 1 and 5'') app)
     else
       case training_rebuild_world (sa_content app)
           (runtime\<lparr>tr_loadout := (tr_loadout runtime)[slot_index := Some choice]\<rparr>) of
        None \<Rightarrow> None
      | Some runtime \<Rightarrow>
          broadcast_training_state_snapshot tid
            (send_event sender (SkillChosenEvent sender n t n) (with_training tid (\<lambda>_. runtime) app)))"

definition handle_choose_skill ::
  "'w app_env \<Rightarrow> player_id \<Rightarrow> skill_tree \<Rightarrow> u8 \<Rightarrow> 'w server_app \<Rightarrow> 'w server_app option" where
  "handle_choose_skill env sender t n app =
     (case skill_choice_new t n of
        Inl error \<Rightarrow> Some (send_error sender (domain_error_text error) app)
      | Inr choice \<Rightarrow>
     if catalog_resolve (gct_skills (sa_content app)) choice = None
     then Some (send_error sender
       (lit ''no authored skill exists for '' @ skill_tree_as_str t @ lit '' tier '' @ show_n n) app)
     else
       case bt_get (sa_players app) sender of
        None \<Rightarrow> Some (send_error sender (lit ''player is not connected'') app)
      | Some p \<Rightarrow>
          (case cn_location p of
             InMatch mid \<Rightarrow> choose_match_skill env sender mid choice app
           | InTraining tid \<Rightarrow> choose_training_skill sender tid choice t n app
           | _ \<Rightarrow> Some (send_error sender (lit ''player is not in a match or training session'') app)))"

definition handle_reset_training_session :: "player_id \<Rightarrow> 'w server_app \<Rightarrow> 'w server_app option" where
  "handle_reset_training_session sender app =
     (case require_training sender app of
        (None, app) \<Rightarrow> Some app
      | (Some tid, app) \<Rightarrow>
     case bt_get (sa_training_sessions app) tid of
        None \<Rightarrow> Some (send_error sender (lit ''training session does not exist'') app)
      | Some runtime \<Rightarrow> broadcast_training_state_snapshot tid (with_training tid reset_session app))"

definition return_to_central_lobby :: "player_id \<Rightarrow> connected_player \<Rightarrow> 'w server_app \<Rightarrow> 'w server_app" where
  "return_to_central_lobby sender p app =
     (let app = with_player sender (\<lambda>p. p\<lparr>cn_location := CentralLobby\<rparr>) app;
          app = send_event sender (ReturnedToCentralLobby (cn_record p)) app in
      send_lobby_directory_snapshot sender app)"

definition handle_quit_to_central_lobby :: "player_id \<Rightarrow> 'w server_app \<Rightarrow> 'w server_app" where
  "handle_quit_to_central_lobby sender app =
     (case bt_get (sa_players app) sender of
        Some p \<Rightarrow>
          (case cn_location p of
             InTraining tid \<Rightarrow>
               broadcast_lobby_directory_snapshot (cleanup_finished_training tid (return_to_central_lobby sender p app))
           | _ \<Rightarrow>
               (case require_results sender app of
                  (None, app) \<Rightarrow> app
                | (Some mid, app) \<Rightarrow> cleanup_finished_match mid (return_to_central_lobby sender p app)))
      | None \<Rightarrow> snd (require_results sender app))"

section \<open>Input frames\<close>

definition pressed :: "u16 \<Rightarrow> u16 \<Rightarrow> bool" where
  "pressed btns button \<longleftrightarrow> btns AND button \<noteq> 0"

definition require_combat_match_id :: "player_id \<Rightarrow> u16 \<Rightarrow> 'w server_app \<Rightarrow> match_id option \<times> 'w server_app" where
  "require_combat_match_id sender btns app =
     (case require_match sender app of
        (None, app) \<Rightarrow> (None, app)
      | (Some mid, app) \<Rightarrow>
     case bt_get (sa_matches app) mid of
        None \<Rightarrow> (None, send_error sender (lit ''match does not exist'') app)
      | Some runtime \<Rightarrow>
     if ms_phase (mr_session runtime) \<noteq> match_phase.Combat
     then (None, send_error sender (lit ''input frames are only accepted during combat'') app)
     else if pressed btns BUTTON_QUIT_TO_LOBBY
     then (None, send_error sender (lit ''quit-to-lobby input is not valid during combat'') app)
     else (Some mid, app))"

definition decode_movement_input :: "validated_input_frame \<Rightarrow> rstring + movement_intent" where
  "decode_movement_input frame =
     and_then (decode_axis (move_horizontal_q frame) ''move_horizontal_q'') (\<lambda>move_x.
     and_then (decode_axis (move_vertical_q frame) ''move_vertical_q'') (\<lambda>move_y.
       map_err simulation_error_text (movement_intent_new move_x move_y)))"

text \<open>The world after the input, and whether the aim changed and a cast was cancelled, or the error.\<close>

definition apply_world_input ::
  "player_id \<Rightarrow> validated_input_frame \<Rightarrow> movement_intent \<Rightarrow> simulation_world \<Rightarrow>
   (rstring + (bool \<times> u8 option)) \<times> simulation_world" where
  "apply_world_input sender frame movement world =
     (case update_aim sender (aim_horizontal_q frame) (aim_vertical_q frame) world of
        Inl error \<Rightarrow> (Inl (simulation_error_text error), world)
      | Inr (aim_changed, world) \<Rightarrow>
     case submit_input sender movement world of
        Inl error \<Rightarrow> (Inl (simulation_error_text error), world)
      | Inr world \<Rightarrow>
     if pressed (buttons frame) BUTTON_CANCEL then
       let slot = Option.bind (player_state world sender) pst_current_cast_slot in
       (case cancel_active_cast sender world of
          Inl error \<Rightarrow> (Inl (simulation_error_text error), world)
        | Inr (_, world) \<Rightarrow> (Inr (aim_changed, slot), world))
     else (Inr (aim_changed, None), world))"

definition requested_slot :: "validated_input_frame \<Rightarrow> u8" where
  "requested_slot frame = (if ability_or_context frame \<le> 255 then ucast (ability_or_context frame) else - 1)"

definition missing_skill_data :: "skill_choice \<Rightarrow> rstring" where
  "missing_skill_data choice =
     lit ''authored skill data is missing for '' @ skill_tree_as_str (tree choice) @ lit '' tier '' @ show_n (tier choice)"

definition queue_primary :: "player_id \<Rightarrow> validated_input_frame \<Rightarrow> simulation_world \<Rightarrow> rstring + simulation_world" where
  "queue_primary sender frame world =
     (if pressed (buttons frame) BUTTON_PRIMARY
      then map_err simulation_error_text (queue_primary_attack sender world) else Inr world)"

definition queue_cast_of ::
  "game_content \<Rightarrow> player_id \<Rightarrow> validated_input_frame \<Rightarrow> u8 \<Rightarrow> skill_choice option \<Rightarrow> simulation_world \<Rightarrow>
   (rstring + unit) \<times> simulation_world" where
  "queue_cast_of content sender frame slot equipped world =
     (case equipped of
        None \<Rightarrow> (Inl (lit ''skill slot '' @ show_n slot @ lit '' is not equipped''), world)
      | Some choice \<Rightarrow>
     if catalog_resolve (gct_skills content) choice = None then (Inl (missing_skill_data choice), world)
     else case queue_cast_with_mode sender slot (pressed (buttons frame) BUTTON_SELF_CAST) world of
        Inl error \<Rightarrow> (Inl (simulation_error_text error), world)
      | Inr world \<Rightarrow> (Inr (), world))"

definition queue_requested_actions ::
  "game_content \<Rightarrow> match_session \<Rightarrow> player_id \<Rightarrow> validated_input_frame \<Rightarrow> simulation_world \<Rightarrow>
   (rstring + unit) \<times> simulation_world" where
  "queue_requested_actions content session sender frame world =
     (case queue_primary sender frame world of
        Inl error \<Rightarrow> (Inl error, world)
      | Inr world \<Rightarrow>
     if \<not> pressed (buttons frame) BUTTON_CAST then (Inr (), world)
     else
       let slot = requested_slot frame; unlocked_slots = round_get (current_round session) in
       if slot = 0 \<or> slot > unlocked_slots
       then (Inl (lit ''skill slot '' @ show_n slot @ lit '' is not unlocked for round '' @ show_n unlocked_slots), world)
       else queue_cast_of content sender frame slot (session_choice session sender slot) world)"

definition queue_requested_training_actions ::
  "game_content \<Rightarrow> skill_choice option list \<Rightarrow> player_id \<Rightarrow> validated_input_frame \<Rightarrow> simulation_world \<Rightarrow>
   (rstring + unit) \<times> simulation_world" where
  "queue_requested_training_actions content loadout sender frame world =
     (case queue_primary sender frame world of
        Inl error \<Rightarrow> (Inl error, world)
      | Inr world \<Rightarrow>
     if \<not> pressed (buttons frame) BUTTON_CAST then (Inr (), world)
     else
       let slot = requested_slot frame in
       if slot = 0 \<or> slot > 5 then (Inl (lit ''skill slot '' @ show_n slot @ lit '' is not valid''), world)
       else queue_cast_of content sender frame slot (loadout ! unat (slot - 1)) world)"

text \<open>Both input handlers: the input, then the actions; what was done before an error stays done.\<close>

definition input_then_actions ::
  "(rstring + (bool \<times> u8 option)) \<times> simulation_world \<Rightarrow> (simulation_world \<Rightarrow> (rstring + unit) \<times> simulation_world) \<Rightarrow>
   (rstring + (bool \<times> u8 option)) \<times> simulation_world" where
  "input_then_actions input actions =
     (case input of
        (Inl error, world) \<Rightarrow> (Inl error, world)
      | (Inr result, world) \<Rightarrow>
          (case actions world of
             (Inl error, world) \<Rightarrow> (Inl error, world)
           | (Inr _, world) \<Rightarrow> (Inr result, world)))"

definition handle_match_input_frame ::
  "match_id \<Rightarrow> player_id \<Rightarrow> validated_input_frame \<Rightarrow> movement_intent \<Rightarrow> 'w server_app \<Rightarrow>
   (rstring + (bool \<times> u8 option)) \<times> 'w server_app" where
  "handle_match_input_frame mid sender frame movement app =
     (case bt_get (sa_matches app) mid of
        None \<Rightarrow> (Inl (lit ''match does not exist''), app)
      | Some runtime \<Rightarrow>
          let (result, world) = input_then_actions (apply_world_input sender frame movement (mr_world runtime))
                (queue_requested_actions (sa_content app) (mr_session runtime) sender frame) in
          (result, with_match mid (\<lambda>r. r\<lparr>mr_world := world\<rparr>) app))"

definition handle_training_input_frame ::
  "match_id \<Rightarrow> player_id \<Rightarrow> validated_input_frame \<Rightarrow> movement_intent \<Rightarrow> 'w server_app \<Rightarrow>
   (rstring + (bool \<times> u8 option)) \<times> 'w server_app" where
  "handle_training_input_frame tid sender frame movement app =
     (case bt_get (sa_training_sessions app) tid of
        None \<Rightarrow> (Inl (lit ''training session does not exist''), app)
      | Some runtime \<Rightarrow>
          let (result, world) = input_then_actions (apply_world_input sender frame movement (tr_world runtime))
                (queue_requested_training_actions (sa_content app) (tr_loadout runtime) sender frame) in
          (result, with_training tid (\<lambda>r. r\<lparr>tr_world := world\<rparr>) app))"

definition finish_input_frame ::
  "'w app_env \<Rightarrow> player_id \<Rightarrow> bool \<Rightarrow> match_id \<Rightarrow> bool \<Rightarrow> u8 option \<Rightarrow> 'w server_app \<Rightarrow> 'w server_app option" where
  "finish_input_frame env sender is_match arena_id aim_changed manual_cancel_slot app =
     (let app = (case manual_cancel_slot of
            Some slot \<Rightarrow>
              if is_match
              then snd (append_match_log env arena_id (LogCastCanceled (player_id_get sender) slot LogCancelManual) app)
              else app
          | None \<Rightarrow> app) in
      if \<not> aim_changed then Some app
      else if is_match then broadcast_arena_delta_snapshot arena_id app
      else broadcast_training_delta_snapshot arena_id app)"

definition input_arena ::
  "player_id \<Rightarrow> player_location \<Rightarrow> u16 \<Rightarrow> 'w server_app \<Rightarrow> (bool \<times> match_id) option \<times> 'w server_app" where
  "input_arena sender location btns app =
     (case location of
        InMatch _ \<Rightarrow> (case require_combat_match_id sender btns app of (mid, app) \<Rightarrow> (map_option (Pair True) mid, app))
      | InTraining tid \<Rightarrow>
          if pressed btns BUTTON_QUIT_TO_LOBBY
          then (None, send_error sender (lit ''quit-to-lobby input is not valid during training'') app)
          else (Some (False, tid), app)
      | _ \<Rightarrow> (None, send_error sender (lit ''input frames are only accepted during combat or training'') app))"

definition handle_input_frame ::
  "'w app_env \<Rightarrow> player_id \<Rightarrow> validated_input_frame \<Rightarrow> 'w server_app \<Rightarrow> 'w server_app option" where
  "handle_input_frame env sender frame app =
     (case bt_get (sa_players app) sender of
        None \<Rightarrow> Some (send_error sender (lit ''player is not connected'') app)
      | Some p \<Rightarrow>
     case input_arena sender (cn_location p) (buttons frame) app of
        (None, app) \<Rightarrow> Some app
      | (Some (is_match, arena_id), app) \<Rightarrow>
     case decode_movement_input frame of
        Inl message \<Rightarrow> Some (send_error sender message app)
      | Inr movement \<Rightarrow>
     case (if is_match then handle_match_input_frame arena_id sender frame movement app
           else handle_training_input_frame arena_id sender frame movement app) of
        (Inl message, app) \<Rightarrow> Some (send_error sender message app)
      | (Inr (aim_changed, manual_cancel_slot), app) \<Rightarrow>
          finish_input_frame env sender is_match arena_id aim_changed manual_cancel_slot app)"

section \<open>Packets\<close>

definition handle_control_command ::
  "'w app_env \<Rightarrow> player_id \<Rightarrow> client_control_command \<Rightarrow> 'w server_app \<Rightarrow> 'w server_app option" where
  "handle_control_command env sender command app =
     (case command of
        Connect _ \<Rightarrow> Some (send_error sender (lit ''player is already connected'') app)
      | CreateGameLobby \<Rightarrow> handle_create_game_lobby env sender app
      | JoinGameLobby lid \<Rightarrow> Some (handle_join_game_lobby sender lid app)
      | LeaveGameLobby \<Rightarrow> Some (handle_leave_game_lobby env sender app)
      | StartTraining \<Rightarrow> handle_start_training sender app
      | SelectTeamCommand team \<Rightarrow> Some (handle_select_team sender team app)
      | SetReadyCommand ready \<Rightarrow> Some (handle_set_ready sender ready app)
      | ChooseSkill t n \<Rightarrow> handle_choose_skill env sender t n app
      | ResetTrainingSession \<Rightarrow> handle_reset_training_session sender app
      | QuitToCentralLobby \<Rightarrow> Some (handle_quit_to_central_lobby sender app))"

definition observe_inbound_control_sequence :: "player_id \<Rightarrow> u32 \<Rightarrow> 'w server_app \<Rightarrow> bool \<times> 'w server_app" where
  "observe_inbound_control_sequence pid sq app =
     (case bt_get (sa_players app) pid of
        None \<Rightarrow> (True, app)
      | Some p \<Rightarrow>
          let (observed, tracker) = observe sq (cn_inbound_control p);
              app = with_player pid (\<lambda>p. p\<lparr>cn_inbound_control := tracker\<rparr>) app in
          (case observed of
             Inr _ \<Rightarrow> (True, app)
           | Inl error \<Rightarrow> (False, send_error pid (packet_error_text error) app)))"

definition observe_inbound_input :: "player_id \<Rightarrow> u32 \<Rightarrow> u32 \<Rightarrow> 'w server_app \<Rightarrow> bool \<times> 'w server_app" where
  "observe_inbound_input pid sq tick_no app =
     (case bt_get (sa_players app) pid of
        None \<Rightarrow> (True, app)
      | Some p \<Rightarrow>
          let (observed, tracker) = observe sq (cn_inbound_input p); p = p\<lparr>cn_inbound_input := tracker\<rparr> in
          (case observed of
             Inl error \<Rightarrow> (False, send_error pid (packet_error_text error) (with_player pid (\<lambda>_. p) app))
           | Inr _ \<Rightarrow>
               let (observed, p) = observe_client_input_tick tick_no p; app = with_player pid (\<lambda>_. p) app in
               (case observed of
                  Inl error \<Rightarrow> (False, send_error pid error app)
                | Inr _ \<Rightarrow> (True, app))))"

definition handle_control_packet ::
  "'w app_env \<Rightarrow> connection_id \<Rightarrow> player_id option \<Rightarrow> u32 \<Rightarrow> client_control_command \<Rightarrow> 'w server_app \<Rightarrow> 'w server_app option" where
  "handle_control_packet env cid bound_player sq command app =
     (case bound_player of
        Some pid \<Rightarrow>
          (case observe_inbound_control_sequence pid sq app of
             (False, app) \<Rightarrow> Some app
           | (True, app) \<Rightarrow> handle_control_command env pid command app)
      | None \<Rightarrow>
          (case command of
             Connect name \<Rightarrow> Some (handle_connect_command env cid sq name app)
           | _ \<Rightarrow> Some (send_direct_error cid (lit ''first packet must be a connect command'') app)))"

definition handle_input_packet ::
  "'w app_env \<Rightarrow> connection_id \<Rightarrow> player_id option \<Rightarrow> u32 \<Rightarrow> validated_input_frame \<Rightarrow> 'w server_app \<Rightarrow> 'w server_app option" where
  "handle_input_packet env cid bound_player sq frame app =
     (case bound_player of
        None \<Rightarrow> Some (send_direct_error cid (lit ''first packet must be a connect command'') app)
      | Some pid \<Rightarrow>
          (case observe_inbound_input pid sq (client_input_tick frame) app of
             (False, app) \<Rightarrow> Some app
           | (True, app) \<Rightarrow> handle_input_frame env pid frame app))"

definition handle_invalid_packet :: "connection_id \<Rightarrow> player_id option \<Rightarrow> packet_error \<Rightarrow> 'w server_app \<Rightarrow> 'w server_app" where
  "handle_invalid_packet cid bound_player error app =
     (case bound_player of
        Some pid \<Rightarrow> send_error pid (packet_error_text error) app
      | None \<Rightarrow> send_direct_error cid (packet_error_text error) app)"

text \<open>The decoder of commands never panics (\<open>command_decode_safe\<close>), so its errors lead to the input decoder.\<close>

definition handle_packet :: "'w app_env \<Rightarrow> connection_id \<Rightarrow> u8 list \<Rightarrow> 'w server_app \<Rightarrow> 'w server_app option" where
  "handle_packet env cid packet app =
     (let bound_player = bt_get (sa_connections app) cid in
      case command_decode_packet packet of
        Inr (header, command) \<Rightarrow> handle_control_packet env cid bound_player (hd_seq header) command app
      | Inl _ \<Rightarrow>
          (case input_decode_packet packet of
             Inr (header, frame) \<Rightarrow> handle_input_packet env cid bound_player (hd_seq header) frame app
           | Inl error \<Rightarrow> Some (handle_invalid_packet cid bound_player error app)))"

text \<open>The packets the transport has queued, in their order.\<close>

definition pump_transport :: "'w app_env \<Rightarrow> (connection_id \<times> u8 list) list \<Rightarrow> 'w server_app \<Rightarrow> 'w server_app option" where
  "pump_transport env packets = each_opt (\<lambda>(cid, packet). handle_packet env cid packet) packets"

section \<open>The clock\<close>

partial_function (option) combat_loop :: "'w app_env \<Rightarrow> u32 \<Rightarrow> 'w server_app \<Rightarrow> 'w server_app option" where
  "combat_loop env frame_ms app =
     (if sa_combat_accumulator_ms app < frame_ms then Some app
      else Option.bind
        (advance_combat_frames env (app\<lparr>sa_combat_accumulator_ms := sat_sub (sa_combat_accumulator_ms app) frame_ms\<rparr>))
        (combat_loop env frame_ms))"

partial_function (option) phase_loop :: "'w app_env \<Rightarrow> 'w server_app \<Rightarrow> 'w server_app option" where
  "phase_loop env app =
     (if sa_phase_accumulator_ms app < 1000 then Some app
      else Option.bind
        (Option.bind
          (advance_lobby_countdowns env (app\<lparr>sa_phase_accumulator_ms := sat_sub (sa_phase_accumulator_ms app) 1000,
            sa_clock_seconds := sat_add (sa_clock_seconds app) 1\<rparr>))
          (advance_match_phases env))
        (phase_loop env))"

definition advance_millis :: "'w app_env \<Rightarrow> u16 \<Rightarrow> 'w server_app \<Rightarrow> 'w server_app option" where
  "advance_millis env delta_ms app =
     (if delta_ms = 0 then Some app
      else
        let app = app\<lparr>sa_phase_accumulator_ms := sat_add (sa_phase_accumulator_ms app) (ucast delta_ms),
              sa_combat_accumulator_ms := sat_add (sa_combat_accumulator_ms app) (ucast delta_ms)\<rparr>;
            combat_frame_ms = ucast (sc_combat_frame_ms (app_simulation app)) in
        Option.bind (combat_loop env combat_frame_ms app) (phase_loop env))"

definition advance_seconds :: "'w app_env \<Rightarrow> u8 \<Rightarrow> 'w server_app \<Rightarrow> 'w server_app option" where
  "advance_seconds env seconds = each_opt (\<lambda>_. advance_millis env 1000) [0..<unat seconds]"

section \<open>Disconnections\<close>

datatype app_error = AppPlayerMissing player_id

definition app_error_text :: "app_error \<Rightarrow> rstring" where
  "app_error_text e = (case e of AppPlayerMissing pid \<Rightarrow> lit ''player '' @ show_id pid @ lit '' is not connected'')"

definition remove_player :: "player_id \<Rightarrow> 'w server_app \<Rightarrow> 'w server_app" where
  "remove_player pid app = remove_player_connection pid (app\<lparr>sa_players := bt_remove pid (sa_players app)\<rparr>)"

definition lobby_disconnect ::
  "'w app_env \<Rightarrow> player_id \<Rightarrow> lobby_id \<Rightarrow> player_id list \<Rightarrow> lobby_error + lobby_event \<Rightarrow> 'w server_app \<Rightarrow> 'w server_app" where
  "lobby_disconnect env pid lid recipients event app =
     (let remaining = filter (\<lambda>recipient. recipient \<noteq> pid) recipients in
      case event of
        Inr (PlayerLeft _) \<Rightarrow>
          broadcast_game_lobby_snapshot lid (broadcast_event remaining (GameLobbyLeft lid pid) (remove_player pid app))
      | Inr (MatchAborted _ _ message) \<Rightarrow>
          broadcast_game_lobby_snapshot lid (broadcast_event remaining (ErrorEvent message) (remove_player pid app))
      | Inr other \<Rightarrow> broadcast_event recipients
          (ErrorEvent (lit ''unexpected lobby disconnect event: '' @ env_lobby_debug env other)) (remove_player pid app)
      | Inl error \<Rightarrow> send_error pid (lobby_error_text error) app)"

definition server_disconnect_player ::
  "'w app_env \<Rightarrow> player_id \<Rightarrow> 'w server_app \<Rightarrow> ((app_error + unit) \<times> 'w server_app) option" where
  "server_disconnect_player env pid app =
     (case bt_get (sa_players app) pid of
        None \<Rightarrow> Some (Inl (AppPlayerMissing pid), app)
      | Some p \<Rightarrow>
     case cn_location p of
        CentralLobby \<Rightarrow> Some (Inr (), broadcast_lobby_directory_snapshot (remove_player pid app))
      | InGameLobby lid \<Rightarrow>
          let recipients = lobby_members app lid in
          (case bt_get (sa_game_lobbies app) lid of
             None \<Rightarrow> Some (Inl (AppPlayerMissing pid), app)
           | Some runtime \<Rightarrow>
               let (event, l) = leave_or_disconnect_player pid (glr_lobby runtime);
                   app = lobby_disconnect env pid lid recipients event (with_lobby lid l app) in
               Some (Inr (), broadcast_lobby_directory_snapshot (cleanup_empty_lobby lid app)))
      | InMatch mid \<Rightarrow>
          map_option (\<lambda>app. (Inr (), cleanup_finished_match mid (remove_player pid app)))
            (end_match_as_no_contest env mid pid app)
      | InTraining tid \<Rightarrow>
          Some (Inr (), broadcast_lobby_directory_snapshot (cleanup_finished_training tid (remove_player pid app)))
      | InResults mid \<Rightarrow> Some (Inr (), cleanup_finished_match mid (remove_player pid app)))"

definition disconnect_connection ::
  "'w app_env \<Rightarrow> connection_id \<Rightarrow> 'w server_app \<Rightarrow> ((app_error + unit) \<times> 'w server_app) option" where
  "disconnect_connection env cid app =
     (case bt_get (sa_connections app) cid of
        Some pid \<Rightarrow> server_disconnect_player env pid app
      | None \<Rightarrow> Some (Inr (), app))"

end
