(* ===== verification/App_Registry.thy ===== *)
theory App_Registry
  imports App_Ingress
begin

text \<open>
  An abstract specification of the server: the registry of who is connected and where everybody is,
  with its steps, and its invariant. \<open>reg\<close> reads the registry off the state of the application;
  \<open>app_ok\<close> is what the data of the application keeps beside it (ordered maps, valid lobbies, sessions
  that know exactly the participants of their match, a consistent record store). What an operation
  that only sends, logs or builds snapshots leaves alone is stated here, for the handlers to use.
\<close>

section \<open>The registry\<close>

record registry =
  rg_connections :: "connection_id \<Rightarrow> player_id option"
  rg_bindings :: "player_id \<Rightarrow> connection_id option"
  rg_place :: "player_id \<Rightarrow> player_location option"
  rg_lobbies :: "lobby_id \<Rightarrow> player_id set option"
  rg_matches :: "match_id \<Rightarrow> (player_id set \<times> bool) option"
  rg_training :: "match_id \<Rightarrow> player_id option"
  rg_next_lobby :: u32
  rg_next_match :: u32

text \<open>A match is live until its session has ended.\<close>

definition is_live :: "match_session \<Rightarrow> bool" where
  "is_live session = (case ms_phase session of MatchEnd _ _ \<Rightarrow> False | _ \<Rightarrow> True)"

definition lobby_ids :: "game_lobby_runtime \<Rightarrow> player_id set" where
  "lobby_ids r = dom (bt_get (lobby_players (glr_lobby r)))"

definition match_state :: "match_runtime \<Rightarrow> player_id set \<times> bool" where
  "match_state r = (set (mr_participants r), is_live (mr_session r))"

definition reg :: "'w server_app \<Rightarrow> registry" where
  "reg app =
     \<lparr>rg_connections = bt_get (sa_connections app), rg_bindings = bt_get (sa_player_connections app),
      rg_place = (\<lambda>pid. map_option cn_location (bt_get (sa_players app) pid)),
      rg_lobbies = (\<lambda>lid. map_option lobby_ids (bt_get (sa_game_lobbies app) lid)),
      rg_matches = (\<lambda>mid. map_option match_state (bt_get (sa_matches app) mid)),
      rg_training = (\<lambda>tid. map_option (\<lambda>r. ta_player_id (tr_participant r)) (bt_get (sa_training_sessions app) tid)),
      rg_next_lobby = sa_next_lobby_id app, rg_next_match = sa_next_match_id app\<rparr>"

text \<open>What the clock and the content are; no handler but the clock changes it.\<close>

definition timing :: "'w server_app \<Rightarrow> game_content \<times> u32 \<times> u32 \<times> u32" where
  "timing app = (sa_content app, sa_clock_seconds app, sa_phase_accumulator_ms app, sa_combat_accumulator_ms app)"

section \<open>Well-formed data\<close>

definition player_entry_ok :: "player_id \<Rightarrow> connected_player \<Rightarrow> bool" where
  "player_entry_ok pid p \<longleftrightarrow> wf_player_id pid \<and> wf_player_name (cn_player_name p) \<and> wf_record (cn_record p)"

definition lobby_entry_ok :: "game_lobby_runtime \<Rightarrow> bool" where
  "lobby_entry_ok r \<longleftrightarrow> lobby_inv (glr_lobby r) \<and> am_objective_target_ms (glr_map r) \<noteq> 0"

definition match_entry_ok :: "match_runtime \<Rightarrow> bool" where
  "match_entry_ok r \<longleftrightarrow> mr_participants r = map ta_player_id (mr_roster r) \<and>
     dom (bt_get (ms_players (mr_session r))) = set (mr_participants r)"

definition store_ok :: "player_record_store \<Rightarrow> bool" where
  "store_ok store \<longleftrightarrow> bt_inv (prs_records store) \<and> (\<forall>name r. bt_get (prs_records store) name = Some r \<longrightarrow> wf_record r)"

text \<open>What the loader has checked of the content (\<open>loaded_content_consistent\<close>).\<close>

definition content_ok :: "game_content \<Rightarrow> bool" where
  "content_ok c \<longleftrightarrow> valid_match_configuration (gcf_match_flow (gct_configuration c)) \<and>
     (\<forall>map_id m. content_map_by_id c map_id = Some m \<longrightarrow> am_objective_target_ms m \<noteq> 0)"

definition app_ok :: "'w server_app \<Rightarrow> bool" where
  "app_ok app \<longleftrightarrow> bt_inv (sa_connections app) \<and> bt_inv (sa_player_connections app) \<and> bt_inv (sa_players app) \<and>
     bt_inv (sa_game_lobbies app) \<and> bt_inv (sa_matches app) \<and> bt_inv (sa_training_sessions app) \<and>
     (\<forall>pid p. bt_get (sa_players app) pid = Some p \<longrightarrow> player_entry_ok pid p) \<and>
     (\<forall>lid r. bt_get (sa_game_lobbies app) lid = Some r \<longrightarrow> lobby_entry_ok r) \<and>
     (\<forall>mid r. bt_get (sa_matches app) mid = Some r \<longrightarrow> match_entry_ok r) \<and>
     store_ok (sa_record_store app) \<and> content_ok (sa_content app)"

lemma app_okD:
  assumes "app_ok app"
  shows "bt_inv (sa_connections app)" "bt_inv (sa_player_connections app)" "bt_inv (sa_players app)"
    "bt_inv (sa_game_lobbies app)" "bt_inv (sa_matches app)" "bt_inv (sa_training_sessions app)"
    "bt_get (sa_players app) pid = Some p \<Longrightarrow> player_entry_ok pid p"
    "bt_get (sa_game_lobbies app) lid = Some r \<Longrightarrow> lobby_entry_ok r"
    "bt_get (sa_matches app) mid = Some m \<Longrightarrow> match_entry_ok m"
    "store_ok (sa_record_store app)" "content_ok (sa_content app)"
  using assms by (auto simp: app_ok_def)

section \<open>Updates the registry does not see\<close>

lemma app_updates [simp]:
  "reg (app\<lparr>sa_sent := s\<rparr>) = reg app" "timing (app\<lparr>sa_sent := s\<rparr>) = timing app" "app_ok (app\<lparr>sa_sent := s\<rparr>) = app_ok app"
  "reg (app\<lparr>sa_world := w\<rparr>) = reg app" "timing (app\<lparr>sa_world := w\<rparr>) = timing app" "app_ok (app\<lparr>sa_world := w\<rparr>) = app_ok app"
  "reg (app\<lparr>sa_record_store := store\<rparr>) = reg app" "timing (app\<lparr>sa_record_store := store\<rparr>) = timing app"
  "app_ok app \<Longrightarrow> store_ok store \<Longrightarrow> app_ok (app\<lparr>sa_record_store := store\<rparr>)"
  "reg (app\<lparr>sa_clock_seconds := n\<rparr>) = reg app" "app_ok (app\<lparr>sa_clock_seconds := n\<rparr>) = app_ok app"
  "reg (app\<lparr>sa_phase_accumulator_ms := n\<rparr>) = reg app" "app_ok (app\<lparr>sa_phase_accumulator_ms := n\<rparr>) = app_ok app"
  "reg (app\<lparr>sa_combat_accumulator_ms := n\<rparr>) = reg app" "app_ok (app\<lparr>sa_combat_accumulator_ms := n\<rparr>) = app_ok app"
  by (simp_all add: reg_def timing_def app_ok_def)

lemma reg_with_player:
  "reg (with_player pid f app) = (reg app)\<lparr>rg_place := \<lambda>k. if k = pid then map_option (\<lambda>p. cn_location (f p)) (bt_get (sa_players app) pid)
     else rg_place (reg app) k\<rparr>"
  by (auto simp: reg_def with_player_def bt_get_modify option.map_comp comp_def fun_eq_iff)

lemma with_player_ok:
  "app_ok app \<Longrightarrow> (\<And>p. bt_get (sa_players app) pid = Some p \<Longrightarrow> player_entry_ok pid p \<Longrightarrow> player_entry_ok pid (f p)) \<Longrightarrow>
     app_ok (with_player pid f app)"
  by (auto simp: app_ok_def with_player_def bt_get_modify)

lemma with_player_same:
  assumes "\<And>p. cn_location (f p) = cn_location p"
  shows "reg (with_player pid f app) = reg app"
  using assms by (auto simp: reg_def with_player_def bt_get_modify option.map_comp comp_def fun_eq_iff)

lemma reg_with_match:
  "reg (with_match mid f app) = (reg app)\<lparr>rg_matches := \<lambda>k. if k = mid then map_option (\<lambda>r. match_state (f r)) (bt_get (sa_matches app) mid)
     else rg_matches (reg app) k\<rparr>"
  by (auto simp: reg_def with_match_def bt_get_modify option.map_comp comp_def fun_eq_iff)

lemma with_match_ok:
  "app_ok app \<Longrightarrow> (\<And>r. bt_get (sa_matches app) mid = Some r \<Longrightarrow> match_entry_ok r \<Longrightarrow> match_entry_ok (f r)) \<Longrightarrow> app_ok (with_match mid f app)"
  by (auto simp: app_ok_def with_match_def bt_get_modify)

lemma reg_with_training:
  "(\<And>r. bt_get (sa_training_sessions app) tid = Some r \<Longrightarrow> tr_participant (f r) = tr_participant r) \<Longrightarrow> reg (with_training tid f app) = reg app"
  by (auto simp: reg_def with_training_def bt_get_modify option.map_comp comp_def fun_eq_iff intro: option.map_cong)

lemma with_training_ok [simp]: "app_ok app \<Longrightarrow> app_ok (with_training tid f app)"
  by (auto simp: app_ok_def with_training_def)

lemma with_others [simp]:
  "timing (with_player pid f app) = timing app" "timing (with_match mid g app) = timing app"
  "timing (with_training mid h app) = timing app" "timing (with_lobby lid l app) = timing app"
  by (simp_all add: timing_def with_player_def with_match_def with_training_def with_lobby_def)

text \<open>An update of a match that leaves its roster, its participants and its session alone.\<close>

definition match_key :: "match_runtime \<Rightarrow> team_assignment list \<times> player_id list \<times> match_session" where
  "match_key r = (mr_roster r, mr_participants r, mr_session r)"

lemma match_key_eq: "match_key r = match_key r' \<Longrightarrow> match_state r = match_state r' \<and> match_entry_ok r = match_entry_ok r'"
  by (simp add: match_key_def match_state_def match_entry_ok_def)

lemma match_key_updates [simp]:
  "match_key (r\<lparr>mr_feedback := f\<rparr>) = match_key r" "match_key (r\<lparr>mr_explored_tiles := e\<rparr>) = match_key r"
  "match_key (r\<lparr>mr_world := w\<rparr>) = match_key r" "match_key (r\<lparr>mr_combat_frame_index := n\<rparr>) = match_key r"
  by (simp_all add: match_key_def)

lemma with_match_same:
  assumes "\<And>r. bt_get (sa_matches app) mid = Some r \<Longrightarrow> match_key (f r) = match_key r"
  shows "reg (with_match mid f app) = reg app" "app_ok app \<Longrightarrow> app_ok (with_match mid f app)"
proof -
  have "bt_get (sa_matches app) mid = Some r \<Longrightarrow> match_state (f r) = match_state r \<and> match_entry_ok (f r) = match_entry_ok r" for r
    using assms match_key_eq by blast
  then show "reg (with_match mid f app) = reg app" "app_ok app \<Longrightarrow> app_ok (with_match mid f app)"
    by (auto simp: reg_def with_match_def bt_get_modify option.map_comp comp_def fun_eq_iff app_ok_def intro: option.map_cong)
qed

lemma fold_keeps: "(\<And>x s. x \<in> set xs \<Longrightarrow> P (f x s) = P s) \<Longrightarrow> P (fold f xs s) = P s"
  by (induction xs arbitrary: s) auto

lemma fold_preserves: "(\<And>x s. x \<in> set xs \<Longrightarrow> P s \<Longrightarrow> P (f x s)) \<Longrightarrow> P s \<Longrightarrow> P (fold f xs s)"
  by (induction xs arbitrary: s) auto

text \<open>An operation is unseen when it leaves the registry, the clock and the well-formedness of the data.\<close>

definition unseen :: "'w server_app \<Rightarrow> 'w server_app \<Rightarrow> bool" where
  "unseen app app' \<longleftrightarrow> reg app' = reg app \<and> timing app' = timing app \<and> (app_ok app \<longrightarrow> app_ok app')"

lemma unseen_refl [simp, intro]: "unseen app app"
  by (simp add: unseen_def)

lemma unseen_trans [trans]: "unseen app app' \<Longrightarrow> unseen app' app'' \<Longrightarrow> unseen app app''"
  by (simp add: unseen_def)

lemma unseenD: "unseen app app' \<Longrightarrow> reg app' = reg app" "unseen app app' \<Longrightarrow> timing app' = timing app"
  "unseen app app' \<Longrightarrow> app_ok app \<Longrightarrow> app_ok app'"
  by (simp_all add: unseen_def)

lemma unseen_fold: "(\<And>x s. x \<in> set xs \<Longrightarrow> unseen s (f x s)) \<Longrightarrow> unseen s (fold f xs s)"
  by (induction xs arbitrary: s) (auto intro: unseen_trans)

lemma unseen_each: "(\<And>x s s'. x \<in> set xs \<Longrightarrow> f x s = Some s' \<Longrightarrow> unseen s s') \<Longrightarrow> each_opt f xs s = Some s' \<Longrightarrow> unseen s s'"
proof (induction xs arbitrary: s)
  case (Cons x xs)
  from Cons.prems(2) obtain s1 where s1: "f x s = Some s1" "each_opt f xs s1 = Some s'"
    by (auto split: option.splits)
  have "unseen s s1" by (rule Cons.prems(1) [OF _ s1(1)]) simp
  also have "unseen s1 s'" by (rule Cons.IH [OF _ s1(2)]) (rule Cons.prems(1), simp_all)
  finally show ?case .
qed simp

section \<open>Sending, logging, snapshots\<close>

lemma send_direct_event_unseen: "unseen app (send_direct_event cid sq event app)"
  by (auto simp: send_direct_event_def unseen_def split: sum.splits)

lemma with_player_unseen:
  assumes "\<And>p. cn_location (f p) = cn_location p" "\<And>p. cn_player_name (f p) = cn_player_name p"
    "\<And>p. wf_record (cn_record p) \<Longrightarrow> wf_record (cn_record (f p))"
  shows "unseen app (with_player pid f app)"
  using assms by (auto simp: unseen_def with_player_same intro!: with_player_ok simp: player_entry_ok_def)

lemma with_player_const_unseen:
  assumes "bt_get (sa_players app) pid = Some p" "cn_location q = cn_location p" "cn_player_name q = cn_player_name p"
    "cn_record q = cn_record p"
  shows "unseen app (with_player pid (\<lambda>_. q) app)"
  using assms by (auto simp: unseen_def reg_def with_player_def bt_get_modify option.map_comp comp_def fun_eq_iff timing_def app_ok_def
      player_entry_ok_def)

lemma send_event_unseen: "unseen app (send_event pid event app)"
proof (cases "bt_get (sa_player_connections app) pid")
  case (Some cid)
  show ?thesis
  proof (cases "bt_get (sa_players app) pid")
    case (Some p)
    have q: "cn_location (snd (next_outbound_seq p)) = cn_location p"
      "cn_player_name (snd (next_outbound_seq p)) = cn_player_name p" "cn_record (snd (next_outbound_seq p)) = cn_record p"
      by (simp_all add: next_outbound_seq_def Let_def)
    show ?thesis using \<open>bt_get (sa_player_connections app) pid = Some cid\<close> Some
        unseen_trans [OF with_player_const_unseen [OF Some q] send_direct_event_unseen]
      by (simp add: send_event_def case_prod_unfold Let_def)
  qed (simp add: send_event_def \<open>bt_get (sa_player_connections app) pid = Some cid\<close> send_direct_event_unseen)
qed (simp add: send_event_def)

lemma send_unseen:
  "unseen app (send_error pid message app)" "unseen app (send_direct_error cid message app)"
  "unseen app (broadcast_event recipients event app)"
  by (simp_all add: send_error_def send_event_unseen send_direct_error_def send_direct_event_unseen broadcast_event_def unseen_fold)

lemma lobby_snapshots_unseen:
  "unseen app (send_lobby_directory_snapshot pid app)" "unseen app (broadcast_lobby_directory_snapshot app)"
  "unseen app (send_game_lobby_snapshot lid pid app)" "unseen app (broadcast_game_lobby_snapshot lid app)"
  by (simp_all add: send_lobby_directory_snapshot_def broadcast_lobby_directory_snapshot_def send_game_lobby_snapshot_def
      broadcast_game_lobby_snapshot_def send_event_unseen send_unseen Let_def split: option.split)

lemma broadcast_lobby_events_unseen: "unseen app (broadcast_lobby_events lid events app)"
  unfolding broadcast_lobby_events_def
  by (intro unseen_fold) (simp add: broadcast_lobby_event_def send_unseen split: lobby_event.split)

lemmas unseen_sends = send_event_unseen send_direct_event_unseen send_unseen lobby_snapshots_unseen broadcast_lobby_events_unseen

lemma with_match_unseen:
  "(\<And>r. bt_get (sa_matches app) mid = Some r \<Longrightarrow> match_key (f r) = match_key r) \<Longrightarrow> unseen app (with_match mid f app)"
  by (simp add: unseen_def with_match_same)

lemma record_combat_entry_unseen: "unseen app (snd (record_combat_entry env mid entry app))"
proof -
  have "unseen app (with_match mid (\<lambda>runtime. runtime\<lparr>mr_feedback :=
      observe_entry (sa_content app) (mr_roster runtime) (mr_session runtime) (mr_world runtime) entry (mr_feedback runtime)\<rparr>) app)"
    by (rule with_match_unseen) simp
  then show ?thesis
    by (simp add: record_combat_entry_def Let_def case_prod_unfold unseen_def)
qed

lemma append_match_log_unseen: "unseen app (snd (append_match_log env mid event app))"
  by (simp add: append_match_log_def record_combat_entry_unseen split: option.split)

lemma record_combat_entries_unseen: "unseen app (snd (record_combat_entries env mid entries app))"
proof (induction entries arbitrary: app)
  case (Cons entry entries)
  have "unseen app (snd (record_combat_entry env mid entry app))" by (rule record_combat_entry_unseen)
  with Cons show ?case by (auto simp: case_prod_unfold Let_def split: sum.split intro: unseen_trans)
qed simp

lemma append_simulation_logs_unseen: "unseen app (snd (append_simulation_logs env mid events app))"
  by (simp add: append_simulation_logs_def record_combat_entries_unseen split: option.split)

lemma drain_unseen: "unseen app (snd (drain_match_combat_text mid app))"
proof (cases "bt_get (sa_matches app) mid")
  case (Some runtime)
  have "unseen app (with_match mid (\<lambda>r. r\<lparr>mr_feedback := snd (drain_pending_text (mr_feedback runtime))\<rparr>) app)"
    by (rule with_match_unseen) simp
  with Some show ?thesis by (simp add: drain_match_combat_text_def case_prod_unfold Let_def)
qed (simp add: drain_match_combat_text_def)

lemma send_texts_unseen: "unseen app (send_combat_texts texts app)" "unseen app (report_errors recipients errors app)"
  by (auto simp: send_combat_texts_def report_errors_def unseen_sends intro!: unseen_fold)

lemma log_or_report_unseen: "unseen app (log_or_report env mid recipients event app)"
proof -
  obtain a app1 where a: "append_match_log env mid event app = (a, app1)" by fastforce
  then have "unseen app app1" using append_match_log_unseen [of app env mid event] by simp
  then show ?thesis
    by (auto simp: log_or_report_def a split: sum.split intro: unseen_trans unseen_sends)
qed

lemma masks_unseen: "unseen app (snd (match_masks mid viewer m app))" "unseen app (snd (training_masks tid viewer m app))"
proof -
  show "unseen app (snd (match_masks mid viewer m app))"
    by (auto simp: match_masks_def case_prod_unfold Let_def split: option.split intro!: with_match_unseen)
  show "unseen app (snd (training_masks tid viewer m app))"
    by (auto simp: training_masks_def case_prod_unfold Let_def unseen_def split: option.split intro!: reg_with_training)
qed

lemma match_masks_unseen: "match_masks mid viewer m app = (r, app') \<Longrightarrow> unseen app app'"
  using masks_unseen(1) [of app mid viewer m] by simp

lemma training_masks_unseen: "training_masks tid viewer m app = (r, app') \<Longrightarrow> unseen app app'"
  using masks_unseen(2) [of app tid viewer m] by simp

lemma build_unseen:
  "build_arena_state_snapshot mid viewer m app = Some (s1, app') \<Longrightarrow> unseen app app'"
  "build_arena_delta_snapshot mid viewer m app = Some (s2, app') \<Longrightarrow> unseen app app'"
  "build_training_state_snapshot mid viewer m app = Some (s1, app') \<Longrightarrow> unseen app app'"
  "build_training_delta_snapshot mid viewer m app = Some (s2, app') \<Longrightarrow> unseen app app'"
  "some_effects (filter_arena_effects mid viewer effects m app) = Some (s3, app') \<Longrightarrow> unseen app app'"
  "some_effects (filter_training_effects mid viewer effects m app) = Some (s3, app') \<Longrightarrow> unseen app app'"
  by (auto simp: build_arena_state_snapshot_def build_arena_delta_snapshot_def build_training_state_snapshot_def
      build_training_delta_snapshot_def some_effects_def filter_arena_effects_def filter_training_effects_def Let_def
      split: prod.splits option.splits dest!: match_masks_unseen training_masks_unseen)

lemma send_built_unseen:
  assumes "\<And>s s' app'. build recipient s = Some (s', app') \<Longrightarrow> unseen s app'" "send_built build mk recipient app = Some app'"
  shows "unseen app app'"
proof -
  obtain s1 app1 where s1: "build recipient app = Some (s1, app1)"
    "app' = (case s1 of None \<Rightarrow> app1 | Some s \<Rightarrow> send_event recipient (mk s) app1)"
    using assms(2) by (auto simp: send_built_def)
  have "unseen app app1" using assms(1) s1(1) .
  also have "unseen app1 app'" by (simp add: s1(2) send_event_unseen split: option.split)
  finally show ?thesis .
qed

lemma broadcast_in_match_unseen:
  assumes "\<And>m recipient s s' app'. build m recipient s = Some (s', app') \<Longrightarrow> unseen s app'"
    "broadcast_in_match build mk mid app = Some app'"
  shows "unseen app app'"
  using assms(2) unseen_each [where f = "send_built (build m) mk" for m, OF send_built_unseen, OF assms(1)]
  by (auto simp: broadcast_in_match_def Let_def split: option.splits if_splits)

lemma broadcast_in_training_unseen:
  assumes "\<And>m recipient s s' app'. build m recipient s = Some (s', app') \<Longrightarrow> unseen s app'"
    "broadcast_in_training build mk tid app = Some app'"
  shows "unseen app app'"
  using assms(2) unseen_each [where f = "send_built (build m) mk" for m, OF send_built_unseen, OF assms(1)]
  by (auto simp: broadcast_in_training_def Let_def split: option.splits if_splits)

lemma broadcasts_unseen:
  "broadcast_arena_state_snapshot mid app = Some app' \<Longrightarrow> unseen app app'"
  "broadcast_arena_delta_snapshot mid app = Some app' \<Longrightarrow> unseen app app'"
  "broadcast_training_state_snapshot mid app = Some app' \<Longrightarrow> unseen app app'"
  "broadcast_training_delta_snapshot mid app = Some app' \<Longrightarrow> unseen app app'"
  unfolding broadcast_arena_state_snapshot_def broadcast_arena_delta_snapshot_def broadcast_training_state_snapshot_def
    broadcast_training_delta_snapshot_def
  by (erule broadcast_in_match_unseen [rotated] broadcast_in_training_unseen [rotated], erule build_unseen)+

lemma effect_broadcasts_unseen:
  "broadcast_arena_effect_batch mid effects app = Some app' \<Longrightarrow> unseen app app'"
  "broadcast_training_effect_batch mid effects app = Some app' \<Longrightarrow> unseen app app'"
  unfolding broadcast_arena_effect_batch_def broadcast_training_effect_batch_def
  by (auto split: if_splits elim!: broadcast_in_match_unseen [rotated] broadcast_in_training_unseen [rotated] dest: build_unseen)

end
