(* ===== verification/App_Steps.thy ===== *)
theory App_Steps
  imports App_Registry
begin

text \<open>
  The steps of the registry and its invariant: connections and players match one to one, everybody in
  a lobby, a match or a training session is known there and nowhere else, no lobby, match or session
  is kept without players, and ids are never given twice. The locale \<open>refinement_map\<close> is what a
  program needs to inherit the invariant of its specification.
\<close>

section \<open>Steps\<close>

definition moved :: "player_id set \<Rightarrow> player_location \<Rightarrow> registry \<Rightarrow> registry" where
  "moved ps location r = r\<lparr>rg_place := \<lambda>p. if p \<in> ps \<and> rg_place r p \<noteq> None then Some location else rg_place r p\<rparr>"

definition drop_lobby :: "lobby_id \<Rightarrow> registry \<Rightarrow> registry" where
  "drop_lobby lid r = (if rg_lobbies r lid = Some {} then r\<lparr>rg_lobbies := (rg_lobbies r)(lid := None)\<rparr> else r)"

definition drop_match :: "match_id \<Rightarrow> registry \<Rightarrow> registry" where
  "drop_match mid r = (if \<exists>p. rg_place r p = Some (InMatch mid) \<or> rg_place r p = Some (InResults mid) then r
     else r\<lparr>rg_matches := (rg_matches r)(mid := None)\<rparr>)"

definition drop_training :: "match_id \<Rightarrow> registry \<Rightarrow> registry" where
  "drop_training tid r = (if \<exists>p. rg_place r p = Some (InTraining tid) then r
     else r\<lparr>rg_training := (rg_training r)(tid := None)\<rparr>)"

text \<open>What remains of the place a player has gone from.\<close>

fun vacated :: "player_location \<Rightarrow> player_id \<Rightarrow> registry \<Rightarrow> registry" where
  "vacated CentralLobby pid r = r"
| "vacated (InGameLobby lid) pid r =
     drop_lobby lid (r\<lparr>rg_lobbies := \<lambda>l. if l = lid then map_option (\<lambda>ps. ps - {pid}) (rg_lobbies r lid) else rg_lobbies r l\<rparr>)"
| "vacated (InMatch mid) pid r = drop_match mid r"
| "vacated (InTraining tid) pid r = drop_training tid r"
| "vacated (InResults mid) pid r = drop_match mid r"

definition unbound :: "player_id \<Rightarrow> registry \<Rightarrow> registry" where
  "unbound pid r = (case rg_bindings r pid of
       Some cid \<Rightarrow> r\<lparr>rg_connections := (rg_connections r)(cid := None), rg_bindings := (rg_bindings r)(pid := None)\<rparr>
     | None \<Rightarrow> r)"

inductive registry_step :: "registry \<Rightarrow> registry \<Rightarrow> bool" where
  connected: "rg_connections r cid = None \<Longrightarrow> rg_place r pid = None \<Longrightarrow>
    registry_step r (r\<lparr>rg_connections := (rg_connections r)(cid \<mapsto> pid), rg_bindings := (rg_bindings r)(pid \<mapsto> cid),
      rg_place := (rg_place r)(pid \<mapsto> CentralLobby)\<rparr>)"
| lobby_id_used: "registry_step r (r\<lparr>rg_next_lobby := sat_add (rg_next_lobby r) 1\<rparr>)"
| match_id_used: "registry_step r (r\<lparr>rg_next_match := sat_add (rg_next_match r) 1\<rparr>)"
| lobby_created: "rg_place r pid = Some CentralLobby \<Longrightarrow> lid = LobbyId (rg_next_lobby r) \<Longrightarrow>
    registry_step r (r\<lparr>rg_next_lobby := sat_add (rg_next_lobby r) 1, rg_lobbies := (rg_lobbies r)(lid \<mapsto> {pid}),
      rg_place := (rg_place r)(pid \<mapsto> InGameLobby lid)\<rparr>)"
| lobby_joined: "rg_place r pid = Some CentralLobby \<Longrightarrow> rg_lobbies r lid = Some ps \<Longrightarrow>
    registry_step r (r\<lparr>rg_lobbies := (rg_lobbies r)(lid \<mapsto> insert pid ps), rg_place := (rg_place r)(pid \<mapsto> InGameLobby lid)\<rparr>)"
| training_started: "rg_place r pid = Some CentralLobby \<Longrightarrow> tid = MatchId (rg_next_match r) \<Longrightarrow>
    registry_step r (r\<lparr>rg_next_match := sat_add (rg_next_match r) 1, rg_training := (rg_training r)(tid \<mapsto> pid),
      rg_place := (rg_place r)(pid \<mapsto> InTraining tid)\<rparr>)"
| match_launched: "rg_lobbies r lid = Some ps \<Longrightarrow> ps \<noteq> {} \<Longrightarrow> mid = MatchId (rg_next_match r) \<Longrightarrow>
    registry_step r (moved ps (InMatch mid) (r\<lparr>rg_next_match := sat_add (rg_next_match r) 1,
      rg_lobbies := (rg_lobbies r)(lid := None), rg_matches := (rg_matches r)(mid \<mapsto> (ps, True))\<rparr>))"
| match_over: "rg_matches r mid = Some (ps, True) \<Longrightarrow>
    registry_step r (moved ps (InResults mid) (r\<lparr>rg_matches := (rg_matches r)(mid \<mapsto> (ps, False))\<rparr>))"
| returned: "rg_place r pid = Some location \<Longrightarrow> (\<forall>mid. location \<noteq> InMatch mid) \<Longrightarrow>
    registry_step r (vacated location pid (r\<lparr>rg_place := (rg_place r)(pid \<mapsto> CentralLobby)\<rparr>))"
| disconnected: "rg_place r pid = Some location \<Longrightarrow> (\<forall>mid. location \<noteq> InMatch mid) \<Longrightarrow>
    registry_step r (vacated location pid (unbound pid (r\<lparr>rg_place := (rg_place r)(pid := None)\<rparr>)))"

definition registry_empty :: registry where
  "registry_empty = \<lparr>rg_connections = Map.empty, rg_bindings = Map.empty, rg_place = Map.empty, rg_lobbies = Map.empty,
     rg_matches = Map.empty, rg_training = Map.empty, rg_next_lobby = 1, rg_next_match = 1\<rparr>"

section \<open>Invariant\<close>

definition players_at :: "registry \<Rightarrow> player_location \<Rightarrow> player_id set" where
  "players_at r location = {p. rg_place r p = Some location}"

definition bindings_ok :: "registry \<Rightarrow> bool" where
  "bindings_ok r \<longleftrightarrow> (\<forall>cid pid. rg_connections r cid = Some pid \<longleftrightarrow> rg_bindings r pid = Some cid) \<and>
     dom (rg_bindings r) = dom (rg_place r)"

definition lobbies_ok :: "registry \<Rightarrow> bool" where
  "lobbies_ok r \<longleftrightarrow> (\<forall>lid. case rg_lobbies r lid of
       None \<Rightarrow> players_at r (InGameLobby lid) = {}
     | Some ps \<Rightarrow> players_at r (InGameLobby lid) = ps \<and> ps \<noteq> {} \<and> unat (lobby_id_get lid) < unat (rg_next_lobby r))"

text \<open>While a match is live all its players fight; afterwards those who have not left look at the results.\<close>

definition match_filled :: "player_id set \<Rightarrow> bool \<Rightarrow> player_id set \<Rightarrow> player_id set \<Rightarrow> bool" where
  "match_filled ps live fighting resting \<longleftrightarrow> fighting = (if live then ps else {}) \<and>
     resting \<subseteq> (if live then {} else ps) \<and> fighting \<union> resting \<noteq> {}"

definition matches_ok :: "registry \<Rightarrow> bool" where
  "matches_ok r \<longleftrightarrow> (\<forall>mid. case rg_matches r mid of
       None \<Rightarrow> players_at r (InMatch mid) = {} \<and> players_at r (InResults mid) = {}
     | Some (ps, live) \<Rightarrow> match_filled ps live (players_at r (InMatch mid)) (players_at r (InResults mid)) \<and>
         unat (match_id_get mid) < unat (rg_next_match r))"

definition training_ok :: "registry \<Rightarrow> bool" where
  "training_ok r \<longleftrightarrow> (\<forall>tid. case rg_training r tid of
       None \<Rightarrow> players_at r (InTraining tid) = {}
     | Some pid \<Rightarrow> players_at r (InTraining tid) = {pid} \<and> unat (match_id_get tid) < unat (rg_next_match r))"

definition registry_inv :: "registry \<Rightarrow> bool" where
  "registry_inv r \<longleftrightarrow> bindings_ok r \<and> lobbies_ok r \<and> matches_ok r \<and> training_ok r"

text \<open>The counters have not run out: from then on every new lobby, match or session would get the same id.\<close>

definition ids_left :: "registry \<Rightarrow> bool" where
  "ids_left r \<longleftrightarrow> rg_next_lobby r \<noteq> - 1 \<and> rg_next_match r \<noteq> - 1"

lemma registry_inv_empty: "registry_inv registry_empty"
  by (simp add: registry_inv_def registry_empty_def bindings_ok_def lobbies_ok_def matches_ok_def training_ok_def players_at_def)

lemma next_id: "sat_add n (1::u32) \<noteq> - 1 \<Longrightarrow> unat (sat_add n 1) = Suc (unat n)"
  by (auto simp: sat_add_def unat_word_ariths split: if_splits)

lemma next_id_back: "sat_add n (1::u32) \<noteq> - 1 \<Longrightarrow> n \<noteq> - 1"
  by (auto simp: sat_add_def unat_minus_one_word')

lemma registry_updates [simp]:
  "rg_next_lobby (moved ps l r) = rg_next_lobby r" "rg_next_match (moved ps l r) = rg_next_match r"
  "rg_connections (moved ps l r) = rg_connections r" "rg_bindings (moved ps l r) = rg_bindings r"
  "rg_lobbies (moved ps l r) = rg_lobbies r" "rg_matches (moved ps l r) = rg_matches r" "rg_training (moved ps l r) = rg_training r"
  by (simp_all add: moved_def)

lemma unbound_updates [simp]:
  "rg_next_lobby (unbound p r) = rg_next_lobby r" "rg_next_match (unbound p r) = rg_next_match r"
  "rg_place (unbound p r) = rg_place r" "rg_lobbies (unbound p r) = rg_lobbies r"
  "rg_matches (unbound p r) = rg_matches r" "rg_training (unbound p r) = rg_training r"
  by (simp_all add: unbound_def split: option.split)

lemma vacated_updates [simp]:
  "rg_next_lobby (vacated l p r) = rg_next_lobby r" "rg_next_match (vacated l p r) = rg_next_match r"
  "rg_place (vacated l p r) = rg_place r" "rg_connections (vacated l p r) = rg_connections r" "rg_bindings (vacated l p r) = rg_bindings r"
  by (cases l; simp add: drop_lobby_def drop_match_def drop_training_def)+

lemma drop_updates [simp]:
  "rg_next_lobby (drop_lobby l r) = rg_next_lobby r" "rg_place (drop_lobby l r) = rg_place r"
  "rg_next_match (drop_match m r) = rg_next_match r" "rg_place (drop_match m r) = rg_place r"
  "rg_next_match (drop_training m r) = rg_next_match r" "rg_place (drop_training m r) = rg_place r"
  by (simp_all add: drop_lobby_def drop_match_def drop_training_def)

lemma registry_step_ids: "registry_step r r' \<Longrightarrow> ids_left r' \<Longrightarrow> ids_left r"
  by (induction rule: registry_step.induct) (auto simp: ids_left_def dest: next_id_back)

lemma registry_steps_ids: "registry_step\<^sup>*\<^sup>* r r' \<Longrightarrow> ids_left r' \<Longrightarrow> ids_left r"
  by (induction rule: converse_rtranclp_induct) (auto dest: registry_step_ids)

lemma players_at_updates [simp]:
  "players_at (unbound p r) = players_at r" "players_at (vacated k p r) = players_at r"
  "players_at (drop_lobby lid r) = players_at r" "players_at (drop_match m r) = players_at r" "players_at (drop_training m r) = players_at r"
  "players_at (r\<lparr>rg_lobbies := ls\<rparr>) = players_at r" "players_at (r\<lparr>rg_matches := ms\<rparr>) = players_at r"
  "players_at (r\<lparr>rg_training := ts\<rparr>) = players_at r" "players_at (r\<lparr>rg_next_lobby := n\<rparr>) = players_at r"
  "players_at (r\<lparr>rg_next_match := n\<rparr>) = players_at r" "players_at (r\<lparr>rg_connections := cs\<rparr>) = players_at r"
  "players_at (r\<lparr>rg_bindings := bs\<rparr>) = players_at r"
  by (simp_all add: players_at_def fun_eq_iff)

lemma players_at_disjoint: "p \<in> players_at r l \<Longrightarrow> p \<in> players_at r l' \<Longrightarrow> l = l'"
  by (simp add: players_at_def)

lemma in_players_at: "rg_place r p = Some l \<longleftrightarrow> p \<in> players_at r l"
  by (simp add: players_at_def)

text \<open>The four parts of the invariant read only some of the fields.\<close>

lemma all_case_option: "(\<forall>x. case f x of None \<Rightarrow> P x | Some y \<Rightarrow> Q x y) \<longleftrightarrow> (\<forall>x. f x = None \<longrightarrow> P x) \<and> (\<forall>x y. f x = Some y \<longrightarrow> Q x y)"
  by (metis (no_types, lifting) not_None_eq option.simps(4) option.simps(5))

lemma lobbies_iff: "lobbies_ok r \<longleftrightarrow>
    (\<forall>lid. rg_lobbies r lid = None \<longrightarrow> players_at r (InGameLobby lid) = {}) \<and>
    (\<forall>lid ps. rg_lobbies r lid = Some ps \<longrightarrow> players_at r (InGameLobby lid) = ps \<and> ps \<noteq> {} \<and>
       unat (lobby_id_get lid) < unat (rg_next_lobby r))"
  by (simp add: lobbies_ok_def all_case_option)

lemma matches_iff: "matches_ok r \<longleftrightarrow>
    (\<forall>mid. rg_matches r mid = None \<longrightarrow> players_at r (InMatch mid) = {} \<and> players_at r (InResults mid) = {}) \<and>
    (\<forall>mid ps live. rg_matches r mid = Some (ps, live) \<longrightarrow> match_filled ps live (players_at r (InMatch mid)) (players_at r (InResults mid)) \<and>
       unat (match_id_get mid) < unat (rg_next_match r))"
  by (simp add: matches_ok_def all_case_option)

lemma training_iff: "training_ok r \<longleftrightarrow>
    (\<forall>tid. rg_training r tid = None \<longrightarrow> players_at r (InTraining tid) = {}) \<and>
    (\<forall>tid pid. rg_training r tid = Some pid \<longrightarrow> players_at r (InTraining tid) = {pid} \<and>
       unat (match_id_get tid) < unat (rg_next_match r))"
  by (simp add: training_ok_def all_case_option)

lemmas registry_iffs = lobbies_iff matches_iff training_iff

text \<open>A step that touches the places \<open>L\<close> only has to be checked there.\<close>

lemma lobbies_ok_but:
  assumes "lobbies_ok r" "\<And>l. l \<notin> L \<Longrightarrow> rg_lobbies s l = rg_lobbies r l" "\<And>l. l \<notin> L \<Longrightarrow> players_at s (InGameLobby l) = players_at r (InGameLobby l)"
    "unat (rg_next_lobby r) \<le> unat (rg_next_lobby s)"
    "\<And>l. l \<in> L \<Longrightarrow> rg_lobbies s l = None \<Longrightarrow> players_at s (InGameLobby l) = {}"
    "\<And>l ps. l \<in> L \<Longrightarrow> rg_lobbies s l = Some ps \<Longrightarrow> players_at s (InGameLobby l) = ps \<and> ps \<noteq> {} \<and> unat (lobby_id_get l) < unat (rg_next_lobby s)"
  shows "lobbies_ok s"
  unfolding lobbies_iff
proof (intro conjI allI impI)
  fix l assume "rg_lobbies s l = None"
  then show "players_at s (InGameLobby l) = {}" using assms(1,2,3,5) by (cases "l \<in> L") (simp_all add: lobbies_iff)
next
  fix l ps assume l: "rg_lobbies s l = Some ps"
  have "players_at s (InGameLobby l) = ps \<and> ps \<noteq> {} \<and> unat (lobby_id_get l) < unat (rg_next_lobby s)"
  proof (cases "l \<in> L")
    case False
    then have "rg_lobbies r l = Some ps" using assms(2) l by simp
    then have "players_at r (InGameLobby l) = ps \<and> ps \<noteq> {} \<and> unat (lobby_id_get l) < unat (rg_next_lobby r)"
      using assms(1) by (simp add: lobbies_iff)
    then show ?thesis using assms(3) [OF False] assms(4) by simp
  qed (use assms(6) l in blast)
  then show "players_at s (InGameLobby l) = ps" "ps \<noteq> {}" "unat (lobby_id_get l) < unat (rg_next_lobby s)" by blast+
qed

lemma matches_ok_but:
  assumes "matches_ok r" "\<And>m. m \<notin> L \<Longrightarrow> rg_matches s m = rg_matches r m"
    "\<And>m. m \<notin> L \<Longrightarrow> players_at s (InMatch m) = players_at r (InMatch m) \<and> players_at s (InResults m) = players_at r (InResults m)"
    "unat (rg_next_match r) \<le> unat (rg_next_match s)"
    "\<And>m. m \<in> L \<Longrightarrow> rg_matches s m = None \<Longrightarrow> players_at s (InMatch m) = {} \<and> players_at s (InResults m) = {}"
    "\<And>m ps live. m \<in> L \<Longrightarrow> rg_matches s m = Some (ps, live) \<Longrightarrow>
       match_filled ps live (players_at s (InMatch m)) (players_at s (InResults m)) \<and> unat (match_id_get m) < unat (rg_next_match s)"
  shows "matches_ok s"
  unfolding matches_iff
proof (intro conjI allI impI)
  fix m assume m: "rg_matches s m = None"
  have "players_at s (InMatch m) = {} \<and> players_at s (InResults m) = {}"
    using assms(1,2,3,5) m by (cases "m \<in> L") (simp_all add: matches_iff)
  then show "players_at s (InMatch m) = {}" "players_at s (InResults m) = {}" by blast+
next
  fix m ps live assume m: "rg_matches s m = Some (ps, live)"
  have "match_filled ps live (players_at s (InMatch m)) (players_at s (InResults m)) \<and> unat (match_id_get m) < unat (rg_next_match s)"
  proof (cases "m \<in> L")
    case False
    then have "rg_matches r m = Some (ps, live)" using assms(2) m by simp
    then have "match_filled ps live (players_at r (InMatch m)) (players_at r (InResults m)) \<and> unat (match_id_get m) < unat (rg_next_match r)"
      using assms(1) by (simp add: matches_iff)
    then show ?thesis using assms(3) [OF False] assms(4) by simp
  qed (use assms(6) m in blast)
  then show "match_filled ps live (players_at s (InMatch m)) (players_at s (InResults m))" "unat (match_id_get m) < unat (rg_next_match s)" by blast+
qed

lemma training_ok_but:
  assumes "training_ok r" "\<And>t. t \<notin> L \<Longrightarrow> rg_training s t = rg_training r t" "\<And>t. t \<notin> L \<Longrightarrow> players_at s (InTraining t) = players_at r (InTraining t)"
    "unat (rg_next_match r) \<le> unat (rg_next_match s)"
    "\<And>t. t \<in> L \<Longrightarrow> rg_training s t = None \<Longrightarrow> players_at s (InTraining t) = {}"
    "\<And>t pid. t \<in> L \<Longrightarrow> rg_training s t = Some pid \<Longrightarrow> players_at s (InTraining t) = {pid} \<and> unat (match_id_get t) < unat (rg_next_match s)"
  shows "training_ok s"
  unfolding training_iff
proof (intro conjI allI impI)
  fix t assume "rg_training s t = None"
  then show "players_at s (InTraining t) = {}" using assms(1,2,3,5) by (cases "t \<in> L") (simp_all add: training_iff)
next
  fix t pid assume t: "rg_training s t = Some pid"
  have "players_at s (InTraining t) = {pid} \<and> unat (match_id_get t) < unat (rg_next_match s)"
  proof (cases "t \<in> L")
    case False
    then have "rg_training r t = Some pid" using assms(2) t by simp
    then have "players_at r (InTraining t) = {pid} \<and> unat (match_id_get t) < unat (rg_next_match r)"
      using assms(1) by (simp add: training_iff)
    then show ?thesis using assms(3) [OF False] assms(4) by simp
  qed (use assms(6) t in blast)
  then show "players_at s (InTraining t) = {pid}" "unat (match_id_get t) < unat (rg_next_match s)" by blast+
qed

lemma same_lobbies: "lobbies_ok r \<Longrightarrow> rg_lobbies s = rg_lobbies r \<Longrightarrow> (\<And>l. players_at s (InGameLobby l) = players_at r (InGameLobby l)) \<Longrightarrow>
    unat (rg_next_lobby r) \<le> unat (rg_next_lobby s) \<Longrightarrow> lobbies_ok s"
  by (rule lobbies_ok_but [where L = "{}"]) auto

lemma same_matches: "matches_ok r \<Longrightarrow> rg_matches s = rg_matches r \<Longrightarrow>
    (\<And>m. players_at s (InMatch m) = players_at r (InMatch m) \<and> players_at s (InResults m) = players_at r (InResults m)) \<Longrightarrow>
    unat (rg_next_match r) \<le> unat (rg_next_match s) \<Longrightarrow> matches_ok s"
  by (rule matches_ok_but [where L = "{}"]) auto

lemma same_training: "training_ok r \<Longrightarrow> rg_training s = rg_training r \<Longrightarrow> (\<And>t. players_at s (InTraining t) = players_at r (InTraining t)) \<Longrightarrow>
    unat (rg_next_match r) \<le> unat (rg_next_match s) \<Longrightarrow> training_ok s"
  by (rule training_ok_but [where L = "{}"]) auto

lemma bindings_same: "bindings_ok r \<Longrightarrow> rg_connections s = rg_connections r \<Longrightarrow> rg_bindings s = rg_bindings r \<Longrightarrow>
    dom (rg_place s) = dom (rg_place r) \<Longrightarrow> bindings_ok s"
  by (simp add: bindings_ok_def)

lemma registry_invD: "registry_inv r \<Longrightarrow> bindings_ok r" "registry_inv r \<Longrightarrow> lobbies_ok r" "registry_inv r \<Longrightarrow> matches_ok r"
  "registry_inv r \<Longrightarrow> training_ok r"
  by (simp_all add: registry_inv_def)

lemma registry_invI: "bindings_ok r \<Longrightarrow> lobbies_ok r \<Longrightarrow> matches_ok r \<Longrightarrow> training_ok r \<Longrightarrow> registry_inv r"
  by (simp add: registry_inv_def)

lemma old_id: "lobbies_ok r \<Longrightarrow> rg_lobbies r lid = Some ps \<Longrightarrow> unat (lobby_id_get lid) < unat (rg_next_lobby r)"
  "matches_ok r \<Longrightarrow> rg_matches r mid = Some v \<Longrightarrow> unat (match_id_get mid) < unat (rg_next_match r)"
  "training_ok r \<Longrightarrow> rg_training r tid = Some pid \<Longrightarrow> unat (match_id_get tid) < unat (rg_next_match r)"
  by (cases v; simp add: registry_iffs)+

lemma fresh_id: "lobbies_ok r \<Longrightarrow> rg_lobbies r (LobbyId (rg_next_lobby r)) = None"
  "matches_ok r \<Longrightarrow> rg_matches r (MatchId (rg_next_match r)) = None"
  "training_ok r \<Longrightarrow> rg_training r (MatchId (rg_next_match r)) = None"
  using old_id(1) [of r "LobbyId (rg_next_lobby r)"] old_id(2) [of r "MatchId (rg_next_match r)"] old_id(3) [of r "MatchId (rg_next_match r)"]
  by (cases "rg_lobbies r (LobbyId (rg_next_lobby r))"; cases "rg_matches r (MatchId (rg_next_match r))";
      cases "rg_training r (MatchId (rg_next_match r))"; simp)+

lemma binding_unique: "bindings_ok r \<Longrightarrow> rg_bindings r p = Some cid \<Longrightarrow> rg_bindings r q = Some cid \<Longrightarrow> p = q"
  unfolding bindings_ok_def by (metis option.inject)

text \<open>Moving one player out of the central lobby, or in.\<close>

definition goes :: "registry \<Rightarrow> registry \<Rightarrow> player_id \<Rightarrow> player_location \<Rightarrow> bool" where
  "goes r s pid location \<longleftrightarrow> (\<forall>l. l \<noteq> CentralLobby \<longrightarrow>
     players_at s l = (if l = location then insert pid (players_at r l) else players_at r l)) \<and> dom (rg_place s) = insert pid (dom (rg_place r))"

lemma goesI: "rg_place r pid = Some CentralLobby \<or> rg_place r pid = None \<Longrightarrow> rg_place s = (rg_place r)(pid \<mapsto> location) \<Longrightarrow>
    goes r s pid location"
  by (auto simp: goes_def players_at_def)

lemma inv_connected:
  assumes "registry_inv r" "rg_connections r cid = None" "rg_place r pid = None"
  shows "registry_inv (r\<lparr>rg_connections := (rg_connections r)(cid \<mapsto> pid), rg_bindings := (rg_bindings r)(pid \<mapsto> cid),
      rg_place := (rg_place r)(pid \<mapsto> CentralLobby)\<rparr>)" (is "registry_inv ?s")
proof -
  have g: "goes r ?s pid CentralLobby" using assms(3) by (intro goesI) simp_all
  have "rg_bindings r pid = None" "\<And>k. rg_bindings r k \<noteq> Some cid"
    using assms by (auto simp: registry_inv_def bindings_ok_def) (metis option.distinct(1))
  then have "bindings_ok ?s" using assms by (auto simp: registry_inv_def bindings_ok_def)
  moreover have "lobbies_ok ?s" by (rule same_lobbies [OF registry_invD(2) [OF assms(1)]]) (use g in \<open>simp_all add: goes_def\<close>)
  moreover have "matches_ok ?s" by (rule same_matches [OF registry_invD(3) [OF assms(1)]]) (use g in \<open>simp_all add: goes_def\<close>)
  moreover have "training_ok ?s" by (rule same_training [OF registry_invD(4) [OF assms(1)]]) (use g in \<open>simp_all add: goes_def\<close>)
  ultimately show ?thesis by (rule registry_invI)
qed

lemma next_id_le: "unat n \<le> unat (sat_add n (1::u32))"
  using le_sat_add [of n 1] by (simp add: word_le_nat_alt)

lemma inv_id_used: assumes "registry_inv r"
  shows "registry_inv (r\<lparr>rg_next_lobby := sat_add (rg_next_lobby r) 1\<rparr>)" "registry_inv (r\<lparr>rg_next_match := sat_add (rg_next_match r) 1\<rparr>)"
proof -
  show "registry_inv (r\<lparr>rg_next_lobby := sat_add (rg_next_lobby r) 1\<rparr>)"
    by (rule registry_invI [OF bindings_same [OF registry_invD(1) [OF assms]] same_lobbies [OF registry_invD(2) [OF assms]]
        same_matches [OF registry_invD(3) [OF assms]] same_training [OF registry_invD(4) [OF assms]]]) (simp_all add: next_id_le)
  show "registry_inv (r\<lparr>rg_next_match := sat_add (rg_next_match r) 1\<rparr>)"
    by (rule registry_invI [OF bindings_same [OF registry_invD(1) [OF assms]] same_lobbies [OF registry_invD(2) [OF assms]]
        same_matches [OF registry_invD(3) [OF assms]] same_training [OF registry_invD(4) [OF assms]]]) (simp_all add: next_id_le)
qed

lemma inv_lobby_gains:
  assumes "registry_inv r" "rg_place r pid = Some CentralLobby" "rg_lobbies s = (rg_lobbies r)(lid \<mapsto> insert pid ps)"
    "rg_place s = (rg_place r)(pid \<mapsto> InGameLobby lid)" "players_at r (InGameLobby lid) = ps"
    "unat (rg_next_lobby r) \<le> unat (rg_next_lobby s)" "unat (lobby_id_get lid) < unat (rg_next_lobby s)"
    "rg_matches s = rg_matches r" "rg_training s = rg_training r" "rg_next_match s = rg_next_match r"
    "rg_connections s = rg_connections r" "rg_bindings s = rg_bindings r"
  shows "registry_inv s"
proof -
  have g: "goes r s pid (InGameLobby lid)" using assms(2,4) by (intro goesI) simp_all
  have "lobbies_ok s" by (rule lobbies_ok_but [OF registry_invD(2) [OF assms(1)], where L = "{lid}"])
      (use g assms in \<open>auto simp: goes_def\<close>)
  moreover have "matches_ok s" by (rule same_matches [OF registry_invD(3) [OF assms(1)]]) (use g assms(8,10) in \<open>simp_all add: goes_def\<close>)
  moreover have "training_ok s" by (rule same_training [OF registry_invD(4) [OF assms(1)]]) (use g assms(9,10) in \<open>simp_all add: goes_def\<close>)
  moreover have "bindings_ok s" by (rule bindings_same [OF registry_invD(1) [OF assms(1)]]) (use g assms in \<open>auto simp: goes_def\<close>)
  ultimately show ?thesis by (intro registry_invI)
qed

lemma inv_training_started:
  assumes "registry_inv r" "rg_place r pid = Some CentralLobby" "sat_add (rg_next_match r) 1 \<noteq> - 1"
  shows "registry_inv (r\<lparr>rg_next_match := sat_add (rg_next_match r) 1, rg_training := (rg_training r)(MatchId (rg_next_match r) \<mapsto> pid),
      rg_place := (rg_place r)(pid \<mapsto> InTraining (MatchId (rg_next_match r)))\<rparr>)" (is "registry_inv ?s")
proof -
  let ?tid = "MatchId (rg_next_match r)"
  have g: "goes r ?s pid (InTraining ?tid)" using assms(2) by (intro goesI) simp_all
  have "rg_training r ?tid = None" using registry_invD(4) [OF assms(1)] by (rule fresh_id)
  then have none: "players_at r (InTraining ?tid) = {}" using registry_invD(4) [OF assms(1)] by (simp add: training_iff)
  have "training_ok ?s" by (rule training_ok_but [OF registry_invD(4) [OF assms(1)], where L = "{?tid}"])
      (use g none assms(3) in \<open>auto simp: goes_def next_id_le next_id\<close>)
  moreover have "matches_ok ?s" by (rule same_matches [OF registry_invD(3) [OF assms(1)]]) (use g in \<open>simp_all add: goes_def next_id_le\<close>)
  moreover have "lobbies_ok ?s" by (rule same_lobbies [OF registry_invD(2) [OF assms(1)]]) (use g in \<open>simp_all add: goes_def\<close>)
  moreover have "bindings_ok ?s" by (rule bindings_same [OF registry_invD(1) [OF assms(1)]]) (use g assms(2) in \<open>auto simp: goes_def\<close>)
  ultimately show ?thesis by (intro registry_invI)
qed

text \<open>Moving everybody of one place to another.\<close>

lemma players_at_moved: "ps = players_at r k \<Longrightarrow> k \<noteq> l' \<Longrightarrow>
    players_at (moved ps l' s) l = (if l = l' then players_at r l \<union> ps else if l = k then {} else players_at r l)" if "rg_place s = rg_place r"
  using that by (auto simp: players_at_def moved_def)

lemma inv_match_launched:
  assumes "registry_inv r" "rg_lobbies r lid = Some ps" "sat_add (rg_next_match r) 1 \<noteq> - 1"
  shows "registry_inv (moved ps (InMatch (MatchId (rg_next_match r))) (r\<lparr>rg_next_match := sat_add (rg_next_match r) 1,
      rg_lobbies := (rg_lobbies r)(lid := None), rg_matches := (rg_matches r)(MatchId (rg_next_match r) \<mapsto> (ps, True))\<rparr>))"
    (is "registry_inv (moved ps (InMatch ?mid) ?s)")
proof -
  have ps: "ps = players_at r (InGameLobby lid)" "ps \<noteq> {}" using registry_invD(2) [OF assms(1)] assms(2) by (auto simp: lobbies_iff)
  have "rg_matches r ?mid = None" using registry_invD(3) [OF assms(1)] by (rule fresh_id)
  then have none: "players_at r (InMatch ?mid) = {}" "players_at r (InResults ?mid) = {}"
    using registry_invD(3) [OF assms(1)] by (auto simp: matches_iff)
  note at = players_at_moved [OF _ ps(1), of ?s "InMatch ?mid", simplified]
  have "lobbies_ok (moved ps (InMatch ?mid) ?s)" by (rule lobbies_ok_but [OF registry_invD(2) [OF assms(1)], where L = "{lid}"])
      (simp_all add: at)
  moreover have "matches_ok (moved ps (InMatch ?mid) ?s)" by (rule matches_ok_but [OF registry_invD(3) [OF assms(1)], where L = "{?mid}"])
      (use none ps(2) assms(3) in \<open>auto simp: at next_id_le next_id match_filled_def\<close>)
  moreover have "training_ok (moved ps (InMatch ?mid) ?s)" by (rule same_training [OF registry_invD(4) [OF assms(1)]]) (simp_all add: at next_id_le)
  moreover have "bindings_ok (moved ps (InMatch ?mid) ?s)" by (rule bindings_same [OF registry_invD(1) [OF assms(1)]])
      (auto simp: moved_def split: if_splits)
  ultimately show ?thesis by (intro registry_invI)
qed

lemma inv_match_over:
  assumes "registry_inv r" "rg_matches r mid = Some (ps, True)"
  shows "registry_inv (moved ps (InResults mid) (r\<lparr>rg_matches := (rg_matches r)(mid \<mapsto> (ps, False))\<rparr>))"
    (is "registry_inv (moved ps (InResults mid) ?s)")
proof -
  have "match_filled ps True (players_at r (InMatch mid)) (players_at r (InResults mid)) \<and> unat (match_id_get mid) < unat (rg_next_match r)"
    using registry_invD(3) [OF assms(1)] assms(2) by (simp add: matches_iff)
  then have ps: "ps = players_at r (InMatch mid)" "players_at r (InResults mid) = {}" "ps \<noteq> {}" "unat (match_id_get mid) < unat (rg_next_match r)"
    by (auto simp: match_filled_def)
  note at = players_at_moved [OF _ ps(1), of ?s "InResults mid", simplified]
  have "matches_ok (moved ps (InResults mid) ?s)" by (rule matches_ok_but [OF registry_invD(3) [OF assms(1)], where L = "{mid}"])
      (use ps(2,3,4) in \<open>auto simp: at match_filled_def\<close>)
  moreover have "lobbies_ok (moved ps (InResults mid) ?s)" by (rule same_lobbies [OF registry_invD(2) [OF assms(1)]]) (simp_all add: at)
  moreover have "training_ok (moved ps (InResults mid) ?s)" by (rule same_training [OF registry_invD(4) [OF assms(1)]]) (simp_all add: at)
  moreover have "bindings_ok (moved ps (InResults mid) ?s)" by (rule bindings_same [OF registry_invD(1) [OF assms(1)]])
      (auto simp: moved_def split: if_splits)
  ultimately show ?thesis by (intro registry_invI)
qed

text \<open>Whoever goes, in whatever way, leaves his place to the others who are there.\<close>

lemma inv_gone:
  assumes "registry_inv r" "rg_place r pid = Some location" "\<forall>mid. location \<noteq> InMatch mid"
    "rg_lobbies s = rg_lobbies r" "rg_matches s = rg_matches r" "rg_training s = rg_training r"
    "rg_next_lobby s = rg_next_lobby r" "rg_next_match s = rg_next_match r"
    "\<And>l. l \<noteq> CentralLobby \<Longrightarrow> players_at s l = players_at r l - {pid}" "bindings_ok s"
  shows "registry_inv (vacated location pid s)"
proof -
  note inv = registry_invD [OF assms(1)]
  have other: "players_at s l = players_at r l" if "l \<noteq> CentralLobby" "l \<noteq> location" for l
    using assms(2,9) that by (auto simp: players_at_def)
  have there: "pid \<in> players_at r location" using assms(2) by (simp add: players_at_def)
  have "lobbies_ok (vacated location pid s)"
  proof (rule lobbies_ok_but [OF inv(2), where L = "{l. location = InGameLobby l}"])
    fix l ps assume l: "l \<in> {l. location = InGameLobby l}" "rg_lobbies (vacated location pid s) l = Some ps"
    then obtain qs where "rg_lobbies r l = Some qs" "ps = qs - {pid}" "ps \<noteq> {}"
      using assms(4) by (auto simp: drop_lobby_def split: if_splits)
    with l(1) show "players_at (vacated location pid s) (InGameLobby l) = ps \<and> ps \<noteq> {} \<and>
        unat (lobby_id_get l) < unat (rg_next_lobby (vacated location pid s))"
      using inv(2) assms(7) assms(9) [of location] by (simp add: lobbies_iff)
  next
    fix l assume l: "l \<in> {l. location = InGameLobby l}" "rg_lobbies (vacated location pid s) l = None"
    then have "rg_lobbies r l = None \<or> rg_lobbies r l = Some {pid} \<or> rg_lobbies r l = Some {}"
      using assms(4) by (auto simp: drop_lobby_def split: if_splits)
    then show "players_at (vacated location pid s) (InGameLobby l) = {}"
      using l(1) inv(2) assms(9) [of location] by (auto simp: lobbies_iff)
  qed (use assms(4,7) other in \<open>cases location; simp add: drop_lobby_def drop_match_def drop_training_def\<close>)+
  moreover have "matches_ok (vacated location pid s)"
  proof (rule matches_ok_but [OF inv(3), where L = "{m. location = InResults m}"])
    fix m ps live assume m: "m \<in> {m. location = InResults m}" "rg_matches (vacated location pid s) m = Some (ps, live)"
    then have s: "rg_matches r m = Some (ps, live)" "players_at s (InMatch m) \<union> players_at s (InResults m) \<noteq> {}"
      using assms(5) by (auto simp: drop_match_def in_players_at split: if_splits)
    then have "match_filled ps live (players_at r (InMatch m)) (players_at r (InResults m)) \<and> unat (match_id_get m) < unat (rg_next_match r)"
      using inv(3) by (simp add: matches_iff)
    moreover have "players_at s (InMatch m) = players_at r (InMatch m)" "players_at s (InResults m) = players_at r (InResults m) - {pid}"
      using other [of "InMatch m"] assms(9) [of "InResults m"] m(1) by auto
    ultimately show "match_filled ps live (players_at (vacated location pid s) (InMatch m)) (players_at (vacated location pid s) (InResults m)) \<and>
        unat (match_id_get m) < unat (rg_next_match (vacated location pid s))"
      using s(2) assms(8) by (auto simp: match_filled_def split: if_splits)
  next
    fix m assume m: "m \<in> {m. location = InResults m}" "rg_matches (vacated location pid s) m = None"
    then have "rg_matches r m = None \<or> players_at s (InMatch m) = {} \<and> players_at s (InResults m) = {}"
      using assms(5) by (auto simp: drop_match_def in_players_at split: if_splits)
    then show "players_at (vacated location pid s) (InMatch m) = {} \<and> players_at (vacated location pid s) (InResults m) = {}"
      using inv(3) assms(9) by (auto simp: matches_iff)
  qed (use assms(3,5,8) other in \<open>cases location; simp add: drop_lobby_def drop_match_def drop_training_def\<close>)+
  moreover have "training_ok (vacated location pid s)"
  proof (rule training_ok_but [OF inv(4), where L = "{t. location = InTraining t}"])
    fix t p assume t: "t \<in> {t. location = InTraining t}" "rg_training (vacated location pid s) t = Some p"
    then have "rg_training r t = Some p" "players_at s (InTraining t) \<noteq> {}"
      using assms(6) by (auto simp: drop_training_def in_players_at split: if_splits)
    then have False using inv(4) t(1) there assms(9) [of "InTraining t"] by (auto simp: training_iff)
    then show "players_at (vacated location pid s) (InTraining t) = {p} \<and> unat (match_id_get t) < unat (rg_next_match (vacated location pid s))" ..
  next
    fix t assume t: "t \<in> {t. location = InTraining t}" "rg_training (vacated location pid s) t = None"
    then have "rg_training r t = None \<or> players_at s (InTraining t) = {}"
      using assms(6) by (auto simp: drop_training_def in_players_at split: if_splits)
    then show "players_at (vacated location pid s) (InTraining t) = {}"
      using inv(4) assms(9) by (auto simp: training_iff)
  qed (use assms(6,8) other in \<open>cases location; simp add: drop_lobby_def drop_match_def drop_training_def\<close>)+
  moreover have "bindings_ok (vacated location pid s)"
    by (rule bindings_same [OF assms(10)]) simp_all
  ultimately show ?thesis by (intro registry_invI)
qed

lemma inv_returned:
  assumes "registry_inv r" "rg_place r pid = Some location" "\<forall>mid. location \<noteq> InMatch mid"
  shows "registry_inv (vacated location pid (r\<lparr>rg_place := (rg_place r)(pid \<mapsto> CentralLobby)\<rparr>))"
proof (rule inv_gone [OF assms])
  show "bindings_ok (r\<lparr>rg_place := (rg_place r)(pid \<mapsto> CentralLobby)\<rparr>)"
    by (rule bindings_same [OF registry_invD(1) [OF assms(1)]]) (use assms(2) in auto)
qed (auto simp: players_at_def)

lemma inv_disconnected:
  assumes "registry_inv r" "rg_place r pid = Some location" "\<forall>mid. location \<noteq> InMatch mid"
  shows "registry_inv (vacated location pid (unbound pid (r\<lparr>rg_place := (rg_place r)(pid := None)\<rparr>)))"
proof (rule inv_gone [OF assms])
  obtain cid where cid: "rg_bindings r pid = Some cid"
    using registry_invD(1) [OF assms(1)] assms(2) by (metis bindings_ok_def domD domI)
  show "bindings_ok (unbound pid (r\<lparr>rg_place := (rg_place r)(pid := None)\<rparr>))"
    unfolding bindings_ok_def
  proof (intro conjI allI)
    have b: "rg_connections r c = Some p \<longleftrightarrow> rg_bindings r p = Some c" "dom (rg_bindings r) = dom (rg_place r)" for c p
      using registry_invD(1) [OF assms(1)] by (simp_all add: bindings_ok_def)
    fix c p
    have "p \<noteq> pid \<Longrightarrow> rg_bindings r p \<noteq> Some cid"
      using binding_unique [OF registry_invD(1) [OF assms(1)] cid] by blast
    then show "(rg_connections (unbound pid (r\<lparr>rg_place := (rg_place r)(pid := None)\<rparr>)) c = Some p) =
        (rg_bindings (unbound pid (r\<lparr>rg_place := (rg_place r)(pid := None)\<rparr>)) p = Some c)"
      using cid b(1) [of c p] b(1) [of c pid] by (cases "c = cid"; cases "p = pid"; simp add: unbound_def)
    show "dom (rg_bindings (unbound pid (r\<lparr>rg_place := (rg_place r)(pid := None)\<rparr>))) =
        dom (rg_place (unbound pid (r\<lparr>rg_place := (rg_place r)(pid := None)\<rparr>)))"
      using cid b(2) by (simp add: unbound_def)
  qed
qed (auto simp: players_at_def)

lemma registry_step_inv: "registry_step r r' \<Longrightarrow> registry_inv r \<Longrightarrow> ids_left r' \<Longrightarrow> registry_inv r'"
proof (induction rule: registry_step.induct)
  case (lobby_created r pid lid)
  then have "rg_lobbies r lid = None" using fresh_id(1) [OF registry_invD(2) [OF lobby_created(3)]] by simp
  then have none: "players_at r (InGameLobby lid) = {}" using registry_invD(2) [OF lobby_created(3)] by (simp add: lobbies_iff)
  show ?case by (rule inv_lobby_gains [OF lobby_created(3,1), where lid = lid and ps = "{}"])
      (use lobby_created none in \<open>simp_all add: next_id_le next_id ids_left_def\<close>)
next
  case (lobby_joined r pid lid ps)
  then have "players_at r (InGameLobby lid) = ps" "unat (lobby_id_get lid) < unat (rg_next_lobby r)"
    by (auto simp: registry_inv_def lobbies_iff)
  then show ?case by (intro inv_lobby_gains [OF lobby_joined(3,1), where lid = lid and ps = ps]) simp_all
next
  case (connected r cid pid) then show ?case by (intro inv_connected)
next
  case (training_started r pid tid) 
  then show ?case unfolding training_started(2) by (intro inv_training_started) (simp_all add: ids_left_def)
next
  case (match_launched r lid ps mid)
  then show ?case unfolding match_launched(3) by (intro inv_match_launched) (simp_all add: ids_left_def)
qed (simp_all add: inv_id_used inv_match_over inv_returned inv_disconnected)

section \<open>Refinement\<close>

text \<open>
  What a program must show of its steps to inherit an invariant of its specification that holds as
  long as the specification stays in bounds.
\<close>

locale refinement_map =
  fixes step :: "'i \<Rightarrow> 's \<Rightarrow> 's option"
    and abs :: "'s \<Rightarrow> 'a"
    and spec :: "'a \<Rightarrow> 'a \<Rightarrow> bool"
    and data_ok :: "'s \<Rightarrow> bool"
    and spec_inv :: "'a \<Rightarrow> bool"
    and bounded :: "'a \<Rightarrow> bool"
  assumes data_kept: "step i s = Some s' \<Longrightarrow> data_ok s \<Longrightarrow> data_ok s'"
    and bounds_back: "step i s = Some s' \<Longrightarrow> data_ok s \<Longrightarrow> bounded (abs s') \<Longrightarrow> bounded (abs s)"
    and simulates: "step i s = Some s' \<Longrightarrow> data_ok s \<Longrightarrow> spec_inv (abs s) \<Longrightarrow> spec\<^sup>*\<^sup>* (abs s) (abs s')"
    and spec_kept: "spec a b \<Longrightarrow> spec_inv a \<Longrightarrow> bounded b \<Longrightarrow> spec_inv b"
    and spec_back: "spec a b \<Longrightarrow> bounded b \<Longrightarrow> bounded a"
begin

lemma spec_back_many: "spec\<^sup>*\<^sup>* a b \<Longrightarrow> bounded b \<Longrightarrow> bounded a"
  by (induction rule: converse_rtranclp_induct) (auto dest: spec_back)

lemma spec_kept_many: "spec\<^sup>*\<^sup>* a b \<Longrightarrow> spec_inv a \<Longrightarrow> bounded b \<Longrightarrow> spec_inv b"
  by (induction rule: rtranclp_induct) (auto dest: spec_kept spec_back)

lemma run_back: "each_opt step is s = Some s' \<Longrightarrow> data_ok s \<Longrightarrow> bounded (abs s') \<Longrightarrow> bounded (abs s)"
proof (induction "is" arbitrary: s)
  case (Cons i "is")
  then obtain s1 where s1: "step i s = Some s1" "each_opt step is s1 = Some s'" by (auto split: option.splits)
  with Cons.prems data_kept have "data_ok s1" by blast
  with Cons s1 bounds_back show ?case by blast
qed simp

lemma run_refines:
  assumes "each_opt step is s = Some s'" "data_ok s" "spec_inv (abs s)" "bounded (abs s')"
  shows "data_ok s' \<and> spec_inv (abs s') \<and> spec\<^sup>*\<^sup>* (abs s) (abs s')"
  using assms
proof (induction "is" arbitrary: s)
  case (Cons i "is")
  then obtain s1 where s1: "step i s = Some s1" "each_opt step is s1 = Some s'" by (auto split: option.splits)
  have d: "data_ok s1" using data_kept s1(1) Cons.prems(2) by blast
  have sim: "spec\<^sup>*\<^sup>* (abs s) (abs s1)" using simulates s1(1) Cons.prems(2,3) by blast
  have "spec_inv (abs s1)" using spec_kept_many [OF sim Cons.prems(3)] run_back [OF s1(2) d Cons.prems(4)] by blast
  then have "data_ok s' \<and> spec_inv (abs s') \<and> spec\<^sup>*\<^sup>* (abs s1) (abs s')" using Cons.IH [OF s1(2) d] Cons.prems(4) by blast
  with sim show ?case by (meson rtranclp_trans)
qed simp

end

end
