(* ===== verification/App_Handlers.thy ===== *)
theory App_Handlers
  imports App_Steps
begin

text \<open>
  The handlers of commands and disconnections take the registry through its steps: \<open>sim\<close> is the
  simulation relation, composed along the calls of a handler.
\<close>

definition sim :: "'w server_app \<Rightarrow> 'w server_app \<Rightarrow> bool" where
  "sim app app' \<longleftrightarrow> timing app' = timing app \<and>
     (app_ok app \<longrightarrow> app_ok app' \<and> registry_step\<^sup>*\<^sup>* (reg app) (reg app'))"

lemma sim_trans [trans]: "sim app app' \<Longrightarrow> sim app' app'' \<Longrightarrow> sim app app''"
  by (auto simp: sim_def)

lemma unseen_sim: "unseen app app' \<Longrightarrow> sim app app'"
  by (simp add: sim_def unseen_def)

lemma sim_unseen [trans]: "sim app app' \<Longrightarrow> unseen app' app'' \<Longrightarrow> sim app app''"
  by (auto simp: sim_def unseen_def)

lemma unseen_then_sim [trans]: "unseen app app' \<Longrightarrow> sim app' app'' \<Longrightarrow> sim app app''"
  by (auto simp: sim_def unseen_def)

text \<open>Sending after something else.\<close>

lemmas unseen_after = unseen_sends [THEN [2] unseen_trans]
lemmas sim_after = unseen_sends [THEN [2] sim_unseen]

lemmas timing_sends [simp] = unseen_sends [THEN unseenD(2)]
lemmas reg_sends [simp] = unseen_sends [THEN unseenD(1)]

lemma simI: "timing app' = timing app \<Longrightarrow> (app_ok app \<Longrightarrow> app_ok app') \<Longrightarrow> (app_ok app \<Longrightarrow> registry_step (reg app) (reg app')) \<Longrightarrow> sim app app'"
  by (simp add: sim_def r_into_rtranclp)

lemma sim_refl [simp, intro]: "sim app app"
  by (simp add: sim_def)

lemma sim_each: "(\<And>x s s'. x \<in> set xs \<Longrightarrow> f x s = Some s' \<Longrightarrow> sim s s') \<Longrightarrow> each_opt f xs s = Some s' \<Longrightarrow> sim s s'"
proof (induction xs arbitrary: s)
  case (Cons x xs)
  from Cons.prems(2) obtain s1 where s1: "f x s = Some s1" "each_opt f xs s1 = Some s'"
    by (auto split: option.splits)
  have "sim s s1" by (rule Cons.prems(1) [OF _ s1(1)]) simp
  also have "sim s1 s'" by (rule Cons.IH [OF _ s1(2)]) (rule Cons.prems(1), simp_all)
  finally show ?case .
qed simp

text \<open>Reading the registry off the application.\<close>

lemma reg_fields [simp]:
  "rg_connections (reg app) cid = bt_get (sa_connections app) cid" "rg_bindings (reg app) pid = bt_get (sa_player_connections app) pid"
  "rg_place (reg app) pid = map_option cn_location (bt_get (sa_players app) pid)"
  "rg_lobbies (reg app) lid = map_option lobby_ids (bt_get (sa_game_lobbies app) lid)"
  "rg_matches (reg app) mid = map_option match_state (bt_get (sa_matches app) mid)"
  "rg_training (reg app) mid = map_option (\<lambda>r. ta_player_id (tr_participant r)) (bt_get (sa_training_sessions app) mid)"
  "rg_next_lobby (reg app) = sa_next_lobby_id app" "rg_next_match (reg app) = sa_next_match_id app"
  by (simp_all add: reg_def)

lemma registry_eqI: "rg_connections r = rg_connections s \<Longrightarrow> rg_bindings r = rg_bindings s \<Longrightarrow> rg_place r = rg_place s \<Longrightarrow>
    rg_lobbies r = rg_lobbies s \<Longrightarrow> rg_matches r = rg_matches s \<Longrightarrow> rg_training r = rg_training s \<Longrightarrow>
    rg_next_lobby r = rg_next_lobby s \<Longrightarrow> rg_next_match r = rg_next_match s \<Longrightarrow> (r :: registry) = s"
  by simp

section \<open>Where a player is\<close>

lemma ensure_location_cases:
  assumes "ensure_location pid l app = (b, app')"
  shows "unseen app app'" "b \<Longrightarrow> app' = app \<and> rg_place (reg app) pid = Some l"
  using assms by (auto simp: ensure_location_def unseen_sends split: option.splits if_splits)

lemma require_location_cases:
  assumes "require_location pick message pid app = (found, app')"
  shows "unseen app app'" "found = Some i \<Longrightarrow> app' = app \<and> (\<exists>l. rg_place (reg app) pid = Some l \<and> pick l = Some i)"
  using assms by (auto simp: require_location_def unseen_sends split: option.splits)

lemma require_unseen:
  "require_game_lobby pid app = (found1, app') \<Longrightarrow> unseen app app'" "require_match pid app = (found2, app') \<Longrightarrow> unseen app app'"
  "require_training pid app = (found2, app') \<Longrightarrow> unseen app app'" "require_results pid app = (found2, app') \<Longrightarrow> unseen app app'"
  by (simp_all add: require_game_lobby_def require_match_def require_training_def require_results_def require_location_cases(1))

lemma require_found:
  "require_game_lobby pid app = (Some lid, app') \<Longrightarrow> app' = app \<and> rg_place (reg app) pid = Some (InGameLobby lid)"
  "require_match pid app = (Some mid, app') \<Longrightarrow> app' = app \<and> rg_place (reg app) pid = Some (InMatch mid)"
  "require_training pid app = (Some mid, app') \<Longrightarrow> app' = app \<and> rg_place (reg app) pid = Some (InTraining mid)"
  "require_results pid app = (Some mid, app') \<Longrightarrow> app' = app \<and> rg_place (reg app) pid = Some (InResults mid)"
  by (auto simp: require_game_lobby_def require_match_def require_training_def require_results_def
      dest!: require_location_cases(2) [OF _ refl] split: player_location.splits)

section \<open>Connecting\<close>

lemma allocate_player_id_in_ok:
  "allocate_player_id_in n env app = (r, app') \<Longrightarrow> unseen app app' \<and>
     (\<forall>pid. r = Inr pid \<longrightarrow> wf_player_id pid \<and> bt_get (sa_players app') pid = None)"
proof (induction n env app rule: allocate_player_id_in.induct)
  case (2 n env app)
  obtain bytes w where bw: "env_random env 4 (sa_world app) = (bytes, w)" by fastforce
  have u: "unseen app (app\<lparr>sa_world := w\<rparr>)" by (simp add: unseen_def)
  show ?case
  proof (cases bytes)
    case (Inr bs)
    show ?thesis
    proof (cases "player_id_new (word_of_le bs)")
      case (Inl e)
      then have "allocate_player_id_in n env (app\<lparr>sa_world := w\<rparr>) = (r, app')"
        using 2(3) bw Inr by simp
      then show ?thesis using 2(1) [OF refl bw [symmetric] refl Inr Inl] u unseen_trans by blast
    next
      case (Inr pid)
      note pid = this \<open>bytes = Inr bs\<close>
      show ?thesis
      proof (cases "bt_contains (sa_players app) pid")
        case True
        then have "allocate_player_id_in n env (app\<lparr>sa_world := w\<rparr>) = (r, app')"
          using 2(3) bw pid by simp
        then show ?thesis using 2(2) [OF refl bw [symmetric] refl pid(2,1)] True u unseen_trans by simp blast
      next
        case False
        then show ?thesis using 2(3) bw pid u player_id_new_iff [of "word_of_le bs" pid] by (auto simp: bt_contains_def)
      qed
    qed
  qed (use 2(3) bw u in auto)
qed auto

lemma load_or_create_ok:
  assumes "load_or_create fs name store w = (loaded, store', w')" "store_ok store"
  shows "store_ok store'" "loaded = Inr r \<Longrightarrow> wf_record r"
  using assms by (auto simp: load_or_create_def store_ok_def Let_def bt_inv_ops bt_get_ops and_then_eq_Inr
      split: option.splits prod.splits if_splits)

lemma store_save_ok:
  assumes "store_save fs name record store w = (saved, store', w')" "store_ok store" "wf_record record"
  shows "store_ok store'"
  using assms by (auto simp: store_save_def store_ok_def Let_def bt_inv_ops bt_get_ops split: prod.splits if_splits)

lemma bind_player_step:
  assumes "app_ok app" "bt_get (sa_connections app) cid = None" "bt_get (sa_players app) pid = None"
    "player_entry_ok pid p" "cn_location p = CentralLobby"
  shows "registry_step (reg app) (reg (bind_player cid pid p app))" "app_ok (bind_player cid pid p app)"
proof -
  note ok = app_okD [OF assms(1)]
  have "reg (bind_player cid pid p app) = (reg app)\<lparr>rg_connections := (rg_connections (reg app))(cid \<mapsto> pid),
      rg_bindings := (rg_bindings (reg app))(pid \<mapsto> cid), rg_place := (rg_place (reg app))(pid \<mapsto> CentralLobby)\<rparr>"
    using ok(1-3) assms(5) by (intro registry_eqI ext) (auto simp: reg_def bind_player_def bt_get_ops)
  then show "registry_step (reg app) (reg (bind_player cid pid p app))"
    using assms(2,3) by (simp add: registry_step.connected)
  show "app_ok (bind_player cid pid p app)"
    using assms(1,4) by (auto simp: app_ok_def bind_player_def bt_inv_ops bt_get_ops split: if_splits)
qed

lemma handle_connect_sim:
  assumes "wf_player_name name"
  shows "sim app (handle_connect_command env cid sq name app)"
proof (cases "bt_contains (sa_connections app) cid")
  case True
  then show ?thesis by (simp add: handle_connect_command_def unseen_sim unseen_sends)
next
  case False
  obtain allocated app1 where a: "allocate_player_id env app = (allocated, app1)" by fastforce
  then have u: "unseen app app1" and fresh: "\<And>pid. allocated = Inr pid \<Longrightarrow> wf_player_id pid \<and> bt_get (sa_players app1) pid = None"
    using allocate_player_id_in_ok unfolding allocate_player_id_def by blast+
  have c1: "bt_get (sa_connections app1) cid = None"
    using False unseenD(1) [OF u] reg_fields(1) [of app1 cid] by (simp add: bt_contains_def)
  show ?thesis
  proof (cases allocated)
    case (Inl m)
    then have "handle_connect_command env cid sq name app = send_direct_error cid m app1"
      using False a by (simp add: handle_connect_command_def)
    then show ?thesis using u unseen_sends(4) unseen_trans unseen_sim by metis
  next
    case (Inr pid)
    obtain loaded store w where l: "load_or_create (env_files env) name (sa_record_store app1) (sa_world app1) = (loaded, store, w)"
      by (metis prod_cases3)
    let ?app2 = "app1\<lparr>sa_record_store := store, sa_world := w\<rparr>"
    have "unseen app1 ?app2"
      using load_or_create_ok(1) [OF l] app_okD(10) [of app1] by (auto simp: unseen_def)
    then have u2: "unseen app ?app2" using u unseen_trans by blast
    obtain seen tracker where o: "observe sq tracker_new = (seen, tracker)" by fastforce
    show ?thesis
    proof (cases "(\<exists>e. loaded = Inl e) \<or> (\<exists>e. seen = Inl e)")
      case True
      then obtain m where "handle_connect_command env cid sq name app = send_direct_error cid m ?app2"
        using False a Inr l o
        by (cases loaded; cases seen) (auto simp: handle_connect_command_def intro: that)
      then show ?thesis using u2 unseen_sends(4) unseen_trans unseen_sim by metis
    next
      case ok: False
      then obtain rc where r: "loaded = Inr rc" "seen = Inr ()" by (cases loaded; cases seen; auto)
      let ?p = "new_connected_player name rc tracker"
      let ?app3 = "bind_player cid pid ?p ?app2"
      have h: "handle_connect_command env cid sq name app = send_lobby_directory_snapshot pid
          (send_event pid (Connected pid name rc (build_skill_catalog (sa_content ?app3))) ?app3)"
        using False a Inr l o r by (simp add: handle_connect_command_def Let_def)
      have b: "registry_step (reg ?app2) (reg ?app3)" "app_ok ?app3" if "app_ok app"
      proof -
        have ok2: "app_ok ?app2" using unseenD(3) [OF u2 that] .
        have "store_ok (sa_record_store app1)" using app_okD(10) unseenD(3) [OF u that] by blast
        then have "wf_record rc" using load_or_create_ok(2) [OF l _ r(1)] by blast
        then have "player_entry_ok pid ?p" using fresh Inr assms by (simp add: player_entry_ok_def new_connected_player_def)
        then show "registry_step (reg ?app2) (reg ?app3)" "app_ok ?app3"
          using c1 fresh Inr bind_player_step [OF ok2, of cid pid ?p] by (simp_all add: new_connected_player_def)
      qed
      have "timing ?app3 = timing ?app2" by (simp add: timing_def bind_player_def)
      then have "sim app ?app3" using b unseenD(1,2) [OF u2] by (intro simI) simp_all
      then show ?thesis unfolding h by (intro sim_after)
    qed
  qed
qed

section \<open>Lobbies\<close>

lemma add_player_ids:
  assumes "add_player pid name rc l = (Inr e, l')" "bt_inv (lobby_players l)"
  shows "dom (bt_get (lobby_players l')) = insert pid (dom (bt_get (lobby_players l)))"
  using assms by (auto simp: add_player_def bt_get_ops split: sum.splits if_splits)

lemma add_player_error: "add_player pid name rc l = (Inl e, l') \<Longrightarrow> l' = l"
  by (auto simp: add_player_def split: sum.splits if_splits)

lemma leave_ids:
  assumes "bt_inv (lobby_players l)" "leave_or_disconnect_player pid l = (Inr e, l')"
  shows "dom (bt_get (lobby_players l')) = dom (bt_get (lobby_players l)) - {pid}" "pid \<in> dom (bt_get (lobby_players l))"
  using assms by (auto simp: leave_or_disconnect_player_def bt_get_ops Let_def dom_def split: lobby_phase.splits option.splits if_splits)

lemma leave_error: "leave_or_disconnect_player pid l = (Inl e, l') \<Longrightarrow> l' = l"
  by (auto simp: leave_or_disconnect_player_def Let_def split: lobby_phase.splits option.splits)

lemma maybe_start_players: "lobby_players (snd (maybe_start_countdown l)) = lobby_players l"
  by (simp add: maybe_start_countdown_def Let_def)

lemma change_ids:
  assumes "bt_inv (lobby_players l)"
  shows "dom (bt_get (lobby_players (snd (select_team pid team l)))) = dom (bt_get (lobby_players l))"
    "dom (bt_get (lobby_players (snd (set_ready pid ready l)))) = dom (bt_get (lobby_players l))"
  using assms by (auto simp: select_team_def set_ready_def Let_def case_prod_unfold maybe_start_players bt_get_ops
      split: sum.splits option.splits)

lemma reg_with_lobby:
  "reg (with_lobby lid l app) = (reg app)\<lparr>rg_lobbies := \<lambda>k. if k = lid then map_option (\<lambda>_. dom (bt_get (lobby_players l))) (bt_get (sa_game_lobbies app) lid)
     else rg_lobbies (reg app) k\<rparr>"
  by (auto simp: reg_def with_lobby_def bt_get_modify option.map_comp comp_def fun_eq_iff lobby_ids_def)

lemma with_lobby_ok: "app_ok app \<Longrightarrow> lobby_inv l \<Longrightarrow> app_ok (with_lobby lid l app)"
  by (auto simp: app_ok_def with_lobby_def bt_get_modify lobby_entry_ok_def)

lemma with_lobby_unseen:
  assumes "bt_get (sa_game_lobbies app) lid = Some r" "lobby_inv (glr_lobby r) \<Longrightarrow> lobby_inv l"
    "lobby_inv (glr_lobby r) \<Longrightarrow> dom (bt_get (lobby_players l)) = lobby_ids r" "app_ok app"
  shows "unseen app (with_lobby lid l app)"
proof -
  have r: "lobby_inv (glr_lobby r)" using app_okD(8) [OF assms(4,1)] by (simp add: lobby_entry_ok_def)
  show ?thesis unfolding unseen_def using assms r
    by (auto simp: reg_with_lobby with_lobby_ok intro!: registry_eqI)
qed

lemma sim_if_ok: "(app_ok app \<Longrightarrow> unseen app app') \<Longrightarrow> timing app' = timing app \<Longrightarrow> sim app app'"
  by (auto simp: sim_def unseen_def)

lemma handle_lobby_change_sim:
  assumes "\<And>l. lobby_inv l \<Longrightarrow> lobby_inv (snd (change l))"
    "\<And>l. lobby_inv l \<Longrightarrow> dom (bt_get (lobby_players (snd (change l)))) = dom (bt_get (lobby_players l))"
  shows "sim app (handle_lobby_change change sender app)"
proof -
  obtain found app1 where f: "require_game_lobby sender app = (found, app1)" by fastforce
  show ?thesis
  proof (cases found)
    case None
    then show ?thesis using require_unseen(1) [OF f] by (simp add: handle_lobby_change_def f unseen_sim)
  next
    case (Some lid)
    have [simp]: "app1 = app" using require_found(1) f Some by blast
    show ?thesis
    proof (cases "bt_get (sa_game_lobbies app) lid")
      case None
      then show ?thesis by (simp add: handle_lobby_change_def f Some unseen_sim unseen_sends)
    next
      case r: (Some r)
      obtain events l where c: "change (glr_lobby r) = (events, l)" by fastforce
      have "sim app (with_lobby lid l app)"
        using assms [of "glr_lobby r"] c by (intro sim_if_ok with_lobby_unseen [OF r]) (simp_all add: lobby_ids_def)
      also have "unseen (with_lobby lid l app) (handle_lobby_change change sender app)"
        using c by (auto simp: handle_lobby_change_def f Some r Let_def intro!: unseen_after split: sum.split)
      finally show ?thesis .
    qed
  qed
qed

lemma lobby_inv_sorted: "lobby_inv l \<Longrightarrow> bt_inv (lobby_players l)"
  by (simp add: lobby_inv_def)

lemma lobby_changes_sim:
  "sim app (handle_select_team sender team app)" "sim app (handle_set_ready sender ready app)"
  unfolding handle_select_team_def handle_set_ready_def
  by (rule handle_lobby_change_sim; simp add: select_team_inv set_ready_inv change_ids lobby_inv_sorted)+

text \<open>Moving a player who is there.\<close>

lemma reg_move:
  assumes "bt_get (sa_players app) pid = Some p" "\<And>p. cn_location (f p) = l"
  shows "reg (with_player pid f app) = (reg app)\<lparr>rg_place := (rg_place (reg app))(pid \<mapsto> l)\<rparr>"
  using assms by (auto simp: reg_with_player fun_eq_iff intro!: registry_eqI)

lemma move_ok: "app_ok app \<Longrightarrow> (\<And>p. cn_player_name (f p) = cn_player_name p \<and> cn_record (f p) = cn_record p) \<Longrightarrow> app_ok (with_player pid f app)"
  by (rule with_player_ok) (auto simp: player_entry_ok_def)

lemma handle_join_sim: "sim app (handle_join_game_lobby sender lid app)"
proof -
  obtain b app1 where e: "ensure_location sender CentralLobby app = (b, app1)" by fastforce
  show ?thesis
  proof (cases b)
    case False
    then show ?thesis using ensure_location_cases(1) [OF e] by (simp add: handle_join_game_lobby_def e unseen_sim)
  next
    case True
    then have [simp]: "app1 = app" and place: "rg_place (reg app) sender = Some CentralLobby"
      using ensure_location_cases(2) [OF e] by blast+
    then obtain p where p: "bt_get (sa_players app) sender = Some p" "cn_location p = CentralLobby" by auto
    show ?thesis
    proof (cases "bt_get (sa_game_lobbies app) lid")
      case None
      then show ?thesis using True by (simp add: handle_join_game_lobby_def e p unseen_sim unseen_sends)
    next
      case r: (Some r)
      obtain event l where a: "add_player sender (cn_player_name p) (cn_record p) (glr_lobby r) = (event, l)" by fastforce
      show ?thesis
      proof (cases event)
        case (Inl error)
        then have "l = glr_lobby r" using add_player_error a by blast
        then have "sim app (with_lobby lid l app)"
          by (intro sim_if_ok with_lobby_unseen [OF r]) (simp_all add: lobby_ids_def)
        then show ?thesis using True a Inl by (auto simp: handle_join_game_lobby_def e p r intro!: sim_after)
      next
        case (Inr ev)
        let ?app2 = "with_player sender (\<lambda>p. p\<lparr>cn_location := InGameLobby lid\<rparr>) (with_lobby lid l app)"
        have "sim app ?app2"
        proof (rule simI)
          assume ok: "app_ok app"
          have inv: "lobby_inv (glr_lobby r)" using app_okD(8) [OF ok r] by (simp add: lobby_entry_ok_def)
          have entry: "player_entry_ok sender p" using app_okD(7) [OF ok p(1)] .
          have "lobby_inv l" using add_player_inv [OF inv, of sender "cn_player_name p" "cn_record p"] entry a
            by (simp add: player_entry_ok_def)
          then show "app_ok ?app2" using ok by (intro move_ok with_lobby_ok) simp_all
          have ids: "dom (bt_get (lobby_players l)) = insert sender (lobby_ids r)"
            using add_player_ids a Inr lobby_inv_sorted [OF inv] by (simp add: lobby_ids_def)
          have "reg ?app2 = (reg app)\<lparr>rg_lobbies := (rg_lobbies (reg app))(lid \<mapsto> insert sender (lobby_ids r)),
              rg_place := (rg_place (reg app))(sender \<mapsto> InGameLobby lid)\<rparr>"
            using p(1) r ids by (subst reg_move [where p = p and l = "InGameLobby lid"])
              (auto simp: with_lobby_def reg_with_lobby [unfolded with_lobby_def] fun_eq_iff intro!: registry_eqI)
          then show "registry_step (reg app) (reg ?app2)"
            using registry_step.lobby_joined [OF place] r by simp
        qed simp
        also have "unseen ?app2 (handle_join_game_lobby sender lid app)"
          using True a Inr by (auto simp: handle_join_game_lobby_def e p r Let_def intro!: unseen_after)
        finally show ?thesis .
      qed
    qed
  qed
qed

text \<open>Cleaning up is the specification's.\<close>

lemma cleanup_lobby:
  assumes "app_ok app"
  shows "reg (cleanup_empty_lobby lid app) = drop_lobby lid (reg app)" "app_ok (cleanup_empty_lobby lid app)"
proof -
  have empty: "player_count (glr_lobby r) = 0 \<longleftrightarrow> lobby_ids r = {}" for r
    by (simp add: player_count_def lobby_ids_def dom_map_of_conv_image_fst)
  show "reg (cleanup_empty_lobby lid app) = drop_lobby lid (reg app)"
    using app_okD(4) [OF assms]
    by (cases "bt_get (sa_game_lobbies app) lid")
      (auto simp: cleanup_empty_lobby_def drop_lobby_def empty reg_def bt_get_ops fun_eq_iff)
  show "app_ok (cleanup_empty_lobby lid app)"
    using assms by (auto simp: cleanup_empty_lobby_def app_ok_def bt_inv_ops bt_get_ops split: if_splits)
qed

lemma bt_values_any: "bt_inv m \<Longrightarrow> list_ex P (bt_values m) \<longleftrightarrow> (\<exists>k v. bt_get m k = Some v \<and> P v)"
  unfolding list_ex_iff by (metis bt_values_mem)

lemma cleanup_match:
  assumes "app_ok app"
  shows "reg (cleanup_finished_match mid app) = drop_match mid (reg app)" "app_ok (cleanup_finished_match mid app)"
proof -
  have present: "list_ex (\<lambda>p. cn_location p = InMatch mid \<or> cn_location p = InResults mid) (bt_values (sa_players app)) \<longleftrightarrow>
      (\<exists>p. rg_place (reg app) p = Some (InMatch mid) \<or> rg_place (reg app) p = Some (InResults mid))"
    using app_okD(3) [OF assms] by (auto simp: bt_values_any)
  show "reg (cleanup_finished_match mid app) = drop_match mid (reg app)"
    unfolding cleanup_finished_match_def drop_match_def Let_def present
    using app_okD(5) [OF assms] by (auto simp: bt_get_ops fun_eq_iff intro!: registry_eqI)
  show "app_ok (cleanup_finished_match mid app)"
    using assms by (auto simp: cleanup_finished_match_def app_ok_def bt_inv_ops bt_get_ops Let_def split: if_splits)
qed

lemma cleanup_training:
  assumes "app_ok app"
  shows "reg (cleanup_finished_training tid app) = drop_training tid (reg app)" "app_ok (cleanup_finished_training tid app)"
proof -
  have present: "list_ex (\<lambda>p. cn_location p = InTraining tid) (bt_values (sa_players app)) \<longleftrightarrow>
      (\<exists>p. rg_place (reg app) p = Some (InTraining tid))"
    using app_okD(3) [OF assms] by (auto simp: bt_values_any)
  show "reg (cleanup_finished_training tid app) = drop_training tid (reg app)"
    unfolding cleanup_finished_training_def drop_training_def Let_def present
    using app_okD(6) [OF assms] by (auto simp: bt_get_ops fun_eq_iff intro!: registry_eqI)
  show "app_ok (cleanup_finished_training tid app)"
    using assms by (auto simp: cleanup_finished_training_def app_ok_def bt_inv_ops bt_get_ops Let_def split: if_splits)
qed

lemma cleanup_timing [simp]:
  "timing (cleanup_empty_lobby lid app) = timing app" "timing (cleanup_finished_match mid app) = timing app"
  "timing (cleanup_finished_training mid app) = timing app"
  by (simp_all add: cleanup_empty_lobby_def cleanup_finished_match_def cleanup_finished_training_def timing_def Let_def)

lemma handle_leave_sim: "sim app (handle_leave_game_lobby env sender app)"
proof -
  obtain found app1 where f: "require_game_lobby sender app = (found, app1)" by fastforce
  show ?thesis
  proof (cases found)
    case None
    then show ?thesis using require_unseen(1) [OF f] by (simp add: handle_leave_game_lobby_def f unseen_sim)
  next
    case (Some lid)
    have [simp]: "app1 = app" and place: "rg_place (reg app) sender = Some (InGameLobby lid)"
      using require_found(1) f Some by blast+
    then obtain p where p: "bt_get (sa_players app) sender = Some p" by auto
    show ?thesis
    proof (cases "bt_get (sa_game_lobbies app) lid")
      case None
      then show ?thesis by (simp add: handle_leave_game_lobby_def f Some unseen_sim unseen_sends)
    next
      case r: (Some r)
      obtain event l where c: "leave_or_disconnect_player sender (glr_lobby r) = (event, l)" by fastforce
      show ?thesis
      proof (cases "lobby_phase (glr_lobby r) = Open \<and> (\<exists>e. event = Inr e)")
        case False
        then have "unseen app (handle_leave_game_lobby env sender app)" if "app_ok app"
        proof (cases "lobby_phase (glr_lobby r) = Open")
          case True
          with False obtain e where e: "event = Inl e" by (cases event) auto
          then have "l = glr_lobby r" using leave_error c by blast
          then have "unseen app (with_lobby lid l app)"
            by (intro with_lobby_unseen [OF r]) (simp_all add: lobby_ids_def that)
          then show ?thesis using True e by (auto simp: handle_leave_game_lobby_def f Some r c intro!: unseen_after)
        qed (simp add: handle_leave_game_lobby_def f Some r unseen_sends)
        moreover have "timing (handle_leave_game_lobby env sender app) = timing app"
          using False c by (cases event) (auto simp: handle_leave_game_lobby_def f Some r Let_def)
        ultimately show ?thesis by (rule sim_if_ok)
      next
        case True
        then obtain e where e: "event = Inr e" by blast
        with True c have [simp]: "e = PlayerLeft sender" by (auto simp: leave_or_disconnect_player_def split: option.splits)
        let ?app2 = "with_player sender (\<lambda>p. p\<lparr>cn_location := CentralLobby\<rparr>) (with_lobby lid l app)"
        define app4 where "app4 = send_event sender (ReturnedToCentralLobby (record_of sender
            (broadcast_event (lobby_members ?app2 lid) (GameLobbyLeft lid sender) ?app2)))
            (broadcast_event (lobby_members ?app2 lid) (GameLobbyLeft lid sender) ?app2)"
        have u: "unseen ?app2 app4" unfolding app4_def by (intro unseen_after unseen_refl)
        have h: "handle_leave_game_lobby env sender app = broadcast_lobby_directory_snapshot (send_lobby_directory_snapshot sender
            (broadcast_game_lobby_snapshot lid (cleanup_empty_lobby lid app4)))"
          using True e by (simp add: handle_leave_game_lobby_def f Some r c Let_def app4_def)
        have "sim app (cleanup_empty_lobby lid app4)"
        proof (rule simI)
          assume ok: "app_ok app"
          have inv: "lobby_inv (glr_lobby r)" using app_okD(8) [OF ok r] by (simp add: lobby_entry_ok_def)
          have linv: "lobby_inv l" using leave_inv [OF inv, of sender] c by simp
          have ok2: "app_ok ?app2" using linv ok by (intro move_ok with_lobby_ok) simp_all
          then have ok4: "app_ok app4" using unseenD(3) [OF u] by blast
          have ids: "dom (bt_get (lobby_players l)) = lobby_ids r - {sender}"
            using leave_ids(1) [OF lobby_inv_sorted [OF inv]] c e by (simp add: lobby_ids_def)
          have reg2: "reg app4 = (reg app)\<lparr>rg_place := (rg_place (reg app))(sender \<mapsto> CentralLobby),
              rg_lobbies := (rg_lobbies (reg app))(lid \<mapsto> lobby_ids r - {sender})\<rparr>"
            unfolding unseenD(1) [OF u] using p r ids by (subst reg_move [where p = p and l = CentralLobby])
              (auto simp: with_lobby_def reg_with_lobby [unfolded with_lobby_def] fun_eq_iff intro!: registry_eqI)
          have clean: "reg (cleanup_empty_lobby lid app4) = drop_lobby lid (reg app4)"
            by (rule cleanup_lobby(1) [OF ok4])
          show "app_ok (cleanup_empty_lobby lid app4)" by (rule cleanup_lobby(2) [OF ok4])
          have "reg (cleanup_empty_lobby lid app4) = vacated (InGameLobby lid) sender ((reg app)\<lparr>rg_place := (rg_place (reg app))(sender \<mapsto> CentralLobby)\<rparr>)"
            unfolding clean reg2 using r by (auto intro!: arg_cong [where f = "drop_lobby lid"] registry_eqI)
          then show "registry_step (reg app) (reg (cleanup_empty_lobby lid app4))"
            using registry_step.returned [OF place] by simp
        qed (use unseenD(2) [OF u] in \<open>simp\<close>)
        then show ?thesis unfolding h by (intro sim_after)
      qed
    qed
  qed
qed

end
