(* ===== verification/App_Play.thy ===== *)
theory App_Play
  imports App_Handlers
begin

text \<open>
  The rest of the simulation: creating lobbies, training, playing, the events of matches, the clock and
  disconnections.
\<close>

section \<open>Creating a lobby\<close>

lemma generated_target:
  "generate_template_match_map template generation map_id seed = Inr m \<Longrightarrow> am_objective_target_ms m = am_objective_target_ms template"
  by (auto simp: generate_template_match_map_def Let_def and_then_eq_Inr split: if_splits prod.splits option.splits)

lemma lobby_id_used_sim: "allocate_lobby_id app = Some (lid, app1) \<Longrightarrow> sim app app1 \<and> lid = LobbyId (sa_next_lobby_id app) \<and>
    app1 = app\<lparr>sa_next_lobby_id := sat_add (sa_next_lobby_id app) 1\<rparr>"
proof -
  assume "allocate_lobby_id app = Some (lid, app1)"
  then have a: "lid = LobbyId (sa_next_lobby_id app)" "app1 = app\<lparr>sa_next_lobby_id := sat_add (sa_next_lobby_id app) 1\<rparr>"
    by (auto simp: allocate_lobby_id_def lobby_id_new_iff split: sum.splits)
  have "reg app1 = (reg app)\<lparr>rg_next_lobby := sat_add (rg_next_lobby (reg app)) 1\<rparr>" by (simp add: a(2) reg_def)
  then have "registry_step (reg app) (reg app1)" using registry_step.lobby_id_used [of "reg app"] by simp
  with a show ?thesis by (auto intro!: simI simp: timing_def app_ok_def)
qed

lemma match_id_used_sim: "allocate_match_id app = Some (mid, app1) \<Longrightarrow> sim app app1 \<and> mid = MatchId (sa_next_match_id app) \<and>
    app1 = app\<lparr>sa_next_match_id := sat_add (sa_next_match_id app) 1\<rparr>"
proof -
  assume "allocate_match_id app = Some (mid, app1)"
  then have a: "mid = MatchId (sa_next_match_id app)" "app1 = app\<lparr>sa_next_match_id := sat_add (sa_next_match_id app) 1\<rparr>"
    by (auto simp: allocate_match_id_def match_id_new_iff split: sum.splits)
  have "reg app1 = (reg app)\<lparr>rg_next_match := sat_add (rg_next_match (reg app)) 1\<rparr>" by (simp add: a(2) reg_def)
  then have "registry_step (reg app) (reg app1)" using registry_step.match_id_used [of "reg app"] by simp
  with a show ?thesis by (auto intro!: simI simp: timing_def app_ok_def)
qed

definition open_lobby :: "lobby_id \<Rightarrow> game_lobby_runtime \<Rightarrow> player_id \<Rightarrow> 'w server_app \<Rightarrow> 'w server_app" where
  "open_lobby lid r sender app = with_player sender (\<lambda>p. p\<lparr>cn_location := InGameLobby lid\<rparr>)
     (app\<lparr>sa_game_lobbies := bt_insert lid r (sa_game_lobbies app)\<rparr>)"

lemma handle_create_cases:
  assumes "handle_create_game_lobby env sender app = Some app'"
  obtains "unseen app app'"
  | lid app1 where "allocate_lobby_id app = Some (lid, app1)" "unseen app1 app'"
  | lid app1 p e l template generation map_id seed m w where
      "allocate_lobby_id app = Some (lid, app1)" "bt_get (sa_players app) sender = Some p" "cn_location p = CentralLobby"
      "add_player sender (cn_player_name p) (cn_record p) (lobby_new lid (lc_launch_countdown_seconds (gcf_lobby (gct_configuration (sa_content app))))) = (Inr e, l)"
      "content_map_by_id (sa_content app) (lit ''template_arena'') = Some template"
      "generate_template_match_map template generation map_id seed = Inr m"
      "unseen (open_lobby lid \<lparr>glr_lobby = l, glr_map = m\<rparr> sender (app1\<lparr>sa_world := w\<rparr>)) app'"
proof -
  obtain b app0 where e: "ensure_location sender CentralLobby app = (b, app0)" by fastforce
  show ?thesis
  proof (cases b)
    case False
    then show ?thesis using that(1) assms ensure_location_cases(1) [OF e] by (simp add: handle_create_game_lobby_def e)
  next
    case True
    then have [simp]: "app0 = app" and "rg_place (reg app) sender = Some CentralLobby"
      using ensure_location_cases(2) [OF e] by blast+
    then obtain p where p: "bt_get (sa_players app) sender = Some p" "cn_location p = CentralLobby" by auto
    obtain lid app1 where a: "allocate_lobby_id app = Some (lid, app1)"
      using assms True by (auto simp: handle_create_game_lobby_def e split: option.splits)
    then have a1: "sa_players app1 = sa_players app" "sa_content app1 = sa_content app"
      using lobby_id_used_sim by fastforce+
    obtain added l where add: "add_player sender (cn_player_name p) (cn_record p)
        (lobby_new lid (lc_launch_countdown_seconds (gcf_lobby (gct_configuration (sa_content app))))) = (added, l)" by fastforce
    note h = assms True a a1 p(1) add handle_create_game_lobby_def [of env sender app] e
    show ?thesis
    proof (cases added)
      case (Inl error)
      then have "unseen app1 app'" using h by (auto simp: unseen_sends)
      then show ?thesis using that(2) a by blast
    next
      case (Inr ev)
      show ?thesis
      proof (cases "content_map_by_id (sa_content app) (lit ''template_arena'')")
        case None
        then have "unseen app1 app'" using h Inr by (auto simp: unseen_sends)
        then show ?thesis using that(2) a by blast
      next
        case (Some template)
        obtain seed app2 where s: "lobby_map_seed env lid app1 = (seed, app2)" by fastforce
        then obtain w where w: "app2 = app1\<lparr>sa_world := w\<rparr>"
          by (auto simp: lobby_map_seed_def case_prod_unfold Let_def)
        have u: "unseen app1 app2" by (simp add: w unseen_def)
        let ?g = "generate_template_match_map template (mpc_generation (gcf_maps (gct_configuration (sa_content app))))
         (lit ''lobby_'' @ show_n (lobby_id_get lid) @ lit ''_arena'') seed"
        show ?thesis
        proof (cases ?g)
          case (Inl error)
          then obtain er where er: "error = Err er" using h \<open>added = Inr ev\<close> Some s w by (cases error) (auto simp: Let_def)
          then have "app' = send_error sender (content_error_text er) app2"
            using h \<open>added = Inr ev\<close> Some s w Inl by (auto simp: Let_def)
          then have "unseen app1 app'" using u by (auto intro!: unseen_after)
          then show ?thesis using that(2) a by blast
        next
          case (Inr m)
          have "unseen (open_lobby lid \<lparr>glr_lobby = l, glr_map = m\<rparr> sender (app1\<lparr>sa_world := w\<rparr>)) app'"
            using h \<open>added = Inr ev\<close> Some s w Inr
            by (auto simp: Let_def open_lobby_def intro!: unseen_after)
          then show ?thesis using that(3) a p add \<open>added = Inr ev\<close> Some Inr by blast
        qed
      qed
    qed
  qed
qed

lemma handle_create_sim:
  assumes "handle_create_game_lobby env sender app = Some app'"
  shows "sim app app'"
  using assms
proof (cases rule: handle_create_cases)
  case 1
  then show ?thesis by (rule unseen_sim)
next
  case (2 lid app1)
  then show ?thesis using lobby_id_used_sim sim_unseen by blast
next
  case (3 lid app1 p e l template generation map_id seed m w)
  let ?r = "\<lparr>glr_lobby = l, glr_map = m\<rparr>"
  let ?app2 = "open_lobby lid ?r sender (app1\<lparr>sa_world := w\<rparr>)"
  have a: "lid = LobbyId (sa_next_lobby_id app)" "app1 = app\<lparr>sa_next_lobby_id := sat_add (sa_next_lobby_id app) 1\<rparr>"
    using lobby_id_used_sim [OF 3(1)] by blast+
  have "sim app ?app2"
  proof (rule simI)
    assume ok: "app_ok app"
    let ?new = "lobby_new lid (lc_launch_countdown_seconds (gcf_lobby (gct_configuration (sa_content app))))"
    have entry: "player_entry_ok sender p" using app_okD(7) [OF ok 3(2)] .
    have "lobby_inv l" using add_player_inv [OF lobby_inv_new, of sender "cn_player_name p" "cn_record p"] entry 3(4)
      by (metis player_entry_ok_def snd_conv)
    moreover have "am_objective_target_ms m \<noteq> 0" using generated_target [OF 3(6)] app_okD(11) [OF ok] 3(5) by (simp add: content_ok_def)
    ultimately have "lobby_entry_ok ?r" by (simp add: lobby_entry_ok_def)
    then have "app_ok (app1\<lparr>sa_world := w, sa_game_lobbies := bt_insert lid ?r (sa_game_lobbies app1)\<rparr>)"
      using ok by (auto simp: a(2) app_ok_def bt_inv_ops bt_get_ops split: if_splits)
    then show "app_ok ?app2" unfolding open_lobby_def by (intro move_ok) simp_all
    have ids: "lobby_ids ?r = {sender}"
      using add_player_ids [OF 3(4)] by (simp add: lobby_ids_def lobby_new_def bt_inv_ops)
    have "reg ?app2 = (reg app)\<lparr>rg_next_lobby := sat_add (rg_next_lobby (reg app)) 1, rg_lobbies := (rg_lobbies (reg app))(lid \<mapsto> {sender}),
        rg_place := (rg_place (reg app))(sender \<mapsto> InGameLobby lid)\<rparr>"
      unfolding open_lobby_def using 3(2) ids app_okD(4) [OF ok]
      by (subst reg_move [where p = p and l = "InGameLobby lid"])
        (auto simp: a(2) reg_def bt_get_ops fun_eq_iff intro!: registry_eqI)
    then show "registry_step (reg app) (reg ?app2)"
      using registry_step.lobby_created [of "reg app" sender lid] 3(2,3) a(1) by simp
  qed (simp add: open_lobby_def a(2), simp add: timing_def)
  then show ?thesis using 3(7) sim_unseen by blast
qed

section \<open>Training\<close>

definition open_training :: "match_id \<Rightarrow> training_runtime \<Rightarrow> player_id \<Rightarrow> 'w server_app \<Rightarrow> 'w server_app" where
  "open_training tid r sender app = with_player sender (\<lambda>p. reset_combat_input_state (p\<lparr>cn_location := InTraining tid\<rparr>))
     (app\<lparr>sa_training_sessions := bt_insert tid r (sa_training_sessions app)\<rparr>)"

lemma handle_start_training_sim:
  assumes "handle_start_training sender app = Some app'"
  shows "sim app app'"
proof -
  obtain b app0 where e: "ensure_location sender CentralLobby app = (b, app0)" by fastforce
  show ?thesis
  proof (cases b)
    case False
    then show ?thesis using assms ensure_location_cases(1) [OF e] by (simp add: handle_start_training_def e unseen_sim)
  next
    case True
    then have [simp]: "app0 = app" and place: "rg_place (reg app) sender = Some CentralLobby"
      using ensure_location_cases(2) [OF e] by blast+
    then obtain p where p: "bt_get (sa_players app) sender = Some p" by auto
    show ?thesis
    proof (cases "content_training_map (sa_content app)")
      case None
      then show ?thesis using assms True by (auto simp: handle_start_training_def e unseen_sim unseen_sends)
    next
      case (Some m)
      obtain tid app1 where a: "allocate_match_id app = Some (tid, app1)"
        using assms True Some p by (auto simp: handle_start_training_def e split: option.splits)
      then have a1: "tid = MatchId (sa_next_match_id app)" "app1 = app\<lparr>sa_next_match_id := sat_add (sa_next_match_id app) 1\<rparr>"
        using match_id_used_sim by blast+
      let ?seat = "\<lparr>ta_player_id = sender, ta_player_name = cn_player_name p, ta_record = cn_record p, ta_team = TeamA\<rparr>"
      obtain world where w: "build_training_world ?seat (replicate 5 None) (sa_content app1) = Some world"
        using assms True Some p a by (auto simp: handle_start_training_def e Let_def split: option.splits)
      define r where "r = \<lparr>tr_participant = ?seat, tr_loadout = replicate 5 None, tr_world = world,
                tr_explored_tiles = bt_insert sender (blank_visibility_mask m) [],
                tr_combat_frame_index = 0, tr_metrics = training_metrics_default\<rparr>"
      have b: "map_option broadcast_lobby_directory_snapshot (broadcast_training_state_snapshot tid
          (send_event sender (TrainingStarted tid) (open_training tid r sender app1))) = Some app'"
        using assms True Some p a w unfolding r_def open_training_def by (simp add: handle_start_training_def e Let_def)
      then obtain app3 where r: "broadcast_training_state_snapshot tid (send_event sender (TrainingStarted tid) (open_training tid r sender app1)) = Some app3"
        "app' = broadcast_lobby_directory_snapshot app3" by auto
      have participant: "ta_player_id (tr_participant r) = sender" by (simp add: r_def)
      let ?app2 = "open_training tid r sender app1"
      have "sim app ?app2"
      proof (rule simI)
        assume ok: "app_ok app"
        have "app_ok (app1\<lparr>sa_training_sessions := bt_insert tid r (sa_training_sessions app1)\<rparr>)"
          using ok by (simp add: a1 app_ok_def bt_inv_ops)
        then show "app_ok ?app2" unfolding open_training_def by (intro move_ok) (simp_all add: reset_combat_input_state_def)
        have "reg ?app2 = (reg app)\<lparr>rg_next_match := sat_add (rg_next_match (reg app)) 1, rg_training := (rg_training (reg app))(tid \<mapsto> sender),
            rg_place := (rg_place (reg app))(sender \<mapsto> InTraining tid)\<rparr>"
          unfolding open_training_def using p participant app_okD(6) [OF ok]
          by (subst reg_move [where p = p and l = "InTraining tid"])
            (auto simp: a1 reg_def bt_get_ops fun_eq_iff reset_combat_input_state_def intro!: registry_eqI)
        then show "registry_step (reg app) (reg ?app2)"
          using registry_step.training_started [OF place] a1(1) by simp
      qed (simp add: open_training_def a1, simp add: timing_def)
      also have "unseen ?app2 (send_event sender (TrainingStarted tid) ?app2)" by (rule unseen_sends)
      also have "unseen (send_event sender (TrainingStarted tid) ?app2) app3" using broadcasts_unseen(3) [OF r(1)] .
      finally show ?thesis unfolding r(2) by (rule sim_after)
    qed
  qed
qed

lemma with_training_unseen:
  "(\<And>r. bt_get (sa_training_sessions app) tid = Some r \<Longrightarrow> tr_participant (f r) = tr_participant r) \<Longrightarrow> unseen app (with_training tid f app)"
  by (simp add: unseen_def reg_with_training)

lemma training_rebuild_participant: "training_rebuild_world content r = Some r' \<Longrightarrow> tr_participant r' = tr_participant r"
  by (auto simp: training_rebuild_world_def)

lemma choose_training_skill_unseen:
  assumes "choose_training_skill sender tid choice t n app = Some app'"
  shows "unseen app app'"
proof (cases "bt_get (sa_training_sessions app) tid")
  case None
  then show ?thesis using assms by (auto simp: choose_training_skill_def Let_def unseen_sends)
next
  case (Some r)
  show ?thesis
  proof (cases "length (tr_loadout r) \<le> unat (sat_sub n 1)")
    case True
    then show ?thesis using assms Some by (auto simp: choose_training_skill_def Let_def unseen_sends)
  next
    case False
    then obtain r' where r': "training_rebuild_world (sa_content app) (r\<lparr>tr_loadout := (tr_loadout r)[unat (sat_sub n 1) := Some choice]\<rparr>) = Some r'"
      "broadcast_training_state_snapshot tid (send_event sender (SkillChosenEvent sender n t n) (with_training tid (\<lambda>_. r') app)) = Some app'"
      using assms Some by (auto simp: choose_training_skill_def Let_def split: option.splits)
    have "unseen app (with_training tid (\<lambda>_. r') app)"
      using Some training_rebuild_participant [OF r'(1)] by (intro with_training_unseen) simp
    also have "unseen (with_training tid (\<lambda>_. r') app) (send_event sender (SkillChosenEvent sender n t n) (with_training tid (\<lambda>_. r') app))"
      by (rule unseen_sends)
    finally show ?thesis using broadcasts_unseen(3) [OF r'(2)] by (rule unseen_trans)
  qed
qed

lemma handle_reset_training_unseen:
  assumes "handle_reset_training_session sender app = Some app'"
  shows "unseen app app'"
proof -
  obtain found app1 where f: "require_training sender app = (found, app1)" by fastforce
  show ?thesis
  proof (cases found)
    case None
    then show ?thesis using assms require_unseen(3) [OF f] by (simp add: handle_reset_training_session_def f)
  next
    case (Some tid)
    have [simp]: "app1 = app" using require_found(3) f Some by blast
    show ?thesis
    proof (cases "bt_get (sa_training_sessions app) tid")
      case None
      then show ?thesis using assms Some by (auto simp: handle_reset_training_session_def f unseen_sends)
    next
      case r: (Some r)
      then have "broadcast_training_state_snapshot tid (with_training tid reset_session app) = Some app'"
        using assms Some by (simp add: handle_reset_training_session_def f)
      then have "unseen (with_training tid reset_session app) app'" by (rule broadcasts_unseen)
      moreover have "unseen app (with_training tid reset_session app)"
        by (intro with_training_unseen) (simp add: reset_session_def)
      ultimately show ?thesis by (meson unseen_trans)
    qed
  qed
qed

section \<open>Leaving training and results\<close>

lemma return_unseen: "unseen (with_player sender (\<lambda>p. p\<lparr>cn_location := CentralLobby\<rparr>) app) (return_to_central_lobby sender p app)"
  by (auto simp: return_to_central_lobby_def Let_def intro!: unseen_after)

lemma return_step:
  assumes "app_ok app" "bt_get (sa_players app) sender = Some q"
  shows "reg (return_to_central_lobby sender p app) = (reg app)\<lparr>rg_place := (rg_place (reg app))(sender \<mapsto> CentralLobby)\<rparr>"
    "app_ok (return_to_central_lobby sender p app)"
proof -
  show "reg (return_to_central_lobby sender p app) = (reg app)\<lparr>rg_place := (rg_place (reg app))(sender \<mapsto> CentralLobby)\<rparr>"
    unfolding unseenD(1) [OF return_unseen] by (rule reg_move [OF assms(2)]) simp
  show "app_ok (return_to_central_lobby sender p app)"
    by (rule unseenD(3) [OF return_unseen]) (use assms(1) in \<open>auto intro!: move_ok\<close>)
qed

lemma return_timing [simp]: "timing (return_to_central_lobby sender p app) = timing app"
  using unseenD(2) [OF return_unseen] by simp

lemma handle_quit_sim: "sim app (handle_quit_to_central_lobby sender app)"
proof (cases "bt_get (sa_players app) sender")
  case None
  then show ?thesis using require_unseen(4) [of sender app] by (cases "require_results sender app") (simp add: handle_quit_to_central_lobby_def unseen_sim)
next
  case p: (Some p)
  show ?thesis
  proof (cases "\<exists>tid. cn_location p = InTraining tid")
    case True
    then obtain tid where tid: "cn_location p = InTraining tid" ..
    let ?app1 = "return_to_central_lobby sender p app"
    have "sim app (cleanup_finished_training tid ?app1)"
    proof (rule simI)
      assume ok: "app_ok app"
      note ret = return_step [OF ok p, of p]
      show "app_ok (cleanup_finished_training tid ?app1)" by (rule cleanup_training(2) [OF ret(2)])
      show "registry_step (reg app) (reg (cleanup_finished_training tid ?app1))"
        unfolding cleanup_training(1) [OF ret(2)] ret(1)
        using registry_step.returned [of "reg app" sender "InTraining tid"] p tid by simp
    qed simp
    then show ?thesis using p tid by (auto simp: handle_quit_to_central_lobby_def intro!: sim_after)
  next
    case False
    then have h: "handle_quit_to_central_lobby sender app = (case require_results sender app of (None, app) \<Rightarrow> app
        | (Some mid, app) \<Rightarrow> cleanup_finished_match mid (return_to_central_lobby sender p app))"
      using p by (auto simp: handle_quit_to_central_lobby_def split: player_location.split)
    obtain found app1 where f: "require_results sender app = (found, app1)" by fastforce
    show ?thesis
    proof (cases found)
      case None
      then show ?thesis using require_unseen(4) [OF f] by (simp add: h f unseen_sim)
    next
      case (Some mid)
      have [simp]: "app1 = app" and place: "rg_place (reg app) sender = Some (InResults mid)"
        using require_found(4) f Some by blast+
      have "sim app (cleanup_finished_match mid (return_to_central_lobby sender p app))"
      proof (rule simI)
        assume ok: "app_ok app"
        note ret = return_step [OF ok p, of p]
        show "app_ok (cleanup_finished_match mid (return_to_central_lobby sender p app))" by (rule cleanup_match(2) [OF ret(2)])
        show "registry_step (reg app) (reg (cleanup_finished_match mid (return_to_central_lobby sender p app)))"
          unfolding cleanup_match(1) [OF ret(2)] ret(1)
          using registry_step.returned [OF place] by simp
      qed simp
      then show ?thesis by (simp add: h f Some)
    qed
  qed
qed

end
