(* ===== verification/App_Matches.thy ===== *)
theory App_Matches
  imports App_Play
begin

text \<open>
  The simulation of the matches: what a session makes of an operation, the events dispatched from it,
  a match that ends, the combat frames, the countdowns and the phases.
\<close>

section \<open>Sessions\<close>

definition ended :: "match_event list \<Rightarrow> bool" where
  "ended events \<longleftrightarrow> (\<exists>outcome message board. MatchEnded outcome message board \<in> set events)"

text \<open>A session ends exactly when it says so, once, and never loses or gains players.\<close>

definition session_ids :: "match_session \<Rightarrow> player_id set" where
  "session_ids s = dom (bt_get (ms_players s))"

definition session_moves :: "match_session \<Rightarrow> match_event list \<Rightarrow> match_session \<Rightarrow> bool" where
  "session_moves s events s' \<longleftrightarrow> session_ids s' = session_ids s \<and>
     (if ended events then is_live s \<and> \<not> is_live s' else is_live s' = is_live s)"

lemma ended_simps [simp]: "\<not> ended []" "ended (MatchEnded oc m b # es)" "ended (xs @ ys) \<longleftrightarrow> ended xs \<or> ended ys"
  "ended (SkillChosen pid slot ch # es) = ended es" "ended (PreCombatStarted n # es) = ended es" "ended (CombatStarted # es) = ended es"
  "ended (RoundWon rn t bd # es) = ended es" "ended (ManualResolutionRequired reason # es) = ended es"
  by (auto simp: ended_def)

lemma session_moves_refl [simp]: "session_moves s [] s"
  by (simp add: session_moves_def)

lemma session_moves_trans: "session_moves s es s1 \<Longrightarrow> session_moves s1 fs s2 \<Longrightarrow> session_moves s (es @ fs) s2"
  by (auto simp: session_moves_def split: if_splits)

lemma session_ids_set: "bt_get (ms_players s) k = Some p \<Longrightarrow> session_ids (set_player k q s) = session_ids s"
  by (force simp: session_ids_def set_player_def dom_map_of_conv_image_fst set_keys_insert dest: map_of_SomeD)

lemma session_ids_simps [simp]: "session_ids (s\<lparr>ms_phase := ph\<rparr>) = session_ids s" "session_ids (s\<lparr>score := sc\<rparr>) = session_ids s"
  "session_ids (s\<lparr>objective_team_a_ms := a, objective_team_b_ms := b\<rparr>) = session_ids s"
  "session_ids (s\<lparr>current_round := rn\<rparr>) = session_ids s" "session_ids (reset_for_next_round s) = session_ids s"
  by (auto simp: session_ids_def reset_for_next_round_def dom_def)

lemma is_live_simps [simp]: "is_live (s\<lparr>ms_players := ps\<rparr>) = is_live s" "is_live (set_player k q s) = is_live s"
  "is_live (s\<lparr>ms_phase := match_phase.SkillPick n\<rparr>)" "is_live (s\<lparr>ms_phase := match_phase.PreCombat n\<rparr>)"
  "is_live (s\<lparr>ms_phase := match_phase.Combat\<rparr>)" "\<not> is_live (s\<lparr>ms_phase := match_phase.MatchEnd oc m\<rparr>)"
  "is_live (s\<lparr>objective_team_a_ms := a, objective_team_b_ms := b\<rparr>) = is_live s" "is_live (s\<lparr>score := sc\<rparr>) = is_live s"
  by (simp_all add: is_live_def set_player_def)

lemma live_phase: "phase_name (ms_phase s) \<in> {''SkillPick'', ''PreCombat'', ''Combat''} \<Longrightarrow> is_live s"
  by (cases "ms_phase s") (simp_all add: is_live_def)

lemma reset_is_live: "is_live (reset_for_next_round s)"
  by (simp add: reset_for_next_round_def is_live_def)

lemma finish_round_moves:
  "finish_round winner s = (Inr events, s') \<Longrightarrow> is_live s \<Longrightarrow> session_moves s events s'"
  by (auto simp: finish_round_def session_moves_def Let_def reset_is_live split: if_splits option.splits)

lemma submit_moves:
  "submit_skill_pick pid choice s = (Inr events, s') \<Longrightarrow> session_moves s events s'"
  "submit_skill_pick pid choice s = (Inl (Err e), s') \<Longrightarrow> session_moves s [] s'"
  by (auto simp: submit_skill_pick_def session_moves_def Let_def session_ids_set live_phase split: sum.splits option.splits prod.splits if_splits fault.splits)

lemma advance_phase_moves:
  "advance_phase_by n s = (Inr events, s') \<Longrightarrow> session_moves s events s'"
  "advance_phase_by n s = (Inl (Err e), s') \<Longrightarrow> session_moves s [] s'"
  by (auto simp: advance_phase_by_def session_moves_def Let_def is_live_def split: match_phase.splits if_splits)

lemma mark_moves:
  "mark_player_defeated pid s = (Inr events, s') \<Longrightarrow> session_moves s events s'"
  "mark_player_defeated pid s = (Inl (Err e), s') \<Longrightarrow> session_moves s [] s'"
proof -
  assume m: "mark_player_defeated pid s = (Inr events, s')"
  then obtain p where p: "phase_name (ms_phase s) = ''Combat''" "bt_get (ms_players s) pid = Some p" "alive p"
    by (auto simp: mark_player_defeated_def Let_def split: sum.splits option.splits if_splits)
  let ?s1 = "set_player pid (p\<lparr>alive := False\<rparr>) s"
  have live: "is_live s" using p(1) by (simp add: live_phase)
  have s1: "session_moves s [] ?s1" using p(2) by (simp add: session_moves_def session_ids_set)
  have "session_moves ?s1 events s'"
    using m p live finish_round_moves [of _ ?s1 events s'] by (auto simp: mark_player_defeated_def Let_def split: sum.splits if_splits)
  then show "session_moves s events s'" using session_moves_trans [OF s1] by simp
next
  assume m: "mark_player_defeated pid s = (Inl (Err e), s')"
  then have "s' = s" by (auto simp: mark_player_defeated_def finish_round_def Let_def split: sum.splits option.splits if_splits)
  then show "session_moves s [] s'" by simp
qed

lemma objective_moves:
  "advance_objective_control a b n s = (Inr events, s') \<Longrightarrow> session_moves s events s'"
  "advance_objective_control a b n s = (Inl (Err e), s') \<Longrightarrow> session_moves s [] s'"
proof -
  assume m: "advance_objective_control a b n s = (Inr events, s')"
  then have live: "is_live s" by (auto simp: advance_objective_control_def live_phase split: sum.splits)
  let ?s1 = "s\<lparr>objective_team_a_ms := objective_gain a n (objective_target_ms (config s)) (objective_team_a_ms s),
      objective_team_b_ms := objective_gain b n (objective_target_ms (config s)) (objective_team_b_ms s)\<rparr>"
  have s1: "session_moves s [] ?s1" by (simp add: session_moves_def)
  have "session_moves ?s1 events s'"
    using m live finish_round_moves [of _ ?s1 events s']
    by (auto simp: advance_objective_control_def Let_def split: sum.splits option.splits)
  then show "session_moves s events s'" using session_moves_trans [OF s1] by simp
next
  assume m: "advance_objective_control a b n s = (Inl (Err e), s')"
  then have "s' = s" by (auto simp: advance_objective_control_def finish_round_def Let_def split: sum.splits option.splits if_splits)
  then show "session_moves s [] s'" by simp
qed

lemma mark_defeated_moves:
  "mark_defeated targets s events errors = Some (events', errors', s') \<Longrightarrow> \<exists>new. events' = events @ new \<and> session_moves s new s'"
proof (induction targets s events errors rule: mark_defeated.induct)
  case (2 target targets s events errors)
  obtain res s1 where m: "mark_player_defeated target s = (res, s1)" by fastforce
  show ?case
  proof (cases res)
    case (Inr es)
    then have "mark_defeated targets s1 (events @ es) errors = Some (events', errors', s')" using 2(3) m by simp
    then obtain new where "events' = (events @ es) @ new" "session_moves s1 new s'" using 2(2) [OF m [symmetric] Inr] by blast
    then show ?thesis using session_moves_trans [OF mark_moves(1)] m Inr by (metis append_assoc)
  next
    case (Inl f)
    then obtain e where e: "f = Err e" using 2(3) m by (cases f) auto
    then have "mark_defeated targets s1 events (errors @ [match_error_text e]) = Some (events', errors', s')" using 2(3) m Inl by simp
    then obtain new where "events' = events @ new" "session_moves s1 new s'" using 2(1) [OF m [symmetric] Inl e] by blast
    then show ?thesis using session_moves_trans [OF mark_moves(2)] m Inl e by (metis append_Nil)
  qed
qed auto

lemma progress_objective_moves:
  assumes "progress_objective n r events errors = Some (events', errors', r')"
  shows "\<exists>new. events' = events @ new \<and> session_moves (mr_session r) new (mr_session r') \<and> r' = r\<lparr>mr_session := mr_session r'\<rparr>"
proof (cases "events = [] \<and> ms_phase (mr_session r) = match_phase.Combat")
  case True
  obtain a b where ab: "objective_control_presence r = (a, b)" by fastforce
  obtain res s1 where o: "advance_objective_control a b n (mr_session r) = (res, s1)" by fastforce
  show ?thesis using assms True ab o
    by (cases res) (auto simp: progress_objective_def dest: objective_moves split: fault.splits)
next
  case False
  then show ?thesis using assms by (auto simp: progress_objective_def)
qed

lemma resolve_moves:
  assumes "resolve_match_progress r sim_events content n = Some (events, errors, r')"
  shows "session_moves (mr_session r) events (mr_session r')" "mr_roster r' = mr_roster r" "mr_participants r' = mr_participants r"
proof -
  obtain es1 er1 s1 where m: "mark_defeated (collect_defeated_targets sim_events) (mr_session r) [] [] = Some (es1, er1, s1)"
    using assms by (auto simp: resolve_match_progress_def split: option.splits)
  obtain es2 er2 r2 where p: "progress_objective n (r\<lparr>mr_session := s1\<rparr>) es1 er1 = Some (es2, er2, r2)"
    using assms m by (auto simp: resolve_match_progress_def split: option.splits)
  have r': "events = es2" "mr_session r' = mr_session r2" "mr_roster r' = mr_roster r2" "mr_participants r' = mr_participants r2"
    using assms m p by (auto simp: resolve_match_progress_def match_rebuild_world_def split: if_splits)
  have "session_moves (mr_session r) es1 s1" using mark_defeated_moves [OF m] by simp
  then show "session_moves (mr_session r) events (mr_session r')"
    using progress_objective_moves [OF p] session_moves_trans r'(1,2) by auto
  show "mr_roster r' = mr_roster r" "mr_participants r' = mr_participants r"
    using progress_objective_moves [OF p] r'(3,4) by (metis match_runtime.select_convs match_runtime.update_convs match_runtime.surjective)+
qed

section \<open>The events of a match\<close>

lemma moved_fold:
  assumes "\<And>seat p. cn_location (f seat p) = l"
  shows "reg (fold (\<lambda>seat. with_player (ta_player_id seat) (f seat)) roster app) = moved (ta_player_id ` set roster) l (reg app)"
proof (induction roster arbitrary: app)
  case (Cons seat roster)
  show ?case unfolding fold_Cons comp_apply Cons.IH
    by (auto simp: reg_with_player assms moved_def fun_eq_iff intro!: registry_eqI)
qed (auto simp: moved_def intro!: registry_eqI)

lemma fold_players_ok:
  assumes "\<And>seat p. wf_record (cn_record p) \<Longrightarrow> wf_record (cn_record (f seat p))" "\<And>seat p. cn_player_name (f seat p) = cn_player_name p"
  shows "app_ok app \<Longrightarrow> app_ok (fold (\<lambda>seat. with_player (ta_player_id seat) (f seat)) roster app)"
proof (induction roster arbitrary: app)
  case (Cons seat roster)
  have "app_ok (with_player (ta_player_id seat) (f seat) app)"
    by (rule with_player_ok [OF Cons.prems]) (simp add: player_entry_ok_def assms)
  then show ?case using Cons.IH by simp
qed simp

lemma fold_players_timing [simp]:
  "timing (fold (\<lambda>seat. with_player (i seat) (f seat)) roster app) = timing app"
  by (induction roster arbitrary: app) simp_all

lemma persist_unseen: "unseen app (snd (persist_player_record env pid app))"
proof (cases "bt_get (sa_players app) pid")
  case (Some p)
  obtain saved store w where s: "store_save (env_files env) (cn_player_name p) (cn_record p) (sa_record_store app) (sa_world app) = (saved, store, w)"
    by (metis prod_cases3)
  have "store_ok store" if "app_ok app"
    using store_save_ok [OF s] app_okD(7,10) [OF that] Some by (simp add: player_entry_ok_def)
  then have "unseen app (app\<lparr>sa_record_store := store, sa_world := w\<rparr>)" by (simp add: unseen_def)
  then show ?thesis using Some s by (auto simp: persist_player_record_def Let_def intro!: unseen_after split: sum.split)
qed (simp add: persist_player_record_def)

text \<open>What the outcome of a match does to the registry.\<close>

definition concluded :: "match_id \<Rightarrow> registry \<Rightarrow> registry" where
  "concluded mid r = (case rg_matches r mid of None \<Rightarrow> r | Some (ps, _) \<Rightarrow> moved ps (InResults mid) r)"

lemma concluded_twice [simp]: "concluded mid (concluded mid r) = concluded mid r"
  by (cases "rg_matches r mid") (auto simp: concluded_def moved_def fun_eq_iff split: option.splits intro!: registry_eqI)

lemma finish_player_record: "wf_record (cn_record p) \<Longrightarrow> wf_record (cn_record (finish_player mid outcome ms feedback seat p))"
  by (cases outcome) (auto simp: finish_player_def Let_def record_outcome_def wf_record_ops)

lemma apply_outcome:
  shows "timing (apply_match_outcome env mid outcome app) = timing app"
    "app_ok app \<Longrightarrow> reg (apply_match_outcome env mid outcome app) = concluded mid (reg app)"
    "app_ok app \<Longrightarrow> app_ok (apply_match_outcome env mid outcome app)"
proof -
  have "timing (apply_match_outcome env mid outcome app) = timing app \<and> (app_ok app \<longrightarrow>
      reg (apply_match_outcome env mid outcome app) = concluded mid (reg app) \<and> app_ok (apply_match_outcome env mid outcome app))"
  proof (cases "bt_get (sa_matches app) mid")
    case None
    then show ?thesis by (simp add: apply_match_outcome_def concluded_def)
  next
    case (Some r)
    let ?ms = "sat_mul (mr_combat_frame_index r) (ucast (sc_combat_frame_ms (app_simulation app)))"
    let ?app1 = "fold (\<lambda>seat. with_player (ta_player_id seat) (finish_player mid outcome ?ms (mr_feedback r) seat)) (mr_roster r) app"
    have u: "unseen ?app1 (apply_match_outcome env mid outcome app)"
      using Some by (auto simp: apply_match_outcome_def Let_def intro!: unseen_fold persist_unseen)
    have "reg ?app1 = concluded mid (reg app) \<and> app_ok ?app1" if ok: "app_ok app"
    proof -
      have "mr_participants r = map ta_player_id (mr_roster r)" using app_okD(9) [OF ok Some] by (simp add: match_entry_ok_def)
      then have "reg ?app1 = concluded mid (reg app)"
        using moved_fold [of "finish_player mid outcome ?ms (mr_feedback r)" "InResults mid" "mr_roster r" app] Some
        by (simp add: concluded_def match_state_def finish_player_def Let_def)
      moreover have "app_ok ?app1"
        by (rule fold_players_ok [OF finish_player_record _ ok]) (simp_all add: finish_player_def Let_def)
      ultimately show ?thesis ..
    qed
    then show ?thesis using unseenD [OF u] by simp
  qed
  then show "timing (apply_match_outcome env mid outcome app) = timing app"
    "app_ok app \<Longrightarrow> reg (apply_match_outcome env mid outcome app) = concluded mid (reg app)"
    "app_ok app \<Longrightarrow> app_ok (apply_match_outcome env mid outcome app)" by blast+
qed

lemmas log_after = log_or_report_unseen [THEN [2] unseen_trans]

lemma record_unseen:
  "(\<And>p. wf_record (cn_record p) \<Longrightarrow> wf_record (f p)) \<Longrightarrow> unseen app (with_player pid (\<lambda>p. p\<lparr>cn_record := f p\<rparr>) app)"
  by (rule with_player_unseen) simp_all

lemma skill_chosen_unseen: "unseen app (dispatch_skill_chosen env mid recipients pid slot choice app)"
  by (auto simp: dispatch_skill_chosen_def Let_def wf_record_ops intro!: unseen_after log_after record_unseen)

lemma combat_started_unseen: "dispatch_combat_started env mid recipients app = Some app' \<Longrightarrow> unseen app app'"
proof -
  assume d: "dispatch_combat_started env mid recipients app = Some app'"
  obtain app1 where a: "unseen app app1" "app' = broadcast_event recipients CombatStartedEvent (log_or_report env mid recipients LogCombatStarted app1)"
  proof (cases "bt_get (sa_matches app) mid")
    case None
    then show ?thesis using that [of app] d by (simp add: dispatch_combat_started_def)
  next
    case (Some r)
    then obtain r' where r': "match_rebuild_world (sa_content app) r = Some r'"
      "app' = broadcast_event recipients CombatStartedEvent (log_or_report env mid recipients LogCombatStarted (with_match mid (\<lambda>_. r'\<lparr>mr_combat_frame_index := 0\<rparr>) app))"
      using d by (auto simp: dispatch_combat_started_def)
    have "unseen app (with_match mid (\<lambda>_. r'\<lparr>mr_combat_frame_index := 0\<rparr>) app)"
      using r'(1) Some by (intro with_match_unseen) (auto simp: match_rebuild_world_def)
    then show ?thesis using that r'(2) by blast
  qed
  then show ?thesis by (auto intro!: unseen_after log_after)
qed

lemma round_won_unseen: "unseen app (dispatch_round_won env mid recipients finished winner board app)"
proof (cases "bt_get (sa_matches app) mid")
  case None
  then show ?thesis by (auto simp: dispatch_round_won_def Let_def intro!: unseen_after log_after)
next
  case (Some r)
  let ?f = "\<lambda>seat. with_player (ta_player_id seat) (\<lambda>p. p\<lparr>cn_record :=
      (if ta_team seat = winner then record_round_win else record_round_loss) (cn_record p)\<rparr>)"
  have "unseen app (fold ?f (mr_roster r) app)"
    by (intro unseen_fold record_unseen) (simp add: wf_record_ops)
  moreover have "unseen s (with_match mid (\<lambda>runtime. runtime\<lparr>mr_feedback := feedback\<rparr>) s)" for s :: "'a server_app" and feedback
    by (rule with_match_unseen) simp
  ultimately have "unseen app (with_match mid (\<lambda>runtime. runtime\<lparr>mr_feedback := feedback\<rparr>) (fold ?f (mr_roster r) app))" for feedback
    using unseen_trans by blast
  then show ?thesis using Some by (auto simp: dispatch_round_won_def Let_def case_prod_unfold intro!: unseen_after log_after)
qed

lemma match_ended_effect:
  shows "timing (dispatch_match_ended env mid recipients outcome message board app) = timing app"
    "app_ok app \<Longrightarrow> reg (dispatch_match_ended env mid recipients outcome message board app) = concluded mid (reg app)"
    "app_ok app \<Longrightarrow> app_ok (dispatch_match_ended env mid recipients outcome message board app)"
proof -
  have u: "unseen (apply_match_outcome env mid outcome app) (dispatch_match_ended env mid recipients outcome message board app)"
    by (cases "bt_get (sa_matches app) mid") (auto simp: dispatch_match_ended_def Let_def intro!: unseen_after log_after)
  show "timing (dispatch_match_ended env mid recipients outcome message board app) = timing app"
    "app_ok app \<Longrightarrow> reg (dispatch_match_ended env mid recipients outcome message board app) = concluded mid (reg app)"
    "app_ok app \<Longrightarrow> app_ok (dispatch_match_ended env mid recipients outcome message board app)"
    using unseenD [OF u] apply_outcome [where env = env and mid = mid and outcome = outcome and app = app] by simp_all
qed

lemma dispatch_event_effect:
  assumes "dispatch_match_event env mid recipients event app = Some app'"
  shows "timing app' = timing app \<and> (app_ok app \<longrightarrow> app_ok app' \<and>
    reg app' = (if ended [event] then concluded mid (reg app) else reg app))"
proof (cases "ended [event]")
  case True
  then show ?thesis using assms match_ended_effect [where env = env and mid = mid and recipients = recipients and app = app]
    by (cases event) (auto simp: dispatch_match_event_def)
next
  case False
  have "unseen app app'"
  proof (cases event)
    case (PreCombatStarted seconds)
    then show ?thesis using assms by (auto simp: dispatch_match_event_def intro!: unseen_after log_after)
  next
    case CombatStarted
    then show ?thesis using assms combat_started_unseen by (auto simp: dispatch_match_event_def)
  qed (use assms False in \<open>auto simp: dispatch_match_event_def skill_chosen_unseen round_won_unseen unseen_sends\<close>)
  then show ?thesis using False unseenD by auto
qed

lemma dispatch_each_effect:
  "each_opt (dispatch_match_event env mid recipients) events app = Some app' \<Longrightarrow> timing app' = timing app \<and>
     (app_ok app \<longrightarrow> app_ok app' \<and> reg app' = (if ended events then concluded mid (reg app) else reg app))"
proof (induction events arbitrary: app)
  case (Cons event events)
  then obtain app1 where a: "dispatch_match_event env mid recipients event app = Some app1"
    "each_opt (dispatch_match_event env mid recipients) events app1 = Some app'" by (auto split: option.splits)
  have "ended (event # events) \<longleftrightarrow> ended [event] \<or> ended events" using ended_simps(3) [of "[event]" events] by simp
  then show ?case using Cons.IH [OF a(2)] dispatch_event_effect [OF a(1)] by auto
qed simp

lemma dispatch_effect:
  assumes "dispatch_match_events env mid events app = Some app'"
  shows "timing app' = timing app \<and> (app_ok app \<longrightarrow> app_ok app' \<and> reg app' = (if ended events then concluded mid (reg app) else reg app))"
proof -
  obtain app1 where a: "each_opt (dispatch_match_event env mid (match_recipients app mid)) events app = Some app1"
    using assms by (auto simp: dispatch_match_events_def split: option.splits)
  have "unseen app1 app'"
    using assms a broadcasts_unseen(1) by (auto simp: dispatch_match_events_def split: if_splits)
  then show ?thesis using dispatch_each_effect [OF a] unseenD by metis
qed

text \<open>An operation on a session, and the dispatch of what it said.\<close>

lemma match_progress:
  assumes "bt_get (sa_matches app) mid = Some r" "session_moves (mr_session r) events (mr_session (f r))"
    "mr_roster (f r) = mr_roster r" "mr_participants (f r) = mr_participants r"
    "unseen (with_match mid f app) app1"
    "dispatch_match_events env mid events app1 = Some app' \<or> \<not> ended events \<and> app' = app1"
  shows "sim app app'"
proof -
  have d: "timing app' = timing app1 \<and> (app_ok app1 \<longrightarrow> app_ok app' \<and> reg app' = (if ended events then concluded mid (reg app1) else reg app1))"
    using assms(6) dispatch_effect [of env mid events app1 app'] by auto
  have t: "timing app' = timing app" using d unseenD(2) [OF assms(5)] by simp
  have "app_ok app' \<and> registry_step\<^sup>*\<^sup>* (reg app) (reg app')" if ok: "app_ok app"
  proof -
    have "match_entry_ok (f r)" using app_okD(9) [OF ok assms(1)] assms(2-4)
      by (simp add: match_entry_ok_def session_moves_def session_ids_def)
    then have ok1: "app_ok app1" using assms(1) by (intro unseenD(3) [OF assms(5)] with_match_ok ok) simp
    have r1: "reg app1 = (reg app)\<lparr>rg_matches := (rg_matches (reg app))(mid \<mapsto> match_state (f r))\<rparr>"
      unfolding unseenD(1) [OF assms(5)] using assms(1) by (auto simp: reg_with_match fun_eq_iff intro!: registry_eqI)
    have ps: "rg_matches (reg app) mid = Some (match_state r)" using assms(1) by simp
    show ?thesis
    proof (cases "ended events")
      case True
      then have "match_state r = (set (mr_participants r), True)" "match_state (f r) = (set (mr_participants r), False)"
        using assms(2,4) by (simp_all add: match_state_def session_moves_def)
      moreover from this have "reg app' = moved (set (mr_participants r)) (InResults mid) (reg app1)"
        using d ok1 True r1 by (simp add: concluded_def)
      ultimately have "registry_step (reg app) (reg app')"
        using registry_step.match_over [of "reg app" mid "set (mr_participants r)"] ps r1 by simp
      then show ?thesis using d ok1 by blast
    next
      case False
      then have "match_state (f r) = match_state r" using assms(2,4) by (simp add: match_state_def session_moves_def)
      then have "reg app1 = reg app" using r1 ps by (auto simp: fun_eq_iff intro!: registry_eqI)
      then show ?thesis using d ok1 False by simp
    qed
  qed
  with t show ?thesis by (simp add: sim_def)
qed

end
