(* ===== verification/App_Server.thy ===== *)
theory App_Server
  imports App_Matches
begin

text \<open>
  The server as a whole: packets, the passing of time and disconnections refine the registry, so that
  the invariant of the registry holds in every state the server reaches.
\<close>

section \<open>Time\<close>

lemma advance_combat_match_sim:
  assumes "advance_combat_match env mid app = Some app'"
  shows "sim app app'"
proof (cases "bt_get (sa_matches app) mid")
  case None
  then show ?thesis using assms by (simp add: advance_combat_match_def tick_combat_match_def)
next
  case (Some r)
  let ?ms = "sc_combat_frame_ms (app_simulation app)"
  let ?r1 = "r\<lparr>mr_combat_frame_index := sat_add (mr_combat_frame_index r) 1\<rparr>"
  obtain sim_events world where t: "tick ?ms (mr_world ?r1) = Some (sim_events, world)"
    using assms Some by (auto simp: advance_combat_match_def tick_combat_match_def Let_def split: option.splits)
  let ?r2 = "?r1\<lparr>mr_world := world\<rparr>"
  obtain events errors r' where p: "resolve_match_progress ?r2 sim_events (sa_content app) ?ms = Some (events, errors, r')"
    using assms Some t by (auto simp: advance_combat_match_def tick_combat_match_def Let_def split: option.splits)
  let ?app1 = "with_match mid (\<lambda>_. r') app"
  obtain appended app2 where l: "append_simulation_logs env mid sim_events ?app1 = (appended, app2)" by fastforce
  obtain errs where tc: "tick_combat_match env mid app = Some (Some (collect_effect_batch world sim_events, events, errs), app2)"
    using Some t p l by (simp add: tick_combat_match_def Let_def)
  obtain texts app3 where dr: "drain_match_combat_text mid app2 = (texts, app3)" by fastforce
  let ?app4 = "send_combat_texts texts app3"
  obtain app5 where b: "broadcast_arena_effect_batch mid (collect_effect_batch world sim_events) ?app4 = Some app5"
    using assms tc dr by (auto simp: advance_combat_match_def split: option.splits)
  let ?app6 = "report_errors (match_recipients app5 mid) errs app5"
  obtain app7 where d: "(if events = [] then Some ?app6 else dispatch_match_events env mid events ?app6) = Some app7"
    "broadcast_arena_delta_snapshot mid app7 = Some app'"
    using assms tc dr b by (auto simp: advance_combat_match_def Let_def split: option.splits)
  have "unseen ?app1 app2" using append_simulation_logs_unseen [of ?app1 env mid sim_events] l by simp
  also have "unseen app2 app3" using drain_unseen [of app2 mid] dr by simp
  also have "unseen app3 ?app4" by (rule send_texts_unseen)
  also have "unseen ?app4 app5" by (rule effect_broadcasts_unseen(1) [OF b])
  also have "unseen app5 ?app6" by (rule send_texts_unseen)
  finally have u: "unseen ?app1 ?app6" .
  have "sim app app7"
  proof (rule match_progress [OF Some _ _ _ u])
    show "session_moves (mr_session r) events (mr_session r')" "mr_roster r' = mr_roster r" "mr_participants r' = mr_participants r"
      using resolve_moves [OF p] by simp_all
    show "dispatch_match_events env mid events ?app6 = Some app7 \<or> \<not> ended events \<and> app7 = ?app6"
      using d(1) by (auto split: if_splits)
  qed
  then show ?thesis using broadcasts_unseen(2) [OF d(2)] by (rule sim_unseen)
qed

lemma advance_training_unseen:
  assumes "advance_training_session tid app = Some app'"
  shows "unseen app app'"
proof (cases "bt_get (sa_training_sessions app) tid")
  case None
  then show ?thesis using assms by (simp add: advance_training_session_def tick_training_session_def)
next
  case (Some r)
  obtain batch app1 where t: "tick_training_session tid app = Some (Some batch, app1)"
    using assms Some by (auto simp: advance_training_session_def tick_training_session_def Let_def split: option.splits)
  then obtain r' where "app1 = with_training tid (\<lambda>_. r') app" "tr_participant r' = tr_participant r"
    using Some by (auto simp: tick_training_session_def Let_def split: option.splits)
  then have "unseen app app1" using Some by (auto intro!: with_training_unseen)
  moreover obtain app2 where b: "broadcast_training_effect_batch tid batch app1 = Some app2" "broadcast_training_delta_snapshot tid app2 = Some app'"
    using assms t by (auto simp: advance_training_session_def split: option.splits)
  have "unseen app1 app2" by (rule effect_broadcasts_unseen(2) [OF b(1)])
  moreover have "unseen app2 app'" by (rule broadcasts_unseen(4) [OF b(2)])
  ultimately show ?thesis by (meson unseen_trans)
qed

lemma advance_combat_frames_sim:
  assumes "advance_combat_frames env app = Some app'"
  shows "sim app app'"
proof -
  obtain app1 where a: "each_opt (\<lambda>mid app. if \<not> is_combat_match app mid then Some app else advance_combat_match env mid app) (bt_keys (sa_matches app)) app = Some app1"
    "each_opt advance_training_session (bt_keys (sa_training_sessions app1)) app1 = Some app'"
    using assms by (auto simp: advance_combat_frames_def split: option.splits)
  have "sim app app1" by (rule sim_each [OF _ a(1)]) (auto intro: advance_combat_match_sim split: if_splits)
  also have "sim app1 app'" by (rule sim_each [OF _ a(2)]) (intro unseen_sim advance_training_unseen)
  finally show ?thesis .
qed

section \<open>From a lobby to a match\<close>

lemma roster_of_countdown:
  assumes "lobby_inv l" "lobby_phase l = LaunchCountdown seconds roster"
  shows "ta_player_id ` set roster = dom (bt_get (lobby_players l))" "roster \<noteq> []" "distinct (map ta_player_id roster)"
    "\<exists>e \<in> set roster. ta_team e = t"
proof -
  have r: "roster = locked_roster l" "can_start_countdown l" using assms by (simp_all add: lobby_inv_def)
  have "map ta_player_id roster = map fst (lobby_players l)" "distinct (map ta_player_id roster)"
    using locked_roster_ids [OF assms(1) r(2)] r(1) by simp_all
  then show "ta_player_id ` set roster = dom (bt_get (lobby_players l))" "distinct (map ta_player_id roster)"
    by (metis dom_map_of_conv_image_fst list.set_map)+
  show teams: "\<exists>e \<in> set roster. ta_team e = t" for t using locked_roster_teams [OF r(2)] r(1) by simp
  then show "roster \<noteq> []" by auto
qed

lemma enrol_distinct:
  "distinct (map ta_player_id es) \<Longrightarrow> (\<forall>e \<in> set es. ta_player_id e \<notin> fst ` set ps) \<Longrightarrow>
     \<exists>ps'. enrol es ps a b = Inr (ps', a + length (filter (\<lambda>e. ta_team e = TeamA) es), b + length (filter (\<lambda>e. ta_team e = TeamB) es)) \<and>
       fst ` set ps' = ta_player_id ` set es \<union> fst ` set ps"
proof (induction es arbitrary: ps a b)
  case (Cons e es)
  have "\<not> bt_contains ps (ta_player_id e)" using Cons.prems(2) by (simp add: bt_contains_def map_of_eq_None_iff)
  moreover have "\<forall>x \<in> set es. ta_player_id x \<notin> fst ` set (bt_insert (ta_player_id e) (new_match_player e) ps)"
    using Cons.prems by (auto simp: set_keys_insert) (metis image_eqI)
  ultimately show ?case
    using Cons.IH [of "bt_insert (ta_player_id e) (new_match_player e) ps" "if ta_team e = TeamA then a + 1 else a" "if ta_team e = TeamB then b + 1 else b"] Cons.prems(1)
    by (cases "ta_team e") (auto simp: set_keys_insert)
qed simp

lemma session_starts:
  assumes "distinct (map ta_player_id roster)" "\<And>t. \<exists>e \<in> set roster. ta_team e = t"
  shows "\<exists>s. match_session_new mid roster cfg = Inr s \<and> session_ids s = ta_player_id ` set roster \<and> is_live s"
proof -
  obtain ps where ps: "enrol roster [] 0 0 = Inr (ps, length (filter (\<lambda>e. ta_team e = TeamA) roster), length (filter (\<lambda>e. ta_team e = TeamB) roster))"
    "fst ` set ps = ta_player_id ` set roster"
    using enrol_distinct [OF assms(1), of "[]" 0 0] by auto
  have "length (filter (\<lambda>e. ta_team e = t) roster) \<noteq> 0" for t
    using assms(2) [of t] by (simp add: filter_empty_conv)
  with ps show ?thesis
    by (simp add: match_session_new_def known_round_1 session_ids_def dom_map_of_conv_image_fst is_live_def)
qed

lemma config_starts:
  assumes "content_ok content" "target \<noteq> 0"
  shows "\<exists>cfg. match_config_new (mcf_total_rounds (gcf_match_flow (gct_configuration content))) (mcf_skill_pick_seconds (gcf_match_flow (gct_configuration content)))
    (mcf_pre_combat_seconds (gcf_match_flow (gct_configuration content))) target = Inr cfg"
  using assms by (auto simp: content_ok_def valid_match_configuration_def match_config_new_def round_number_new_def and_then_def map_err_def
      MAX_ROUNDS_def split: sum.splits if_splits)

lemma launch_sim:
  assumes "launch_match env lid mid m roster session app = Some app'" "app_ok app" "bt_get (sa_game_lobbies app) lid = Some r"
    "session_ids session = ta_player_id ` set roster" "is_live session"
  shows "timing app' = timing app" "app_ok app'"
    "reg app' = moved (ta_player_id ` set roster) (InMatch mid) ((reg app)\<lparr>rg_lobbies := (rg_lobbies (reg app))(lid := None),
       rg_matches := (rg_matches (reg app))(mid \<mapsto> (ta_player_id ` set roster, True))\<rparr>)"
proof -
  let ?ps = "map ta_player_id roster"
  let ?app1 = "fold (\<lambda>pid. with_player pid (enter_match mid)) ?ps app"
  obtain world where w: "build_world roster session (sa_content ?app1) m = Some world"
    using assms(1) by (auto simp: launch_match_def Let_def split: option.splits)
  let ?app2 = "?app1\<lparr>sa_matches := bt_insert mid (new_match_runtime m roster session world) (sa_matches ?app1),
      sa_game_lobbies := bt_remove lid (sa_game_lobbies ?app1)\<rparr>"
  have fold_eq: "?app1 = fold (\<lambda>seat. with_player (ta_player_id seat) (enter_match mid)) roster app"
    by (simp add: fold_map comp_def)
  have u: "unseen ?app2 app'"
  proof -
    obtain first where "round_number_new 1 = Inr first"
      using assms(1) w by (auto simp: launch_match_def Let_def split: sum.splits)
    then obtain app3 where a: "broadcast_arena_state_snapshot mid app3 = Some app'" "app3 = broadcast_event ?ps
        (MatchStarted mid first (mcf_skill_pick_seconds (gcf_match_flow (gct_configuration (sa_content
          (log_or_report env mid ?ps (LogMatchStarted (map player_id_get ?ps)) (broadcast_lobby_directory_snapshot ?app2)))))))
        (log_or_report env mid ?ps (LogMatchStarted (map player_id_get ?ps)) (broadcast_lobby_directory_snapshot ?app2))"
      using assms(1) w by (simp add: launch_match_def Let_def)
    have "unseen ?app2 app3" unfolding a(2) by (intro unseen_after log_after unseen_refl)
    then show ?thesis using broadcasts_unseen(1) [OF a(1)] by (rule unseen_trans)
  qed
  have same: "sa_matches ?app1 = sa_matches app" "sa_game_lobbies ?app1 = sa_game_lobbies app" "timing ?app1 = timing app"
    unfolding fold_eq by (rule fold_keeps [where P = sa_matches] fold_keeps [where P = sa_game_lobbies] fold_players_timing; simp add: with_player_def)+
  have ok1: "app_ok ?app1" unfolding fold_eq
    by (rule fold_players_ok [OF _ _ assms(2)]) (simp_all add: enter_match_def reset_combat_input_state_def)
  have reg1: "reg ?app1 = moved (ta_player_id ` set roster) (InMatch mid) (reg app)"
    unfolding fold_eq by (rule moved_fold) (simp add: enter_match_def reset_combat_input_state_def)
  have entry: "match_entry_ok (new_match_runtime m roster session world)" "match_state (new_match_runtime m roster session world) = (ta_player_id ` set roster, True)"
    using assms(4,5) by (simp_all add: match_entry_ok_def new_match_runtime_def match_state_def session_ids_def)
  have "app_ok ?app2" using ok1 entry(1) by (auto simp: app_ok_def bt_inv_ops bt_get_ops split: if_splits)
  then show "app_ok app'" by (rule unseenD(3) [OF u])
  show "timing app' = timing app" using unseenD(2) [OF u] same(3) by (simp add: timing_def)
  have "reg ?app2 = (reg ?app1)\<lparr>rg_lobbies := (rg_lobbies (reg ?app1))(lid := None),
       rg_matches := (rg_matches (reg ?app1))(mid \<mapsto> (ta_player_id ` set roster, True))\<rparr>"
    using app_okD(4,5) [OF ok1] entry(2) by (auto simp: reg_def bt_get_ops fun_eq_iff intro!: registry_eqI)
  then show "reg app' = moved (ta_player_id ` set roster) (InMatch mid) ((reg app)\<lparr>rg_lobbies := (rg_lobbies (reg app))(lid := None),
       rg_matches := (rg_matches (reg app))(mid \<mapsto> (ta_player_id ` set roster, True))\<rparr>)"
    unfolding unseenD(1) [OF u] reg1 by (intro registry_eqI) (simp_all add: moved_def fun_eq_iff)
qed

lemma launch_timing:
  assumes "launch_match env lid mid m roster session app = Some app'"
  shows "timing app' = timing app"
proof -
  let ?ps = "map ta_player_id roster"
  let ?app1 = "fold (\<lambda>pid. with_player pid (enter_match mid)) ?ps app"
  have t1: "timing ?app1 = timing app" by (rule fold_keeps) simp
  obtain app2 app3 where a: "timing app2 = timing ?app1" "broadcast_arena_state_snapshot mid app3 = Some app'"
    "unseen app2 app3"
  proof -
    obtain world where w: "build_world roster session (sa_content ?app1) m = Some world"
      using assms by (auto simp: launch_match_def Let_def split: option.splits)
    let ?app2 = "?app1\<lparr>sa_matches := bt_insert mid (new_match_runtime m roster session world) (sa_matches ?app1),
        sa_game_lobbies := bt_remove lid (sa_game_lobbies ?app1)\<rparr>"
    let ?app3 = "log_or_report env mid ?ps (LogMatchStarted (map player_id_get ?ps)) (broadcast_lobby_directory_snapshot ?app2)"
    obtain first where "round_number_new 1 = Inr first"
      using assms w by (auto simp: launch_match_def Let_def split: sum.splits)
    then have "broadcast_arena_state_snapshot mid (broadcast_event ?ps
        (MatchStarted mid first (mcf_skill_pick_seconds (gcf_match_flow (gct_configuration (sa_content ?app3))))) ?app3) = Some app'"
      using assms w by (simp add: launch_match_def Let_def)
    moreover have "unseen ?app2 (broadcast_event ?ps
        (MatchStarted mid first (mcf_skill_pick_seconds (gcf_match_flow (gct_configuration (sa_content ?app3))))) ?app3)"
      by (intro unseen_after log_after unseen_refl)
    ultimately show ?thesis using that [of ?app2] by (simp add: timing_def)
  qed
  show ?thesis using unseenD(2) [OF broadcasts_unseen(1) [OF a(2)]] unseenD(2) [OF a(3)] a(1) t1 by simp
qed

lemma start_match_timing:
  assumes "start_match_from_lobby env lid roster app = Some app'"
  shows "timing app' = timing app"
proof -
  have "allocate_match_id app = Some (mid, app1) \<Longrightarrow> timing app1 = timing app" for mid app1
    using match_id_used_sim [of app mid app1] by (auto simp: timing_def)
  then show ?thesis using assms launch_timing
    by (fastforce simp: start_match_from_lobby_def Let_def split: option.splits sum.splits fault.splits)
qed

lemma start_match_sim:
  assumes "start_match_from_lobby env lid roster (with_lobby lid l app) = Some app'" "bt_get (sa_game_lobbies app) lid = Some r"
    "lobby_phase (glr_lobby r) = LaunchCountdown seconds roster" "lobby_inv l"
  shows "timing app' = timing app" "app_ok app \<Longrightarrow> app_ok app' \<and> registry_step (reg app) (reg app')"
proof -
  let ?app1 = "with_lobby lid l app"
  have r1: "bt_get (sa_game_lobbies ?app1) lid = Some (r\<lparr>glr_lobby := l\<rparr>)" using assms(2) by (simp add: with_lobby_def)
  obtain mid app2 where a: "allocate_match_id ?app1 = Some (mid, app2)"
    using assms(1) r1 by (auto simp: start_match_from_lobby_def split: option.splits)
  have a2: "mid = MatchId (sa_next_match_id app)" "app2 = ?app1\<lparr>sa_next_match_id := sat_add (sa_next_match_id app) 1\<rparr>"
    using match_id_used_sim [OF a] by (simp_all add: with_lobby_def)
  have t2: "timing app2 = timing app" by (simp add: a2 timing_def with_lobby_def)
  have r2: "bt_get (sa_game_lobbies app2) lid = Some (r\<lparr>glr_lobby := l\<rparr>)" using r1 by (simp add: a2)
  have full: "app_ok app' \<and> registry_step (reg app) (reg app') \<and> timing app' = timing app" if ok: "app_ok app"
  proof -
    have entry: "lobby_inv (glr_lobby r)" "am_objective_target_ms (glr_map r) \<noteq> 0"
      using app_okD(8) [OF ok assms(2)] by (simp_all add: lobby_entry_ok_def)
    note roster = roster_of_countdown [OF entry(1) assms(3)]
    have "sa_content app2 = sa_content app" by (simp add: a2 with_lobby_def)
    then obtain cfg where cfg: "match_config_new (mcf_total_rounds (gcf_match_flow (gct_configuration (sa_content app2))))
        (mcf_skill_pick_seconds (gcf_match_flow (gct_configuration (sa_content app2))))
        (mcf_pre_combat_seconds (gcf_match_flow (gct_configuration (sa_content app2)))) (am_objective_target_ms (glr_map r)) = Inr cfg"
      using config_starts [OF app_okD(11) [OF ok] entry(2)] by auto
    obtain session where s: "match_session_new mid roster cfg = Inr session" "session_ids session = ta_player_id ` set roster" "is_live session"
      using session_starts [OF roster(3,4)] by blast
    have l: "launch_match env lid mid (glr_map r) roster session app2 = Some app'"
      using assms(1) r1 a cfg s(1) by (simp add: start_match_from_lobby_def Let_def)
    have ok2: "app_ok app2" using with_lobby_ok [OF ok assms(4)] by (simp add: a2 app_ok_def)
    note launched = launch_sim [OF l ok2 r2 s(2,3)]
    have ids: "ta_player_id ` set roster = lobby_ids r" using roster(1) by (simp add: lobby_ids_def)
    have "reg app' = moved (lobby_ids r) (InMatch mid) ((reg app)\<lparr>rg_next_match := sat_add (rg_next_match (reg app)) 1,
        rg_lobbies := (rg_lobbies (reg app))(lid := None), rg_matches := (rg_matches (reg app))(mid \<mapsto> (lobby_ids r, True))\<rparr>)"
      unfolding launched(3) ids a2 by (intro registry_eqI) (auto simp: moved_def reg_def with_lobby_def bt_get_modify fun_eq_iff)
    moreover have "lobby_ids r \<noteq> {}" using roster(1,2) ids by auto
    ultimately have "registry_step (reg app) (reg app')"
      using registry_step.match_launched [of "reg app" lid "lobby_ids r" mid] assms(2) a2(1) by simp
    then show ?thesis using launched(1,2) t2 by simp
  qed
  then show "app_ok app \<Longrightarrow> app_ok app' \<and> registry_step (reg app) (reg app')" by blast
  show "timing app' = timing app"
    using start_match_timing [OF assms(1)] by simp
qed

lemma countdown_ids:
  assumes "lobby_inv l" "advance_countdown l = (event, l')" "\<And>roster. event \<noteq> Inr (MatchLaunchReady roster)"
  shows "dom (bt_get (lobby_players l')) = dom (bt_get (lobby_players l))"
  using assms(2,3) by (auto simp: advance_countdown_def split: lobby_phase.splits if_splits)

lemma countdown_launch:
  assumes "advance_countdown l = (Inr (MatchLaunchReady roster), l')"
  shows "\<exists>seconds. lobby_phase l = LaunchCountdown seconds roster"
  using assms by (auto simp: advance_countdown_def split: lobby_phase.splits if_splits)

lemma advance_lobby_countdown_sim:
  assumes "advance_lobby_countdown env lid app = Some app'"
  shows "sim app app'"
proof (cases "bt_get (sa_game_lobbies app) lid")
  case None
  then show ?thesis using assms by (simp add: advance_lobby_countdown_def)
next
  case (Some r)
  obtain event l where c: "advance_countdown (glr_lobby r) = (event, l)" by fastforce
  have linv: "lobby_inv l" if "lobby_inv (glr_lobby r)" using advance_countdown_inv [OF that] c by simp
  show ?thesis
  proof (cases "\<exists>roster. event = Inr (MatchLaunchReady roster)")
    case True
    then obtain roster where e: "event = Inr (MatchLaunchReady roster)" ..
    then obtain seconds where ph: "lobby_phase (glr_lobby r) = LaunchCountdown seconds roster" using c countdown_launch by blast
    have st: "start_match_from_lobby env lid roster (with_lobby lid l app) = Some app'"
      using assms Some c e by (simp add: advance_lobby_countdown_def Let_def)
    have "app_ok app' \<and> registry_step (reg app) (reg app')" if ok: "app_ok app"
      using start_match_sim(2) [OF st Some ph _ ok] linv app_okD(8) [OF ok Some] by (simp add: lobby_entry_ok_def)
    moreover have "timing app' = timing app" using start_match_timing [OF st] by simp
    ultimately show ?thesis by (intro simI) blast+
  next
    case False
    have "sim app (with_lobby lid l app)"
      using countdown_ids [OF _ c] False linv by (intro sim_if_ok with_lobby_unseen [OF Some]) (auto simp: lobby_ids_def)
    moreover have "unseen (with_lobby lid l app) app'"
      using assms Some c False
      by (cases event; cases "projr event") (auto simp: advance_lobby_countdown_def Let_def intro!: unseen_after)
    ultimately show ?thesis by (rule sim_unseen)
  qed
qed

lemma advance_lobby_countdowns_sim: "advance_lobby_countdowns env app = Some app' \<Longrightarrow> sim app app'"
  unfolding advance_lobby_countdowns_def by (erule sim_each [rotated]) (rule advance_lobby_countdown_sim)

text \<open>A change of the session of a match, followed by the dispatch of its events.\<close>

lemma session_change_sim:
  assumes "bt_get (sa_matches app) mid = Some r" "session_moves (mr_session r) events s"
    "dispatch_match_events env mid events (with_match mid (\<lambda>r. r\<lparr>mr_session := s\<rparr>) app) = Some app' \<or>
     \<not> ended events \<and> unseen (with_match mid (\<lambda>r. r\<lparr>mr_session := s\<rparr>) app) app'"
  shows "sim app app'"
proof (cases "\<not> ended events \<and> unseen (with_match mid (\<lambda>r. r\<lparr>mr_session := s\<rparr>) app) app'")
  case True
  then show ?thesis using assms(1,2)
    by (intro match_progress [where f = "\<lambda>r. r\<lparr>mr_session := s\<rparr>" and events = events and ?app1.0 = app']) auto
next
  case False
  then show ?thesis using assms
    by (intro match_progress [where f = "\<lambda>r. r\<lparr>mr_session := s\<rparr>" and events = events and ?app1.0 = "with_match mid (\<lambda>r. r\<lparr>mr_session := s\<rparr>) app"]) auto
qed

lemma advance_match_phase_sim:
  assumes "advance_match_phase env mid app = Some app'"
  shows "sim app app'"
proof (cases "bt_get (sa_matches app) mid")
  case None
  then show ?thesis using assms by (simp add: advance_match_phase_def)
next
  case (Some r)
  obtain res s where a: "advance_phase_by 1 (mr_session r) = (res, s)" by fastforce
  show ?thesis
  proof (cases "has_timer (ms_phase (mr_session r))")
    case False
    then show ?thesis using assms Some by (simp add: advance_match_phase_def)
  next
    case True
    show ?thesis
    proof (cases res)
      case (Inr events)
      then show ?thesis using assms Some True a advance_phase_moves(1)
        by (intro session_change_sim [OF Some, of events s]) (auto simp: advance_match_phase_def Let_def)
    next
      case (Inl f)
      then obtain e where e: "f = Err e" using assms Some True a by (cases f) (auto simp: advance_match_phase_def Let_def)
      show ?thesis using assms Some True a advance_phase_moves(2) Inl e
        by (intro session_change_sim [OF Some, of "[]" s]) (auto simp: advance_match_phase_def Let_def intro!: unseen_after)
    qed
  qed
qed

lemma advance_match_phases_sim: "advance_match_phases env app = Some app' \<Longrightarrow> sim app app'"
  unfolding advance_match_phases_def by (erule sim_each [rotated]) (rule advance_match_phase_sim)

section \<open>Playing\<close>

lemma choose_match_skill_sim:
  assumes "choose_match_skill env sender mid choice app = Some app'"
  shows "sim app app'"
proof (cases "bt_get (sa_matches app) mid")
  case None
  then show ?thesis using assms by (auto simp: choose_match_skill_def unseen_sim unseen_sends)
next
  case (Some r)
  obtain res s where a: "submit_skill_pick sender choice (mr_session r) = (res, s)" by fastforce
  show ?thesis
  proof (cases res)
    case (Inr events)
    then show ?thesis using assms Some a submit_moves(1)
      by (intro session_change_sim [OF Some, of events s]) (auto simp: choose_match_skill_def Let_def)
  next
    case (Inl f)
    then obtain e where e: "f = Err e" using assms Some a by (cases f) (auto simp: choose_match_skill_def Let_def)
    show ?thesis using assms Some a submit_moves(2) Inl e
      by (intro session_change_sim [OF Some, of "[]" s]) (auto simp: choose_match_skill_def Let_def intro!: unseen_after)
  qed
qed

lemma handle_choose_skill_sim:
  assumes "handle_choose_skill env sender t n app = Some app'"
  shows "sim app app'"
proof (cases "skill_choice_new t n")
  case (Inl e)
  then show ?thesis using assms by (auto simp: handle_choose_skill_def unseen_sim unseen_sends)
next
  case (Inr choice)
  show ?thesis
  proof (cases "catalog_resolve (gct_skills (sa_content app)) choice = None \<or> bt_get (sa_players app) sender = None")
    case True
    then show ?thesis using assms Inr by (auto simp: handle_choose_skill_def unseen_sim unseen_sends split: if_splits)
  next
    case False
    then obtain p where p: "bt_get (sa_players app) sender = Some p" by blast
    have h: "handle_choose_skill env sender t n app = (case cn_location p of
             InMatch mid \<Rightarrow> choose_match_skill env sender mid choice app
           | InTraining tid \<Rightarrow> choose_training_skill sender tid choice t n app
           | _ \<Rightarrow> Some (send_error sender (lit ''player is not in a match or training session'') app))"
      using False Inr p by (auto simp: handle_choose_skill_def)
    show ?thesis
    proof (cases "cn_location p")
      case (InMatch mid)
      then show ?thesis using assms h choose_match_skill_sim by simp
    next
      case (InTraining tid)
      then show ?thesis using assms h choose_training_skill_unseen unseen_sim by simp blast
    qed (use assms h in \<open>auto simp: unseen_sim unseen_sends\<close>)
  qed
qed

lemma input_world_unseen:
  "unseen app (snd (handle_match_input_frame mid sender frame movement app))"
  "unseen app (snd (handle_training_input_frame mid sender frame movement app))"
proof -
  show "unseen app (snd (handle_match_input_frame mid sender frame movement app))"
    by (auto simp: handle_match_input_frame_def case_prod_unfold Let_def split: option.split intro!: with_match_unseen)
  show "unseen app (snd (handle_training_input_frame mid sender frame movement app))"
    by (auto simp: handle_training_input_frame_def case_prod_unfold Let_def split: option.split intro!: with_training_unseen)
qed

lemma finish_input_unseen:
  assumes "finish_input_frame env sender is_match arena_id aim_changed slot app = Some app'"
  shows "unseen app app'"
proof -
  let ?app1 = "case slot of Some slot \<Rightarrow> if is_match
      then snd (append_match_log env arena_id (LogCastCanceled (player_id_get sender) slot LogCancelManual) app) else app | None \<Rightarrow> app"
  have "unseen app ?app1" by (simp add: append_match_log_unseen split: option.split)
  moreover have "unseen ?app1 app'"
    using assms broadcasts_unseen(2,4) unfolding finish_input_frame_def Let_def by (auto split: if_splits simp del: option.case_distrib)
  ultimately show ?thesis by (rule unseen_trans)
qed

lemma require_combat_unseen: "require_combat_match_id sender btns app = (found, app') \<Longrightarrow> unseen app app'"
proof -
  assume r: "require_combat_match_id sender btns app = (found, app')"
  obtain f app1 where f: "require_match sender app = (f, app1)" by fastforce
  have "unseen app1 app'" using r f
    by (auto simp: require_combat_match_id_def unseen_sends split: option.splits if_splits)
  then show ?thesis using require_unseen(2) [OF f] unseen_trans by blast
qed

lemma input_arena_unseen: "input_arena sender location btns app = (found, app') \<Longrightarrow> unseen app app'"
  using require_combat_unseen
  by (auto simp: input_arena_def unseen_sends split: player_location.splits if_splits prod.splits)

lemma handle_input_frame_unseen:
  assumes "handle_input_frame env sender frame app = Some app'"
  shows "unseen app app'"
proof (cases "bt_get (sa_players app) sender")
  case None
  then show ?thesis using assms by (auto simp: handle_input_frame_def unseen_sends)
next
  case (Some p)
  obtain found app1 where f: "input_arena sender (cn_location p) (buttons frame) app = (found, app1)" by fastforce
  have u: "unseen app app1" by (rule input_arena_unseen [OF f])
  show ?thesis
  proof (cases found)
    case None
    then show ?thesis using assms Some f u by (simp add: handle_input_frame_def)
  next
    case (Some arena)
    obtain is_match arena_id where arena: "arena = (is_match, arena_id)" by (cases arena)
    show ?thesis
    proof (cases "decode_movement_input frame")
      case (Inl m)
      then have "app' = send_error sender m app1" using assms \<open>bt_get (sa_players app) sender = Some p\<close> f Some arena by (simp add: handle_input_frame_def)
      then show ?thesis using u by (auto intro!: unseen_after)
    next
      case (Inr movement)
      let ?h = "if is_match then handle_match_input_frame arena_id sender frame movement app1
           else handle_training_input_frame arena_id sender frame movement app1"
      obtain res app2 where h: "?h = (res, app2)" by fastforce
      have "unseen app1 app2" using h input_world_unseen by (metis snd_conv)
      then have u2: "unseen app app2" using u unseen_trans by blast
      have a: "(case res of Inl message \<Rightarrow> Some (send_error sender message app2)
          | Inr (aim_changed, slot) \<Rightarrow> finish_input_frame env sender is_match arena_id aim_changed slot app2) = Some app'"
        using assms \<open>bt_get (sa_players app) sender = Some p\<close> f Some arena Inr h
        by (cases res) (auto simp: handle_input_frame_def split: prod.split)
      show ?thesis
      proof (cases res)
        case (Inl m)
        then show ?thesis using a u2 by (auto intro!: unseen_after)
      next
        case (Inr v)
        obtain x y where "v = (x, y)" by (cases v)
        then have "finish_input_frame env sender is_match arena_id x y app2 = Some app'" using a Inr by simp
        then show ?thesis by (rule unseen_trans [OF u2 finish_input_unseen])
      qed
    qed
  qed
qed

section \<open>Packets\<close>

lemma handle_control_command_sim:
  "handle_control_command env sender command app = Some app' \<Longrightarrow> sim app app'"
  by (cases command) (auto simp: handle_control_command_def lobby_changes_sim handle_join_sim handle_leave_sim handle_quit_sim
      unseen_sim unseen_sends handle_reset_training_unseen
      dest: handle_create_sim handle_start_training_sim handle_choose_skill_sim)

lemma with_player_tracker_unseen:
  "unseen app (with_player pid (\<lambda>p. p\<lparr>cn_inbound_control := tracker\<rparr>) app)"
  by (rule with_player_unseen) simp_all

lemma observe_unseen:
  "observe_inbound_control_sequence pid sq app = (b, app') \<Longrightarrow> unseen app app'"
  "observe_inbound_input pid sq tick_no app = (b, app') \<Longrightarrow> unseen app app'"
proof -
  show "observe_inbound_control_sequence pid sq app = (b, app') \<Longrightarrow> unseen app app'"
    by (auto simp: observe_inbound_control_sequence_def case_prod_unfold Let_def with_player_tracker_unseen
        split: option.splits sum.splits intro!: unseen_after)
  assume o: "observe_inbound_input pid sq tick_no app = (b, app')"
  show "unseen app app'"
  proof (cases "bt_get (sa_players app) pid")
    case None
    then show ?thesis using o by (simp add: observe_inbound_input_def)
  next
    case (Some p)
    have u: "unseen app (with_player pid (\<lambda>_. q) app)"
      if "cn_location q = cn_location p" "cn_player_name q = cn_player_name p" "cn_record q = cn_record p" for q
      using with_player_const_unseen [OF Some that] .
    obtain res tracker where ob: "observe sq (cn_inbound_input p) = (res, tracker)" by fastforce
    obtain res2 q where oq: "observe_client_input_tick tick_no (p\<lparr>cn_inbound_input := tracker\<rparr>) = (res2, q)" by fastforce
    then have "cn_location q = cn_location p" "cn_player_name q = cn_player_name p" "cn_record q = cn_record p"
      by (auto simp: observe_client_input_tick_def split: option.splits if_splits)
    then have "unseen app (with_player pid (\<lambda>_. q) app)" by (rule u)
    moreover have "unseen app (with_player pid (\<lambda>_. p\<lparr>cn_inbound_input := tracker\<rparr>) app)" by (rule u) simp_all
    ultimately show ?thesis using o Some ob oq
      by (cases res; cases res2) (auto simp: observe_inbound_input_def Let_def intro!: unseen_after)
  qed
qed

lemma handle_packet_sim:
  assumes "handle_packet env cid packet app = Some app'"
  shows "sim app app'"
proof (cases "command_decode_packet packet")
  case (Inr hc)
  obtain header command where hc: "hc = (header, command)" by (cases hc)
  have wf: "wf_command command" using command_decode_safe Inr hc by blast
  show ?thesis
  proof (cases "bt_get (sa_connections app) cid")
    case None
    then show ?thesis using assms Inr hc wf
      by (cases command) (auto simp: handle_packet_def handle_control_packet_def handle_connect_sim unseen_sim unseen_sends)
  next
    case (Some pid)
    obtain b app1 where o: "observe_inbound_control_sequence pid (hd_seq header) app = (b, app1)" by fastforce
    have "sim app1 app'" using assms Inr hc Some o handle_control_command_sim
      by (cases b) (auto simp: handle_packet_def handle_control_packet_def)
    then show ?thesis using observe_unseen(1) [OF o] unseen_then_sim by blast
  qed
next
  case c: (Inl e)
  show ?thesis
  proof (cases "input_decode_packet packet")
    case (Inl error)
    then show ?thesis using assms c
      by (auto simp: handle_packet_def handle_invalid_packet_def unseen_sim unseen_sends split: option.split)
  next
    case (Inr hf)
    obtain header frame where hf: "hf = (header, frame)" by (cases hf)
    show ?thesis
    proof (cases "bt_get (sa_connections app) cid")
      case None
      then show ?thesis using assms c Inr hf by (auto simp: handle_packet_def handle_input_packet_def unseen_sim unseen_sends)
    next
      case (Some pid)
      obtain b app1 where o: "observe_inbound_input pid (hd_seq header) (client_input_tick frame) app = (b, app1)" by fastforce
      have "unseen app1 app'" using assms c Inr hf Some o handle_input_frame_unseen
        by (cases b) (auto simp: handle_packet_def handle_input_packet_def)
      then show ?thesis using observe_unseen(2) [OF o] unseen_trans unseen_sim by blast
    qed
  qed
qed

end
