(* ===== verification/App_Run.thy ===== *)
theory App_Run
  imports App_Server
begin

text \<open>
  The clock and the disconnections of the server, its runs over any sequence of packets, time and
  disconnections, and what holds in every state such a run reaches.
\<close>

section \<open>The clock\<close>

text \<open>The loops of the clock as bounded iterations.\<close>

primrec combat_frames :: "'w app_env \<Rightarrow> u32 \<Rightarrow> nat \<Rightarrow> 'w server_app \<Rightarrow> 'w server_app option" where
  "combat_frames env frame_ms 0 app = Some app"
| "combat_frames env frame_ms (Suc n) app = Option.bind
     (advance_combat_frames env (app\<lparr>sa_combat_accumulator_ms := sa_combat_accumulator_ms app - frame_ms\<rparr>))
     (combat_frames env frame_ms n)"

primrec phase_seconds :: "'w app_env \<Rightarrow> nat \<Rightarrow> 'w server_app \<Rightarrow> 'w server_app option" where
  "phase_seconds env 0 app = Some app"
| "phase_seconds env (Suc n) app = Option.bind
     (Option.bind (advance_lobby_countdowns env (app\<lparr>sa_phase_accumulator_ms := sa_phase_accumulator_ms app - 1000,
        sa_clock_seconds := sat_add (sa_clock_seconds app) 1\<rparr>)) (advance_match_phases env))
     (phase_seconds env n)"

lemma sim_timing: "sim app app' \<Longrightarrow> timing app' = timing app"
  by (simp add: sim_def)

lemma timing_fields: "timing app' = timing app \<Longrightarrow> sa_content app' = sa_content app \<and> sa_clock_seconds app' = sa_clock_seconds app \<and>
    sa_phase_accumulator_ms app' = sa_phase_accumulator_ms app \<and> sa_combat_accumulator_ms app' = sa_combat_accumulator_ms app"
  by (simp add: timing_def)

lemma div_less_one: "unat a div unat f = 0 \<longleftrightarrow> a < f" if "0 < f" for a f :: u32
  using that by (simp add: div_eq_0_iff word_less_nat_alt)

lemma div_minus: "f \<le> a \<Longrightarrow> 0 < f \<Longrightarrow> unat a div unat f = Suc (unat (a - f) div unat f)" for a f :: u32
  by (simp add: unat_sub word_le_nat_alt word_less_nat_alt le_div_geq)

lemma combat_loop_eq:
  assumes "0 < frame_ms"
  shows "combat_loop env frame_ms app = combat_frames env frame_ms (unat (sa_combat_accumulator_ms app) div unat frame_ms) app"
proof (induction "unat (sa_combat_accumulator_ms app) div unat frame_ms" arbitrary: app)
  case 0
  then have "sa_combat_accumulator_ms app < frame_ms" using div_less_one [OF assms] by metis
  then show ?case using 0 by (subst combat_loop.simps) (simp flip: 0)
next
  case (Suc n)
  have ge: "\<not> sa_combat_accumulator_ms app < frame_ms"
    using div_less_one [OF assms, of "sa_combat_accumulator_ms app"] Suc(2) by auto
  let ?app1 = "app\<lparr>sa_combat_accumulator_ms := sa_combat_accumulator_ms app - frame_ms\<rparr>"
  have n: "n = unat (sa_combat_accumulator_ms ?app1) div unat frame_ms"
    using div_minus [OF _ assms, of "sa_combat_accumulator_ms app"] ge Suc(2) by (simp add: not_less)
  have "Option.bind (advance_combat_frames env ?app1) (combat_loop env frame_ms) =
      Option.bind (advance_combat_frames env ?app1) (combat_frames env frame_ms n)"
  proof (rule bind_option_cong [OF refl])
    fix app2 assume "app2 \<in> set_option (advance_combat_frames env ?app1)"
    then have "advance_combat_frames env ?app1 = Some app2" by simp
    then have "sa_combat_accumulator_ms app2 = sa_combat_accumulator_ms ?app1"
      using timing_fields [OF sim_timing [OF advance_combat_frames_sim]] by blast
    then have m: "n = unat (sa_combat_accumulator_ms app2) div unat frame_ms" using n by simp
    show "combat_loop env frame_ms app2 = combat_frames env frame_ms n app2" using Suc(1) [OF m] m by simp
  qed
  then show ?case using ge
    by (subst combat_loop.simps) (auto simp: sat_sub_def not_less simp flip: Suc(2))
qed

lemma phase_loop_eq:
  "phase_loop env app = phase_seconds env (unat (sa_phase_accumulator_ms app) div 1000) app"
proof (induction "unat (sa_phase_accumulator_ms app) div unat (1000::u32)" arbitrary: app)
  case 0
  then have "sa_phase_accumulator_ms app < 1000" using div_less_one [of "1000::u32"] by simp
  then show ?case using 0 by (subst phase_loop.simps) simp
next
  case (Suc n)
  have ge: "\<not> sa_phase_accumulator_ms app < 1000"
    using div_less_one [of "1000::u32" "sa_phase_accumulator_ms app"] Suc(2) by auto
  let ?app1 = "app\<lparr>sa_phase_accumulator_ms := sa_phase_accumulator_ms app - 1000, sa_clock_seconds := sat_add (sa_clock_seconds app) 1\<rparr>"
  have n: "n = unat (sa_phase_accumulator_ms ?app1) div unat (1000::u32)"
    using div_minus [of "1000::u32" "sa_phase_accumulator_ms app"] ge Suc(2) by (simp add: not_less)
  let ?second = "Option.bind (advance_lobby_countdowns env ?app1) (advance_match_phases env)"
  have "Option.bind ?second (phase_loop env) = Option.bind ?second (phase_seconds env n)"
  proof (rule bind_option_cong [OF refl])
    fix app2 assume "app2 \<in> set_option ?second"
    then have "?second = Some app2" by (simp only: elem_set)
    then obtain app3 where a: "advance_lobby_countdowns env ?app1 = Some app3" "advance_match_phases env app3 = Some app2"
      by (cases "advance_lobby_countdowns env ?app1") auto
    have "sa_phase_accumulator_ms app2 = sa_phase_accumulator_ms ?app1"
      using timing_fields [OF sim_timing [OF advance_lobby_countdowns_sim [OF a(1)]]]
        timing_fields [OF sim_timing [OF advance_match_phases_sim [OF a(2)]]] by simp
    then have m: "n = unat (sa_phase_accumulator_ms app2) div unat (1000::u32)" using n by simp
    show "phase_loop env app2 = phase_seconds env n app2" using Suc(1) [OF m] m by simp
  qed
  moreover have "unat (sa_phase_accumulator_ms app) div 1000 = Suc n" using Suc(2) by simp
  ultimately show ?case using ge
    by (subst phase_loop.simps) (auto simp: sat_sub_def not_less)
qed

text \<open>Without a hypothesis on the frame: what the loops return follows the registry.\<close>

definition follows :: "'w server_app \<Rightarrow> 'w server_app \<Rightarrow> bool" where
  "follows app app' \<longleftrightarrow> (app_ok app \<longrightarrow> app_ok app' \<and> registry_step\<^sup>*\<^sup>* (reg app) (reg app'))"

lemma follows_trans [trans]: "follows app app' \<Longrightarrow> follows app' app'' \<Longrightarrow> follows app app''"
  by (auto simp: follows_def)

lemma sim_follows: "sim app app' \<Longrightarrow> follows app app'"
  by (simp add: sim_def follows_def)

lemma tick_follows: "follows app (app\<lparr>sa_combat_accumulator_ms := n\<rparr>)" "follows app (app\<lparr>sa_phase_accumulator_ms := n, sa_clock_seconds := k\<rparr>)"
  "follows app (app\<lparr>sa_phase_accumulator_ms := n, sa_combat_accumulator_ms := m\<rparr>)"
  by (simp_all add: follows_def)

lemma combat_frames_follows: "combat_frames env frame_ms n app = Some app' \<Longrightarrow> follows app app'"
proof (induction n arbitrary: app)
  case (Suc n)
  then obtain app1 where a: "advance_combat_frames env (app\<lparr>sa_combat_accumulator_ms := sa_combat_accumulator_ms app - frame_ms\<rparr>) = Some app1"
    "combat_frames env frame_ms n app1 = Some app'" by (auto simp: bind_eq_Some_conv)
  show ?case using follows_trans [OF tick_follows(1) follows_trans [OF sim_follows [OF advance_combat_frames_sim [OF a(1)]] Suc.IH [OF a(2)]]] .
qed (simp add: follows_def)

lemma phase_seconds_follows: "phase_seconds env n app = Some app' \<Longrightarrow> follows app app'"
proof (induction n arbitrary: app)
  case (Suc n)
  then obtain app1 app2 where a: "advance_lobby_countdowns env (app\<lparr>sa_phase_accumulator_ms := sa_phase_accumulator_ms app - 1000,
        sa_clock_seconds := sat_add (sa_clock_seconds app) 1\<rparr>) = Some app1" "advance_match_phases env app1 = Some app2"
    "phase_seconds env n app2 = Some app'" by (auto simp: bind_eq_Some_conv)
  show ?case using follows_trans [OF tick_follows(2) follows_trans [OF sim_follows [OF advance_lobby_countdowns_sim [OF a(1)]]
        follows_trans [OF sim_follows [OF advance_match_phases_sim [OF a(2)]] Suc.IH [OF a(3)]]]] .
qed (simp add: follows_def)

lemma combat_loop_frame: "combat_loop env frame_ms app = Some app' \<Longrightarrow> frame_ms \<noteq> 0"
  by (erule combat_loop.raw_induct [rotated]) (auto simp: bind_eq_Some_conv split: if_splits)

lemma combat_loop_zero: "combat_loop env 0 app = None"
  using combat_loop_frame by (cases "combat_loop env 0 app") blast+

lemma advance_millis_follows:
  assumes "advance_millis env delta app = Some app'"
  shows "follows app app'"
proof (cases "delta = 0")
  case True
  then show ?thesis using assms by (simp add: advance_millis_def follows_def)
next
  case False
  let ?app1 = "app\<lparr>sa_phase_accumulator_ms := sat_add (sa_phase_accumulator_ms app) (ucast delta),
      sa_combat_accumulator_ms := sat_add (sa_combat_accumulator_ms app) (ucast delta)\<rparr>"
  let ?frame = "ucast (sc_combat_frame_ms (app_simulation app)) :: u32"
  obtain app2 where a: "combat_loop env ?frame ?app1 = Some app2" "phase_loop env app2 = Some app'"
    using assms False by (auto simp: advance_millis_def Let_def bind_eq_Some_conv)
  have "?frame \<noteq> 0" using a(1) combat_loop_zero by (metis option.distinct(1))
  then have "follows ?app1 app2" using a(1) combat_loop_eq [of ?frame env ?app1] combat_frames_follows by (metis word_neq_0_conv)
  moreover have "follows app2 app'" using a(2) phase_loop_eq phase_seconds_follows by metis
  ultimately show ?thesis using tick_follows(3) follows_trans by blast
qed

section \<open>Disconnections\<close>

lemma remove_player_effect:
  assumes "app_ok app"
  shows "reg (remove_player pid app) = unbound pid ((reg app)\<lparr>rg_place := (rg_place (reg app))(pid := None)\<rparr>)"
    "app_ok (remove_player pid app)"
proof -
  note ok = app_okD [OF assms]
  show "reg (remove_player pid app) = unbound pid ((reg app)\<lparr>rg_place := (rg_place (reg app))(pid := None)\<rparr>)"
    using ok(1-3) by (cases "bt_get (sa_player_connections app) pid")
      (auto simp: remove_player_def remove_player_connection_def unbound_def reg_def bt_get_ops fun_eq_iff)
  show "app_ok (remove_player pid app)"
    using assms by (auto simp: remove_player_def remove_player_connection_def app_ok_def bt_inv_ops bt_get_ops split: option.split if_splits)
qed

lemma end_match_effect:
  assumes "end_match_as_no_contest env mid pid app = Some app'" "app_ok app" "bt_get (sa_matches app) mid = Some r"
  shows "app_ok app' \<and> (\<exists>live. reg app' = concluded mid ((reg app)\<lparr>rg_matches := (rg_matches (reg app))(mid \<mapsto> (set (mr_participants r), live))\<rparr>) \<and>
    (pid \<in> set (mr_participants r) \<longrightarrow> \<not> live))"
proof -
  obtain result s where d: "disconnect_player pid (mr_session r) = (result, s)" by fastforce
  have s: "session_ids s = session_ids (mr_session r)" "pid \<in> session_ids (mr_session r) \<Longrightarrow> \<not> is_live s"
    using d by (auto simp: disconnect_player_def session_ids_def is_live_def dom_def Let_def split: option.splits)
  let ?app1 = "with_match mid (\<lambda>r. r\<lparr>mr_session := s\<rparr>) app"
  let ?app2 = "apply_match_outcome env mid NoContest ?app1"
  have entry: "match_entry_ok r" using app_okD(9) [OF assms(2,3)] .
  have ok1: "app_ok ?app1"
  proof (rule with_match_ok [OF assms(2)])
    fix q assume q: "bt_get (sa_matches app) mid = Some q" "match_entry_ok q"
    then show "match_entry_ok (q\<lparr>mr_session := s\<rparr>)" using s(1) assms(3) by (simp add: match_entry_ok_def session_ids_def)
  qed
  have r1: "reg ?app1 = (reg app)\<lparr>rg_matches := (rg_matches (reg app))(mid \<mapsto> (set (mr_participants r), is_live s))\<rparr>"
    using assms(3) by (auto simp: reg_with_match match_state_def fun_eq_iff intro!: registry_eqI)
  obtain ev lg where e: "(case result of
          Inr (MatchEnded outcome message board) \<Rightarrow>
            Some (MatchEndedEvent outcome (team_a board) (team_b board) message,
              Some (LogMatchEnded (map_outcome outcome) (team_a board) (team_b board) message))
        | Inr other \<Rightarrow> Some (ErrorEvent (lit ''unexpected disconnect result: '' @ env_match_debug env other), None)
        | Inl (Err error) \<Rightarrow> Some (ErrorEvent (match_error_text error), None)
        | Inl Panic \<Rightarrow> None) = Some (ev, lg)"
    using assms(1,3) d by (auto simp: end_match_as_no_contest_def Let_def split: option.splits)
  let ?app3 = "case lg of Some event \<Rightarrow> snd (append_match_log env mid event ?app2) | None \<Rightarrow> ?app2"
  have "unseen ?app2 ?app3" by (simp add: append_match_log_unseen split: option.split)
  moreover have "unseen ?app3 app'"
    using assms(1,3) d e by (auto simp: end_match_as_no_contest_def Let_def intro!: unseen_after split: option.split)
  ultimately have u: "unseen ?app2 app'" by (rule unseen_trans)
  have "app_ok app'" by (rule unseenD(3) [OF u apply_outcome(3) [OF ok1]])
  moreover have "reg app' = concluded mid (reg ?app1)" using unseenD(1) [OF u] apply_outcome(2) [OF ok1] by simp
  moreover have "pid \<in> set (mr_participants r) \<longrightarrow> \<not> is_live s"
    using s(2) entry by (simp add: match_entry_ok_def session_ids_def)
  ultimately show ?thesis unfolding r1 by blast
qed

lemma lobby_disconnect_unseen:
  "unseen (case event of Inr _ \<Rightarrow> remove_player pid app | Inl _ \<Rightarrow> app) (lobby_disconnect env pid lid recipients event app)"
proof (cases event)
  case (Inr ev)
  then show ?thesis by (cases ev) (auto simp: lobby_disconnect_def Let_def intro!: unseen_after)
qed (simp add: lobby_disconnect_def unseen_sends)

text \<open>What a disconnection leaves: well-formed data and the counters; and, in a consistent registry, its steps.\<close>

lemma ids_same: "unbound p r = s \<Longrightarrow> rg_next_lobby s = rg_next_lobby r \<and> rg_next_match s = rg_next_match r"
  by auto

lemma concluded_ids [simp]: "rg_next_lobby (concluded mid r) = rg_next_lobby r" "rg_next_match (concluded mid r) = rg_next_match r"
  by (simp_all add: concluded_def split: option.split prod.split)

lemma drop_ids [simp]: "rg_next_match (drop_lobby l r) = rg_next_match r" "rg_next_lobby (drop_match m r) = rg_next_lobby r"
  "rg_next_lobby (drop_training m r) = rg_next_lobby r"
  by (simp_all add: drop_lobby_def drop_match_def drop_training_def)

lemma disconnect_lobby:
  assumes "app_ok app" "bt_get (sa_players app) pid = Some p" "cn_location p = InGameLobby lid"
    "bt_get (sa_game_lobbies app) lid = Some r" "leave_or_disconnect_player pid (glr_lobby r) = (event, l)"
    "app' = cleanup_empty_lobby lid (lobby_disconnect env pid lid recipients event (with_lobby lid l app))"
  shows "app_ok app'" "rg_next_lobby (reg app') = rg_next_lobby (reg app)" "rg_next_match (reg app') = rg_next_match (reg app)"
    "pid \<in> lobby_ids r \<Longrightarrow> registry_step (reg app) (reg app')"
proof -
  have inv: "lobby_inv (glr_lobby r)" using app_okD(8) [OF assms(1,4)] by (simp add: lobby_entry_ok_def)
  then have linv: "lobby_inv l" using leave_inv [of "glr_lobby r" pid] assms(5) by simp
  let ?app1 = "with_lobby lid l app"
  let ?app2 = "case event of Inr _ \<Rightarrow> remove_player pid ?app1 | Inl _ \<Rightarrow> ?app1"
  let ?app3 = "lobby_disconnect env pid lid recipients event ?app1"
  have ok1: "app_ok ?app1" using with_lobby_ok assms(1) linv .
  have ok2: "app_ok ?app2" using ok1 remove_player_effect(2) [OF ok1] by (simp split: sum.split)
  note u = lobby_disconnect_unseen [where event = event and pid = pid and app = ?app1 and env = env and lid = lid and recipients = recipients]
  have ok3: "app_ok ?app3" by (rule unseenD(3) [OF u ok2])
  have reg': "reg app' = drop_lobby lid (reg ?app2)"
    unfolding assms(6) cleanup_lobby(1) [OF ok3] unseenD(1) [OF u] ..
  show "app_ok app'" unfolding assms(6) by (rule cleanup_lobby(2) [OF ok3])
  have ids1: "rg_next_lobby (reg ?app1) = rg_next_lobby (reg app)" "rg_next_match (reg ?app1) = rg_next_match (reg app)"
    by (simp_all add: with_lobby_def)
  show "rg_next_lobby (reg app') = rg_next_lobby (reg app)" "rg_next_match (reg app') = rg_next_match (reg app)"
    using ids1 remove_player_effect(1) [OF ok1, of pid] by (auto simp: reg' split: sum.split simp del: reg_fields)
  assume "pid \<in> lobby_ids r"
  then obtain ev where ev: "event = Inr ev"
    using assms(5) by (auto simp: leave_or_disconnect_player_def lobby_ids_def Let_def split: lobby_phase.splits option.splits)
  have ids: "dom (bt_get (lobby_players l)) = lobby_ids r - {pid}"
    using leave_ids(1) [OF lobby_inv_sorted [OF inv]] assms(5) ev by (simp add: lobby_ids_def)
  have "reg app' = vacated (InGameLobby lid) pid (unbound pid ((reg app)\<lparr>rg_place := (rg_place (reg app))(pid := None)\<rparr>))"
    unfolding reg' ev sum.case remove_player_effect(1) [OF ok1] vacated.simps
    by (rule arg_cong [where f = "drop_lobby lid"]) (use assms(4) ids in \<open>auto simp: with_lobby_def reg_with_lobby [unfolded with_lobby_def]
        unbound_def fun_eq_iff intro!: registry_eqI split: option.split\<close>)
  then show "registry_step (reg app) (reg app')"
    using registry_step.disconnected [of "reg app" pid "InGameLobby lid"] assms(2,3) by simp
qed

lemma disconnect_match:
  assumes "app_ok app" "bt_get (sa_players app) pid = Some p" "cn_location p = InMatch mid"
    "end_match_as_no_contest env mid pid app = Some app1" "app' = cleanup_finished_match mid (remove_player pid app1)"
  shows "app_ok app'" "rg_next_lobby (reg app') = rg_next_lobby (reg app)" "rg_next_match (reg app') = rg_next_match (reg app)"
    "registry_inv (reg app) \<Longrightarrow> registry_step\<^sup>*\<^sup>* (reg app) (reg app')"
proof -
  have e: "app_ok app1 \<and> rg_next_lobby (reg app1) = rg_next_lobby (reg app) \<and> rg_next_match (reg app1) = rg_next_match (reg app)"
  proof (cases "bt_get (sa_matches app) mid")
    case None
    then show ?thesis using assms(1,4) by (simp add: end_match_as_no_contest_def)
  next
    case (Some r)
    then show ?thesis using end_match_effect [OF assms(4,1) Some] by (auto simp del: reg_fields)
  qed
  note rm = remove_player_effect [OF conjunct1 [OF e], of pid]
  show "app_ok app'" unfolding assms(5) by (rule cleanup_match(2) [OF rm(2)])
  have reg': "reg app' = drop_match mid (unbound pid ((reg app1)\<lparr>rg_place := (rg_place (reg app1))(pid := None)\<rparr>))"
    unfolding assms(5) cleanup_match(1) [OF rm(2)] rm(1) ..
  show "rg_next_lobby (reg app') = rg_next_lobby (reg app)" "rg_next_match (reg app') = rg_next_match (reg app)"
    using e by (simp_all add: reg' del: reg_fields)
  assume inv: "registry_inv (reg app)"
  have at: "pid \<in> players_at (reg app) (InMatch mid)" using assms(2,3) by (simp add: players_at_def)
  then obtain ps live where m: "rg_matches (reg app) mid = Some (ps, live)"
    using inv by (cases "rg_matches (reg app) mid") (auto simp: registry_inv_def matches_iff)
  then have "match_filled ps live (players_at (reg app) (InMatch mid)) (players_at (reg app) (InResults mid))"
    using registry_invD(3) [OF inv] by (simp add: matches_iff)
  then have live: live "pid \<in> ps" using at by (auto simp: match_filled_def split: if_splits)
  obtain r where r: "bt_get (sa_matches app) mid = Some r" "set (mr_participants r) = ps" using m by (auto simp: match_state_def)
  then have "reg app1 = concluded mid ((reg app)\<lparr>rg_matches := (rg_matches (reg app))(mid \<mapsto> (ps, False))\<rparr>)"
    using end_match_effect [OF assms(4,1) r(1)] live(2) by auto
  then have reg1: "reg app1 = moved ps (InResults mid) ((reg app)\<lparr>rg_matches := (rg_matches (reg app))(mid \<mapsto> (ps, False))\<rparr>)"
    by (simp add: concluded_def)
  have "registry_step (reg app) (reg app1)" unfolding reg1 using registry_step.match_over m live(1) by simp
  moreover have "rg_place (reg app1) pid = Some (InResults mid)" using live(2) assms(2) by (simp add: reg1 moved_def)
  then have "registry_step (reg app1) (reg app')"
    using registry_step.disconnected [of "reg app1" pid "InResults mid"] by (simp add: reg')
  ultimately show "registry_step\<^sup>*\<^sup>* (reg app) (reg app')" by (meson r_into_rtranclp rtranclp_trans)
qed

lemma disconnect_effect:
  assumes "server_disconnect_player env pid app = Some (res, app')" "app_ok app"
  shows "app_ok app' \<and> rg_next_lobby (reg app') = rg_next_lobby (reg app) \<and> rg_next_match (reg app') = rg_next_match (reg app) \<and>
    (registry_inv (reg app) \<longrightarrow> registry_step\<^sup>*\<^sup>* (reg app) (reg app'))"
proof (cases "bt_get (sa_players app) pid")
  case None
  then show ?thesis using assms by (simp add: server_disconnect_player_def)
next
  case (Some p)
  note rm = remove_player_effect [OF assms(2), of pid]
  have step: "registry_step (reg app) (vacated l pid (reg (remove_player pid app)))" if "cn_location p = l" "\<forall>mid. l \<noteq> InMatch mid" for l
    unfolding rm(1) using that Some by (intro registry_step.disconnected) simp_all
  have ids: "rg_next_lobby (reg (remove_player pid app)) = rg_next_lobby (reg app)" "rg_next_match (reg (remove_player pid app)) = rg_next_match (reg app)"
    unfolding rm(1) by (simp_all del: reg_fields)
  have d: "unseen s app' \<Longrightarrow> app_ok s \<Longrightarrow> rg_next_lobby (reg s) = rg_next_lobby (reg app) \<Longrightarrow> rg_next_match (reg s) = rg_next_match (reg app) \<Longrightarrow>
      (registry_inv (reg app) \<Longrightarrow> registry_step\<^sup>*\<^sup>* (reg app) (reg s)) \<Longrightarrow> ?thesis" for s
    using unseenD(1,3) by metis
  show ?thesis
  proof (cases "cn_location p")
    case CentralLobby
    show ?thesis
    proof (rule d)
      show "unseen (remove_player pid app) app'" using assms(1) Some CentralLobby by (auto simp: server_disconnect_player_def unseen_sends)
      show "registry_step\<^sup>*\<^sup>* (reg app) (reg (remove_player pid app))" using step [OF CentralLobby] by (simp add: r_into_rtranclp)
    qed (use ids rm(2) in simp_all)
  next
    case (InGameLobby lid)
    show ?thesis
    proof (cases "bt_get (sa_game_lobbies app) lid")
      case None
      then show ?thesis using assms Some InGameLobby by (simp add: server_disconnect_player_def)
    next
      case r: (Some r)
      obtain event l where l: "leave_or_disconnect_player pid (glr_lobby r) = (event, l)" by fastforce
      let ?s = "cleanup_empty_lobby lid (lobby_disconnect env pid lid (lobby_members app lid) event (with_lobby lid l app))"
      note e = disconnect_lobby [OF assms(2) Some InGameLobby r l refl, of env "lobby_members app lid"]
      show ?thesis
      proof (rule d)
        show "unseen ?s app'" using assms(1) Some InGameLobby r l by (auto simp: server_disconnect_player_def Let_def unseen_sends)
        assume inv: "registry_inv (reg app)"
        have "pid \<in> players_at (reg app) (InGameLobby lid)" using Some InGameLobby by (simp add: players_at_def)
        then have "pid \<in> lobby_ids r" using registry_invD(2) [OF inv] r by (simp add: lobbies_iff)
        then show "registry_step\<^sup>*\<^sup>* (reg app) (reg ?s)" by (intro r_into_rtranclp e(4))
      qed (rule e)+
    qed
  next
    case (InMatch mid)
    then obtain app1 where e: "end_match_as_no_contest env mid pid app = Some app1" "app' = cleanup_finished_match mid (remove_player pid app1)"
      using assms(1) Some by (auto simp: server_disconnect_player_def)
    show ?thesis using disconnect_match [OF assms(2) Some InMatch e] by blast
  next
    case (InTraining tid)
    show ?thesis
    proof (rule d)
      show "unseen (cleanup_finished_training tid (remove_player pid app)) app'"
        using assms(1) Some InTraining by (auto simp: server_disconnect_player_def unseen_sends)
      show "registry_step\<^sup>*\<^sup>* (reg app) (reg (cleanup_finished_training tid (remove_player pid app)))"
        using step [OF InTraining] cleanup_training(1) [OF rm(2)] by (simp add: r_into_rtranclp)
    qed (use ids cleanup_training [OF rm(2)] in \<open>simp_all del: reg_fields\<close>)
  next
    case (InResults mid)
    show ?thesis
    proof (rule d)
      show "unseen (cleanup_finished_match mid (remove_player pid app)) app'"
        using assms(1) Some InResults by (auto simp: server_disconnect_player_def)
      show "registry_step\<^sup>*\<^sup>* (reg app) (reg (cleanup_finished_match mid (remove_player pid app)))"
        using step [OF InResults] cleanup_match(1) [OF rm(2)] by (simp add: r_into_rtranclp)
    qed (use ids cleanup_match [OF rm(2)] in \<open>simp_all del: reg_fields\<close>)
  qed
qed

section \<open>Runs\<close>

datatype app_input = Received connection_id "u8 list" | Elapsed u16 | Dropped connection_id

definition app_step :: "'w app_env \<Rightarrow> app_input \<Rightarrow> 'w server_app \<Rightarrow> 'w server_app option" where
  "app_step env i app = (case i of
       Received cid packet \<Rightarrow> handle_packet env cid packet app
     | Elapsed delta \<Rightarrow> advance_millis env delta app
     | Dropped cid \<Rightarrow> map_option snd (disconnect_connection env cid app))"

definition app_run :: "'w app_env \<Rightarrow> app_input list \<Rightarrow> 'w server_app \<Rightarrow> 'w server_app option" where
  "app_run env = each_opt (app_step env)"

lemma app_step_effect:
  assumes "app_step env i app = Some app'" "app_ok app"
  shows "app_ok app'" "ids_left (reg app') \<Longrightarrow> ids_left (reg app)" "registry_inv (reg app) \<Longrightarrow> registry_step\<^sup>*\<^sup>* (reg app) (reg app')"
proof -
  have "app_ok app' \<and> (ids_left (reg app') \<longrightarrow> ids_left (reg app)) \<and> (registry_inv (reg app) \<longrightarrow> registry_step\<^sup>*\<^sup>* (reg app) (reg app'))"
  proof (cases "\<exists>cid pid. i = Dropped cid \<and> bt_get (sa_connections app) cid = Some pid")
    case True
    then obtain pid res where "server_disconnect_player env pid app = Some (res, app')"
      using assms(1) by (auto simp: app_step_def disconnect_connection_def)
    from disconnect_effect [OF this assms(2)] show ?thesis by (auto simp: ids_left_def)
  next
    case False
    have "follows app app'"
    proof (cases i)
      case (Received cid packet)
      then show ?thesis using assms(1) sim_follows [OF handle_packet_sim] by (simp add: app_step_def)
    next
      case (Elapsed delta)
      then show ?thesis using assms(1) advance_millis_follows by (simp add: app_step_def)
    next
      case (Dropped cid)
      then show ?thesis using assms(1) False by (cases "bt_get (sa_connections app) cid") (auto simp: app_step_def disconnect_connection_def follows_def)
    qed
    then show ?thesis using assms(2) registry_steps_ids by (auto simp: follows_def)
  qed
  then show "app_ok app'" "ids_left (reg app') \<Longrightarrow> ids_left (reg app)" "registry_inv (reg app) \<Longrightarrow> registry_step\<^sup>*\<^sup>* (reg app) (reg app')" by blast+
qed

interpretation server: refinement_map "app_step env" reg registry_step app_ok registry_inv ids_left
  by unfold_locales (auto intro: app_step_effect registry_step_inv registry_step_ids)

text \<open>The server starts in the empty registry.\<close>

lemma new_persistent_ok:
  assumes "new_persistent fs path w = Inr store"
  shows "store_ok store"
proof -
  obtain recs where r: "(if rf_exists fs path w then
          and_then (map_err (StoreRead path) (rf_len fs path w)) (\<lambda>size.
          if size > MAX_RECORD_STORE_BYTES then Inl (StoreFileTooLarge path size MAX_RECORD_STORE_BYTES)
          else and_then (map_err (StoreRead path) (rf_read_to_string fs path w)) parse_records)
        else Inr []) = Inr recs" "store = \<lparr>prs_path = Some path, prs_records = recs\<rparr>"
    using assms unfolding new_persistent_def and_then_eq_Inr [where m = "if P then x else y" for P x y] by blast
  have "wf_records recs"
  proof (cases "rf_exists fs path w")
    case True
    then obtain raw where "parse_records raw = Inr recs"
      using r(1) unfolding and_then_eq_Inr if_P [OF True] by (metis (no_types) and_then_eq_Inr sum.distinct(1))
    then show ?thesis by (rule parse_records_wf)
  next
    case False
    then show ?thesis using r(1) by (simp add: wf_records_def bt_inv_ops)
  qed
  then have "bt_inv recs" "\<And>name rc. bt_get recs name = Some rc \<Longrightarrow> wf_record rc"
    using wf_records_get [of recs] unfolding wf_records_def storable_def by blast+
  then show ?thesis by (simp add: store_ok_def r(2))
qed

lemma loaded_content_ok:
  assumes "load_from_root files yaml default_mechanics content_root = Inr c"
  shows "content_ok c"
proof -
  obtain from_yaml source raw where y: "parse_configuration_yaml from_yaml source raw = Inr (gct_configuration c)"
    and "\<exists>paths. load_maps files (gct_configuration c) [] paths = Inr (gct_maps c)"
    using load_from_root_parts(2,5) [OF assms] by blast
  then obtain paths where "load_maps files (gct_configuration c) [] paths = Inr (gct_maps c)" by blast
  moreover have "maps_inv (gct_configuration c) []" by (simp add: maps_inv_def bt_inv_ops)
  ultimately have maps: "maps_inv (gct_configuration c) (gct_maps c)" by (rule load_maps_inv)
  have "valid_configuration (gct_configuration c)" using parse_configuration_valid [OF y] by simp
  then have v: "valid_match_configuration (gcf_match_flow (gct_configuration c))" "valid_maps_configuration (gcf_maps (gct_configuration c))"
    by (simp_all add: valid_configuration_def)
  show ?thesis unfolding content_ok_def
  proof (intro conjI allI impI v(1))
    fix map_id m assume "content_map_by_id c map_id = Some m"
    then have "bt_get (mpc_objective_target_ms_by_map (gcf_maps (gct_configuration c))) (am_map_id m) = Some (am_objective_target_ms m)"
      using maps by (auto simp: content_map_by_id_def maps_inv_def authored_map_def)
    then show "am_objective_target_ms m \<noteq> 0"
      using v(2) by (auto simp: valid_maps_configuration_def list_all_iff dest!: map_of_SomeD)
  qed
qed

lemma start_ok:
  assumes "store_ok store" "content_ok content"
  shows "app_ok (from_content_and_stores content store w)" "reg (from_content_and_stores content store w) = registry_empty"
  using assms by (auto simp: app_ok_def from_content_and_stores_def bt_inv_ops reg_def registry_empty_def)

lemma run_consistent:
  assumes "load_from_root files yaml default_mechanics content_root = Inr content" "new_persistent (env_files env) path w = Inr store"
    and "app_run env inputs (from_content_and_stores content store w) = Some app"
    and "sa_next_lobby_id app \<noteq> - 1" "sa_next_match_id app \<noteq> - 1"
  shows "app_ok app \<and> registry_inv (reg app) \<and> registry_step\<^sup>*\<^sup>* registry_empty (reg app)"
proof -
  note start = start_ok [OF new_persistent_ok [OF assms(2)] loaded_content_ok [OF assms(1)], of w]
  show ?thesis
    using server.run_refines [OF assms(3) [unfolded app_run_def] start(1)] assms(4,5) registry_inv_empty
    unfolding start(2) by (simp add: ids_left_def)
qed

text \<open>Everybody at a place, in the order of their ids.\<close>

definition players_in :: "'w server_app \<Rightarrow> player_location \<Rightarrow> player_id list" where
  "players_in app location = map fst (filter (\<lambda>(pid, p). cn_location p = location) (sa_players app))"

lemma set_players_in: "app_ok app \<Longrightarrow> set (players_in app location) = players_at (reg app) location"
  using btree.lookup_mem [OF app_okD(3)] by (force simp: players_in_def players_at_def)

text \<open>C3: the server implements its registry: from any content the loader accepts and any record file the store accepts,
  whatever packets arrive from whatever connections, in whatever order with time and disconnections, what the server
  keeps of connections, players, lobbies, matches and training sessions is reached from the empty registry by the steps
  of the specification, as long as the two id counters have not run out.\<close>

theorem server_refines_registry:
  assumes "load_from_root files yaml default_mechanics content_root = Inr content" "new_persistent (env_files env) path w = Inr store"
    and "app_run env inputs (from_content_and_stores content store w) = Some app"
    and "sa_next_lobby_id app \<noteq> - 1" "sa_next_match_id app \<noteq> - 1"
  shows "registry_step\<^sup>*\<^sup>* registry_empty (reg app)"
  using run_consistent [OF assms] by blast

text \<open>C4: in every state the server reaches, connections and players match one to one; a lobby exists exactly while players
  are in it, and knows them all; all the players of a live match are connected and in it, and when it is over those who
  have not left look at its results, the last one to leave removing it; a training session has exactly its player.\<close>

theorem server_registry_consistent:
  assumes "load_from_root files yaml default_mechanics content_root = Inr content" "new_persistent (env_files env) path w = Inr store"
    and "app_run env inputs (from_content_and_stores content store w) = Some app"
    and "sa_next_lobby_id app \<noteq> - 1" "sa_next_match_id app \<noteq> - 1"
  shows "(\<forall>cid pid. bt_get (sa_connections app) cid = Some pid \<longleftrightarrow> bt_get (sa_player_connections app) pid = Some cid) \<and>
    (\<forall>pid. bt_contains (sa_player_connections app) pid \<longleftrightarrow> bt_contains (sa_players app) pid) \<and>
    (\<forall>lid. case bt_get (sa_game_lobbies app) lid of
        None \<Rightarrow> players_in app (InGameLobby lid) = []
      | Some r \<Rightarrow> lobby_inv (glr_lobby r) \<and> players_in app (InGameLobby lid) \<noteq> [] \<and>
          set (players_in app (InGameLobby lid)) = set (bt_keys (lobby_players (glr_lobby r)))) \<and>
    (\<forall>mid. case bt_get (sa_matches app) mid of
        None \<Rightarrow> players_in app (InMatch mid) = [] \<and> players_in app (InResults mid) = []
      | Some r \<Rightarrow>
          if is_live (mr_session r)
          then set (players_in app (InMatch mid)) = set (mr_participants r) \<and> players_in app (InResults mid) = []
          else players_in app (InMatch mid) = [] \<and> players_in app (InResults mid) \<noteq> [] \<and>
            set (players_in app (InResults mid)) \<subseteq> set (mr_participants r)) \<and>
    (\<forall>tid. case bt_get (sa_training_sessions app) tid of
        None \<Rightarrow> players_in app (InTraining tid) = []
      | Some r \<Rightarrow> set (players_in app (InTraining tid)) = {ta_player_id (tr_participant r)})"
proof -
  have ok: "app_ok app" and inv: "registry_inv (reg app)" using run_consistent [OF assms] by blast+
  note at = set_players_in [OF ok]
  have none: "players_in app l = [] \<longleftrightarrow> players_at (reg app) l = {}" for l using at [of l] by (metis set_empty)
  have conns: "(\<forall>cid pid. bt_get (sa_connections app) cid = Some pid \<longleftrightarrow> bt_get (sa_player_connections app) pid = Some cid)"
    using registry_invD(1) [OF inv] by (simp add: bindings_ok_def)
  have "dom (bt_get (sa_player_connections app)) = dom (rg_place (reg app))"
    using registry_invD(1) [OF inv] by (simp add: bindings_ok_def dom_def)
  then have "pid \<in> dom (bt_get (sa_player_connections app)) \<longleftrightarrow> pid \<in> dom (rg_place (reg app))" for pid by simp
  then have bound: "\<forall>pid. bt_contains (sa_player_connections app) pid \<longleftrightarrow> bt_contains (sa_players app) pid"
    by (simp add: bt_contains_def domIff)
  have lobbies: "case bt_get (sa_game_lobbies app) lid of
        None \<Rightarrow> players_in app (InGameLobby lid) = []
      | Some r \<Rightarrow> lobby_inv (glr_lobby r) \<and> players_in app (InGameLobby lid) \<noteq> [] \<and>
          set (players_in app (InGameLobby lid)) = set (bt_keys (lobby_players (glr_lobby r)))" for lid
  proof (cases "bt_get (sa_game_lobbies app) lid")
    case None
    then show ?thesis using registry_invD(2) [OF inv] by (simp add: lobbies_iff none)
  next
    case (Some r)
    then have "rg_lobbies (reg app) lid = Some (lobby_ids r)" by simp
    then have "players_at (reg app) (InGameLobby lid) = lobby_ids r \<and> lobby_ids r \<noteq> {}"
      using registry_invD(2) [OF inv] unfolding lobbies_iff by blast
    then show ?thesis using Some app_okD(8) [OF ok Some]
      by (simp add: none at lobby_ids_def bt_keys_def dom_map_of_conv_image_fst lobby_entry_ok_def)
  qed
  have matches: "case bt_get (sa_matches app) mid of
        None \<Rightarrow> players_in app (InMatch mid) = [] \<and> players_in app (InResults mid) = []
      | Some r \<Rightarrow>
          if is_live (mr_session r)
          then set (players_in app (InMatch mid)) = set (mr_participants r) \<and> players_in app (InResults mid) = []
          else players_in app (InMatch mid) = [] \<and> players_in app (InResults mid) \<noteq> [] \<and>
            set (players_in app (InResults mid)) \<subseteq> set (mr_participants r)" for mid
  proof (cases "bt_get (sa_matches app) mid")
    case None
    then show ?thesis using registry_invD(3) [OF inv] by (simp add: matches_iff none)
  next
    case (Some r)
    then have "match_filled (set (mr_participants r)) (is_live (mr_session r)) (players_at (reg app) (InMatch mid)) (players_at (reg app) (InResults mid))"
      using registry_invD(3) [OF inv] by (simp add: matches_iff match_state_def)
    then show ?thesis using Some by (auto simp: none at match_filled_def)
  qed
  have training: "case bt_get (sa_training_sessions app) tid of
        None \<Rightarrow> players_in app (InTraining tid) = []
      | Some r \<Rightarrow> set (players_in app (InTraining tid)) = {ta_player_id (tr_participant r)}" for tid
    using registry_invD(4) [OF inv] by (cases "bt_get (sa_training_sessions app) tid") (simp_all add: training_iff none at)
  show ?thesis by (intro conjI allI conns bound lobbies matches training)
qed

section \<open>A run\<close>

text \<open>A server whose files are empty and whose random bytes are all one.\<close>

definition quiet_env :: "unit app_env" where
  "quiet_env = \<lparr>env_files = \<lparr>rf_exists = \<lambda>_ _. False, rf_len = \<lambda>_ _. Inr 0, rf_read_to_string = \<lambda>_ _. Inr [],
       rf_create_dir_all = \<lambda>_ w. (Inr (), w), rf_write = \<lambda>_ _ w. (Inr (), w)\<rparr>,
     env_random = \<lambda>n w. (Inr (replicate n 1), w), env_log_append = \<lambda>_ w. (Inr (), w),
     env_lobby_debug = \<lambda>_. [], env_match_debug = \<lambda>_. []\<rparr>"

definition quiet_store :: player_record_store where
  "quiet_store = \<lparr>prs_path = Some [114], prs_records = []\<rparr>"

lemma quiet_store_opens: "new_persistent (env_files quiet_env) [114] () = Inr quiet_store"
  by (simp add: new_persistent_def quiet_env_def quiet_store_def)

lemma quiet_connect:
  "reg (handle_connect_command quiet_env (ConnectionId 1) 1 (PlayerName [65]) (from_content_and_stores content quiet_store ())) =
     registry_empty\<lparr>rg_connections := [ConnectionId 1 \<mapsto> PlayerId 0x01010101], rg_bindings := [PlayerId 0x01010101 \<mapsto> ConnectionId 1],
       rg_place := [PlayerId 0x01010101 \<mapsto> CentralLobby]\<rparr>"
proof -
  let ?app = "from_content_and_stores content quiet_store ()"
  have ones: "word_of_le [1, 1, 1, 1 :: u8] = (0x01010101 :: u32)" by (simp add: word_of_le_def)
  have r: "env_random quiet_env 4 () = (Inr [1, 1, 1, 1], ())" by (simp add: quiet_env_def numeral_eq_Suc)
  have "allocate_player_id_in (Suc 63) quiet_env ?app = (Inr (PlayerId 0x01010101), ?app)"
    by (subst allocate_player_id_in.simps(2)) (simp add: r ones player_id_new_def non_zero_id_def from_content_and_stores_def bt_contains_def)
  then have a: "allocate_player_id quiet_env ?app = (Inr (PlayerId 0x01010101), ?app)"
    by (simp add: allocate_player_id_def)
  let ?store = "\<lparr>prs_path = Some [114], prs_records = [(PlayerName [65], player_record_new)]\<rparr>"
  have l: "load_or_create (env_files quiet_env) (PlayerName [65]) quiet_store () = (Inr player_record_new, ?store, ())"
    by (simp add: load_or_create_def store_flush_def quiet_store_def quiet_env_def Let_def split: option.split)
  obtain tracker where o: "observe 1 tracker_new = (Inr (), tracker)" by (simp add: observe_def tracker_new_def)
  have f: "sa_record_store ?app = quiet_store" "sa_connections ?app = []" "sa_players ?app = []" "sa_player_connections ?app = []"
    by (simp_all add: from_content_and_stores_def)
  have "reg (bind_player (ConnectionId 1) (PlayerId 0x01010101) (new_connected_player (PlayerName [65]) player_record_new tracker)
      (?app\<lparr>sa_record_store := ?store, sa_world := ()\<rparr>)) =
     registry_empty\<lparr>rg_connections := [ConnectionId 1 \<mapsto> PlayerId 0x01010101], rg_bindings := [PlayerId 0x01010101 \<mapsto> ConnectionId 1],
       rg_place := [PlayerId 0x01010101 \<mapsto> CentralLobby]\<rparr>"
    by (auto simp: reg_def bind_player_def registry_empty_def from_content_and_stores_def new_connected_player_def fun_eq_iff)
  then show ?thesis
    by (simp add: handle_connect_command_def a l o f bt_contains_def Let_def)
qed

text \<open>The packet of a connect command, and the server after it.\<close>

lemma quiet_run:
  obtains content packet app where "load_from_root sample_files sample_yaml sample_catalog [] = Inr content"
    "app_run quiet_env [Received (ConnectionId 1) packet] (from_content_and_stores content quiet_store ()) = Some app"
    "reg app = registry_empty\<lparr>rg_connections := [ConnectionId 1 \<mapsto> PlayerId 0x01010101], rg_bindings := [PlayerId 0x01010101 \<mapsto> ConnectionId 1],
       rg_place := [PlayerId 0x01010101 \<mapsto> CentralLobby]\<rparr>"
proof -
  obtain content where c: "load_from_root sample_files sample_yaml sample_catalog [] = Inr content"
    using sample_content_loads by blast
  have "wf_command (Connect (PlayerName [65]))"
    by (simp add: wf_player_name_def MAX_PLAYER_NAME_LEN_def name_char_ok_def is_ascii_alphanumeric_def is_ascii_uppercase_def)
  then obtain payload where p: "w_seq [w_u8 (command_kind_byte (Connect (PlayerName [65]))), command_encode_body (Connect (PlayerName [65]))] [] = Inr payload"
    "length payload \<le> 35" using command_payload by blast
  then have len: "length payload \<le> U16_MAX" by (simp add: U16_MAX_def)
  obtain packet where packet: "frame_packet ControlChannel ControlCommand 1 0 payload = Inr packet"
    using frame_packet_ok [OF len, of ControlChannel ControlCommand] by auto
  have "decode_message command_decode_body ''ClientControlCommand'' payload = Inr (Connect (PlayerName [65]))"
    by (rule decode_message_rt [where body = command_decode_body, OF command_body_rt p(1) len]) fact
  then obtain h where h: "command_decode_packet packet = Inr (h, Connect (PlayerName [65]))" "hd_seq h = 1"
    using frame_packet_decodes [OF packet] by (auto simp: command_decode_packet_def)
  let ?app = "from_content_and_stores content quiet_store ()"
  have "app_run quiet_env [Received (ConnectionId 1) packet] ?app =
      Some (handle_connect_command quiet_env (ConnectionId 1) 1 (PlayerName [65]) ?app)"
    using h by (simp add: app_run_def app_step_def handle_packet_def handle_control_packet_def from_content_and_stores_def)
  then show ?thesis using that c quiet_connect by blast
qed

theorem server_refines_registry_witness:
  "\<exists>content packet app. app_run quiet_env [Received (ConnectionId 1) packet] (from_content_and_stores content quiet_store ()) = Some app \<and>
     registry_step\<^sup>*\<^sup>* registry_empty (reg app) \<and> bt_get (sa_connections app) (ConnectionId 1) = Some (PlayerId 0x01010101)"
proof (rule quiet_run)
  fix content packet app
  assume run: "load_from_root sample_files sample_yaml sample_catalog [] = Inr content"
    "app_run quiet_env [Received (ConnectionId 1) packet] (from_content_and_stores content quiet_store ()) = Some app"
    "reg app = registry_empty\<lparr>rg_connections := [ConnectionId 1 \<mapsto> PlayerId 0x01010101], rg_bindings := [PlayerId 0x01010101 \<mapsto> ConnectionId 1],
       rg_place := [PlayerId 0x01010101 \<mapsto> CentralLobby]\<rparr>"
  have f: "sa_next_lobby_id app = 1" "sa_next_match_id app = 1" "bt_get (sa_connections app) (ConnectionId 1) = Some (PlayerId 0x01010101)"
    using reg_fields(1) [of app "ConnectionId 1"] reg_fields(7,8) [of app] unfolding run(3) by (simp_all add: registry_empty_def)
  have "registry_step\<^sup>*\<^sup>* registry_empty (reg app)"
    by (rule server_refines_registry [OF run(1) quiet_store_opens run(2)]) (simp_all add: f)
  with run(2) f(3) show ?thesis by blast
qed

theorem server_registry_consistent_witness:
  "\<exists>content packet app. app_run quiet_env [Received (ConnectionId 1) packet] (from_content_and_stores content quiet_store ()) = Some app \<and>
     bt_contains (sa_players app) (PlayerId 0x01010101) \<and>
     bt_get (sa_connections app) (ConnectionId 1) = Some (PlayerId 0x01010101) \<and>
     bt_get (sa_player_connections app) (PlayerId 0x01010101) = Some (ConnectionId 1)"
proof (rule quiet_run)
  fix content packet app
  assume run: "load_from_root sample_files sample_yaml sample_catalog [] = Inr content"
    "app_run quiet_env [Received (ConnectionId 1) packet] (from_content_and_stores content quiet_store ()) = Some app"
    "reg app = registry_empty\<lparr>rg_connections := [ConnectionId 1 \<mapsto> PlayerId 0x01010101], rg_bindings := [PlayerId 0x01010101 \<mapsto> ConnectionId 1],
       rg_place := [PlayerId 0x01010101 \<mapsto> CentralLobby]\<rparr>"
  have f: "sa_next_lobby_id app = 1" "sa_next_match_id app = 1" "bt_get (sa_connections app) (ConnectionId 1) = Some (PlayerId 0x01010101)"
    using reg_fields(1) [of app "ConnectionId 1"] reg_fields(7,8) [of app] unfolding run(3) by (simp_all add: registry_empty_def)
  note all = server_registry_consistent [OF run(1) quiet_store_opens run(2), unfolded f, simplified]
  have b: "bt_get (sa_player_connections app) (PlayerId 0x01010101) = Some (ConnectionId 1)"
    using all f(3) by blast
  then have "bt_contains (sa_players app) (PlayerId 0x01010101)"
    using all by (auto simp: bt_contains_def)
  with run(2) f(3) b show ?thesis by blast
qed

end
