(* ===== verification/App_Clock.thy ===== *)
theory App_Clock
  imports App_Run
begin

text \<open>
  What the clock does with the time it is given: how many combat frames and how many seconds it runs,
  and what it leaves in its accumulators.
\<close>

lemma combat_frames_timing:
  assumes "combat_frames env frame_ms n app = Some app'" "n * unat frame_ms \<le> unat (sa_combat_accumulator_ms app)"
  shows "sa_content app' = sa_content app \<and> sa_clock_seconds app' = sa_clock_seconds app \<and>
    sa_phase_accumulator_ms app' = sa_phase_accumulator_ms app \<and>
    unat (sa_combat_accumulator_ms app') = unat (sa_combat_accumulator_ms app) - n * unat frame_ms"
  using assms
proof (induction n arbitrary: app)
  case (Suc n)
  let ?app1 = "app\<lparr>sa_combat_accumulator_ms := sa_combat_accumulator_ms app - frame_ms\<rparr>"
  from Suc.prems(1) obtain app2 where a: "advance_combat_frames env ?app1 = Some app2" "combat_frames env frame_ms n app2 = Some app'"
    by (auto simp: bind_eq_Some_conv)
  have le: "frame_ms \<le> sa_combat_accumulator_ms app" using Suc.prems(2) by (simp add: word_le_nat_alt)
  note t = timing_fields [OF sim_timing [OF advance_combat_frames_sim [OF a(1)]]]
  have "unat (sa_combat_accumulator_ms app2) = unat (sa_combat_accumulator_ms app) - unat frame_ms"
    using t le by (simp add: unat_sub)
  then show ?case using Suc.IH [OF a(2)] Suc.prems(2) t by simp
qed simp

lemma phase_seconds_timing:
  assumes "phase_seconds env n app = Some app'" "n * 1000 \<le> unat (sa_phase_accumulator_ms app)"
  shows "sa_content app' = sa_content app \<and> unat (sa_clock_seconds app') = min (unat (sa_clock_seconds app) + n) (2 ^ 32 - 1) \<and>
    sa_combat_accumulator_ms app' = sa_combat_accumulator_ms app \<and>
    unat (sa_phase_accumulator_ms app') = unat (sa_phase_accumulator_ms app) - n * 1000"
  using assms
proof (induction n arbitrary: app)
  case 0
  have "unat (sa_clock_seconds app) < 2 ^ 32" using unsigned_less [of "sa_clock_seconds app"] by simp
  with 0 show ?case by simp
next
  case (Suc n)
  let ?app1 = "app\<lparr>sa_phase_accumulator_ms := sa_phase_accumulator_ms app - 1000, sa_clock_seconds := sat_add (sa_clock_seconds app) 1\<rparr>"
  from Suc.prems(1) obtain app2 app3 where a: "advance_lobby_countdowns env ?app1 = Some app2" "advance_match_phases env app2 = Some app3"
    "phase_seconds env n app3 = Some app'"
    by (auto simp: bind_eq_Some_conv)
  have le: "(1000::u32) \<le> sa_phase_accumulator_ms app" using Suc.prems(2) by (simp add: word_le_nat_alt)
  have t: "sa_content app3 = sa_content app" "sa_combat_accumulator_ms app3 = sa_combat_accumulator_ms app"
    "sa_clock_seconds app3 = sat_add (sa_clock_seconds app) 1" "sa_phase_accumulator_ms app3 = sa_phase_accumulator_ms app - 1000"
    using timing_fields [OF sim_timing [OF advance_lobby_countdowns_sim [OF a(1)]]]
      timing_fields [OF sim_timing [OF advance_match_phases_sim [OF a(2)]]] by simp_all
  have "unat (sa_phase_accumulator_ms app3) = unat (sa_phase_accumulator_ms app) - 1000"
    using t(4) le by (simp add: unat_sub)
  moreover have "unat (sa_clock_seconds app3) = min (unat (sa_clock_seconds app) + 1) (2 ^ 32 - 1)"
    by (simp add: t(3) unat_sat_add)
  ultimately show ?case using Suc.IH [OF a(3)] Suc.prems(2) t(1,2) by simp
qed

text \<open>C6: the clock. Given some milliseconds the server runs exactly as many combat frames and afterwards as many seconds of
  countdowns and phases as have become due with what was left from before, and keeps the remainders; its loops end whenever
  a frame has a length, so that it fails to return only if a frame or a second does.\<close>

theorem clock_runs_what_is_due:
  fixes app :: "'w server_app"
  assumes "0 < sc_combat_frame_ms (app_simulation app)" "delta \<noteq> 0"
    and "unat (sa_combat_accumulator_ms app) + unat delta < 2 ^ 32" "unat (sa_phase_accumulator_ms app) + unat delta < 2 ^ 32"
  defines "frame_ms \<equiv> unat (sc_combat_frame_ms (app_simulation app))"
    and "combat_ms \<equiv> unat (sa_combat_accumulator_ms app) + unat delta" and "phase_ms \<equiv> unat (sa_phase_accumulator_ms app) + unat delta"
  defines "due \<equiv> app\<lparr>sa_phase_accumulator_ms := of_nat phase_ms, sa_combat_accumulator_ms := of_nat combat_ms\<rparr>"
  shows "advance_millis env delta app =
      Option.bind (combat_frames env (of_nat frame_ms) (combat_ms div frame_ms) due) (phase_seconds env (phase_ms div 1000)) \<and>
    (case advance_millis env delta app of None \<Rightarrow> True
     | Some app' \<Rightarrow> unat (sa_combat_accumulator_ms app') = combat_ms mod frame_ms \<and> unat (sa_phase_accumulator_ms app') = phase_ms mod 1000 \<and>
         unat (sa_clock_seconds app') = min (unat (sa_clock_seconds app) + phase_ms div 1000) (2 ^ 32 - 1))"
proof -
  let ?frame = "ucast (sc_combat_frame_ms (app_simulation app)) :: u32"
  have frame: "?frame = of_nat frame_ms" "unat ?frame = frame_ms" "0 < ?frame"
    using assms(1) by (simp_all add: frame_ms_def word_less_nat_alt word_unat_eq_iff unat_of_nat take_bit_nat_eq_self)
  note delta = unat_ucast_u16 [of delta]
  have acc: "sat_add (sa_combat_accumulator_ms app) (ucast delta) = of_nat combat_ms" "sat_add (sa_phase_accumulator_ms app) (ucast delta) = of_nat phase_ms"
    using assms(3,4) by (simp_all add: sat_add_def delta combat_ms_def phase_ms_def)
  have n: "unat (of_nat combat_ms :: u32) = combat_ms" "unat (of_nat phase_ms :: u32) = phase_ms"
    using assms(3,4) unfolding combat_ms_def [symmetric] phase_ms_def [symmetric] by (simp_all add: unat_of_nat take_bit_nat_eq_self)
  have run: "advance_millis env delta app = Option.bind (combat_frames env ?frame (combat_ms div frame_ms) due) (phase_loop env)"
    using assms(2) combat_loop_eq [OF frame(3), of env due] n frame(2)
    by (simp add: advance_millis_def acc due_def)
  have frames: "sa_phase_accumulator_ms app1 = of_nat phase_ms \<and> sa_clock_seconds app1 = sa_clock_seconds app \<and>
      unat (sa_combat_accumulator_ms app1) = combat_ms mod frame_ms"
    if "combat_frames env ?frame (combat_ms div frame_ms) due = Some app1" for app1
    using combat_frames_timing [OF that] by (simp add: due_def n minus_div_mult_eq_mod frame_ms_def [symmetric])
  have "Option.bind (combat_frames env ?frame (combat_ms div frame_ms) due) (phase_loop env) =
      Option.bind (combat_frames env ?frame (combat_ms div frame_ms) due) (phase_seconds env (phase_ms div 1000))"
    by (rule bind_option_cong [OF refl]) (use frames n in \<open>auto simp: phase_loop_eq\<close>)
  then have eq: "advance_millis env delta app =
      Option.bind (combat_frames env (of_nat frame_ms) (combat_ms div frame_ms) due) (phase_seconds env (phase_ms div 1000))"
    unfolding run frame(1) .
  have "unat (sa_combat_accumulator_ms app') = combat_ms mod frame_ms \<and> unat (sa_phase_accumulator_ms app') = phase_ms mod 1000 \<and>
      unat (sa_clock_seconds app') = min (unat (sa_clock_seconds app) + phase_ms div 1000) (2 ^ 32 - 1)"
    if "advance_millis env delta app = Some app'" for app'
  proof -
    note returned = that
    obtain app1 where a: "combat_frames env ?frame (combat_ms div frame_ms) due = Some app1" "phase_seconds env (phase_ms div 1000) app1 = Some app'"
      using returned unfolding eq frame(1) by (auto simp: bind_eq_Some_conv)
    note f = frames [OF a(1)]
    then show ?thesis using phase_seconds_timing [OF a(2)] by (simp add: n minus_div_mult_eq_mod)
  qed
  then show ?thesis using eq by (simp split: option.split)
qed

text \<open>A server nobody is connected to.\<close>

lemma idle_frames:
  "sa_matches app = [] \<Longrightarrow> sa_training_sessions app = [] \<Longrightarrow> \<exists>m. combat_frames env f n app = Some (app\<lparr>sa_combat_accumulator_ms := m\<rparr>)"
proof (induction n arbitrary: app)
  case 0
  have "combat_frames env f 0 app = Some (app\<lparr>sa_combat_accumulator_ms := sa_combat_accumulator_ms app\<rparr>)" by simp
  then show ?case by blast
next
  case (Suc n)
  let ?app1 = "app\<lparr>sa_combat_accumulator_ms := sa_combat_accumulator_ms app - f\<rparr>"
  have "advance_combat_frames env ?app1 = Some ?app1"
    using Suc.prems by (simp add: advance_combat_frames_def bt_keys_def)
  then show ?case using Suc.IH [of ?app1] Suc.prems by simp
qed

theorem clock_runs_what_is_due_witness:
  "\<exists>content app'. load_from_root sample_files sample_yaml sample_catalog [] = Inr content \<and>
     advance_millis quiet_env 2500 (from_content_and_stores content quiet_store ()) = Some app' \<and>
     unat (sa_clock_seconds app') = 2 \<and> unat (sa_phase_accumulator_ms app') = 500"
proof -
  obtain content where c: "load_from_root sample_files sample_yaml sample_catalog [] = Inr content"
    using sample_content_loads by blast
  let ?app = "from_content_and_stores content quiet_store ()"
  have "valid_configuration (gct_configuration content)" using load_from_root_parts(2) [OF c] parse_configuration_valid by blast
  then have frame: "0 < sc_combat_frame_ms (app_simulation ?app)"
    by (simp add: valid_configuration_def valid_simulation_def from_content_and_stores_def word_neq_0_conv)
  have z: "sa_combat_accumulator_ms ?app = 0" "sa_phase_accumulator_ms ?app = 0" "sa_clock_seconds ?app = 0"
    by (simp_all add: from_content_and_stores_def)
  have due: "unat (sa_combat_accumulator_ms ?app) + unat (2500 :: u16) < 2 ^ 32" "unat (sa_phase_accumulator_ms ?app) + unat (2500 :: u16) < 2 ^ 32"
    "(2500 :: u16) \<noteq> 0" by (simp_all add: z)
  note runs = clock_runs_what_is_due [where env = quiet_env, OF frame due(3,1,2)]
  define frame_ms where "frame_ms = unat (sc_combat_frame_ms (app_simulation ?app))"
  define started where "started = ?app\<lparr>sa_phase_accumulator_ms := 2500, sa_combat_accumulator_ms := 2500\<rparr>"
  have e: "advance_millis quiet_env 2500 ?app =
      Option.bind (combat_frames quiet_env (of_nat frame_ms) (2500 div frame_ms) started) (phase_seconds quiet_env 2)"
    using conjunct1 [OF runs] by (simp add: z started_def frame_ms_def)
  have "sa_matches started = []" "sa_training_sessions started = []" by (simp_all add: started_def from_content_and_stores_def)
  then obtain m where m: "combat_frames quiet_env (of_nat frame_ms) (2500 div frame_ms) started = Some (started\<lparr>sa_combat_accumulator_ms := m\<rparr>)"
    using idle_frames by blast
  have "\<exists>app'. phase_seconds quiet_env 2 (started\<lparr>sa_combat_accumulator_ms := m\<rparr>) = Some app'"
    by (simp add: eval_nat_numeral advance_lobby_countdowns_def advance_match_phases_def bt_keys_def started_def from_content_and_stores_def)
  then obtain app' where a: "advance_millis quiet_env 2500 ?app = Some app'"
    unfolding e m by auto
  then have "unat (sa_clock_seconds app') = 2 \<and> unat (sa_phase_accumulator_ms app') = 500"
    using conjunct2 [OF runs] by (simp add: z)
  with c a show ?thesis by blast
qed

end
