(* ===== verification/History.thy ===== *)
theory History
  imports Machine
begin

text \<open>
  Runs of a step function with what was asked and answered so far. The locale \<open>history\<close> relates
  the state to the log that led to it; \<open>run_history\<close> gives that relation at every point of a run.
\<close>

lemma run_Cons_eq: "run step (x # xs) s = (rs, s') \<longleftrightarrow>
    (\<exists>r s1 rs1. step x s = (r, s1) \<and> run step xs s1 = (rs1, s') \<and> rs = r # rs1)"
  by (auto simp: run.simps(2) Let_def split: prod.splits)

lemma run_length: "run step xs s = (rs, s') \<Longrightarrow> length rs = length xs"
  by (induction xs arbitrary: s rs) (auto simp: run_Cons_eq)

locale history =
  fixes step :: "'op \<Rightarrow> 's \<Rightarrow> 'r \<times> 's"
    and related :: "('op \<times> 'r) list \<Rightarrow> 's \<Rightarrow> bool"
  assumes related_step: "related past s \<Longrightarrow> step x s = (r, s') \<Longrightarrow> related (past @ [(x, r)]) s'"
begin

lemma run_history:
  assumes "run step xs s = (rs, s')" "related past s"
  shows "related (past @ zip xs rs) s'"
    and "zip xs rs = before @ (x, r) # after \<Longrightarrow> \<exists>s1 s2. related (past @ before) s1 \<and> step x s1 = (r, s2)"
  using assms
proof (induction xs arbitrary: s rs past before)
  case (Cons y xs)
  {
    case 1
    then obtain r1 s1 rs1 where y: "step y s = (r1, s1)" "run step xs s1 = (rs1, s')" "rs = r1 # rs1"
      by (auto simp: run_Cons_eq)
    then show ?case using Cons.IH(1) [OF y(2) related_step [OF 1(2) y(1)]] by simp
  next
    case 2
    then obtain r1 s1 rs1 where y: "step y s = (r1, s1)" "run step xs s1 = (rs1, s')" "rs = r1 # rs1"
      by (auto simp: run_Cons_eq)
    show ?case
    proof (cases before)
      case Nil
      with 2 y show ?thesis by auto
    next
      case (Cons z before1)
      with 2 y have z: "z = (y, r1)" "zip xs rs1 = before1 @ (x, r) # after" by auto
      from Cons.IH(2) [OF z(2) y(2) related_step [OF 2(3) y(1)]] show ?thesis
        by (simp add: Cons z(1))
    qed
  }
qed simp_all

end

end
