(* ===== verification/Session_Gate.thy ===== *)
theory Session_Gate
  imports Ordered_Map Rust_Text History
begin

text \<open>
  Who may open a session (\<open>game_api/src/realtime.rs\<close>, \<open>realtime/server.rs\<close>): the rate limiter of
  bootstrap requests, the registry of one-time tokens, the two HTTP handlers that use them, and the
  password of the admin page. An \<open>Instant\<close> is a number of nanoseconds. Random bytes, base64, the
  parser of addresses and the headers of a request come from outside.
\<close>

section \<open>One-time tokens\<close>

type_synonym instant = nat

definition from_secs :: "nat \<Rightarrow> nat" where
  "from_secs s = s * 1000000000"

definition SESSION_BOOTSTRAP_TOKEN_TTL :: nat where "SESSION_BOOTSTRAP_TOKEN_TTL = from_secs 30"
definition MAX_SESSION_BOOTSTRAP_TOKEN_BYTES :: nat where "MAX_SESSION_BOOTSTRAP_TOKEN_BYTES = 96"
definition MAX_SESSION_BOOTSTRAP_TOKENS :: nat where "MAX_SESSION_BOOTSTRAP_TOKENS = 4096"
definition SESSION_BOOTSTRAP_RATE_LIMIT_WINDOW :: nat where "SESSION_BOOTSTRAP_RATE_LIMIT_WINDOW = from_secs 60"
definition SESSION_BOOTSTRAP_RATE_LIMIT_MAX_REQUESTS :: nat where "SESSION_BOOTSTRAP_RATE_LIMIT_MAX_REQUESTS = 20"

text \<open>\<open>retain\<close> of a \<open>BTreeMap\<close>.\<close>

definition bt_retain :: "('v \<Rightarrow> bool) \<Rightarrow> ('k::linorder, 'v) btree_map \<Rightarrow> ('k, 'v) btree_map" where
  "bt_retain P m = filter (\<lambda>(_, v). P v) m"

record token_registry =
  tk_issued :: "(rstring, instant) btree_map"
  tk_ttl :: nat

definition token_registry_new :: "nat \<Rightarrow> token_registry" where
  "token_registry_new ttl = \<lparr>tk_issued = [], tk_ttl = ttl\<rparr>"

definition tk_prune_expired :: "instant \<Rightarrow> token_registry \<Rightarrow> token_registry" where
  "tk_prune_expired now reg = reg\<lparr>tk_issued := bt_retain (\<lambda>expires_at. now \<le> expires_at) (tk_issued reg)\<rparr>"

text \<open>\<open>random\<close> is what the operating system answers to the request for 24 random bytes.\<close>

definition mint :: "(u8 list \<Rightarrow> rstring) \<Rightarrow> rstring + u8 list \<Rightarrow> instant \<Rightarrow> token_registry \<Rightarrow> (rstring + rstring) \<times> token_registry" where
  "mint encode random now reg =
     (let reg = tk_prune_expired now reg in
      if MAX_SESSION_BOOTSTRAP_TOKENS \<le> length (tk_issued reg) then
        (Inl (lit ''session bootstrap token registry is full ('' @ show_nat MAX_SESSION_BOOTSTRAP_TOKENS @ lit '' active tokens)''), reg)
      else case random of
        Inl error \<Rightarrow> (Inl (lit ''failed to generate a session bootstrap token: '' @ error), reg)
      | Inr bytes \<Rightarrow>
          let token = encode bytes in
          (Inr token, reg\<lparr>tk_issued := bt_insert token (now + tk_ttl reg) (tk_issued reg)\<rparr>))"

definition is_valid_session_bootstrap_token_shape :: "rstring \<Rightarrow> bool" where
  "is_valid_session_bootstrap_token_shape token \<longleftrightarrow>
     token \<noteq> [] \<and> str_len token \<le> MAX_SESSION_BOOTSTRAP_TOKEN_BYTES \<and>
     list_all (\<lambda>byte. is_ascii_alphanumeric (unat byte) \<or> byte = 45 \<or> byte = 95) (utf8_encode token)"

definition consume :: "rstring \<Rightarrow> instant \<Rightarrow> token_registry \<Rightarrow> (rstring + unit) \<times> token_registry" where
  "consume token now reg =
     (let reg = tk_prune_expired now reg in
      if \<not> is_valid_session_bootstrap_token_shape token then
        (Inl (lit ''session bootstrap token format is invalid''), reg)
      else case bt_get (tk_issued reg) token of
        None \<Rightarrow> (Inl (lit ''session bootstrap token is missing or already consumed''), reg)
      | Some expires_at \<Rightarrow>
          let reg = reg\<lparr>tk_issued := bt_remove token (tk_issued reg)\<rparr> in
          if expires_at < now then (Inl (lit ''session bootstrap token has expired''), reg) else (Inr (), reg))"

section \<open>The rate limiter\<close>

record 'ip rate_limiter =
  rl_requests_by_ip :: "('ip, instant list) btree_map"
  rl_window :: nat
  rl_max_requests :: nat

definition rate_limiter_new :: "nat \<Rightarrow> nat \<Rightarrow> 'ip rate_limiter" where
  "rate_limiter_new window max_requests = \<lparr>rl_requests_by_ip = [], rl_window = window, rl_max_requests = max_requests\<rparr>"

definition rl_prune_expired :: "instant \<Rightarrow> 'ip::linorder rate_limiter \<Rightarrow> 'ip rate_limiter" where
  "rl_prune_expired now l =
     l\<lparr>rl_requests_by_ip := bt_retain (\<lambda>timestamps. timestamps \<noteq> [])
        (bt_map_values (dropWhile (\<lambda>oldest. oldest + rl_window l \<le> now)) (rl_requests_by_ip l))\<rparr>"

definition check_and_record :: "'ip::linorder \<Rightarrow> instant \<Rightarrow> 'ip rate_limiter \<Rightarrow> (nat + unit) \<times> 'ip rate_limiter" where
  "check_and_record client_ip now l =
     (let l = rl_prune_expired now l;
          entry = (case bt_get (rl_requests_by_ip l) client_ip of Some timestamps \<Rightarrow> timestamps | None \<Rightarrow> []) in
      if rl_max_requests l \<le> length entry then
        let retry_after = (case entry of [] \<Rightarrow> rl_window l | oldest # _ \<Rightarrow> oldest + rl_window l - now) in
        (Inl (max retry_after (from_secs 1)), l\<lparr>rl_requests_by_ip := bt_insert client_ip entry (rl_requests_by_ip l)\<rparr>)
      else (Inr (), l\<lparr>rl_requests_by_ip := bt_insert client_ip (entry @ [now]) (rl_requests_by_ip l)\<rparr>))"

section \<open>Addresses and passwords\<close>

fun split_char :: "rchar \<Rightarrow> rstring \<Rightarrow> rstring list" where
  "split_char c [] = [[]]"
| "split_char c (x # s) = (if x = c then [] # split_char c s
     else case split_char c s of [] \<Rightarrow> [[x]] | piece # pieces \<Rightarrow> (x # piece) # pieces)"

text \<open>\<open>header name\<close> is the value of a header when there is one and it is text.\<close>

fun first_address :: "(rstring \<Rightarrow> 'ip option) \<Rightarrow> rstring list \<Rightarrow> 'ip option" where
  "first_address parse_ip [] = None"
| "first_address parse_ip (candidate # candidates) =
     (case parse_ip (trim candidate) of Some ip \<Rightarrow> Some ip | None \<Rightarrow> first_address parse_ip candidates)"

definition header_address :: "(rstring \<Rightarrow> 'ip option) \<Rightarrow> (string \<Rightarrow> rstring option) \<Rightarrow> string \<Rightarrow> 'ip option" where
  "header_address parse_ip header header_name =
     (case header header_name of None \<Rightarrow> None | Some raw_value \<Rightarrow> first_address parse_ip (split_char 44 raw_value))"

definition effective_client_ip :: "(rstring \<Rightarrow> 'ip option) \<Rightarrow> (string \<Rightarrow> rstring option) \<Rightarrow> 'ip \<Rightarrow> 'ip" where
  "effective_client_ip parse_ip header peer_ip =
     (case header_address parse_ip header ''x-forwarded-for'' of
        Some ip \<Rightarrow> ip
      | None \<Rightarrow> (case header_address parse_ip header ''x-real-ip'' of Some ip \<Rightarrow> ip | None \<Rightarrow> peer_ip))"

record admin_auth_config =
  aac_username :: rstring
  aac_password :: rstring

definition admin_auth_new :: "rstring \<Rightarrow> rstring \<Rightarrow> rstring + admin_auth_config" where
  "admin_auth_new username password =
     (let username = trim username in
      if username = [] then Inl (lit ''admin username must not be blank'')
      else if trim password = [] then Inl (lit ''admin password must not be blank'')
      else Inr \<lparr>aac_username = username, aac_password = password\<rparr>)"

definition byte_or_zero :: "u8 list \<Rightarrow> nat \<Rightarrow> u8" where
  "byte_or_zero bytes index = (if index < length bytes then bytes ! index else 0)"

definition constant_time_bytes_eq :: "u8 list \<Rightarrow> u8 list \<Rightarrow> bool" where
  "constant_time_bytes_eq left right =
     (let max_len = max (length left) (length right) in
      fold (\<lambda>index diff. diff OR unat (byte_or_zero left index XOR byte_or_zero right index)) [0..<max_len]
        (length left XOR length right) = 0)"

fun strip_prefix :: "rstring \<Rightarrow> rstring \<Rightarrow> rstring option" where
  "strip_prefix [] s = Some s"
| "strip_prefix (p # ps) [] = None"
| "strip_prefix (p # ps) (x # s) = (if p = x then strip_prefix ps s else None)"

text \<open>\<open>raw_header\<close> is the \<open>Authorization\<close> header when there is one and it is text.\<close>

definition is_authorized :: "(rstring \<Rightarrow> u8 list option) \<Rightarrow> rstring option \<Rightarrow> admin_auth_config \<Rightarrow> bool" where
  "is_authorized base64_decode raw_header auth =
     (case raw_header of
        None \<Rightarrow> False
      | Some raw_header \<Rightarrow>
          (case strip_prefix (lit ''Basic '') raw_header of
             None \<Rightarrow> False
           | Some encoded \<Rightarrow>
               (case base64_decode encoded of
                  None \<Rightarrow> False
                | Some decoded \<Rightarrow>
                    constant_time_bytes_eq decoded (utf8_encode (aac_username auth) @ [58] @ utf8_encode (aac_password auth)))))"

section \<open>The handlers\<close>

text \<open>What the server keeps, and what it answers; HTTP is left out.\<close>

record 'ip session_gate =
  sg_limiter :: "'ip rate_limiter"
  sg_tokens :: token_registry

datatype gate_answer =
    RateLimited nat
  | MintFailed rstring
  | TokenIssued rstring
  | UpgradeRefused rstring
  | UpgradeGranted

definition session_gate_new :: "'ip session_gate" where
  "session_gate_new =
     \<lparr>sg_limiter = rate_limiter_new SESSION_BOOTSTRAP_RATE_LIMIT_WINDOW SESSION_BOOTSTRAP_RATE_LIMIT_MAX_REQUESTS,
      sg_tokens = token_registry_new SESSION_BOOTSTRAP_TOKEN_TTL\<rparr>"

definition session_bootstrap ::
  "(u8 list \<Rightarrow> rstring) \<Rightarrow> rstring + u8 list \<Rightarrow> 'ip::linorder \<Rightarrow> instant \<Rightarrow> 'ip session_gate \<Rightarrow> gate_answer \<times> 'ip session_gate" where
  "session_bootstrap encode random client_ip now gate =
     (let (checked, limiter) = check_and_record client_ip now (sg_limiter gate);
          gate = gate\<lparr>sg_limiter := limiter\<rparr> in
      case checked of
        Inl retry_after \<Rightarrow> (RateLimited retry_after, gate)
      | Inr _ \<Rightarrow>
          let (minted, tokens) = mint encode random now (sg_tokens gate);
              gate = gate\<lparr>sg_tokens := tokens\<rparr> in
          (case minted of Inl message \<Rightarrow> MintFailed message | Inr token \<Rightarrow> TokenIssued token, gate))"

definition authorize_websocket_upgrade :: "rstring option \<Rightarrow> instant \<Rightarrow> 'ip session_gate \<Rightarrow> gate_answer \<times> 'ip session_gate" where
  "authorize_websocket_upgrade token now gate =
     (case token of
        None \<Rightarrow> (UpgradeRefused (lit ''missing required session bootstrap token''), gate)
      | Some token \<Rightarrow>
          let (consumed, tokens) = consume token now (sg_tokens gate) in
          (case consumed of Inl message \<Rightarrow> UpgradeRefused message | Inr _ \<Rightarrow> UpgradeGranted, gate\<lparr>sg_tokens := tokens\<rparr>))"

text \<open>The requests of all clients in the order the locks are taken, with their answers.\<close>

datatype 'ip gate_request =
    AskToken (asked_by: 'ip) (request_time: instant) (random_bytes: "rstring + u8 list")
  | AskUpgrade (shown_token: "rstring option") (request_time: instant)

fun gate_step :: "(u8 list \<Rightarrow> rstring) \<Rightarrow> 'ip::linorder gate_request \<Rightarrow> 'ip session_gate \<Rightarrow> gate_answer \<times> 'ip session_gate" where
  "gate_step encode (AskToken ip now random) gate = session_bootstrap encode random ip now gate"
| "gate_step encode (AskUpgrade token now) gate = authorize_websocket_upgrade token now gate"

section \<open>Facts\<close>

lemma bt_inv_retain [simp]: "bt_inv m \<Longrightarrow> bt_inv (bt_retain P m)"
  by (auto simp: bt_inv_def bt_retain_def sorted_wrt_map intro: sorted_wrt_filter)

lemma bt_get_retain:
  "bt_inv m \<Longrightarrow> bt_get (bt_retain P m) k = (case bt_get m k of None \<Rightarrow> None | Some v \<Rightarrow> if P v then Some v else None)"
proof (induction m)
  case (Cons kv m)
  obtain k' v where kv: "kv = (k', v)" by fastforce
  have "k' \<notin> fst ` set m" using Cons.prems by (auto simp: kv bt_inv_def)
  then have "bt_get m k' = None" by (simp add: map_of_eq_None_iff)
  with Cons show ?case by (auto simp: kv bt_retain_def bt_inv_def split: option.splits)
qed (simp add: bt_retain_def)

definition entry_of :: "'ip::linorder \<Rightarrow> 'ip rate_limiter \<Rightarrow> instant list" where
  "entry_of ip l = (case bt_get (rl_requests_by_ip l) ip of Some timestamps \<Rightarrow> timestamps | None \<Rightarrow> [])"

lemma pruned_entry:
  assumes "bt_inv (rl_requests_by_ip l)"
  shows "entry_of ip (rl_prune_expired now l) = dropWhile (\<lambda>oldest. oldest + rl_window l \<le> now) (entry_of ip l)"
  using assms by (auto simp: entry_of_def rl_prune_expired_def bt_get_retain eq_commute [of "[]"] split: option.splits)

lemma check_and_record_entry:
  assumes "bt_inv (rl_requests_by_ip l)" "check_and_record ip now l = (checked, l')"
  shows "bt_inv (rl_requests_by_ip l')" "rl_window l' = rl_window l" "rl_max_requests l' = rl_max_requests l"
    and "isl checked \<longleftrightarrow> rl_max_requests l \<le> length (dropWhile (\<lambda>oldest. oldest + rl_window l \<le> now) (entry_of ip l))"
    and "entry_of ip' l' = dropWhile (\<lambda>oldest. oldest + rl_window l \<le> now) (entry_of ip' l) @
      (if ip' = ip \<and> \<not> isl checked then [now] else [])"
proof -
  have inv: "bt_inv (rl_requests_by_ip (rl_prune_expired now l))"
    using assms(1) by (simp add: rl_prune_expired_def)
  have fields: "rl_window (rl_prune_expired now l) = rl_window l" "rl_max_requests (rl_prune_expired now l) = rl_max_requests l"
    by (simp_all add: rl_prune_expired_def)
  define entry where "entry = entry_of ip (rl_prune_expired now l)"
  have l': "l' = (rl_prune_expired now l)\<lparr>rl_requests_by_ip :=
      bt_insert ip (entry @ (if isl checked then [] else [now])) (rl_requests_by_ip (rl_prune_expired now l))\<rparr>"
    and checked: "isl checked \<longleftrightarrow> rl_max_requests l \<le> length entry"
    using assms(2) by (auto simp: check_and_record_def Let_def entry_def entry_of_def fields split: if_splits)
  show "bt_inv (rl_requests_by_ip l')" "rl_window l' = rl_window l" "rl_max_requests l' = rl_max_requests l"
    using inv by (simp_all add: l' fields btree.inv_insert)
  have entry: "entry = dropWhile (\<lambda>oldest. oldest + rl_window l \<le> now) (entry_of ip l)"
    unfolding entry_def by (rule pruned_entry [OF assms(1)])
  show "isl checked \<longleftrightarrow> rl_max_requests l \<le> length (dropWhile (\<lambda>oldest. oldest + rl_window l \<le> now) (entry_of ip l))"
    unfolding checked entry ..
  have "entry_of ip' l' = (if ip' = ip then entry @ (if isl checked then [] else [now]) else entry_of ip' (rl_prune_expired now l))"
    using inv by (simp add: l' entry_of_def btree.lookup_insert)
  then show "entry_of ip' l' = dropWhile (\<lambda>oldest. oldest + rl_window l \<le> now) (entry_of ip' l) @
      (if ip' = ip \<and> \<not> isl checked then [now] else [])"
    by (simp add: entry pruned_entry [OF assms(1)])
qed

section \<open>Rate limiting\<close>

type_synonym 'ip gate_log = "('ip gate_request \<times> gate_answer) list"

fun rate_limited :: "gate_answer \<Rightarrow> bool" where
  "rate_limited (RateLimited _) = True"
| "rate_limited _ = False"

fun asks_for_token :: "'ip \<Rightarrow> 'ip gate_request \<Rightarrow> bool" where
  "asks_for_token ip (AskToken ip' _ _) = (ip' = ip)"
| "asks_for_token ip (AskUpgrade _ _) = False"

definition log_times :: "'ip gate_log \<Rightarrow> instant list" where
  "log_times log = map (\<lambda>(request, _). request_time request) log"

text \<open>When the requests of an address were let through.\<close>

definition admitted :: "'ip \<Rightarrow> 'ip gate_log \<Rightarrow> instant list" where
  "admitted ip log = log_times (filter (\<lambda>(request, answer). asks_for_token ip request \<and> \<not> rate_limited answer) log)"

lemma times_simps [simp]: "log_times [] = []" "log_times (e # log) = request_time (fst e) # log_times log" "log_times (log @ log') = log_times log @ log_times log'"
  by (simp_all add: log_times_def case_prod_beta)

lemma admitted_simps [simp]: "admitted ip [] = []"
  "admitted ip (log @ [(request, answer)]) = admitted ip log @
     (if asks_for_token ip request \<and> \<not> rate_limited answer then [request_time request] else [])"
  by (simp_all add: admitted_def)

lemma log_times_zip: "length answers = length requests \<Longrightarrow> log_times (zip requests answers) = map request_time requests"
  by (induction answers requests rule: list_induct2) simp_all

lemma sorted_admitted: "sorted (log_times log) \<Longrightarrow> sorted (admitted ip log)"
  by (simp add: admitted_def log_times_def sorted_filter)

lemma admitted_subset: "set (admitted ip log) \<subseteq> set (log_times log)"
  by (auto simp: admitted_def log_times_def)

lemma dropWhile_sorted:
  "sorted ts \<Longrightarrow> dropWhile (\<lambda>t. t + w \<le> now) ts = filter (\<lambda>t. now < t + (w :: nat)) ts"
proof (induction ts)
  case (Cons t ts)
  then show ?case by (cases "t + w \<le> now") (auto intro!: filter_True [symmetric])
qed simp

abbreviation WINDOW :: nat where "WINDOW \<equiv> SESSION_BOOTSTRAP_RATE_LIMIT_WINDOW"

definition recent :: "instant \<Rightarrow> 'ip \<Rightarrow> 'ip gate_log \<Rightarrow> instant list" where
  "recent now ip log = filter (\<lambda>s. now < s + WINDOW) (admitted ip log)"

definition limiter_related :: "'ip::linorder gate_log \<Rightarrow> 'ip session_gate \<Rightarrow> bool" where
  "limiter_related log gate \<longleftrightarrow> (sorted (log_times log) \<longrightarrow>
     bt_inv (rl_requests_by_ip (sg_limiter gate)) \<and> rl_window (sg_limiter gate) = WINDOW \<and>
     rl_max_requests (sg_limiter gate) = SESSION_BOOTSTRAP_RATE_LIMIT_MAX_REQUESTS \<and>
     (\<exists>since \<in> insert 0 (set (log_times log)). (\<forall>ip. entry_of ip (sg_limiter gate) = recent since ip log)) \<and>
     (\<forall>ip t. length (filter (\<lambda>s. t \<le> s \<and> s < t + WINDOW) (admitted ip log)) \<le> SESSION_BOOTSTRAP_RATE_LIMIT_MAX_REQUESTS))"

lemma window_pos: "0 < WINDOW"
  by (simp add: SESSION_BOOTSTRAP_RATE_LIMIT_WINDOW_def from_secs_def)

lemma recent_append:
  assumes "sorted (log_times (log @ [(request, answer)]))" "since \<in> insert 0 (set (log_times log))" "request_time request = now"
  shows "dropWhile (\<lambda>oldest. oldest + WINDOW \<le> now) (recent since ip log) = recent now ip log"
    and "recent now ip (log @ [(request, answer)]) =
      recent now ip log @ (if asks_for_token ip request \<and> \<not> rate_limited answer then [now] else [])"
proof -
  have "since \<le> now" using assms by (auto simp: sorted_append)
  moreover have "sorted (recent since ip log)"
    using assms(1) sorted_admitted [of log ip] by (simp add: recent_def sorted_append sorted_wrt_filter)
  ultimately show "dropWhile (\<lambda>oldest. oldest + WINDOW \<le> now) (recent since ip log) = recent now ip log"
    by (simp add: dropWhile_sorted recent_def) (auto intro: filter_cong)
  show "recent now ip (log @ [(request, answer)]) =
      recent now ip log @ (if asks_for_token ip request \<and> \<not> rate_limited answer then [now] else [])"
    using window_pos by (simp add: recent_def assms(3))
qed

lemma window_append:
  assumes "sorted (log_times (log @ [(request, answer)]))" "request_time request = now"
    and "\<forall>t. length (filter (\<lambda>s. t \<le> s \<and> s < t + WINDOW) (admitted ip log)) \<le> k"
    and "asks_for_token ip request \<Longrightarrow> \<not> rate_limited answer \<Longrightarrow> length (recent now ip log) < k"
  shows "length (filter (\<lambda>s. t \<le> s \<and> s < t + WINDOW) (admitted ip (log @ [(request, answer)]))) \<le> k"
proof (cases "asks_for_token ip request \<and> \<not> rate_limited answer \<and> t \<le> now \<and> now < t + WINDOW")
  case True
  have "length (filter (\<lambda>s. t \<le> s \<and> s < t + WINDOW) (admitted ip log)) \<le> length (recent now ip log)"
  proof -
    have "filter (\<lambda>s. t \<le> s \<and> s < t + WINDOW) (admitted ip log) =
        filter (\<lambda>s. t \<le> s \<and> s < t + WINDOW) (recent now ip log)"
      using True by (auto simp: recent_def intro: filter_cong)
    then show ?thesis by simp
  qed
  with assms(2,4) True show ?thesis by simp
next
  case False
  then have "filter (\<lambda>s. t \<le> s \<and> s < t + WINDOW) (admitted ip (log @ [(request, answer)])) =
      filter (\<lambda>s. t \<le> s \<and> s < t + WINDOW) (admitted ip log)"
    using assms(2) by auto
  then show ?thesis using assms(3) by simp
qed

lemma bootstrap_limited:
  assumes "session_bootstrap encode random ip now gate = (answer, gate')"
  obtains checked where "check_and_record ip now (sg_limiter gate) = (checked, sg_limiter gate')" "rate_limited answer \<longleftrightarrow> isl checked"
  using assms by (auto simp: session_bootstrap_def Let_def split: prod.splits sum.splits)

lemma limiter_step:
  assumes "limiter_related log gate" "gate_step encode request gate = (answer, gate')"
  shows "limiter_related (log @ [(request, answer)]) gate'"
    and "sorted (log_times (log @ [(request, answer)])) \<Longrightarrow> request = AskToken ip now random \<Longrightarrow>
      rate_limited answer \<longleftrightarrow> SESSION_BOOTSTRAP_RATE_LIMIT_MAX_REQUESTS \<le> length (recent now ip log)"
proof -
  let ?log = "log @ [(request, answer)]"
  have goal: "limiter_related ?log gate' \<and> (\<forall>ip now random. request = AskToken ip now random \<longrightarrow>
      rate_limited answer = (SESSION_BOOTSTRAP_RATE_LIMIT_MAX_REQUESTS \<le> length (recent now ip log)))"
    if sorted: "sorted (log_times ?log)"
  proof -
    have past: "sorted (log_times log)" using sorted by (simp add: sorted_append)
    then have inv: "bt_inv (rl_requests_by_ip (sg_limiter gate))" "rl_window (sg_limiter gate) = WINDOW"
      "rl_max_requests (sg_limiter gate) = SESSION_BOOTSTRAP_RATE_LIMIT_MAX_REQUESTS"
      and win: "\<And>ip t. length (filter (\<lambda>s. t \<le> s \<and> s < t + WINDOW) (admitted ip log)) \<le> SESSION_BOOTSTRAP_RATE_LIMIT_MAX_REQUESTS"
      using assms(1) by (auto simp: limiter_related_def)
    obtain since where since: "since \<in> insert 0 (set (log_times log))" "\<And>ip. entry_of ip (sg_limiter gate) = recent since ip log"
      using assms(1) past by (auto simp: limiter_related_def)
    show ?thesis
    proof (cases request)
      case (AskUpgrade token now)
      then have "sg_limiter gate' = sg_limiter gate"
        using assms(2) by (auto simp: authorize_websocket_upgrade_def Let_def split: option.splits prod.splits)
      moreover have "recent since ip ?log = recent since ip log" "admitted ip ?log = admitted ip log" for ip
        by (simp_all add: recent_def AskUpgrade)
      moreover have "since \<in> insert 0 (set (log_times ?log))" using since(1) by auto
      ultimately have "limiter_related ?log gate'"
        unfolding limiter_related_def using since(2) inv win by metis
      then show ?thesis using AskUpgrade by simp
    next
      case (AskToken ip now random)
      have "session_bootstrap encode random ip now gate = (answer, gate')" using assms(2) AskToken by simp
      then obtain checked where c: "check_and_record ip now (sg_limiter gate) = (checked, sg_limiter gate')"
        "rate_limited answer \<longleftrightarrow> isl checked" by (rule bootstrap_limited)
      note entry = check_and_record_entry [OF inv(1) c(1), unfolded inv(2,3) since(2)]
      have time: "request_time request = now" by (simp add: AskToken)
      note drop = recent_append(1) [OF sorted since(1) time]
      have limited: "rate_limited answer \<longleftrightarrow> SESSION_BOOTSTRAP_RATE_LIMIT_MAX_REQUESTS \<le> length (recent now ip log)"
        using entry(4) c(2) by (simp add: drop)
      have "entry_of ip' (sg_limiter gate') = recent now ip' ?log" for ip'
        using entry(5) [of ip'] recent_append(2) [OF sorted since(1) time, of ip'] c(2) by (simp add: drop AskToken eq_commute)
      moreover have "length (filter (\<lambda>s. t \<le> s \<and> s < t + WINDOW) (admitted ip' ?log)) \<le> SESSION_BOOTSTRAP_RATE_LIMIT_MAX_REQUESTS" for ip' t
        by (rule window_append [OF sorted time]) (use win limited AskToken in auto)
      moreover have "now \<in> insert 0 (set (log_times ?log))" by (simp add: time)
      ultimately have "limiter_related ?log gate'"
        unfolding limiter_related_def using entry(1-3) by blast
      with limited show ?thesis using AskToken by blast
    qed
  qed
  then show "limiter_related ?log gate'" by (auto simp: limiter_related_def)
  show "sorted (log_times ?log) \<Longrightarrow> request = AskToken ip now random \<Longrightarrow>
      rate_limited answer \<longleftrightarrow> SESSION_BOOTSTRAP_RATE_LIMIT_MAX_REQUESTS \<le> length (recent now ip log)"
    using goal by blast
qed

interpretation limiter: history "gate_step encode" limiter_related for encode
  by unfold_locales (rule limiter_step(1))

lemma limiter_related_new: "limiter_related [] session_gate_new"
  by (simp add: limiter_related_def session_gate_new_def rate_limiter_new_def entry_of_def recent_def bt_inv_def)

text \<open>C9: bootstrap requests are limited exactly: if the requests come in the order of their times, one is refused if
  and only if twenty of its address were let through within the last minute, whatever other addresses do; so no minute
  ever has more than twenty of one address.\<close>

theorem bootstrap_rate_limited:
  assumes "run (gate_step encode) requests session_gate_new = (answers, gate)" "sorted (map request_time requests)"
  shows "(\<forall>past ip now random answer rest. zip requests answers = past @ (AskToken ip now random, answer) # rest \<longrightarrow>
      (rate_limited answer \<longleftrightarrow> 20 \<le> length (filter (\<lambda>s. now < s + from_secs 60) (admitted ip past)))) \<and>
    (\<forall>ip t. length (filter (\<lambda>s. t \<le> s \<and> s < t + from_secs 60) (admitted ip (zip requests answers))) \<le> 20)"
proof -
  have sorted: "sorted (log_times (zip requests answers))"
    using assms(2) log_times_zip [OF run_length [OF assms(1)]] by simp
  have limits: "WINDOW = from_secs 60" "SESSION_BOOTSTRAP_RATE_LIMIT_MAX_REQUESTS = 20"
    by (simp_all add: SESSION_BOOTSTRAP_RATE_LIMIT_WINDOW_def SESSION_BOOTSTRAP_RATE_LIMIT_MAX_REQUESTS_def)
  note history = limiter.run_history [OF assms(1) limiter_related_new, simplified]
  have "rate_limited answer \<longleftrightarrow> 20 \<le> length (filter (\<lambda>s. now < s + from_secs 60) (admitted ip past))"
    if split: "zip requests answers = past @ (AskToken ip now random, answer) # rest" for past ip now random answer rest
  proof -
    obtain s1 s2 where at: "limiter_related past s1" "gate_step encode (AskToken ip now random) s1 = (answer, s2)"
      using history(2) [OF split] by auto
    have "sorted (log_times (past @ [(AskToken ip now random, answer)]))"
      using sorted unfolding split by (simp add: sorted_append)
    from limiter_step(2) [OF at this refl] show ?thesis by (simp add: recent_def limits)
  qed
  moreover have "length (filter (\<lambda>s. t \<le> s \<and> s < t + from_secs 60) (admitted ip (zip requests answers))) \<le> 20" for ip t
    using history(1) sorted by (simp add: limiter_related_def limits)
  ultimately show ?thesis by blast
qed

text \<open>Of twenty-one requests at once one is refused.\<close>

theorem bootstrap_rate_limited_witness:
  "\<exists>answers gate. run (gate_step (\<lambda>_. [])) (replicate 21 (AskToken (1 :: nat) 0 (Inl []))) session_gate_new = (answers, gate) \<and>
     (\<exists>answer \<in> set answers. rate_limited answer)"
proof -
  let ?requests = "replicate 21 (AskToken (1 :: nat) 0 (Inl []))"
  obtain answers gate where r: "run (gate_step (\<lambda>_. [])) ?requests session_gate_new = (answers, gate)"
    by fastforce
  have "sorted (map request_time ?requests)" by (simp add: sorted_replicate)
  from bootstrap_rate_limited [OF r this]
  have bound: "length (filter (\<lambda>s. 0 \<le> s \<and> s < 0 + from_secs 60) (admitted 1 (zip ?requests answers))) \<le> 20" by blast
  have False if none: "\<forall>answer \<in> set answers. \<not> rate_limited answer"
  proof -
    have "admitted 1 (zip ?requests answers) = log_times (zip ?requests answers)"
      unfolding admitted_def using none
      by (auto intro!: arg_cong [where f = log_times] filter_True dest: set_zip_leftD set_zip_rightD)
    also have "\<dots> = replicate 21 0" using log_times_zip [OF run_length [OF r]] by simp
    finally show ?thesis using bound by (simp add: from_secs_def)
  qed
  with r show ?thesis by blast
qed

section \<open>Tokens are used once\<close>

abbreviation TTL :: nat where "TTL \<equiv> SESSION_BOOTSTRAP_TOKEN_TTL"

text \<open>The time a token was issued, when it was and no upgrade has been granted for it since.\<close>

fun touches :: "rstring \<Rightarrow> 'ip gate_request \<times> gate_answer \<Rightarrow> bool" where
  "touches token (AskToken _ _ _, TokenIssued token') = (token' = token)"
| "touches token (AskUpgrade (Some token') _, UpgradeGranted) = (token' = token)"
| "touches token _ = False"

definition outstanding :: "rstring \<Rightarrow> 'ip gate_log \<Rightarrow> instant option" where
  "outstanding token log =
     (case find (touches token) (rev log) of Some (AskToken _ t _, _) \<Rightarrow> Some t | _ \<Rightarrow> None)"

lemma outstanding_simps [simp]: "outstanding token [] = None"
  "outstanding token (log @ [(request, answer)]) =
     (if touches token (request, answer) then (case request of AskToken _ t _ \<Rightarrow> Some t | AskUpgrade _ _ \<Rightarrow> None)
      else outstanding token log)"
  by (simp_all add: outstanding_def split: gate_request.split)

definition unexpired :: "instant \<Rightarrow> rstring \<Rightarrow> 'ip gate_log \<Rightarrow> instant option" where
  "unexpired now token log =
     (case outstanding token log of None \<Rightarrow> None | Some t \<Rightarrow> if now \<le> t + TTL then Some (t + TTL) else None)"

definition registry_related :: "instant \<Rightarrow> 'ip gate_log \<Rightarrow> token_registry \<Rightarrow> bool" where
  "registry_related since log reg \<longleftrightarrow> bt_inv (tk_issued reg) \<and> tk_ttl reg = TTL \<and>
     length (tk_issued reg) \<le> MAX_SESSION_BOOTSTRAP_TOKENS \<and>
     (\<forall>token. bt_get (tk_issued reg) token = unexpired since token log)"

definition tokens_related :: "'ip::linorder gate_log \<Rightarrow> 'ip session_gate \<Rightarrow> bool" where
  "tokens_related log gate \<longleftrightarrow> (sorted (log_times log) \<longrightarrow>
     (\<exists>since \<in> insert 0 (set (log_times log)). registry_related since log (sg_tokens gate)))"

lemma length_insert: "length (bt_insert k v m) \<le> Suc (length m)"
  by (induction k v m rule: bt_insert.induct) auto

lemma length_retain: "length (bt_retain P m) \<le> length m" "length (bt_remove k m) \<le> length m"
  by (simp_all add: bt_retain_def bt_remove_def)

lemma prune_related:
  assumes "registry_related since log reg" "since \<le> now"
  shows "registry_related now log (tk_prune_expired now reg)"
  using assms length_retain(1) [of "\<lambda>expires_at. now \<le> expires_at" "tk_issued reg"]
  by (auto simp: registry_related_def tk_prune_expired_def bt_get_retain unexpired_def split: option.splits)

lemma untouched_related:
  assumes "registry_related since log reg" "\<And>token. \<not> touches token (request, answer)"
  shows "registry_related since (log @ [(request, answer)]) reg"
  using assms by (simp add: registry_related_def unexpired_def)

lemma mint_related:
  assumes "registry_related since log reg" "since \<le> now" "mint encode random now reg = (minted, reg')"
    and "answer = (case minted of Inl message \<Rightarrow> MintFailed message | Inr token \<Rightarrow> TokenIssued token)"
  shows "registry_related now (log @ [(AskToken ip now random, answer)]) reg'"
proof -
  define reg0 where "reg0 = tk_prune_expired now reg"
  have reg0: "registry_related now log reg0" unfolding reg0_def by (rule prune_related [OF assms(1,2)])
  show ?thesis
  proof (cases minted)
    case (Inl message)
    then have "reg' = reg0" using assms(3) by (auto simp: mint_def reg0_def Let_def split: if_splits sum.splits)
    then show ?thesis using untouched_related [OF reg0] assms(4) Inl by simp
  next
    case (Inr token)
    then have reg': "reg' = reg0\<lparr>tk_issued := bt_insert token (now + tk_ttl reg0) (tk_issued reg0)\<rparr>"
      "length (tk_issued reg0) < MAX_SESSION_BOOTSTRAP_TOKENS"
      using assms(3) by (auto simp: mint_def reg0_def Let_def split: if_splits sum.splits)
    then have "length (tk_issued reg') \<le> MAX_SESSION_BOOTSTRAP_TOKENS"
      using length_insert [of token "now + tk_ttl reg0" "tk_issued reg0"] by simp
    then show ?thesis
      using reg0 by (simp add: registry_related_def reg'(1) assms(4) Inr btree.inv_insert btree.lookup_insert unexpired_def)
  qed
qed

lemma consume_related:
  assumes "registry_related since log reg" "since \<le> now" "consume token now reg = (consumed, reg')"
    and "answer = (case consumed of Inl message \<Rightarrow> UpgradeRefused message | Inr _ \<Rightarrow> UpgradeGranted)"
  shows "registry_related now (log @ [(AskUpgrade (Some token) now, answer)]) reg'"
    and "answer = UpgradeGranted \<longleftrightarrow> is_valid_session_bootstrap_token_shape token \<and> unexpired now token log \<noteq> None"
proof -
  define reg0 where "reg0 = tk_prune_expired now reg"
  have reg0: "registry_related now log reg0" unfolding reg0_def by (rule prune_related [OF assms(1,2)])
  then have get: "bt_get (tk_issued reg0) token = unexpired now token log" by (simp add: registry_related_def)
  have "now \<le> e" if "bt_get (tk_issued reg0) token = Some e" for e
    using that get by (auto simp: unexpired_def split: option.splits if_splits)
  then have cases: "consumed = Inr () \<longleftrightarrow> is_valid_session_bootstrap_token_shape token \<and> bt_get (tk_issued reg0) token \<noteq> None"
    "reg' = (if consumed = Inr () then reg0\<lparr>tk_issued := bt_remove token (tk_issued reg0)\<rparr> else reg0)"
    using assms(3) by (auto simp: consume_def reg0_def Let_def leD split: if_splits option.splits)
  have granted: "answer = UpgradeGranted \<longleftrightarrow> consumed = Inr ()" by (auto simp: assms(4) split: sum.splits)
  show "answer = UpgradeGranted \<longleftrightarrow> is_valid_session_bootstrap_token_shape token \<and> unexpired now token log \<noteq> None"
    using cases(1) granted get by simp
  show "registry_related now (log @ [(AskUpgrade (Some token) now, answer)]) reg'"
  proof (cases "answer = UpgradeGranted")
    case True
    then show ?thesis using reg0 cases(2) granted length_retain(2) [of token "tk_issued reg0"]
      by (simp add: registry_related_def btree.inv_remove btree.lookup_remove unexpired_def)
  next
    case False
    then have "\<not> touches t (AskUpgrade (Some token) now, answer)" for t by (cases answer) simp_all
    then have "registry_related now (log @ [(AskUpgrade (Some token) now, answer)]) reg0" by (rule untouched_related [OF reg0])
    then show ?thesis using False cases(2) granted by simp
  qed
qed

text \<open>A bootstrap request that is limited leaves the tokens alone; the others mint.\<close>

lemma bootstrap_minted:
  assumes "session_bootstrap encode random ip now gate = (answer, gate')"
  obtains "rate_limited answer" "sg_tokens gate' = sg_tokens gate"
  | minted where "mint encode random now (sg_tokens gate) = (minted, sg_tokens gate')"
      "answer = (case minted of Inl message \<Rightarrow> MintFailed message | Inr token \<Rightarrow> TokenIssued token)"
  using assms by (auto simp: session_bootstrap_def Let_def split: prod.splits sum.splits)

lemma tokens_step_since:
  assumes "registry_related since log (sg_tokens gate)" "since \<le> request_time request" "gate_step encode request gate = (answer, gate')"
  shows "\<exists>since' \<in> {since, request_time request}. registry_related since' (log @ [(request, answer)]) (sg_tokens gate')"
proof (cases request)
  case (AskToken ip now random)
  then have now: "since \<le> now" and run: "session_bootstrap encode random ip now gate = (answer, gate')" using assms(2,3) by simp_all
  from run show ?thesis
  proof (cases rule: bootstrap_minted)
    case 1
    then have "\<not> touches token (request, answer)" for token by (cases answer) (simp_all add: AskToken)
    then have "registry_related since (log @ [(request, answer)]) (sg_tokens gate)" by (rule untouched_related [OF assms(1)])
    then show ?thesis using 1(2) by simp
  next
    case (2 minted)
    then show ?thesis using mint_related [OF assms(1) now 2] by (simp add: AskToken)
  qed
next
  case (AskUpgrade shown now)
  show ?thesis
  proof (cases shown)
    case None
    then show ?thesis using untouched_related [OF assms(1)] assms(3) AskUpgrade by (auto simp: authorize_websocket_upgrade_def)
  next
    case (Some token)
    then show ?thesis using consume_related(1) [OF assms(1)] assms(2,3) AskUpgrade
      by (auto simp: authorize_websocket_upgrade_def Let_def split: prod.splits)
  qed
qed

lemma tokens_step:
  assumes "tokens_related log gate" "gate_step encode request gate = (answer, gate')"
  shows "tokens_related (log @ [(request, answer)]) gate'"
    and "sorted (log_times (log @ [(request, answer)])) \<Longrightarrow> request = AskUpgrade (Some token) now \<Longrightarrow>
      answer = UpgradeGranted \<longleftrightarrow> is_valid_session_bootstrap_token_shape token \<and> unexpired now token log \<noteq> None"
proof -
  have since: "\<exists>since \<in> insert 0 (set (log_times log)). since \<le> request_time request \<and> registry_related since log (sg_tokens gate)"
    if "sorted (log_times (log @ [(request, answer)]))"
    using that assms(1) by (auto simp: tokens_related_def sorted_append)
  show "tokens_related (log @ [(request, answer)]) gate'"
    unfolding tokens_related_def
  proof
    assume "sorted (log_times (log @ [(request, answer)]))"
    from since [OF this] obtain since where s: "since \<in> insert 0 (set (log_times log))" "since \<le> request_time request"
      "registry_related since log (sg_tokens gate)" by blast
    from tokens_step_since [OF s(3,2) assms(2)] s(1)
    show "\<exists>since \<in> insert 0 (set (log_times (log @ [(request, answer)]))).
        registry_related since (log @ [(request, answer)]) (sg_tokens gate')" by auto
  qed
  assume "sorted (log_times (log @ [(request, answer)]))" and request: "request = AskUpgrade (Some token) now"
  from since [OF this(1)] request obtain since where s: "since \<le> now" "registry_related since log (sg_tokens gate)" by auto
  obtain consumed where c: "consume token now (sg_tokens gate) = (consumed, sg_tokens gate')"
    "answer = (case consumed of Inl message \<Rightarrow> UpgradeRefused message | Inr _ \<Rightarrow> UpgradeGranted)"
    using assms(2) request by (auto simp: authorize_websocket_upgrade_def Let_def split: prod.splits)
  show "answer = UpgradeGranted \<longleftrightarrow> is_valid_session_bootstrap_token_shape token \<and> unexpired now token log \<noteq> None"
    by (rule consume_related(2) [OF s(2,1) c])
qed

interpretation tokens: history "gate_step encode" tokens_related for encode
  by unfold_locales (rule tokens_step(1))

lemma tokens_related_new: "tokens_related [] session_gate_new"
  by (simp add: tokens_related_def registry_related_def session_gate_new_def token_registry_new_def unexpired_def bt_inv_def)

text \<open>C8: bootstrap tokens admit one session each: if the requests come in the order of their times, an upgrade is granted if
  and only if it shows a well-formed token that was issued at most thirty seconds ago and has not been used since; the server
  never holds more than 4096 of them.\<close>

theorem bootstrap_token_used_once:
  assumes "run (gate_step encode) requests session_gate_new = (answers, gate)" "sorted (map request_time requests)"
  shows "(\<forall>past token now answer rest. zip requests answers = past @ (AskUpgrade (Some token) now, answer) # rest \<longrightarrow>
      (answer = UpgradeGranted \<longleftrightarrow> is_valid_session_bootstrap_token_shape token \<and>
        (\<exists>issued_at. outstanding token past = Some issued_at \<and> now \<le> issued_at + from_secs 30))) \<and>
    length (tk_issued (sg_tokens gate)) \<le> 4096"
proof -
  have sorted: "sorted (log_times (zip requests answers))"
    using assms(2) log_times_zip [OF run_length [OF assms(1)]] by simp
  have limits: "TTL = from_secs 30" "MAX_SESSION_BOOTSTRAP_TOKENS = 4096"
    by (simp_all add: SESSION_BOOTSTRAP_TOKEN_TTL_def MAX_SESSION_BOOTSTRAP_TOKENS_def)
  note history = tokens.run_history [OF assms(1) tokens_related_new, simplified]
  have "answer = UpgradeGranted \<longleftrightarrow> is_valid_session_bootstrap_token_shape token \<and>
      (\<exists>issued_at. outstanding token past = Some issued_at \<and> now \<le> issued_at + from_secs 30)"
    if split: "zip requests answers = past @ (AskUpgrade (Some token) now, answer) # rest" for past token now answer rest
  proof -
    obtain s1 s2 where at: "tokens_related past s1" "gate_step encode (AskUpgrade (Some token) now) s1 = (answer, s2)"
      using history(2) [OF split] by auto
    have "sorted (log_times (past @ [(AskUpgrade (Some token) now, answer)]))"
      using sorted unfolding split by (simp add: sorted_append)
    from tokens_step(2) [OF at this refl] show ?thesis
      by (auto simp: unexpired_def limits split: option.splits)
  qed
  moreover have "length (tk_issued (sg_tokens gate)) \<le> 4096"
    using history(1) sorted by (auto simp: tokens_related_def registry_related_def limits)
  ultimately show ?thesis by blast
qed

text \<open>A token admits once.\<close>

theorem bootstrap_token_used_once_witness:
  "\<exists>answers gate. run (gate_step (\<lambda>_. lit ''abc''))
       [AskToken (1 :: nat) 0 (Inr []), AskUpgrade (Some (lit ''abc'')) 1, AskUpgrade (Some (lit ''abc'')) 2] session_gate_new =
       (answers, gate) \<and>
     answers ! 1 = UpgradeGranted \<and> answers ! 2 \<noteq> UpgradeGranted"
proof -
  let ?ask = "AskToken (1 :: nat) 0 (Inr [])" and ?show = "AskUpgrade (Some (lit ''abc'')) :: nat \<Rightarrow> nat gate_request"
  obtain a1 a2 a3 gate where r: "run (gate_step (\<lambda>_. lit ''abc'')) [?ask, ?show 1, ?show 2] session_gate_new = ([a1, a2, a3], gate)"
    and first: "a1 = fst (gate_step (\<lambda>_. lit ''abc'') ?ask session_gate_new)"
    by (simp add: run_Cons_eq) (metis fst_conv surj_pair)
  have a1: "a1 = TokenIssued (lit ''abc'')"
    by (simp add: first session_bootstrap_def session_gate_new_def check_and_record_def rl_prune_expired_def bt_map_values_def
        bt_retain_def rate_limiter_new_def token_registry_new_def mint_def tk_prune_expired_def Let_def
        SESSION_BOOTSTRAP_RATE_LIMIT_MAX_REQUESTS_def MAX_SESSION_BOOTSTRAP_TOKENS_def)
  have shape: "is_valid_session_bootstrap_token_shape (lit ''abc'')"
    by (simp add: is_valid_session_bootstrap_token_shape_def lit_def str_len_def utf8_encode_def utf8_char_def
        MAX_SESSION_BOOTSTRAP_TOKEN_BYTES_def is_ascii_alphanumeric_def is_ascii_digit_def is_ascii_lowercase_def is_ascii_uppercase_def)
  have "sorted (map request_time [?ask, ?show 1, ?show 2])" by simp
  note exact = bootstrap_token_used_once [OF r this, THEN conjunct1, rule_format]
  have "a2 = UpgradeGranted"
    using exact [of "[(?ask, a1)]" "lit ''abc''" 1 a2 "[(?show 2, a3)]"] shape by (simp add: a1 outstanding_def from_secs_def)
  moreover from this have "a3 \<noteq> UpgradeGranted"
    using exact [of "[(?ask, a1), (?show 1, a2)]" "lit ''abc''" 2 a3 "[]"] by (simp add: outstanding_def)
  ultimately show ?thesis using r by (intro exI conjI) (rule r, simp_all)
qed

section \<open>The password of the admin page\<close>

lemma fold_or_zero: "fold (\<lambda>i d. d OR f i) is (d :: nat) = 0 \<longleftrightarrow> d = 0 \<and> (\<forall>i \<in> set is. f i = 0)"
  by (induction "is" arbitrary: d) (auto simp: or_eq_0_iff)

lemma xor_zero_nat: "a XOR b = 0 \<longleftrightarrow> a = (b :: nat)"
  by (auto simp: bit_eq_iff bit_xor_iff)

lemma xor_zero_word: "a XOR b = 0 \<longleftrightarrow> a = (b :: u8)"
  by (auto simp: bit_eq_iff bit_xor_iff)

text \<open>The comparison that does not stop early compares.\<close>

lemma constant_time_compares: "constant_time_bytes_eq left right \<longleftrightarrow> left = right"
proof -
  have "constant_time_bytes_eq left right \<longleftrightarrow> length left = length right \<and>
      (\<forall>i < max (length left) (length right). byte_or_zero left i = byte_or_zero right i)"
    by (auto simp: constant_time_bytes_eq_def Let_def fold_or_zero xor_zero_nat xor_zero_word unsigned_eq_0_iff)
  also have "\<dots> \<longleftrightarrow> left = right"
    by (auto simp: byte_or_zero_def list_eq_iff_nth_eq)
  finally show ?thesis .
qed

lemma strip_prefix_append: "strip_prefix p s = Some rest \<longleftrightarrow> s = p @ rest"
  by (induction p s rule: strip_prefix.induct) auto

lemma strip_prefix_same [simp]: "strip_prefix p (p @ s) = Some s"
  by (simp add: strip_prefix_append)

lemma admin_authorized_exact:
  "is_authorized base64_decode raw_header auth \<longleftrightarrow> (\<exists>encoded. raw_header = Some (lit ''Basic '' @ encoded) \<and>
     base64_decode encoded = Some (utf8_encode (aac_username auth) @ [58] @ utf8_encode (aac_password auth)))"
  by (auto simp: is_authorized_def constant_time_compares strip_prefix_append split: option.splits)

text \<open>Whoever may send headers chooses the address the limiter sees.\<close>

lemma forwarded_address_wins:
  "header ''x-forwarded-for'' = Some value \<Longrightarrow> split_char 44 value = claimed # others \<Longrightarrow> parse_ip (trim claimed) = Some ip \<Longrightarrow>
     effective_client_ip parse_ip header peer_ip = ip"
  by (simp add: effective_client_ip_def header_address_def)

end
