(* ===== verification/Signaling.thy ===== *)
theory Signaling
  imports App_State Error_Text History "HOL-Library.Sublist"
begin

text \<open>
  Setting up a WebRTC session (\<open>game_api/src/webrtc\<close>, \<open>realtime/signaling\<close>): the messages of the
  signaling socket and their validation, the list of ICE servers with the temporary credentials of
  a relay, and the negotiation of one session as a step function on what arrives on the socket and
  from the peer connection. JSON, base64, HMAC-SHA1 and the peer connection come from outside: what
  the peer answers to a call is an argument of the step that makes it, and the calls are effects.
\<close>

section \<open>Messages\<close>

definition CONTROL_DATA_CHANNEL_ID :: u16 where "CONTROL_DATA_CHANNEL_ID = 0"
definition INPUT_DATA_CHANNEL_ID :: u16 where "INPUT_DATA_CHANNEL_ID = 1"
definition SNAPSHOT_DATA_CHANNEL_ID :: u16 where "SNAPSHOT_DATA_CHANNEL_ID = 2"
definition MAX_SIGNAL_MESSAGE_BYTES :: nat where "MAX_SIGNAL_MESSAGE_BYTES = 128 * 1024"
definition MAX_SIGNAL_SDP_BYTES :: nat where "MAX_SIGNAL_SDP_BYTES = 96 * 1024"
definition MAX_SIGNAL_CANDIDATE_BYTES :: nat where "MAX_SIGNAL_CANDIDATE_BYTES = 4096"
definition MAX_SIGNAL_MID_BYTES :: nat where "MAX_SIGNAL_MID_BYTES = 64"
definition DEFAULT_TURN_TTL_SECS :: u64 where "DEFAULT_TURN_TTL_SECS = 3600"

record signaling_channel_map =
  scm_control :: u16
  scm_input :: u16
  scm_snapshot :: u16

definition signaling_channel_map_default :: signaling_channel_map where
  "signaling_channel_map_default =
     \<lparr>scm_control = CONTROL_DATA_CHANNEL_ID, scm_input = INPUT_DATA_CHANNEL_ID, scm_snapshot = SNAPSHOT_DATA_CHANNEL_ID\<rparr>"

record session_description =
  ssd_type :: rstring
  ssd_sdp :: rstring

record ice_candidate =
  sic_candidate :: rstring
  sic_sdp_mid :: "rstring option"
  sic_sdp_mline_index :: "u16 option"

datatype client_signal_message = OfferMessage session_description | CandidateMessage ice_candidate | Bye

record ice_server_config =
  isc_urls :: "rstring list"
  isc_username :: rstring
  isc_credential :: rstring

datatype server_signal_message =
    Hello u8 "ice_server_config list" signaling_channel_map
  | AnswerMessage session_description
  | ServerCandidate ice_candidate
  | SignalError rstring

definition exceeds :: "string \<Rightarrow> nat \<Rightarrow> nat \<Rightarrow> rstring" where
  "exceeds what len maximum = lit what @ lit '' length '' @ show_nat len @ lit '' exceeds maximum '' @ show_nat maximum"

definition description_validate :: "session_description \<Rightarrow> rstring + unit" where
  "description_validate d =
     (let sdp_type = trim (ssd_type d) in
      if sdp_type \<noteq> lit ''offer'' \<and> sdp_type \<noteq> lit ''answer'' then
        Inl (lit ''unsupported signaling session description type '' @ [39] @ sdp_type @ [39])
      else if ssd_sdp d = [] then Inl (lit ''session description SDP must not be empty'')
      else if MAX_SIGNAL_SDP_BYTES < str_len (ssd_sdp d) then
        Inl (exceeds ''session description SDP'' (str_len (ssd_sdp d)) MAX_SIGNAL_SDP_BYTES)
      else Inr ())"

definition description_validate_as_offer :: "session_description \<Rightarrow> rstring + unit" where
  "description_validate_as_offer d =
     and_then (description_validate d) (\<lambda>_.
     if trim (ssd_type d) \<noteq> lit ''offer'' then Inl (lit ''clients may only submit offer session descriptions'') else Inr ())"

definition candidate_validate :: "ice_candidate \<Rightarrow> rstring + unit" where
  "candidate_validate c =
     (if trim (sic_candidate c) = [] then Inl (lit ''ICE candidate must not be empty'')
      else if MAX_SIGNAL_CANDIDATE_BYTES < str_len (sic_candidate c) then
        Inl (exceeds ''ICE candidate'' (str_len (sic_candidate c)) MAX_SIGNAL_CANDIDATE_BYTES)
      else case sic_sdp_mid c of
        Some sdp_mid \<Rightarrow>
          if MAX_SIGNAL_MID_BYTES < str_len sdp_mid then
            Inl (exceeds ''ICE candidate sdp_mid'' (str_len sdp_mid) MAX_SIGNAL_MID_BYTES)
          else Inr ()
      | None \<Rightarrow> Inr ())"

fun client_message_validate :: "client_signal_message \<Rightarrow> rstring + unit" where
  "client_message_validate (OfferMessage description) = description_validate_as_offer description"
| "client_message_validate (CandidateMessage candidate) = candidate_validate candidate"
| "client_message_validate Bye = Inr ()"

text \<open>\<open>serde_json\<close>: the parser, the members of an object, a string value, and the derived decoder.\<close>

record 'j json_api =
  js_from_str :: "rstring \<Rightarrow> rstring + 'j"
  js_as_object :: "'j \<Rightarrow> (rstring \<times> 'j) list option"
  js_as_str :: "'j \<Rightarrow> rstring option"
  js_from_value :: "'j \<Rightarrow> rstring + client_signal_message"

fun allowed_keys :: "rstring \<Rightarrow> rstring list option" where
  "allowed_keys message_type =
     (if message_type = lit ''session_description'' then Some [lit ''type'', lit ''description'']
      else if message_type = lit ''ice_candidate'' then Some [lit ''type'', lit ''candidate'']
      else if message_type = lit ''bye'' then Some [lit ''type'']
      else None)"

definition validate_client_signal_json_shape :: "'j json_api \<Rightarrow> 'j \<Rightarrow> rstring + unit" where
  "validate_client_signal_json_shape js v =
     (case js_as_object js v of
        None \<Rightarrow> Inl (lit ''invalid signaling JSON: root value must be an object'')
      | Some members \<Rightarrow>
          (case Option.bind (map_of members (lit ''type'')) (js_as_str js) of
             None \<Rightarrow> Inl (lit ''invalid signaling JSON: missing string field '' @ [39] @ lit ''type'' @ [39])
           | Some message_type \<Rightarrow>
               (case allowed_keys message_type of
                  None \<Rightarrow> Inr ()
                | Some allowed \<Rightarrow>
                    (case find (\<lambda>key. key \<notin> set allowed) (map fst members) of
                       Some key \<Rightarrow> Inl (lit ''invalid signaling JSON: unexpected field '' @ [39] @ key @
                         [39] @ lit '' for message type '' @ [39] @ message_type @ [39])
                     | None \<Rightarrow> Inr ()))))"

definition decode_client_signal_message :: "'j json_api \<Rightarrow> rstring \<Rightarrow> rstring + client_signal_message" where
  "decode_client_signal_message js content =
     (if content = [] then Inl (lit ''signaling message must not be empty'')
      else if MAX_SIGNAL_MESSAGE_BYTES < str_len content then
        Inl (exceeds ''signaling message'' (str_len content) MAX_SIGNAL_MESSAGE_BYTES)
      else
        and_then (map_sum (\<lambda>error. lit ''invalid signaling JSON: '' @ error) id (js_from_str js content)) (\<lambda>v.
        and_then (validate_client_signal_json_shape js v) (\<lambda>_.
        and_then (map_sum (\<lambda>error. lit ''invalid signaling JSON: '' @ error) id (js_from_value js v)) (\<lambda>message.
        and_then (client_message_validate message) (\<lambda>_.
        Inr message)))))"

section \<open>ICE servers\<close>

text \<open>The time to live is in nanoseconds.\<close>

record webrtc_runtime_config =
  wrc_stun_urls :: "rstring list"
  wrc_turn_urls :: "rstring list"
  wrc_turn_shared_secret :: "rstring option"
  wrc_turn_ttl :: nat

definition webrtc_runtime_config_default :: webrtc_runtime_config where
  "webrtc_runtime_config_default =
     \<lparr>wrc_stun_urls = [], wrc_turn_urls = [], wrc_turn_shared_secret = None,
      wrc_turn_ttl = unat DEFAULT_TURN_TTL_SECS * 1000000000\<rparr>"

definition blank :: "rstring \<Rightarrow> bool" where
  "blank s \<longleftrightarrow> trim s = []"

definition webrtc_config_validate :: "webrtc_runtime_config \<Rightarrow> rstring + unit" where
  "webrtc_config_validate c =
     (if list_ex blank (wrc_stun_urls c) then Inl (lit ''STUN URLs must not contain blank entries'')
      else if list_ex blank (wrc_turn_urls c) then Inl (lit ''TURN URLs must not contain blank entries'')
      else if wrc_turn_urls c \<noteq> [] \<and> (case wrc_turn_shared_secret c of None \<Rightarrow> True | Some secret \<Rightarrow> blank secret) then
        Inl (lit ''TURN URLs require RARENA_WEBRTC_TURN_SECRET to be configured'')
      else if wrc_turn_ttl c = 0 then Inl (lit ''TURN credential TTL must be greater than zero'')
      else Inr ())"

fun validate_ice_urls :: "rstring list \<Rightarrow> rstring + unit" where
  "validate_ice_urls [] = Inr ()"
| "validate_ice_urls (url # urls) =
     (let trimmed = trim url in
      if trimmed = [] then Inl (lit ''ICE server URLs must not be blank'')
      else if MAX_SIGNAL_CANDIDATE_BYTES < str_len trimmed then
        Inl (exceeds ''ICE server URL'' (str_len trimmed) MAX_SIGNAL_CANDIDATE_BYTES)
      else validate_ice_urls urls)"

definition ice_server_validate :: "ice_server_config \<Rightarrow> rstring + unit" where
  "ice_server_validate c =
     (if isc_urls c = [] then Inl (lit ''ICE server configuration requires at least one URL'')
      else validate_ice_urls (isc_urls c))"

fun validate_ice_servers :: "ice_server_config list \<Rightarrow> rstring + unit" where
  "validate_ice_servers [] = Inr ()"
| "validate_ice_servers (server # servers) = and_then (ice_server_validate server) (\<lambda>_. validate_ice_servers servers)"

text \<open>
  \<open>now\<close> is the whole seconds since the epoch, or the error of a clock before it; \<open>hmac key message\<close>
  is HMAC-SHA1, which may refuse a key.
\<close>

record crypto_api =
  cr_hmac :: "u8 list \<Rightarrow> u8 list \<Rightarrow> rstring + u8 list"
  cr_base64 :: "u8 list \<Rightarrow> rstring"

definition generate_turn_credentials ::
  "crypto_api \<Rightarrow> rstring \<Rightarrow> connection_id \<Rightarrow> rstring + u64 \<Rightarrow> nat \<Rightarrow> rstring + rstring \<times> rstring" where
  "generate_turn_credentials crypto shared_secret cid now ttl =
     and_then (map_sum (\<lambda>error. lit ''system clock is before the unix epoch: '' @ error) id now) (\<lambda>now_secs.
     let expires = sat_add now_secs (of_nat (ttl div 1000000000));
         username = show_n expires @ lit '':conn-'' @ show_n (connection_id_get cid) in
     and_then (map_sum (\<lambda>error. lit ''invalid TURN shared secret: '' @ error) id
         (cr_hmac crypto (utf8_encode shared_secret) (utf8_encode username))) (\<lambda>mac.
     Inr (username, cr_base64 crypto mac)))"

definition turn_server ::
  "crypto_api \<Rightarrow> connection_id \<Rightarrow> rstring + u64 \<Rightarrow> webrtc_runtime_config \<Rightarrow> rstring + ice_server_config list" where
  "turn_server crypto cid now c =
     (if wrc_turn_urls c = [] then Inr []
      else case wrc_turn_shared_secret c of
        None \<Rightarrow> Inl (lit ''TURN shared secret is required'')
      | Some secret \<Rightarrow>
          and_then (generate_turn_credentials crypto secret cid now (wrc_turn_ttl c)) (\<lambda>(username, credential).
          Inr [\<lparr>isc_urls = wrc_turn_urls c, isc_username = username, isc_credential = credential\<rparr>]))"

definition ice_servers_for_connection ::
  "crypto_api \<Rightarrow> connection_id \<Rightarrow> rstring + u64 \<Rightarrow> webrtc_runtime_config \<Rightarrow> rstring + ice_server_config list" where
  "ice_servers_for_connection crypto cid now c =
     and_then (webrtc_config_validate c) (\<lambda>_.
     let stun = (if wrc_stun_urls c = [] then [] else [\<lparr>isc_urls = wrc_stun_urls c, isc_username = [], isc_credential = []\<rparr>]) in
     and_then (turn_server crypto cid now c) (\<lambda>turn.
     and_then (validate_ice_servers (stun @ turn)) (\<lambda>_.
     Inr (stun @ turn))))"

section \<open>The channel of a packet\<close>

definition validate_webrtc_packet_channel :: "u8 list \<Rightarrow> channel_id \<Rightarrow> rstring + unit" where
  "validate_webrtc_packet_channel packet expected_channel =
     and_then (map_sum packet_error_text id (header_decode packet)) (\<lambda>(header, _).
     if hd_channel_id header \<noteq> expected_channel then
       Inl (lit ''packet header channel '' @ channel_debug (hd_channel_id header) @ lit '' does not match the '' @
         channel_debug expected_channel @ lit '' data channel'')
     else case expected_channel of
       ControlChannel \<Rightarrow>
         if hd_packet_kind header \<noteq> ControlCommand then
           Inl (lit ''the control data channel only accepts ControlCommand packets, received '' @ kind_debug (hd_packet_kind header))
         else Inr ()
     | InputChannel \<Rightarrow>
         if hd_packet_kind header \<noteq> InputFrame then
           Inl (lit ''the input data channel only accepts InputFrame packets, received '' @ kind_debug (hd_packet_kind header))
         else Inr ()
     | SnapshotChannel \<Rightarrow> Inl (lit ''clients must not send packets on the snapshot data channel''))"

section \<open>The negotiation\<close>

record negotiation_state =
  ng_offer_seen :: bool
  ng_answer_sent :: bool
  ng_pending_local_candidates :: "ice_candidate list"

datatype signaling_loop_exit = Fatal rstring | SocketClosed rstring

definition should_keep_bound_session_after_signaling_exit :: "signaling_loop_exit \<Rightarrow> player_id option \<Rightarrow> bool \<Rightarrow> bool" where
  "should_keep_bound_session_after_signaling_exit exit bound_player disconnected \<longleftrightarrow>
     (case exit of SocketClosed _ \<Rightarrow> True | Fatal _ \<Rightarrow> False) \<and> bound_player \<noteq> None \<and> \<not> disconnected"

datatype 'd signaling_effect =
    Send server_signal_message
  | SetRemoteDescription 'd
  | AddIceCandidate ice_candidate
  | ClosePeer

text \<open>
  What the peer connection and the constructors of its descriptions answer; an error is its text.
\<close>

record 'd peer_answers =
  pa_offer :: "rstring \<Rightarrow> rstring + 'd"
  pa_answer :: "rstring \<Rightarrow> rstring + 'd"
  pa_set_remote :: "'d \<Rightarrow> rstring option"
  pa_create_answer :: "rstring + 'd"
  pa_set_local :: "'d \<Rightarrow> rstring option"
  pa_local_description :: "'d option"
  pa_from_rtc :: "'d \<Rightarrow> session_description"
  pa_add_candidate :: "ice_candidate \<Rightarrow> rstring option"

definition to_rtc_description :: "'d peer_answers \<Rightarrow> session_description \<Rightarrow> rstring + 'd" where
  "to_rtc_description peer d =
     and_then (description_validate d) (\<lambda>_.
     if trim (ssd_type d) = lit ''offer'' then
       map_sum (\<lambda>error. lit ''failed to parse offer session description: '' @ error) id (pa_offer peer (ssd_sdp d))
     else if trim (ssd_type d) = lit ''answer'' then
       map_sum (\<lambda>error. lit ''failed to parse answer session description: '' @ error) id (pa_answer peer (ssd_sdp d))
     else Inl (lit ''unsupported signaling session description type '' @ [39] @ ssd_type d @ [39]))"

definition reject_signaling :: "rstring \<Rightarrow> 'd signaling_effect list" where
  "reject_signaling message = [Send (SignalError message), ClosePeer]"

definition accept_webrtc_offer ::
  "'d peer_answers \<Rightarrow> session_description \<Rightarrow> negotiation_state \<Rightarrow> bool \<times> 'd signaling_effect list \<times> negotiation_state" where
  "accept_webrtc_offer peer description negotiation =
     (if ng_offer_seen negotiation then
        (False, reject_signaling (lit ''a WebRTC offer has already been processed''), negotiation)
      else case to_rtc_description peer description of
        Inl message \<Rightarrow> (False, reject_signaling (lit ''rejected remote session description: '' @ message), negotiation)
      | Inr remote_description \<Rightarrow>
          case pa_set_remote peer remote_description of
            Some error \<Rightarrow> (False, SetRemoteDescription remote_description #
              reject_signaling (lit ''failed to apply the remote offer: '' @ error), negotiation)
          | None \<Rightarrow>
              case pa_create_answer peer of
                Inl error \<Rightarrow> (False, SetRemoteDescription remote_description #
                  reject_signaling (lit ''failed to create the WebRTC answer: '' @ error), negotiation)
              | Inr answer \<Rightarrow>
                  case pa_set_local peer answer of
                    Some error \<Rightarrow> (False, SetRemoteDescription remote_description #
                      reject_signaling (lit ''failed to apply the local answer: '' @ error), negotiation)
                  | None \<Rightarrow>
                      let answer_description = (case pa_local_description peer of Some d \<Rightarrow> d | None \<Rightarrow> answer) in
                      (True, SetRemoteDescription remote_description # Send (AnswerMessage (pa_from_rtc peer answer_description)) #
                         map (\<lambda>candidate. Send (ServerCandidate candidate)) (ng_pending_local_candidates negotiation),
                       \<lparr>ng_offer_seen = True, ng_answer_sent = True, ng_pending_local_candidates = []\<rparr>))"

definition add_remote_ice_candidate ::
  "'d peer_answers \<Rightarrow> ice_candidate \<Rightarrow> negotiation_state \<Rightarrow> bool \<times> 'd signaling_effect list" where
  "add_remote_ice_candidate peer candidate negotiation =
     (if \<not> ng_offer_seen negotiation then (False, reject_signaling (lit ''ICE candidates are not accepted before an offer''))
      else case candidate_validate candidate of
        Inl message \<Rightarrow> (False, reject_signaling message)
      | Inr _ \<Rightarrow>
          (case pa_add_candidate peer candidate of
             Some error \<Rightarrow> (False, AddIceCandidate candidate #
               reject_signaling (lit ''failed to add the remote ICE candidate: '' @ error))
           | None \<Rightarrow> (True, [AddIceCandidate candidate])))"

text \<open>The callback of the peer connection that has found a way to reach itself.\<close>

definition on_ice_candidate :: "ice_candidate \<Rightarrow> negotiation_state \<Rightarrow> 'd signaling_effect list \<times> negotiation_state" where
  "on_ice_candidate candidate negotiation =
     (if ng_answer_sent negotiation then ([Send (ServerCandidate candidate)], negotiation)
      else ([], negotiation\<lparr>ng_pending_local_candidates := ng_pending_local_candidates negotiation @ [candidate]\<rparr>))"

definition handler_rejected :: signaling_loop_exit where
  "handler_rejected = Fatal (lit ''signaling message handler rejected the session'')"

definition handle_signaling_message ::
  "'j json_api \<Rightarrow> 'd peer_answers \<Rightarrow> rstring \<Rightarrow> negotiation_state \<Rightarrow>
   signaling_loop_exit option \<times> 'd signaling_effect list \<times> negotiation_state" where
  "handle_signaling_message js peer message_text negotiation =
     (case decode_client_signal_message js message_text of
        Inl message \<Rightarrow> (Some handler_rejected, reject_signaling message, negotiation)
      | Inr (OfferMessage description) \<Rightarrow>
          let (accepted, effects, negotiation) = accept_webrtc_offer peer description negotiation in
          (if accepted then None else Some handler_rejected, effects, negotiation)
      | Inr (CandidateMessage candidate) \<Rightarrow>
          let (accepted, effects) = add_remote_ice_candidate peer candidate negotiation in
          (if accepted then None else Some handler_rejected, effects, negotiation)
      | Inr Bye \<Rightarrow> (Some (Fatal (lit ''client requested signaling shutdown'')), [], negotiation))"

text \<open>
  A session is what the socket and the peer connection bring. A close frame comes with its code and
  reason; an error of the socket with its text. Once the loop has ended its writer is stopped, and
  what a callback still sends is lost.
\<close>

datatype 'd signaling_event =
    TextFrame rstring "'d peer_answers"
  | BinaryFrame
  | PingPong
  | CloseFrame "(u16 \<times> rstring) option"
  | SocketError rstring
  | LocalCandidate ice_candidate

record signaling_session =
  sgn_negotiation :: negotiation_state
  sgn_exit :: "signaling_loop_exit option"

definition signaling_session_new :: signaling_session where
  "signaling_session_new =
     \<lparr>sgn_negotiation = \<lparr>ng_offer_seen = False, ng_answer_sent = False, ng_pending_local_candidates = []\<rparr>, sgn_exit = None\<rparr>"

definition signaling_close_detail :: "(u16 \<times> rstring) option \<Rightarrow> rstring" where
  "signaling_close_detail frame =
     (case frame of
        Some (code, reason) \<Rightarrow> lit ''client closed signaling websocket with code='' @ show_n code @ lit '' reason='' @ reason
      | None \<Rightarrow> lit ''client closed signaling websocket without details'')"

fun signaling_live :: "'j json_api \<Rightarrow> 'd signaling_event \<Rightarrow> negotiation_state \<Rightarrow>
    signaling_loop_exit option \<times> 'd signaling_effect list \<times> negotiation_state" where
  "signaling_live js (TextFrame message_text peer) negotiation = handle_signaling_message js peer message_text negotiation"
| "signaling_live js BinaryFrame negotiation =
     (Some (Fatal (lit ''client sent an unexpected binary websocket frame on /ws'')),
      [Send (SignalError (lit ''binary websocket messages are not accepted on /ws''))], negotiation)"
| "signaling_live js PingPong negotiation = (None, [], negotiation)"
| "signaling_live js (CloseFrame frame) negotiation = (Some (SocketClosed (signaling_close_detail frame)), [], negotiation)"
| "signaling_live js (SocketError error) negotiation =
     (Some (SocketClosed (lit ''signaling websocket read error: '' @ error)), [], negotiation)"
| "signaling_live js (LocalCandidate candidate) negotiation =
     (let (effects, negotiation) = on_ice_candidate candidate negotiation in (None, effects, negotiation))"

definition signaling_step :: "'j json_api \<Rightarrow> 'd signaling_event \<Rightarrow> signaling_session \<Rightarrow> 'd signaling_effect list \<times> signaling_session" where
  "signaling_step js event session =
     (if sgn_exit session \<noteq> None then ([], session)
      else let (exit, effects, negotiation) = signaling_live js event (sgn_negotiation session) in
        (effects, \<lparr>sgn_negotiation = negotiation, sgn_exit = exit\<rparr>))"

section \<open>What a session sends\<close>

fun is_signal :: "'d signaling_effect \<Rightarrow> bool" where
  "is_signal (Send (SignalError _)) = False"
| "is_signal (Send _) = True"
| "is_signal _ = False"

fun is_answer :: "'d signaling_effect \<Rightarrow> bool" where
  "is_answer (Send (AnswerMessage _)) = True"
| "is_answer _ = False"

fun is_remote_description :: "'d signaling_effect \<Rightarrow> bool" where
  "is_remote_description (SetRemoteDescription _) = True"
| "is_remote_description _ = False"

fun is_remote_candidate :: "'d signaling_effect \<Rightarrow> bool" where
  "is_remote_candidate (AddIceCandidate _) = True"
| "is_remote_candidate _ = False"

fun local_candidates :: "'d signaling_event list \<Rightarrow> ice_candidate list" where
  "local_candidates [] = []"
| "local_candidates (LocalCandidate candidate # events) = candidate # local_candidates events"
| "local_candidates (_ # events) = local_candidates events"

lemma local_candidates_append [simp]: "local_candidates (xs @ ys) = local_candidates xs @ local_candidates ys"
  by (induction xs rule: local_candidates.induct) simp_all

definition effects_of :: "('o \<times> 'd signaling_effect list) list \<Rightarrow> 'd signaling_effect list" where
  "effects_of history_log = concat (map snd history_log)"

lemma effects_of_simps [simp]: "effects_of [] = []" "effects_of (history_log @ [(event, es)]) = effects_of history_log @ es"
  by (simp_all add: effects_of_def)

text \<open>An answer followed by candidates found here, in the order in which they were found.\<close>

definition answers_with :: "'d signaling_effect list \<Rightarrow> ice_candidate list \<Rightarrow> bool" where
  "answers_with es candidates \<longleftrightarrow>
     (\<exists>answer. filter is_signal es = Send (AnswerMessage answer) # map (\<lambda>c. Send (ServerCandidate c)) candidates)"

definition remote_only_after_answer :: "'d signaling_effect list \<Rightarrow> bool" where
  "remote_only_after_answer es \<longleftrightarrow> filter is_remote_candidate (takeWhile (\<lambda>e. \<not> is_answer e) es) = []"

lemma remote_append:
  "remote_only_after_answer (es @ fs) \<longleftrightarrow> remote_only_after_answer es \<and> (list_ex is_answer es \<or> remote_only_after_answer fs)"
  by (induction es) (auto simp: remote_only_after_answer_def)

definition session_live :: "'d signaling_event list \<Rightarrow> 'd signaling_effect list \<Rightarrow> negotiation_state \<Rightarrow> bool" where
  "session_live events es n \<longleftrightarrow>
     (if ng_offer_seen n then ng_answer_sent n \<and> ng_pending_local_candidates n = [] \<and> answers_with es (local_candidates events) \<and>
        length (filter is_remote_description es) = 1 \<and> list_ex is_answer es
      else \<not> ng_answer_sent n \<and> ng_pending_local_candidates n = local_candidates events \<and> filter is_signal es = [] \<and>
        filter is_remote_description es = [])"

definition session_sound :: "'d signaling_event list \<Rightarrow> 'd signaling_effect list \<Rightarrow> bool" where
  "session_sound events es \<longleftrightarrow>
     (filter is_signal es = [] \<or> (\<exists>candidates. prefix candidates (local_candidates events) \<and> answers_with es candidates)) \<and>
     length (filter is_remote_description es) \<le> 1 \<and> remote_only_after_answer es"

lemma session_live_sound: "session_live events es n \<Longrightarrow> remote_only_after_answer es \<Longrightarrow> session_sound events es"
  by (auto simp: session_live_def session_sound_def split: if_splits)

lemma filter_reject [simp]: "filter is_signal (reject_signaling message) = []" "filter is_remote_description (reject_signaling message) = []"
  "remote_only_after_answer (reject_signaling message)" "remote_only_after_answer (SetRemoteDescription d # reject_signaling message)"
  by (simp_all add: reject_signaling_def remote_only_after_answer_def)

lemma signals_of_candidates [simp]:
  "filter is_signal (map (\<lambda>c. Send (ServerCandidate c)) cs) = map (\<lambda>c. Send (ServerCandidate c)) cs"
  "filter is_remote_description (map (\<lambda>c. Send (ServerCandidate c)) cs) = []"
  by (induction cs) simp_all

text \<open>One step of a live session.\<close>

definition step_sound :: "'d signaling_event list \<Rightarrow> 'd signaling_effect list \<Rightarrow> 'd signaling_event \<Rightarrow>
    signaling_loop_exit option \<times> 'd signaling_effect list \<times> negotiation_state \<Rightarrow> bool" where
  "step_sound events es event result = (case result of (exit, fs, n) \<Rightarrow>
     session_sound (events @ [event]) (es @ fs) \<and> (exit = None \<longrightarrow> session_live (events @ [event]) (es @ fs) n))"

lemma offer_sound:
  assumes "session_live events es n" "remote_only_after_answer es" "accept_webrtc_offer peer description n = (good, fs, n')"
    "local_candidates [event] = []"
  shows "step_sound events es event (if good then None else Some handler_rejected, fs, n')"
proof -
  note same = assms(4)
  show ?thesis
  proof (cases good)
    case True
    then obtain d answer where "\<not> ng_offer_seen n" "fs = SetRemoteDescription d # Send (AnswerMessage answer) #
        map (\<lambda>candidate. Send (ServerCandidate candidate)) (ng_pending_local_candidates n)"
      "n' = \<lparr>ng_offer_seen = True, ng_answer_sent = True, ng_pending_local_candidates = []\<rparr>"
      using assms(3) by (auto simp: accept_webrtc_offer_def Let_def split: if_splits sum.splits option.splits)
    then have "session_live (events @ [event]) (es @ fs) n'" "remote_only_after_answer (es @ fs)"
      using assms(1,2) by (auto simp: session_live_def answers_with_def same remote_append)
        (simp_all add: remote_only_after_answer_def)
    then show ?thesis using True by (simp add: step_sound_def session_live_sound)
  next
    case False
    then have fs: "filter is_signal fs = []" "ng_offer_seen n \<longrightarrow> filter is_remote_description fs = []"
      "length (filter is_remote_description fs) \<le> 1" "remote_only_after_answer fs"
      using assms(3) by (auto simp: accept_webrtc_offer_def Let_def split: if_splits sum.splits option.splits)
    have "session_sound (events @ [event]) (es @ fs)"
      using assms(1,2) fs by (auto simp: session_live_def session_sound_def answers_with_def same remote_append split: if_splits)
    then show ?thesis using False by (simp add: step_sound_def)
  qed
qed

lemma candidate_sound:
  assumes "session_live events es n" "remote_only_after_answer es" "add_remote_ice_candidate peer candidate n = (good, fs)"
    "local_candidates [event] = []"
  shows "step_sound events es event (if good then None else Some handler_rejected, fs, n)"
proof -
  note same = assms(4)
  have fs: "filter is_signal fs = []" "filter is_remote_description fs = []" "\<not> ng_offer_seen n \<longrightarrow> remote_only_after_answer fs \<and> \<not> good"
    using assms(3) by (auto simp: add_remote_ice_candidate_def split: if_splits sum.splits option.splits)
  then have "session_live (events @ [event]) (es @ fs) n" "remote_only_after_answer (es @ fs)"
    using assms(1,2) by (auto simp: session_live_def answers_with_def same remote_append split: if_splits)
  then show ?thesis by (simp add: step_sound_def session_live_sound)
qed

lemma quiet_sound:
  assumes "session_live events es n" "remote_only_after_answer es" "filter is_signal fs = []" "filter is_remote_description fs = []"
    "remote_only_after_answer fs" "local_candidates [event] = []"
  shows "step_sound events es event (exit, fs, n)"
proof -
  note same = assms(6)
  have "session_live (events @ [event]) (es @ fs) n" "remote_only_after_answer (es @ fs)"
    using assms by (auto simp: session_live_def answers_with_def same remote_append split: if_splits)
  then show ?thesis by (simp add: step_sound_def session_live_sound)
qed

lemma message_sound:
  assumes "session_live events es n" "remote_only_after_answer es" "local_candidates [event] = []"
  shows "step_sound events es event (handle_signaling_message js peer content n)"
proof (cases "decode_client_signal_message js content")
  case (Inl message)
  then show ?thesis using quiet_sound [OF assms(1,2) _ _ _ assms(3)] by (simp add: handle_signaling_message_def)
next
  case (Inr message)
  then show ?thesis
    using offer_sound [OF assms(1,2) _ assms(3)] candidate_sound [OF assms(1,2) _ assms(3)] quiet_sound [OF assms(1,2) _ _ _ assms(3)]
    by (cases message) (auto simp: handle_signaling_message_def remote_only_after_answer_def split: prod.split)
qed

lemma live_sound:
  fixes event :: "'d signaling_event"
  assumes "session_live events es n" "remote_only_after_answer es"
  shows "step_sound events es event (signaling_live js event n)"
proof (cases event)
  case (LocalCandidate candidate)
  obtain fs :: "'d signaling_effect list" and n' where run: "on_ice_candidate candidate n = (fs, n')" by fastforce
  have "session_live (events @ [event]) (es @ fs) n'" "remote_only_after_answer (es @ fs)"
    using assms run by (auto simp: session_live_def answers_with_def LocalCandidate on_ice_candidate_def remote_append split: if_splits)
      (simp_all add: remote_only_after_answer_def)
  then show ?thesis by (simp add: LocalCandidate run step_sound_def session_live_sound)
next
  case (TextFrame content peer)
  then show ?thesis using message_sound [OF assms, of event] by simp
qed (auto intro!: quiet_sound [OF assms] simp: remote_only_after_answer_def)

definition signaling_related :: "('d signaling_event \<times> 'd signaling_effect list) list \<Rightarrow> signaling_session \<Rightarrow> bool" where
  "signaling_related history_log session \<longleftrightarrow> session_sound (map fst history_log) (effects_of history_log) \<and>
     (sgn_exit session = None \<longrightarrow> session_live (map fst history_log) (effects_of history_log) (sgn_negotiation session))"

lemma prefix_more: "session_sound events es \<Longrightarrow> session_sound (events @ [event]) es"
  by (auto simp: session_sound_def intro: prefix_prefix)

lemma signaling_step_related:
  assumes "signaling_related past session" "signaling_step js event session = (fs, session')"
  shows "signaling_related (past @ [(event, fs)]) session'"
proof -
  have past: "session_sound (map fst past) (effects_of past)"
    "sgn_exit session = None \<Longrightarrow> session_live (map fst past) (effects_of past) (sgn_negotiation session)"
    using assms(1) by (auto simp: signaling_related_def)
  show ?thesis
  proof (cases "sgn_exit session")
    case None
    have "step_sound (map fst past) (effects_of past) event (signaling_live js event (sgn_negotiation session))"
      by (rule live_sound) (use past None in \<open>auto simp: session_sound_def\<close>)
    then show ?thesis using assms(2) None by (auto simp: signaling_step_def signaling_related_def step_sound_def split: prod.splits)
  next
    case (Some exit)
    then show ?thesis using assms(2) past(1) by (auto simp: signaling_step_def signaling_related_def intro: prefix_more)
  qed
qed

interpretation signaling: history "signaling_step js" signaling_related for js
  by unfold_locales (rule signaling_step_related)

text \<open>C10: the order of signaling. Whatever arrives on the socket and from the peer connection, a session takes at most one
  remote description, hands on a remote candidate only after it has sent its answer, and sends nothing (errors apart) but
  that answer followed by the local candidates in the order they were found; while it is open, by all of them.\<close>

theorem signaling_in_order:
  assumes "run (signaling_step js) events signaling_session_new = (outcomes, session)"
  shows "length (filter is_remote_description (concat outcomes)) \<le> 1 \<and> remote_only_after_answer (concat outcomes) \<and>
    (filter is_signal (concat outcomes) = [] \<or>
      (\<exists>candidates. prefix candidates (local_candidates events) \<and> answers_with (concat outcomes) candidates)) \<and>
    (sgn_exit session = None \<longrightarrow>
      (if ng_answer_sent (sgn_negotiation session) then answers_with (concat outcomes) (local_candidates events)
       else filter is_signal (concat outcomes) = [] \<and>
         ng_pending_local_candidates (sgn_negotiation session) = local_candidates events))"
proof -
  have new: "signaling_related [] signaling_session_new"
    by (simp add: signaling_related_def session_sound_def session_live_def signaling_session_new_def remote_only_after_answer_def)
  have len: "length outcomes = length events" by (rule run_length [OF assms])
  have "signaling_related (zip events outcomes) session" using signaling.run_history(1) [OF assms new] by simp
  then show ?thesis
    using len by (auto simp: signaling_related_def effects_of_def session_sound_def session_live_def split: if_splits)
qed

text \<open>A session with one candidate before the answer and one after it.\<close>

definition sample_json :: "client_signal_message json_api" where
  "sample_json = \<lparr>js_from_str = \<lambda>content. Inr (OfferMessage \<lparr>ssd_type = lit ''offer'', ssd_sdp = content\<rparr>),
     js_as_object = \<lambda>v. Some [(lit ''type'', v)], js_as_str = \<lambda>_. Some (lit ''session_description''), js_from_value = Inr\<rparr>"

definition sample_peer :: "rstring peer_answers" where
  "sample_peer = \<lparr>pa_offer = Inr, pa_answer = Inr, pa_set_remote = \<lambda>_. None, pa_create_answer = Inr (lit ''v''),
     pa_set_local = \<lambda>_. None, pa_local_description = None,
     pa_from_rtc = \<lambda>d. \<lparr>ssd_type = lit ''answer'', ssd_sdp = d\<rparr>, pa_add_candidate = \<lambda>_. None\<rparr>"

definition sample_candidate :: "rchar \<Rightarrow> ice_candidate" where
  "sample_candidate c = \<lparr>sic_candidate = [c], sic_sdp_mid = None, sic_sdp_mline_index = Some 0\<rparr>"

lemma sample_offer: "decode_client_signal_message sample_json (lit ''v'') =
    Inr (OfferMessage \<lparr>ssd_type = lit ''offer'', ssd_sdp = lit ''v''\<rparr>)"
  and sample_description: "to_rtc_description sample_peer \<lparr>ssd_type = lit ''offer'', ssd_sdp = lit ''v''\<rparr> = Inr (lit ''v'')"
  by (simp_all add: decode_client_signal_message_def sample_json_def validate_client_signal_json_shape_def
      description_validate_as_offer_def description_validate_def to_rtc_description_def sample_peer_def lit_def
      trim_def is_whitespace_def str_len_def utf8_encode_def utf8_char_def MAX_SIGNAL_MESSAGE_BYTES_def MAX_SIGNAL_SDP_BYTES_def)

theorem signaling_in_order_witness:
  "\<exists>outcomes session. run (signaling_step sample_json)
       [LocalCandidate (sample_candidate 97), TextFrame (lit ''v'') sample_peer, LocalCandidate (sample_candidate 98)]
       signaling_session_new = (outcomes, session) \<and>
     ng_answer_sent (sgn_negotiation session) \<and> sgn_exit session = None \<and>
     answers_with (concat outcomes) [sample_candidate 97, sample_candidate 98]"
proof -
  let ?events = "[LocalCandidate (sample_candidate 97), TextFrame (lit ''v'') sample_peer, LocalCandidate (sample_candidate 98)]"
  obtain outcomes session where r: "run (signaling_step sample_json) ?events signaling_session_new = (outcomes, session)"
    by fastforce
  have n: "pa_set_remote sample_peer d = None" "pa_create_answer sample_peer = Inr (lit ''v'')" "pa_set_local sample_peer d = None" for d
    by (simp_all add: sample_peer_def)
  have "ng_answer_sent (sgn_negotiation session)" "sgn_exit session = None"
    using r by (auto simp: run_Cons_eq signaling_step_def signaling_session_new_def on_ice_candidate_def
        handle_signaling_message_def sample_offer accept_webrtc_offer_def sample_description n Let_def)
  with r signaling_in_order [OF r] show ?thesis by auto
qed

section \<open>Validation\<close>

text \<open>What passes each data channel.\<close>

lemma webrtc_channel_exact:
  "validate_webrtc_packet_channel packet channel = Inr () \<longleftrightarrow>
     (\<exists>header payload. header_decode packet = Inr (header, payload) \<and> hd_channel_id header = channel \<and>
        (channel = ControlChannel \<and> hd_packet_kind header = ControlCommand \<or>
         channel = InputChannel \<and> hd_packet_kind header = InputFrame))"
  by (cases "header_decode packet"; cases channel) (auto simp: validate_webrtc_packet_channel_def split: if_splits)

lemma accepted_signal_bounded:
  assumes "decode_client_signal_message js content = Inr message"
  shows "str_len content \<le> MAX_SIGNAL_MESSAGE_BYTES \<and>
    (case message of
       OfferMessage d \<Rightarrow> trim (ssd_type d) = lit ''offer'' \<and> ssd_sdp d \<noteq> [] \<and> str_len (ssd_sdp d) \<le> MAX_SIGNAL_SDP_BYTES
     | CandidateMessage c \<Rightarrow> trim (sic_candidate c) \<noteq> [] \<and> str_len (sic_candidate c) \<le> MAX_SIGNAL_CANDIDATE_BYTES \<and>
         (\<forall>mid. sic_sdp_mid c = Some mid \<longrightarrow> str_len mid \<le> MAX_SIGNAL_MID_BYTES)
     | Bye \<Rightarrow> True)"
proof -
  have v: "str_len content \<le> MAX_SIGNAL_MESSAGE_BYTES" "client_message_validate message = Inr ()"
    using assms by (auto simp: decode_client_signal_message_def and_then_eq_Inr split: if_splits)
  then show ?thesis
    by (cases message) (auto simp: description_validate_as_offer_def description_validate_def candidate_validate_def Let_def
        and_then_eq_Inr split: if_splits option.splits)
qed

text \<open>Relays are only ever announced with credentials made for the connection.\<close>

lemma relay_has_credentials:
  assumes "ice_servers_for_connection crypto cid now c = Inr servers" "wrc_turn_urls c \<noteq> []"
  obtains secret username credential where "wrc_turn_shared_secret c = Some secret"
    "generate_turn_credentials crypto secret cid now (wrc_turn_ttl c) = Inr (username, credential)"
    "last servers = \<lparr>isc_urls = wrc_turn_urls c, isc_username = username, isc_credential = credential\<rparr>"
  using assms by (auto simp: ice_servers_for_connection_def turn_server_def Let_def and_then_eq_Inr split: option.splits)

end
