(* ===== verification/Session_Binding.thy ===== *)
theory Session_Binding
  imports App_Ingress Signaling
begin

text \<open>
  From transports to the application (\<open>game_api/src/realtime.rs\<close>, \<open>realtime/sessions.rs\<close>,
  \<open>realtime/server.rs\<close>, \<open>realtime/signaling\<close>): what a session does with the messages of its channels,
  the events it puts into the ingress channel of the server, and the loop that takes them out and
  runs the application. Sockets, tasks and locks are left out: a handler runs to its end, and what
  the ingress loop acknowledges to a connecting session is an argument of its step. Diagnostics and
  counters have no effect here.
\<close>

section \<open>Outgoing packets\<close>

datatype client_outbound = WebSocketOutbound | WebRtcOutbound

datatype client_sink = SocketSink | ControlSink | SnapshotSink

definition send_packet :: "client_outbound \<Rightarrow> u8 list \<Rightarrow> (client_sink \<times> u8 list) list" where
  "send_packet outbound packet =
     (case outbound of
        WebSocketOutbound \<Rightarrow> [(SocketSink, packet)]
      | WebRtcOutbound \<Rightarrow>
          (case header_decode packet of
             Inr (header, _) \<Rightarrow>
               (case hd_channel_id header of
                  ControlChannel \<Rightarrow> [(ControlSink, packet)]
                | SnapshotChannel \<Rightarrow> [(SnapshotSink, packet)]
                | InputChannel \<Rightarrow> [])
           | Inl _ \<Rightarrow> []))"

definition outbound_send_error :: "client_outbound \<Rightarrow> rstring \<Rightarrow> (client_sink \<times> u8 list) list" where
  "outbound_send_error outbound message =
     (case event_encode_packet (ErrorEvent message) 0 0 of Inr packet \<Rightarrow> send_packet outbound packet | Inl _ \<Rightarrow> [])"

section \<open>The ingress loop\<close>

datatype ingress_event =
    ConnectIngress connection_id client_outbound "u8 list"
  | PacketIngress connection_id "u8 list"
  | DisconnectIngress connection_id

text \<open>The application with its transport; \<open>rt_delivered\<close> is what the clients have been given.\<close>

record 'w runtime_state =
  rt_app :: "'w server_app"
  rt_outgoing :: "(connection_id, client_outbound) btree_map"
  rt_delivered :: "(connection_id \<times> client_sink \<times> u8 list) list"

definition register_client :: "connection_id \<Rightarrow> client_outbound \<Rightarrow> 'w runtime_state \<Rightarrow> (rstring + unit) \<times> 'w runtime_state" where
  "register_client cid outbound rt =
     (if bt_contains (rt_outgoing rt) cid then (Inl (lit ''connection is already registered''), rt)
      else (Inr (), rt\<lparr>rt_outgoing := bt_insert cid outbound (rt_outgoing rt)\<rparr>))"

definition unregister_client :: "connection_id \<Rightarrow> 'w runtime_state \<Rightarrow> 'w runtime_state" where
  "unregister_client cid rt = rt\<lparr>rt_outgoing := bt_remove cid (rt_outgoing rt)\<rparr>"

definition deliver :: "(connection_id, client_outbound) btree_map \<Rightarrow> connection_id \<times> u8 list \<Rightarrow> (connection_id \<times> client_sink \<times> u8 list) list" where
  "deliver outgoing = (\<lambda>(cid, packet).
     case bt_get outgoing cid of Some outbound \<Rightarrow> map (Pair cid) (send_packet outbound packet) | None \<Rightarrow> [])"

text \<open>A call of the application whose packets go out through the transport.\<close>

definition through_transport ::
  "('w server_app \<Rightarrow> 'w server_app option) \<Rightarrow> 'w runtime_state \<Rightarrow> 'w runtime_state option" where
  "through_transport call rt =
     map_option (\<lambda>app. rt\<lparr>rt_app := app\<lparr>sa_sent := []\<rparr>,
         rt_delivered := rt_delivered rt @ concat (map (deliver (rt_outgoing rt)) (sa_sent app))\<rparr>)
       (call ((rt_app rt)\<lparr>sa_sent := []\<rparr>))"

definition enqueue_and_pump :: "'w app_env \<Rightarrow> connection_id \<Rightarrow> u8 list \<Rightarrow> 'w runtime_state \<Rightarrow> 'w runtime_state option" where
  "enqueue_and_pump env cid packet = through_transport (pump_transport env [(cid, packet)])"

definition runtime_disconnect :: "'w app_env \<Rightarrow> connection_id \<Rightarrow> 'w runtime_state \<Rightarrow> 'w runtime_state option" where
  "runtime_disconnect env cid = through_transport (\<lambda>app. map_option snd (disconnect_connection env cid app))"

definition runtime_advance :: "'w app_env \<Rightarrow> u16 \<Rightarrow> 'w runtime_state \<Rightarrow> 'w runtime_state option" where
  "runtime_advance env delta_ms = through_transport (advance_millis env delta_ms)"

text \<open>The acknowledgement of a connect; the other events have none.\<close>

definition ingress_step ::
  "'w app_env \<Rightarrow> ingress_event \<Rightarrow> 'w runtime_state \<Rightarrow> ((rstring + player_id) option \<times> 'w runtime_state) option" where
  "ingress_step env event rt =
     (case event of
        ConnectIngress cid outbound packet \<Rightarrow>
          (case register_client cid outbound rt of
             (Inl message, rt) \<Rightarrow> Some (Some (Inl message),
               rt\<lparr>rt_delivered := rt_delivered rt @ map (Pair cid) (outbound_send_error outbound message)\<rparr>)
           | (Inr _, rt) \<Rightarrow>
               map_option (\<lambda>rt.
                 case player_id_for_connection (rt_app rt) cid of
                   Some player_id \<Rightarrow> (Some (Inr player_id), rt)
                 | None \<Rightarrow> (Some (Inl (lit ''server did not bind the connection after connect'')), unregister_client cid rt))
               (enqueue_and_pump env cid packet rt))
      | PacketIngress cid packet \<Rightarrow> map_option (Pair None) (enqueue_and_pump env cid packet rt)
      | DisconnectIngress cid \<Rightarrow> map_option (\<lambda>rt. (None, unregister_client cid rt)) (runtime_disconnect env cid rt))"

section \<open>A session\<close>

record binding_state =
  bs_guard :: network_session_guard
  bs_bound_player :: "player_id option"
  bs_disconnected :: bool

definition binding_state_default :: binding_state where
  "binding_state_default = \<lparr>bs_guard = guard_new, bs_bound_player = None, bs_disconnected = False\<rparr>"

datatype session_effect =
    Ingress ingress_event
  | ErrorToClient rstring
  | CloseConnection

text \<open>
  What the server does with an event put into its channel: it takes it (a connect is acknowledged,
  or its acknowledgement is lost), or the channel is closed.
\<close>

datatype server_reply = Acknowledged "rstring + player_id" | NoAcknowledgement | ServerGone

definition rejection_text :: "packet_error fault \<Rightarrow> rstring" where
  "rejection_text f = (case f of Err error \<Rightarrow> packet_error_text error | Panic \<Rightarrow> [])"

definition bind_initial_player ::
  "connection_id \<Rightarrow> client_outbound \<Rightarrow> u8 list \<Rightarrow> server_reply \<Rightarrow> binding_state \<Rightarrow> bool \<times> session_effect list \<times> binding_state" where
  "bind_initial_player cid outbound packet reply binding =
     (case reply of
        ServerGone \<Rightarrow> (False, [ErrorToClient (lit ''server is shutting down'')], binding)
      | Acknowledged (Inr player_id) \<Rightarrow> (True, [Ingress (ConnectIngress cid outbound packet)],
          binding\<lparr>bs_guard := mark_bound (bs_guard binding), bs_bound_player := Some player_id\<rparr>)
      | Acknowledged (Inl message) \<Rightarrow> (False, [Ingress (ConnectIngress cid outbound packet), ErrorToClient message], binding)
      | NoAcknowledgement \<Rightarrow> (False, [Ingress (ConnectIngress cid outbound packet),
          ErrorToClient (lit ''server did not accept the connect request'')], binding))"

definition forward_bound_packet :: "connection_id \<Rightarrow> u8 list \<Rightarrow> server_reply \<Rightarrow> bool \<times> session_effect list" where
  "forward_bound_packet cid packet reply =
     (if reply = ServerGone then (False, []) else (True, [Ingress (PacketIngress cid packet)]))"

definition handle_binary_message ::
  "connection_id \<Rightarrow> client_outbound \<Rightarrow> u8 list \<Rightarrow> server_reply \<Rightarrow> binding_state \<Rightarrow> bool \<times> session_effect list \<times> binding_state" where
  "handle_binary_message cid outbound packet reply binding =
     (case accept_packet (bs_guard binding) packet of
        Inl error \<Rightarrow> (False, [ErrorToClient (rejection_text error)], binding)
      | Inr _ \<Rightarrow>
          if bs_bound_player binding = None then bind_initial_player cid outbound packet reply binding
          else
            let (keep_open, effects) = forward_bound_packet cid packet reply in (keep_open, effects, binding))"

definition disconnect_bound_session :: "connection_id \<Rightarrow> binding_state \<Rightarrow> session_effect list \<times> binding_state" where
  "disconnect_bound_session cid binding =
     (if bs_disconnected binding then ([], binding)
      else
        let binding = binding\<lparr>bs_disconnected := True\<rparr> in
        (case bs_bound_player binding of None \<Rightarrow> [] | Some _ \<Rightarrow> [Ingress (DisconnectIngress cid)], binding))"

text \<open>
  What reaches a WebRTC session: messages of its three data channels, changes of the peer
  connection, and the end of its signaling.
\<close>

datatype peer_state = PeerFailed | PeerDisconnected | PeerClosed | PeerOther

datatype session_message =
    ChannelText
  | ChannelBinary channel_id "u8 list" server_reply
  | SnapshotChannelMessage
  | PeerStateChange peer_state
  | SignalingExit signaling_loop_exit

definition reject_peer_session :: "rstring \<Rightarrow> session_effect list" where
  "reject_peer_session message = [ErrorToClient message, CloseConnection]"

definition handle_webrtc_binary_message ::
  "connection_id \<Rightarrow> channel_id \<Rightarrow> u8 list \<Rightarrow> server_reply \<Rightarrow> binding_state \<Rightarrow> bool \<times> session_effect list \<times> binding_state" where
  "handle_webrtc_binary_message cid expected_channel packet reply binding =
     (case validate_webrtc_packet_channel packet expected_channel of
        Inl message \<Rightarrow> (False, reject_peer_session message, binding)
      | Inr _ \<Rightarrow>
          let (keep_open, effects, binding) = handle_binary_message cid WebRtcOutbound packet reply binding in
          (keep_open, effects @ (if keep_open then [] else [CloseConnection]), binding))"

definition then_disconnect :: "connection_id \<Rightarrow> session_effect list \<Rightarrow> binding_state \<Rightarrow> session_effect list \<times> binding_state" where
  "then_disconnect cid effects binding =
     (let (more, binding) = disconnect_bound_session cid binding in (effects @ more, binding))"

definition session_step :: "connection_id \<Rightarrow> session_message \<Rightarrow> binding_state \<Rightarrow> session_effect list \<times> binding_state" where
  "session_step cid message binding =
     (case message of
        ChannelText \<Rightarrow> then_disconnect cid (reject_peer_session (lit ''text data-channel messages are not accepted'')) binding
      | ChannelBinary expected_channel packet reply \<Rightarrow>
          let (keep_open, effects, binding) = handle_webrtc_binary_message cid expected_channel packet reply binding in
          if keep_open then (effects, binding) else then_disconnect cid effects binding
      | SnapshotChannelMessage \<Rightarrow>
          (reject_peer_session (lit ''clients must not send packets on the snapshot data channel''), binding)
      | PeerStateChange state \<Rightarrow>
          let effects = (if state = PeerFailed then reject_peer_session (lit ''the WebRTC transport failed'') else []) in
          if state \<in> {PeerDisconnected, PeerFailed, PeerClosed} then then_disconnect cid effects binding else (effects, binding)
      | SignalingExit exit \<Rightarrow>
          if should_keep_bound_session_after_signaling_exit exit (bs_bound_player binding) (bs_disconnected binding)
          then ([], binding)
          else let (effects, binding) = disconnect_bound_session cid binding in (effects @ [CloseConnection], binding))"

section \<open>A session of the websocket adapter\<close>

datatype socket_message = SocketBinary "u8 list" server_reply | SocketText | SocketClose "(u16 \<times> rstring) option" | SocketPing
  | SocketReadError rstring

definition websocket_close_detail :: "(u16 \<times> rstring) option \<Rightarrow> rstring" where
  "websocket_close_detail frame =
     (case frame of
        Some (code, reason) \<Rightarrow> lit ''websocket dev close frame code='' @ show_n code @ lit '' reason='' @ reason
      | None \<Rightarrow> lit ''websocket dev close frame without details'')"

text \<open>The loop ends with the reason to close, and with the end of the stream.\<close>

fun run_websocket_dev_loop ::
  "connection_id \<Rightarrow> socket_message list \<Rightarrow> binding_state \<Rightarrow> rstring \<times> session_effect list \<times> binding_state" where
  "run_websocket_dev_loop cid [] binding = (lit ''websocket dev session loop ended'', [], binding)"
| "run_websocket_dev_loop cid (message # messages) binding =
     (case message of
        SocketBinary packet reply \<Rightarrow>
          let (keep_open, effects, binding) = handle_binary_message cid WebSocketOutbound packet reply binding in
          if keep_open then
            let (reason, more, binding) = run_websocket_dev_loop cid messages binding in (reason, effects @ more, binding)
          else (lit ''websocket dev packet handler closed the session'', effects, binding)
      | SocketText \<Rightarrow> (lit ''websocket dev client sent a text frame'',
          [ErrorToClient (lit ''text websocket messages are not accepted'')], binding)
      | SocketClose frame \<Rightarrow> (websocket_close_detail frame, [], binding)
      | SocketPing \<Rightarrow> run_websocket_dev_loop cid messages binding
      | SocketReadError error \<Rightarrow> (lit ''websocket dev read error: '' @ error, [], binding))"

definition handle_websocket_dev_socket :: "connection_id \<Rightarrow> socket_message list \<Rightarrow> session_effect list" where
  "handle_websocket_dev_socket cid messages =
     (let (_, effects, binding) = run_websocket_dev_loop cid messages binding_state_default in
      effects @ (case bs_bound_player binding of Some _ \<Rightarrow> [Ingress (DisconnectIngress cid)] | None \<Rightarrow> []))"

section \<open>What a session puts into the ingress channel\<close>

fun ingress_of :: "session_effect list \<Rightarrow> ingress_event list" where
  "ingress_of [] = []"
| "ingress_of (Ingress event # effects) = event # ingress_of effects"
| "ingress_of (_ # effects) = ingress_of effects"

lemma ingress_of_append [simp]: "ingress_of (es @ fs) = ingress_of es @ ingress_of fs"
  by (induction es rule: ingress_of.induct) simp_all

definition is_connect_packet :: "u8 list \<Rightarrow> bool" where
  "is_connect_packet packet = (case command_decode_packet packet of Inr (_, Connect _) \<Rightarrow> True | _ \<Rightarrow> False)"

text \<open>Connects of the session, its packets and its end.\<close>

fun connects :: "connection_id \<Rightarrow> ingress_event \<Rightarrow> bool" where
  "connects cid (ConnectIngress cid' outbound packet) \<longleftrightarrow> cid' = cid \<and> outbound = WebRtcOutbound \<and> is_connect_packet packet"
| "connects cid _ \<longleftrightarrow> False"

fun follows_connect :: "connection_id \<Rightarrow> ingress_event \<Rightarrow> bool" where
  "follows_connect cid (PacketIngress cid' packet) \<longleftrightarrow> cid' = cid \<and> \<not> is_connect_packet packet \<and> length packet \<le> 1024"
| "follows_connect cid (DisconnectIngress cid') \<longleftrightarrow> cid' = cid"
| "follows_connect cid _ \<longleftrightarrow> False"

fun is_disconnect :: "ingress_event \<Rightarrow> bool" where
  "is_disconnect (DisconnectIngress _) = True"
| "is_disconnect _ = False"

definition in_order :: "connection_id \<Rightarrow> ingress_event list \<Rightarrow> binding_state \<Rightarrow> bool" where
  "in_order cid events binding \<longleftrightarrow> (\<exists>before after. events = before @ after \<and>
     list_all (connects cid) before \<and> list_all (follows_connect cid) after \<and>
     length (filter is_disconnect after) \<le> (if bs_disconnected binding then 1 else 0) \<and>
     (if bs_bound_player binding = None then after = [] else before \<noteq> []))"

definition binding_ok :: "binding_state \<Rightarrow> bool" where
  "binding_ok binding \<longleftrightarrow> (guard_is_bound (bs_guard binding) \<longleftrightarrow> bs_bound_player binding \<noteq> None)"

lemma in_order_guard [simp]:
  "in_order cid events (binding\<lparr>bs_guard := g, bs_bound_player := bound\<rparr>) = in_order cid events (binding\<lparr>bs_bound_player := bound\<rparr>)"
  by (simp add: in_order_def)

lemma ingress_reject [simp]: "ingress_of (reject_peer_session message) = []"
  by (simp add: reject_peer_session_def)

lemma in_order_connect:
  assumes "in_order cid events binding" "bs_bound_player binding = None" "is_connect_packet packet"
  shows "in_order cid (events @ [ConnectIngress cid WebRtcOutbound packet]) (binding\<lparr>bs_bound_player := bound\<rparr>)"
proof -
  have "list_all (connects cid) events" using assms(1,2) by (auto simp: in_order_def)
  then show ?thesis unfolding in_order_def
    by (intro exI [of _ "events @ [ConnectIngress cid WebRtcOutbound packet]"] exI [of _ "[]"]) (simp add: assms(3))
qed

lemma in_order_follow:
  assumes "in_order cid events binding" "bs_bound_player binding \<noteq> None" "follows_connect cid event"
    "is_disconnect event \<Longrightarrow> \<not> bs_disconnected binding"
  shows "in_order cid (events @ [event]) (binding\<lparr>bs_disconnected := bs_disconnected binding \<or> is_disconnect event\<rparr>)"
proof -
  obtain before after where e: "events = before @ after" "list_all (connects cid) before" "list_all (follows_connect cid) after"
    "length (filter is_disconnect after) \<le> (if bs_disconnected binding then 1 else 0)" "before \<noteq> []"
    using assms(1,2) by (auto simp: in_order_def)
  show ?thesis unfolding in_order_def
    by (rule exI [of _ before], rule exI [of _ "after @ [event]"]) (use e assms in \<open>auto split: if_splits\<close>)
qed

lemma disconnect_in_order:
  assumes "in_order cid events binding" "binding_ok binding" "disconnect_bound_session cid binding = (effects, binding')"
  shows "in_order cid (events @ ingress_of effects) binding' \<and> binding_ok binding'"
proof (cases "bs_disconnected binding")
  case True
  then show ?thesis using assms by (auto simp: disconnect_bound_session_def)
next
  case False
  show ?thesis
  proof (cases "bs_bound_player binding")
    case None
    then show ?thesis using assms False by (auto simp: disconnect_bound_session_def in_order_def binding_ok_def)
  next
    case (Some pid)
    have "in_order cid (events @ [DisconnectIngress cid]) (binding\<lparr>bs_disconnected := True\<rparr>)"
      using in_order_follow [OF assms(1), of "DisconnectIngress cid"] False Some by simp
    then show ?thesis using assms(2,3) False Some by (auto simp: disconnect_bound_session_def binding_ok_def)
  qed
qed

lemma then_disconnect_in_order:
  assumes "in_order cid (events @ ingress_of effects) binding" "binding_ok binding" "then_disconnect cid effects binding = (effects', binding')"
  shows "in_order cid (events @ ingress_of effects') binding' \<and> binding_ok binding'"
  using assms disconnect_in_order [OF assms(1,2)] by (auto simp: then_disconnect_def split: prod.splits)

text \<open>What the guard lets through.\<close>

lemma guard_lets_through:
  assumes "accept_packet g packet = Inr ()"
  shows "length packet \<le> 1024 \<and> is_connect_packet packet = (\<not> guard_is_bound g)"
proof (cases "command_decode_packet packet")
  case (Inl e)
  then show ?thesis using assms
    by (cases e) (auto simp: accept_packet_def is_connect_packet_def MAX_INGRESS_PACKET_BYTES_def split: if_splits)
next
  case (Inr hc)
  obtain header command where "hc = (header, command)" by fastforce
  then show ?thesis using assms Inr
    by (cases command) (auto simp: accept_packet_def is_connect_packet_def MAX_INGRESS_PACKET_BYTES_def split: if_splits)
qed

lemma binary_in_order:
  assumes "in_order cid events binding" "binding_ok binding"
    "handle_binary_message cid WebRtcOutbound packet reply binding = (keep_open, effects, binding')"
  shows "in_order cid (events @ ingress_of effects) binding' \<and> binding_ok binding'"
proof (cases "accept_packet (bs_guard binding) packet")
  case (Inl error)
  then show ?thesis using assms by (auto simp: handle_binary_message_def)
next
  case (Inr u)
  then have pass: "length packet \<le> 1024" "is_connect_packet packet = (bs_bound_player binding = None)"
    using guard_lets_through [of "bs_guard binding" packet] assms(2) by (auto simp: binding_ok_def)
  show ?thesis
  proof (cases "bs_bound_player binding")
    case None
    then have "bind_initial_player cid WebRtcOutbound packet reply binding = (keep_open, effects, binding')"
      using assms(3) Inr by (simp add: handle_binary_message_def)
    moreover have c: "in_order cid (events @ [ConnectIngress cid WebRtcOutbound packet]) (binding\<lparr>bs_bound_player := bound\<rparr>)" for bound
      by (rule in_order_connect [OF assms(1) None]) (simp add: pass None)
    moreover have "in_order cid (events @ [ConnectIngress cid WebRtcOutbound packet]) binding"
      using c [of "bs_bound_player binding"] by simp
    ultimately show ?thesis using assms(1,2)
      by (auto simp: bind_initial_player_def binding_ok_def mark_bound_def split: server_reply.splits sum.splits)
  next
    case (Some pid)
    have "in_order cid (events @ [PacketIngress cid packet]) binding"
      using in_order_follow [OF assms(1), of "PacketIngress cid packet"] Some pass by simp
    then show ?thesis using assms Some Inr
      by (auto simp: handle_binary_message_def forward_bound_packet_def split: if_splits)
  qed
qed

lemma session_step_in_order:
  assumes "in_order cid events binding" "binding_ok binding" "session_step cid message binding = (effects, binding')"
  shows "in_order cid (events @ ingress_of effects) binding' \<and> binding_ok binding'"
proof (cases message)
  case ChannelText
  then have "then_disconnect cid (reject_peer_session (lit ''text data-channel messages are not accepted'')) binding = (effects, binding')"
    using assms(3) by (simp add: session_step_def)
  from then_disconnect_in_order [OF _ assms(2) this, of events] assms(1) show ?thesis by simp
next
  case (ChannelBinary channel packet reply)
  obtain keep_open es b where run: "handle_webrtc_binary_message cid channel packet reply binding = (keep_open, es, b)"
    by (metis prod_cases3)
  have ok: "in_order cid (events @ ingress_of es) b" "binding_ok b"
  proof -
    obtain k fs c where bin: "handle_binary_message cid WebRtcOutbound packet reply binding = (k, fs, c)" by (metis prod_cases3)
    from binary_in_order [OF assms(1,2) bin] run bin assms(1,2)
    show "in_order cid (events @ ingress_of es) b" "binding_ok b"
      by (auto simp: handle_webrtc_binary_message_def split: sum.splits if_splits)
  qed
  show ?thesis
  proof (cases keep_open)
    case True
    then show ?thesis using assms(3) run ok by (simp add: session_step_def ChannelBinary)
  next
    case False
    then have "then_disconnect cid es b = (effects, binding')" using assms(3) run by (simp add: session_step_def ChannelBinary)
    from then_disconnect_in_order [OF ok this] show ?thesis .
  qed
next
  case SnapshotChannelMessage
  then show ?thesis using assms by (auto simp: session_step_def reject_peer_session_def)
next
  case (PeerStateChange state)
  define es where "es = (if state = PeerFailed then reject_peer_session (lit ''the WebRTC transport failed'') else [])"
  have es: "ingress_of es = []" by (simp add: es_def)
  show ?thesis
  proof (cases "state \<in> {PeerDisconnected, PeerFailed, PeerClosed}")
    case True
    then have "then_disconnect cid es binding = (effects, binding')"
      using assms(3) by (simp add: session_step_def PeerStateChange es_def Let_def)
    from then_disconnect_in_order [OF _ assms(2) this, of events] assms(1) es show ?thesis by simp
  next
    case False
    then show ?thesis using assms es by (simp add: session_step_def PeerStateChange es_def Let_def)
  qed
next
  case (SignalingExit exit)
  then show ?thesis using assms disconnect_in_order [OF assms(1,2)]
    by (auto simp: session_step_def split: if_splits prod.splits)
qed

text \<open>C7: a session tells the server an orderly story, whatever reaches its channels: first only connects (the refused ones and the
  one that binds it), then only packets that are no connects and fit the limit, and its end at most once, never without a
  player bound to it.\<close>

theorem session_in_order:
  "case run (session_step cid) messages binding_state_default of (outcomes, binding) \<Rightarrow>
     (\<exists>before after. ingress_of (concat outcomes) = before @ after \<and>
        list_all (connects cid) before \<and> list_all (follows_connect cid) after \<and> length (filter is_disconnect after) \<le> 1 \<and>
        (if bs_bound_player binding = None then after = [] else before \<noteq> []))"
proof -
  define related where "related = (\<lambda>(past :: (session_message \<times> session_effect list) list) binding.
      in_order cid (ingress_of (concat (map snd past))) binding \<and> binding_ok binding)"
  have step: "related (past @ [(message, effects)]) binding'"
    if "related past binding" "session_step cid message binding = (effects, binding')" for past binding message effects binding'
  proof -
    have "in_order cid (ingress_of (concat (map snd past))) binding" "binding_ok binding" using that(1) by (simp_all add: related_def)
    from session_step_in_order [OF this that(2)] show ?thesis by (simp add: related_def)
  qed
  have hist: "history (session_step cid) related" by unfold_locales (rule step)
  have new: "related [] binding_state_default"
    by (simp add: related_def in_order_def binding_ok_def binding_state_default_def guard_new_def)
  obtain outcomes binding where run: "run (session_step cid) messages binding_state_default = (outcomes, binding)" by fastforce
  have "related ([] @ zip messages outcomes) binding" by (rule history.run_history(1) [OF hist run new])
  then have "in_order cid (ingress_of (concat outcomes)) binding"
    using run_length [OF run] by (simp add: related_def)
  then obtain first rest where parts: "ingress_of (concat outcomes) = first @ rest" "list_all (connects cid) first"
    "list_all (follows_connect cid) rest" "length (filter is_disconnect rest) \<le> (if bs_disconnected binding then 1 else 0)"
    "if bs_bound_player binding = None then rest = [] else first \<noteq> []"
    unfolding in_order_def by blast
  from parts(4) have "length (filter is_disconnect rest) \<le> 1" by (simp split: if_splits)
  then show ?thesis unfolding run prod.case using parts(1-3,5) by blast
qed

text \<open>
  But its end may be missing: a message that rejects the session before it is bound marks it as
  disconnected, and when the connect of another channel is handled after that, the player bound to
  it is never taken away.
\<close>

lemma late_connect_stays:
  assumes "accept_packet guard_new packet = Inr ()" "validate_webrtc_packet_channel packet ControlChannel = Inr ()"
  shows "case run (session_step cid)
      [ChannelText, ChannelBinary ControlChannel packet (Acknowledged (Inr pid)), PeerStateChange PeerClosed] binding_state_default of
    (outcomes, binding) \<Rightarrow> ingress_of (concat outcomes) = [ConnectIngress cid WebRtcOutbound packet] \<and> bs_bound_player binding = Some pid"
proof -
  let ?marked = "binding_state_default\<lparr>bs_disconnected := True\<rparr>"
  let ?bound = "?marked\<lparr>bs_guard := mark_bound guard_new, bs_bound_player := Some pid\<rparr>"
  define fs1 where "fs1 = reject_peer_session (lit ''text data-channel messages are not accepted'')"
  have d: "disconnect_bound_session cid binding_state_default = ([], ?marked)"
    by (simp add: disconnect_bound_session_def binding_state_default_def)
  have s1: "session_step cid ChannelText binding_state_default = (fs1, ?marked)" "ingress_of fs1 = []"
    unfolding session_step_def then_disconnect_def d fs1_def by simp_all
  have s2: "session_step cid (ChannelBinary ControlChannel packet (Acknowledged (Inr pid))) ?marked =
      ([Ingress (ConnectIngress cid WebRtcOutbound packet)], ?bound)"
    using assms by (simp add: session_step_def handle_webrtc_binary_message_def handle_binary_message_def bind_initial_player_def
        binding_state_default_def)
  have s3: "session_step cid (PeerStateChange PeerClosed) ?bound = ([], ?bound)"
    by (simp add: session_step_def then_disconnect_def disconnect_bound_session_def)
  show ?thesis by (simp add: run.simps(2) s1 s2 s3)
qed

end
