(* ===== verification/Spec2Isabelle.thy ===== *)
theory Spec2Isabelle
  imports Lobby Match_Invariant Client_Command Input_Frame Server_Codec Sim_Safety Game_Content Record_Store Arena_Fog App_Clock Session_Gate Session_Binding
begin

text \<open>
  The Rust server of Rusaren (\<open>src/server/crates\<close>): lobbies, matches, the wire protocol, the combat
  simulation, the authored content and maps, and the application that puts them together.

  PARTS AND INTERACTION. Clients send binary packets. The application (\<open>game_api/src/app.rs\<close>) binds a
  connection to a player and puts it into the central lobby, from which it creates or joins game
  lobbies or a training session. A game lobby assigns teams and counts down when all are ready;
  then the application starts a match with the locked roster. A match alternates skill picks, a
  countdown and combat until it is decided; combat is run by the simulation, one world
  per match. What happens is logged, shown as events and snapshots (each viewer is sent what it
  sees), and counted in the record store. The clock of the application drives countdowns and
  combat frames. Maps and skills come from the content root, maps of matches from the generator.

  THEORIES, from the bottom up.
  \<open>Prelude\<close>: machine words, the two failures of Rust (\<open>Err\<close> and panic), \<open>?\<close> as \<open>and_then\<close>,
  saturating and checked arithmetic, little-endian bytes. \<open>Rust_Text\<close>: \<open>String\<close> as code points,
  UTF-8, trimming, decimal numbers. \<open>Ordered_Map\<close>: \<open>BTreeMap\<close> as a sorted association list behind a
  map locale. \<open>Machine\<close>: a locale for state machines, runs and invariants.
  \<open>Domain\<close> (\<open>game_domain\<close>); \<open>Lobby\<close> (\<open>game_lobby/src/lib.rs\<close>); \<open>Match_Flow\<close>, \<open>Match_Invariant\<close>
  (\<open>game_match\<close>): one definition per method, the invariants, the abstract phase machine of a match.
  \<open>Packet\<close>, \<open>Wire\<close>, \<open>Input_Frame\<close>, \<open>Client_Command\<close>, \<open>Server_Types\<close>, \<open>Control_Codec\<close>,
  \<open>Snapshot_Codec\<close>, \<open>Server_Codec\<close> (\<open>game_net\<close>): packet headers, readers and writers, input frames,
  sequence tracking, the ingress guard, commands, events and snapshots in both directions.
  \<open>Sim_Types\<close>, \<open>Sim_Combat\<close>, \<open>Sim_World\<close>, \<open>Sim_Float\<close>, \<open>Sim_Geometry\<close>, \<open>Sim_Targeting\<close>, \<open>Sim_Actions\<close>,
  \<open>Sim_Tick\<close> (\<open>game_sim\<close>): the data of a world; damage, healing, statuses, dispels; construction and
  inputs; binary32 numbers; movement and lines of sight; target search; casts and their effects;
  the whole tick. \<open>Sim_Invariant\<close>, \<open>Sim_Cascade\<close>, \<open>Sim_Properties\<close>, \<open>Sim_Space\<close>, \<open>Sim_Progress\<close>,
  \<open>Sim_Run\<close>, \<open>Sim_Safety\<close>: its invariant, why payload cascades end, what combat computes, where
  players may stand, that every operation returns, and runs of a world.
  \<open>Content_Types\<close>, \<open>Content_Mechanics\<close>, \<open>Content_Payload\<close>, \<open>Content_Skills\<close>, \<open>Content_Catalog\<close>,
  \<open>Content_Config\<close>, \<open>Content_Maps\<close>, \<open>Map_Text\<close>, \<open>Map_Generation\<close>, \<open>Map_Generation_Facts\<close>, \<open>Game_Content\<close>
  (\<open>game_content\<close>): the validators of mechanics, skills, classes and configuration, ASCII maps and
  their rendering, the map generator with its breadth-first search, loading a content root.
  \<open>Record_Store\<close> (\<open>game_api/src/records.rs\<close>); \<open>Combat_Feedback\<close> (\<open>combat_log.rs\<close>,
  \<open>combat_feedback.rs\<close>); \<open>Sim_View\<close>, \<open>Arena_View\<close>, \<open>App_Snapshots\<close>, \<open>Arena_Fog\<close> (\<open>app/snapshots\<close>): what a
  viewer sees and is sent; \<open>Error_Text\<close>, \<open>Skill_Text\<close>: the texts of errors and skills.
  \<open>App_State\<close> (\<open>app.rs\<close>, \<open>app/support.rs\<close>), \<open>App_Lifecycle\<close> (\<open>app/lifecycle.rs\<close>), \<open>App_Ingress\<close>
  (\<open>app/ingress\<close>, the loops of \<open>app.rs\<close>): the state of the application and all its handlers.
  \<open>App_Registry\<close>, \<open>App_Steps\<close>: an abstract specification of the server, who is connected and where
  everybody is, with its steps and its invariant. \<open>App_Handlers\<close>, \<open>App_Play\<close>, \<open>App_Matches\<close>,
  \<open>App_Server\<close>, \<open>App_Run\<close>: handler by handler, that the application refines it. \<open>App_Clock\<close>: what a
  call of the clock runs.
  \<open>History\<close>: a locale for runs with the log of what was asked and answered. \<open>Session_Gate\<close>
  (\<open>realtime.rs\<close>, \<open>realtime/server.rs\<close>): one-time tokens, the rate limiter, the admin password.
  \<open>Signaling\<close> (\<open>webrtc\<close>, \<open>realtime/signaling\<close>): the negotiation of a WebRTC session. \<open>Session_Binding\<close>
  (\<open>realtime/sessions.rs\<close>, the ingress loop): from the channels of a session to the application.

  CONVENTIONS. A fallible method is a sum: \<open>Inl (Err e)\<close> for an \<open>Err\<close>, \<open>Inl Panic\<close> for a panic where
  the method can panic, \<open>Inr\<close> for success. A method of \<open>&mut self\<close> also returns the new state, on
  errors too. Where code may not return, or panics below an infallible method, the result is an
  option and \<open>None\<close> is the run that does not come back. Integers are words of their width, \<open>usize\<close>
  lengths are \<open>nat\<close>; the \<open>i32\<close> and \<open>i64\<close> arithmetic of geometry and of visibility wraps as in the
  release build, explicitly (\<open>wrap_i32\<close>); \<open>f32\<close> is rounded exactly (\<open>Sim_Float\<close>).

  PARAMETERS. The file system, the operating system's random bytes, the SQLite log store and the
  derived \<open>Debug\<close> texts of the application are the record \<open>app_env\<close> over a world \<open>'w\<close>; \<open>serde_yaml\<close> is a
  function from text to documents; outgoing packets are appended to a list. JSON, HMAC, base64 and the
  peer connection of WebRTC are arguments of the definitions that use them. Nothing is assumed of
  them but where a theorem says so.

  LEMMAS. \<open>rt\<close> collects the round-trip rules of the wire format and \<open>rd_ok\<close> the rules that bound what
  a decoder does. \<open>evolves\<close> in \<open>Sim_Invariant\<close> is the relation all combat operations satisfy: it keeps
  invariant and roster and bounds the payloads waiting in dispellable statuses, the termination
  measure of cascades. \<open>unseen\<close> in \<open>App_Registry\<close> says that an operation only sends, logs or builds
  snapshots; \<open>sim\<close> in \<open>App_Handlers\<close> that it is a path of registry steps which keeps the data
  well-formed. There is no fuel beyond the bounded attempts of the code itself: loops are
  structural, have a measure, or are partial functions shown equal to a bounded iteration
  (\<open>combat_loop_eq\<close>, \<open>phase_loop_eq\<close>).

  SCOPE. Where the content check accepts what the simulation or the record store cannot take (statuses
  that tick every 0 ms, barriers wider than 16000, skill ids with separators of the store), where a
  match may have more than five rounds, or where the code differs from a guide of the repository (wards
  of allies, amounts from 0 to 0), the properties name the case they leave out; the lemmas \<open>snapshot_contents\<close>,
  \<open>sees_tile_team\<close>, \<open>parse_payload_accepts\<close>, \<open>last_round_decides\<close> and \<open>summon_hits_own_place\<close> say what the
  code does there.

  NOT MODELLED. The asynchronous runtime (tasks, sockets, locks, HTTP routes and pages), metrics and
  diagnostics, since they are calls of tokio, axum and webrtc that are not part of the repository;
  the SQL of the combat log; the binaries, probes, fuzz targets and their generators; the Verus
  models; the Godot client.
\<close>

section \<open>From the lobby to the match\<close>

lemma enrol_ok:
  assumes "distinct (map ta_player_id es)" "bt_inv ps"
    "\<forall>e \<in> set es. bt_get ps (ta_player_id e) = None"
  shows "\<exists>ps'. enrol es ps a b = Inr (ps', a + length (filter (\<lambda>e. ta_team e = TeamA) es),
      b + length (filter (\<lambda>e. ta_team e = TeamB) es)) \<and>
    (\<forall>k e. find (\<lambda>e. ta_player_id e = k) es = Some e \<longrightarrow> bt_get ps' k = Some (new_match_player e)) \<and>
    (\<forall>k. find (\<lambda>e. ta_player_id e = k) es = None \<longrightarrow> bt_get ps' k = bt_get ps k)"
  using assms
proof (induction es arbitrary: ps a b)
  case (Cons e es)
  let ?ps = "bt_insert (ta_player_id e) (new_match_player e) ps"
  have fresh: "bt_get ps (ta_player_id e) = None" using Cons.prems(3) by simp
  have "\<forall>e' \<in> set es. bt_get ?ps (ta_player_id e') = None"
    using Cons.prems by (auto simp: bt_get_ops rev_image_eqI)
  moreover have "bt_inv ?ps" using Cons.prems(2) by (rule bt_inv_insert)
  moreover have "find (\<lambda>x. ta_player_id x = ta_player_id e) es = None"
    using Cons.prems(1) by (auto simp: find_None_iff rev_image_eqI)
  ultimately obtain ps' where ps': "enrol es ?ps (if ta_team e = TeamA then a + 1 else a)
      (if ta_team e = TeamB then b + 1 else b) =
    Inr (ps', (if ta_team e = TeamA then a + 1 else a) + length (filter (\<lambda>e. ta_team e = TeamA) es),
      (if ta_team e = TeamB then b + 1 else b) + length (filter (\<lambda>e. ta_team e = TeamB) es))"
    "\<forall>k e. find (\<lambda>e. ta_player_id e = k) es = Some e \<longrightarrow> bt_get ps' k = Some (new_match_player e)"
    "\<forall>k. find (\<lambda>e. ta_player_id e = k) es = None \<longrightarrow> bt_get ps' k = bt_get ?ps k"
    and nd: "find (\<lambda>x. ta_player_id x = ta_player_id e) es = None"
    using Cons.IH [of ?ps "if ta_team e = TeamA then a + 1 else a" "if ta_team e = TeamB then b + 1 else b"]
      Cons.prems(1) by auto
  have "enrol (e # es) ps a b = Inr (ps', a + length (filter (\<lambda>e. ta_team e = TeamA) (e # es)),
      b + length (filter (\<lambda>e. ta_team e = TeamB) (e # es)))"
    using ps'(1) fresh by (cases "ta_team e") (simp_all add: bt_contains_def)
  moreover have "bt_get ?ps k = (if k = ta_player_id e then Some (new_match_player e) else bt_get ps k)" for k
    using Cons.prems(2) by (simp add: bt_get_ops)
  ultimately show ?case using ps'(2,3) nd by (auto split: if_splits)
qed simp

lemma launch_event:
  "lobby_step x l = (Inr evs, l') \<Longrightarrow> MatchLaunchReady roster \<in> set evs \<Longrightarrow>
    \<exists>s. lobby_phase l = LaunchCountdown s roster"
  by (cases x) (auto simp: single_def add_player_def select_team_def set_ready_def
      leave_or_disconnect_player_def advance_countdown_def maybe_start_countdown_def Let_def
      split: sum.splits option.splits lobby_phase.splits if_splits)

lemma launch_event_run:
  assumes "lobby_inv l" "list_all valid_lobby_op xs" "Inr evs \<in> set (fst (run lobby_step xs l))"
    "MatchLaunchReady roster \<in> set evs"
  shows "\<exists>l0. lobby_inv l0 \<and> can_start_countdown l0 \<and> roster = locked_roster l0"
  using assms(1-3)
proof (induction xs arbitrary: l)
  case (Cons x xs)
  let ?l = "snd (lobby_step x l)"
  have "fst (run lobby_step (x # xs) l) = fst (lobby_step x l) # fst (run lobby_step xs ?l)"
    by (simp add: run.simps(2) Let_def case_prod_unfold)
  with Cons.prems(3) consider "fst (lobby_step x l) = Inr evs" | "Inr evs \<in> set (fst (run lobby_step xs ?l))"
    by auto
  then show ?case
  proof cases
    case 1
    then have "lobby_step x l = (Inr evs, ?l)" by (metis prod.collapse)
    from launch_event [OF this assms(4)] Cons.prems(1) show ?thesis by (auto simp: lobby_inv_def)
  next
    case 2
    with Cons.prems show ?thesis by (intro Cons.IH [of ?l]) (simp_all add: lobby_step_inv)
  qed
qed simp

text \<open>
  C25: Every roster a lobby hands over with \<open>MatchLaunchReady\<close> is accepted by
  \<open>match_session_new\<close>: no player is listed twice and no team is empty, so the match starts in
  the pick of round 1 with exactly the players of the roster, none of them picked or defeated.
\<close>

theorem lobby_roster_starts_match:
  assumes "list_all valid_lobby_op xs"
    "Inr evs \<in> set (fst (run lobby_step xs (lobby_new ident seconds)))"
    "MatchLaunchReady roster \<in> set evs"
  shows "\<exists>m. match_session_new mid roster cfg = Inr m \<and> ms_phase m = SkillPick (skill_pick_seconds cfg) \<and>
    round_no m = 1 \<and>
    (\<forall>k. bt_get (ms_players m) k = map_option new_match_player (find (\<lambda>e. ta_player_id e = k) roster))"
proof -
  obtain l0 where l0: "lobby_inv l0" "can_start_countdown l0" "roster = locked_roster l0"
    using launch_event_run [OF lobby_inv_new assms] by blast
  have "distinct (map ta_player_id roster)" using locked_roster_ids(2) [OF l0(1,2)] l0(3) by simp
  then obtain ps where ps: "enrol roster [] 0 0 =
      Inr (ps, length (filter (\<lambda>e. ta_team e = TeamA) roster), length (filter (\<lambda>e. ta_team e = TeamB) roster))"
    "\<forall>k e. find (\<lambda>e. ta_player_id e = k) roster = Some e \<longrightarrow> bt_get ps k = Some (new_match_player e)"
    "\<forall>k. find (\<lambda>e. ta_player_id e = k) roster = None \<longrightarrow> bt_get ps k = None"
    using enrol_ok [of roster "[]" 0 0] by (auto simp: btree.inv_empty)
  have "bt_get ps k = map_option new_match_player (find (\<lambda>e. ta_player_id e = k) roster)" for k
    by (cases "find (\<lambda>e. ta_player_id e = k) roster") (use ps(2,3) in auto)
  moreover have "filter (\<lambda>e. ta_team e = t) roster \<noteq> []" for t
    using locked_roster_teams [OF l0(2), of t] l0(3) by (auto simp: filter_empty_conv)
  ultimately show ?thesis
    using ps(1) by (simp add: match_session_new_def known_round_1 round_no_def)
qed

theorem lobby_roster_starts_match_witness:
  "\<exists>m. match_session_new (MatchId 1) sample_roster (sample_config 5) = Inr m \<and> round_no m = 1"
proof -
  let ?xs = "sample_lobby_ops @ [AdvanceCountdown, AdvanceCountdown, AdvanceCountdown]"
  have "Inr [MatchLaunchReady sample_roster] \<in> set (fst (run lobby_step ?xs (lobby_new (LobbyId 1) 3)))"
    by (simp add: sample_lobby_ops_def lobby_eval sample_roster_def Let_def run.simps advance_countdown_def)
  moreover have "list_all valid_lobby_op ?xs" using valid_sample_ops by simp
  ultimately show ?thesis
    using lobby_roster_starts_match [of ?xs "[MatchLaunchReady sample_roster]" "LobbyId 1" 3 sample_roster
        "MatchId 1" "sample_config 5"] by auto
qed

end
